(* ===== verification/Go_Prelude.thy ===== *)
theory Go_Prelude
  imports Main "HOL-Library.State_Monad" "HOL-Library.AList"
begin

text \<open>
  Shared vocabulary of the development: Go's error values, maps, strings and integers as the
  chainplane sources use them, and the state monad over an abstract world in which the
  effectful code is written.

  \<^item> An \<open>error\<close> is a value of \<open>goerr\<close>; the constructors are the ways the sources build one
    (\<open>errors.New\<close>, \<open>fmt.Errorf\<close> with \<open>%w\<close>, the API machinery's status errors, and the
    typed errors of \<open>internal/health/errors.go\<close>). \<open>nil\<close> is the right injection of a sum.
  \<^item> A \<open>map[string]string\<close> is an association list (\<open>strmap\<close>): reading a missing key gives the
    zero value, as in Go; the list order is the iteration order Go happens to take.
  \<^item> A call with effects is a \<open>('w, 'a) state\<close> action over a world \<open>'w\<close> the model never looks
    into; \<open>wp\<close> is its weakest precondition.
\<close>

named_theorems wp_rules \<open>weakest preconditions of the world's operations\<close>

named_theorems go_simps \<open>executable unfolding of the Go library functions\<close>

subsection \<open>Errors\<close>

text \<open>Status reasons of \<open>k8s.io/apimachinery/pkg/api/errors\<close> the sources distinguish.\<close>

datatype api_reason =
    ReasonNotFound
  | ReasonAlreadyExists
  | ReasonConflict
  | ReasonOther string

datatype goerr =
    GoErr string               \<comment> \<open>\<open>errors.New(msg)\<close> or \<open>fmt.Errorf\<close> without \<open>%w\<close>\<close>
  | Sentinel string            \<comment> \<open>a package-level \<open>var ErrX = errors.New(msg)\<close>\<close>
  | ApiErr api_reason string   \<comment> \<open>\<open>*apierrors.StatusError\<close>\<close>
  | WrapErr string goerr       \<comment> \<open>\<open>fmt.Errorf("prefix: %w", err)\<close>\<close>
  | WrapSuffix goerr string    \<comment> \<open>\<open>fmt.Errorf("%w: suffix", err)\<close>\<close>
  | WrapNote goerr string      \<comment> \<open>\<open>fmt.Errorf("%w note", err)\<close>\<close>
  | WrapBoth goerr goerr       \<comment> \<open>\<open>fmt.Errorf("%w: %w", err1, err2)\<close>\<close>
  | RPCErr int string          \<comment> \<open>\<open>adapters.RPCError\<close>\<close>
  | QueryError string goerr    \<comment> \<open>\<open>health.QueryError\<close>\<close>
  | PhaseError string goerr    \<comment> \<open>\<open>health.PhaseError\<close>\<close>

text \<open>The \<open>Unwrap\<close> chain of an error, outermost first.\<close>

fun err_chain :: "goerr \<Rightarrow> goerr list" where
  "err_chain (WrapErr p e) = WrapErr p e # err_chain e"
| "err_chain (WrapSuffix e s) = WrapSuffix e s # err_chain e"
| "err_chain (WrapNote e s) = WrapNote e s # err_chain e"
| "err_chain (WrapBoth a b) = WrapBoth a b # err_chain a @ err_chain b"
| "err_chain (QueryError q e) = QueryError q e # err_chain e"
| "err_chain (PhaseError p e) = PhaseError p e # err_chain e"
| "err_chain e = [e]"

text \<open>\<open>errors.Is(err, target)\<close> for a sentinel target.\<close>

definition errors_Is :: "goerr \<Rightarrow> goerr \<Rightarrow> bool" where
  "errors_Is e target \<longleftrightarrow> target \<in> set (err_chain e)"

text \<open>
  \<open>apierrors.ReasonForError\<close>: the reason of the first status error in the chain
  (\<open>errors.As\<close>), if there is one.
\<close>

fun api_reason_of :: "goerr \<Rightarrow> api_reason option" where
  "api_reason_of (ApiErr r _) = Some r"
| "api_reason_of (WrapErr _ e) = api_reason_of e"
| "api_reason_of (WrapSuffix e _) = api_reason_of e"
| "api_reason_of (WrapNote e _) = api_reason_of e"
| "api_reason_of (WrapBoth a b) = (case api_reason_of a of Some r \<Rightarrow> Some r | None \<Rightarrow> api_reason_of b)"
| "api_reason_of (QueryError _ e) = api_reason_of e"
| "api_reason_of (PhaseError _ e) = api_reason_of e"
| "api_reason_of _ = None"

definition IsNotFound :: "goerr \<Rightarrow> bool" where
  "IsNotFound e \<longleftrightarrow> api_reason_of e = Some ReasonNotFound"

definition IsAlreadyExists :: "goerr \<Rightarrow> bool" where
  "IsAlreadyExists e \<longleftrightarrow> api_reason_of e = Some ReasonAlreadyExists"

text \<open>\<open>client.IgnoreNotFound\<close>: \<open>nil\<close> (here \<open>Inr ()\<close>) for a not-found error.\<close>

definition IgnoreNotFound :: "goerr \<Rightarrow> goerr + unit" where
  "IgnoreNotFound e = (if IsNotFound e then Inr () else Inl e)"

lemma errors_Is_simps [simp]:
  "errors_Is (WrapErr p e) (Sentinel s) = errors_Is e (Sentinel s)"
  "errors_Is (WrapSuffix e p) (Sentinel s) = errors_Is e (Sentinel s)"
  "errors_Is (WrapNote e p) (Sentinel s) = errors_Is e (Sentinel s)"
  "errors_Is (WrapBoth a b) (Sentinel s) \<longleftrightarrow> errors_Is a (Sentinel s) \<or> errors_Is b (Sentinel s)"
  "errors_Is (RPCErr c m) (Sentinel s) = False"
  "errors_Is (QueryError q e) (Sentinel s) = errors_Is e (Sentinel s)"
  "errors_Is (PhaseError q e) (Sentinel s) = errors_Is e (Sentinel s)"
  "errors_Is (Sentinel t) (Sentinel s) = (t = s)"
  "errors_Is (GoErr m) (Sentinel s) = False"
  "errors_Is (ApiErr r m) (Sentinel s) = False"
  by (auto simp: errors_Is_def)

lemma IsNotFound_simps [simp]:
  "IsNotFound (ApiErr r m) = (r = ReasonNotFound)"
  "IsNotFound (WrapErr p e) = IsNotFound e"
  "IsNotFound (PhaseError p e) = IsNotFound e"
  "IsNotFound (GoErr m) = False"
  "IsNotFound (Sentinel m) = False"
  by (auto simp: IsNotFound_def)

lemma IsAlreadyExists_simps [simp]:
  "IsAlreadyExists (ApiErr r m) = (r = ReasonAlreadyExists)"
  "IsAlreadyExists (WrapErr p e) = IsAlreadyExists e"
  "IsAlreadyExists (GoErr m) = False"
  by (auto simp: IsAlreadyExists_def)

subsection \<open>Maps with zero values\<close>

type_synonym strmap = "(string \<times> string) list"

text \<open>\<open>m[k]\<close> of a \<open>map[string]string\<close>: the empty string when the key is absent.\<close>

definition mget :: "strmap \<Rightarrow> string \<Rightarrow> string" where
  "mget m k = (case map_of m k of None \<Rightarrow> [] | Some v \<Rightarrow> v)"

text \<open>\<open>m[k] = v\<close> and \<open>delete(m, k)\<close>.\<close>

abbreviation mset_key :: "string \<Rightarrow> string \<Rightarrow> strmap \<Rightarrow> strmap" where
  "mset_key \<equiv> AList.update"

abbreviation mdel_key :: "string \<Rightarrow> strmap \<Rightarrow> strmap" where
  "mdel_key \<equiv> AList.delete"

text \<open>\<open>for k, v := range src { dst[k] = v }\<close>.\<close>

definition madd_all :: "strmap \<Rightarrow> strmap \<Rightarrow> strmap" where
  "madd_all src dst = fold (\<lambda>(k, v) m. mset_key k v m) src dst"

lemma map_of_update [simp]: "map_of (mset_key k v m) = (map_of m)(k \<mapsto> v)"
  by (rule update_conv')

lemma map_of_delete [simp]: "map_of (mdel_key k m) = (map_of m)(k := None)"
  by (rule delete_conv')

lemma mget_update [simp]: "mget (mset_key k v m) k' = (if k' = k then v else mget m k')"
  by (simp add: mget_def)

lemma mget_delete [simp]: "mget (mdel_key k m) k' = (if k' = k then [] else mget m k')"
  by (simp add: mget_def)

lemma mget_empty [simp]: "mget [] k = []"
  by (simp add: mget_def)

lemma mget_Cons [simp]: "mget ((k, v) # m) k' = (if k' = k then v else mget m k')"
  by (simp add: mget_def)

lemma madd_all_Nil [simp]: "madd_all [] m = m"
  by (simp add: madd_all_def)

lemma madd_all_Cons [simp]: "madd_all ((k, v) # s) m = madd_all s (mset_key k v m)"
  by (simp add: madd_all_def)

lemma map_of_madd_all:
  "distinct (map fst s) \<Longrightarrow> map_of (madd_all s m) = map_of m ++ map_of s"
proof (induction s arbitrary: m)
  case Nil
  then show ?case by simp
next
  case (Cons kv s)
  obtain k v where kv: "kv = (k, v)" by (cases kv)
  with Cons.prems have "map_of s k = None"
    by (auto simp: map_of_eq_None_iff)
  with Cons kv show ?case
    by (auto simp: fun_eq_iff map_add_def split: option.splits)
qed

subsection \<open>Strings\<close>

text \<open>Functions of the packages \<open>strings\<close> and \<open>strconv\<close>; a string is its list of bytes.\<close>

fun HasPrefix :: "string \<Rightarrow> string \<Rightarrow> bool" where
  "HasPrefix s [] = True"
| "HasPrefix [] (p # ps) = False"
| "HasPrefix (c # s) (p # ps) = (c = p \<and> HasPrefix s ps)"

definition TrimPrefix :: "string \<Rightarrow> string \<Rightarrow> string" where
  "TrimPrefix s p = (if HasPrefix s p then drop (length p) s else s)"

text \<open>\<open>strings.Contains(s, sub)\<close>.\<close>

fun Contains :: "string \<Rightarrow> string \<Rightarrow> bool" where
  "Contains [] sub = (sub = [])"
| "Contains (c # s) sub = (HasPrefix (c # s) sub \<or> Contains s sub)"

definition ToLower_char :: "char \<Rightarrow> char" where
  "ToLower_char c = (if 65 \<le> (of_char c :: nat) \<and> (of_char c :: nat) \<le> 90
                     then char_of (of_char c + 32 :: nat) else c)"

text \<open>\<open>strings.ToLower\<close> on the ASCII range.\<close>

definition ToLower :: "string \<Rightarrow> string" where
  "ToLower s = map ToLower_char s"

text \<open>\<open>strings.TrimRight(s, cutset)\<close> for a one-character cutset.\<close>

definition TrimRight :: "string \<Rightarrow> char \<Rightarrow> string" where
  "TrimRight s c = rev (dropWhile (\<lambda>x. x = c) (rev s))"

text \<open>\<open>strings.Split(s, sep)\<close> for a one-character separator: never the empty list.\<close>

fun Split :: "string \<Rightarrow> char \<Rightarrow> string list" where
  "Split [] sep = [[]]"
| "Split (c # s) sep =
     (if c = sep then [] # Split s sep
      else (case Split s sep of [] \<Rightarrow> [[c]] | w # ws \<Rightarrow> (c # w) # ws))"

text \<open>\<open>strings.Join(parts, sep)\<close>.\<close>

fun Join :: "string list \<Rightarrow> string \<Rightarrow> string" where
  "Join [] sep = []"
| "Join [w] sep = w"
| "Join (w # ws) sep = w @ sep @ Join ws sep"

lemma Split_nonempty [simp]: "Split s sep \<noteq> []"
  by (induction s) (auto split: list.splits)

lemma HasPrefix_append [simp]: "HasPrefix (p @ s) p"
  by (induction p) auto

lemma HasPrefix_iff: "HasPrefix s p \<longleftrightarrow> (\<exists>r. s = p @ r)"
proof (induction s p rule: HasPrefix.induct)
  case (3 c s p ps)
  then show ?case by auto
qed auto

lemma Contains_iff: "Contains s sub \<longleftrightarrow> (\<exists>a b. s = a @ sub @ b)"
proof (induction s)
  case (Cons c s)
  show ?case
  proof
    assume "Contains (c # s) sub"
    then show "\<exists>a b. c # s = a @ sub @ b"
      using Cons.IH by (auto simp: HasPrefix_iff intro: exI[of _ "[]"] exI[of _ "c # _"])
         (metis append_Cons append_Nil)+
  next
    assume "\<exists>a b. c # s = a @ sub @ b"
    then obtain a b where ab: "c # s = a @ sub @ b" by blast
    show "Contains (c # s) sub"
    proof (cases a)
      case Nil
      with ab have "HasPrefix (c # s) sub" by (simp add: HasPrefix_iff)
      then show ?thesis by simp
    next
      case (Cons x a')
      with ab have "s = a' @ sub @ b" by simp
      with \<open>Contains s sub \<longleftrightarrow> _\<close> show ?thesis by auto
    qed
  qed
qed auto

subsection \<open>Numbers as text\<close>

definition digit_char :: "nat \<Rightarrow> char" where
  "digit_char d = char_of (if d < 10 then 48 + d else 87 + d)"

text \<open>The value of a digit in bases up to sixteen, both letter cases.\<close>

definition digit_val :: "char \<Rightarrow> nat option" where
  "digit_val c = (let n = of_char c :: nat in
     if 48 \<le> n \<and> n \<le> 57 then Some (n - 48)
     else if 97 \<le> n \<and> n \<le> 102 then Some (n - 87)
     else if 65 \<le> n \<and> n \<le> 70 then Some (n - 55)
     else None)"

definition is_digit :: "nat \<Rightarrow> char \<Rightarrow> bool" where
  "is_digit b c = (case digit_val c of None \<Rightarrow> False | Some d \<Rightarrow> d < b)"

fun nat_digits :: "nat \<Rightarrow> nat \<Rightarrow> string" where
  "nat_digits b n =
     (if n < b \<or> b < 2 then [digit_char n] else nat_digits b (n div b) @ [digit_char (n mod b)])"

declare nat_digits.simps [simp del]

text \<open>The value of a string of digits, most significant first.\<close>

definition digits_value :: "nat \<Rightarrow> string \<Rightarrow> nat" where
  "digits_value b s = foldl (\<lambda>acc c. acc * b + (case digit_val c of None \<Rightarrow> 0 | Some d \<Rightarrow> d)) 0 s"

lemma digit_chars [go_simps]:
  "digit_char 0 = CHR ''0''" "digit_char (Suc 0) = CHR ''1''" "digit_char 1 = CHR ''1''"
  "digit_char 2 = CHR ''2''" "digit_char 3 = CHR ''3''" "digit_char 4 = CHR ''4''"
  "digit_char 5 = CHR ''5''" "digit_char 6 = CHR ''6''" "digit_char 7 = CHR ''7''"
  "digit_char 8 = CHR ''8''" "digit_char 9 = CHR ''9''"
  by code_simp+

lemma digit_val_char: "d < 16 \<Longrightarrow> digit_val (digit_char d) = Some d"
  by (auto simp: digit_val_def digit_char_def of_char_of Let_def)

lemma digits_value_append:
  "digits_value b (s @ [c]) = digits_value b s * b + (case digit_val c of None \<Rightarrow> 0 | Some d \<Rightarrow> d)"
  by (simp add: digits_value_def)

lemma nat_digits_roundtrip:
  assumes "2 \<le> b" "b \<le> 16"
  shows "digits_value b (nat_digits b n) = n"
proof (induction n rule: less_induct)
  case (less n)
  show ?case
  proof (cases "n < b")
    case True
    with assms show ?thesis
      by (simp add: nat_digits.simps [of b n] digits_value_def digit_val_char)
  next
    case False
    with assms have "n div b < n" by simp
    then have IH: "digits_value b (nat_digits b (n div b)) = n div b" by (rule less.IH)
    have "n mod b < 16" using assms by (meson le_trans mod_less_divisor not_less not_numeral_le_zero order_less_le_trans zero_less_numeral)
    with False assms IH show ?thesis
      by (simp add: nat_digits.simps [of b n] digits_value_append digit_val_char)
  qed
qed

lemma nat_digits_are_digits:
  assumes "2 \<le> b" "b \<le> 16"
  shows "list_all (is_digit b) (nat_digits b n)"
proof (induction n rule: less_induct)
  case (less n)
  show ?case
  proof (cases "n < b")
    case True
    with assms show ?thesis
      by (simp add: nat_digits.simps [of b n] is_digit_def digit_val_char)
  next
    case False
    have m: "n mod b < b" using assms by simp
    with assms have "n mod b < 16" by linarith
    with m False assms less.IH [of "n div b"] show ?thesis
      by (simp add: nat_digits.simps [of b n] is_digit_def digit_val_char)
  qed
qed

lemma nat_digits_nonempty [simp]: "nat_digits b n \<noteq> []"
  by (subst nat_digits.simps) simp

text \<open>\<open>strconv.Itoa\<close>, \<open>strconv.FormatInt(n, 10)\<close> and the verb \<open>%d\<close>.\<close>

definition Itoa :: "int \<Rightarrow> string" where
  "Itoa n = (if n < 0 then CHR ''-'' # nat_digits 10 (nat (- n)) else nat_digits 10 (nat n))"

text \<open>
  The \<open>Error()\<close> text. \<open>QueryError\<close> quotes its query with \<open>%q\<close>; the text of an error is
  logged, stored in a message, or searched for a phrase.
\<close>

fun err_text :: "goerr \<Rightarrow> string" where
  "err_text (GoErr m) = m"
| "err_text (Sentinel m) = m"
| "err_text (ApiErr _ m) = m"
| "err_text (WrapErr p e) = p @ '': '' @ err_text e"
| "err_text (WrapSuffix e s) = err_text e @ '': '' @ s"
| "err_text (WrapNote e s) = err_text e @ s"
| "err_text (QueryError q e) = ''prometheus query '' @ [CHR 0x22] @ q @ [CHR 0x22] @ '': '' @ err_text e"
| "err_text (WrapBoth a b) = err_text a @ '': '' @ err_text b"
| "err_text (RPCErr c m) = ''rpc error '' @ Itoa c @ '': '' @ m"
| "err_text (PhaseError p e) = ''replacement phase '' @ p @ '': '' @ err_text e"

text \<open>\<open>strconv.ParseUint(s, 10, 64)\<close>: digits only, at most \<open>2^64 - 1\<close>.\<close>

definition ParseUint64 :: "string \<Rightarrow> nat option" where
  "ParseUint64 s =
     (if s \<noteq> [] \<and> list_all (is_digit 10) s \<and> digits_value 10 s < 2 ^ 64
      then Some (digits_value 10 s) else None)"

definition in_int64 :: "int \<Rightarrow> bool" where
  "in_int64 n \<longleftrightarrow> - (2 ^ 63) \<le> n \<and> n < 2 ^ 63"

text \<open>\<open>strconv.ParseInt(s, b, 64)\<close>: an optional sign, digits, and the 64-bit range.\<close>

definition ParseInt64 :: "nat \<Rightarrow> string \<Rightarrow> int option" where
  "ParseInt64 b s =
     (let (neg, ds) = (case s of [] \<Rightarrow> (False, [])
                       | c # r \<Rightarrow> if c = CHR ''-'' then (True, r)
                                  else if c = CHR ''+'' then (False, r) else (False, c # r));
          v = int (digits_value b ds);
          n = (if neg then - v else v)
      in if ds \<noteq> [] \<and> list_all (is_digit b) ds \<and> in_int64 n then Some n else None)"

text \<open>Two's complement wrap-around of a 64-bit signed result.\<close>

definition wrap64 :: "int \<Rightarrow> int" where
  "wrap64 n = (n + 2 ^ 63) mod 2 ^ 64 - 2 ^ 63"

text \<open>Conversion \<open>int32(n)\<close>.\<close>

definition wrap32 :: "int \<Rightarrow> int" where
  "wrap32 n = (n + 2 ^ 31) mod 2 ^ 32 - 2 ^ 31"

lemma wrap64_in_range: "in_int64 (wrap64 n)"
proof -
  have "0 \<le> (n + 2 ^ 63) mod 2 ^ 64" "(n + 2 ^ 63) mod 2 ^ 64 < (2::int) ^ 64"
    by simp_all
  then show ?thesis by (simp add: in_int64_def wrap64_def)
qed

lemma wrap64_id [simp]: "in_int64 n \<Longrightarrow> wrap64 n = n"
  by (simp add: in_int64_def wrap64_def mod_pos_pos_trivial)

lemma digit_not_sign: "is_digit 10 c \<Longrightarrow> c \<noteq> CHR ''-'' \<and> c \<noteq> CHR ''+''"
  by (auto simp: is_digit_def digit_val_def)

lemma ParseUint64_digits: "n < 2 ^ 64 \<Longrightarrow> ParseUint64 (nat_digits 10 n) = Some n"
  by (simp add: ParseUint64_def nat_digits_roundtrip nat_digits_are_digits)

theorem ParseInt64_Itoa: "in_int64 n \<Longrightarrow> ParseInt64 10 (Itoa n) = Some n"
proof (cases "n < 0")
  case True
  assume "in_int64 n"
  with True show ?thesis
    by (simp add: Itoa_def ParseInt64_def nat_digits_roundtrip nat_digits_are_digits)
next
  case False
  assume "in_int64 n"
  obtain c r where cr: "nat_digits 10 (nat n) = c # r"
    using nat_digits_nonempty by (metis neq_Nil_conv)
  with nat_digits_are_digits [of 10 "nat n"] have "c \<noteq> CHR ''-'' \<and> c \<noteq> CHR ''+''"
    by (auto dest: digit_not_sign)
  with False \<open>in_int64 n\<close> cr nat_digits_are_digits [of 10 "nat n"] nat_digits_roundtrip [of 10 "nat n"]
  show ?thesis
    by (simp add: Itoa_def ParseInt64_def)
qed

theorem Itoa_inject: "Itoa m = Itoa n \<longleftrightarrow> m = n"
proof
  have minus: "CHR ''-'' # s \<noteq> nat_digits 10 k" for s k
  proof
    assume "CHR ''-'' # s = nat_digits 10 k"
    moreover have "list_all (is_digit 10) (nat_digits 10 k)"
      by (rule nat_digits_are_digits) simp_all
    ultimately have "is_digit 10 (CHR ''-'')"
      by (metis list.pred_inject(2))
    then show False by (simp add: is_digit_def digit_val_def)
  qed
  assume eq: "Itoa m = Itoa n"
  have nat_eq: "a = c" if "nat_digits 10 a = nat_digits 10 c" for a c
  proof -
    have "digits_value 10 (nat_digits 10 a) = digits_value 10 (nat_digits 10 c)"
      using that by (rule arg_cong)
    then show ?thesis by (simp add: nat_digits_roundtrip)
  qed
  show "m = n"
  proof (cases "m < 0"; cases "n < 0")
    assume "m < 0" "n < 0"
    with eq have "nat (- m) = nat (- n)" by (intro nat_eq) (simp add: Itoa_def)
    with \<open>m < 0\<close> \<open>n < 0\<close> show ?thesis by simp
  next
    assume "m < 0" "\<not> n < 0"
    with eq show ?thesis by (simp add: Itoa_def minus)
  next
    assume "\<not> m < 0" "n < 0"
    with eq [symmetric] show ?thesis by (simp add: Itoa_def minus)
  next
    assume "\<not> m < 0" "\<not> n < 0"
    with eq have "nat m = nat n" by (intro nat_eq) (simp add: Itoa_def)
    with \<open>\<not> m < 0\<close> \<open>\<not> n < 0\<close> show ?thesis by simp
  qed
qed simp

subsection \<open>The state monad over an abstract world\<close>

abbreviation ret :: "'a \<Rightarrow> ('w, 'a) state" where
  "ret \<equiv> State_Monad.return"

text \<open>\<open>wp m Q w\<close>: running \<open>m\<close> in the world \<open>w\<close> ends with a value and a world in \<open>Q\<close>.\<close>

definition wp :: "('w, 'a) state \<Rightarrow> ('a \<Rightarrow> 'w \<Rightarrow> bool) \<Rightarrow> 'w \<Rightarrow> bool" where
  "wp m Q w = (case run_state m w of (a, w') \<Rightarrow> Q a w')"

lemma wp_ret [simp]: "wp (ret a) Q w = Q a w"
  by (simp add: wp_def)

lemma wp_bind [simp]: "wp (State_Monad.bind m f) Q w = wp m (\<lambda>a. wp (f a) Q) w"
  by (auto simp: wp_def split: prod.splits)

text \<open>The same rules with the world left out, for the continuations they produce.\<close>

lemma wp_ret_fun [simp]: "wp (ret a) Q = Q a"
  by (simp add: fun_eq_iff)

lemma wp_bind_fun [simp]: "wp (State_Monad.bind m f) Q = wp m (\<lambda>a. wp (f a) Q)"
  by (simp add: fun_eq_iff)

lemma wp_let [simp]: "wp (let x = a in f x) Q w = (let x = a in wp (f x) Q w)"
  by (simp add: Let_def)

lemma wp_if [simp]: "wp (if b then m else n) Q w = (if b then wp m Q w else wp n Q w)"
  by simp

lemma wp_case_sum [simp]:
  "wp (case r of Inl e \<Rightarrow> f e | Inr v \<Rightarrow> g v) Q w =
     (case r of Inl e \<Rightarrow> wp (f e) Q w | Inr v \<Rightarrow> wp (g v) Q w)"
  by (cases r) auto

lemma wp_case_option [simp]:
  "wp (case r of None \<Rightarrow> m | Some v \<Rightarrow> g v) Q w =
     (case r of None \<Rightarrow> wp m Q w | Some v \<Rightarrow> wp (g v) Q w)"
  by (cases r) auto

lemma wp_case_prod [simp]:
  "wp (case r of (a, b) \<Rightarrow> f a b) Q w = (case r of (a, b) \<Rightarrow> wp (f a b) Q w)"
  by (cases r) auto

lemma wp_mono: "wp m P w \<Longrightarrow> (\<And>a w'. P a w' \<Longrightarrow> Q a w') \<Longrightarrow> wp m Q w"
  by (auto simp: wp_def split: prod.splits)

lemma wp_conj: "wp m (\<lambda>a w'. P a w' \<and> Q a w') w = (wp m P w \<and> wp m Q w)"
  by (auto simp: wp_def split: prod.splits)

lemma wpI: "(\<And>a w'. run_state m w = (a, w') \<Longrightarrow> Q a w') \<Longrightarrow> wp m Q w"
  by (auto simp: wp_def split: prod.splits)

lemma wpD: "wp m Q w \<Longrightarrow> run_state m w = (a, w') \<Longrightarrow> Q a w'"
  by (simp add: wp_def)

lemma wp_iff: "wp m Q w \<longleftrightarrow> (\<forall>a w'. run_state m w = (a, w') \<longrightarrow> Q a w')"
  by (auto simp: wp_def split: prod.splits)

text \<open>\<open>unchanged V m\<close>: running \<open>m\<close> leaves the part \<open>V\<close> of the world as it was.\<close>

definition unchanged :: "('w \<Rightarrow> 'v) \<Rightarrow> ('w, 'a) state \<Rightarrow> bool" where
  "unchanged V m \<longleftrightarrow> (\<forall>w. wp m (\<lambda>_ w'. V w' = V w) w)"

lemma unchangedI: "(\<And>w. wp m (\<lambda>_ w'. V w' = V w) w) \<Longrightarrow> unchanged V m"
  by (simp add: unchanged_def)

lemma unchangedD: "unchanged V m \<Longrightarrow> (\<And>a w'. V w' = V w \<Longrightarrow> Q a w') \<Longrightarrow> wp m Q w"
  unfolding unchanged_def by (blast intro: wp_mono)

lemma unchanged_ret: "unchanged V (ret a)"
  by (simp add: unchanged_def)

lemma unchanged_bind: "unchanged V m \<Longrightarrow> (\<And>a. unchanged V (f a)) \<Longrightarrow> unchanged V (State_Monad.bind m f)"
  by (rule unchangedI) (auto intro!: unchangedD [where m = m] unchangedD [where m = "f a" for a])

lemma unchanged_if: "unchanged V m \<Longrightarrow> unchanged V n \<Longrightarrow> unchanged V (if b then m else n)"
  by simp

lemma unchanged_case_sum:
  "(\<And>e. unchanged V (f e)) \<Longrightarrow> (\<And>v. unchanged V (g v)) \<Longrightarrow> unchanged V (case r of Inl e \<Rightarrow> f e | Inr v \<Rightarrow> g v)"
  by (cases r) auto

lemma unchanged_case_option:
  "unchanged V m \<Longrightarrow> (\<And>v. unchanged V (g v)) \<Longrightarrow> unchanged V (case r of None \<Rightarrow> m | Some v \<Rightarrow> g v)"
  by (cases r) auto

lemma unchanged_case_prod: "(\<And>a b. unchanged V (f a b)) \<Longrightarrow> unchanged V (case r of (a, b) \<Rightarrow> f a b)"
  by (cases r) auto

lemmas unchanged_rules = unchanged_ret unchanged_bind unchanged_if unchanged_case_sum unchanged_case_option unchanged_case_prod

end
