(* ===== verification/Go_Float.thy ===== *)
theory Go_Float
  imports Go_Prelude Complex_Main
begin

text \<open>
  Go's \<open>float64\<close> as the sources use it: finite values are exact rationals (rounding of the
  53-bit significand is not modelled), and the IEEE special values keep their behaviour,
  because Prometheus ratios such as \<open>0/0\<close> do reach the trigger comparisons as NaN.
  Comparisons follow IEEE: every ordered comparison with NaN is false.
\<close>

datatype f64 = Fin rat | PosInf | NegInf | NaN

subsection \<open>Comparisons and arithmetic\<close>

fun f_lt :: "f64 \<Rightarrow> f64 \<Rightarrow> bool" where
  "f_lt (Fin a) (Fin b) = (a < b)"
| "f_lt NaN _ = False"
| "f_lt _ NaN = False"
| "f_lt NegInf NegInf = False"
| "f_lt NegInf _ = True"
| "f_lt _ NegInf = False"
| "f_lt PosInf _ = False"
| "f_lt _ PosInf = True"

fun f_eq :: "f64 \<Rightarrow> f64 \<Rightarrow> bool" where
  "f_eq NaN _ = False"
| "f_eq _ NaN = False"
| "f_eq a b = (a = b)"

definition f_gt :: "f64 \<Rightarrow> f64 \<Rightarrow> bool" where "f_gt a b = f_lt b a"

definition f_le :: "f64 \<Rightarrow> f64 \<Rightarrow> bool" where "f_le a b \<longleftrightarrow> f_lt a b \<or> f_eq a b"

definition f_ge :: "f64 \<Rightarrow> f64 \<Rightarrow> bool" where "f_ge a b = f_le b a"

fun f_neg :: "f64 \<Rightarrow> f64" where
  "f_neg (Fin a) = Fin (- a)"
| "f_neg PosInf = NegInf"
| "f_neg NegInf = PosInf"
| "f_neg NaN = NaN"

fun f_add :: "f64 \<Rightarrow> f64 \<Rightarrow> f64" where
  "f_add (Fin a) (Fin b) = Fin (a + b)"
| "f_add NaN _ = NaN"
| "f_add _ NaN = NaN"
| "f_add PosInf NegInf = NaN"
| "f_add NegInf PosInf = NaN"
| "f_add PosInf _ = PosInf"
| "f_add _ PosInf = PosInf"
| "f_add NegInf _ = NegInf"
| "f_add _ NegInf = NegInf"

definition f_sub :: "f64 \<Rightarrow> f64 \<Rightarrow> f64" where "f_sub a b = f_add a (f_neg b)"

definition f_inf :: "rat \<Rightarrow> f64" where
  "f_inf s = (if 0 < s then PosInf else if s < 0 then NegInf else NaN)"

fun f_mul :: "f64 \<Rightarrow> f64 \<Rightarrow> f64" where
  "f_mul (Fin a) (Fin b) = Fin (a * b)"
| "f_mul NaN _ = NaN"
| "f_mul _ NaN = NaN"
| "f_mul (Fin a) PosInf = f_inf a"
| "f_mul (Fin a) NegInf = f_inf (- a)"
| "f_mul PosInf (Fin a) = f_inf a"
| "f_mul NegInf (Fin a) = f_inf (- a)"
| "f_mul PosInf PosInf = PosInf"
| "f_mul NegInf NegInf = PosInf"
| "f_mul PosInf NegInf = NegInf"
| "f_mul NegInf PosInf = NegInf"

fun f_div :: "f64 \<Rightarrow> f64 \<Rightarrow> f64" where
  "f_div (Fin a) (Fin b) = (if b = 0 then f_inf a else Fin (a / b))"
| "f_div NaN _ = NaN"
| "f_div _ NaN = NaN"
| "f_div (Fin a) _ = Fin 0"
| "f_div PosInf (Fin b) = (if b < 0 then NegInf else PosInf)"
| "f_div NegInf (Fin b) = (if b < 0 then PosInf else NegInf)"
| "f_div _ _ = NaN"

definition f_of_int :: "int \<Rightarrow> f64" where "f_of_int n = Fin (rat_of_int n)"

text \<open>
  The conversion of a \<open>float64\<close> to a 64-bit integer truncates towards zero; for NaN and
  values outside the range the Go specification leaves the result to the implementation,
  so it is the argument \<open>oor\<close>.
\<close>

definition trunc_rat :: "rat \<Rightarrow> int" where
  "trunc_rat q = (if q < 0 then - \<lfloor>- q\<rfloor> else \<lfloor>q\<rfloor>)"

definition f_to_int64 :: "int \<Rightarrow> f64 \<Rightarrow> int" where
  "f_to_int64 oor x = (case x of
     Fin q \<Rightarrow> if in_int64 (trunc_rat q) then trunc_rat q else oor
   | _ \<Rightarrow> oor)"

lemma f_cmp_simps [simp]:
  "f_gt a b = f_lt b a"
  "f_ge a b = f_le b a"
  "f_le (Fin p) (Fin q) = (p \<le> q)"
  "f_le NaN b = False"
  "f_le a NaN = False"
  by (cases a; auto simp: f_gt_def f_ge_def f_le_def)+

lemma f_lt_irrefl [simp]: "\<not> f_lt a a"
  by (cases a) auto

lemma f_lt_trans: "f_lt a b \<Longrightarrow> f_lt b c \<Longrightarrow> f_lt a c"
  by (cases a; cases b; cases c) auto

lemma f_lt_NaN [simp]: "\<not> f_lt a NaN" "\<not> f_lt NaN a"
  by (cases a; auto)+

lemma f_lt_asym: "f_lt a b \<Longrightarrow> \<not> f_lt b a"
  using f_lt_trans f_lt_irrefl by blast

subsection \<open>Fixed-point text\<close>

text \<open>Round half to even, as \<open>strconv.FormatFloat(v, 'f', k, 64)\<close> does on the exact value.\<close>

definition round_half_even :: "rat \<Rightarrow> int" where
  "round_half_even q =
     (let n = \<lfloor>q\<rfloor>; r = q - rat_of_int n in
      if r < 1 / 2 then n
      else if 1 / 2 < r then n + 1
      else if even n then n else n + 1)"

definition pad_left :: "nat \<Rightarrow> string \<Rightarrow> string" where
  "pad_left k s = replicate (k - length s) (CHR ''0'') @ s"

text \<open>\<open>FormatFloat(v, 'f', k, 64)\<close> and the verbs \<open>%.kf\<close>.\<close>

definition fixed_digits :: "nat \<Rightarrow> nat \<Rightarrow> string" where
  "fixed_digits k m =
     nat_digits 10 (m div 10 ^ k) @
     (if k = 0 then [] else CHR ''.'' # pad_left k (nat_digits 10 (m mod 10 ^ k)))"

definition FormatFixed :: "nat \<Rightarrow> f64 \<Rightarrow> string" where
  "FormatFixed k x = (case x of
     NaN \<Rightarrow> ''NaN''
   | PosInf \<Rightarrow> ''+Inf''
   | NegInf \<Rightarrow> ''-Inf''
   | Fin q \<Rightarrow>
       (if q < 0 then ''-'' else []) @ fixed_digits k (nat (round_half_even (\<bar>q\<bar> * 10 ^ k))))"

text \<open>
  \<open>strconv.ParseFloat(s, 64)\<close> for decimal literals and the special names. Hexadecimal
  literals, digit separators and values beyond the largest finite \<open>float64\<close> are rejected
  or kept exact here; no text the sources parse has them.
\<close>

definition parse_unsigned_dec :: "string \<Rightarrow> rat option" where
  "parse_unsigned_dec s =
     (let ip = takeWhile (is_digit 10) s; r = dropWhile (is_digit 10) s;
          (fp, r2) = (case r of [] \<Rightarrow> ([], [])
                      | c # r1 \<Rightarrow> if c = CHR ''.'' then (takeWhile (is_digit 10) r1, dropWhile (is_digit 10) r1)
                                  else ([], r));
          m = rat_of_nat (digits_value 10 (ip @ fp)) / 10 ^ length fp
      in if ip @ fp = [] then None
         else (case r2 of [] \<Rightarrow> Some m
               | e # r3 \<Rightarrow>
                   if ToLower_char e = CHR ''e'' then
                     (case ParseInt64 10 r3 of None \<Rightarrow> None
                      | Some x \<Rightarrow> Some (if x < 0 then m / 10 ^ nat (- x) else m * 10 ^ nat x))
                   else None))"

definition ParseFloat :: "string \<Rightarrow> f64 option" where
  "ParseFloat s =
     (let (neg, r) = (case s of [] \<Rightarrow> (False, [])
                      | c # r \<Rightarrow> if c = CHR ''-'' then (True, r)
                                 else if c = CHR ''+'' then (False, r) else (False, c # r));
          l = ToLower r
      in if l = ''inf'' \<or> l = ''infinity'' then Some (if neg then NegInf else PosInf)
         else if ToLower s = ''nan'' then Some NaN
         else map_option (\<lambda>m. Fin (if neg then - m else m)) (parse_unsigned_dec r))"

lemma round_half_even_bounds:
  "\<bar>rat_of_int (round_half_even q) - q\<bar> \<le> 1 / 2"
proof -
  define n where "n = \<lfloor>q\<rfloor>"
  have "rat_of_int n \<le> q" "q < rat_of_int n + 1"
    unfolding n_def using floor_correct [of q] by simp_all
  then show ?thesis
    unfolding round_half_even_def Let_def n_def [symmetric] by (auto simp: abs_le_iff)
qed

lemma round_half_even_of_int [simp]: "round_half_even (rat_of_int n) = n"
  by (simp add: round_half_even_def)

lemma length_pad_left: "length s \<le> k \<Longrightarrow> length (pad_left k s) = k"
  by (simp add: pad_left_def)

lemma length_nat_digits: "n < 10 ^ Suc k \<Longrightarrow> length (nat_digits 10 n) \<le> Suc k"
proof (induction k arbitrary: n)
  case 0
  then show ?case by (simp add: nat_digits.simps [of 10 n])
next
  case (Suc k)
  show ?case
  proof (cases "n < 10")
    case True
    then show ?thesis by (simp add: nat_digits.simps [of 10 n])
  next
    case False
    from Suc.prems have "n div 10 < 10 ^ Suc k"
      by (simp add: div_less_iff_less_mult mult.commute)
    with Suc.IH False show ?thesis by (simp add: nat_digits.simps [of 10 n])
  qed
qed

lemma digits_value_append_list:
  "digits_value b (s @ t) = digits_value b s * b ^ length t + digits_value b t"
proof (induction t rule: rev_induct)
  case Nil
  then show ?case by (simp add: digits_value_def)
next
  case (snoc c t)
  have "digits_value b (s @ t @ [c]) = digits_value b ((s @ t) @ [c])" by simp
  then show ?case
    by (simp only: digits_value_append snoc.IH) (simp add: algebra_simps)
qed

lemma digits_value_zeros [simp]: "digits_value b (replicate n (CHR ''0'')) = 0"
  by (induction n) (auto simp: digits_value_def digit_val_def)

lemma digits_value_pad [simp]: "digits_value b (pad_left k s) = digits_value b s"
  by (simp add: pad_left_def digits_value_append_list)

lemma pad_left_digits:
  "list_all (is_digit 10) s \<Longrightarrow> list_all (is_digit 10) (pad_left k s)"
  by (auto simp: pad_left_def list_all_iff is_digit_def digit_val_def)

lemma takeWhile_digits:
  "list_all P s \<Longrightarrow> \<not> P c \<Longrightarrow> takeWhile P (s @ c # r) = s \<and> dropWhile P (s @ c # r) = c # r"
  by (induction s) auto

lemma all_digits_takeWhile:
  "list_all P s \<Longrightarrow> takeWhile P s = s \<and> dropWhile P s = []"
  by (induction s) auto

lemma parse_fixed_digits:
  assumes "0 < k"
  shows "parse_unsigned_dec (fixed_digits k m) = Some (rat_of_nat m / 10 ^ k)"
proof -
  let ?i = "nat_digits 10 (m div 10 ^ k)"
  let ?f = "pad_left k (nat_digits 10 (m mod 10 ^ k))"
  have i: "list_all (is_digit 10) ?i" by (rule nat_digits_are_digits) simp_all
  have f: "list_all (is_digit 10) ?f"
    by (rule pad_left_digits) (rule nat_digits_are_digits, simp_all)
  have dot: "\<not> is_digit 10 (CHR ''.'')" by (simp add: is_digit_def digit_val_def)
  obtain j where j: "k = Suc j" using assms by (metis gr0_implies_Suc)
  have "m mod 10 ^ Suc j < 10 ^ Suc j" by (rule mod_less_divisor) simp
  then have "length (nat_digits 10 (m mod 10 ^ k)) \<le> k"
    unfolding j by (rule length_nat_digits)
  then have len: "length ?f = k" by (rule length_pad_left)
  have "digits_value 10 (?i @ ?f) = m div 10 ^ k * 10 ^ k + m mod 10 ^ k"
    by (simp only: digits_value_append_list len digits_value_pad) (simp add: nat_digits_roundtrip)
  then have val: "digits_value 10 (?i @ ?f) = m" by (simp only: div_mult_mod_eq)
  have "fixed_digits k m = ?i @ CHR ''.'' # ?f" using assms by (simp add: fixed_digits_def)
  note tw = takeWhile_digits [OF i dot, of ?f, THEN conjunct1]
    takeWhile_digits [OF i dot, of ?f, THEN conjunct2]
    all_digits_takeWhile [OF f, THEN conjunct1] all_digits_takeWhile [OF f, THEN conjunct2]
  show ?thesis
    unfolding \<open>fixed_digits k m = _\<close> parse_unsigned_dec_def Let_def tw
    by (simp add: val len tw)
qed

lemma fixed_digits_first: "\<exists>c r. fixed_digits k m = c # r \<and> is_digit 10 c"
proof -
  let ?i = "nat_digits 10 (m div 10 ^ k)"
  obtain c r where cr: "?i = c # r" using nat_digits_nonempty by (metis neq_Nil_conv)
  have "list_all (is_digit 10) ?i" by (rule nat_digits_are_digits) simp_all
  with cr show ?thesis by (auto simp: fixed_digits_def)
qed

lemma digit_not_letter:
  "is_digit 10 c \<Longrightarrow> ToLower_char c \<noteq> CHR ''i'' \<and> ToLower_char c \<noteq> CHR ''n''"
  by (auto simp: is_digit_def digit_val_def ToLower_char_def Let_def split: if_splits)

text \<open>A value written with \<open>k\<close> decimals reads back as its rounding to \<open>k\<close> decimals.\<close>

theorem ParseFloat_FormatFixed:
  assumes "0 \<le> q" "0 < k"
  shows "ParseFloat (FormatFixed k (Fin q)) =
           Some (Fin (rat_of_int (round_half_even (q * 10 ^ k)) / 10 ^ k))"
proof -
  let ?m = "nat (round_half_even (q * 10 ^ k))"
  have "0 \<le> round_half_even (q * 10 ^ k)"
    using assms by (simp add: round_half_even_def Let_def)
  then have m: "rat_of_nat ?m = rat_of_int (round_half_even (q * 10 ^ k))" by simp
  have fmt: "FormatFixed (k) (Fin q) = fixed_digits (k) ?m"
    using assms by (simp add: FormatFixed_def)
  obtain c r where cr: "fixed_digits (k) ?m = c # r" "is_digit 10 c"
    using fixed_digits_first by blast
  with digit_not_sign digit_not_letter have "c \<noteq> CHR ''-''" "c \<noteq> CHR ''+''"
    "ToLower_char c \<noteq> CHR ''i''" "ToLower_char c \<noteq> CHR ''n''" by blast+
  with parse_fixed_digits [OF assms(2), of ?m] show ?thesis
    unfolding fmt cr(1) by (simp add: ParseFloat_def ToLower_def m)
qed

end
