(* ===== verification/Go_Time.thy ===== *)
theory Go_Time
  imports Go_Float
begin

text \<open>
  The part of Go's package \<open>time\<close> the sources use. An instant is the number of nanoseconds
  since the Unix epoch, a \<open>Duration\<close> a 64-bit number of nanoseconds. RFC 3339 text is what
  the controllers store in annotations, so its calendar arithmetic is modelled and shown to
  read back the instant, truncated to the second, in every zone.
\<close>

type_synonym time = int
type_synonym duration = int

abbreviation Second :: duration where "Second \<equiv> 1000000000"
abbreviation Minute :: duration where "Minute \<equiv> 60000000000"
abbreviation Hour :: duration where "Hour \<equiv> 3600000000000"

definition maxDuration :: duration where "maxDuration = 2 ^ 63 - 1"
definition minDuration :: duration where "minDuration = - (2 ^ 63)"

text \<open>\<open>t.Sub(u)\<close>, \<open>time.Since(u)\<close> at instant \<open>t\<close>: saturates at the limits of \<open>Duration\<close>.\<close>

definition time_Sub :: "time \<Rightarrow> time \<Rightarrow> duration" where
  "time_Sub t u = max minDuration (min maxDuration (t - u))"

text \<open>\<open>d.Seconds()\<close>.\<close>

definition dur_Seconds :: "duration \<Rightarrow> f64" where
  "dur_Seconds d = Fin (rat_of_int d / 1000000000)"

text \<open>\<open>d.Round(m)\<close> for \<open>m > 0\<close>: to the nearest multiple, halfway values away from zero.\<close>

definition dur_Round :: "duration \<Rightarrow> duration \<Rightarrow> duration" where
  "dur_Round d m =
     (if d < 0 then
        (let r = (- d) mod m in
         if r + r < m then d + r
         else if minDuration \<le> d - m + r then d - m + r else minDuration)
      else
        (let r = d mod m in
         if r + r < m then d - r
         else if d + m - r \<le> maxDuration then d + m - r else maxDuration))"

text \<open>\<open>d.String()\<close>.\<close>

definition frac_digits :: "nat \<Rightarrow> nat \<Rightarrow> string" where
  "frac_digits k m =
     (let s = TrimRight (pad_left k (nat_digits 10 m)) (CHR ''0'')
      in if m = 0 then [] else CHR ''.'' # s)"

definition dur_String :: "duration \<Rightarrow> string" where
  "dur_String d =
     (let u = nat \<bar>d\<bar>; sign = (if d < 0 then ''-'' else []);
          us = [char_of (194::nat), char_of (181::nat), CHR ''s''];
          body =
            (if u = 0 then ''0s''
             else if u < 1000 then nat_digits 10 u @ ''ns''
             else if u < 1000000 then nat_digits 10 (u div 1000) @ frac_digits 3 (u mod 1000) @ us
             else if u < 1000000000 then
               nat_digits 10 (u div 1000000) @ frac_digits 6 (u mod 1000000) @ ''ms''
             else
               (let s = u div 1000000000; f = u mod 1000000000;
                    secs = nat_digits 10 (s mod 60) @ frac_digits 9 f @ ''s'';
                    mins = s div 60
                in if mins = 0 then secs
                   else if mins div 60 = 0 then nat_digits 10 (mins mod 60) @ ''m'' @ secs
                   else nat_digits 10 (mins div 60) @ ''h'' @ nat_digits 10 (mins mod 60) @ ''m'' @ secs))
      in sign @ body)"

lemma time_Sub_in_range: "in_int64 (time_Sub t u)"
  by (simp add: time_Sub_def in_int64_def maxDuration_def minDuration_def min_def max_def)

lemma time_Sub_exact:
  "in_int64 (t - u) \<Longrightarrow> time_Sub t u = t - u"
  by (simp add: time_Sub_def in_int64_def maxDuration_def minDuration_def min_def max_def)

lemma time_Sub_mono: "t \<le> t' \<Longrightarrow> time_Sub t u \<le> time_Sub t' u"
  by (simp add: time_Sub_def max_def min_def)

lemma dur_Round_multiple:
  assumes "0 < m" "in_int64 d" "in_int64 (d + m)" "in_int64 (d - m)"
  shows "dur_Round d m mod m = 0"
proof (cases "d < 0")
  case True
  let ?r = "(- d) mod m"
  have r: "(d + ?r) mod m = 0" by (simp add: mod_add_right_eq)
  have "(d - m + ?r) mod m = (d + ?r - m) mod m" by (simp add: algebra_simps)
  with r have "(d - m + ?r) mod m = 0" by simp
  moreover have "0 \<le> ?r" using assms(1) by simp
  then have "minDuration \<le> d - m + ?r" using assms(4) by (simp add: minDuration_def in_int64_def)
  ultimately show ?thesis using True r by (simp add: dur_Round_def Let_def)
next
  case False
  let ?r = "d mod m"
  have r: "(d - ?r) mod m = 0" by (simp add: mod_diff_right_eq)
  have "(d + m - ?r) mod m = (d - ?r + m) mod m" by (simp add: algebra_simps)
  with r have "(d + m - ?r) mod m = 0" by simp
  moreover have "0 \<le> ?r" using assms(1) by simp
  then have "d + m - ?r \<le> maxDuration" using assms(3) by (simp add: maxDuration_def in_int64_def)
  ultimately show ?thesis using False r by (simp add: dur_Round_def Let_def)
qed

subsection \<open>The proleptic Gregorian calendar\<close>

definition is_leap :: "nat \<Rightarrow> bool" where
  "is_leap y \<longleftrightarrow> y mod 4 = 0 \<and> (y mod 100 \<noteq> 0 \<or> y mod 400 = 0)"

text \<open>Days from 0000-01-01 to the first day of a year.\<close>

definition days_before_year :: "nat \<Rightarrow> nat" where
  "days_before_year y = 365 * y + (y + 3) div 4 + (y + 399) div 400 - (y + 99) div 100"

lemma ceil_div_Suc:
  fixes y k :: nat
  assumes "0 < k"
  shows "(y + k) div k = (y + (k - 1)) div k + (if y mod k = 0 then 1 else 0)"
proof -
  define q r where "q = y div k" and "r = y mod k"
  have y: "y = k * q + r" "r < k" using assms by (simp_all add: q_def r_def)
  have "(y + k) div k = q + 1" using assms y by simp
  moreover have "(y + (k - 1)) div k = q + (r + (k - 1)) div k"
  proof -
    have "y + (k - 1) = (r + (k - 1)) + k * q" using y by simp
    with assms show ?thesis by (simp only: div_mult_self2)
  qed
  moreover have "(r + (k - 1)) div k = (if r = 0 then 0 else 1)"
  proof (cases "r = 0")
    case False
    then have "r + (k - 1) = (r - 1) + 1 * k" using assms by simp
    then have "(r + (k - 1)) div k = 1 + (r - 1) div k"
      using assms by (simp only: div_mult_self1)
    with y(2) False show ?thesis by simp
  qed (use assms in simp)
  ultimately show ?thesis by (simp add: r_def)
qed

lemma days_before_year_le: "((y::nat) + 99) div 100 \<le> 365 * y + (y + 3) div 4"
proof (cases "y = 0")
  case False
  then have "y + 99 \<le> 100 * y" by simp
  then have "(y + 99) div 100 \<le> y" by linarith
  then show ?thesis by simp
qed simp

lemma days_before_year_Suc:
  "days_before_year (Suc y) = days_before_year y + (if is_leap y then 366 else 365)"
proof -
  have a: "(Suc y + 3) div 4 = (y + 3) div 4 + (if y mod 4 = 0 then 1 else 0)"
    using ceil_div_Suc [of 4 y] by simp
  have b: "(Suc y + 99) div 100 = (y + 99) div 100 + (if y mod 100 = 0 then 1 else 0)"
    using ceil_div_Suc [of 100 y] by simp
  have c: "(Suc y + 399) div 400 = (y + 399) div 400 + (if y mod 400 = 0 then 1 else 0)"
    using ceil_div_Suc [of 400 y] by simp
  have d: "y mod 400 = 0 \<Longrightarrow> y mod 100 = 0" "y mod 100 = 0 \<Longrightarrow> y mod 4 = 0"
    by (auto simp: mod_eq_0_iff_dvd intro: dvd_trans [of 100 400] dvd_trans [of 4 100])
  show ?thesis
    unfolding days_before_year_def a b c is_leap_def using d days_before_year_le [of y]
    by (cases "y mod 4 = 0"; cases "y mod 100 = 0"; cases "y mod 400 = 0") (simp_all add: ac_simps)
qed

lemma days_before_year_ge: "y \<le> days_before_year y"
  by (induction y) (auto simp: days_before_year_Suc)

definition month_lengths :: "nat \<Rightarrow> nat list" where
  "month_lengths y = [31, if is_leap y then 29 else 28, 31, 30, 31, 30, 31, 31, 30, 31, 30, 31]"

function year_from :: "nat \<Rightarrow> nat \<Rightarrow> nat" where
  "year_from y d = (if days_before_year (Suc y) \<le> d then year_from (Suc y) d else y)"
  by pat_completeness auto
termination
proof (relation "measure (\<lambda>(y, d). d - y)")
  fix y d :: nat
  assume le: "days_before_year (Suc y) \<le> d"
  from days_before_year_ge [of "Suc y"] le show "((Suc y, d), (y, d)) \<in> measure (\<lambda>(y, d). d - y)" by simp
qed simp

declare year_from.simps [simp del]

text \<open>Split a day of the year (from 0) into a month (from 1) and a day of it (from 1).\<close>

fun month_from :: "nat list \<Rightarrow> nat \<Rightarrow> nat \<Rightarrow> nat \<times> nat" where
  "month_from [] m d = (m, Suc d)"
| "month_from [l] m d = (m, Suc d)"
| "month_from (l # ls) m d = (if d < l then (m, Suc d) else month_from ls (Suc m) (d - l))"

definition civil_of_days :: "nat \<Rightarrow> nat \<times> nat \<times> nat" where
  "civil_of_days d =
     (let y = year_from (d div 366) d;
          (m, dd) = month_from (month_lengths y) 1 (d - days_before_year y)
      in (y, m, dd))"

definition days_of_civil :: "nat \<Rightarrow> nat \<Rightarrow> nat \<Rightarrow> nat" where
  "days_of_civil y m d = days_before_year y + sum_list (take (m - 1) (month_lengths y)) + (d - 1)"

lemma sum_month_lengths: "sum_list (month_lengths y) = (if is_leap y then 366 else 365)"
  by (simp add: month_lengths_def)

lemma days_before_year_div: "days_before_year (d div 366) \<le> d"
proof -
  have "days_before_year y \<le> 366 * y" for y
    by (induction y) (auto simp: days_before_year_Suc, simp add: days_before_year_def)
  then have "days_before_year (d div 366) \<le> 366 * (d div 366)" .
  then show ?thesis by linarith
qed

lemma year_from_correct:
  "days_before_year y \<le> d \<Longrightarrow>
     days_before_year (year_from y d) \<le> d \<and> d < days_before_year (Suc (year_from y d))"
proof (induction y d rule: year_from.induct)
  case (1 y d)
  show ?case
  proof (cases "days_before_year (Suc y) \<le> d")
    case True
    with 1 show ?thesis by (simp add: year_from.simps [of y d])
  next
    case False
    with 1 show ?thesis by (simp add: year_from.simps [of y d])
  qed
qed

lemma month_from_correct:
  assumes "month_from ls m d = (m', d')" "ls \<noteq> []" "d < sum_list ls"
  shows "m \<le> m' \<and> m' < m + length ls \<and> 1 \<le> d' \<and> d' \<le> ls ! (m' - m) \<and>
         sum_list (take (m' - m) ls) + (d' - 1) = d"
  using assms
proof (induction ls m d rule: month_from.induct)
  case (3 l l' ls m d)
  show ?case
  proof (cases "d < l")
    case True
    with 3 show ?thesis by auto
  next
    case False
    with "3.prems" have "d - l < sum_list (l' # ls)" by auto
    with 3 False have IH: "Suc m \<le> m' \<and> m' < Suc m + length (l' # ls) \<and> 1 \<le> d' \<and>
        d' \<le> (l' # ls) ! (m' - Suc m) \<and> sum_list (take (m' - Suc m) (l' # ls)) + (d' - 1) = d - l"
      by auto
    then have "m' - m = Suc (m' - Suc m)" by auto
    with IH False show ?thesis by auto
  qed
qed auto

theorem civil_of_days_correct:
  assumes "civil_of_days d = (y, m, dd)"
  shows "days_of_civil y m dd = d" "1 \<le> m" "m \<le> 12" "1 \<le> dd" "dd \<le> month_lengths y ! (m - 1)"
proof -
  from assms have y: "y = year_from (d div 366) d"
    and md: "month_from (month_lengths y) 1 (d - days_before_year y) = (m, dd)"
    by (auto simp: civil_of_days_def Let_def split: prod.splits)
  from year_from_correct [OF days_before_year_div, of d] y
  have b: "days_before_year y \<le> d" "d < days_before_year (Suc y)" by auto
  then have "d - days_before_year y < sum_list (month_lengths y)"
    by (auto simp: days_before_year_Suc sum_month_lengths split: if_splits)
  from month_from_correct [OF md _ this] have
    c: "1 \<le> m" "m < 1 + length (month_lengths y)" "1 \<le> dd" "dd \<le> month_lengths y ! (m - 1)"
       "sum_list (take (m - 1) (month_lengths y)) + (dd - 1) = d - days_before_year y"
    by (auto simp: month_lengths_def)
  from c b show "days_of_civil y m dd = d" by (simp add: days_of_civil_def)
  from c show "1 \<le> m" "1 \<le> dd" "dd \<le> month_lengths y ! (m - 1)" by simp_all
  from c show "m \<le> 12" by (simp add: month_lengths_def)
qed

subsection \<open>RFC 3339 text\<close>

definition pad2 :: "nat \<Rightarrow> string" where "pad2 n = pad_left 2 (nat_digits 10 n)"
definition pad4 :: "nat \<Rightarrow> string" where "pad4 n = pad_left 4 (nat_digits 10 n)"

text \<open>Days from 0000-01-01 to the Unix epoch.\<close>

definition epoch_days :: int where "epoch_days = 719528"

text \<open>Zone offset, in minutes east of UTC.\<close>

definition zone_text :: "int \<Rightarrow> string" where
  "zone_text tz =
     (if tz = 0 then ''Z''
      else (if tz < 0 then ''-'' else ''+'') @ pad2 (nat \<bar>tz\<bar> div 60) @ '':'' @ pad2 (nat \<bar>tz\<bar> mod 60))"

text \<open>\<open>t.Format(time.RFC3339)\<close> for an instant whose zone is \<open>tz\<close> (\<open>0\<close> after \<open>UTC()\<close>).\<close>

definition FormatRFC3339 :: "int \<Rightarrow> time \<Rightarrow> string" where
  "FormatRFC3339 tz t =
     (let s = t div 1000000000 + tz * 60;
          days = s div 86400 + epoch_days; sod = nat (s mod 86400);
          (y, m, d) = civil_of_days (nat days)
      in pad4 y @ ''-'' @ pad2 m @ ''-'' @ pad2 d @ ''T'' @
         pad2 (sod div 3600) @ '':'' @ pad2 (sod div 60 mod 60) @ '':'' @ pad2 (sod mod 60) @
         zone_text tz)"

definition atoi_in :: "string \<Rightarrow> nat \<Rightarrow> nat \<Rightarrow> nat option" where
  "atoi_in s lo hi =
     (let v = digits_value 10 s in
      if s \<noteq> [] \<and> list_all (is_digit 10) s \<and> lo \<le> v \<and> v \<le> hi then Some v else None)"

definition parse_zone :: "string \<Rightarrow> int option" where
  "parse_zone z =
     (if z = ''Z'' then Some 0
      else if length z = 6 \<and> (z ! 0 = CHR ''+'' \<or> z ! 0 = CHR ''-'') \<and> z ! 3 = CHR '':'' then
        (case (atoi_in (take 2 (drop 1 z)) 0 23, atoi_in (drop 4 z) 0 59) of
           (Some h, Some mi) \<Rightarrow> Some ((if z ! 0 = CHR ''-'' then - 1 else 1) * int (h * 60 + mi))
         | _ \<Rightarrow> None)
      else None)"

text \<open>An optional fraction of a second, in nanoseconds, and the rest.\<close>

definition parse_frac :: "string \<Rightarrow> nat \<times> string" where
  "parse_frac r =
     (case r of c # r1 \<Rightarrow>
        (if c = CHR ''.'' \<and> takeWhile (is_digit 10) r1 \<noteq> [] then
           (let ds = takeWhile (is_digit 10) r1
            in (digits_value 10 (take 9 (ds @ replicate 9 (CHR ''0''))), dropWhile (is_digit 10) r1))
         else (0, r))
      | [] \<Rightarrow> (0, []))"

text \<open>\<open>time.Parse(time.RFC3339, s)\<close>, the strict grammar of RFC 3339.\<close>

definition ParseRFC3339 :: "string \<Rightarrow> time option" where
  "ParseRFC3339 s =
     (if length s < 20 \<or> s ! 4 \<noteq> CHR ''-'' \<or> s ! 7 \<noteq> CHR ''-'' \<or> s ! 10 \<noteq> CHR ''T''
         \<or> s ! 13 \<noteq> CHR '':'' \<or> s ! 16 \<noteq> CHR '':'' then None
      else do {
        y \<leftarrow> atoi_in (take 4 s) 0 9999;
        m \<leftarrow> atoi_in (take 2 (drop 5 s)) 1 12;
        d \<leftarrow> atoi_in (take 2 (drop 8 s)) 1 (month_lengths y ! (m - 1));
        h \<leftarrow> atoi_in (take 2 (drop 11 s)) 0 23;
        mi \<leftarrow> atoi_in (take 2 (drop 14 s)) 0 59;
        sec \<leftarrow> atoi_in (take 2 (drop 17 s)) 0 59;
        let (ns, z) = parse_frac (drop 19 s);
        tz \<leftarrow> parse_zone z;
        Some (((int (days_of_civil y m d) - epoch_days) * 86400 + int (h * 3600 + mi * 60 + sec) - tz * 60)
              * 1000000000 + int ns)
      })"

lemma length_pad2: "n < 100 \<Longrightarrow> length (pad2 n) = 2"
  unfolding pad2_def using length_nat_digits [of n 1] by (simp add: length_pad_left)

lemma length_pad4: "n < 10000 \<Longrightarrow> length (pad4 n) = 4"
  unfolding pad4_def using length_nat_digits [of n 3] by (simp add: length_pad_left)

lemma atoi_in_pad2: "n \<le> hi \<Longrightarrow> lo \<le> n \<Longrightarrow> n < 100 \<Longrightarrow> atoi_in (pad2 n) lo hi = Some n"
  using length_pad2 [of n]
  by (auto simp: atoi_in_def Let_def pad2_def nat_digits_roundtrip nat_digits_are_digits pad_left_digits)

lemma atoi_in_pad4: "n < 10000 \<Longrightarrow> atoi_in (pad4 n) 0 9999 = Some n"
  using length_pad4 [of n]
  by (auto simp: atoi_in_def Let_def pad4_def nat_digits_roundtrip nat_digits_are_digits pad_left_digits)

lemma two_chars: "length s = 2 \<Longrightarrow> \<exists>a b. s = [a, b]"
  by (cases s; cases "tl s") (auto simp: length_Suc_conv numeral_2_eq_2)

lemma four_chars: "length s = 4 \<Longrightarrow> \<exists>a b c d. s = [a, b, c, d]"
  by (auto simp: length_Suc_conv numeral_eq_Suc)

lemma parse_zone_signed:
  assumes "h < 24" "mi < 60" "sg = CHR ''+'' \<or> sg = CHR ''-''"
  shows "parse_zone (sg # pad2 h @ CHR '':'' # pad2 mi) =
           Some ((if sg = CHR ''-'' then - 1 else 1) * int (h * 60 + mi))"
proof -
  have l: "length (pad2 h) = 2" "length (pad2 mi) = 2" using assms by (simp_all add: length_pad2)
  obtain a c where h: "pad2 h = [a, c]" using two_chars [OF l(1)] by blast
  have "atoi_in [a, c] 0 23 = Some h" "atoi_in (pad2 mi) 0 59 = Some mi"
    unfolding h [symmetric] using assms by (simp_all add: atoi_in_pad2)
  with assms(3) l(2) show ?thesis unfolding h by (auto simp: parse_zone_def)
qed

lemma parse_zone_text:
  assumes "\<bar>tz\<bar> < 1440"
  shows "parse_zone (zone_text tz) = Some tz"
proof (cases "tz = 0")
  case False
  let ?h = "nat \<bar>tz\<bar> div 60" and ?m = "nat \<bar>tz\<bar> mod 60"
  have hm: "?h < 24" "?m < 60" using assms by (simp_all add: less_mult_imp_div_less)
  have sum: "int (?h * 60 + ?m) = \<bar>tz\<bar>" by (simp only: div_mult_mod_eq nat_0_le abs_ge_zero)
  show ?thesis
  proof (cases "tz < 0")
    case True
    with parse_zone_signed [OF hm, of "CHR ''-''"] show ?thesis
      unfolding sum by (simp add: zone_text_def)
  next
    case neg: False
    with False parse_zone_signed [OF hm, of "CHR ''+''"] show ?thesis
      unfolding sum by (simp add: zone_text_def)
  qed
qed (simp add: zone_text_def parse_zone_def)

lemma parse_frac_zone: "parse_frac (zone_text tz) = (0, zone_text tz)"
  by (auto simp: parse_frac_def zone_text_def)

text \<open>The text of a calendar date and time of day reads back as the same fields.\<close>

lemma ParseRFC3339_fields:
  assumes "y < 10000" "1 \<le> m" "m \<le> 12" "1 \<le> d" "d \<le> month_lengths y ! (m - 1)" "d < 100"
    "h < 24" "mi < 60" "sec < 60" "\<bar>tz\<bar> < 1440"
  shows "ParseRFC3339 (pad4 y @ ''-'' @ pad2 m @ ''-'' @ pad2 d @ ''T'' @
           pad2 h @ '':'' @ pad2 mi @ '':'' @ pad2 sec @ zone_text tz) =
         Some (((int (days_of_civil y m d) - epoch_days) * 86400 + int (h * 3600 + mi * 60 + sec) - tz * 60)
              * 1000000000)"
proof -
  have z: "zone_text tz \<noteq> []" by (auto simp: zone_text_def)
  have l: "length (pad4 y) = 4" "length (pad2 m) = 2" "length (pad2 d) = 2" "length (pad2 h) = 2"
    "length (pad2 mi) = 2" "length (pad2 sec) = 2"
    using assms by (simp_all add: length_pad2 length_pad4)
  obtain y1 y2 y3 y4 where y: "pad4 y = [y1, y2, y3, y4]" using four_chars [OF l(1)] by blast
  obtain m1 m2 where m: "pad2 m = [m1, m2]" using two_chars [OF l(2)] by blast
  obtain d1 d2 where d: "pad2 d = [d1, d2]" using two_chars [OF l(3)] by blast
  obtain h1 h2 where h: "pad2 h = [h1, h2]" using two_chars [OF l(4)] by blast
  obtain i1 i2 where i: "pad2 mi = [i1, i2]" using two_chars [OF l(5)] by blast
  obtain s1 s2 where s: "pad2 sec = [s1, s2]" using two_chars [OF l(6)] by blast
  have n: "atoi_in [y1, y2, y3, y4] 0 9999 = Some y" "atoi_in [m1, m2] 1 12 = Some m"
    "atoi_in [d1, d2] 1 (month_lengths y ! (m - 1)) = Some d" "atoi_in [h1, h2] 0 23 = Some h"
    "atoi_in [i1, i2] 0 59 = Some mi" "atoi_in [s1, s2] 0 59 = Some sec"
    unfolding y [symmetric] m [symmetric] d [symmetric] h [symmetric] i [symmetric] s [symmetric]
    using assms by (simp_all add: atoi_in_pad2 atoi_in_pad4)
  show ?thesis
    unfolding y m d h i s using z n
    by (simp add: ParseRFC3339_def parse_frac_zone parse_zone_text assms(10) Suc_le_eq)
qed

lemma month_length_le: "1 \<le> m \<Longrightarrow> m \<le> 12 \<Longrightarrow> month_lengths y ! (m - 1) \<le> 31"
proof -
  assume "1 \<le> m" "m \<le> 12"
  then have "month_lengths y ! (m - 1) \<in> set (month_lengths y)"
    by (intro nth_mem) (simp add: month_lengths_def)
  then show ?thesis by (auto simp: month_lengths_def split: if_splits)
qed

lemma civil_year_bound:
  assumes "civil_of_days d = (y, m, dd)" "d < days_before_year n"
  shows "y < n"
proof -
  have mono: "i \<le> j \<Longrightarrow> days_before_year i \<le> days_before_year j" for i j
    by (rule lift_Suc_mono_le [of days_before_year]) (simp_all add: days_before_year_Suc)
  from civil_of_days_correct(1) [OF assms(1)] have "days_before_year y \<le> d"
    by (simp add: days_of_civil_def)
  with assms(2) have "days_before_year y < days_before_year n" by simp
  with mono [of n y] show ?thesis by linarith
qed

text \<open>
  Formatting an instant in any zone and parsing the text gives the instant truncated to the
  second, for the years 0 to 9999.
\<close>

theorem ParseRFC3339_Format:
  assumes "\<bar>tz\<bar> < 1440" "-62167219200 \<le> t div 1000000000 + tz * 60"
    "t div 1000000000 + tz * 60 < 253402300800"
  shows "ParseRFC3339 (FormatRFC3339 tz t) = Some (t div 1000000000 * 1000000000)"
proof -
  define s where "s = t div 1000000000 + tz * 60"
  define dn where "dn = nat (s div 86400 + epoch_days)"
  define sod where "sod = nat (s mod 86400)"
  obtain y m d where ymd: "civil_of_days dn = (y, m, d)" by (cases "civil_of_days dn") auto
  have pos: "0 \<le> s div 86400 + epoch_days" using assms(2) unfolding s_def epoch_days_def by linarith
  have "dn < days_before_year 10000"
    using assms(3) unfolding dn_def s_def [symmetric] epoch_days_def days_before_year_def by simp
  with civil_year_bound [OF ymd] have y: "y < 10000" by blast
  note c = civil_of_days_correct [OF ymd]
  have d100: "d < 100" using month_length_le [OF c(2,3), of y] c(5) by simp
  have sod: "sod < 86400" unfolding sod_def by (simp add: nat_less_iff)
  then have f: "sod div 3600 < 24" "sod div 60 mod 60 < 60" "sod mod 60 < 60" by simp_all
  have q: "sod div 60 div 60 = sod div 3600" by (simp add: div_mult2_eq [symmetric])
  have "sod div 60 div 60 * 60 + sod div 60 mod 60 = sod div 60" "sod div 60 * 60 + sod mod 60 = sod"
    by (rule div_mult_mod_eq)+
  then have "sod div 3600 * 3600 + sod div 60 mod 60 * 60 + sod mod 60 = sod"
    unfolding q by linarith
  moreover have "(int dn - epoch_days) * 86400 + int sod = s"
    using pos unfolding dn_def sod_def by simp
  ultimately have "(int (days_of_civil y m d) - epoch_days) * 86400 +
      int (sod div 3600 * 3600 + sod div 60 mod 60 * 60 + sod mod 60) - tz * 60 = t div 1000000000"
    by (simp only: c(1)) (simp add: s_def)
  moreover have "FormatRFC3339 tz t = pad4 y @ ''-'' @ pad2 m @ ''-'' @ pad2 d @ ''T'' @
      pad2 (sod div 3600) @ '':'' @ pad2 (sod div 60 mod 60) @ '':'' @ pad2 (sod mod 60) @ zone_text tz"
    using ymd by (simp add: FormatRFC3339_def Let_def s_def dn_def sod_def)
  ultimately show ?thesis
    using ParseRFC3339_fields [OF y c(2,3,4,5) d100 f assms(1)] by (simp only:)
qed

lemma FormatRFC3339_nonempty: "FormatRFC3339 tz t \<noteq> []"
  by (auto simp: FormatRFC3339_def Let_def split: prod.splits)

end
