(* ===== verification/K8s_Types.thy ===== *)
theory K8s_Types
  imports Go_Time
begin

text \<open>
  The Kubernetes objects the operator reads and writes, with the fields its code touches.
  They belong to \<open>k8s.io/api\<close> and \<open>k8s.io/apimachinery\<close>; only their data is declared here,
  no behaviour. A nil map and an empty map are the same association list: the sources only
  read them, or create the map before writing. A \<open>resource.Quantity\<close> is its value in base
  units, for CPU in thousandths of a core.
\<close>

type_synonym quantity = int

record ObjectMeta =
  mName :: string
  mNamespace :: string
  mLabels :: strmap
  mAnnotations :: strmap
  mGeneration :: int
  mDeletionTimestamp :: "time option"
  mFinalizers :: "string list"

datatype ConditionStatus = ConditionTrue | ConditionFalse | ConditionUnknown

text \<open>\<open>metav1.Condition\<close>.\<close>

record Condition =
  cdType :: string
  cdStatus :: ConditionStatus
  cdReason :: string
  cdMessage :: string
  cdTransition :: time
  cdObserved :: int

record ContainerPort =
  cpName :: string
  cpPort :: int
  cpHostPort :: int
  cpProtocol :: string

abbreviation tcpPort :: "string \<Rightarrow> int \<Rightarrow> ContainerPort" where
  "tcpPort name port \<equiv> \<lparr>cpName = name, cpPort = port, cpHostPort = 0, cpProtocol = ''TCP''\<rparr>"

abbreviation udpPort :: "string \<Rightarrow> int \<Rightarrow> ContainerPort" where
  "udpPort name port \<equiv> \<lparr>cpName = name, cpPort = port, cpHostPort = 0, cpProtocol = ''UDP''\<rparr>"

text \<open>An environment variable: a literal, a Secret key reference, or another source.\<close>

datatype EnvVar =
    EnvValue (envName: string) string
  | EnvSecret (envName: string) string string bool
  | EnvOther (envName: string) string

record VolumeMount =
  vmName :: string
  vmMountPath :: string
  vmSubPath :: string
  vmReadOnly :: bool

abbreviation dataMount :: VolumeMount where
  "dataMount \<equiv> \<lparr>vmName = ''data'', vmMountPath = ''/data'', vmSubPath = [], vmReadOnly = False\<rparr>"

datatype Volume =
    ConfigMapVolume (volName: string) string
  | OtherVolume (volName: string) string

datatype ProbeHandler = TCPSocket int | HTTPGet string int | ExecProbe "string list"

record Probe =
  pbHandler :: ProbeHandler
  pbInitialDelay :: int
  pbPeriod :: int
  pbTimeout :: int
  pbFailureThreshold :: int

record ResourceRequirements =
  rrLimits :: "(string \<times> quantity) list"
  rrRequests :: "(string \<times> quantity) list"

record Container =
  ctName :: string
  ctImage :: string
  ctRestartPolicy :: string
  ctPullPolicy :: string
  ctCommand :: "string list"
  ctArgs :: "string list"
  ctPorts :: "ContainerPort list"
  ctResources :: ResourceRequirements
  ctLiveness :: "Probe option"
  ctStartup :: "Probe option"
  ctEnv :: "EnvVar list"
  ctMounts :: "VolumeMount list"

record PodSpec =
  psNodeName :: string
  psHostname :: string
  psFSGroup :: "int option"
  psNodeSelector :: strmap
  psInitContainers :: "Container list"
  psContainers :: "Container list"
  psVolumes :: "Volume list"

record ContainerStatus =
  csName :: string
  csReady :: bool
  csRestartCount :: int
  csWaitingReason :: "string option"
  csImage :: string

record PodStatus =
  stPhase :: string
  stPodIP :: string
  stContainerStatuses :: "ContainerStatus list"

record Pod =
  podMeta :: ObjectMeta
  podSpec :: PodSpec
  podStatus :: PodStatus

record PersistentVolumeClaim =
  pvcMeta :: ObjectMeta
  pvcStorageClass :: "string option"
  pvcRequest :: quantity

record ServicePort =
  spName :: string
  spPort :: int
  spTargetPort :: int
  spNodePort :: int
  spProtocol :: string

record Service =
  svcMeta :: ObjectMeta
  svcSelector :: strmap
  svcPorts :: "ServicePort list"
  svcType :: string

text \<open>An endpoint of a slice: its addresses and the \<open>Ready\<close> condition, which may be absent.\<close>

record Endpoint =
  epAddresses :: "string list"
  epReady :: "bool option"

record EndpointSlice =
  esMeta :: ObjectMeta
  esEndpoints :: "Endpoint list"

record PodTemplateSpec =
  ptLabels :: strmap
  ptAnnotations :: strmap
  ptSpec :: PodSpec

text \<open>The access mode and volume mode of a claim template are constants of the code and left out.\<close>

record StatefulSetSpec =
  ssReplicas :: "int option"
  ssServiceName :: string
  ssSelector :: strmap
  ssTemplate :: PodTemplateSpec
  ssVolumeClaims :: "PersistentVolumeClaim list"

record StatefulSet =
  ssMeta :: ObjectMeta
  ssSpec :: StatefulSetSpec
  ssReadyReplicas :: int
  ssUpdatedReplicas :: int

record ConfigMap =
  cmMeta :: ObjectMeta
  cmData :: strmap

record Secret =
  scMeta :: ObjectMeta
  scType :: string
  scData :: strmap

text \<open>\<open>ctrl.Result\<close>: only the requeue delay is used; zero means no requeue.\<close>

record Result =
  rqAfter :: duration

subsection \<open>Zero values\<close>

definition zero_meta :: ObjectMeta where
  "zero_meta = \<lparr>mName = [], mNamespace = [], mLabels = [], mAnnotations = [], mGeneration = 0,
     mDeletionTimestamp = None, mFinalizers = []\<rparr>"

definition zero_resources :: ResourceRequirements where
  "zero_resources = \<lparr>rrLimits = [], rrRequests = []\<rparr>"

definition zero_container :: Container where
  "zero_container = \<lparr>ctName = [], ctImage = [], ctRestartPolicy = [], ctPullPolicy = [], ctCommand = [], ctArgs = [],
     ctPorts = [], ctResources = zero_resources, ctLiveness = None, ctStartup = None, ctEnv = [],
     ctMounts = []\<rparr>"

definition zero_podspec :: PodSpec where
  "zero_podspec = \<lparr>psNodeName = [], psHostname = [], psFSGroup = None, psNodeSelector = [],
     psInitContainers = [], psContainers = [], psVolumes = []\<rparr>"

definition zero_podstatus :: PodStatus where
  "zero_podstatus = \<lparr>stPhase = [], stPodIP = [], stContainerStatuses = []\<rparr>"

definition zero_pod :: Pod where
  "zero_pod = \<lparr>podMeta = zero_meta, podSpec = zero_podspec, podStatus = zero_podstatus\<rparr>"

text \<open>\<open>Limits.Memory()\<close> and the like: the zero quantity when the resource is not set.\<close>

definition quantity_of :: "(string \<times> quantity) list \<Rightarrow> string \<Rightarrow> quantity" where
  "quantity_of m k = (case map_of m k of None \<Rightarrow> 0 | Some q \<Rightarrow> q)"

end
