(* ===== verification/Api_Types.thy ===== *)
theory Api_Types
  imports K8s_Types
begin

text \<open>
  The custom resources of \<open>api/v1alpha2\<close>: the enumerations of \<open>chaininstance_types.go\<close>
  (string types in Go, so any string is a value and the constants are names for some), the
  spec and status structs, and the status predicates.
\<close>

type_synonym Chain = string
type_synonym Network = string
type_synonym NodeGroup = string

subsection \<open>Enumerations\<close>

text \<open>The constants of type \<open>Chain\<close>, in declaration order.\<close>

abbreviation (input) ChainEthereum :: Chain where "ChainEthereum \<equiv> ''ethereum''"
abbreviation (input) ChainEthereumArchive :: Chain where "ChainEthereumArchive \<equiv> ''ethereum-archive''"
abbreviation (input) ChainEthereumBeacon :: Chain where "ChainEthereumBeacon \<equiv> ''ethereum-beacon''"
abbreviation (input) ChainBitcoin :: Chain where "ChainBitcoin \<equiv> ''bitcoin''"
abbreviation (input) ChainSolana :: Chain where "ChainSolana \<equiv> ''solana''"
abbreviation (input) ChainBSC :: Chain where "ChainBSC \<equiv> ''bsc''"
abbreviation (input) ChainTRON :: Chain where "ChainTRON \<equiv> ''tron''"
abbreviation (input) ChainPolygon :: Chain where "ChainPolygon \<equiv> ''polygon''"
abbreviation (input) ChainAvalanche :: Chain where "ChainAvalanche \<equiv> ''avalanche''"
abbreviation (input) ChainLitecoin :: Chain where "ChainLitecoin \<equiv> ''litecoin''"
abbreviation (input) ChainXRP :: Chain where "ChainXRP \<equiv> ''xrp''"
abbreviation (input) ChainStellar :: Chain where "ChainStellar \<equiv> ''stellar''"
abbreviation (input) ChainDash :: Chain where "ChainDash \<equiv> ''dash''"
abbreviation (input) ChainTON :: Chain where "ChainTON \<equiv> ''ton''"
abbreviation (input) ChainCosmos :: Chain where "ChainCosmos \<equiv> ''cosmos''"
abbreviation (input) ChainNear :: Chain where "ChainNear \<equiv> ''near''"
abbreviation (input) ChainSui :: Chain where "ChainSui \<equiv> ''sui''"
abbreviation (input) ChainAptos :: Chain where "ChainAptos \<equiv> ''aptos''"
abbreviation (input) ChainCardano :: Chain where "ChainCardano \<equiv> ''cardano''"
abbreviation (input) ChainArbitrum :: Chain where "ChainArbitrum \<equiv> ''arbitrum''"
abbreviation (input) ChainOptimism :: Chain where "ChainOptimism \<equiv> ''optimism''"
abbreviation (input) ChainBase :: Chain where "ChainBase \<equiv> ''base''"
abbreviation (input) ChainFantom :: Chain where "ChainFantom \<equiv> ''fantom''"
abbreviation (input) ChainGnosis :: Chain where "ChainGnosis \<equiv> ''gnosis''"
abbreviation (input) ChainGnosisBeacon :: Chain where "ChainGnosisBeacon \<equiv> ''gnosis-beacon''"
abbreviation (input) ChainMantle :: Chain where "ChainMantle \<equiv> ''mantle''"
abbreviation (input) ChainZkSync :: Chain where "ChainZkSync \<equiv> ''zksync''"
abbreviation (input) ChainLinea :: Chain where "ChainLinea \<equiv> ''linea''"
abbreviation (input) ChainScroll :: Chain where "ChainScroll \<equiv> ''scroll''"
abbreviation (input) ChainBerachain :: Chain where "ChainBerachain \<equiv> ''berachain''"
abbreviation (input) ChainCronos :: Chain where "ChainCronos \<equiv> ''cronos''"
abbreviation (input) ChainRonin :: Chain where "ChainRonin \<equiv> ''ronin''"
abbreviation (input) ChainCelo :: Chain where "ChainCelo \<equiv> ''celo''"
abbreviation (input) ChainBlast :: Chain where "ChainBlast \<equiv> ''blast''"
abbreviation (input) ChainMode :: Chain where "ChainMode \<equiv> ''mode''"
abbreviation (input) ChainZora :: Chain where "ChainZora \<equiv> ''zora''"
abbreviation (input) ChainTaiko :: Chain where "ChainTaiko \<equiv> ''taiko''"
abbreviation (input) ChainDogecoin :: Chain where "ChainDogecoin \<equiv> ''dogecoin''"
abbreviation (input) ChainOsmosis :: Chain where "ChainOsmosis \<equiv> ''osmosis''"
abbreviation (input) ChainSei :: Chain where "ChainSei \<equiv> ''sei''"
abbreviation (input) ChainEvmos :: Chain where "ChainEvmos \<equiv> ''evmos''"
abbreviation (input) ChainKava :: Chain where "ChainKava \<equiv> ''kava''"
abbreviation (input) ChainPolkadot :: Chain where "ChainPolkadot \<equiv> ''polkadot''"
abbreviation (input) ChainStarknet :: Chain where "ChainStarknet \<equiv> ''starknet''"
abbreviation (input) ChainFilecoin :: Chain where "ChainFilecoin \<equiv> ''filecoin''"
abbreviation (input) ChainMoonbeam :: Chain where "ChainMoonbeam \<equiv> ''moonbeam''"
abbreviation (input) ChainMoonriver :: Chain where "ChainMoonriver \<equiv> ''moonriver''"
abbreviation (input) ChainPolygonZkEVM :: Chain where "ChainPolygonZkEVM \<equiv> ''polygon-zkevm''"
abbreviation (input) ChainMantaPacific :: Chain where "ChainMantaPacific \<equiv> ''manta-pacific''"
abbreviation (input) ChainMetis :: Chain where "ChainMetis \<equiv> ''metis''"
abbreviation (input) ChainFraxtal :: Chain where "ChainFraxtal \<equiv> ''fraxtal''"
abbreviation (input) ChainLisk :: Chain where "ChainLisk \<equiv> ''lisk''"
abbreviation (input) ChainKroma :: Chain where "ChainKroma \<equiv> ''kroma''"
abbreviation (input) ChainBob :: Chain where "ChainBob \<equiv> ''bob''"
abbreviation (input) ChainBobaEth :: Chain where "ChainBobaEth \<equiv> ''boba-eth''"
abbreviation (input) ChainSoneium :: Chain where "ChainSoneium \<equiv> ''soneium''"
abbreviation (input) ChainSwell :: Chain where "ChainSwell \<equiv> ''swell''"
abbreviation (input) ChainSuperseed :: Chain where "ChainSuperseed \<equiv> ''superseed''"
abbreviation (input) ChainInk :: Chain where "ChainInk \<equiv> ''ink''"
abbreviation (input) ChainMorph :: Chain where "ChainMorph \<equiv> ''morph''"
abbreviation (input) ChainWorldchain :: Chain where "ChainWorldchain \<equiv> ''worldchain''"
abbreviation (input) ChainUnichain :: Chain where "ChainUnichain \<equiv> ''unichain''"
abbreviation (input) ChainLens :: Chain where "ChainLens \<equiv> ''lens''"
abbreviation (input) ChainPlume :: Chain where "ChainPlume \<equiv> ''plume''"
abbreviation (input) ChainHemi :: Chain where "ChainHemi \<equiv> ''hemi''"
abbreviation (input) ChainAbstract :: Chain where "ChainAbstract \<equiv> ''abstract''"
abbreviation (input) ChainMegaETH :: Chain where "ChainMegaETH \<equiv> ''megaeth''"
abbreviation (input) ChainZeroNetwork :: Chain where "ChainZeroNetwork \<equiv> ''zero-network''"
abbreviation (input) ChainZircuit :: Chain where "ChainZircuit \<equiv> ''zircuit''"
abbreviation (input) ChainImmutableZkEVM :: Chain where "ChainImmutableZkEVM \<equiv> ''immutable-zkevm''"
abbreviation (input) ChainAxelar :: Chain where "ChainAxelar \<equiv> ''axelar''"
abbreviation (input) ChainDymension :: Chain where "ChainDymension \<equiv> ''dymension''"
abbreviation (input) ChainShibarium :: Chain where "ChainShibarium \<equiv> ''shibarium''"
abbreviation (input) ChainCore :: Chain where "ChainCore \<equiv> ''core''"
abbreviation (input) ChainHaqq :: Chain where "ChainHaqq \<equiv> ''haqq''"
abbreviation (input) ChainHashKey :: Chain where "ChainHashKey \<equiv> ''hashkey''"
abbreviation (input) ChainEthereumClassic :: Chain where "ChainEthereumClassic \<equiv> ''ethereum-classic''"
abbreviation (input) ChainBitTorrent :: Chain where "ChainBitTorrent \<equiv> ''bittorrent''"
abbreviation (input) ChainGravityAlpha :: Chain where "ChainGravityAlpha \<equiv> ''gravity-alpha''"
abbreviation (input) ChainMoca :: Chain where "ChainMoca \<equiv> ''moca''"
abbreviation (input) ChainEverclear :: Chain where "ChainEverclear \<equiv> ''everclear''"
abbreviation (input) ChainDoma :: Chain where "ChainDoma \<equiv> ''doma''"
abbreviation (input) ChainAurora :: Chain where "ChainAurora \<equiv> ''aurora''"
abbreviation (input) ChainHarmony :: Chain where "ChainHarmony \<equiv> ''harmony''"
abbreviation (input) ChainRootstock :: Chain where "ChainRootstock \<equiv> ''rootstock''"
abbreviation (input) ChainTelos :: Chain where "ChainTelos \<equiv> ''telos''"
abbreviation (input) ChainKlaytn :: Chain where "ChainKlaytn \<equiv> ''klaytn''"
abbreviation (input) ChainOpBNB :: Chain where "ChainOpBNB \<equiv> ''opbnb''"
abbreviation (input) ChainFuse :: Chain where "ChainFuse \<equiv> ''fuse''"
abbreviation (input) ChainThundercore :: Chain where "ChainThundercore \<equiv> ''thundercore''"
abbreviation (input) ChainWemix :: Chain where "ChainWemix \<equiv> ''wemix''"
abbreviation (input) ChainViction :: Chain where "ChainViction \<equiv> ''viction''"
abbreviation (input) ChainKusama :: Chain where "ChainKusama \<equiv> ''kusama''"
abbreviation (input) ChainHyperliquid :: Chain where "ChainHyperliquid \<equiv> ''hyperliquid''"
abbreviation (input) ChainMonad :: Chain where "ChainMonad \<equiv> ''monad''"
abbreviation (input) ChainCronosZkEVM :: Chain where "ChainCronosZkEVM \<equiv> ''cronos-zkevm''"
abbreviation (input) ChainSonic :: Chain where "ChainSonic \<equiv> ''sonic''"
abbreviation (input) ChainGoat :: Chain where "ChainGoat \<equiv> ''goat''"
abbreviation (input) ChainKatana :: Chain where "ChainKatana \<equiv> ''katana''"
abbreviation (input) ChainMezo :: Chain where "ChainMezo \<equiv> ''mezo''"
abbreviation (input) ChainPlasma :: Chain where "ChainPlasma \<equiv> ''plasma''"
abbreviation (input) ChainPlaynance :: Chain where "ChainPlaynance \<equiv> ''playnance''"

text \<open>All declared chains, in the order of the const block.\<close>

definition chainConstants :: "Chain list" where
  "chainConstants =
     [ChainEthereum, ChainEthereumArchive, ChainEthereumBeacon, ChainBitcoin, ChainSolana, ChainBSC,
      ChainTRON, ChainPolygon, ChainAvalanche, ChainLitecoin, ChainXRP, ChainStellar, ChainDash,
      ChainTON, ChainCosmos, ChainNear, ChainSui, ChainAptos, ChainCardano, ChainArbitrum,
      ChainOptimism, ChainBase, ChainFantom, ChainGnosis, ChainGnosisBeacon, ChainMantle,
      ChainZkSync, ChainLinea, ChainScroll, ChainBerachain, ChainCronos, ChainRonin, ChainCelo,
      ChainBlast, ChainMode, ChainZora, ChainTaiko, ChainDogecoin, ChainOsmosis, ChainSei,
      ChainEvmos, ChainKava, ChainPolkadot, ChainStarknet, ChainFilecoin, ChainMoonbeam,
      ChainMoonriver, ChainPolygonZkEVM, ChainMantaPacific, ChainMetis, ChainFraxtal, ChainLisk,
      ChainKroma, ChainBob, ChainBobaEth, ChainSoneium, ChainSwell, ChainSuperseed, ChainInk,
      ChainMorph, ChainWorldchain, ChainUnichain, ChainLens, ChainPlume, ChainHemi, ChainAbstract,
      ChainMegaETH, ChainZeroNetwork, ChainZircuit, ChainImmutableZkEVM, ChainAxelar, ChainDymension,
      ChainShibarium, ChainCore, ChainHaqq, ChainHashKey, ChainEthereumClassic, ChainBitTorrent,
      ChainGravityAlpha, ChainMoca, ChainEverclear, ChainDoma, ChainAurora, ChainHarmony,
      ChainRootstock, ChainTelos, ChainKlaytn, ChainOpBNB, ChainFuse, ChainThundercore, ChainWemix,
      ChainViction, ChainKusama, ChainHyperliquid, ChainMonad, ChainCronosZkEVM, ChainSonic,
      ChainGoat, ChainKatana, ChainMezo, ChainPlasma, ChainPlaynance]"

abbreviation (input) NetworkMainnet :: Network where "NetworkMainnet \<equiv> ''mainnet''"
abbreviation (input) NetworkTestnet :: Network where "NetworkTestnet \<equiv> ''testnet''"
abbreviation (input) NetworkDevnet :: Network where "NetworkDevnet \<equiv> ''devnet''"

type_synonym NodeType = string

abbreviation (input) NodeTypeRPC :: NodeType where "NodeTypeRPC \<equiv> ''rpc''"
abbreviation (input) NodeTypeArchive :: NodeType where "NodeTypeArchive \<equiv> ''archive''"
abbreviation (input) NodeTypeValidator :: NodeType where "NodeTypeValidator \<equiv> ''validator''"
abbreviation (input) NodeTypeLight :: NodeType where "NodeTypeLight \<equiv> ''light''"

abbreviation (input) NodeGroupStorage :: NodeGroup where "NodeGroupStorage \<equiv> ''storage''"
abbreviation (input) NodeGroupBlockchain :: NodeGroup where "NodeGroupBlockchain \<equiv> ''blockchain''"

text \<open>
  \<open>NodePhase\<close>: the constants, and any other text (the zero value of an object whose status
  was never written is \<open>OtherPhase []\<close>).
\<close>

datatype NodePhase =
    NodePhasePending
  | NodePhaseSyncing
  | NodePhaseHealthy
  | NodePhaseDegraded
  | NodePhaseFailed
  | OtherPhase string

text \<open>\<open>(NodePhase).String\<close>.\<close>

fun NodePhase_String :: "NodePhase \<Rightarrow> string" where
  "NodePhase_String NodePhasePending = ''Pending''"
| "NodePhase_String NodePhaseSyncing = ''Syncing''"
| "NodePhase_String NodePhaseHealthy = ''Healthy''"
| "NodePhase_String NodePhaseDegraded = ''Degraded''"
| "NodePhase_String NodePhaseFailed = ''Failed''"
| "NodePhase_String (OtherPhase s) = s"

abbreviation (input) ConditionReady :: string where "ConditionReady \<equiv> ''Ready''"
abbreviation (input) ConditionSyncing :: string where "ConditionSyncing \<equiv> ''Syncing''"
abbreviation (input) ConditionDegraded :: string where "ConditionDegraded \<equiv> ''Degraded''"

definition FinalizerName :: string where
  "FinalizerName = ''chains.chainplane.io/finalizer''"

subsection \<open>Spec\<close>

record ImageSpec =
  imRepository :: string
  imTag :: string
  imPullPolicy :: string

record StorageSpec =
  stSize :: quantity
  stStorageClass :: string

record SnapshotSpec =
  snDisabled :: bool
  snType :: string
  snBucket :: string
  snKey :: string

record HealthSpec =
  hsBlockLagThreshold :: "int option"
  hsDegradedTimeoutMinutes :: "int option"

record RPCSpec =
  rsEnabled :: bool
  rsPort :: int
  rsWSPort :: int

record PodMonitorSpec =
  pmEnabled :: bool
  pmLabels :: strmap
  pmInterval :: string

record MonitoringSpec =
  moPodMonitor :: PodMonitorSpec

record ChainInstanceSpec =
  spChain :: Chain
  spNetwork :: Network
  spNodeType :: NodeType
  spClient :: string
  spImage :: "ImageSpec option"
  spResources :: ResourceRequirements
  spStorage :: StorageSpec
  spNodeGroup :: NodeGroup
  spReplicas :: "int option"
  spRPC :: RPCSpec
  spExtraArgs :: "string list"
  spExtraEnv :: "EnvVar list"
  spHealth :: HealthSpec
  spSnapshot :: "SnapshotSpec option"
  spSidecars :: "Container list"
  spExtraVolumes :: "Volume list"
  spExtraVolumeMounts :: "VolumeMount list"
  spMonitoring :: MonitoringSpec

subsection \<open>Status and the root type\<close>

record ChainInstanceStatus =
  csPhase :: NodePhase
  csBlockHeight :: int
  csSyncProgress :: string
  csSyncETA :: string
  csPeersCount :: int
  csConditions :: "Condition list"
  csObservedGeneration :: int

record ChainInstance =
  ciMeta :: ObjectMeta
  ciSpec :: ChainInstanceSpec
  ciStatus :: ChainInstanceStatus

text \<open>The status helper methods.\<close>

definition IsHealthy :: "ChainInstanceStatus \<Rightarrow> bool" where
  "IsHealthy s \<longleftrightarrow> csPhase s = NodePhaseHealthy"

definition IsSyncing :: "ChainInstanceStatus \<Rightarrow> bool" where
  "IsSyncing s \<longleftrightarrow> csPhase s = NodePhaseSyncing"

definition IsDegraded :: "ChainInstanceStatus \<Rightarrow> bool" where
  "IsDegraded s \<longleftrightarrow> csPhase s = NodePhaseDegraded"

definition IsFailed :: "ChainInstanceStatus \<Rightarrow> bool" where
  "IsFailed s \<longleftrightarrow> csPhase s = NodePhaseFailed"

text \<open>\<open>IsReady\<close>: the status of the first condition of type Ready.\<close>

definition IsReady :: "ChainInstanceStatus \<Rightarrow> bool" where
  "IsReady s = (case find (\<lambda>c. cdType c = ConditionReady) (csConditions s) of
     None \<Rightarrow> False | Some c \<Rightarrow> cdStatus c = ConditionTrue)"

subsection \<open>Version catalogs\<close>

record TagInfo =
  tiTag :: string
  tiPublishedAt :: "time option"

record ChainVersionCatalogSpec =
  cvChain :: Chain
  cvClient :: string
  cvCheckInterval :: string

record ChainVersionCatalogStatus =
  cvLatestTag :: string
  cvLatestDigest :: string
  cvPublishedAt :: "time option"
  cvCheckedAt :: "time option"
  cvRecentTags :: "TagInfo list"
  cvConditions :: "Condition list"

record ChainVersionCatalog =
  cvMeta :: ObjectMeta
  cvSpec :: ChainVersionCatalogSpec
  cvStatus :: ChainVersionCatalogStatus

subsection \<open>Accessors shared by the controllers\<close>

abbreviation nodeName :: "ChainInstance \<Rightarrow> string" where
  "nodeName n \<equiv> mName (ciMeta n)"

abbreviation nodeNamespace :: "ChainInstance \<Rightarrow> string" where
  "nodeNamespace n \<equiv> mNamespace (ciMeta n)"

abbreviation nodeAnnotations :: "ChainInstance \<Rightarrow> strmap" where
  "nodeAnnotations n \<equiv> mAnnotations (ciMeta n)"

definition set_annotations :: "strmap \<Rightarrow> ChainInstance \<Rightarrow> ChainInstance" where
  "set_annotations a n = n\<lparr>ciMeta := (ciMeta n)\<lparr>mAnnotations := a\<rparr>\<rparr>"

definition upd_status :: "(ChainInstanceStatus \<Rightarrow> ChainInstanceStatus) \<Rightarrow> ChainInstance \<Rightarrow> ChainInstance" where
  "upd_status f n = n\<lparr>ciStatus := f (ciStatus n)\<rparr>"

lemma set_annotations_simps [simp]:
  "nodeAnnotations (set_annotations a n) = a"
  "nodeName (set_annotations a n) = nodeName n"
  "nodeNamespace (set_annotations a n) = nodeNamespace n"
  "ciSpec (set_annotations a n) = ciSpec n"
  "ciStatus (set_annotations a n) = ciStatus n"
  "mGeneration (ciMeta (set_annotations a n)) = mGeneration (ciMeta n)"
  "set_annotations a (set_annotations b n) = set_annotations a n"
  by (simp_all add: set_annotations_def)

lemma upd_status_simps [simp]:
  "ciMeta (upd_status f n) = ciMeta n"
  "ciSpec (upd_status f n) = ciSpec n"
  "ciStatus (upd_status f n) = f (ciStatus n)"
  "upd_status f (upd_status g n) = upd_status (f o g) n"
  by (simp_all add: upd_status_def)

lemma set_annotations_upd_status:
  "set_annotations a (upd_status f n) = upd_status f (set_annotations a n)"
  by (simp add: set_annotations_def upd_status_def)

subsection \<open>Zero values\<close>

definition zero_spec :: ChainInstanceSpec where
  "zero_spec = \<lparr>spChain = [], spNetwork = [], spNodeType = [], spClient = [], spImage = None,
     spResources = zero_resources, spStorage = \<lparr>stSize = 0, stStorageClass = []\<rparr>, spNodeGroup = [],
     spReplicas = None, spRPC = \<lparr>rsEnabled = False, rsPort = 0, rsWSPort = 0\<rparr>, spExtraArgs = [],
     spExtraEnv = [], spHealth = \<lparr>hsBlockLagThreshold = None, hsDegradedTimeoutMinutes = None\<rparr>,
     spSnapshot = None, spSidecars = [], spExtraVolumes = [], spExtraVolumeMounts = [],
     spMonitoring = \<lparr>moPodMonitor = \<lparr>pmEnabled = False, pmLabels = [], pmInterval = []\<rparr>\<rparr>\<rparr>"

definition zero_status :: ChainInstanceStatus where
  "zero_status = \<lparr>csPhase = OtherPhase [], csBlockHeight = 0, csSyncProgress = [], csSyncETA = [],
     csPeersCount = 0, csConditions = [], csObservedGeneration = 0\<rparr>"

definition zero_node :: ChainInstance where
  "zero_node = \<lparr>ciMeta = zero_meta, ciSpec = zero_spec, ciStatus = zero_status\<rparr>"

end
