(* ===== verification/Webhook.thy ===== *)
theory Webhook
  imports Api_Types
begin

text \<open>
  The validating admission webhook of \<open>api/v1alpha2/chaininstance_webhook.go\<close>: the registry of
  per-chain recommendations, the spec validation, and the three validator methods. A
  \<open>field.ErrorList\<close> is the list of its errors; an admission result is the warnings together
  with either the aggregated errors or nil. \<open>resource.Quantity\<close> values are compared by value,
  and their canonical text, which only appears in messages, is the argument \<open>qs\<close>.
\<close>

subsection \<open>Validation registry\<close>

record chainConstraints =
  MinStorage :: quantity
  MinMemory :: quantity

abbreviation (input) Gi :: quantity where "Gi \<equiv> 1073741824"
abbreviation (input) Ti :: quantity where "Ti \<equiv> 1099511627776"

definition validationTable :: "(Chain \<times> quantity \<times> quantity) list" where
  "validationTable =
     [(ChainEthereum, 50 * Gi, 4 * Gi),
      (ChainEthereumArchive, 2 * Ti, 8 * Gi),
      (ChainBitcoin, 500 * Gi, 0),
      (ChainSolana, 500 * Gi, 64 * Gi),
      (ChainBSC, 1 * Ti, 16 * Gi),
      (ChainTRON, 500 * Gi, 16 * Gi),
      (ChainPolygon, 500 * Gi, 8 * Gi),
      (ChainAvalanche, 500 * Gi, 8 * Gi),
      (ChainLitecoin, 100 * Gi, 0),
      (ChainXRP, 100 * Gi, 0),
      (ChainStellar, 100 * Gi, 0),
      (ChainDash, 50 * Gi, 0),
      (ChainTON, 100 * Gi, 8 * Gi),
      (ChainCosmos, 500 * Gi, 8 * Gi),
      (ChainNear, 500 * Gi, 8 * Gi),
      (ChainSui, 500 * Gi, 8 * Gi),
      (ChainAptos, 500 * Gi, 8 * Gi),
      (ChainCardano, 100 * Gi, 8 * Gi),
      (ChainArbitrum, 2 * Ti, 16 * Gi),
      (ChainOptimism, 1 * Ti, 16 * Gi),
      (ChainBase, 2 * Ti, 16 * Gi),
      (ChainBerachain, 500 * Gi, 8 * Gi),
      (ChainCronos, 1 * Ti, 8 * Gi),
      (ChainRonin, 1 * Ti, 8 * Gi),
      (ChainCelo, 500 * Gi, 8 * Gi),
      (ChainFantom, 2 * Ti, 16 * Gi),
      (ChainGnosis, 500 * Gi, 8 * Gi),
      (ChainMantle, 1 * Ti, 16 * Gi),
      (ChainBlast, 500 * Gi, 8 * Gi),
      (ChainMode, 500 * Gi, 8 * Gi),
      (ChainZora, 500 * Gi, 8 * Gi),
      (ChainTaiko, 500 * Gi, 8 * Gi),
      (ChainZkSync, 1 * Ti, 16 * Gi),
      (ChainLinea, 1 * Ti, 8 * Gi),
      (ChainScroll, 500 * Gi, 8 * Gi),
      (ChainDogecoin, 100 * Gi, 0),
      (ChainOsmosis, 1 * Ti, 8 * Gi),
      (ChainSei, 500 * Gi, 8 * Gi),
      (ChainEvmos, 500 * Gi, 8 * Gi),
      (ChainKava, 1 * Ti, 8 * Gi),
      (ChainPolkadot, 500 * Gi, 8 * Gi),
      (ChainStarknet, 500 * Gi, 8 * Gi),
      (ChainFilecoin, 2 * Ti, 32 * Gi),
      (ChainMoonbeam, 2000 * Gi, 16 * Gi),
      (ChainMoonriver, 1000 * Gi, 8 * Gi),
      (ChainPolygonZkEVM, 500 * Gi, 8 * Gi),
      (ChainMantaPacific, 500 * Gi, 8 * Gi),
      (ChainMetis, 500 * Gi, 8 * Gi),
      (ChainFraxtal, 300 * Gi, 8 * Gi),
      (ChainLisk, 200 * Gi, 4 * Gi),
      (ChainKroma, 300 * Gi, 8 * Gi),
      (ChainBob, 200 * Gi, 4 * Gi),
      (ChainBobaEth, 200 * Gi, 4 * Gi),
      (ChainSoneium, 200 * Gi, 4 * Gi),
      (ChainSwell, 200 * Gi, 4 * Gi),
      (ChainSuperseed, 100 * Gi, 4 * Gi),
      (ChainInk, 100 * Gi, 4 * Gi),
      (ChainMorph, 200 * Gi, 4 * Gi),
      (ChainAbstract, 200 * Gi, 4 * Gi),
      (ChainMegaETH, 200 * Gi, 8 * Gi),
      (ChainZeroNetwork, 100 * Gi, 4 * Gi),
      (ChainZircuit, 200 * Gi, 4 * Gi),
      (ChainImmutableZkEVM, 300 * Gi, 8 * Gi),
      (ChainWorldchain, 200 * Gi, 4 * Gi),
      (ChainUnichain, 200 * Gi, 4 * Gi),
      (ChainLens, 100 * Gi, 4 * Gi),
      (ChainPlume, 100 * Gi, 4 * Gi),
      (ChainHemi, 200 * Gi, 4 * Gi),
      (ChainEthereumBeacon, 2000 * Gi, 16 * Gi),
      (ChainGnosisBeacon, 500 * Gi, 8 * Gi),
      (ChainAxelar, 500 * Gi, 8 * Gi),
      (ChainDymension, 300 * Gi, 8 * Gi),
      (ChainAurora, 500 * Gi, 8 * Gi),
      (ChainHarmony, 2000 * Gi, 8 * Gi),
      (ChainRootstock, 200 * Gi, 4 * Gi),
      (ChainTelos, 300 * Gi, 8 * Gi),
      (ChainKlaytn, 2000 * Gi, 16 * Gi),
      (ChainShibarium, 200 * Gi, 4 * Gi),
      (ChainCore, 500 * Gi, 8 * Gi),
      (ChainHaqq, 500 * Gi, 8 * Gi),
      (ChainHashKey, 200 * Gi, 4 * Gi),
      (ChainEthereumClassic, 1000 * Gi, 8 * Gi),
      (ChainBitTorrent, 500 * Gi, 8 * Gi),
      (ChainGravityAlpha, 200 * Gi, 4 * Gi),
      (ChainMoca, 100 * Gi, 4 * Gi),
      (ChainEverclear, 100 * Gi, 4 * Gi),
      (ChainDoma, 100 * Gi, 4 * Gi),
      (ChainCronosZkEVM, 200 * Gi, 4 * Gi),
      (ChainSonic, 500 * Gi, 8 * Gi),
      (ChainGoat, 200 * Gi, 4 * Gi),
      (ChainKatana, 100 * Gi, 4 * Gi),
      (ChainMezo, 100 * Gi, 4 * Gi),
      (ChainPlasma, 100 * Gi, 4 * Gi),
      (ChainPlaynance, 100 * Gi, 4 * Gi),
      (ChainKusama, 2000 * Gi, 16 * Gi),
      (ChainHyperliquid, 2000 * Gi, 32 * Gi),
      (ChainMonad, 500 * Gi, 16 * Gi),
      (ChainOpBNB, 500 * Gi, 8 * Gi),
      (ChainFuse, 300 * Gi, 4 * Gi),
      (ChainThundercore, 500 * Gi, 8 * Gi),
      (ChainWemix, 500 * Gi, 8 * Gi),
      (ChainViction, 500 * Gi, 8 * Gi)]"

definition validationRegistry :: "Chain \<Rightarrow> chainConstraints option" where
  "validationRegistry c =
     map_option (\<lambda>(s, m). \<lparr>MinStorage = s, MinMemory = m\<rparr>) (map_of validationTable c)"

definition supportedNetworks :: "Network \<Rightarrow> bool" where
  "supportedNetworks n \<longleftrightarrow> n \<in> {NetworkMainnet, NetworkTestnet, NetworkDevnet}"

text \<open>\<open>supportedChains\<close> has the keys of the registry.\<close>

definition supportedChains :: "Chain \<Rightarrow> bool" where
  "supportedChains c \<longleftrightarrow> c \<in> set (map fst validationTable)"

definition supportedChainNames :: "string list" where
  "supportedChainNames =
     [ChainEthereum, ChainEthereumArchive, ChainBitcoin, ChainSolana, ChainBSC, ChainTRON,
      ChainPolygon, ChainAvalanche, ChainLitecoin, ChainXRP, ChainStellar, ChainDash, ChainTON,
      ChainCosmos, ChainNear, ChainSui, ChainAptos, ChainCardano, ChainArbitrum, ChainOptimism,
      ChainBase, ChainBerachain, ChainCronos, ChainRonin, ChainCelo, ChainFantom, ChainGnosis,
      ChainMantle, ChainBlast, ChainMode, ChainZora, ChainTaiko, ChainZkSync, ChainLinea,
      ChainScroll, ChainDogecoin, ChainOsmosis, ChainSei, ChainEvmos, ChainKava, ChainPolkadot,
      ChainStarknet, ChainFilecoin, ChainFraxtal, ChainLisk, ChainKroma, ChainBob, ChainBobaEth,
      ChainSoneium, ChainSwell, ChainSuperseed, ChainInk, ChainMorph, ChainAbstract, ChainMegaETH,
      ChainZeroNetwork, ChainZircuit, ChainImmutableZkEVM, ChainWorldchain, ChainUnichain, ChainLens,
      ChainPlume, ChainHemi, ChainAxelar, ChainDymension, ChainAurora, ChainHarmony, ChainRootstock,
      ChainTelos, ChainKlaytn, ChainShibarium, ChainCore, ChainHaqq, ChainHashKey,
      ChainEthereumClassic, ChainBitTorrent, ChainGravityAlpha, ChainMoca, ChainEverclear, ChainDoma,
      ChainCronosZkEVM, ChainSonic, ChainGoat, ChainKatana, ChainMezo, ChainPlasma, ChainPlaynance,
      ChainKusama, ChainHyperliquid, ChainMonad, ChainEthereumBeacon, ChainGnosisBeacon, ChainOpBNB,
      ChainFuse, ChainThundercore, ChainWemix, ChainViction]"

subsection \<open>Spec validation\<close>

datatype FieldError =
    NotSupported string string "string list"
  | Invalid string string string
  | Forbidden string string
  | Required string string

type_synonym admission = "string list \<times> (FieldError list + unit)"

text \<open>The verb \<open>%q\<close> on printable text without quotes or backslashes.\<close>

definition quoted :: "string \<Rightarrow> string" where
  "quoted s = [CHR 0x22] @ s @ [CHR 0x22]"

definition below_minimum :: "string \<Rightarrow> string \<Rightarrow> string \<Rightarrow> Chain \<Rightarrow> string" where
  "below_minimum path got want chain =
     path @ '' '' @ got @ '' is below the recommended minimum of '' @ want @ '' for chain '' @ quoted chain"

definition validateChainInstanceSpec :: "(quantity \<Rightarrow> string) \<Rightarrow> ChainInstance \<Rightarrow> admission" where
  "validateChainInstanceSpec qs node =
     (let spec = ciSpec node; chain = spChain spec; size = stSize (spStorage spec);
          limMem = quantity_of (rrLimits (spResources spec)) ''memory'';
          reqMem = quantity_of (rrRequests (spResources spec)) ''memory'';
          constraints = validationRegistry chain;
          chainErrs = (if constraints = None
                       then [NotSupported ''spec.chain'' chain supportedChainNames] else []);
          networkErrs = (if \<not> supportedNetworks (spNetwork spec)
                         then [NotSupported ''spec.network'' (spNetwork spec)
                                 [NetworkMainnet, NetworkTestnet, NetworkDevnet]] else []);
          sizeErrs = (if size \<le> 0
                      then [Invalid ''spec.storage.size'' (qs size)
                              ''storage size must be greater than 0''] else []);
          storageWarn = (case constraints of None \<Rightarrow> []
            | Some k \<Rightarrow> if 0 < size \<and> size < MinStorage k
                then [below_minimum ''spec.storage.size'' (qs size) (qs (MinStorage k)) chain] else []);
          memoryWarn = (case constraints of None \<Rightarrow> []
            | Some k \<Rightarrow> if MinMemory k \<noteq> 0 then
                  (if limMem \<noteq> 0 \<and> limMem < MinMemory k
                   then [below_minimum ''spec.resources.limits.memory'' (qs limMem) (qs (MinMemory k)) chain]
                   else []) @
                  (if reqMem \<noteq> 0 \<and> reqMem < MinMemory k
                   then [below_minimum ''spec.resources.requests.memory'' (qs reqMem) (qs (MinMemory k)) chain]
                   else [])
                else []);
          allErrs = chainErrs @ networkErrs @ sizeErrs;
          warnings = storageWarn @ memoryWarn
      in if allErrs \<noteq> [] then (warnings, Inl allErrs) else (warnings, Inr ()))"

subsection \<open>The validator\<close>

text \<open>The object of an admission request, as the type assertion sees it.\<close>

datatype RuntimeObject = ObjChainInstance ChainInstance | ObjOther string

record ChainInstanceValidator =
  vDefaultImage :: "(Chain \<Rightarrow> string \<Rightarrow> string) option"

definition validateImage :: "ChainInstanceValidator \<Rightarrow> ChainInstance \<Rightarrow> FieldError option" where
  "validateImage v node =
     (case vDefaultImage v of
        None \<Rightarrow> None
      | Some defaultImage \<Rightarrow>
          if (case spImage (ciSpec node) of None \<Rightarrow> False | Some im \<Rightarrow> imRepository im \<noteq> []) then None
          else if defaultImage (spChain (ciSpec node)) (spClient (ciSpec node)) \<noteq> [] then None
          else Some (Required ''spec.image''
                 (''chain '' @ quoted (spChain (ciSpec node)) @ '' has no public default image; set spec.image'')))"

text \<open>The error of a failed type assertion.\<close>

definition wrong_type :: "string \<Rightarrow> FieldError list" where
  "wrong_type ty = [Invalid [] ty (''expected a ChainInstance object but got '' @ ty)]"

definition ValidateCreate ::
    "(quantity \<Rightarrow> string) \<Rightarrow> ChainInstanceValidator \<Rightarrow> RuntimeObject \<Rightarrow> admission" where
  "ValidateCreate qs v obj =
     (case obj of
        ObjOther ty \<Rightarrow> ([], Inl (wrong_type ty))
      | ObjChainInstance node \<Rightarrow>
          (let (warnings, err) = validateChainInstanceSpec qs node
           in case err of
                Inl e \<Rightarrow> (warnings, Inl e)
              | Inr _ \<Rightarrow> (case validateImage v node of
                    Some imgErr \<Rightarrow> (warnings, Inl [imgErr])
                  | None \<Rightarrow> (warnings, Inr ()))))"

definition ValidateUpdate ::
    "(quantity \<Rightarrow> string) \<Rightarrow> ChainInstanceValidator \<Rightarrow> RuntimeObject \<Rightarrow> RuntimeObject \<Rightarrow> admission" where
  "ValidateUpdate qs v oldObj newObj =
     (case oldObj of
        ObjOther ty \<Rightarrow> ([], Inl (wrong_type ty))
      | ObjChainInstance oldNode \<Rightarrow>
     (case newObj of
        ObjOther ty \<Rightarrow> ([], Inl (wrong_type ty))
      | ObjChainInstance newNode \<Rightarrow>
          (let chainErrs = (if spChain (ciSpec oldNode) \<noteq> spChain (ciSpec newNode)
                 then [Forbidden ''spec.chain'' ''chain is immutable and cannot be changed after creation'']
                 else []);
               networkErrs = (if spNetwork (ciSpec oldNode) \<noteq> spNetwork (ciSpec newNode)
                 then [Forbidden ''spec.network'' ''network is immutable and cannot be changed after creation'']
                 else []);
               (warnings, specErr) = validateChainInstanceSpec qs newNode
           in case specErr of
                Inl e \<Rightarrow> (warnings, Inl e)
              | Inr _ \<Rightarrow>
                  (let imageErrs = (case validateImage v newNode of None \<Rightarrow> [] | Some e \<Rightarrow> [e]);
                       allErrs = chainErrs @ networkErrs @ imageErrs
                   in if allErrs \<noteq> [] then (warnings, Inl allErrs) else (warnings, Inr ())))))"

definition ValidateDelete :: "ChainInstanceValidator \<Rightarrow> RuntimeObject \<Rightarrow> admission" where
  "ValidateDelete v obj =
     (case obj of ObjOther ty \<Rightarrow> ([], Inl (wrong_type ty)) | ObjChainInstance node \<Rightarrow> ([], Inr ()))"

text \<open>A request is admitted when the validator returns no error.\<close>

definition admitted :: "admission \<Rightarrow> bool" where
  "admitted r \<longleftrightarrow> snd r = Inr ()"

subsection \<open>What admission guarantees\<close>

text \<open>The hard constraints on a spec, as one predicate.\<close>

definition valid_spec :: "ChainInstanceSpec \<Rightarrow> bool" where
  "valid_spec s \<longleftrightarrow> supportedChains (spChain s) \<and> supportedNetworks (spNetwork s) \<and>
     0 < stSize (spStorage s)"

text \<open>An image to run: an explicit repository, or a default of the operator.\<close>

definition has_image :: "ChainInstanceValidator \<Rightarrow> ChainInstanceSpec \<Rightarrow> bool" where
  "has_image v s \<longleftrightarrow> (case vDefaultImage v of None \<Rightarrow> True
     | Some f \<Rightarrow> (\<exists>im. spImage s = Some im \<and> imRepository im \<noteq> []) \<or> f (spChain s) (spClient s) \<noteq> [])"

lemma validationRegistry_None: "validationRegistry c = None \<longleftrightarrow> \<not> supportedChains c"
  by (simp add: validationRegistry_def supportedChains_def map_of_eq_None_iff)

lemma validate_spec_admitted:
  "admitted (validateChainInstanceSpec qs node) \<longleftrightarrow> valid_spec (ciSpec node)"
  by (auto simp: admitted_def validateChainInstanceSpec_def valid_spec_def Let_def
      validationRegistry_None not_le)

lemma validate_spec_cases:
  "snd (validateChainInstanceSpec qs node) = Inr () \<longleftrightarrow> valid_spec (ciSpec node)"
  using validate_spec_admitted by (simp add: admitted_def)

lemma validateImage_None: "validateImage v node = None \<longleftrightarrow> has_image v (ciSpec node)"
  by (auto simp: validateImage_def has_image_def split: option.splits)

lemma ValidateUpdate_nodes:
  "admitted (ValidateUpdate qs v (ObjChainInstance old) (ObjChainInstance new)) \<longleftrightarrow>
     valid_spec (ciSpec new) \<and> has_image v (ciSpec new) \<and>
     spChain (ciSpec new) = spChain (ciSpec old) \<and> spNetwork (ciSpec new) = spNetwork (ciSpec old)"
  using validate_spec_cases [of qs new] validateImage_None [of v new]
  by (auto simp: ValidateUpdate_def admitted_def Let_def split: prod.splits sum.splits option.splits)

text \<open>The successive objects of a resource: each update of the history was admitted.\<close>

fun admitted_history ::
    "(quantity \<Rightarrow> string) \<Rightarrow> ChainInstanceValidator \<Rightarrow> ChainInstance \<Rightarrow> ChainInstance list \<Rightarrow> bool" where
  "admitted_history qs v n [] = True"
| "admitted_history qs v n (m # ms) =
     (admitted (ValidateUpdate qs v (ObjChainInstance n) (ObjChainInstance m)) \<and>
      admitted_history qs v m ms)"

lemma admitted_history_step:
  "admitted_history qs v n ms \<Longrightarrow> m \<in> set ms \<Longrightarrow>
     spChain (ciSpec m) = spChain (ciSpec n) \<and> spNetwork (ciSpec m) = spNetwork (ciSpec n) \<and>
     valid_spec (ciSpec m) \<and> has_image v (ciSpec m)"
proof (induction ms arbitrary: n)
  case (Cons x xs)
  then have x: "spChain (ciSpec x) = spChain (ciSpec n)" "spNetwork (ciSpec x) = spNetwork (ciSpec n)"
    "valid_spec (ciSpec x)" "has_image v (ciSpec x)" and xs: "admitted_history qs v x xs"
    by (auto simp: ValidateUpdate_nodes)
  show ?case
  proof (cases "m = x")
    case False
    with Cons.prems have "m \<in> set xs" by simp
    from Cons.IH [OF xs this] x show ?thesis by simp
  qed (simp add: x)
qed simp

subsection \<open>Properties\<close>

text \<open>The quantities a spec gives that have a minimum on its chain, each with its field and the minimum.\<close>

definition recommended :: "ChainInstanceSpec \<Rightarrow> (string \<times> quantity \<times> quantity) list" where
  "recommended s = (case validationRegistry (spChain s) of
     None \<Rightarrow> []
   | Some k \<Rightarrow> filter (\<lambda>(_, got, want). got \<noteq> 0 \<and> want \<noteq> 0)
       [(''spec.storage.size'', max 0 (stSize (spStorage s)), MinStorage k),
        (''spec.resources.limits.memory'', quantity_of (rrLimits (spResources s)) ''memory'', MinMemory k),
        (''spec.resources.requests.memory'', quantity_of (rrRequests (spResources s)) ''memory'', MinMemory k)])"

lemma create_warnings:
  "fst (ValidateCreate qs v (ObjChainInstance node)) =
     map (\<lambda>(field, got, want). below_minimum field (qs got) (qs want) (spChain (ciSpec node)))
       (filter (\<lambda>(_, got, want). got < want) (recommended (ciSpec node)))"
proof -
  have "fst (ValidateCreate qs v (ObjChainInstance node)) = fst (validateChainInstanceSpec qs node)"
    by (simp add: ValidateCreate_def split: prod.splits sum.splits option.splits)
  moreover have "map f (filter P (filter Q [x, y, z])) =
      (if Q x \<and> P x then [f x] else []) @ (if Q y \<and> P y then [f y] else []) @ (if Q z \<and> P z then [f z] else [])"
    for f :: "string \<times> quantity \<times> quantity \<Rightarrow> string" and P Q x y z by simp
  moreover have "fst (if es \<noteq> [] then (ws, Inl es) else (ws, Inr ())) = ws" for es :: "FieldError list" and ws :: "string list" by simp
  ultimately show ?thesis
    unfolding validateChainInstanceSpec_def recommended_def Let_def
    by (cases "validationRegistry (spChain (ciSpec node))") (simp_all only: option.case prod.case list.map filter.simps append_Nil if_cancel, (simp add: max_def)?)
qed


text \<open>
  C24: Through any history of admitted updates the chain and the network of a resource stay what
  they were at the start, and every version satisfies the hard constraints on specs.
\<close>

theorem updates_preserve_identity:
  assumes "admitted_history qs v n ms" "m \<in> set ms"
  shows "spChain (ciSpec m) = spChain (ciSpec n) \<and> spNetwork (ciSpec m) = spNetwork (ciSpec n) \<and>
         valid_spec (ciSpec m) \<and> has_image v (ciSpec m)"
  using assms by (rule admitted_history_step)

definition admitted_node :: ChainInstance where
  "admitted_node = zero_node\<lparr>ciSpec := zero_spec\<lparr>spChain := ChainBitcoin, spNetwork := NetworkMainnet,
     spStorage := \<lparr>stSize = 600 * Gi, stStorageClass = []\<rparr>\<rparr>\<rparr>"

lemma admitted_node_valid:
  "valid_spec (ciSpec admitted_node)" "has_image \<lparr>vDefaultImage = None\<rparr> (ciSpec admitted_node)"
  by (simp_all add: admitted_node_def valid_spec_def supportedChains_def validationTable_def
      supportedNetworks_def has_image_def)

theorem updates_preserve_identity_witness:
  "admitted_history (\<lambda>_. []) \<lparr>vDefaultImage = None\<rparr> admitted_node [admitted_node, admitted_node] \<and>
   spChain (ciSpec admitted_node) = ChainBitcoin \<and> valid_spec (ciSpec admitted_node)"
proof -
  have h: "admitted_history (\<lambda>_. []) \<lparr>vDefaultImage = None\<rparr> admitted_node [admitted_node, admitted_node]"
    by (simp add: ValidateUpdate_nodes admitted_node_valid)
  from updates_preserve_identity [OF h, of admitted_node] h show ?thesis
    by (simp add: admitted_node_def)
qed

text \<open>
  The validation registry has exactly one entry for each declared chain constant and no
  other entry, so every chain of the API is accepted and nothing else is.
\<close>

lemma registry_covers_constants:
  "set (map fst validationTable) = set chainConstants \<and> distinct (map fst validationTable) \<and>
   length validationTable = 102"
  by code_simp

text \<open>
  The list of supported chains shown in the rejection message leaves out five chains that
  the registry accepts.
\<close>

theorem supportedChainNames_incomplete:
  "filter (\<lambda>c. c \<notin> set supportedChainNames) (map fst validationTable) =
     [ChainMoonbeam, ChainMoonriver, ChainPolygonZkEVM, ChainMantaPacific, ChainMetis]"
  by code_simp

end
