(* ===== verification/Kube.thy ===== *)
theory Kube
  imports Api_Types
begin

text \<open>
  The environment the operator runs in. None of it is code of the repository: the clock and
  the context of a call (\<open>time\<close>, \<open>context\<close>) and the Kubernetes client (controller-runtime's
  \<open>client.Client\<close>) are records of operations over a world \<open>'w\<close>, and every model of an
  effectful function takes the record as an argument.

  Two ways to speak about the environment follow.

  \<^item> \<open>traced K\<close> is any client with a log of the write requests and their outcomes: what is
    proved of a log holds for every environment, faulty or not.
  \<^item> the locale \<open>kube_api\<close> states what the API server documents about single requests when no
    other writer interferes, over a view of the stored objects; the in-memory server
    \<open>mem_kube\<close> satisfies it.
\<close>

subsection \<open>Clock and context\<close>

text \<open>
  A context is its deadline, if it has one. \<open>gWait ctx d\<close> is
  \<open>select { case <-time.After(d): case <-ctx.Done(): }\<close>; the left value is \<open>ctx.Err()\<close>.
\<close>

type_synonym ctx = "time option"

record 'w go_env =
  gNow :: "('w, time) state"
  gWait :: "ctx \<Rightarrow> duration \<Rightarrow> ('w, goerr + unit) state"

text \<open>\<open>context.WithTimeout(ctx, d)\<close> called at time \<open>now\<close>: deadlines only shrink.\<close>

definition WithTimeout :: "ctx \<Rightarrow> time \<Rightarrow> duration \<Rightarrow> ctx" where
  "WithTimeout c now d = Some (case c of None \<Rightarrow> now + d | Some dl \<Rightarrow> min dl (now + d))"

subsection \<open>The client\<close>

record 'w kube = "'w go_env" +
  kGetNode :: "string \<Rightarrow> string \<Rightarrow> ('w, goerr + ChainInstance) state"
  kPatchNode :: "ChainInstance \<Rightarrow> ChainInstance \<Rightarrow> ('w, goerr + ChainInstance) state"
  kGetPod :: "string \<Rightarrow> string \<Rightarrow> ('w, goerr + Pod) state"
  kPatchPod :: "Pod \<Rightarrow> Pod \<Rightarrow> ('w, goerr + Pod) state"
  kCreatePod :: "Pod \<Rightarrow> ('w, goerr + Pod) state"
  kDeletePod :: "int option \<Rightarrow> Pod \<Rightarrow> ('w, goerr + unit) state"
  kGetPVC :: "string \<Rightarrow> string \<Rightarrow> ('w, goerr + PersistentVolumeClaim) state"
  kDeletePVC :: "PersistentVolumeClaim \<Rightarrow> ('w, goerr + unit) state"
  kListServices :: "string \<Rightarrow> ('w, goerr + Service list) state"
  kListSlices :: "string \<Rightarrow> string \<Rightarrow> ('w, goerr + EndpointSlice list) state"

text \<open>
  Conventions: objects are addressed by namespace and name; \<open>kPatchNode base new\<close> is
  \<open>Patch(ctx, new, client.MergeFrom(base))\<close> and returns the object as the server answers it;
  \<open>kDeletePod\<close> carries the grace period option; \<open>kListSlices ns svc\<close> lists the slices labelled
  with the service name.
\<close>

subsection \<open>Write requests\<close>

datatype write_request =
    PatchNode string string strmap
  | PatchPod string string strmap
  | CreatePod string string strmap
  | DeletePod string string
  | DeletePVC string string

type_synonym write_log = "(write_request \<times> bool) list"

definition ok :: "'e + 'a \<Rightarrow> bool" where
  "ok r = (case r of Inl _ \<Rightarrow> False | Inr _ \<Rightarrow> True)"

lemma ok_simps [simp]: "\<not> ok (Inl e)" "ok (Inr v)"
  by (simp_all add: ok_def)

text \<open>Lift an action to a world with a log, and append an entry to the log.\<close>

definition lift_log :: "('w, 'a) state \<Rightarrow> ('w \<times> 'l, 'a) state" where
  "lift_log m = State (\<lambda>(w, l). case run_state m w of (a, w') \<Rightarrow> (a, (w', l)))"

definition log_write ::
    "write_request \<Rightarrow> ('w, 'e + 'a) state \<Rightarrow> ('w \<times> write_log, 'e + 'a) state" where
  "log_write ev m = State (\<lambda>(w, l). case run_state m w of (a, w') \<Rightarrow> (a, (w', l @ [(ev, ok a)])))"

definition traced :: "'w kube \<Rightarrow> ('w \<times> write_log) kube" where
  "traced K = \<lparr>
     gNow = lift_log (gNow K),
     gWait = (\<lambda>c d. lift_log (gWait K c d)),
     kGetNode = (\<lambda>ns n. lift_log (kGetNode K ns n)),
     kPatchNode = (\<lambda>b n. log_write (PatchNode (nodeNamespace n) (nodeName n) (nodeAnnotations n))
                            (kPatchNode K b n)),
     kGetPod = (\<lambda>ns n. lift_log (kGetPod K ns n)),
     kPatchPod = (\<lambda>b p. log_write (PatchPod (mNamespace (podMeta p)) (mName (podMeta p)) (mLabels (podMeta p)))
                            (kPatchPod K b p)),
     kCreatePod = (\<lambda>p. log_write (CreatePod (mNamespace (podMeta p)) (mName (podMeta p)) (mLabels (podMeta p)))
                            (kCreatePod K p)),
     kDeletePod = (\<lambda>g p. log_write (DeletePod (mNamespace (podMeta p)) (mName (podMeta p)))
                            (kDeletePod K g p)),
     kGetPVC = (\<lambda>ns n. lift_log (kGetPVC K ns n)),
     kDeletePVC = (\<lambda>p. log_write (DeletePVC (mNamespace (pvcMeta p)) (mName (pvcMeta p)))
                            (kDeletePVC K p)),
     kListServices = (\<lambda>ns. lift_log (kListServices K ns)),
     kListSlices = (\<lambda>ns s. lift_log (kListSlices K ns s))\<rparr>"

lemma wp_lift_log [simp]:
  "wp (lift_log m) Q (w, l) = wp m (\<lambda>a w'. Q a (w', l)) w"
  by (simp add: wp_def lift_log_def split: prod.splits)

lemma wp_log_write [simp]:
  "wp (log_write ev m) Q (w, l) = wp m (\<lambda>a w'. Q a (w', l @ [(ev, ok a)])) w"
  by (simp add: wp_def log_write_def split: prod.splits)

lemma wp_any: "(\<And>a w'. Q a w') \<Longrightarrow> wp m Q w"
  by (simp add: wp_def split: prod.splits)

text \<open>The requests of an arbitrary client: nothing is known of their outcome.\<close>

lemmas client_any =
  wp_any [where m = "gNow K" for K] wp_any [where m = "gWait K c d" for K c d]
  wp_any [where m = "kGetNode K ns n" for K ns n] wp_any [where m = "kPatchNode K b n" for K b n]
  wp_any [where m = "kGetPod K ns n" for K ns n] wp_any [where m = "kPatchPod K b n" for K b n]
  wp_any [where m = "kCreatePod K p" for K p] wp_any [where m = "kDeletePod K g p" for K g p]
  wp_any [where m = "kGetPVC K ns n" for K ns n] wp_any [where m = "kDeletePVC K p" for K p]
  wp_any [where m = "kListServices K ns" for K ns] wp_any [where m = "kListSlices K ns s" for K ns s]

lemma traced_simps [simp]:
  "gNow (traced K) = lift_log (gNow K)"
  "gWait (traced K) c d = lift_log (gWait K c d)"
  "kGetNode (traced K) ns n = lift_log (kGetNode K ns n)"
  "kPatchNode (traced K) b nd =
     log_write (PatchNode (nodeNamespace nd) (nodeName nd) (nodeAnnotations nd)) (kPatchNode K b nd)"
  "kGetPod (traced K) ns n = lift_log (kGetPod K ns n)"
  "kPatchPod (traced K) bp p =
     log_write (PatchPod (mNamespace (podMeta p)) (mName (podMeta p)) (mLabels (podMeta p))) (kPatchPod K bp p)"
  "kCreatePod (traced K) p =
     log_write (CreatePod (mNamespace (podMeta p)) (mName (podMeta p)) (mLabels (podMeta p))) (kCreatePod K p)"
  "kDeletePod (traced K) g p =
     log_write (DeletePod (mNamespace (podMeta p)) (mName (podMeta p))) (kDeletePod K g p)"
  "kGetPVC (traced K) ns n = lift_log (kGetPVC K ns n)"
  "kDeletePVC (traced K) q =
     log_write (DeletePVC (mNamespace (pvcMeta q)) (mName (pvcMeta q))) (kDeletePVC K q)"
  "kListServices (traced K) ns = lift_log (kListServices K ns)"
  "kListSlices (traced K) ns n = lift_log (kListSlices K ns n)"
  by (simp_all add: traced_def)

text \<open>An action of the traced world that sends no write request.\<close>

definition silent :: "('w \<times> 'l, 'a) state \<Rightarrow> bool" where
  "silent m \<longleftrightarrow> (\<forall>w l. wp m (\<lambda>_ (w', l'). l' = l) (w, l))"

lemma silentD: "silent m \<Longrightarrow> (\<And>a w'. Q a (w', l)) \<Longrightarrow> wp m Q (w, l)"
  unfolding silent_def by (blast intro: wp_mono)

lemma silentI: "(\<And>w l. wp m (\<lambda>_ (w', l'). l' = l) (w, l)) \<Longrightarrow> silent m"
  by (simp add: silent_def)

lemma silent_lift_log [simp]: "silent (lift_log m)"
  by (rule silentI) (auto intro: wp_any)

lemma silent_ret [simp]: "silent (ret a)"
  by (rule silentI) simp

lemma silent_bind: "silent m \<Longrightarrow> (\<And>a. silent (f a)) \<Longrightarrow> silent (State_Monad.bind m f)"
  by (rule silentI) (auto simp: silent_def intro!: silentD [of m] elim: wp_mono)

subsection \<open>What the API server promises\<close>

text \<open>
  The stored objects, by namespace and name. Pods being deleted stay in the store with a
  deletion timestamp until their grace period ends.
\<close>

type_synonym objkey = "string \<times> string"

record cluster =
  clNodes :: "objkey \<Rightarrow> ChainInstance option"
  clPods :: "objkey \<Rightarrow> Pod option"
  clPVCs :: "objkey \<Rightarrow> PersistentVolumeClaim option"

abbreviation nodeKey :: "ChainInstance \<Rightarrow> objkey" where
  "nodeKey n \<equiv> (nodeNamespace n, nodeName n)"

abbreviation podKey :: "Pod \<Rightarrow> objkey" where
  "podKey p \<equiv> (mNamespace (podMeta p), mName (podMeta p))"

definition same_map :: "strmap \<Rightarrow> strmap \<Rightarrow> bool" where
  "same_map a b \<longleftrightarrow> map_of a = map_of b"

lemma same_map_mget: "same_map a b \<Longrightarrow> mget a = mget b"
  by (simp add: same_map_def mget_def fun_eq_iff)

lemma same_map_refl [simp]: "same_map a a"
  by (simp add: same_map_def)

text \<open>A pod that is gone, or on its way out.\<close>

definition pod_removed :: "cluster \<Rightarrow> objkey \<Rightarrow> bool" where
  "pod_removed c k = (case clPods c k of None \<Rightarrow> True | Some p \<Rightarrow> mDeletionTimestamp (podMeta p) \<noteq> None)"

text \<open>
  Documented behaviour of single requests when no other client writes meanwhile: reads
  return the stored object or an error that says whether it is missing; a merge patch whose
  base is the stored object makes the metadata maps those of the new object and leaves the
  rest of the store alone; a create adds the object or reports that it exists; a delete
  removes the object or stamps it; a request that fails changes nothing, and says that an
  object is missing only when it is; waiting and reading
  the clock change no object.
\<close>

locale kube_api =
  fixes K :: "'w kube" and V :: "'w \<Rightarrow> cluster"
  assumes now_law: "wp (gNow K) (\<lambda>_ w'. V w' = V w) w"
    and wait_law: "wp (gWait K c d) (\<lambda>_ w'. V w' = V w) w"
    and get_node_law: "wp (kGetNode K ns n) (\<lambda>r w'. V w' = V w \<and>
          (case r of Inr nd \<Rightarrow> clNodes (V w) (ns, n) = Some nd \<and> nodeKey nd = (ns, n)
                   | Inl e \<Rightarrow> IsNotFound e \<longrightarrow> clNodes (V w) (ns, n) = None)) w"
    and patch_node_law: "clNodes (V w) (nodeKey b) = Some b \<Longrightarrow> nodeKey nd = nodeKey b \<Longrightarrow>
          wp (kPatchNode K b nd) (\<lambda>r w'.
            case r of Inl e \<Rightarrow> V w' = V w \<and> \<not> IsNotFound e
            | Inr nd' \<Rightarrow> nodeKey nd' = nodeKey nd \<and> same_map (nodeAnnotations nd') (nodeAnnotations nd) \<and>
                V w' = (V w)\<lparr>clNodes := (clNodes (V w))(nodeKey nd \<mapsto> nd')\<rparr>) w"
    and get_pod_law: "wp (kGetPod K ns n) (\<lambda>r w'. V w' = V w \<and>
          (case r of Inr p \<Rightarrow> clPods (V w) (ns, n) = Some p \<and> podKey p = (ns, n)
                   | Inl e \<Rightarrow> IsNotFound e \<longrightarrow> clPods (V w) (ns, n) = None)) w"
    and patch_pod_law: "clPods (V w) (podKey bp) = Some bp \<Longrightarrow> podKey p = podKey bp \<Longrightarrow>
          wp (kPatchPod K bp p) (\<lambda>r w'.
            case r of Inl e \<Rightarrow> V w' = V w \<and> \<not> IsNotFound e
            | Inr p' \<Rightarrow> podKey p' = podKey p \<and> same_map (mLabels (podMeta p')) (mLabels (podMeta p)) \<and>
                V w' = (V w)\<lparr>clPods := (clPods (V w))(podKey p \<mapsto> p')\<rparr>) w"
    and create_pod_law: "wp (kCreatePod K p) (\<lambda>r w'.
            case r of Inl e \<Rightarrow> V w' = V w \<and> (IsAlreadyExists e \<longrightarrow> clPods (V w) (podKey p) \<noteq> None)
            | Inr p' \<Rightarrow> podKey p' = podKey p \<and> same_map (mLabels (podMeta p')) (mLabels (podMeta p)) \<and>
                V w' = (V w)\<lparr>clPods := (clPods (V w))(podKey p \<mapsto> p')\<rparr>) w"
    and delete_pod_law: "wp (kDeletePod K g p) (\<lambda>r w'.
            case r of Inl e \<Rightarrow> V w' = V w \<and> (IsNotFound e \<longrightarrow> clPods (V w) (podKey p) = None)
            | Inr _ \<Rightarrow> pod_removed (V w') (podKey p) \<and>
                (\<exists>po. V w' = (V w)\<lparr>clPods := (clPods (V w))(podKey p := po)\<rparr>)) w"
    and get_pvc_law: "wp (kGetPVC K ns n) (\<lambda>_ w'. V w' = V w) w"
    and delete_pvc_law: "wp (kDeletePVC K q) (\<lambda>_ w'. clNodes (V w') = clNodes (V w) \<and> clPods (V w') = clPods (V w)) w"
    and list_services_law: "wp (kListServices K ns) (\<lambda>_ w'. V w' = V w) w"
    and list_slices_law: "wp (kListSlices K ns n) (\<lambda>_ w'. V w' = V w) w"

subsection \<open>An in-memory server\<close>

text \<open>
  A server that answers every request at once and never fails; time advances by the length
  of each wait. It carries the concrete runs of the development.
\<close>

record mem =
  mNow :: time
  mNodes :: "(objkey \<times> ChainInstance) list"
  mPods :: "(objkey \<times> Pod) list"
  mPVCs :: "(objkey \<times> PersistentVolumeClaim) list"
  mServices :: "Service list"
  mSlices :: "(string \<times> EndpointSlice) list"

definition notFound :: goerr where "notFound = ApiErr ReasonNotFound ''not found''"
definition alreadyExists :: goerr where "alreadyExists = ApiErr ReasonAlreadyExists ''already exists''"

definition lookup_or :: "goerr \<Rightarrow> ('k \<times> 'a) list \<Rightarrow> 'k \<Rightarrow> goerr + 'a" where
  "lookup_or e m k = (case map_of m k of None \<Rightarrow> Inl e | Some v \<Rightarrow> Inr v)"

definition mem_kube :: "mem kube" where
  "mem_kube = \<lparr>
     gNow = State (\<lambda>w. (mNow w, w)),
     gWait = (\<lambda>c d. State (\<lambda>w.
        if (case c of None \<Rightarrow> False | Some dl \<Rightarrow> dl < mNow w + d)
        then (Inl (GoErr ''context deadline exceeded''), w\<lparr>mNow := max (mNow w) (the c)\<rparr>)
        else (Inr (), w\<lparr>mNow := mNow w + max 0 d\<rparr>))),
     kGetNode = (\<lambda>ns n. State (\<lambda>w.
        (case map_of (mNodes w) (ns, n) of
           None \<Rightarrow> Inl notFound
         | Some nd \<Rightarrow> if nodeKey nd = (ns, n) then Inr nd else Inl (GoErr ''corrupt object''), w))),
     kPatchNode = (\<lambda>b n. State (\<lambda>w.
        case map_of (mNodes w) (nodeKey n) of
          None \<Rightarrow> (Inl notFound, w)
        | Some old \<Rightarrow> (Inr n, w\<lparr>mNodes := AList.update (nodeKey n) n (mNodes w)\<rparr>))),
     kGetPod = (\<lambda>ns n. State (\<lambda>w.
        (case map_of (mPods w) (ns, n) of
           None \<Rightarrow> Inl notFound
         | Some p \<Rightarrow> if podKey p = (ns, n) then Inr p else Inl (GoErr ''corrupt object''), w))),
     kPatchPod = (\<lambda>b p. State (\<lambda>w.
        case map_of (mPods w) (podKey p) of
          None \<Rightarrow> (Inl notFound, w)
        | Some old \<Rightarrow> (Inr p, w\<lparr>mPods := AList.update (podKey p) p (mPods w)\<rparr>))),
     kCreatePod = (\<lambda>p. State (\<lambda>w.
        case map_of (mPods w) (podKey p) of
          Some old \<Rightarrow> (Inl alreadyExists, w)
        | None \<Rightarrow> (Inr p, w\<lparr>mPods := AList.update (podKey p) p (mPods w)\<rparr>))),
     kDeletePod = (\<lambda>g p. State (\<lambda>w.
        case map_of (mPods w) (podKey p) of
          None \<Rightarrow> (Inl notFound, w)
        | Some old \<Rightarrow> (Inr (), w\<lparr>mPods := AList.delete (podKey p) (mPods w)\<rparr>))),
     kGetPVC = (\<lambda>ns n. State (\<lambda>w. (lookup_or notFound (mPVCs w) (ns, n), w))),
     kDeletePVC = (\<lambda>p. State (\<lambda>w.
        (Inr (), w\<lparr>mPVCs := AList.delete (mNamespace (pvcMeta p), mName (pvcMeta p)) (mPVCs w)\<rparr>))),
     kListServices = (\<lambda>ns. State (\<lambda>w.
        (Inr (filter (\<lambda>s. mNamespace (svcMeta s) = ns) (mServices w)), w))),
     kListSlices = (\<lambda>ns svc. State (\<lambda>w.
        (Inr (map snd (filter (\<lambda>(s, e). s = svc \<and> mNamespace (esMeta e) = ns) (mSlices w))), w)))\<rparr>"

definition mem_view :: "mem \<Rightarrow> cluster" where
  "mem_view w = \<lparr>clNodes = map_of (mNodes w), clPods = map_of (mPods w), clPVCs = map_of (mPVCs w)\<rparr>"

lemma wp_State [simp]: "wp (State f) Q w = (case f w of (a, w') \<Rightarrow> Q a w')"
  by (simp add: wp_def)

lemma mem_view_simps [simp]:
  "clNodes (mem_view w) = map_of (mNodes w)"
  "clPods (mem_view w) = map_of (mPods w)"
  "clPVCs (mem_view w) = map_of (mPVCs w)"
  "mem_view (w\<lparr>mNow := t\<rparr>) = mem_view w"
  "mem_view (w\<lparr>mNodes := ns\<rparr>) = (mem_view w)\<lparr>clNodes := map_of ns\<rparr>"
  "mem_view (w\<lparr>mPods := ps\<rparr>) = (mem_view w)\<lparr>clPods := map_of ps\<rparr>"
  "mem_view (w\<lparr>mPVCs := qs\<rparr>) = (mem_view w)\<lparr>clPVCs := map_of qs\<rparr>"
  by (simp_all add: mem_view_def)

interpretation mem: kube_api mem_kube mem_view
  by unfold_locales
    (auto simp: mem_kube_def notFound_def alreadyExists_def pod_removed_def
                update_conv' delete_conv' split: option.splits)

text \<open>
  The same behaviour as a predicate on a client and its view, for statements outside the
  locale: \<^const>\<open>kube_api\<close> is that predicate.
\<close>

lemmas mem_kube_api = mem.kube_api_axioms

end
