(* ===== verification/Traffic.thy ===== *)
theory Traffic
  imports Kube
begin

text \<open>
  \<open>internal/health/traffic.go\<close>: the \<open>Drainer\<close> interface of the replacement workflow and its
  implementation by labels. A pod receives traffic while its label
  \<open>chains.chainplane.io/ready\<close> is \<open>true\<close>.
\<close>

abbreviation (input) LabelInstance :: string where "LabelInstance \<equiv> ''chains.chainplane.io/instance''"
abbreviation (input) LabelReplacementFor :: string where "LabelReplacementFor \<equiv> ''chains.chainplane.io/replacement-for''"
definition LabelReady :: string where "LabelReady = ''chains.chainplane.io/ready''"

subsection \<open>The Drainer interface\<close>

record 'w Drainer =
  drDrain :: "ctx \<Rightarrow> string \<Rightarrow> string \<Rightarrow> ('w, goerr + unit) state"
  drSwitchTraffic :: "ctx \<Rightarrow> string \<Rightarrow> string \<Rightarrow> string \<Rightarrow> ('w, goerr + unit) state"
  drValidateTraffic :: "ctx \<Rightarrow> string \<Rightarrow> string \<Rightarrow> ('w, goerr + bool) state"

subsection \<open>The label-based implementation\<close>

definition labelPropagationDelay :: duration where "labelPropagationDelay = 5 * Second"
definition defaultDrainTimeout :: duration where "defaultDrainTimeout = 30 * Second"
definition drainLogInterval :: duration where "drainLogInterval = 5 * Second"

definition set_pod_labels :: "strmap \<Rightarrow> Pod \<Rightarrow> Pod" where
  "set_pod_labels l p = p\<lparr>podMeta := (podMeta p)\<lparr>mLabels := l\<rparr>\<rparr>"

definition setPodLabel :: "'w kube \<Rightarrow> string \<Rightarrow> string \<Rightarrow> string \<Rightarrow> string \<Rightarrow> ('w, goerr + unit) state" where
  "setPodLabel K name ns key val = do {
     r \<leftarrow> kGetPod K ns name;
     case r of
       Inl e \<Rightarrow> ret (Inl e)
     | Inr pod \<Rightarrow> do {
         r' \<leftarrow> kPatchPod K pod (set_pod_labels (mset_key key val (mLabels (podMeta pod))) pod);
         ret (case r' of Inl e \<Rightarrow> Inl e | Inr _ \<Rightarrow> Inr ()) } }"

text \<open>\<open>logDrainStatus\<close>: reads the pod for the log.\<close>

definition logDrainStatus :: "'w kube \<Rightarrow> string \<Rightarrow> string \<Rightarrow> ('w, unit) state" where
  "logDrainStatus K name ns = do { _ \<leftarrow> kGetPod K ns name; ret () }"

text \<open>
  The polling loop of \<open>waitWithProgress\<close>. It ends when the deadline has passed; the fuel
  bounds the number of rounds, and running out of it is an error of its own that a clock
  which advances with the waits never lets happen.
\<close>

definition outOfFuel :: goerr where "outOfFuel = Sentinel ''wait loop: out of fuel''"

fun wait_loop :: "'w kube \<Rightarrow> ctx \<Rightarrow> time \<Rightarrow> nat \<Rightarrow> ('w, goerr + unit) state" where
  "wait_loop K c deadline 0 = ret (Inl outOfFuel)"
| "wait_loop K c deadline (Suc fuel) = do {
     now \<leftarrow> gNow K;
     let remaining = time_Sub deadline now;
     if remaining \<le> 0 then ret (Inr ())
     else do {
       r \<leftarrow> gWait K c (if remaining < drainLogInterval then remaining else drainLogInterval);
       case r of
         Inl e \<Rightarrow> ret (Inl e)
       | Inr _ \<Rightarrow> do { _ \<leftarrow> gNow K; wait_loop K c deadline fuel } } }"

definition wait_fuel :: "duration \<Rightarrow> nat" where
  "wait_fuel d = nat (d div drainLogInterval) + 2"

definition waitWithProgress :: "'w kube \<Rightarrow> ctx \<Rightarrow> duration \<Rightarrow> ('w, goerr + unit) state" where
  "waitWithProgress K c d = do {
     now \<leftarrow> gNow K;
     wait_loop K c (now + d) (wait_fuel d) }"

definition Drain :: "'w kube \<Rightarrow> ctx \<Rightarrow> string \<Rightarrow> string \<Rightarrow> ('w, goerr + unit) state" where
  "Drain K c podName ns = do {
     r \<leftarrow> setPodLabel K podName ns LabelReady ''false'';
     case r of
       Inl err \<Rightarrow> ret (if IsNotFound err then Inr () else Inl (WrapErr ''mark pod not-ready'' err))
     | Inr _ \<Rightarrow> do {
         logDrainStatus K podName ns;
         duration \<leftarrow> (case c of
             None \<Rightarrow> ret defaultDrainTimeout
           | Some deadline \<Rightarrow> do {
               now \<leftarrow> gNow K;
               let remaining = time_Sub deadline now;
               ret (if remaining < defaultDrainTimeout then remaining else defaultDrainTimeout) });
         waitWithProgress K c duration } }"

definition SwitchTraffic :: "'w kube \<Rightarrow> ctx \<Rightarrow> string \<Rightarrow> string \<Rightarrow> string \<Rightarrow> ('w, goerr + unit) state" where
  "SwitchTraffic K c oldPod newPod ns = do {
     r \<leftarrow> setPodLabel K oldPod ns LabelReady ''false'';
     if (case r of Inl err \<Rightarrow> \<not> IsNotFound err | Inr _ \<Rightarrow> False)
     then ret (case r of Inl err \<Rightarrow> Inl (WrapErr ''remove old pod from service'' err) | Inr _ \<Rightarrow> Inr ())
     else do {
       wr \<leftarrow> gWait K c labelPropagationDelay;
       case wr of
         Inl err \<Rightarrow> ret (Inl (WrapErr ''context cancelled during propagation wait'' err))
       | Inr _ \<Rightarrow> do {
           r2 \<leftarrow> setPodLabel K newPod ns LabelReady ''true'';
           ret (case r2 of Inl err \<Rightarrow> Inl (WrapErr ''add new pod to service'' err) | Inr _ \<Rightarrow> Inr ()) } } }"

definition labelsContain :: "strmap \<Rightarrow> strmap \<Rightarrow> bool" where
  "labelsContain labels required = list_all (\<lambda>(k, v). mget labels k = v) required"

definition matchingServices :: "'w kube \<Rightarrow> string \<Rightarrow> strmap \<Rightarrow> ('w, goerr + Service list) state" where
  "matchingServices K ns podLabels = do {
     r \<leftarrow> kListServices K ns;
     ret (case r of
        Inl err \<Rightarrow> Inl (WrapErr ''list services'' err)
      | Inr svcs \<Rightarrow> Inr (filter (\<lambda>svc. svcSelector svc \<noteq> [] \<and> labelsContain podLabels (svcSelector svc)) svcs)) }"

text \<open>An endpoint with no Ready condition counts as ready.\<close>

definition ready_endpoint_has :: "string \<Rightarrow> Endpoint \<Rightarrow> bool" where
  "ready_endpoint_has ip ep \<longleftrightarrow> epReady ep \<noteq> Some False \<and> ip \<in> set (epAddresses ep)"

definition podInEndpoints :: "'w kube \<Rightarrow> string \<Rightarrow> string \<Rightarrow> string \<Rightarrow> ('w, goerr + bool) state" where
  "podInEndpoints K svcName ns podIP = do {
     r \<leftarrow> kListSlices K ns svcName;
     ret (case r of
        Inl err \<Rightarrow> Inl (WrapErr (''list endpointslices for service '' @ svcName) err)
      | Inr slices \<Rightarrow>
          if slices = [] then Inl (GoErr (''no endpointslices for service '' @ svcName))
          else Inr (list_ex (\<lambda>sl. list_ex (ready_endpoint_has podIP) (esEndpoints sl)) slices)) }"

fun check_services :: "'w kube \<Rightarrow> string \<Rightarrow> string \<Rightarrow> Service list \<Rightarrow> ('w, goerr + bool) state" where
  "check_services K ns podIP [] = ret (Inr True)"
| "check_services K ns podIP (svc # svcs) = do {
     r \<leftarrow> podInEndpoints K (mName (svcMeta svc)) ns podIP;
     case r of
       Inl err \<Rightarrow> check_services K ns podIP svcs
     | Inr found \<Rightarrow> if \<not> found then ret (Inr False) else check_services K ns podIP svcs }"

definition ValidateTraffic :: "'w kube \<Rightarrow> ctx \<Rightarrow> string \<Rightarrow> string \<Rightarrow> ('w, goerr + bool) state" where
  "ValidateTraffic K c podName ns = do {
     r \<leftarrow> kGetPod K ns podName;
     case r of
       Inl err \<Rightarrow> ret (Inl (WrapErr (''get pod '' @ podName) err))
     | Inr pod \<Rightarrow>
         if mget (mLabels (podMeta pod)) LabelReady \<noteq> ''true'' then ret (Inr False)
         else if stPodIP (podStatus pod) = [] then ret (Inr False)
         else do {
           rs \<leftarrow> matchingServices K ns (mLabels (podMeta pod));
           case rs of
             Inl err \<Rightarrow> ret (Inl (WrapErr ''find matching services'' err))
           | Inr services \<Rightarrow>
               if services = [] then ret (Inr True)
               else check_services K ns (stPodIP (podStatus pod)) services } }"

text \<open>\<open>var _ Drainer = (*LabelBasedTrafficManager)(nil)\<close>.\<close>

definition LabelBasedTrafficManager :: "'w kube \<Rightarrow> 'w Drainer" where
  "LabelBasedTrafficManager K = \<lparr>drDrain = Drain K, drSwitchTraffic = SwitchTraffic K,
     drValidateTraffic = ValidateTraffic K\<rparr>"

lemma set_pod_labels_simps [simp]:
  "mLabels (podMeta (set_pod_labels l p)) = l"
  "podKey (set_pod_labels l p) = podKey p"
  "podStatus (set_pod_labels l p) = podStatus p"
  "podSpec (set_pod_labels l p) = podSpec p"
  "mDeletionTimestamp (podMeta (set_pod_labels l p)) = mDeletionTimestamp (podMeta p)"
  by (simp_all add: set_pod_labels_def)

lemma LabelBased_simps [simp]:
  "drDrain (LabelBasedTrafficManager K) = Drain K"
  "drSwitchTraffic (LabelBasedTrafficManager K) = SwitchTraffic K"
  "drValidateTraffic (LabelBasedTrafficManager K) = ValidateTraffic K"
  by (simp_all add: LabelBasedTrafficManager_def)

lemma labelsContain_iff:
  "labelsContain labels required \<longleftrightarrow> (\<forall>(k, v) \<in> set required. mget labels k = v)"
  by (auto simp: labelsContain_def list_all_iff)

subsection \<open>The contract of a drainer\<close>

text \<open>A pod that services select: it exists and carries \<open>ready=true\<close>.\<close>

definition serving :: "cluster \<Rightarrow> objkey \<Rightarrow> bool" where
  "serving c k = (case clPods c k of None \<Rightarrow> False | Some p \<Rightarrow> mget (mLabels (podMeta p)) LabelReady = ''true'')"

text \<open>Two stores that differ in the pods under the given keys only, none of them added or removed.\<close>

definition pods_touched :: "objkey set \<Rightarrow> cluster \<Rightarrow> cluster \<Rightarrow> bool" where
  "pods_touched S c c' \<longleftrightarrow> clNodes c' = clNodes c \<and> clPVCs c' = clPVCs c \<and>
     dom (clPods c') = dom (clPods c) \<and> (\<forall>k. k \<notin> S \<longrightarrow> clPods c' k = clPods c k)"

lemma pods_touched_refl [simp]: "pods_touched S c c"
  by (simp add: pods_touched_def)

lemma pods_touched_trans:
  "pods_touched S c c' \<Longrightarrow> pods_touched S' c' c'' \<Longrightarrow> S \<subseteq> T \<Longrightarrow> S' \<subseteq> T \<Longrightarrow> pods_touched T c c''"
  by (fastforce simp: pods_touched_def)

lemma pods_touched_mono: "pods_touched S c c' \<Longrightarrow> S \<subseteq> T \<Longrightarrow> pods_touched T c c'"
  unfolding pods_touched_def by (metis subsetD)

lemma pods_touched_pair: "pods_touched {a} c c' \<Longrightarrow> pods_touched {a, b} c c'"
  by (rule pods_touched_mono) auto

lemma pods_touched_nodes: "pods_touched S c c' \<Longrightarrow> clNodes c' = clNodes c"
  by (simp add: pods_touched_def)

text \<open>
  What the replacement workflow relies on: draining and validating leave every object but
  the drained pod alone and do not bring it into service, and a successful switch leaves the new pod serving and the old one not.
\<close>

locale drainer =
  fixes D :: "'w Drainer" and V :: "'w \<Rightarrow> cluster"
  assumes drain_law: "wp (drDrain D c pod ns) (\<lambda>_ w'. pods_touched {(ns, pod)} (V w) (V w') \<and>
          (serving (V w') (ns, pod) \<longrightarrow> serving (V w) (ns, pod))) w"
    and switch_law: "wp (drSwitchTraffic D c old new ns) (\<lambda>r w'.
          pods_touched {(ns, old), (ns, new)} (V w) (V w') \<and>
          (ok r \<longrightarrow> serving (V w') (ns, new) \<and> (old \<noteq> new \<longrightarrow> \<not> serving (V w') (ns, old)))) w"
    and validate_law: "wp (drValidateTraffic D c pod ns) (\<lambda>_ w'. V w' = V w) w"

context kube_api
begin

lemmas read_laws =
  wp_mono [OF now_law] wp_mono [OF wait_law] wp_mono [OF get_node_law] wp_mono [OF get_pod_law]
  wp_mono [OF get_pvc_law] wp_mono [OF list_services_law] wp_mono [OF list_slices_law]

lemma setPodLabel_spec:
  "wp (setPodLabel K name ns key val) (\<lambda>r w'.
     case r of Inl e \<Rightarrow> V w' = V w \<and> (IsNotFound e \<longrightarrow> clPods (V w) (ns, name) = None)
     | Inr _ \<Rightarrow> pods_touched {(ns, name)} (V w) (V w') \<and>
         (\<exists>p. clPods (V w') (ns, name) = Some p \<and> mget (mLabels (podMeta p)) key = val)) w"
proof -
  have patched: "wp (kPatchPod K pod (set_pod_labels (mset_key key val (mLabels (podMeta pod))) pod))
      (\<lambda>r w'. case r of Inl e \<Rightarrow> V w' = V w \<and> \<not> IsNotFound e
       | Inr _ \<Rightarrow> pods_touched {(ns, name)} (V w) (V w') \<and>
           (\<exists>p. clPods (V w') (ns, name) = Some p \<and> mget (mLabels (podMeta p)) key = val)) w1"
    if "V w1 = V w" "clPods (V w) (ns, name) = Some pod" "podKey pod = (ns, name)" for pod w1
    by (rule wp_mono [OF patch_pod_law])
       (use that in \<open>auto simp: pods_touched_def dest: same_map_mget split: sum.splits\<close>)
  show ?thesis
    unfolding setPodLabel_def
    by (auto intro!: wp_mono [OF get_pod_law] wp_mono [OF patched] split: sum.splits)
qed

lemma logDrainStatus_view: "wp (logDrainStatus K name ns) (\<lambda>_ w'. V w' = V w) w"
  by (auto simp: logDrainStatus_def intro!: read_laws)

lemma wait_loop_view: "wp (wait_loop K c dl fuel) (\<lambda>_ w'. V w' = V w) w"
proof (induction fuel arbitrary: w)
  case (Suc fuel)
  then show ?case
    by (auto simp: Let_def intro!: read_laws wp_mono [OF Suc.IH] split: sum.splits)
qed simp

lemma waitWithProgress_view: "wp (waitWithProgress K c d) (\<lambda>_ w'. V w' = V w) w"
  by (auto simp: waitWithProgress_def intro!: read_laws wp_mono [OF wait_loop_view])

lemma Drain_touches:
  "wp (Drain K c pod ns) (\<lambda>_ w'. pods_touched {(ns, pod)} (V w) (V w') \<and>
     (serving (V w') (ns, pod) \<longrightarrow> serving (V w) (ns, pod))) w"
  by (auto simp: Drain_def Let_def serving_def
        intro!: wp_mono [OF setPodLabel_spec] wp_mono [OF logDrainStatus_view] wp_mono [OF waitWithProgress_view]
          read_laws split: sum.splits option.splits)

lemma check_services_view: "wp (check_services K ns ip svcs) (\<lambda>_ w'. V w' = V w) w"
proof (induction svcs arbitrary: w)
  case (Cons svc svcs)
  then show ?case
    by (auto simp: podInEndpoints_def intro!: read_laws wp_mono [OF Cons.IH] split: sum.splits)
qed simp

lemma ValidateTraffic_view: "wp (ValidateTraffic K c pod ns) (\<lambda>_ w'. V w' = V w) w"
  by (auto simp: ValidateTraffic_def matchingServices_def
        intro!: read_laws wp_mono [OF check_services_view] split: sum.splits)

lemma SwitchTraffic_spec:
  "wp (SwitchTraffic K c old new ns) (\<lambda>r w'.
          pods_touched {(ns, old), (ns, new)} (V w) (V w') \<and>
          (ok r \<longrightarrow> serving (V w') (ns, new) \<and> (old \<noteq> new \<longrightarrow> \<not> serving (V w') (ns, old)))) w"
proof -
  have second: "wp (setPodLabel K new ns LabelReady ''true'') (\<lambda>r w'.
          pods_touched {(ns, old), (ns, new)} (V w) (V w') \<and>
          (ok r \<longrightarrow> serving (V w') (ns, new) \<and> (old \<noteq> new \<longrightarrow> \<not> serving (V w') (ns, old)))) w1"
    if "pods_touched {(ns, old)} (V w) (V w1)" "\<not> serving (V w1) (ns, old)" for w1
    by (rule wp_mono [OF setPodLabel_spec])
       (use that in \<open>auto simp: serving_def pods_touched_def split: sum.splits\<close>)
  show ?thesis
    unfolding SwitchTraffic_def
    by (auto intro!: wp_mono [OF setPodLabel_spec [where name = old]] wp_mono [OF wait_law] wp_mono [OF second]
          simp: serving_def pods_touched_pair split: sum.splits)
qed

lemma label_based_drainer: "drainer (LabelBasedTrafficManager K) V"
  by unfold_locales (simp_all add: Drain_touches SwitchTraffic_spec ValidateTraffic_view)

end

sublocale kube_api \<subseteq> lb: drainer "LabelBasedTrafficManager K" V
  by (rule label_based_drainer)

text \<open>
  C18: Moving traffic by labels. On a cluster without other writers, a traffic switch that
  succeeds leaves the new pod labelled \<open>ready=true\<close> and the old pod, when it is another one, not
  serving, and whether
  it succeeds or not it touches no object but those two pods and adds or removes none.
\<close>

theorem SwitchTraffic_moves_traffic:
  assumes "kube_api K V"
  shows "wp (SwitchTraffic K c old new ns) (\<lambda>r w'.
          pods_touched {(ns, old), (ns, new)} (V w) (V w') \<and>
          (ok r \<longrightarrow> serving (V w') (ns, new) \<and> (old \<noteq> new \<longrightarrow> \<not> serving (V w') (ns, old)))) w"
  using assms by (rule kube_api.SwitchTraffic_spec)

definition example_pod :: "string \<Rightarrow> string \<Rightarrow> Pod" where
  "example_pod name ready = zero_pod\<lparr>podMeta := zero_meta\<lparr>mName := name, mNamespace := ''chains'',
     mLabels := [(LabelReady, ready)]\<rparr>\<rparr>"

definition example_pods :: mem where
  "example_pods = \<lparr>mNow = 0, mNodes = [],
     mPods = [((''chains'', ''eth-0''), example_pod ''eth-0'' ''true''),
              ((''chains'', ''eth-0-replacement''), example_pod ''eth-0-replacement'' ''false'')],
     mPVCs = [], mServices = [], mSlices = []\<rparr>"

theorem SwitchTraffic_moves_traffic_witness:
  "fst (run_state (SwitchTraffic mem_kube None ''eth-0'' ''eth-0-replacement'' ''chains'') example_pods) = Inr () \<and>
   wp (SwitchTraffic mem_kube None ''eth-0'' ''eth-0-replacement'' ''chains'') (\<lambda>r w'.
      serving (mem_view w') (''chains'', ''eth-0-replacement'') \<and>
      \<not> serving (mem_view w') (''chains'', ''eth-0'')) example_pods"
proof -
  have ok: "fst (run_state (SwitchTraffic mem_kube None ''eth-0'' ''eth-0-replacement'' ''chains'') example_pods) = Inr ()"
    by (simp add: SwitchTraffic_def setPodLabel_def mem_kube_def example_pods_def example_pod_def
          zero_pod_def zero_meta_def set_pod_labels_def)
  then show ?thesis
    using SwitchTraffic_moves_traffic [OF mem_kube_api, where w = example_pods and c = None and ns = "''chains''"
        and old = "''eth-0''" and new = "''eth-0-replacement''"]
    by (auto simp: wp_def split: prod.splits)
qed

subsection \<open>Waiting ends\<close>

lemma time_Sub_nonpos: "time_Sub t u \<le> 0 \<longleftrightarrow> t \<le> u"
  by (auto simp: time_Sub_def minDuration_def maxDuration_def)

text \<open>
  A clock that does not run backwards, and on which a completed wait takes at least its
  duration; an interrupted wait reports the context's error.
\<close>

locale ticking_clock =
  fixes K :: "'w kube" and clk :: "'w \<Rightarrow> time"
  assumes now_ticks: "wp (gNow K) (\<lambda>t w'. clk w \<le> t \<and> t \<le> clk w') w"
    and wait_ticks: "wp (gWait K c d) (\<lambda>r w'. clk w \<le> clk w' \<and>
          (case r of Inr _ \<Rightarrow> clk w + d \<le> clk w' | Inl e \<Rightarrow> e \<noteq> outOfFuel)) w"
begin

lemma wait_loop_ends:
  assumes "deadline - clk w \<le> drainLogInterval * int fuel"
  shows "wp (wait_loop K c deadline (Suc fuel))
           (\<lambda>r w'. r \<noteq> Inl outOfFuel \<and> (ok r \<longrightarrow> deadline \<le> clk w')) w"
  using assms
proof (induction fuel arbitrary: w)
  case 0
  then show ?case
    by (auto simp: Let_def time_Sub_nonpos intro!: wp_mono [OF now_ticks])
next
  case (Suc fuel)
  have step: "wp (wait_loop K c deadline (Suc fuel))
      (\<lambda>r w'. r \<noteq> Inl outOfFuel \<and> (ok r \<longrightarrow> deadline \<le> clk w')) w3"
    if now: "clk w \<le> t" "t \<le> clk w1" and rem: "t < deadline"
      and wait: "clk w1 + min (time_Sub deadline t) drainLogInterval \<le> clk w2"
      and later: "clk w2 \<le> clk w3" for t w1 w2 w3
  proof (rule Suc.IH)
    show "deadline - clk w3 \<le> drainLogInterval * int fuel"
      using Suc.prems now rem wait later
      by (auto simp: time_Sub_def minDuration_def maxDuration_def drainLogInterval_def algebra_simps
               split: if_splits)
  qed
  have tick: "(if r < drainLogInterval then r else drainLogInterval) = min r drainLogInterval" for r
    by simp
  show ?case
    unfolding wait_loop.simps(2) [of K c deadline "Suc fuel"] tick Let_def time_Sub_nonpos
    by (auto simp del: wait_loop.simps
          intro!: wp_mono [OF now_ticks] wp_mono [OF wait_ticks] split: sum.splits)
       (rule step, auto)
qed

lemma waitWithProgress_ends:
  "wp (waitWithProgress K c d) (\<lambda>r w'. r \<noteq> Inl outOfFuel \<and> (ok r \<longrightarrow> clk w + d \<le> clk w')) w"
proof -
  have fuel: "d \<le> drainLogInterval * int (Suc (nat (d div drainLogInterval)))"
    by (auto simp: drainLogInterval_def)
  have loop: "wp (wait_loop K c (t + d) (wait_fuel d)) (\<lambda>r w'. r \<noteq> Inl outOfFuel \<and> (ok r \<longrightarrow> clk w + d \<le> clk w')) w1"
    if "clk w \<le> t" "t \<le> clk w1" for t w1
    using fuel that
      wait_loop_ends [of "t + d" w1 "Suc (nat (d div drainLogInterval))" c]
    unfolding wait_fuel_def add_2_eq_Suc' by (auto elim!: wp_mono simp del: wait_loop.simps)
  show ?thesis
    unfolding waitWithProgress_def
    by (auto intro!: wp_mono [OF now_ticks] loop)
qed

end

interpretation mem_clock: ticking_clock mem_kube mNow
  by unfold_locales (auto simp: mem_kube_def outOfFuel_def split: option.splits)

text \<open>
  C26: The drain wait ends. On a clock that advances with the waits, polling every five
  seconds never runs out of rounds, so the wait returns, and when it returns without an
  error at least the requested time has passed.
\<close>

theorem waitWithProgress_terminates:
  assumes "ticking_clock K clk"
  shows "wp (waitWithProgress K c d) (\<lambda>r w'. r \<noteq> Inl outOfFuel \<and> (ok r \<longrightarrow> clk w + d \<le> clk w')) w"
  using ticking_clock.waitWithProgress_ends [OF assms] .

theorem waitWithProgress_terminates_witness:
  "wp (waitWithProgress mem_kube None (12 * Second)) (\<lambda>r w'. r \<noteq> Inl outOfFuel \<and> (ok r \<longrightarrow> 12 * Second \<le> mNow w'))
     example_pods"
  using waitWithProgress_terminates [OF mem_clock.ticking_clock_axioms, where c = None and d = "12 * Second" and w = example_pods]
  by (simp add: example_pods_def)

end
