(* ===== verification/Go_Json.thy ===== *)
theory Go_Json
  imports Go_Time
begin

text \<open>
  \<open>encoding/json\<close> as the sources use it: a document is its syntax tree (a number keeps its
  literal), and \<open>json.Unmarshal\<close> into a Go type is a decoder that is given the value already
  stored in the destination, because \<open>null\<close> and missing fields leave it alone. Field names
  match without regard to case; with repeated keys every occurrence is decoded and the last
  one stays.
\<close>

datatype json =
    JNull
  | JBool bool
  | JNum string
  | JStr string
  | JArr "json list"
  | JObj "(string \<times> json) list"

type_synonym 'a decoder = "json \<Rightarrow> 'a \<Rightarrow> 'a option"

fun dec_string :: "string decoder" where
  "dec_string (JStr s) _ = Some s"
| "dec_string JNull a = Some a"
| "dec_string _ _ = None"

fun dec_bool :: "bool decoder" where
  "dec_bool (JBool b) _ = Some b"
| "dec_bool JNull a = Some a"
| "dec_bool _ _ = None"

fun dec_int64 :: "int decoder" where
  "dec_int64 (JNum t) _ = ParseInt64 10 t"
| "dec_int64 JNull a = Some a"
| "dec_int64 _ _ = None"

fun dec_float :: "f64 decoder" where
  "dec_float (JNum t) _ = ParseFloat t"
| "dec_float JNull a = Some a"
| "dec_float _ _ = None"

text \<open>A \<open>json.RawMessage\<close>; \<open>None\<close> is its nil value, which no later \<open>Unmarshal\<close> accepts.\<close>

definition dec_raw :: "json option decoder" where
  "dec_raw j _ = Some (Some j)"

text \<open>One field of a struct, over all occurrences of its key.\<close>

definition dec_field :: "'a decoder \<Rightarrow> string \<Rightarrow> (string \<times> json) list \<Rightarrow> 'a \<Rightarrow> 'a option" where
  "dec_field dec name kvs init =
     foldl (\<lambda>acc (k, v). case acc of None \<Rightarrow> None
              | Some a \<Rightarrow> if ToLower k = ToLower name then dec v a else Some a) (Some init) kvs"

text \<open>A struct: \<open>null\<close> leaves it alone, an object decodes its fields, anything else fails.\<close>

definition dec_struct :: "((string \<times> json) list \<Rightarrow> 'a \<Rightarrow> 'a option) \<Rightarrow> 'a decoder" where
  "dec_struct f j a = (case j of JNull \<Rightarrow> Some a | JObj kvs \<Rightarrow> f kvs a | _ \<Rightarrow> None)"

fun dec_all :: "'a decoder \<Rightarrow> 'a \<Rightarrow> json list \<Rightarrow> 'a list option" where
  "dec_all dec z [] = Some []"
| "dec_all dec z (j # js) =
     (case dec j z of None \<Rightarrow> None
      | Some x \<Rightarrow> (case dec_all dec z js of None \<Rightarrow> None | Some xs \<Rightarrow> Some (x # xs)))"

text \<open>A slice: \<open>null\<close> makes it nil, an array decodes each element from the zero value.\<close>

definition dec_list :: "'a decoder \<Rightarrow> 'a \<Rightarrow> 'a list decoder" where
  "dec_list dec z j _ = (case j of JNull \<Rightarrow> Some [] | JArr js \<Rightarrow> dec_all dec z js | _ \<Rightarrow> None)"

text \<open>\<open>[2]json.RawMessage\<close>: extra elements are dropped, missing ones stay nil.\<close>

definition dec_pair :: "(json option \<times> json option) decoder" where
  "dec_pair j a = (case j of
     JNull \<Rightarrow> Some a
   | JArr [] \<Rightarrow> Some (None, None)
   | JArr [x] \<Rightarrow> Some (Some x, None)
   | JArr (x # y # _) \<Rightarrow> Some (Some x, Some y)
   | _ \<Rightarrow> None)"

text \<open>A \<open>map[string]T\<close>, keys as they come (later values overwrite earlier ones).\<close>

fun dec_entries :: "'a decoder \<Rightarrow> 'a \<Rightarrow> (string \<times> json) list \<Rightarrow> (string \<times> 'a) list \<Rightarrow> (string \<times> 'a) list option" where
  "dec_entries dec z [] m = Some m"
| "dec_entries dec z ((k, j) # kvs) m =
     (case dec j z of None \<Rightarrow> None | Some v \<Rightarrow> dec_entries dec z kvs (AList.update k v m))"

definition dec_map :: "'a decoder \<Rightarrow> 'a \<Rightarrow> (string \<times> 'a) list decoder" where
  "dec_map dec z j a = (case j of JNull \<Rightarrow> Some a | JObj kvs \<Rightarrow> dec_entries dec z kvs a | _ \<Rightarrow> None)"

text \<open>A value inside nested structs, by the path of their field names.\<close>

fun dec_path :: "string list \<Rightarrow> 'a decoder \<Rightarrow> 'a decoder" where
  "dec_path [] d = d"
| "dec_path (k # ks) d = dec_struct (\<lambda>kvs a. dec_field (dec_path ks d) k kvs a)"

text \<open>
  Two parts of one struct, each by its own decoder: the document is accepted when both accept it.
\<close>

definition dec_and :: "'a decoder \<Rightarrow> 'b decoder \<Rightarrow> ('a \<times> 'b) decoder" where
  "dec_and d e j ab = (case (d j (fst ab), e j (snd ab)) of (Some a, Some b) \<Rightarrow> Some (a, b) | _ \<Rightarrow> None)"

text \<open>\<open>json.Unmarshal(raw, &dst)\<close> of a raw message.\<close>

definition unmarshal_raw :: "'a decoder \<Rightarrow> json option \<Rightarrow> 'a \<Rightarrow> 'a option" where
  "unmarshal_raw dec raw a = (case raw of None \<Rightarrow> None | Some j \<Rightarrow> dec j a)"

lemma dec_field_simps [simp]:
  "dec_field dec name [] a = Some a"
  "dec_field dec name ((k, v) # kvs) a =
     (if ToLower k = ToLower name
      then (case dec v a of None \<Rightarrow> None | Some b \<Rightarrow> dec_field dec name kvs b)
      else dec_field dec name kvs a)"
proof -
  have none: "foldl (\<lambda>acc (k, v). case acc of None \<Rightarrow> None
              | Some a \<Rightarrow> if ToLower k = ToLower name then dec v a else Some a) None kvs = None"
    for kvs by (induction kvs) auto
  show "dec_field dec name [] a = Some a" by (simp add: dec_field_def)
  show "dec_field dec name ((k, v) # kvs) a =
     (if ToLower k = ToLower name
      then (case dec v a of None \<Rightarrow> None | Some b \<Rightarrow> dec_field dec name kvs b)
      else dec_field dec name kvs a)"
    by (simp add: dec_field_def none split: option.split)
qed

lemma dec_all_length: "dec_all dec z js = Some xs \<Longrightarrow> length xs = length js"
  by (induction js arbitrary: xs) (auto split: option.splits)

subsection \<open>What decoders keep\<close>

lemma ParseInt64_range: "ParseInt64 b s = Some n \<Longrightarrow> in_int64 n"
  by (auto simp: ParseInt64_def Let_def split: if_splits list.splits prod.splits)

lemma in_int64_zero [simp]: "in_int64 0"
  by (simp add: in_int64_def)

text \<open>Decoders that keep a predicate on the decoded value.\<close>

definition keeps :: "('a \<Rightarrow> bool) \<Rightarrow> 'a decoder \<Rightarrow> bool" where
  "keeps P d \<longleftrightarrow> (\<forall>j a b. P a \<longrightarrow> d j a = Some b \<longrightarrow> P b)"

lemma keeps_int64: "keeps in_int64 dec_int64"
  unfolding keeps_def
proof (intro allI impI)
  fix j a b assume "in_int64 a" "dec_int64 j a = Some b"
  then show "in_int64 b" by (cases j) (auto dest: ParseInt64_range)
qed

lemma keepsD: "keeps P d \<Longrightarrow> P a \<Longrightarrow> d j a = Some b \<Longrightarrow> P b"
  unfolding keeps_def by blast

lemma keeps_field: "keeps P d \<Longrightarrow> P a \<Longrightarrow> dec_field d k kvs a = Some b \<Longrightarrow> P b"
proof (induction kvs arbitrary: a)
  case (Cons kv kvs)
  then show ?case by (cases kv) (auto split: if_splits option.splits dest: keepsD)
qed simp

lemma keeps_path: "keeps P d \<Longrightarrow> keeps P (dec_path ks d)"
proof (induction ks)
  case (Cons k ks)
  then have k: "keeps P (dec_path ks d)" by simp
  show ?case
    unfolding keeps_def
  proof (intro allI impI)
    fix j a b assume "P a" "dec_path (k # ks) d j a = Some b"
    then show "P b" by (cases j) (auto simp: dec_struct_def dest: keeps_field [OF k])
  qed
qed simp

lemma keeps_list: "keeps P d \<Longrightarrow> P z \<Longrightarrow> keeps (list_all P) (dec_list d z)"
proof -
  assume d: "keeps P d" "P z"
  have "list_all P xs" if "dec_all d z js = Some xs" for js xs
    using that d by (induction js arbitrary: xs) (auto simp: keeps_def split: option.splits)
  then show ?thesis by (auto simp: keeps_def dec_list_def split: json.splits)
qed

lemma keeps_True: "keeps (\<lambda>_. True) d"
  by (simp add: keeps_def)

lemma keeps_and: "keeps P d \<Longrightarrow> keeps Q e \<Longrightarrow> keeps (\<lambda>(a, b). P a \<and> Q b) (dec_and d e)"
  by (auto simp: keeps_def dec_and_def split: option.splits prod.splits)

end
