(* ===== verification/Health_Trigger.thy ===== *)
theory Health_Trigger
  imports Go_Json Api_Types
begin

text \<open>
  \<open>internal/health/chain.go\<close>, \<open>trigger.go\<close> and the sentinels of \<open>errors.go\<close>: the mapping of
  chains to metric families, the trigger results and their aggregation, the thresholds with
  their defaults, and the text of metric values.
\<close>

subsection \<open>errors.go\<close>

definition ErrNoMetricData :: goerr where
  "ErrNoMetricData = Sentinel ''health: no metric data available''"

definition ErrReplacementAnnotationMissing :: goerr where
  "ErrReplacementAnnotationMissing = Sentinel ''health: replacement annotation missing''"

definition ErrReplacementTimeout :: goerr where
  "ErrReplacementTimeout = Sentinel ''health: replacement sync timeout exceeded''"

subsection \<open>chain.go\<close>

type_synonym BlockchainType = string

abbreviation (input) BlockchainEthereum :: BlockchainType where "BlockchainEthereum \<equiv> ''ethereum''"
abbreviation (input) BlockchainSolana :: BlockchainType where "BlockchainSolana \<equiv> ''solana''"

record chainMetricConfig =
  syncLagMetric :: string
  defaultSyncLag :: f64
  defaultLatencyP99 :: f64

text \<open>The query template is a metric name with the pod substituted for \<open>%s\<close>.\<close>

definition chainConfigs :: "BlockchainType \<Rightarrow> chainMetricConfig option" where
  "chainConfigs c =
     (if c = BlockchainEthereum
      then Some \<lparr>syncLagMetric = ''eth_sync_lag'', defaultSyncLag = Fin 30, defaultLatencyP99 = Fin 2\<rparr>
      else if c = BlockchainSolana
      then Some \<lparr>syncLagMetric = ''sol_slot_lag'', defaultSyncLag = Fin 150, defaultLatencyP99 = Fin (1 / 2)\<rparr>
      else None)"

definition syncLagQuery :: "chainMetricConfig \<Rightarrow> string \<Rightarrow> string" where
  "syncLagQuery cfg pod = syncLagMetric cfg @ ''{node='' @ [CHR 0x22] @ pod @ [CHR 0x22] @ ''}''"

definition chainMapping :: "(Chain \<times> BlockchainType) list" where
  "chainMapping = [(ChainEthereum, BlockchainEthereum), (ChainEthereumArchive, BlockchainEthereum),
     (ChainSolana, BlockchainSolana)]"

definition ChainToBlockchainType :: "Chain \<Rightarrow> BlockchainType" where
  "ChainToBlockchainType chain =
     (case map_of chainMapping chain of Some bt \<Rightarrow> bt | None \<Rightarrow> BlockchainEthereum)"

subsection \<open>trigger.go: results\<close>

type_synonym TriggerName = string

abbreviation (input) TriggerSyncLag :: TriggerName where "TriggerSyncLag \<equiv> ''sync_lag''"
abbreviation (input) TriggerErrorRate :: TriggerName where "TriggerErrorRate \<equiv> ''error_rate''"
abbreviation (input) TriggerLatency :: TriggerName where "TriggerLatency \<equiv> ''latency''"
abbreviation (input) TriggerCrashLoop :: TriggerName where "TriggerCrashLoop \<equiv> ''crash_loop''"
abbreviation (input) TriggerDiskUsage :: TriggerName where "TriggerDiskUsage \<equiv> ''disk_usage''"

definition allTriggers :: "TriggerName list" where
  "allTriggers = [TriggerSyncLag, TriggerErrorRate, TriggerLatency, TriggerCrashLoop, TriggerDiskUsage]"

definition AllTriggers :: "TriggerName list" where
  "AllTriggers = allTriggers"

record TriggerResult =
  trFired :: bool
  trValue :: string
  trThreshold :: string

text \<open>\<open>Results\<close> is a map; the list order is the order in which Go iterates over it.\<close>

record HealthStatus =
  hsPodName :: string
  hsBlockchain :: BlockchainType
  hsResults :: "(TriggerName \<times> TriggerResult) list"

definition Healthy :: "HealthStatus \<Rightarrow> bool" where
  "Healthy s = list_all (\<lambda>(_, r). \<not> trFired r) (hsResults s)"

definition TriggeredNames :: "HealthStatus \<Rightarrow> TriggerName list" where
  "TriggeredNames s = map fst (filter (\<lambda>(_, r). trFired r) (hsResults s))"

text \<open>\<open>%-15s\<close>.\<close>

definition pad_right :: "nat \<Rightarrow> string \<Rightarrow> string" where
  "pad_right k s = s @ replicate (k - length s) (CHR '' '')"

abbreviation (input) newline :: string where "newline \<equiv> [CHR 0x0A]"

definition summaryRule :: string where
  "summaryRule = replicate 50 (CHR ''-'') @ newline"

definition summaryLine :: "TriggerName \<Rightarrow> TriggerResult \<Rightarrow> string" where
  "summaryLine name r =
     pad_right 15 name @ '' '' @ pad_right 15 (if trFired r then ''TRIGGERED'' else ''OK'') @
     '' (value: '' @ trValue r @ '', threshold: '' @ trThreshold r @ '')'' @ newline"

definition Summary :: "HealthStatus \<Rightarrow> string" where
  "Summary s =
     ''Health Trigger Summary:'' @ newline @ summaryRule @
     concat (map (\<lambda>name. case map_of (hsResults s) name of
                     None \<Rightarrow> [] | Some r \<Rightarrow> summaryLine name r) allTriggers) @
     summaryRule @
     ''Total triggers active: '' @ Itoa (int (length (TriggeredNames s))) @ ''/'' @
     Itoa (int (length allTriggers)) @ newline"

subsection \<open>trigger.go: thresholds\<close>

record Thresholds =
  SyncLagETH :: f64
  SyncLagSOL :: f64
  SyncLagDuration :: int
  ErrorRate :: f64
  ErrorRateWindow :: int
  LatencyETH :: f64
  LatencySOL :: f64
  LatencyDuration :: int
  CrashLoopRestarts :: int
  CrashLoopWindow :: int
  DiskUsage :: f64

definition DefaultThresholds :: Thresholds where
  "DefaultThresholds = \<lparr>
     SyncLagETH = Fin 30, SyncLagSOL = Fin 150, SyncLagDuration = 10,
     ErrorRate = Fin (5 / 100), ErrorRateWindow = 5,
     LatencyETH = Fin 2, LatencySOL = Fin (1 / 2), LatencyDuration = 5,
     CrashLoopRestarts = 3, CrashLoopWindow = 10,
     DiskUsage = Fin (9 / 10)\<rparr>"

definition defaultF :: "f64 \<Rightarrow> f64 \<Rightarrow> f64" where
  "defaultF v d = (if f_eq v (Fin 0) then d else v)"

definition defaultI :: "int \<Rightarrow> int \<Rightarrow> int" where
  "defaultI v d = (if v = 0 then d else v)"

definition applyDefaults :: "Thresholds \<Rightarrow> Thresholds" where
  "applyDefaults t = (let d = DefaultThresholds in \<lparr>
     SyncLagETH = defaultF (SyncLagETH t) (SyncLagETH d),
     SyncLagSOL = defaultF (SyncLagSOL t) (SyncLagSOL d),
     SyncLagDuration = defaultI (SyncLagDuration t) (SyncLagDuration d),
     ErrorRate = defaultF (ErrorRate t) (ErrorRate d),
     ErrorRateWindow = defaultI (ErrorRateWindow t) (ErrorRateWindow d),
     LatencyETH = defaultF (LatencyETH t) (LatencyETH d),
     LatencySOL = defaultF (LatencySOL t) (LatencySOL d),
     LatencyDuration = defaultI (LatencyDuration t) (LatencyDuration d),
     CrashLoopRestarts = defaultI (CrashLoopRestarts t) (CrashLoopRestarts d),
     CrashLoopWindow = defaultI (CrashLoopWindow t) (CrashLoopWindow d),
     DiskUsage = defaultF (DiskUsage t) (DiskUsage d)\<rparr>)"

definition syncLagThreshold :: "Thresholds \<Rightarrow> BlockchainType \<Rightarrow> f64" where
  "syncLagThreshold t chain =
     (case map_of [(BlockchainEthereum, SyncLagETH t), (BlockchainSolana, SyncLagSOL t)] chain of
        Some v \<Rightarrow> v | None \<Rightarrow> SyncLagETH t)"

definition latencyThreshold :: "Thresholds \<Rightarrow> BlockchainType \<Rightarrow> f64" where
  "latencyThreshold t chain =
     (case map_of [(BlockchainEthereum, LatencyETH t), (BlockchainSolana, LatencySOL t)] chain of
        Some v \<Rightarrow> v | None \<Rightarrow> LatencyETH t)"

definition formatMetric :: "f64 \<Rightarrow> string" where
  "formatMetric v =
     (let s = FormatFixed 4 v in
      if CHR ''.'' \<in> set s then TrimRight (TrimRight s (CHR ''0'')) (CHR ''.'') else s)"

definition noDataResult :: "string \<Rightarrow> TriggerResult" where
  "noDataResult threshold = \<lparr>trFired = False, trValue = ''0'', trThreshold = threshold\<rparr>"

subsection \<open>Facts about results and thresholds\<close>

lemma Healthy_iff_no_names: "Healthy s \<longleftrightarrow> TriggeredNames s = []"
  by (auto simp: Healthy_def TriggeredNames_def list_all_iff filter_empty_conv)

lemma TriggeredNames_subset: "set (TriggeredNames s) \<subseteq> set (map fst (hsResults s))"
  by (auto simp: TriggeredNames_def)

lemma noDataResult_not_fired [simp]: "\<not> trFired (noDataResult t)"
  by (simp add: noDataResult_def)

lemma defaultF_nonzero: "\<not> f_eq d (Fin 0) \<Longrightarrow> \<not> f_eq (defaultF v d) (Fin 0)"
  by (simp add: defaultF_def)

lemma defaultF_idem: "\<not> f_eq d (Fin 0) \<Longrightarrow> defaultF (defaultF v d) d = defaultF v d"
  by (simp add: defaultF_def)

lemma defaultI_idem: "d \<noteq> 0 \<Longrightarrow> defaultI (defaultI v d) d = defaultI v d"
  by (simp add: defaultI_def)

lemma applyDefaults_idem: "applyDefaults (applyDefaults t) = applyDefaults t"
  by (simp add: applyDefaults_def Let_def DefaultThresholds_def defaultF_idem defaultI_idem)

end
