(* ===== verification/Health_Metric.thy ===== *)
theory Health_Metric
  imports Health_Trigger Kube
begin

text \<open>
  \<open>internal/health/metric.go\<close>: the \<open>MetricQuerier\<close> interface and its implementation over the
  Prometheus HTTP API, with retries and backoff.

  The HTTP client is a parameter (\<open>http_env\<close>): a request yields a transport error or a
  response, whose body is a read error or the bytes read; a body comes with its JSON syntax
  tree, \<open>None\<close> when it is not a JSON document. \<open>url.Parse\<close> is a parameter too; the query
  encoding of \<open>net/url\<close> is modelled.
\<close>

subsection \<open>The HTTP environment\<close>

record http_body =
  hbText :: string
  hbJson :: "json option"

record http_response =
  hrStatus :: int
  hrBody :: "goerr + http_body"

record 'w http_env = "'w go_env" +
  hParseURL :: "string \<Rightarrow> goerr + string"
  hNewRequest :: "string \<Rightarrow> goerr + unit"
  hDo :: "ctx \<Rightarrow> duration \<Rightarrow> string \<Rightarrow> ('w, goerr + http_response) state"

definition unreserved :: "char \<Rightarrow> bool" where
  "unreserved c = (let n = of_char c :: nat in
     48 \<le> n \<and> n \<le> 57 \<or> 65 \<le> n \<and> n \<le> 90 \<or> 97 \<le> n \<and> n \<le> 122 \<or>
     c \<in> {CHR ''-'', CHR ''_'', CHR ''.'', CHR ''~''})"

definition upper_hex :: "nat \<Rightarrow> char" where
  "upper_hex d = char_of (if d < 10 then 48 + d else 55 + d)"

text \<open>\<open>url.QueryEscape\<close>.\<close>

definition QueryEscape :: "string \<Rightarrow> string" where
  "QueryEscape s = concat (map (\<lambda>c. if unreserved c then [c] else if c = CHR '' '' then ''+''
     else (let n = of_char c :: nat in [CHR ''%'', upper_hex (n div 16), upper_hex (n mod 16)])) s)"

text \<open>\<open>url.Values.Encode\<close> of single-valued entries, listed by key.\<close>

definition Values_Encode :: "(string \<times> string) list \<Rightarrow> string" where
  "Values_Encode kvs = Join (map (\<lambda>(k, v). QueryEscape k @ ''='' @ QueryEscape v) kvs) ''&''"

subsection \<open>The interface\<close>

text \<open>
  A call of an implementation either returns or panics. \<open>Sustained\<close> returns a boolean and an
  error at once.
\<close>

datatype 'a outcome = Ret 'a | Panic string

record MatrixSeries =
  msMetric :: strmap
  msValues :: "(json option \<times> json option) list"

record 'w MetricQuerier =
  mqHealthy :: "ctx \<Rightarrow> ('w, bool) state"
  mqInstantValue :: "ctx \<Rightarrow> string \<Rightarrow> ('w, (goerr + f64) outcome) state"
  mqSustained :: "ctx \<Rightarrow> string \<Rightarrow> f64 \<Rightarrow> int \<Rightarrow> ('w, (bool \<times> goerr option) outcome) state"
  mqRangeValues :: "ctx \<Rightarrow> string \<Rightarrow> time \<Rightarrow> time \<Rightarrow> string \<Rightarrow> ('w, (goerr + MatrixSeries list) outcome) state"

subsection \<open>Wire format\<close>

record prometheusEnvelope =
  peStatus :: string
  peError :: string
  peData :: "json option"

record queryPayload =
  qpResultType :: string
  qpResult :: "json option list"

record vectorSample =
  vsMetric :: strmap
  vsValue :: "json option \<times> json option"

definition dec_envelope :: "prometheusEnvelope decoder" where
  "dec_envelope = dec_struct (\<lambda>kvs a.
     case dec_field dec_string ''status'' kvs (peStatus a) of None \<Rightarrow> None
     | Some s \<Rightarrow> (case dec_field dec_string ''error'' kvs (peError a) of None \<Rightarrow> None
     | Some e \<Rightarrow> (case dec_field dec_raw ''data'' kvs (peData a) of None \<Rightarrow> None
     | Some d \<Rightarrow> Some \<lparr>peStatus = s, peError = e, peData = d\<rparr>)))"

definition dec_payload :: "queryPayload decoder" where
  "dec_payload = dec_struct (\<lambda>kvs a.
     case dec_field dec_string ''resultType'' kvs (qpResultType a) of None \<Rightarrow> None
     | Some t \<Rightarrow> (case dec_field (dec_list dec_raw None) ''result'' kvs (qpResult a) of None \<Rightarrow> None
     | Some r \<Rightarrow> Some \<lparr>qpResultType = t, qpResult = r\<rparr>))"

definition dec_sample :: "vectorSample decoder" where
  "dec_sample = dec_struct (\<lambda>kvs a.
     case dec_field (dec_map dec_string []) ''metric'' kvs (vsMetric a) of None \<Rightarrow> None
     | Some m \<Rightarrow> (case dec_field dec_pair ''value'' kvs (vsValue a) of None \<Rightarrow> None
     | Some v \<Rightarrow> Some \<lparr>vsMetric = m, vsValue = v\<rparr>))"

definition dec_series :: "MatrixSeries decoder" where
  "dec_series = dec_struct (\<lambda>kvs a.
     case dec_field (dec_map dec_string []) ''Metric'' kvs (msMetric a) of None \<Rightarrow> None
     | Some m \<Rightarrow> (case dec_field (dec_list dec_pair (None, None)) ''Values'' kvs (msValues a) of None \<Rightarrow> None
     | Some v \<Rightarrow> Some \<lparr>msMetric = m, msValues = v\<rparr>))"

definition zero_envelope :: prometheusEnvelope where
  "zero_envelope = \<lparr>peStatus = [], peError = [], peData = None\<rparr>"

definition zero_payload :: queryPayload where
  "zero_payload = \<lparr>qpResultType = [], qpResult = []\<rparr>"

definition zero_sample :: vectorSample where
  "zero_sample = \<lparr>vsMetric = [], vsValue = (None, None)\<rparr>"

definition zero_series :: MatrixSeries where
  "zero_series = \<lparr>msMetric = [], msValues = []\<rparr>"

abbreviation (input) jsonErr :: goerr where "jsonErr \<equiv> GoErr ''json: cannot unmarshal''"

subsection \<open>The Prometheus client\<close>

record PrometheusClient =
  pcBaseURL :: string
  pcTimeout :: duration
  pcMaxRetries :: int
  pcBackoff :: duration

definition WithTimeoutOption :: "duration \<Rightarrow> PrometheusClient \<Rightarrow> PrometheusClient" where
  "WithTimeoutOption d p = p\<lparr>pcTimeout := d\<rparr>"

definition WithMaxRetries :: "int \<Rightarrow> PrometheusClient \<Rightarrow> PrometheusClient" where
  "WithMaxRetries n p = p\<lparr>pcMaxRetries := n\<rparr>"

definition WithBackoffFactor :: "duration \<Rightarrow> PrometheusClient \<Rightarrow> PrometheusClient" where
  "WithBackoffFactor d p = p\<lparr>pcBackoff := d\<rparr>"

definition NewPrometheusClient ::
    "string \<Rightarrow> (PrometheusClient \<Rightarrow> PrometheusClient) list \<Rightarrow> PrometheusClient" where
  "NewPrometheusClient baseURL opts = fold (\<lambda>opt p. opt p) opts
     \<lparr>pcBaseURL = baseURL, pcTimeout = 10 * Second, pcMaxRetries = 3, pcBackoff = 500000000\<rparr>"

text \<open>\<open>Healthy\<close>: the readiness probe, under a five second timeout of its own.\<close>

definition prom_Healthy :: "'w http_env \<Rightarrow> PrometheusClient \<Rightarrow> ctx \<Rightarrow> ('w, bool) state" where
  "prom_Healthy E p c = do {
     now \<leftarrow> gNow E;
     let url = pcBaseURL p @ ''/-/healthy'';
     case hNewRequest E url of
       Inl _ \<Rightarrow> ret False
     | Inr _ \<Rightarrow> do {
         r \<leftarrow> hDo E (WithTimeout c now (5 * Second)) (pcTimeout p) url;
         ret (case r of Inl _ \<Rightarrow> False | Inr resp \<Rightarrow> hrStatus resp = 200) } }"

text \<open>What one answer means to the retry loop: try again, or stop with a result.\<close>

datatype 'a verdict = Again goerr | Stop "goerr + 'a"

definition httpStatusErr :: "int \<Rightarrow> http_body \<Rightarrow> goerr" where
  "httpStatusErr st body = GoErr (''HTTP '' @ Itoa st @ '': '' @ hbText body)"

definition judge :: "goerr + http_response \<Rightarrow> json option verdict" where
  "judge r = (case r of
     Inl e \<Rightarrow> Again (WrapErr ''HTTP GET'' e)
   | Inr resp \<Rightarrow> (case hrBody resp of
       Inl e \<Rightarrow> Again (WrapErr ''read response body'' e)
     | Inr body \<Rightarrow>
         if hrStatus resp = 429 \<or> hrStatus resp \<ge> 500
         then Again (httpStatusErr (hrStatus resp) body)
         else if hrStatus resp \<noteq> 200
         then Stop (Inl (httpStatusErr (hrStatus resp) body))
         else (case unmarshal_raw dec_envelope (hbJson body) zero_envelope of
             None \<Rightarrow> Stop (Inl (WrapErr ''decode prometheus envelope'' jsonErr))
           | Some env \<Rightarrow>
               if peStatus env \<noteq> ''success''
               then Stop (Inl (GoErr (''prometheus API error: '' @ peError env)))
               else Stop (Inr (peData env)))))"

definition exhausted :: "int \<Rightarrow> goerr option \<Rightarrow> goerr" where
  "exhausted n lastErr = (case lastErr of
     None \<Rightarrow> GoErr (''all '' @ Itoa n @ '' retries exhausted: %!w(<nil>)'')
   | Some e \<Rightarrow> WrapErr (''all '' @ Itoa n @ '' retries exhausted'') e)"

text \<open>
  The loop of \<open>get\<close>: \<open>left\<close> attempts remain, \<open>attempt\<close> counts from zero. The wait before a
  retry is \<open>backoff * 2^(attempt-1)\<close> in 64-bit arithmetic, and shifting a 64-bit one by 64 or
  more gives zero.
\<close>

definition retryWait :: "duration \<Rightarrow> nat \<Rightarrow> duration" where
  "retryWait backoff attempt = wrap64 (backoff * wrap64 (2 ^ (attempt - 1)))"

fun get_loop ::
    "'w http_env \<Rightarrow> PrometheusClient \<Rightarrow> ctx \<Rightarrow> string \<Rightarrow> nat \<Rightarrow> nat \<Rightarrow> goerr option
     \<Rightarrow> ('w, goerr + json option) state" where
  "get_loop E p c url 0 attempt lastErr = ret (Inl (exhausted (pcMaxRetries p) lastErr))"
| "get_loop E p c url (Suc left) attempt lastErr = do {
     waited \<leftarrow> (if attempt > 0 then gWait E c (retryWait (pcBackoff p) attempt) else ret (Inr ()));
     case waited of
       Inl e \<Rightarrow> ret (Inl e)
     | Inr _ \<Rightarrow> (case hNewRequest E url of
         Inl e \<Rightarrow> ret (Inl (WrapErr ''build HTTP request'' e))
       | Inr _ \<Rightarrow> do {
           r \<leftarrow> hDo E c (pcTimeout p) url;
           case judge r of
             Again e \<Rightarrow> get_loop E p c url left (Suc attempt) (Some e)
           | Stop res \<Rightarrow> ret res }) }"

definition prom_get ::
    "'w http_env \<Rightarrow> PrometheusClient \<Rightarrow> ctx \<Rightarrow> string \<Rightarrow> ('w, goerr + json option) state" where
  "prom_get E p c url = get_loop E p c url (nat (pcMaxRetries p)) 0 None"

definition instantQuery ::
    "'w http_env \<Rightarrow> PrometheusClient \<Rightarrow> ctx \<Rightarrow> string \<Rightarrow> ('w, goerr + json option) state" where
  "instantQuery E p c promql =
     (case hParseURL E (pcBaseURL p @ ''/api/v1/query'') of
        Inl e \<Rightarrow> ret (Inl (WrapErr ''parse endpoint URL'' e))
      | Inr u \<Rightarrow> prom_get E p c (u @ ''?'' @ Values_Encode [(''query'', promql)]))"

definition time_Unix :: "time \<Rightarrow> int" where "time_Unix t = t div Second"

definition rangeQuery ::
    "'w http_env \<Rightarrow> PrometheusClient \<Rightarrow> ctx \<Rightarrow> string \<Rightarrow> time \<Rightarrow> time \<Rightarrow> string
     \<Rightarrow> ('w, goerr + json option) state" where
  "rangeQuery E p c promql start until step =
     (case hParseURL E (pcBaseURL p @ ''/api/v1/query_range'') of
        Inl e \<Rightarrow> ret (Inl (WrapErr ''parse endpoint URL'' e))
      | Inr u \<Rightarrow> prom_get E p c (u @ ''?'' @ Values_Encode
          [(''end'', Itoa (time_Unix until)), (''query'', promql),
           (''start'', Itoa (time_Unix start)), (''step'', step)]))"

text \<open>The decoding part of \<open>InstantValue\<close>, after the HTTP call.\<close>

definition instant_of_data :: "string \<Rightarrow> json option \<Rightarrow> goerr + f64" where
  "instant_of_data promql data =
     (case unmarshal_raw dec_payload data zero_payload of
        None \<Rightarrow> Inl (QueryError promql (WrapErr ''decode payload'' jsonErr))
      | Some payload \<Rightarrow> (case qpResult payload of
          [] \<Rightarrow> Inl (QueryError promql ErrNoMetricData)
        | r # _ \<Rightarrow> (case unmarshal_raw dec_sample r zero_sample of
            None \<Rightarrow> Inl (QueryError promql (WrapErr ''decode vector sample'' jsonErr))
          | Some sample \<Rightarrow> (case unmarshal_raw dec_string (snd (vsValue sample)) [] of
              None \<Rightarrow> Inl (QueryError promql (WrapErr ''decode value string'' jsonErr))
            | Some valStr \<Rightarrow> (case ParseFloat valStr of
                None \<Rightarrow> Inl (QueryError promql (WrapErr (''parse float '' @ valStr) (GoErr ''invalid syntax'')))
              | Some v \<Rightarrow> Inr v)))))"

definition InstantValue ::
    "'w http_env \<Rightarrow> PrometheusClient \<Rightarrow> ctx \<Rightarrow> string \<Rightarrow> ('w, goerr + f64) state" where
  "InstantValue E p c promql = do {
     r \<leftarrow> instantQuery E p c promql;
     ret (case r of Inl e \<Rightarrow> Inl (QueryError promql e) | Inr data \<Rightarrow> instant_of_data promql data) }"

text \<open>\<open>Sustained\<close>: at least four fifths of the points a range in 30 second steps should have.\<close>

definition expectedPoints :: "int \<Rightarrow> f64" where
  "expectedPoints minutes = f_div (f_of_int (wrap64 (minutes * 60))) (Fin 30)"

definition enoughPoints :: "nat \<Rightarrow> int \<Rightarrow> bool" where
  "enoughPoints n minutes = f_ge (f_of_int (int n)) (f_mul (expectedPoints minutes) (Fin (4 / 5)))"

definition sustained_of_data :: "string \<Rightarrow> int \<Rightarrow> json option \<Rightarrow> bool \<times> goerr option" where
  "sustained_of_data expr minutes data =
     (case unmarshal_raw dec_payload data zero_payload of
        None \<Rightarrow> (False, Some (QueryError expr (WrapErr ''decode range payload'' jsonErr)))
      | Some payload \<Rightarrow> (case qpResult payload of
          [] \<Rightarrow> (False, None)
        | r # _ \<Rightarrow> (case unmarshal_raw dec_series r zero_series of
            None \<Rightarrow> (False, Some (QueryError expr (WrapErr ''decode matrix series'' jsonErr)))
          | Some series \<Rightarrow> (enoughPoints (length (msValues series)) minutes, None))))"

text \<open>\<open>time.Time.Add\<close> of a negated number of minutes: the product wraps, the time does not.\<close>

definition minutes_before :: "time \<Rightarrow> int \<Rightarrow> time" where
  "minutes_before t minutes = t + wrap64 (wrap64 (- minutes) * Minute)"

definition Sustained ::
    "(f64 \<Rightarrow> string) \<Rightarrow> 'w http_env \<Rightarrow> PrometheusClient \<Rightarrow> ctx \<Rightarrow> string \<Rightarrow> f64 \<Rightarrow> int
     \<Rightarrow> ('w, bool \<times> goerr option) state" where
  "Sustained fmtG E p c promql threshold minutes = do {
     let expr = promql @ '' > '' @ fmtG threshold;
     until \<leftarrow> gNow E;
     let start = minutes_before until minutes;
     r \<leftarrow> rangeQuery E p c expr start until ''30s'';
     ret (case r of Inl e \<Rightarrow> (False, Some (QueryError expr e))
                  | Inr data \<Rightarrow> sustained_of_data expr minutes data) }"

fun decode_all_series :: "json option list \<Rightarrow> MatrixSeries list option" where
  "decode_all_series [] = Some []"
| "decode_all_series (raw # raws) =
     (case unmarshal_raw dec_series raw zero_series of None \<Rightarrow> None
      | Some s \<Rightarrow> (case decode_all_series raws of None \<Rightarrow> None | Some ss \<Rightarrow> Some (s # ss)))"

definition RangeValues ::
    "'w http_env \<Rightarrow> PrometheusClient \<Rightarrow> ctx \<Rightarrow> string \<Rightarrow> time \<Rightarrow> time \<Rightarrow> string
     \<Rightarrow> ('w, goerr + MatrixSeries list) state" where
  "RangeValues E p c promql start until step = do {
     r \<leftarrow> rangeQuery E p c promql start until step;
     ret (case r of Inl e \<Rightarrow> Inl (QueryError promql e)
        | Inr data \<Rightarrow> (case unmarshal_raw dec_payload data zero_payload of
            None \<Rightarrow> Inl (QueryError promql (WrapErr ''decode range payload'' jsonErr))
          | Some payload \<Rightarrow> (case decode_all_series (qpResult payload) of
              None \<Rightarrow> Inl (QueryError promql (WrapErr ''decode matrix series'' jsonErr))
            | Some ss \<Rightarrow> Inr ss))) }"

text \<open>\<open>var _ MetricQuerier = (*PrometheusClient)(nil)\<close>: the client as an implementation.\<close>

definition prom_querier :: "(f64 \<Rightarrow> string) \<Rightarrow> 'w http_env \<Rightarrow> PrometheusClient \<Rightarrow> 'w MetricQuerier" where
  "prom_querier fmtG E p = \<lparr>
     mqHealthy = prom_Healthy E p,
     mqInstantValue = (\<lambda>c q. do { r \<leftarrow> InstantValue E p c q; ret (Ret r) }),
     mqSustained = (\<lambda>c q t m. do { r \<leftarrow> Sustained fmtG E p c q t m; ret (Ret r) }),
     mqRangeValues = (\<lambda>c q s e st. do { r \<leftarrow> RangeValues E p c q s e st; ret (Ret r) })\<rparr>"

subsection \<open>The contract of the interface\<close>

text \<open>
  What the evaluator may rely on: calls return (they do not panic), and a sustained check
  that reports an error reports \<open>false\<close> with it.
\<close>

locale metric_backend =
  fixes Q :: "'w MetricQuerier"
  assumes instant_returns: "wp (mqInstantValue Q c q) (\<lambda>r _. \<exists>x. r = Ret x) w"
    and sustained_returns: "wp (mqSustained Q c q t m) (\<lambda>r _. case r of Panic _ \<Rightarrow> False | Ret (b, e) \<Rightarrow> e \<noteq> None \<longrightarrow> \<not> b) w"
    and range_returns: "wp (mqRangeValues Q c q s e st) (\<lambda>r _. \<exists>x. r = Ret x) w"

lemma sustained_of_data_error: "sustained_of_data expr m d \<noteq> (True, Some e)"
  by (auto simp: sustained_of_data_def split: option.splits list.splits)

interpretation prom: metric_backend "prom_querier fmtG E p" for fmtG :: "f64 \<Rightarrow> string" and E :: "'w http_env" and p
proof unfold_locales
  show "wp (mqInstantValue (prom_querier fmtG E p) c q) (\<lambda>r _. \<exists>x. r = Ret x) w" for c q w
    by (simp add: prom_querier_def wp_any)
  show "wp (mqSustained (prom_querier fmtG E p) c q t m) (\<lambda>r _. case r of Panic _ \<Rightarrow> False | Ret (b, e) \<Rightarrow> e \<noteq> None \<longrightarrow> \<not> b) w"
    for c q t m w
    by (auto simp: prom_querier_def Sustained_def Let_def sustained_of_data_error
             intro!: wp_any [where m = "gNow E"] wp_any [where m = "rangeQuery E p c q s u st" for q s u st]
             split: sum.splits)
  show "wp (mqRangeValues (prom_querier fmtG E p) c q s e st) (\<lambda>r _. \<exists>x. r = Ret x) w" for c q s e st w
    by (simp add: prom_querier_def wp_any)
qed

subsection \<open>Retries\<close>

text \<open>Any environment, with the number of requests sent so far.\<close>

definition counting :: "'w http_env \<Rightarrow> ('w \<times> nat) http_env" where
  "counting E = \<lparr>
     gNow = lift_log (gNow E),
     gWait = (\<lambda>c d. lift_log (gWait E c d)),
     hParseURL = hParseURL E,
     hNewRequest = hNewRequest E,
     hDo = (\<lambda>c d u. State (\<lambda>(w, n). case run_state (hDo E c d u) w of (r, w') \<Rightarrow> (r, (w', Suc n))))\<rparr>"

lemma counting_simps [simp]:
  "gNow (counting E) = lift_log (gNow E)"
  "gWait (counting E) c d = lift_log (gWait E c d)"
  "hNewRequest (counting E) = hNewRequest E"
  "hParseURL (counting E) = hParseURL E"
  "wp (hDo (counting E) c d u) Q (w, n) = wp (hDo E c d u) (\<lambda>r w'. Q r (w', Suc n)) w"
  by (simp_all add: counting_def wp_def split: prod.splits)

text \<open>The calls of an arbitrary HTTP environment.\<close>

lemmas http_any =
  wp_any [where m = "gNow E" for E] wp_any [where m = "gWait E c d" for E c d]
  wp_any [where m = "hDo E c d u" for E c d u]

lemma get_loop_requests:
  "wp (get_loop (counting E) p c url left attempt lastErr) (\<lambda>_ (_, n'). n' \<le> n + left) (w, n)"
proof (induction left arbitrary: attempt lastErr w n)
  case 0
  then show ?case by simp
next
  case (Suc left)
  have "wp (get_loop (counting E) p c url left (Suc attempt) (Some e)) (\<lambda>_ (_, n'). n' \<le> n + Suc left) (w', Suc n)"
    for e w' using Suc.IH [where attempt = "Suc attempt" and lastErr = "Some e" and w = w' and n = "Suc n"] by simp
  then show ?case
    by (auto intro!: http_any split: sum.splits verdict.splits)
qed

text \<open>
  An environment that gives a prepared sequence of answers; it keeps the number of requests
  and the waits.
\<close>

record script =
  scAnswers :: "(goerr + http_response) list"
  scSent :: nat
  scWaits :: "duration list"

definition script_http :: "script http_env" where
  "script_http = \<lparr>
     gNow = ret 0,
     gWait = (\<lambda>c d. State (\<lambda>w. (Inr (), w\<lparr>scWaits := scWaits w @ [d]\<rparr>))),
     hParseURL = Inr,
     hNewRequest = (\<lambda>_. Inr ()),
     hDo = (\<lambda>c d u. State (\<lambda>w. case scAnswers w of
        [] \<Rightarrow> (Inl (GoErr ''connection refused''), w\<lparr>scSent := Suc (scSent w)\<rparr>)
      | r # rs \<Rightarrow> (r, w\<lparr>scAnswers := rs, scSent := Suc (scSent w)\<rparr>)))\<rparr>"

lemma script_step:
  "run_state (get_loop script_http p c url (Suc left) attempt lastErr) \<lparr>scAnswers = r # rs, scSent = n, scWaits = ws\<rparr> =
     (case judge r of
        Stop res \<Rightarrow> (res, \<lparr>scAnswers = rs, scSent = Suc n,
                       scWaits = ws @ (if attempt > 0 then [retryWait (pcBackoff p) attempt] else [])\<rparr>)
      | Again e \<Rightarrow> run_state (get_loop script_http p c url left (Suc attempt) (Some e))
                     \<lparr>scAnswers = rs, scSent = Suc n,
                      scWaits = ws @ (if attempt > 0 then [retryWait (pcBackoff p) attempt] else [])\<rparr>)"
  by (simp add: script_http_def split: verdict.splits)

lemma script_loop:
  assumes "k < left" "k < length rs"
    and "\<forall>i<k. \<exists>e. judge (rs ! i) = Again e" "judge (rs ! k) = Stop res"
  shows "run_state (get_loop script_http p c url left attempt lastErr) \<lparr>scAnswers = rs, scSent = n, scWaits = ws\<rparr> =
     (res, \<lparr>scAnswers = drop (Suc k) rs, scSent = n + Suc k,
            scWaits = ws @ map (retryWait (pcBackoff p)) (filter (\<lambda>i. 0 < i) [attempt..<attempt + Suc k])\<rparr>)"
  using assms
proof (induction k arbitrary: left rs attempt lastErr n ws)
  case 0
  then obtain r rs' left' where "rs = r # rs'" "left = Suc left'"
    by (metis length_greater_0_conv neq_Nil_conv not0_implies_Suc not_less_zero)
  with 0 show ?case by (simp add: script_step del: get_loop.simps)
next
  case (Suc k)
  then obtain r rs' left' where rs: "rs = r # rs'" and left: "left = Suc left'"
    by (metis length_0_conv list.exhaust not0_implies_Suc not_less_zero)
  from Suc.prems(3) rs obtain e where e: "judge r = Again e" by auto
  have IH: "run_state (get_loop script_http p c url left' (Suc attempt) (Some e))
        \<lparr>scAnswers = rs', scSent = Suc n, scWaits = ws'\<rparr> =
     (res, \<lparr>scAnswers = drop (Suc k) rs', scSent = Suc n + Suc k,
            scWaits = ws' @ map (retryWait (pcBackoff p)) (filter (\<lambda>i. 0 < i) [Suc attempt..<Suc attempt + Suc k])\<rparr>)"
    for ws'
    using Suc.prems rs left by (intro Suc.IH) auto
  have "[attempt..<attempt + Suc (Suc k)] = attempt # [Suc attempt..<Suc attempt + Suc k]"
    by (simp add: upt_rec)
  then show ?case
    by (simp add: rs left script_step e IH del: get_loop.simps)
qed



text \<open>
  Whatever the network answers, one call of the Prometheus transport sends at most the
  configured number of requests (none when that number is not positive).
\<close>

theorem get_requests_bounded:
  "wp (prom_get (counting E) p c url) (\<lambda>_ (_, sent). sent \<le> nat (pcMaxRetries p)) (w, 0)"
  using get_loop_requests [where left = "nat (pcMaxRetries p)" and attempt = 0 and lastErr = None and n = 0] by (simp add: prom_get_def)

subsection \<open>Sustained thresholds\<close>

lemma enoughPoints_iff:
  assumes "in_int64 (60 * m)"
  shows "enoughPoints n m \<longleftrightarrow> 8 * m \<le> 5 * int n"
proof -
  have "enoughPoints n m \<longleftrightarrow> rat_of_int (60 * m) / 30 * (4 / 5) \<le> rat_of_int (int n)"
    using assms by (simp add: enoughPoints_def expectedPoints_def f_of_int_def mult.commute)
  also have "\<dots> \<longleftrightarrow> rat_of_int (8 * m) \<le> rat_of_int (5 * int n)"
    by (simp add: field_simps)
  finally show ?thesis by (simp only: of_int_le_iff)
qed

end
