(* ===== verification/Health_Evaluator.thy ===== *)
theory Health_Evaluator
  imports Health_Metric
begin

text \<open>
  \<open>internal/health/evaluator.go\<close>: the five trigger evaluations over a \<open>MetricQuerier\<close> and their
  aggregation by \<open>CheckAll\<close>, panics of the metric backend included.
\<close>

subsection \<open>The checker\<close>

record 'w Checker =
  chQ :: "'w MetricQuerier"
  chT :: Thresholds

definition NewChecker :: "'w MetricQuerier \<Rightarrow> Thresholds \<Rightarrow> 'w Checker" where
  "NewChecker m t = \<lparr>chQ = m, chT = applyDefaults t\<rparr>"

text \<open>A panic ends the evaluation; a return continues it.\<close>

definition calling ::
    "('w, 'a outcome) state \<Rightarrow> ('a \<Rightarrow> ('w, 'b outcome) state) \<Rightarrow> ('w, 'b outcome) state" where
  "calling m f = State_Monad.bind m (\<lambda>r. case r of Panic p \<Rightarrow> ret (Panic p) | Ret v \<Rightarrow> f v)"

type_synonym 'w trigger_eval =
  "'w Checker \<Rightarrow> ctx \<Rightarrow> string \<Rightarrow> BlockchainType \<Rightarrow> ('w, TriggerResult outcome) state"

abbreviation (input) dq :: string where "dq \<equiv> [CHR 0x22]"

definition evalSyncLag :: "'w trigger_eval" where
  "evalSyncLag c cx pod chain =
     (case chainConfigs chain of
        None \<Rightarrow> ret (Ret (noDataResult ''n/a''))
      | Some cfg \<Rightarrow>
          let query = syncLagQuery cfg pod;
              threshold = syncLagThreshold (chT c) chain
          in calling (mqInstantValue (chQ c) cx query) (\<lambda>r.
               case r of
                 Inl err \<Rightarrow> ret (Ret (noDataResult (formatMetric threshold)))
               | Inr lag \<Rightarrow> calling (mqSustained (chQ c) cx query threshold (SyncLagDuration (chT c))) (\<lambda>(fired, sustainErr).
                   ret (Ret \<lparr>trFired = fired, trValue = formatMetric lag,
                             trThreshold = formatMetric threshold\<rparr>))))"

definition errorRateQuery :: "string \<Rightarrow> int \<Rightarrow> string" where
  "errorRateQuery pod window =
     ''sum(rate(eth_rpc_errors_total{pod=~'' @ dq @ pod @ dq @ ''}['' @ Itoa window @ ''m])) / '' @
     ''sum(rate(eth_rpc_requests_total{pod=~'' @ dq @ pod @ dq @ ''}['' @ Itoa window @ ''m]))''"

definition evalErrorRate :: "'w trigger_eval" where
  "evalErrorRate c cx pod chain =
     calling (mqInstantValue (chQ c) cx (errorRateQuery pod (ErrorRateWindow (chT c)))) (\<lambda>r.
       case r of
         Inl err \<Rightarrow> ret (Ret (noDataResult (formatMetric (ErrorRate (chT c)))))
       | Inr rate \<Rightarrow> ret (Ret \<lparr>trFired = f_gt rate (ErrorRate (chT c)), trValue = formatMetric rate,
                               trThreshold = formatMetric (ErrorRate (chT c))\<rparr>))"

definition latencyQuery :: "string \<Rightarrow> string" where
  "latencyQuery pod =
     ''histogram_quantile(0.99, sum(rate(rpc_request_duration_seconds_bucket{pod=~'' @ dq @ pod @ dq @
     ''}[5m])) by (le))''"

definition evalLatency :: "'w trigger_eval" where
  "evalLatency c cx pod chain =
     (let threshold = latencyThreshold (chT c) chain;
          query = latencyQuery pod
      in calling (mqInstantValue (chQ c) cx query) (\<lambda>r.
           case r of
             Inl err \<Rightarrow> ret (Ret (noDataResult (formatMetric threshold)))
           | Inr latency \<Rightarrow> calling (mqSustained (chQ c) cx query threshold (LatencyDuration (chT c))) (\<lambda>(fired, sustainErr).
               ret (Ret \<lparr>trFired = fired, trValue = formatMetric latency,
                         trThreshold = formatMetric threshold\<rparr>))))"

definition restartsQuery :: "string \<Rightarrow> string" where
  "restartsQuery pod = ''kube_pod_container_status_restarts_total{pod=~'' @ dq @ pod @ dq @ ''}''"

text \<open>
  The restart count at the start of the window, from the first point of the first series;
  zero whenever it cannot be read.
\<close>

definition past_restarts :: "goerr + MatrixSeries list \<Rightarrow> f64" where
  "past_restarts r = (case r of
     Inr (s # _) \<Rightarrow> (case msValues s of
        v # _ \<Rightarrow> (case unmarshal_raw dec_string (snd v) [] of
            Some valStr \<Rightarrow> (case ParseFloat valStr of Some x \<Rightarrow> x | None \<Rightarrow> Fin 0)
          | None \<Rightarrow> Fin 0)
      | [] \<Rightarrow> Fin 0)
   | _ \<Rightarrow> Fin 0)"

definition evalCrashLoop :: "('w, 'x) go_env_scheme \<Rightarrow> 'w trigger_eval" where
  "evalCrashLoop E c cx pod chain =
     (let query = restartsQuery pod in
      calling (mqInstantValue (chQ c) cx query) (\<lambda>r.
        case r of
          Inl err \<Rightarrow> ret (Ret (noDataResult (Itoa (CrashLoopRestarts (chT c)))))
        | Inr current \<Rightarrow> do {
            now \<leftarrow> gNow E;
            let start = minutes_before now (CrashLoopWindow (chT c));
            calling (mqRangeValues (chQ c) cx query start (start + 30 * Second) ''30s'') (\<lambda>series.
              let restartsInWindow = f_sub current (past_restarts series)
              in ret (Ret \<lparr>trFired = f_ge restartsInWindow (f_of_int (CrashLoopRestarts (chT c))),
                           trValue = formatMetric restartsInWindow,
                           trThreshold = Itoa (CrashLoopRestarts (chT c))\<rparr>)) }))"

definition diskUsageQuery :: "string \<Rightarrow> string" where
  "diskUsageQuery pod =
     ''sum(container_fs_usage_bytes{pod=~'' @ dq @ pod @ dq @ ''}) / '' @
     ''sum(container_fs_limit_bytes{pod=~'' @ dq @ pod @ dq @ ''})''"

definition evalDiskUsage :: "'w trigger_eval" where
  "evalDiskUsage c cx pod chain =
     calling (mqInstantValue (chQ c) cx (diskUsageQuery pod)) (\<lambda>r.
       case r of
         Inl err \<Rightarrow> ret (Ret (noDataResult (formatMetric (DiskUsage (chT c)))))
       | Inr usage \<Rightarrow> ret (Ret \<lparr>trFired = f_gt usage (DiskUsage (chT c)), trValue = formatMetric usage,
                                trThreshold = formatMetric (DiskUsage (chT c))\<rparr>))"

text \<open>\<open>safeEval\<close>: a recovered panic counts as no data.\<close>

definition safeEval :: "('w, TriggerResult outcome) state \<Rightarrow> ('w, TriggerResult) state" where
  "safeEval m = do {
     r \<leftarrow> m;
     ret (case r of Ret v \<Rightarrow> v | Panic _ \<Rightarrow> noDataResult ''n/a'') }"

definition trigger_evals :: "('w, 'x) go_env_scheme \<Rightarrow> (TriggerName \<times> 'w trigger_eval) list" where
  "trigger_evals E =
     [(TriggerSyncLag, evalSyncLag), (TriggerErrorRate, evalErrorRate), (TriggerLatency, evalLatency),
      (TriggerCrashLoop, evalCrashLoop E), (TriggerDiskUsage, evalDiskUsage)]"

fun run_evals ::
    "'w Checker \<Rightarrow> ctx \<Rightarrow> string \<Rightarrow> BlockchainType \<Rightarrow> (TriggerName \<times> 'w trigger_eval) list
     \<Rightarrow> (TriggerName \<times> TriggerResult) list \<Rightarrow> ('w, (TriggerName \<times> TriggerResult) list) state" where
  "run_evals c cx pod chain [] acc = ret acc"
| "run_evals c cx pod chain ((name, fn) # evs) acc = do {
     r \<leftarrow> safeEval (fn c cx pod chain);
     run_evals c cx pod chain evs (AList.update name r acc) }"

text \<open>
  \<open>CheckAll\<close> calls \<open>Healthy\<close> outside the recovery of \<open>safeEval\<close>. Its type here has no panic: the one
  implementation, that of \<open>PrometheusClient\<close>, has none.
\<close>

definition CheckAll ::
    "('w, 'x) go_env_scheme \<Rightarrow> 'w Checker \<Rightarrow> ctx \<Rightarrow> string \<Rightarrow> BlockchainType \<Rightarrow> ('w, HealthStatus) state" where
  "CheckAll E c cx pod chain = do {
     up \<leftarrow> mqHealthy (chQ c) cx;
     if \<not> up
     then ret \<lparr>hsPodName = pod, hsBlockchain = chain,
               hsResults = fold (\<lambda>name m. AList.update name (noDataResult ''n/a'') m) allTriggers []\<rparr>
     else do {
       results \<leftarrow> run_evals c cx pod chain (trigger_evals E) [];
       ret \<lparr>hsPodName = pod, hsBlockchain = chain, hsResults = results\<rparr> } }"

subsection \<open>What the evaluator asks and hears\<close>

text \<open>
  Any metric backend with a record of its answers: \<open>HeardInstant\<close> and \<open>HeardSustained\<close> entries
  are the calls that returned.
\<close>

datatype heard =
    HeardInstant string "goerr + f64"
  | HeardSustained string f64 int bool
  | HeardRange string "goerr + MatrixSeries list"

definition listening :: "('a outcome \<Rightarrow> heard list) \<Rightarrow> ('w, 'a outcome) state \<Rightarrow> ('w \<times> heard list, 'a outcome) state" where
  "listening f m = State (\<lambda>(w, l). case run_state m w of (a, w') \<Rightarrow> (a, (w', l @ f a)))"

definition observed :: "'w MetricQuerier \<Rightarrow> ('w \<times> heard list) MetricQuerier" where
  "observed Q = \<lparr>
     mqHealthy = (\<lambda>c. lift_log (mqHealthy Q c)),
     mqInstantValue = (\<lambda>c q. listening (\<lambda>r. case r of Ret v \<Rightarrow> [HeardInstant q v] | Panic _ \<Rightarrow> []) (mqInstantValue Q c q)),
     mqSustained = (\<lambda>c q t m. listening (\<lambda>r. case r of Ret (b, _) \<Rightarrow> [HeardSustained q t m b] | Panic _ \<Rightarrow> []) (mqSustained Q c q t m)),
     mqRangeValues = (\<lambda>c q s e st. listening (\<lambda>r. case r of Ret v \<Rightarrow> [HeardRange q v] | Panic _ \<Rightarrow> []) (mqRangeValues Q c q s e st))\<rparr>"

definition observed_env :: "'w go_env \<Rightarrow> ('w \<times> heard list) go_env" where
  "observed_env E = \<lparr>gNow = lift_log (gNow E), gWait = (\<lambda>c d. lift_log (gWait E c d))\<rparr>"

text \<open>The evidence that justifies a fired trigger, in terms of the answers heard.\<close>

definition evidence :: "Thresholds \<Rightarrow> string \<Rightarrow> BlockchainType \<Rightarrow> heard set \<Rightarrow> TriggerName \<Rightarrow> bool" where
  "evidence t pod chain H name \<longleftrightarrow>
     (name = TriggerSyncLag \<and> (\<exists>cfg. chainConfigs chain = Some cfg \<and>
        HeardSustained (syncLagQuery cfg pod) (syncLagThreshold t chain) (SyncLagDuration t) True \<in> H)) \<or>
     (name = TriggerErrorRate \<and> (\<exists>rate. HeardInstant (errorRateQuery pod (ErrorRateWindow t)) (Inr rate) \<in> H \<and>
        f_gt rate (ErrorRate t))) \<or>
     (name = TriggerLatency \<and>
        HeardSustained (latencyQuery pod) (latencyThreshold t chain) (LatencyDuration t) True \<in> H) \<or>
     (name = TriggerCrashLoop \<and> (\<exists>cur past. HeardInstant (restartsQuery pod) (Inr cur) \<in> H \<and>
        HeardRange (restartsQuery pod) past \<in> H \<and>
        f_ge (f_sub cur (past_restarts past)) (f_of_int (CrashLoopRestarts t)))) \<or>
     (name = TriggerDiskUsage \<and> (\<exists>u. HeardInstant (diskUsageQuery pod) (Inr u) \<in> H \<and> f_gt u (DiskUsage t)))"

lemma wp_listening [simp]:
  "wp (listening f m) Q (w, l) = wp m (\<lambda>a w'. Q a (w', l @ f a)) w"
  by (simp add: wp_def listening_def split: prod.splits)

lemma wp_calling [simp]:
  "wp (calling m f) Q w = wp m (\<lambda>r w'. case r of Panic p \<Rightarrow> Q (Panic p) w' | Ret v \<Rightarrow> wp (f v) Q w') w"
  by (simp add: calling_def) (rule arg_cong [where f = "\<lambda>P. wp m P w"], auto simp: fun_eq_iff split: outcome.splits)

lemma wp_safeEval [simp]:
  "wp (safeEval m) Q w = wp m (\<lambda>r w'. Q (case r of Ret v \<Rightarrow> v | Panic _ \<Rightarrow> noDataResult ''n/a'') w') w"
  by (simp add: safeEval_def)

lemma observed_simps [simp]:
  "mqHealthy (observed Q) c = lift_log (mqHealthy Q c)"
  "mqInstantValue (observed Q) c q =
     listening (\<lambda>r. case r of Ret v \<Rightarrow> [HeardInstant q v] | Panic _ \<Rightarrow> []) (mqInstantValue Q c q)"
  "mqSustained (observed Q) c q t m =
     listening (\<lambda>r. case r of Ret (b, _) \<Rightarrow> [HeardSustained q t m b] | Panic _ \<Rightarrow> []) (mqSustained Q c q t m)"
  "mqRangeValues (observed Q) c q s e st =
     listening (\<lambda>r. case r of Ret v \<Rightarrow> [HeardRange q v] | Panic _ \<Rightarrow> []) (mqRangeValues Q c q s e st)"
  "gNow (observed_env E) = lift_log (gNow E)"
  by (simp_all add: observed_def observed_env_def)

lemma evidence_mono: "evidence t pod chain H name \<Longrightarrow> H \<subseteq> H' \<Longrightarrow> evidence t pod chain H' name"
  unfolding evidence_def by (elim disjE conjE exE) (auto dest: subsetD)

text \<open>The calls of an arbitrary backend.\<close>

lemmas backend_any =
  wp_any [where m = "mqHealthy Q c" for Q c] wp_any [where m = "mqInstantValue Q c q" for Q c q]
  wp_any [where m = "mqSustained Q c q t m" for Q c q t m]
  wp_any [where m = "mqRangeValues Q c q s e st" for Q c q s e st]
  wp_any [where m = "gNow E" for E]

lemmas trigger_eval_defs =
  evalSyncLag_def evalErrorRate_def evalLatency_def evalCrashLoop_def evalDiskUsage_def

definition justified ::
    "Thresholds \<Rightarrow> string \<Rightarrow> BlockchainType \<Rightarrow> heard list \<Rightarrow> TriggerName \<Rightarrow> TriggerResult \<Rightarrow> 'w \<times> heard list \<Rightarrow> bool" where
  "justified t pod chain l name r s \<longleftrightarrow>
     set l \<subseteq> set (snd s) \<and> (trFired r \<longrightarrow> evidence t pod chain (set (snd s)) name)"

lemma sync_lag_evidence:
  "wp (safeEval (evalSyncLag \<lparr>chQ = observed Q, chT = t\<rparr> cx pod chain)) (justified t pod chain l TriggerSyncLag) (w, l)"
  by (auto simp: evalSyncLag_def Let_def justified_def evidence_def
        intro!: backend_any split: option.splits outcome.splits sum.splits)

lemma error_rate_evidence:
  "wp (safeEval (evalErrorRate \<lparr>chQ = observed Q, chT = t\<rparr> cx pod chain)) (justified t pod chain l TriggerErrorRate) (w, l)"
  by (auto simp: evalErrorRate_def justified_def evidence_def
        intro!: backend_any split: outcome.splits sum.splits)

lemma latency_evidence:
  "wp (safeEval (evalLatency \<lparr>chQ = observed Q, chT = t\<rparr> cx pod chain)) (justified t pod chain l TriggerLatency) (w, l)"
  by (auto simp: evalLatency_def Let_def justified_def evidence_def
        intro!: backend_any split: outcome.splits sum.splits)

lemma crash_loop_evidence:
  "wp (safeEval (evalCrashLoop (observed_env E) \<lparr>chQ = observed Q, chT = t\<rparr> cx pod chain))
     (justified t pod chain l TriggerCrashLoop) (w, l)"
  by (auto simp: evalCrashLoop_def Let_def justified_def evidence_def
        intro!: backend_any split: outcome.splits sum.splits)

lemma disk_usage_evidence:
  "wp (safeEval (evalDiskUsage \<lparr>chQ = observed Q, chT = t\<rparr> cx pod chain)) (justified t pod chain l TriggerDiskUsage) (w, l)"
  by (auto simp: evalDiskUsage_def justified_def evidence_def
        intro!: backend_any split: outcome.splits sum.splits)

lemma eval_evidence:
  assumes "(name, fn) \<in> set (trigger_evals (observed_env E))"
  shows "wp (safeEval (fn \<lparr>chQ = observed Q, chT = t\<rparr> cx pod chain)) (justified t pod chain l name) (w, l)"
  using assms unfolding trigger_evals_def
  by (auto simp only: set_simps insert_iff empty_iff prod.inject
        intro: sync_lag_evidence error_rate_evidence latency_evidence crash_loop_evidence disk_usage_evidence)

lemma run_evals_evidence:
  assumes "set evs \<subseteq> set (trigger_evals (observed_env E))"
    and "\<forall>(name, r) \<in> set acc. trFired r \<longrightarrow> evidence t pod chain (set l) name"
  shows "wp (run_evals \<lparr>chQ = observed Q, chT = t\<rparr> cx pod chain evs acc)
           (\<lambda>rs (w', l'). \<forall>(name, r) \<in> set rs. trFired r \<longrightarrow> evidence t pod chain (set l') name) (w, l)"
  using assms
proof (induction evs arbitrary: acc w l)
  case Nil
  then show ?case by simp
next
  case (Cons ev evs)
  obtain name fn where ev: "ev = (name, fn)" by (cases ev)
  from Cons.prems ev have mem: "(name, fn) \<in> set (trigger_evals (observed_env E))" by simp
  have upd: "\<forall>(n, r') \<in> set (AList.update name r acc). trFired r' \<longrightarrow> evidence t pod chain (set (snd s)) n"
    if "justified t pod chain l name r s" for r :: TriggerResult and s :: "'a \<times> heard list"
  proof -
    have "set (AList.update name r acc) \<subseteq> insert (name, r) (set acc)"
      by (induction acc) auto
    with that Cons.prems(2) show ?thesis
      unfolding justified_def by (blast intro: evidence_mono)
  qed
  show ?case
    unfolding ev run_evals.simps wp_bind
  proof (rule wp_mono [OF eval_evidence [OF mem, where Q = Q and t = t and cx = cx and pod = pod and chain = chain and l = l and w = w]])
    fix r and s :: "'a \<times> heard list"
    assume "justified t pod chain l name r s"
    from upd [OF this] Cons.prems(1)
    show "wp (run_evals \<lparr>chQ = observed Q, chT = t\<rparr> cx pod chain evs (AList.update name r acc))
           (\<lambda>rs (w', l'). \<forall>(name, r) \<in> set rs. trFired r \<longrightarrow> evidence t pod chain (set l') name) s"
      by (cases s) (auto intro!: Cons.IH)
  qed
qed

subsection \<open>Properties of the evaluation\<close>

lemma run_evals_keys:
  "wp (run_evals c cx pod chain evs acc)
     (\<lambda>rs _. map fst rs = fold (\<lambda>(n, _) ks. if n \<in> set ks then ks else ks @ [n]) evs (map fst acc)) w"
proof (induction evs arbitrary: acc w)
  case Nil
  then show ?case by simp
next
  case (Cons ev evs)
  obtain name fn where ev: "ev = (name, fn)" by (cases ev)
  have keys: "map fst (AList.update name r acc) =
      (if name \<in> set (map fst acc) then map fst acc else map fst acc @ [name])" for r
    by (auto simp: update_keys)
  have "wp (run_evals c cx pod chain evs (AList.update name r acc))
     (\<lambda>rs _. map fst rs = fold (\<lambda>(n, _) ks. if n \<in> set ks then ks else ks @ [n]) (ev # evs) (map fst acc)) w'"
    for r w'
    using Cons.IH [of "AList.update name r acc" w'] by (simp only: keys ev fold_simps prod.case)
  then show ?case
    by (simp add: ev) (rule wp_any, blast)
qed

lemma trigger_evals_keys:
  "fold (\<lambda>(n, _) ks. if n \<in> set ks then ks else ks @ [n]) (trigger_evals E) [] = allTriggers"
  by (simp add: trigger_evals_def allTriggers_def)

lemma TriggeredNames_iff:
  "name \<in> set (TriggeredNames s) \<longleftrightarrow> (\<exists>r. (name, r) \<in> set (hsResults s) \<and> trFired r)"
  by (auto simp: TriggeredNames_def image_iff)

lemma unreachable_results:
  "fold (\<lambda>name m. AList.update name (noDataResult ''n/a'') m) allTriggers [] =
     map (\<lambda>name. (name, noDataResult ''n/a'')) allTriggers"
  by (simp add: allTriggers_def)

lemma CheckAll_keys:
  "wp (CheckAll E c cx pod chain) (\<lambda>s _. map fst (hsResults s) = allTriggers) w"
proof -
  have "wp (run_evals c cx pod chain (trigger_evals E) []) (\<lambda>rs _. map fst rs = allTriggers) w'" for w'
    using run_evals_keys [where acc = "[]" and evs = "trigger_evals E" and c = c and cx = cx and pod = pod
        and chain = chain and w = w']
    by (simp add: trigger_evals_keys)
  then show ?thesis
    by (auto simp: CheckAll_def unreachable_results comp_def intro!: backend_any)
qed


subsection \<open>With an honest backend\<close>

context metric_backend
begin

lemma evaluations_return:
  assumes "(name, fn) \<in> set (trigger_evals E)"
  shows "wp (fn \<lparr>chQ = Q, chT = t\<rparr> cx pod chain) (\<lambda>r _. \<exists>v. r = Ret v) w"
proof -
  note returns = wp_mono [OF instant_returns] wp_mono [OF sustained_returns] wp_mono [OF range_returns]
    wp_any [where m = "gNow E"]
  have "wp (evalSyncLag \<lparr>chQ = Q, chT = t\<rparr> cx pod chain) (\<lambda>r _. \<exists>v. r = Ret v) w"
    by (auto simp: evalSyncLag_def Let_def intro!: returns split: option.splits sum.splits outcome.splits)
  moreover have "wp (evalErrorRate \<lparr>chQ = Q, chT = t\<rparr> cx pod chain) (\<lambda>r _. \<exists>v. r = Ret v) w"
    by (auto simp: evalErrorRate_def intro!: returns split: sum.splits)
  moreover have "wp (evalLatency \<lparr>chQ = Q, chT = t\<rparr> cx pod chain) (\<lambda>r _. \<exists>v. r = Ret v) w"
    by (auto simp: evalLatency_def Let_def intro!: returns split: sum.splits outcome.splits)
  moreover have "wp (evalCrashLoop E \<lparr>chQ = Q, chT = t\<rparr> cx pod chain) (\<lambda>r _. \<exists>v. r = Ret v) w"
    by (auto simp: evalCrashLoop_def Let_def intro!: returns split: sum.splits)
  moreover have "wp (evalDiskUsage \<lparr>chQ = Q, chT = t\<rparr> cx pod chain) (\<lambda>r _. \<exists>v. r = Ret v) w"
    by (auto simp: evalDiskUsage_def intro!: returns split: sum.splits)
  ultimately show ?thesis
    using assms unfolding trigger_evals_def by (auto simp only: set_simps insert_iff empty_iff prod.inject)
qed

lemma safeEval_transparent:
  assumes "(name, fn) \<in> set (trigger_evals E)"
    and "run_state (safeEval (fn \<lparr>chQ = Q, chT = t\<rparr> cx pod chain)) w = (r, w')"
  shows "run_state (fn \<lparr>chQ = Q, chT = t\<rparr> cx pod chain) w = (Ret r, w')"
  using evaluations_return [OF assms(1), of t cx pod chain w] assms(2)
  by (cases "run_state (fn \<lparr>chQ = Q, chT = t\<rparr> cx pod chain) w") (auto simp: wp_def safeEval_def)

end

text \<open>
  The panic recovery around a trigger evaluation never changes a result when the metric
  backend is the Prometheus client: the recovered evaluation gives what the evaluation
  itself returns, for every network behaviour.
\<close>

theorem prometheus_never_recovers:
  assumes "(name, fn) \<in> set (trigger_evals E)"
    and "run_state (safeEval (fn \<lparr>chQ = prom_querier fmtG H p, chT = t\<rparr> cx pod chain)) w = (r, w')"
  shows "run_state (fn \<lparr>chQ = prom_querier fmtG H p, chT = t\<rparr> cx pod chain) w = (Ret r, w')"
  using assms by (rule prom.safeEval_transparent)

lemma formatMetric_default_disk: "formatMetric (Fin (9 / 10)) = ''0.9''"
  using round_half_even_of_int [of 9000]
  by (simp add: formatMetric_def FormatFixed_def fixed_digits_def nat_digits.simps go_simps
                pad_left_def TrimRight_def)

theorem prometheus_never_recovers_witness:
  "let w = \<lparr>scAnswers = [], scSent = 0, scWaits = []\<rparr>;
       c = NewChecker (prom_querier (\<lambda>_. []) script_http (NewPrometheusClient ''http://prometheus:9090'' [])) DefaultThresholds
   in fst (run_state (evalDiskUsage c None ''eth-0'' BlockchainEthereum) w) = Ret (noDataResult ''0.9'')"
proof -
  let ?w = "\<lparr>scAnswers = [], scSent = 0, scWaits = []\<rparr>"
  let ?Q = "prom_querier (\<lambda>_. []) script_http (NewPrometheusClient ''http://prometheus:9090'' [])"
  let ?t = "applyDefaults DefaultThresholds"
  obtain r w' where run: "run_state (safeEval (evalDiskUsage \<lparr>chQ = ?Q, chT = ?t\<rparr> None ''eth-0'' BlockchainEthereum)) ?w = (r, w')"
    by (meson surj_pair)
  have mem: "(TriggerDiskUsage, evalDiskUsage) \<in> set (trigger_evals script_http)"
    by (simp add: trigger_evals_def)
  have "r = noDataResult ''0.9''"
    using arg_cong [OF run, of fst]
    by (simp add: safeEval_def evalDiskUsage_def calling_def prom_querier_def InstantValue_def instantQuery_def
          prom_get_def script_http_def NewPrometheusClient_def eval_nat_numeral judge_def
          applyDefaults_def DefaultThresholds_def Let_def defaultF_def formatMetric_default_disk)
  with prometheus_never_recovers [OF mem run] show ?thesis
    by (simp add: NewChecker_def)
qed

end
