(* ===== verification/Replacement.thy ===== *)
theory Replacement
  imports Traffic Health_Evaluator
begin

text \<open>
  \<open>internal/health/replacement.go\<close>: the blue/green replacement workflow. Its state lives in four
  annotations of the ChainInstance; every operation re-reads the resource and patches it.

  The functions that update their \<open>node\<close> argument return it together with their error.
\<close>

subsection \<open>Phases, annotations, configuration\<close>

type_synonym ReplacementPhase = string

abbreviation (input) ReplacementDraining :: ReplacementPhase where "ReplacementDraining \<equiv> ''Draining''"
abbreviation (input) ReplacementCreating :: ReplacementPhase where "ReplacementCreating \<equiv> ''Creating''"
abbreviation (input) ReplacementVerifying :: ReplacementPhase where "ReplacementVerifying \<equiv> ''Verifying''"
abbreviation (input) ReplacementCompleting :: ReplacementPhase where "ReplacementCompleting \<equiv> ''Completing''"
abbreviation (input) ReplacementRollingBack :: ReplacementPhase where "ReplacementRollingBack \<equiv> ''RollingBack''"

definition AnnotationReplacementPhase :: string where
  "AnnotationReplacementPhase = ''chains.chainplane.io/replacement-phase''"
definition AnnotationReplacementPod :: string where
  "AnnotationReplacementPod = ''chains.chainplane.io/replacement-pod''"
definition AnnotationReplacementOldPod :: string where
  "AnnotationReplacementOldPod = ''chains.chainplane.io/replacement-old-pod''"
definition AnnotationReplacementStartedAt :: string where
  "AnnotationReplacementStartedAt = ''chains.chainplane.io/replacement-started-at''"

lemmas annotation_key_defs =
  AnnotationReplacementPhase_def AnnotationReplacementPod_def AnnotationReplacementOldPod_def
  AnnotationReplacementStartedAt_def

lemma annotation_keys_distinct [simp]:
  "AnnotationReplacementPhase \<noteq> AnnotationReplacementPod" "AnnotationReplacementPod \<noteq> AnnotationReplacementPhase"
  "AnnotationReplacementPhase \<noteq> AnnotationReplacementOldPod" "AnnotationReplacementOldPod \<noteq> AnnotationReplacementPhase"
  "AnnotationReplacementPhase \<noteq> AnnotationReplacementStartedAt" "AnnotationReplacementStartedAt \<noteq> AnnotationReplacementPhase"
  "AnnotationReplacementPod \<noteq> AnnotationReplacementOldPod" "AnnotationReplacementOldPod \<noteq> AnnotationReplacementPod"
  "AnnotationReplacementPod \<noteq> AnnotationReplacementStartedAt" "AnnotationReplacementStartedAt \<noteq> AnnotationReplacementPod"
  "AnnotationReplacementOldPod \<noteq> AnnotationReplacementStartedAt" "AnnotationReplacementStartedAt \<noteq> AnnotationReplacementOldPod"
  by (simp_all add: annotation_key_defs)

definition replacement_keys :: "string list" where
  "replacement_keys = [AnnotationReplacementPhase, AnnotationReplacementPod, AnnotationReplacementOldPod,
     AnnotationReplacementStartedAt]"

record ReplacementConfig =
  rcDrainTimeout :: duration
  rcSyncTimeout :: duration
  rcPollInterval :: duration
  rcGracePeriodSeconds :: int
  rcCleanupPVC :: bool

definition DefaultReplacementConfig :: ReplacementConfig where
  "DefaultReplacementConfig = \<lparr>rcDrainTimeout = 30 * Second, rcSyncTimeout = 10 * Minute,
     rcPollInterval = 10 * Second, rcGracePeriodSeconds = 30, rcCleanupPVC = False\<rparr>"

record 'w ReplacementManager =
  rmKube :: "'w kube"
  rmChecker :: "'w Checker"
  rmDrain :: "'w Drainer option"
  rmCfg :: ReplacementConfig

definition NewReplacementManager ::
    "'w kube \<Rightarrow> 'w Checker \<Rightarrow> 'w Drainer option \<Rightarrow> ReplacementConfig \<Rightarrow> 'w ReplacementManager" where
  "NewReplacementManager kube checker drain cfg =
     \<lparr>rmKube = kube, rmChecker = checker, rmDrain = drain,
      rmCfg = (if rcSyncTimeout cfg = 0 then DefaultReplacementConfig else cfg)\<rparr>"

definition nodeAnnotation :: "ChainInstance \<Rightarrow> string \<Rightarrow> string" where
  "nodeAnnotation node key = mget (nodeAnnotations node) key"

definition IsReplacementInProgress :: "ChainInstance \<Rightarrow> bool" where
  "IsReplacementInProgress node =
     (let phase = nodeAnnotation node AnnotationReplacementPhase
      in phase \<noteq> [] \<and> phase \<noteq> ReplacementCompleting)"

definition GetReplacementPhase :: "ChainInstance \<Rightarrow> ReplacementPhase" where
  "GetReplacementPhase node = nodeAnnotation node AnnotationReplacementPhase"

definition containersReady :: "Pod \<Rightarrow> bool" where
  "containersReady pod =
     (stContainerStatuses (podStatus pod) \<noteq> [] \<and> list_all csReady (stContainerStatuses (podStatus pod)))"

definition cloneLabels :: "strmap \<Rightarrow> strmap" where
  "cloneLabels src = madd_all src []"

subsection \<open>Helpers\<close>

definition mergeAnnotations ::
    "'w kube \<Rightarrow> ChainInstance \<Rightarrow> strmap \<Rightarrow> ('w, ChainInstance \<times> (goerr + unit)) state" where
  "mergeAnnotations K node ann = do {
     r \<leftarrow> kGetNode K (nodeNamespace node) (nodeName node);
     case r of
       Inl err \<Rightarrow> ret (node, Inl (WrapErr ''re-read node'' err))
     | Inr current \<Rightarrow> do {
         r' \<leftarrow> kPatchNode K current (set_annotations (madd_all ann (nodeAnnotations current)) current);
         case r' of
           Inl err \<Rightarrow> ret (node, Inl (WrapErr ''patch annotations'' err))
         | Inr current' \<Rightarrow> ret (set_annotations (nodeAnnotations current') node, Inr ()) } }"

definition clearAnnotations ::
    "'w kube \<Rightarrow> ChainInstance \<Rightarrow> ('w, ChainInstance \<times> (goerr + unit)) state" where
  "clearAnnotations K node = do {
     r \<leftarrow> kGetNode K (nodeNamespace node) (nodeName node);
     case r of
       Inl err \<Rightarrow> ret (node, Inl (WrapErr ''re-read node'' err))
     | Inr current \<Rightarrow> do {
         r' \<leftarrow> kPatchNode K current (set_annotations (fold mdel_key replacement_keys (nodeAnnotations current)) current);
         case r' of
           Inl err \<Rightarrow> ret (node, Inl (WrapErr ''clear annotations'' err))
         | Inr current' \<Rightarrow> ret (set_annotations (nodeAnnotations current') node, Inr ()) } }"

definition labelPod :: "'w kube \<Rightarrow> string \<Rightarrow> string \<Rightarrow> string \<Rightarrow> string \<Rightarrow> ('w, goerr + unit) state" where
  "labelPod K name ns key val = do {
     r \<leftarrow> kGetPod K ns name;
     case r of
       Inl e \<Rightarrow> ret (Inl e)
     | Inr pod \<Rightarrow> do {
         r' \<leftarrow> kPatchPod K pod (set_pod_labels (mset_key key val (mLabels (podMeta pod))) pod);
         ret (case r' of Inl e \<Rightarrow> Inl e | Inr _ \<Rightarrow> Inr ()) } }"

definition replacement_labels :: "ChainInstance \<Rightarrow> string \<Rightarrow> strmap \<Rightarrow> strmap" where
  "replacement_labels node oldName labels =
     mset_key ''chains.chainplane.io/chain'' (spChain (ciSpec node))
       (mset_key ''app.kubernetes.io/managed-by'' ''chainplane''
         (mset_key LabelReady ''false''
           (mset_key LabelReplacementFor oldName
             (mset_key LabelInstance ''replacement'' (cloneLabels labels)))))"

definition spawnReplacementPod ::
    "'w kube \<Rightarrow> ChainInstance \<Rightarrow> string \<Rightarrow> string \<Rightarrow> ('w, goerr + unit) state" where
  "spawnReplacementPod K node oldName newName = do {
     r \<leftarrow> kGetPod K (nodeNamespace node) oldName;
     case r of
       Inl err \<Rightarrow> ret (Inl (WrapErr (''get original pod '' @ oldName) err))
     | Inr orig \<Rightarrow> do {
         now \<leftarrow> gNow K;
         let pod = zero_pod\<lparr>
               podMeta := zero_meta\<lparr>mName := newName, mNamespace := nodeNamespace node,
                 mLabels := replacement_labels node oldName (mLabels (podMeta orig)),
                 mAnnotations := [(''chains.chainplane.io/original-pod'', oldName),
                                  (''chains.chainplane.io/created'', FormatRFC3339 0 now)]\<rparr>,
               podSpec := (podSpec orig)\<lparr>psNodeName := [], psHostname := []\<rparr>\<rparr>;
         r' \<leftarrow> kCreatePod K pod;
         ret (case r' of
            Inl err \<Rightarrow> if IsAlreadyExists err then Inr () else Inl (WrapErr (''create pod '' @ newName) err)
          | Inr _ \<Rightarrow> Inr ()) } }"

definition removePod :: "'w ReplacementManager \<Rightarrow> string \<Rightarrow> string \<Rightarrow> ('w, goerr + unit) state" where
  "removePod R name ns = do {
     r \<leftarrow> kGetPod (rmKube R) ns name;
     case r of
       Inl err \<Rightarrow> ret (if IsNotFound err then Inr () else Inl (WrapErr (''get pod '' @ name @ '' for deletion'') err))
     | Inr pod \<Rightarrow> do {
         r' \<leftarrow> kDeletePod (rmKube R) (Some (rcGracePeriodSeconds (rmCfg R))) pod;
         ret (case r' of
            Inl err \<Rightarrow> if IsNotFound err then Inr () else Inl (WrapErr (''delete pod '' @ name) err)
          | Inr _ \<Rightarrow> Inr ()) } }"

definition removePVC :: "'w kube \<Rightarrow> string \<Rightarrow> string \<Rightarrow> ('w, goerr + unit) state" where
  "removePVC K podName ns = do {
     let pvcName = ''data-'' @ podName;
     r \<leftarrow> kGetPVC K ns pvcName;
     case r of
       Inl err \<Rightarrow> ret (if IsNotFound err then Inr () else Inl (WrapErr (''get PVC '' @ pvcName) err))
     | Inr pvc \<Rightarrow> do {
         r' \<leftarrow> kDeletePVC K pvc;
         ret (case r' of
            Inl err \<Rightarrow> if IsNotFound err then Inr () else Inl (WrapErr (''delete PVC '' @ pvcName) err)
          | Inr _ \<Rightarrow> Inr ()) } }"

subsection \<open>The workflow\<close>

definition oldPodName :: "ChainInstance \<Rightarrow> string" where "oldPodName node = nodeName node @ ''-0''"
definition newPodName :: "ChainInstance \<Rightarrow> string" where "newPodName node = oldPodName node @ ''-replacement''"

text \<open>The drain block of \<open>StartReplacement\<close>; its error is only logged.\<close>

definition drainIfConfigured :: "'w ReplacementManager \<Rightarrow> ctx \<Rightarrow> string \<Rightarrow> string \<Rightarrow> ('w, unit) state" where
  "drainIfConfigured R c oldPod ns =
     (case rmDrain R of
        None \<Rightarrow> ret ()
      | Some D \<Rightarrow> do {
          t \<leftarrow> gNow (rmKube R);
          _ \<leftarrow> drDrain D (WithTimeout c t (rcDrainTimeout (rmCfg R))) oldPod ns;
          ret () })"

text \<open>The second half of \<open>StartReplacement\<close>: create the replacement pod and advance to Verifying.\<close>

definition createAndAdvance ::
    "'w kube \<Rightarrow> ChainInstance \<Rightarrow> string \<Rightarrow> string \<Rightarrow> ('w, ChainInstance \<times> (goerr + unit)) state" where
  "createAndAdvance K node0 oldPod newPod = do {
     (node, r) \<leftarrow> mergeAnnotations K node0 [(AnnotationReplacementPhase, ReplacementCreating)];
     case r of
       Inl err \<Rightarrow> ret (node, Inl (PhaseError ReplacementCreating (WrapErr ''advance phase'' err)))
     | Inr _ \<Rightarrow> do {
         sr \<leftarrow> spawnReplacementPod K node oldPod newPod;
         case sr of
           Inl err \<Rightarrow> ret (node, Inl (PhaseError ReplacementCreating err))
         | Inr _ \<Rightarrow> do {
             (node, r) \<leftarrow> mergeAnnotations K node [(AnnotationReplacementPhase, ReplacementVerifying)];
             ret (node, case r of
                Inl err \<Rightarrow> Inl (PhaseError ReplacementVerifying (WrapErr ''advance phase'' err))
              | Inr _ \<Rightarrow> Inr ()) } } }"

definition StartReplacement ::
    "'w ReplacementManager \<Rightarrow> ctx \<Rightarrow> ChainInstance \<Rightarrow> ('w, ChainInstance \<times> (goerr + unit)) state" where
  "StartReplacement R c node0 = do {
     let K = rmKube R;
     let ns = nodeNamespace node0;
     let oldPod = oldPodName node0;
     let newPod = newPodName node0;
     now \<leftarrow> gNow K;
     (node, r) \<leftarrow> mergeAnnotations K node0
        [(AnnotationReplacementPhase, ReplacementDraining), (AnnotationReplacementOldPod, oldPod),
         (AnnotationReplacementPod, newPod), (AnnotationReplacementStartedAt, FormatRFC3339 0 now)];
     case r of
       Inl err \<Rightarrow> ret (node, Inl (PhaseError ReplacementDraining (WrapErr ''set annotations'' err)))
     | Inr _ \<Rightarrow> do {
         lr \<leftarrow> labelPod K oldPod ns LabelReady ''false'';
         if (case lr of Inl err \<Rightarrow> \<not> IsNotFound err | Inr _ \<Rightarrow> False)
         then ret (node, case lr of
            Inl err \<Rightarrow> Inl (PhaseError ReplacementDraining (WrapErr (''cordon pod '' @ oldPod) err))
          | Inr _ \<Rightarrow> Inr ())
         else do {
           drainIfConfigured R c oldPod ns;
           createAndAdvance K node oldPod newPod } } }"

definition MonitorReplacement ::
    "'w ReplacementManager \<Rightarrow> ctx \<Rightarrow> ChainInstance \<Rightarrow> ('w, goerr + bool) state" where
  "MonitorReplacement R c node = do {
     let K = rmKube R;
     let phase = nodeAnnotation node AnnotationReplacementPhase;
     let newPod = nodeAnnotation node AnnotationReplacementPod;
     if phase \<noteq> ReplacementVerifying
     then ret (Inl (PhaseError phase (GoErr (''expected '' @ ReplacementVerifying @ '', got '' @ phase))))
     else if newPod = []
     then ret (Inl (WrapSuffix ErrReplacementAnnotationMissing AnnotationReplacementPod))
     else do {
       r \<leftarrow> kGetPod K (nodeNamespace node) newPod;
       case r of
         Inl err \<Rightarrow> ret (if IsNotFound err then Inr False else Inl (WrapErr (''get replacement pod '' @ newPod) err))
       | Inr pod \<Rightarrow>
           if stPhase (podStatus pod) \<noteq> ''Running'' then ret (Inr False)
           else if \<not> containersReady pod then ret (Inr False)
           else do {
             status \<leftarrow> CheckAll K (rmChecker R) c newPod (ChainToBlockchainType (spChain (ciSpec node)));
             if \<not> Healthy status then ret (Inr False)
             else do {
               let ts = nodeAnnotation node AnnotationReplacementStartedAt;
               case (if ts = [] then None else ParseRFC3339 ts) of
                 None \<Rightarrow> ret (Inr True)
               | Some started \<Rightarrow> do {
                   now \<leftarrow> gNow K;
                   ret (if time_Sub now started > rcSyncTimeout (rmCfg R)
                        then Inl (WrapSuffix ErrReplacementTimeout
                               (''pod '' @ newPod @ '' not synced within '' @ dur_String (rcSyncTimeout (rmCfg R))))
                        else Inr True) } } } } }"

text \<open>The last step of \<open>CompleteReplacement\<close> and \<open>RollbackReplacement\<close>.\<close>

definition clearOrFail ::
    "'w kube \<Rightarrow> ReplacementPhase \<Rightarrow> ChainInstance \<Rightarrow> ('w, ChainInstance \<times> (goerr + unit)) state" where
  "clearOrFail K phase node0 = do {
     (node, r) \<leftarrow> clearAnnotations K node0;
     ret (node, case r of
        Inl err \<Rightarrow> Inl (PhaseError phase (WrapErr ''clear annotations'' err))
      | Inr _ \<Rightarrow> Inr ()) }"

text \<open>The traffic block of \<open>CompleteReplacement\<close>: a failed validation is only logged.\<close>

definition switchIfConfigured ::
    "'w ReplacementManager \<Rightarrow> ctx \<Rightarrow> string \<Rightarrow> string \<Rightarrow> string \<Rightarrow> ('w, goerr + unit) state" where
  "switchIfConfigured R c oldPod newPod ns =
     (case rmDrain R of
        Some D \<Rightarrow> do {
          sr \<leftarrow> drSwitchTraffic D c oldPod newPod ns;
          case sr of
            Inl err \<Rightarrow> ret (Inl (PhaseError ReplacementCompleting (WrapErr ''switch traffic'' err)))
          | Inr _ \<Rightarrow> do { _ \<leftarrow> drValidateTraffic D c newPod ns; ret (Inr ()) } }
      | None \<Rightarrow> do { _ \<leftarrow> labelPod (rmKube R) newPod ns LabelReady ''true''; ret (Inr ()) })"

definition cleanupPVC :: "'w ReplacementManager \<Rightarrow> string \<Rightarrow> string \<Rightarrow> ('w, unit) state" where
  "cleanupPVC R oldPod ns =
     (if rcCleanupPVC (rmCfg R) then do { _ \<leftarrow> removePVC (rmKube R) oldPod ns; ret () } else ret ())"

text \<open>\<open>CompleteReplacement\<close> from the traffic switch on.\<close>

definition switchAndRemove ::
    "'w ReplacementManager \<Rightarrow> ctx \<Rightarrow> ChainInstance \<Rightarrow> string \<Rightarrow> string \<Rightarrow> ('w, ChainInstance \<times> (goerr + unit)) state" where
  "switchAndRemove R c node oldPod newPod = do {
     let ns = nodeNamespace node;
     sw \<leftarrow> switchIfConfigured R c oldPod newPod ns;
     case sw of
       Inl err \<Rightarrow> ret (node, Inl err)
     | Inr _ \<Rightarrow> do {
         dr \<leftarrow> removePod R oldPod ns;
         case dr of
           Inl err \<Rightarrow> ret (node, Inl (PhaseError ReplacementCompleting (WrapErr ''delete old pod'' err)))
         | Inr _ \<Rightarrow> do {
             cleanupPVC R oldPod ns;
             clearOrFail (rmKube R) ReplacementCompleting node } } }"

definition CompleteReplacement ::
    "'w ReplacementManager \<Rightarrow> ctx \<Rightarrow> ChainInstance \<Rightarrow> ('w, ChainInstance \<times> (goerr + unit)) state" where
  "CompleteReplacement R c node0 = do {
     let K = rmKube R;
     (node, r) \<leftarrow> mergeAnnotations K node0 [(AnnotationReplacementPhase, ReplacementCompleting)];
     case r of
       Inl err \<Rightarrow> ret (node, Inl (PhaseError ReplacementCompleting (WrapErr ''advance phase'' err)))
     | Inr _ \<Rightarrow> do {
         let oldPod = nodeAnnotation node AnnotationReplacementOldPod;
         let newPod = nodeAnnotation node AnnotationReplacementPod;
         if oldPod = [] \<or> newPod = []
         then ret (node, Inl (WrapSuffix ErrReplacementAnnotationMissing
                (''old='' @ [CHR 0x22] @ oldPod @ [CHR 0x22] @ '' new='' @ [CHR 0x22] @ newPod @ [CHR 0x22])))
         else switchAndRemove R c node oldPod newPod } }"

text \<open>The two best-effort blocks of \<open>RollbackReplacement\<close>; their errors are only logged.\<close>

definition deleteReplacementPod :: "'w ReplacementManager \<Rightarrow> string \<Rightarrow> string \<Rightarrow> ('w, unit) state" where
  "deleteReplacementPod R newPod ns =
     (if newPod = [] then ret ()
      else do {
        gr \<leftarrow> kGetPod (rmKube R) ns newPod;
        case gr of
          Inl _ \<Rightarrow> ret ()
        | Inr pod \<Rightarrow> do {
            _ \<leftarrow> kDeletePod (rmKube R) (Some (rcGracePeriodSeconds (rmCfg R))) pod;
            ret () } })"

definition restoreOldPod :: "'w kube \<Rightarrow> string \<Rightarrow> string \<Rightarrow> ('w, unit) state" where
  "restoreOldPod K oldPod ns =
     (if oldPod = [] then ret ()
      else do { _ \<leftarrow> labelPod K oldPod ns LabelReady ''true''; ret () })"

definition RollbackReplacement ::
    "'w ReplacementManager \<Rightarrow> ctx \<Rightarrow> ChainInstance \<Rightarrow> ('w, ChainInstance \<times> (goerr + unit)) state" where
  "RollbackReplacement R c node0 = do {
     let K = rmKube R;
     let ns = nodeNamespace node0;
     (node, r) \<leftarrow> mergeAnnotations K node0 [(AnnotationReplacementPhase, ReplacementRollingBack)];
     case r of
       Inl err \<Rightarrow> ret (node, Inl (PhaseError ReplacementRollingBack (WrapErr ''set rollback phase'' err)))
     | Inr _ \<Rightarrow> do {
         let oldPod = nodeAnnotation node AnnotationReplacementOldPod;
         let newPod = nodeAnnotation node AnnotationReplacementPod;
         deleteReplacementPod R newPod ns;
         restoreOldPod K oldPod ns;
         clearOrFail K ReplacementRollingBack node } }"

subsection \<open>The stored workflow state\<close>

lemma labelPod_eq: "labelPod = setPodLabel"
  by (intro ext) (simp add: labelPod_def setPodLabel_def)

lemma pod_names_distinct [simp]: "oldPodName node \<noteq> newPodName node" "newPodName node \<noteq> oldPodName node"
  by (simp_all add: newPodName_def)

text \<open>The annotations the API server stores for a node, as a map.\<close>

definition stored_ann :: "cluster \<Rightarrow> objkey \<Rightarrow> string \<Rightarrow> string option" where
  "stored_ann c k = (case clNodes c k of None \<Rightarrow> Map.empty | Some nd \<Rightarrow> map_of (nodeAnnotations nd))"

text \<open>Two stores that differ in the annotations of one stored node only.\<close>

definition ann_changed :: "objkey \<Rightarrow> cluster \<Rightarrow> cluster \<Rightarrow> bool" where
  "ann_changed k c c' \<longleftrightarrow> clPods c' = clPods c \<and> clPVCs c' = clPVCs c \<and>
     (\<forall>k'. k' \<noteq> k \<longrightarrow> clNodes c' k' = clNodes c k') \<and> clNodes c k \<noteq> None \<and> clNodes c' k \<noteq> None"

text \<open>An in-memory node whose annotations are the stored ones.\<close>

definition in_step :: "ChainInstance \<Rightarrow> ChainInstance \<Rightarrow> cluster \<Rightarrow> bool" where
  "in_step node0 node c \<longleftrightarrow> nodeKey node = nodeKey node0 \<and> ciSpec node = ciSpec node0 \<and>
     map_of (nodeAnnotations node) = stored_ann c (nodeKey node0)"

lemma nodeAnnotation_mget: "nodeAnnotation node k = (case map_of (nodeAnnotations node) k of None \<Rightarrow> [] | Some v \<Rightarrow> v)"
  by (simp add: nodeAnnotation_def mget_def)

lemma in_step_annotation:
  "in_step node0 node c \<Longrightarrow>
   nodeAnnotation node k = (case stored_ann c (nodeKey node0) k of None \<Rightarrow> [] | Some v \<Rightarrow> v)"
  by (simp add: in_step_def nodeAnnotation_mget)

lemma stored_ann_pods [simp]:
  "stored_ann (c\<lparr>clPods := p\<rparr>) = stored_ann c" "stored_ann (c\<lparr>clPVCs := q\<rparr>) = stored_ann c"
  by (simp_all add: stored_ann_def fun_eq_iff)

lemma stored_ann_cong: "clNodes c' = clNodes c \<Longrightarrow> stored_ann c' = stored_ann c"
  by (simp add: stored_ann_def fun_eq_iff)

lemma pods_touched_ann: "pods_touched S c c' \<Longrightarrow> stored_ann c' = stored_ann c"
  by (rule stored_ann_cong) (rule pods_touched_nodes)

lemma map_of_fold_delete:
  "map_of (fold mdel_key ks m) = (map_of m) |` (- set ks)"
  by (induction ks arbitrary: m) (auto simp: fun_eq_iff restrict_map_def delete_conv')

context kube_api
begin

lemma mergeAnnotations_spec:
  assumes "distinct (map fst ann)"
  shows "wp (mergeAnnotations K node ann) (\<lambda>(node', r) w'.
     case r of Inl _ \<Rightarrow> V w' = V w \<and> node' = node
     | Inr _ \<Rightarrow> ann_changed (nodeKey node) (V w) (V w') \<and> in_step node node' (V w') \<and>
         stored_ann (V w') (nodeKey node) = stored_ann (V w) (nodeKey node) ++ map_of ann) w"
proof -
  have patched: "wp (kPatchNode K nd (set_annotations (madd_all ann (nodeAnnotations nd)) nd)) (\<lambda>r w'.
     case r of Inl _ \<Rightarrow> V w' = V w
     | Inr nd' \<Rightarrow> ann_changed (nodeKey node) (V w) (V w') \<and> in_step node (set_annotations (nodeAnnotations nd') node) (V w') \<and>
         stored_ann (V w') (nodeKey node) = stored_ann (V w) (nodeKey node) ++ map_of ann) w1"
    if "V w1 = V w" "clNodes (V w) (nodeKey node) = Some nd" "nodeKey nd = nodeKey node" for nd w1
    by (rule wp_mono [OF patch_node_law])
       (use that assms in \<open>auto simp: ann_changed_def in_step_def stored_ann_def same_map_def map_of_madd_all
          split: sum.splits\<close>)
  show ?thesis
    unfolding mergeAnnotations_def
    by (auto intro!: wp_mono [OF get_node_law] wp_mono [OF patched] split: sum.splits)
qed

lemma clearAnnotations_spec:
  "wp (clearAnnotations K node) (\<lambda>(node', r) w'.
     case r of Inl _ \<Rightarrow> V w' = V w \<and> node' = node
     | Inr _ \<Rightarrow> ann_changed (nodeKey node) (V w) (V w') \<and> in_step node node' (V w') \<and>
         stored_ann (V w') (nodeKey node) = stored_ann (V w) (nodeKey node) |` (- set replacement_keys)) w"
proof -
  have patched: "wp (kPatchNode K nd (set_annotations (fold mdel_key replacement_keys (nodeAnnotations nd)) nd)) (\<lambda>r w'.
     case r of Inl _ \<Rightarrow> V w' = V w
     | Inr nd' \<Rightarrow> ann_changed (nodeKey node) (V w) (V w') \<and> in_step node (set_annotations (nodeAnnotations nd') node) (V w') \<and>
         stored_ann (V w') (nodeKey node) = stored_ann (V w) (nodeKey node) |` (- set replacement_keys)) w1"
    if "V w1 = V w" "clNodes (V w) (nodeKey node) = Some nd" "nodeKey nd = nodeKey node" for nd w1
    by (rule wp_mono [OF patch_node_law])
       (use that in \<open>auto simp: ann_changed_def in_step_def stored_ann_def same_map_def map_of_fold_delete
          split: sum.splits\<close>)
  show ?thesis
    unfolding clearAnnotations_def
    by (auto intro!: wp_mono [OF get_node_law] wp_mono [OF patched] split: sum.splits)
qed

lemma spawnReplacementPod_spec:
  "wp (spawnReplacementPod K node old new) (\<lambda>r w'.
     clNodes (V w') = clNodes (V w) \<and> stored_ann (V w') = stored_ann (V w) \<and> clPVCs (V w') = clPVCs (V w) \<and>
     (\<forall>k. k \<noteq> (nodeNamespace node, new) \<longrightarrow> clPods (V w') k = clPods (V w) k) \<and>
     (ok r \<longrightarrow> clPods (V w') (nodeNamespace node, new) \<noteq> None)) w"
  unfolding spawnReplacementPod_def Let_def
  by (auto intro!: read_laws wp_mono [OF create_pod_law] simp: zero_pod_def zero_meta_def intro!: stored_ann_cong split: sum.splits)

lemma removePod_spec:
  assumes "rmKube R = K"
  shows "wp (removePod R name ns) (\<lambda>r w'.
     clNodes (V w') = clNodes (V w) \<and> stored_ann (V w') = stored_ann (V w) \<and> clPVCs (V w') = clPVCs (V w) \<and>
     (\<forall>k. k \<noteq> (ns, name) \<longrightarrow> clPods (V w') k = clPods (V w) k) \<and>
     (ok r \<longrightarrow> pod_removed (V w') (ns, name))) w"
  unfolding removePod_def assms
  by (auto intro!: wp_mono [OF get_pod_law] wp_mono [OF delete_pod_law] simp: pod_removed_def intro!: stored_ann_cong split: sum.splits)

lemma removePVC_spec:
  "wp (removePVC K name ns) (\<lambda>r w'. clNodes (V w') = clNodes (V w) \<and> stored_ann (V w') = stored_ann (V w) \<and> clPods (V w') = clPods (V w)) w"
  unfolding removePVC_def Let_def
  by (auto intro!: wp_mono [OF get_pvc_law] wp_mono [OF delete_pvc_law] intro!: stored_ann_cong split: sum.splits)

end

subsection \<open>The workflow on a quiet cluster\<close>

text \<open>
  C14: The monitor declares a replacement pod ready exactly when the workflow is in the
  Verifying phase, the annotated pod is read, runs and has all containers ready, the health
  check that follows reports no fired trigger, and the start time, when it can be read, is
  not longer ago than the sync timeout.
\<close>

theorem MonitorReplacement_ready_iff:
  "fst (run_state (MonitorReplacement R c node) w) = Inr True \<longleftrightarrow>
     (let K = rmKube R; newPod = nodeAnnotation node AnnotationReplacementPod;
          ts = nodeAnnotation node AnnotationReplacementStartedAt
      in nodeAnnotation node AnnotationReplacementPhase = ReplacementVerifying \<and> newPod \<noteq> [] \<and>
         (\<exists>pod w1 s w2. run_state (kGetPod K (nodeNamespace node) newPod) w = (Inr pod, w1) \<and>
            stPhase (podStatus pod) = ''Running'' \<and> containersReady pod \<and>
            run_state (CheckAll K (rmChecker R) c newPod (ChainToBlockchainType (spChain (ciSpec node)))) w1 = (s, w2) \<and>
            TriggeredNames s = [] \<and>
            (case (if ts = [] then None else ParseRFC3339 ts) of
               None \<Rightarrow> True
             | Some started \<Rightarrow> time_Sub (fst (run_state (gNow K) w2)) started \<le> rcSyncTimeout (rmCfg R))))"
  by (auto simp: MonitorReplacement_def Let_def Healthy_iff_no_names
        split: sum.splits option.splits prod.splits if_splits)

text \<open>
  The outcomes of the three operations, in terms of the stored objects before and after:
  the annotations recorded by a start, their removal by a rollback or a completion with every
  other annotation kept, and where the traffic is.
\<close>

definition started :: "ChainInstance \<Rightarrow> cluster \<Rightarrow> ChainInstance \<Rightarrow> cluster \<Rightarrow> bool" where
  "started node c node' c' \<longleftrightarrow>
     (\<exists>now. stored_ann c' (nodeKey node) = (stored_ann c (nodeKey node))(
         AnnotationReplacementStartedAt \<mapsto> FormatRFC3339 0 now, AnnotationReplacementPod \<mapsto> newPodName node,
         AnnotationReplacementOldPod \<mapsto> oldPodName node, AnnotationReplacementPhase \<mapsto> ReplacementVerifying)) \<and>
     in_step node node' c' \<and>
     clPods c' (nodeNamespace node, newPodName node) \<noteq> None \<and>
     \<not> serving c' (nodeNamespace node, oldPodName node)"

definition cleared :: "ChainInstance \<Rightarrow> cluster \<Rightarrow> ChainInstance \<Rightarrow> cluster \<Rightarrow> bool" where
  "cleared node c node' c' \<longleftrightarrow>
     stored_ann c' (nodeKey node) = stored_ann c (nodeKey node) |` (- set replacement_keys) \<and> in_step node node' c'"

text \<open>The result of a completion; only a drainer vouches for the new pod.\<close>

definition completed :: "bool \<Rightarrow> ChainInstance \<Rightarrow> cluster \<Rightarrow> ChainInstance \<Rightarrow> cluster \<Rightarrow> bool" where
  "completed drained node c node' c' \<longleftrightarrow> cleared node c node' c' \<and>
     (\<exists>old new. stored_ann c (nodeKey node) AnnotationReplacementOldPod = Some old \<and>
        stored_ann c (nodeKey node) AnnotationReplacementPod = Some new \<and> old \<noteq> [] \<and> new \<noteq> [] \<and>
        pod_removed c' (nodeNamespace node, old) \<and> (drained \<and> old \<noteq> new \<longrightarrow> serving c' (nodeNamespace node, new)))"

text \<open>
  A replacement manager over a cluster without other writers: its client is the one the laws
  speak of, its drainer (if any) keeps the drainer contract, and its metric backend does not
  write to the cluster.
\<close>

locale replacement_world = kube_api K V
  for K :: "'w kube" and V :: "'w \<Rightarrow> cluster" +
  fixes R :: "'w ReplacementManager"
  assumes manager_kube: "rmKube R = K"
    and manager_drainer: "rmDrain R = Some D \<Longrightarrow> drainer D V"
    and healthy_quiet: "wp (mqHealthy (chQ (rmChecker R)) c) (\<lambda>_ w'. V w' = V w) w"
    and instant_quiet: "wp (mqInstantValue (chQ (rmChecker R)) c q) (\<lambda>_ w'. V w' = V w) w"
    and sustained_quiet: "wp (mqSustained (chQ (rmChecker R)) c q t m) (\<lambda>_ w'. V w' = V w) w"
    and range_quiet: "wp (mqRangeValues (chQ (rmChecker R)) c q s e st) (\<lambda>_ w'. V w' = V w) w"
begin

lemmas quiet_laws = wp_mono [OF instant_quiet] wp_mono [OF sustained_quiet] wp_mono [OF range_quiet] wp_mono [OF now_law]

lemma evaluation_quiet:
  assumes "(name, fn) \<in> set (trigger_evals K)"
  shows "wp (safeEval (fn (rmChecker R) c pod chain)) (\<lambda>_ w'. V w' = V w) w"
proof -
  have "wp (evalSyncLag (rmChecker R) c pod chain) (\<lambda>_ w'. V w' = V w) w"
    by (auto simp: evalSyncLag_def Let_def intro!: quiet_laws split: option.splits sum.splits outcome.splits)
  moreover have "wp (evalErrorRate (rmChecker R) c pod chain) (\<lambda>_ w'. V w' = V w) w"
    by (auto simp: evalErrorRate_def intro!: quiet_laws split: sum.splits outcome.splits)
  moreover have "wp (evalLatency (rmChecker R) c pod chain) (\<lambda>_ w'. V w' = V w) w"
    by (auto simp: evalLatency_def Let_def intro!: quiet_laws split: sum.splits outcome.splits)
  moreover have "wp (evalCrashLoop K (rmChecker R) c pod chain) (\<lambda>_ w'. V w' = V w) w"
    by (auto simp: evalCrashLoop_def Let_def intro!: quiet_laws split: sum.splits outcome.splits)
  moreover have "wp (evalDiskUsage (rmChecker R) c pod chain) (\<lambda>_ w'. V w' = V w) w"
    by (auto simp: evalDiskUsage_def intro!: quiet_laws split: sum.splits outcome.splits)
  ultimately show ?thesis
    using assms unfolding trigger_evals_def
    by (auto simp only: set_simps insert_iff empty_iff prod.inject wp_safeEval)
qed

lemma run_evals_quiet:
  "set evs \<subseteq> set (trigger_evals K) \<Longrightarrow>
   wp (run_evals (rmChecker R) c pod chain evs acc) (\<lambda>_ w'. V w' = V w) w"
proof (induction evs arbitrary: acc w)
  case (Cons ev evs)
  obtain name fn where ev: "ev = (name, fn)" by (cases ev)
  with Cons.prems have "(name, fn) \<in> set (trigger_evals K)" by simp
  with Cons.prems show ?case
    unfolding ev run_evals.simps wp_bind
    by (auto intro!: wp_mono [OF evaluation_quiet] wp_mono [OF Cons.IH] simp del: wp_safeEval)
qed simp

lemma CheckAll_quiet: "wp (CheckAll K (rmChecker R) c pod chain) (\<lambda>_ w'. V w' = V w) w"
  by (auto simp: CheckAll_def intro!: wp_mono [OF healthy_quiet] wp_mono [OF run_evals_quiet])

lemma MonitorReplacement_view: "wp (MonitorReplacement R c node) (\<lambda>_ w'. V w' = V w) w"
  by (auto simp: MonitorReplacement_def Let_def manager_kube
        intro!: wp_mono [OF get_pod_law] wp_mono [OF CheckAll_quiet] wp_mono [OF now_law]
        split: sum.splits option.splits)

lemma drain_step:
  "wp (drainIfConfigured R c pod ns)
     (\<lambda>_ w'. pods_touched {(ns, pod)} (V w) (V w') \<and> (serving (V w') (ns, pod) \<longrightarrow> serving (V w) (ns, pod))) w"
proof (cases "rmDrain R")
  case (Some D)
  have "wp (drDrain D (WithTimeout c t (rcDrainTimeout (rmCfg R))) pod ns)
     (\<lambda>_ w'. pods_touched {(ns, pod)} (V w) (V w') \<and> (serving (V w') (ns, pod) \<longrightarrow> serving (V w) (ns, pod))) w1"
    if "V w1 = V w" for t w1
    using drainer.drain_law [OF manager_drainer [OF Some], of "WithTimeout c t (rcDrainTimeout (rmCfg R))" pod ns w1]
      that by simp
  with Some show ?thesis by (auto simp: drainIfConfigured_def manager_kube intro!: wp_mono [OF now_law])
qed (simp add: drainIfConfigured_def)

lemma createAndAdvance_spec:
  assumes "in_step node0 node (V w)" "\<not> serving (V w) (nodeNamespace node0, old)" "old \<noteq> new"
  shows "wp (createAndAdvance K node old new)
     (\<lambda>(node', r) w'. ok r \<longrightarrow>
        stored_ann (V w') (nodeKey node0) =
          (stored_ann (V w) (nodeKey node0))(AnnotationReplacementPhase \<mapsto> ReplacementVerifying) \<and>
        in_step node0 node' (V w') \<and>
        clPods (V w') (nodeNamespace node0, new) \<noteq> None \<and> \<not> serving (V w') (nodeNamespace node0, old)) w"
  using assms unfolding createAndAdvance_def
  by (auto simp: in_step_def ann_changed_def serving_def
        intro!: wp_mono [OF mergeAnnotations_spec] wp_mono [OF spawnReplacementPod_spec]
        split: sum.splits)

lemma StartReplacement_spec:
  "wp (StartReplacement R c node) (\<lambda>(node', r) w'. ok r \<longrightarrow> started node (V w) node' (V w')) w"
proof -
  let ?old = "(nodeNamespace node, oldPodName node)"
  have tail: "wp (createAndAdvance K node1 (oldPodName node) (newPodName node))
      (\<lambda>(node', r) w'. ok r \<longrightarrow> started node (V w) node' (V w')) w2"
    if "in_step node node1 (V w2)" "\<not> serving (V w2) ?old"
      "\<exists>now. stored_ann (V w2) (nodeKey node) = (stored_ann (V w) (nodeKey node))(
         AnnotationReplacementStartedAt \<mapsto> FormatRFC3339 0 now, AnnotationReplacementPod \<mapsto> newPodName node,
         AnnotationReplacementOldPod \<mapsto> oldPodName node, AnnotationReplacementPhase \<mapsto> ReplacementDraining)"
    for node1 w2
    by (rule wp_mono [OF createAndAdvance_spec [of node node1 w2]])
       (use that in \<open>auto simp: in_step_def started_def\<close>)
  have drained: "wp (drainIfConfigured R c (oldPodName node) (nodeNamespace node))
      (\<lambda>_. wp (createAndAdvance K node1 (oldPodName node) (newPodName node))
        (\<lambda>(node', r) w'. ok r \<longrightarrow> started node (V w) node' (V w'))) w2"
    if "in_step node node1 (V w2)" "\<not> serving (V w2) ?old"
      "\<exists>now. stored_ann (V w2) (nodeKey node) = (stored_ann (V w) (nodeKey node))(
         AnnotationReplacementStartedAt \<mapsto> FormatRFC3339 0 now, AnnotationReplacementPod \<mapsto> newPodName node,
         AnnotationReplacementOldPod \<mapsto> oldPodName node, AnnotationReplacementPhase \<mapsto> ReplacementDraining)"
    for node1 w2
    by (rule wp_mono [OF drain_step], rule tail)
       (use that in \<open>auto simp: in_step_def dest!: pods_touched_ann\<close>)
  have gone: "\<not> serving cl k" if "clPods cl k = None" for cl k
    using that by (simp add: serving_def)
  have cordoned: "\<not> serving cl k" if "clPods cl k = Some p" "mget (mLabels (podMeta p)) LabelReady = ''false''" for cl k p
    using that by (simp add: serving_def)
  show ?thesis
    unfolding StartReplacement_def Let_def manager_kube labelPod_eq
    by (auto intro!: wp_mono [OF now_law] wp_mono [OF mergeAnnotations_spec] wp_mono [OF setPodLabel_spec]
          drained simp: gone cordoned in_step_def dest!: pods_touched_ann split: sum.splits) blast+
qed

lemma clear_spec:
  assumes "in_step node node1 (V w1)"
    and "stored_ann (V w1) (nodeKey node) = (stored_ann (V w) (nodeKey node))(AnnotationReplacementPhase \<mapsto> p)"
  shows "wp (clearOrFail K phase node1) (\<lambda>(node', r) w'.
           (ok r \<longrightarrow> cleared node (V w) node' (V w')) \<and> clPods (V w') = clPods (V w1)) w1"
proof -
  have "case_prod (\<lambda>nd r. (ok r \<longrightarrow> cleared node (V w) nd (V w')) \<and> clPods (V w') = clPods (V w1)) a"
    if "case a of (node', r) \<Rightarrow> (case r of Inl _ \<Rightarrow> V w' = V w1 \<and> node' = node1
      | Inr _ \<Rightarrow> ann_changed (nodeKey node1) (V w1) (V w') \<and> in_step node1 node' (V w') \<and>
          stored_ann (V w') (nodeKey node1) = stored_ann (V w1) (nodeKey node1) |` (- set replacement_keys))"
    for a :: "ChainInstance \<times> (goerr + unit)" and w'
    using that assms
    by (cases a; cases "snd a") (auto simp: cleared_def in_step_def ann_changed_def replacement_keys_def)
  then show ?thesis
    unfolding clearOrFail_def
    by (auto intro!: wp_mono [OF clearAnnotations_spec] split: sum.splits)
qed

lemma deleteReplacementPod_nodes:
  "wp (deleteReplacementPod R pod ns) (\<lambda>_ w'. clNodes (V w') = clNodes (V w)) w"
  unfolding deleteReplacementPod_def manager_kube
  by (auto intro!: wp_mono [OF get_pod_law] wp_mono [OF delete_pod_law] split: sum.splits)

lemma restoreOldPod_nodes: "wp (restoreOldPod K pod ns) (\<lambda>_ w'. clNodes (V w') = clNodes (V w)) w"
  unfolding restoreOldPod_def labelPod_eq
  by (auto intro!: wp_mono [OF setPodLabel_spec] dest: pods_touched_nodes split: sum.splits)

lemma RollbackReplacement_spec:
  "wp (RollbackReplacement R c node) (\<lambda>(node', r) w'. ok r \<longrightarrow> cleared node (V w) node' (V w')) w"
proof -
  have clear: "wp (clearOrFail K phase node1) (\<lambda>(node', r) w'. ok r \<longrightarrow> cleared node (V w) node' (V w')) w2"
    if "in_step node node1 (V w1)"
      "stored_ann (V w1) (nodeKey node) = (stored_ann (V w) (nodeKey node))(AnnotationReplacementPhase \<mapsto> ReplacementRollingBack)"
      "clNodes (V w2) = clNodes (V w1)"
    for node1 w1 w2 phase
    by (rule wp_mono [OF clear_spec [of node node1 w2 w ReplacementRollingBack]])
       (use that stored_ann_cong [OF that(3)] in \<open>auto simp: in_step_def\<close>)
  show ?thesis
    unfolding RollbackReplacement_def Let_def manager_kube
    by (auto intro!: wp_mono [OF mergeAnnotations_spec] wp_mono [OF deleteReplacementPod_nodes]
          wp_mono [OF restoreOldPod_nodes] split: sum.splits) (rule clear, simp_all)
qed

lemma switch_spec:
  "wp (switchIfConfigured R c old new ns) (\<lambda>r w'. clNodes (V w') = clNodes (V w) \<and>
     (ok r \<and> rmDrain R \<noteq> None \<longrightarrow> serving (V w') (ns, new))) w"
proof (cases "rmDrain R")
  case None
  then show ?thesis
    unfolding switchIfConfigured_def manager_kube labelPod_eq
    by (auto intro!: wp_mono [OF setPodLabel_spec] dest: pods_touched_nodes split: sum.splits)
next
  case (Some D)
  note laws = manager_drainer [OF Some]
  show ?thesis
    using Some unfolding switchIfConfigured_def
    by (auto intro!: wp_mono [OF drainer.switch_law [OF laws]] wp_mono [OF drainer.validate_law [OF laws]]
          dest!: pods_touched_nodes split: sum.splits)
qed

lemma CompleteReplacement_spec:
  "wp (CompleteReplacement R c node) (\<lambda>(node', r) w'. ok r \<longrightarrow> completed (rmDrain R \<noteq> None) node (V w) node' (V w')) w"
proof -
  let ?ns = "nodeNamespace node"
  define drained where "drained \<longleftrightarrow> rmDrain R \<noteq> None"
  define vouched where "vouched new w2 \<longleftrightarrow> (drained \<longrightarrow> serving (V w2) (?ns, new))" for new w2
  let ?done = "\<lambda>(node', r) w'. ok r \<longrightarrow> completed drained node (V w) node' (V w')"
  have switch: "wp (switchIfConfigured R c old new ?ns) (\<lambda>r w2. clNodes (V w2) = clNodes (V w1) \<and> (ok r \<longrightarrow> vouched new w2)) w1" for old new w1
    by (rule wp_mono [OF switch_spec]) (auto simp: vouched_def drained_def)
  have vouched_cong: "vouched new w3" if "vouched new w2" "clPods (V w3) (?ns, new) = clPods (V w2) (?ns, new)" for new w2 w3
    using that by (simp add: vouched_def serving_def)
  define ready where "ready old new w2 \<longleftrightarrow> pod_removed (V w2) (?ns, old) \<and> (old \<noteq> new \<longrightarrow> vouched new w2)" for old new w2
  have ready_cong: "ready old new w3" if "ready old new w2" "clPods (V w3) = clPods (V w2)" for old new w2 w3
    using that by (simp add: ready_def vouched_def serving_def pod_removed_def)
  have clear: "wp (clearOrFail K ReplacementCompleting node1) ?done w2"
    if "in_step node node1 (V w1)"
      "stored_ann (V w1) (nodeKey node) = (stored_ann (V w) (nodeKey node))(AnnotationReplacementPhase \<mapsto> ReplacementCompleting)"
      "clNodes (V w2) = clNodes (V w1)" "ready old new w2" "old \<noteq> []" "new \<noteq> []"
      "stored_ann (V w) (nodeKey node) AnnotationReplacementOldPod = Some old" "stored_ann (V w) (nodeKey node) AnnotationReplacementPod = Some new"
    for node1 w1 w2 old new
    by (rule wp_mono [OF clear_spec [of node node1 w2 w ReplacementCompleting]])
       (use that stored_ann_cong [OF that(3)] in \<open>auto simp: in_step_def completed_def ready_def vouched_def serving_def pod_removed_def\<close>)
  have clean: "wp (cleanupPVC R old ?ns) (\<lambda>_. wp (clearOrFail K ReplacementCompleting node1) ?done) w2"
    if "in_step node node1 (V w1)"
      "stored_ann (V w1) (nodeKey node) = (stored_ann (V w) (nodeKey node))(AnnotationReplacementPhase \<mapsto> ReplacementCompleting)"
      "clNodes (V w2) = clNodes (V w1)" "ready old new w2" "old \<noteq> []" "new \<noteq> []"
      "stored_ann (V w) (nodeKey node) AnnotationReplacementOldPod = Some old" "stored_ann (V w) (nodeKey node) AnnotationReplacementPod = Some new"
    for node1 w1 w2 old new
    unfolding cleanupPVC_def manager_kube
    using that by (auto intro!: wp_mono [OF removePVC_spec] clear [OF that(1,2) _ _ that(5-8)] ready_cong [OF that(4)])
  have tail: "wp (switchAndRemove R c node1 (nodeAnnotation node1 AnnotationReplacementOldPod)
        (nodeAnnotation node1 AnnotationReplacementPod)) ?done w1"
    if step: "in_step node node1 (V w1)"
      "stored_ann (V w1) (nodeKey node) = (stored_ann (V w) (nodeKey node))(AnnotationReplacementPhase \<mapsto> ReplacementCompleting)"
      and set: "nodeAnnotation node1 AnnotationReplacementOldPod \<noteq> []" "nodeAnnotation node1 AnnotationReplacementPod \<noteq> []"
    for node1 w1
  proof -
    have ns: "nodeNamespace node1 = ?ns" using step by (simp add: in_step_def)
    have names: "stored_ann (V w) (nodeKey node) AnnotationReplacementOldPod = Some (nodeAnnotation node1 AnnotationReplacementOldPod)"
      "stored_ann (V w) (nodeKey node) AnnotationReplacementPod = Some (nodeAnnotation node1 AnnotationReplacementPod)"
      using step set by (auto simp: in_step_annotation split: option.splits)
    show ?thesis
      unfolding switchAndRemove_def Let_def manager_kube ns
      by (auto intro!: wp_mono [OF switch] wp_mono [OF removePod_spec [OF manager_kube]]
            clean [OF step _ _ set names] simp: ready_def split: sum.splits) (metis vouched_cong)
  qed
  show ?thesis
    unfolding CompleteReplacement_def Let_def manager_kube drained_def [symmetric]
    by (auto intro!: wp_mono [OF mergeAnnotations_spec] tail split: sum.splits)
qed

end

subsection \<open>Concrete managers\<close>

text \<open>
  Without a drainer or with the label-based one on the same client, and a metric backend that does not write
  to the cluster, every manager built by the constructor satisfies the assumptions.
\<close>

lemma label_based_world:
  assumes "kube_api K V"
    and "\<And>c w. wp (mqHealthy Q c) (\<lambda>_ w'. V w' = V w) w"
    and "\<And>c q w. wp (mqInstantValue Q c q) (\<lambda>_ w'. V w' = V w) w"
    and "\<And>c q t m w. wp (mqSustained Q c q t m) (\<lambda>_ w'. V w' = V w) w"
    and "\<And>c q s e st w. wp (mqRangeValues Q c q s e st) (\<lambda>_ w'. V w' = V w) w"
    and "dr \<in> {None, Some (LabelBasedTrafficManager K)}"
  shows "replacement_world K V (NewReplacementManager K (NewChecker Q t) dr cfg)"
proof -
  have "drainer (LabelBasedTrafficManager K) V"
    using assms(1) by (rule kube_api.label_based_drainer)
  with assms show ?thesis
    by (auto simp: replacement_world_def replacement_world_axioms_def NewReplacementManager_def NewChecker_def)
qed

text \<open>A metric backend with fixed answers.\<close>

definition fixed_backend :: "f64 \<Rightarrow> bool \<Rightarrow> 'w MetricQuerier" where
  "fixed_backend v b = \<lparr>mqHealthy = (\<lambda>_. ret True), mqInstantValue = (\<lambda>_ _. ret (Ret (Inr v))),
     mqSustained = (\<lambda>_ _ _ _. ret (Ret (b, None))), mqRangeValues = (\<lambda>_ _ _ _ _. ret (Ret (Inr [])))\<rparr>"

definition mem_manager :: "f64 \<Rightarrow> bool \<Rightarrow> bool \<Rightarrow> ReplacementConfig \<Rightarrow> mem ReplacementManager" where
  "mem_manager v b draining cfg = NewReplacementManager mem_kube (NewChecker (fixed_backend v b) DefaultThresholds)
     (if draining then Some (LabelBasedTrafficManager mem_kube) else None) cfg"

interpretation mem_world: replacement_world mem_kube mem_view "mem_manager v b draining cfg" for v b draining cfg
  unfolding mem_manager_def
  by (rule label_based_world [OF mem_kube_api]) (simp_all add: fixed_backend_def)

subsection \<open>Properties of the workflow\<close>

lemma cleared_not_in_progress: "cleared node c node' c' \<Longrightarrow> \<not> IsReplacementInProgress node'"
  by (simp add: cleared_def in_step_def IsReplacementInProgress_def nodeAnnotation_mget replacement_keys_def)

text \<open>
  C3: Starting a replacement. When it returns without an error on a cluster without other
  writers, the stored resource is in phase Verifying with the names of both pods and a start
  time, all its other annotations are as before, the caller's copy agrees with the stored
  one, the replacement pod exists and the old pod is out of service.
\<close>

theorem StartReplacement_reaches_Verifying:
  assumes "replacement_world K V R"
  shows "wp (StartReplacement R c node) (\<lambda>(node', r) w'. ok r \<longrightarrow> started node (V w) node' (V w')) w"
  using assms by (rule replacement_world.StartReplacement_spec)

text \<open>
  C2: Completing a replacement, with or without a drainer. When it returns without an error, the
  stored resource named two pods, the old one is gone or being deleted, the four workflow
  annotations are gone from the stored resource and all others are kept; with a drainer the new
  pod, if it is another one, is in service. Without a drainer a failure to label the new pod is
  only logged, so nothing is said of it.
\<close>

theorem CompleteReplacement_switches_and_clears:
  assumes "replacement_world K V R"
  shows "wp (CompleteReplacement R c node) (\<lambda>(node', r) w'. ok r \<longrightarrow> completed (rmDrain R \<noteq> None) node (V w) node' (V w')) w"
  using assms by (rule replacement_world.CompleteReplacement_spec)

text \<open>
  C15: Rolling back. When it returns without an error the four workflow annotations are gone
  from the stored resource, all others are kept, and the caller's copy agrees, so that no
  replacement is in progress any more.
\<close>

theorem RollbackReplacement_clears:
  assumes "replacement_world K V R"
  shows "wp (RollbackReplacement R c node) (\<lambda>(node', r) w'. ok r \<longrightarrow>
           cleared node (V w) node' (V w') \<and> \<not> IsReplacementInProgress node') w"
  by (rule wp_mono [OF replacement_world.RollbackReplacement_spec [OF assms]])
     (auto dest: cleared_not_in_progress)

definition example_node :: ChainInstance where
  "example_node = zero_node\<lparr>ciMeta := zero_meta\<lparr>mName := ''eth'', mNamespace := ''chains'',
     mAnnotations := [(''team'', ''core'')]\<rparr>,
     ciSpec := zero_spec\<lparr>spChain := ChainEthereum, spNetwork := NetworkMainnet\<rparr>,
     ciStatus := zero_status\<lparr>csPhase := NodePhaseHealthy\<rparr>\<rparr>"

text \<open>A cluster with one node and its pod, before and during a replacement.\<close>

definition example_cluster :: mem where
  "example_cluster = example_pods\<lparr>mNow := 1700000000 * Second,
     mNodes := [((''chains'', ''eth''), example_node)],
     mPods := [((''chains'', ''eth-0''), example_pod ''eth-0'' ''true'')]\<rparr>"

definition verifying_node :: ChainInstance where
  "verifying_node = set_annotations [(''team'', ''core''), (AnnotationReplacementPhase, ReplacementVerifying),
     (AnnotationReplacementOldPod, ''eth-0''), (AnnotationReplacementPod, ''eth-0-replacement'')] example_node"

definition verifying_cluster :: mem where
  "verifying_cluster = example_pods\<lparr>mNodes := [((''chains'', ''eth''), verifying_node)]\<rparr>"

abbreviation (input) example_manager :: "bool \<Rightarrow> mem ReplacementManager" where
  "example_manager draining \<equiv> mem_manager (Fin 0) False draining DefaultReplacementConfig"

lemmas example_world = mem_world.replacement_world_axioms [where v = "Fin 0" and b = False and cfg = DefaultReplacementConfig]

theorem StartReplacement_reaches_Verifying_witness:
  "ok (snd (fst (run_state (StartReplacement (example_manager False) None example_node) example_cluster))) \<and>
   wp (StartReplacement (example_manager False) None example_node) (\<lambda>(node', r) w'.
      started example_node (mem_view example_cluster) node' (mem_view w')) example_cluster"
proof -
  have "ok (snd (fst (run_state (StartReplacement (example_manager False) None example_node) example_cluster)))"
    by (simp add: StartReplacement_def mergeAnnotations_def labelPod_def drainIfConfigured_def createAndAdvance_def
          spawnReplacementPod_def mem_manager_def NewReplacementManager_def mem_kube_def
          example_cluster_def example_node_def example_pods_def example_pod_def set_annotations_def
          zero_node_def zero_meta_def zero_pod_def set_pod_labels_def oldPodName_def newPodName_def Let_def)
  with StartReplacement_reaches_Verifying [OF example_world [where draining = False], where c = None and node = example_node and w = example_cluster]
  show ?thesis
    by (auto simp: wp_def split: prod.splits)
qed

theorem CompleteReplacement_switches_and_clears_witness:
  "ok (snd (fst (run_state (CompleteReplacement (example_manager True) None verifying_node) verifying_cluster))) \<and>
   wp (CompleteReplacement (example_manager True) None verifying_node) (\<lambda>(node', r) w'.
      completed True verifying_node (mem_view verifying_cluster) node' (mem_view w')) verifying_cluster"
proof -
  have drain: "rmDrain (example_manager True) \<noteq> None"
    by (simp add: mem_manager_def NewReplacementManager_def)
  have "ok (snd (fst (run_state (CompleteReplacement (example_manager True) None verifying_node) verifying_cluster)))"
    by code_simp
  with CompleteReplacement_switches_and_clears [OF example_world [where draining = True], where c = None and node = verifying_node and w = verifying_cluster]
  show ?thesis
    using drain by (auto simp: wp_def split: prod.splits)
qed

text \<open>
  Without a drainer, when the new pod is gone: the completion succeeds and deletes the old pod,
  and nothing serves.
\<close>

lemma undrained_completion_unserved:
  "let w = verifying_cluster\<lparr>mPods := filter (\<lambda>(k, _). k \<noteq> (''chains'', ''eth-0-replacement'')) (mPods verifying_cluster)\<rparr>;
       ((node, r), w') = run_state (CompleteReplacement (example_manager False) None verifying_node) w
   in ok r \<and> serving (mem_view w) (''chains'', ''eth-0'') \<and> \<not> serving (mem_view w') (''chains'', ''eth-0-replacement'') \<and>
      pod_removed (mem_view w') (''chains'', ''eth-0'')"
  by code_simp

theorem RollbackReplacement_clears_witness:
  "ok (snd (fst (run_state (RollbackReplacement (example_manager True) None verifying_node) verifying_cluster))) \<and>
   wp (RollbackReplacement (example_manager True) None verifying_node) (\<lambda>(node', r) w'. \<not> IsReplacementInProgress node') verifying_cluster"
proof -
  have "ok (snd (fst (run_state (RollbackReplacement (example_manager True) None verifying_node) verifying_cluster)))"
    by code_simp
  with RollbackReplacement_clears [OF example_world [where draining = True], where c = None and node = verifying_node and w = verifying_cluster]
  show ?thesis
    by (auto simp: wp_def split: prod.splits)
qed

subsection \<open>The order of the writes\<close>

text \<open>
  In a log, every deletion comes after a successful request that set \<open>ready=true\<close> on a pod.
\<close>

fun is_delete :: "write_request \<times> bool \<Rightarrow> bool" where
  "is_delete (DeletePod _ _, _) = True"
| "is_delete (DeletePVC _ _, _) = True"
| "is_delete _ = False"

fun puts_in_service :: "write_request \<times> bool \<Rightarrow> bool" where
  "puts_in_service (PatchPod _ _ labels, good) = (good \<and> mget labels LabelReady = ''true'')"
| "puts_in_service _ = False"

fun switched_before_delete :: "bool \<Rightarrow> write_log \<Rightarrow> bool" where
  "switched_before_delete sw [] = True"
| "switched_before_delete sw (x # l) =
     ((is_delete x \<longrightarrow> sw) \<and> switched_before_delete (sw \<or> puts_in_service x) l)"

lemma switched_append [simp]:
  "switched_before_delete sw (l @ l') \<longleftrightarrow>
     switched_before_delete sw l \<and> switched_before_delete (sw \<or> list_ex puts_in_service l) l'"
  by (induction l arbitrary: sw) (auto simp: disj_assoc)

text \<open>A manager with the label-based drainer whose writes are logged.\<close>

definition traced_manager :: "'w kube \<Rightarrow> ('w \<times> write_log) Checker \<Rightarrow> ReplacementConfig \<Rightarrow> ('w \<times> write_log) ReplacementManager" where
  "traced_manager K ch cfg = \<lparr>rmKube = traced K, rmChecker = ch,
     rmDrain = Some (LabelBasedTrafficManager (traced K)), rmCfg = cfg\<rparr>"

lemma traced_reads_silent:
  "silent (check_services (traced K) ns ip svcs)"
proof (induction svcs)
  case (Cons svc svcs)
  then show ?case
    by (intro silentI) (auto simp: podInEndpoints_def silent_def intro!: client_any split: sum.splits)
qed simp

lemma ValidateTraffic_silent: "silent (ValidateTraffic (traced K) c pod ns)"
  by (intro silentI)
     (auto simp: ValidateTraffic_def matchingServices_def silentD [OF traced_reads_silent]
           intro!: client_any silentD [OF traced_reads_silent] split: sum.splits)

lemma setPodLabel_log:
  assumes "\<And>w' ns' n' labels e. mget labels key = val \<Longrightarrow> Q (Inl e) (w', l @ [(PatchPod ns' n' labels, False)])"
    and "\<And>w' ns' n' labels. mget labels key = val \<Longrightarrow> Q (Inr ()) (w', l @ [(PatchPod ns' n' labels, True)])"
    and "\<And>w' e. Q (Inl e) (w', l)"
  shows "wp (setPodLabel (traced K) name ns key val) Q (w, l)"
  unfolding setPodLabel_def
  using assms by (auto intro!: client_any split: sum.splits)

text \<open>
  C4: The order of the writes when a replacement completes with the label-based traffic manager
  as its drainer, which is how \<open>cmd/main.go\<close> builds the manager, for every behaviour of the API
  server: neither a pod nor a volume claim is deleted before a request that set \<open>ready=true\<close>
  on a pod has succeeded. Without a drainer the label is only attempted, and the old pod is
  deleted also when that fails (\<open>undrained_completion_unserved\<close>).
\<close>

theorem CompleteReplacement_switches_before_delete:
  "wp (CompleteReplacement (traced_manager K ch cfg) c node)
     (\<lambda>_ (_, log). switched_before_delete False log) (w, [])"
proof -
  let ?safe = "\<lambda>_ (_, log). switched_before_delete False log"
  let ?R = "traced_manager K ch cfg"
  have clear: "wp (clearOrFail (traced K) phase nd) ?safe (w', l)" if "switched_before_delete False l" for phase nd w' l
    using that unfolding clearOrFail_def clearAnnotations_def
    by (auto intro!: client_any split: sum.splits)
  have clean: "wp (cleanupPVC ?R pod ns) (\<lambda>_. wp (clearOrFail (traced K) phase nd) ?safe) (w', l)"
    if "switched_before_delete False l" "list_ex puts_in_service l" for pod ns phase nd w' l
    using that unfolding cleanupPVC_def removePVC_def Let_def
    by (auto simp: traced_manager_def intro!: client_any clear split: sum.splits)
  have remove: "wp (removePod ?R pod ns) Q (w', l)"
    if "switched_before_delete False l" "list_ex puts_in_service l"
      "\<And>a w' l. switched_before_delete False l \<Longrightarrow> list_ex puts_in_service l \<Longrightarrow> Q a (w', l)" for pod ns Q w' l
    using that unfolding removePod_def
    by (auto simp: traced_manager_def intro!: client_any split: sum.splits)
  have switch: "wp (SwitchTraffic (traced K) c old new ns) Q (w', l)"
    if "switched_before_delete False l"
      "\<And>a w' l. switched_before_delete False l \<Longrightarrow> (ok a \<longrightarrow> list_ex puts_in_service l) \<Longrightarrow> Q a (w', l)"
    for old new ns Q w' l
    using that unfolding SwitchTraffic_def
    by (auto intro!: client_any setPodLabel_log split: sum.splits)
  have validate: "wp (ValidateTraffic (traced K) c pod ns) Q (w', l)" if "\<And>a w'. Q a (w', l)" for pod ns Q w' l
    by (rule silentD [OF ValidateTraffic_silent]) (rule that)
  have drain: "rmDrain ?R = Some (LabelBasedTrafficManager (traced K))" and kube: "rmKube ?R = traced K"
    by (simp_all add: traced_manager_def)
  have switched: "wp (switchIfConfigured ?R c old new ns) Q (w', l)"
    if "switched_before_delete False l"
      "\<And>a w' l. switched_before_delete False l \<Longrightarrow> (ok a \<longrightarrow> list_ex puts_in_service l) \<Longrightarrow> Q a (w', l)"
    for old new ns Q w' l
    unfolding switchIfConfigured_def drain using that
    by (auto intro!: switch validate split: sum.splits)
  have tail: "wp (switchAndRemove ?R c nd old new) ?safe (w', l)" if "switched_before_delete False l" for nd old new w' l
    unfolding switchAndRemove_def Let_def kube
    using that by (auto intro!: switched remove clean split: sum.splits)
  have patched: "wp (mergeAnnotations (traced K) node ann) Q (w, [])"
    if "\<And>nd r w' l. switched_before_delete False l \<Longrightarrow> Q (nd, r) (w', l)" for ann Q
    unfolding mergeAnnotations_def using that by (auto intro!: client_any split: sum.splits)
  show ?thesis
    unfolding CompleteReplacement_def Let_def kube
    by (auto intro!: patched tail split: sum.splits)
qed

end
