(* ===== verification/Node_Health.thy ===== *)
theory Node_Health
  imports Replacement
begin

text \<open>
  \<open>internal/controller/nodehealth_controller.go\<close>: the reconciler that runs the health triggers
  and drives the replacement workflow. Its state machine, as stored in the annotations, is
  the step relation \<open>phase_step\<close>; every reconciliation follows it.
\<close>

subsection \<open>The reconciler\<close>

definition healthPollingInterval :: duration where "healthPollingInterval = 60 * Second"
definition replacementPollingInterval :: duration where "replacementPollingInterval = 30 * Second"

record 'w NodeHealthReconciler =
  nhClient :: "'w kube"
  nhChecker :: "'w Checker"
  nhReplacement :: "'w ReplacementManager"

fun isCheckablePhase :: "NodePhase \<Rightarrow> bool" where
  "isCheckablePhase NodePhaseHealthy = True"
| "isCheckablePhase NodePhaseSyncing = True"
| "isCheckablePhase NodePhaseDegraded = True"
| "isCheckablePhase _ = False"

definition mapChainToHealthType :: "Chain \<Rightarrow> BlockchainType" where
  "mapChainToHealthType chain =
     (if chain = ChainEthereum \<or> chain = ChainEthereumArchive then BlockchainEthereum
      else if chain = ChainSolana then BlockchainSolana
      else BlockchainEthereum)"

definition objName :: "ChainInstance \<Rightarrow> string" where
  "objName node = nodeNamespace node @ ''/'' @ nodeName node"

definition evaluateTriggers :: "'w NodeHealthReconciler \<Rightarrow> ctx \<Rightarrow> ChainInstance \<Rightarrow> ('w, goerr + Result) state" where
  "evaluateTriggers r c node = do {
     let podName = nodeName node @ ''-0'';
     result \<leftarrow> CheckAll (nhClient r) (nhChecker r) c podName (mapChainToHealthType (spChain (ciSpec node)));
     if Healthy result then ret (Inr \<lparr>rqAfter = healthPollingInterval\<rparr>)
     else do {
       (_, sr) \<leftarrow> StartReplacement (nhReplacement r) c node;
       ret (case sr of
          Inl err \<Rightarrow> Inl (WrapErr (''starting replacement for '' @ objName node) err)
        | Inr _ \<Rightarrow> Inr \<lparr>rqAfter = replacementPollingInterval\<rparr>) } }"

definition handleVerifying :: "'w NodeHealthReconciler \<Rightarrow> ctx \<Rightarrow> ChainInstance \<Rightarrow> ('w, goerr + Result) state" where
  "handleVerifying r c node = do {
     mr \<leftarrow> MonitorReplacement (nhReplacement r) c node;
     case mr of
       Inl err \<Rightarrow> do {
         (_, rb) \<leftarrow> RollbackReplacement (nhReplacement r) c node;
         ret (case rb of
            Inl rbErr \<Rightarrow> Inl (WrapErr (''rollback after monitoring failure for '' @ objName node) rbErr)
          | Inr _ \<Rightarrow> Inr \<lparr>rqAfter = healthPollingInterval\<rparr>) }
     | Inr ready \<Rightarrow>
         if \<not> ready then ret (Inr \<lparr>rqAfter = replacementPollingInterval\<rparr>)
         else do {
           (_, cr) \<leftarrow> CompleteReplacement (nhReplacement r) c node;
           ret (case cr of
              Inl err \<Rightarrow> Inl (WrapErr (''completing replacement for '' @ objName node) err)
            | Inr _ \<Rightarrow> Inr \<lparr>rqAfter = healthPollingInterval\<rparr>) } }"

definition advanceReplacement :: "'w NodeHealthReconciler \<Rightarrow> ctx \<Rightarrow> ChainInstance \<Rightarrow> ('w, goerr + Result) state" where
  "advanceReplacement r c node =
     (let phase = GetReplacementPhase node in
      if phase = ReplacementVerifying then handleVerifying r c node
      else if phase = ReplacementDraining \<or> phase = ReplacementCreating
      then ret (Inr \<lparr>rqAfter = replacementPollingInterval\<rparr>)
      else if phase = ReplacementRollingBack
      then do {
        (_, rb) \<leftarrow> RollbackReplacement (nhReplacement r) c node;
        ret (case rb of
           Inl err \<Rightarrow> Inl (WrapErr (''retrying rollback for '' @ objName node) err)
         | Inr _ \<Rightarrow> Inr \<lparr>rqAfter = healthPollingInterval\<rparr>) }
      else do {
        _ \<leftarrow> RollbackReplacement (nhReplacement r) c node;
        ret (Inr \<lparr>rqAfter = healthPollingInterval\<rparr>) })"

definition nodeHealth_Reconcile ::
    "'w NodeHealthReconciler \<Rightarrow> ctx \<Rightarrow> string \<Rightarrow> string \<Rightarrow> ('w, goerr + Result) state" where
  "nodeHealth_Reconcile r c ns name = do {
     gr \<leftarrow> kGetNode (nhClient r) ns name;
     case gr of
       Inl err \<Rightarrow> ret (if IsNotFound err then Inr \<lparr>rqAfter = 0\<rparr>
                        else Inl (WrapErr (''fetching ChainInstance '' @ ns @ ''/'' @ name) err))
     | Inr node \<Rightarrow>
         if mDeletionTimestamp (ciMeta node) \<noteq> None then ret (Inr \<lparr>rqAfter = 0\<rparr>)
         else if \<not> isCheckablePhase (csPhase (ciStatus node)) then ret (Inr \<lparr>rqAfter = healthPollingInterval\<rparr>)
         else if IsReplacementInProgress node then advanceReplacement r c node
         else evaluateTriggers r c node }"

text \<open>
  The two mappings of chains to metric families, \<open>mapChainToHealthType\<close> of the controller
  and \<open>ChainToBlockchainType\<close> of the health package, agree on every chain, so the triggers of
  the old pod and those of its replacement are evaluated on the same metrics.
\<close>

lemma chain_mappings_agree: "mapChainToHealthType = ChainToBlockchainType"
  by (rule ext) (simp add: mapChainToHealthType_def ChainToBlockchainType_def chainMapping_def)

subsection \<open>The workflow as a state machine\<close>

text \<open>The phase the API server stores for a node; empty when no replacement was started.\<close>

definition stored_phase :: "cluster \<Rightarrow> objkey \<Rightarrow> ReplacementPhase" where
  "stored_phase c k = (case stored_ann c k AnnotationReplacementPhase of None \<Rightarrow> [] | Some p \<Rightarrow> p)"

definition idle_phase :: "ReplacementPhase \<Rightarrow> bool" where
  "idle_phase p \<longleftrightarrow> p = [] \<or> p = ReplacementCompleting"

definition rollback_phase :: "ReplacementPhase \<Rightarrow> bool" where
  "rollback_phase p \<longleftrightarrow> p \<notin> {[], ReplacementDraining, ReplacementCreating, ReplacementCompleting}"

text \<open>
  A reconciliation runs at most one of three jobs, each of which may begin in certain phases
  only and then takes some of its steps in order.
\<close>

datatype job = Start | Complete | Rollback

fun begins :: "job \<Rightarrow> ReplacementPhase \<Rightarrow> bool" where
  "begins Start p = idle_phase p"
| "begins Complete p = (p = ReplacementVerifying)"
| "begins Rollback p = rollback_phase p"

inductive phase_step :: "job \<Rightarrow> ReplacementPhase \<Rightarrow> ReplacementPhase \<Rightarrow> bool" where
  start: "idle_phase p \<Longrightarrow> phase_step Start p ReplacementDraining"
| create: "phase_step Start ReplacementDraining ReplacementCreating"
| verify: "phase_step Start ReplacementCreating ReplacementVerifying"
| complete: "phase_step Complete ReplacementVerifying ReplacementCompleting"
| completed: "phase_step Complete ReplacementCompleting []"
| rollback: "rollback_phase p \<Longrightarrow> phase_step Rollback p ReplacementRollingBack"
| rolled_back: "phase_step Rollback ReplacementRollingBack []"

inductive_cases phase_step_to_completing: "phase_step j p ''Completing''"

definition phase_steps :: "ReplacementPhase \<Rightarrow> ReplacementPhase \<Rightarrow> bool" where
  "phase_steps p p' \<longleftrightarrow> p' = p \<or> (\<exists>j. begins j p \<and> (phase_step j)\<^sup>*\<^sup>* p p')"

lemma phase_steps_refl [simp]: "phase_steps p p"
  by (simp add: phase_steps_def)

lemma phase_stepsI: "begins j p \<Longrightarrow> (phase_step j)\<^sup>*\<^sup>* p p' \<Longrightarrow> phase_steps p p'"
  by (auto simp: phase_steps_def)

lemma started_steps:
  assumes "idle_phase p"
  shows "phase_steps p ReplacementDraining" "phase_steps p ReplacementCreating" "phase_steps p ReplacementVerifying"
proof -
  have d: "(phase_step Start)\<^sup>*\<^sup>* p ReplacementDraining"
    using assms phase_step.start by blast
  have c: "(phase_step Start)\<^sup>*\<^sup>* p ReplacementCreating"
    using d phase_step.create by (rule rtranclp.rtrancl_into_rtrancl)
  have "(phase_step Start)\<^sup>*\<^sup>* p ReplacementVerifying"
    using c phase_step.verify by (rule rtranclp.rtrancl_into_rtrancl)
  with d c assms show "phase_steps p ReplacementDraining" "phase_steps p ReplacementCreating" "phase_steps p ReplacementVerifying"
    by (simp_all add: phase_stepsI [of Start])
qed

lemma completed_steps:
  "phase_steps ReplacementVerifying ReplacementCompleting" "phase_steps ReplacementVerifying []"
proof -
  have c: "(phase_step Complete)\<^sup>*\<^sup>* ReplacementVerifying ReplacementCompleting"
    using phase_step.complete by (rule r_into_rtranclp)
  have "(phase_step Complete)\<^sup>*\<^sup>* ReplacementVerifying []"
    using c phase_step.completed by (rule rtranclp.rtrancl_into_rtrancl)
  with c show "phase_steps ReplacementVerifying ReplacementCompleting" "phase_steps ReplacementVerifying []"
    by (simp_all add: phase_stepsI [of Complete])
qed

lemma rolled_back_steps:
  assumes "rollback_phase p"
  shows "phase_steps p ReplacementRollingBack" "phase_steps p []"
proof -
  have c: "(phase_step Rollback)\<^sup>*\<^sup>* p ReplacementRollingBack"
    using assms phase_step.rollback by blast
  have "(phase_step Rollback)\<^sup>*\<^sup>* p []"
    using c phase_step.rolled_back by (rule rtranclp.rtrancl_into_rtrancl)
  with c assms show "phase_steps p ReplacementRollingBack" "phase_steps p []"
    by (simp_all add: phase_stepsI [of Rollback])
qed

text \<open>Only a replacement that was verified is completed: the machine has no other way in.\<close>

lemma completing_after_verifying:
  assumes "phase_steps p ReplacementCompleting" "p \<noteq> ReplacementCompleting"
  shows "p = ReplacementVerifying"
proof -
  from assms obtain j where j: "begins j p" "(phase_step j)\<^sup>*\<^sup>* p ReplacementCompleting"
    by (auto simp: phase_steps_def)
  from j(2) assms(2) obtain q where "phase_step j q ReplacementCompleting"
    by (auto elim: rtranclp.cases)
  then have "j = Complete" by (rule phase_step_to_completing) simp_all
  with j(1) show ?thesis by simp
qed

lemma stored_phase_cong: "stored_ann c' = stored_ann c \<Longrightarrow> stored_phase c' = stored_phase c"
  by (simp add: stored_phase_def fun_eq_iff)

context replacement_world
begin

lemma merge_phase:
  assumes "distinct (map fst ann)" "map_of ann AnnotationReplacementPhase \<noteq> None"
  shows "wp (mergeAnnotations K node ann) (\<lambda>(node', r) w'.
     case r of Inl _ \<Rightarrow> V w' = V w \<and> node' = node
     | Inr _ \<Rightarrow> nodeKey node' = nodeKey node \<and>
         stored_phase (V w') (nodeKey node) = the (map_of ann AnnotationReplacementPhase)) w"
proof -
  have "stored_phase c' k = the (map_of ann AnnotationReplacementPhase)" if "stored_ann c' k = m ++ map_of ann" for c' k m
    using assms(2) that by (auto simp: stored_phase_def)
  then show ?thesis
    by (intro wp_mono [OF mergeAnnotations_spec [OF assms(1)]]) (auto simp: in_step_def split: sum.splits)
qed

lemma clear_phase:
  "wp (clearOrFail K phase node) (\<lambda>_ w'. V w' = V w \<or> stored_phase (V w') (nodeKey node) = []) w"
proof -
  have "stored_phase c' k = []" if "stored_ann c' k = m |` (- set replacement_keys)" for c' k m
    using that by (auto simp: stored_phase_def replacement_keys_def)
  moreover have "wp (clearAnnotations K node) (\<lambda>_ w'. V w' = V w \<or>
      stored_ann (V w') (nodeKey node) = stored_ann (V w) (nodeKey node) |` (- set replacement_keys)) w"
    apply (rule wp_mono [OF clearAnnotations_spec])
    subgoal for a w' by (cases a; cases "snd a") auto
    done
  ultimately show ?thesis
    unfolding clearOrFail_def by (auto elim!: wp_mono)
qed

lemma spawn_phase: "wp (spawnReplacementPod K node old new) (\<lambda>_ w'. stored_phase (V w') = stored_phase (V w)) w"
  by (rule wp_mono [OF spawnReplacementPod_spec]) (auto intro: stored_phase_cong)

lemma label_phase: "wp (labelPod K pod ns key val) (\<lambda>_ w'. stored_phase (V w') = stored_phase (V w)) w"
  unfolding labelPod_eq
  by (rule wp_mono [OF setPodLabel_spec]) (auto intro: stored_phase_cong pods_touched_ann split: sum.splits)

lemma drain_phase: "wp (drainIfConfigured R c pod ns) (\<lambda>_ w'. stored_phase (V w') = stored_phase (V w)) w"
  by (rule wp_mono [OF drain_step]) (auto intro: stored_phase_cong pods_touched_ann)

lemma create_steps:
  assumes "stored_phase (V w) (nodeKey node) = ReplacementDraining" "idle_phase p"
  shows "wp (createAndAdvance K node old new) (\<lambda>_ w'. phase_steps p (stored_phase (V w') (nodeKey node))) w"
  unfolding createAndAdvance_def
  using assms
  by (auto intro!: wp_mono [OF merge_phase] wp_mono [OF spawn_phase] simp: started_steps split: sum.splits)

lemma StartReplacement_steps:
  assumes "idle_phase (stored_phase (V w) (nodeKey node))"
  shows "wp (StartReplacement R c node)
           (\<lambda>_ w'. phase_steps (stored_phase (V w) (nodeKey node)) (stored_phase (V w') (nodeKey node))) w"
proof -
  have tail: "wp (createAndAdvance K node1 old new)
      (\<lambda>_ w'. phase_steps (stored_phase (V w) (nodeKey node)) (stored_phase (V w') (nodeKey node))) w1"
    if "nodeKey node1 = nodeKey node" "stored_phase (V w1) (nodeKey node) = ReplacementDraining" for node1 w1 old new
    using create_steps [of w1 node1 "stored_phase (V w) (nodeKey node)" old new] that assms by simp
  show ?thesis
    unfolding StartReplacement_def Let_def manager_kube
    using assms
    by (auto intro!: wp_mono [OF now_law] wp_mono [OF merge_phase] wp_mono [OF label_phase] wp_mono [OF drain_phase] tail
          simp: started_steps split: sum.splits)
qed

lemma delete_phase:
  "wp (deleteReplacementPod R pod ns) (\<lambda>_ w'. stored_phase (V w') = stored_phase (V w)) w"
  by (rule wp_mono [OF deleteReplacementPod_nodes]) (auto intro: stored_phase_cong stored_ann_cong)

lemma restore_phase: "wp (restoreOldPod K pod ns) (\<lambda>_ w'. stored_phase (V w') = stored_phase (V w)) w"
  by (rule wp_mono [OF restoreOldPod_nodes]) (auto intro: stored_phase_cong stored_ann_cong)

lemma RollbackReplacement_steps:
  assumes "rollback_phase (stored_phase (V w) (nodeKey node))"
  shows "wp (RollbackReplacement R c node)
           (\<lambda>_ w'. phase_steps (stored_phase (V w) (nodeKey node)) (stored_phase (V w') (nodeKey node))) w"
proof -
  have clear: "wp (clearOrFail K phase node1)
      (\<lambda>_ w'. phase_steps (stored_phase (V w) (nodeKey node)) (stored_phase (V w') (nodeKey node))) w1"
    if "nodeKey node1 = nodeKey node" "stored_phase (V w1) (nodeKey node) = ReplacementRollingBack" for node1 w1 phase
    by (rule wp_mono [OF clear_phase [of phase node1 w1]])
       (use that assms in \<open>auto simp: rolled_back_steps\<close>)
  show ?thesis
    unfolding RollbackReplacement_def Let_def manager_kube
    using assms
    by (auto intro!: wp_mono [OF merge_phase] wp_mono [OF delete_phase] wp_mono [OF restore_phase] clear
          simp: rolled_back_steps split: sum.splits)
qed

lemma switch_phase:
  "wp (switchIfConfigured R c old new ns) (\<lambda>_ w'. stored_phase (V w') = stored_phase (V w)) w"
  by (rule wp_mono [OF switch_spec]) (auto intro: stored_phase_cong stored_ann_cong)

lemma removePod_phase: "wp (removePod R pod ns) (\<lambda>_ w'. stored_phase (V w') = stored_phase (V w)) w"
  by (rule wp_mono [OF removePod_spec [OF manager_kube]]) (auto intro: stored_phase_cong)

lemma cleanup_phase: "wp (cleanupPVC R pod ns) (\<lambda>_ w'. stored_phase (V w') = stored_phase (V w)) w"
  unfolding cleanupPVC_def manager_kube
  by (auto intro!: wp_mono [OF removePVC_spec] intro: stored_phase_cong)

lemma CompleteReplacement_steps:
  assumes "stored_phase (V w) (nodeKey node) = ReplacementVerifying"
  shows "wp (CompleteReplacement R c node)
           (\<lambda>_ w'. phase_steps ReplacementVerifying (stored_phase (V w') (nodeKey node))) w"
proof -
  have clear: "wp (clearOrFail K phase node1)
      (\<lambda>_ w'. phase_steps ReplacementVerifying (stored_phase (V w') (nodeKey node))) w1"
    if "nodeKey node1 = nodeKey node" "stored_phase (V w1) (nodeKey node) = ReplacementCompleting" for node1 w1 phase
    by (rule wp_mono [OF clear_phase [of phase node1 w1]]) (use that in \<open>auto simp: completed_steps\<close>)
  have tail: "wp (switchAndRemove R c node1 old new)
      (\<lambda>_ w'. phase_steps ReplacementVerifying (stored_phase (V w') (nodeKey node))) w1"
    if "nodeKey node1 = nodeKey node" "stored_phase (V w1) (nodeKey node) = ReplacementCompleting" for node1 w1 old new
    unfolding switchAndRemove_def Let_def manager_kube
    using that
    by (auto intro!: wp_mono [OF switch_phase] wp_mono [OF removePod_phase] wp_mono [OF cleanup_phase] clear
          simp: completed_steps split: sum.splits)
  show ?thesis
    unfolding CompleteReplacement_def Let_def manager_kube
    using assms
    by (auto intro!: wp_mono [OF merge_phase] tail simp: completed_steps split: sum.splits)
qed

lemma nodeAnnotation_stored:
  "clNodes c (nodeKey node) = Some node \<Longrightarrow> nodeAnnotation node AnnotationReplacementPhase = stored_phase c (nodeKey node)"
  by (simp add: stored_phase_def stored_ann_def nodeAnnotation_mget)

end

text \<open>
  A reconciler over such a manager: it uses the same client and the same checker.
\<close>

locale node_health_world = replacement_world K V "nhReplacement r"
  for K :: "'w kube" and V :: "'w \<Rightarrow> cluster" and r :: "'w NodeHealthReconciler" +
  assumes reconciler_client: "nhClient r = K" and reconciler_checker: "nhChecker r = rmChecker (nhReplacement r)"
begin

lemma evaluateTriggers_steps:
  assumes "clNodes (V w) (nodeKey node) = Some node" "\<not> IsReplacementInProgress node"
  shows "wp (evaluateTriggers r c node)
           (\<lambda>_ w'. phase_steps (stored_phase (V w) (nodeKey node)) (stored_phase (V w') (nodeKey node))) w"
proof -
  have "idle_phase (stored_phase (V w) (nodeKey node))"
    using assms by (auto simp: IsReplacementInProgress_def nodeAnnotation_stored idle_phase_def)
  then have start: "wp (StartReplacement (nhReplacement r) c node)
      (\<lambda>_ w'. phase_steps (stored_phase (V w) (nodeKey node)) (stored_phase (V w') (nodeKey node))) w1"
    if "V w1 = V w" for w1 using StartReplacement_steps [of w1 node c] that by simp
  show ?thesis
    unfolding evaluateTriggers_def Let_def reconciler_client reconciler_checker
    by (auto intro!: wp_mono [OF CheckAll_quiet] wp_mono [OF start])
qed

lemma handleVerifying_steps:
  assumes "stored_phase (V w) (nodeKey node) = ReplacementVerifying"
  shows "wp (handleVerifying r c node)
           (\<lambda>_ w'. phase_steps (stored_phase (V w) (nodeKey node)) (stored_phase (V w') (nodeKey node))) w"
proof -
  have "rollback_phase (stored_phase (V w) (nodeKey node))" using assms by (simp add: rollback_phase_def)
  then have rollback: "wp (RollbackReplacement (nhReplacement r) c node)
      (\<lambda>_ w'. phase_steps (stored_phase (V w) (nodeKey node)) (stored_phase (V w') (nodeKey node))) w1"
    if "V w1 = V w" for w1 using RollbackReplacement_steps [of w1 node c] that by simp
  have complete: "wp (CompleteReplacement (nhReplacement r) c node)
      (\<lambda>_ w'. phase_steps (stored_phase (V w) (nodeKey node)) (stored_phase (V w') (nodeKey node))) w1"
    if "V w1 = V w" for w1 using CompleteReplacement_steps [of w1 node c] that assms by simp
  show ?thesis
    unfolding handleVerifying_def
    by (auto intro!: wp_mono [OF MonitorReplacement_view] wp_mono [OF rollback] wp_mono [OF complete] split: sum.splits)
qed

lemma advanceReplacement_steps:
  assumes "clNodes (V w) (nodeKey node) = Some node" "IsReplacementInProgress node"
  shows "wp (advanceReplacement r c node)
           (\<lambda>_ w'. phase_steps (stored_phase (V w) (nodeKey node)) (stored_phase (V w') (nodeKey node))) w"
proof -
  let ?p = "stored_phase (V w) (nodeKey node)"
  have phase: "GetReplacementPhase node = ?p"
    using assms(1) by (simp add: GetReplacementPhase_def nodeAnnotation_stored)
  have rollback: "wp (RollbackReplacement (nhReplacement r) c node)
      (\<lambda>_ w'. phase_steps ?p (stored_phase (V w') (nodeKey node))) w"
    if "?p \<noteq> ReplacementDraining" "?p \<noteq> ReplacementCreating"
    using that assms
    by (intro RollbackReplacement_steps)
       (auto simp: rollback_phase_def IsReplacementInProgress_def nodeAnnotation_stored)
  show ?thesis
    unfolding advanceReplacement_def phase Let_def
    using handleVerifying_steps [of w node c] by (auto intro!: wp_mono [OF rollback])
qed

lemma Reconcile_steps:
  "wp (nodeHealth_Reconcile r c ns name)
     (\<lambda>_ w'. phase_steps (stored_phase (V w) (ns, name)) (stored_phase (V w') (ns, name))) w"
proof -
  have advance: "wp (advanceReplacement r c node)
      (\<lambda>_ w'. phase_steps (stored_phase (V w) (nodeKey node)) (stored_phase (V w') (nodeKey node))) w1"
    if "V w1 = V w" "clNodes (V w) (nodeKey node) = Some node" "IsReplacementInProgress node" for node w1
    using advanceReplacement_steps [of w1 node c] that by simp
  have evaluate: "wp (evaluateTriggers r c node)
      (\<lambda>_ w'. phase_steps (stored_phase (V w) (nodeKey node)) (stored_phase (V w') (nodeKey node))) w1"
    if "V w1 = V w" "clNodes (V w) (nodeKey node) = Some node" "\<not> IsReplacementInProgress node" for node w1
    using evaluateTriggers_steps [of w1 node c] that by simp
  show ?thesis
    unfolding nodeHealth_Reconcile_def reconciler_client
    by (auto intro!: wp_mono [OF get_node_law] advance evaluate split: sum.splits)
qed

text \<open>Nothing in a reconciliation moves a stored Draining or Creating phase.\<close>

lemma Reconcile_transient:
  assumes "stored_phase (V w) (ns, name) \<in> {ReplacementDraining, ReplacementCreating}"
  shows "wp (nodeHealth_Reconcile r c ns name) (\<lambda>_ w'. V w' = V w) w"
  unfolding nodeHealth_Reconcile_def reconciler_client
  using assms
  by (auto intro!: wp_mono [OF get_node_law] split: sum.splits
        simp: advanceReplacement_def GetReplacementPhase_def IsReplacementInProgress_def nodeAnnotation_stored)

end

fun reconcile_times :: "nat \<Rightarrow> ('w, 'a) state \<Rightarrow> ('w, unit) state" where
  "reconcile_times 0 m = ret ()"
| "reconcile_times (Suc n) m = do { _ \<leftarrow> m; reconcile_times n m }"

text \<open>
  C1: Every reconciliation of the health controller, whatever the metrics say and whichever
  requests fail, leaves the stored phase alone or runs part of one job: from idle (none or
  Completing) a start through Draining, Creating, Verifying; from Verifying a completion through
  Completing to none; from Verifying, RollingBack or an unknown phase a rollback through
  RollingBack to none. In particular Completing is entered from Verifying only.
\<close>

theorem Reconcile_follows_workflow:
  assumes "node_health_world K V r"
  shows "wp (nodeHealth_Reconcile r c ns name)
     (\<lambda>_ w'. phase_steps (stored_phase (V w) (ns, name)) (stored_phase (V w') (ns, name))) w"
  using assms by (rule node_health_world.Reconcile_steps)

text \<open>
  C16: A replacement whose start was interrupted never recovers. Once the stored phase is
  Draining or Creating (the start failed or the process died after the first annotation),
  any number of reconciliations leaves every stored object as it is: the phases that the
  controller calls transient are never advanced, retried or rolled back.
\<close>

theorem interrupted_start_is_stuck:
  assumes "node_health_world K V r"
    and "stored_phase (V w) (ns, name) \<in> {ReplacementDraining, ReplacementCreating}"
  shows "wp (reconcile_times n (nodeHealth_Reconcile r c ns name)) (\<lambda>_ w'. V w' = V w) w"
  using assms(2)
proof (induction n arbitrary: w)
  case (Suc n)
  show ?case
    by (auto intro!: wp_mono [OF node_health_world.Reconcile_transient [OF assms(1) Suc.prems]] wp_mono [OF Suc.IH])
       (use Suc.prems in auto)
qed simp

definition mem_reconciler :: "f64 \<Rightarrow> bool \<Rightarrow> bool \<Rightarrow> mem NodeHealthReconciler" where
  "mem_reconciler v b draining = (let R = mem_manager v b draining DefaultReplacementConfig in
     \<lparr>nhClient = mem_kube, nhChecker = rmChecker R, nhReplacement = R\<rparr>)"

interpretation mem_health: node_health_world mem_kube mem_view "mem_reconciler v b draining" for v b draining
proof -
  have "nhReplacement (mem_reconciler v b draining) = mem_manager v b draining DefaultReplacementConfig"
    by (simp add: mem_reconciler_def Let_def)
  then show "node_health_world mem_kube mem_view (mem_reconciler v b draining)"
    using mem_world.replacement_world_axioms [of v b draining DefaultReplacementConfig]
    by (simp add: node_health_world_def node_health_world_axioms_def mem_reconciler_def Let_def)
qed

theorem Reconcile_follows_workflow_witness:
  "stored_phase (mem_view verifying_cluster) (''chains'', ''eth'') = ReplacementVerifying \<and>
   wp (nodeHealth_Reconcile (mem_reconciler (Fin 0) False True) None ''chains'' ''eth'')
     (\<lambda>_ w'. phase_steps ReplacementVerifying (stored_phase (mem_view w') (''chains'', ''eth''))) verifying_cluster"
proof -
  have "stored_phase (mem_view verifying_cluster) (''chains'', ''eth'') = ReplacementVerifying"
    by code_simp
  with Reconcile_follows_workflow [OF mem_health.node_health_world_axioms [of "Fin 0" False True],
      where c = None and ns = "''chains''" and name = "''eth''" and w = verifying_cluster]
  show ?thesis by simp
qed

definition stuck_cluster :: mem where
  "stuck_cluster = verifying_cluster\<lparr>mNodes := [((''chains'', ''eth''),
     set_annotations [(AnnotationReplacementPhase, ReplacementDraining)] example_node)]\<rparr>"

theorem interrupted_start_is_stuck_witness:
  "wp (reconcile_times 1000 (nodeHealth_Reconcile (mem_reconciler (Fin 0) False True) None ''chains'' ''eth''))
     (\<lambda>_ w'. mem_view w' = mem_view stuck_cluster) stuck_cluster"
proof (rule interrupted_start_is_stuck [OF mem_health.node_health_world_axioms])
  show "stored_phase (mem_view stuck_cluster) (''chains'', ''eth'') \<in> {ReplacementDraining, ReplacementCreating}"
    by code_simp
qed

end
