(* ===== verification/Chain_Identity.thy ===== *)
theory Chain_Identity
  imports Api_Types
begin

text \<open>
  \<open>internal/adapters/chain_identity.go\<close>: which chain a node must report it is on. The tables
  are association lists with one entry per Go map entry.
\<close>

definition mainnetEVMChainIDs :: "(Chain \<times> nat) list" where
  "mainnetEVMChainIDs =
    [(ChainAbstract, 2741), (ChainArbitrum, 42161), (ChainAurora, 1313161554), (ChainAvalanche, 43114),
     (ChainBase, 8453), (ChainBitTorrent, 199), (ChainBlast, 81457), (ChainBob, 60808),
     (ChainBobaEth, 288), (ChainBSC, 56), (ChainCelo, 42220), (ChainCore, 1116), (ChainCronos, 25),
     (ChainCronosZkEVM, 388), (ChainDoma, 97477), (ChainEthereum, 1), (ChainEthereumArchive, 1),
     (ChainEthereumClassic, 61), (ChainEverclear, 25327), (ChainFantom, 250), (ChainFraxtal, 252),
     (ChainFuse, 122), (ChainGnosis, 100), (ChainGoat, 2345), (ChainGravityAlpha, 1625),
     (ChainHaqq, 11235), (ChainHarmony, 1666600000), (ChainHashKey, 177), (ChainHemi, 43111),
     (ChainImmutableZkEVM, 13371), (ChainInk, 57073), (ChainKatana, 747474), (ChainKlaytn, 8217),
     (ChainKroma, 255), (ChainLens, 232), (ChainLinea, 59144), (ChainLisk, 1135),
     (ChainMantaPacific, 169), (ChainMantle, 5000), (ChainMegaETH, 4326), (ChainMetis, 1088),
     (ChainMezo, 31612), (ChainMoca, 2288), (ChainMode, 34443), (ChainMonad, 143),
     (ChainMoonbeam, 1284), (ChainMoonriver, 1285), (ChainMorph, 2818), (ChainOpBNB, 204),
     (ChainOptimism, 10), (ChainPlasma, 9745), (ChainPlaynance, 1829), (ChainPlume, 98866),
     (ChainPolygon, 137), (ChainPolygonZkEVM, 1101), (ChainRonin, 2020), (ChainRootstock, 30),
     (ChainScroll, 534352), (ChainShibarium, 109), (ChainSoneium, 1868), (ChainSonic, 146),
     (ChainSuperseed, 5330), (ChainSwell, 1923), (ChainTaiko, 167000), (ChainTelos, 40),
     (ChainThundercore, 108), (ChainUnichain, 130), (ChainViction, 88), (ChainWemix, 1111),
     (ChainWorldchain, 480), (ChainZeroNetwork, 543210), (ChainZircuit, 48900), (ChainZkSync, 324),
     (ChainZora, 7777777)]"

definition testnetEVMChainIDs :: "(Chain \<times> nat) list" where
  "testnetEVMChainIDs =
    [(ChainAvalanche, 43113), (ChainBSC, 97), (ChainEthereum, 11155111), (ChainEthereumArchive, 11155111)]"

definition evmRPCPaths :: "(Chain \<times> string) list" where
  "evmRPCPaths = [(ChainAvalanche, ''/ext/bc/C/rpc'')]"

definition mainnetCosmosChainIDs :: "(Chain \<times> string) list" where
  "mainnetCosmosChainIDs =
    [(ChainAxelar, ''axelar-dojo-1''), (ChainCosmos, ''cosmoshub-4''),
     (ChainDymension, ''dymension_1100-1''), (ChainKava, ''kava_2222-10''),
     (ChainOsmosis, ''osmosis-1''), (ChainSei, ''pacific-1'')]"

definition ExpectedEVMChainID :: "Chain \<Rightarrow> Network \<Rightarrow> nat option" where
  "ExpectedEVMChainID chain network =
     (if network = NetworkMainnet then map_of mainnetEVMChainIDs chain
      else if network = NetworkTestnet then map_of testnetEVMChainIDs chain
      else None)"

definition EVMRPCPath :: "Chain \<Rightarrow> string" where
  "EVMRPCPath chain = (case map_of evmRPCPaths chain of Some p \<Rightarrow> p | None \<Rightarrow> ''/'')"

definition ExpectedCosmosChainID :: "Chain \<Rightarrow> Network \<Rightarrow> string option" where
  "ExpectedCosmosChainID chain network =
     (if network \<noteq> NetworkMainnet then None else map_of mainnetCosmosChainIDs chain)"

text \<open>
  The ids of both networks together, without the archive node's, which runs the same chain
  as the Ethereum node.
\<close>

definition allEVMIDs :: "(Chain \<times> nat) list" where
  "allEVMIDs = filter (\<lambda>(c, _). c \<noteq> ChainEthereumArchive) (mainnetEVMChainIDs @ testnetEVMChainIDs)"

lemma ids_distinct: "distinct (map snd allEVMIDs)"
  by (simp add: allEVMIDs_def mainnetEVMChainIDs_def testnetEVMChainIDs_def)

lemma archive_ids:
  "map_of mainnetEVMChainIDs ChainEthereumArchive = map_of mainnetEVMChainIDs ChainEthereum"
  "map_of testnetEVMChainIDs ChainEthereumArchive = map_of testnetEVMChainIDs ChainEthereum"
  by (simp_all add: mainnetEVMChainIDs_def testnetEVMChainIDs_def)

definition canonical :: "Chain \<Rightarrow> Chain" where
  "canonical c = (if c = ChainEthereumArchive then ChainEthereum else c)"

lemma map_of_canonical:
  "map_of mainnetEVMChainIDs c = map_of mainnetEVMChainIDs (canonical c)"
  "map_of testnetEVMChainIDs c = map_of testnetEVMChainIDs (canonical c)"
  unfolding canonical_def using archive_ids by (cases "c = ChainEthereumArchive"; simp)+

lemma canonical_not_archive: "canonical c \<noteq> ChainEthereumArchive"
  by (simp add: canonical_def)

text \<open>
  A chain id identifies its chain and network. Two expected EVM ids, on whichever networks,
  are equal only for the same network and the same chain, the Ethereum archive node counting
  as Ethereum; so a node of another chain or network never passes for the expected one.
\<close>

theorem evm_ids_identify:
  assumes "ExpectedEVMChainID c n = Some i" "ExpectedEVMChainID c' n' = Some i"
  shows "n = n' \<and> canonical c = canonical c'"
proof -
  let ?main = "filter (\<lambda>(c, _). c \<noteq> ChainEthereumArchive) mainnetEVMChainIDs"
  let ?test = "filter (\<lambda>(c, _). c \<noteq> ChainEthereumArchive) testnetEVMChainIDs"
  have distinct: "distinct (map snd ?main @ map snd ?test)"
    using ids_distinct by (simp add: allEVMIDs_def)
  have entry: "n = NetworkMainnet \<and> (canonical c, i) \<in> set ?main \<or> n = NetworkTestnet \<and> (canonical c, i) \<in> set ?test"
    if "ExpectedEVMChainID c n = Some i" for c n
  proof (cases "n = NetworkMainnet")
    case True
    with that have "map_of mainnetEVMChainIDs (canonical c) = Some i"
      by (simp add: ExpectedEVMChainID_def map_of_canonical(1) [of c])
    then have "(canonical c, i) \<in> set mainnetEVMChainIDs" by (rule map_of_SomeD)
    with True canonical_not_archive [of c] show ?thesis by simp
  next
    case False
    with that have "n = NetworkTestnet" "map_of testnetEVMChainIDs (canonical c) = Some i"
      by (auto simp: ExpectedEVMChainID_def map_of_canonical(2) [of c] split: if_splits)
    moreover from this(2) have "(canonical c, i) \<in> set testnetEVMChainIDs" by (rule map_of_SomeD)
    ultimately show ?thesis using canonical_not_archive [of c] by simp
  qed
  have disjoint: "set (map snd ?main) \<inter> set (map snd ?test) = {}"
    using distinct unfolding distinct_append by blast
  have clash: False if "(x, i) \<in> set ?main" "(y, i) \<in> set ?test" for x y
  proof -
    from imageI [OF that(1), of snd] imageI [OF that(2), of snd]
    have "i \<in> set (map snd ?main) \<inter> set (map snd ?test)"
      unfolding set_map snd_conv by (rule IntI)
    then show False unfolding disjoint by (rule emptyE)
  qed
  have inj: "inj_on snd (set ?main)" "inj_on snd (set ?test)"
    using distinct unfolding distinct_append distinct_map by blast+
  from entry [OF assms(1)] entry [OF assms(2)] show ?thesis
  proof (elim disjE conjE)
    assume "n = NetworkMainnet" "n' = NetworkMainnet" "(canonical c, i) \<in> set ?main" "(canonical c', i) \<in> set ?main"
    then show ?thesis using inj_onD [OF inj(1), of "(canonical c, i)" "(canonical c', i)"] by simp
  next
    assume "n = NetworkTestnet" "n' = NetworkTestnet" "(canonical c, i) \<in> set ?test" "(canonical c', i) \<in> set ?test"
    then show ?thesis using inj_onD [OF inj(2), of "(canonical c, i)" "(canonical c', i)"] by simp
  next
    assume "(canonical c, i) \<in> set ?main" "(canonical c', i) \<in> set ?test"
    from clash [OF this] show ?thesis ..
  next
    assume "(canonical c, i) \<in> set ?test" "(canonical c', i) \<in> set ?main"
    from clash [OF this(2,1)] show ?thesis ..
  qed
qed

theorem evm_ids_identify_witness:
  "ExpectedEVMChainID ChainEthereum NetworkMainnet = Some 1 \<and>
   ExpectedEVMChainID ChainEthereumArchive NetworkMainnet = Some 1 \<and>
   canonical ChainEthereum = canonical ChainEthereumArchive"
proof -
  have "ExpectedEVMChainID ChainEthereum NetworkMainnet = Some 1"
    "ExpectedEVMChainID ChainEthereumArchive NetworkMainnet = Some 1"
    by (simp_all add: ExpectedEVMChainID_def mainnetEVMChainIDs_def)
  with evm_ids_identify [OF this] show ?thesis by simp
qed

text \<open>
  Every chain with an expected id is one of the declared chains, and no chain has both an
  EVM id and a Cosmos id.
\<close>

theorem identified_chains_declared:
  "fst ` set (mainnetEVMChainIDs @ testnetEVMChainIDs) \<subseteq> set chainConstants \<and>
   fst ` set mainnetCosmosChainIDs \<subseteq> set chainConstants \<and>
   fst ` set mainnetEVMChainIDs \<inter> fst ` set mainnetCosmosChainIDs = {}"
  by (simp add: mainnetEVMChainIDs_def testnetEVMChainIDs_def mainnetCosmosChainIDs_def chainConstants_def)

end
