(* ===== verification/Rpc.thy ===== *)
theory Rpc
  imports Health_Metric
begin

text \<open>
  \<open>internal/adapters/rpc.go\<close> and the shared health check of \<open>evm.go\<close> and
  \<open>utxo_protocol_base.go\<close>: the JSON-RPC client with its retries and error classes, numeric
  helpers, and the translation of node answers to a \<open>SyncStatus\<close>.
\<close>

subsection \<open>Status and numeric helpers\<close>

record SyncStatus =
  syIsSyncing :: bool
  syCurrentBlock :: int
  syHighestBlock :: int
  syPeers :: int
  syProgress :: f64
  syStallExempt :: bool

definition zero_sync :: SyncStatus where
  "zero_sync = \<lparr>syIsSyncing = False, syCurrentBlock = 0, syHighestBlock = 0, syPeers = 0,
     syProgress = Fin 0, syStallExempt = False\<rparr>"

text \<open>
  \<open>n, _ := strconv.ParseInt(s, b, 64)\<close> with the error dropped: a number out of range gives the
  nearest limit, a text that is no number gives zero.
\<close>

definition ParseInt64_value :: "nat \<Rightarrow> string \<Rightarrow> int" where
  "ParseInt64_value b s =
     (let sign = takeWhile (\<lambda>c. c = CHR ''-'' \<or> c = CHR ''+'') (take 1 s); ds = drop (length sign) s;
          v = int (digits_value b ds)
      in if ds \<noteq> [] \<and> list_all (is_digit b) ds
         then (if sign = ''-'' then max (- (2 ^ 63)) (- v) else min (2 ^ 63 - 1) v) else 0)"

definition parseDecimalInt64 :: "string \<Rightarrow> int" where
  "parseDecimalInt64 s = ParseInt64_value 10 s"

definition progressFromBlocks :: "int \<Rightarrow> int \<Rightarrow> f64" where
  "progressFromBlocks current highest =
     (if highest \<le> 0 \<or> current \<le> 0 then Fin 0
      else if current \<ge> highest then Fin 100
      else f_mul (f_div (f_of_int current) (f_of_int highest)) (Fin 100))"

text \<open>\<open>time.Now().Unix() & 0x7FFFF\<close>.\<close>

definition pseudoBlock :: "time \<Rightarrow> int" where
  "pseudoBlock now = time_Unix now mod 2 ^ 19"

definition syncingPseudo :: "time \<Rightarrow> SyncStatus" where
  "syncingPseudo now = (let p = pseudoBlock now in
     zero_sync\<lparr>syIsSyncing := True, syCurrentBlock := p, syHighestBlock := p + 1\<rparr>)"

text \<open>
  \<open>fmt.Sscanf(s, "%x", &n)\<close> into an \<open>int64\<close>: leading spaces are skipped, an optional sign and
  the longest run of hexadecimal digits are read; no digit or a value out of range leaves the
  variable alone.
\<close>

definition Sscanf_hex :: "string \<Rightarrow> int \<Rightarrow> int" where
  "Sscanf_hex s n0 =
     (let t = dropWhile (\<lambda>c. c = CHR '' '' \<or> c = CHR 0x09) s;
          (sign, r) = (case t of [] \<Rightarrow> ([], []) | c # r \<Rightarrow>
             if c = CHR ''-'' \<or> c = CHR ''+'' then ([c], r) else ([], c # r));
          ds = takeWhile (is_digit 16) r
      in case ParseInt64 16 (sign @ ds) of None \<Rightarrow> n0 | Some n \<Rightarrow> n)"

text \<open>\<open>hexToInt64\<close> of \<open>adapters/evm.go\<close>.\<close>

definition hexToInt64 :: "string \<Rightarrow> int" where
  "hexToInt64 hex = (let s = TrimPrefix hex ''0x'' in if s = [] then 0 else Sscanf_hex s 0)"

text \<open>\<open>hexToInt64\<close> of \<open>controller/helpers.go\<close>, which strips the prefix only from longer strings.\<close>

definition controller_hexToInt64 :: "string \<Rightarrow> int" where
  "controller_hexToInt64 s0 =
     (let s = (if length s0 > 2 \<and> take 2 s0 = ''0x'' then drop 2 s0 else s0)
      in if s = [] then 0 else Sscanf_hex s 0)"

subsection \<open>JSON-RPC\<close>

definition ErrRPCTimeout :: goerr where "ErrRPCTimeout = Sentinel ''rpc: request timed out''"
definition ErrRPCUnavailable :: goerr where "ErrRPCUnavailable = Sentinel ''rpc: service unavailable''"

text \<open>HTTP with POST requests and \<open>ctx.Err()\<close>.\<close>

record 'w rpc_env = "'w http_env" +
  hPost :: "ctx \<Rightarrow> duration \<Rightarrow> string \<Rightarrow> string \<Rightarrow> ('w, goerr + http_response) state"
  hCtxErr :: "ctx \<Rightarrow> ('w, goerr option) state"

record jsonRPCError =
  jeCode :: int
  jeMessage :: string

record jsonRPCResponse =
  jrResult :: "json option"
  jrError :: "jsonRPCError option"

definition dec_rpc_error :: "jsonRPCError option decoder" where
  "dec_rpc_error j a =
     (case j of JNull \<Rightarrow> Some None
      | _ \<Rightarrow> map_option Some (dec_struct (\<lambda>kvs e.
           case dec_field dec_int64 ''code'' kvs (jeCode e) of None \<Rightarrow> None
           | Some c \<Rightarrow> (case dec_field dec_string ''message'' kvs (jeMessage e) of None \<Rightarrow> None
           | Some m \<Rightarrow> Some \<lparr>jeCode = c, jeMessage = m\<rparr>))
         j (case a of None \<Rightarrow> \<lparr>jeCode = 0, jeMessage = []\<rparr> | Some e \<Rightarrow> e)))"

text \<open>The version and the id are decoded for their type only.\<close>

definition dec_rpc_response :: "jsonRPCResponse decoder" where
  "dec_rpc_response = dec_struct (\<lambda>kvs a.
     case dec_field dec_string ''jsonrpc'' kvs [] of None \<Rightarrow> None
     | Some _ \<Rightarrow> (case dec_field dec_int64 ''id'' kvs 0 of None \<Rightarrow> None
     | Some _ \<Rightarrow> (case dec_field dec_raw ''result'' kvs (jrResult a) of None \<Rightarrow> None
     | Some res \<Rightarrow> (case dec_field dec_rpc_error ''error'' kvs (jrError a) of None \<Rightarrow> None
     | Some err \<Rightarrow> Some \<lparr>jrResult = res, jrError = err\<rparr>))))"

text \<open>\<open>json.Marshal\<close> of the request; \<open>params\<close> is its JSON text, \<open>null\<close> for a nil slice.\<close>

definition rpcRequestBody :: "string \<Rightarrow> string \<Rightarrow> string" where
  "rpcRequestBody meth params =
     ''{'' @ [CHR 0x22] @ ''jsonrpc'' @ [CHR 0x22] @ '':'' @ [CHR 0x22] @ ''2.0'' @ [CHR 0x22] @ '','' @
     [CHR 0x22] @ ''method'' @ [CHR 0x22] @ '':'' @ [CHR 0x22] @ meth @ [CHR 0x22] @ '','' @
     [CHR 0x22] @ ''params'' @ [CHR 0x22] @ '':'' @ params @ '','' @ [CHR 0x22] @ ''id'' @ [CHR 0x22] @ '':1}''"

definition is_space :: "char \<Rightarrow> bool" where
  "is_space c \<longleftrightarrow> c = CHR '' '' \<or> (9 \<le> (of_char c :: nat) \<and> (of_char c :: nat) \<le> 13)"

definition TrimSpace :: "string \<Rightarrow> string" where
  "TrimSpace s = rev (dropWhile is_space (rev (dropWhile is_space s)))"

definition rpcTimeout :: duration where "rpcTimeout = 10 * Second"

definition callRPC ::
    "('w, 'x) rpc_env_scheme \<Rightarrow> ctx \<Rightarrow> string \<Rightarrow> string \<Rightarrow> string \<Rightarrow> ('w, goerr + json option) state" where
  "callRPC E c rpcURL meth params =
     (case hNewRequest E rpcURL of
        Inl err \<Rightarrow> ret (Inl (WrapErr ''create rpc request'' err))
      | Inr _ \<Rightarrow> do {
          r \<leftarrow> hPost E c rpcTimeout rpcURL (rpcRequestBody meth params);
          case r of
            Inl err \<Rightarrow> do {
              ce \<leftarrow> hCtxErr E c;
              ret (Inl (if ce \<noteq> None then WrapBoth ErrRPCTimeout err else WrapBoth ErrRPCUnavailable err)) }
          | Inr resp \<Rightarrow> ret (case hrBody resp of
              Inl err \<Rightarrow> Inl (WrapErr ''read rpc response'' err)
            | Inr body \<Rightarrow> (case unmarshal_raw dec_rpc_response (hbJson body) \<lparr>jrResult = None, jrError = None\<rparr> of
                None \<Rightarrow> Inl (WrapErr (''http '' @ Itoa (hrStatus resp) @ '': '' @ TrimSpace (take 80 (hbText body))) jsonErr)
              | Some rpcResp \<Rightarrow> (case jrError rpcResp of
                  Some e \<Rightarrow> Inl (RPCErr (jeCode e) (jeMessage e))
                | None \<Rightarrow> Inr (jrResult rpcResp)))) })"

definition transient_phrases :: "string list" where
  "transient_phrases = [''context deadline exceeded'', ''deadline exceeded'', ''work queue'', ''503'', ''500'',
     ''service unavailable'', ''-28'', ''loading'']"

definition isTransientRPCError :: "goerr \<Rightarrow> bool" where
  "isTransientRPCError err \<longleftrightarrow>
     errors_Is err ErrRPCTimeout \<or> errors_Is err ErrRPCUnavailable \<or>
     list_ex (Contains (ToLower (err_text err))) transient_phrases"

definition isContextTimeout :: "goerr \<Rightarrow> bool" where
  "isContextTimeout err \<longleftrightarrow>
     errors_Is err ErrRPCTimeout \<or>
     list_ex (Contains (err_text err)) [''context deadline exceeded'', ''context canceled'', ''deadline exceeded'']"

text \<open>
  The retry loop: \<open>left\<close> retries remain. When the context ends during a pause the last error
  is returned. The pause doubles in 64-bit arithmetic.
\<close>

fun rpc_retry ::
    "('w, 'x) rpc_env_scheme \<Rightarrow> ctx \<Rightarrow> string \<Rightarrow> string \<Rightarrow> string \<Rightarrow> duration \<Rightarrow> nat \<Rightarrow> ('w, goerr + json option) state" where
  "rpc_retry E c url meth params delay left = do {
     r \<leftarrow> callRPC E c url meth params;
     case r of
       Inr res \<Rightarrow> ret (Inr res)
     | Inl err \<Rightarrow>
         (case left of
            0 \<Rightarrow> ret (Inl err)
          | Suc left' \<Rightarrow>
              if \<not> isTransientRPCError err then ret (Inl err)
              else do {
                wr \<leftarrow> gWait E c delay;
                case wr of
                  Inl _ \<Rightarrow> ret (Inl err)
                | Inr _ \<Rightarrow> rpc_retry E c url meth params (wrap64 (delay * 2)) left' }) }"

text \<open>A negative number of retries makes no call and returns a nil result and a nil error.\<close>

definition callRPCWithRetry ::
    "('w, 'x) rpc_env_scheme \<Rightarrow> ctx \<Rightarrow> string \<Rightarrow> string \<Rightarrow> string \<Rightarrow> int \<Rightarrow> ('w, goerr + json option) state" where
  "callRPCWithRetry E c url meth params maxRetries =
     (if maxRetries < 0 then ret (Inr None)
      else rpc_retry E c url meth params (2 * Second) (nat maxRetries))"

subsection \<open>EVM health check\<close>

record evm_stage =
  egName :: string
  egBlock :: string

record evm_syncing =
  esCurrentBlock :: string
  esHighestBlock :: string
  esStages :: "evm_stage list"

definition dec_stage :: "evm_stage decoder" where
  "dec_stage = dec_struct (\<lambda>kvs a.
     case dec_field dec_string ''name'' kvs (egName a) of None \<Rightarrow> None
     | Some n \<Rightarrow> (case dec_field dec_string ''block'' kvs (egBlock a) of None \<Rightarrow> None
     | Some b \<Rightarrow> Some \<lparr>egName = n, egBlock = b\<rparr>))"

definition dec_syncing :: "evm_syncing decoder" where
  "dec_syncing = dec_struct (\<lambda>kvs a.
     case dec_field dec_string ''currentBlock'' kvs (esCurrentBlock a) of None \<Rightarrow> None
     | Some c \<Rightarrow> (case dec_field dec_string ''highestBlock'' kvs (esHighestBlock a) of None \<Rightarrow> None
     | Some h \<Rightarrow> (case dec_field (dec_list dec_stage \<lparr>egName = [], egBlock = []\<rparr>) ''stages'' kvs (esStages a) of None \<Rightarrow> None
     | Some st \<Rightarrow> Some \<lparr>esCurrentBlock = c, esHighestBlock = h, esStages = st\<rparr>)))"

definition polygonStages :: "string list" where
  "polygonStages = [''BorHeimdall'', ''Translation'']"

text \<open>The loop over the stages: \<open>current\<close> is -1 until a positive block is seen.\<close>

fun scan_stages :: "evm_stage list \<Rightarrow> int \<times> int \<Rightarrow> int \<times> int" where
  "scan_stages [] acc = acc"
| "scan_stages (s # ss) (current, highest) =
     (if egName s \<in> set polygonStages then scan_stages ss (current, highest)
      else (let n = hexToInt64 (egBlock s) in
        scan_stages ss
          ((if n > 0 \<and> (current < 0 \<or> n < current) then n else current),
           (if n > highest then n else highest))))"

definition stage_range :: "evm_stage list \<Rightarrow> int \<times> int" where
  "stage_range stages = (case scan_stages stages (-1, 0) of
     (current, highest) \<Rightarrow> (if current < 0 then 0 else current, highest))"

definition evmPeerCount :: "('w, 'x) rpc_env_scheme \<Rightarrow> ctx \<Rightarrow> string \<Rightarrow> ('w, int) state" where
  "evmPeerCount E c url = do {
     r \<leftarrow> callRPC E c url ''net_peerCount'' ''null'';
     ret (case r of Inl _ \<Rightarrow> 0 | Inr res \<Rightarrow>
        (case unmarshal_raw dec_string res [] of None \<Rightarrow> 0 | Some h \<Rightarrow> wrap32 (hexToInt64 h))) }"

text \<open>The status from the three answers.\<close>

definition evm_status :: "json option \<Rightarrow> int \<Rightarrow> int \<Rightarrow> goerr + SyncStatus" where
  "evm_status syncResult currentBlock peers =
     (if unmarshal_raw dec_bool syncResult False = Some False
      then Inr \<lparr>syIsSyncing = False, syCurrentBlock = currentBlock, syHighestBlock = currentBlock,
               syPeers = peers, syProgress = Fin 100, syStallExempt = False\<rparr>
      else (case unmarshal_raw dec_syncing syncResult \<lparr>esCurrentBlock = [], esHighestBlock = [], esStages = []\<rparr> of
          None \<Rightarrow> Inl (WrapErr ''parse eth_syncing object'' jsonErr)
        | Some o' \<Rightarrow>
            (let (current, highest) =
                   (if esStages o' \<noteq> [] then stage_range (esStages o')
                    else (currentBlock, hexToInt64 (esHighestBlock o')))
             in Inr \<lparr>syIsSyncing = True, syCurrentBlock = current, syHighestBlock = highest,
                     syPeers = peers, syProgress = progressFromBlocks current highest, syStallExempt = True\<rparr>)))"

definition evmHealthCheck :: "('w, 'x) rpc_env_scheme \<Rightarrow> ctx \<Rightarrow> string \<Rightarrow> ('w, goerr + SyncStatus) state" where
  "evmHealthCheck E c url = do {
     r \<leftarrow> callRPC E c url ''eth_syncing'' ''null'';
     case r of
       Inl err \<Rightarrow> ret (if isContextTimeout err
                        then Inr (zero_sync\<lparr>syIsSyncing := True, syStallExempt := True\<rparr>)
                        else Inl (WrapErr ''eth_syncing'' err))
     | Inr syncResult \<Rightarrow> do {
         br \<leftarrow> callRPC E c url ''eth_blockNumber'' ''null'';
         case br of
           Inl err \<Rightarrow> ret (Inl (WrapErr ''eth_blockNumber'' err))
         | Inr blockResult \<Rightarrow>
             (case unmarshal_raw dec_string blockResult [] of
                None \<Rightarrow> ret (Inl (WrapErr ''parse eth_blockNumber'' jsonErr))
              | Some blockHex \<Rightarrow> do {
                  peers \<leftarrow> evmPeerCount E c url;
                  ret (evm_status syncResult (hexToInt64 blockHex) peers) }) } }"

definition evmPorts :: "int \<Rightarrow> ContainerPort list" where
  "evmPorts p2p = [
     tcpPort ''rpc'' 8545,
     tcpPort ''ws'' 8546,
     tcpPort ''p2p-tcp'' p2p,
     udpPort ''p2p-udp'' p2p]"

definition gethMetricsArgs :: "int \<Rightarrow> string list" where
  "gethMetricsArgs port = [''--metrics'', ''--metrics.addr'', ''0.0.0.0'', ''--metrics.port'', Itoa port]"

subsection \<open>UTXO health check\<close>

record blockchainInfo =
  biBlocks :: int
  biHeaders :: int
  biVerificationProgress :: f64

definition dec_info :: "blockchainInfo decoder" where
  "dec_info = dec_struct (\<lambda>kvs a.
     case dec_field dec_int64 ''blocks'' kvs (biBlocks a) of None \<Rightarrow> None
     | Some b \<Rightarrow> (case dec_field dec_int64 ''headers'' kvs (biHeaders a) of None \<Rightarrow> None
     | Some h \<Rightarrow> (case dec_field dec_float ''verificationprogress'' kvs (biVerificationProgress a) of None \<Rightarrow> None
     | Some v \<Rightarrow> Some \<lparr>biBlocks = b, biHeaders = h, biVerificationProgress = v\<rparr>)))"

text \<open>An \<open>int32\<close> destination: a literal out of range is an error and leaves the value alone.\<close>

fun dec_int32 :: "int decoder" where
  "dec_int32 (JNum t) _ = (case ParseInt64 10 t of None \<Rightarrow> None
     | Some n \<Rightarrow> if - (2 ^ 31) \<le> n \<and> n < 2 ^ 31 then Some n else None)"
| "dec_int32 JNull a = Some a"
| "dec_int32 _ _ = None"

record utxoProtocolAdapter =
  uxRpcUserEnv :: string
  uxRpcPasswordEnv :: string
  uxConfigFile :: string
  uxStallPolicy :: string
  uxUseRetry :: bool

definition utxo_stallExempt :: "string \<Rightarrow> bool \<Rightarrow> f64 \<Rightarrow> bool" where
  "utxo_stallExempt policy isSyncing vp =
     (if policy = ''synced-exempt'' then \<not> isSyncing
      else if policy = ''ibd-exempt'' then isSyncing \<and> f_lt vp (Fin (95 / 100))
      else False)"

definition utxo_status :: "utxoProtocolAdapter \<Rightarrow> blockchainInfo \<Rightarrow> int \<Rightarrow> SyncStatus" where
  "utxo_status u info peers =
     (let isSyncing = f_lt (biVerificationProgress info) (Fin (999 / 1000)) in
      \<lparr>syIsSyncing = isSyncing, syCurrentBlock = biBlocks info, syHighestBlock = biHeaders info,
       syPeers = peers, syProgress = f_mul (biVerificationProgress info) (Fin 100),
       syStallExempt = utxo_stallExempt (uxStallPolicy u) isSyncing (biVerificationProgress info)\<rparr>)"

definition utxoHealthCheck ::
    "('w, 'x) rpc_env_scheme \<Rightarrow> ctx \<Rightarrow> string \<Rightarrow> utxoProtocolAdapter \<Rightarrow> ('w, goerr + SyncStatus) state" where
  "utxoHealthCheck E c url u = do {
     r \<leftarrow> (if uxUseRetry u then callRPCWithRetry E c url ''getblockchaininfo'' ''null'' 2
           else callRPC E c url ''getblockchaininfo'' ''null'');
     case r of
       Inl err \<Rightarrow> ret (if uxUseRetry u \<and> isTransientRPCError err
                        then Inr (zero_sync\<lparr>syIsSyncing := True, syStallExempt := True\<rparr>)
                        else Inl (WrapErr ''getblockchaininfo'' err))
     | Inr result \<Rightarrow>
         (case unmarshal_raw dec_info result \<lparr>biBlocks = 0, biHeaders = 0, biVerificationProgress = Fin 0\<rparr> of
            None \<Rightarrow> ret (Inl (WrapErr ''parse getblockchaininfo'' jsonErr))
          | Some info \<Rightarrow> do {
              pr \<leftarrow> callRPC E c url ''getconnectioncount'' ''null'';
              let peers = (case pr of Inl _ \<Rightarrow> 0 | Inr res \<Rightarrow>
                 (case unmarshal_raw dec_int32 res 0 of None \<Rightarrow> 0 | Some p \<Rightarrow> p));
              ret (Inr (utxo_status u info peers)) }) }"

record RPCCredentials =
  rcUser :: string
  rcPassword :: string
  rcSalt :: string

definition creds_IsZero :: "RPCCredentials \<Rightarrow> bool" where
  "creds_IsZero c \<longleftrightarrow> rcUser c = [] \<and> rcPassword c = []"

definition isSpaceOrControl :: "char \<Rightarrow> bool" where
  "isSpaceOrControl c \<longleftrightarrow> (of_char c :: nat) \<le> 32 \<or> (of_char c :: nat) = 127"

text \<open>\<open>hex.DecodeString\<close> succeeds on an even number of hexadecimal digits.\<close>

definition hex_decodable :: "string \<Rightarrow> bool" where
  "hex_decodable s \<longleftrightarrow> even (length s) \<and> list_all (is_digit 16) s"

definition creds_Validate :: "RPCCredentials \<Rightarrow> goerr + unit" where
  "creds_Validate c =
     (if rcUser c = [] \<or> rcPassword c = [] then Inl (GoErr ''rpc user and password must both be set'')
      else if list_ex (\<lambda>ch. ch = CHR '':'' \<or> ch = CHR ''$'' \<or> isSpaceOrControl ch) (rcUser c)
      then Inl (GoErr ''rpc user must not contain ':', '$', whitespace or control characters'')
      else if rcSalt c \<noteq> [] \<and> \<not> hex_decodable (rcSalt c)
      then Inl (WrapErr ''rpc auth salt must be hex'' (GoErr ''encoding/hex: invalid input''))
      else Inr ())"

text \<open>
  \<open>RPCAuth\<close>; the hash functions \<open>sha256\<close> and \<open>hmac\<close>, hexadecimal digests of their inputs,
  are parameters.
\<close>

definition RPCAuth :: "(string \<Rightarrow> string) \<Rightarrow> (string \<Rightarrow> string \<Rightarrow> string) \<Rightarrow> RPCCredentials \<Rightarrow> string" where
  "RPCAuth sha hmac c =
     (let salt = (if rcSalt c = [] then take 32 (sha (rcUser c @ rcPassword c)) else rcSalt c)
      in rcUser c @ '':'' @ salt @ ''$'' @ hmac salt (rcPassword c))"

subsection \<open>Hexadecimal quantities\<close>

lemma HasPrefix_take: "HasPrefix s p \<longleftrightarrow> length p \<le> length s \<and> take (length p) s = p"
  by (auto simp: HasPrefix_iff) (metis append_take_drop_id)

lemma Sscanf_hex_prefix: "Sscanf_hex ''0x'' 0 = 0"
  by code_simp

text \<open>
  The hexadecimal parser of the controller and the one of the adapters agree on every
  string, although they strip the \<open>0x\<close> prefix under different conditions.
\<close>

lemma hexToInt64_agree: "controller_hexToInt64 = hexToInt64"
proof
  fix s :: string
  consider "length s > 2" | "s = ''0x''" | "length s \<le> 2" "s \<noteq> ''0x''" by fastforce
  then show "controller_hexToInt64 s = hexToInt64 s"
  proof cases
    case 1
    then show ?thesis
      by (auto simp: controller_hexToInt64_def hexToInt64_def TrimPrefix_def HasPrefix_take Let_def numeral_2_eq_2)
  next
    case 2
    then show ?thesis
      by (simp add: controller_hexToInt64_def hexToInt64_def TrimPrefix_def Let_def Sscanf_hex_prefix)
  next
    case 3
    then have "\<not> HasPrefix s ''0x''" by (auto simp: HasPrefix_take)
    with 3 show ?thesis
      by (simp add: controller_hexToInt64_def hexToInt64_def TrimPrefix_def Let_def)
  qed
qed

lemma hex_digit_not_sign: "is_digit 16 c \<Longrightarrow> c \<noteq> CHR ''-'' \<and> c \<noteq> CHR ''+'' \<and> c \<noteq> CHR '' '' \<and> c \<noteq> CHR 0x09"
  by (auto simp: is_digit_def digit_val_def)

lemma Sscanf_hex_digits:
  assumes "in_int64 (int n)"
  shows "Sscanf_hex (nat_digits 16 n) d = int n"
proof -
  have ds: "list_all (is_digit 16) (nat_digits 16 n)" by (rule nat_digits_are_digits) simp_all
  obtain c r where cr: "nat_digits 16 n = c # r"
    using nat_digits_nonempty by (metis neq_Nil_conv)
  with ds have c: "is_digit 16 c" by simp
  have whole: "takeWhile (is_digit 16) (nat_digits 16 n) = nat_digits 16 n"
    using ds by (simp add: list_all_iff)
  have parse: "ParseInt64 16 (nat_digits 16 n) = Some (int n)"
    using assms ds cr c hex_digit_not_sign [OF c] nat_digits_roundtrip [of 16 n]
    by (simp add: ParseInt64_def)
  show ?thesis
    using hex_digit_not_sign [OF c] whole parse cr by (simp add: Sscanf_hex_def)
qed

text \<open>
  A quantity printed the way Ethereum nodes do, \<open>0x\<close> and lower-case hexadecimal digits, is
  read back exactly, for every value of a signed 64-bit integer that is not negative.
\<close>

theorem hexToInt64_roundtrip:
  assumes "in_int64 (int n)"
  shows "hexToInt64 (''0x'' @ nat_digits 16 n) = int n"
  using Sscanf_hex_digits [OF assms, of 0] by (simp add: hexToInt64_def TrimPrefix_def Let_def)

theorem hexToInt64_roundtrip_witness: "hexToInt64 (''0x'' @ nat_digits 16 20000000) = 20000000"
  using hexToInt64_roundtrip [of 20000000] by (simp add: in_int64_def)

subsection \<open>Progress\<close>

text \<open>
  Sync progress is always a finite percentage between 0 and 100, and it is 100 exactly
  when the node has reached a known highest block.
\<close>

theorem progressFromBlocks_percentage:
  "case progressFromBlocks current highest of
     Fin q \<Rightarrow> 0 \<le> q \<and> q \<le> 100 \<and> (q = 100 \<longleftrightarrow> 0 < highest \<and> highest \<le> current)
   | _ \<Rightarrow> False"
proof (cases "0 < current \<and> current < highest")
  case True
  then have "rat_of_int current < rat_of_int highest" "0 < rat_of_int current" by simp_all
  then have "rat_of_int current / rat_of_int highest < 1" "0 < rat_of_int current / rat_of_int highest"
    by simp_all
  moreover have "progressFromBlocks current highest = Fin (rat_of_int current / rat_of_int highest * 100)"
    using True by (simp add: progressFromBlocks_def f_of_int_def)
  ultimately show ?thesis
    using True by (simp del: times_divide_eq_left)
next
  case False
  then show ?thesis by (auto simp: progressFromBlocks_def)
qed

subsection \<open>Erigon stages\<close>

definition stage_blocks :: "evm_stage list \<Rightarrow> int list" where
  "stage_blocks ss = map (\<lambda>s. hexToInt64 (egBlock s)) (filter (\<lambda>s. egName s \<notin> set polygonStages) ss)"

lemma scan_stages_fold:
  "scan_stages ss (cur, high) =
     (foldl (\<lambda>c n. if n > 0 \<and> (c < 0 \<or> n < c) then n else c) cur (stage_blocks ss), foldl max high (stage_blocks ss))"
  by (induction ss "(cur, high)" arbitrary: cur high rule: scan_stages.induct)
     (auto simp: stage_blocks_def Let_def max_def)

lemma foldl_min_positive:
  fixes cur :: int
  assumes "r = foldl (\<lambda>c n. if n > 0 \<and> (c < 0 \<or> n < c) then n else c) cur ns" "cur \<noteq> 0"
  shows "(r = cur \<or> r \<in> set ns \<and> 0 < r) \<and> (0 < cur \<longrightarrow> 0 < r \<and> r \<le> cur) \<and> (\<forall>n\<in>set ns. 0 < n \<longrightarrow> 0 < r \<and> r \<le> n)"
  using assms
proof (induction ns arbitrary: cur)
  case (Cons n ns)
  let ?cur = "if n > 0 \<and> (cur < 0 \<or> n < cur) then n else cur"
  have "r = foldl (\<lambda>c n. if n > 0 \<and> (c < 0 \<or> n < c) then n else c) ?cur ns" "?cur \<noteq> 0"
    using Cons.prems by auto
  from Cons.IH [OF this] Cons.prems(2) show ?case by (auto split: if_splits)
qed simp

lemma foldl_max_bounds: "(foldl max h ns = h \<or> foldl max h ns \<in> set ns) \<and> h \<le> foldl max h ns \<and> (\<forall>n\<in>set ns. n \<le> foldl max h ns)"
  for h :: int
  by (induction ns arbitrary: h) (force simp: max_def split: if_splits)+

text \<open>
  For a client that reports sync stages, the current block is the least positive block of
  the counted stages (the bottleneck), zero when there is none, and the highest block is the
  greatest of them; the current block never exceeds the highest.
\<close>

theorem stage_range_bottleneck:
  "case stage_range ss of (current, highest) \<Rightarrow>
     (let blocks = stage_blocks ss; positive = filter (\<lambda>n. 0 < n) blocks in
      current = (if positive = [] then 0 else Min (set positive)) \<and>
      highest = Max (set (0 # blocks)) \<and> 0 \<le> current \<and> current \<le> highest)"
proof -
  let ?ns = "stage_blocks ss"
  obtain r where r: "r = foldl (\<lambda>c n. if n > 0 \<and> (c < 0 \<or> n < c) then n else c) (-1) ?ns" by simp
  note min = foldl_min_positive [OF r, simplified] and max = foldl_max_bounds [of 0 ?ns]
  have high: "foldl max 0 ?ns = Max (set (0 # ?ns))"
    using max by (intro Max_eqI [symmetric]) auto
  have cur: "(if r < 0 then 0 else r) = (if filter (\<lambda>n. 0 < n) ?ns = [] then 0 else Min (set (filter (\<lambda>n. 0 < n) ?ns)))"
  proof (cases "filter (\<lambda>n. 0 < n) ?ns = []")
    case True
    then have "\<forall>n\<in>set ?ns. \<not> 0 < n" by (simp add: filter_empty_conv)
    with min have "r = -1" by auto
    with True show ?thesis by simp
  next
    case False
    then obtain n where "n \<in> set ?ns" "0 < n" by (auto simp: filter_empty_conv)
    with min have "0 < r" "r \<in> set ?ns" by auto
    moreover have "Min (set (filter (\<lambda>n. 0 < n) ?ns)) = r"
      using min \<open>0 < r\<close> \<open>r \<in> set ?ns\<close> by (intro Min_eqI) auto
    ultimately show ?thesis using False by simp
  qed
  have bound: "(if r < 0 then 0 else r) \<le> foldl max 0 ?ns"
    using min max by auto
  have pair: "stage_range ss = (if r < 0 then 0 else r, foldl max 0 ?ns)"
    by (simp add: stage_range_def scan_stages_fold r)
  show ?thesis
    unfolding pair prod.case Let_def cur [symmetric] high [symmetric] using bound by simp
qed

subsection \<open>Retries\<close>

text \<open>Any environment with the number of RPC requests sent.\<close>

definition rpc_counting :: "'w rpc_env \<Rightarrow> ('w \<times> nat) rpc_env" where
  "rpc_counting E = \<lparr>
     gNow = lift_log (gNow E),
     gWait = (\<lambda>c d. lift_log (gWait E c d)),
     hParseURL = hParseURL E,
     hNewRequest = hNewRequest E,
     hDo = (\<lambda>c d u. lift_log (hDo E c d u)),
     hPost = (\<lambda>c d u b. State (\<lambda>(w, n). case run_state (hPost E c d u b) w of (r, w') \<Rightarrow> (r, (w', Suc n)))),
     hCtxErr = (\<lambda>c. lift_log (hCtxErr E c))\<rparr>"

lemma rpc_counting_simps [simp]:
  "gWait (rpc_counting E) c d = lift_log (gWait E c d)"
  "hNewRequest (rpc_counting E) = hNewRequest E"
  "hCtxErr (rpc_counting E) c = lift_log (hCtxErr E c)"
  "wp (hPost (rpc_counting E) c d u b) Q (w, n) = wp (hPost E c d u b) (\<lambda>r w'. Q r (w', Suc n)) w"
  by (simp_all add: rpc_counting_def wp_def split: prod.splits)

lemmas rpc_any =
  wp_any [where m = "gWait E c d" for E c d] wp_any [where m = "hPost E c d u b" for E c d u b]
  wp_any [where m = "hCtxErr E c" for E c]

lemma callRPC_one_request:
  assumes "\<And>r w' m. m \<le> Suc n \<Longrightarrow> Q r (w', m)"
  shows "wp (callRPC (rpc_counting E) c url meth params) Q (w, n)"
  unfolding callRPC_def
  using assms by (auto intro!: rpc_any split: sum.splits)

declare rpc_retry.simps [simp del]

lemma rpc_retry_requests:
  "wp (rpc_retry (rpc_counting E) c url meth params delay left) (\<lambda>_ (_, sent). sent \<le> n + Suc left) (w, n)"
proof (induction left arbitrary: delay w n)
  case 0
  show ?case
    by (subst rpc_retry.simps) (auto intro!: callRPC_one_request split: sum.splits)
next
  case (Suc left)
  have IH: "wp (rpc_retry (rpc_counting E) c url meth params d left) (\<lambda>_ (_, sent). sent \<le> Suc (Suc (n + left))) (w', m)"
    if "m \<le> Suc n" for d w' m
    by (rule wp_mono [OF Suc.IH]) (use that in auto)
  show ?case
    by (subst rpc_retry.simps) (auto intro!: callRPC_one_request IH rpc_any split: sum.splits)
qed

text \<open>
  A retried RPC call sends at most one request more than the number of retries, whatever
  the node answers; with a negative number it sends none.
\<close>

theorem callRPCWithRetry_bounded:
  "wp (callRPCWithRetry (rpc_counting E) c url meth params maxRetries)
     (\<lambda>_ (_, sent). int sent \<le> max 0 (maxRetries + 1)) (w, 0)"
proof (cases "maxRetries < 0")
  case False
  have "wp (rpc_retry (rpc_counting E) c url meth params (2 * Second) (nat maxRetries))
      (\<lambda>_ (_, sent). sent \<le> 0 + Suc (nat maxRetries)) (w, 0)"
    by (rule rpc_retry_requests)
  with False show ?thesis
    by (auto simp: callRPCWithRetry_def elim!: wp_mono)
qed (simp add: callRPCWithRetry_def)

subsection \<open>Credentials\<close>

text \<open>The fields of an rpcauth value: bitcoind splits it at colons and dollar signs.\<close>

definition rpcauth_fields :: "string \<Rightarrow> string list" where
  "rpcauth_fields s = Split (map (\<lambda>c. if c = CHR ''$'' then CHR '':'' else c) s) (CHR '':'')"

lemma Split_plain: "c \<notin> set w \<Longrightarrow> Split w c = [w]"
  by (induction w) auto

lemma Split_append: "c \<notin> set w \<Longrightarrow> Split (w @ c # s) c = w # Split s c"
  by (induction w) auto

lemma rpcauth_fields_join:
  assumes "CHR '':'' \<notin> set u \<union> set v \<union> set w" "CHR ''$'' \<notin> set u \<union> set v \<union> set w"
  shows "rpcauth_fields (u @ '':'' @ v @ ''$'' @ w) = [u, v, w]"
proof -
  have "map (\<lambda>c. if c = CHR ''$'' then CHR '':'' else c) x = x" if "CHR ''$'' \<notin> set x" for x
    using that by (induction x) auto
  with assms show ?thesis by (simp add: rpcauth_fields_def Split_plain Split_append)
qed

text \<open>
  C36: A validated credential cannot inject lines or fields into the node configuration: with
  digests that are plain hexadecimal text, the rpcauth value contains no space or control
  character, and split at every colon and dollar sign it has exactly three fields, the user
  name, a salt of hexadecimal digits and the digest of the password under that salt.
\<close>

theorem RPCAuth_injection_free:
  assumes "creds_Validate c = Inr ()"
    and "\<And>x. list_all (is_digit 16) (sha x)" "\<And>k x. list_all (is_digit 16) (hmac k x)"
  shows "\<not> list_ex isSpaceOrControl (RPCAuth sha hmac c) \<and>
         (\<exists>salt. rpcauth_fields (RPCAuth sha hmac c) = [rcUser c, salt, hmac salt (rcPassword c)] \<and> list_all (is_digit 16) salt)"
proof -
  define salt where "salt = (if rcSalt c = [] then take 32 (sha (rcUser c @ rcPassword c)) else rcSalt c)"
  have user: "\<not> list_ex isSpaceOrControl (rcUser c)" "CHR '':'' \<notin> set (rcUser c)" "CHR ''$'' \<notin> set (rcUser c)"
    and "rcSalt c = [] \<or> list_all (is_digit 16) (rcSalt c)"
    using assms(1) by (auto simp: creds_Validate_def hex_decodable_def list_ex_iff split: if_splits)
  with assms(2) have salt: "list_all (is_digit 16) salt" by (auto simp: salt_def list_all_iff dest!: in_set_takeD)
  have "\<not> isSpaceOrControl ch" "ch \<noteq> CHR '':''" "ch \<noteq> CHR ''$''" if "is_digit 16 ch" for ch
    using that by (auto simp: isSpaceOrControl_def is_digit_def digit_val_def Let_def split: if_splits)
  then have hex: "\<not> list_ex isSpaceOrControl s \<and> CHR '':'' \<notin> set s \<and> CHR ''$'' \<notin> set s" if "list_all (is_digit 16) s" for s
    using that by (auto simp: list_all_iff list_ex_iff)
  have auth: "RPCAuth sha hmac c = rcUser c @ '':'' @ salt @ ''$'' @ hmac salt (rcPassword c)"
    by (simp add: RPCAuth_def Let_def salt_def)
  have "\<not> isSpaceOrControl (CHR '':'')" "\<not> isSpaceOrControl (CHR ''$'')" by (simp_all add: isSpaceOrControl_def)
  then have "\<not> list_ex isSpaceOrControl (RPCAuth sha hmac c)" using user(1) hex [OF salt] hex [OF assms(3)] by (simp add: auth)
  moreover have "rpcauth_fields (RPCAuth sha hmac c) = [rcUser c, salt, hmac salt (rcPassword c)]"
    unfolding auth by (rule rpcauth_fields_join) (use user hex [OF salt] hex [OF assms(3)] in auto)
  ultimately show ?thesis using salt by blast
qed

theorem RPCAuth_injection_free_witness:
  "let c = \<lparr>rcUser = ''rpcuser'', rcPassword = ''p w'', rcSalt = []\<rparr>; zeros = replicate 64 (CHR ''0'') in
   creds_Validate c = Inr () \<and> \<not> list_ex isSpaceOrControl (RPCAuth (\<lambda>_. zeros) (\<lambda>_ _. zeros) c) \<and>
   (\<exists>salt. rpcauth_fields (RPCAuth (\<lambda>_. zeros) (\<lambda>_ _. zeros) c) = [''rpcuser'', salt, zeros])"
proof -
  let ?c = "\<lparr>rcUser = ''rpcuser'', rcPassword = ''p w'', rcSalt = []\<rparr>"
  have valid: "creds_Validate ?c = Inr ()"
    by code_simp
  have "list_all (is_digit 16) (replicate 64 (CHR ''0''))"
    by (simp add: list_all_length is_digit_def digit_val_def)
  from RPCAuth_injection_free [OF valid this this] valid show ?thesis by auto
qed

end
