(* ===== verification/Adapter.thy ===== *)
theory Adapter
  imports Rpc
begin

text \<open>
  \<open>internal/adapters/interface.go\<close> and \<open>protocol_base.go\<close>: what the controllers know of a
  chain. A \<open>ChainAdapter\<close> is the record of its methods; an optional interface is a field of
  option type, \<open>None\<close> when the type assertion fails. The per-chain adapters are values of
  this record; the controllers are modelled for every value of it.
\<close>

subsection \<open>The interfaces\<close>

record ResourceDefaults =
  rdCPURequest :: quantity
  rdMemoryRequest :: quantity
  rdStorage :: quantity

record ChainVersionPolicy =
  vpRegistry :: string
  vpRepository :: string
  vpTagPattern :: string
  vpTagPrefix :: string

record 'w RPCCredentialed =
  rcEnvNames :: "string \<times> string"
  rcConfigTemplate :: "ChainInstanceSpec \<Rightarrow> RPCCredentials \<Rightarrow> goerr + string \<times> string"
  rcHealthCheck :: "ctx \<Rightarrow> string \<Rightarrow> RPCCredentials \<Rightarrow> ('w, goerr + SyncStatus) state"
  rcSidecars :: "ChainInstanceSpec \<Rightarrow> string \<Rightarrow> Container list"

record 'w ChainAdapter =
  adDefaultImage :: "string \<Rightarrow> string"
  adConfigTemplate :: "ChainInstanceSpec \<Rightarrow> goerr + string \<times> string"
  adHealthCheck :: "ctx \<Rightarrow> string \<Rightarrow> ('w, goerr + SyncStatus) state"
  adLivenessProbe :: "ChainInstanceSpec \<Rightarrow> Probe option"
  adNodeSelector :: "NodeGroup \<Rightarrow> strmap"
  adContainerPorts :: "ChainInstanceSpec \<Rightarrow> ContainerPort list"
  adContainerArgs :: "(ChainInstanceSpec \<Rightarrow> string list) option"
  adContainerCommand :: "(ChainInstanceSpec \<Rightarrow> string list) option"
  adContainerEnv :: "(ChainInstanceSpec \<Rightarrow> EnvVar list) option"
  adNodePorts :: "(ChainInstanceSpec \<Rightarrow> string \<Rightarrow> (int \<times> int) list) option"
  adStartupProbe :: "(ChainInstanceSpec \<Rightarrow> Probe option) option"
  adInitContainers :: "(ChainInstanceSpec \<Rightarrow> Container list) option"
  adSidecars :: "(ChainInstanceSpec \<Rightarrow> Container list) option"
  adVersionPolicy :: "ChainVersionPolicy option"
  adDefaultResources :: "ResourceDefaults option"
  adClientVersionPolicies :: "(string \<times> ChainVersionPolicy) list option"
  adRPCCredentialed :: "'w RPCCredentialed option"

subsection \<open>The registry\<close>

text \<open>The package-level map; its mutex makes each operation atomic.\<close>

type_synonym 'w registry = "(Chain \<times> 'w ChainAdapter) list"

definition Register :: "Chain \<Rightarrow> 'w ChainAdapter \<Rightarrow> 'w registry \<Rightarrow> 'w registry" where
  "Register chain adapter registry = AList.update chain adapter registry"

definition Get :: "'w registry \<Rightarrow> Chain \<Rightarrow> 'w ChainAdapter option" where
  "Get registry chain = map_of registry chain"

definition MustGet :: "'w registry \<Rightarrow> Chain \<Rightarrow> 'w ChainAdapter outcome" where
  "MustGet registry chain = (case Get registry chain of
     None \<Rightarrow> Panic (''adapters: no adapter registered for chain '' @ [CHR 0x22] @ chain @ [CHR 0x22])
   | Some a \<Rightarrow> Ret a)"

definition All :: "'w registry \<Rightarrow> Chain \<rightharpoonup> 'w ChainAdapter" where
  "All registry = map_of registry"

subsection \<open>Defaults shared by the adapters\<close>

definition DefaultNodeSelector :: "NodeGroup \<Rightarrow> strmap" where
  "DefaultNodeSelector g =
     (if g = NodeGroupStorage then [(''workload-type'', ''storage'')]
      else if g = NodeGroupBlockchain then [(''node-role.kubernetes.io/blockchain'', ''true'')]
      else [])"

definition DefaultLivenessProbe :: "int \<Rightarrow> Probe" where
  "DefaultLivenessProbe port = \<lparr>pbHandler = TCPSocket port, pbInitialDelay = 60, pbPeriod = 30,
     pbTimeout = 10, pbFailureThreshold = 3\<rparr>"

definition tcpProbe :: "int \<Rightarrow> int \<Rightarrow> int \<Rightarrow> int \<Rightarrow> int \<Rightarrow> Probe" where
  "tcpProbe port initialDelay period timeout failureThreshold =
     \<lparr>pbHandler = TCPSocket port, pbInitialDelay = initialDelay, pbPeriod = period,
      pbTimeout = timeout, pbFailureThreshold = failureThreshold\<rparr>"

definition httpProbe :: "string \<Rightarrow> int \<Rightarrow> int \<Rightarrow> int \<Rightarrow> int \<Rightarrow> int \<Rightarrow> Probe" where
  "httpProbe path port initialDelay period timeout failureThreshold =
     \<lparr>pbHandler = HTTPGet path port, pbInitialDelay = initialDelay, pbPeriod = period,
      pbTimeout = timeout, pbFailureThreshold = failureThreshold\<rparr>"

record protocolAdapter =
  paLivenessPort :: int

definition protocolAdapter_NodeSelector :: "protocolAdapter \<Rightarrow> NodeGroup \<Rightarrow> strmap" where
  "protocolAdapter_NodeSelector b g = DefaultNodeSelector g"

definition protocolAdapter_LivenessProbe :: "protocolAdapter \<Rightarrow> ChainInstanceSpec \<Rightarrow> Probe" where
  "protocolAdapter_LivenessProbe b spec = tcpProbe (paLivenessPort b) 30 30 10 5"

subsection \<open>Bitcoin-family adapters\<close>

record utxoConfigData =
  udIsTestnet :: bool
  udTestnet :: string
  udRPCAuth :: string

text \<open>
  \<open>ConfigTemplateWithCredentials\<close>: the template is text of the concrete adapter, so its
  execution is an argument; the digests are the hexadecimal SHA-256 and HMAC of \<^const>\<open>RPCAuth\<close>.
\<close>

definition utxoConfigData_of ::
    "(string \<Rightarrow> string) \<Rightarrow> (string \<Rightarrow> string \<Rightarrow> string) \<Rightarrow> ChainInstanceSpec \<Rightarrow> RPCCredentials \<Rightarrow> goerr + utxoConfigData" where
  "utxoConfigData_of sha hmac spec creds =
     (let test = (spNetwork spec = NetworkTestnet);
          d = \<lparr>udIsTestnet = test, udTestnet = (if test then ''1'' else ''0''), udRPCAuth = []\<rparr>
      in if creds_IsZero creds then Inr d
         else (case creds_Validate creds of
             Inl err \<Rightarrow> Inl err
           | Inr _ \<Rightarrow> Inr (d\<lparr>udRPCAuth := RPCAuth sha hmac creds\<rparr>)))"

definition utxo_ConfigTemplateWithCredentials ::
    "(string \<Rightarrow> string) \<Rightarrow> (string \<Rightarrow> string \<Rightarrow> string) \<Rightarrow> string \<Rightarrow> (utxoConfigData \<Rightarrow> goerr + string) \<Rightarrow>
     ChainInstanceSpec \<Rightarrow> RPCCredentials \<Rightarrow> goerr + string \<times> string" where
  "utxo_ConfigTemplateWithCredentials sha hmac configFile configTpl spec creds =
     (case utxoConfigData_of sha hmac spec creds of
        Inl err \<Rightarrow> Inl err
      | Inr data \<Rightarrow> (case configTpl data of Inl err \<Rightarrow> Inl err | Inr content \<Rightarrow> Inr (configFile, content)))"

definition utxoExporterMetricsPort :: int where "utxoExporterMetricsPort = 9339"

abbreviation (input) RPCSecretUserKey :: string where "RPCSecretUserKey \<equiv> ''rpc-user''"
abbreviation (input) RPCSecretPasswordKey :: string where "RPCSecretPasswordKey \<equiv> ''rpc-password''"
abbreviation (input) RPCSecretSaltKey :: string where "RPCSecretSaltKey \<equiv> ''rpc-auth-salt''"

definition utxoExporterSidecar :: "int \<Rightarrow> string \<Rightarrow> Container" where
  "utxoExporterSidecar rpcPort secretName = zero_container\<lparr>
     ctName := ''metrics-exporter'',
     ctImage := ''jvstein/bitcoin-prometheus-exporter:v0.8.0'',
     ctPorts := [tcpPort ''metrics'' utxoExporterMetricsPort],
     ctEnv := [EnvValue ''METRICS_PORT'' (Itoa utxoExporterMetricsPort),
               EnvValue ''BITCOIN_RPC_HOST'' ''localhost'',
               EnvValue ''BITCOIN_RPC_PORT'' (Itoa rpcPort),
               EnvSecret ''BITCOIN_RPC_USER'' secretName RPCSecretUserKey False,
               EnvSecret ''BITCOIN_RPC_PASSWORD'' secretName RPCSecretPasswordKey False]\<rparr>"

end
