(* ===== verification/Controller_Helpers.thy ===== *)
theory Controller_Helpers
  imports Adapter Kube
begin

text \<open>
  \<open>internal/controller/helpers.go\<close>: thresholds, labels, status conditions, the builders of the
  main container, and the record of client requests the ChainInstance controller adds to
  those of theory \<open>Kube\<close>.
\<close>

subsection \<open>Thresholds\<close>

definition lagThreshold :: "ChainInstance \<Rightarrow> int" where
  "lagThreshold node = (case hsBlockLagThreshold (spHealth (ciSpec node)) of
     Some n \<Rightarrow> n
   | None \<Rightarrow>
       let chain = spChain (ciSpec node) in
       if chain = ChainBitcoin \<or> chain = ChainLitecoin \<or> chain = ChainDash then 2
       else if chain = ChainTRON then 200
       else 30)"

definition chainBlockTime :: "Chain \<Rightarrow> duration" where
  "chainBlockTime chain =
     (if chain = ChainBitcoin then 10 * Minute
      else if chain = ChainLitecoin then 150 * Second
      else if chain = ChainDash then 156 * Second
      else if chain = ChainEthereum \<or> chain = ChainEthereumArchive then 12 * Second
      else if chain = ChainBSC then 3 * Second
      else if chain = ChainTRON then 3 * Second
      else if chain = ChainPolygon then 2 * Second
      else if chain = ChainAvalanche then 2 * Second
      else if chain = ChainXRP then 4 * Second
      else if chain = ChainStellar then 5 * Second
      else if chain = ChainTON then 5 * Second
      else if chain = ChainNear then 1 * Second
      else if chain = ChainSui then 1 * Second
      else if chain = ChainCosmos then 7 * Second
      else if chain = ChainAptos then 1 * Second
      else if chain = ChainCardano then 20 * Second
      else 12 * Second)"

definition syncStallThreshold :: "Chain \<Rightarrow> duration" where
  "syncStallThreshold chain =
     (let d = 10 * chainBlockTime chain in if d < 5 * Minute then 5 * Minute else d)"

subsection \<open>Labels\<close>

definition coreLabels :: "ChainInstance \<Rightarrow> strmap" where
  "coreLabels node = [(''app'', nodeName node), (''chain'', spChain (ciSpec node))]"

definition selectorLabels :: "ChainInstance \<Rightarrow> strmap" where
  "selectorLabels node = [(''app'', nodeName node)]"

subsection \<open>Conditions\<close>

fun set_condition ::
    "string \<Rightarrow> ConditionStatus \<Rightarrow> string \<Rightarrow> string \<Rightarrow> time \<Rightarrow> int \<Rightarrow> Condition list \<Rightarrow> Condition list" where
  "set_condition t s r m now gen [] =
     [\<lparr>cdType = t, cdStatus = s, cdReason = r, cdMessage = m, cdTransition = now, cdObserved = gen\<rparr>]"
| "set_condition t s r m now gen (c # cs) =
     (if cdType c \<noteq> t then c # set_condition t s r m now gen cs
      else if cdStatus c = s \<and> cdReason c = r \<and> cdMessage c = m then c # cs
      else \<lparr>cdType = t, cdStatus = s, cdReason = r, cdMessage = m,
             cdTransition = (if cdStatus c = s then cdTransition c else now), cdObserved = gen\<rparr> # cs)"

definition setCondition ::
    "string \<Rightarrow> ConditionStatus \<Rightarrow> string \<Rightarrow> string \<Rightarrow> time \<Rightarrow> ChainInstance \<Rightarrow> ChainInstance" where
  "setCondition t s r m now node =
     upd_status (\<lambda>st. st\<lparr>csConditions := set_condition t s r m now (mGeneration (ciMeta node)) (csConditions st)\<rparr>) node"

definition findCondition :: "Condition list \<Rightarrow> string \<Rightarrow> Condition option" where
  "findCondition conditions t = find (\<lambda>c. cdType c = t) conditions"

subsection \<open>The main container\<close>

definition resolveContainerImage :: "ChainInstance \<Rightarrow> 'w ChainAdapter \<Rightarrow> string" where
  "resolveContainerImage node adapter = (case spImage (ciSpec node) of
     Some im \<Rightarrow> if imRepository im \<noteq> [] then imRepository im @ '':'' @ imTag im
                else adDefaultImage adapter (spClient (ciSpec node))
   | None \<Rightarrow> adDefaultImage adapter (spClient (ciSpec node)))"

definition containerCommand :: "'w ChainAdapter \<Rightarrow> ChainInstance \<Rightarrow> string list" where
  "containerCommand adapter node = (case adContainerCommand adapter of
     Some cp \<Rightarrow> cp (ciSpec node) | None \<Rightarrow> [])"

definition containerArgs :: "'w ChainAdapter \<Rightarrow> ChainInstance \<Rightarrow> string list" where
  "containerArgs adapter node =
     (case adContainerArgs adapter of Some ap \<Rightarrow> ap (ciSpec node) | None \<Rightarrow> []) @ spExtraArgs (ciSpec node)"

definition rpcSecretName :: "ChainInstance \<Rightarrow> string" where
  "rpcSecretName node = nodeName node @ ''-rpc-credentials''"

definition appendRPCCredentials :: "EnvVar list \<Rightarrow> ChainInstance \<Rightarrow> 'w ChainAdapter \<Rightarrow> EnvVar list" where
  "appendRPCCredentials envs node adapter = (case adRPCCredentialed adapter of
     None \<Rightarrow> envs
   | Some rc \<Rightarrow> (case rcEnvNames rc of (userEnv, passwordEnv) \<Rightarrow>
       envs @ [EnvSecret userEnv (rpcSecretName node) RPCSecretUserKey True,
               EnvSecret passwordEnv (rpcSecretName node) RPCSecretPasswordKey True]))"

definition appendJVMFlags :: "EnvVar list \<Rightarrow> ChainInstance \<Rightarrow> EnvVar list" where
  "appendJVMFlags envs node = (case map_of (nodeAnnotations node) ''chains.chainplane.io/jvm-flags'' of
     Some flags \<Rightarrow> if flags \<noteq> [] then envs @ [EnvValue ''JAVA_OPTS'' flags] else envs
   | None \<Rightarrow> envs)"

text \<open>\<open>containerEnv\<close> looks the adapter up again; a failed type assertion on nil adds nothing.\<close>

definition containerEnv :: "'w registry \<Rightarrow> ChainInstance \<Rightarrow> EnvVar list" where
  "containerEnv registry node = (case Get registry (spChain (ciSpec node)) of
     None \<Rightarrow> appendJVMFlags (spExtraEnv (ciSpec node)) node
   | Some adapter \<Rightarrow>
       (let envs = (case adContainerEnv adapter of Some ep \<Rightarrow> ep (ciSpec node) | None \<Rightarrow> [])
                   @ spExtraEnv (ciSpec node)
        in appendJVMFlags (appendRPCCredentials envs node adapter) node))"

subsection \<open>Client requests of the controller\<close>

text \<open>
  \<open>cUpdateNode n\<close> is \<open>r.Update(ctx, n)\<close> and \<open>cPatchStatus base n\<close> is
  \<open>r.Status().Patch(ctx, n, client.MergeFrom(base))\<close>, both with the server's answer;
  \<open>cPodLogs\<close> streams the text of the last log lines of a container, \<open>None\<close> when there is no
  clientset. A failed request leaves the object in memory as it was.
\<close>

record 'w ctl = "'w kube" +
  cUpdateNode :: "ChainInstance \<Rightarrow> ('w, goerr + ChainInstance) state"
  cPatchStatus :: "ChainInstance \<Rightarrow> ChainInstance \<Rightarrow> ('w, goerr + ChainInstance) state"
  cPodLogs :: "(string \<Rightarrow> string \<Rightarrow> string \<Rightarrow> int \<Rightarrow> ('w, goerr + string) state) option"

definition persistAnnotations :: "('w, 'x) ctl_scheme \<Rightarrow> ChainInstance \<Rightarrow> ('w, goerr + ChainInstance) state" where
  "persistAnnotations C node = do {
     r \<leftarrow> cUpdateNode C node;
     ret (case r of
         Inl err \<Rightarrow> Inl (WrapErr (''persisting annotations for '' @ nodeNamespace node @ ''/'' @ nodeName node) err)
       | Inr node' \<Rightarrow> Inr (node'\<lparr>ciStatus := ciStatus node\<rparr>)) }"

text \<open>The same, where the caller only logs the error and goes on.\<close>

definition persistOrLog :: "('w, 'x) ctl_scheme \<Rightarrow> ChainInstance \<Rightarrow> ('w, ChainInstance) state" where
  "persistOrLog C node = do {
     r \<leftarrow> persistAnnotations C node;
     ret (case r of Inl _ \<Rightarrow> node | Inr node' \<Rightarrow> node') }"

subsection \<open>Durations\<close>

definition humanDuration :: "duration \<Rightarrow> string" where
  "humanDuration d =
     (if d < 2 * Minute then dur_String (dur_Round d Second)
      else if d < 2 * Hour then dur_String (dur_Round d Minute)
      else dur_String (dur_Round d (15 * Minute)))"

subsection \<open>Condition lists\<close>

lemma find_set_condition:
  "findCondition (set_condition t s r m now gen cs) t' =
     (if t' = t then
        Some (case findCondition cs t of
            None \<Rightarrow> \<lparr>cdType = t, cdStatus = s, cdReason = r, cdMessage = m, cdTransition = now, cdObserved = gen\<rparr>
          | Some c \<Rightarrow> if cdStatus c = s \<and> cdReason c = r \<and> cdMessage c = m then c
                      else \<lparr>cdType = t, cdStatus = s, cdReason = r, cdMessage = m,
                             cdTransition = (if cdStatus c = s then cdTransition c else now), cdObserved = gen\<rparr>)
      else findCondition cs t')"
  by (induction cs) (auto simp: findCondition_def)

lemma set_condition_types:
  "map cdType (set_condition t s r m now gen cs) =
     map cdType cs @ (if t \<in> set (map cdType cs) then [] else [t])"
  by (induction cs) auto

definition cond_status :: "ChainInstance \<Rightarrow> string \<Rightarrow> ConditionStatus option" where
  "cond_status node t = map_option cdStatus (findCondition (csConditions (ciStatus node)) t)"

lemma cond_status_setCondition [simp]:
  "cond_status (setCondition t s r m now node) t' = (if t' = t then Some s else cond_status node t')"
  by (auto simp: cond_status_def setCondition_def find_set_condition split: option.splits)

lemma setCondition_simps [simp]:
  "ciMeta (setCondition t s r m now node) = ciMeta node"
  "ciSpec (setCondition t s r m now node) = ciSpec node"
  "csPhase (ciStatus (setCondition t s r m now node)) = csPhase (ciStatus node)"
  "csObservedGeneration (ciStatus (setCondition t s r m now node)) = csObservedGeneration (ciStatus node)"
  by (simp_all add: setCondition_def)

text \<open>
  C27: Writing a condition is an update of a finite map from condition types to conditions:
  the written type gets the new status, reason and message, its transition time moves exactly
  when it is new or its status flips, every other type keeps its condition, and types never
  appear twice.
\<close>

theorem setCondition_updates_one_type:
  "let old = csConditions (ciStatus node);
       new = csConditions (ciStatus (setCondition t s r m now node)) in
   (\<exists>c. findCondition new t = Some c \<and> cdType c = t \<and> cdStatus c = s \<and> cdReason c = r \<and> cdMessage c = m \<and>
        cdTransition c = (case findCondition old t of
            None \<Rightarrow> now | Some c' \<Rightarrow> if cdStatus c' = s then cdTransition c' else now)) \<and>
   (\<forall>t'. t' \<noteq> t \<longrightarrow> findCondition new t' = findCondition old t') \<and>
   (distinct (map cdType old) \<longrightarrow> distinct (map cdType new))"
proof -
  have "cdType c = t" if "findCondition cs t = Some c" for c cs
    using that by (auto simp: findCondition_def find_Some_iff)
  then show ?thesis
    by (auto simp: Let_def setCondition_def find_set_condition set_condition_types split: option.splits)
qed

theorem setCondition_updates_one_type_witness:
  "findCondition (csConditions (ciStatus (setCondition ''Ready'' ConditionTrue ''r'' ''m'' 5 zero_node))) ''Degraded'' = None"
  using setCondition_updates_one_type [of zero_node "''Ready''" ConditionTrue "''r''" "''m''" 5]
  by (simp add: Let_def zero_node_def zero_status_def findCondition_def)

text \<open>
  The stall detector waits ten block times of the chain, but never less than five
  minutes and never more than a hundred, whatever the chain is called.
\<close>

theorem syncStallThreshold_bounds:
  "5 * Minute \<le> syncStallThreshold chain \<and> syncStallThreshold chain \<le> 100 * Minute \<and>
   syncStallThreshold chain = max (5 * Minute) (10 * chainBlockTime chain)"
  by (simp add: syncStallThreshold_def chainBlockTime_def Let_def)

end
