(* ===== verification/Snapshot.thy ===== *)
theory Snapshot
  imports Api_Types
begin

text \<open>
  \<open>internal/snapshot/snapshot.go\<close> and \<open>internal/controller/reconcile_snapshot.go\<close>: the init
  container that restores chain data before the node starts. The process environment is a
  function, the image tag set at link time and the embedded Python program are arguments.
\<close>

record snapshot_Config =
  sfEndpoint :: string
  sfBucket :: string
  sfKey :: string
  sfSnapshotType :: string

record snapshot_build =
  sbGetenv :: "string \<Rightarrow> string"
  sbRestoreImageTag :: string
  sbBootstrapPy :: string

definition restoreImage :: "snapshot_build \<Rightarrow> string" where
  "restoreImage B =
     (let v = sbGetenv B ''SNAPSHOT_RESTORE_IMAGE'' in
      if v \<noteq> [] then v else ''ghcr.io/tazhate/chainplane/snapshot-restore'' @ '':'' @ sbRestoreImageTag B)"

text \<open>The cases of the switch of \<open>bucketForChain\<close>, in their order.\<close>

definition bucketTable :: "(Chain \<times> string) list" where
  "bucketTable =
    [(ChainBitcoin, ''snapshots-btc''), (ChainTRON, ''snapshots-tron''),
     (ChainLitecoin, ''snapshots-ltc''), (ChainDash, ''snapshots-dash''), (ChainXRP, ''snapshots-xrp''),
     (ChainStellar, ''snapshots-xlm''), (ChainAvalanche, ''snapshots-avax''),
     (ChainPolygon, ''snapshots-polygon''), (ChainCosmos, ''snapshots-cosmos''),
     (ChainNear, ''snapshots-near''), (ChainSui, ''snapshots-sui''), (ChainAptos, ''snapshots-aptos''),
     (ChainCardano, ''snapshots-cardano''), (ChainTON, ''snapshots-ton''), (ChainBSC, ''snapshots-bsc''),
     (ChainArbitrum, ''snapshots-arbitrum''), (ChainOptimism, ''snapshots-optimism''),
     (ChainBase, ''snapshots-base''), (ChainFantom, ''snapshots-fantom''),
     (ChainGnosis, ''snapshots-gnosis''), (ChainMantle, ''snapshots-mantle''),
     (ChainBerachain, ''snapshots-berachain''), (ChainCronos, ''snapshots-cronos''),
     (ChainRonin, ''snapshots-ronin''), (ChainCelo, ''snapshots-celo''), (ChainBlast, ''snapshots-blast''),
     (ChainMode, ''snapshots-mode''), (ChainZora, ''snapshots-zora''), (ChainTaiko, ''snapshots-taiko''),
     (ChainZkSync, ''snapshots-zksync''), (ChainLinea, ''snapshots-linea''),
     (ChainScroll, ''snapshots-scroll''), (ChainDogecoin, ''snapshots-doge''),
     (ChainOsmosis, ''snapshots-osmosis''), (ChainSei, ''snapshots-sei''),
     (ChainEvmos, ''snapshots-evmos''), (ChainKava, ''snapshots-kava''),
     (ChainPolkadot, ''snapshots-polkadot''), (ChainStarknet, ''snapshots-starknet''),
     (ChainFilecoin, ''snapshots-filecoin''), (ChainMoonbeam, ''snapshots-moonbeam''),
     (ChainMoonriver, ''snapshots-moonriver''), (ChainPolygonZkEVM, ''snapshots-polygon-zkevm''),
     (ChainMantaPacific, ''snapshots-manta-pacific''), (ChainMetis, ''snapshots-metis''),
     (ChainFraxtal, ''snapshots-fraxtal''), (ChainLisk, ''snapshots-lisk''),
     (ChainKroma, ''snapshots-kroma''), (ChainBob, ''snapshots-bob''),
     (ChainBobaEth, ''snapshots-boba-eth''), (ChainSoneium, ''snapshots-soneium''),
     (ChainSwell, ''snapshots-swell''), (ChainSuperseed, ''snapshots-superseed''),
     (ChainInk, ''snapshots-ink''), (ChainMorph, ''snapshots-morph''),
     (ChainAbstract, ''snapshots-abstract''), (ChainMegaETH, ''snapshots-megaeth''),
     (ChainZeroNetwork, ''snapshots-zero-network''), (ChainZircuit, ''snapshots-zircuit''),
     (ChainImmutableZkEVM, ''snapshots-immutable-zkevm''), (ChainWorldchain, ''snapshots-worldchain''),
     (ChainUnichain, ''snapshots-unichain''), (ChainLens, ''snapshots-lens''),
     (ChainPlume, ''snapshots-plume''), (ChainHemi, ''snapshots-hemi''),
     (ChainAurora, ''snapshots-aurora''), (ChainHarmony, ''snapshots-harmony''),
     (ChainRootstock, ''snapshots-rootstock''), (ChainTelos, ''snapshots-telos''),
     (ChainKlaytn, ''snapshots-klaytn''), (ChainShibarium, ''snapshots-shibarium''),
     (ChainCore, ''snapshots-core''), (ChainHaqq, ''snapshots-haqq''),
     (ChainHashKey, ''snapshots-hashkey''), (ChainEthereumClassic, ''snapshots-ethereum-classic''),
     (ChainAxelar, ''snapshots-axelar''), (ChainDymension, ''snapshots-dymension''),
     (ChainBitTorrent, ''snapshots-bittorrent''), (ChainGravityAlpha, ''snapshots-gravity-alpha''),
     (ChainMoca, ''snapshots-moca''), (ChainEverclear, ''snapshots-everclear''),
     (ChainDoma, ''snapshots-doma''), (ChainOpBNB, ''snapshots-opbnb''), (ChainFuse, ''snapshots-fuse''),
     (ChainThundercore, ''snapshots-thundercore''), (ChainWemix, ''snapshots-wemix''),
     (ChainViction, ''snapshots-viction''), (ChainEthereumBeacon, ''snapshots-ethereum-beacon''),
     (ChainGnosisBeacon, ''snapshots-gnosis-beacon''), (ChainCronosZkEVM, ''snapshots-cronos-zkevm''),
     (ChainSonic, ''snapshots-sonic''), (ChainGoat, ''snapshots-goat''),
     (ChainKatana, ''snapshots-katana''), (ChainMezo, ''snapshots-mezo''),
     (ChainPlasma, ''snapshots-plasma''), (ChainPlaynance, ''snapshots-playnance''),
     (ChainKusama, ''snapshots-kusama''), (ChainHyperliquid, ''snapshots-hyperliquid''),
     (ChainMonad, ''snapshots-monad'')]"

definition bucketForChain :: "Chain \<Rightarrow> string" where
  "bucketForChain chain = (case map_of bucketTable chain of Some b \<Rightarrow> b | None \<Rightarrow> ''snapshots-eth'')"

definition preInstall :: "Chain \<Rightarrow> string" where
  "preInstall chain =
     (if chain = ChainLitecoin \<or> chain = ChainEthereum
      then ''apt-get update -qq && apt-get install -y -qq aria2 curl lz4 >/dev/null 2>&1'' @ [CHR 0x0A]
      else [])"

definition shellCmd :: "snapshot_build \<Rightarrow> Chain \<Rightarrow> string" where
  "shellCmd B chain = ''set -e'' @ [CHR 0x0A] @ preInstall chain @ ''python3 /dev/stdin << '' @
     [CHR 0x27] @ ''PYEOF'' @ [CHR 0x27, CHR 0x0A] @ sbBootstrapPy B @ [CHR 0x0A] @ ''PYEOF'' @ [CHR 0x0A]"

text \<open>Memory in bytes, CPU in thousandths of a core.\<close>

definition BuildInitContainer :: "snapshot_build \<Rightarrow> Chain \<Rightarrow> snapshot_Config \<Rightarrow> Container" where
  "BuildInitContainer B chain cfg =
     (let bucket = (if sfBucket cfg = [] then bucketForChain chain else sfBucket cfg);
          creds = ''minio-snapshot-credentials''
      in zero_container\<lparr>
        ctName := ''snapshot-restore'',
        ctImage := restoreImage B,
        ctPullPolicy := ''IfNotPresent'',
        ctCommand := [''/bin/sh'', ''-c'', shellCmd B chain],
        ctEnv := [EnvValue ''MINIO_ENDPOINT'' (sfEndpoint cfg),
                  EnvSecret ''MINIO_ACCESS_KEY'' creds ''MINIO_ACCESS_KEY'' False,
                  EnvSecret ''MINIO_SECRET_KEY'' creds ''MINIO_SECRET_KEY'' False,
                  EnvValue ''CHAIN'' chain,
                  EnvValue ''SNAPSHOT_BUCKET'' bucket,
                  EnvValue ''SNAPSHOT_KEY'' (sfKey cfg),
                  EnvValue ''SNAPSHOT_TYPE'' (sfSnapshotType cfg)],
        ctMounts := [dataMount],
        ctResources := \<lparr>rrLimits = [(''cpu'', 2000), (''memory'', 4 * 1024 ^ 3)],
                        rrRequests = [(''cpu'', 500), (''memory'', 512 * 1024 ^ 2)]\<rparr>\<rparr>)"

definition snapshotInitContainers :: "snapshot_build \<Rightarrow> ChainInstance \<Rightarrow> Container list" where
  "snapshotInitContainers B node =
     (let endpoint = sbGetenv B ''MINIO_ENDPOINT''; sn = spSnapshot (ciSpec node) in
      if endpoint = [] then []
      else if (case sn of None \<Rightarrow> False | Some s \<Rightarrow> snDisabled s) then []
      else
        (let cfg = (case sn of
               None \<Rightarrow> \<lparr>sfEndpoint = endpoint, sfBucket = [], sfKey = [], sfSnapshotType = []\<rparr>
             | Some s \<Rightarrow> \<lparr>sfEndpoint = endpoint, sfBucket = snBucket s, sfKey = snKey s, sfSnapshotType = snType s\<rparr>);
             cfg = (if sfSnapshotType cfg = [] then cfg\<lparr>sfSnapshotType := ''full''\<rparr> else cfg)
         in [BuildInitContainer B (spChain (ciSpec node)) cfg]))"


subsection \<open>Buckets\<close>

lemma bucketTable_distinct: "distinct (map (drop 10 \<circ> snd) bucketTable)"
  by code_simp

lemma bucketTable_not_eth: "''eth'' \<notin> set (map (drop 10 \<circ> snd) bucketTable)"
  by code_simp

lemma bucketTable_missing:
  "filter (\<lambda>c. c \<notin> set (map fst bucketTable)) chainConstants = [ChainEthereum, ChainEthereumArchive, ChainSolana]"
  by code_simp

text \<open>
  Chains share a default snapshot bucket only when the table has no entry for them: two
  declared chains have the same bucket exactly when they are equal or both among Ethereum,
  its archive node and Solana. Solana thus restores from the Ethereum bucket.
\<close>

theorem bucketForChain_shared:
  assumes "c \<in> set chainConstants" "c' \<in> set chainConstants"
  shows "bucketForChain c = bucketForChain c' \<longleftrightarrow>
         c = c' \<or> {c, c'} \<subseteq> {ChainEthereum, ChainEthereumArchive, ChainSolana}"
proof -
  have missing: "map_of bucketTable c = None \<longleftrightarrow> c \<in> {ChainEthereum, ChainEthereumArchive, ChainSolana}"
    if "c \<in> set chainConstants" for c
  proof -
    have "c \<in> set (filter (\<lambda>c. c \<notin> set (map fst bucketTable)) chainConstants) \<longleftrightarrow> map_of bucketTable c = None"
      using that by (simp add: map_of_eq_None_iff)
    then show ?thesis unfolding bucketTable_missing by simp
  qed
  have entry: "b \<noteq> ''snapshots-eth'' \<and> (\<forall>d. map_of bucketTable d = Some b \<longrightarrow> d = c)"
    if "map_of bucketTable c = Some b" for c b
  proof -
    let ?f = "drop 10 \<circ> snd :: Chain \<times> string \<Rightarrow> string"
    from that have b: "(c, b) \<in> set bucketTable" by (rule map_of_SomeD)
    then have "drop 10 b \<in> set (map ?f bucketTable)" by force
    with bucketTable_not_eth have "drop 10 b \<noteq> ''eth''" by metis
    then have "b \<noteq> ''snapshots-eth''" by auto
    moreover have "inj_on ?f (set bucketTable)" using bucketTable_distinct by (simp add: distinct_map)
    then have "d = c" if "map_of bucketTable d = Some b" for d
      using inj_onD [of ?f "set bucketTable" "(d, b)" "(c, b)"] b map_of_SomeD [OF that] by simp
    ultimately show ?thesis by blast
  qed
  obtain M where M: "M = {ChainEthereum, ChainEthereumArchive, ChainSolana}" by blast
  have none: "map_of bucketTable x = None \<longleftrightarrow> x \<in> M" if "x \<in> set chainConstants" for x
    using missing [OF that] unfolding M .
  have known: "bucketForChain x \<noteq> ''snapshots-eth'' \<and> (\<forall>y. bucketForChain y = bucketForChain x \<longrightarrow> y = x)"
    if b: "map_of bucketTable x = Some b" for x b
  proof -
    have x: "bucketForChain x = b" "b \<noteq> ''snapshots-eth''"
      using b entry [OF b, THEN conjunct1] by (simp_all add: bucketForChain_def)
    moreover have "y = x" if y: "bucketForChain y = b" for y
    proof (cases "map_of bucketTable y")
      case None
      with y x(2) show ?thesis by (simp add: bucketForChain_def)
    next
      case (Some b')
      with y have "map_of bucketTable y = Some b" by (simp add: bucketForChain_def)
      with entry [OF b] show ?thesis by blast
    qed
    ultimately show ?thesis by blast
  qed
  have unknown: "bucketForChain x = ''snapshots-eth''" if "map_of bucketTable x = None" for x
    using that by (simp add: bucketForChain_def)
  have "bucketForChain c = bucketForChain c' \<longleftrightarrow> c = c' \<or> {c, c'} \<subseteq> M"
    using none [OF assms(1)] none [OF assms(2)] known unknown by (metis empty_subsetI insert_subset not_Some_eq)
  then show ?thesis unfolding M .
qed

theorem bucketForChain_shared_witness:
  "ChainSolana \<in> set chainConstants \<and> bucketForChain ChainSolana = bucketForChain ChainEthereum"
proof -
  have "ChainSolana \<in> set chainConstants" "ChainEthereum \<in> set chainConstants" by (simp_all add: chainConstants_def)
  with bucketForChain_shared [OF this] show ?thesis by simp
qed

end
