(* ===== verification/Workload.thy ===== *)
theory Workload
  imports Controller_Helpers Snapshot
begin

text \<open>
  The objects the ChainInstance controller owns: \<open>reconcile_statefulset.go\<close>,
  \<open>reconcile_services.go\<close>, \<open>reconcile_configmap.go\<close>, \<open>reconcile_rpcsecret.go\<close> and
  \<open>reconcile_podmonitor.go\<close>. What the controller asks of \<open>controllerutil\<close>, of the API server
  and of \<open>crypto/rand\<close> is a record of operations that extends the one of
  \<open>Controller_Helpers\<close>; an upsert takes the mutate function the code passes.
\<close>

record PodMonitor =
  pnMeta :: ObjectMeta
  pnObject :: "(string \<times> json) list"

record 'w workload_ctl = "'w ctl" +
  wSetOwner :: "ChainInstance \<Rightarrow> ObjectMeta \<Rightarrow> goerr + ObjectMeta"
  wUpsertSTS :: "StatefulSet \<Rightarrow> (StatefulSet \<Rightarrow> goerr + StatefulSet) \<Rightarrow> ('w, goerr + unit) state"
  wUpsertConfigMap :: "ConfigMap \<Rightarrow> (ConfigMap \<Rightarrow> goerr + ConfigMap) \<Rightarrow> ('w, goerr + unit) state"
  wUpsertService :: "Service \<Rightarrow> (Service \<Rightarrow> goerr + Service) \<Rightarrow> ('w, goerr + unit) state"
  wGetService :: "string \<Rightarrow> string \<Rightarrow> ('w, goerr + Service) state"
  wDeleteService :: "Service \<Rightarrow> ('w, goerr + unit) state"
  wUpsertMonitor :: "PodMonitor \<Rightarrow> (PodMonitor \<Rightarrow> goerr + PodMonitor) \<Rightarrow> ('w, goerr + unit) state"
  wDeleteMonitor :: "string \<Rightarrow> string \<Rightarrow> ('w, goerr + unit) state"
  wIsNoMatch :: "goerr \<Rightarrow> bool"
  wGetSecret :: "string \<Rightarrow> string \<Rightarrow> ('w, goerr + Secret) state"
  wCreateSecret :: "Secret \<Rightarrow> ('w, goerr + unit) state"
  wRandRead :: "nat \<Rightarrow> ('w, goerr + nat list) state"
  wGetSTS :: "string \<Rightarrow> string \<Rightarrow> ('w, goerr + StatefulSet) state"
  wPatchSTS :: "StatefulSet \<Rightarrow> StatefulSet \<Rightarrow> ('w, goerr + StatefulSet) state"
  wListPods :: "string \<Rightarrow> strmap \<Rightarrow> ('w, goerr + Pod list) state"

abbreviation nodeText :: "ChainInstance \<Rightarrow> string" where
  "nodeText node \<equiv> nodeNamespace node @ ''/'' @ nodeName node"

definition objectMeta :: "string \<Rightarrow> string \<Rightarrow> ObjectMeta" where
  "objectMeta ns name = zero_meta\<lparr>mNamespace := ns, mName := name\<rparr>"

text \<open>The error of an upsert, wrapped by its caller.\<close>

definition wrapUpsert :: "string \<Rightarrow> ChainInstance \<Rightarrow> goerr + 'a \<Rightarrow> goerr + unit" where
  "wrapUpsert what node r = (case r of
     Inl err \<Rightarrow> Inl (WrapErr (''upserting '' @ what @ '' for '' @ nodeText node) err) | Inr _ \<Rightarrow> Inr ())"

subsection \<open>Pod template\<close>

abbreviation (input) mainContainerName :: string where "mainContainerName \<equiv> ''node''"
abbreviation (input) configHashAnnotation :: string where
  "configHashAnnotation \<equiv> ''chains.chainplane.io/config-hash''"

definition podVolumes :: "ChainInstance \<Rightarrow> Volume list" where
  "podVolumes node = ConfigMapVolume ''config'' (nodeName node @ ''-config'') # spExtraVolumes (ciSpec node)"

definition podContainers ::
    "'w registry \<Rightarrow> ChainInstance \<Rightarrow> string \<Rightarrow> ContainerPort list \<Rightarrow> Probe option \<Rightarrow> Probe option \<Rightarrow>
     'w ChainAdapter \<Rightarrow> Container list" where
  "podContainers registry node imageName ports liveness startup adapter =
     (let mounts = [dataMount,
                    \<lparr>vmName = ''config'', vmMountPath = ''/config'', vmSubPath = [], vmReadOnly = True\<rparr>]
                   @ spExtraVolumeMounts (ciSpec node);
          main = \<lparr>ctName = mainContainerName, ctImage = imageName, ctRestartPolicy = [], ctPullPolicy = ''IfNotPresent'',
                  ctCommand = containerCommand adapter node, ctArgs = containerArgs adapter node,
                  ctPorts = ports, ctResources = spResources (ciSpec node), ctLiveness = liveness,
                  ctStartup = startup, ctEnv = containerEnv registry node, ctMounts = mounts\<rparr>;
          side = (case adRPCCredentialed adapter of
              Some rc \<Rightarrow> rcSidecars rc (ciSpec node) (rpcSecretName node)
            | None \<Rightarrow> (case adSidecars adapter of Some sp \<Rightarrow> sp (ciSpec node) | None \<Rightarrow> []))
      in main # side @ spSidecars (ciSpec node))"

definition RenderPodTemplate ::
    "snapshot_build \<Rightarrow> 'w registry \<Rightarrow> ChainInstance \<Rightarrow> 'w ChainAdapter \<Rightarrow> string \<Rightarrow> PodTemplateSpec" where
  "RenderPodTemplate B registry node adapter cfgHash =
     (let imageName = resolveContainerImage node adapter;
          ports = adContainerPorts adapter (ciSpec node);
          liveness = adLivenessProbe adapter (ciSpec node);
          startup = (case adStartupProbe adapter of Some sp \<Rightarrow> sp (ciSpec node) | None \<Rightarrow> None);
          inits = snapshotInitContainers B node
                  @ (case adInitContainers adapter of Some icp \<Rightarrow> icp (ciSpec node) | None \<Rightarrow> [])
      in \<lparr>ptLabels = coreLabels node,
          ptAnnotations = [(configHashAnnotation, cfgHash)],
          ptSpec = zero_podspec\<lparr>
            psFSGroup := Some 1000,
            psNodeSelector := adNodeSelector adapter (spNodeGroup (ciSpec node)),
            psInitContainers := inits,
            psContainers := podContainers registry node imageName ports liveness startup adapter,
            psVolumes := podVolumes node\<rparr>\<rparr>)"

subsection \<open>StatefulSet\<close>

definition buildStatefulSetSpec ::
    "snapshot_build \<Rightarrow> 'w registry \<Rightarrow> ChainInstance \<Rightarrow> 'w ChainAdapter \<Rightarrow> string \<Rightarrow> StatefulSetSpec" where
  "buildStatefulSetSpec B registry node adapter cfgHash =
     (let sc = stStorageClass (spStorage (ciSpec node)) in
      \<lparr>ssReplicas = Some (case spReplicas (ciSpec node) of None \<Rightarrow> 1 | Some n \<Rightarrow> n),
       ssServiceName = nodeName node,
       ssSelector = selectorLabels node,
       ssTemplate = RenderPodTemplate B registry node adapter cfgHash,
       ssVolumeClaims = [\<lparr>pvcMeta = zero_meta\<lparr>mName := ''data''\<rparr>,
                          pvcStorageClass = (if sc \<noteq> [] then Some sc else None),
                          pvcRequest = stSize (spStorage (ciSpec node))\<rparr>]\<rparr>)"

text \<open>Existing template annotations that the desired ones do not set are kept.\<close>

definition keepAnnotations :: "strmap \<Rightarrow> strmap \<Rightarrow> strmap" where
  "keepAnnotations existing desired =
     foldl (\<lambda>anns (k, v). if map_of anns k = None then mset_key k v anns else anns) desired existing"

definition mutateStatefulSet ::
    "(ObjectMeta \<Rightarrow> goerr + ObjectMeta) \<Rightarrow> ChainInstance \<Rightarrow> StatefulSetSpec \<Rightarrow> StatefulSet \<Rightarrow> goerr + StatefulSet" where
  "mutateStatefulSet setOwner node desired sts =
     (let existing = ptAnnotations (ssTemplate (ssSpec sts));
          tmpl = (ssTemplate desired)\<lparr>ptAnnotations := keepAnnotations existing (ptAnnotations (ssTemplate desired))\<rparr>;
          sts' = sts\<lparr>ssSpec := desired\<lparr>ssTemplate := tmpl\<rparr>\<rparr>
      in (case setOwner ((ssMeta sts)\<lparr>mLabels := coreLabels node\<rparr>) of
            Inl err \<Rightarrow> Inl err | Inr m \<Rightarrow> Inr (sts'\<lparr>ssMeta := m\<rparr>)))"

definition zero_sts :: "string \<Rightarrow> string \<Rightarrow> StatefulSet" where
  "zero_sts ns name = \<lparr>ssMeta = objectMeta ns name,
     ssSpec = \<lparr>ssReplicas = None, ssServiceName = [], ssSelector = [],
       ssTemplate = \<lparr>ptLabels = [], ptAnnotations = [], ptSpec = zero_podspec\<rparr>, ssVolumeClaims = []\<rparr>,
     ssReadyReplicas = 0, ssUpdatedReplicas = 0\<rparr>"

definition ensureStatefulSet ::
    "snapshot_build \<Rightarrow> 'w registry \<Rightarrow> ('w, 'x) workload_ctl_scheme \<Rightarrow> ChainInstance \<Rightarrow> 'w ChainAdapter \<Rightarrow> string \<Rightarrow>
     ('w, goerr + unit) state" where
  "ensureStatefulSet B registry C node adapter cfgHash =
     (let desired = buildStatefulSetSpec B registry node adapter cfgHash in do {
        r \<leftarrow> wUpsertSTS C (zero_sts (nodeNamespace node) (nodeName node))
              (mutateStatefulSet (wSetOwner C node) node desired);
        ret (wrapUpsert ''StatefulSet'' node r) })"

subsection \<open>Service\<close>

definition servicePort :: "(int \<times> int) list \<Rightarrow> ContainerPort \<Rightarrow> ServicePort" where
  "servicePort nodePorts cp = \<lparr>spName = cpName cp, spPort = cpPort cp, spTargetPort = cpPort cp,
     spNodePort = (case map_of nodePorts (cpPort cp) of Some np \<Rightarrow> np | None \<Rightarrow> 0), spProtocol = cpProtocol cp\<rparr>"

definition buildServicePorts :: "ChainInstance \<Rightarrow> 'w ChainAdapter \<Rightarrow> string \<times> ServicePort list" where
  "buildServicePorts node adapter =
     (let cps = adContainerPorts adapter (ciSpec node) in
      case adNodePorts adapter of
        Some npp \<Rightarrow> (''NodePort'', map (servicePort (npp (ciSpec node) (nodeName node))) cps)
      | None \<Rightarrow> (''ClusterIP'', map (servicePort []) cps))"

definition deleteOnTypeMismatch ::
    "('w, 'x) workload_ctl_scheme \<Rightarrow> ChainInstance \<Rightarrow> string \<Rightarrow> ('w, goerr + unit) state" where
  "deleteOnTypeMismatch C node desired = do {
     r \<leftarrow> wGetService C (nodeNamespace node) (nodeName node);
     case r of
       Inl _ \<Rightarrow> ret (Inr ())
     | Inr existing \<Rightarrow>
         if svcType existing = desired then ret (Inr ())
         else do {
           d \<leftarrow> wDeleteService C existing;
           ret (case d of
               Inl err \<Rightarrow> if IsNotFound err then Inr ()
                          else Inl (WrapErr (''deleting stale '' @ svcType existing @ '' Service '' @ nodeText node) err)
             | Inr _ \<Rightarrow> Inr ()) } }"

definition mutateService ::
    "(ObjectMeta \<Rightarrow> goerr + ObjectMeta) \<Rightarrow> ChainInstance \<Rightarrow> string \<Rightarrow> ServicePort list \<Rightarrow> Service \<Rightarrow> goerr + Service" where
  "mutateService setOwner node desiredType svcPorts' svc =
     (case setOwner ((svcMeta svc)\<lparr>mLabels := selectorLabels node\<rparr>) of
        Inl err \<Rightarrow> Inl err
      | Inr m \<Rightarrow> Inr (svc\<lparr>svcMeta := m, svcSelector := selectorLabels node, svcPorts := svcPorts', svcType := desiredType\<rparr>))"

definition ensureService ::
    "('w, 'x) workload_ctl_scheme \<Rightarrow> ChainInstance \<Rightarrow> 'w ChainAdapter \<Rightarrow> ('w, goerr + unit) state" where
  "ensureService C node adapter = (case buildServicePorts node adapter of (desiredType, svcPorts') \<Rightarrow> do {
     d \<leftarrow> deleteOnTypeMismatch C node desiredType;
     case d of
       Inl err \<Rightarrow> ret (Inl err)
     | Inr _ \<Rightarrow> do {
         r \<leftarrow> wUpsertService C
               \<lparr>svcMeta = objectMeta (nodeNamespace node) (nodeName node), svcSelector = [], svcPorts = [], svcType = []\<rparr>
               (mutateService (wSetOwner C node) node desiredType svcPorts');
         ret (wrapUpsert ''Service'' node r) } })"

subsection \<open>ConfigMap\<close>

definition mutateConfigMap ::
    "(ObjectMeta \<Rightarrow> goerr + ObjectMeta) \<Rightarrow> string \<Rightarrow> string \<Rightarrow> ConfigMap \<Rightarrow> goerr + ConfigMap" where
  "mutateConfigMap setOwner filename content cm = (case setOwner (cmMeta cm) of
     Inl err \<Rightarrow> Inl err
   | Inr m \<Rightarrow> Inr (cm\<lparr>cmMeta := m, cmData := (if filename = [] then [] else [(filename, content)])\<rparr>))"

definition renderConfig :: "ChainInstance \<Rightarrow> 'w ChainAdapter \<Rightarrow> RPCCredentials \<Rightarrow> goerr + string \<times> string" where
  "renderConfig node adapter creds = (case adRPCCredentialed adapter of
     Some rc \<Rightarrow> rcConfigTemplate rc (ciSpec node) creds
   | None \<Rightarrow> adConfigTemplate adapter (ciSpec node))"

text \<open>\<open>sha\<close> is the SHA-256 digest in hexadecimal; the result is the first four bytes of it.\<close>

definition ensureConfigMap ::
    "(string \<Rightarrow> string) \<Rightarrow> ('w, 'x) workload_ctl_scheme \<Rightarrow> ChainInstance \<Rightarrow> 'w ChainAdapter \<Rightarrow> RPCCredentials \<Rightarrow>
     ('w, goerr + string) state" where
  "ensureConfigMap sha C node adapter creds = (case renderConfig node adapter creds of
     Inl err \<Rightarrow> ret (Inl (WrapErr (''rendering config template for '' @ nodeText node) err))
   | Inr (filename, content) \<Rightarrow> do {
       r \<leftarrow> wUpsertConfigMap C
             \<lparr>cmMeta = objectMeta (nodeNamespace node) (nodeName node @ ''-config''), cmData = []\<rparr>
             (mutateConfigMap (wSetOwner C node) filename content);
       ret (case wrapUpsert ''ConfigMap'' node r of Inl err \<Rightarrow> Inl err | Inr _ \<Rightarrow> Inr (take 8 (sha content))) })"

subsection \<open>RPC credentials\<close>

text \<open>\<open>hex.EncodeToString\<close> and \<open>base64.RawURLEncoding.EncodeToString\<close> of a list of bytes.\<close>

definition hex_encode :: "nat list \<Rightarrow> string" where
  "hex_encode bs = concat (map (\<lambda>b. [digit_char (b div 16), digit_char (b mod 16)]) bs)"

definition base64url_alphabet :: string where
  "base64url_alphabet = ''ABCDEFGHIJKLMNOPQRSTUVWXYZabcdefghijklmnopqrstuvwxyz0123456789-_''"

definition b64 :: "nat \<Rightarrow> char" where
  "b64 n = base64url_alphabet ! (n mod 64)"

fun base64_rawurl :: "nat list \<Rightarrow> string" where
  "base64_rawurl (a # b # c # bs) =
     [b64 (a div 4), b64 (a mod 4 * 16 + b div 16), b64 (b mod 16 * 4 + c div 64), b64 c] @ base64_rawurl bs"
| "base64_rawurl [a, b] = [b64 (a div 4), b64 (a mod 4 * 16 + b div 16), b64 (b mod 16 * 4)]"
| "base64_rawurl [a] = [b64 (a div 4), b64 (a mod 4 * 16)]"
| "base64_rawurl [] = []"

definition rpcSecret :: "ChainInstance \<Rightarrow> nat list \<Rightarrow> nat list \<Rightarrow> Secret" where
  "rpcSecret node password salt =
     \<lparr>scMeta = (objectMeta (nodeNamespace node) (rpcSecretName node))\<lparr>mLabels := coreLabels node\<rparr>,
      scType = ''Opaque'',
      scData = [(RPCSecretUserKey, ''chainplane''), (RPCSecretPasswordKey, base64_rawurl password),
                (RPCSecretSaltKey, hex_encode salt)]\<rparr>"

definition storeSecret ::
    "('w, 'x) workload_ctl_scheme \<Rightarrow> ChainInstance \<Rightarrow> Secret \<Rightarrow> ('w, goerr + Secret) state" where
  "storeSecret C node secret =
     (let what = mNamespace (scMeta secret) @ ''/'' @ mName (scMeta secret) in
      case wSetOwner C node (scMeta secret) of
        Inl err \<Rightarrow> ret (Inl (WrapErr (''setting owner on Secret '' @ what) err))
      | Inr m \<Rightarrow> do {
          r \<leftarrow> wCreateSecret C (secret\<lparr>scMeta := m\<rparr>);
          case r of
            Inr _ \<Rightarrow> ret (Inr (secret\<lparr>scMeta := m\<rparr>))
          | Inl err \<Rightarrow>
              if \<not> IsAlreadyExists err then ret (Inl (WrapErr (''creating Secret '' @ what) err))
              else do {
                g \<leftarrow> wGetSecret C (mNamespace (scMeta secret)) (mName (scMeta secret));
                ret (case g of
                    Inl err \<Rightarrow> Inl (WrapErr (''reading Secret '' @ what) err)
                  | Inr existing \<Rightarrow> Inr existing) } })"

definition createRPCSecret ::
    "('w, 'x) workload_ctl_scheme \<Rightarrow> ChainInstance \<Rightarrow> ('w, goerr + Secret) state" where
  "createRPCSecret C node = do {
     p \<leftarrow> wRandRead C 32;
     case p of
       Inl err \<Rightarrow> ret (Inl (WrapErr ''generating RPC password'' err))
     | Inr password \<Rightarrow> do {
         s \<leftarrow> wRandRead C 16;
         case s of
           Inl err \<Rightarrow> ret (Inl (WrapErr ''generating rpcauth salt'' err))
         | Inr salt \<Rightarrow> storeSecret C node (rpcSecret node password salt) } }"

definition secretCreds :: "Secret \<Rightarrow> RPCCredentials" where
  "secretCreds secret = \<lparr>rcUser = mget (scData secret) RPCSecretUserKey,
     rcPassword = mget (scData secret) RPCSecretPasswordKey, rcSalt = mget (scData secret) RPCSecretSaltKey\<rparr>"

definition zeroCreds :: RPCCredentials where
  "zeroCreds = \<lparr>rcUser = [], rcPassword = [], rcSalt = []\<rparr>"

definition checkedCreds :: "ChainInstance \<Rightarrow> Secret \<Rightarrow> goerr + RPCCredentials" where
  "checkedCreds node secret = (case creds_Validate (secretCreds secret) of
     Inl err \<Rightarrow> Inl (WrapErr (''invalid RPC credentials in Secret '' @ nodeNamespace node @ ''/'' @ rpcSecretName node) err)
   | Inr _ \<Rightarrow> Inr (secretCreds secret))"

definition ensureRPCSecret ::
    "('w, 'x) workload_ctl_scheme \<Rightarrow> ChainInstance \<Rightarrow> 'w ChainAdapter \<Rightarrow> ('w, goerr + RPCCredentials) state" where
  "ensureRPCSecret C node adapter = (case adRPCCredentialed adapter of
     None \<Rightarrow> ret (Inr zeroCreds)
   | Some _ \<Rightarrow> do {
       g \<leftarrow> wGetSecret C (nodeNamespace node) (rpcSecretName node);
       case g of
         Inr secret \<Rightarrow> ret (checkedCreds node secret)
       | Inl err \<Rightarrow>
           if IsNotFound err then do {
             c \<leftarrow> createRPCSecret C node;
             ret (case c of Inl err \<Rightarrow> Inl err | Inr secret \<Rightarrow> checkedCreds node secret) }
           else ret (Inl (WrapErr (''reading Secret '' @ nodeNamespace node @ ''/'' @ rpcSecretName node) err)) })"

subsection \<open>PodMonitor\<close>

definition adapterMetricsPort :: "'w ChainAdapter \<Rightarrow> ChainInstanceSpec \<Rightarrow> int option" where
  "adapterMetricsPort adapter spec =
     (let sidecars = (case adRPCCredentialed adapter of
            Some rc \<Rightarrow> rcSidecars rc spec []
          | None \<Rightarrow> (case adSidecars adapter of Some sp \<Rightarrow> sp spec | None \<Rightarrow> []));
          ports = adContainerPorts adapter spec @ concat (map ctPorts sidecars)
      in map_option cpPort (find (\<lambda>p. cpName p = ''metrics'') ports))"

definition isPodMonitorCRDMissing :: "('w, 'x) workload_ctl_scheme \<Rightarrow> goerr \<Rightarrow> bool" where
  "isPodMonitorCRDMissing C err \<longleftrightarrow> wIsNoMatch C err \<or>
     Contains (err_text err) ''no kind is registered'' \<or>
     Contains (err_text err) ''the server could not find the requested resource''"

text \<open>
  \<open>unstructured.SetNestedField\<close>: missing maps along the path are created, a value on the
  path that is not a map is an error.
\<close>

fun setNested :: "json \<Rightarrow> string list \<Rightarrow> (string \<times> json) list \<Rightarrow> (string \<times> json) list option" where
  "setNested v [] obj = Some obj"
| "setNested v [k] obj = Some (AList.update k v obj)"
| "setNested v (k # ks) obj = (case map_of obj k of
     None \<Rightarrow> map_option (\<lambda>m. AList.update k (JObj m) obj) (setNested v ks [])
   | Some (JObj m) \<Rightarrow> map_option (\<lambda>m'. AList.update k (JObj m') obj) (setNested v ks m)
   | Some _ \<Rightarrow> None)"

definition jsonMap :: "strmap \<Rightarrow> json" where
  "jsonMap m = JObj (map (\<lambda>(k, v). (k, JStr v)) m)"

definition monitorEndpoint :: "ChainInstance \<Rightarrow> json" where
  "monitorEndpoint node =
     (let interval = pmInterval (moPodMonitor (spMonitoring (ciSpec node))) in
      JObj ([(''port'', JStr ''metrics''), (''path'', JStr ''/metrics'')]
            @ (if interval \<noteq> [] then [(''interval'', JStr interval)] else [])))"

definition applyPodMonitorSpec :: "ChainInstance \<Rightarrow> PodMonitor \<Rightarrow> goerr + PodMonitor" where
  "applyPodMonitorSpec node pm =
     (let labels = madd_all (pmLabels (moPodMonitor (spMonitoring (ciSpec node)))) (coreLabels node);
          pm = pm\<lparr>pnMeta := (pnMeta pm)\<lparr>mLabels := labels\<rparr>\<rparr>
      in case setNested (jsonMap (selectorLabels node)) [''spec'', ''selector'', ''matchLabels''] (pnObject pm) of
           None \<Rightarrow> Inl (GoErr ''setting PodMonitor spec.selector.matchLabels'')
         | Some o1 \<Rightarrow>
             (case setNested (JArr [monitorEndpoint node]) [''spec'', ''podMetricsEndpoints''] o1 of
                None \<Rightarrow> Inl (GoErr ''setting PodMonitor spec.podMetricsEndpoints'')
              | Some o2 \<Rightarrow> Inr (pm\<lparr>pnObject := o2\<rparr>)))"

definition mutatePodMonitor ::
    "(ObjectMeta \<Rightarrow> goerr + ObjectMeta) \<Rightarrow> ChainInstance \<Rightarrow> PodMonitor \<Rightarrow> goerr + PodMonitor" where
  "mutatePodMonitor setOwner node pm = (case applyPodMonitorSpec node pm of
     Inl err \<Rightarrow> Inl err
   | Inr pm' \<Rightarrow> (case setOwner (pnMeta pm') of Inl err \<Rightarrow> Inl err | Inr m \<Rightarrow> Inr (pm'\<lparr>pnMeta := m\<rparr>)))"

definition deletePodMonitor :: "('w, 'x) workload_ctl_scheme \<Rightarrow> ChainInstance \<Rightarrow> ('w, goerr + unit) state" where
  "deletePodMonitor C node = do {
     d \<leftarrow> wDeleteMonitor C (nodeNamespace node) (nodeName node);
     ret (case d of
         Inr _ \<Rightarrow> Inr ()
       | Inl err \<Rightarrow> if IsNotFound err \<or> isPodMonitorCRDMissing C err then Inr ()
                    else Inl (WrapErr (''deleting PodMonitor for '' @ nodeText node) err)) }"

definition ensurePodMonitor ::
    "('w, 'x) workload_ctl_scheme \<Rightarrow> ChainInstance \<Rightarrow> 'w ChainAdapter \<Rightarrow> ('w, goerr + unit) state" where
  "ensurePodMonitor C node adapter =
     (if \<not> (pmEnabled (moPodMonitor (spMonitoring (ciSpec node))) \<and> adapterMetricsPort adapter (ciSpec node) \<noteq> None)
      then deletePodMonitor C node
      else do {
        r \<leftarrow> wUpsertMonitor C \<lparr>pnMeta = objectMeta (nodeNamespace node) (nodeName node), pnObject = []\<rparr>
              (mutatePodMonitor (wSetOwner C node) node);
        ret (case r of
            Inr _ \<Rightarrow> Inr ()
          | Inl err \<Rightarrow> if isPodMonitorCRDMissing C err then Inr () else wrapUpsert ''PodMonitor'' node r) })"

subsection \<open>The StatefulSet converges\<close>

lemma update_fresh: "map_of m k = None \<Longrightarrow> AList.update k v m = m @ [(k, v)]"
  by (induction m) (auto split: if_splits)

lemma keepAnnotations_Nil [simp]: "keepAnnotations [] des = des"
  by (simp add: keepAnnotations_def)

lemma keepAnnotations_Cons:
  "keepAnnotations ((k, v) # ex) des =
     keepAnnotations ex (if map_of des k = None then des @ [(k, v)] else des)"
  by (simp add: keepAnnotations_def update_fresh)

lemma map_of_keepAnnotations: "map_of (keepAnnotations ex des) = map_of ex ++ map_of des"
proof (induction ex arbitrary: des)
  case (Cons kv ex)
  show ?case
  proof (cases kv)
    case (Pair k v)
    show ?thesis
      unfolding Pair keepAnnotations_Cons Cons.IH
      by (auto simp: fun_eq_iff map_add_def map_of_append split: option.splits)
  qed
qed simp

lemma keepAnnotations_prefix:
  "\<exists>rest. keepAnnotations ex des = des @ rest \<and> fst ` set rest \<inter> fst ` set des = {} \<and> distinct (map fst rest)"
proof (induction ex arbitrary: des)
  case (Cons kv ex)
  obtain k v where kv: "kv = (k, v)" by (cases kv)
  show ?case
  proof (cases "map_of des k")
    case None
    obtain rest where r: "keepAnnotations ex (des @ [(k, v)]) = (des @ [(k, v)]) @ rest"
      "fst ` set rest \<inter> fst ` set (des @ [(k, v)]) = {}" "distinct (map fst rest)"
      using Cons.IH by blast
    then have "keepAnnotations (kv # ex) des = des @ ((k, v) # rest)"
      using None by (simp add: kv keepAnnotations_Cons)
    with r(2,3) None show ?thesis
      by (intro exI [of _ "(k, v) # rest"]) (auto simp: map_of_eq_None_iff)
  next
    case (Some x)
    then show ?thesis using Cons.IH [of des] by (simp add: kv keepAnnotations_Cons)
  qed
qed simp

lemma keepAnnotations_known:
  "fst ` set ex \<subseteq> fst ` set des \<Longrightarrow> keepAnnotations (ex @ rest) des = keepAnnotations rest des"
proof (induction ex)
  case (Cons kv ex)
  then show ?case by (cases kv) (auto simp: keepAnnotations_Cons map_of_eq_None_iff)
qed simp

lemma keepAnnotations_fresh:
  "distinct (map fst rest) \<Longrightarrow> fst ` set rest \<inter> fst ` set des = {} \<Longrightarrow> keepAnnotations rest des = des @ rest"
proof (induction rest arbitrary: des)
  case (Cons kv rest)
  then have "keepAnnotations rest (des @ [kv]) = (des @ [kv]) @ rest"
    by (intro Cons.IH) auto
  with Cons.prems show ?case by (cases kv) (auto simp: keepAnnotations_Cons map_of_eq_None_iff)
qed simp

lemma keepAnnotations_idem: "keepAnnotations (keepAnnotations ex des) des = keepAnnotations ex des"
proof -
  obtain rest where r: "keepAnnotations ex des = des @ rest"
    "fst ` set rest \<inter> fst ` set des = {}" "distinct (map fst rest)"
    using keepAnnotations_prefix by blast
  then show ?thesis
    by (simp add: keepAnnotations_known keepAnnotations_fresh)
qed

text \<open>
  C28: The StatefulSet of a node converges to its spec in one step and then stays: whatever
  was stored, the updated object has the desired replicas, a template whose labels satisfy
  the selector, whose first container is the node with the resolved image, whose annotations
  are the configuration hash and every foreign annotation that was there; its status is
  untouched, and updating once more changes nothing when setting the owner twice is setting
  it once.
\<close>

theorem mutateStatefulSet_converges:
  assumes "mutateStatefulSet own node (buildStatefulSetSpec B registry node adapter h) sts = Inr sts'"
    and "\<And>m m'. own m = Inr m' \<Longrightarrow> own (m'\<lparr>mLabels := mLabels m\<rparr>) = Inr m'"
  shows "ssReplicas (ssSpec sts') = Some (case spReplicas (ciSpec node) of None \<Rightarrow> 1 | Some n \<Rightarrow> n) \<and>
         (\<forall>(k, v) \<in> set (ssSelector (ssSpec sts')). map_of (ptLabels (ssTemplate (ssSpec sts'))) k = Some v) \<and>
         (\<exists>c cs. psContainers (ptSpec (ssTemplate (ssSpec sts'))) = c # cs \<and> ctName c = mainContainerName \<and>
                 ctImage c = resolveContainerImage node adapter) \<and>
         map_of (ptAnnotations (ssTemplate (ssSpec sts'))) =
           (map_of (ptAnnotations (ssTemplate (ssSpec sts))))(configHashAnnotation \<mapsto> h) \<and>
         ssReadyReplicas sts' = ssReadyReplicas sts \<and> ssUpdatedReplicas sts' = ssUpdatedReplicas sts \<and>
         mutateStatefulSet own node (buildStatefulSetSpec B registry node adapter h) sts' = Inr sts'"
proof -
  let ?d = "buildStatefulSetSpec B registry node adapter h"
  let ?anns = "keepAnnotations (ptAnnotations (ssTemplate (ssSpec sts))) (ptAnnotations (ssTemplate ?d))"
  from assms(1) obtain m where m: "own ((ssMeta sts)\<lparr>mLabels := coreLabels node\<rparr>) = Inr m"
    and sts': "sts' = sts\<lparr>ssSpec := ?d\<lparr>ssTemplate := (ssTemplate ?d)\<lparr>ptAnnotations := ?anns\<rparr>\<rparr>, ssMeta := m\<rparr>"
    by (auto simp: mutateStatefulSet_def Let_def split: sum.splits)
  have again: "own (m\<lparr>mLabels := coreLabels node\<rparr>) = Inr m"
    using assms(2) [OF m] by simp
  have "mutateStatefulSet own node ?d sts' = Inr sts'"
    by (simp add: mutateStatefulSet_def Let_def sts' again keepAnnotations_idem)
  then show ?thesis
    by (simp add: sts' buildStatefulSetSpec_def RenderPodTemplate_def podContainers_def selectorLabels_def
          coreLabels_def map_of_keepAnnotations Let_def)
qed

theorem mutateStatefulSet_converges_witness:
  "\<forall>adapter :: nat ChainAdapter. \<exists>sts'.
     (let desired = buildStatefulSetSpec \<lparr>sbGetenv = (\<lambda>_. []), sbRestoreImageTag = ''latest'', sbBootstrapPy = []\<rparr>
            [] zero_node adapter ''0a1b2c3d'' in
      mutateStatefulSet Inr zero_node desired (zero_sts ''ns'' ''btc'') = Inr sts' \<and>
      ssReplicas (ssSpec sts') = Some 1 \<and> mutateStatefulSet Inr zero_node desired sts' = Inr sts')"
proof
  fix adapter :: "nat ChainAdapter"
  let ?B = "\<lparr>sbGetenv = (\<lambda>_. []), sbRestoreImageTag = ''latest'', sbBootstrapPy = []\<rparr>"
  let ?d = "buildStatefulSetSpec ?B [] zero_node adapter ''0a1b2c3d''"
  obtain sts' where sts': "mutateStatefulSet Inr zero_node ?d (zero_sts ''ns'' ''btc'') = Inr sts'"
    by (simp add: mutateStatefulSet_def Let_def)
  from mutateStatefulSet_converges [OF sts'] sts'
  show "\<exists>sts'. let desired = ?d in mutateStatefulSet Inr zero_node desired (zero_sts ''ns'' ''btc'') = Inr sts' \<and>
      ssReplicas (ssSpec sts') = Some 1 \<and> mutateStatefulSet Inr zero_node desired sts' = Inr sts'"
    by (intro exI [of _ sts']) (simp add: Let_def zero_node_def zero_spec_def)
qed

subsection \<open>Generated credentials\<close>

lemma base64_alphabet_facts:
  "length base64url_alphabet = 64 \<and> distinct base64url_alphabet"
  by code_simp

lemma b64_inject: "m < 64 \<Longrightarrow> n < 64 \<Longrightarrow> b64 m = b64 n \<longleftrightarrow> m = n"
  using base64_alphabet_facts by (simp add: b64_def nth_eq_iff_index_eq)

definition bytes :: "nat list \<Rightarrow> bool" where
  "bytes bs \<longleftrightarrow> (\<forall>b\<in>set bs. b < 256)"

lemma bytes_simps [simp]: "bytes []" "bytes (b # bs) \<longleftrightarrow> b < 256 \<and> bytes bs"
  by (auto simp: bytes_def)

lemma digit_split:
  fixes p q x y n :: nat
  assumes "p < n" "q < n" "x * n + p = y * n + q"
  shows "x = y \<and> p = q"
proof -
  have "(x * n + p) div n = x" "(y * n + q) div n = y" using assms(1,2) by simp_all
  with assms(3) have "x = y" by simp
  with assms(3) show ?thesis by simp
qed

lemma div_mod_same: "(m::nat) div n = m' div n \<Longrightarrow> m mod n = m' mod n \<Longrightarrow> m = m'"
  by (metis div_mult_mod_eq)

lemma b64_group:
  assumes "a < 256" "b < 256" "a' < 256" "b' < 256"
    and "b64 (a div 4) = b64 (a' div 4)" "b64 (a mod 4 * 16 + b div 16) = b64 (a' mod 4 * 16 + b' div 16)"
  shows "a = a' \<and> b div 16 = b' div 16"
proof -
  have "a div 4 < 64" "a' div 4 < 64" "a mod 4 * 16 + b div 16 < 64" "a' mod 4 * 16 + b' div 16 < 64"
    using assms(1-4) by simp_all
  with assms(5,6) have "a div 4 = a' div 4" "a mod 4 * 16 + b div 16 = a' mod 4 * 16 + b' div 16"
    by (simp_all add: b64_inject)
  moreover have "b div 16 < 16" "b' div 16 < 16" using assms by (simp_all add: div_less_iff_less_mult)
  ultimately have "a div 4 = a' div 4" "a mod 4 = a' mod 4" "b div 16 = b' div 16"
    using digit_split [of "b div 16" 16 "b' div 16"] by blast+
  then show ?thesis by (blast intro: div_mod_same)
qed

lemma b64_tail:
  assumes "c < 256" "c' < 256" "b div 16 = b' div 16"
    and "b64 (b mod 16 * 4 + c div 64) = b64 (b' mod 16 * 4 + c' div 64)"
  shows "b = b' \<and> c div 64 = c' div 64"
proof -
  have c: "c div 64 < 4" "c' div 64 < 4" using assms(1,2) by (simp_all add: div_less_iff_less_mult)
  have "b mod 16 < 16" "b' mod 16 < 16" by simp_all
  with c have "b mod 16 * 4 + c div 64 < 64" "b' mod 16 * 4 + c' div 64 < 64" by linarith+
  with assms(4) have "b mod 16 * 4 + c div 64 = b' mod 16 * 4 + c' div 64" by (simp add: b64_inject)
  with c digit_split [of "c div 64" 4 "c' div 64"] have "b mod 16 = b' mod 16" "c div 64 = c' div 64" by blast+
  with assms(3) show ?thesis by (blast intro: div_mod_same)
qed

lemma b64_low: "b64 c = b64 c' \<Longrightarrow> c mod 64 = c' mod 64"
  using b64_inject [of "c mod 64" "c' mod 64"] by (simp add: b64_def)

lemma base64_rawurl_inject:
  "bytes xs \<Longrightarrow> bytes ys \<Longrightarrow> length xs = length ys \<Longrightarrow> base64_rawurl xs = base64_rawurl ys \<Longrightarrow> xs = ys"
proof (induction xs arbitrary: ys rule: base64_rawurl.induct)
  case (1 a b c bs)
  from "1.prems"(3) obtain a' b' c' bs' where ys: "ys = a' # b' # c' # bs'"
    by (auto simp: length_Suc_conv Suc_length_conv)
  note p = "1.prems" [unfolded ys, simplified]
  from p have ab: "a = a' \<and> b div 16 = b' div 16" by (intro b64_group) simp_all
  with p have bc: "b = b' \<and> c div 64 = c' div 64" by (intro b64_tail) simp_all
  from p have "c mod 64 = c' mod 64" by (intro b64_low) simp
  with bc have "c = c'" by (blast intro: div_mod_same)
  moreover from p have "bs = bs'" by (intro "1.IH") simp_all
  ultimately show ?case using ab bc ys by simp
next
  case (2 a b)
  from "2.prems"(3) obtain a' b' where ys: "ys = [a', b']" by (auto simp: length_Suc_conv Suc_length_conv)
  note p = "2.prems" [unfolded ys, simplified]
  from p have ab: "a = a' \<and> b div 16 = b' div 16" by (intro b64_group) simp_all
  with p have "b = b' \<and> (0::nat) div 64 = 0 div 64" by (intro b64_tail) simp_all
  with ab ys show ?case by simp
next
  case (3 a)
  from "3.prems"(3) obtain a' where ys: "ys = [a']" by (auto simp: length_Suc_conv Suc_length_conv)
  note p = "3.prems" [unfolded ys, simplified]
  from p have "a = a' \<and> (0::nat) div 16 = 0 div 16" by (intro b64_group) simp_all
  with ys show ?case by simp
qed simp

lemma digit_char_inject: "d < 16 \<Longrightarrow> e < 16 \<Longrightarrow> digit_char d = digit_char e \<longleftrightarrow> d = e"
  by (metis digit_val_char option.inject)

lemma byte_nibbles: "(b::nat) < 256 \<Longrightarrow> b div 16 < 16"
  by (simp add: div_less_iff_less_mult)

lemma hex_encode_simps [simp]:
  "hex_encode [] = []"
  "hex_encode (b # bs) = digit_char (b div 16) # digit_char (b mod 16) # hex_encode bs"
  by (simp_all add: hex_encode_def)

lemma hex_encode_decodable: "bytes bs \<Longrightarrow> hex_decodable (hex_encode bs)"
  by (induction bs) (auto simp: hex_decodable_def is_digit_def digit_val_char byte_nibbles)

lemma hex_encode_inject: "bytes xs \<Longrightarrow> bytes ys \<Longrightarrow> hex_encode xs = hex_encode ys \<Longrightarrow> xs = ys"
proof (induction xs arbitrary: ys)
  case Nil
  then show ?case by (cases ys) auto
next
  case (Cons x xs)
  then show ?case
    by (cases ys) (auto simp: digit_char_inject byte_nibbles dest: div_mod_same)
qed

lemma base64_nonempty: "bs \<noteq> [] \<Longrightarrow> base64_rawurl bs \<noteq> []"
  by (cases bs rule: base64_rawurl.cases) auto

text \<open>
  Generated RPC credentials are usable and keep all of their randomness: for every
  non-empty random password and every salt, the Secret the controller writes passes the
  validation it applies on reading it back, and different random bytes give different
  credentials.
\<close>

theorem generated_credentials_valid:
  assumes "bytes password" "bytes salt" "password \<noteq> []"
  shows "checkedCreds node (rpcSecret node password salt) = Inr (secretCreds (rpcSecret node password salt)) \<and>
         (\<forall>password' salt'. bytes password' \<and> bytes salt' \<and> length password' = length password \<and>
            secretCreds (rpcSecret node password' salt') = secretCreds (rpcSecret node password salt) \<longrightarrow>
            password' = password \<and> salt' = salt)"
proof -
  have "creds_Validate (secretCreds (rpcSecret node password salt)) = Inr ()"
    using assms hex_encode_decodable [OF assms(2)] base64_nonempty [OF assms(3)]
    by (simp add: creds_Validate_def secretCreds_def rpcSecret_def isSpaceOrControl_def)
  moreover have "password' = password \<and> salt' = salt"
    if "bytes password'" "bytes salt'" "length password' = length password"
       "secretCreds (rpcSecret node password' salt') = secretCreds (rpcSecret node password salt)" for password' salt'
    using that assms base64_rawurl_inject [of password' password] hex_encode_inject [of salt' salt]
    by (simp add: secretCreds_def rpcSecret_def)
  ultimately show ?thesis unfolding checkedCreds_def by (metis sum.simps(6))
qed

theorem generated_credentials_valid_witness:
  "\<exists>c. checkedCreds zero_node (rpcSecret zero_node (replicate 32 255) (replicate 16 0)) = Inr c"
  using generated_credentials_valid [of "replicate 32 255" "replicate 16 0" zero_node] by (auto simp: bytes_def)

end
