(* ===== verification/Upgrade.thy ===== *)
theory Upgrade
  imports Workload
begin

text \<open>
  \<open>internal/controller/upgrade.go\<close>: detection of image and client changes, the rolling restart
  and its rollback. The functions return the ChainInstance as it is in memory afterwards,
  because later steps of the same reconciliation go on with it.
\<close>

abbreviation (input) annotationLastImage :: string where
  "annotationLastImage \<equiv> ''chains.chainplane.io/last-image''"
abbreviation (input) annotationLastClient :: string where
  "annotationLastClient \<equiv> ''chains.chainplane.io/last-client''"
abbreviation (input) annotationRestartedAt :: string where
  "annotationRestartedAt \<equiv> ''chains.chainplane.io/restarted-at''"
abbreviation (input) annotationPreviousImage :: string where
  "annotationPreviousImage \<equiv> ''chains.chainplane.io/previous-image''"
abbreviation (input) ConditionUpgrading :: string where "ConditionUpgrading \<equiv> ''Upgrading''"

definition crashLoopRestartThreshold :: int where "crashLoopRestartThreshold = 3"

abbreviation stsAnnotations :: "StatefulSet \<Rightarrow> strmap" where
  "stsAnnotations sts \<equiv> mAnnotations (ssMeta sts)"

definition upd_template :: "(PodTemplateSpec \<Rightarrow> PodTemplateSpec) \<Rightarrow> StatefulSet \<Rightarrow> StatefulSet" where
  "upd_template f sts = sts\<lparr>ssSpec := (ssSpec sts)\<lparr>ssTemplate := f (ssTemplate (ssSpec sts))\<rparr>\<rparr>"

definition upd_sts_annotations :: "(strmap \<Rightarrow> strmap) \<Rightarrow> StatefulSet \<Rightarrow> StatefulSet" where
  "upd_sts_annotations f sts = sts\<lparr>ssMeta := (ssMeta sts)\<lparr>mAnnotations := f (stsAnnotations sts)\<rparr>\<rparr>"

subsection \<open>Conditions that are written through\<close>

fun merge_condition :: "Condition \<Rightarrow> Condition list \<Rightarrow> Condition list" where
  "merge_condition cond [] = [cond]"
| "merge_condition cond (c # cs) =
     (if cdType c \<noteq> cdType cond then c # merge_condition cond cs
      else if cdStatus c \<noteq> cdStatus cond then cond # cs
      else c\<lparr>cdReason := cdReason cond, cdMessage := cdMessage cond, cdObserved := cdObserved cond\<rparr> # cs)"

definition upgrade_setCondition ::
    "('w, 'x) ctl_scheme \<Rightarrow> ChainInstance \<Rightarrow> string \<Rightarrow> ConditionStatus \<Rightarrow> string \<Rightarrow> string \<Rightarrow>
     ('w, goerr + ChainInstance) state" where
  "upgrade_setCondition C node condType status reason message = do {
     now \<leftarrow> gNow C;
     let cond = \<lparr>cdType = condType, cdStatus = status, cdReason = reason, cdMessage = message,
                 cdTransition = now, cdObserved = mGeneration (ciMeta node)\<rparr>;
     cPatchStatus C node (upd_status (\<lambda>s. s\<lparr>csConditions := merge_condition cond (csConditions s)\<rparr>) node) }"

subsection \<open>Change detection and restart\<close>

definition resolveImageForUpgrade :: "ChainInstance \<Rightarrow> string" where
  "resolveImageForUpgrade node =
     (let synthetic = spChain (ciSpec node) @ ''/'' @ spClient (ciSpec node) in
      case spImage (ciSpec node) of
        None \<Rightarrow> synthetic
      | Some im \<Rightarrow> if imRepository im \<noteq> [] then imRepository im @ '':'' @ imTag im else synthetic)"

definition restartedSTS :: "string \<Rightarrow> string \<Rightarrow> string \<Rightarrow> time \<Rightarrow> StatefulSet \<Rightarrow> StatefulSet" where
  "restartedSTS newImage newClient previousImage now sts =
     upd_template (\<lambda>t. t\<lparr>ptAnnotations := mset_key annotationRestartedAt (FormatRFC3339 0 now) (ptAnnotations t)\<rparr>)
       (upd_sts_annotations
          (\<lambda>a. mset_key annotationLastClient newClient (mset_key annotationLastImage newImage
                 (if previousImage \<noteq> [] then mset_key annotationPreviousImage previousImage a else a))) sts)"

definition patchSTS ::
    "('w, 'x) workload_ctl_scheme \<Rightarrow> string \<Rightarrow> StatefulSet \<Rightarrow> StatefulSet \<Rightarrow> ('w, goerr + StatefulSet) state" where
  "patchSTS C why base sts = do {
     r \<leftarrow> wPatchSTS C base sts;
     ret (case r of
         Inl err \<Rightarrow> Inl (WrapErr (''patching StatefulSet '' @ mNamespace (ssMeta sts) @ ''/'' @ mName (ssMeta sts) @
                                  '' for '' @ why) err)
       | Inr sts' \<Rightarrow> Inr sts') }"

definition startRollingRestart ::
    "('w, 'x) workload_ctl_scheme \<Rightarrow> ChainInstance \<Rightarrow> StatefulSet \<Rightarrow> string \<Rightarrow> string \<Rightarrow> string \<Rightarrow>
     ('w, goerr + ChainInstance) state" where
  "startRollingRestart C node sts newImage newClient previousImage = do {
     c \<leftarrow> upgrade_setCondition C node ConditionUpgrading ConditionTrue ''RollingRestart''
            ''Image or client changed, rolling restart in progress'';
     case c of
       Inl err \<Rightarrow> ret (Inl err)
     | Inr node' \<Rightarrow> do {
         now \<leftarrow> gNow C;
         r \<leftarrow> patchSTS C ''rolling restart'' sts (restartedSTS newImage newClient previousImage now sts);
         ret (case r of Inl err \<Rightarrow> Inl err | Inr _ \<Rightarrow> Inr node') } }"

subsection \<open>Crash loops and rollback\<close>

definition crashLooping :: "string \<Rightarrow> ContainerStatus \<Rightarrow> bool" where
  "crashLooping targetImage cs \<longleftrightarrow> csName cs = mainContainerName \<and> crashLoopRestartThreshold \<le> csRestartCount cs \<and>
     csWaitingReason cs = Some ''CrashLoopBackOff'' \<and> csImage cs = targetImage"

definition hasCrashLoop ::
    "('w, 'x) workload_ctl_scheme \<Rightarrow> ChainInstance \<Rightarrow> string \<Rightarrow> ('w, bool) state" where
  "hasCrashLoop C node targetImage = do {
     r \<leftarrow> wListPods C (nodeNamespace node) (selectorLabels node);
     ret (case r of
         Inl _ \<Rightarrow> False
       | Inr pods \<Rightarrow> list_ex (\<lambda>p. list_ex (crashLooping targetImage) (stContainerStatuses (podStatus p))) pods) }"

fun set_first_image :: "string \<Rightarrow> Container list \<Rightarrow> Container list" where
  "set_first_image img [] = []"
| "set_first_image img (c # cs) =
     (if ctName c = mainContainerName then c\<lparr>ctImage := img\<rparr> # cs else c # set_first_image img cs)"

definition rolledBackSTS :: "string \<Rightarrow> time \<Rightarrow> StatefulSet \<Rightarrow> StatefulSet" where
  "rolledBackSTS previousImage now sts =
     upd_template
       (\<lambda>t. t\<lparr>ptSpec := (ptSpec t)\<lparr>psContainers := set_first_image previousImage (psContainers (ptSpec t))\<rparr>,
              ptAnnotations := mset_key annotationRestartedAt (FormatRFC3339 0 now) (ptAnnotations t)\<rparr>)
       (upd_sts_annotations (mset_key annotationLastImage previousImage) sts)"

definition rollback ::
    "('w, 'x) workload_ctl_scheme \<Rightarrow> ChainInstance \<Rightarrow> StatefulSet \<Rightarrow> ('w, goerr + ChainInstance) state" where
  "rollback C node sts =
     (let previousImage = mget (stsAnnotations sts) annotationPreviousImage in do {
        p \<leftarrow> (if previousImage = [] then ret (Inr ())
              else do {
                now \<leftarrow> gNow C;
                r \<leftarrow> patchSTS C ''rollback'' sts (rolledBackSTS previousImage now sts);
                ret (case r of Inl err \<Rightarrow> Inl err | Inr _ \<Rightarrow> Inr ()) });
        case p of
          Inl err \<Rightarrow> ret (Inl err)
        | Inr _ \<Rightarrow> do {
            c \<leftarrow> upgrade_setCondition C node ConditionUpgrading ConditionFalse ''RollbackTriggered''
                   ''CrashLoopBackOff detected, rolled back to previous version'';
            case c of
              Inl err \<Rightarrow> ret (Inl err)
            | Inr node' \<Rightarrow> cPatchStatus C node' (upd_status (\<lambda>s. s\<lparr>csPhase := NodePhaseDegraded\<rparr>) node') } })"

definition verifyRolloutHealth ::
    "('w, 'x) workload_ctl_scheme \<Rightarrow> ChainInstance \<Rightarrow> StatefulSet \<Rightarrow> ('w, goerr + ChainInstance) state" where
  "verifyRolloutHealth C node sts =
     (if (case findCondition (csConditions (ciStatus node)) ConditionUpgrading of
            None \<Rightarrow> True | Some c \<Rightarrow> cdStatus c \<noteq> ConditionTrue)
      then ret (Inr node)
      else
        (let replicas = (case ssReplicas (ssSpec sts) of None \<Rightarrow> 1 | Some n \<Rightarrow> n) in
         if ssReadyReplicas sts = replicas \<and> ssUpdatedReplicas sts = replicas then do {
           c \<leftarrow> upgrade_setCondition C node ConditionUpgrading ConditionFalse ''RolloutComplete''
                  ''All replicas are ready after upgrade'';
           case c of
             Inl err \<Rightarrow> ret (Inl err)
           | Inr node' \<Rightarrow> upgrade_setCondition C node' ConditionReady ConditionTrue ''Healthy''
                            ''Node is healthy after upgrade'' }
         else do {
           crash \<leftarrow> hasCrashLoop C node (resolveImageForUpgrade node);
           if crash then rollback C node sts else ret (Inr node) }))"

definition reconcileUpgrade ::
    "('w, 'x) workload_ctl_scheme \<Rightarrow> ChainInstance \<Rightarrow> ('w, goerr + ChainInstance) state" where
  "reconcileUpgrade C node = do {
     g \<leftarrow> wGetSTS C (nodeNamespace node) (nodeName node);
     case g of
       Inl err \<Rightarrow> ret (case IgnoreNotFound err of Inl err \<Rightarrow> Inl err | Inr _ \<Rightarrow> Inr node)
     | Inr sts \<Rightarrow>
         (let wantImage = resolveImageForUpgrade node; wantClient = spClient (ciSpec node); ann = stsAnnotations sts in
          if mget ann annotationLastImage = wantImage \<and> mget ann annotationLastClient = wantClient
          then verifyRolloutHealth C node sts
          else startRollingRestart C node sts wantImage wantClient (mget ann annotationLastImage)) }"

subsection \<open>What the API server promises about StatefulSets\<close>

text \<open>
  The server stores what it is sent up to defaulting: the annotations of the object and of
  its pod template and the names and images of the containers are those sent.
\<close>

definition images :: "StatefulSet \<Rightarrow> (string \<times> string) list" where
  "images sts = map (\<lambda>c. (ctName c, ctImage c)) (psContainers (ptSpec (ssTemplate (ssSpec sts))))"

definition sts_agrees :: "StatefulSet \<Rightarrow> StatefulSet \<Rightarrow> bool" where
  "sts_agrees sent stored \<longleftrightarrow> same_map (stsAnnotations sent) (stsAnnotations stored) \<and>
     same_map (ptAnnotations (ssTemplate (ssSpec sent))) (ptAnnotations (ssTemplate (ssSpec stored))) \<and>
     images sent = images stored \<and> mNamespace (ssMeta sent) = mNamespace (ssMeta stored) \<and>
     mName (ssMeta sent) = mName (ssMeta stored)"

abbreviation stsKey :: "StatefulSet \<Rightarrow> objkey" where
  "stsKey sts \<equiv> (mNamespace (ssMeta sts), mName (ssMeta sts))"

locale sts_api =
  fixes C :: "'w workload_ctl" and V :: "'w \<Rightarrow> objkey \<Rightarrow> StatefulSet option"
  assumes owner_law: "wSetOwner C node m = Inr m' \<Longrightarrow>
        mAnnotations m' = mAnnotations m \<and> mNamespace m' = mNamespace m \<and> mName m' = mName m"
    and upsert_law: "wp (wUpsertSTS C z f) (\<lambda>r w'. case r of
          Inl _ \<Rightarrow> V w' = V w
        | Inr _ \<Rightarrow> (\<exists>s s'. f (case V w (stsKey z) of None \<Rightarrow> z | Some old \<Rightarrow> old) = Inr s \<and> sts_agrees s s' \<and>
                         V w' = (V w)(stsKey z \<mapsto> s'))) w"
    and get_law: "wp (wGetSTS C ns name) (\<lambda>r w'. V w' = V w \<and>
          (case r of Inr s \<Rightarrow> V w (ns, name) = Some s | Inl e \<Rightarrow> IsNotFound e \<longrightarrow> V w (ns, name) = None)) w"
    and patch_law: "V w (stsKey b) = Some b \<Longrightarrow> stsKey s = stsKey b \<Longrightarrow>
          wp (wPatchSTS C b s) (\<lambda>r w'. case r of
            Inl _ \<Rightarrow> V w' = V w
          | Inr s' \<Rightarrow> sts_agrees s s' \<and> V w' = (V w)(stsKey b \<mapsto> s')) w"
    and keyed: "V w k = Some s \<Longrightarrow> stsKey s = k"
    and now_kept: "unchanged V (gNow C)"
    and status_kept: "unchanged V (cPatchStatus C nb nn)"
    and pods_kept_law: "unchanged V (wListPods C ns labels)"
begin

lemma condition_kept: "unchanged V (upgrade_setCondition C node t s r m)"
  unfolding unchanged_def upgrade_setCondition_def Let_def
  by (auto intro!: unchangedD [OF now_kept] unchangedD [OF status_kept])

lemma patched:
  assumes "V w (stsKey b) = Some b" "stsKey s = stsKey b"
    "\<And>e w'. V w' = V w \<Longrightarrow> Q (Inl e) w'"
    "\<And>s' w'. sts_agrees s s' \<Longrightarrow> V w' = (V w)(stsKey b \<mapsto> s') \<Longrightarrow> Q (Inr s') w'"
  shows "wp (patchSTS C why b s) Q w"
  unfolding patchSTS_def using assms(3,4)
  by (auto intro!: wp_mono [OF patch_law [OF assms(1,2)]] split: sum.splits)

lemma restartedSTS_simps [simp]:
  "mNamespace (ssMeta (restartedSTS i c p t s)) = mNamespace (ssMeta s)"
  "mName (ssMeta (restartedSTS i c p t s)) = mName (ssMeta s)" "images (restartedSTS i c p t s) = images s"
  "mget (stsAnnotations (restartedSTS i c p t s)) annotationLastImage = i"
  "mget (stsAnnotations (restartedSTS i c p t s)) annotationLastClient = c"
  by (simp_all add: restartedSTS_def upd_template_def upd_sts_annotations_def images_def)

lemma agrees_mget: "sts_agrees s s' \<Longrightarrow> mget (stsAnnotations s') = mget (stsAnnotations s)"
  unfolding sts_agrees_def by (metis same_map_mget)

lemma agrees_images: "sts_agrees s s' \<Longrightarrow> images s' = images s"
  by (simp add: sts_agrees_def)

text \<open>A restart records the new image and client and leaves the containers as they are.\<close>

lemma startRollingRestart_records:
  assumes "V w k = Some sts"
  shows "wp (startRollingRestart C node sts i c p)
           (\<lambda>r w'. ok r \<longrightarrow> (\<exists>s. V w' k = Some s \<and> images s = images sts \<and>
              mget (stsAnnotations s) annotationLastImage = i \<and> mget (stsAnnotations s) annotationLastClient = c)) w"
proof -
  have k: "k = stsKey sts" using keyed [OF assms] by simp
  show ?thesis
    unfolding startRollingRestart_def using assms
    by (auto intro!: unchangedD [OF condition_kept] unchangedD [OF now_kept] patched
          simp: k agrees_mget agrees_images split: sum.splits)
qed

text \<open>The upsert writes the resolved image and keeps the annotations of the object.\<close>

lemma ensureStatefulSet_writes:
  "wp (ensureStatefulSet B registry C node adapter h)
           (\<lambda>r w'. ok r \<longrightarrow> (\<exists>s imgs. V w' (nodeNamespace node, nodeName node) = Some s \<and>
              images s = (mainContainerName, resolveContainerImage node adapter) # imgs \<and>
              mget (stsAnnotations s) = mget (stsAnnotations
                (case V w (nodeNamespace node, nodeName node) of
                   None \<Rightarrow> zero_sts (nodeNamespace node) (nodeName node) | Some old \<Rightarrow> old)))) w"
proof -
  let ?f = "mutateStatefulSet (wSetOwner C node) node (buildStatefulSetSpec B registry node adapter h)"
  have written: "(\<exists>imgs. images s = (mainContainerName, resolveContainerImage node adapter) # imgs) \<and>
      stsAnnotations s = stsAnnotations sts" if "?f sts = Inr s" for s sts
    using that owner_law
    by (auto simp: mutateStatefulSet_def buildStatefulSetSpec_def RenderPodTemplate_def podContainers_def images_def
          Let_def split: sum.splits)
  have key: "stsKey (zero_sts ns name) = (ns, name)" for ns name
    by (simp add: zero_sts_def objectMeta_def)
  show ?thesis
    unfolding ensureStatefulSet_def Let_def
    by (auto simp: key wrapUpsert_def agrees_mget agrees_images
          intro!: wp_mono [OF upsert_law] dest!: written split: sum.splits)
qed

lemma reconcileUpgrade_restarts:
  assumes "V w (nodeNamespace node, nodeName node) = Some sts"
    "mget (stsAnnotations sts) annotationLastImage \<noteq> resolveImageForUpgrade node"
  shows "wp (reconcileUpgrade C node)
           (\<lambda>r w'. ok r \<longrightarrow> (\<exists>s. V w' (nodeNamespace node, nodeName node) = Some s \<and> images s = images sts \<and>
              mget (stsAnnotations s) annotationLastImage = resolveImageForUpgrade node)) w"
proof -
  have restart: "wp (startRollingRestart C node sts i c p)
      (\<lambda>r w'. ok r \<longrightarrow> (\<exists>s. V w' (nodeNamespace node, nodeName node) = Some s \<and> images s = images sts \<and>
              mget (stsAnnotations s) annotationLastImage = i)) w'" if "V w' = V w" for w' i c p
    using assms(1) that by (auto intro!: wp_mono [OF startRollingRestart_records])
  show ?thesis
    unfolding reconcileUpgrade_def Let_def IgnoreNotFound_def
    using assms
    by (auto intro!: wp_mono [OF get_law] restart split: sum.splits)
qed

end

text \<open>One pass of the reconciliation over the StatefulSet: the upsert, then the upgrade step.\<close>

definition sts_pass ::
    "snapshot_build \<Rightarrow> 'w registry \<Rightarrow> 'w workload_ctl \<Rightarrow> ChainInstance \<Rightarrow> 'w ChainAdapter \<Rightarrow> string \<Rightarrow>
     ('w, goerr + ChainInstance) state" where
  "sts_pass B registry C node adapter h = do {
     r \<leftarrow> ensureStatefulSet B registry C node adapter h;
     case r of Inl err \<Rightarrow> ret (Inl err) | Inr _ \<Rightarrow> reconcileUpgrade C node }"

context sts_api
begin

lemma rolledBackSTS_simps [simp]:
  "mNamespace (ssMeta (rolledBackSTS p t s)) = mNamespace (ssMeta s)"
  "mName (ssMeta (rolledBackSTS p t s)) = mName (ssMeta s)"
  "mget (stsAnnotations (rolledBackSTS p t s)) annotationLastImage = p"
  by (simp_all add: rolledBackSTS_def upd_template_def upd_sts_annotations_def)

lemma rollback_records:
  assumes "V w k = Some sts" "mget (stsAnnotations sts) annotationPreviousImage \<noteq> []"
  shows "wp (rollback C node sts)
           (\<lambda>r w'. ok r \<longrightarrow> (\<exists>s. V w' k = Some s \<and>
              mget (stsAnnotations s) annotationLastImage = mget (stsAnnotations sts) annotationPreviousImage)) w"
proof -
  have k: "k = stsKey sts" using keyed [OF assms(1)] by simp
  show ?thesis
    unfolding rollback_def Let_def using assms
    by (auto intro!: unchangedD [OF condition_kept] unchangedD [OF now_kept] unchangedD [OF status_kept] patched
          simp: k agrees_mget split: sum.splits)
qed

lemma pass_restarts:
  assumes "V w (nodeNamespace node, nodeName node) = Some sts"
    "mget (stsAnnotations sts) annotationLastImage \<noteq> resolveImageForUpgrade node"
  shows "wp (sts_pass B registry C node adapter h)
           (\<lambda>r w'. ok r \<longrightarrow> (\<exists>s imgs. V w' (nodeNamespace node, nodeName node) = Some s \<and>
              images s = (mainContainerName, resolveContainerImage node adapter) # imgs \<and>
              mget (stsAnnotations s) annotationLastImage = resolveImageForUpgrade node)) w"
  unfolding sts_pass_def
  by (auto intro!: wp_mono [OF ensureStatefulSet_writes] split: sum.splits)
     (auto intro!: wp_mono [OF reconcileUpgrade_restarts] simp: assms)

end

subsection \<open>Rollbacks do not last\<close>

text \<open>
  C29: A rollback is undone by the next reconciliation. Whenever the image to roll back to is
  not the one the spec asks for, a successful rollback followed by a successful pass over the
  StatefulSet leaves the main container with the image of the spec again, recorded as the
  one rolled out.
\<close>

theorem rollback_undone_by_next_pass:
  assumes "sts_api C V" "V w (nodeNamespace node, nodeName node) = Some sts"
    and "mget (stsAnnotations sts) annotationPreviousImage \<notin> {[], resolveImageForUpgrade node}"
  shows "wp (rollback C node sts)
     (\<lambda>r w1. ok r \<longrightarrow> wp (sts_pass B registry C node adapter h)
        (\<lambda>r' w2. ok r' \<longrightarrow> (\<exists>s imgs. V w2 (nodeNamespace node, nodeName node) = Some s \<and>
            images s = (mainContainerName, resolveContainerImage node adapter) # imgs \<and>
            mget (stsAnnotations s) annotationLastImage = resolveImageForUpgrade node)) w1) w"
proof (rule wp_mono [OF sts_api.rollback_records [OF assms(1,2)]], goal_cases)
  case 1
  show ?case using assms(3) by simp
next
  case (2 r w')
  show ?case
  proof
    assume "ok r"
    with 2 obtain s where "V w' (nodeNamespace node, nodeName node) = Some s"
      "mget (stsAnnotations s) annotationLastImage = mget (stsAnnotations sts) annotationPreviousImage" by blast
    with assms(3) show "wp (sts_pass B registry C node adapter h)
        (\<lambda>r' w2. ok r' \<longrightarrow> (\<exists>s imgs. V w2 (nodeNamespace node, nodeName node) = Some s \<and>
            images s = (mainContainerName, resolveContainerImage node adapter) # imgs \<and>
            mget (stsAnnotations s) annotationLastImage = resolveImageForUpgrade node)) w'"
      by (intro sts_api.pass_restarts [OF assms(1)]) auto
  qed
qed

subsection \<open>An in-memory server with StatefulSets\<close>

text \<open>Any controller client next to a store of its own.\<close>

definition lift_ctl :: "'w ctl \<Rightarrow> ('w \<times> 'l) ctl" where
  "lift_ctl C = \<lparr>
     gNow = lift_log (gNow C), gWait = (\<lambda>c d. lift_log (gWait C c d)),
     kGetNode = (\<lambda>ns n. lift_log (kGetNode C ns n)), kPatchNode = (\<lambda>b n. lift_log (kPatchNode C b n)),
     kGetPod = (\<lambda>ns n. lift_log (kGetPod C ns n)), kPatchPod = (\<lambda>b p. lift_log (kPatchPod C b p)),
     kCreatePod = (\<lambda>p. lift_log (kCreatePod C p)), kDeletePod = (\<lambda>g p. lift_log (kDeletePod C g p)),
     kGetPVC = (\<lambda>ns n. lift_log (kGetPVC C ns n)), kDeletePVC = (\<lambda>q. lift_log (kDeletePVC C q)),
     kListServices = (\<lambda>ns. lift_log (kListServices C ns)), kListSlices = (\<lambda>ns n. lift_log (kListSlices C ns n)),
     cUpdateNode = (\<lambda>n. lift_log (cUpdateNode C n)), cPatchStatus = (\<lambda>b n. lift_log (cPatchStatus C b n)),
     cPodLogs = map_option (\<lambda>f ns p c k. lift_log (f ns p c k)) (cPodLogs C)\<rparr>"

type_synonym sts_store = "(objkey \<times> StatefulSet) list"

definition store_sts :: "StatefulSet \<Rightarrow> sts_store \<Rightarrow> sts_store" where
  "store_sts s st = AList.update (stsKey s) s st"

definition sts_lookup :: "sts_store \<Rightarrow> objkey \<Rightarrow> StatefulSet option" where
  "sts_lookup st k = (case map_of st k of None \<Rightarrow> None | Some s \<Rightarrow> if stsKey s = k then Some s else None)"

text \<open>A server that stores StatefulSets as sent and has nothing else of the workload.\<close>

definition sts_server :: "'w ctl \<Rightarrow> ('w \<times> sts_store) workload_ctl" where
  "sts_server C = ctl.extend (lift_ctl C) (workload_ctl.fields
     (\<lambda>node m. Inr m)
     (\<lambda>z f. State (\<lambda>(w, st).
        case f (case sts_lookup st (stsKey z) of None \<Rightarrow> z | Some old \<Rightarrow> old) of
          Inl err \<Rightarrow> (Inl err, (w, st))
        | Inr s \<Rightarrow> if stsKey s = stsKey z then (Inr (), (w, store_sts s st))
                   else (Inl (GoErr ''mutate function cannot mutate object name and/or object namespace''), (w, st))))
     (\<lambda>z f. ret (Inr ()))
     (\<lambda>z f. ret (Inr ()))
     (\<lambda>ns n. ret (Inl notFound))
     (\<lambda>s. ret (Inl notFound))
     (\<lambda>z f. ret (Inr ()))
     (\<lambda>ns n. ret (Inl notFound))
     (\<lambda>e. False)
     (\<lambda>ns n. ret (Inl notFound))
     (\<lambda>s. ret (Inr ()))
     (\<lambda>n. ret (Inr (replicate n 0)))
     (\<lambda>ns n. State (\<lambda>(w, st). (case sts_lookup st (ns, n) of None \<Rightarrow> Inl notFound | Some s \<Rightarrow> Inr s, (w, st))))
     (\<lambda>b s. State (\<lambda>(w, st). if sts_lookup st (stsKey s) = None then (Inl notFound, (w, st)) else (Inr s, (w, store_sts s st))))
     (\<lambda>ns l. ret (Inr [])))"

lemma sts_server_simps [simp]:
  "wSetOwner (sts_server C) node m = Inr m"
  "wGetSTS (sts_server C) ns n =
     State (\<lambda>(w, st). (case sts_lookup st (ns, n) of None \<Rightarrow> Inl notFound | Some s \<Rightarrow> Inr s, (w, st)))"
  "wPatchSTS (sts_server C) b s =
     State (\<lambda>(w, st). if sts_lookup st (stsKey s) = None then (Inl notFound, (w, st)) else (Inr s, (w, store_sts s st)))"
  "wListPods (sts_server C) ns l = ret (Inr [])"
  "gNow (sts_server C) = lift_log (gNow C)"
  "cPatchStatus (sts_server C) nb nn = lift_log (cPatchStatus C nb nn)"
  by (simp_all add: sts_server_def ctl.defs workload_ctl.defs lift_ctl_def)

lemma sts_server_upsert:
  "wUpsertSTS (sts_server C) z f = State (\<lambda>(w, st).
     case f (case sts_lookup st (stsKey z) of None \<Rightarrow> z | Some old \<Rightarrow> old) of
       Inl err \<Rightarrow> (Inl err, (w, st))
     | Inr s \<Rightarrow> if stsKey s = stsKey z then (Inr (), (w, store_sts s st))
                else (Inl (GoErr ''mutate function cannot mutate object name and/or object namespace''), (w, st)))"
  by (simp add: sts_server_def ctl.defs workload_ctl.defs)

lemma sts_lookup_store [simp]: "sts_lookup (store_sts s st) = (sts_lookup st)(stsKey s \<mapsto> s)"
  by (auto simp: sts_lookup_def store_sts_def fun_eq_iff update_conv')

lemma sts_agrees_refl [simp]: "sts_agrees s s"
  by (simp add: sts_agrees_def)

interpretation sts_mem: sts_api "sts_server C" "\<lambda>(w, st). sts_lookup st" for C :: "'w ctl"
proof (unfold_locales, goal_cases)
  case (2 z f w)
  then show ?case
    by (cases w) (auto simp: sts_server_upsert intro!: exI [where P = "\<lambda>s'. sts_agrees s s' \<and> Q s s'" for s Q] split: sum.splits)
next
  case (3 ns name w)
  then show ?case by (cases w) (auto simp: notFound_def split: option.splits)
next
  case (4 w b s)
  then show ?case by (cases w) auto
next
  case (5 w k s)
  then show ?case by (cases w) (auto simp: sts_lookup_def split: option.splits if_splits)
qed (auto simp: unchanged_def intro: wp_any)

lemmas sts_server_api = sts_mem.sts_api_axioms

definition upgraded_node :: ChainInstance where
  "upgraded_node = zero_node\<lparr>ciMeta := zero_meta\<lparr>mName := ''btc'', mNamespace := ''ns''\<rparr>,
     ciSpec := zero_spec\<lparr>spChain := ChainBitcoin, spImage := Some \<lparr>imRepository = ''lncm/bitcoind'', imTag = ''v28'', imPullPolicy = []\<rparr>\<rparr>\<rparr>"

definition crashing_sts :: StatefulSet where
  "crashing_sts = (zero_sts ''ns'' ''btc'')\<lparr>ssMeta := (objectMeta ''ns'' ''btc'')\<lparr>mAnnotations :=
     [(annotationPreviousImage, ''lncm/bitcoind:v27''), (annotationLastImage, ''lncm/bitcoind:v28'')]\<rparr>\<rparr>"

theorem rollback_undone_by_next_pass_witness:
  "\<forall>(C :: nat ctl) (adapter :: (nat \<times> sts_store) ChainAdapter) B h.
     wp (rollback (sts_server C) upgraded_node crashing_sts)
       (\<lambda>r w1. ok r \<longrightarrow> wp (sts_pass B [] (sts_server C) upgraded_node adapter h)
          (\<lambda>r' w2. ok r' \<longrightarrow> (\<exists>s imgs. sts_lookup (snd w2) (''ns'', ''btc'') = Some s \<and>
              images s = (''node'', ''lncm/bitcoind:v28'') # imgs)) w1)
       (0, [((''ns'', ''btc''), crashing_sts)])"
proof (intro allI)
  fix C :: "nat ctl" and adapter :: "(nat \<times> sts_store) ChainAdapter" and B h
  let ?w = "(0 :: nat, [((''ns'', ''btc''), crashing_sts)])"
  have stored: "(\<lambda>(w, st). sts_lookup st) ?w (nodeNamespace upgraded_node, nodeName upgraded_node) = Some crashing_sts"
    by (simp add: sts_lookup_def crashing_sts_def upgraded_node_def objectMeta_def)
  have previous: "mget (stsAnnotations crashing_sts) annotationPreviousImage \<notin> {[], resolveImageForUpgrade upgraded_node}"
    by (simp add: crashing_sts_def upgraded_node_def resolveImageForUpgrade_def)
  have want: "resolveContainerImage upgraded_node adapter = ''lncm/bitcoind:v28''"
    "nodeNamespace upgraded_node = ''ns''" "nodeName upgraded_node = ''btc''"
    by (simp_all add: upgraded_node_def resolveContainerImage_def)
  show "wp (rollback (sts_server C) upgraded_node crashing_sts)
       (\<lambda>r w1. ok r \<longrightarrow> wp (sts_pass B [] (sts_server C) upgraded_node adapter h)
          (\<lambda>r' w2. ok r' \<longrightarrow> (\<exists>s imgs. sts_lookup (snd w2) (''ns'', ''btc'') = Some s \<and>
              images s = (''node'', ''lncm/bitcoind:v28'') # imgs)) w1) ?w"
    by (rule wp_mono [OF rollback_undone_by_next_pass [where C = "sts_server C" and V = "\<lambda>(w, st). sts_lookup st"
            and w = ?w and node = upgraded_node and sts = crashing_sts and B = B and registry = "[]"
            and adapter = adapter and h = h, OF sts_server_api stored previous]])
       (auto simp: want elim!: wp_mono split: prod.splits)
qed

end
