(* ===== verification/Chain_Tip.thy ===== *)
theory Chain_Tip
  imports Rpc
begin

text \<open>
  \<open>internal/controller/chain_tip.go\<close>: the public network tip of a chain, from one HTTP call per
  chain. The HTTP status is not looked at; only the body is decoded.
\<close>

abbreviation (input) tipTimeout :: duration where "tipTimeout \<equiv> 10 * Second"

definition httpGet :: "('w, 'x) rpc_env_scheme \<Rightarrow> ctx \<Rightarrow> string \<Rightarrow> ('w, goerr + http_body) state" where
  "httpGet E c url =
     (case hNewRequest E url of
        Inl err \<Rightarrow> ret (Inl err)
      | Inr _ \<Rightarrow> do {
          r \<leftarrow> hDo E c tipTimeout url;
          ret (case r of Inl err \<Rightarrow> Inl err | Inr resp \<Rightarrow> hrBody resp) })"

definition jsonRPCPost :: "('w, 'x) rpc_env_scheme \<Rightarrow> ctx \<Rightarrow> string \<Rightarrow> string \<Rightarrow> ('w, goerr + http_body) state" where
  "jsonRPCPost E c url body =
     (case hNewRequest E url of
        Inl err \<Rightarrow> ret (Inl err)
      | Inr _ \<Rightarrow> do {
          r \<leftarrow> hPost E c tipTimeout url body;
          ret (case r of Inl err \<Rightarrow> Inl err | Inr resp \<Rightarrow> hrBody resp) })"

text \<open>\<open>data, err := ...; json.Unmarshal(data, &resp)\<close> with the two error returns.\<close>

definition decodeTip ::
    "string \<Rightarrow> 'a decoder \<Rightarrow> 'a \<Rightarrow> ('a \<Rightarrow> goerr + int) \<Rightarrow> goerr + http_body \<Rightarrow> goerr + int" where
  "decodeTip what dec z k r = (case r of
     Inl err \<Rightarrow> Inl err
   | Inr body \<Rightarrow> (case unmarshal_raw dec (hbJson body) z of
       None \<Rightarrow> Inl (WrapErr (''parsing '' @ what) jsonErr)
     | Some v \<Rightarrow> k v))"

definition parseTip :: "string \<Rightarrow> goerr + int" where
  "parseTip s = (case ParseInt64 10 s of None \<Rightarrow> Inl (GoErr ''strconv.ParseInt: invalid syntax'') | Some n \<Rightarrow> Inr n)"

abbreviation (input) qt :: string where "qt \<equiv> [CHR 0x22]"

definition fetchEVMTip :: "('w, 'x) rpc_env_scheme \<Rightarrow> ctx \<Rightarrow> string \<Rightarrow> ('w, goerr + int) state" where
  "fetchEVMTip E c endpoint = do {
     r \<leftarrow> jsonRPCPost E c endpoint (''{'' @ qt @ ''jsonrpc'' @ qt @ '':'' @ qt @ ''2.0'' @ qt @ '','' @ qt @ ''method'' @ qt @ '':'' @ qt @
            ''eth_blockNumber'' @ qt @ '','' @ qt @ ''params'' @ qt @ '':[],'' @ qt @ ''id'' @ qt @ '':1}'');
     ret (decodeTip (''EVM tip from '' @ endpoint) (dec_path [''Result''] dec_string) []
            (\<lambda>s. Inr (controller_hexToInt64 s)) r) }"

definition fetchPlainHeightTip :: "('w, 'x) rpc_env_scheme \<Rightarrow> ctx \<Rightarrow> string \<Rightarrow> ('w, goerr + int) state" where
  "fetchPlainHeightTip E c url = do {
     r \<leftarrow> httpGet E c url;
     ret (decodeTip (''height from '' @ url) dec_int64 0 Inr r) }"

definition fetchDashTip :: "('w, 'x) rpc_env_scheme \<Rightarrow> ctx \<Rightarrow> ('w, goerr + int) state" where
  "fetchDashTip E c = do {
     r \<leftarrow> httpGet E c ''https://insight.dash.org/api/status?q=getBestBlockHash'';
     ret (decodeTip ''Dash tip'' (dec_path [''info'', ''blocks''] dec_int64) 0 Inr r) }"

definition fetchTronTip :: "('w, 'x) rpc_env_scheme \<Rightarrow> ctx \<Rightarrow> ('w, goerr + int) state" where
  "fetchTronTip E c = do {
     r \<leftarrow> httpGet E c ''https://api.trongrid.io/wallet/getnowblock'';
     ret (decodeTip ''TRON tip'' (dec_path [''block_header'', ''raw_data'', ''number''] dec_int64) 0 Inr r) }"

definition fetchXRPTip :: "('w, 'x) rpc_env_scheme \<Rightarrow> ctx \<Rightarrow> ('w, goerr + int) state" where
  "fetchXRPTip E c = do {
     r \<leftarrow> jsonRPCPost E c ''https://xrplcluster.com/''
            (''{'' @ qt @ ''method'' @ qt @ '':'' @ qt @ ''server_info'' @ qt @ '','' @ qt @ ''params'' @ qt @ '':[{}]}'');
     ret (decodeTip ''XRP tip'' (dec_path [''result'', ''info'', ''validated_ledger'', ''seq''] dec_int64) 0 Inr r) }"

definition fetchStellarTip :: "('w, 'x) rpc_env_scheme \<Rightarrow> ctx \<Rightarrow> ('w, goerr + int) state" where
  "fetchStellarTip E c = do {
     r \<leftarrow> httpGet E c ''https://horizon.stellar.org/ledgers?order=desc&limit=1'';
     ret (decodeTip ''Stellar tip''
            (dec_path [''_embedded'', ''records''] (dec_list (dec_path [''sequence''] dec_int64) 0)) []
            (\<lambda>recs. case recs of [] \<Rightarrow> Inl (GoErr ''no ledger records from Horizon'') | s # _ \<Rightarrow> Inr s) r) }"

definition fetchNearTip :: "('w, 'x) rpc_env_scheme \<Rightarrow> ctx \<Rightarrow> ('w, goerr + int) state" where
  "fetchNearTip E c = do {
     r \<leftarrow> jsonRPCPost E c ''https://rpc.mainnet.near.org''
            (''{'' @ qt @ ''jsonrpc'' @ qt @ '':'' @ qt @ ''2.0'' @ qt @ '','' @ qt @ ''method'' @ qt @ '':'' @ qt @ ''block'' @ qt @ '','' @ qt @
             ''params'' @ qt @ '':{'' @ qt @ ''finality'' @ qt @ '':'' @ qt @ ''final'' @ qt @ ''},'' @ qt @ ''id'' @ qt @ '':1}'');
     ret (decodeTip ''NEAR tip'' (dec_path [''result'', ''header'', ''height''] dec_int64) 0 Inr r) }"

definition fetchSuiTip :: "('w, 'x) rpc_env_scheme \<Rightarrow> ctx \<Rightarrow> ('w, goerr + int) state" where
  "fetchSuiTip E c = do {
     r \<leftarrow> jsonRPCPost E c ''https://sui-rpc.publicnode.com''
            (''{'' @ qt @ ''jsonrpc'' @ qt @ '':'' @ qt @ ''2.0'' @ qt @ '','' @ qt @ ''method'' @ qt @ '':'' @ qt @
             ''sui_getLatestCheckpointSequenceNumber'' @ qt @ '','' @ qt @ ''params'' @ qt @ '':[],'' @ qt @ ''id'' @ qt @ '':1}'');
     ret (decodeTip ''SUI tip'' (dec_path [''Result''] dec_string) [] parseTip r) }"

definition fetchTONTip :: "('w, 'x) rpc_env_scheme \<Rightarrow> ctx \<Rightarrow> ('w, goerr + int) state" where
  "fetchTONTip E c = do {
     r \<leftarrow> httpGet E c ''https://toncenter.com/api/v2/getMasterchainInfo'';
     ret (decodeTip ''TON tip'' (dec_path [''result'', ''last'', ''seqno''] dec_int64) 0 Inr r) }"

definition fetchCosmosTip :: "('w, 'x) rpc_env_scheme \<Rightarrow> ctx \<Rightarrow> ('w, goerr + int) state" where
  "fetchCosmosTip E c = do {
     r \<leftarrow> httpGet E c ''https://cosmos-rest.publicnode.com/cosmos/base/tendermint/v1beta1/blocks/latest'';
     ret (decodeTip ''Cosmos tip'' (dec_path [''block'', ''header'', ''height''] dec_string) [] parseTip r) }"

definition fetchAptosTip :: "('w, 'x) rpc_env_scheme \<Rightarrow> ctx \<Rightarrow> ('w, goerr + int) state" where
  "fetchAptosTip E c = do {
     r \<leftarrow> httpGet E c ''https://fullnode.mainnet.aptoslabs.com/v1'';
     ret (decodeTip ''Aptos tip'' (dec_path [''block_height''] dec_string) [] parseTip r) }"

definition fetchCardanoTip :: "('w, 'x) rpc_env_scheme \<Rightarrow> ctx \<Rightarrow> ('w, goerr + int) state" where
  "fetchCardanoTip E c = do {
     r \<leftarrow> httpGet E c ''https://api.koios.rest/api/v1/tip'';
     ret (decodeTip ''Cardano tip'' (dec_list (dec_path [''abs_slot''] dec_int64) 0) []
            (\<lambda>recs. case recs of [] \<Rightarrow> Inl (GoErr ''no tip records from Koios'') | s # _ \<Rightarrow> Inr s) r) }"

definition fetchPublicTip :: "('w, 'x) rpc_env_scheme \<Rightarrow> ctx \<Rightarrow> Chain \<Rightarrow> ('w, goerr + int) state" where
  "fetchPublicTip E c chain =
     (if chain = ChainEthereum \<or> chain = ChainEthereumArchive then fetchEVMTip E c ''https://ethereum.publicnode.com''
      else if chain = ChainPolygon then fetchEVMTip E c ''https://polygon-bor.publicnode.com''
      else if chain = ChainBSC then fetchEVMTip E c ''https://bsc.publicnode.com''
      else if chain = ChainAvalanche then fetchEVMTip E c ''https://avalanche-c-chain.publicnode.com''
      else if chain = ChainBitcoin then fetchPlainHeightTip E c ''https://blockstream.info/api/blocks/tip/height''
      else if chain = ChainLitecoin then fetchPlainHeightTip E c ''https://litecoinspace.org/api/blocks/tip/height''
      else if chain = ChainDash then fetchDashTip E c
      else if chain = ChainTRON then fetchTronTip E c
      else if chain = ChainXRP then fetchXRPTip E c
      else if chain = ChainStellar then fetchStellarTip E c
      else if chain = ChainNear then fetchNearTip E c
      else if chain = ChainSui then fetchSuiTip E c
      else if chain = ChainTON then fetchTONTip E c
      else if chain = ChainCosmos then fetchCosmosTip E c
      else if chain = ChainAptos then fetchAptosTip E c
      else if chain = ChainCardano then fetchCardanoTip E c
      else ret (Inl (GoErr (''no public tip endpoint for chain '' @ chain))))"

subsection \<open>Decoded tips are 64-bit\<close>

lemma Sscanf_hex_range: "in_int64 d \<Longrightarrow> in_int64 (Sscanf_hex s d)"
  by (auto simp: Sscanf_hex_def Let_def split: option.splits prod.splits dest: ParseInt64_range)

lemma hex_range: "in_int64 (controller_hexToInt64 s)"
  by (auto simp: controller_hexToInt64_def Let_def in_int64_def [of 0] intro!: Sscanf_hex_range)

lemma decodeTip_range:
  assumes d: "keeps P d" "P z" and k: "\<And>v n. P v \<Longrightarrow> k v = Inr n \<Longrightarrow> in_int64 n"
    and r: "decodeTip what d z k r = Inr n"
  shows "in_int64 n"
proof -
  from r obtain j v where "d j z = Some v" "k v = Inr n"
    by (auto simp: decodeTip_def unmarshal_raw_def split: sum.splits option.splits)
  with d k show ?thesis by (blast dest: keepsD)
qed

lemma decodeTip_int: "decodeTip what (dec_path ks dec_int64) 0 Inr r = Inr n \<Longrightarrow> in_int64 n"
  by (erule decodeTip_range [OF keeps_path [OF keeps_int64], rotated 2]) auto

lemma decodeTip_text: "decodeTip what d z parseTip r = Inr n \<Longrightarrow> in_int64 n"
  by (erule decodeTip_range [OF keeps_True, rotated 2])
     (auto simp: parseTip_def split: option.splits dest: ParseInt64_range)

lemma decodeTip_first:
  "decodeTip what (dec_path ks (dec_list (dec_path ks' dec_int64) 0)) []
     (\<lambda>recs. case recs of [] \<Rightarrow> Inl e | s # _ \<Rightarrow> Inr s) r = Inr n \<Longrightarrow> in_int64 n"
  by (erule decodeTip_range [OF keeps_path [OF keeps_list [OF keeps_path [OF keeps_int64]]], rotated 3])
     (auto split: list.splits)

lemma decodeTip_hex: "decodeTip what d z (\<lambda>s. Inr (controller_hexToInt64 s)) r = Inr n \<Longrightarrow> in_int64 n"
  by (auto simp: decodeTip_def hex_range split: sum.splits option.splits)

lemmas tip_fetchers =
  fetchEVMTip_def fetchPlainHeightTip_def fetchDashTip_def fetchTronTip_def fetchXRPTip_def fetchStellarTip_def
  fetchNearTip_def fetchSuiTip_def fetchTONTip_def fetchCosmosTip_def fetchAptosTip_def fetchCardanoTip_def

text \<open>A fetch whose result, if any, is a 64-bit number.\<close>

definition tip_ok :: "('w, goerr + int) state \<Rightarrow> bool" where
  "tip_ok m \<longleftrightarrow> (\<forall>w. wp m (\<lambda>t _. case t of Inl _ \<Rightarrow> True | Inr n \<Rightarrow> in_int64 n) w)"

lemma tip_ok_bind: "(\<And>r n. f r = Inr n \<Longrightarrow> in_int64 n) \<Longrightarrow> tip_ok (State_Monad.bind m (\<lambda>r. ret (f r)))"
  unfolding tip_ok_def by (auto intro!: wp_any split: sum.splits)

lemma tip_ok_if: "tip_ok m \<Longrightarrow> tip_ok n \<Longrightarrow> tip_ok (if b then m else n)"
  by simp

lemma tip_ok_error: "tip_ok (ret (Inl e))"
  by (simp add: tip_ok_def)

lemma tip_ok_fetchers:
  "tip_ok (fetchEVMTip E c endpoint)" "tip_ok (fetchPlainHeightTip E c url)" "tip_ok (fetchDashTip E c)"
  "tip_ok (fetchTronTip E c)" "tip_ok (fetchXRPTip E c)" "tip_ok (fetchStellarTip E c)"
  "tip_ok (fetchNearTip E c)" "tip_ok (fetchSuiTip E c)" "tip_ok (fetchTONTip E c)"
  "tip_ok (fetchCosmosTip E c)" "tip_ok (fetchAptosTip E c)" "tip_ok (fetchCardanoTip E c)"
  unfolding tip_fetchers
  by (rule tip_ok_bind, erule decodeTip_int decodeTip_text decodeTip_first decodeTip_hex
        decodeTip_int [where ks = "[]", unfolded dec_path.simps]
        decodeTip_first [where ks = "[]", unfolded dec_path.simps(1)])+

text \<open>
  A public tip is a 64-bit block number for every chain and whatever the public endpoint
  answers: malformed, truncated or oversized replies end in an error, and a chain without an
  endpoint is refused without any request.
\<close>

theorem fetchPublicTip_int64:
  "wp (fetchPublicTip E c chain)
     (\<lambda>r _. case r of Inl _ \<Rightarrow> True | Inr tip \<Rightarrow> in_int64 tip) w \<and>
   (chain \<notin> {ChainEthereum, ChainEthereumArchive, ChainPolygon, ChainBSC, ChainAvalanche, ChainBitcoin,
              ChainLitecoin, ChainDash, ChainTRON, ChainXRP, ChainStellar, ChainNear, ChainSui, ChainTON,
              ChainCosmos, ChainAptos, ChainCardano} \<longrightarrow>
    fetchPublicTip E c chain = ret (Inl (GoErr (''no public tip endpoint for chain '' @ chain))))"
proof -
  have "tip_ok (fetchPublicTip E c chain)"
    unfolding fetchPublicTip_def by (intro tip_ok_if tip_ok_fetchers tip_ok_error)
  then have "wp (fetchPublicTip E c chain) (\<lambda>r _. case r of Inl _ \<Rightarrow> True | Inr tip \<Rightarrow> in_int64 tip) w"
    unfolding tip_ok_def by blast
  moreover have "fetchPublicTip E c chain = ret (Inl (GoErr (''no public tip endpoint for chain '' @ chain)))"
    if "chain \<notin> {ChainEthereum, ChainEthereumArchive, ChainPolygon, ChainBSC, ChainAvalanche, ChainBitcoin,
              ChainLitecoin, ChainDash, ChainTRON, ChainXRP, ChainStellar, ChainNear, ChainSui, ChainTON,
              ChainCosmos, ChainAptos, ChainCardano}"
    using that by (simp add: fetchPublicTip_def)
  ultimately show ?thesis by blast
qed

theorem fetchPublicTip_int64_witness:
  "\<forall>E c. fetchPublicTip E c ChainSolana = ret (Inl (GoErr ''no public tip endpoint for chain solana''))"
  by (intro allI, rule fetchPublicTip_int64 [THEN conjunct2, rule_format, of ChainSolana, simplified])

end
