(* ===== verification/Reconcile_Health.thy ===== *)
theory Reconcile_Health
  imports Controller_Helpers Chain_Tip
begin

text \<open>
  \<open>internal/controller/reconcile_health.go\<close>: the health check of a running node, the stall and
  lag detectors, the auto-restart of a degraded pod and the estimate of the remaining sync
  time. Every function takes the object and returns it as the code leaves it in memory.
  Arguments for what Go leaves open: \<open>tz\<close>, the local zone in which \<open>now.Format\<close> prints, and
  \<open>oor\<close>, the result of converting an out-of-range float to an integer. Logging and metrics
  have no effect on the model.
\<close>

abbreviation (input) annotationDegradedSince :: string where
  "annotationDegradedSince \<equiv> ''chains.chainplane.io/degraded-since''"
abbreviation (input) annotationSyncStallSince :: string where
  "annotationSyncStallSince \<equiv> ''chains.chainplane.io/sync-stall-since''"
abbreviation (input) annotationLastSyncBlock :: string where
  "annotationLastSyncBlock \<equiv> ''chains.chainplane.io/last-sync-block''"
abbreviation (input) annotationProgressSnapshotPct :: string where
  "annotationProgressSnapshotPct \<equiv> ''chains.chainplane.io/progress-snapshot-pct''"
abbreviation (input) annotationProgressSnapshotAt :: string where
  "annotationProgressSnapshotAt \<equiv> ''chains.chainplane.io/progress-snapshot-at''"
abbreviation (input) annotationBlockSnapshotHeight :: string where
  "annotationBlockSnapshotHeight \<equiv> ''chains.chainplane.io/block-snapshot-height''"
abbreviation (input) annotationBlockSnapshotAt :: string where
  "annotationBlockSnapshotAt \<equiv> ''chains.chainplane.io/block-snapshot-at''"

definition progressSnapshotInterval :: duration where "progressSnapshotInterval = 5 * Minute"
definition healthCheckTimeout :: duration where "healthCheckTimeout = 30 * Second"
definition defaultDegradedTimeoutMinutes :: int where "defaultDegradedTimeoutMinutes = 15"
definition defaultRPCPort :: int where "defaultRPCPort = 8545"
definition maxETAHours :: int where "maxETAHours = 8760"

definition set_ann :: "string \<Rightarrow> string \<Rightarrow> ChainInstance \<Rightarrow> ChainInstance" where
  "set_ann k v node = set_annotations (mset_key k v (nodeAnnotations node)) node"

definition del_ann :: "string \<Rightarrow> ChainInstance \<Rightarrow> ChainInstance" where
  "del_ann k node = set_annotations (mdel_key k (nodeAnnotations node)) node"

definition set_phase :: "NodePhase \<Rightarrow> ChainInstance \<Rightarrow> ChainInstance" where
  "set_phase p = upd_status (\<lambda>s. s\<lparr>csPhase := p\<rparr>)"

definition set_progress :: "string \<Rightarrow> ChainInstance \<Rightarrow> ChainInstance" where
  "set_progress p = upd_status (\<lambda>s. s\<lparr>csSyncProgress := p\<rparr>)"

definition set_eta :: "string \<Rightarrow> ChainInstance \<Rightarrow> ChainInstance" where
  "set_eta e = upd_status (\<lambda>s. s\<lparr>csSyncETA := e\<rparr>)"

definition observe_generation :: "ChainInstance \<Rightarrow> ChainInstance" where
  "observe_generation node = upd_status (\<lambda>s. s\<lparr>csObservedGeneration := mGeneration (ciMeta node)\<rparr>) node"

subsection \<open>Degraded auto-restart\<close>

definition persistPair :: "('w, 'x) ctl_scheme \<Rightarrow> ChainInstance \<Rightarrow> ('w, (goerr + unit) \<times> ChainInstance) state" where
  "persistPair C node = do {
     r \<leftarrow> persistAnnotations C node;
     ret (case r of Inl err \<Rightarrow> (Inl err, node) | Inr node' \<Rightarrow> (Inr (), node')) }"

definition stampDegraded :: "('w, 'x) ctl_scheme \<Rightarrow> ChainInstance \<Rightarrow> ('w, (goerr + unit) \<times> ChainInstance) state" where
  "stampDegraded C node = do {
     now \<leftarrow> gNow C;
     persistPair C (set_ann annotationDegradedSince (FormatRFC3339 0 now) node) }"

definition deleteDegradedPod :: "('w, 'x) ctl_scheme \<Rightarrow> ChainInstance \<Rightarrow> ('w, (goerr + unit) \<times> ChainInstance) state" where
  "deleteDegradedPod C node = (let podName = nodeName node @ ''-0'' in do {
     r \<leftarrow> kGetPod C (nodeNamespace node) podName;
     case r of
       Inl err \<Rightarrow> ret (IgnoreNotFound err, node)
     | Inr pod \<Rightarrow> do {
         _ \<leftarrow> gNow C;
         d \<leftarrow> kDeletePod C None pod;
         case d of
           Inl err \<Rightarrow> ret (Inl (WrapErr (''deleting pod '' @ nodeNamespace node @ ''/'' @ podName @ '' for auto-restart'') err), node)
         | Inr _ \<Rightarrow> persistPair C (del_ann annotationDegradedSince node) } })"

definition degradedTimeout :: "ChainInstance \<Rightarrow> int" where
  "degradedTimeout node = (case hsDegradedTimeoutMinutes (spHealth (ciSpec node)) of
     None \<Rightarrow> defaultDegradedTimeoutMinutes | Some t \<Rightarrow> t)"

definition restartIfDegradedTooLong ::
    "('w, 'x) ctl_scheme \<Rightarrow> ChainInstance \<Rightarrow> ('w, (goerr + unit) \<times> ChainInstance) state" where
  "restartIfDegradedTooLong C node =
     (let timeout = degradedTimeout node in
      if timeout = 0 then ret (Inr (), node)
      else (case map_of (nodeAnnotations node) annotationDegradedSince of
          None \<Rightarrow> stampDegraded C node
        | Some since \<Rightarrow> (case ParseRFC3339 since of
            None \<Rightarrow> stampDegraded C node
          | Some degradedAt \<Rightarrow> do {
              now \<leftarrow> gNow C;
              if time_Sub now degradedAt < wrap64 (timeout * Minute) then ret (Inr (), node)
              else deleteDegradedPod C node })))"

definition clearDegradedTracking :: "('w, 'x) ctl_scheme \<Rightarrow> ChainInstance \<Rightarrow> ('w, ChainInstance) state" where
  "clearDegradedTracking C node = (case map_of (nodeAnnotations node) annotationDegradedSince of
     None \<Rightarrow> ret node
   | Some since \<Rightarrow> do {
       _ \<leftarrow> (case ParseRFC3339 since of None \<Rightarrow> ret 0 | Some _ \<Rightarrow> gNow C);
       persistOrLog C (del_ann annotationDegradedSince node) })"

subsection \<open>Height-stall detector\<close>

definition resetStallSince :: "('w, 'x) ctl_scheme \<Rightarrow> ChainInstance \<Rightarrow> ('w, ChainInstance) state" where
  "resetStallSince C node = do {
     now \<leftarrow> gNow C;
     persistOrLog C (set_ann annotationSyncStallSince (FormatRFC3339 0 now) node) }"

definition stallMessage :: "ChainInstance \<Rightarrow> int \<Rightarrow> string" where
  "stallMessage node currentBlock =
     ''Height frozen at block '' @ Itoa currentBlock @ '' for >'' @
     dur_String (dur_Round (syncStallThreshold (spChain (ciSpec node))) Second) @
     '' (10 block-times for '' @ spChain (ciSpec node) @ '')''"

text \<open>The result is the message when the node is stalled.\<close>

definition detectHeightStall ::
    "('w, 'x) ctl_scheme \<Rightarrow> ChainInstance \<Rightarrow> int \<Rightarrow> ('w, string option \<times> ChainInstance) state" where
  "detectHeightStall C node currentBlock =
     (let blockStr = Itoa currentBlock;
          lastBlock = mget (nodeAnnotations node) annotationLastSyncBlock;
          stallSince = mget (nodeAnnotations node) annotationSyncStallSince
      in if lastBlock \<noteq> blockStr then do {
           node' \<leftarrow> persistOrLog C (del_ann annotationSyncStallSince (set_ann annotationLastSyncBlock blockStr node));
           ret (None, node') }
         else if stallSince = [] then do {
           node' \<leftarrow> resetStallSince C node;
           ret (None, node') }
         else (case ParseRFC3339 stallSince of
             None \<Rightarrow> do { node' \<leftarrow> resetStallSince C node; ret (None, node') }
           | Some stallAt \<Rightarrow> do {
               now \<leftarrow> gNow C;
               if time_Sub now stallAt < syncStallThreshold (spChain (ciSpec node)) then ret (None, node)
               else ret (Some (stallMessage node currentBlock), node) }))"

subsection \<open>Block-lag detector\<close>

definition checkBlockLag ::
    "('w, 'y) rpc_env_scheme \<Rightarrow> ctx \<Rightarrow> ChainInstance \<Rightarrow> int \<Rightarrow> ('w, bool \<times> int) state" where
  "checkBlockLag E cx node currentBlock = do {
     r \<leftarrow> fetchPublicTip E cx (spChain (ciSpec node));
     ret (case r of
         Inl _ \<Rightarrow> (False, 0)
       | Inr tip \<Rightarrow>
           (let d = wrap64 (tip - currentBlock); lag = (if d < 0 then 0 else d)
            in (lagThreshold node < lag, lag))) }"

subsection \<open>AVAX bootstrap progress\<close>

text \<open>
  \<open>bufio.Scanner\<close> over the log text: lines without their terminator, up to the first line
  that does not fit its buffer of 64 KiB. \<open>fmt.Sscanf(rest, "%f", &pct)\<close> reads the longest
  decimal token and leaves the variable alone when it does not parse; hexadecimal and binary
  exponents, which the log never has, count as not parsing.
\<close>

definition drop_CR :: "string \<Rightarrow> string" where
  "drop_CR l = (if l \<noteq> [] \<and> last l = CHR 0x0D then butlast l else l)"

definition scan_lines :: "string \<Rightarrow> string list" where
  "scan_lines text =
     (let ls = Split text (CHR 0x0A);
          ls' = (if ls \<noteq> [] \<and> last ls = [] then butlast ls else ls)
      in map drop_CR (takeWhile (\<lambda>l. length l < 65536) ls'))"

fun after_sub :: "string \<Rightarrow> string \<Rightarrow> string option" where
  "after_sub pat s =
     (if HasPrefix s pat then Some (drop (length pat) s)
      else (case s of [] \<Rightarrow> None | _ # s' \<Rightarrow> after_sub pat s'))"

definition accept :: "string \<Rightarrow> string \<times> string \<Rightarrow> bool \<times> string \<times> string" where
  "accept cs br = (case br of (buf, r) \<Rightarrow> (case r of
     [] \<Rightarrow> (False, buf, r)
   | c # r' \<Rightarrow> if c \<in> set cs then (True, buf @ [c], r') else (False, buf, r)))"

definition acceptAll :: "string \<Rightarrow> string \<times> string \<Rightarrow> string \<times> string" where
  "acceptAll cs br = (case br of (buf, r) \<Rightarrow>
     (buf @ takeWhile (\<lambda>c. c \<in> set cs) r, dropWhile (\<lambda>c. c \<in> set cs) r))"

definition acceptWord :: "string list \<Rightarrow> string \<times> string \<Rightarrow> bool \<times> string \<times> string" where
  "acceptWord ws br = foldl (\<lambda>(b, br) w. if b then accept w br else (b, br)) (True, br) ws"

definition floatToken :: "string \<Rightarrow> string" where
  "floatToken s =
     (case acceptWord [''nN'', ''aA'', ''nN''] ([], s) of (isNaN, br) \<Rightarrow>
        if isNaN then fst br
        else (case acceptWord [''iI'', ''nN'', ''fF''] (snd (accept ''+-'' br)) of (isInf, br) \<Rightarrow>
          if isInf then fst br
          else
            (let digits = ''0123456789_''; br = acceptAll digits br;
                 (dot, br) = accept ''.'' br;
                 br = (if dot then acceptAll digits br else br);
                 (ex, br) = accept ''eEpP'' br
             in fst (if ex then acceptAll digits (snd (accept ''+-'' br)) else br))))"

definition pctKey :: string where
  "pctKey = [CHR 0x22] @ ''pctComplete'' @ [CHR 0x22] @ '':''"

definition scan_pct :: "f64 \<Rightarrow> string \<Rightarrow> f64" where
  "scan_pct pct line = (case after_sub pctKey line of
     None \<Rightarrow> pct
   | Some rest \<Rightarrow> (case ParseFloat (floatToken (TrimSpace rest)) of None \<Rightarrow> pct | Some v \<Rightarrow> v))"

definition avaxBootstrapProgress :: "('w, 'x) ctl_scheme \<Rightarrow> ChainInstance \<Rightarrow> ('w, f64) state" where
  "avaxBootstrapProgress C node = (case cPodLogs C of
     None \<Rightarrow> ret (Fin (-1))
   | Some logs \<Rightarrow> do {
       r \<leftarrow> logs (nodeNamespace node) (nodeName node @ ''-0'') ''node'' 200;
       ret (case r of Inl _ \<Rightarrow> Fin (-1) | Inr text \<Rightarrow> foldl scan_pct (Fin (-1)) (scan_lines text)) })"

subsection \<open>Sync ETA\<close>

definition progressSnapshot :: "ChainInstance \<Rightarrow> (f64 \<times> time) option" where
  "progressSnapshot node =
     (let pctStr = mget (nodeAnnotations node) annotationProgressSnapshotPct;
          atStr = mget (nodeAnnotations node) annotationProgressSnapshotAt
      in if pctStr \<noteq> [] \<and> atStr \<noteq> [] then
           (case ParseRFC3339 atStr of None \<Rightarrow> None
            | Some t \<Rightarrow> (case ParseFloat pctStr of None \<Rightarrow> None | Some p \<Rightarrow> Some (p, t)))
         else None)"

text \<open>\<open>humanDuration(time.Duration(remaining) * time.Second)\<close> of the progress rate.\<close>

definition progressETA :: "int \<Rightarrow> f64 \<Rightarrow> f64 \<Rightarrow> duration \<Rightarrow> string" where
  "progressETA oor progress snapshotPct since =
     (let elapsed = dur_Seconds since; delta = f_sub progress snapshotPct in
      if f_lt elapsed (Fin 60) \<or> f_le delta (Fin 0) then []
      else
        (let rate = f_div delta elapsed; remaining = f_div (f_sub (Fin 100) progress) rate
         in humanDuration (wrap64 (f_to_int64 oor remaining * Second))))"

definition progressBasedETA ::
    "int \<Rightarrow> int \<Rightarrow> ('w, 'x) ctl_scheme \<Rightarrow> ChainInstance \<Rightarrow> f64 \<Rightarrow> time \<Rightarrow> ('w, string \<times> ChainInstance) state" where
  "progressBasedETA tz oor C node progress now =
     (if f_le progress (Fin 0) then ret ([], node)
      else
        (let snapshot = progressSnapshot node;
             regressed = (case snapshot of None \<Rightarrow> False | Some (p, _) \<Rightarrow> f_gt (f_sub p progress) (Fin 5));
             stale = (case snapshot of None \<Rightarrow> True | Some (_, t) \<Rightarrow> progressSnapshotInterval \<le> time_Sub now t);
             eta = (case snapshot of None \<Rightarrow> [] | Some (p, t) \<Rightarrow> progressETA oor progress p (time_Sub now t))
         in if regressed then
              ret ([], del_ann annotationProgressSnapshotAt (del_ann annotationProgressSnapshotPct node))
            else if stale then
              (let node' = set_ann annotationProgressSnapshotAt (FormatRFC3339 tz now)
                             (set_ann annotationProgressSnapshotPct (FormatFixed 4 progress) node)
               in do {
                 r \<leftarrow> persistAnnotations C node';
                 ret (case r of Inl _ \<Rightarrow> ([], node') | Inr node'' \<Rightarrow> (eta, node'')) })
            else ret (eta, node)))"

definition blockSnapshot :: "ChainInstance \<Rightarrow> (int \<times> time) option" where
  "blockSnapshot node =
     (let heightStr = mget (nodeAnnotations node) annotationBlockSnapshotHeight;
          atStr = mget (nodeAnnotations node) annotationBlockSnapshotAt
      in if heightStr \<noteq> [] \<and> atStr \<noteq> [] then
           (case ParseRFC3339 atStr of None \<Rightarrow> None
            | Some t \<Rightarrow> (case ParseInt64 10 heightStr of None \<Rightarrow> None | Some h \<Rightarrow> Some (h, t)))
         else None)"

definition blockETA :: "int \<Rightarrow> int \<Rightarrow> int \<Rightarrow> int \<Rightarrow> duration \<Rightarrow> string" where
  "blockETA oor tip currentBlock snapshotBlock since =
     (let blockRate = f_div (f_of_int (wrap64 (currentBlock - snapshotBlock))) (dur_Seconds since) in
      if f_le blockRate (Fin 0) then []
      else
        (let remaining = f_div (f_of_int (wrap64 (tip - currentBlock))) blockRate;
             eta = wrap64 (f_to_int64 oor remaining * Second)
         in if maxETAHours * Hour < eta then [] else humanDuration eta))"

definition blockRateETA ::
    "int \<Rightarrow> int \<Rightarrow> ('w, 'x) ctl_scheme \<Rightarrow> ('w, 'y) rpc_env_scheme \<Rightarrow> ctx \<Rightarrow> ChainInstance \<Rightarrow> int \<Rightarrow> time \<Rightarrow>
     ('w, string \<times> ChainInstance) state" where
  "blockRateETA tz oor C E cx node currentBlock now =
     (if currentBlock \<le> 0 then ret ([], node)
      else do {
        r \<leftarrow> fetchPublicTip E cx (spChain (ciSpec node));
        case r of
          Inl _ \<Rightarrow> ret ([], node)
        | Inr tip \<Rightarrow>
            if tip \<le> currentBlock then ret ([], node)
            else
              (let snapshot = blockSnapshot node;
                   stale = (case snapshot of None \<Rightarrow> True | Some (_, t) \<Rightarrow> progressSnapshotInterval \<le> time_Sub now t)
               in if stale then do {
                    node' \<leftarrow> persistOrLog C (set_ann annotationBlockSnapshotAt (FormatRFC3339 tz now)
                               (set_ann annotationBlockSnapshotHeight (Itoa currentBlock) node));
                    ret ([], node') }
                  else ret (case snapshot of None \<Rightarrow> []
                            | Some (h, t) \<Rightarrow> blockETA oor tip currentBlock h (time_Sub now t), node)) })"

definition estimateSyncETA ::
    "int \<Rightarrow> int \<Rightarrow> ('w, 'x) ctl_scheme \<Rightarrow> ('w, 'y) rpc_env_scheme \<Rightarrow> ctx \<Rightarrow> ChainInstance \<Rightarrow> f64 \<Rightarrow> int \<Rightarrow> time \<Rightarrow>
     ('w, string \<times> ChainInstance) state" where
  "estimateSyncETA tz oor C E cx node progress currentBlock now =
     (if f_ge progress (Fin 100) then ret ([], node)
      else do {
        (eta, node') \<leftarrow> progressBasedETA tz oor C node progress now;
        if eta \<noteq> [] then ret (eta, node')
        else blockRateETA tz oor C E cx node' currentBlock now })"

subsection \<open>Status application\<close>

definition applyDegradedFromError :: "ChainInstance \<Rightarrow> goerr \<Rightarrow> time \<Rightarrow> ChainInstance" where
  "applyDegradedFromError node healthErr now =
     setCondition ConditionReady ConditionFalse ''HealthCheckFailed'' ''RPC health check failed'' now
       (setCondition ConditionDegraded ConditionTrue ''HealthCheckFailed'' (err_text healthErr) now
         (set_phase NodePhaseDegraded node))"

definition markStalled ::
    "('w, 'x) ctl_scheme \<Rightarrow> ChainInstance \<Rightarrow> f64 \<Rightarrow> string \<Rightarrow> time \<Rightarrow> ('w, ChainInstance) state" where
  "markStalled C node progress stallMsg now =
     (let pct = FormatFixed 1 progress;
          node' =
            observe_generation
              (set_progress (pct @ ''% (stalled)'')
                (setCondition ConditionSyncing ConditionTrue ''Syncing'' (pct @ ''% complete (stalled)'') now
                  (setCondition ConditionReady ConditionFalse ''SyncStall'' stallMsg now
                    (setCondition ConditionDegraded ConditionTrue ''SyncStall'' stallMsg now
                      (set_phase NodePhaseDegraded node)))))
      in do {
        (_, node'') \<leftarrow> restartIfDegradedTooLong C node';
        ret node'' })"

definition enrichProgress :: "('w, 'x) ctl_scheme \<Rightarrow> ChainInstance \<Rightarrow> SyncStatus \<Rightarrow> ('w, SyncStatus) state" where
  "enrichProgress C node status =
     (if spChain (ciSpec node) = ChainAvalanche \<and> f_eq (syProgress status) (Fin 0) then do {
        pct \<leftarrow> avaxBootstrapProgress C node;
        ret (if f_ge pct (Fin 0) then status\<lparr>syProgress := pct\<rparr> else status) }
      else ret status)"

definition reportProgress ::
    "int \<Rightarrow> int \<Rightarrow> ('w, 'x) ctl_scheme \<Rightarrow> ('w, 'y) rpc_env_scheme \<Rightarrow> ctx \<Rightarrow> ChainInstance \<Rightarrow> SyncStatus \<Rightarrow> time \<Rightarrow>
     ('w, ChainInstance) state" where
  "reportProgress tz oor C E cx node status now =
     (let pct = (if f_gt (syProgress status) (Fin (999 / 10)) then Fin (999 / 10) else syProgress status)
      in do {
        (eta, node') \<leftarrow> estimateSyncETA tz oor C E cx (set_progress (FormatFixed 1 pct @ ''%'') node)
                            (syProgress status) (syCurrentBlock status) now;
        ret (if eta \<noteq> [] then set_eta eta node' else node') })"

definition applySyncingStatus ::
    "int \<Rightarrow> int \<Rightarrow> ('w, 'x) ctl_scheme \<Rightarrow> ('w, 'y) rpc_env_scheme \<Rightarrow> ctx \<Rightarrow> ChainInstance \<Rightarrow> SyncStatus \<Rightarrow> time \<Rightarrow>
     ('w, ChainInstance) state" where
  "applySyncingStatus tz oor C E cx node status0 now = do {
     status \<leftarrow> enrichProgress C node status0;
     let preserveProgress =
       (f_eq (syProgress status) (Fin 0) \<and> csSyncProgress (ciStatus node) \<noteq> [] \<and>
        csSyncProgress (ciStatus node) \<noteq> ''0.0%'');
     (stalled, node) \<leftarrow> (if syStallExempt status then ret (None, node)
                           else detectHeightStall C node (syCurrentBlock status));
     (case stalled of
        Some msg \<Rightarrow> markStalled C node (syProgress status) msg now
      | None \<Rightarrow> do {
          node \<leftarrow> (if preserveProgress then ret (set_phase NodePhaseSyncing node)
                   else reportProgress tz oor C E cx (set_phase NodePhaseSyncing node) status now);
          ret (setCondition ConditionDegraded ConditionFalse ''Syncing'' ''Node is syncing'' now
                (setCondition ConditionReady ConditionFalse ''Syncing'' ''Node is syncing'' now
                  (setCondition ConditionSyncing ConditionTrue ''Syncing''
                     (FormatFixed 1 (syProgress status) @ ''% complete'') now node))) }) }"

definition markHeightStall ::
    "('w, 'x) ctl_scheme \<Rightarrow> ChainInstance \<Rightarrow> string \<Rightarrow> time \<Rightarrow> ('w, ChainInstance) state" where
  "markHeightStall C node msg now = do {
     (_, node') \<leftarrow> restartIfDegradedTooLong C
       (observe_generation
         (set_progress ''stalled''
           (setCondition ConditionReady ConditionFalse ''HeightStall'' msg now
             (setCondition ConditionDegraded ConditionTrue ''HeightStall'' msg now
               (set_phase NodePhaseDegraded node)))));
     ret node' }"

definition judgeLag :: "bool \<times> int \<Rightarrow> time \<Rightarrow> ChainInstance \<Rightarrow> ChainInstance" where
  "judgeLag r now node = (case r of (lagging, lag) \<Rightarrow>
     if lagging then
       (let msg = ''Block lag '' @ Itoa lag @ '' exceeds threshold'' in
        setCondition ConditionReady ConditionFalse ''BlockLag'' msg now
          (setCondition ConditionDegraded ConditionTrue ''BlockLag'' msg now
            (set_progress (''lag: '' @ Itoa lag @ '' blocks'') (set_phase NodePhaseDegraded node))))
     else
       setCondition ConditionReady ConditionTrue ''Healthy'' ''Node is healthy and synced'' now
         (setCondition ConditionDegraded ConditionFalse ''Healthy'' ''Node is healthy'' now node))"

definition applyFullySyncedStatus ::
    "('w, 'x) ctl_scheme \<Rightarrow> ('w, 'y) rpc_env_scheme \<Rightarrow> ctx \<Rightarrow> ChainInstance \<Rightarrow> SyncStatus \<Rightarrow> time \<Rightarrow>
     ('w, ChainInstance) state" where
  "applyFullySyncedStatus C E cx node status now = do {
     (stalled, node) \<leftarrow> detectHeightStall C node (syCurrentBlock status);
     (case stalled of
        Some msg \<Rightarrow> markHeightStall C node msg now
      | None \<Rightarrow> (let node =
            del_ann annotationLastSyncBlock
              (del_ann annotationSyncStallSince
                (setCondition ConditionSyncing ConditionFalse ''Synced'' ''Node is fully synced'' now
                  (set_eta [] (set_progress ''100%'' (set_phase NodePhaseHealthy node)))))
          in do {
            lag \<leftarrow> checkBlockLag E cx node (syCurrentBlock status);
            ret (judgeLag lag now node) })) }"

definition noteHeightAndPeers :: "SyncStatus \<Rightarrow> ChainInstance \<Rightarrow> ChainInstance" where
  "noteHeightAndPeers status =
     upd_status (\<lambda>s. s\<lparr>csBlockHeight := (if 0 < syCurrentBlock status then syCurrentBlock status else csBlockHeight s),
                       csPeersCount := (if 0 < syPeers status then syPeers status else csPeersCount s)\<rparr>)"

definition applyHealthyOrSyncing ::
    "int \<Rightarrow> int \<Rightarrow> ('w, 'x) ctl_scheme \<Rightarrow> ('w, 'y) rpc_env_scheme \<Rightarrow> ctx \<Rightarrow> ChainInstance \<Rightarrow> SyncStatus \<Rightarrow> time \<Rightarrow>
     ('w, ChainInstance) state" where
  "applyHealthyOrSyncing tz oor C E cx node status now =
     (let node = noteHeightAndPeers status node in
      if syIsSyncing status then applySyncingStatus tz oor C E cx node status now
      else applyFullySyncedStatus C E cx node status now)"

subsection \<open>refreshStatus\<close>

definition rpcURL :: "ChainInstance \<Rightarrow> string" where
  "rpcURL node =
     (let port = (if 0 < rsPort (spRPC (ciSpec node)) then rsPort (spRPC (ciSpec node)) else defaultRPCPort)
      in ''http://'' @ nodeName node @ ''.'' @ nodeNamespace node @ ''.svc.cluster.local:'' @ Itoa port)"

definition probeNode ::
    "('w, 'x) ctl_scheme \<Rightarrow> ctx \<Rightarrow> ChainInstance \<Rightarrow> 'w ChainAdapter \<Rightarrow> RPCCredentials \<Rightarrow> ('w, goerr + SyncStatus) state" where
  "probeNode C cx node adapter creds = do {
     t0 \<leftarrow> gNow C;
     let hctx = WithTimeout cx t0 healthCheckTimeout;
     (case adRPCCredentialed adapter of
        Some rc \<Rightarrow> rcHealthCheck rc hctx (rpcURL node) creds
      | None \<Rightarrow> adHealthCheck adapter hctx (rpcURL node)) }"

text \<open>The degraded tracking at the end of the refresh.\<close>

definition trackDegraded :: "('w, 'x) ctl_scheme \<Rightarrow> ChainInstance \<Rightarrow> ('w, ChainInstance) state" where
  "trackDegraded C node =
     (if csPhase (ciStatus node) = NodePhaseDegraded then do {
        (_, node') \<leftarrow> restartIfDegradedTooLong C node;
        ret node' }
      else clearDegradedTracking C node)"

definition refreshStatus ::
    "int \<Rightarrow> int \<Rightarrow> ('w, 'x) ctl_scheme \<Rightarrow> ('w, 'y) rpc_env_scheme \<Rightarrow> ctx \<Rightarrow> ChainInstance \<Rightarrow> 'w ChainAdapter \<Rightarrow>
     RPCCredentials \<Rightarrow> ('w, goerr + ChainInstance) state" where
  "refreshStatus tz oor C E cx base adapter creds = do {
     status \<leftarrow> probeNode C cx base adapter creds;
     now \<leftarrow> gNow C;
     node \<leftarrow> (case status of
        Inl err \<Rightarrow> ret (applyDegradedFromError base err now)
      | Inr st \<Rightarrow> applyHealthyOrSyncing tz oor C E cx base st now);
     node \<leftarrow> trackDegraded C (observe_generation node);
     cPatchStatus C base node }"

subsection \<open>What the helpers leave alone\<close>

lemma set_ann_simps [simp]:
  "ciStatus (set_ann k v node) = ciStatus node" "ciStatus (del_ann k node) = ciStatus node"
  "ciSpec (set_ann k v node) = ciSpec node" "ciSpec (del_ann k node) = ciSpec node"
  "nodeName (set_ann k v node) = nodeName node" "nodeName (del_ann k node) = nodeName node"
  "nodeNamespace (set_ann k v node) = nodeNamespace node" "nodeNamespace (del_ann k node) = nodeNamespace node"
  by (simp_all add: set_ann_def del_ann_def)

lemma status_setters_simps [simp]:
  "ciMeta (set_phase ph node) = ciMeta node" "ciMeta (set_progress s node) = ciMeta node"
  "ciMeta (set_eta s node) = ciMeta node" "ciMeta (observe_generation node) = ciMeta node"
  "ciMeta (noteHeightAndPeers st node) = ciMeta node"
  "ciSpec (set_phase ph node) = ciSpec node" "ciSpec (set_progress s node) = ciSpec node"
  "ciSpec (set_eta s node) = ciSpec node" "ciSpec (observe_generation node) = ciSpec node"
  "ciSpec (noteHeightAndPeers st node) = ciSpec node"
  "csPhase (ciStatus (set_phase ph node)) = ph"
  "csPhase (ciStatus (set_progress s node)) = csPhase (ciStatus node)"
  "csPhase (ciStatus (set_eta s node)) = csPhase (ciStatus node)"
  "csPhase (ciStatus (observe_generation node)) = csPhase (ciStatus node)"
  "csPhase (ciStatus (noteHeightAndPeers st node)) = csPhase (ciStatus node)"
  "csConditions (ciStatus (set_phase ph node)) = csConditions (ciStatus node)"
  "csConditions (ciStatus (set_progress s node)) = csConditions (ciStatus node)"
  "csConditions (ciStatus (set_eta s node)) = csConditions (ciStatus node)"
  "csConditions (ciStatus (observe_generation node)) = csConditions (ciStatus node)"
  "csConditions (ciStatus (noteHeightAndPeers st node)) = csConditions (ciStatus node)"
  by (simp_all add: set_phase_def set_progress_def set_eta_def observe_generation_def noteHeightAndPeers_def)

lemma cond_status_setters [simp]:
  "cond_status (set_phase ph node) = cond_status node" "cond_status (set_progress s node) = cond_status node"
  "cond_status (set_eta s node) = cond_status node" "cond_status (observe_generation node) = cond_status node"
  "cond_status (noteHeightAndPeers st node) = cond_status node"
  "cond_status (set_ann k v node) = cond_status node" "cond_status (del_ann k node) = cond_status node"
  by (simp_all add: cond_status_def fun_eq_iff)

text \<open>Writing annotations, whatever the server answers, keeps the status in memory.\<close>

lemma persistAnnotations_status:
  "(\<And>e w'. Q (Inl e) w') \<Longrightarrow> (\<And>n w'. ciStatus n = ciStatus node \<Longrightarrow> Q (Inr n) w') \<Longrightarrow>
   wp (persistAnnotations C node) Q w"
  by (auto simp: persistAnnotations_def intro!: wp_any split: sum.splits)

lemma persistOrLog_status:
  "(\<And>n w'. ciStatus n = ciStatus node \<Longrightarrow> Q n w') \<Longrightarrow> wp (persistOrLog C node) Q w"
  by (auto simp: persistOrLog_def intro!: persistAnnotations_status)

lemma persistPair_status:
  "(\<And>r n w'. ciStatus n = ciStatus node \<Longrightarrow> Q (r, n) w') \<Longrightarrow> wp (persistPair C node) Q w"
  by (auto simp: persistPair_def intro!: persistAnnotations_status)

lemmas tip_any = wp_any [where m = "fetchPublicTip E c chain" for E c chain]

lemma restart_status:
  assumes "\<And>r n w'. ciStatus n = ciStatus node \<Longrightarrow> Q (r, n) w'"
  shows "wp (restartIfDegradedTooLong C node) Q w"
  unfolding restartIfDegradedTooLong_def stampDegraded_def deleteDegradedPod_def Let_def
  using assms by (auto intro!: client_any tip_any persistPair_status split: option.splits sum.splits)

lemma clearDegradedTracking_status:
  assumes "\<And>n w'. ciStatus n = ciStatus node \<Longrightarrow> Q n w'"
  shows "wp (clearDegradedTracking C node) Q w"
  unfolding clearDegradedTracking_def
  using assms by (auto intro!: client_any tip_any persistOrLog_status split: option.splits)

lemma detectHeightStall_status:
  assumes "\<And>r n w'. ciStatus n = ciStatus node \<Longrightarrow> Q (r, n) w'"
  shows "wp (detectHeightStall C node b) Q w"
  unfolding detectHeightStall_def resetStallSince_def Let_def
  using assms by (auto intro!: client_any tip_any persistOrLog_status split: option.splits)

lemma estimateSyncETA_status:
  assumes "\<And>r n w'. ciStatus n = ciStatus node \<Longrightarrow> Q (r, n) w'"
  shows "wp (estimateSyncETA tz oor C E cx node progress b now) Q w"
proof -
  have block: "wp (blockRateETA tz oor C E cx n b now) Q w'" if "ciStatus n = ciStatus node" for n w'
    unfolding blockRateETA_def Let_def using assms that
    by (auto intro!: client_any tip_any persistOrLog_status split: option.splits sum.splits)
  show ?thesis
    unfolding estimateSyncETA_def progressBasedETA_def Let_def using assms block
    by (auto intro!: client_any tip_any persistAnnotations_status split: option.splits sum.splits)
qed

subsection \<open>Phase and conditions agree\<close>

definition status_consistent :: "ChainInstance \<Rightarrow> bool" where
  "status_consistent node = (case csPhase (ciStatus node) of
     NodePhaseHealthy \<Rightarrow> cond_status node ConditionReady = Some ConditionTrue \<and>
       cond_status node ConditionDegraded = Some ConditionFalse \<and> cond_status node ConditionSyncing = Some ConditionFalse
   | NodePhaseSyncing \<Rightarrow> cond_status node ConditionReady = Some ConditionFalse \<and>
       cond_status node ConditionDegraded = Some ConditionFalse \<and> cond_status node ConditionSyncing = Some ConditionTrue
   | NodePhaseDegraded \<Rightarrow> cond_status node ConditionReady = Some ConditionFalse \<and>
       cond_status node ConditionDegraded = Some ConditionTrue
   | _ \<Rightarrow> False)"

lemma consistent_status_only:
  "status_consistent node \<Longrightarrow> ciStatus n = ciStatus node \<Longrightarrow> status_consistent n"
  by (cases "csPhase (ciStatus node)") (simp_all add: status_consistent_def cond_status_def)

lemma consistent_observe [simp]: "status_consistent (observe_generation node) = status_consistent node"
  by (cases "csPhase (ciStatus node)") (simp_all add: status_consistent_def)

lemma judgeLag_consistent:
  "csPhase (ciStatus node) = NodePhaseHealthy \<Longrightarrow> cond_status node ConditionSyncing = Some ConditionFalse \<Longrightarrow>
   status_consistent (judgeLag r now node)"
  by (cases r) (simp add: judgeLag_def status_consistent_def Let_def)

lemma applyFullySynced_consistent:
  "wp (applyFullySyncedStatus C E cx node st now) (\<lambda>n _. status_consistent n) w"
proof -
  have stalled: "wp (markHeightStall C n msg now) (\<lambda>n' _. status_consistent n') w'" for n msg w'
    unfolding markHeightStall_def wp_bind wp_case_prod
    by (rule restart_status, simp, erule consistent_status_only [rotated]) (simp add: status_consistent_def)
  show ?thesis
    unfolding applyFullySyncedStatus_def Let_def checkBlockLag_def
    by (auto intro!: detectHeightStall_status stalled tip_any judgeLag_consistent split: option.splits)
qed

lemma reportProgress_consistent:
  "wp (reportProgress tz oor C E cx node st now)
     (\<lambda>n _. csPhase (ciStatus n) = csPhase (ciStatus node) \<and> cond_status n = cond_status node) w"
  unfolding reportProgress_def Let_def
  by (auto intro!: estimateSyncETA_status) (auto simp: cond_status_def fun_eq_iff)

lemma applySyncing_consistent:
  "wp (applySyncingStatus tz oor C E cx node st now) (\<lambda>n _. status_consistent n) w"
proof -
  have stalled: "wp (markStalled C n pct msg now) (\<lambda>n' _. status_consistent n') w'" for n pct msg w'
    unfolding markStalled_def Let_def wp_bind wp_case_prod
    by (rule restart_status, simp, erule consistent_status_only [rotated]) (simp add: status_consistent_def)
  have report: "wp (reportProgress tz oor C E cx (set_phase NodePhaseSyncing n) st' now)
      (\<lambda>n' _. status_consistent (setCondition ConditionDegraded ConditionFalse r m now
         (setCondition ConditionReady ConditionFalse r' m' now
           (setCondition ConditionSyncing ConditionTrue r'' m'' now n')))) w'" for n st' r m r' m' r'' m'' w'
    by (rule wp_mono [OF reportProgress_consistent]) (simp add: status_consistent_def)
  have enrich: "wp (enrichProgress C node st) Q w'" if "\<And>st' w'. Q st' w'" for Q w'
    using that by (rule wp_any)
  show ?thesis
    unfolding applySyncingStatus_def Let_def
    by (auto intro!: enrich detectHeightStall_status stalled report split: option.splits)
       (simp_all add: status_consistent_def)
qed

lemma trackDegraded_consistent:
  "status_consistent node \<Longrightarrow> (\<And>n w'. status_consistent n \<Longrightarrow> Q n w') \<Longrightarrow> wp (trackDegraded C node) Q w"
  unfolding trackDegraded_def
  by (auto intro!: restart_status clearDegradedTracking_status dest: consistent_status_only)

lemma applyDegradedFromError_consistent: "status_consistent (applyDegradedFromError node err now)"
  by (simp add: applyDegradedFromError_def status_consistent_def)

text \<open>
  C8: Every status the health refresh sends to the API server is coherent, whatever the node,
  the server, the public endpoints and the clock answer: the phase is Healthy, Syncing or
  Degraded, the Ready condition is true exactly in phase Healthy and the Degraded condition
  exactly in phase Degraded. (The status patch of the client answers with the object sent.)
\<close>

theorem refreshStatus_coherent:
  "wp (refreshStatus tz oor (C\<lparr>cPatchStatus := \<lambda>_ sent. ret (Inr sent)\<rparr>) E cx node adapter creds)
     (\<lambda>r _. \<exists>sent. r = Inr sent \<and> csPhase (ciStatus sent) \<in> {NodePhaseHealthy, NodePhaseSyncing, NodePhaseDegraded} \<and>
        (cond_status sent ConditionReady = Some ConditionTrue \<longleftrightarrow> csPhase (ciStatus sent) = NodePhaseHealthy) \<and>
        (cond_status sent ConditionDegraded = Some ConditionTrue \<longleftrightarrow> csPhase (ciStatus sent) = NodePhaseDegraded)) w"
proof -
  let ?C = "C\<lparr>cPatchStatus := \<lambda>_ sent. ret (Inr sent)\<rparr>"
  have probe: "wp (probeNode ?C cx node adapter creds) Q w'" if "\<And>a w'. Q a w'" for Q w'
    using that by (rule wp_any)
  have apply_st: "wp (applyHealthyOrSyncing tz oor ?C E cx node st now) (\<lambda>n _. status_consistent n) w'" for st now w'
    by (simp add: applyHealthyOrSyncing_def Let_def applySyncing_consistent applyFullySynced_consistent)
  have "wp (refreshStatus tz oor ?C E cx node adapter creds) (\<lambda>r _. \<exists>sent. r = Inr sent \<and> status_consistent sent) w"
    unfolding refreshStatus_def
    by (auto intro!: probe client_any trackDegraded_consistent applyDegradedFromError_consistent
          wp_mono [OF apply_st] split: sum.splits)
  moreover have "csPhase (ciStatus sent) \<in> {NodePhaseHealthy, NodePhaseSyncing, NodePhaseDegraded} \<and>
        (cond_status sent ConditionReady = Some ConditionTrue \<longleftrightarrow> csPhase (ciStatus sent) = NodePhaseHealthy) \<and>
        (cond_status sent ConditionDegraded = Some ConditionTrue \<longleftrightarrow> csPhase (ciStatus sent) = NodePhaseDegraded)"
    if "status_consistent sent" for sent
    using that by (cases "csPhase (ciStatus sent)") (auto simp: status_consistent_def)
  ultimately show ?thesis
    by (elim wp_mono) blast
qed

subsection \<open>Stalls\<close>

text \<open>
  A node is reported stalled exactly when its height is the one recorded before and the
  recorded start of the freeze lies at least the stall threshold of its chain before the
  current time; a missing or malformed record never reports a stall.
\<close>

theorem detectHeightStall_iff:
  "fst (fst (run_state (detectHeightStall C node b) w)) =
     (if mget (nodeAnnotations node) annotationLastSyncBlock = Itoa b \<and>
         (\<exists>since. ParseRFC3339 (mget (nodeAnnotations node) annotationSyncStallSince) = Some since \<and>
            syncStallThreshold (spChain (ciSpec node)) \<le> time_Sub (fst (run_state (gNow C) w)) since)
      then Some (stallMessage node b) else None)"
proof -
  have empty: "ParseRFC3339 [] = None"
    by (simp add: ParseRFC3339_def)
  have bind_fst: "fst (run_state (State_Monad.bind m (\<lambda>n. ret (None, n))) w) = (None, fst (run_state m w))"
    for m :: "('a, ChainInstance) state"
    by (simp split: prod.splits)
  show ?thesis
    by (auto simp: detectHeightStall_def Let_def bind_fst empty not_less split: option.splits prod.splits)
qed

text \<open>
  The stall exemption that the Bitcoin-family policy \<open>synced-exempt\<close> grants to synced
  nodes has no effect: the refresh treats their status exactly as if it were not exempt.
\<close>

theorem synced_exemption_ignored:
  assumes "uxStallPolicy u = ''synced-exempt''"
  shows "applyHealthyOrSyncing tz oor C E cx node (utxo_status u info peers) now =
         applyHealthyOrSyncing tz oor C E cx node ((utxo_status u info peers)\<lparr>syStallExempt := False\<rparr>) now"
proof (cases "syIsSyncing (utxo_status u info peers)")
  case True
  with assms have "(utxo_status u info peers)\<lparr>syStallExempt := False\<rparr> = utxo_status u info peers"
    by (simp add: utxo_status_def utxo_stallExempt_def Let_def)
  then show ?thesis by simp
next
  case False
  then show ?thesis
    by (simp add: applyHealthyOrSyncing_def applyFullySyncedStatus_def noteHeightAndPeers_def Let_def
          cong del: if_weak_cong option.case_cong_weak)
qed

theorem synced_exemption_ignored_witness:
  "\<forall>tz oor C E cx node info peers now.
     (let u = \<lparr>uxRpcUserEnv = ''BTC_RPC_USER'', uxRpcPasswordEnv = ''BTC_RPC_PASSWORD'', uxConfigFile = ''bitcoin.conf'',
                uxStallPolicy = ''synced-exempt'', uxUseRetry = True\<rparr>;
          st = utxo_status u info peers in
      applyHealthyOrSyncing tz oor C E cx node st now = applyHealthyOrSyncing tz oor C E cx node (st\<lparr>syStallExempt := False\<rparr>) now)"
  unfolding Let_def by (intro allI) (rule synced_exemption_ignored, simp)

subsection \<open>The ETA cap\<close>

text \<open>
  The one-year cap on the block-rate estimate does not cap every estimate: with one block
  in 299 seconds and a hundred million blocks to go, more than nine centuries, the product
  with the nanosecond unit wraps around to a negative duration, which passes the cap and is
  displayed.
\<close>

theorem blockETA_overflow:
  "blockETA oor 100000002 2 1 (299 * Second) = ''-1942635h35m47s''"
proof -
  have rate: "f_div (f_of_int (wrap64 (2 - 1))) (dur_Seconds (299 * Second)) = Fin (1 / 299)"
    by (simp add: f_of_int_def dur_Seconds_def wrap64_def)
  have remaining: "f_to_int64 oor (f_div (f_of_int (wrap64 (100000002 - 2))) (Fin (1 / 299))) = 29900000000"
    by (simp add: f_of_int_def wrap64_def f_to_int64_def trunc_rat_def in_int64_def)
  have eta: "wrap64 (29900000000 * Second) = - 6993488147419103232"
    by (simp add: wrap64_def)
  have human: "humanDuration (- 6993488147419103232) = dur_String (- 6993488147000000000)"
    by (simp add: humanDuration_def dur_Round_def Let_def)
  have "dur_String (- 6993488147000000000) = ''-1942635h35m47s''"
    by (simp add: dur_String_def Let_def nat_digits.simps frac_digits_def go_simps)
  then show ?thesis
    unfolding blockETA_def rate Let_def remaining eta by (simp add: maxETAHours_def human)
qed

end
