(* ===== verification/Auto_Restart.thy ===== *)
theory Auto_Restart
  imports Reconcile_Health
begin

text \<open>
  When the health refresh of theory \<open>Reconcile_Health\<close> restarts a pod. The locale
  \<open>instance_world\<close> states what the refresh relies on: reading, probing, updating and patching
  leave the pods alone and never turn the clock back, and the server keeps the spec and the
  annotations of an update. Inside it, a refresh that changes a pod is shown to be overdue.
\<close>

definition pods_kept :: "('w \<Rightarrow> 'p) \<Rightarrow> ('w \<Rightarrow> time) \<Rightarrow> ('w, 'a) state \<Rightarrow> bool" where
  "pods_kept pods clk m \<longleftrightarrow> (\<forall>w. wp m (\<lambda>_ w'. pods w' = pods w \<and> clk w \<le> clk w') w)"

lemma pods_keptI:
  "(\<And>w. wp m (\<lambda>_ w'. pods w' = pods w \<and> clk w \<le> clk w') w) \<Longrightarrow> pods_kept pods clk m"
  by (simp add: pods_kept_def)

lemma pods_keptD:
  "pods_kept pods clk m \<Longrightarrow> (\<And>a w'. pods w' = pods w \<Longrightarrow> clk w \<le> clk w' \<Longrightarrow> Q a w') \<Longrightarrow> wp m Q w"
  unfolding pods_kept_def by (blast intro: wp_mono)

lemma pods_kept_ret: "pods_kept pods clk (ret a)"
  by (rule pods_keptI) simp

lemma pods_kept_bind:
  "pods_kept pods clk m \<Longrightarrow> (\<And>a. pods_kept pods clk (f a)) \<Longrightarrow> pods_kept pods clk (State_Monad.bind m f)"
  by (rule pods_keptI) (auto intro!: pods_keptD [where m = m] pods_keptD [where m = "f a" for a])

lemma pods_kept_if: "pods_kept pods clk m \<Longrightarrow> pods_kept pods clk n \<Longrightarrow> pods_kept pods clk (if b then m else n)"
  by simp

lemma pods_kept_case_sum:
  "(\<And>e. pods_kept pods clk (f e)) \<Longrightarrow> (\<And>v. pods_kept pods clk (g v)) \<Longrightarrow>
   pods_kept pods clk (case r of Inl e \<Rightarrow> f e | Inr v \<Rightarrow> g v)"
  by (cases r) auto

lemma pods_kept_case_option:
  "pods_kept pods clk m \<Longrightarrow> (\<And>v. pods_kept pods clk (g v)) \<Longrightarrow>
   pods_kept pods clk (case r of None \<Rightarrow> m | Some v \<Rightarrow> g v)"
  by (cases r) auto

lemmas pods_kept_rules =
  pods_kept_ret pods_kept_bind pods_kept_if pods_kept_case_sum pods_kept_case_option

text \<open>
  \<open>overdue node start t\<close>: at \<open>t\<close> the restart timeout, as the code computes it, has run since
  the stored degraded-since instant or since the refresh itself began.
\<close>

definition overdue :: "ChainInstance \<Rightarrow> time \<Rightarrow> time \<Rightarrow> bool" where
  "overdue node start t \<longleftrightarrow> degradedTimeout node \<noteq> 0 \<and>
     (let limit = wrap64 (degradedTimeout node * Minute) in
      limit \<le> time_Sub t (start div Second * Second) \<or>
      (\<exists>since d. map_of (nodeAnnotations node) annotationDegradedSince = Some since \<and>
                 ParseRFC3339 since = Some d \<and> limit \<le> time_Sub t d))"

lemma overdue_mono: "overdue node start t \<Longrightarrow> t \<le> t' \<Longrightarrow> overdue node start t'"
  unfolding overdue_def Let_def by (meson order_trans time_Sub_mono)

lemma time_Sub_antimono: "u \<le> u' \<Longrightarrow> time_Sub t u' \<le> time_Sub t u"
  by (auto simp: time_Sub_def)

definition year10000 :: time where "year10000 = 253402300800 * Second"

text \<open>
  What holds of the object and the world along a refresh that began with \<open>node0\<close> in \<open>w0\<close>:
  the pods are untouched and the degraded-since annotation is absent, the original one or
  one stamped meanwhile, unless a restart was overdue.
\<close>

definition tracked ::
    "('w \<Rightarrow> 'p) \<Rightarrow> ('w \<Rightarrow> time) \<Rightarrow> ChainInstance \<Rightarrow> 'w \<Rightarrow> ChainInstance \<Rightarrow> 'w \<Rightarrow> bool" where
  "tracked pods clk node0 w0 n w \<longleftrightarrow> ciSpec n = ciSpec node0 \<and> clk w0 \<le> clk w \<and>
     (overdue node0 (clk w0) (clk w) \<or> year10000 \<le> clk w \<or>
      pods w = pods w0 \<and>
      (let s = map_of (nodeAnnotations n) annotationDegradedSince in
       s = None \<or> s = map_of (nodeAnnotations node0) annotationDegradedSince \<or>
       (\<exists>now. s = Some (FormatRFC3339 0 now) \<and> clk w0 \<le> now \<and> now \<le> clk w)))"

lemma tracked_simps [simp]:
  "tracked pods clk n0 w0 (setCondition t s r m now n) w = tracked pods clk n0 w0 n w"
  "tracked pods clk n0 w0 (set_phase ph n) w = tracked pods clk n0 w0 n w"
  "tracked pods clk n0 w0 (set_progress pr n) w = tracked pods clk n0 w0 n w"
  "tracked pods clk n0 w0 (set_eta e n) w = tracked pods clk n0 w0 n w"
  "tracked pods clk n0 w0 (observe_generation n) w = tracked pods clk n0 w0 n w"
  "tracked pods clk n0 w0 (noteHeightAndPeers st n) w = tracked pods clk n0 w0 n w"
  by (simp_all add: tracked_def)

lemma tracked_start: "tracked pods clk node0 w0 node0 w0"
  by (simp add: tracked_def Let_def)

lemma tracked_same:
  "tracked pods clk node0 w0 n w \<Longrightarrow> ciSpec n' = ciSpec n \<Longrightarrow>
   map_of (nodeAnnotations n') annotationDegradedSince = map_of (nodeAnnotations n) annotationDegradedSince \<Longrightarrow>
   tracked pods clk node0 w0 n' w"
  by (simp add: tracked_def)

lemma tracked_later:
  assumes "tracked pods clk node0 w0 n w" "pods w' = pods w" "clk w \<le> clk w'"
  shows "tracked pods clk node0 w0 n w'"
proof -
  from assms have "overdue node0 (clk w0) (clk w) \<longrightarrow> overdue node0 (clk w0) (clk w')"
    by (blast intro: overdue_mono)
  with assms show ?thesis unfolding tracked_def Let_def by (auto intro: order_trans)
qed

locale instance_world =
  fixes C :: "'w ctl" and E :: "'w rpc_env" and A :: "'w ChainAdapter"
    and pods :: "'w \<Rightarrow> 'p" and clk :: "'w \<Rightarrow> time"
  assumes now_law: "wp (gNow C) (\<lambda>t w'. pods w' = pods w \<and> clk w \<le> t \<and> t \<le> clk w') w"
    and get_pod_law: "pods_kept pods clk (kGetPod C ns name)"
    and delete_pod_law: "wp (kDeletePod C g p) (\<lambda>_ w'. clk w \<le> clk w') w"
    and update_law: "wp (cUpdateNode C n) (\<lambda>r w'. pods w' = pods w \<and> clk w \<le> clk w' \<and>
          (case r of Inl _ \<Rightarrow> True
           | Inr n' \<Rightarrow> ciSpec n' = ciSpec n \<and> same_map (nodeAnnotations n') (nodeAnnotations n))) w"
    and patch_status_law: "pods_kept pods clk (cPatchStatus C b n)"
    and logs_law: "cPodLogs C = Some logs \<Longrightarrow> pods_kept pods clk (logs ns name ctr tail)"
    and do_law: "pods_kept pods clk (hDo E c d url)"
    and post_law: "pods_kept pods clk (hPost E c d url body)"
    and health_law: "pods_kept pods clk (adHealthCheck A c url)"
    and credentialed_law: "adRPCCredentialed A = Some rc \<Longrightarrow> pods_kept pods clk (rcHealthCheck rc c url creds)"
begin

lemma now_kept: "pods_kept pods clk (gNow C)"
  by (rule pods_keptI) (rule wp_mono [OF now_law], auto)

lemma tip_kept: "pods_kept pods clk (fetchPublicTip E c chain)"
  unfolding fetchPublicTip_def tip_fetchers httpGet_def jsonRPCPost_def
  by (intro pods_kept_rules do_law post_law)

lemma logs_kept: "pods_kept pods clk (enrichProgress C n st)"
  unfolding enrichProgress_def avaxBootstrapProgress_def
  by (cases "cPodLogs C") (auto intro!: pods_kept_rules logs_law)

lemma probe_kept: "pods_kept pods clk (probeNode C cx n A creds)"
  unfolding probeNode_def Let_def
  by (cases "adRPCCredentialed A") (auto intro!: pods_kept_rules now_kept health_law credentialed_law)

lemma kept_tracked:
  assumes "pods_kept pods clk m" "tracked pods clk n0 w0 n w" "\<And>a w'. tracked pods clk n0 w0 n w' \<Longrightarrow> Q a w'"
  shows "wp m Q w"
  using assms by (auto intro!: pods_keptD [OF assms(1)] dest: tracked_later)

lemma persist_tracked:
  assumes "tracked pods clk n0 w0 n w" "\<And>e w'. tracked pods clk n0 w0 n w' \<Longrightarrow> Q (Inl e) w'"
    "\<And>n' w'. tracked pods clk n0 w0 n' w' \<Longrightarrow> ciStatus n' = ciStatus n \<Longrightarrow> Q (Inr n') w'"
  shows "wp (persistAnnotations C n) Q w"
proof -
  have "tracked pods clk n0 w0 (n'\<lparr>ciStatus := st\<rparr>) w'"
    if "pods w' = pods w" "clk w \<le> clk w'" "ciSpec n' = ciSpec n"
       "same_map (nodeAnnotations n') (nodeAnnotations n)" for n' st w'
    using tracked_later [OF assms(1) that(1,2)] that(3,4)
    by (auto simp: same_map_def intro: tracked_same)
  with assms tracked_later [OF assms(1)] show ?thesis
    unfolding persistAnnotations_def by (auto intro!: wp_mono [OF update_law] split: sum.splits)
qed

lemma persistOrLog_tracked:
  "tracked pods clk n0 w0 n w \<Longrightarrow> (\<And>n' w'. tracked pods clk n0 w0 n' w' \<Longrightarrow> ciStatus n' = ciStatus n \<Longrightarrow> Q n' w') \<Longrightarrow>
   wp (persistOrLog C n) Q w"
  unfolding persistOrLog_def by (auto intro!: persist_tracked)

lemma persistPair_tracked:
  "tracked pods clk n0 w0 n w \<Longrightarrow>
   (\<And>r n' w'. tracked pods clk n0 w0 n' w' \<Longrightarrow> ciStatus n' = ciStatus n \<Longrightarrow> Q (r, n') w') \<Longrightarrow>
   wp (persistPair C n) Q w"
  unfolding persistPair_def by (auto intro!: persist_tracked)

lemma stamp_tracked:
  assumes "tracked pods clk n0 w0 n w"
    "\<And>r n' w'. tracked pods clk n0 w0 n' w' \<Longrightarrow> ciStatus n' = ciStatus n \<Longrightarrow> Q (r, n') w'"
  shows "wp (stampDegraded C n) Q w"
proof -
  have "tracked pods clk n0 w0 (set_ann annotationDegradedSince (FormatRFC3339 0 t) n) w'"
    if "pods w' = pods w" "clk w \<le> t" "t \<le> clk w'" for t w'
  proof -
    from that have "clk w \<le> clk w'" by linarith
    from tracked_later [OF assms(1) that(1) this] assms(1) that show ?thesis
      by (auto simp: tracked_def set_ann_def Let_def update_conv')
  qed
  then show ?thesis
    unfolding stampDegraded_def using assms(2)
    by (auto intro!: wp_mono [OF now_law] persistPair_tracked)
qed

text \<open>The deletion is reached only when it is overdue.\<close>

lemma elapsed_overdue:
  assumes t: "tracked pods clk n0 w0 n w" and "degradedTimeout n \<noteq> 0"
    and since: "map_of (nodeAnnotations n) annotationDegradedSince = Some since" "ParseRFC3339 since = Some d"
    and limit: "wrap64 (degradedTimeout n * Minute) \<le> time_Sub now d" "now \<le> clk w" and start: "0 \<le> clk w0"
  shows "overdue n0 (clk w0) (clk w) \<or> year10000 \<le> clk w"
proof (rule ccontr)
  assume not_yet: "\<not> (overdue n0 (clk w0) (clk w) \<or> year10000 \<le> clk w)"
  have same: "degradedTimeout n0 = degradedTimeout n" using t by (simp add: tracked_def degradedTimeout_def)
  have late: "wrap64 (degradedTimeout n * Minute) \<le> time_Sub (clk w) d"
    using limit time_Sub_mono order_trans by blast
  from t not_yet since(1) consider
      "map_of (nodeAnnotations n0) annotationDegradedSince = Some since"
    | t' where "since = FormatRFC3339 0 t'" "clk w0 \<le> t'" "t' \<le> clk w"
    by (auto simp: tracked_def Let_def)
  then show False
  proof cases
    case 1
    with late since(2) assms(2) same not_yet show False by (auto simp: overdue_def Let_def)
  next
    case 2
    from 2 start not_yet have "0 \<le> t'" "t' < 253402300800 * Second" by (auto simp: year10000_def)
    then have "0 \<le> t' div Second" "t' div Second < 253402300800" by auto
    with since(2) 2(1) ParseRFC3339_Format [of 0 t'] have "d = t' div Second * Second" by simp
    moreover have "clk w0 div Second * Second \<le> t' div Second * Second"
      using 2(2) by (simp add: zdiv_mono1)
    ultimately have "wrap64 (degradedTimeout n * Minute) \<le> time_Sub (clk w) (clk w0 div Second * Second)"
      using late time_Sub_antimono order_trans by blast
    with assms(2) same not_yet show False by (simp add: overdue_def Let_def)
  qed
qed

lemma restart_tracked:
  assumes t: "tracked pods clk n0 w0 n w" and start: "0 \<le> clk w0"
    and Q: "\<And>r n' w'. tracked pods clk n0 w0 n' w' \<Longrightarrow> ciStatus n' = ciStatus n \<Longrightarrow> Q (r, n') w'"
  shows "wp (restartIfDegradedTooLong C n) Q w"
proof -
  have delete: "wp (deleteDegradedPod C n) Q w1"
    if t1: "tracked pods clk n0 w0 n w1" and over: "overdue n0 (clk w0) (clk w1) \<or> year10000 \<le> clk w1" for w1
  proof -
    have after: "tracked pods clk n0 w0 n' w2" if "clk w1 \<le> clk w2" "ciSpec n' = ciSpec n" for n' w2
      using t1 over that overdue_mono by (fastforce simp: tracked_def)
    show ?thesis
      unfolding deleteDegradedPod_def Let_def
      by (auto intro!: pods_keptD [OF get_pod_law] pods_keptD [OF now_kept] wp_mono [OF delete_pod_law]
            persistPair_tracked [where ?n0.0 = n0 and ?w0.0 = w0] Q split: sum.splits)
        (rule after; simp)+
  qed
  have check: "wp (gNow C) (\<lambda>now w'. wp (if time_Sub now d < wrap64 (degradedTimeout n * Minute)
                 then ret (Inr (), n) else deleteDegradedPod C n) Q w') w"
    if "map_of (nodeAnnotations n) annotationDegradedSince = Some since" "ParseRFC3339 since = Some d"
       "degradedTimeout n \<noteq> 0" for since d
  proof (rule wp_mono [OF now_law])
    fix now w' assume w': "pods w' = pods w \<and> clk w \<le> now \<and> now \<le> clk w'"
    then have later: "tracked pods clk n0 w0 n w'" by (auto intro: tracked_later [OF t])
    from elapsed_overdue [OF later that(3,1,2) _ _ start, of now] w' Q later delete
    show "wp (if time_Sub now d < wrap64 (degradedTimeout n * Minute)
              then ret (Inr (), n) else deleteDegradedPod C n) Q w'"
      by (simp add: not_less)
  qed
  show ?thesis
    unfolding restartIfDegradedTooLong_def Let_def
    using Q t check by (auto simp del: wp_if intro!: stamp_tracked split: option.splits)
qed

lemma clear_tracked:
  assumes "tracked pods clk n0 w0 n w" "\<And>n' w'. tracked pods clk n0 w0 n' w' \<Longrightarrow> Q n' w'"
  shows "wp (clearDegradedTracking C n) Q w"
proof -
  have "tracked pods clk n0 w0 (del_ann annotationDegradedSince n) w'" if "tracked pods clk n0 w0 n w'" for w'
    using that by (auto simp: tracked_def del_ann_def Let_def delete_conv')
  with assms show ?thesis
    unfolding clearDegradedTracking_def
    by (auto intro!: kept_tracked [OF now_kept, where ?n0.0 = n0 and ?w0.0 = w0 and n = n]
          persistOrLog_tracked [where ?n0.0 = n0 and ?w0.0 = w0] split: option.splits)
qed

text \<open>The other annotations of the refresh are not the degraded-since one.\<close>

lemma tracked_other_ann:
  "k \<noteq> annotationDegradedSince \<Longrightarrow> tracked pods clk n0 w0 n w \<Longrightarrow> tracked pods clk n0 w0 (set_ann k v n) w"
  "k \<noteq> annotationDegradedSince \<Longrightarrow> tracked pods clk n0 w0 n w \<Longrightarrow> tracked pods clk n0 w0 (del_ann k n) w"
  by (auto simp: set_ann_def del_ann_def update_conv' delete_conv' elim!: tracked_same)

lemma stall_tracked:
  assumes "tracked pods clk n0 w0 n w" "\<And>r n' w'. tracked pods clk n0 w0 n' w' \<Longrightarrow> Q (r, n') w'"
  shows "wp (detectHeightStall C n b) Q w"
  unfolding detectHeightStall_def resetStallSince_def Let_def
  using assms
  by (auto intro!: persistOrLog_tracked [where ?n0.0 = n0 and ?w0.0 = w0]
        kept_tracked [OF now_kept, where ?n0.0 = n0 and ?w0.0 = w0 and n = n] tracked_other_ann
        split: option.splits)

lemma eta_tracked:
  assumes "tracked pods clk n0 w0 n w" "\<And>r n' w'. tracked pods clk n0 w0 n' w' \<Longrightarrow> Q (r, n') w'"
  shows "wp (estimateSyncETA tz oor C E cx n progress b now) Q w"
proof -
  have block: "wp (blockRateETA tz oor C E cx n' b now) Q w'" if "tracked pods clk n0 w0 n' w'" for n' w'
    unfolding blockRateETA_def Let_def using assms(2) that
    by (auto intro!: kept_tracked [OF tip_kept, where ?n0.0 = n0 and ?w0.0 = w0 and n = n']
          persistOrLog_tracked [where ?n0.0 = n0 and ?w0.0 = w0] tracked_other_ann split: option.splits sum.splits)
  show ?thesis
    unfolding estimateSyncETA_def progressBasedETA_def Let_def using assms
    by (auto intro!: block persist_tracked [where ?n0.0 = n0 and ?w0.0 = w0] tracked_other_ann
          split: option.splits sum.splits)
qed

lemma markStalled_tracked:
  assumes "tracked pods clk n0 w0 n w" "0 \<le> clk w0" "\<And>n' w'. tracked pods clk n0 w0 n' w' \<Longrightarrow> Q n' w'"
  shows "wp (markStalled C n pct msg now) Q w" "wp (markHeightStall C n msg now) Q w"
  unfolding markStalled_def markHeightStall_def Let_def
  using assms by (auto intro!: restart_tracked [where ?n0.0 = n0 and ?w0.0 = w0])

lemma syncing_tracked:
  assumes t: "tracked pods clk n0 w0 n w" and start: "0 \<le> clk w0"
    and Q: "\<And>n' w'. tracked pods clk n0 w0 n' w' \<Longrightarrow> Q n' w'"
  shows "wp (applySyncingStatus tz oor C E cx n st now) Q w"
proof -
  have report: "wp (reportProgress tz oor C E cx n' st' now) R w'"
    if "tracked pods clk n0 w0 n' w'" "\<And>n'' w''. tracked pods clk n0 w0 n'' w'' \<Longrightarrow> R n'' w''" for R n' w' st'
    unfolding reportProgress_def Let_def using that
    by (auto intro!: eta_tracked [where ?n0.0 = n0 and ?w0.0 = w0])
  show ?thesis
    unfolding applySyncingStatus_def Let_def
    using t by (auto intro!: kept_tracked [OF logs_kept t] stall_tracked [where ?n0.0 = n0 and ?w0.0 = w0]
          markStalled_tracked [OF _ start] Q report split: option.splits)
qed

lemma synced_tracked:
  assumes t: "tracked pods clk n0 w0 n w" and start: "0 \<le> clk w0"
    and Q: "\<And>n' w'. tracked pods clk n0 w0 n' w' \<Longrightarrow> Q n' w'"
  shows "wp (applyFullySyncedStatus C E cx n st now) Q w"
proof -
  have judged: "tracked pods clk n0 w0 (judgeLag r now n') w' = tracked pods clk n0 w0 n' w'" for r n' w'
    by (cases r) (simp add: judgeLag_def Let_def)
  have lag: "wp (checkBlockLag E cx n' b) R w'"
    if "tracked pods clk n0 w0 n' w'" "\<And>a w''. tracked pods clk n0 w0 n' w'' \<Longrightarrow> R a w''" for R n' w' b
    unfolding checkBlockLag_def wp_bind wp_ret using that(1) by (rule kept_tracked [OF tip_kept]) (rule that(2))
  show ?thesis
    unfolding applyFullySyncedStatus_def Let_def
    by (auto simp: judged intro!: stall_tracked [OF t] markStalled_tracked [OF _ start] Q lag tracked_other_ann
          split: option.splits)
qed

lemma refresh_tracked:
  assumes "0 \<le> clk w"
  shows "wp (refreshStatus tz oor C E cx n A creds)
           (\<lambda>_ w'. pods w' = pods w \<or> overdue n (clk w) (clk w') \<or> year10000 \<le> clk w') w"
proof -
  let ?T = "tracked pods clk n w"
  have apply_st: "wp (applyHealthyOrSyncing tz oor C E cx n st now) Q w'"
    if "?T n w'" "\<And>n' w'. ?T n' w' \<Longrightarrow> Q n' w'" for Q st now w'
    using that assms by (auto simp: applyHealthyOrSyncing_def Let_def intro!: syncing_tracked synced_tracked)
  have track: "wp (trackDegraded C n') Q w'" if "?T n' w'" "\<And>n' w'. ?T n' w' \<Longrightarrow> Q n' w'" for Q n' w'
    unfolding trackDegraded_def using that
    by (auto intro!: restart_tracked [where ?n0.0 = n and ?w0.0 = w, OF _ assms] clear_tracked)
  have patch: "wp (cPatchStatus C n n') (\<lambda>_ w'. pods w' = pods w \<or> overdue n (clk w) (clk w') \<or> year10000 \<le> clk w') w'"
    if "?T n' w'" for n' w'
    by (rule kept_tracked [OF patch_status_law that]) (auto simp: tracked_def)
  have probe: "wp (probeNode C cx n A creds) Q w" if "\<And>st w'. ?T n w' \<Longrightarrow> Q st w'" for Q
    using tracked_start that by (rule kept_tracked [OF probe_kept])
  show ?thesis
    unfolding refreshStatus_def
    by (auto intro!: probe kept_tracked [OF now_kept, where ?n0.0 = n and ?w0.0 = w and n = n] apply_st track patch
          simp: applyDegradedFromError_def split: sum.splits)
qed

end

subsection \<open>An in-memory controller\<close>

text \<open>
  The in-memory server with the requests of the controller: an update keeps the stored status
  and a status patch changes nothing else, as for a resource with a status subresource. It is
  offline, and its node answers with a fixed status.
\<close>

definition mem_ctl :: "mem ctl" where
  "mem_ctl = kube.extend mem_kube (ctl.fields
     (\<lambda>n. State (\<lambda>w. case map_of (mNodes w) (nodeKey n) of
        None \<Rightarrow> (Inl notFound, w)
      | Some old \<Rightarrow> (let n' = n\<lparr>ciStatus := ciStatus old\<rparr> in
          (Inr n', w\<lparr>mNodes := AList.update (nodeKey n) n' (mNodes w)\<rparr>))))
     (\<lambda>b n. State (\<lambda>w. case map_of (mNodes w) (nodeKey n) of
        None \<Rightarrow> (Inl notFound, w)
      | Some old \<Rightarrow> (let n' = old\<lparr>ciStatus := ciStatus n\<rparr> in
          (Inr n', w\<lparr>mNodes := AList.update (nodeKey n) n' (mNodes w)\<rparr>))))
     None)"

definition offline :: "mem rpc_env" where
  "offline = \<lparr>gNow = gNow mem_kube, gWait = gWait mem_kube, hParseURL = Inr, hNewRequest = (\<lambda>_. Inr ()),
     hDo = (\<lambda>_ _ _. ret (Inl (GoErr ''no route to host''))),
     hPost = (\<lambda>_ _ _ _. ret (Inl (GoErr ''no route to host''))), hCtxErr = (\<lambda>_. ret None)\<rparr>"

definition fixed_adapter :: "goerr + SyncStatus \<Rightarrow> 'w ChainAdapter" where
  "fixed_adapter r = \<lparr>adDefaultImage = (\<lambda>_. ''image:tag''), adConfigTemplate = (\<lambda>_. Inr ([], [])),
     adHealthCheck = (\<lambda>_ _. ret r), adLivenessProbe = (\<lambda>_. None), adNodeSelector = DefaultNodeSelector,
     adContainerPorts = (\<lambda>_. []), adContainerArgs = None, adContainerCommand = None, adContainerEnv = None,
     adNodePorts = None, adStartupProbe = None, adInitContainers = None, adSidecars = None,
     adVersionPolicy = None, adDefaultResources = None, adClientVersionPolicies = None, adRPCCredentialed = None\<rparr>"

interpretation mem_instance: instance_world mem_ctl offline "fixed_adapter r" "\<lambda>w. map_of (mPods w)" mNow for r
  by unfold_locales
     (auto simp: mem_ctl_def offline_def fixed_adapter_def mem_kube_def kube.defs ctl.defs Let_def
           intro!: pods_keptI split: option.splits)

lemmas mem_instance_world = mem_instance.instance_world_axioms

text \<open>
  C9: The health refresh restarts a pod only when it is due. For every node state, probe
  result and API failure: if a refresh changes any pod, the auto-restart is enabled (its
  timeout is not zero) and the timeout has run out since the degraded-since instant stored
  with the object, or the refresh itself lasted that long.
\<close>

theorem refreshStatus_restarts_only_overdue:
  assumes "instance_world C E A pods clk" "0 \<le> clk w"
  shows "wp (refreshStatus tz oor C E cx node A creds)
           (\<lambda>_ w'. clk w' < year10000 \<longrightarrow> pods w' \<noteq> pods w \<longrightarrow> overdue node (clk w) (clk w')) w"
  using instance_world.refresh_tracked [OF assms, of tz oor cx node creds] by (rule wp_mono) auto

definition degraded_world :: mem where
  "degraded_world = \<lparr>mNow = 1700000000 * Second,
     mNodes = [((''ns'', ''btc''), zero_node\<lparr>ciMeta := zero_meta\<lparr>mName := ''btc'', mNamespace := ''ns''\<rparr>\<rparr>)],
     mPods = [((''ns'', ''btc-0''), zero_pod\<lparr>podMeta := zero_meta\<lparr>mName := ''btc-0'', mNamespace := ''ns''\<rparr>\<rparr>)],
     mPVCs = [], mServices = [], mSlices = []\<rparr>"

theorem refreshStatus_restarts_only_overdue_witness:
  "let node = zero_node\<lparr>ciMeta := zero_meta\<lparr>mName := ''btc'', mNamespace := ''ns''\<rparr>\<rparr> in
   wp (refreshStatus 0 0 mem_ctl offline None node (fixed_adapter (Inl (GoErr ''connection refused'')))
         \<lparr>rcUser = [], rcPassword = [], rcSalt = []\<rparr>)
     (\<lambda>_ w'. mNow w' < year10000 \<longrightarrow> map_of (mPods w') \<noteq> map_of (mPods degraded_world) \<longrightarrow>
             overdue node (mNow degraded_world) (mNow w')) degraded_world"
  unfolding Let_def
  by (rule refreshStatus_restarts_only_overdue [OF mem_instance_world]) (simp add: degraded_world_def)

end
