(* ===== verification/Reconcile.thy ===== *)
theory Reconcile
  imports Upgrade Auto_Restart
begin

text \<open>
  \<open>internal/controller/blockchainnode_controller.go\<close>: one reconciliation of a ChainInstance, the
  composition of the owned objects, the upgrade step and the health refresh. The record
  \<open>operator\<close> gathers what a running operator is built from: the adapter registry, the
  snapshot settings, the digest function, the local zone and the float conversion.
\<close>

record 'w operator =
  opRegistry :: "'w registry"
  opSnapshot :: snapshot_build
  opSha256 :: "string \<Rightarrow> string"
  opZone :: int
  opFloatOverflow :: int

definition reconcileInterval :: duration where "reconcileInterval = 30 * Second"

abbreviation (input) ReasonImageRequired :: string where "ReasonImageRequired \<equiv> ''ImageRequired''"

definition done_with :: "goerr + 'a \<Rightarrow> goerr + Result" where
  "done_with r = (case r of Inl err \<Rightarrow> Inl err | Inr _ \<Rightarrow> Inr \<lparr>rqAfter = 0\<rparr>)"

definition patchPhase :: "('w, 'x) ctl_scheme \<Rightarrow> ChainInstance \<Rightarrow> NodePhase \<Rightarrow> ('w, goerr + Result) state" where
  "patchPhase C node phase = do {
     r \<leftarrow> cPatchStatus C node (set_phase phase node);
     ret (done_with r) }"

definition markImageRequired :: "('w, 'x) ctl_scheme \<Rightarrow> ChainInstance \<Rightarrow> ('w, goerr + Result) state" where
  "markImageRequired C node = do {
     now \<leftarrow> gNow C;
     r \<leftarrow> cPatchStatus C node
           (setCondition ConditionDegraded ConditionTrue ReasonImageRequired
              (''chain '' @ spChain (ciSpec node) @ '' has no public default image; set spec.image'') now
              (set_phase NodePhaseFailed node));
     ret (done_with r) }"

text \<open>\<open>if err := f(); err != nil { return ctrl.Result{}, err }\<close>.\<close>

definition bind_err :: "('w, goerr + 'a) state \<Rightarrow> ('a \<Rightarrow> ('w, goerr + 'b) state) \<Rightarrow> ('w, goerr + 'b) state" where
  "bind_err m f = do { r \<leftarrow> m; case r of Inl err \<Rightarrow> ret (Inl err) | Inr a \<Rightarrow> f a }"

text \<open>The owned objects, the upgrade and the status, in dependency order.\<close>

definition reconcileOwned ::
    "'w operator \<Rightarrow> ('w, 'x) workload_ctl_scheme \<Rightarrow> ('w, 'y) rpc_env_scheme \<Rightarrow> ctx \<Rightarrow> ChainInstance \<Rightarrow> 'w ChainAdapter \<Rightarrow>
     ('w, goerr + Result) state" where
  "reconcileOwned op C E cx node adapter =
     bind_err (ensureRPCSecret C node adapter) (\<lambda>creds.
     bind_err (ensureConfigMap (opSha256 op) C node adapter creds) (\<lambda>cfgHash.
     bind_err (ensureStatefulSet (opSnapshot op) (opRegistry op) C node adapter cfgHash) (\<lambda>_.
     bind_err (ensureService C node adapter) (\<lambda>_.
     bind_err (ensurePodMonitor C node adapter) (\<lambda>_.
     bind_err (reconcileUpgrade C node) (\<lambda>node. do {
       _ \<leftarrow> refreshStatus (opZone op) (opFloatOverflow op) C E cx node adapter creds;
       ret (Inr \<lparr>rqAfter = reconcileInterval\<rparr>) }))))))"

definition stripFinalizer :: "('w, 'x) ctl_scheme \<Rightarrow> ChainInstance \<Rightarrow> ('w, goerr + Result) state" where
  "stripFinalizer C node = do {
     r \<leftarrow> cUpdateNode C (node\<lparr>ciMeta := (ciMeta node)\<lparr>mFinalizers := removeAll FinalizerName (mFinalizers (ciMeta node))\<rparr>\<rparr>);
     ret (case r of
         Inl err \<Rightarrow> Inl (WrapErr (''removing legacy finalizer from '' @ nodeText node) err)
       | Inr _ \<Rightarrow> Inr \<lparr>rqAfter = Second\<rparr>) }"

definition reconcileNode ::
    "'w operator \<Rightarrow> ('w, 'x) workload_ctl_scheme \<Rightarrow> ('w, 'y) rpc_env_scheme \<Rightarrow> ctx \<Rightarrow> ChainInstance \<Rightarrow>
     ('w, goerr + Result) state" where
  "reconcileNode op C E cx node = (case Get (opRegistry op) (spChain (ciSpec node)) of
     None \<Rightarrow> patchPhase C node NodePhaseFailed
   | Some adapter \<Rightarrow>
       if FinalizerName \<in> set (mFinalizers (ciMeta node)) then stripFinalizer C node
       else if mDeletionTimestamp (ciMeta node) \<noteq> None then ret (Inr \<lparr>rqAfter = 0\<rparr>)
       else if resolveContainerImage node adapter = [] then markImageRequired C node
       else reconcileOwned op C E cx node adapter)"

definition Reconcile ::
    "'w operator \<Rightarrow> ('w, 'x) workload_ctl_scheme \<Rightarrow> ('w, 'y) rpc_env_scheme \<Rightarrow> ctx \<Rightarrow> string \<Rightarrow> string \<Rightarrow>
     ('w, goerr + Result) state" where
  "Reconcile op C E cx ns name = do {
     r \<leftarrow> kGetNode C ns name;
     case r of
       Inl err \<Rightarrow> ret (if IsNotFound err then Inr \<lparr>rqAfter = 0\<rparr>
                        else Inl (WrapErr (''fetching ChainInstance '' @ ns @ ''/'' @ name) err))
     | Inr node \<Rightarrow> reconcileNode op C E cx node }"

subsection \<open>What a reconciliation relies on\<close>

text \<open>
  Requests about the ChainInstance leave the rest \<open>W\<close> of the cluster alone, and a read
  returns the object stored under its name.
\<close>

locale node_api =
  fixes C :: "'w workload_ctl" and W :: "'w \<Rightarrow> 'v" and N :: "'w \<Rightarrow> objkey \<Rightarrow> ChainInstance option"
  assumes now_keeps: "unchanged W (gNow C)"
    and get_node_law: "wp (kGetNode C ns name) (\<lambda>r w'. W w' = W w \<and>
          (case r of Inl _ \<Rightarrow> True | Inr n \<Rightarrow> N w (ns, name) = Some n \<and> nodeKey n = (ns, name))) w"
    and update_keeps: "unchanged W (cUpdateNode C n)"
    and status_keeps: "unchanged W (cPatchStatus C b n)"

text \<open>The nodes whose workload is managed.\<close>

definition managed :: "'w registry \<Rightarrow> ChainInstance \<Rightarrow> bool" where
  "managed registry node \<longleftrightarrow> FinalizerName \<notin> set (mFinalizers (ciMeta node)) \<and>
     mDeletionTimestamp (ciMeta node) = None \<and>
     (case Get registry (spChain (ciSpec node)) of
        None \<Rightarrow> False | Some adapter \<Rightarrow> resolveContainerImage node adapter \<noteq> [])"

context node_api
begin

lemma unmanaged_keeps:
  assumes "\<not> managed (opRegistry op) node"
  shows "unchanged W (reconcileNode op C E cx node)"
  using assms
  by (auto simp: managed_def reconcileNode_def patchPhase_def stripFinalizer_def markImageRequired_def
        intro!: unchanged_rules now_keeps update_keeps status_keeps split: option.splits)

lemma unmanaged_stops:
  assumes "\<not> managed (opRegistry op) node"
  shows "wp (reconcileNode op C E cx node) (\<lambda>r w'. W w' = W w \<and> r \<noteq> Inr \<lparr>rqAfter = reconcileInterval\<rparr>) w"
proof -
  have done': "done_with r \<noteq> Inr \<lparr>rqAfter = reconcileInterval\<rparr>" for r :: "goerr + ChainInstance"
    by (auto simp: done_with_def reconcileInterval_def split: sum.splits)
  show ?thesis
    using assms done'
    by (auto simp: managed_def reconcileNode_def patchPhase_def stripFinalizer_def markImageRequired_def
        reconcileInterval_def intro!: unchangedD [OF now_keeps] unchangedD [OF update_keeps] unchangedD [OF status_keeps]
        split: option.splits sum.splits)
qed

end

text \<open>The world of a whole pass: beside the StatefulSet requests nothing touches StatefulSets.\<close>

locale pass_api = sts_api C V + node_api C V N
  for C :: "'w workload_ctl" and V :: "'w \<Rightarrow> objkey \<Rightarrow> StatefulSet option"
    and N :: "'w \<Rightarrow> objkey \<Rightarrow> ChainInstance option" +
  fixes E :: "'w rpc_env" and R :: "'w registry"
  assumes get_pod_keeps: "unchanged V (kGetPod C ns name)"
    and delete_pod_keeps: "unchanged V (kDeletePod C g p)"
    and logs_keeps: "cPodLogs C = Some logs \<Longrightarrow> unchanged V (logs ns name ctr tail)"
    and do_keeps: "unchanged V (hDo E c d url)"
    and post_keeps: "unchanged V (hPost E c d url body)"
    and health_keeps: "Get R chain = Some A \<Longrightarrow> unchanged V (adHealthCheck A c url)"
    and credentialed_keeps:
      "Get R chain = Some A \<Longrightarrow> adRPCCredentialed A = Some rc \<Longrightarrow> unchanged V (rcHealthCheck rc c url creds)"
    and config_keeps: "unchanged V (wUpsertConfigMap C zc fc)"
    and service_keeps: "unchanged V (wUpsertService C zs fs)" "unchanged V (wGetService C ns name)" "unchanged V (wDeleteService C s)"
    and monitor_keeps: "unchanged V (wUpsertMonitor C zm fm)" "unchanged V (wDeleteMonitor C ns name)"
    and secret_keeps: "unchanged V (wGetSecret C ns name)" "unchanged V (wCreateSecret C sc)" "unchanged V (wRandRead C k)"
begin

lemma persist_keeps: "unchanged V (persistAnnotations C n)" "unchanged V (persistOrLog C n)" "unchanged V (persistPair C n)"
  unfolding persistOrLog_def persistPair_def persistAnnotations_def
  by (intro unchanged_rules update_keeps)+

lemma restart_keeps: "unchanged V (restartIfDegradedTooLong C n)"
  unfolding restartIfDegradedTooLong_def stampDegraded_def deleteDegradedPod_def Let_def
  by (intro unchanged_rules now_keeps persist_keeps get_pod_keeps delete_pod_keeps)

lemma stall_keeps: "unchanged V (detectHeightStall C n b)"
  unfolding detectHeightStall_def resetStallSince_def Let_def
  by (intro unchanged_rules now_keeps persist_keeps)

lemma tip_keeps: "unchanged V (fetchPublicTip E c chain)"
  unfolding fetchPublicTip_def tip_fetchers httpGet_def jsonRPCPost_def
  by (intro unchanged_rules do_keeps post_keeps)

lemma eta_keeps: "unchanged V (estimateSyncETA tz oor C E cx n progress b now)"
  unfolding estimateSyncETA_def progressBasedETA_def blockRateETA_def Let_def
  by (intro unchanged_rules persist_keeps tip_keeps)

lemma enrich_keeps: "unchanged V (enrichProgress C n st)"
  unfolding enrichProgress_def avaxBootstrapProgress_def
  by (cases "cPodLogs C") (auto intro!: unchanged_rules logs_keeps)

lemma apply_keeps: "unchanged V (applyHealthyOrSyncing tz oor C E cx n st now)"
  unfolding applyHealthyOrSyncing_def applySyncingStatus_def applyFullySyncedStatus_def markStalled_def
    markHeightStall_def reportProgress_def checkBlockLag_def Let_def
  by (intro unchanged_rules enrich_keeps stall_keeps restart_keeps eta_keeps tip_keeps)

lemma probe_keeps: "Get R chain = Some A \<Longrightarrow> unchanged V (probeNode C cx n A creds)"
  unfolding probeNode_def Let_def
  by (cases "adRPCCredentialed A") (auto intro!: unchanged_rules now_keeps health_keeps credentialed_keeps)

lemma refresh_keeps: "Get R chain = Some A \<Longrightarrow> unchanged V (refreshStatus tz oor C E cx n A creds)"
  unfolding refreshStatus_def trackDegraded_def clearDegradedTracking_def Let_def
  by (intro unchanged_rules probe_keeps now_keeps apply_keeps restart_keeps persist_keeps status_keeps)

lemma owned_keeps:
  "unchanged V (ensureRPCSecret C node A)" "unchanged V (ensureConfigMap sha C node A creds)"
  "unchanged V (ensureService C node A)" "unchanged V (ensurePodMonitor C node A)"
  unfolding ensureRPCSecret_def createRPCSecret_def storeSecret_def ensureConfigMap_def ensureService_def
    deleteOnTypeMismatch_def ensurePodMonitor_def deletePodMonitor_def Let_def
  by (intro unchanged_rules secret_keeps config_keeps service_keeps monitor_keeps)+

end

text \<open>The image of the main container: \<open>runs V k s0 img0 w\<close> holds with \<open>s0\<close> the StatefulSet before.\<close>

definition runs ::
    "('w \<Rightarrow> objkey \<Rightarrow> StatefulSet option) \<Rightarrow> objkey \<Rightarrow> (string \<Rightarrow> bool) \<Rightarrow> 'w \<Rightarrow> bool" where
  "runs V k P w \<longleftrightarrow> (\<exists>s img imgs. V w k = Some s \<and> images s = (mainContainerName, img) # imgs \<and> P img)"

lemma set_first_image_main:
  "map (\<lambda>c. (ctName c, ctImage c)) cs = (mainContainerName, img) # imgs \<Longrightarrow>
   map (\<lambda>c. (ctName c, ctImage c)) (set_first_image p cs) = (mainContainerName, p) # imgs"
  by (cases cs) auto

lemma images_rolledBack:
  "images s = (mainContainerName, img) # imgs \<Longrightarrow> images (rolledBackSTS p t s) = (mainContainerName, p) # imgs"
  unfolding images_def rolledBackSTS_def upd_template_def upd_sts_annotations_def
  using set_first_image_main by simp

context pass_api
begin

lemma rollback_runs:
  assumes s: "V w k = Some s" "images s = (mainContainerName, img) # imgs" "P img"
    and p: "mget (stsAnnotations s) annotationPreviousImage \<noteq> [] \<Longrightarrow> P (mget (stsAnnotations s) annotationPreviousImage)"
  shows "wp (rollback C node s) (\<lambda>r. runs V k P) w"
proof -
  have k: "k = stsKey s" using keyed [OF s(1)] by simp
  have same: "runs V (stsKey s) P w'" if "V w' = V w" for w' using s that by (auto simp: runs_def k)
  have new: "runs V (stsKey s) P w'"
    if "sts_agrees (rolledBackSTS (mget (stsAnnotations s) annotationPreviousImage) t s) s'"
       "V w' = (V w)(stsKey s \<mapsto> s')" "mget (stsAnnotations s) annotationPreviousImage \<noteq> []" for t s' w'
    using that images_rolledBack [OF s(2)] p by (auto simp: runs_def agrees_images)
  show ?thesis
    unfolding rollback_def Let_def using s(1)
    by (auto intro!: unchangedD [OF now_kept] unchangedD [OF condition_kept] unchangedD [OF status_kept] patched
          simp: k split: sum.splits)
       (erule same | erule (2) new | erule (1) new)+
qed

lemma restart_runs:
  assumes s: "V w k = Some s" "images s = (mainContainerName, img) # imgs" "P img"
  shows "wp (startRollingRestart C node s i c p) (\<lambda>r. runs V k P) w"
proof -
  have k: "k = stsKey s" using keyed [OF s(1)] by simp
  have same: "runs V (stsKey s) P w'" if "V w' = V w" for w' using s that by (auto simp: runs_def k)
  have new: "runs V (stsKey s) P w'"
    if "sts_agrees (restartedSTS i c p t s) s'" "V w' = (V w)(stsKey s \<mapsto> s')" for t s' w'
    using that s by (auto simp: runs_def agrees_images)
  show ?thesis
    unfolding startRollingRestart_def using s(1)
    by (auto intro!: unchangedD [OF now_kept] unchangedD [OF condition_kept] patched
          simp: k split: sum.splits)
       (erule same | erule (2) new | erule (1) new)+
qed

lemma upgrade_runs:
  assumes s: "V w (nodeNamespace node, nodeName node) = Some s" "images s = (mainContainerName, img) # imgs" "P img"
    and p: "mget (stsAnnotations s) annotationPreviousImage \<noteq> [] \<Longrightarrow> P (mget (stsAnnotations s) annotationPreviousImage)"
  shows "wp (reconcileUpgrade C node) (\<lambda>r. runs V (nodeNamespace node, nodeName node) P) w"
proof -
  let ?k = "(nodeNamespace node, nodeName node)"
  have same: "runs V ?k P w'" if "V w' = V w" for w' using s that by (auto simp: runs_def)
  have verify: "wp (verifyRolloutHealth C node s) (\<lambda>r. runs V ?k P) w'" if "V w' = V w" for w'
    unfolding verifyRolloutHealth_def hasCrashLoop_def Let_def using that
    by (auto intro!: unchangedD [OF condition_kept] unchangedD [OF pods_kept_law] same
          rollback_runs [where P = P, OF _ s(2) _ p] simp: s(1,3) split: sum.splits option.splits)
  show ?thesis
    unfolding reconcileUpgrade_def Let_def using s(1)
    by (auto intro!: wp_mono [OF get_law] verify restart_runs [where P = P, OF _ s(2,3)] same split: sum.splits)
qed

text \<open>The images a pass may leave: the resolved one, or the recorded previous one after a rollback.\<close>

lemma owned_runs:
  assumes A: "Get R (spChain (ciSpec node)) = Some A" and op: "opRegistry op = R"
    and P: "P (resolveContainerImage node A)"
    and p: "\<And>old. V w (nodeNamespace node, nodeName node) = Some old \<Longrightarrow>
          mget (stsAnnotations old) annotationPreviousImage \<noteq> [] \<Longrightarrow>
          P (mget (stsAnnotations old) annotationPreviousImage)"
  shows "wp (reconcileOwned op C E cx node A)
           (\<lambda>r w'. ok r \<longrightarrow> runs V (nodeNamespace node, nodeName node) P w') w"
proof -
  let ?k = "(nodeNamespace node, nodeName node)"
  have rest: "wp (bind_err (ensureService C node A) (\<lambda>_. bind_err (ensurePodMonitor C node A) (\<lambda>_.
       bind_err (reconcileUpgrade C node) (\<lambda>node. do {
         _ \<leftarrow> refreshStatus (opZone op) (opFloatOverflow op) C E cx node A creds;
         ret (Inr \<lparr>rqAfter = reconcileInterval\<rparr>) }))))
       (\<lambda>r w'. ok r \<longrightarrow> runs V ?k P w') w1"
    if s: "V w1 ?k = Some s" "images s = (mainContainerName, resolveContainerImage node A) # imgs"
      "mget (stsAnnotations s) = mget (stsAnnotations (case V w ?k of
         None \<Rightarrow> zero_sts (nodeNamespace node) (nodeName node) | Some old \<Rightarrow> old))" for w1 s imgs creds
  proof -
    have prev: "P (mget (stsAnnotations s) annotationPreviousImage)"
      if "mget (stsAnnotations s) annotationPreviousImage \<noteq> []"
      using that p by (cases "V w ?k") (simp_all add: s(3) zero_sts_def objectMeta_def zero_meta_def mget_def)
    have up: "wp (reconcileUpgrade C node) (\<lambda>r. runs V ?k P) w2" if "V w2 = V w1" for w2
      using that s(1,2) P prev by (intro upgrade_runs [where P = P]) simp_all
    have kept: "runs V ?k P w3" if "V w3 = V w2" "runs V ?k P w2" for w2 w3
      using that by (simp add: runs_def)
    show ?thesis
      unfolding bind_err_def
      by (auto intro!: unchangedD [OF owned_keeps(3)] unchangedD [OF owned_keeps(4)]
            unchangedD [OF refresh_keeps [OF A]] wp_mono [OF up] split: sum.splits)
         (erule (1) kept)+
  qed
  show ?thesis
    unfolding reconcileOwned_def op
    by (subst (1 2 3) bind_err_def,
        auto intro!: unchangedD [OF owned_keeps(1)] unchangedD [OF owned_keeps(2)]
          wp_mono [OF ensureStatefulSet_writes] elim!: rest split: sum.splits, rule refl)
qed

end

subsection \<open>The in-memory operator\<close>

definition lift_env :: "'w rpc_env \<Rightarrow> ('w \<times> 'l) rpc_env" where
  "lift_env E = \<lparr>gNow = lift_log (gNow E), gWait = (\<lambda>c d. lift_log (gWait E c d)), hParseURL = hParseURL E,
     hNewRequest = hNewRequest E, hDo = (\<lambda>c d u. lift_log (hDo E c d u)),
     hPost = (\<lambda>c d u b. lift_log (hPost E c d u b)), hCtxErr = (\<lambda>c. lift_log (hCtxErr E c))\<rparr>"

lemma lift_unchanged: "unchanged (\<lambda>(w, st). f st) (lift_log m)"
  by (rule unchangedI) (auto simp: lift_log_def split: prod.splits)

abbreviation mem_operator_api :: "(mem \<times> sts_store) workload_ctl" where
  "mem_operator_api \<equiv> sts_server mem_ctl"

interpretation mem_pass: pass_api mem_operator_api "\<lambda>(w, st). sts_lookup st" "\<lambda>(w, st). map_of (mNodes w)"
    "lift_env offline" "[(chain, fixed_adapter r)]" for chain r
proof unfold_locales
  show "wp (kGetNode mem_operator_api ns name) (\<lambda>r w'.
      (case w' of (w, st) \<Rightarrow> sts_lookup st) = (case w of (w, st) \<Rightarrow> sts_lookup st) \<and>
      (case r of Inl _ \<Rightarrow> True | Inr n \<Rightarrow> (case w of (w, st) \<Rightarrow> map_of (mNodes w)) (ns, name) = Some n \<and>
         nodeKey n = (ns, name))) w" for ns name w
    by (auto simp: sts_server_def lift_ctl_def mem_ctl_def mem_kube_def lift_log_def kube.defs ctl.defs workload_ctl.defs
        split: prod.splits option.splits)
qed (auto simp: sts_server_def lift_ctl_def lift_env_def mem_ctl_def Get_def fixed_adapter_def kube.defs ctl.defs
        workload_ctl.defs intro!: lift_unchanged unchanged_ret split: if_splits)

lemmas mem_pass_api = mem_pass.pass_api_axioms
lemmas mem_node_api = mem_pass.node_api_axioms

text \<open>A stored Bitcoin node without an image of its own, and an operator that serves its chain or none.\<close>

definition bitcoin_node :: ChainInstance where
  "bitcoin_node = zero_node\<lparr>ciMeta := zero_meta\<lparr>mName := ''btc'', mNamespace := ''ns''\<rparr>,
     ciSpec := zero_spec\<lparr>spChain := ChainBitcoin\<rparr>\<rparr>"

definition bitcoin_world :: mem where
  "bitcoin_world = \<lparr>mNow = 1700000000 * Second, mNodes = [((''ns'', ''btc''), bitcoin_node)], mPods = [], mPVCs = [],
     mServices = [], mSlices = []\<rparr>"

definition example_operator :: "snapshot_build \<Rightarrow> (mem \<times> sts_store) registry \<Rightarrow> (mem \<times> sts_store) operator" where
  "example_operator B R = \<lparr>opRegistry = R, opSnapshot = B, opSha256 = (\<lambda>_. ''e3b0c442''), opZone = 0, opFloatOverflow = 0\<rparr>"

subsection \<open>What a reconciliation does to the workload\<close>



text \<open>
  C5: A complete pass leaves the workload running the right image. Whenever a reconciliation
  ends without error and schedules the periodic pass, the node is stored and managed, and its
  StatefulSet exists with the main container on the image the controller resolves for the
  node, or on the previous image recorded in the StatefulSet when the pass rolled it back.
\<close>

theorem Reconcile_leaves_workload:
  assumes "pass_api C V N E (opRegistry op)"
  shows "wp (Reconcile op C E cx ns name) (\<lambda>r w'. r = Inr \<lparr>rqAfter = reconcileInterval\<rparr> \<longrightarrow>
     (\<exists>node adapter. N w (ns, name) = Some node \<and> managed (opRegistry op) node \<and>
        Get (opRegistry op) (spChain (ciSpec node)) = Some adapter \<and>
        runs V (ns, name) (\<lambda>img. img = resolveContainerImage node adapter \<or>
          (\<exists>old. V w (ns, name) = Some old \<and> img = mget (stsAnnotations old) annotationPreviousImage \<and> img \<noteq> [])) w')) w"
proof -
  have node: "node_api C V N" using assms by (rule pass_api.axioms)
  have managed: "wp (reconcileNode op C E cx n) (\<lambda>r w'. r = Inr \<lparr>rqAfter = reconcileInterval\<rparr> \<longrightarrow>
     (\<exists>adapter. managed (opRegistry op) n \<and> Get (opRegistry op) (spChain (ciSpec n)) = Some adapter \<and>
        runs V (ns, name) (\<lambda>img. img = resolveContainerImage n adapter \<or>
          (\<exists>old. V w (ns, name) = Some old \<and> img = mget (stsAnnotations old) annotationPreviousImage \<and> img \<noteq> [])) w')) w1"
    if "V w1 = V w" "nodeKey n = (ns, name)" for n w1
  proof (cases "managed (opRegistry op) n")
    case False
    show ?thesis by (rule wp_mono [OF node_api.unmanaged_stops [OF node False]]) simp
  next
    case True
    then obtain A where A: "Get (opRegistry op) (spChain (ciSpec n)) = Some A"
      by (auto simp: managed_def split: option.splits)
    let ?P = "\<lambda>img. img = resolveContainerImage n A \<or> (\<exists>old. V w (ns, name) = Some old \<and>
      img = mget (stsAnnotations old) annotationPreviousImage \<and> img \<noteq> [])"
    from True that A show ?thesis
      by (auto simp: reconcileNode_def managed_def
          intro!: wp_mono [OF pass_api.owned_runs [where P = ?P, OF assms A refl]])
  qed
  have "reconcileInterval \<noteq> 0" by (simp add: reconcileInterval_def)
  then show ?thesis
    unfolding Reconcile_def
    by (auto intro!: wp_mono [OF node_api.get_node_law [OF node]] wp_mono [OF managed] split: sum.splits)
qed

text \<open>In memory the pass of the example runs to its end.\<close>

lemma sts_server_others:
  "wUpsertConfigMap (sts_server C) zc fc = ret (Inr ())" "wUpsertService (sts_server C) zs fs = ret (Inr ())"
  "wGetService (sts_server C) ns n = ret (Inl notFound)" "wDeleteMonitor (sts_server C) ns n = ret (Inl notFound)"
  by (simp_all add: sts_server_def ctl.defs workload_ctl.defs)

lemma example_steps:
  "ensureRPCSecret (sts_server C) n (fixed_adapter r) = ret (Inr zeroCreds)"
  "ensureConfigMap sha (sts_server C) n (fixed_adapter r) creds = ret (Inr (take 8 (sha [])))"
  "ensureService (sts_server C) n (fixed_adapter r) = ret (Inr ())"
  "ensurePodMonitor (sts_server C) n (fixed_adapter r) = ret (Inr ())"
  by (simp_all add: sts_server_others ensureRPCSecret_def ensureConfigMap_def renderConfig_def ensureService_def
      buildServicePorts_def deleteOnTypeMismatch_def ensurePodMonitor_def adapterMetricsPort_def deletePodMonitor_def
      fixed_adapter_def wrapUpsert_def notFound_def)

lemma example_sts:
  "wp (ensureStatefulSet B R (sts_server C) bitcoin_node A h)
     (\<lambda>r (w', st). r = Inr () \<and> w' = w \<and>
        (\<exists>s. st = [((''ns'', ''btc''), s)] \<and> stsKey s = (''ns'', ''btc'') \<and> stsAnnotations s = [])) (w, [])"
  by (auto simp: ensureStatefulSet_def Let_def sts_server_upsert zero_sts_def objectMeta_def sts_lookup_def
      mutateStatefulSet_def wrapUpsert_def store_sts_def bitcoin_node_def zero_node_def zero_meta_def)

lemma example_upgrade:
  assumes "stsKey s = (''ns'', ''btc'')" "stsAnnotations s = []"
  shows "wp (reconcileUpgrade mem_operator_api bitcoin_node) (\<lambda>r w. ok r) (bitcoin_world, [((''ns'', ''btc''), s)])"
  using assms
  by (auto simp: reconcileUpgrade_def Let_def sts_lookup_def startRollingRestart_def upgrade_setCondition_def
      patchSTS_def mget_def resolveImageForUpgrade_def bitcoin_node_def zero_node_def zero_meta_def zero_spec_def
      mem_ctl_def mem_kube_def lift_log_def kube.defs ctl.defs bitcoin_world_def restartedSTS_def upd_template_def
      upd_sts_annotations_def)

lemma example_pass_ends:
  "wp (Reconcile (example_operator B [(ChainBitcoin, fixed_adapter r)]) mem_operator_api (lift_env offline) None ''ns'' ''btc'')
     (\<lambda>r w'. r = Inr \<lparr>rqAfter = reconcileInterval\<rparr>) (bitcoin_world, [])"
proof -
  have get: "kGetNode mem_operator_api ''ns'' ''btc'' =
      State (\<lambda>(w, st). (case map_of (mNodes w) (''ns'', ''btc'') of
         None \<Rightarrow> Inl notFound
       | Some nd \<Rightarrow> if nodeKey nd = (''ns'', ''btc'') then Inr nd else Inl (GoErr ''corrupt object''), (w, st)))"
    by (simp add: sts_server_def lift_ctl_def mem_ctl_def mem_kube_def lift_log_def kube.defs ctl.defs workload_ctl.defs)
  have node: "nodeKey bitcoin_node = (''ns'', ''btc'')" "spChain (ciSpec bitcoin_node) = ChainBitcoin"
    "FinalizerName \<notin> set (mFinalizers (ciMeta bitcoin_node))" "mDeletionTimestamp (ciMeta bitcoin_node) = None"
    "resolveContainerImage bitcoin_node (fixed_adapter r :: (mem \<times> sts_store) ChainAdapter) \<noteq> []"
    by (simp_all add: bitcoin_node_def zero_meta_def zero_spec_def resolveContainerImage_def fixed_adapter_def)
  have wp_True: "wp m (\<lambda>_ _. True) w" for m :: "('u, 'b) state" and w
    by (rule wp_any) simp
  have owned: "wp (reconcileOwned (example_operator B R) mem_operator_api (lift_env offline) None bitcoin_node (fixed_adapter r))
      (\<lambda>r w'. r = Inr \<lparr>rqAfter = reconcileInterval\<rparr>) (bitcoin_world, [])" for R
    unfolding reconcileOwned_def bind_err_def example_steps
    by (auto intro!: wp_mono [OF example_sts] wp_mono [OF example_upgrade] simp: wp_True split: sum.splits)
  show ?thesis
    unfolding Reconcile_def get
    using owned node by (simp add: bitcoin_world_def reconcileNode_def Get_def example_operator_def)
qed

theorem Reconcile_leaves_workload_witness:
  "\<forall>B. wp (Reconcile (example_operator B [(ChainBitcoin, fixed_adapter (Inl (GoErr ''connection refused'')))])
           mem_operator_api (lift_env offline) None ''ns'' ''btc'')
       (\<lambda>r w'. r = Inr \<lparr>rqAfter = reconcileInterval\<rparr> \<and>
          runs (\<lambda>(w, st). sts_lookup st) (''ns'', ''btc'') (\<lambda>img. img = ''image:tag'') w') (bitcoin_world, [])"
proof
  fix B
  let ?R = "[(ChainBitcoin, fixed_adapter (Inl (GoErr ''connection refused'')))] :: (mem \<times> sts_store) registry"
  have api: "pass_api mem_operator_api (\<lambda>(w, st). sts_lookup st) (\<lambda>(w, st). map_of (mNodes w)) (lift_env offline)
      (opRegistry (example_operator B ?R))"
    unfolding example_operator_def by (simp add: mem_pass_api)
  have "wp (Reconcile (example_operator B ?R) mem_operator_api (lift_env offline) None ''ns'' ''btc'')
       (\<lambda>r w'. r = Inr \<lparr>rqAfter = reconcileInterval\<rparr> \<longrightarrow>
          runs (\<lambda>(w, st). sts_lookup st) (''ns'', ''btc'') (\<lambda>img. img = ''image:tag'') w') (bitcoin_world, [])"
    by (rule wp_mono [OF Reconcile_leaves_workload [OF api]])
       (auto simp: bitcoin_world_def bitcoin_node_def example_operator_def Get_def fixed_adapter_def sts_lookup_def
          resolveContainerImage_def zero_spec_def)
  with example_pass_ends [of B "Inl (GoErr ''connection refused'')"] show "wp (Reconcile (example_operator B ?R) mem_operator_api (lift_env offline) None ''ns'' ''btc'')
       (\<lambda>r w'. r = Inr \<lparr>rqAfter = reconcileInterval\<rparr> \<and>
          runs (\<lambda>(w, st). sts_lookup st) (''ns'', ''btc'') (\<lambda>img. img = ''image:tag'') w') (bitcoin_world, [])"
    by (simp add: wp_iff)
qed

end
