(* ===== verification/Registry.thy ===== *)
theory Registry
  imports Adapter "HOL-Library.List_Lexorder" "HOL-Library.Product_Lexorder" "HOL-Library.Char_ord"
begin

text \<open>
  \<open>internal/registry\<close>: version tags and the clients of the container registries
  (\<open>semver.go\<close>, \<open>tagslist.go\<close>, \<open>client.go\<close>, \<open>dockerhub.go\<close>, \<open>ghcr.go\<close>, \<open>oci.go\<close>).
  \<open>golang.org/x/mod/semver\<close> is a record of its functions with the laws its documentation
  states as the locale \<open>semver_order\<close>; \<open>net/url\<close>, \<open>regexp\<close> and HTTP are parameters.
\<close>

subsection \<open>Version tags\<close>

record semver_pkg =
  svIsValid :: "string \<Rightarrow> bool"
  svCompare :: "string \<Rightarrow> string \<Rightarrow> int"
  svMajor :: "string \<Rightarrow> string"
  svMajorMinor :: "string \<Rightarrow> string"

definition normalizePart :: "string \<Rightarrow> string" where
  "normalizePart p = (case ParseUint64 p of Some n \<Rightarrow> nat_digits 10 n | None \<Rightarrow> p)"

definition normalizeTag :: "string \<Rightarrow> string \<Rightarrow> string" where
  "normalizeTag tag prefix =
     (let s = TrimPrefix tag prefix;
          s = (if HasPrefix s ''v'' then s else ''v'' @ s);
          stop = (\<lambda>c. c = CHR ''-'' \<or> c = CHR ''+'');
          core = take 1 s @ takeWhile (\<lambda>c. \<not> stop c) (drop 1 s);
          suffix = dropWhile (\<lambda>c. \<not> stop c) (drop 1 s);
          normalized = map normalizePart (Split (TrimPrefix core ''v'') (CHR ''.''));
          normalized = normalized @ replicate (3 - length normalized) ''0''
      in ''v'' @ Join normalized ''.'' @ suffix)"

definition IsNewer :: "semver_pkg \<Rightarrow> string \<Rightarrow> string \<Rightarrow> string \<Rightarrow> bool" where
  "IsNewer S candidate current prefix =
     (let c = normalizeTag candidate prefix; cur = normalizeTag current prefix in
      if \<not> svIsValid S c \<or> \<not> svIsValid S cur then False else svCompare S c cur > 0)"

definition IsMajorBump :: "semver_pkg \<Rightarrow> string \<Rightarrow> string \<Rightarrow> string \<Rightarrow> bool" where
  "IsMajorBump S candidate current prefix =
     (let c = normalizeTag candidate prefix; cur = normalizeTag current prefix in
      if \<not> svIsValid S c \<or> \<not> svIsValid S cur \<or> svCompare S c cur \<le> 0 then False
      else if svMajor S cur = ''v0'' then svMajorMinor S c \<noteq> svMajorMinor S cur
      else svMajor S c \<noteq> svMajor S cur)"

text \<open>The loop of \<open>Newest\<close> from the best tag so far.\<close>

fun newest_from :: "semver_pkg \<Rightarrow> string \<Rightarrow> string \<Rightarrow> string list \<Rightarrow> string" where
  "newest_from S prefix best [] = best"
| "newest_from S prefix best (t # ts) =
     (if \<not> svIsValid S (normalizeTag t prefix) then newest_from S prefix best ts
      else if best = [] \<or> IsNewer S t best prefix then newest_from S prefix t ts
      else newest_from S prefix best ts)"

definition Newest :: "semver_pkg \<Rightarrow> string list \<Rightarrow> string \<Rightarrow> string" where
  "Newest S tags prefix = newest_from S prefix [] tags"

subsection \<open>Clients\<close>

record TagEntry =
  teTag :: string
  tePublishedAt :: string
  teDigest :: string

text \<open>\<open>net/url\<close> on the text of URLs, \<open>regexp.Compile\<close> and \<open>json.Marshal\<close> of string maps.\<close>

record url_pkg =
  uParses :: "string \<Rightarrow> bool"
  uIsAbs :: "string \<Rightarrow> bool"
  uString :: "string \<Rightarrow> string"
  uResolve :: "string \<Rightarrow> string \<Rightarrow> string"
  uQueryGet :: "string \<Rightarrow> string \<Rightarrow> string"
  uSetQuery :: "string \<Rightarrow> string \<Rightarrow> string \<Rightarrow> string"
  uHost :: "string \<Rightarrow> string"
  uPath :: "string \<Rightarrow> string"
  uCompileRegexp :: "string \<Rightarrow> goerr + (string \<Rightarrow> bool)"
  uMarshal :: "strmap \<Rightarrow> string"

record tag_response = http_response +
  hrHeader :: "string \<Rightarrow> string"

text \<open>
  One GET with an optional bearer token, one POST, and the token cell that all Docker Hub
  clients of the process share under a mutex.
\<close>

record 'w registry_env = "'w go_env" +
  rgNewRequest :: "string \<Rightarrow> goerr + unit"
  rgGet :: "ctx \<Rightarrow> duration \<Rightarrow> string \<Rightarrow> string \<Rightarrow> ('w, goerr + tag_response) state"
  rgPost :: "ctx \<Rightarrow> duration \<Rightarrow> string \<Rightarrow> string \<Rightarrow> ('w, goerr + tag_response) state"
  rgCtxErr :: "ctx \<Rightarrow> ('w, goerr option) state"
  rgToken :: "('w, string) state"
  rgSetToken :: "string \<Rightarrow> ('w, unit) state"

datatype registry_client =
    DockerHubClient "(string \<times> string) option"
  | GHCRClient
  | OCIClient string

definition defaultDockerHubAuth :: "(string \<Rightarrow> string) \<Rightarrow> (string \<times> string) option" where
  "defaultDockerHubAuth getenv =
     (let username = getenv ''DOCKERHUB_USERNAME''; secret = getenv ''DOCKERHUB_TOKEN'' in
      if username = [] \<or> secret = [] then None else Some (username, secret))"

definition NewClient :: "(string \<Rightarrow> string) \<Rightarrow> string \<Rightarrow> goerr + registry_client" where
  "NewClient getenv reg =
     (if reg = ''docker.io'' \<or> reg = [] then Inr (DockerHubClient (defaultDockerHubAuth getenv))
      else if reg = ''ghcr.io'' then Inr GHCRClient
      else if reg = ''us-docker.pkg.dev'' \<or> reg = ''public.ecr.aws'' then Inr (OCIClient reg)
      else Inl (GoErr (''unsupported registry: '' @ reg)))"

text \<open>\<open>strings.Cut\<close> and \<open>strings.SplitN(s, sep, 2)\<close> at a one-character separator.\<close>

definition Cut :: "string \<Rightarrow> char \<Rightarrow> (string \<times> string) option" where
  "Cut s sep = (if sep \<in> set s then Some (takeWhile (\<lambda>c. c \<noteq> sep) s, drop 1 (dropWhile (\<lambda>c. c \<noteq> sep) s)) else None)"

definition splitRepository :: "string \<Rightarrow> string \<times> string" where
  "splitRepository repository = (case Cut repository (CHR ''/'') of
     Some (owner, repo) \<Rightarrow> (owner, repo) | None \<Rightarrow> (''library'', repository))"

text \<open>Decoding a body into a Go value; a body that is not JSON does not decode.\<close>

definition decode_body :: "'a decoder \<Rightarrow> 'a \<Rightarrow> ('r) http_response_scheme \<Rightarrow> goerr + 'a" where
  "decode_body dec z resp = (case hrBody resp of
     Inl err \<Rightarrow> Inl err
   | Inr body \<Rightarrow> (case hbJson body of None \<Rightarrow> Inl jsonErr
       | Some j \<Rightarrow> (case dec j z of None \<Rightarrow> Inl jsonErr | Some v \<Rightarrow> Inr v)))"

definition dec_strings :: "string list decoder" where
  "dec_strings = dec_list dec_string []"

subsubsection \<open>Paged tag lists\<close>

definition tagsListPageSize :: nat where "tagsListPageSize = 1000"
definition tagsListMaxPages :: nat where "tagsListMaxPages = 20"

definition withPageSize :: "url_pkg \<Rightarrow> string \<Rightarrow> string" where
  "withPageSize U raw =
     (if \<not> uParses U raw then raw
      else (let n = uQueryGet U raw ''n'' in
        if n = [] \<or> n = ''0'' then uString U (uSetQuery U raw ''n'' (nat_digits 10 tagsListPageSize))
        else uString U raw))"

definition trimAngles :: "string \<Rightarrow> string" where
  "trimAngles s = (let cut = (\<lambda>c. c = CHR ''<'' \<or> c = CHR ''>'') in rev (dropWhile cut (rev (dropWhile cut s))))"

fun next_link :: "url_pkg \<Rightarrow> string \<Rightarrow> string list \<Rightarrow> string" where
  "next_link U current [] = []"
| "next_link U current (part # parts) = (case Cut (TrimSpace part) (CHR '';'') of
     None \<Rightarrow> next_link U current parts
   | Some (target, params) \<Rightarrow>
       if \<not> Contains params (''rel='' @ [CHR 0x22] @ ''next'' @ [CHR 0x22]) then next_link U current parts
       else (let target = trimAngles (TrimSpace target) in
         if \<not> uParses U current then []
         else if \<not> uParses U target then []
         else withPageSize U (uResolve U current target)))"

definition resolveNextLink :: "url_pkg \<Rightarrow> string \<Rightarrow> string \<Rightarrow> string" where
  "resolveNextLink U current header = next_link U current (Split header (CHR '',''))"

definition dec_oci_tags :: "string list decoder" where
  "dec_oci_tags = dec_struct (\<lambda>kvs a. dec_field dec_strings ''tags'' kvs a)"

definition doTagsListRequest ::
    "url_pkg \<Rightarrow> ('w, 'x) registry_env_scheme \<Rightarrow> ctx \<Rightarrow> duration \<Rightarrow> string \<Rightarrow> string \<Rightarrow>
     ('w, goerr + string list \<times> string) state" where
  "doTagsListRequest U E cx timeout url token = do {
     r \<leftarrow> rgGet E cx timeout url token;
     ret (case r of
         Inl err \<Rightarrow> Inl (WrapErr (''tags request to '' @ uHost U url) err)
       | Inr resp \<Rightarrow>
           if hrStatus resp \<noteq> 200 then
             Inl (GoErr (uHost U url @ '' returned '' @ Itoa (hrStatus resp) @ '' for '' @ uPath U url))
           else (case decode_body dec_oci_tags [] resp of
               Inl err \<Rightarrow> Inl (WrapErr ''decode tags response'' err)
             | Inr tags \<Rightarrow> Inr (tags, hrHeader resp ''Link''))) }"

fun tags_pages ::
    "url_pkg \<Rightarrow> ('w, 'x) registry_env_scheme \<Rightarrow> ctx \<Rightarrow> duration \<Rightarrow> string \<Rightarrow> nat \<Rightarrow> string \<Rightarrow> string list \<Rightarrow>
     ('w, goerr + string list) state" where
  "tags_pages U E cx timeout token 0 nxt tags = ret (Inr tags)"
| "tags_pages U E cx timeout token (Suc left) nxt tags =
     (if nxt = [] then ret (Inr tags)
      else (case rgNewRequest E nxt of
          Inl err \<Rightarrow> ret (Inl (WrapErr ''build tags request'' err))
        | Inr _ \<Rightarrow> do {
            r \<leftarrow> doTagsListRequest U E cx timeout nxt token;
            case r of
              Inl err \<Rightarrow> ret (Inl err)
            | Inr (page, link) \<Rightarrow>
                tags_pages U E cx timeout token left (resolveNextLink U nxt link) (tags @ page) }))"

definition fetchTagsList ::
    "url_pkg \<Rightarrow> ('w, 'x) registry_env_scheme \<Rightarrow> ctx \<Rightarrow> duration \<Rightarrow> string \<Rightarrow> string \<Rightarrow> ('w, goerr + string list) state" where
  "fetchTagsList U E cx timeout firstURL token =
     tags_pages U E cx timeout token tagsListMaxPages (withPageSize U firstURL) []"

text \<open>\<open>%q\<close> of printable ASCII text.\<close>

definition Quote :: "string \<Rightarrow> string" where
  "Quote s = [CHR 0x22] @ concat (map (\<lambda>c. if c = CHR 0x22 \<or> c = CHR 0x5C then [CHR 0x5C, c] else [c]) s) @ [CHR 0x22]"

definition matchingTags :: "url_pkg \<Rightarrow> string list \<Rightarrow> string \<Rightarrow> goerr + TagEntry list" where
  "matchingTags U tags tagPattern = (case uCompileRegexp U tagPattern of
     Inl err \<Rightarrow> Inl (WrapErr (''compile tag pattern '' @ Quote tagPattern) err)
   | Inr matches \<Rightarrow> Inr (map (\<lambda>t. \<lparr>teTag = t, tePublishedAt = [], teDigest = []\<rparr>) (filter matches tags)))"

subsubsection \<open>Docker Hub\<close>

definition dockerHubAPIBase :: string where "dockerHubAPIBase = ''https://hub.docker.com/v2/repositories''"
definition dockerHubAuthURL :: string where "dockerHubAuthURL = ''https://hub.docker.com/v2/auth/token''"
definition dockerHubMaxAttempts :: nat where "dockerHubMaxAttempts = 4"
definition dockerHubDefaultWait :: duration where "dockerHubDefaultWait = 10 * Second"
definition dockerHubMaxWait :: duration where "dockerHubMaxWait = 65 * Second"
definition dockerHubPageSize :: nat where "dockerHubPageSize = 100"
definition dockerHubMaxPages :: nat where "dockerHubMaxPages = 20"
definition dockerHubAnonymousMaxPages :: nat where "dockerHubAnonymousMaxPages = 1000 div dockerHubPageSize"
definition clientTimeout :: duration where "clientTimeout = 15 * Second"

record dockerHubTag =
  dtName :: string
  dtLastPushed :: string

record dockerHubTagsResponse =
  dtNext :: string
  dtResults :: "dockerHubTag list"

definition dec_hub_tag :: "dockerHubTag decoder" where
  "dec_hub_tag = dec_struct (\<lambda>kvs a.
     case dec_field dec_string ''name'' kvs (dtName a) of None \<Rightarrow> None
     | Some n \<Rightarrow> (case dec_field dec_string ''tag_last_pushed'' kvs (dtLastPushed a) of None \<Rightarrow> None
     | Some p \<Rightarrow> Some \<lparr>dtName = n, dtLastPushed = p\<rparr>))"

definition dec_hub_tags :: "dockerHubTagsResponse decoder" where
  "dec_hub_tags = dec_struct (\<lambda>kvs a.
     case dec_field dec_string ''next'' kvs (dtNext a) of None \<Rightarrow> None
     | Some n \<Rightarrow> (case dec_field (dec_list dec_hub_tag \<lparr>dtName = [], dtLastPushed = []\<rparr>) ''results'' kvs (dtResults a) of None \<Rightarrow> None
     | Some r \<Rightarrow> Some \<lparr>dtNext = n, dtResults = r\<rparr>))"

definition dec_access_token :: "string decoder" where
  "dec_access_token = dec_struct (\<lambda>kvs a. dec_field dec_string ''access_token'' kvs a)"

definition bearer ::
    "url_pkg \<Rightarrow> ('w, 'x) registry_env_scheme \<Rightarrow> ctx \<Rightarrow> string \<times> string \<Rightarrow> ('w, goerr + string) state" where
  "bearer U E cx auth = (case auth of (username, secret) \<Rightarrow> do {
     token \<leftarrow> rgToken E;
     if token \<noteq> [] then ret (Inr token)
     else (case rgNewRequest E dockerHubAuthURL of
         Inl err \<Rightarrow> ret (Inl (WrapErr ''build docker hub auth request'' err))
       | Inr _ \<Rightarrow> do {
           r \<leftarrow> rgPost E cx clientTimeout dockerHubAuthURL
                 (uMarshal U [(''identifier'', username), (''secret'', secret)]);
           case r of
             Inl err \<Rightarrow> ret (Inl (WrapErr ''docker hub auth request'' err))
           | Inr resp \<Rightarrow>
               if hrStatus resp \<noteq> 200 then
                 ret (Inl (GoErr (''docker hub auth returned '' @ Itoa (hrStatus resp) @ '' for user '' @ username)))
               else (case decode_body dec_access_token [] resp of
                   Inl err \<Rightarrow> ret (Inl (WrapErr ''decode docker hub auth response'' err))
                 | Inr access \<Rightarrow>
                     if access = [] then
                       ret (Inl (GoErr (''docker hub auth returned an empty token for user '' @ username)))
                     else do { _ \<leftarrow> rgSetToken E access; ret (Inr access) }) }) })"

definition isDockerHubThrottled :: "('r) tag_response_scheme \<Rightarrow> bool" where
  "isDockerHubThrottled resp =
     (if hrStatus resp = 429 then True
      else if hrStatus resp = 403 then hrHeader resp ''X-RateLimit-Remaining'' = ''0''
      else False)"

definition dockerHubRetryWait :: "(string \<Rightarrow> string) \<Rightarrow> time \<Rightarrow> duration" where
  "dockerHubRetryWait h now =
     (let wait = (case ParseInt64 10 (h ''Retry-After'') of
            Some secs \<Rightarrow> wrap64 (secs * Second)
          | None \<Rightarrow> (case ParseInt64 10 (h ''X-RateLimit-Reset'') of
              Some reset \<Rightarrow> time_Sub (reset * Second) now
            | None \<Rightarrow> dockerHubDefaultWait))
      in min (max wait Second) dockerHubMaxWait)"

text \<open>The result with the wait that a throttled answer asks for, 0 for the others.\<close>

definition fetchPageOnce ::
    "url_pkg \<Rightarrow> ('w, 'x) registry_env_scheme \<Rightarrow> (string \<times> string) option \<Rightarrow> ctx \<Rightarrow> string \<Rightarrow> string \<Rightarrow> string \<Rightarrow>
     ('w, (goerr + dockerHubTagsResponse) \<times> duration) state" where
  "fetchPageOnce U E auth cx pageURL owner repo = (case rgNewRequest E pageURL of
     Inl err \<Rightarrow> ret (Inl (WrapErr ''build request'' err), 0)
   | Inr _ \<Rightarrow> do {
       tok \<leftarrow> (case auth of None \<Rightarrow> ret (Inr []) | Some a \<Rightarrow> bearer U E cx a);
       case tok of
         Inl err \<Rightarrow> ret (Inl err, 0)
       | Inr token \<Rightarrow> do {
           r \<leftarrow> rgGet E cx clientTimeout pageURL token;
           case r of
             Inl err \<Rightarrow> ret (Inl (WrapErr ''docker hub request'' err), 0)
           | Inr resp \<Rightarrow>
               if hrStatus resp \<noteq> 200 then
                 (let err = GoErr (''docker hub returned '' @ Itoa (hrStatus resp) @ '' for '' @ owner @ ''/'' @ repo) in
                  if isDockerHubThrottled resp then do {
                    now \<leftarrow> gNow E;
                    ret (Inl err, dockerHubRetryWait (hrHeader resp) now) }
                  else ret (Inl err, 0))
               else ret (case decode_body dec_hub_tags \<lparr>dtNext = [], dtResults = []\<rparr> resp of
                   Inl err \<Rightarrow> Inl (WrapErr ''decode response'' err) | Inr page \<Rightarrow> Inr page, 0) } })"

text \<open>The attempts at one page: \<open>left\<close> more after this one.\<close>

fun page_attempts ::
    "url_pkg \<Rightarrow> ('w, 'x) registry_env_scheme \<Rightarrow> (string \<times> string) option \<Rightarrow> ctx \<Rightarrow> string \<Rightarrow> string \<Rightarrow> string \<Rightarrow> nat \<Rightarrow>
     ('w, goerr + dockerHubTagsResponse) state" where
  "page_attempts U E auth cx pageURL owner repo left = do {
     (result, wait) \<leftarrow> fetchPageOnce U E auth cx pageURL owner repo;
     if wait = 0 then ret result
     else (case left of
         0 \<Rightarrow> ret result
       | Suc left' \<Rightarrow> do {
           w \<leftarrow> gWait E cx wait;
           case w of
             Inl err \<Rightarrow> ret (Inl (WrapNote err '' (while waiting out docker hub rate limit)''))
           | Inr _ \<Rightarrow> page_attempts U E auth cx pageURL owner repo left' }) }"

definition fetchPage ::
    "url_pkg \<Rightarrow> ('w, 'x) registry_env_scheme \<Rightarrow> (string \<times> string) option \<Rightarrow> ctx \<Rightarrow> string \<Rightarrow> string \<Rightarrow> string \<Rightarrow>
     ('w, goerr + dockerHubTagsResponse) state" where
  "fetchPage U E auth cx pageURL owner repo = page_attempts U E auth cx pageURL owner repo (dockerHubMaxAttempts - 1)"

definition resolveDockerHubNext :: "url_pkg \<Rightarrow> string \<Rightarrow> string \<Rightarrow> string" where
  "resolveDockerHubNext U current nxt =
     (if nxt = [] then []
      else if \<not> uParses U nxt then []
      else if uIsAbs U nxt then uString U nxt
      else if \<not> uParses U current then []
      else uResolve U current nxt)"

text \<open>The walk over the pages: \<open>left\<close> pages may still be read.\<close>

fun hub_pages ::
    "url_pkg \<Rightarrow> ('w, 'x) registry_env_scheme \<Rightarrow> (string \<times> string) option \<Rightarrow> ctx \<Rightarrow> (string \<Rightarrow> bool) \<Rightarrow> int \<Rightarrow> string \<Rightarrow> string \<Rightarrow>
     nat \<Rightarrow> string \<Rightarrow> TagEntry list \<Rightarrow> ('w, goerr + TagEntry list) state" where
  "hub_pages U E auth cx matches target owner repo 0 nxt entries = ret (Inr entries)"
| "hub_pages U E auth cx matches target owner repo (Suc left) nxt entries =
     (if nxt = [] then ret (Inr entries)
      else do {
        ce \<leftarrow> rgCtxErr E cx;
        case ce of
          Some err \<Rightarrow> ret (Inl err)
        | None \<Rightarrow> do {
            p \<leftarrow> fetchPage U E auth cx nxt owner repo;
            case p of
              Inl err \<Rightarrow> ret (Inl err)
            | Inr payload \<Rightarrow>
                (let entries' = entries @ map (\<lambda>t. \<lparr>teTag = dtName t, tePublishedAt = dtLastPushed t, teDigest = []\<rparr>)
                                   (filter (\<lambda>t. matches (dtName t)) (dtResults payload))
                 in if target > 0 \<and> int (length entries') \<ge> target then ret (Inr entries')
                    else hub_pages U E auth cx matches target owner repo left
                           (resolveDockerHubNext U nxt (dtNext payload)) entries') } })"

text \<open>For a number of results that is not negative: \<open>make\<close> panics on a negative capacity, and no caller asks for one.\<close>

definition dockerHub_LatestTags ::
    "url_pkg \<Rightarrow> ('w, 'x) registry_env_scheme \<Rightarrow> (string \<times> string) option \<Rightarrow> ctx \<Rightarrow> ChainVersionPolicy \<Rightarrow> int \<Rightarrow>
     ('w, goerr + TagEntry list) state" where
  "dockerHub_LatestTags U E auth cx policy maxResults = (case splitRepository (vpRepository policy) of (owner, repo) \<Rightarrow>
     (case uCompileRegexp U (vpTagPattern policy) of
        Inl err \<Rightarrow> ret (Inl (WrapErr (''compile tag pattern '' @ Quote (vpTagPattern policy)) err))
      | Inr matches \<Rightarrow>
          (let target = wrap64 (maxResults * 4);
               target = (if target < maxResults then maxResults else target);
               first = dockerHubAPIBase @ ''/'' @ owner @ ''/'' @ repo @ ''/tags?page_size='' @
                       nat_digits 10 dockerHubPageSize @ ''&ordering=last_updated'';
               maxPages = (if auth = None then dockerHubAnonymousMaxPages else dockerHubMaxPages)
           in hub_pages U E auth cx matches target owner repo maxPages first [])))"

subsubsection \<open>GitHub and the OCI registries\<close>

definition ghcrBase :: string where "ghcrBase = ''https://ghcr.io''"
definition garHost :: string where "garHost = ''us-docker.pkg.dev''"
definition ociTimeout :: duration where "ociTimeout = 2 * Minute"

definition dec_token :: "string decoder" where
  "dec_token = dec_struct (\<lambda>kvs a. dec_field dec_string ''token'' kvs a)"

definition ghcr_getToken ::
    "('w, 'x) registry_env_scheme \<Rightarrow> ctx \<Rightarrow> string \<Rightarrow> string \<Rightarrow> ('w, goerr + string) state" where
  "ghcr_getToken E cx owner repo =
     (let url = ''https://ghcr.io/token?service=ghcr.io&scope=repository:'' @ owner @ ''/'' @ repo @ '':pull'' in
      case rgNewRequest E url of
        Inl err \<Rightarrow> ret (Inl err)
      | Inr _ \<Rightarrow> do {
          r \<leftarrow> rgGet E cx clientTimeout url [];
          ret (case r of
              Inl err \<Rightarrow> Inl (WrapErr ''get ghcr token'' err)
            | Inr resp \<Rightarrow>
                if hrStatus resp \<noteq> 200 then Inl (GoErr (''ghcr token returned '' @ Itoa (hrStatus resp)))
                else decode_body dec_token [] resp) })"

definition ghcr_LatestTags ::
    "url_pkg \<Rightarrow> ('w, 'x) registry_env_scheme \<Rightarrow> ctx \<Rightarrow> ChainVersionPolicy \<Rightarrow> ('w, goerr + TagEntry list) state" where
  "ghcr_LatestTags U E cx policy = (case splitRepository (vpRepository policy) of (owner, repo) \<Rightarrow> do {
     t \<leftarrow> ghcr_getToken E cx owner repo;
     case t of
       Inl err \<Rightarrow> ret (Inl err)
     | Inr token \<Rightarrow> do {
         r \<leftarrow> fetchTagsList U E cx clientTimeout (ghcrBase @ ''/v2/'' @ owner @ ''/'' @ repo @ ''/tags/list'') token;
         ret (case r of Inl err \<Rightarrow> Inl err | Inr tags \<Rightarrow> matchingTags U tags (vpTagPattern policy)) } })"

text \<open>The entries of a manifest map come in an unspecified order; \<open>order\<close> is the one of the run.\<close>

definition dec_gar :: "(string \<times> string list) list decoder" where
  "dec_gar = dec_struct (\<lambda>kvs a.
     dec_field (dec_map (dec_struct (\<lambda>kvs a. dec_field dec_strings ''tag'' kvs a)) []) ''manifest'' kvs a)"

definition fetchGARTags ::
    "((string \<times> string list) list \<Rightarrow> (string \<times> string list) list) \<Rightarrow> ('w, 'x) registry_env_scheme \<Rightarrow> ctx \<Rightarrow> string \<Rightarrow>
     string \<Rightarrow> ('w, goerr + string list) state" where
  "fetchGARTags order E cx host repo =
     (let url = ''https://'' @ host @ ''/v2/'' @ repo @ ''/tags/list'' in
      case rgNewRequest E url of
        Inl err \<Rightarrow> ret (Inl (WrapErr ''build GAR tags request'' err))
      | Inr _ \<Rightarrow> do {
          r \<leftarrow> rgGet E cx ociTimeout url [];
          ret (case r of
              Inl err \<Rightarrow> Inl (WrapErr ''GAR tags request'' err)
            | Inr resp \<Rightarrow>
                if hrStatus resp \<noteq> 200 then
                  Inl (GoErr (''GAR returned '' @ Itoa (hrStatus resp) @ '' for '' @ repo))
                else (case decode_body dec_gar [] resp of
                    Inl err \<Rightarrow> Inl (WrapErr ''decode GAR tags response'' err)
                  | Inr manifest \<Rightarrow> Inr (concat (map snd (order manifest))))) })"

definition dec_oci_token :: "(string \<times> string) decoder" where
  "dec_oci_token = dec_struct (\<lambda>kvs a.
     case dec_field dec_string ''token'' kvs (fst a) of None \<Rightarrow> None
     | Some t \<Rightarrow> (case dec_field dec_string ''access_token'' kvs (snd a) of None \<Rightarrow> None
     | Some acc \<Rightarrow> Some (t, acc)))"

definition oci_getToken ::
    "('w, 'x) registry_env_scheme \<Rightarrow> ctx \<Rightarrow> string \<Rightarrow> string \<Rightarrow> ('w, goerr + string) state" where
  "oci_getToken E cx host repo =
     (let url = ''https://'' @ host @ ''/token?scope=repository:'' @ QueryEscape repo @ '':pull&service='' @ host in
      case rgNewRequest E url of
        Inl err \<Rightarrow> ret (Inl (WrapErr ''build token request'' err))
      | Inr _ \<Rightarrow> do {
          r \<leftarrow> rgGet E cx ociTimeout url [];
          ret (case r of
              Inl err \<Rightarrow> Inl (WrapErr (''fetch token from '' @ host) err)
            | Inr resp \<Rightarrow>
                if hrStatus resp \<noteq> 200 then
                  Inl (GoErr (''token endpoint '' @ host @ '' returned '' @ Itoa (hrStatus resp)))
                else (case decode_body dec_oci_token ([], []) resp of
                    Inl err \<Rightarrow> Inl (WrapErr ''decode token response'' err)
                  | Inr (token, accessToken) \<Rightarrow> Inr (if token \<noteq> [] then token else accessToken))) })"

definition fetchStandardTags ::
    "url_pkg \<Rightarrow> ('w, 'x) registry_env_scheme \<Rightarrow> ctx \<Rightarrow> string \<Rightarrow> string \<Rightarrow> ('w, goerr + string list) state" where
  "fetchStandardTags U E cx host repo = do {
     t \<leftarrow> oci_getToken E cx host repo;
     case t of
       Inl err \<Rightarrow> ret (Inl err)
     | Inr token \<Rightarrow> fetchTagsList U E cx ociTimeout (''https://'' @ host @ ''/v2/'' @ repo @ ''/tags/list'') token }"

definition oci_LatestTags ::
    "url_pkg \<Rightarrow> ((string \<times> string list) list \<Rightarrow> (string \<times> string list) list) \<Rightarrow> ('w, 'x) registry_env_scheme \<Rightarrow> ctx \<Rightarrow>
     string \<Rightarrow> ChainVersionPolicy \<Rightarrow> ('w, goerr + TagEntry list) state" where
  "oci_LatestTags U order E cx host policy =
     (let repo = TrimPrefix (vpRepository policy) (host @ ''/'') in do {
        r \<leftarrow> (if host = garHost then fetchGARTags order E cx host repo else fetchStandardTags U E cx host repo);
        ret (case r of Inl err \<Rightarrow> Inl err | Inr tags \<Rightarrow> matchingTags U tags (vpTagPattern policy)) })"

text \<open>The method of the interface, by implementation.\<close>

definition LatestTags ::
    "url_pkg \<Rightarrow> ((string \<times> string list) list \<Rightarrow> (string \<times> string list) list) \<Rightarrow> ('w, 'x) registry_env_scheme \<Rightarrow>
     registry_client \<Rightarrow> ctx \<Rightarrow> ChainVersionPolicy \<Rightarrow> int \<Rightarrow> ('w, goerr + TagEntry list) state" where
  "LatestTags U order E client cx policy maxResults = (case client of
     DockerHubClient auth \<Rightarrow> dockerHub_LatestTags U E auth cx policy maxResults
   | GHCRClient \<Rightarrow> ghcr_LatestTags U E cx policy
   | OCIClient host \<Rightarrow> oci_LatestTags U order E cx host policy)"

subsection \<open>The order of versions\<close>

text \<open>
  What \<open>golang.org/x/mod/semver\<close> documents: \<open>Compare\<close> is a total preorder in which invalid
  versions come before valid ones, and the numbers of a version are not empty.
\<close>

locale semver_order =
  fixes S :: semver_pkg
  assumes flip: "svCompare S a b = - svCompare S b a"
    and trans: "svCompare S a b \<le> 0 \<Longrightarrow> svCompare S b c \<le> 0 \<Longrightarrow> svCompare S a c \<le> 0"
    and invalid_first: "\<not> svIsValid S a \<Longrightarrow> svIsValid S b \<Longrightarrow> svCompare S a b < 0"
    and numbers: "\<not> svIsValid S ''v.0.0''"
begin

lemma refl: "svCompare S a a = 0"
  using flip [of a a] by simp

lemma IsNewer_iff:
  "IsNewer S c cur prefix \<longleftrightarrow> svIsValid S (normalizeTag c prefix) \<and> svIsValid S (normalizeTag cur prefix) \<and>
     svCompare S (normalizeTag c prefix) (normalizeTag cur prefix) > 0"
  by (auto simp: IsNewer_def Let_def)

lemma IsNewer_asym: "IsNewer S a b prefix \<Longrightarrow> \<not> IsNewer S b a prefix"
  using flip [of "normalizeTag a prefix" "normalizeTag b prefix"] by (simp add: IsNewer_iff)

lemma not_newer_trans:
  assumes "\<not> IsNewer S t a prefix" "\<not> IsNewer S a b prefix" "svIsValid S (normalizeTag a prefix)"
  shows "\<not> IsNewer S t b prefix"
  using assms trans [of "normalizeTag t prefix" "normalizeTag a prefix" "normalizeTag b prefix"]
  by (auto simp: IsNewer_iff not_less)

lemma empty_invalid: "\<not> svIsValid S (normalizeTag [] prefix)"
proof -
  have "TrimPrefix [] prefix = []" by (simp add: TrimPrefix_def)
  then have "normalizeTag [] prefix = ''v.0.0''"
    by (simp add: normalizeTag_def TrimPrefix_def normalizePart_def ParseUint64_def numeral_2_eq_2)
  with numbers show ?thesis by simp
qed

lemma newest_from_max:
  assumes "svIsValid S (normalizeTag best prefix)"
  shows "newest_from S prefix best ts \<in> set (best # ts) \<and>
    svIsValid S (normalizeTag (newest_from S prefix best ts) prefix) \<and>
    (\<forall>t \<in> set (best # ts). \<not> IsNewer S t (newest_from S prefix best ts) prefix)"
  using assms
proof (induction ts arbitrary: best)
  case Nil
  then show ?case using IsNewer_asym by auto
next
  case (Cons t ts)
  have nonempty: "best \<noteq> []" using Cons.prems empty_invalid by auto
  show ?case
  proof (cases "IsNewer S t best prefix")
    case True
    then have t: "svIsValid S (normalizeTag t prefix)" by (simp add: IsNewer_iff)
    from Cons.IH [OF t] not_newer_trans [OF IsNewer_asym [OF True] _ t] True t nonempty show ?thesis by auto
  next
    case False
    from Cons.IH [OF Cons.prems] not_newer_trans [OF False _ Cons.prems] False nonempty show ?thesis by auto
  qed
qed

lemma Newest_max:
  assumes "t \<in> set tags" "svIsValid S (normalizeTag t prefix)"
  shows "Newest S tags prefix \<in> set tags \<and> svIsValid S (normalizeTag (Newest S tags prefix) prefix) \<and>
     (\<forall>u \<in> set tags. \<not> IsNewer S u (Newest S tags prefix) prefix)"
  using assms
proof (induction tags)
  case (Cons u tags)
  show ?case
  proof (cases "svIsValid S (normalizeTag u prefix)")
    case True
    then show ?thesis using newest_from_max [OF True, of tags] by (simp add: Newest_def)
  next
    case False
    with Cons have "Newest S tags prefix \<in> set tags \<and> svIsValid S (normalizeTag (Newest S tags prefix) prefix) \<and>
       (\<forall>u \<in> set tags. \<not> IsNewer S u (Newest S tags prefix) prefix)" by auto
    with False show ?thesis by (simp add: Newest_def IsNewer_iff)
  qed
qed simp

lemma Newest_none:
  "\<forall>t \<in> set tags. \<not> svIsValid S (normalizeTag t prefix) \<Longrightarrow> Newest S tags prefix = []"
  unfolding Newest_def by (induction tags) auto

end

subsection \<open>Semantic versions\<close>

text \<open>
  An implementation of that contract after the SemVer 2.0 precedence rules: numbers without
  leading zeros, dot-separated pre-release identifiers of which numeric ones come first, a
  pre-release before its release, build metadata ignored.
\<close>

definition plain_number :: "string \<Rightarrow> bool" where
  "plain_number s \<longleftrightarrow> s \<noteq> [] \<and> list_all (is_digit 10) s \<and> (length s = 1 \<or> hd s \<noteq> CHR ''0'')"

definition ident_char :: "char \<Rightarrow> bool" where
  "ident_char c \<longleftrightarrow> (let n = of_char c :: nat in
     48 \<le> n \<and> n \<le> 57 \<or> 65 \<le> n \<and> n \<le> 90 \<or> 97 \<le> n \<and> n \<le> 122 \<or> c = CHR ''-'')"

definition ident_ok :: "bool \<Rightarrow> string \<Rightarrow> bool" where
  "ident_ok pre s \<longleftrightarrow> s \<noteq> [] \<and> list_all ident_char s \<and>
     (pre \<and> list_all (is_digit 10) s \<longrightarrow> plain_number s)"

type_synonym ident_key = "nat \<times> nat \<times> string"

definition ident_key :: "string \<Rightarrow> ident_key" where
  "ident_key s = (if list_all (is_digit 10) s then (0, digits_value 10 s, []) else (1, 0, s))"

text \<open>The parts of \<open>vMAJOR.MINOR.PATCH[-pre][+build]\<close>.\<close>

definition sem_core :: "string \<Rightarrow> string list" where
  "sem_core s = Split (takeWhile (\<lambda>c. c \<noteq> CHR ''-'' \<and> c \<noteq> CHR ''+'') s) (CHR ''.'')"

definition sem_pre :: "string \<Rightarrow> string list option" where
  "sem_pre s = (case dropWhile (\<lambda>c. c \<noteq> CHR ''-'' \<and> c \<noteq> CHR ''+'') s of
     [] \<Rightarrow> None
   | c # r \<Rightarrow> if c = CHR ''-'' then Some (Split (takeWhile (\<lambda>c. c \<noteq> CHR ''+'') r) (CHR ''.'')) else None)"

definition sem_build :: "string \<Rightarrow> string list option" where
  "sem_build s = (case dropWhile (\<lambda>c. c \<noteq> CHR ''+'') s of [] \<Rightarrow> None | c # r \<Rightarrow> Some (Split r (CHR ''.'')))"

definition sem_valid :: "string \<Rightarrow> bool" where
  "sem_valid v = (case v of [] \<Rightarrow> False
     | c # s \<Rightarrow> c = CHR ''v'' \<and> length (sem_core s) \<le> 3 \<and> list_all plain_number (sem_core s) \<and>
         (length (sem_core s) < 3 \<longrightarrow> sem_pre s = None \<and> sem_build s = None) \<and>
         (case sem_pre s of None \<Rightarrow> True | Some ids \<Rightarrow> list_all (ident_ok True) ids) \<and>
         (case sem_build s of None \<Rightarrow> True | Some ids \<Rightarrow> list_all (ident_ok False) ids))"

definition sem_key :: "string \<Rightarrow> (nat list \<times> nat \<times> ident_key list) list" where
  "sem_key v = (if \<not> sem_valid v then []
     else (let s = tl v; core = map (digits_value 10) (sem_core s) in
       [(core @ replicate (3 - length core) 0,
         case sem_pre s of None \<Rightarrow> (1, []) | Some ids \<Rightarrow> (0, map ident_key ids))]))"

definition sem_compare :: "string \<Rightarrow> string \<Rightarrow> int" where
  "sem_compare v w = (if sem_key v < sem_key w then -1 else if sem_key w < sem_key v then 1 else 0)"

definition sem_prefix :: "nat \<Rightarrow> string \<Rightarrow> string" where
  "sem_prefix n v = (if \<not> sem_valid v then []
     else ''v'' @ Join (take n (sem_core (tl v) @ replicate (n - length (sem_core (tl v))) ''0'')) ''.'')"

definition semver :: semver_pkg where
  "semver = \<lparr>svIsValid = sem_valid, svCompare = sem_compare, svMajor = sem_prefix 1, svMajorMinor = sem_prefix 2\<rparr>"

interpretation semver: semver_order semver
proof
  fix a b c
  show "svCompare semver a b = - svCompare semver b a"
    by (auto simp: semver_def sem_compare_def)
  show "svCompare semver a b \<le> 0 \<Longrightarrow> svCompare semver b c \<le> 0 \<Longrightarrow> svCompare semver a c \<le> 0"
    by (auto simp: semver_def sem_compare_def split: if_splits)
  show "\<not> svIsValid semver a \<Longrightarrow> svIsValid semver b \<Longrightarrow> svCompare semver a b < 0"
    by (auto simp: semver_def sem_compare_def sem_key_def Let_def)
  show "\<not> svIsValid semver ''v.0.0''"
    by (simp add: semver_def sem_valid_def sem_core_def plain_number_def)
qed

lemmas semver_is_order = semver.semver_order_axioms

text \<open>
  C30: \<open>Newest\<close> finds the newest version: for every list of tags in any order, if some tag is a
  version then the result is one of the tags, is a version, and no tag of the list is newer;
  if none is, the result is empty.
\<close>

theorem Newest_is_maximum:
  assumes "semver_order S"
  shows "(if \<exists>t \<in> set tags. svIsValid S (normalizeTag t prefix)
     then Newest S tags prefix \<in> set tags \<and> svIsValid S (normalizeTag (Newest S tags prefix) prefix) \<and>
          (\<forall>t \<in> set tags. \<not> IsNewer S t (Newest S tags prefix) prefix)
     else Newest S tags prefix = [])"
  using semver_order.Newest_max [OF assms] semver_order.Newest_none [OF assms, of tags prefix] by auto

text \<open>Evaluation of concrete tags.\<close>

lemma replicate_2: "replicate 2 x = [x, x]"
  by (simp add: numeral_2_eq_2)

lemmas tag_simps = normalizeTag_def normalizePart_def ParseUint64_def TrimPrefix_def digits_value_def is_digit_def
  digit_val_def digit_chars nat_digits.simps replicate_2

theorem Newest_is_maximum_witness:
  "\<not> IsNewer semver ''1.10-rc.1'' (Newest semver [''v1.9.0'', ''nightly'', ''1.10-rc.1'', ''v1.10''] []) [] \<and>
   Newest semver [''v1.9.0'', ''nightly'', ''1.10-rc.1'', ''v1.10''] [] = ''v1.10''"
proof -
  let ?tags = "[''v1.9.0'', ''nightly'', ''1.10-rc.1'', ''v1.10'']"
  have n: "normalizeTag ''v1.9.0'' [] = ''v1.9.0''" "normalizeTag ''nightly'' [] = ''vnightly.0.0''"
    "normalizeTag ''1.10-rc.1'' [] = ''v1.10.0-rc.1''" "normalizeTag ''v1.10'' [] = ''v1.10.0''"
    by (simp_all add: tag_simps)
  have v: "svIsValid semver ''v1.9.0''" "\<not> svIsValid semver ''vnightly.0.0''" "svIsValid semver ''v1.10.0-rc.1''"
    "svIsValid semver ''v1.10.0''" "svCompare semver ''v1.10.0-rc.1'' ''v1.9.0'' > 0"
    "svCompare semver ''v1.10.0'' ''v1.10.0-rc.1'' > 0"
    by code_simp+
  have "Newest semver ?tags [] = ''v1.10''"
    by (simp add: Newest_def IsNewer_def n v)
  with Newest_is_maximum [OF semver_is_order, of ?tags "[]"] show ?thesis by (auto simp: n v)
qed

subsection \<open>Bounded crawling\<close>

text \<open>Any environment, with a count of the page requests and the total of the requested waits.\<close>

definition metered :: "('w, 'a) state \<Rightarrow> nat \<Rightarrow> int \<Rightarrow> ('w \<times> nat \<times> int, 'a) state" where
  "metered m k d = State (\<lambda>(w, sent, waited). case run_state m w of (a, w') \<Rightarrow> (a, (w', sent + k, waited + d)))"

definition metering :: "'w registry_env \<Rightarrow> ('w \<times> nat \<times> int) registry_env" where
  "metering E = \<lparr>gNow = metered (gNow E) 0 0, gWait = (\<lambda>c d. metered (gWait E c d) 0 d),
     rgNewRequest = rgNewRequest E, rgGet = (\<lambda>c t u tok. metered (rgGet E c t u tok) 1 0),
     rgPost = (\<lambda>c t u b. metered (rgPost E c t u b) 0 0), rgCtxErr = (\<lambda>c. metered (rgCtxErr E c) 0 0),
     rgToken = metered (rgToken E) 0 0, rgSetToken = (\<lambda>t. metered (rgSetToken E t) 0 0)\<rparr>"

lemma wp_metered: "(\<And>a w'. Q a (w', sent + k, waited + d)) \<Longrightarrow> wp (metered m k d) Q (w, sent, waited)"
  by (auto simp: wp_def metered_def split: prod.splits)

lemma metering_simps [simp]:
  "gNow (metering E) = metered (gNow E) 0 0" "gWait (metering E) c d = metered (gWait E c d) 0 d"
  "rgNewRequest (metering E) = rgNewRequest E" "rgGet (metering E) c t u tok = metered (rgGet E c t u tok) 1 0"
  "rgPost (metering E) c t u b = metered (rgPost E c t u b) 0 0" "rgCtxErr (metering E) c = metered (rgCtxErr E c) 0 0"
  "rgToken (metering E) = metered (rgToken E) 0 0" "rgSetToken (metering E) tok = metered (rgSetToken E tok) 0 0"
  by (simp_all add: metering_def)

lemma dockerHubRetryWait_bounds: "Second \<le> dockerHubRetryWait h now" "dockerHubRetryWait h now \<le> 65 * Second"
  by (auto simp: dockerHubRetryWait_def dockerHubMaxWait_def Let_def split: option.splits)

lemma bearer_free:
  assumes "\<And>a w'. Q a (w', sent, waited)"
  shows "wp (bearer U (metering E) cx auth) Q (w, sent, waited)"
  unfolding bearer_def using assms
  by (auto intro!: wp_metered split: sum.splits)

lemma fetchPageOnce_metered:
  assumes "\<And>r d w' n. n \<le> Suc sent \<Longrightarrow> 0 \<le> d \<Longrightarrow> d \<le> 65 * Second \<Longrightarrow> Q (r, d) (w', n, waited)"
  shows "wp (fetchPageOnce U (metering E) auth cx url owner repo) Q (w, sent, waited)"
proof -
  have "0 \<le> dockerHubRetryWait h now" for h now
    using dockerHubRetryWait_bounds(1) [of h now] by simp
  with assms dockerHubRetryWait_bounds(2) show ?thesis
    unfolding fetchPageOnce_def Let_def
    by (auto intro!: wp_metered bearer_free split: sum.splits option.splits)
qed

declare page_attempts.simps [simp del]

lemma page_attempts_metered:
  assumes "\<And>r w' n t. n \<le> sent + Suc left \<Longrightarrow> waited \<le> t \<Longrightarrow> t \<le> waited + int left * (65 * Second) \<Longrightarrow> Q r (w', n, t)"
  shows "wp (page_attempts U (metering E) auth cx url owner repo left) Q (w, sent, waited)"
  using assms
proof (induction left arbitrary: w sent waited)
  case 0
  then show ?case
    by (subst page_attempts.simps) (auto intro!: fetchPageOnce_metered)
next
  case (Suc left)
  show ?case
    by (subst page_attempts.simps)
       (auto intro!: fetchPageOnce_metered wp_metered Suc.IH Suc.prems simp: algebra_simps split: sum.splits)
qed

lemma fetchPage_metered:
  assumes "\<And>r w' n t. n \<le> sent + 4 \<Longrightarrow> waited \<le> t \<Longrightarrow> t \<le> waited + 195 * Second \<Longrightarrow> Q r (w', n, t)"
  shows "wp (fetchPage U (metering E) auth cx url owner repo) Q (w, sent, waited)"
  unfolding fetchPage_def dockerHubMaxAttempts_def
  using assms by (auto intro!: page_attempts_metered)

lemma hub_pages_metered:
  assumes "\<And>r w' n t. n \<le> sent + 4 * left \<Longrightarrow> waited \<le> t \<Longrightarrow> t \<le> waited + int left * (195 * Second) \<Longrightarrow> Q r (w', n, t)"
  shows "wp (hub_pages U (metering E) auth cx matches target owner repo left nxt entries) Q (w, sent, waited)"
  using assms
proof (induction left arbitrary: nxt entries w sent waited)
  case (Suc left)
  show ?case
    by (auto intro!: wp_metered fetchPage_metered Suc.IH Suc.prems simp: Let_def algebra_simps split: sum.splits option.splits)
qed simp

text \<open>
  C31: Listing tags on Docker Hub is bounded whatever the service answers, endless "next" links
  and permanent throttling included: at most four requests and three waits of at most 65
  seconds for each of at most twenty pages, ten for anonymous clients.
\<close>

theorem dockerHub_LatestTags_bounded:
  "wp (dockerHub_LatestTags U (metering E) auth cx policy maxResults)
     (\<lambda>_ (_, sent, waited). (let pages = (if auth = None then 10 else 20) in
        sent \<le> 4 * pages \<and> 0 \<le> waited \<and> waited \<le> int pages * (3 * (65 * Second)))) (w, 0, 0)"
  unfolding dockerHub_LatestTags_def Let_def dockerHubMaxPages_def dockerHubAnonymousMaxPages_def dockerHubPageSize_def
  by (auto intro!: hub_pages_metered split: prod.splits sum.splits)

end
