(* ===== verification/Catalog.thy ===== *)
theory Catalog
  imports Registry
begin

text \<open>
  \<open>internal/controller/chainversioncatalog_controller.go\<close>: polling a registry for the newest
  tag of a chain. The API requests and \<open>meta.SetStatusCondition\<close> extend the environment of
  the registry clients; \<open>sort.Slice\<close> is an argument, because it is unspecified how it orders
  what its comparison does not.
\<close>

subsection \<open>Durations as text\<close>

text \<open>
  \<open>time.ParseDuration\<close>: a sequence of decimal numbers with units. The digits of a fraction
  beyond the range of a 64-bit number are dropped, as there.
\<close>

definition unitMap :: "(string \<times> nat) list" where
  "unitMap = [(''ns'', 1), (''us'', 1000), ([CHR 0xC2, CHR 0xB5] @ ''s'', 1000), ([CHR 0xCE, CHR 0xBC] @ ''s'', 1000),
     (''ms'', 1000000), (''s'', 1000000000), (''m'', 60000000000), (''h'', 3600000000000)]"

fun leadingFraction :: "string \<Rightarrow> nat \<Rightarrow> nat \<Rightarrow> nat \<times> nat" where
  "leadingFraction [] x scale = (x, scale)"
| "leadingFraction (c # s) x scale =
     (if x > (2 ^ 63 - 1) div 10 \<or> x * 10 + digits_value 10 [c] > 2 ^ 63 then (x, scale)
      else leadingFraction s (x * 10 + digits_value 10 [c]) (scale * 10))"

definition durationPart :: "nat \<Rightarrow> nat \<Rightarrow> nat \<Rightarrow> nat \<Rightarrow> nat option" where
  "durationPart v f scale unit =
     (if v > 2 ^ 63 div unit then None
      else (let v' = v * unit + (if f > 0 then nat \<lfloor>rat_of_nat f * (rat_of_nat unit / rat_of_nat scale)\<rfloor> else 0)
            in if f > 0 \<and> v' > 2 ^ 63 then None else Some v'))"

fun durationParts :: "nat \<Rightarrow> string \<Rightarrow> nat \<Rightarrow> nat option" where
  "durationParts 0 s d = None"
| "durationParts (Suc fuel) s d =
     (if s = [] then Some d
      else
        (let ip = takeWhile (is_digit 10) s; r = dropWhile (is_digit 10) s;
             dot = (r \<noteq> [] \<and> hd r = CHR ''.'');
             r1 = (if dot then tl r else r);
             fp = (if dot then takeWhile (is_digit 10) r1 else []);
             r2 = (if dot then dropWhile (is_digit 10) r1 else r1);
             (f, scale) = leadingFraction fp 0 1;
             u = takeWhile (\<lambda>c. c \<noteq> CHR ''.'' \<and> \<not> is_digit 10 c) r2;
             rest = dropWhile (\<lambda>c. c \<noteq> CHR ''.'' \<and> \<not> is_digit 10 c) r2
         in if digits_value 10 ip > 2 ^ 63 \<or> (ip = [] \<and> fp = []) \<or> u = [] then None
            else (case map_of unitMap u of
                None \<Rightarrow> None
              | Some unit \<Rightarrow> (case durationPart (digits_value 10 ip) f scale unit of
                  None \<Rightarrow> None
                | Some v \<Rightarrow> (let d' = (d + v) mod 2 ^ 64 in
                    if d' > 2 ^ 63 then None else durationParts fuel rest d')))))"

definition ParseDuration :: "string \<Rightarrow> duration option" where
  "ParseDuration s0 =
     (let neg = (s0 \<noteq> [] \<and> hd s0 = CHR ''-'');
          s = (if s0 \<noteq> [] \<and> (hd s0 = CHR ''-'' \<or> hd s0 = CHR ''+'') then tl s0 else s0)
      in if s = ''0'' then Some 0
         else if s = [] then None
         else (case durationParts (Suc (length s)) s 0 of
             None \<Rightarrow> None
           | Some d \<Rightarrow> if neg then Some (- int d) else if d > 2 ^ 63 - 1 then None else Some (int d)))"

subsection \<open>The controller\<close>

record 'w catalog_ctl = "'w registry_env" +
  ctGet :: "string \<Rightarrow> string \<Rightarrow> ('w, goerr + ChainVersionCatalog) state"
  ctUpdateStatus :: "ChainVersionCatalog \<Rightarrow> ('w, goerr + ChainVersionCatalog) state"
  ctSetCondition :: "Condition \<Rightarrow> Condition list \<Rightarrow> ('w, Condition list) state"

text \<open>What the controller is built from.\<close>

record 'w catalog_deps =
  cdRegistry :: "'w registry"
  cdSemver :: semver_pkg
  cdURL :: url_pkg
  cdOrder :: "(string \<times> string list) list \<Rightarrow> (string \<times> string list) list"
  cdGetenv :: "string \<Rightarrow> string"
  cdSort :: "(TagEntry \<Rightarrow> TagEntry \<Rightarrow> bool) \<Rightarrow> TagEntry list \<Rightarrow> TagEntry list"

definition defaultCheckInterval :: duration where "defaultCheckInterval = 6 * Hour"
definition maxRecentTags :: nat where "maxRecentTags = 10"

definition parseCheckInterval :: "string \<Rightarrow> duration" where
  "parseCheckInterval s =
     (if s = [] then defaultCheckInterval
      else (case ParseDuration s of
          None \<Rightarrow> defaultCheckInterval
        | Some d \<Rightarrow> if d \<le> 0 then defaultCheckInterval else d))"

definition zero_tag :: TagEntry where
  "zero_tag = \<lparr>teTag = [], tePublishedAt = [], teDigest = []\<rparr>"

definition findLatestTag :: "semver_pkg \<Rightarrow> TagEntry list \<Rightarrow> ChainVersionPolicy \<Rightarrow> TagEntry" where
  "findLatestTag S entries policy = (case entries of
     [] \<Rightarrow> zero_tag
   | e # es \<Rightarrow> foldl (\<lambda>best e. if IsNewer S (teTag e) (teTag best) (vpTagPrefix policy) then e else best) e es)"

definition upd_catalog :: "(ChainVersionCatalogStatus \<Rightarrow> ChainVersionCatalogStatus) \<Rightarrow> ChainVersionCatalog \<Rightarrow> ChainVersionCatalog" where
  "upd_catalog f c = c\<lparr>cvStatus := f (cvStatus c)\<rparr>"

abbreviation (input) ConditionRegistryReachable :: string where
  "ConditionRegistryReachable \<equiv> ''RegistryReachable''"

text \<open>The transition time of the new condition is left to \<open>SetStatusCondition\<close>; 0 stands for the zero time.\<close>

definition setReachableCondition ::
    "('w, 'x) catalog_ctl_scheme \<Rightarrow> ChainVersionCatalog \<Rightarrow> ConditionStatus \<Rightarrow> string \<Rightarrow> string \<Rightarrow> ('w, ChainVersionCatalog) state" where
  "setReachableCondition C catalog status reason message = do {
     cs \<leftarrow> ctSetCondition C
       \<lparr>cdType = ConditionRegistryReachable, cdStatus = status, cdReason = reason, cdMessage = message,
        cdTransition = 0, cdObserved = mGeneration (cvMeta catalog)\<rparr> (cvConditions (cvStatus catalog));
     ret (upd_catalog (\<lambda>s. s\<lparr>cvConditions := cs\<rparr>) catalog) }"

text \<open>The failure branches: a false condition, a status update, a retry.\<close>

definition catalogFailed ::
    "('w, 'x) catalog_ctl_scheme \<Rightarrow> ChainVersionCatalog \<Rightarrow> string \<Rightarrow> string \<Rightarrow> duration \<Rightarrow> ('w, goerr + Result) state" where
  "catalogFailed C catalog reason message again = do {
     catalog \<leftarrow> setReachableCondition C catalog ConditionFalse reason message;
     r \<leftarrow> ctUpdateStatus C catalog;
     ret (case r of Inl err \<Rightarrow> Inl err | Inr _ \<Rightarrow> Inr \<lparr>rqAfter = again\<rparr>) }"

definition publishedTime :: "string \<Rightarrow> time option \<Rightarrow> time option" where
  "publishedTime p old = (if p \<noteq> [] then (case ParseRFC3339 p of Some t \<Rightarrow> Some t | None \<Rightarrow> old) else old)"

definition recentTag :: "TagEntry \<Rightarrow> TagInfo" where
  "recentTag e = \<lparr>tiTag = teTag e, tiPublishedAt = publishedTime (tePublishedAt e) None\<rparr>"

definition catalogStatus ::
    "'w catalog_deps \<Rightarrow> ChainVersionPolicy \<Rightarrow> TagEntry list \<Rightarrow> time \<Rightarrow> ChainVersionCatalogStatus \<Rightarrow> ChainVersionCatalogStatus" where
  "catalogStatus D policy entries now s =
     (let best = findLatestTag (cdSemver D) entries policy;
          sorted' = cdSort D (\<lambda>a b. IsNewer (cdSemver D) (teTag a) (teTag b) (vpTagPrefix policy)) entries
      in s\<lparr>cvLatestTag := teTag best, cvLatestDigest := teDigest best, cvCheckedAt := Some now,
           cvPublishedAt := publishedTime (tePublishedAt best) (cvPublishedAt s),
           cvRecentTags := map recentTag (take maxRecentTags sorted')\<rparr>)"

definition pollRegistry ::
    "'w catalog_deps \<Rightarrow> 'w catalog_ctl \<Rightarrow> ctx \<Rightarrow> ChainVersionCatalog \<Rightarrow> ChainVersionPolicy \<Rightarrow> ('w, goerr + Result) state" where
  "pollRegistry D C cx catalog policy = (case NewClient (cdGetenv D) (vpRegistry policy) of
     Inl err \<Rightarrow> catalogFailed C catalog ''RegistryError'' (err_text err) (15 * Minute)
   | Inr regClient \<Rightarrow> do {
       t0 \<leftarrow> gNow C;
       r \<leftarrow> LatestTags (cdURL D) (cdOrder D) C regClient (WithTimeout cx t0 (30 * Second)) policy 25;
       case r of
         Inl err \<Rightarrow> catalogFailed C catalog ''RegistryError'' (err_text err) (15 * Minute)
       | Inr entries \<Rightarrow>
           if entries = [] then
             catalogFailed C catalog ''NoMatchingTags'' ''registry returned no tags matching the policy pattern'' Hour
           else do {
             now \<leftarrow> gNow C;
             catalog \<leftarrow> setReachableCondition C (upd_catalog (catalogStatus D policy entries now) catalog)
               ConditionTrue ''RegistryPolled'' ''successfully fetched tags from registry'';
             u \<leftarrow> ctUpdateStatus C catalog;
             ret (case u of
                 Inl err \<Rightarrow> Inl err
               | Inr catalog \<Rightarrow> Inr \<lparr>rqAfter = parseCheckInterval (cvCheckInterval (cvSpec catalog))\<rparr>) } })"

definition reconcileCatalog ::
    "'w catalog_deps \<Rightarrow> 'w catalog_ctl \<Rightarrow> ctx \<Rightarrow> ChainVersionCatalog \<Rightarrow> ('w, goerr + Result) state" where
  "reconcileCatalog D C cx catalog =
     (let chain = cvChain (cvSpec catalog) in
      case Get (cdRegistry D) chain of
        None \<Rightarrow> catalogFailed C catalog ''AdapterNotFound'' (''no adapter registered for chain '' @ chain) Hour
      | Some adapter \<Rightarrow> (case adVersionPolicy adapter of
          None \<Rightarrow> catalogFailed C catalog ''VersionProviderNotImplemented''
                    (''adapter for chain '' @ chain @ '' does not implement VersionProvider'') Hour
        | Some policy \<Rightarrow> pollRegistry D C cx catalog policy))"

definition catalog_Reconcile ::
    "'w catalog_deps \<Rightarrow> 'w catalog_ctl \<Rightarrow> ctx \<Rightarrow> string \<Rightarrow> string \<Rightarrow> ('w, goerr + Result) state" where
  "catalog_Reconcile D C cx ns name = do {
     g \<leftarrow> ctGet C ns name;
     case g of
       Inl err \<Rightarrow> ret (if IsNotFound err then Inr \<lparr>rqAfter = 0\<rparr> else Inl err)
     | Inr catalog \<Rightarrow> reconcileCatalog D C cx catalog }"

subsection \<open>The client of a catalog is not used\<close>

definition set_client :: "string \<Rightarrow> ChainVersionCatalog \<Rightarrow> ChainVersionCatalog" where
  "set_client x c = c\<lparr>cvSpec := (cvSpec c)\<lparr>cvClient := x\<rparr>\<rparr>"

lemma set_client_simps [simp]:
  "cvMeta (set_client x c) = cvMeta c" "cvStatus (set_client x c) = cvStatus c"
  "cvChain (cvSpec (set_client x c)) = cvChain (cvSpec c)"
  "upd_catalog f (set_client x c) = set_client x (upd_catalog f c)"
  by (simp_all add: set_client_def upd_catalog_def)

text \<open>
  A status update ignores the spec it is sent with. Whatever client the catalog names, the
  same registry is polled and the same status written.
\<close>

lemma catalog_client_ignored:
  assumes "\<And>x c. ctUpdateStatus C (set_client x c) = ctUpdateStatus C c"
  shows "reconcileCatalog D C cx (set_client x catalog) = reconcileCatalog D C cx catalog"
  by (auto simp: reconcileCatalog_def pollRegistry_def catalogFailed_def setReachableCondition_def assms Let_def
      intro!: arg_cong2 [where f = State_Monad.bind] ext split: option.split sum.split)

subsection \<open>The latest tag\<close>

context semver_order
begin

abbreviation (input) newer_entry :: "string \<Rightarrow> TagEntry \<Rightarrow> TagEntry \<Rightarrow> bool" where
  "newer_entry prefix a b \<equiv> IsNewer S (teTag a) (teTag b) prefix"

lemma fold_latest_max:
  assumes "svIsValid S (normalizeTag (teTag best) prefix)"
  shows "foldl (\<lambda>b e. if newer_entry prefix e b then e else b) best es \<in> set (best # es) \<and>
     (\<forall>e \<in> set (best # es). \<not> newer_entry prefix e (foldl (\<lambda>b e. if newer_entry prefix e b then e else b) best es))"
  using assms
proof (induction es arbitrary: best)
  case Nil
  then show ?case using IsNewer_asym by auto
next
  case (Cons e es)
  show ?case
  proof (cases "newer_entry prefix e best")
    case True
    then have e: "svIsValid S (normalizeTag (teTag e) prefix)" by (simp add: IsNewer_iff)
    from Cons.IH [OF e] not_newer_trans [OF IsNewer_asym [OF True] _ e] True show ?thesis by auto
  next
    case False
    from Cons.IH [OF Cons.prems] not_newer_trans [OF False _ Cons.prems] False show ?thesis by auto
  qed
qed

lemma fold_latest_stuck:
  "\<not> svIsValid S (normalizeTag (teTag best) prefix) \<Longrightarrow>
   foldl (\<lambda>b e. if newer_entry prefix e b then e else b) best es = best"
  by (induction es) (simp_all add: IsNewer_iff)

end

text \<open>
  C32: The latest tag of a catalog depends on the first tag listed. If the first entry of the
  registry's answer is a version, the reported tag is one of the entries and none is newer;
  if it is not, that first entry is reported whatever the others are.
\<close>

theorem findLatestTag_trusts_first:
  assumes "semver_order S"
  shows "if svIsValid S (normalizeTag (teTag e) (vpTagPrefix policy))
    then findLatestTag S (e # es) policy \<in> set (e # es) \<and>
         (\<forall>x \<in> set (e # es). \<not> IsNewer S (teTag x) (teTag (findLatestTag S (e # es) policy)) (vpTagPrefix policy))
    else findLatestTag S (e # es) policy = e"
  using semver_order.fold_latest_max [OF assms, of e "vpTagPrefix policy" es]
    semver_order.fold_latest_stuck [OF assms, of e "vpTagPrefix policy" es]
  by (simp add: findLatestTag_def)

text \<open>TRON publishes such tags: a four-part version listed first hides every later release.\<close>

theorem findLatestTag_trusts_first_witness:
  "let tag = (\<lambda>t. \<lparr>teTag = t, tePublishedAt = [], teDigest = []\<rparr>);
       policy = \<lparr>vpRegistry = [], vpRepository = ''tronprotocol/java-tron'', vpTagPattern = [], vpTagPrefix = ''GreatVoyage-''\<rparr>
   in teTag (findLatestTag semver [tag ''GreatVoyage-v4.7.0.1'', tag ''GreatVoyage-v4.8.0''] policy) = ''GreatVoyage-v4.7.0.1'' \<and>
      \<not> svIsValid semver (normalizeTag ''GreatVoyage-v4.7.0.1'' ''GreatVoyage-'')"
proof -
  have n: "normalizeTag ''GreatVoyage-v4.7.0.1'' ''GreatVoyage-'' = ''v4.7.0.1''" by (simp add: tag_simps)
  moreover have "\<not> svIsValid semver ''v4.7.0.1''" by code_simp
  ultimately show ?thesis
    using findLatestTag_trusts_first [OF semver_is_order, of "\<lparr>teTag = ''GreatVoyage-v4.7.0.1'', tePublishedAt = [], teDigest = []\<rparr>"
      "\<lparr>vpRegistry = [], vpRepository = ''tronprotocol/java-tron'', vpTagPattern = [], vpTagPrefix = ''GreatVoyage-''\<rparr>"
      "[\<lparr>teTag = ''GreatVoyage-v4.8.0'', tePublishedAt = [], teDigest = []\<rparr>]"]
    by (simp add: Let_def n)
qed

end
