(* ===== verification/Adapter_Contract.thy ===== *)
theory Adapter_Contract
  imports Workload
begin

text \<open>
  What the pod and the Service of a node rely on in its adapter. The containers of a pod share
  one network, so no two of them may listen on the same port; Kubernetes wants the ports of a
  Service to have distinct names of at most fifteen characters, and a TCP probe on a port
  nobody serves restarts the container for ever. The locale \<open>pod_adapter\<close> states this of an
  adapter, and its lemmas carry it to the objects the controller builds; the families of
  adapters interpret it.
\<close>

abbreviation portKey :: "ContainerPort \<Rightarrow> int \<times> string" where
  "portKey p \<equiv> (cpPort p, cpProtocol p)"

text \<open>The sidecars an adapter adds to the pod whose credentials are in the named Secret.\<close>

definition adapterSidecars :: "'w ChainAdapter \<Rightarrow> ChainInstanceSpec \<Rightarrow> string \<Rightarrow> Container list" where
  "adapterSidecars adapter spec secretName = (case adRPCCredentialed adapter of
     Some rc \<Rightarrow> rcSidecars rc spec secretName
   | None \<Rightarrow> (case adSidecars adapter of Some sp \<Rightarrow> sp spec | None \<Rightarrow> []))"

definition adapterPorts :: "'w ChainAdapter \<Rightarrow> ChainInstanceSpec \<Rightarrow> string \<Rightarrow> ContainerPort list" where
  "adapterPorts adapter spec secretName =
     adContainerPorts adapter spec @ concat (map ctPorts (adapterSidecars adapter spec secretName))"

definition probe_served :: "Probe \<Rightarrow> ContainerPort list \<Rightarrow> bool" where
  "probe_served p ports \<longleftrightarrow> (case pbHandler p of
     TCPSocket n \<Rightarrow> (n, ''TCP'') \<in> portKey ` set ports
   | HTTPGet path n \<Rightarrow> (n, ''TCP'') \<in> portKey ` set ports
   | ExecProbe cmd \<Rightarrow> True)"

abbreviation podPorts :: "PodTemplateSpec \<Rightarrow> ContainerPort list" where
  "podPorts tmpl \<equiv> concat (map ctPorts (psContainers (ptSpec tmpl)))"

abbreviation mainContainer :: "PodTemplateSpec \<Rightarrow> Container" where
  "mainContainer tmpl \<equiv> hd (psContainers (ptSpec tmpl))"

lemma RenderPodTemplate_containers:
  "psContainers (ptSpec (RenderPodTemplate B R node adapter h)) =
     mainContainer (RenderPodTemplate B R node adapter h)
       # adapterSidecars adapter (ciSpec node) (rpcSecretName node) @ spSidecars (ciSpec node)"
  by (simp add: RenderPodTemplate_def podContainers_def adapterSidecars_def Let_def)

lemma mainContainer_simps:
  "ctName (mainContainer (RenderPodTemplate B R node adapter h)) = mainContainerName"
  "ctPorts (mainContainer (RenderPodTemplate B R node adapter h)) = adContainerPorts adapter (ciSpec node)"
  "ctLiveness (mainContainer (RenderPodTemplate B R node adapter h)) = adLivenessProbe adapter (ciSpec node)"
  "ctArgs (mainContainer (RenderPodTemplate B R node adapter h)) = containerArgs adapter node"
  "ctImage (mainContainer (RenderPodTemplate B R node adapter h)) = resolveContainerImage node adapter"
  "dataMount \<in> set (ctMounts (mainContainer (RenderPodTemplate B R node adapter h)))"
  by (simp_all add: RenderPodTemplate_def podContainers_def Let_def)

text \<open>What the Service of a node needs: its ports are those of the main container.\<close>

definition valid_service :: "ServicePort list \<Rightarrow> bool" where
  "valid_service ports \<longleftrightarrow> distinct (map spName ports) \<and> distinct (map (\<lambda>p. (spPort p, spProtocol p)) ports) \<and>
     list_all (\<lambda>p. spName p \<noteq> [] \<and> length (spName p) \<le> 15) ports"

lemma service_port_keys:
  assumes "buildServicePorts node adapter = (ty, ports)"
  shows "map spName ports = map cpName (adContainerPorts adapter (ciSpec node))"
    "map (\<lambda>p. (spPort p, spProtocol p)) ports = map portKey (adContainerPorts adapter (ciSpec node))"
    "map (\<lambda>p. (spTargetPort p, spProtocol p)) ports = map portKey (adContainerPorts adapter (ciSpec node))"
  using assms by (auto simp: buildServicePorts_def servicePort_def Let_def split: option.splits)

lemma valid_service_iff:
  assumes "buildServicePorts node adapter = (ty, ports)"
  shows "valid_service ports \<longleftrightarrow>
     distinct (map cpName (adContainerPorts adapter (ciSpec node))) \<and>
     distinct (map portKey (adContainerPorts adapter (ciSpec node))) \<and>
     list_all (\<lambda>p. cpName p \<noteq> [] \<and> length (cpName p) \<le> 15) (adContainerPorts adapter (ciSpec node))"
proof -
  have "list_all (\<lambda>p. spName p \<noteq> [] \<and> length (spName p) \<le> 15) ports \<longleftrightarrow> list_all (\<lambda>n. n \<noteq> [] \<and> length n \<le> 15) (map spName ports)"
    by (simp add: list.pred_map comp_def)
  then show ?thesis
    unfolding valid_service_def service_port_keys [OF assms] by (simp add: list.pred_map comp_def)
qed

locale service_adapter =
  fixes adapter :: "'w ChainAdapter"
  assumes port_keys: "distinct (map portKey (adContainerPorts adapter spec))"
    and port_names: "distinct (map cpName (adContainerPorts adapter spec))"
    and port_names_short: "p \<in> set (adContainerPorts adapter spec) \<Longrightarrow> cpName p \<noteq> [] \<and> length (cpName p) \<le> 15"
begin

lemma service_valid: "buildServicePorts node adapter = (ty, ports) \<Longrightarrow> valid_service ports"
  by (subst valid_service_iff) (auto simp: port_keys port_names port_names_short list_all_iff)

end

locale pod_adapter =
  fixes adapter :: "'w ChainAdapter"
  assumes ports_distinct: "distinct (map portKey (adapterPorts adapter spec secretName))"
    and names_distinct: "distinct (map cpName (adapterPorts adapter spec secretName))"
    and names_short: "p \<in> set (adapterPorts adapter spec secretName) \<Longrightarrow> cpName p \<noteq> [] \<and> length (cpName p) \<le> 15"
    and liveness_served: "adLivenessProbe adapter spec = Some probe \<Longrightarrow> probe_served probe (adContainerPorts adapter spec)"
begin

lemma pod_ports:
  "podPorts (RenderPodTemplate B R node adapter h) =
     adapterPorts adapter (ciSpec node) (rpcSecretName node) @ concat (map ctPorts (spSidecars (ciSpec node)))"
  by (subst RenderPodTemplate_containers) (simp add: mainContainer_simps adapterPorts_def)

text \<open>Only sidecars of the node's own specification can bring a port into conflict.\<close>

lemma pod_ports_distinct:
  "distinct (map portKey (podPorts (RenderPodTemplate B R node adapter h))) \<longleftrightarrow>
     distinct (map portKey (concat (map ctPorts (spSidecars (ciSpec node))))) \<and>
     portKey ` set (adapterPorts adapter (ciSpec node) (rpcSecretName node)) \<inter>
       portKey ` set (concat (map ctPorts (spSidecars (ciSpec node)))) = {}"
  using ports_distinct [of "ciSpec node" "rpcSecretName node"] by (auto simp: pod_ports)

lemma liveness_ok:
  "ctLiveness (mainContainer (RenderPodTemplate B R node adapter h)) = Some probe \<Longrightarrow>
     probe_served probe (ctPorts (mainContainer (RenderPodTemplate B R node adapter h)))"
  by (simp add: mainContainer_simps liveness_served)

text \<open>The PodMonitor selects its port by name; in this pod the name has one meaning.\<close>

lemma metrics_port_unique:
  assumes "adRPCCredentialed adapter = None" "adapterMetricsPort adapter spec = Some n"
    "p \<in> set (adapterPorts adapter spec secretName)" "cpName p = ''metrics''"
  shows "cpPort p = n"
proof -
  have ports: "adapterPorts adapter spec secretName = adapterPorts adapter spec []"
    using assms(1) by (simp add: adapterPorts_def adapterSidecars_def)
  from assms(1,2) obtain q where q: "find (\<lambda>p. cpName p = ''metrics'') (adapterPorts adapter spec []) = Some q" "cpPort q = n"
    by (auto simp: adapterMetricsPort_def adapterPorts_def adapterSidecars_def Let_def)
  then have "q \<in> set (adapterPorts adapter spec [])" "cpName q = ''metrics''"
    by (auto simp: find_Some_iff)
  moreover have "inj_on cpName (set (adapterPorts adapter spec []))"
    using names_distinct [of spec "[]"] by (simp add: distinct_map)
  ultimately show ?thesis using assms(3,4) q(2) ports by (metis inj_onD)
qed

end

text \<open>The ports of a pod include those of its main container.\<close>

sublocale pod_adapter \<subseteq> service: service_adapter adapter
proof
  fix spec and p :: ContainerPort
  show "distinct (map portKey (adContainerPorts adapter spec))" "distinct (map cpName (adContainerPorts adapter spec))"
    using ports_distinct [of spec "[]"] names_distinct [of spec "[]"] by (simp_all add: adapterPorts_def)
  show "p \<in> set (adContainerPorts adapter spec) \<Longrightarrow> cpName p \<noteq> [] \<and> length (cpName p) \<le> 15"
    using names_short [of p spec "[]"] by (simp add: adapterPorts_def)
qed

context pod_adapter
begin

lemmas is_service_adapter = service.service_adapter_axioms

end

end
