(* ===== verification/Default_Images.thy ===== *)
theory Default_Images
  imports Adapter
begin

text \<open>
  \<open>internal/adapters/versions_gen.go\<close> and \<open>default_images.go\<close>: the table of default images and
  its lookup. The table is written out in three parts, in the order of the source.
\<close>

definition chainDefaultImages1 :: "(Chain \<times> strmap) list" where
  "chainDefaultImages1 = [
     (ChainAbstract, [([], ''matterlabs/external-node:v29.17.0'')]),
     (ChainAptos, [([], ''aptoslabs/validator:aptos-node-v1.48.7-hotfix'')]),
     (ChainArbitrum, [([], ''offchainlabs/nitro-node:v3.11.4-7d5ac27'')]),
     (ChainAurora, [([], [])]),
     (ChainAvalanche, [([], ''avaplatform/avalanchego:v1.15.0'')]),
     (ChainAxelar, [([], ''axelarnet/axelar-core:v1.5.5'')]),
     (ChainBase, [([], ''ghcr.io/base/node:v1.4.2'')]),
     (ChainBerachain, [([], ''ghcr.io/berachain/beacon-kit:v1.4.1'')]),
     (ChainBitcoin, [([], ''lncm/bitcoind:v28.0'')]),
     (ChainBitTorrent, [([], [])]),
     (ChainBlast, [([], ''blastio/blast-geth:mainnet-v1.8.0'')]),
     (ChainBob, [([], ''us-docker.pkg.dev/oplabs-tools-artifacts/images/op-reth:v2.5.0''), (''op-node'', ''us-docker.pkg.dev/oplabs-tools-artifacts/images/op-node:v1.19.8'')]),
     (ChainBobaEth, [([], [])]),
     (ChainBSC, [([], ''ghcr.io/bnb-chain/bsc:1.7.8'')]),
     (ChainCardano, [([], ''ghcr.io/intersectmbo/cardano-node:11.1.3'')]),
     (ChainCelo, [([], [])]),
     (ChainCore, [([], ''ghcr.io/coredao-org/core-chain:1.0.26'')]),
     (ChainCosmos, [([], ''ghcr.io/cosmos/gaia:v28.3.1'')]),
     (ChainCronos, [([], [])]),
     (ChainCronosZkEVM, [([], ''ghcr.io/cronos-labs/external-node:v31.3.0'')]),
     (ChainDash, [([], ''dashpay/dashd:23.1.8'')]),
     (ChainDogecoin, [([], ''fiftysix/dogecoin-core:1.14.9'')]),
     (ChainDoma, [([], [])]),
     (ChainDymension, [([], ''ghcr.io/dymensionxyz/dymension:4.0.1'')]),
     (ChainEthereum, [([], ''nethermind/nethermind:2.0.0''), (''erigon'', ''erigontech/erigon:v2.61.3''), (''geth'', ''ethereum/client-go:v1.17.7''), (''nethermind'', ''nethermind/nethermind:2.0.0''), (''reth'', ''ghcr.io/paradigmxyz/reth:v1.11.4'')]),
     (ChainEthereumArchive, [([], ''nethermind/nethermind:2.0.0''), (''erigon'', ''erigontech/erigon:v2.61.3''), (''geth'', ''ethereum/client-go:v1.17.7''), (''nethermind'', ''nethermind/nethermind:2.0.0''), (''reth'', ''ghcr.io/paradigmxyz/reth:v1.11.4'')]),
     (ChainEthereumBeacon, [([], ''sigp/lighthouse:v8.2.3'')]),
     (ChainEthereumClassic, [([], ''etclabscore/core-geth:v1.12.23'')]),
     (ChainEverclear, [([], ''offchainlabs/nitro-node:v3.11.4-7d5ac27'')]),
     (ChainEvmos, [([], [])]),
     (ChainFantom, [([], [])]),
     (ChainFilecoin, [([], ''filecoin/lotus:v1.36.3'')]),
     (ChainFraxtal, [([], ''us-docker.pkg.dev/oplabs-tools-artifacts/images/op-reth:v2.5.0''), (''op-node'', ''us-docker.pkg.dev/oplabs-tools-artifacts/images/op-node:v1.19.8'')]),
     (ChainFuse, [([], ''fusenet/node:nethermind-v1.36.2'')]),
     (ChainGnosis, [([], ''nethermind/nethermind:1.39.3'')]),
     (ChainGnosisBeacon, [([], ''sigp/lighthouse:v8.2.3'')]),
     (ChainGoat, [([], ''ghcr.io/goatnetwork/goat-geth:v0.4.2'')]),
     (ChainGravityAlpha, [([], ''offchainlabs/nitro-node:v3.11.4-7d5ac27'')]),
     (ChainHaqq, [([], ''alhaqq/haqq:v1.9.5'')]),
     (ChainHarmony, [([], ''harmonyone/harmony:v2026.1.3'')]),
     (ChainHashKey, [([], ''us-docker.pkg.dev/oplabs-tools-artifacts/images/op-reth:v2.5.0''), (''op-node'', ''us-docker.pkg.dev/oplabs-tools-artifacts/images/op-node:v1.19.8'')]),
     (ChainHemi, [([], [])]),
     (ChainHyperliquid, [([], [])]),
     (ChainImmutableZkEVM, [([], ''ghcr.io/immutable/immutable-geth/immutable-geth:v1.0.0-beta.17'')]),
     (ChainInk, [([], ''us-docker.pkg.dev/oplabs-tools-artifacts/images/op-reth:v2.5.0''), (''op-node'', ''us-docker.pkg.dev/oplabs-tools-artifacts/images/op-node:v1.19.8'')])]"

definition chainDefaultImages2 :: "(Chain \<times> strmap) list" where
  "chainDefaultImages2 = [
     (ChainKatana, [([], [])]),
     (ChainKava, [([], ''kava/kava:v0.28.2-goleveldb'')]),
     (ChainKlaytn, [([], ''kaiachain/kaia:v2.2.2'')]),
     (ChainKroma, [([], [])]),
     (ChainKusama, [([], ''parity/polkadot:v1.24.2'')]),
     (ChainLens, [([], ''matterlabs/external-node:v29.17.0'')]),
     (ChainLinea, [([], [])]),
     (ChainLisk, [([], ''us-docker.pkg.dev/oplabs-tools-artifacts/images/op-reth:v2.5.0''), (''op-node'', ''us-docker.pkg.dev/oplabs-tools-artifacts/images/op-node:v1.19.8'')]),
     (ChainLitecoin, [([], ''uphold/litecoin-core:0.21'')]),
     (ChainMantaPacific, [([], [])]),
     (ChainMantle, [([], [])]),
     (ChainMegaETH, [([], [])]),
     (ChainMetis, [([], ''metisdao/l2geth:v0.3.9'')]),
     (ChainMezo, [([], ''mezo/mezod:v13.0.0'')]),
     (ChainMoca, [([], ''ghcr.io/mocachain/mocad:v1.4.1'')]),
     (ChainMode, [([], ''us-docker.pkg.dev/oplabs-tools-artifacts/images/op-reth:v2.5.0''), (''op-node'', ''us-docker.pkg.dev/oplabs-tools-artifacts/images/op-node:v1.19.8'')]),
     (ChainMonad, [([], [])]),
     (ChainMoonbeam, [([], ''moonbeamfoundation/moonbeam:v0.52.3'')]),
     (ChainMoonriver, [([], ''moonbeamfoundation/moonbeam:v0.52.3'')]),
     (ChainMorph, [([], ''ghcr.io/morph-l2/node:0.5.7'')]),
     (ChainNear, [([], ''nearprotocol/nearcore:2.13.4'')]),
     (ChainOpBNB, [([], ''ghcr.io/bnb-chain/op-geth:v0.5.11'')]),
     (ChainOptimism, [([], ''us-docker.pkg.dev/oplabs-tools-artifacts/images/op-reth:v2.5.0''), (''op-node'', ''us-docker.pkg.dev/oplabs-tools-artifacts/images/op-node:v1.19.8'')]),
     (ChainOsmosis, [([], ''osmolabs/osmosis:31.0.3'')]),
     (ChainPlasma, [([], ''ghcr.io/plasmalaboratories/plasma-consensus-public:0.15.0'')]),
     (ChainPlaynance, [([], ''offchainlabs/nitro-node:v3.11.4-7d5ac27'')]),
     (ChainPlume, [([], ''offchainlabs/nitro-node:v3.11.4-7d5ac27'')]),
     (ChainPolkadot, [([], ''parity/polkadot:v1.24.2'')]),
     (ChainPolygon, [([], ''0xpolygon/bor:2.10.1'')]),
     (ChainPolygonZkEVM, [([], ''ghcr.io/0xpolygon/cdk-erigon:v2.64.2'')]),
     (ChainRonin, [([], [])]),
     (ChainRootstock, [([], ''rsksmart/rskj:ARROWHEAD-6.5.1'')]),
     (ChainScroll, [([], ''scrolltech/l2geth:scroll-v5.10.10'')]),
     (ChainSei, [([], ''ghcr.io/sei-protocol/sei:v6.6.3'')]),
     (ChainShibarium, [([], [])]),
     (ChainSolana, [([], ''anzaxyz/agave:v3.1.14'')]),
     (ChainSoneium, [([], ''us-docker.pkg.dev/oplabs-tools-artifacts/images/op-reth:v2.5.0''), (''op-node'', ''us-docker.pkg.dev/oplabs-tools-artifacts/images/op-node:v1.19.8'')]),
     (ChainSonic, [([], [])]),
     (ChainStarknet, [([], ''nethermindeth/juno:v0.16.7'')]),
     (ChainStellar, [([], ''stellar/stellar-core:29.0.0-3589.4eb833373.noble'')]),
     (ChainSui, [([], ''mysten/sui-node:mainnet-v1.80.1'')]),
     (ChainSuperseed, [([], ''us-docker.pkg.dev/oplabs-tools-artifacts/images/op-reth:v2.5.0''), (''op-node'', ''us-docker.pkg.dev/oplabs-tools-artifacts/images/op-node:v1.19.8'')]),
     (ChainSwell, [([], [])]),
     (ChainTaiko, [([], ''us-docker.pkg.dev/evmchain/images/taiko-geth:v2.7.0'')]),
     (ChainTelos, [([], [])]),
     (ChainThundercore, [([], ''thundercore/thunder:r4.3.8'')]),
     (ChainTON, [([], ''ghcr.io/ton-blockchain/ton:v2026.08-amd64'')])]"

definition chainDefaultImages3 :: "(Chain \<times> strmap) list" where
  "chainDefaultImages3 = [
     (ChainTRON, [([], ''tronprotocol/java-tron:GreatVoyage-v4.8.2'')]),
     (ChainUnichain, [([], ''us-docker.pkg.dev/oplabs-tools-artifacts/images/op-reth:v2.5.0''), (''op-node'', ''us-docker.pkg.dev/oplabs-tools-artifacts/images/op-node:v1.19.8'')]),
     (ChainViction, [([], ''buildonviction/node:v2.6.1'')]),
     (ChainWemix, [([], [])]),
     (ChainWorldchain, [([], ''us-docker.pkg.dev/oplabs-tools-artifacts/images/op-reth:v2.5.0''), (''op-node'', ''us-docker.pkg.dev/oplabs-tools-artifacts/images/op-node:v1.19.8'')]),
     (ChainXRP, [([], ''xrpllabsofficial/xrpld:3.3.0'')]),
     (ChainZeroNetwork, [([], [])]),
     (ChainZircuit, [([], [])]),
     (ChainZkSync, [([], ''matterlabs/external-node:v29.17.0'')]),
     (ChainZora, [([], ''us-docker.pkg.dev/oplabs-tools-artifacts/images/op-reth:v2.5.0''), (''op-node'', ''us-docker.pkg.dev/oplabs-tools-artifacts/images/op-node:v1.19.8'')])]"

definition chainDefaultImages :: "(Chain \<times> strmap) list" where
  "chainDefaultImages = chainDefaultImages1 @ chainDefaultImages2 @ chainDefaultImages3"

definition DefaultImageFor :: "Chain \<Rightarrow> string \<Rightarrow> string" where
  "DefaultImageFor chain client = (case map_of chainDefaultImages chain of
     None \<Rightarrow> []
   | Some clients \<Rightarrow> (case map_of clients (ToLower client) of
       Some img \<Rightarrow> img | None \<Rightarrow> mget clients []))"

definition DefaultImages :: "Chain \<rightharpoonup> strmap" where
  "DefaultImages = map_of chainDefaultImages"

text \<open>
  The chain whose entry an adapter reads: its own, except that the archive node shares the
  adapter of Ethereum (\<open>ethereum.go\<close>).
\<close>

definition imageChain :: "Chain \<Rightarrow> Chain" where
  "imageChain chain = (if chain = ChainEthereumArchive then ChainEthereum else chain)"

lemma archive_images: "map_of chainDefaultImages ChainEthereumArchive = map_of chainDefaultImages ChainEthereum"
  by code_simp

text \<open>The table makes no difference between the two.\<close>

lemma DefaultImageFor_imageChain: "DefaultImageFor (imageChain chain) client = DefaultImageFor chain client"
  by (simp add: imageChain_def DefaultImageFor_def archive_images)

end
