(* ===== verification/Adapter_Base.thy ===== *)
theory Adapter_Base
  imports Default_Images
begin

text \<open>
  What the adapters of \<open>internal/adapters\<close> have in common. Go resolves a method of a chain's
  type to its own declaration or to the one of an embedded base; here the method set is the
  record \<open>protocolBase\<close> of a type that embeds \<open>protocolAdapter\<close>, and a chain updates the fields
  of the methods it declares. \<open>E\<close> is the HTTP environment of the health checks.
\<close>

text \<open>Lines of a raw string, each ended by a line feed.\<close>

definition unlines :: "string list \<Rightarrow> string" where
  "unlines ls = concat (map (\<lambda>l. l @ [CHR 0x0A]) ls)"

text \<open>The tag pattern of a plain \<open>vX.Y.Z\<close> release.\<close>

abbreviation (input) semverTag :: string where
  "semverTag \<equiv> ''^v'' @ [CHR 0x5C] @ ''d+'' @ [CHR 0x5C] @ ''.'' @ [CHR 0x5C] @ ''d+'' @ [CHR 0x5C] @ ''.'' @ [CHR 0x5C] @ ''d+$''"

definition resourceDefaults :: "int \<Rightarrow> int \<Rightarrow> int \<Rightarrow> ResourceDefaults" where
  "resourceDefaults cores memGi storageGi =
     \<lparr>rdCPURequest = cores * 1000, rdMemoryRequest = memGi * 2 ^ 30, rdStorage = storageGi * 2 ^ 30\<rparr>"

text \<open>
  A type that embeds \<open>protocolAdapter{livenessPort: port}\<close>, is registered for \<open>chain\<close>, reads its
  image from the table and checks its health as an EVM node; the optional interfaces are
  missing until a chain adds them.
\<close>

definition protocolBase :: "('w, 'x) rpc_env_scheme \<Rightarrow> Chain \<Rightarrow> int \<Rightarrow> 'w ChainAdapter" where
  "protocolBase E chain port = \<lparr>
     adDefaultImage = DefaultImageFor chain,
     adConfigTemplate = (\<lambda>_. Inr ([], [])),
     adHealthCheck = evmHealthCheck E,
     adLivenessProbe = (\<lambda>spec. Some (protocolAdapter_LivenessProbe \<lparr>paLivenessPort = port\<rparr> spec)),
     adNodeSelector = protocolAdapter_NodeSelector \<lparr>paLivenessPort = port\<rparr>,
     adContainerPorts = (\<lambda>_. []),
     adContainerArgs = None, adContainerCommand = None, adContainerEnv = None, adNodePorts = None,
     adStartupProbe = None, adInitContainers = None, adSidecars = None, adVersionPolicy = None,
     adDefaultResources = None, adClientVersionPolicies = None, adRPCCredentialed = None\<rparr>"

end
