(* ===== verification/Op_Reth.thy ===== *)
theory Op_Reth
  imports Adapter_Contract Adapter_Base
begin

text \<open>
  The OP Stack family of adapters: \<open>internal/adapters/op_reth_protocol_base.go\<close>,
  \<open>base_chain.go\<close> and the chains built on them. A type that embeds \<open>opRethProtocolAdapter\<close>
  is the record of methods \<open>opRethAdapter\<close> makes of it; Base overrides some of them.
  \<open>E\<close> is the HTTP environment the health check runs in.
\<close>

subsection \<open>Constants\<close>

definition opRethHTTPPort :: int where "opRethHTTPPort = 8545"
definition opRethWSPort :: int where "opRethWSPort = 8546"
definition opRethP2PPort :: int where "opRethP2PPort = 30303"
definition opRethMetricsPort :: int where "opRethMetricsPort = 9001"
definition opRethAuthPort :: int where "opRethAuthPort = 8551"
definition opNodeRPCPort :: int where "opNodeRPCPort = 9545"
definition opNodeP2PPort :: int where "opNodeP2PPort = 9222"
definition opNodeMetricsPort :: int where "opNodeMetricsPort = 7300"

definition opRethDataDir :: string where "opRethDataDir = ''/data/reth''"
definition opNodeDataDir :: string where "opNodeDataDir = ''/data/op-node''"
definition opRethJWTPath :: string where "opRethJWTPath = opRethDataDir @ ''/jwt.hex''"
definition opNodeClient :: string where "opNodeClient = ''op-node''"
definition defaultOpStackL1URL :: string where "defaultOpStackL1URL = ''http://ethereum:8545''"
definition defaultOpStackL1BeaconURL :: string where "defaultOpStackL1BeaconURL = ''http://ethereum-beacon:5052''"

lemmas op_ports = opRethHTTPPort_def opRethWSPort_def opRethP2PPort_def opRethMetricsPort_def opRethAuthPort_def
  opNodeRPCPort_def opNodeP2PPort_def opNodeMetricsPort_def
lemmas op_paths = opRethDataDir_def opNodeDataDir_def opRethJWTPath_def opNodeClient_def

subsection \<open>The shared base\<close>

record opRethProtocolAdapter = protocolAdapter +
  oaChain :: Chain
  oaRethChain :: string
  oaNodeNetwork :: string
  oaSequencerURL :: string

definition newOpRethProtocolAdapter :: "Chain \<Rightarrow> string \<Rightarrow> string \<Rightarrow> string \<Rightarrow> opRethProtocolAdapter" where
  "newOpRethProtocolAdapter chain rethChain nodeNetwork sequencerURL =
     \<lparr>paLivenessPort = opRethHTTPPort, oaChain = chain, oaRethChain = rethChain, oaNodeNetwork = nodeNetwork,
      oaSequencerURL = sequencerURL\<rparr>"

text \<open>
  \<open>strings.EqualFold\<close>, as used on \<open>"op-node"\<close>: no letter of it has a case variant outside ASCII.
\<close>

definition EqualFold :: "string \<Rightarrow> string \<Rightarrow> bool" where
  "EqualFold s t \<longleftrightarrow> ToLower s = ToLower t"

definition opReth_DefaultImage :: "opRethProtocolAdapter \<Rightarrow> string \<Rightarrow> string" where
  "opReth_DefaultImage b client =
     (let client = (if EqualFold client opNodeClient then [] else client)
      in DefaultImageFor (oaChain b) client)"

definition opReth_ContainerPorts :: "ContainerPort list" where
  "opReth_ContainerPorts = evmPorts opRethP2PPort @
     [tcpPort ''metrics'' opRethMetricsPort]"

definition rethNodeArgs :: "string \<Rightarrow> string \<Rightarrow> ChainInstanceSpec \<Rightarrow> string list" where
  "rethNodeArgs chain sequencerURL spec =
     [''node'',
      ''--chain'', chain,
      ''--datadir'', opRethDataDir,
      ''--http'', ''--http.addr'', ''0.0.0.0'', ''--http.port'', Itoa opRethHTTPPort,
      ''--http.api'', ''eth,net,web3,txpool,debug'', ''--http.corsdomain'', ''*'',
      ''--ws'', ''--ws.addr'', ''0.0.0.0'', ''--ws.port'', Itoa opRethWSPort,
      ''--ws.api'', ''eth,net,web3'', ''--ws.origins'', ''*'',
      ''--authrpc.addr'', ''127.0.0.1'', ''--authrpc.port'', Itoa opRethAuthPort,
      ''--port'', Itoa opRethP2PPort, ''--discovery.port'', Itoa opRethP2PPort,
      ''--metrics'', ''0.0.0.0:'' @ Itoa opRethMetricsPort,
      ''--rollup.sequencer'', sequencerURL]
     @ (if spNodeType spec \<noteq> NodeTypeArchive then [''--full''] else [])"

definition opReth_ContainerArgs :: "opRethProtocolAdapter \<Rightarrow> ChainInstanceSpec \<Rightarrow> string list" where
  "opReth_ContainerArgs b spec =
     rethNodeArgs (oaRethChain b) (oaSequencerURL b) spec @ [''--rollup.disable-tx-pool-gossip'']"

definition waitForEngineSecret :: "string \<Rightarrow> string \<Rightarrow> string list" where
  "waitForEngineSecret binary dataDir =
     [''sh'', ''-c'',
      ''until [ -s '' @ opRethJWTPath @ '' ]; do sleep 1; done'' @ [CHR 0x0A] @
      ''mkdir -p '' @ dataDir @ [CHR 0x0A] @
      ''exec '' @ binary @ '' '' @ [CHR 0x22] @ ''$@'' @ [CHR 0x22], ''--'']"

subsection \<open>L1 endpoints\<close>

text \<open>Value and source of a variable under another name.\<close>

fun env_as :: "string \<Rightarrow> EnvVar \<Rightarrow> EnvVar" where
  "env_as n (EnvValue _ v) = EnvValue n v"
| "env_as n (EnvSecret _ s k opt) = EnvSecret n s k opt"
| "env_as n (EnvOther _ src) = EnvOther n src"

text \<open>One round of the loop of \<open>l1Env\<close>.\<close>

definition l1Env_step ::
    "string \<Rightarrow> string \<Rightarrow> string \<Rightarrow> EnvVar \<times> EnvVar \<times> EnvVar list \<Rightarrow> EnvVar \<Rightarrow> EnvVar \<times> EnvVar \<times> EnvVar list" where
  "l1Env_step rpcName beaconName prefix acc e = (case acc of (l1, beacon, passthrough) \<Rightarrow>
     if envName e = ''L1_RPC_URL'' \<or> envName e = rpcName then (env_as rpcName e, beacon, passthrough)
     else if envName e = ''L1_BEACON_URL'' \<or> envName e = beaconName then (l1, env_as beaconName e, passthrough)
     else if HasPrefix (envName e) prefix then (l1, beacon, passthrough @ [e])
     else acc)"

definition l1Env :: "EnvVar list \<Rightarrow> string \<Rightarrow> string \<Rightarrow> string \<Rightarrow> EnvVar list" where
  "l1Env extra rpcName beaconName prefix =
     (case foldl (l1Env_step rpcName beaconName prefix)
             (EnvValue rpcName defaultOpStackL1URL, EnvValue beaconName defaultOpStackL1BeaconURL, []) extra of
        (l1, beacon, passthrough) \<Rightarrow> [l1, beacon] @ passthrough)"

subsection \<open>Sidecar, versions and the method set\<close>

definition opReth_Sidecars :: "opRethProtocolAdapter \<Rightarrow> ChainInstanceSpec \<Rightarrow> Container list" where
  "opReth_Sidecars b spec = [zero_container\<lparr>
     ctName := ''op-node'',
     ctImage := DefaultImageFor (oaChain b) opNodeClient,
     ctCommand := waitForEngineSecret ''op-node'' opNodeDataDir,
     ctArgs := [
       ''--network'', oaNodeNetwork b,
       ''--l2'', ''http://127.0.0.1:'' @ Itoa opRethAuthPort,
       ''--l2.jwt-secret'', opRethJWTPath,
       ''--l2.enginekind'', ''reth'',
       ''--syncmode'', ''execution-layer'',
       ''--rpc.addr'', ''0.0.0.0'', ''--rpc.port'', Itoa opNodeRPCPort,
       ''--metrics.enabled'', ''--metrics.addr'', ''0.0.0.0'', ''--metrics.port'', Itoa opNodeMetricsPort,
       ''--p2p.listen.tcp'', Itoa opNodeP2PPort, ''--p2p.listen.udp'', Itoa opNodeP2PPort,
       ''--p2p.priv.path'', opNodeDataDir @ ''/p2p_priv.txt'',
       ''--p2p.peerstore.path'', opNodeDataDir @ ''/peerstore'',
       ''--p2p.discovery.path'', opNodeDataDir @ ''/discovery'',
       ''--safedb.path'', opNodeDataDir @ ''/safedb''],
     ctEnv := l1Env (spExtraEnv spec) ''OP_NODE_L1_ETH_RPC'' ''OP_NODE_L1_BEACON'' ''OP_NODE_'',
     ctPorts := [tcpPort ''opnode-rpc'' opNodeRPCPort, tcpPort ''opnode-p2p-tcp'' opNodeP2PPort,
                 udpPort ''opnode-p2p-udp'' opNodeP2PPort,
                 tcpPort ''opnode-metrics'' opNodeMetricsPort],
     ctMounts := [dataMount]\<rparr>]"

definition opReth_VersionPolicy :: ChainVersionPolicy where
  "opReth_VersionPolicy = \<lparr>vpRegistry = ''us-docker.pkg.dev'',
     vpRepository = ''oplabs-tools-artifacts/images/op-reth'', vpTagPattern = semverTag, vpTagPrefix = []\<rparr>"

definition opReth_ClientVersionPolicies :: "(string \<times> ChainVersionPolicy) list" where
  "opReth_ClientVersionPolicies = [(opNodeClient, \<lparr>vpRegistry = ''us-docker.pkg.dev'',
     vpRepository = ''oplabs-tools-artifacts/images/op-node'', vpTagPattern = semverTag, vpTagPrefix = []\<rparr>)]"

definition opRethAdapter :: "('w, 'x) rpc_env_scheme \<Rightarrow> opRethProtocolAdapter \<Rightarrow> ResourceDefaults \<Rightarrow> 'w ChainAdapter" where
  "opRethAdapter E b resources = \<lparr>
     adDefaultImage = opReth_DefaultImage b,
     adConfigTemplate = (\<lambda>_. Inr ([], [])),
     adHealthCheck = evmHealthCheck E,
     adLivenessProbe = (\<lambda>spec. Some (protocolAdapter_LivenessProbe (protocolAdapter.truncate b) spec)),
     adNodeSelector = protocolAdapter_NodeSelector (protocolAdapter.truncate b),
     adContainerPorts = (\<lambda>_. opReth_ContainerPorts),
     adContainerArgs = Some (opReth_ContainerArgs b),
     adContainerCommand = None, adContainerEnv = None, adNodePorts = None, adStartupProbe = None,
     adInitContainers = None,
     adSidecars = Some (opReth_Sidecars b),
     adVersionPolicy = Some opReth_VersionPolicy,
     adDefaultResources = Some resources,
     adClientVersionPolicies = Some opReth_ClientVersionPolicies,
     adRPCCredentialed = None\<rparr>"

subsection \<open>Base\<close>

definition baseSequencerURL :: string where "baseSequencerURL = ''https://mainnet-sequencer.base.org''"
definition baseConsensusDataDir :: string where "baseConsensusDataDir = ''/data/base-consensus''"

definition baseProtocol :: opRethProtocolAdapter where
  "baseProtocol = newOpRethProtocolAdapter ChainBase ''base'' [] baseSequencerURL"

definition base_mainImage :: "ChainInstanceSpec \<Rightarrow> string" where
  "base_mainImage spec = (case spImage spec of
     Some im \<Rightarrow> if imRepository im \<noteq> [] then imRepository im @ '':'' @ imTag im
                else opReth_DefaultImage baseProtocol (spClient spec)
   | None \<Rightarrow> opReth_DefaultImage baseProtocol (spClient spec))"

definition base_Sidecars :: "ChainInstanceSpec \<Rightarrow> Container list" where
  "base_Sidecars spec = [zero_container\<lparr>
     ctName := ''base-consensus'',
     ctImage := base_mainImage spec,
     ctCommand := waitForEngineSecret ''/app/base-consensus'' baseConsensusDataDir,
     ctArgs := [
       ''node'',
       ''--chain'', ''8453'',
       ''--l2-engine-rpc'', ''http://127.0.0.1:'' @ Itoa opRethAuthPort,
       ''--l2-engine-jwt-secret'', opRethJWTPath,
       ''--rpc.addr'', ''0.0.0.0'', ''--port'', Itoa opNodeRPCPort,
       ''--metrics.enabled'', ''--metrics.addr'', ''0.0.0.0'', ''--metrics.port'', Itoa opNodeMetricsPort,
       ''--p2p.listen.tcp'', Itoa opNodeP2PPort, ''--p2p.listen.udp'', Itoa opNodeP2PPort,
       ''--p2p.priv.path'', baseConsensusDataDir @ ''/p2p_priv.txt'',
       ''--p2p.bootstore'', baseConsensusDataDir @ ''/bootstore''],
     ctEnv := l1Env (spExtraEnv spec) ''BASE_NODE_L1_ETH_RPC'' ''BASE_NODE_L1_BEACON'' ''BASE_NODE_'',
     ctPorts := [tcpPort ''cl-rpc'' opNodeRPCPort, tcpPort ''cl-p2p-tcp'' opNodeP2PPort,
                 udpPort ''cl-p2p-udp'' opNodeP2PPort,
                 tcpPort ''cl-metrics'' opNodeMetricsPort],
     ctMounts := [dataMount]\<rparr>]"

definition base_ContainerCommand :: "ChainInstanceSpec \<Rightarrow> string list" where
  "base_ContainerCommand spec = [''/app/base-reth-node'']"

definition base_ContainerArgs :: "ChainInstanceSpec \<Rightarrow> string list" where
  "base_ContainerArgs spec = rethNodeArgs (oaRethChain baseProtocol) (oaSequencerURL baseProtocol) spec"

definition base_DefaultResources :: ResourceDefaults where
  "base_DefaultResources = resourceDefaults 4 16 2048"

definition base_VersionPolicy :: ChainVersionPolicy where
  "base_VersionPolicy =
     \<lparr>vpRegistry = ''ghcr.io'', vpRepository = ''base/node'', vpTagPattern = semverTag, vpTagPrefix = []\<rparr>"

definition base_ClientVersionPolicies :: "(string \<times> ChainVersionPolicy) list" where
  "base_ClientVersionPolicies = []"

definition baseChainAdapter :: "('w, 'x) rpc_env_scheme \<Rightarrow> 'w ChainAdapter" where
  "baseChainAdapter E = (opRethAdapter E baseProtocol base_DefaultResources)\<lparr>
     adContainerCommand := Some base_ContainerCommand,
     adContainerArgs := Some base_ContainerArgs,
     adSidecars := Some base_Sidecars,
     adVersionPolicy := Some base_VersionPolicy,
     adClientVersionPolicies := Some base_ClientVersionPolicies\<rparr>"

subsection \<open>The other chains\<close>

definition bobAdapter :: "('w, 'x) rpc_env_scheme \<Rightarrow> 'w ChainAdapter" where
  "bobAdapter E = opRethAdapter E
     (newOpRethProtocolAdapter ChainBob ''bob'' ''bob-mainnet'' ''https://rpc.gobob.xyz'')
     (resourceDefaults 2 4 200)"

definition fraxtalAdapter :: "('w, 'x) rpc_env_scheme \<Rightarrow> 'w ChainAdapter" where
  "fraxtalAdapter E = opRethAdapter E
     (newOpRethProtocolAdapter ChainFraxtal ''fraxtal'' ''fraxtal-mainnet'' ''https://rpc.frax.com'')
     (resourceDefaults 4 8 300)"

definition hashkeyAdapter :: "('w, 'x) rpc_env_scheme \<Rightarrow> 'w ChainAdapter" where
  "hashkeyAdapter E = opRethAdapter E
     (newOpRethProtocolAdapter ChainHashKey ''hashkeychain'' ''hashkeychain-mainnet'' ''https://hashkeychain-mainnet.alt.technology'')
     (resourceDefaults 2 4 200)"

definition inkAdapter :: "('w, 'x) rpc_env_scheme \<Rightarrow> 'w ChainAdapter" where
  "inkAdapter E = opRethAdapter E
     (newOpRethProtocolAdapter ChainInk ''ink'' ''ink-mainnet'' ''https://rpc-gel.inkonchain.com'')
     (resourceDefaults 2 4 100)"

definition liskAdapter :: "('w, 'x) rpc_env_scheme \<Rightarrow> 'w ChainAdapter" where
  "liskAdapter E = opRethAdapter E
     (newOpRethProtocolAdapter ChainLisk ''lisk'' ''lisk-mainnet'' ''https://rpc.api.lisk.com'')
     (resourceDefaults 2 4 200)"

definition modeAdapter :: "('w, 'x) rpc_env_scheme \<Rightarrow> 'w ChainAdapter" where
  "modeAdapter E = opRethAdapter E
     (newOpRethProtocolAdapter ChainMode ''mode'' ''mode-mainnet'' ''https://mainnet-sequencer.mode.network'')
     (resourceDefaults 4 8 500)"

definition optimismAdapter :: "('w, 'x) rpc_env_scheme \<Rightarrow> 'w ChainAdapter" where
  "optimismAdapter E = opRethAdapter E
     (newOpRethProtocolAdapter ChainOptimism ''optimism'' ''op-mainnet'' ''https://mainnet-sequencer.optimism.io'')
     (resourceDefaults 4 16 1024)"

definition soneiumAdapter :: "('w, 'x) rpc_env_scheme \<Rightarrow> 'w ChainAdapter" where
  "soneiumAdapter E = opRethAdapter E
     (newOpRethProtocolAdapter ChainSoneium ''soneium'' ''soneium-mainnet'' ''https://rpc.soneium.org'')
     (resourceDefaults 2 4 200)"

definition superseedAdapter :: "('w, 'x) rpc_env_scheme \<Rightarrow> 'w ChainAdapter" where
  "superseedAdapter E = opRethAdapter E
     (newOpRethProtocolAdapter ChainSuperseed ''sseed'' ''sseed-mainnet'' ''https://mainnet.superseed.xyz'')
     (resourceDefaults 2 4 100)"

definition unichainAdapter :: "('w, 'x) rpc_env_scheme \<Rightarrow> 'w ChainAdapter" where
  "unichainAdapter E = opRethAdapter E
     (newOpRethProtocolAdapter ChainUnichain ''unichain'' ''unichain-mainnet'' ''https://mainnet-sequencer.unichain.org'')
     (resourceDefaults 2 4 200)"

definition worldchainAdapter :: "('w, 'x) rpc_env_scheme \<Rightarrow> 'w ChainAdapter" where
  "worldchainAdapter E = opRethAdapter E
     (newOpRethProtocolAdapter ChainWorldchain ''worldchain'' ''worldchain-mainnet'' ''https://worldchain-mainnet-sequencer.g.alchemy.com'')
     (resourceDefaults 2 4 200)"

definition zoraAdapter :: "('w, 'x) rpc_env_scheme \<Rightarrow> 'w ChainAdapter" where
  "zoraAdapter E = opRethAdapter E
     (newOpRethProtocolAdapter ChainZora ''zora'' ''zora-mainnet'' ''https://rpc.zora.energy'')
     (resourceDefaults 4 8 500)"

text \<open>What their \<open>init\<close> functions register, in the order of the files.\<close>

definition opStackAdapters :: "('w, 'x) rpc_env_scheme \<Rightarrow> 'w registry" where
  "opStackAdapters E = foldl (\<lambda>registry (chain, adapter). Register chain adapter registry) [] [
     (ChainBase, baseChainAdapter E),
     (ChainBob, bobAdapter E),
     (ChainFraxtal, fraxtalAdapter E),
     (ChainHashKey, hashkeyAdapter E),
     (ChainInk, inkAdapter E),
     (ChainLisk, liskAdapter E),
     (ChainMode, modeAdapter E),
     (ChainOptimism, optimismAdapter E),
     (ChainSoneium, soneiumAdapter E),
     (ChainSuperseed, superseedAdapter E),
     (ChainUnichain, unichainAdapter E),
     (ChainWorldchain, worldchainAdapter E),
     (ChainZora, zoraAdapter E)]"

subsection \<open>Consistency of the pod\<close>

lemmas op_adapter_defs = opRethAdapter_def newOpRethProtocolAdapter_def protocolAdapter_LivenessProbe_def
  tcpProbe_def protocolAdapter.defs

lemma op_sidecar_ports:
  "adapterPorts (opRethAdapter E b res) spec secretName = opReth_ContainerPorts @
     [tcpPort ''opnode-rpc'' 9545, tcpPort ''opnode-p2p-tcp'' 9222,
      udpPort ''opnode-p2p-udp'' 9222, tcpPort ''opnode-metrics'' 7300]"
  "adapterPorts (baseChainAdapter E) spec secretName = opReth_ContainerPorts @
     [tcpPort ''cl-rpc'' 9545, tcpPort ''cl-p2p-tcp'' 9222,
      udpPort ''cl-p2p-udp'' 9222, tcpPort ''cl-metrics'' 7300]"
  by (simp_all add: adapterPorts_def adapterSidecars_def opRethAdapter_def baseChainAdapter_def opReth_Sidecars_def
      base_Sidecars_def op_ports)

lemma op_selectors:
  "adContainerPorts (opRethAdapter E b res) spec = opReth_ContainerPorts"
  "adContainerPorts (baseChainAdapter E) spec = opReth_ContainerPorts"
  "adLivenessProbe (opRethAdapter E (newOpRethProtocolAdapter chain rethChain network url) res) spec =
     Some (tcpProbe 8545 30 30 10 5)"
  "adLivenessProbe (baseChainAdapter E) spec = Some (tcpProbe 8545 30 30 10 5)"
  by (simp_all add: op_adapter_defs baseChainAdapter_def baseProtocol_def op_ports)

lemmas op_port_list = opReth_ContainerPorts_def evmPorts_def op_ports

interpretation op_pod: pod_adapter "opRethAdapter E (newOpRethProtocolAdapter chain rethChain network url) res"
  for E :: "('w, 'x) rpc_env_scheme" and chain rethChain network url res
  by unfold_locales (auto simp: op_sidecar_ports op_selectors op_port_list tcpProbe_def probe_served_def)

interpretation base_pod: pod_adapter "baseChainAdapter E" for E :: "('w, 'x) rpc_env_scheme"
  by unfold_locales (auto simp: op_sidecar_ports op_selectors op_port_list tcpProbe_def probe_served_def)

subsection \<open>Settings of the sidecar\<close>

text \<open>The value after the last occurrence of a flag on a command line.\<close>

fun flag :: "string \<Rightarrow> string list \<Rightarrow> string option" where
  "flag f (x # y # xs) = (case flag f (y # xs) of Some v \<Rightarrow> Some v | None \<Rightarrow> if x = f then Some y else None)"
| "flag f _ = None"

lemma flag_absent: "f \<notin> set xs \<Longrightarrow> flag f xs = None"
  by (induction f xs rule: flag.induct) auto

lemma flag_append: "f \<notin> set ys \<Longrightarrow> xs = [] \<or> last xs \<noteq> f \<Longrightarrow> flag f (xs @ ys) = flag f xs"
proof (induction xs)
  case (Cons x xs)
  then show ?case by (cases xs; cases ys) (auto simp: flag_absent)
qed (simp add: flag_absent)

text \<open>Extra arguments that leave the directory and the engine API of the execution client alone.\<close>

definition keeps_engine :: "string list \<Rightarrow> bool" where
  "keeps_engine xs = list_all (\<lambda>a. \<not> HasPrefix a ''--datadir'' \<and> \<not> HasPrefix a ''--authrpc.'') xs"

lemma keeps_engine_absent:
  assumes "keeps_engine xs"
  shows "''--datadir'' \<notin> set xs" "''--authrpc.port'' \<notin> set xs" "''--authrpc.jwtsecret'' \<notin> set xs"
proof -
  have "HasPrefix ''--datadir'' ''--datadir''" "HasPrefix ''--authrpc.port'' ''--authrpc.''" "HasPrefix ''--authrpc.jwtsecret'' ''--authrpc.''"
    by simp_all
  with assms show "''--datadir'' \<notin> set xs" "''--authrpc.port'' \<notin> set xs" "''--authrpc.jwtsecret'' \<notin> set xs"
    unfolding keeps_engine_def list_all_iff by blast+
qed

text \<open>The setting an operator gave last, or the default.\<close>

definition lastSetting :: "string set \<Rightarrow> EnvVar \<Rightarrow> EnvVar list \<Rightarrow> EnvVar" where
  "lastSetting names d extra =
     (let es = filter (\<lambda>e. envName e \<in> names) extra in if es = [] then d else last es)"

definition l1Env_reference :: "EnvVar list \<Rightarrow> string \<Rightarrow> string \<Rightarrow> string \<Rightarrow> EnvVar list" where
  "l1Env_reference extra rpcName beaconName prefix =
     [env_as rpcName (lastSetting {''L1_RPC_URL'', rpcName} (EnvValue rpcName defaultOpStackL1URL) extra),
      env_as beaconName (lastSetting {''L1_BEACON_URL'', beaconName} (EnvValue beaconName defaultOpStackL1BeaconURL) extra)]
     @ filter (\<lambda>e. HasPrefix (envName e) prefix \<and>
         envName e \<notin> {''L1_RPC_URL'', rpcName, ''L1_BEACON_URL'', beaconName}) extra"

lemma lastSetting_snoc:
  "lastSetting names d (extra @ [e]) = (if envName e \<in> names then e else lastSetting names d extra)"
  by (simp add: lastSetting_def)

lemma lastSetting_Nil [simp]: "lastSetting names d [] = d"
  by (simp add: lastSetting_def)

lemma l1Env_fold:
  assumes "{''L1_RPC_URL'', rpcName} \<inter> {''L1_BEACON_URL'', beaconName} = {}"
  shows "foldl (l1Env_step rpcName beaconName prefix)
      (EnvValue rpcName defaultOpStackL1URL, EnvValue beaconName defaultOpStackL1BeaconURL, []) extra =
    (env_as rpcName (lastSetting {''L1_RPC_URL'', rpcName} (EnvValue rpcName defaultOpStackL1URL) extra),
     env_as beaconName (lastSetting {''L1_BEACON_URL'', beaconName} (EnvValue beaconName defaultOpStackL1BeaconURL) extra),
     filter (\<lambda>e. HasPrefix (envName e) prefix \<and> envName e \<notin> {''L1_RPC_URL'', rpcName, ''L1_BEACON_URL'', beaconName}) extra)"
  using assms by (induction extra rule: rev_induct) (auto simp: l1Env_step_def lastSetting_snoc)

lemma l1Env_eq_reference:
  "{''L1_RPC_URL'', rpcName} \<inter> {''L1_BEACON_URL'', beaconName} = {} \<Longrightarrow>
     l1Env extra rpcName beaconName prefix = l1Env_reference extra rpcName beaconName prefix"
  by (simp only: l1Env_def l1Env_fold l1Env_reference_def prod.case)

text \<open>
  C40: The consensus client is configured as documented: its L1 endpoints are the last of the
  settings under the chain-neutral and the client's own name, whichever it is, the in-cluster
  default where there is none, taken from a Secret where the operator says so; every other
  variable with the client's prefix is passed on in order, and nothing else is.
\<close>

theorem sidecar_environment:
  "map ctEnv (opReth_Sidecars b spec) =
     [l1Env_reference (spExtraEnv spec) ''OP_NODE_L1_ETH_RPC'' ''OP_NODE_L1_BEACON'' ''OP_NODE_''] \<and>
   map ctEnv (base_Sidecars spec) =
     [l1Env_reference (spExtraEnv spec) ''BASE_NODE_L1_ETH_RPC'' ''BASE_NODE_L1_BEACON'' ''BASE_NODE_'']"
  by (simp add: opReth_Sidecars_def base_Sidecars_def l1Env_eq_reference)

subsection \<open>The registered chains\<close>

definition opStackChains :: "Chain list" where
  "opStackChains = [ChainBase, ChainBob, ChainFraxtal, ChainHashKey, ChainInk, ChainLisk, ChainMode, ChainOptimism,
     ChainSoneium, ChainSuperseed, ChainUnichain, ChainWorldchain, ChainZora]"

lemmas opStack_adapter_defs = bobAdapter_def fraxtalAdapter_def hashkeyAdapter_def inkAdapter_def liskAdapter_def
  modeAdapter_def optimismAdapter_def soneiumAdapter_def superseedAdapter_def unichainAdapter_def
  worldchainAdapter_def zoraAdapter_def

lemma opStackAdapters_list:
  "opStackAdapters E = [
     (ChainBase, baseChainAdapter E), (ChainBob, bobAdapter E), (ChainFraxtal, fraxtalAdapter E),
     (ChainHashKey, hashkeyAdapter E), (ChainInk, inkAdapter E), (ChainLisk, liskAdapter E), (ChainMode, modeAdapter E),
     (ChainOptimism, optimismAdapter E), (ChainSoneium, soneiumAdapter E), (ChainSuperseed, superseedAdapter E),
     (ChainUnichain, unichainAdapter E), (ChainWorldchain, worldchainAdapter E), (ChainZora, zoraAdapter E)]"
  by (simp add: opStackAdapters_def Register_def)

lemma opStack_chains: "map fst (opStackAdapters E) = opStackChains"
  by (simp add: opStackAdapters_list opStackChains_def)

text \<open>An adapter of \<open>opRethProtocolAdapter\<close> whose names are no flags.\<close>

definition plain_op_adapter :: "('w, 'x) rpc_env_scheme \<Rightarrow> Chain \<Rightarrow> 'w ChainAdapter \<Rightarrow> bool" where
  "plain_op_adapter E chain adapter \<longleftrightarrow> (\<exists>rethChain network url res.
     \<not> HasPrefix rethChain ''--'' \<and> \<not> HasPrefix network ''--'' \<and> \<not> HasPrefix url ''--'' \<and>
     adapter = opRethAdapter E (newOpRethProtocolAdapter chain rethChain network url) res)"

lemma plain_op_adapterI:
  "\<not> HasPrefix rethChain ''--'' \<Longrightarrow> \<not> HasPrefix network ''--'' \<Longrightarrow> \<not> HasPrefix url ''--'' \<Longrightarrow>
     plain_op_adapter E chain (opRethAdapter E (newOpRethProtocolAdapter chain rethChain network url) res)"
  unfolding plain_op_adapter_def by blast

lemma opStack_plain:
  "(chain, adapter) \<in> set (tl (opStackAdapters E)) \<Longrightarrow> chain \<noteq> ChainBase \<and> plain_op_adapter E chain adapter"
  unfolding opStackAdapters_list opStack_adapter_defs by (auto intro!: plain_op_adapterI)

lemma opStack_cases:
  assumes "(chain, adapter) \<in> set (opStackAdapters E)"
  obtains (base) "chain = ChainBase" "adapter = baseChainAdapter E"
  | (op) rethChain network url res where "chain \<noteq> ChainBase" "\<not> HasPrefix rethChain ''--''" "\<not> HasPrefix network ''--''" "\<not> HasPrefix url ''--''"
      "adapter = opRethAdapter E (newOpRethProtocolAdapter chain rethChain network url) res"
proof (cases "(chain, adapter) = (ChainBase, baseChainAdapter E)")
  case False
  moreover have "opStackAdapters E = (ChainBase, baseChainAdapter E) # tl (opStackAdapters E)"
    by (simp add: opStackAdapters_list)
  ultimately have "(chain, adapter) \<in> set (tl (opStackAdapters E))" using assms by (metis set_ConsD)
  then show thesis using opStack_plain op unfolding plain_op_adapter_def by blast
qed (use base in simp)

lemma opStack_Get: "Get (opStackAdapters E) chain = Some adapter \<Longrightarrow> (chain, adapter) \<in> set (opStackAdapters E)"
  by (auto simp: Get_def dest: map_of_SomeD)

lemma op_itoa:
  "Itoa opRethHTTPPort = ''8545''" "Itoa opRethWSPort = ''8546''" "Itoa opRethAuthPort = ''8551''" "Itoa opRethP2PPort = ''30303''"
  "Itoa opRethMetricsPort = ''9001''" "Itoa opNodeRPCPort = ''9545''" "Itoa opNodeP2PPort = ''9222''" "Itoa opNodeMetricsPort = ''7300''"
  by (simp_all add: Itoa_def op_ports nat_digits.simps go_simps)

lemma main_flags:
  assumes "\<not> HasPrefix chain ''--''" "\<not> HasPrefix url ''--''" "keeps_engine xs"
  shows "flag ''--datadir'' (rethNodeArgs chain url spec @ xs) = Some opRethDataDir"
    "flag ''--authrpc.port'' (rethNodeArgs chain url spec @ xs) = Some (Itoa opRethAuthPort)"
    "flag ''--authrpc.jwtsecret'' (rethNodeArgs chain url spec @ xs) = None"
proof -
  note absent = keeps_engine_absent [OF assms(3)]
  have differs: "v \<noteq> chain" "v \<noteq> url" if "HasPrefix v ''--''" for v using that assms(1,2) by auto
  have plain: "''--datadir'' \<noteq> chain" "''--datadir'' \<noteq> url" "''--authrpc.port'' \<noteq> chain" "''--authrpc.port'' \<noteq> url"
    "''--authrpc.jwtsecret'' \<noteq> chain" "''--authrpc.jwtsecret'' \<noteq> url" by (rule differs, simp)+
  have last: "rethNodeArgs chain url spec = [] \<or> last (rethNodeArgs chain url spec) \<noteq> f" if "f \<noteq> url" "f \<noteq> ''--full''" for f
    using that by (auto simp: rethNodeArgs_def)
  show "flag ''--datadir'' (rethNodeArgs chain url spec @ xs) = Some opRethDataDir"
    by (subst flag_append [OF absent(1) last]) (use plain in \<open>auto simp: rethNodeArgs_def op_paths op_itoa\<close>)
  show "flag ''--authrpc.port'' (rethNodeArgs chain url spec @ xs) = Some (Itoa opRethAuthPort)"
    by (subst flag_append [OF absent(2) last]) (use plain in \<open>auto simp: rethNodeArgs_def op_paths op_itoa\<close>)
  have "''--authrpc.jwtsecret'' \<notin> set (rethNodeArgs chain url spec)"
    using plain by (auto simp: rethNodeArgs_def op_paths op_itoa)
  with absent(3) show "flag ''--authrpc.jwtsecret'' (rethNodeArgs chain url spec @ xs) = None" by (intro flag_absent) auto
qed

text \<open>The flags of the consensus client for the address and the secret of the engine API.\<close>

definition engineFlags :: "Chain \<Rightarrow> string \<times> string" where
  "engineFlags chain =
     (if chain = ChainBase then (''--l2-engine-rpc'', ''--l2-engine-jwt-secret'') else (''--l2'', ''--l2.jwt-secret''))"

text \<open>
  Main container and consensus client agree on the engine API. Without \<open>--authrpc.jwtsecret\<close> the
  execution client writes the secret to \<open>jwt.hex\<close> in its data directory.
\<close>

definition engine_wired :: "Chain \<Rightarrow> Container \<Rightarrow> Container \<Rightarrow> bool" where
  "engine_wired chain main consensus \<longleftrightarrow>
     (case (flag ''--datadir'' (ctArgs main), flag ''--authrpc.port'' (ctArgs main)) of
        (Some dir, Some port) \<Rightarrow>
          flag ''--authrpc.jwtsecret'' (ctArgs main) = None \<and>
          flag (snd (engineFlags chain)) (ctArgs consensus) = Some (dir @ ''/jwt.hex'') \<and>
          flag (fst (engineFlags chain)) (ctArgs consensus) = Some (''http://127.0.0.1:'' @ port) \<and>
          dataMount \<in> set (ctMounts main) \<and> dataMount \<in> set (ctMounts consensus) \<and> HasPrefix dir (vmMountPath dataMount)
      | _ \<Rightarrow> False)"

lemma engine_wired_main:
  assumes "ctArgs main = rethNodeArgs rethChain url spec @ xs" "\<not> HasPrefix rethChain ''--''" "\<not> HasPrefix url ''--''" "keeps_engine xs" "dataMount \<in> set (ctMounts main)"
    "flag (snd (engineFlags chain)) (ctArgs consensus) = Some opRethJWTPath"
    "flag (fst (engineFlags chain)) (ctArgs consensus) = Some (''http://127.0.0.1:'' @ Itoa opRethAuthPort)"
    "dataMount \<in> set (ctMounts consensus)"
  shows "engine_wired chain main consensus"
  using assms by (simp add: engine_wired_def main_flags op_paths)

lemma base_engine_flags:
  "flag ''--l2-engine-jwt-secret'' (ctArgs (hd (base_Sidecars spec))) = Some opRethJWTPath"
  "flag ''--l2-engine-rpc'' (ctArgs (hd (base_Sidecars spec))) = Some (''http://127.0.0.1:'' @ Itoa opRethAuthPort)"
  "dataMount \<in> set (ctMounts (hd (base_Sidecars spec)))"
  by (simp_all add: base_Sidecars_def op_itoa op_paths baseConsensusDataDir_def)

lemma op_engine_flags:
  assumes "\<not> HasPrefix (oaNodeNetwork b) ''--''"
  shows "flag ''--l2.jwt-secret'' (ctArgs (hd (opReth_Sidecars b spec))) = Some opRethJWTPath"
    "flag ''--l2'' (ctArgs (hd (opReth_Sidecars b spec))) = Some (''http://127.0.0.1:'' @ Itoa opRethAuthPort)"
    "dataMount \<in> set (ctMounts (hd (opReth_Sidecars b spec)))"
  using assms by (simp_all add: opReth_Sidecars_def op_itoa op_paths)

lemma op_main_args:
  "containerArgs (opRethAdapter E b res) node =
     rethNodeArgs (oaRethChain b) (oaSequencerURL b) (ciSpec node) @ ''--rollup.disable-tx-pool-gossip'' # spExtraArgs (ciSpec node)"
  "containerArgs (baseChainAdapter E) node =
     rethNodeArgs ''base'' baseSequencerURL (ciSpec node) @ spExtraArgs (ciSpec node)"
  by (simp_all add: containerArgs_def opRethAdapter_def opReth_ContainerArgs_def baseChainAdapter_def base_ContainerArgs_def baseProtocol_def
      newOpRethProtocolAdapter_def)

lemma op_sidecars:
  "adapterSidecars (opRethAdapter E b res) spec secretName = opReth_Sidecars b spec"
  "adapterSidecars (baseChainAdapter E) spec secretName = base_Sidecars spec"
  by (simp_all add: adapterSidecars_def opRethAdapter_def baseChainAdapter_def)

text \<open>
  A pod of an execution client, a consensus client and the node's own sidecars in which the
  first two fit together.
\<close>

definition wired_pod :: "Chain \<Rightarrow> Container list \<Rightarrow> PodTemplateSpec \<Rightarrow> bool" where
  "wired_pod chain own tmpl \<longleftrightarrow> (case psContainers (ptSpec tmpl) of
     main # consensus # others \<Rightarrow>
       others = own \<and>
       distinct (map portKey (ctPorts main @ ctPorts consensus)) \<and>
       distinct (map cpName (ctPorts main @ ctPorts consensus)) \<and>
       list_all (\<lambda>p. cpName p \<noteq> [] \<and> length (cpName p) \<le> 15) (ctPorts main @ ctPorts consensus) \<and>
       (case ctLiveness main of None \<Rightarrow> False | Some probe \<Rightarrow> probe_served probe (ctPorts main)) \<and>
       engine_wired chain main consensus
   | _ \<Rightarrow> False)"

lemma wired_podI:
  assumes "pod_adapter adapter" "adapterSidecars adapter (ciSpec node) (rpcSecretName node) = [consensus]"
    and "adLivenessProbe adapter (ciSpec node) = Some probe"
    and "engine_wired chain (mainContainer (RenderPodTemplate B R node adapter h)) consensus"
  shows "wired_pod chain (spSidecars (ciSpec node)) (RenderPodTemplate B R node adapter h)"
proof -
  let ?tmpl = "RenderPodTemplate B R node adapter h"
  have containers: "psContainers (ptSpec ?tmpl) = mainContainer ?tmpl # consensus # spSidecars (ciSpec node)"
    using assms(2) by (subst RenderPodTemplate_containers) simp
  have ports: "adapterPorts adapter (ciSpec node) (rpcSecretName node) = ctPorts (mainContainer ?tmpl) @ ctPorts consensus"
    by (simp add: adapterPorts_def assms(2) mainContainer_simps)
  note laws = pod_adapter.ports_distinct [OF assms(1), of "ciSpec node" "rpcSecretName node"]
    pod_adapter.names_distinct [OF assms(1), of "ciSpec node" "rpcSecretName node"]
    pod_adapter.names_short [OF assms(1), of _ "ciSpec node" "rpcSecretName node"]
  have live: "ctLiveness (mainContainer ?tmpl) = Some probe" by (simp add: mainContainer_simps assms(3))
  show ?thesis
    unfolding wired_pod_def
    by (subst containers)
       (use laws [unfolded ports] pod_adapter.liveness_ok [OF assms(1) live] live assms(4) in \<open>simp add: list_all_iff\<close>)
qed

text \<open>
  C39: An OP Stack node is wired. For each of the thirteen chains and every node whose extra
  arguments set neither the data directory nor an \<open>--authrpc.\<close> flag, whatever other flags, images
  and sidecars it adds: the pod runs the execution client, one consensus client and the node's
  own sidecars; no two declared ports of the clients collide, their names are distinct and valid;
  the liveness probe asks a port the execution client declares; and the consensus client reads
  the engine secret from the file the execution client writes on the volume both mount, and calls
  the engine API on the port the execution client was given. Of a flag that is repeated the last
  value counts.
\<close>

theorem op_stack_wired:
  assumes "Get (opStackAdapters E) chain = Some adapter" "keeps_engine (spExtraArgs (ciSpec node))"
  shows "wired_pod chain (spSidecars (ciSpec node)) (RenderPodTemplate B R node adapter h)"
proof (rule opStack_cases [OF opStack_Get [OF assms(1)]])
  let ?main = "mainContainer (RenderPodTemplate B R node adapter h)"
  assume chain: "chain = ChainBase" and adapter: "adapter = baseChainAdapter E"
  have "engine_wired chain ?main (hd (base_Sidecars (ciSpec node)))"
    using assms(2) base_engine_flags [of "ciSpec node"]
    by (intro engine_wired_main [where rethChain = "''base''" and url = baseSequencerURL and spec = "ciSpec node" and xs = "spExtraArgs (ciSpec node)"])
       (simp_all add: baseSequencerURL_def adapter chain mainContainer_simps op_main_args engineFlags_def)
  moreover have "adapterSidecars adapter (ciSpec node) (rpcSecretName node) = [hd (base_Sidecars (ciSpec node))]"
    by (simp add: adapter op_sidecars base_Sidecars_def)
  ultimately show ?thesis
    unfolding adapter by (intro wired_podI [OF base_pod.pod_adapter_axioms _ op_selectors(4)])
next
  let ?main = "mainContainer (RenderPodTemplate B R node adapter h)"
  fix rethChain network url res
  let ?b = "newOpRethProtocolAdapter chain rethChain network url"
  assume chain: "chain \<noteq> ChainBase" and names: "\<not> HasPrefix rethChain ''--''" "\<not> HasPrefix network ''--''" "\<not> HasPrefix url ''--''"
    and adapter: "adapter = opRethAdapter E ?b res"
  have "engine_wired chain ?main (hd (opReth_Sidecars ?b (ciSpec node)))"
    using names chain assms(2) op_engine_flags [of ?b "ciSpec node"]
    by (intro engine_wired_main [where rethChain = rethChain and url = url and spec = "ciSpec node" and xs = "''--rollup.disable-tx-pool-gossip'' # spExtraArgs (ciSpec node)"])
       (auto simp: keeps_engine_def adapter mainContainer_simps op_main_args engineFlags_def newOpRethProtocolAdapter_def)
  moreover have "adapterSidecars adapter (ciSpec node) (rpcSecretName node) = [hd (opReth_Sidecars ?b (ciSpec node))]"
    by (simp add: adapter op_sidecars opReth_Sidecars_def)
  ultimately show ?thesis
    unfolding adapter by (intro wired_podI [OF op_pod.pod_adapter_axioms _ op_selectors(3)])
qed

theorem op_stack_wired_witness:
  "\<forall>(E :: unit rpc_env) B R h. wired_pod ChainOptimism [] (RenderPodTemplate B R zero_node (optimismAdapter E) h)"
proof (intro allI)
  fix E :: "unit rpc_env" and B R h
  have "Get (opStackAdapters E) ChainOptimism = Some (optimismAdapter E)" by (simp add: opStackAdapters_list Get_def)
  moreover have "keeps_engine (spExtraArgs (ciSpec zero_node))" by (simp add: keeps_engine_def zero_node_def zero_spec_def)
  ultimately have "wired_pod ChainOptimism (spSidecars (ciSpec zero_node)) (RenderPodTemplate B R zero_node (optimismAdapter E) h)"
    by (rule op_stack_wired)
  then show "wired_pod ChainOptimism [] (RenderPodTemplate B R zero_node (optimismAdapter E) h)"
    by (simp add: zero_node_def zero_spec_def)
qed

subsection \<open>Images\<close>

text \<open>The entries of the OP Stack chains: a default and at most \<open>op-node\<close>, all of them set.\<close>

definition op_entry :: "strmap option \<Rightarrow> bool" where
  "op_entry m \<longleftrightarrow> (case m of None \<Rightarrow> False | Some clients \<Rightarrow>
     map_of clients [] \<noteq> None \<and> list_all (\<lambda>(client, image). (client = [] \<or> client = ''op-node'') \<and> image \<noteq> []) clients)"

lemma op_table: "list_all (\<lambda>chain. op_entry (map_of chainDefaultImages chain)) opStackChains"
  by code_simp

lemma op_entry_lookup:
  assumes "chain \<in> set opStackChains"
  shows "DefaultImageFor chain client \<noteq> []"
    and "ToLower client \<noteq> ''op-node'' \<Longrightarrow> DefaultImageFor chain client = DefaultImageFor chain []"
proof -
  from assms op_table have "op_entry (map_of chainDefaultImages chain)" by (simp add: list_all_iff)
  then obtain m image where m: "map_of chainDefaultImages chain = Some m" "map_of m [] = Some image"
    "\<And>c i. map_of m c = Some i \<Longrightarrow> (c = [] \<or> c = ''op-node'') \<and> i \<noteq> []"
    by (fastforce simp: op_entry_def list_all_iff split: option.splits dest: map_of_SomeD)
  then show "DefaultImageFor chain client \<noteq> []"
    by (auto simp: DefaultImageFor_def mget_def split: option.splits)
  show "DefaultImageFor chain client = DefaultImageFor chain []" if "ToLower client \<noteq> ''op-node''"
  proof (cases "map_of m (ToLower client)")
    case None
    with m(1,2) show ?thesis by (simp add: DefaultImageFor_def mget_def ToLower_def)
  next
    case (Some i)
    with m(3) that have "client = []" by (auto simp: ToLower_def)
    then show ?thesis by simp
  qed
qed

lemma EqualFold_opNodeClient: "EqualFold client opNodeClient \<longleftrightarrow> ToLower client = ''op-node''"
proof -
  have "ToLower ''op-node'' = ''op-node''" by code_simp
  then show ?thesis by (simp add: EqualFold_def opNodeClient_def)
qed

text \<open>Whatever client a node asks for, its main container gets the chain's execution client.\<close>

lemma op_main_image:
  assumes "oaChain b \<in> set opStackChains"
  shows "opReth_DefaultImage b client = DefaultImageFor (oaChain b) []"
  using op_entry_lookup(2) [OF assms, of client]
  by (simp add: opReth_DefaultImage_def EqualFold_opNodeClient Let_def)

lemma opStack_member: "(chain, adapter) \<in> set (opStackAdapters E) \<Longrightarrow> chain \<in> set opStackChains"
  by (metis opStack_chains fst_conv image_eqI list.set_map)

lemma op_adapter_image:
  assumes "(chain, adapter) \<in> set (opStackAdapters E)"
  shows "adDefaultImage adapter client = DefaultImageFor chain [] \<and> DefaultImageFor chain [] \<noteq> [] \<and> DefaultImageFor chain ''op-node'' \<noteq> []"
proof -
  have "\<exists>b. oaChain b = chain \<and> adDefaultImage adapter = opReth_DefaultImage b"
  proof (rule opStack_cases [OF assms])
    assume "chain = ChainBase" "adapter = baseChainAdapter E"
    then show ?thesis
      by (intro exI [of _ baseProtocol]) (simp add: baseChainAdapter_def opRethAdapter_def baseProtocol_def newOpRethProtocolAdapter_def)
  next
    fix rethChain network url res
    assume "adapter = opRethAdapter E (newOpRethProtocolAdapter chain rethChain network url) res"
    then show ?thesis
      by (intro exI [of _ "newOpRethProtocolAdapter chain rethChain network url"])
         (simp add: opRethAdapter_def newOpRethProtocolAdapter_def)
  qed
  with opStack_member [OF assms] op_entry_lookup(1) op_main_image show ?thesis by auto
qed

lemma base_same_image: "resolveContainerImage node (baseChainAdapter E) = base_mainImage (ciSpec node)"
  by (simp add: resolveContainerImage_def base_mainImage_def baseChainAdapter_def opRethAdapter_def split: option.split)

text \<open>
  The images of an OP Stack pod. A node that names no image runs the chain's execution
  client in the main container whatever client it asks for, the consensus client's own name
  included, and the image exists; next to it runs the pinned consensus client, on Base the
  other binary of the very image of the main container, so that the two never come from
  different releases.
\<close>

theorem op_stack_images:
  assumes "Get (opStackAdapters E) chain = Some adapter"
  shows "case psContainers (ptSpec (RenderPodTemplate B R node adapter h)) of
           main # consensus # _ \<Rightarrow>
             (spImage (ciSpec node) = None \<longrightarrow> ctImage main = DefaultImageFor chain []) \<and>
             ctImage main \<noteq> [] \<and> ctImage consensus \<noteq> [] \<and>
             ctImage consensus = (if chain = ChainBase then ctImage main else DefaultImageFor chain opNodeClient)
         | _ \<Rightarrow> False"
proof -
  note member = opStack_Get [OF assms]
  note image = op_adapter_image [OF member]
  have main: "resolveContainerImage node adapter \<noteq> []"
    "spImage (ciSpec node) = None \<Longrightarrow> resolveContainerImage node adapter = DefaultImageFor chain []"
    using image by (auto simp: resolveContainerImage_def split: option.split)
  have "\<exists>consensus. adapterSidecars adapter (ciSpec node) (rpcSecretName node) = [consensus] \<and>
      ctImage consensus = (if chain = ChainBase then resolveContainerImage node adapter else DefaultImageFor chain opNodeClient)"
    using member
    by (rule opStack_cases)
       (auto simp: op_sidecars base_Sidecars_def opReth_Sidecars_def base_same_image newOpRethProtocolAdapter_def)
  then obtain consensus where "adapterSidecars adapter (ciSpec node) (rpcSecretName node) = [consensus]"
    "ctImage consensus = (if chain = ChainBase then resolveContainerImage node adapter else DefaultImageFor chain opNodeClient)"
    by blast
  then show ?thesis
    by (subst RenderPodTemplate_containers) (use main image in \<open>simp add: mainContainer_simps opNodeClient_def\<close>)
qed

theorem op_stack_images_witness:
  "\<forall>(E :: unit rpc_env) B R h. ctImage (mainContainer (RenderPodTemplate B R
     (zero_node\<lparr>ciSpec := zero_spec\<lparr>spClient := ''OP-Node''\<rparr>\<rparr>) (optimismAdapter E) h)) = DefaultImageFor ChainOptimism []"
proof (intro allI)
  fix E :: "unit rpc_env" and B R h
  have "Get (opStackAdapters E) ChainOptimism = Some (optimismAdapter E)" by (simp add: opStackAdapters_list Get_def)
  from op_stack_images [OF this, of "zero_node\<lparr>ciSpec := zero_spec\<lparr>spClient := ''OP-Node''\<rparr>\<rparr>" B R h]
  show "ctImage (mainContainer (RenderPodTemplate B R
     (zero_node\<lparr>ciSpec := zero_spec\<lparr>spClient := ''OP-Node''\<rparr>\<rparr>) (optimismAdapter E) h)) = DefaultImageFor ChainOptimism []"
    by (auto simp: zero_spec_def split: list.splits)
qed

subsection \<open>Adapters and the table of images\<close>

text \<open>
  The default image of every adapter is a lookup in the table under its own chain, except that
  the archive node has the adapter of Ethereum (\<open>ethereum.go\<close>) and that the OP Stack adapters
  read the client \<open>op-node\<close> as none.
\<close>

definition adapterImage :: "Chain \<Rightarrow> string \<Rightarrow> string" where
  "adapterImage chain client =
     (if chain \<in> set opStackChains \<and> EqualFold client opNodeClient then DefaultImageFor chain []
      else DefaultImageFor (imageChain chain) client)"

definition reads_table :: "'w registry \<Rightarrow> bool" where
  "reads_table R \<longleftrightarrow> (\<forall>(chain, adapter) \<in> set R. adDefaultImage adapter = adapterImage chain)"

text \<open>An image the validator finds in the table the adapter finds as well.\<close>

lemma adapterImage_exists: "DefaultImageFor chain client \<noteq> [] \<Longrightarrow> adapterImage chain client \<noteq> []"
  by (auto simp: adapterImage_def DefaultImageFor_imageChain op_entry_lookup(1))

lemma reads_table_Get:
  "reads_table R \<Longrightarrow> Get R chain = Some adapter \<Longrightarrow> adDefaultImage adapter = adapterImage chain"
  unfolding reads_table_def Get_def by (auto dest!: map_of_SomeD)

text \<open>The hypothesis holds of the adapters modelled here.\<close>

lemma opStack_reads_table: "reads_table (opStackAdapters E)"
  unfolding reads_table_def
proof (clarify)
  fix chain adapter
  assume member: "(chain, adapter) \<in> set (opStackAdapters E)"
  then have chain: "chain \<in> set opStackChains" by (rule opStack_member)
  have "adapterImage chain client = DefaultImageFor chain []" for client
    using op_main_image [of "newOpRethProtocolAdapter chain [] [] []" client] chain
    by (auto simp: adapterImage_def DefaultImageFor_imageChain opReth_DefaultImage_def newOpRethProtocolAdapter_def)
  with op_adapter_image [OF member] show "adDefaultImage adapter = adapterImage chain" by (simp add: fun_eq_iff)
qed

end
