(* ===== verification/Evm_Adapters1.thy ===== *)
theory Evm_Adapters1
  imports Adapter_Base
begin

text \<open>
  Adapters of EVM chains, first part (\<open>aurora.go\<close> to \<open>immutable_zkevm.go\<close>, and \<open>op_geth.go\<close>):
  configuration text, container arguments, environment, ports and defaults, written out from
  the sources.
\<close>

definition opGethConfigPath :: "string" where
  \<open>opGethConfigPath =
     ''/config/config.toml''\<close>

definition opGethArgs :: "string list" where
  \<open>opGethArgs =
     [''--config'', opGethConfigPath, ''--metrics'', ''--metrics.addr'', ''0.0.0.0'',
      ''--metrics.port'', ''6060'']\<close>

definition auroraConfig :: "string" where
  \<open>auroraConfig =
     unlines [
    ''# Aurora (EVM on NEAR Protocol) relayer configuration'',
    ''[server]'',
    ''host = "0.0.0.0"'',
    ''port = 8545'',
    [],
    ''[near]'',
    ''network = "mainnet"'',
    [],
    ''[database]'',
    ''path = "/data"'']\<close>

definition aurora_ContainerPorts :: "ChainInstanceSpec \<Rightarrow> ContainerPort list" where
  \<open>aurora_ContainerPorts spec =
     (let ports = evmPorts 30303 in
     ports @ [tcpPort ''metrics'' 9090])\<close>

definition auroraAdapter :: "('w, 'x) rpc_env_scheme \<Rightarrow> 'w ChainAdapter" where
  \<open>auroraAdapter E = (protocolBase E ChainAurora 8545)\<lparr>
     adConfigTemplate := (\<lambda>_. Inr (''aurora.toml'', auroraConfig)),
     adContainerPorts := aurora_ContainerPorts,
     adDefaultResources := Some \<lparr>rdCPURequest = 4 * 1000, rdMemoryRequest = 8 * 2 ^ 30, rdStorage = 500 * 2 ^ 30\<rparr>\<rparr>\<close>

definition bittorrentConfig :: "string" where
  \<open>bittorrentConfig =
     unlines [
    ''# BTTC (BitTorrent Chain) configuration '' @ [CHR 0xE2, CHR 0x80, CHR 0x94] @ '' EVM-compatible sidechain (chainId 199)'',
    ''[Eth]'',
    ''NetworkId = 199'',
    ''SyncMode = "snap"'',
    [],
    ''[Node]'',
    ''DataDir = "/data"'',
    ''HTTPHost = "0.0.0.0"'',
    ''HTTPPort = 8545'',
    ''HTTPVirtualHosts = ["*"]'',
    ''HTTPCorsDomain = ["*"]'',
    ''HTTPModules = ["eth", "net", "web3", "debug", "txpool"]'',
    ''WSHost = "0.0.0.0"'',
    ''WSPort = 8546'',
    ''WSOrigins = ["*"]'',
    ''WSModules = ["eth", "net", "web3"]'',
    [],
    ''[Node.P2P]'',
    ''MaxPeers = 50'',
    ''ListenAddr = ":30303"'']\<close>

definition bittorrent_ContainerPorts :: "ChainInstanceSpec \<Rightarrow> ContainerPort list" where
  \<open>bittorrent_ContainerPorts spec =
     evmPorts 30303 @ [tcpPort ''metrics'' 6060]\<close>

definition bittorrent_ContainerArgs :: "ChainInstanceSpec \<Rightarrow> string list" where
  \<open>bittorrent_ContainerArgs spec =
     [''--metrics'', ''--metrics.addr'', ''0.0.0.0'', ''--metrics.port'', ''6060'']\<close>

definition bittorrentAdapter :: "('w, 'x) rpc_env_scheme \<Rightarrow> 'w ChainAdapter" where
  \<open>bittorrentAdapter E = (protocolBase E ChainBitTorrent 8545)\<lparr>
     adConfigTemplate := (\<lambda>_. Inr (''config.toml'', bittorrentConfig)),
     adContainerPorts := bittorrent_ContainerPorts,
     adContainerArgs := Some bittorrent_ContainerArgs,
     adDefaultResources := Some \<lparr>rdCPURequest = 4 * 1000, rdMemoryRequest = 8 * 2 ^ 30, rdStorage = 500 * 2 ^ 30\<rparr>\<rparr>\<close>

definition defaultBlastL1URL :: "string" where
  \<open>defaultBlastL1URL =
     ''http://ethereum:8545''\<close>

definition blastGenesisURL :: "string" where
  \<open>blastGenesisURL =
     ''https://raw.githubusercontent.com/blast-io/deployment/197a870f8d9f65d29ad3eef5566f40bb2f5c5353/mainnet/genesis.json''\<close>

definition blastGenesisSHA256 :: "string" where
  \<open>blastGenesisSHA256 =
     ''330379e670b42f8a2b9db30b059f6ce7400590b66c70c2d8f7294ba0efeffbae''\<close>

definition blastConfig :: "string" where
  \<open>blastConfig =
     unlines [
    ''# Blast L2 (OP Stack) geth node'',
    ''[Eth]'',
    ''NetworkId = 81457'',
    ''SyncMode = "full"'',
    [],
    ''[Node]'',
    ''DataDir = "/data"'',
    ''HTTPHost = "0.0.0.0"'',
    ''HTTPPort = 8545'',
    ''HTTPModules = ["eth", "net", "web3", "txpool"]'',
    ''HTTPVirtualHosts = ["*"]'',
    ''HTTPCors = ["*"]'',
    ''WSHost = "0.0.0.0"'',
    ''WSPort = 8546'',
    ''WSModules = ["eth", "net", "web3"]'',
    ''WSOrigins = ["*"]'',
    [],
    ''[Node.P2P]'',
    ''MaxPeers = 50'']\<close>

definition blast_ContainerPorts :: "ChainInstanceSpec \<Rightarrow> ContainerPort list" where
  \<open>blast_ContainerPorts spec =
     evmPorts 30303 @ [tcpPort ''metrics'' 6060]\<close>

definition blast_ContainerCommand :: "ChainInstanceSpec \<Rightarrow> string list" where
  \<open>blast_ContainerCommand spec =
     (let script = unlines [
    ''set -e'',
    ''G=/data/genesis.json'',
    ''if [ ! -f /data/.genesis-init ]; then''] @ ''  wget -q -O "$G.part" '' @ blastGenesisURL @ unlines [
    []] @ ''  if ! echo "'' @ blastGenesisSHA256 @ unlines [
    ''  $G.part" | sha256sum -c - >/dev/null 2>&1; then'',
    ''    rm -f "$G.part"''] @ ''    echo "genesis.json does not match pinned sha256 '' @ blastGenesisSHA256 @ unlines [
    ''" >&2'',
    ''    exit 1'',
    ''  fi'',
    ''  mv "$G.part" "$G"'',
    ''  geth init --datadir /data "$G"'',
    ''  rm "$G"'',
    ''  touch /data/.genesis-init'',
    ''fi''] @ ''exec geth "$@"'' in
     [''sh'', ''-c'', script, ''--''])\<close>

definition blast_ContainerArgs :: "ChainInstanceSpec \<Rightarrow> string list" where
  \<open>blast_ContainerArgs spec =
     opGethArgs\<close>

definition blast_ContainerEnv :: "ChainInstanceSpec \<Rightarrow> EnvVar list" where
  \<open>blast_ContainerEnv spec =
     [EnvValue ''L1_RPC_URL'' defaultBlastL1URL]\<close>

definition blastAdapter :: "('w, 'x) rpc_env_scheme \<Rightarrow> 'w ChainAdapter" where
  \<open>blastAdapter E = (protocolBase E ChainBlast 8545)\<lparr>
     adConfigTemplate := (\<lambda>_. Inr (''config.toml'', blastConfig)),
     adContainerPorts := blast_ContainerPorts,
     adContainerCommand := Some blast_ContainerCommand,
     adContainerArgs := Some blast_ContainerArgs,
     adContainerEnv := Some blast_ContainerEnv,
     adDefaultResources := Some \<lparr>rdCPURequest = 4 * 1000, rdMemoryRequest = 8 * 2 ^ 30, rdStorage = 500 * 2 ^ 30\<rparr>,
     adVersionPolicy := Some \<lparr>vpRegistry = ''docker.io'', vpRepository = ''blastio/blast-geth'',
        vpTagPattern = ''^mainnet-v'' @ [CHR 0x5C] @ ''d+'', vpTagPrefix = ''mainnet-''\<rparr>\<rparr>\<close>

definition defaultBobaEthL1URL :: "string" where
  \<open>defaultBobaEthL1URL =
     ''http://ethereum:8545''\<close>

definition bobaEthConfig :: "string" where
  \<open>bobaEthConfig =
     unlines [
    ''# op-geth configuration for Boba ETH (OP Stack L2)'',
    ''[Eth]'',
    ''NetworkId = 288'',
    ''SyncMode = "snap"'',
    [],
    ''[Node]'',
    ''DataDir = "/data"'',
    [],
    ''[Node.HTTPHost]'',
    ''HTTPHost = "0.0.0.0"'',
    ''HTTPPort = 8545'',
    ''HTTPVirtualHosts = ["*"]'',
    ''HTTPCorsDomain = ["*"]'',
    ''HTTPModules = ["eth", "net", "web3", "debug", "txpool"]'',
    [],
    ''[Node.WSHost]'',
    ''WSHost = "0.0.0.0"'',
    ''WSPort = 8546'',
    ''WSOrigins = ["*"]'',
    ''WSModules = ["eth", "net", "web3"]'',
    [],
    ''[Node.P2P]'',
    ''MaxPeers = 50'',
    ''ListenAddr = ":30303"'']\<close>

definition bobaEth_ContainerPorts :: "ChainInstanceSpec \<Rightarrow> ContainerPort list" where
  \<open>bobaEth_ContainerPorts spec =
     evmPorts 30303 @ [tcpPort ''metrics'' 6060]\<close>

definition bobaEth_ContainerArgs :: "ChainInstanceSpec \<Rightarrow> string list" where
  \<open>bobaEth_ContainerArgs spec =
     [''--metrics'', ''--metrics.addr'', ''0.0.0.0'', ''--metrics.port'', ''6060'']\<close>

definition bobaEth_ContainerEnv :: "ChainInstanceSpec \<Rightarrow> EnvVar list" where
  \<open>bobaEth_ContainerEnv spec =
     [EnvValue ''L1_RPC_URL'' defaultBobaEthL1URL]\<close>

definition bobaEthAdapter :: "('w, 'x) rpc_env_scheme \<Rightarrow> 'w ChainAdapter" where
  \<open>bobaEthAdapter E = (protocolBase E ChainBobaEth 8545)\<lparr>
     adConfigTemplate := (\<lambda>_. Inr (''config.toml'', bobaEthConfig)),
     adContainerPorts := bobaEth_ContainerPorts,
     adContainerArgs := Some bobaEth_ContainerArgs,
     adContainerEnv := Some bobaEth_ContainerEnv,
     adDefaultResources := Some \<lparr>rdCPURequest = 2 * 1000, rdMemoryRequest = 4 * 2 ^ 30, rdStorage = 200 * 2 ^ 30\<rparr>\<rparr>\<close>

definition defaultCeloL1URL :: "string" where
  \<open>defaultCeloL1URL =
     ''http://ethereum:8545''\<close>

definition celoConfig :: "string" where
  \<open>celoConfig =
     unlines [
    ''# op-geth configuration for Celo mainnet (OP Stack L2, migrated June 2024)'',
    ''[Eth]'',
    ''NetworkId = 42220'',
    ''SyncMode = "snap"'',
    [],
    ''[Node]'',
    ''DataDir = "/data"'',
    [],
    ''[Node.HTTPHost]'',
    ''HTTPHost = "0.0.0.0"'',
    ''HTTPPort = 8545'',
    ''HTTPVirtualHosts = ["*"]'',
    ''HTTPCorsDomain = ["*"]'',
    ''HTTPModules = ["eth", "net", "web3", "debug", "txpool"]'',
    [],
    ''[Node.WSHost]'',
    ''WSHost = "0.0.0.0"'',
    ''WSPort = 8546'',
    ''WSOrigins = ["*"]'',
    ''WSModules = ["eth", "net", "web3"]'',
    [],
    ''[Node.P2P]'',
    ''MaxPeers = 50'',
    ''ListenAddr = ":30303"'']\<close>

definition celo_ContainerPorts :: "ChainInstanceSpec \<Rightarrow> ContainerPort list" where
  \<open>celo_ContainerPorts spec =
     evmPorts 30303 @ [tcpPort ''metrics'' 6060]\<close>

definition celo_ContainerArgs :: "ChainInstanceSpec \<Rightarrow> string list" where
  \<open>celo_ContainerArgs spec =
     [''--config'', ''/config/config.toml'', ''--metrics'', ''--metrics.addr'', ''0.0.0.0'',
      ''--metrics.port'', ''6060'']\<close>

definition celo_ContainerEnv :: "ChainInstanceSpec \<Rightarrow> EnvVar list" where
  \<open>celo_ContainerEnv spec =
     [EnvValue ''OP_NODE_L1_ETH_RPC'' defaultCeloL1URL]\<close>

definition celoAdapter :: "('w, 'x) rpc_env_scheme \<Rightarrow> 'w ChainAdapter" where
  \<open>celoAdapter E = (protocolBase E ChainCelo 8545)\<lparr>
     adConfigTemplate := (\<lambda>_. Inr (''config.toml'', celoConfig)),
     adContainerPorts := celo_ContainerPorts,
     adContainerArgs := Some celo_ContainerArgs,
     adContainerEnv := Some celo_ContainerEnv,
     adDefaultResources := Some \<lparr>rdCPURequest = 4 * 1000, rdMemoryRequest = 8 * 2 ^ 30, rdStorage = 500 * 2 ^ 30\<rparr>\<rparr>\<close>

definition coreConfig :: "string" where
  \<open>coreConfig =
     unlines [
    ''# Core Chain (CoreDAO) EVM node configuration'',
    ''[Eth]'',
    ''SyncMode = "snap"'',
    [],
    ''[Node]'',
    ''DataDir = "/data"'',
    ''HTTPHost = "0.0.0.0"'',
    ''HTTPPort = 8545'',
    ''HTTPModules = ["eth", "net", "web3", "txpool", "debug"]'',
    ''HTTPVirtualHosts = ["*"]'',
    ''HTTPCors = ["*"]'',
    ''WSHost = "0.0.0.0"'',
    ''WSPort = 8546'',
    ''WSModules = ["eth", "net", "web3"]'',
    ''WSOrigins = ["*"]'',
    [],
    ''[Node.P2P]'',
    ''MaxPeers = 50'',
    ''ListenAddr = ":30303"'']\<close>

definition core_ContainerPorts :: "ChainInstanceSpec \<Rightarrow> ContainerPort list" where
  \<open>core_ContainerPorts spec =
     evmPorts 30303 @ [tcpPort ''metrics'' 6060]\<close>

definition core_ContainerCommand :: "ChainInstanceSpec \<Rightarrow> string list" where
  \<open>core_ContainerCommand spec =
     (let network = ''--mainnet'' in
     let network = (if spNetwork spec = NetworkTestnet then ''--pigeon'' else network) in
     [''geth'', network, ''--config'', ''/config/config.toml''])\<close>

definition core_ContainerArgs :: "ChainInstanceSpec \<Rightarrow> string list" where
  \<open>core_ContainerArgs spec =
     gethMetricsArgs 6060\<close>

definition coreAdapter :: "('w, 'x) rpc_env_scheme \<Rightarrow> 'w ChainAdapter" where
  \<open>coreAdapter E = (protocolBase E ChainCore 8545)\<lparr>
     adConfigTemplate := (\<lambda>_. Inr (''config.toml'', coreConfig)),
     adContainerPorts := core_ContainerPorts,
     adContainerCommand := Some core_ContainerCommand,
     adContainerArgs := Some core_ContainerArgs,
     adDefaultResources := Some \<lparr>rdCPURequest = 4 * 1000, rdMemoryRequest = 8 * 2 ^ 30, rdStorage = 500 * 2 ^ 30\<rparr>,
     adVersionPolicy := Some \<lparr>vpRegistry = ''ghcr.io'', vpRepository = ''coredao-org/core-chain'',
        vpTagPattern = ''^'' @ [CHR 0x5C] @ ''d+'' @ [CHR 0x5C] @ ''.'' @ [CHR 0x5C] @ ''d+'' @ [CHR 0x5C] @ ''.'' @ [CHR 0x5C] @ ''d+$'', vpTagPrefix = []\<rparr>\<rparr>\<close>

definition cronosConfig :: "string" where
  \<open>cronosConfig =
     unlines [
    ''# Cronos mainnet RPC node'',
    ''[json-rpc]'',
    ''address = "0.0.0.0:8545"'',
    ''ws-address = "0.0.0.0:8546"'',
    ''api = "eth,net,web3,txpool"'',
    ''enable = true'',
    [],
    ''[telemetry]'',
    ''enabled = true'',
    ''prometheus-retention-time = 60'',
    ''prometheus-addr = "0.0.0.0:26660"'',
    [],
    ''[p2p]'',
    ''laddr = "tcp://0.0.0.0:26656"'',
    ''max_num_inbound_peers = 40'',
    ''max_num_outbound_peers = 10'',
    [],
    ''[statesync]'',
    ''enable = false'']\<close>

definition cronos_ContainerPorts :: "ChainInstanceSpec \<Rightarrow> ContainerPort list" where
  \<open>cronos_ContainerPorts spec =
     [
      tcpPort ''rpc'' 8545,
      tcpPort ''ws'' 8546,
      tcpPort ''p2p-tcp'' 26656,
      udpPort ''p2p-udp'' 26656,
      tcpPort ''metrics'' 26660]\<close>

definition cronosAdapter :: "('w, 'x) rpc_env_scheme \<Rightarrow> 'w ChainAdapter" where
  \<open>cronosAdapter E = (protocolBase E ChainCronos 8545)\<lparr>
     adConfigTemplate := (\<lambda>_. Inr (''app.toml'', cronosConfig)),
     adContainerPorts := cronos_ContainerPorts,
     adDefaultResources := Some \<lparr>rdCPURequest = 4 * 1000, rdMemoryRequest = 8 * 2 ^ 30, rdStorage = 1 * 2 ^ 40\<rparr>\<rparr>\<close>

definition defaultDomaL1URL :: "string" where
  \<open>defaultDomaL1URL =
     ''http://ethereum:8545''\<close>

definition domaConfig :: "string" where
  \<open>domaConfig =
     unlines [
    ''# op-geth configuration for Doma (OP Stack L2)'',
    ''[Eth]'',
    ''NetworkId = 13143'',
    ''SyncMode = "snap"'',
    [],
    ''[Node]'',
    ''DataDir = "/data"'',
    [],
    ''[Node.HTTPHost]'',
    ''HTTPHost = "0.0.0.0"'',
    ''HTTPPort = 8545'',
    ''HTTPVirtualHosts = ["*"]'',
    ''HTTPCorsDomain = ["*"]'',
    ''HTTPModules = ["eth", "net", "web3", "debug", "txpool"]'',
    [],
    ''[Node.WSHost]'',
    ''WSHost = "0.0.0.0"'',
    ''WSPort = 8546'',
    ''WSOrigins = ["*"]'',
    ''WSModules = ["eth", "net", "web3"]'',
    [],
    ''[Node.P2P]'',
    ''MaxPeers = 50'',
    ''ListenAddr = ":30303"'']\<close>

definition doma_ContainerPorts :: "ChainInstanceSpec \<Rightarrow> ContainerPort list" where
  \<open>doma_ContainerPorts spec =
     evmPorts 30303 @ [tcpPort ''metrics'' 6060]\<close>

definition doma_ContainerArgs :: "ChainInstanceSpec \<Rightarrow> string list" where
  \<open>doma_ContainerArgs spec =
     [''--metrics'', ''--metrics.addr'', ''0.0.0.0'', ''--metrics.port'', ''6060'']\<close>

definition doma_ContainerEnv :: "ChainInstanceSpec \<Rightarrow> EnvVar list" where
  \<open>doma_ContainerEnv spec =
     [EnvValue ''L1_RPC_URL'' defaultDomaL1URL]\<close>

definition domaAdapter :: "('w, 'x) rpc_env_scheme \<Rightarrow> 'w ChainAdapter" where
  \<open>domaAdapter E = (protocolBase E ChainDoma 8545)\<lparr>
     adConfigTemplate := (\<lambda>_. Inr (''config.toml'', domaConfig)),
     adContainerPorts := doma_ContainerPorts,
     adContainerArgs := Some doma_ContainerArgs,
     adDefaultResources := Some \<lparr>rdCPURequest = 2 * 1000, rdMemoryRequest = 4 * 2 ^ 30, rdStorage = 100 * 2 ^ 30\<rparr>,
     adContainerEnv := Some doma_ContainerEnv\<rparr>\<close>

definition ethereumClassicConfig :: "string" where
  \<open>ethereumClassicConfig =
     unlines [
    ''# Ethereum Classic (core-geth) node configuration'',
    ''[Eth]'',
    ''SyncMode = "snap"'',
    [],
    ''[Node]'',
    ''DataDir = "/data"'',
    ''HTTPHost = "0.0.0.0"'',
    ''HTTPPort = 8545'',
    ''HTTPModules = ["eth", "net", "web3", "txpool", "debug"]'',
    ''HTTPVirtualHosts = ["*"]'',
    ''HTTPCors = ["*"]'',
    ''WSHost = "0.0.0.0"'',
    ''WSPort = 8546'',
    ''WSModules = ["eth", "net", "web3"]'',
    ''WSOrigins = ["*"]'',
    [],
    ''[Node.P2P]'',
    ''MaxPeers = 50'',
    ''ListenAddr = ":30303"'']\<close>

definition ethereumClassic_ContainerPorts :: "ChainInstanceSpec \<Rightarrow> ContainerPort list" where
  \<open>ethereumClassic_ContainerPorts spec =
     evmPorts 30303 @ [tcpPort ''metrics'' 6060]\<close>

definition ethereumClassic_ContainerArgs :: "ChainInstanceSpec \<Rightarrow> string list" where
  \<open>ethereumClassic_ContainerArgs spec =
     (let network = ''--classic'' in
     let network = (if spNetwork spec = NetworkTestnet then ''--mordor'' else network) in
     [network, ''--config'', ''/config/config.toml''] @ (gethMetricsArgs 6060))\<close>

definition ethereumClassicAdapter :: "('w, 'x) rpc_env_scheme \<Rightarrow> 'w ChainAdapter" where
  \<open>ethereumClassicAdapter E = (protocolBase E ChainEthereumClassic 8545)\<lparr>
     adConfigTemplate := (\<lambda>_. Inr (''config.toml'', ethereumClassicConfig)),
     adContainerPorts := ethereumClassic_ContainerPorts,
     adContainerArgs := Some ethereumClassic_ContainerArgs,
     adDefaultResources := Some \<lparr>rdCPURequest = 4 * 1000, rdMemoryRequest = 8 * 2 ^ 30, rdStorage = 1000 * 2 ^ 30\<rparr>,
     adVersionPolicy := Some \<lparr>vpRegistry = ''docker.io'', vpRepository = ''etclabscore/core-geth'',
        vpTagPattern = semverTag, vpTagPrefix = []\<rparr>\<rparr>\<close>

definition fantomConfig :: "string" where
  \<open>fantomConfig =
     unlines [
    ''# Fantom Opera mainnet RPC node'',
    ''[Node]'',
    ''DataDir = "/data"'',
    ''HTTPHost = "0.0.0.0"'',
    ''HTTPPort = 8545'',
    ''HTTPModules = ["eth", "net", "web3", "ftm"]'',
    ''HTTPVirtualHosts = ["*"]'',
    ''HTTPCors = ["*"]'',
    ''WSHost = "0.0.0.0"'',
    ''WSPort = 8546'',
    ''WSModules = ["eth", "net", "web3"]'',
    ''WSOrigins = ["*"]'',
    [],
    ''[Node.P2P]'',
    ''MaxPeers = 50'',
    ''ListenAddr = ":5050"'']\<close>

definition fantom_LivenessProbe :: "ChainInstanceSpec \<Rightarrow> Probe option" where
  \<open>fantom_LivenessProbe spec =
     Some (tcpProbe 8545 300 30 10 5)\<close>

definition fantom_ContainerPorts :: "ChainInstanceSpec \<Rightarrow> ContainerPort list" where
  \<open>fantom_ContainerPorts spec =
     evmPorts 5050 @ [tcpPort ''metrics'' 6060]\<close>

definition fantom_ContainerArgs :: "ChainInstanceSpec \<Rightarrow> string list" where
  \<open>fantom_ContainerArgs spec =
     [''--datadir'', ''/data'', ''--http'', ''--http.addr'', ''0.0.0.0'', ''--http.port'', ''8545'',
      ''--http.api'', ''eth,net,web3,ftm'', ''--http.vhosts'', ''*'', ''--http.corsdomain'', ''*'',
      ''--ws'', ''--ws.addr'', ''0.0.0.0'', ''--ws.port'', ''8546'', ''--ws.api'', ''eth,net,web3'',
      ''--ws.origins'', ''*'', ''--port'', ''5050'', ''--maxpeers'', ''50'', ''--cache'', ''4096'',
      ''--metrics'', ''--metrics.addr'', ''0.0.0.0'', ''--metrics.port'', ''6060'']\<close>

definition fantomAdapter :: "('w, 'x) rpc_env_scheme \<Rightarrow> 'w ChainAdapter" where
  \<open>fantomAdapter E = (protocolBase E ChainFantom 8545)\<lparr>
     adConfigTemplate := (\<lambda>_. Inr (''config.toml'', fantomConfig)),
     adLivenessProbe := fantom_LivenessProbe,
     adContainerPorts := fantom_ContainerPorts,
     adContainerArgs := Some fantom_ContainerArgs,
     adDefaultResources := Some \<lparr>rdCPURequest = 8 * 1000, rdMemoryRequest = 16 * 2 ^ 30, rdStorage = 2 * 2 ^ 40\<rparr>\<rparr>\<close>

definition defaultGoatL1URL :: "string" where
  \<open>defaultGoatL1URL =
     ''http://ethereum:8545''\<close>

definition goatConfig :: "string" where
  \<open>goatConfig =
     unlines [
    ''# Goat Network (Bitcoin L2 with EVM) node configuration'',
    ''[Node]'',
    ''DataDir = "/data"'',
    ''HTTPHost = "0.0.0.0"'',
    ''HTTPPort = 8545'',
    ''HTTPVirtualHosts = ["*"]'',
    ''HTTPModules = ["eth", "net", "web3", "debug"]'',
    ''WSHost = "0.0.0.0"'',
    ''WSPort = 8546'',
    ''WSOrigins = ["*"]'',
    ''WSModules = ["eth", "net", "web3"]'',
    [],
    ''[Node.P2P]'',
    ''MaxPeers = 50'',
    ''ListenAddr = ":30303"'']\<close>

definition goat_ContainerPorts :: "ChainInstanceSpec \<Rightarrow> ContainerPort list" where
  \<open>goat_ContainerPorts spec =
     evmPorts 30303 @ [tcpPort ''metrics'' 6060]\<close>

definition goat_ContainerArgs :: "ChainInstanceSpec \<Rightarrow> string list" where
  \<open>goat_ContainerArgs spec =
     [''--goat'', ''mainnet''] @ opGethArgs\<close>

definition goat_ContainerEnv :: "ChainInstanceSpec \<Rightarrow> EnvVar list" where
  \<open>goat_ContainerEnv spec =
     [EnvValue ''L1_RPC_URL'' defaultGoatL1URL]\<close>

definition goatAdapter :: "('w, 'x) rpc_env_scheme \<Rightarrow> 'w ChainAdapter" where
  \<open>goatAdapter E = (protocolBase E ChainGoat 8545)\<lparr>
     adConfigTemplate := (\<lambda>_. Inr (''config.toml'', goatConfig)),
     adContainerPorts := goat_ContainerPorts,
     adContainerArgs := Some goat_ContainerArgs,
     adDefaultResources := Some \<lparr>rdCPURequest = 2 * 1000, rdMemoryRequest = 4 * 2 ^ 30, rdStorage = 200 * 2 ^ 30\<rparr>,
     adVersionPolicy := Some \<lparr>vpRegistry = ''ghcr.io'', vpRepository = ''goatnetwork/goat-geth'',
        vpTagPattern = semverTag, vpTagPrefix = []\<rparr>,
     adContainerEnv := Some goat_ContainerEnv\<rparr>\<close>

definition harmonyConfig :: "string" where
  \<open>harmonyConfig =
     unlines [
    ''# Harmony ONE mainnet RPC (explorer) node, shard 0.'',
    ''# Full output of "harmony config dump" from v2026.1.3 with the RPC, data'',
    ''# and metrics settings changed. Keep it complete: harmony zero-fills missing'',
    ''# sections (an absent [Sync] disables sync, an absent [Network] fails with'',
    ''# "unknown network type"), and an older Version asks to migrate on stdin.'',
    ''Version = "2.6.8"'',
    [],
    ''[BLSKeys]'',
    ''  KMSConfigFile = ""'',
    ''  KMSConfigSrcType = "shared"'',
    ''  KMSEnabled = false'',
    ''  KeyDir = "./.hmy/blskeys"'',
    ''  KeyFiles = []'',
    ''  MaxKeys = 11'',
    ''  PassEnabled = true'',
    ''  PassFile = ""'',
    ''  PassSrcType = "auto"'',
    ''  SavePassphrase = false'',
    [],
    ''[Cache]'',
    ''  Disabled = true'',
    ''  Preimages = true'',
    ''  SnapshotLimit = 0'',
    ''  SnapshotNoBuild = false'',
    ''  SnapshotWait = true'',
    ''  TrieNodeLimit = 256'',
    ''  TrieTimeLimit = "2m0s"'',
    ''  TriesInMemory = 128'',
    [],
    ''# Not in the dump (default MinPeers 6). harmony exits when fewer peers connect'',
    ''# within 60s of start; an explorer node does not vote, so one peer is enough.'',
    ''[Consensus]'',
    ''  AggregateSig = true'',
    ''  MinPeers = 1'',
    [],
    ''[DNSSync]'',
    ''  Client = true'',
    ''  Port = 6000'',
    ''  Server = true'',
    ''  ServerPort = 6000'',
    ''  Zone = "t.hmny.io"'',
    [],
    ''[GPO]'',
    ''  BlockGasLimit = 0'',
    ''  Blocks = 20'',
    ''  DefaultPrice = 100000000000'',
    ''  LowUsageThreshold = 50'',
    ''  MaxPrice = 1000000000000'',
    ''  Percentile = 60'',
    ''  Transactions = 3'',
    [],
    ''[General]'',
    ''  DataDir = "/data"'',
    ''  EnablePruneBeaconChain = false'',
    ''  IsArchival = false'',
    ''  IsBackup = false'',
    ''  IsBeaconArchival = false'',
    ''  IsOffline = false'',
    ''  NoStaking = true'',
    ''  NodeType = "explorer"'',
    ''  RunElasticMode = false'',
    ''  ShardID = 0'',
    ''  TraceEnable = false'',
    [],
    ''[HTTP]'',
    ''  AuthPort = 9501'',
    ''  Enabled = true'',
    ''  IP = "0.0.0.0"'',
    ''  IdleTimeout = "120s"'',
    ''  Port = 9500'',
    ''  ReadTimeout = "30s"'',
    ''  RosettaEnabled = false'',
    ''  RosettaPort = 9700'',
    ''  WriteTimeout = "30s"'',
    [],
    ''[Localnet]'',
    ''  BlocksPerEpoch = 16'',
    ''  BlocksPerEpochV2 = 16'',
    [],
    ''[Log]'',
    ''  Console = true'',
    ''  FileName = "harmony.log"'',
    ''  Folder = "./latest"'',
    ''  RotateCount = 0'',
    ''  RotateMaxAge = 0'',
    ''  RotateSize = 100'',
    ''  Verbosity = 3'',
    [],
    ''  [Log.VerbosePrints]'',
    ''    Config = true'',
    [],
    ''[Network]'',
    ''  BootNodes = ["/dnsaddr/bootstrap.t.hmny.io"]'',
    ''  NetworkType = "mainnet"'',
    [],
    ''[P2P]'',
    ''  ConnManagerHighWatermark = 192'',
    ''  ConnManagerLowWatermark = 160'',
    ''  DialTimeout = "1m0s"'',
    ''  DisablePrivateIPScan = false'',
    ''  DiscConcurrency = 0'',
    ''  IP = "0.0.0.0"'',
    ''  KeyFile = "/data/.hmykey"'',
    ''  MaxConnsPerIP = 10'',
    ''  MaxPeers = 0'',
    ''  Muxer = "yamux, mplexC6"'',
    ''  NAT = true'',
    ''  NoRelay = true'',
    ''  NoTransportSecurity = false'',
    ''  Port = 9000'',
    ''  ResourceMgrEnabled = false'',
    ''  ResourceMgrFileDescriptorsLimit = 0'',
    ''  ResourceMgrMemoryLimitBytes = 0'',
    ''  UserAgent = ""'',
    ''  WaitForEachPeerToConnect = false'',
    [],
    ''[Prometheus]'',
    ''  Enabled = true'',
    ''  EnablePush = false'',
    ''  Gateway = "https://gateway.harmony.one"'',
    ''  IP = "0.0.0.0"'',
    ''  Port = 9900'',
    [],
    ''[Pprof]'',
    ''  Enabled = false'',
    ''  Folder = "./profiles"'',
    ''  ListenAddr = "127.0.0.1:6060"'',
    ''  ProfileDebugValues = [0]'',
    ''  ProfileIntervals = [600]'',
    ''  ProfileNames = []'',
    [],
    ''[RPCOpt]'',
    ''  DebugEnabled = false'',
    ''  EthRPCsEnabled = true'',
    ''  EvmCallTimeout = "5s"'',
    ''  LegacyRPCsEnabled = true'',
    ''  PreimagesEnabled = false'',
    ''  RateLimterEnabled = true'',
    ''  RequestsPerSecond = 1000'',
    ''  RpcFilterFile = "./.hmy/rpc_filter.txt"'',
    ''  StakingRPCsEnabled = true'',
    [],
    ''[ShardData]'',
    ''  CacheSize = 512'',
    ''  CacheTime = 10'',
    ''  DiskCount = 8'',
    ''  EnableShardData = false'',
    ''  ShardCount = 2'',
    [],
    ''[Sync]'',
    ''  Client = false'',
    ''  Concurrency = 6'',
    ''  DNSStaticNodes = ["/dnsaddr/trusted.s0.t.hmny.io", "/dnsaddr/trusted.s1.t.hmny.io"]'',
    ''  DiscBatch = 8'',
    ''  DiscHardLowCap = 6'',
    ''  DiscHighCap = 128'',
    ''  DiscSoftLowCap = 8'',
    ''  Enabled = true'',
    ''  InitStreams = 8'',
    ''  MaxAdvertiseWaitTime = 60'',
    ''  MinPeers = 6'',
    ''  SyncMode = 0'',
    [],
    ''  [Sync.StagedSyncCfg]'',
    ''    DebugMode = false'',
    ''    DoubleCheckBlockHashes = false'',
    ''    InsertChainBatchSize = 128'',
    ''    LogProgress = false'',
    ''    MaxBackgroundBlocks = 512'',
    ''    MaxBlocksPerSyncCycle = 512'',
    ''    MaxMemSyncCycleSize = 1024'',
    ''    UseMemDB = true'',
    ''    VerifyAllSig = false'',
    ''    VerifyHeaderBatchSize = 100'',
    [],
    ''[TxPool]'',
    ''  AccountQueue = 64'',
    ''  AccountSlots = 16'',
    ''  GlobalQueue = 5120'',
    ''  GlobalSlots = 4096'',
    ''  Lifetime = "30m0s"'',
    ''  LocalAccountsFile = "./.hmy/locals.txt"'',
    ''  PriceBump = 1'',
    ''  PriceLimit = 100e9'',
    ''  RosettaFixFile = ""'',
    [],
    ''[WS]'',
    ''  AuthPort = 9801'',
    ''  Enabled = true'',
    ''  IP = "0.0.0.0"'',
    ''  Port = 9800'']\<close>

definition harmony_ContainerArgs :: "ChainInstanceSpec \<Rightarrow> string list" where
  \<open>harmony_ContainerArgs spec =
     [''harmony'', ''-c'', ''/config/harmony.conf'']\<close>

definition harmony_ContainerPorts :: "ChainInstanceSpec \<Rightarrow> ContainerPort list" where
  \<open>harmony_ContainerPorts spec =
     [
      tcpPort ''rpc'' 9500,
      tcpPort ''ws'' 9800,
      tcpPort ''p2p'' 9000,
      udpPort ''p2p-udp'' 9000,
      tcpPort ''metrics'' 9900]\<close>

definition harmonyAdapter :: "('w, 'x) rpc_env_scheme \<Rightarrow> 'w ChainAdapter" where
  \<open>harmonyAdapter E = (protocolBase E ChainHarmony 9500)\<lparr>
     adConfigTemplate := (\<lambda>_. Inr (''harmony.conf'', harmonyConfig)),
     adContainerArgs := Some harmony_ContainerArgs,
     adContainerPorts := harmony_ContainerPorts,
     adDefaultResources := Some \<lparr>rdCPURequest = 4 * 1000, rdMemoryRequest = 8 * 2 ^ 30, rdStorage = 2000 * 2 ^ 30\<rparr>,
     adVersionPolicy := Some \<lparr>vpRegistry = ''docker.io'', vpRepository = ''harmonyone/harmony'',
        vpTagPattern = semverTag, vpTagPrefix = []\<rparr>\<rparr>\<close>

definition defaultHemiL1URL :: "string" where
  \<open>defaultHemiL1URL =
     ''http://ethereum:8545''\<close>

definition hemiConfig :: "string" where
  \<open>hemiConfig =
     unlines [
    ''# Hemi op-geth configuration (OP Stack L2)'',
    ''[Eth]'',
    ''NetworkId = 43111'',
    ''SyncMode = "snap"'',
    [],
    ''[Node]'',
    ''DataDir = "/data"'',
    [],
    ''[Node.HTTPHost]'',
    ''HTTPHost = "0.0.0.0"'',
    ''HTTPPort = 8545'',
    ''HTTPVirtualHosts = ["*"]'',
    ''HTTPCorsDomain = ["*"]'',
    ''HTTPModules = ["eth", "net", "web3", "debug", "txpool", "engine"]'',
    [],
    ''[Node.WSHost]'',
    ''WSHost = "0.0.0.0"'',
    ''WSPort = 8546'',
    ''WSOrigins = ["*"]'',
    ''WSModules = ["eth", "net", "web3"]'',
    [],
    ''[Node.AuthAddr]'',
    ''AuthAddr = "0.0.0.0"'',
    ''AuthPort = 8551'',
    ''JWTSecret = "/jwt.hex"'',
    [],
    ''[Node.P2P]'',
    ''MaxPeers = 50'',
    ''ListenAddr = ":30303"'']\<close>

definition hemi_ContainerPorts :: "ChainInstanceSpec \<Rightarrow> ContainerPort list" where
  \<open>hemi_ContainerPorts spec =
     evmPorts 30303 @ [tcpPort ''metrics'' 6060]\<close>

definition hemi_ContainerArgs :: "ChainInstanceSpec \<Rightarrow> string list" where
  \<open>hemi_ContainerArgs spec =
     [''--config'', ''/config/config.toml'', ''--metrics'', ''--metrics.addr'', ''0.0.0.0'',
      ''--metrics.port'', ''6060'']\<close>

definition hemi_ContainerEnv :: "ChainInstanceSpec \<Rightarrow> EnvVar list" where
  \<open>hemi_ContainerEnv spec =
     [
      EnvValue ''OP_GETH_GENESIS_FILE_PATH'' ''/config/genesis.json'',
      EnvValue ''L1_RPC_URL'' defaultHemiL1URL]\<close>

definition hemiAdapter :: "('w, 'x) rpc_env_scheme \<Rightarrow> 'w ChainAdapter" where
  \<open>hemiAdapter E = (protocolBase E ChainHemi 8545)\<lparr>
     adConfigTemplate := (\<lambda>_. Inr (''config.toml'', hemiConfig)),
     adContainerPorts := hemi_ContainerPorts,
     adContainerArgs := Some hemi_ContainerArgs,
     adDefaultResources := Some \<lparr>rdCPURequest = 2 * 1000, rdMemoryRequest = 4 * 2 ^ 30, rdStorage = 200 * 2 ^ 30\<rparr>,
     adContainerEnv := Some hemi_ContainerEnv\<rparr>\<close>

definition defaultImmutableZkEVML1URL :: "string" where
  \<open>defaultImmutableZkEVML1URL =
     ''http://ethereum:8545''\<close>

definition immutableZkEVMConfig :: "string" where
  \<open>immutableZkEVMConfig =
     unlines [
    ''# Immutable zkEVM RPC node (geth TOML; unset fields keep the --zkevm defaults)'',
    ''[Node]'',
    ''DataDir = "/data"'',
    ''HTTPHost = "0.0.0.0"'',
    ''HTTPPort = 8545'',
    ''HTTPVirtualHosts = ["*"]'',
    ''HTTPCors = ["*"]'',
    ''HTTPModules = ["eth", "net", "web3", "debug", "txpool"]'',
    ''WSHost = "0.0.0.0"'',
    ''WSPort = 8546'',
    ''WSOrigins = ["*"]'',
    ''WSModules = ["eth", "net", "web3"]'',
    [],
    ''[Node.P2P]'',
    ''MaxPeers = 50'',
    ''ListenAddr = ":30303"'']\<close>

definition immutableZkEVM_ContainerPorts :: "ChainInstanceSpec \<Rightarrow> ContainerPort list" where
  \<open>immutableZkEVM_ContainerPorts spec =
     evmPorts 30303 @ [tcpPort ''metrics'' 6060]\<close>

definition immutableZkEVM_ContainerCommand :: "ChainInstanceSpec \<Rightarrow> string list" where
  \<open>immutableZkEVM_ContainerCommand spec =
     [''sh'', ''-c'',
      ''[ -d /data/geth/chaindata ] || geth immutable bootstrap rpc --zkevm mainnet --datadir /data; exec geth "$@"'',
      ''--'']\<close>

definition immutableZkEVM_ContainerArgs :: "ChainInstanceSpec \<Rightarrow> string list" where
  \<open>immutableZkEVM_ContainerArgs spec =
     [''--config'', ''/config/config.toml'', ''--zkevm'', ''mainnet'', ''--metrics'',
      ''--metrics.addr'', ''0.0.0.0'', ''--metrics.port'', ''6060'']\<close>

definition immutableZkEVM_ContainerEnv :: "ChainInstanceSpec \<Rightarrow> EnvVar list" where
  \<open>immutableZkEVM_ContainerEnv spec =
     [EnvValue ''L1_RPC_URL'' defaultImmutableZkEVML1URL]\<close>

definition immutableZkEVMAdapter :: "('w, 'x) rpc_env_scheme \<Rightarrow> 'w ChainAdapter" where
  \<open>immutableZkEVMAdapter E = (protocolBase E ChainImmutableZkEVM 8545)\<lparr>
     adConfigTemplate := (\<lambda>_. Inr (''config.toml'', immutableZkEVMConfig)),
     adDefaultResources := Some \<lparr>rdCPURequest = 4 * 1000, rdMemoryRequest = 8 * 2 ^ 30, rdStorage = 300 * 2 ^ 30\<rparr>,
     adContainerPorts := immutableZkEVM_ContainerPorts,
     adContainerCommand := Some immutableZkEVM_ContainerCommand,
     adContainerArgs := Some immutableZkEVM_ContainerArgs,
     adContainerEnv := Some immutableZkEVM_ContainerEnv\<rparr>\<close>

end
