(* ===== verification/Evm_Adapters2.thy ===== *)
theory Evm_Adapters2
  imports Evm_Adapters1
begin

text \<open>
  Adapters of EVM chains, second part: \<open>katana.go\<close> to \<open>plasma.go\<close>.
\<close>

definition defaultKatanaL1URL :: "string" where
  \<open>defaultKatanaL1URL =
     ''http://ethereum:8545''\<close>

definition katanaConfig :: "string" where
  \<open>katanaConfig =
     unlines [
    ''# Katana (OP Stack) node configuration'',
    ''[Eth]'',
    ''SyncMode = "snap"'',
    [],
    ''[Node]'',
    ''DataDir = "/data"'',
    [],
    ''[Node.HTTPHost]'',
    ''HTTPHost = "0.0.0.0"'',
    ''HTTPPort = 8545'',
    ''HTTPVirtualHosts = ["*"]'',
    ''HTTPCorsDomain = ["*"]'',
    ''HTTPModules = ["eth", "net", "web3", "debug", "txpool"]'',
    [],
    ''[Node.WSHost]'',
    ''WSHost = "0.0.0.0"'',
    ''WSPort = 8546'',
    ''WSOrigins = ["*"]'',
    ''WSModules = ["eth", "net", "web3"]'',
    [],
    ''[Node.P2P]'',
    ''MaxPeers = 50'',
    ''ListenAddr = ":30303"'']\<close>

definition katana_ContainerPorts :: "ChainInstanceSpec \<Rightarrow> ContainerPort list" where
  \<open>katana_ContainerPorts spec =
     evmPorts 30303 @ [tcpPort ''metrics'' 6060]\<close>

definition katana_ContainerArgs :: "ChainInstanceSpec \<Rightarrow> string list" where
  \<open>katana_ContainerArgs spec =
     [''--metrics'', ''--metrics.addr'', ''0.0.0.0'', ''--metrics.port'', ''6060'']\<close>

definition katana_ContainerEnv :: "ChainInstanceSpec \<Rightarrow> EnvVar list" where
  \<open>katana_ContainerEnv spec =
     [EnvValue ''OP_NODE_L1_ETH_RPC'' defaultKatanaL1URL]\<close>

definition katanaAdapter :: "('w, 'x) rpc_env_scheme \<Rightarrow> 'w ChainAdapter" where
  \<open>katanaAdapter E = (protocolBase E ChainKatana 8545)\<lparr>
     adConfigTemplate := (\<lambda>_. Inr (''config.toml'', katanaConfig)),
     adContainerPorts := katana_ContainerPorts,
     adContainerArgs := Some katana_ContainerArgs,
     adDefaultResources := Some \<lparr>rdCPURequest = 2 * 1000, rdMemoryRequest = 4 * 2 ^ 30, rdStorage = 100 * 2 ^ 30\<rparr>,
     adContainerEnv := Some katana_ContainerEnv\<rparr>\<close>

definition klaytnConfig :: "string" where
  \<open>klaytnConfig =
     unlines [
    ''# Kaia (formerly Klaytn) mainnet EN (Endpoint Node).'',
    ''# ken --conf flag file: keys are the long flag names, grouped by prefix.'',
    ''common:'',
    ''  datadir: /data'',
    ''http-rpc:'',
    ''  enable: true'',
    ''  addr: 0.0.0.0'',
    ''  port: 8551'',
    ''  api: eth,net,web3,kaia,debug'',
    ''  vhosts: "*"'',
    ''  cors-domain: "*"'',
    ''ws-rpc:'',
    ''  enable: true'',
    ''  addr: 0.0.0.0'',
    ''  port: 8552'',
    ''  api: eth,net,web3,kaia'',
    ''  origins: "*"'',
    ''p2p:'',
    ''  port: 32323'',
    ''  max-connections: 25'']\<close>

definition klaytn_ContainerPorts :: "ChainInstanceSpec \<Rightarrow> ContainerPort list" where
  \<open>klaytn_ContainerPorts spec =
     [
      tcpPort ''rpc'' 8551,
      tcpPort ''ws'' 8552,
      tcpPort ''p2p-tcp'' 32323,
      udpPort ''p2p-udp'' 32323,
      tcpPort ''metrics'' 6060]\<close>

definition klaytn_ContainerCommand :: "ChainInstanceSpec \<Rightarrow> string list" where
  \<open>klaytn_ContainerCommand spec =
     [''ken'']\<close>

definition klaytn_ContainerArgs :: "ChainInstanceSpec \<Rightarrow> string list" where
  \<open>klaytn_ContainerArgs spec =
     [''--conf'', ''/config/kaia.yaml'', ''--metrics'', ''--prometheus'', ''--prometheusport=6060'']\<close>

definition klaytnAdapter :: "('w, 'x) rpc_env_scheme \<Rightarrow> 'w ChainAdapter" where
  \<open>klaytnAdapter E = (protocolBase E ChainKlaytn 8551)\<lparr>
     adConfigTemplate := (\<lambda>_. Inr (''kaia.yaml'', klaytnConfig)),
     adContainerPorts := klaytn_ContainerPorts,
     adContainerCommand := Some klaytn_ContainerCommand,
     adContainerArgs := Some klaytn_ContainerArgs,
     adDefaultResources := Some \<lparr>rdCPURequest = 8 * 1000, rdMemoryRequest = 16 * 2 ^ 30, rdStorage = 2000 * 2 ^ 30\<rparr>,
     adVersionPolicy := Some \<lparr>vpRegistry = ''docker.io'', vpRepository = ''kaiachain/kaia'',
        vpTagPattern = ''^v(?P<version>'' @ [CHR 0x5C] @ ''d+'' @ [CHR 0x5C] @ ''.'' @ [CHR 0x5C] @ ''d+'' @ [CHR 0x5C] @ ''.'' @ [CHR 0x5C] @ ''d+)$'', vpTagPrefix = []\<rparr>\<rparr>\<close>

definition defaultKromaL1URL :: "string" where
  \<open>defaultKromaL1URL =
     ''http://ethereum:8545''\<close>

definition kromaConfig :: "string" where
  \<open>kromaConfig =
     unlines [
    ''# op-geth configuration for Kroma (OP Stack L2)'',
    ''[Eth]'',
    ''NetworkId = 255'',
    ''SyncMode = "snap"'',
    [],
    ''[Node]'',
    ''DataDir = "/data"'',
    [],
    ''[Node.HTTPHost]'',
    ''HTTPHost = "0.0.0.0"'',
    ''HTTPPort = 8545'',
    ''HTTPVirtualHosts = ["*"]'',
    ''HTTPCorsDomain = ["*"]'',
    ''HTTPModules = ["eth", "net", "web3", "debug", "txpool"]'',
    [],
    ''[Node.WSHost]'',
    ''WSHost = "0.0.0.0"'',
    ''WSPort = 8546'',
    ''WSOrigins = ["*"]'',
    ''WSModules = ["eth", "net", "web3"]'',
    [],
    ''[Node.P2P]'',
    ''MaxPeers = 50'',
    ''ListenAddr = ":30303"'']\<close>

definition kroma_ContainerPorts :: "ChainInstanceSpec \<Rightarrow> ContainerPort list" where
  \<open>kroma_ContainerPorts spec =
     evmPorts 30303 @ [tcpPort ''metrics'' 6060]\<close>

definition kroma_ContainerArgs :: "ChainInstanceSpec \<Rightarrow> string list" where
  \<open>kroma_ContainerArgs spec =
     [''--metrics'', ''--metrics.addr'', ''0.0.0.0'', ''--metrics.port'', ''6060'']\<close>

definition kroma_ContainerEnv :: "ChainInstanceSpec \<Rightarrow> EnvVar list" where
  \<open>kroma_ContainerEnv spec =
     [EnvValue ''L1_RPC_URL'' defaultKromaL1URL]\<close>

definition kromaAdapter :: "('w, 'x) rpc_env_scheme \<Rightarrow> 'w ChainAdapter" where
  \<open>kromaAdapter E = (protocolBase E ChainKroma 8545)\<lparr>
     adConfigTemplate := (\<lambda>_. Inr (''config.toml'', kromaConfig)),
     adContainerPorts := kroma_ContainerPorts,
     adContainerArgs := Some kroma_ContainerArgs,
     adContainerEnv := Some kroma_ContainerEnv,
     adDefaultResources := Some \<lparr>rdCPURequest = 4 * 1000, rdMemoryRequest = 8 * 2 ^ 30, rdStorage = 300 * 2 ^ 30\<rparr>\<rparr>\<close>

definition defaultLineaL1URL :: "string" where
  \<open>defaultLineaL1URL =
     ''http://ethereum:8545''\<close>

definition lineaConfig :: "string" where
  \<open>lineaConfig =
     unlines [
    ''# Linea Besu node configuration'',
    ''data-path="/data"'',
    ''network="linea"'',
    ''sync-mode="SNAP"'',
    [],
    ''rpc-http-enabled=true'',
    ''rpc-http-host="0.0.0.0"'',
    ''rpc-http-port=8545'',
    ''rpc-http-api=["ETH","NET","WEB3","TXPOOL","LINEA"]'',
    ''rpc-http-cors-origins=["*"]'',
    [],
    ''rpc-ws-enabled=true'',
    ''rpc-ws-host="0.0.0.0"'',
    ''rpc-ws-port=8546'',
    ''rpc-ws-api=["ETH","NET","WEB3"]'',
    [],
    ''host-allowlist=["*"]'',
    ''p2p-host="0.0.0.0"'',
    ''p2p-port=30303'']\<close>

definition linea_ContainerEnv :: "ChainInstanceSpec \<Rightarrow> EnvVar list" where
  \<open>linea_ContainerEnv spec =
     [EnvValue ''L1_RPC_URL'' defaultLineaL1URL]\<close>

definition linea_ContainerArgs :: "ChainInstanceSpec \<Rightarrow> string list" where
  \<open>linea_ContainerArgs spec =
     [''--config-file=/config/config.toml'', ''--plugin-linea-l1-rpc-endpoint=$(L1_RPC_URL)'',
      ''--metrics-enabled'', ''--metrics-host=0.0.0.0'', ''--metrics-port=9545'']\<close>

definition linea_ContainerPorts :: "ChainInstanceSpec \<Rightarrow> ContainerPort list" where
  \<open>linea_ContainerPorts spec =
     evmPorts 30303 @ [tcpPort ''metrics'' 9545]\<close>

definition lineaAdapter :: "('w, 'x) rpc_env_scheme \<Rightarrow> 'w ChainAdapter" where
  \<open>lineaAdapter E = (protocolBase E ChainLinea 8545)\<lparr>
     adConfigTemplate := (\<lambda>_. Inr (''config.toml'', lineaConfig)),
     adContainerEnv := Some linea_ContainerEnv,
     adContainerArgs := Some linea_ContainerArgs,
     adDefaultResources := Some \<lparr>rdCPURequest = 4 * 1000, rdMemoryRequest = 8 * 2 ^ 30, rdStorage = 1 * 2 ^ 40\<rparr>,
     adContainerPorts := linea_ContainerPorts\<rparr>\<close>

definition defaultMantaPacificL1URL :: "string" where
  \<open>defaultMantaPacificL1URL =
     ''http://ethereum:8545''\<close>

definition mantaPacificConfig :: "string" where
  \<open>mantaPacificConfig =
     unlines [
    ''# Manta Pacific (OP Stack) op-geth configuration'',
    ''[Eth]'',
    ''NetworkId = 169'',
    ''SyncMode = "snap"'',
    [],
    ''[Node]'',
    ''DataDir = "/data"'',
    ''HTTPHost = "0.0.0.0"'',
    ''HTTPPort = 8545'',
    ''HTTPModules = ["eth", "net", "web3", "txpool"]'',
    ''HTTPVirtualHosts = ["*"]'',
    ''HTTPCors = ["*"]'',
    ''WSHost = "0.0.0.0"'',
    ''WSPort = 8546'',
    ''WSModules = ["eth", "net", "web3"]'',
    ''WSOrigins = ["*"]'',
    [],
    ''[Node.P2P]'',
    ''MaxPeers = 50'']\<close>

definition mantaPacific_ContainerPorts :: "ChainInstanceSpec \<Rightarrow> ContainerPort list" where
  \<open>mantaPacific_ContainerPorts spec =
     evmPorts 30303 @ [tcpPort ''metrics'' 6060]\<close>

definition mantaPacific_ContainerArgs :: "ChainInstanceSpec \<Rightarrow> string list" where
  \<open>mantaPacific_ContainerArgs spec =
     [''--metrics'', ''--metrics.addr'', ''0.0.0.0'', ''--metrics.port'', ''6060'']\<close>

definition mantaPacific_ContainerEnv :: "ChainInstanceSpec \<Rightarrow> EnvVar list" where
  \<open>mantaPacific_ContainerEnv spec =
     [EnvValue ''L1_RPC_URL'' defaultMantaPacificL1URL]\<close>

definition mantaPacificAdapter :: "('w, 'x) rpc_env_scheme \<Rightarrow> 'w ChainAdapter" where
  \<open>mantaPacificAdapter E = (protocolBase E ChainMantaPacific 8545)\<lparr>
     adConfigTemplate := (\<lambda>_. Inr (''config.toml'', mantaPacificConfig)),
     adDefaultResources := Some \<lparr>rdCPURequest = 4 * 1000, rdMemoryRequest = 8 * 2 ^ 30, rdStorage = 500 * 2 ^ 30\<rparr>,
     adContainerPorts := mantaPacific_ContainerPorts,
     adContainerArgs := Some mantaPacific_ContainerArgs,
     adContainerEnv := Some mantaPacific_ContainerEnv\<rparr>\<close>

definition mantleConfig :: "string" where
  \<open>mantleConfig =
     unlines [
    ''[Node]'',
    ''DataDir = "/data"'',
    ''HTTPHost = "0.0.0.0"'',
    ''HTTPPort = 8545'',
    ''HTTPModules = ["eth", "net", "web3", "rollup"]'',
    ''HTTPVirtualHosts = ["*"]'',
    ''HTTPCors = ["*"]'',
    ''WSHost = "0.0.0.0"'',
    ''WSPort = 8546'',
    ''WSModules = ["eth", "net", "web3"]'',
    ''WSOrigins = ["*"]'',
    [],
    ''[Node.P2P]'',
    ''MaxPeers = 50'',
    ''ListenAddr = ":30303"'']\<close>

definition mantle_LivenessProbe :: "ChainInstanceSpec \<Rightarrow> Probe option" where
  \<open>mantle_LivenessProbe spec =
     Some (tcpProbe 8545 300 30 10 5)\<close>

definition mantle_ContainerPorts :: "ChainInstanceSpec \<Rightarrow> ContainerPort list" where
  \<open>mantle_ContainerPorts spec =
     evmPorts 30303 @ [tcpPort ''metrics'' 6060]\<close>

definition mantle_ContainerArgs :: "ChainInstanceSpec \<Rightarrow> string list" where
  \<open>mantle_ContainerArgs spec =
     [''--datadir'', ''/data'', ''--http'', ''--http.addr'', ''0.0.0.0'', ''--http.port'', ''8545'',
      ''--http.api'', ''eth,net,web3,rollup'', ''--http.vhosts'', ''*'', ''--http.corsdomain'',
      ''*'', ''--ws'', ''--ws.addr'', ''0.0.0.0'', ''--ws.port'', ''8546'', ''--ws.api'',
      ''eth,net,web3'', ''--ws.origins'', ''*'', ''--port'', ''30303'', ''--maxpeers'', ''50'',
      ''--rollup.disabletxpoolgossip'', ''--metrics'', ''--metrics.addr'', ''0.0.0.0'',
      ''--metrics.port'', ''6060'']\<close>

definition mantleAdapter :: "('w, 'x) rpc_env_scheme \<Rightarrow> 'w ChainAdapter" where
  \<open>mantleAdapter E = (protocolBase E ChainMantle 8545)\<lparr>
     adConfigTemplate := (\<lambda>_. Inr (''config.toml'', mantleConfig)),
     adLivenessProbe := mantle_LivenessProbe,
     adContainerPorts := mantle_ContainerPorts,
     adContainerArgs := Some mantle_ContainerArgs,
     adDefaultResources := Some \<lparr>rdCPURequest = 4 * 1000, rdMemoryRequest = 16 * 2 ^ 30, rdStorage = 1 * 2 ^ 40\<rparr>\<rparr>\<close>

definition defaultMegaETHL1URL :: "string" where
  \<open>defaultMegaETHL1URL =
     ''http://ethereum:8545''\<close>

definition megaethConfig :: "string" where
  \<open>megaethConfig =
     unlines [
    ''# MegaETH node configuration'',
    ''[Eth]'',
    ''SyncMode = "snap"'',
    [],
    ''[Node]'',
    ''DataDir = "/data"'',
    [],
    ''[Node.HTTPHost]'',
    ''HTTPHost = "0.0.0.0"'',
    ''HTTPPort = 8545'',
    ''HTTPVirtualHosts = ["*"]'',
    ''HTTPCorsDomain = ["*"]'',
    ''HTTPModules = ["eth", "net", "web3", "debug", "txpool"]'',
    [],
    ''[Node.WSHost]'',
    ''WSHost = "0.0.0.0"'',
    ''WSPort = 8546'',
    ''WSOrigins = ["*"]'',
    ''WSModules = ["eth", "net", "web3"]'',
    [],
    ''[Node.P2P]'',
    ''MaxPeers = 50'',
    ''ListenAddr = ":30303"'']\<close>

definition megaeth_ContainerPorts :: "ChainInstanceSpec \<Rightarrow> ContainerPort list" where
  \<open>megaeth_ContainerPorts spec =
     evmPorts 30303 @ [tcpPort ''metrics'' 6060]\<close>

definition megaeth_ContainerArgs :: "ChainInstanceSpec \<Rightarrow> string list" where
  \<open>megaeth_ContainerArgs spec =
     [''--metrics'', ''--metrics.addr'', ''0.0.0.0'', ''--metrics.port'', ''6060'']\<close>

definition megaeth_ContainerEnv :: "ChainInstanceSpec \<Rightarrow> EnvVar list" where
  \<open>megaeth_ContainerEnv spec =
     [EnvValue ''L1_RPC_URL'' defaultMegaETHL1URL]\<close>

definition megaethAdapter :: "('w, 'x) rpc_env_scheme \<Rightarrow> 'w ChainAdapter" where
  \<open>megaethAdapter E = (protocolBase E ChainMegaETH 8545)\<lparr>
     adConfigTemplate := (\<lambda>_. Inr (''config.toml'', megaethConfig)),
     adDefaultResources := Some \<lparr>rdCPURequest = 4 * 1000, rdMemoryRequest = 8 * 2 ^ 30, rdStorage = 200 * 2 ^ 30\<rparr>,
     adContainerPorts := megaeth_ContainerPorts,
     adContainerArgs := Some megaeth_ContainerArgs,
     adContainerEnv := Some megaeth_ContainerEnv\<rparr>\<close>

definition defaultMetisDTLURL :: "string" where
  \<open>defaultMetisDTLURL =
     ''http://metis-dtl:7878''\<close>

definition metisBootnodes :: "string list" where
  \<open>metisBootnodes =
     [
      ''enode://61b617d2549296b0b950efcf8c1d87227d454d44362e642dde37d83092a445f2b6a6fd651d611b2893249d1e9d15c8f1d4b067142cff53280a08c9c7565c29e2@3.22.33.68:30303'',
      ''enode://524e335aaa2a4555fe2d54f07fc34da83d80b0407d86c606b76ce918f96a348cf91947f7c60b0eabd29f68d2669cc0ced1360636daa53d0ccc948e154d0ce21e@3.129.121.37:30303'',
      ''enode://c4cc213e3c5cb57b1ea6e1aa0b8a28240b03a5fa4b65ff08c53faf448182ae161d68c78fe48040da1e5d9087c6f19b60644605c4c2d78845627f09b90207e56c@3.17.198.212:30303'',
      ''enode://690969c716d2e4f55936a2801ab1d513598f8f2afa85be1c9f9c41e8ce1f07ee352dac2925f86fd54449d7bdd9bddc7342d33c0c46c604db19de63e21362f2cd@54.237.23.7:30303'',
      ''enode://9bbe2b0d7e2cd7c3de7f9674fb95059026667e9b9ce717f927b4f53132dde131fab34995a984ed47328f867e5efea4e5a27dc6a90b6b1f4106f07be215e0ece5@54.174.30.211:30303'',
      ''enode://2577f7c6ffafcdf311e2f79bcc56671825f00a265e5cd1f0224d8bd4b484ba1870930584f37593abfb910a76b51fa82a8b48c53d2511848680beb00c357cf3e0@52.20.251.43:30303'',
      ''enode://5a41bbc2a57c90b443244bc2d9c4470ee84b7af21aa27256178e53a1772950c3bf9a2b6c1a761688064aaa8456f6b4e918918cda867ce59d007ff825bbefe61d@3.126.202.64:30303'',
      ''enode://c0c2826d5bc7baeb2b8fe3aa8726d2572508142aa2476e2d2a667c7452a3dc78b47c1176522a9b4c3203902c3ae487ae4b656c7089334536d9c1468056799939@52.57.227.34:30303'',
      ''enode://86fffa408fca0afc8c9f5cf3f5831d1bc39c2a49d3690ae5219001ff7bec08cac6932dc7e94c65186f7d46daa738449f2eb361d50cde15212a8e8c84eec62605@18.193.199.155:30303'']\<close>

definition metisConfig :: "string" where
  \<open>metisConfig =
     unlines [
    ''# Metis Andromeda l2geth configuration'',
    ''[Eth]'',
    ''NetworkId = 1088'',
    ''SyncMode = "full"'',
    [],
    ''[Node]'',
    ''DataDir = "/data"'',
    ''HTTPHost = "0.0.0.0"'',
    ''HTTPPort = 8545'',
    ''HTTPModules = ["eth", "net", "web3", "txpool"]'',
    ''HTTPVirtualHosts = ["*"]'',
    ''HTTPCors = ["*"]'',
    ''WSHost = "0.0.0.0"'',
    ''WSPort = 8546'',
    ''WSModules = ["eth", "net", "web3"]'',
    ''WSOrigins = ["*"]'',
    [],
    ''[Node.P2P]'',
    ''MaxPeers = 50'']\<close>

definition metis_ContainerPorts :: "ChainInstanceSpec \<Rightarrow> ContainerPort list" where
  \<open>metis_ContainerPorts spec =
     evmPorts 30303 @ [tcpPort ''metrics'' 6060]\<close>

definition metis_ContainerArgs :: "ChainInstanceSpec \<Rightarrow> string list" where
  \<open>metis_ContainerArgs spec =
     [''--config'', ''/config/config.toml'', ''--keystore'', ''/root/.ethereum/keystore'',
      ''--metrics'', ''--pprof'', ''--pprofaddr'', ''0.0.0.0'', ''--pprofport'', ''6060'']\<close>

definition metis_ContainerEnv :: "ChainInstanceSpec \<Rightarrow> EnvVar list" where
  \<open>metis_ContainerEnv spec =
     [
      EnvValue ''VERBOSITY'' ''3'',
      EnvValue ''NO_USB'' ''true'',
      EnvValue ''USING_OVM'' ''true'',
      EnvValue ''CHAIN_ID'' ''1088'',
      EnvValue ''NETWORK_ID'' ''1088'',
      EnvValue ''TARGET_GAS_LIMIT'' ''1100000000'',
      EnvValue ''ETH1_CTC_DEPLOYMENT_HEIGHT'' ''13626959'',
      EnvValue ''ETH1_SYNC_SERVICE_ENABLE'' ''false'',
      EnvValue ''ROLLUP_BACKEND'' ''l1'',
      EnvValue ''ROLLUP_CLIENT_HTTP'' defaultMetisDTLURL,
      EnvValue ''ROLLUP_TIMESTAMP_REFRESH'' ''10s'',
      EnvValue ''ROLLUP_POLL_INTERVAL_FLAG'' ''10s'',
      EnvValue ''ROLLUP_ENFORCE_FEES'' ''true'',
      EnvValue ''ROLLUP_STATE_DUMP_PATH'' ''https://metisprotocol.github.io/metis-networks/andromeda-mainnet/state-dump.latest.json'',
      EnvValue ''BLOCK_SIGNER_KEY'' ''6587ae678cf4fc9a33000cdbf9f35226b71dcc6a4684a31203241f9bcfd55d27'',
      EnvValue ''BLOCK_SIGNER_ADDRESS'' ''0x00000398232E2064F896018496b4b44b3D62751F'',
      EnvValue ''RPC_ENABLE'' ''true'',
      EnvValue ''RPC_ADDR'' ''0.0.0.0'',
      EnvValue ''RPC_PORT'' ''8545'',
      EnvValue ''RPC_API'' ''eth,net,web3,mvm,rollupbridge'',
      EnvValue ''RPC_CORS_DOMAIN'' ''*'',
      EnvValue ''RPC_VHOSTS'' ''*'',
      EnvValue ''WS'' ''true'',
      EnvValue ''WS_ADDR'' ''0.0.0.0'',
      EnvValue ''WS_PORT'' ''8546'',
      EnvValue ''WS_API'' ''eth,net,web3,mvm,rollupbridge'',
      EnvValue ''WS_ORIGINS'' ''*'',
      EnvValue ''SEQSET_VALID_HEIGHT'' ''15214531'',
      EnvValue ''DESEQBLOCK'' ''16500000'',
      EnvValue ''SEQSET_CONTRACT'' ''0x0fe382b74C3894B65c10E5C12ae60Bbd8FAf5b48'',
      EnvValue ''SEQ_BRIDGE_URL'' ''https://andromeda.metis.io'',
      EnvValue ''BOOTNODES'' (Join metisBootnodes '','')]\<close>

definition metisAdapter :: "('w, 'x) rpc_env_scheme \<Rightarrow> 'w ChainAdapter" where
  \<open>metisAdapter E = (protocolBase E ChainMetis 8545)\<lparr>
     adConfigTemplate := (\<lambda>_. Inr (''config.toml'', metisConfig)),
     adDefaultResources := Some \<lparr>rdCPURequest = 4 * 1000, rdMemoryRequest = 8 * 2 ^ 30, rdStorage = 500 * 2 ^ 30\<rparr>,
     adVersionPolicy := Some \<lparr>vpRegistry = ''docker.io'', vpRepository = ''metisdao/l2geth'',
        vpTagPattern = semverTag, vpTagPrefix = []\<rparr>,
     adContainerPorts := metis_ContainerPorts,
     adContainerArgs := Some metis_ContainerArgs,
     adContainerEnv := Some metis_ContainerEnv\<rparr>\<close>

definition monadConfig :: "string" where
  \<open>monadConfig =
     unlines [
    ''{'',
    ''  "rpc": {'',
    ''    "http": true,'',
    ''    "http_addr": "0.0.0.0",'',
    ''    "http_port": 8545,'',
    ''    "ws": true,'',
    ''    "ws_addr": "0.0.0.0",'',
    ''    "ws_port": 8546'',
    ''  },'',
    ''  "p2p": {'',
    ''    "port": 30303'',
    ''  },'',
    ''  "data_dir": "/data"''] @ ''}''\<close>

definition monad_ContainerPorts :: "ChainInstanceSpec \<Rightarrow> ContainerPort list" where
  \<open>monad_ContainerPorts spec =
     evmPorts 30303 @ [tcpPort ''metrics'' 6060]\<close>

definition monad_ContainerArgs :: "ChainInstanceSpec \<Rightarrow> string list" where
  \<open>monad_ContainerArgs spec =
     [''--metrics'', ''--metrics.addr'', ''0.0.0.0'', ''--metrics.port'', ''6060'']\<close>

definition monadAdapter :: "('w, 'x) rpc_env_scheme \<Rightarrow> 'w ChainAdapter" where
  \<open>monadAdapter E = (protocolBase E ChainMonad 8545)\<lparr>
     adConfigTemplate := (\<lambda>_. Inr (''monad.json'', monadConfig)),
     adContainerPorts := monad_ContainerPorts,
     adContainerArgs := Some monad_ContainerArgs,
     adDefaultResources := Some \<lparr>rdCPURequest = 8 * 1000, rdMemoryRequest = 16 * 2 ^ 30, rdStorage = 500 * 2 ^ 30\<rparr>\<rparr>\<close>

definition moonbeamConfig :: "string" where
  \<open>moonbeamConfig =
     unlines [
    ''{'',
    ''  "name": "moonbeam-node",'',
    ''  "rpc": {'',
    ''    "port": 9944,'',
    ''    "external": true,'',
    ''    "cors": "all",'',
    ''    "methods": "unsafe"'',
    ''  },'',
    ''  "prometheus": {'',
    ''    "port": 9615,'',
    ''    "external": true'',
    ''  },'',
    ''  "network": {'',
    ''    "port": 30333,'',
    ''    "nodeKey": ""'',
    ''  },'',
    ''  "base": {'',
    ''    "path": "/data",'',
    ''    "chain": "moonbeam"'',
    ''  }''] @ ''}''\<close>

definition moonbeamArgs :: "string \<Rightarrow> ChainInstanceSpec \<Rightarrow> string list" where
  \<open>moonbeamArgs chain spec =
     (let chain = (if spNetwork spec = NetworkTestnet then ''moonbase-alpha'' else chain) in
     [''--base-path'', ''/data'', ''--chain'', chain, ''--name'', ''k8s-'' @ chain @ ''-node'',
      ''--rpc-port'', ''9944'', ''--rpc-external'', ''--rpc-cors'', ''all'', ''--rpc-methods'',
      ''unsafe'', ''--prometheus-port'', ''9615'', ''--prometheus-external'', ''--port'', ''30333''])\<close>

definition moonbeam_ContainerArgs :: "ChainInstanceSpec \<Rightarrow> string list" where
  \<open>moonbeam_ContainerArgs spec =
     moonbeamArgs ''moonbeam'' spec\<close>

definition moonbeam_ContainerPorts :: "ChainInstanceSpec \<Rightarrow> ContainerPort list" where
  \<open>moonbeam_ContainerPorts spec =
     [tcpPort ''rpc'' 9944, tcpPort ''p2p-tcp'' 30333, udpPort ''p2p-udp'' 30333, tcpPort ''metrics'' 9615]\<close>

definition moonbeamAdapter :: "('w, 'x) rpc_env_scheme \<Rightarrow> 'w ChainAdapter" where
  \<open>moonbeamAdapter E = (protocolBase E ChainMoonbeam 9944)\<lparr>
     adConfigTemplate := (\<lambda>_. Inr (''moonbeam.json'', moonbeamConfig)),
     adContainerArgs := Some moonbeam_ContainerArgs,
     adDefaultResources := Some \<lparr>rdCPURequest = 8 * 1000, rdMemoryRequest = 16 * 2 ^ 30, rdStorage = 2000 * 2 ^ 30\<rparr>,
     adVersionPolicy := Some \<lparr>vpRegistry = ''docker.io'', vpRepository = ''moonbeamfoundation/moonbeam'',
        vpTagPattern = semverTag, vpTagPrefix = []\<rparr>,
     adContainerPorts := moonbeam_ContainerPorts\<rparr>\<close>

definition moonriverConfig :: "string" where
  \<open>moonriverConfig =
     unlines [
    ''{'',
    ''  "name": "moonriver-node",'',
    ''  "rpc": {'',
    ''    "port": 9944,'',
    ''    "external": true,'',
    ''    "cors": "all",'',
    ''    "methods": "unsafe"'',
    ''  },'',
    ''  "prometheus": {'',
    ''    "port": 9615,'',
    ''    "external": true'',
    ''  },'',
    ''  "network": {'',
    ''    "port": 30333,'',
    ''    "nodeKey": ""'',
    ''  },'',
    ''  "base": {'',
    ''    "path": "/data",'',
    ''    "chain": "moonriver"'',
    ''  }''] @ ''}''\<close>

definition moonriver_ContainerArgs :: "ChainInstanceSpec \<Rightarrow> string list" where
  \<open>moonriver_ContainerArgs spec =
     moonbeamArgs ''moonriver'' spec\<close>

definition moonriver_ContainerPorts :: "ChainInstanceSpec \<Rightarrow> ContainerPort list" where
  \<open>moonriver_ContainerPorts spec =
     [tcpPort ''rpc'' 9944, tcpPort ''p2p-tcp'' 30333, udpPort ''p2p-udp'' 30333, tcpPort ''metrics'' 9615]\<close>

definition moonriverAdapter :: "('w, 'x) rpc_env_scheme \<Rightarrow> 'w ChainAdapter" where
  \<open>moonriverAdapter E = (protocolBase E ChainMoonriver 9944)\<lparr>
     adConfigTemplate := (\<lambda>_. Inr (''moonriver.json'', moonriverConfig)),
     adContainerArgs := Some moonriver_ContainerArgs,
     adDefaultResources := Some \<lparr>rdCPURequest = 4 * 1000, rdMemoryRequest = 8 * 2 ^ 30, rdStorage = 1000 * 2 ^ 30\<rparr>,
     adVersionPolicy := Some \<lparr>vpRegistry = ''docker.io'', vpRepository = ''moonbeamfoundation/moonbeam'',
        vpTagPattern = semverTag, vpTagPrefix = []\<rparr>,
     adContainerPorts := moonriver_ContainerPorts\<rparr>\<close>

definition defaultMorphL1URL :: "string" where
  \<open>defaultMorphL1URL =
     ''http://ethereum:8545''\<close>

definition defaultMorphL1BeaconURL :: "string" where
  \<open>defaultMorphL1BeaconURL =
     ''http://ethereum-beacon:5052''\<close>

definition morphNetworkFiles :: "string" where
  \<open>morphNetworkFiles =
     ''https://raw.githubusercontent.com/morph-l2/run-morph-node/7ee4170ec4b18f80ebb4e4bfd227751219b1e53f/mainnet/node-data/config''\<close>

definition morphConfigTOMLSHA256 :: "string" where
  \<open>morphConfigTOMLSHA256 =
     ''567059374d279386e9a7849151b9fd1829f3f75ea98382dfaf2b54b003426a00''\<close>

definition morphGenesisSHA256 :: "string" where
  \<open>morphGenesisSHA256 =
     ''f82415910772b9a8843fd90ff94c79d2f8e9c4983d6afffe2e1656d526f53b3e''\<close>

definition morphConfig :: "string" where
  \<open>morphConfig =
     unlines [
    ''# Morph L2 node'',
    ''[Eth]'',
    ''SyncMode = "snap"'',
    [],
    ''[Node]'',
    ''DataDir = "/data"'',
    ''HTTPHost = "0.0.0.0"'',
    ''HTTPPort = 8545'',
    ''HTTPModules = ["eth", "net", "web3", "txpool"]'',
    ''HTTPVirtualHosts = ["*"]'',
    ''HTTPCors = ["*"]'',
    ''WSHost = "0.0.0.0"'',
    ''WSPort = 8546'',
    ''WSModules = ["eth", "net", "web3"]'',
    ''WSOrigins = ["*"]'',
    [],
    ''[Node.P2P]'',
    ''MaxPeers = 50'']\<close>

definition morph_ContainerPorts :: "ChainInstanceSpec \<Rightarrow> ContainerPort list" where
  \<open>morph_ContainerPorts spec =
     evmPorts 30303 @ [tcpPort ''metrics'' 26660]\<close>

definition morph_ContainerCommand :: "ChainInstanceSpec \<Rightarrow> string list" where
  \<open>morph_ContainerCommand spec =
     (let script = unlines [
    ''set -e''] @ ''NET='' @ morphNetworkFiles @ unlines [
    [],
    ''C=/data/config'',
    ''mkdir -p $C /data/data'',
    ''fetch() {'',
    ''  [ -f "$C/$1" ] && return 0'',
    ''  wget -qO "$C/$1.part" "$NET/$1"'',
    ''  if ! echo "$2  $C/$1.part" | sha256sum -c - >/dev/null 2>&1; then'',
    ''    rm -f "$C/$1.part"'',
    ''    echo "$1 from $NET does not match pinned sha256 $2" >&2'',
    ''    exit 1'',
    ''  fi'',
    ''  mv "$C/$1.part" "$C/$1"'',
    ''}''] @ ''fetch config.toml '' @ morphConfigTOMLSHA256 @ unlines [
    []] @ ''fetch genesis.json '' @ morphGenesisSHA256 @ unlines [
    []] @ ''exec morphnode --home /data --mainnet --l2.jwt-secret /data/jwt-secret.txt "$@"'' in
     [''sh'', ''-c'', script, ''--''])\<close>

definition morph_ContainerEnv :: "ChainInstanceSpec \<Rightarrow> EnvVar list" where
  \<open>morph_ContainerEnv spec =
     [
      EnvValue ''MORPH_NODE_L2_ETH_RPC'' ''http://127.0.0.1:8545'',
      EnvValue ''MORPH_NODE_L2_ENGINE_RPC'' ''http://127.0.0.1:8551'',
      EnvValue ''MORPH_NODE_L1_ETH_RPC'' defaultMorphL1URL,
      EnvValue ''MORPH_NODE_L1_ETH_BEACON_RPC'' defaultMorphL1BeaconURL,
      EnvValue ''MORPH_NODE_L1_CHAIN_ID'' ''1'',
      EnvValue ''MORPH_NODE_ROLLUP_ADDRESS'' ''0x759894ced0e6af42c26668076ffa84d02e3cef60'',
      EnvValue ''MORPH_NODE_SYNC_DEPOSIT_CONTRACT_ADDRESS'' ''0x3931ade842f5bb8763164bdd81e5361dce6cc1ef'']\<close>

definition morphAdapter :: "('w, 'x) rpc_env_scheme \<Rightarrow> 'w ChainAdapter" where
  \<open>morphAdapter E = (protocolBase E ChainMorph 8545)\<lparr>
     adConfigTemplate := (\<lambda>_. Inr (''config.toml'', morphConfig)),
     adDefaultResources := Some \<lparr>rdCPURequest = 2 * 1000, rdMemoryRequest = 4 * 2 ^ 30, rdStorage = 200 * 2 ^ 30\<rparr>,
     adVersionPolicy := Some \<lparr>vpRegistry = ''ghcr.io'', vpRepository = ''morph-l2/node'',
        vpTagPattern = ''^'' @ [CHR 0x5C] @ ''d+'' @ [CHR 0x5C] @ ''.'' @ [CHR 0x5C] @ ''d+'' @ [CHR 0x5C] @ ''.'' @ [CHR 0x5C] @ ''d+$'', vpTagPrefix = []\<rparr>,
     adContainerPorts := morph_ContainerPorts,
     adContainerCommand := Some morph_ContainerCommand,
     adContainerEnv := Some morph_ContainerEnv\<rparr>\<close>

definition defaultOpBNBL1URL :: "string" where
  \<open>defaultOpBNBL1URL =
     ''http://bsc:8545''\<close>

definition opbnbConfig :: "string" where
  \<open>opbnbConfig =
     unlines [
    ''# op-geth configuration for opBNB Mainnet (BNB Chain L2, OP Stack)'',
    ''[Eth]'',
    ''NetworkId = 204'',
    ''SyncMode = "snap"'',
    [],
    ''[Node]'',
    ''DataDir = "/data"'',
    ''HTTPHost = "0.0.0.0"'',
    ''HTTPPort = 8545'',
    ''HTTPVirtualHosts = ["*"]'',
    ''HTTPCors = ["*"]'',
    ''HTTPModules = ["eth", "net", "web3", "debug", "txpool"]'',
    ''WSHost = "0.0.0.0"'',
    ''WSPort = 8546'',
    ''WSOrigins = ["*"]'',
    ''WSModules = ["eth", "net", "web3"]'',
    [],
    ''[Node.P2P]'',
    ''MaxPeers = 50'',
    ''ListenAddr = ":30303"'']\<close>

definition opbnb_ContainerPorts :: "ChainInstanceSpec \<Rightarrow> ContainerPort list" where
  \<open>opbnb_ContainerPorts spec =
     evmPorts 30303 @ [tcpPort ''metrics'' 6060]\<close>

definition opbnb_ContainerArgs :: "ChainInstanceSpec \<Rightarrow> string list" where
  \<open>opbnb_ContainerArgs spec =
     opGethArgs @ [''--opBNBMainnet'']\<close>

definition opbnb_ContainerEnv :: "ChainInstanceSpec \<Rightarrow> EnvVar list" where
  \<open>opbnb_ContainerEnv spec =
     [EnvValue ''L1_RPC_URL'' defaultOpBNBL1URL]\<close>

definition opbnbAdapter :: "('w, 'x) rpc_env_scheme \<Rightarrow> 'w ChainAdapter" where
  \<open>opbnbAdapter E = (protocolBase E ChainOpBNB 8545)\<lparr>
     adConfigTemplate := (\<lambda>_. Inr (''config.toml'', opbnbConfig)),
     adContainerPorts := opbnb_ContainerPorts,
     adContainerArgs := Some opbnb_ContainerArgs,
     adDefaultResources := Some \<lparr>rdCPURequest = 4 * 1000, rdMemoryRequest = 8 * 2 ^ 30, rdStorage = 500 * 2 ^ 30\<rparr>,
     adVersionPolicy := Some \<lparr>vpRegistry = ''ghcr.io'', vpRepository = ''bnb-chain/op-geth'',
        vpTagPattern = semverTag, vpTagPrefix = []\<rparr>,
     adContainerEnv := Some opbnb_ContainerEnv\<rparr>\<close>

definition plasmaConfig :: "string" where
  \<open>plasmaConfig =
     unlines [
    ''# Plasma Next placeholder configuration'',
    ''# NOTE: Plasma Next is a ZKP-based payment channel protocol.'',
    ''# Replace with actual Plasma-specific configuration when available.'',
    ''[Node]'',
    ''DataDir = "/data"'']\<close>

definition plasma_HealthCheck :: "ctx \<Rightarrow> string \<Rightarrow> ('w, goerr + SyncStatus) state" where
  \<open>plasma_HealthCheck c rpcURL = ret (Inl (GoErr ''plasma adapter not implemented''))\<close>

definition plasma_ContainerPorts :: "ChainInstanceSpec \<Rightarrow> ContainerPort list" where
  \<open>plasma_ContainerPorts spec =
     evmPorts 30303 @ [tcpPort ''metrics'' 6060]\<close>

definition plasma_ContainerCommand :: "ChainInstanceSpec \<Rightarrow> string list" where
  \<open>plasma_ContainerCommand spec =
     [''/usr/bin/plasma-cli'', ''node'']\<close>

definition plasmaAdapter :: "('w, 'x) rpc_env_scheme \<Rightarrow> 'w ChainAdapter" where
  \<open>plasmaAdapter E = (protocolBase E ChainPlasma 8545)\<lparr>
     adHealthCheck := plasma_HealthCheck,
     adConfigTemplate := (\<lambda>_. Inr (''config.toml'', plasmaConfig)),
     adContainerPorts := plasma_ContainerPorts,
     adContainerCommand := Some plasma_ContainerCommand,
     adDefaultResources := Some \<lparr>rdCPURequest = 2 * 1000, rdMemoryRequest = 4 * 2 ^ 30, rdStorage = 100 * 2 ^ 30\<rparr>,
     adVersionPolicy := Some \<lparr>vpRegistry = ''ghcr.io'', vpRepository = ''plasmalaboratories/plasma-consensus-public'',
        vpTagPattern = ''^'' @ [CHR 0x5C] @ ''d+'' @ [CHR 0x5C] @ ''.'' @ [CHR 0x5C] @ ''d+'' @ [CHR 0x5C] @ ''.'' @ [CHR 0x5C] @ ''d+$'', vpTagPrefix = []\<rparr>\<rparr>\<close>

end
