(* ===== verification/Evm_Adapters3.thy ===== *)
theory Evm_Adapters3
  imports Evm_Adapters1
begin

text \<open>
  Adapters of EVM chains, third part: \<open>polygon.go\<close> to \<open>zircuit.go\<close>, and \<open>berachain.go\<close>.
\<close>

definition polygonConfig :: "string" where
  \<open>polygonConfig =
     unlines [
    ''# Bor 2.x mainnet RPC node with Heimdall sidecar'',
    ''chain = "mainnet"'',
    ''datadir = "/data"'',
    ''syncmode = "full"'',
    ''gcmode = "archive"'',
    [],
    ''[jsonrpc]'',
    ''  [jsonrpc.http]'',
    ''    enabled = true'',
    ''    host = "0.0.0.0"'',
    ''    port = 8545'',
    ''    api = ["eth", "net", "web3", "txpool", "bor"]'',
    ''    vhosts = ["*"]'',
    ''    corsdomain = ["*"]'',
    ''  [jsonrpc.ws]'',
    ''    enabled = true'',
    ''    host = "0.0.0.0"'',
    ''    port = 8546'',
    ''    api = ["eth", "net", "web3"]'',
    ''    origins = ["*"]'',
    [],
    ''[p2p]'',
    ''  maxpeers = 50'',
    [],
    ''[txpool]'',
    ''  pricelimit = 25000000000'',
    [],
    ''[bor]'',
    ''  withoutheimdall = false'',
    [],
    ''[heimdall]'',
    ''  url = "http://localhost:1317"'',
    [],
    ''[log]'',
    ''  verbosity = 3'',
    [],
    ''[telemetry]'',
    ''  metrics = true'',
    ''  prometheus-addr = "0.0.0.0:6060"'']\<close>

definition polygon_ContainerCommand :: "ChainInstanceSpec \<Rightarrow> string list" where
  \<open>polygon_ContainerCommand spec =
     [''bor'', ''server'', ''--config'', ''/config/config.toml'']\<close>

definition polygon_LivenessProbe :: "ChainInstanceSpec \<Rightarrow> Probe option" where
  \<open>polygon_LivenessProbe spec =
     Some (tcpProbe 8545 300 30 10 5)\<close>

definition polygon_ContainerPorts :: "ChainInstanceSpec \<Rightarrow> ContainerPort list" where
  \<open>polygon_ContainerPorts spec =
     [
      tcpPort ''rpc'' 8545,
      tcpPort ''ws'' 8546,
      (tcpPort ''p2p-tcp'' 30303)\<lparr>cpHostPort := 30303\<rparr>,
      (udpPort ''p2p-udp'' 30303)\<lparr>cpHostPort := 30303\<rparr>,
      tcpPort ''metrics'' 6060]\<close>

definition polygonAdapter :: "('w, 'x) rpc_env_scheme \<Rightarrow> 'w ChainAdapter" where
  \<open>polygonAdapter E = (protocolBase E ChainPolygon 8545)\<lparr>
     adConfigTemplate := (\<lambda>_. Inr (''config.toml'', polygonConfig)),
     adContainerCommand := Some polygon_ContainerCommand,
     adLivenessProbe := polygon_LivenessProbe,
     adContainerPorts := polygon_ContainerPorts,
     adDefaultResources := Some \<lparr>rdCPURequest = 8 * 1000, rdMemoryRequest = 8 * 2 ^ 30, rdStorage = 500 * 2 ^ 30\<rparr>,
     adVersionPolicy := Some \<lparr>vpRegistry = ''docker.io'', vpRepository = ''0xpolygon/bor'',
        vpTagPattern = ''^'' @ [CHR 0x5C] @ ''d+'' @ [CHR 0x5C] @ ''.'' @ [CHR 0x5C] @ ''d+'' @ [CHR 0x5C] @ ''.'' @ [CHR 0x5C] @ ''d+$'', vpTagPrefix = []\<rparr>\<rparr>\<close>

definition defaultPolygonZkEVML1URL :: "string" where
  \<open>defaultPolygonZkEVML1URL =
     ''http://ethereum:8545''\<close>

definition polygonZkEVMConfig :: "string" where
  \<open>polygonZkEVMConfig =
     unlines [
    ''# Polygon zkEVM mainnet node (cdk-erigon, hermez-mainnet)'',
    ''datadir: /data'',
    ''chain: hermez-mainnet'',
    [],
    ''http: true'',
    ''http.addr: 0.0.0.0'',
    ''http.port: 8545'',
    ''http.api: [eth, debug, net, trace, web3, erigon, zkevm]'',
    ''http.vhosts: any'',
    ''http.corsdomain: any'',
    ''ws: true'',
    [],
    ''private.api.addr: localhost:9091'',
    ''metrics: true'',
    ''metrics.addr: 0.0.0.0'',
    ''metrics.port: 6061'',
    [],
    ''externalcl: true'',
    [],
    ''zkevm.l2-chain-id: 1101'',
    ''zkevm.l2-sequencer-rpc-url: https://zkevm-rpc.com'',
    ''zkevm.l2-datastreamer-url: stream.zkevm-rpc.com:6900'',
    ''zkevm.l1-chain-id: 1'',
    ''zkevm.l1-rollup-id: 1'',
    ''zkevm.address-sequencer: "0x148Ee7dAF16574cD020aFa34CC658f8F3fbd2800"'',
    ''zkevm.address-zkevm: "0x519E42c24163192Dca44CD3fBDCEBF6be9130987"'',
    ''zkevm.address-rollup: "0x5132A183E9F3CB7C848b0AAC5Ae0c4f0491B7aB2"'',
    ''zkevm.address-ger-manager: "0x580bda1e7A0CFAe92Fa7F6c20A3794F169CE3CFb"'',
    ''zkevm.l1-block-range: 20000'',
    ''zkevm.l1-query-delay: 6000'',
    ''zkevm.l1-first-block: 16896700'',
    ''zkevm.default-gas-price: 1000000000'',
    ''zkevm.max-gas-price: 0'',
    ''zkevm.gas-price-factor: 0.0375'']\<close>

definition polygonZkEVM_ContainerArgs :: "ChainInstanceSpec \<Rightarrow> string list" where
  \<open>polygonZkEVM_ContainerArgs spec =
     [''--config=/config/hermezconfig.yaml'', ''--zkevm.l1-rpc-url=$(L1_RPC_URL)'']\<close>

definition polygonZkEVM_ContainerEnv :: "ChainInstanceSpec \<Rightarrow> EnvVar list" where
  \<open>polygonZkEVM_ContainerEnv spec =
     [EnvValue ''L1_RPC_URL'' defaultPolygonZkEVML1URL]\<close>

definition polygonZkEVM_ContainerPorts :: "ChainInstanceSpec \<Rightarrow> ContainerPort list" where
  \<open>polygonZkEVM_ContainerPorts spec =
     (let ports = evmPorts 30303 in
     ports @ [tcpPort ''metrics'' 6061])\<close>

definition polygonZkEVMAdapter :: "('w, 'x) rpc_env_scheme \<Rightarrow> 'w ChainAdapter" where
  \<open>polygonZkEVMAdapter E = (protocolBase E ChainPolygonZkEVM 8545)\<lparr>
     adConfigTemplate := (\<lambda>_. Inr (''hermezconfig.yaml'', polygonZkEVMConfig)),
     adContainerArgs := Some polygonZkEVM_ContainerArgs,
     adContainerEnv := Some polygonZkEVM_ContainerEnv,
     adContainerPorts := polygonZkEVM_ContainerPorts,
     adVersionPolicy := Some \<lparr>vpRegistry = ''ghcr.io'', vpRepository = ''0xpolygon/cdk-erigon'',
        vpTagPattern = semverTag, vpTagPrefix = []\<rparr>,
     adDefaultResources := Some \<lparr>rdCPURequest = 8 * 1000, rdMemoryRequest = 16 * 2 ^ 30, rdStorage = 2 * 2 ^ 40\<rparr>\<rparr>\<close>

definition roninConfig :: "string" where
  \<open>roninConfig =
     unlines [
    ''# Ronin mainnet RPC node'',
    ''[Node]'',
    ''DataDir = "/data"'',
    ''HTTPHost = "0.0.0.0"'',
    ''HTTPPort = 8545'',
    ''HTTPModules = ["eth", "net", "web3"]'',
    ''HTTPVirtualHosts = ["*"]'',
    ''HTTPCors = ["*"]'',
    ''WSHost = "0.0.0.0"'',
    ''WSPort = 8546'',
    ''WSModules = ["eth", "net", "web3"]'',
    ''WSOrigins = ["*"]'',
    [],
    ''[Node.P2P]'',
    ''MaxPeers = 50'']\<close>

definition ronin_ContainerPorts :: "ChainInstanceSpec \<Rightarrow> ContainerPort list" where
  \<open>ronin_ContainerPorts spec =
     evmPorts 30303 @ [tcpPort ''metrics'' 6060]\<close>

definition ronin_ContainerArgs :: "ChainInstanceSpec \<Rightarrow> string list" where
  \<open>ronin_ContainerArgs spec =
     [''--metrics'', ''--metrics.addr'', ''0.0.0.0'', ''--metrics.port'', ''6060'']\<close>

definition roninAdapter :: "('w, 'x) rpc_env_scheme \<Rightarrow> 'w ChainAdapter" where
  \<open>roninAdapter E = (protocolBase E ChainRonin 8545)\<lparr>
     adConfigTemplate := (\<lambda>_. Inr (''config.toml'', roninConfig)),
     adContainerPorts := ronin_ContainerPorts,
     adContainerArgs := Some ronin_ContainerArgs,
     adDefaultResources := Some \<lparr>rdCPURequest = 4 * 1000, rdMemoryRequest = 8 * 2 ^ 30, rdStorage = 1 * 2 ^ 40\<rparr>\<rparr>\<close>

definition rootstockConfigPath :: "string" where
  \<open>rootstockConfigPath =
     ''/config/rsk.conf''\<close>

definition rootstockConfig :: "string" where
  \<open>rootstockConfig =
     unlines [
    ''# Rootstock (RSK) mainnet RPC node'',
    ''blockchain.config.name = "main"'',
    [],
    ''database.dir = "/data"'',
    [],
    ''rpc {'',
    ''  providers {'',
    ''    web {'',
    ''      cors = "*"'',
    ''      http {'',
    ''        enabled = true'',
    ''        bind_address = "0.0.0.0"'',
    ''        port = 4444'',
    ''        hosts = ["*"]'',
    ''      }'',
    ''      ws {'',
    ''        enabled = true'',
    ''        bind_address = "0.0.0.0"'',
    ''        port = 4445'',
    ''      }'',
    ''    }'',
    ''  }'',
    ''  modules {'',
    ''    eth { version = "1.0", enabled = true }'',
    ''    net { version = "1.0", enabled = true }'',
    ''    web3 { version = "1.0", enabled = true }'',
    ''    rsk { version = "1.0", enabled = true }'',
    ''  }'',
    ''}'',
    [],
    ''peer {'',
    ''  port = 5050'',
    ''  discovery.enabled = true'',
    ''}'']\<close>

definition rootstock_ContainerPorts :: "ChainInstanceSpec \<Rightarrow> ContainerPort list" where
  \<open>rootstock_ContainerPorts spec =
     [tcpPort ''rpc'' 4444, tcpPort ''p2p-tcp'' 5050, udpPort ''p2p-udp'' 5050]\<close>

definition rootstock_ContainerEnv :: "ChainInstanceSpec \<Rightarrow> EnvVar list" where
  \<open>rootstock_ContainerEnv spec =
     [EnvValue ''RSKJ_SYS_PROPS'' (''-Drsk.conf.file='' @ rootstockConfigPath)]\<close>

definition rootstockAdapter :: "('w, 'x) rpc_env_scheme \<Rightarrow> 'w ChainAdapter" where
  \<open>rootstockAdapter E = (protocolBase E ChainRootstock 4444)\<lparr>
     adConfigTemplate := (\<lambda>_. Inr (''rsk.conf'', rootstockConfig)),
     adContainerPorts := rootstock_ContainerPorts,
     adContainerEnv := Some rootstock_ContainerEnv,
     adVersionPolicy := Some \<lparr>vpRegistry = ''docker.io'', vpRepository = ''rsksmart/rskj'',
        vpTagPattern = ''^ARROWHEAD-'' @ [CHR 0x5C] @ ''d+'', vpTagPrefix = ''ARROWHEAD-''\<rparr>,
     adDefaultResources := Some \<lparr>rdCPURequest = 2 * 1000, rdMemoryRequest = 4 * 2 ^ 30, rdStorage = 200 * 2 ^ 30\<rparr>\<rparr>\<close>

definition defaultScrollL1URL :: "string" where
  \<open>defaultScrollL1URL =
     ''http://ethereum:8545''\<close>

definition scrollConfig :: "string" where
  \<open>scrollConfig =
     unlines [
    ''[Eth]'',
    ''NetworkId = 534352'',
    ''SyncMode = "full"'',
    [],
    ''[Node]'',
    ''DataDir = "/data"'',
    ''HTTPHost = "0.0.0.0"'',
    ''HTTPPort = 8545'',
    ''HTTPModules = ["eth", "net", "web3", "txpool", "scroll"]'',
    ''HTTPVirtualHosts = ["*"]'',
    ''HTTPCors = ["*"]'',
    ''WSHost = "0.0.0.0"'',
    ''WSPort = 8546'',
    ''WSModules = ["eth", "net", "web3"]'',
    ''WSOrigins = ["*"]'',
    [],
    ''[Node.P2P]'',
    ''MaxPeers = 50'',
    ''ListenAddr = ":30303"'']\<close>

definition scroll_ContainerEnv :: "ChainInstanceSpec \<Rightarrow> EnvVar list" where
  \<open>scroll_ContainerEnv spec =
     [EnvValue ''L1_RPC_URL'' defaultScrollL1URL]\<close>

definition scroll_ContainerArgs :: "ChainInstanceSpec \<Rightarrow> string list" where
  \<open>scroll_ContainerArgs spec =
     [''--config'', ''/config/config.toml'', ''--l1.endpoint'', ''$(L1_RPC_URL)'', ''--metrics'',
      ''--metrics.addr'', ''0.0.0.0'', ''--metrics.port'', ''6060'']\<close>

definition scroll_ContainerPorts :: "ChainInstanceSpec \<Rightarrow> ContainerPort list" where
  \<open>scroll_ContainerPorts spec =
     evmPorts 30303 @ [tcpPort ''metrics'' 6060]\<close>

definition scrollAdapter :: "('w, 'x) rpc_env_scheme \<Rightarrow> 'w ChainAdapter" where
  \<open>scrollAdapter E = (protocolBase E ChainScroll 8545)\<lparr>
     adConfigTemplate := (\<lambda>_. Inr (''config.toml'', scrollConfig)),
     adContainerEnv := Some scroll_ContainerEnv,
     adContainerArgs := Some scroll_ContainerArgs,
     adDefaultResources := Some \<lparr>rdCPURequest = 4 * 1000, rdMemoryRequest = 8 * 2 ^ 30, rdStorage = 500 * 2 ^ 30\<rparr>,
     adVersionPolicy := Some \<lparr>vpRegistry = ''docker.io'', vpRepository = ''scrolltech/l2geth'',
        vpTagPattern = ''^scroll-v'' @ [CHR 0x5C] @ ''d+'', vpTagPrefix = ''scroll-''\<rparr>,
     adContainerPorts := scroll_ContainerPorts\<rparr>\<close>

definition shibariumConfig :: "string" where
  \<open>shibariumConfig =
     unlines [
    ''# Shibarium mainnet (Polygon Bor-based, chainId 109)'',
    ''[Eth]'',
    ''NetworkId = 109'',
    ''SyncMode = "snap"'',
    [],
    ''[Node]'',
    ''DataDir = "/data"'',
    ''HTTPHost = "0.0.0.0"'',
    ''HTTPPort = 8545'',
    ''HTTPModules = ["eth", "net", "web3", "txpool"]'',
    ''HTTPVirtualHosts = ["*"]'',
    ''HTTPCors = ["*"]'',
    ''WSHost = "0.0.0.0"'',
    ''WSPort = 8546'',
    ''WSModules = ["eth", "net", "web3"]'',
    ''WSOrigins = ["*"]'',
    [],
    ''[Node.P2P]'',
    ''MaxPeers = 50'',
    ''ListenAddr = ":30303"'']\<close>

definition shibarium_ContainerPorts :: "ChainInstanceSpec \<Rightarrow> ContainerPort list" where
  \<open>shibarium_ContainerPorts spec =
     evmPorts 30303 @ [tcpPort ''metrics'' 6060]\<close>

definition shibarium_ContainerArgs :: "ChainInstanceSpec \<Rightarrow> string list" where
  \<open>shibarium_ContainerArgs spec =
     [''--metrics'', ''--metrics.addr'', ''0.0.0.0'', ''--metrics.port'', ''6060'']\<close>

definition shibariumAdapter :: "('w, 'x) rpc_env_scheme \<Rightarrow> 'w ChainAdapter" where
  \<open>shibariumAdapter E = (protocolBase E ChainShibarium 8545)\<lparr>
     adConfigTemplate := (\<lambda>_. Inr (''config.toml'', shibariumConfig)),
     adContainerPorts := shibarium_ContainerPorts,
     adContainerArgs := Some shibarium_ContainerArgs,
     adDefaultResources := Some \<lparr>rdCPURequest = 2 * 1000, rdMemoryRequest = 4 * 2 ^ 30, rdStorage = 200 * 2 ^ 30\<rparr>\<rparr>\<close>

definition sonicConfig :: "string" where
  \<open>sonicConfig =
     unlines [
    ''# Sonic (Fantom successor) mainnet RPC node'',
    ''[Node]'',
    ''DataDir = "/data"'',
    ''HTTPHost = "0.0.0.0"'',
    ''HTTPPort = 18545'',
    ''HTTPModules = ["eth", "net", "web3", "ftm", "sonic"]'',
    ''HTTPVirtualHosts = ["*"]'',
    ''HTTPCors = ["*"]'',
    ''WSHost = "0.0.0.0"'',
    ''WSPort = 18546'',
    ''WSModules = ["eth", "net", "web3"]'',
    ''WSOrigins = ["*"]'',
    [],
    ''[Node.P2P]'',
    ''MaxPeers = 50'',
    ''ListenAddr = ":5050"'']\<close>

definition sonic_ContainerPorts :: "ChainInstanceSpec \<Rightarrow> ContainerPort list" where
  \<open>sonic_ContainerPorts spec =
     [
      tcpPort ''rpc'' 18545,
      tcpPort ''ws'' 18546,
      tcpPort ''p2p-tcp'' 5050,
      udpPort ''p2p-udp'' 5050,
      tcpPort ''metrics'' 6060]\<close>

definition sonic_ContainerArgs :: "ChainInstanceSpec \<Rightarrow> string list" where
  \<open>sonic_ContainerArgs spec =
     [''--metrics'', ''--metrics.addr'', ''0.0.0.0'', ''--metrics.port'', ''6060'']\<close>

definition sonicAdapter :: "('w, 'x) rpc_env_scheme \<Rightarrow> 'w ChainAdapter" where
  \<open>sonicAdapter E = (protocolBase E ChainSonic 18545)\<lparr>
     adConfigTemplate := (\<lambda>_. Inr (''config.toml'', sonicConfig)),
     adContainerPorts := sonic_ContainerPorts,
     adContainerArgs := Some sonic_ContainerArgs,
     adDefaultResources := Some \<lparr>rdCPURequest = 4 * 1000, rdMemoryRequest = 8 * 2 ^ 30, rdStorage = 500 * 2 ^ 30\<rparr>\<rparr>\<close>

definition defaultSwellL1URL :: "string" where
  \<open>defaultSwellL1URL =
     ''http://ethereum:8545''\<close>

definition swellConfig :: "string" where
  \<open>swellConfig =
     unlines [
    ''# Swell L2 (OP Stack) op-geth node'',
    ''[Eth]'',
    ''SyncMode = "snap"'',
    [],
    ''[Node]'',
    ''DataDir = "/data"'',
    ''HTTPHost = "0.0.0.0"'',
    ''HTTPPort = 8545'',
    ''HTTPModules = ["eth", "net", "web3", "txpool"]'',
    ''HTTPVirtualHosts = ["*"]'',
    ''HTTPCors = ["*"]'',
    ''WSHost = "0.0.0.0"'',
    ''WSPort = 8546'',
    ''WSModules = ["eth", "net", "web3"]'',
    ''WSOrigins = ["*"]'',
    [],
    ''[Node.P2P]'',
    ''MaxPeers = 50'']\<close>

definition swell_ContainerPorts :: "ChainInstanceSpec \<Rightarrow> ContainerPort list" where
  \<open>swell_ContainerPorts spec =
     evmPorts 30303 @ [tcpPort ''metrics'' 6060]\<close>

definition swell_ContainerArgs :: "ChainInstanceSpec \<Rightarrow> string list" where
  \<open>swell_ContainerArgs spec =
     [''--metrics'', ''--metrics.addr'', ''0.0.0.0'', ''--metrics.port'', ''6060'']\<close>

definition swell_ContainerEnv :: "ChainInstanceSpec \<Rightarrow> EnvVar list" where
  \<open>swell_ContainerEnv spec =
     [EnvValue ''L1_RPC_URL'' defaultSwellL1URL]\<close>

definition swellAdapter :: "('w, 'x) rpc_env_scheme \<Rightarrow> 'w ChainAdapter" where
  \<open>swellAdapter E = (protocolBase E ChainSwell 8545)\<lparr>
     adConfigTemplate := (\<lambda>_. Inr (''config.toml'', swellConfig)),
     adContainerPorts := swell_ContainerPorts,
     adContainerArgs := Some swell_ContainerArgs,
     adContainerEnv := Some swell_ContainerEnv,
     adDefaultResources := Some \<lparr>rdCPURequest = 2 * 1000, rdMemoryRequest = 4 * 2 ^ 30, rdStorage = 200 * 2 ^ 30\<rparr>\<rparr>\<close>

definition defaultTaikoL1URL :: "string" where
  \<open>defaultTaikoL1URL =
     ''http://ethereum:8545''\<close>

definition taikoConfig :: "string" where
  \<open>taikoConfig =
     unlines [
    ''# Taiko L2 geth node'',
    ''[Eth]'',
    ''SyncMode = "snap"'',
    [],
    ''[Node]'',
    ''DataDir = "/data"'',
    ''HTTPHost = "0.0.0.0"'',
    ''HTTPPort = 8545'',
    ''HTTPModules = ["eth", "net", "web3", "txpool"]'',
    ''HTTPVirtualHosts = ["*"]'',
    ''HTTPCors = ["*"]'',
    ''WSHost = "0.0.0.0"'',
    ''WSPort = 8546'',
    ''WSModules = ["eth", "net", "web3"]'',
    ''WSOrigins = ["*"]'',
    [],
    ''[Node.P2P]'',
    ''MaxPeers = 50'']\<close>

definition taiko_ContainerPorts :: "ChainInstanceSpec \<Rightarrow> ContainerPort list" where
  \<open>taiko_ContainerPorts spec =
     evmPorts 30303 @ [tcpPort ''metrics'' 6060]\<close>

definition taiko_ContainerArgs :: "ChainInstanceSpec \<Rightarrow> string list" where
  \<open>taiko_ContainerArgs spec =
     (let networkID = ''167000'' in
     let networkID = (if spNetwork spec = NetworkTestnet then ''167013'' else networkID) in
     [''--taiko'', ''--networkid'', networkID] @ opGethArgs)\<close>

definition taiko_ContainerEnv :: "ChainInstanceSpec \<Rightarrow> EnvVar list" where
  \<open>taiko_ContainerEnv spec =
     [EnvValue ''L1_RPC_URL'' defaultTaikoL1URL]\<close>

definition taikoAdapter :: "('w, 'x) rpc_env_scheme \<Rightarrow> 'w ChainAdapter" where
  \<open>taikoAdapter E = (protocolBase E ChainTaiko 8545)\<lparr>
     adConfigTemplate := (\<lambda>_. Inr (''config.toml'', taikoConfig)),
     adDefaultResources := Some \<lparr>rdCPURequest = 4 * 1000, rdMemoryRequest = 8 * 2 ^ 30, rdStorage = 500 * 2 ^ 30\<rparr>,
     adVersionPolicy := Some \<lparr>vpRegistry = ''us-docker.pkg.dev'', vpRepository = ''evmchain/images/taiko-geth'',
        vpTagPattern = semverTag, vpTagPrefix = []\<rparr>,
     adContainerPorts := taiko_ContainerPorts,
     adContainerArgs := Some taiko_ContainerArgs,
     adContainerEnv := Some taiko_ContainerEnv\<rparr>\<close>

definition telosConfig :: "string" where
  \<open>telosConfig =
     unlines [
    ''# Telos EVM RPC node configuration'',
    ''[rpc]'',
    ''host = "0.0.0.0"'',
    ''port = 8545'',
    ''ws_port = 8546'',
    [],
    ''[p2p]'',
    ''port = 30303'',
    [],
    ''[database]'',
    ''path = "/data"'']\<close>

definition telos_ContainerPorts :: "ChainInstanceSpec \<Rightarrow> ContainerPort list" where
  \<open>telos_ContainerPorts spec =
     evmPorts 30303 @ [tcpPort ''metrics'' 6060]\<close>

definition telos_ContainerArgs :: "ChainInstanceSpec \<Rightarrow> string list" where
  \<open>telos_ContainerArgs spec =
     [''--metrics'', ''--metrics.addr'', ''0.0.0.0'', ''--metrics.port'', ''6060'']\<close>

definition telosAdapter :: "('w, 'x) rpc_env_scheme \<Rightarrow> 'w ChainAdapter" where
  \<open>telosAdapter E = (protocolBase E ChainTelos 8545)\<lparr>
     adConfigTemplate := (\<lambda>_. Inr (''telos.toml'', telosConfig)),
     adContainerPorts := telos_ContainerPorts,
     adContainerArgs := Some telos_ContainerArgs,
     adDefaultResources := Some \<lparr>rdCPURequest = 4 * 1000, rdMemoryRequest = 8 * 2 ^ 30, rdStorage = 300 * 2 ^ 30\<rparr>\<rparr>\<close>

definition thundercoreNetworkFiles :: "string" where
  \<open>thundercoreNetworkFiles =
     ''https://raw.githubusercontent.com/thundercore/public-full/0533400f0e751dfbb9d7e235059ca0ec77299686/configs-template/mainnet''\<close>

definition thundercoreNetworkFileSums :: "string" where
  \<open>thundercoreNetworkFileSums =
     unlines [
    ''genesis.json e01b85fdbea948784da317650b72124c62a96f3474af7e11d17b6f20ceebc976'',
    ''genesis_comm_info.json 0e8104f6733b01e7420f823121a312b88b995aa71db988ad69f80ae0e5c2351a'',
    ''hardfork.yaml 8414d27246e60b94d1f7fa53fb2716f93881519f306af2dce91551525806f19b'',
    ''r2_comm_info.json bf30f279e7dca0a2c2c80394472919f063031be05511433021939bcf6bfad0dd'',
    ''thunder.yaml 0bacbdd6c23d9459f66713703ddd9488cd56fe8bb46062da88109f4c432766b6'']\<close>

definition thundercoreChainDataPointer :: "string" where
  \<open>thundercoreChainDataPointer =
     ''https://chaindata-backup-prod-zeus-us-east-1.s3.amazonaws.com/zeus-latest''\<close>

definition thundercoreConfig :: "string" where
  \<open>thundercoreConfig =
     unlines [
    ''loggingId: chainplane'',
    ''logLevel:'',
    ''  /: warn'',
    ''dataDir: /data/chain'',
    ''logFile: /data/logs/thunder.log'',
    ''verboseLogFile: /data/logs/thunder.verbose.log'',
    ''key:'',
    ''  GenesisCommPath: /data/config/genesis_comm_info.json'',
    ''  KeyStorePath: /data/keystore'',
    ''  alterCommPath: /data/config/r2_comm_info.json'',
    ''pala:'',
    ''  fromGenesis: false'',
    ''  bootnode:'',
    ''    trusted:'',
    ''      - boot-public.thundercore.com:8888'',
    ''  isFullNode: true'',
    ''rpc:'',
    ''  http:'',
    ''    hostname: 0.0.0.0'',
    ''    port: 8545'',
    ''    modules:'',
    ''      - eth'',
    ''      - thunder'',
    ''      - net'',
    ''      - web3'',
    ''  ws:'',
    ''    hostname: 0.0.0.0'',
    ''    origins: '*'' @ [CHR 0x27],
    ''    port: 8546'',
    ''    modules:'',
    ''      - eth'',
    ''      - thunder'',
    ''      - net'',
    ''      - web3'',
    ''  maxDelayBlock: 120'',
    ''  suspendBuffer: 60s'',
    ''  logs:'',
    ''    blockRange: -1'',
    ''  logRequests: True'',
    ''chain:'',
    ''  chainID: 108'',
    ''  genesis: /data/config/genesis.json'',
    ''  initialSupply: 1E+28'',
    ''  snapshotCache: 0'',
    ''accel:'',
    ''  txpool:'',
    ''    PriceLimit: 1 # 1 ella'',
    ''    AccountSlots: 1024'',
    ''    AccountQueue: 4096'',
    ''    GlobalSlots: 50000'',
    ''    GlobalQueue: 10000'',
    ''    Lifetime: 180s'',
    ''    EvictionInterval: 12s'',
    ''  blockmaker:'',
    ''    TimePerBlock: 1s'',
    ''    TxPerBlockLimit: -1'',
    ''eth:'',
    ''  logFile: /data/logs/thunder.eth.log'',
    ''  logFilter: "trie=4,state=4"'',
    ''  txLookupLimit: 0'',
    ''metrics:'',
    ''  address: 0.0.0.0:9201'',
    ''profiling:'',
    ''  enable: true'',
    ''  port: 9998'',
    ''resourceMonitor:'',
    ''  enable: true'',
    ''  interval: 10s'']\<close>

definition thundercore_ContainerPorts :: "ChainInstanceSpec \<Rightarrow> ContainerPort list" where
  \<open>thundercore_ContainerPorts spec =
     evmPorts 30303 @ [tcpPort ''metrics'' 9201]\<close>

definition thundercore_ContainerCommand :: "ChainInstanceSpec \<Rightarrow> string list" where
  \<open>thundercore_ContainerCommand spec =
     (let script = unlines [
    ''set -e''] @ ''NET='' @ thundercoreNetworkFiles @ unlines [
    [],
    ''C=/data/config'',
    ''mkdir -p $C /data/logs /data/keystore'',
    ''fetch() {'',
    ''  wget -qO "$C/$1.part" "$NET/$1"'',
    ''  if ! echo "$2  $C/$1.part" | sha256sum -c - >/dev/null 2>&1; then'',
    ''    rm -f "$C/$1.part"'',
    ''    echo "$1 from $NET does not match pinned sha256 $2" >&2'',
    ''    exit 1'',
    ''  fi'',
    ''  mv "$C/$1.part" "$C/$1"'',
    ''}'',
    ''pinned() { [ -f "$C/$1" ] && echo "$2  $C/$1" | sha256sum -c - >/dev/null 2>&1; }'',
    ''while read -r f sum; do'',
    ''  pinned $f $sum || fetch $f $sum'',
    ''done <<EOF''] @ thundercoreNetworkFileSums @ unlines [
    ''EOF'',
    ''cp /config/override.yaml $C/override.yaml''] @ ''exec /pala --configPath $C "$@"'' in
     [''sh'', ''-c'', script, ''--''])\<close>

definition thundercore_InitContainers :: "ChainInstanceSpec \<Rightarrow> Container list" where
  \<open>thundercore_InitContainers spec =
     [
      zero_container\<lparr>
       ctName := ''thundercore-chaindata'',
       ctImage := DefaultImageFor ChainThundercore (spClient spec),
       ctCommand := [''sh'', ''-c'',
      unlines [
    ''set -e'',
    ''[ -d /data/chain/thunder/chaindata ] && exit 0''] @ ''URL=$(wget -qO- '' @ thundercoreChainDataPointer @ unlines [
    '' | cut -d , -f 1)'',
    ''echo "restoring chain data from $URL"'',
    ''rm -rf /data/chain.part'',
    ''mkdir -p /data/chain.part'',
    ''wget -qO- "$URL" | tar -C /data/chain.part -xz'',
    ''rm -rf /data/chain''] @ ''mv /data/chain.part /data/chain''],
       ctMounts := [dataMount]\<rparr>]\<close>

definition thundercoreAdapter :: "('w, 'x) rpc_env_scheme \<Rightarrow> 'w ChainAdapter" where
  \<open>thundercoreAdapter E = (protocolBase E ChainThundercore 8545)\<lparr>
     adConfigTemplate := (\<lambda>_. Inr (''override.yaml'', thundercoreConfig)),
     adContainerPorts := thundercore_ContainerPorts,
     adContainerCommand := Some thundercore_ContainerCommand,
     adInitContainers := Some thundercore_InitContainers,
     adDefaultResources := Some \<lparr>rdCPURequest = 4 * 1000, rdMemoryRequest = 8 * 2 ^ 30, rdStorage = 500 * 2 ^ 30\<rparr>,
     adVersionPolicy := Some \<lparr>vpRegistry = ''docker.io'', vpRepository = ''thundercore/thunder'',
        vpTagPattern = ''^r(?P<version>'' @ [CHR 0x5C] @ ''d+'' @ [CHR 0x5C] @ ''.'' @ [CHR 0x5C] @ ''d+'' @ [CHR 0x5C] @ ''.'' @ [CHR 0x5C] @ ''d+)$'', vpTagPrefix = []\<rparr>\<rparr>\<close>

definition victionConfigPath :: "string" where
  \<open>victionConfigPath =
     ''/config/config.toml''\<close>

definition victionConfig :: "string" where
  \<open>victionConfig =
     unlines [
    ''# Viction (formerly TomoChain) EVM-compatible chain node configuration'',
    ''[Eth]'',
    ''SyncMode = "full"'',
    [],
    ''[Node]'',
    ''DataDir = "/data"'',
    ''HTTPHost = "0.0.0.0"'',
    ''HTTPPort = 8545'',
    ''HTTPVirtualHosts = ["*"]'',
    ''HTTPCors = ["*"]'',
    ''HTTPModules = ["eth", "net", "web3", "debug", "txpool"]'',
    ''WSHost = "0.0.0.0"'',
    ''WSPort = 8546'',
    ''WSOrigins = ["*"]'',
    ''WSModules = ["eth", "net", "web3"]'',
    [],
    ''[Node.P2P]'',
    ''MaxPeers = 50'',
    ''ListenAddr = ":30303"'']\<close>

definition viction_ContainerPorts :: "ChainInstanceSpec \<Rightarrow> ContainerPort list" where
  \<open>viction_ContainerPorts spec =
     evmPorts 30303 @ [tcpPort ''metrics'' 6060]\<close>

definition viction_ContainerCommand :: "ChainInstanceSpec \<Rightarrow> string list" where
  \<open>viction_ContainerCommand spec =
     (let genesis = ''/tomochain/mainnet.json'' in
     let genesis = (if spNetwork spec = NetworkTestnet then ''/tomochain/testnet.json'' else genesis) in
     let script = unlines [
    ''set -e'',
    ''if [ ! -f /data/.genesis-init ]; then''] @ ''  tomo init --datadir /data '' @ genesis @ unlines [
    [],
    ''  touch /data/.genesis-init'',
    ''fi''] @ ''exec tomo "$@"'' in
     [''sh'', ''-c'', script, ''--''])\<close>

definition viction_ContainerArgs :: "ChainInstanceSpec \<Rightarrow> string list" where
  \<open>viction_ContainerArgs spec =
     (let args = [''--config'', victionConfigPath, ''--networkid'', ''88''] in
     let args = (if spNetwork spec = NetworkTestnet then [''--config'', victionConfigPath, ''--networkid'', ''89'', ''--tomo-testnet''] else args) in
     let args = args @ [''--gasprice'', ''250000000'', ''--targetgaslimit'', ''30000000''] in
     args @ [''--metrics'', ''--metrics.addr'', ''0.0.0.0'', ''--metrics.port'', ''6060''])\<close>

definition victionAdapter :: "('w, 'x) rpc_env_scheme \<Rightarrow> 'w ChainAdapter" where
  \<open>victionAdapter E = (protocolBase E ChainViction 8545)\<lparr>
     adConfigTemplate := (\<lambda>_. Inr (''config.toml'', victionConfig)),
     adContainerPorts := viction_ContainerPorts,
     adContainerCommand := Some viction_ContainerCommand,
     adContainerArgs := Some viction_ContainerArgs,
     adDefaultResources := Some \<lparr>rdCPURequest = 4 * 1000, rdMemoryRequest = 8 * 2 ^ 30, rdStorage = 500 * 2 ^ 30\<rparr>,
     adVersionPolicy := Some \<lparr>vpRegistry = ''docker.io'', vpRepository = ''buildonviction/node'',
        vpTagPattern = semverTag, vpTagPrefix = []\<rparr>\<rparr>\<close>

definition wemixConfig :: "string" where
  \<open>wemixConfig =
     unlines [
    ''# Wemix EVM-compatible chain node configuration'',
    ''[Eth]'',
    ''SyncMode = "snap"'',
    ''NetworkId = 1111'',
    [],
    ''[Node]'',
    ''DataDir = "/data"'',
    ''HTTPHost = "0.0.0.0"'',
    ''HTTPPort = 8588'',
    ''HTTPVirtualHosts = ["*"]'',
    ''HTTPCorsDomain = ["*"]'',
    ''HTTPModules = ["eth", "net", "web3", "debug", "txpool"]'',
    ''WSHost = "0.0.0.0"'',
    ''WSPort = 8598'',
    ''WSOrigins = ["*"]'',
    ''WSModules = ["eth", "net", "web3"]'',
    [],
    ''[Node.P2P]'',
    ''MaxPeers = 50'',
    ''ListenAddr = ":8589"'']\<close>

definition wemix_ContainerPorts :: "ChainInstanceSpec \<Rightarrow> ContainerPort list" where
  \<open>wemix_ContainerPorts spec =
     [tcpPort ''http'' 8588, tcpPort ''ws'' 8598, tcpPort ''p2p'' 8589, tcpPort ''metrics'' 6060]\<close>

definition wemix_ContainerArgs :: "ChainInstanceSpec \<Rightarrow> string list" where
  \<open>wemix_ContainerArgs spec =
     [''--metrics'', ''--metrics.addr'', ''0.0.0.0'', ''--metrics.port'', ''6060'']\<close>

definition wemixAdapter :: "('w, 'x) rpc_env_scheme \<Rightarrow> 'w ChainAdapter" where
  \<open>wemixAdapter E = (protocolBase E ChainWemix 8588)\<lparr>
     adConfigTemplate := (\<lambda>_. Inr (''config.toml'', wemixConfig)),
     adContainerPorts := wemix_ContainerPorts,
     adContainerArgs := Some wemix_ContainerArgs,
     adDefaultResources := Some \<lparr>rdCPURequest = 4 * 1000, rdMemoryRequest = 8 * 2 ^ 30, rdStorage = 500 * 2 ^ 30\<rparr>\<rparr>\<close>

definition defaultZircuitL1URL :: "string" where
  \<open>defaultZircuitL1URL =
     ''http://ethereum:8545''\<close>

definition zircuitConfig :: "string" where
  \<open>zircuitConfig =
     unlines [
    ''# Zircuit node configuration'',
    ''[Eth]'',
    ''SyncMode = "snap"'',
    [],
    ''[Node]'',
    ''DataDir = "/data"'',
    [],
    ''[Node.HTTPHost]'',
    ''HTTPHost = "0.0.0.0"'',
    ''HTTPPort = 8545'',
    ''HTTPVirtualHosts = ["*"]'',
    ''HTTPCorsDomain = ["*"]'',
    ''HTTPModules = ["eth", "net", "web3", "debug", "txpool"]'',
    [],
    ''[Node.WSHost]'',
    ''WSHost = "0.0.0.0"'',
    ''WSPort = 8546'',
    ''WSOrigins = ["*"]'',
    ''WSModules = ["eth", "net", "web3"]'',
    [],
    ''[Node.P2P]'',
    ''MaxPeers = 50'',
    ''ListenAddr = ":30303"'']\<close>

definition zircuit_ContainerPorts :: "ChainInstanceSpec \<Rightarrow> ContainerPort list" where
  \<open>zircuit_ContainerPorts spec =
     evmPorts 30303 @ [tcpPort ''metrics'' 6060]\<close>

definition zircuit_ContainerArgs :: "ChainInstanceSpec \<Rightarrow> string list" where
  \<open>zircuit_ContainerArgs spec =
     [''--metrics'', ''--metrics.addr'', ''0.0.0.0'', ''--metrics.port'', ''6060'']\<close>

definition zircuit_ContainerEnv :: "ChainInstanceSpec \<Rightarrow> EnvVar list" where
  \<open>zircuit_ContainerEnv spec =
     [EnvValue ''L1_RPC_URL'' defaultZircuitL1URL]\<close>

definition zircuitAdapter :: "('w, 'x) rpc_env_scheme \<Rightarrow> 'w ChainAdapter" where
  \<open>zircuitAdapter E = (protocolBase E ChainZircuit 8545)\<lparr>
     adConfigTemplate := (\<lambda>_. Inr (''config.toml'', zircuitConfig)),
     adDefaultResources := Some \<lparr>rdCPURequest = 2 * 1000, rdMemoryRequest = 4 * 2 ^ 30, rdStorage = 200 * 2 ^ 30\<rparr>,
     adContainerPorts := zircuit_ContainerPorts,
     adContainerArgs := Some zircuit_ContainerArgs,
     adContainerEnv := Some zircuit_ContainerEnv\<rparr>\<close>

definition berachainNetworkFiles :: "string" where
  \<open>berachainNetworkFiles =
     ''https://raw.githubusercontent.com/berachain/beacon-kit/v1.4.1/testing/networks/80094''\<close>

definition berachainGenesisSHA256 :: "string" where
  \<open>berachainGenesisSHA256 =
     ''d83b50211850d5a3abcbba7e85037468add496b7605aa23bdf72523cf979ec6c''\<close>

definition berachainConfigTOMLSHA256 :: "string" where
  \<open>berachainConfigTOMLSHA256 =
     ''85b7b4031e4ed967691e7b09f96329e33280707a8c266abad3222991a6d11ed8''\<close>

definition berachainKZGSetupSHA256 :: "string" where
  \<open>berachainKZGSetupSHA256 =
     ''0229b43f4fac9b17374809520eb621b5ee1a7f74547e7d36918e7d4b122e178d''\<close>

definition berachainConfig :: "string" where
  \<open>berachainConfig =
     unlines [
    ''# BeaconKit consensus layer, Berachain mainnet (chain-spec "mainnet", 80094).'',
    ''# Based on beacon-kit testing/networks/80094/app.toml. Copied over'',
    ''# /data/config/app.toml on every start, so ConfigMap edits apply on restart.'',
    ''# Requires a co-deployed EL (ghcr.io/berachain/bera-reth) at 127.0.0.1:8551.'',
    [],
    ''pruning = "everything"'',
    ''pruning-keep-recent = "0"'',
    ''pruning-interval = "0"'',
    ''halt-height = 0'',
    ''halt-time = 0'',
    ''min-retain-blocks = 0'',
    ''inter-block-cache = true'',
    ''index-events = []'',
    ''iavl-cache-size = 781250'',
    ''iavl-disable-fastnode = true'',
    ''app-db-backend = "pebbledb"'',
    [],
    ''[telemetry]'',
    ''service-name = "beacond_node"'',
    ''enabled = true'',
    ''enable-hostname = true'',
    ''enable-hostname-label = true'',
    ''enable-service-label = true'',
    ''prometheus-retention-time = 60'',
    ''global-labels = []'',
    ''metrics-sink = ""'',
    ''statsd-addr = ""'',
    ''datadog-hostname = ""'',
    [],
    ''[beacon-kit]'',
    ''chain-spec = "mainnet"'',
    ''chain-spec-file = ""'',
    ''shutdown-timeout = "5m0s"'',
    [],
    ''[beacon-kit.engine]'',
    ''rpc-dial-url = "http://127.0.0.1:8551"'',
    ''rpc-timeout = "2s"'',
    ''rpc-retry-interval = "100ms"'',
    ''rpc-max-retry-interval = "10s"'',
    ''rpc-startup-check-interval = "3s"'',
    ''rpc-jwt-refresh-interval = "30s"'',
    ''# Overridden at start: /jwt.hex when mounted, else a secret generated once'',
    ''# at /data/config/jwt.hex.'',
    ''jwt-secret-path = "/jwt.hex"'',
    [],
    ''[beacon-kit.logger]'',
    ''time-format = "RFC3339"'',
    ''log-level = "info"'',
    ''style = "json"'',
    [],
    ''[beacon-kit.kzg]'',
    ''trusted-setup-path = "/data/config/kzg-trusted-setup.json"'',
    ''implementation = "crate-crypto/go-kzg-4844"'',
    [],
    ''# Full node: block building is only needed on validators.'',
    ''[beacon-kit.payload-builder]'',
    ''enabled = false'',
    ''suggested-fee-recipient = "0x0000000000000000000000000000000000000000"'',
    ''payload-timeout = "850ms"'',
    [],
    ''[beacon-kit.validator]'',
    ''graffiti = ""'',
    ''availability-window = "8192"'',
    [],
    ''[beacon-kit.node-api]'',
    ''enabled = true'',
    ''address = "0.0.0.0:3500"'',
    ''logging = false'']\<close>

definition berachain_ContainerPorts :: "ChainInstanceSpec \<Rightarrow> ContainerPort list" where
  \<open>berachain_ContainerPorts spec =
     [tcpPort ''p2p'' 26656, tcpPort ''rpc'' 26657, tcpPort ''engine'' 8551, tcpPort ''metrics'' 26660]\<close>

definition berachain_ContainerCommand :: "ChainInstanceSpec \<Rightarrow> string list" where
  \<open>berachain_ContainerCommand spec =
     (let script = unlines [
    ''set -e''] @ ''NET='' @ berachainNetworkFiles @ unlines [
    [],
    ''C=/data/config'',
    ''fetch() {'',
    ''  curl -fsSL -o "$C/$1.part" "$NET/$1"'',
    ''  if ! echo "$2  $C/$1.part" | sha256sum -c - >/dev/null 2>&1; then'',
    ''    rm -f "$C/$1.part"'',
    ''    echo "$1 from $NET does not match pinned sha256 $2" >&2'',
    ''    exit 1'',
    ''  fi'',
    ''  mv "$C/$1.part" "$C/$1"'',
    ''}'',
    ''pinned() { [ -f "$C/$1" ] && echo "$2  $C/$1" | sha256sum -c - >/dev/null 2>&1; }'',
    ''[ -f $C/node_key.json ] || beacond init "${HOSTNAME:-chainplane}" --chain-id mainnet-beacon-80094 --beacon-kit.chain-spec mainnet --home /data >/dev/null 2>&1''] @ ''pinned genesis.json '' @ berachainGenesisSHA256 @ '' || fetch genesis.json '' @ berachainGenesisSHA256 @ unlines [
    []] @ ''pinned kzg-trusted-setup.json '' @ berachainKZGSetupSHA256 @ '' || fetch kzg-trusted-setup.json '' @ berachainKZGSetupSHA256 @ unlines [
    []] @ ''[ -f $C/.config-toml-fetched ] || { fetch config.toml '' @ berachainConfigTOMLSHA256 @ unlines [
    '' && touch $C/.config-toml-fetched; }'',
    ''cp /config/app.toml $C/app.toml'',
    ''JWT=/jwt.hex'',
    ''if [ ! -f "$JWT" ]; then'',
    ''  JWT=/data/config/jwt.hex'',
    ''  [ -f "$JWT" ] || beacond jwt generate -o "$JWT" --home /data'',
    ''fi''] @ ''exec beacond start --beacon-kit.engine.jwt-secret-path "$JWT" "$@"'' in
     [''sh'', ''-c'', script, ''--''])\<close>

definition berachain_ContainerArgs :: "ChainInstanceSpec \<Rightarrow> string list" where
  \<open>berachain_ContainerArgs spec =
     [''--home'', ''/data'', ''--rpc.laddr'', ''tcp://0.0.0.0:26657'']\<close>

definition berachainAdapter :: "('w, 'x) rpc_env_scheme \<Rightarrow> 'w ChainAdapter" where
  \<open>berachainAdapter E = (protocolBase E ChainBerachain 8545)\<lparr>
     adConfigTemplate := (\<lambda>_. Inr (''app.toml'', berachainConfig)),
     adContainerPorts := berachain_ContainerPorts,
     adContainerCommand := Some berachain_ContainerCommand,
     adContainerArgs := Some berachain_ContainerArgs,
     adDefaultResources := Some \<lparr>rdCPURequest = 4 * 1000, rdMemoryRequest = 8 * 2 ^ 30, rdStorage = 500 * 2 ^ 30\<rparr>,
     adVersionPolicy := Some \<lparr>vpRegistry = ''ghcr.io'', vpRepository = ''berachain/beacon-kit'',
        vpTagPattern = ''^v(?P<version>'' @ [CHR 0x5C] @ ''d+'' @ [CHR 0x5C] @ ''.'' @ [CHR 0x5C] @ ''d+'' @ [CHR 0x5C] @ ''.'' @ [CHR 0x5C] @ ''d+)$'', vpTagPrefix = []\<rparr>\<rparr>\<close>

end
