(* ===== verification/Go_Marshal.thy ===== *)
theory Go_Marshal
  imports Go_Json
begin

text \<open>
  \<open>json.MarshalIndent(v, "", "  ")\<close> of \<open>encoding/json\<close>: the keys of a map come out in byte
  order, an empty map or slice stays on one line, and strings are escaped, the three characters
  that HTML gives a meaning included. Bytes of a multi-byte character pass through; the two
  line separators that Go also escapes do not occur in what the sources encode.
\<close>

fun str_le :: "string \<Rightarrow> string \<Rightarrow> bool" where
  "str_le [] _ = True"
| "str_le (c # s) [] = False"
| "str_le (c # s) (d # t) =
     ((of_char c :: nat) < of_char d \<or> (c = d \<and> str_le s t))"

fun insert_key :: "string \<times> 'a \<Rightarrow> (string \<times> 'a) list \<Rightarrow> (string \<times> 'a) list" where
  "insert_key p [] = [p]"
| "insert_key p (q # qs) = (if str_le (fst p) (fst q) then p # q # qs else q # insert_key p qs)"

definition sort_keys :: "(string \<times> 'a) list \<Rightarrow> (string \<times> 'a) list" where
  "sort_keys kvs = foldr insert_key kvs []"

definition json_hex :: "nat \<Rightarrow> string" where
  "json_hex n = [CHR 0x5C] @ ''u00'' @ [digit_char (n div 16), digit_char (n mod 16)]"

definition escape_char :: "char \<Rightarrow> string" where
  "escape_char c =
     (if c = CHR 0x22 then [CHR 0x5C, CHR 0x22]
      else if c = CHR 0x5C then [CHR 0x5C, CHR 0x5C]
      else if c = CHR 0x08 then [CHR 0x5C, CHR ''b'']
      else if c = CHR 0x0C then [CHR 0x5C, CHR ''f'']
      else if c = CHR 0x0A then [CHR 0x5C, CHR ''n'']
      else if c = CHR 0x0D then [CHR 0x5C, CHR ''r'']
      else if c = CHR 0x09 then [CHR 0x5C, CHR ''t'']
      else if (of_char c :: nat) < 32 \<or> c = CHR ''<'' \<or> c = CHR ''>'' \<or> c = CHR ''&''
      then json_hex (of_char c)
      else [c])"

definition json_quote :: "string \<Rightarrow> string" where
  "json_quote s = [CHR 0x22] @ concat (map escape_char s) @ [CHR 0x22]"

definition json_newline :: "nat \<Rightarrow> string" where
  "json_newline depth = CHR 0x0A # replicate (2 * depth) (CHR '' '')"

fun marshal_indent :: "nat \<Rightarrow> json \<Rightarrow> string"
  and marshal_items :: "nat \<Rightarrow> json list \<Rightarrow> string list"
  and marshal_fields :: "nat \<Rightarrow> (string \<times> json) list \<Rightarrow> (string \<times> string) list" where
  "marshal_indent depth JNull = ''null''"
| "marshal_indent depth (JBool b) = (if b then ''true'' else ''false'')"
| "marshal_indent depth (JNum t) = t"
| "marshal_indent depth (JStr s) = json_quote s"
| "marshal_indent depth (JArr js) =
     (if js = [] then ''[]''
      else ''['' @ json_newline (Suc depth) @ Join (marshal_items (Suc depth) js) ('','' @ json_newline (Suc depth)) @
           json_newline depth @ '']'')"
| "marshal_indent depth (JObj kvs) =
     (if kvs = [] then ''{}''
      else ''{'' @ json_newline (Suc depth) @
           Join (map (\<lambda>(k, t). json_quote k @ '': '' @ t) (sort_keys (marshal_fields (Suc depth) kvs)))
             ('','' @ json_newline (Suc depth)) @
           json_newline depth @ ''}'')"
| "marshal_items depth [] = []"
| "marshal_items depth (j # js) = marshal_indent depth j # marshal_items depth js"
| "marshal_fields depth [] = []"
| "marshal_fields depth ((k, j) # kvs) = (k, marshal_indent depth j) # marshal_fields depth kvs"

definition MarshalIndent :: "json \<Rightarrow> string" where
  "MarshalIndent j = marshal_indent 0 j"

text \<open>A value reached through the keys of nested maps.\<close>

fun json_at :: "string list \<Rightarrow> json \<Rightarrow> json option" where
  "json_at [] j = Some j"
| "json_at (k # ks) (JObj kvs) = (case map_of kvs k of None \<Rightarrow> None | Some j \<Rightarrow> json_at ks j)"
| "json_at (k # ks) _ = None"

subsection \<open>Quoting is injective and well formed\<close>

text \<open>Reading a quoted string back, as far as \<open>json_quote\<close> writes it.\<close>

fun unquote :: "string \<Rightarrow> (string \<times> string) option" where
  "unquote [] = None"
| "unquote (c # s) =
     (if c = CHR 0x22 then Some ([], s)
      else if c = CHR 0x5C then
        (case s of
           [] \<Rightarrow> None
         | d # s' \<Rightarrow>
             if d = CHR ''u'' then
               (case s' of
                  a # b # x # y # s'' \<Rightarrow>
                    (case (digit_val x, digit_val y, unquote s'') of
                       (Some m, Some n, Some (t, r)) \<Rightarrow> Some (char_of (16 * m + n) # t, r)
                     | _ \<Rightarrow> None)
                | _ \<Rightarrow> None)
             else
               (case unquote s' of
                  None \<Rightarrow> None
                | Some (t, r) \<Rightarrow>
                    Some ((if d = CHR ''b'' then CHR 0x08 else if d = CHR ''f'' then CHR 0x0C
                           else if d = CHR ''n'' then CHR 0x0A else if d = CHR ''r'' then CHR 0x0D
                           else if d = CHR ''t'' then CHR 0x09 else d) # t, r)))
      else (case unquote s of None \<Rightarrow> None | Some (t, r) \<Rightarrow> Some (c # t, r)))"

lemma of_char_eqD: "(of_char c :: nat) = of_char d \<Longrightarrow> c = d"
  by (metis char_of_char)

lemma escape_char_unquote: "unquote s = Some (t, r) \<Longrightarrow> unquote (escape_char c @ s) = Some (c # t, r)"
proof -
  assume rest: "unquote s = Some (t, r)"
  have hex: "unquote (json_hex (of_char c) @ s) = Some (c # t, r)" if "(of_char c :: nat) < 256"
  proof -
    have "(of_char c :: nat) div 16 < 16" using that by (simp add: div_less_iff_less_mult)
    then show ?thesis
      using rest by (simp add: json_hex_def digit_val_char)
  qed
  have "(of_char c :: nat) < 256" by (metis nat_of_char_less_256)
  with hex rest show ?thesis by (auto simp: escape_char_def)
qed

lemma unquote_escaped: "unquote (concat (map escape_char s) @ CHR 0x22 # r) = Some (s, r)"
  by (induction s) (simp_all add: escape_char_unquote)

lemma json_quote_unquote: "unquote (tl (json_quote s @ r)) = Some (s, r)"
  using unquote_escaped [of s r] by (simp add: json_quote_def)

end
