(* ===== verification/Nitro.thy ===== *)
theory Nitro
  imports Adapter_Base Go_Marshal
begin

text \<open>
  Arbitrum Nitro chains: \<open>internal/adapters/nitro.go\<close> and the adapters of Arbitrum, Everclear,
  Gravity Alpha, Playnance and Plume. The configuration is the tree of maps the code builds and
  its JSON text.
\<close>

subsection \<open>Shared node setup\<close>

definition nitroConfigFile :: "string" where
  \<open>nitroConfigFile =
     ''nitro.json''\<close>

definition nitroMetricsPort :: "int" where
  \<open>nitroMetricsPort =
     6070\<close>

definition defaultNitroBeaconURL :: "string" where
  \<open>defaultNitroBeaconURL =
     ''http://ethereum-beacon:5052''\<close>

record nitroChain =
  ncChainID :: int
  ncChainInfoJSON :: string
  ncForwardingTarget :: string
  ncFeedURL :: string
  ncDASRestURL :: string
  ncParentChainURL :: string
  ncBlobsFromBeacon :: bool
  ncHTTPPort :: int
  ncWSPort :: int

definition zero_nitroChain :: nitroChain where
  "zero_nitroChain = \<lparr>ncChainID = 0, ncChainInfoJSON = [], ncForwardingTarget = [], ncFeedURL = [], ncDASRestURL = [],
     ncParentChainURL = [], ncBlobsFromBeacon = False, ncHTTPPort = 0, ncWSPort = 0\<rparr>"

abbreviation (input) jstrs :: "string list \<Rightarrow> json" where
  "jstrs ss \<equiv> JArr (map JStr ss)"

text \<open>The map \<open>cfg\<close> that \<open>nitroConfig\<close> builds.\<close>

definition nitroConfig_map :: "nitroChain \<Rightarrow> json" where
  "nitroConfig_map c =
     (let chain = [(''id'', JNum (Itoa (ncChainID c)))] @
                  (if ncChainInfoJSON c \<noteq> [] then [(''info-json'', JStr (ncChainInfoJSON c))] else []);
          cfg = [(''chain'', JObj chain),
                 (''http'', JObj [(''addr'', JStr ''0.0.0.0''), (''port'', JNum (Itoa (ncHTTPPort c))),
                    (''vhosts'', jstrs [''*'']), (''corsdomain'', jstrs [''*'']),
                    (''api'', jstrs [''eth'', ''net'', ''web3'', ''arb'', ''debug''])]),
                 (''ws'', JObj [(''addr'', JStr ''0.0.0.0''), (''port'', JNum (Itoa (ncWSPort c))),
                    (''origins'', jstrs [''*'']), (''api'', jstrs [''eth'', ''net'', ''web3'', ''arb''])]),
                 (''persistent'', JObj [(''global-config'', JStr ''/data'')]),
                 (''metrics'', JBool True),
                 (''metrics-server'', JObj [(''addr'', JStr ''0.0.0.0''), (''port'', JNum (Itoa nitroMetricsPort))])] @
                (if ncForwardingTarget c \<noteq> []
                 then [(''execution'', JObj [(''forwarding-target'', JStr (ncForwardingTarget c))])] else []);
          node = [(''staker'', JObj [(''enable'', JBool False)])] @
                 (if ncFeedURL c \<noteq> [] then [(''feed'', JObj [(''input'', JObj [(''url'', jstrs [ncFeedURL c])])])] else []) @
                 (if ncDASRestURL c \<noteq> []
                  then [(''da'', JObj [(''anytrust'', JObj [(''enable'', JBool True),
                          (''rest-aggregator'', JObj [(''enable'', JBool True), (''urls'', jstrs [ncDASRestURL c])])])])]
                  else [])
      in JObj (cfg @ [(''node'', JObj node)]))"

text \<open>Encoding a map of strings, numbers and booleans cannot fail.\<close>

definition nitroConfig :: "nitroChain \<Rightarrow> goerr + string" where
  "nitroConfig c = Inr (MarshalIndent (nitroConfig_map c) @ [CHR 0x0A])"

definition nitroArgs :: "nitroChain \<Rightarrow> string list" where
  "nitroArgs c =
     [''--conf.file=/config/'' @ nitroConfigFile, ''--parent-chain.connection.url=$(L1_RPC_URL)''] @
     (if ncBlobsFromBeacon c then [''--parent-chain.blob-client.beacon-url=$(L1_BEACON_URL)''] else [])"

definition nitroEnv :: "nitroChain \<Rightarrow> EnvVar list" where
  "nitroEnv c =
     [EnvValue ''L1_RPC_URL'' (ncParentChainURL c)] @
     (if ncBlobsFromBeacon c then [EnvValue ''L1_BEACON_URL'' defaultNitroBeaconURL] else [])"

definition nitroPorts :: "nitroChain \<Rightarrow> ContainerPort list" where
  "nitroPorts c = [tcpPort ''rpc'' (ncHTTPPort c), tcpPort ''ws'' (ncWSPort c), tcpPort ''metrics'' nitroMetricsPort]"

text \<open>The file name and the rendered configuration, as the adapters return them.\<close>

abbreviation (input) nitroTemplate :: "nitroChain \<Rightarrow> goerr + string \<times> string" where
  "nitroTemplate c \<equiv> map_sum id (Pair nitroConfigFile) (nitroConfig c)"

subsection \<open>The chains\<close>

definition defaultArbitrumL1URL :: "string" where
  \<open>defaultArbitrumL1URL =
     ''http://ethereum:8545''\<close>

definition arbitrumChain :: "ChainInstanceSpec \<Rightarrow> nitroChain" where
  "arbitrumChain spec =
     (let c = zero_nitroChain\<lparr>ncChainID := 42161, ncParentChainURL := defaultArbitrumL1URL, ncBlobsFromBeacon := True,
            ncHTTPPort := 8545, ncWSPort := 8546\<rparr>
      in if spNetwork spec = NetworkTestnet then c\<lparr>ncChainID := 421614\<rparr> else c)"

definition arbitrum_ContainerPorts :: "ChainInstanceSpec \<Rightarrow> ContainerPort list" where
  \<open>arbitrum_ContainerPorts spec =
     nitroPorts (arbitrumChain spec)\<close>

definition arbitrum_ContainerArgs :: "ChainInstanceSpec \<Rightarrow> string list" where
  \<open>arbitrum_ContainerArgs spec =
     nitroArgs (arbitrumChain spec)\<close>

definition arbitrum_ContainerEnv :: "ChainInstanceSpec \<Rightarrow> EnvVar list" where
  \<open>arbitrum_ContainerEnv spec =
     nitroEnv (arbitrumChain spec)\<close>

definition arbitrumAdapter :: "('w, 'x) rpc_env_scheme \<Rightarrow> 'w ChainAdapter" where
  \<open>arbitrumAdapter E = (protocolBase E ChainArbitrum 8545)\<lparr>
     adConfigTemplate := (\<lambda>spec. nitroTemplate (arbitrumChain spec)),
     adContainerPorts := arbitrum_ContainerPorts,
     adContainerArgs := Some arbitrum_ContainerArgs,
     adContainerEnv := Some arbitrum_ContainerEnv,
     adDefaultResources := Some \<lparr>rdCPURequest = 4 * 1000, rdMemoryRequest = 16 * 2 ^ 30, rdStorage = 2 * 2 ^ 40\<rparr>,
     adVersionPolicy := Some \<lparr>vpRegistry = ''docker.io'', vpRepository = ''offchainlabs/nitro-node'',
        vpTagPattern = ''^(?P<version>v'' @ [CHR 0x5C] @ ''d+'' @ [CHR 0x5C] @ ''.'' @ [CHR 0x5C] @ ''d+'' @ [CHR 0x5C] @ ''.'' @ [CHR 0x5C] @ ''d+)-[0-9a-f]{7}$'', vpTagPrefix = []\<rparr>\<rparr>\<close>

definition everclear :: "nitroChain" where
  \<open>everclear =
     zero_nitroChain\<lparr>
     ncChainID := 25327,
     ncParentChainURL := ''http://ethereum:8545'',
     ncBlobsFromBeacon := True,
     ncHTTPPort := 8547,
     ncWSPort := 8548\<rparr>\<close>

definition everclear_ContainerPorts :: "ChainInstanceSpec \<Rightarrow> ContainerPort list" where
  \<open>everclear_ContainerPorts spec =
     nitroPorts everclear\<close>

definition everclear_ContainerArgs :: "ChainInstanceSpec \<Rightarrow> string list" where
  \<open>everclear_ContainerArgs spec =
     nitroArgs everclear\<close>

definition everclear_ContainerEnv :: "ChainInstanceSpec \<Rightarrow> EnvVar list" where
  \<open>everclear_ContainerEnv spec =
     nitroEnv everclear\<close>

definition everclearAdapter :: "('w, 'x) rpc_env_scheme \<Rightarrow> 'w ChainAdapter" where
  \<open>everclearAdapter E = (protocolBase E ChainEverclear 8547)\<lparr>
     adConfigTemplate := (\<lambda>spec. nitroTemplate everclear),
     adContainerPorts := everclear_ContainerPorts,
     adContainerArgs := Some everclear_ContainerArgs,
     adContainerEnv := Some everclear_ContainerEnv,
     adDefaultResources := Some \<lparr>rdCPURequest = 2 * 1000, rdMemoryRequest = 4 * 2 ^ 30, rdStorage = 100 * 2 ^ 30\<rparr>,
     adVersionPolicy := Some \<lparr>vpRegistry = ''docker.io'', vpRepository = ''offchainlabs/nitro-node'',
        vpTagPattern = ''^(?P<version>v'' @ [CHR 0x5C] @ ''d+'' @ [CHR 0x5C] @ ''.'' @ [CHR 0x5C] @ ''d+'' @ [CHR 0x5C] @ ''.'' @ [CHR 0x5C] @ ''d+)-[0-9a-f]{7}$'', vpTagPrefix = []\<rparr>\<rparr>\<close>

definition gravityAlphaChainInfo :: "string" where
  \<open>gravityAlphaChainInfo =
     ''[{"chain-id":1625,"parent-chain-id":1,"chain-name":"conduit-orbit-deployer","chain-config":{"chainId":1625,"homesteadBlock":0,"daoForkBlock":null,"daoForkSupport":true,"eip150Block":0,"eip150Hash":"0x0000000000000000000000000000000000000000000000000000000000000000","eip155Block":0,"eip158Block":0,"byzantiumBlock":0,"constantinopleBlock":0,"petersburgBlock":0,"istanbulBlock":0,"muirGlacierBlock":0,"berlinBlock":0,"londonBlock":0,"clique":{"period":0,"epoch":0},"arbitrum":{"EnableArbOS":true,"AllowDebugPrecompiles":false,"DataAvailabilityCommittee":true,"InitialArbOSVersion":11,"InitialChainOwner":"0xd65776c5F9fA552cB5C9556B3e86bF6c376b233b","GenesisBlockNum":0}},"rollup":{"bridge":"0x7983403dDA368AA7d67145a9b81c5c517F364c42","inbox":"0x7AD2a94BefF3294a31894cFb5ba4206957a53c19","sequencer-inbox":"0x8D99372612e8cFE7163B1a453831Bc40eAeb3cF3","rollup":"0x2807B1d5d94ca823ca7d8642A5F5DDac120ce48f","validator-wallet-creator":"0x9CAd81628aB7D8e239F1A5B497313341578c5F71","deployed-at":19898364,"stake-token":"0xC02aaA39b223FE8D0A0e5C4F27eAD9083C756Cc2"}}]''\<close>

definition gravityAlpha :: "nitroChain" where
  \<open>gravityAlpha =
     zero_nitroChain\<lparr>
     ncChainID := 1625,
     ncChainInfoJSON := gravityAlphaChainInfo,
     ncForwardingTarget := ''https://rpc.gravity.xyz'',
     ncFeedURL := ''wss://relay-gravity-mainnet-0.t.conduit.xyz'',
     ncDASRestURL := ''https://das-gravity-mainnet-0.t.conduit.xyz'',
     ncParentChainURL := ''http://ethereum:8545'',
     ncBlobsFromBeacon := True,
     ncHTTPPort := 8547,
     ncWSPort := 8548\<rparr>\<close>

definition gravityAlpha_ContainerPorts :: "ChainInstanceSpec \<Rightarrow> ContainerPort list" where
  \<open>gravityAlpha_ContainerPorts spec =
     nitroPorts gravityAlpha\<close>

definition gravityAlpha_ContainerArgs :: "ChainInstanceSpec \<Rightarrow> string list" where
  \<open>gravityAlpha_ContainerArgs spec =
     nitroArgs gravityAlpha\<close>

definition gravityAlpha_ContainerEnv :: "ChainInstanceSpec \<Rightarrow> EnvVar list" where
  \<open>gravityAlpha_ContainerEnv spec =
     nitroEnv gravityAlpha\<close>

definition gravityAlphaAdapter :: "('w, 'x) rpc_env_scheme \<Rightarrow> 'w ChainAdapter" where
  \<open>gravityAlphaAdapter E = (protocolBase E ChainGravityAlpha 8547)\<lparr>
     adConfigTemplate := (\<lambda>spec. nitroTemplate gravityAlpha),
     adContainerPorts := gravityAlpha_ContainerPorts,
     adContainerArgs := Some gravityAlpha_ContainerArgs,
     adContainerEnv := Some gravityAlpha_ContainerEnv,
     adDefaultResources := Some \<lparr>rdCPURequest = 2 * 1000, rdMemoryRequest = 4 * 2 ^ 30, rdStorage = 200 * 2 ^ 30\<rparr>,
     adVersionPolicy := Some \<lparr>vpRegistry = ''docker.io'', vpRepository = ''offchainlabs/nitro-node'',
        vpTagPattern = ''^(?P<version>v'' @ [CHR 0x5C] @ ''d+'' @ [CHR 0x5C] @ ''.'' @ [CHR 0x5C] @ ''d+'' @ [CHR 0x5C] @ ''.'' @ [CHR 0x5C] @ ''d+)-[0-9a-f]{7}$'', vpTagPrefix = []\<rparr>\<rparr>\<close>

definition playnance :: "nitroChain" where
  \<open>playnance =
     zero_nitroChain\<lparr>
     ncChainID := 1829,
     ncForwardingTarget := ''https://rpc.playblock.io'',
     ncParentChainURL := ''https://nova.arbitrum.io/rpc'',
     ncHTTPPort := 8547,
     ncWSPort := 8548\<rparr>\<close>

definition playnance_ContainerPorts :: "ChainInstanceSpec \<Rightarrow> ContainerPort list" where
  \<open>playnance_ContainerPorts spec =
     nitroPorts playnance\<close>

definition playnance_ContainerArgs :: "ChainInstanceSpec \<Rightarrow> string list" where
  \<open>playnance_ContainerArgs spec =
     nitroArgs playnance\<close>

definition playnance_ContainerEnv :: "ChainInstanceSpec \<Rightarrow> EnvVar list" where
  \<open>playnance_ContainerEnv spec =
     nitroEnv playnance\<close>

definition playnanceAdapter :: "('w, 'x) rpc_env_scheme \<Rightarrow> 'w ChainAdapter" where
  \<open>playnanceAdapter E = (protocolBase E ChainPlaynance 8547)\<lparr>
     adConfigTemplate := (\<lambda>spec. nitroTemplate playnance),
     adContainerPorts := playnance_ContainerPorts,
     adContainerArgs := Some playnance_ContainerArgs,
     adContainerEnv := Some playnance_ContainerEnv,
     adDefaultResources := Some \<lparr>rdCPURequest = 2 * 1000, rdMemoryRequest = 4 * 2 ^ 30, rdStorage = 100 * 2 ^ 30\<rparr>,
     adVersionPolicy := Some \<lparr>vpRegistry = ''docker.io'', vpRepository = ''offchainlabs/nitro-node'',
        vpTagPattern = ''^(?P<version>v'' @ [CHR 0x5C] @ ''d+'' @ [CHR 0x5C] @ ''.'' @ [CHR 0x5C] @ ''d+'' @ [CHR 0x5C] @ ''.'' @ [CHR 0x5C] @ ''d+)-[0-9a-f]{7}$'', vpTagPrefix = []\<rparr>\<rparr>\<close>

definition plumeMainnetChainInfo :: "string" where
  \<open>plumeMainnetChainInfo =
     ''[{"chain-id":98866,"parent-chain-id":1,"chain-name":"conduit-orbit-deployer","chain-config":{"chainId":98866,"homesteadBlock":0,"daoForkBlock":null,"daoForkSupport":true,"eip150Block":0,"eip150Hash":"0x0000000000000000000000000000000000000000000000000000000000000000","eip155Block":0,"eip158Block":0,"byzantiumBlock":0,"constantinopleBlock":0,"petersburgBlock":0,"istanbulBlock":0,"muirGlacierBlock":0,"berlinBlock":0,"londonBlock":0,"clique":{"period":0,"epoch":0},"arbitrum":{"EnableArbOS":true,"AllowDebugPrecompiles":false,"DataAvailabilityCommittee":true,"InitialArbOSVersion":32,"InitialChainOwner":"0x5Ec32984332eaB190cA431545664320259D755d8","GenesisBlockNum":0}},"rollup":{"bridge":"0x35381f63091926750F43b2A7401B083263aDEF83","inbox":"0x943fc691242291B74B105e8D19bd9E5DC2fcBa1D","sequencer-inbox":"0x85eC1b9138a8b9659A51e2b51bb0861901040b59","rollup":"0x4eD3F488a5a4417839BbC39712EB76D8Aaee6eE8","validator-wallet-creator":"0x0A5eC2286bB15893d5b8f320aAbc823B2186BA09","deployed-at":21887008,"stake-token":"0xC02aaA39b223FE8D0A0e5C4F27eAD9083C756Cc2"}}]''\<close>

definition plumeTestnetChainInfo :: "string" where
  \<open>plumeTestnetChainInfo =
     ''[{"chain-id":98867,"parent-chain-id":11155111,"chain-name":"conduit-orbit-deployer","chain-config":{"chainId":98867,"homesteadBlock":0,"daoForkBlock":null,"daoForkSupport":true,"eip150Block":0,"eip150Hash":"0x0000000000000000000000000000000000000000000000000000000000000000","eip155Block":0,"eip158Block":0,"byzantiumBlock":0,"constantinopleBlock":0,"petersburgBlock":0,"istanbulBlock":0,"muirGlacierBlock":0,"berlinBlock":0,"londonBlock":0,"clique":{"period":0,"epoch":0},"arbitrum":{"EnableArbOS":true,"AllowDebugPrecompiles":false,"DataAvailabilityCommittee":true,"InitialArbOSVersion":32,"InitialChainOwner":"0x09a24DD120676EA4034cD47BfA4432a6a87A8a42","GenesisBlockNum":0}},"rollup":{"bridge":"0xC55b89c17d7a35877FA4ea818fea2a70d5765f1c","inbox":"0xb48cdff890199f5De31514024B95F8664F8Af222","sequencer-inbox":"0xbCa991f1831bE1F1E7e5576d5F84A645e70F3E4d","rollup":"0x3B37BeD1c38c6283A56E60340FE813C0BBA031C3","validator-wallet-creator":"0x684A827456373a0C0379B1C82BA31Ee5E4F88F62","deployed-at":7889627,"stake-token":"0x7b79995e5f793A07Bc00c21412e50Ecae098E7f9"}}]''\<close>

definition plumeChain :: "ChainInstanceSpec \<Rightarrow> nitroChain" where
  \<open>plumeChain spec =
     (if spNetwork spec = NetworkTestnet then zero_nitroChain\<lparr>
     ncChainID := 98867,
     ncChainInfoJSON := plumeTestnetChainInfo,
     ncForwardingTarget := ''https://testnet-rpc.plume.org'',
     ncFeedURL := ''wss://relay-plume-testnet-1.t.conduit.xyz'',
     ncDASRestURL := ''https://das-plume-testnet-1.t.conduit.xyz'',
     ncParentChainURL := ''http://ethereum:8545'',
     ncBlobsFromBeacon := True,
     ncHTTPPort := 8547,
     ncWSPort := 8548\<rparr>
     else zero_nitroChain\<lparr>
     ncChainID := 98866,
     ncChainInfoJSON := plumeMainnetChainInfo,
     ncForwardingTarget := ''https://rpc.plume.org'',
     ncFeedURL := ''wss://relay-plume-mainnet-1.t.conduit.xyz'',
     ncDASRestURL := ''https://das-plume-mainnet-1.t.conduit.xyz'',
     ncParentChainURL := ''http://ethereum:8545'',
     ncBlobsFromBeacon := True,
     ncHTTPPort := 8547,
     ncWSPort := 8548\<rparr>)\<close>

definition plume_ContainerPorts :: "ChainInstanceSpec \<Rightarrow> ContainerPort list" where
  \<open>plume_ContainerPorts spec =
     nitroPorts (plumeChain spec)\<close>

definition plume_ContainerArgs :: "ChainInstanceSpec \<Rightarrow> string list" where
  \<open>plume_ContainerArgs spec =
     nitroArgs (plumeChain spec)\<close>

definition plume_ContainerEnv :: "ChainInstanceSpec \<Rightarrow> EnvVar list" where
  \<open>plume_ContainerEnv spec =
     nitroEnv (plumeChain spec)\<close>

definition plumeAdapter :: "('w, 'x) rpc_env_scheme \<Rightarrow> 'w ChainAdapter" where
  \<open>plumeAdapter E = (protocolBase E ChainPlume 8547)\<lparr>
     adConfigTemplate := (\<lambda>spec. nitroTemplate (plumeChain spec)),
     adContainerPorts := plume_ContainerPorts,
     adContainerArgs := Some plume_ContainerArgs,
     adContainerEnv := Some plume_ContainerEnv,
     adDefaultResources := Some \<lparr>rdCPURequest = 2 * 1000, rdMemoryRequest = 4 * 2 ^ 30, rdStorage = 100 * 2 ^ 30\<rparr>,
     adVersionPolicy := Some \<lparr>vpRegistry = ''docker.io'', vpRepository = ''offchainlabs/nitro-node'',
        vpTagPattern = ''^(?P<version>v'' @ [CHR 0x5C] @ ''d+'' @ [CHR 0x5C] @ ''.'' @ [CHR 0x5C] @ ''d+'' @ [CHR 0x5C] @ ''.'' @ [CHR 0x5C] @ ''d+)-[0-9a-f]{7}$'', vpTagPrefix = []\<rparr>\<rparr>\<close>

end
