(* ===== verification/Zk_Stack.thy ===== *)
theory Zk_Stack
  imports Adapter_Base
begin

text \<open>
  ZK Stack external nodes: \<open>internal/adapters/zkstack_protocol_base.go\<close> and the adapters of
  Abstract, Cronos zkEVM, Lens, ZERO Network and zkSync Era.
\<close>

subsection \<open>The shared base\<close>

definition zkStackHTTPPort :: "int" where
  \<open>zkStackHTTPPort =
     3060\<close>

definition zkStackWSPort :: "int" where
  \<open>zkStackWSPort =
     3061\<close>

definition zkStackHealthPort :: "int" where
  \<open>zkStackHealthPort =
     3081\<close>

definition zkStackMetricsPort :: "int" where
  \<open>zkStackMetricsPort =
     3312\<close>

definition defaultZkStackL1URL :: "string" where
  \<open>defaultZkStackL1URL =
     ''http://ethereum:8545''\<close>

definition zkStackPostgresImage :: "string" where
  \<open>zkStackPostgresImage =
     ''postgres:16.15''\<close>

definition zkStackPostgresMountPath :: "string" where
  \<open>zkStackPostgresMountPath =
     ''/var/lib/postgresql/data''\<close>

definition zkStackDatabaseURL :: "string" where
  \<open>zkStackDatabaseURL =
     ''postgres://postgres@127.0.0.1:5432/zksync_local_ext_node''\<close>

record zkStackProtocolAdapter = protocolAdapter +
  zkMainNodeURL :: string
  zkL2ChainID :: int
  zkSnapshotsBucket :: string

definition newZkStackProtocolAdapter :: "string \<Rightarrow> int \<Rightarrow> string \<Rightarrow> zkStackProtocolAdapter" where
  "newZkStackProtocolAdapter mainNodeURL l2ChainID snapshotsBucket =
     \<lparr>paLivenessPort = zkStackHealthPort, zkMainNodeURL = mainNodeURL, zkL2ChainID = l2ChainID,
      zkSnapshotsBucket = snapshotsBucket\<rparr>"

definition zkStack_StartupProbe :: "ChainInstanceSpec \<Rightarrow> Probe option" where
  \<open>zkStack_StartupProbe spec =
     Some (tcpProbe zkStackHealthPort 0 10 5 60)\<close>

definition zkStack_ContainerPorts :: "ChainInstanceSpec \<Rightarrow> ContainerPort list" where
  \<open>zkStack_ContainerPorts spec =
     [
      tcpPort ''rpc'' zkStackHTTPPort,
      tcpPort ''ws'' zkStackWSPort,
      tcpPort ''health'' zkStackHealthPort,
      tcpPort ''metrics'' zkStackMetricsPort]\<close>

definition zkStack_ContainerEnv :: "zkStackProtocolAdapter \<Rightarrow> ChainInstanceSpec \<Rightarrow> EnvVar list" where
  \<open>zkStack_ContainerEnv b spec =
     (let env = [
      EnvValue ''DATABASE_URL'' zkStackDatabaseURL,
      EnvValue ''DATABASE_POOL_SIZE'' ''50'',
      EnvValue ''EN_HTTP_PORT'' (Itoa zkStackHTTPPort),
      EnvValue ''EN_WS_PORT'' (Itoa zkStackWSPort),
      EnvValue ''EN_HEALTHCHECK_PORT'' (Itoa zkStackHealthPort),
      EnvValue ''EN_PROMETHEUS_PORT'' (Itoa zkStackMetricsPort),
      EnvValue ''EN_ETH_CLIENT_URL'' defaultZkStackL1URL,
      EnvValue ''EN_MAIN_NODE_URL'' (zkMainNodeURL b),
      EnvValue ''EN_L1_CHAIN_ID'' ''1'',
      EnvValue ''EN_L2_CHAIN_ID'' (Itoa (zkL2ChainID b)),
      EnvValue ''EN_STATE_CACHE_PATH'' ''/data/state_keeper'',
      EnvValue ''EN_MERKLE_TREE_PATH'' ''/data/tree''] in
     if zkSnapshotsBucket b = [] \<or> spNodeType spec = NodeTypeArchive then env @ [EnvValue ''EN_SNAPSHOTS_RECOVERY_ENABLED'' ''false'']
     else env @ [EnvValue ''EN_SNAPSHOTS_RECOVERY_ENABLED'' ''true'', EnvValue ''EN_SNAPSHOTS_OBJECT_STORE_BUCKET_BASE_URL'' (zkSnapshotsBucket b), EnvValue ''EN_SNAPSHOTS_OBJECT_STORE_MODE'' ''GCSAnonymousReadOnly''])\<close>

definition zkStack_InitContainers :: "ChainInstanceSpec \<Rightarrow> Container list" where
  \<open>zkStack_InitContainers spec =
     [
      zero_container\<lparr>
       ctName := ''postgres'',
       ctImage := zkStackPostgresImage,
       ctRestartPolicy := ''Always'',
       ctArgs := [''-c'', ''listen_addresses=127.0.0.1'', ''-c'', ''max_connections=200'', ''-c'',
      ''dynamic_shared_memory_type=sysv''],
       ctEnv := [
      EnvValue ''POSTGRES_HOST_AUTH_METHOD'' ''trust'',
      EnvValue ''PGDATA'' (zkStackPostgresMountPath @ ''/pgdata'')],
       ctStartup := Some (\<lparr>pbHandler = ExecProbe [''pg_isready'', ''-h'', ''127.0.0.1'', ''-U'', ''postgres''], pbInitialDelay = 0, pbPeriod = 2, pbTimeout = 2, pbFailureThreshold = 150\<rparr>),
       ctMounts := [
      \<lparr>vmName = ''data'', vmMountPath = zkStackPostgresMountPath, vmSubPath = ''postgres'', vmReadOnly = False\<rparr>]\<rparr>]\<close>

text \<open>The method set of a type that embeds the base and is registered for \<open>chain\<close>.\<close>

definition zkStackBase :: "('w, 'x) rpc_env_scheme \<Rightarrow> Chain \<Rightarrow> zkStackProtocolAdapter \<Rightarrow> 'w ChainAdapter" where
  "zkStackBase E chain b = (protocolBase E chain (paLivenessPort b))\<lparr>
     adConfigTemplate := (\<lambda>_. Inr ([], [])),
     adHealthCheck := evmHealthCheck E,
     adStartupProbe := Some zkStack_StartupProbe,
     adContainerPorts := zkStack_ContainerPorts,
     adContainerEnv := Some (zkStack_ContainerEnv b),
     adInitContainers := Some zkStack_InitContainers\<rparr>"

subsection \<open>The chains\<close>

definition abstractAdapter :: "('w, 'x) rpc_env_scheme \<Rightarrow> 'w ChainAdapter" where
  \<open>abstractAdapter E = (zkStackBase E ChainAbstract (newZkStackProtocolAdapter ''https://api.mainnet.abs.xyz'' 2741 ''raas-abstract-mainnet-external-node-snapshots''))\<lparr>
     adDefaultResources := Some \<lparr>rdCPURequest = 4 * 1000, rdMemoryRequest = 4 * 2 ^ 30, rdStorage = 200 * 2 ^ 30\<rparr>,
     adVersionPolicy := Some \<lparr>vpRegistry = ''docker.io'', vpRepository = ''matterlabs/external-node'',
        vpTagPattern = semverTag, vpTagPrefix = []\<rparr>\<rparr>\<close>

definition cronosZkEVMAdapter :: "('w, 'x) rpc_env_scheme \<Rightarrow> 'w ChainAdapter" where
  \<open>cronosZkEVMAdapter E = (zkStackBase E ChainCronosZkEVM (newZkStackProtocolAdapter ''https://seed.zkevm.cronos.org'' 388 ''cronos-zkevm-mainnet-en-snapshot''))\<lparr>
     adDefaultResources := Some \<lparr>rdCPURequest = 4 * 1000, rdMemoryRequest = 4 * 2 ^ 30, rdStorage = 200 * 2 ^ 30\<rparr>,
     adVersionPolicy := Some \<lparr>vpRegistry = ''ghcr.io'', vpRepository = ''cronos-labs/external-node'',
        vpTagPattern = ''^v(?P<version>'' @ [CHR 0x5C] @ ''d+'' @ [CHR 0x5C] @ ''.'' @ [CHR 0x5C] @ ''d+'' @ [CHR 0x5C] @ ''.'' @ [CHR 0x5C] @ ''d+)$'', vpTagPrefix = []\<rparr>\<rparr>\<close>

definition lensAdapter :: "('w, 'x) rpc_env_scheme \<Rightarrow> 'w ChainAdapter" where
  \<open>lensAdapter E = (zkStackBase E ChainLens (newZkStackProtocolAdapter ''https://rpc.lens.xyz'' 232 ''raas-lens-mainnet-external-node-snapshots''))\<lparr>
     adDefaultResources := Some \<lparr>rdCPURequest = 2 * 1000, rdMemoryRequest = 4 * 2 ^ 30, rdStorage = 100 * 2 ^ 30\<rparr>,
     adVersionPolicy := Some \<lparr>vpRegistry = ''docker.io'', vpRepository = ''matterlabs/external-node'',
        vpTagPattern = semverTag, vpTagPrefix = []\<rparr>\<rparr>\<close>

definition zeroNetworkAdapter :: "('w, 'x) rpc_env_scheme \<Rightarrow> 'w ChainAdapter" where
  \<open>zeroNetworkAdapter E = (zkStackBase E ChainZeroNetwork (newZkStackProtocolAdapter ''https://rpc.zerion.io/v1/zero'' 543210 []))\<lparr>
     adDefaultResources := Some \<lparr>rdCPURequest = 2 * 1000, rdMemoryRequest = 4 * 2 ^ 30, rdStorage = 100 * 2 ^ 30\<rparr>\<rparr>\<close>

definition zksyncAdapter :: "('w, 'x) rpc_env_scheme \<Rightarrow> 'w ChainAdapter" where
  \<open>zksyncAdapter E = (zkStackBase E ChainZkSync (newZkStackProtocolAdapter ''https://zksync2-mainnet.zksync.io'' 324 ''zksync-era-mainnet-external-node-snapshots''))\<lparr>
     adDefaultResources := Some \<lparr>rdCPURequest = 4 * 1000, rdMemoryRequest = 16 * 2 ^ 30, rdStorage = 1 * 2 ^ 40\<rparr>,
     adVersionPolicy := Some \<lparr>vpRegistry = ''docker.io'', vpRepository = ''matterlabs/external-node'',
        vpTagPattern = semverTag, vpTagPrefix = []\<rparr>\<rparr>\<close>

end
