(* ===== verification/Ethereum_Adapter.thy ===== *)
theory Ethereum_Adapter
  imports Adapter_Base Go_Marshal
begin

text \<open>
  Ethereum and the chains that share its clients: \<open>nethermind.go\<close>, \<open>ethereum.go\<close>, \<open>gnosis.go\<close>,
  \<open>fuse.go\<close>, \<open>bsc.go\<close> and the two beacon nodes of \<open>internal/adapters\<close>.
\<close>

subsection \<open>Shared Nethermind setup\<close>

definition nethermindConfigFile :: "string" where
  \<open>nethermindConfigFile =
     ''nethermind.json''\<close>

datatype nethermindValue = NBool bool | NInt int | NString string | NStrings "string list"

record nethermindSetting =
  nsSection :: string
  nsKey :: string
  nsValue :: nethermindValue

abbreviation (input) setting :: "string \<Rightarrow> string \<Rightarrow> nethermindValue \<Rightarrow> nethermindSetting" where
  "setting section key v \<equiv> \<lparr>nsSection = section, nsKey = key, nsValue = v\<rparr>"

record nethermindNode =
  nnConfig :: string
  nnP2PPort :: int
  nnMetricsPort :: int
  nnExtra :: "nethermindSetting list"

definition nethermind_settings :: "nethermindNode \<Rightarrow> nethermindSetting list" where
  "nethermind_settings n = [
     setting ''Init'' ''WebSocketsEnabled'' (NBool True),
     setting ''JsonRpc'' ''Enabled'' (NBool True),
     setting ''JsonRpc'' ''Host'' (NString ''0.0.0.0''),
     setting ''JsonRpc'' ''Port'' (NInt 8545),
     setting ''JsonRpc'' ''WebSocketsPort'' (NInt 8546),
     setting ''JsonRpc'' ''EnabledModules'' (NStrings [''Eth'', ''Net'', ''Web3'', ''Subscribe'', ''Health'']),
     setting ''Network'' ''P2PPort'' (NInt (nnP2PPort n)),
     setting ''Network'' ''DiscoveryPort'' (NInt (nnP2PPort n)),
     setting ''HealthChecks'' ''Enabled'' (NBool True),
     setting ''Metrics'' ''Enabled'' (NBool True),
     setting ''Metrics'' ''ExposePort'' (NInt (nnMetricsPort n))] @ nnExtra n"

text \<open>The type switch of \<open>args\<close>.\<close>

fun nethermind_value :: "nethermindValue \<Rightarrow> string" where
  "nethermind_value (NBool b) = (if b then ''true'' else ''false'')"
| "nethermind_value (NInt i) = Itoa i"
| "nethermind_value (NStrings ss) = ''['' @ Join ss '','' @ '']''"
| "nethermind_value (NString s) = s"

definition nethermind_args :: "nethermindNode \<Rightarrow> string list" where
  "nethermind_args n =
     [''--config'', nnConfig n, ''--datadir'', ''/data''] @
     concat (map (\<lambda>s. [''--'' @ nsSection s @ ''.'' @ nsKey s, nethermind_value (nsValue s)]) (nethermind_settings n))"

fun nethermind_json :: "nethermindValue \<Rightarrow> json" where
  "nethermind_json (NBool b) = JBool b"
| "nethermind_json (NInt i) = JNum (Itoa i)"
| "nethermind_json (NStrings ss) = JArr (map JStr ss)"
| "nethermind_json (NString s) = JStr s"

text \<open>The map \<open>cfg\<close> of \<open>configFile\<close>: a section is created at its first setting.\<close>

definition nethermind_cfg :: "nethermindNode \<Rightarrow> (string \<times> (string \<times> json) list) list" where
  "nethermind_cfg n = foldl (\<lambda>cfg s.
     AList.update (nsSection s)
       (AList.update (nsKey s) (nethermind_json (nsValue s))
          (case map_of cfg (nsSection s) of None \<Rightarrow> [] | Some m \<Rightarrow> m)) cfg)
     [] (nethermind_settings n)"

text \<open>Encoding booleans, numbers, strings and lists of strings cannot fail.\<close>

definition nethermind_configFile :: "nethermindNode \<Rightarrow> goerr + string" where
  "nethermind_configFile n =
     Inr (MarshalIndent (JObj (map (\<lambda>(k, m). (k, JObj m)) (nethermind_cfg n))) @ [CHR 0x0A])"

abbreviation (input) nethermindTemplate :: "nethermindNode \<Rightarrow> goerr + string \<times> string" where
  "nethermindTemplate n \<equiv> map_sum id (Pair nethermindConfigFile) (nethermind_configFile n)"

subsection \<open>Ethereum\<close>

definition rethMetricsPort :: "int" where
  \<open>rethMetricsPort =
     9001\<close>

definition gethMetricsPort :: "int" where
  \<open>gethMetricsPort =
     6060\<close>

definition erigonMetricsPort :: "int" where
  \<open>erigonMetricsPort =
     6060\<close>

definition nethermindMetricsPort :: "int" where
  \<open>nethermindMetricsPort =
     9091\<close>

definition ethDataDir :: "string" where
  \<open>ethDataDir =
     ''/data''\<close>

definition ethJWTPath :: "string" where
  \<open>ethJWTPath =
     ''/data/jwt.hex''\<close>

definition ethEnginePort :: "int" where
  \<open>ethEnginePort =
     8551\<close>

definition ethP2PPort :: "int" where
  \<open>ethP2PPort =
     30303\<close>

definition gethConfigPath :: "string" where
  \<open>gethConfigPath =
     ''/config/config.toml''\<close>

definition ethClient :: "ChainInstanceSpec \<Rightarrow> string" where
  \<open>ethClient spec =
     (let c = ToLower (spClient spec) in
     if c = ''geth'' \<or> c = ''reth'' \<or> c = ''erigon'' then c
     else ''nethermind'')\<close>

definition ethNetwork :: "ChainInstanceSpec \<Rightarrow> string" where
  \<open>ethNetwork spec =
     (if spNetwork spec = NetworkTestnet then ''sepolia''
     else ''mainnet'')\<close>

definition ethArchive :: "ChainInstanceSpec \<Rightarrow> bool" where
  \<open>ethArchive spec \<longleftrightarrow>
     spChain spec = ChainEthereumArchive \<or> spNodeType spec = NodeTypeArchive\<close>

definition gethConfig :: "string \<Rightarrow> string \<Rightarrow> bool \<Rightarrow> string" where
  \<open>gethConfig chain network archive =
     unlines ([''# geth config for '' @ chain @ '' '' @ network,
      ''[Eth]''] @
      (if archive then [''SyncMode = "full"'',
      ''NoPruning = true'',
      ''Preimages = true'',
      ''TransactionHistory = 0'']
      else [''SyncMode = "snap"'']) @
      [[],
      ''[Node]'',
      ''DataDir = "/data"'',
      ''HTTPHost = "0.0.0.0"'',
      ''HTTPPort = 8545'',
      ''HTTPVirtualHosts = ["*"]'',
      ''HTTPModules = ["eth", "net", "web3", "txpool"]'',
      ''WSHost = "0.0.0.0"'',
      ''WSPort = 8546'',
      ''WSModules = ["eth", "net", "web3"]'',
      ''WSOrigins = ["*"]'',
      ''AuthAddr = "0.0.0.0"'',
      ''AuthPort = 8551'',
      ''AuthVirtualHosts = ["*"]'',
      ''JWTSecret = "/data/jwt.hex"'',
      [],
      ''[Node.P2P]'',
      ''MaxPeers = 50'',
      ''ListenAddr = ":30303"'',
      [],
      ''[Node.HTTPTimeouts]'',
      ''ReadTimeout = 30000000000''])\<close>

definition ethNethermind :: "ChainInstanceSpec \<Rightarrow> nethermindNode" where
  "ethNethermind spec = \<lparr>
     nnConfig = ethNetwork spec @ (if ethArchive spec then ''_archive'' else []),
     nnP2PPort = ethP2PPort,
     nnMetricsPort = nethermindMetricsPort,
     nnExtra = [
       setting ''JsonRpc'' ''EngineHost'' (NString ''0.0.0.0''),
       setting ''JsonRpc'' ''EnginePort'' (NInt ethEnginePort),
       setting ''JsonRpc'' ''JwtSecretFile'' (NString ethJWTPath)]\<rparr>"

definition gethArgs :: "ChainInstanceSpec \<Rightarrow> string list" where
  \<open>gethArgs spec =
     (let args = [''--config'', gethConfigPath] in
     let args = (if ethNetwork spec = ''sepolia'' then args @ [''--sepolia''] else args) in
     args @ [''--metrics'', ''--metrics.addr'', ''0.0.0.0'', ''--metrics.port'', ''6060''])\<close>

definition erigonArgs :: "ChainInstanceSpec \<Rightarrow> string list" where
  \<open>erigonArgs spec =
     (let args = [''--chain'', ethNetwork spec, ''--datadir'', ethDataDir, ''--port'', ''30303'', ''--http'',
      ''--http.addr'', ''0.0.0.0'', ''--http.port'', ''8545'', ''--http.vhosts'', ''*'',
      ''--http.api'', ''eth,erigon,net,web3,txpool'', ''--ws'', ''--ws.port'', ''8546'',
      ''--authrpc.addr'', ''0.0.0.0'', ''--authrpc.port'', ''8551'', ''--authrpc.vhosts'', ''*'',
      ''--authrpc.jwtsecret'', ethJWTPath, ''--metrics'', ''--metrics.addr'', ''0.0.0.0'',
      ''--metrics.port'', ''6060''] in
     let args = (if \<not> (ethArchive spec) then args @ [''--prune'', ''hrtc''] else args) in
     args)\<close>

definition rethArgs :: "ChainInstanceSpec \<Rightarrow> string list" where
  \<open>rethArgs spec =
     (let args = [''node'', ''--chain'', ethNetwork spec, ''--datadir'', ethDataDir, ''--port'', ''30303'',
      ''--http'', ''--http.addr'', ''0.0.0.0'', ''--http.port'', ''8545'', ''--http.api'',
      ''eth,net,web3,txpool'', ''--ws'', ''--ws.addr'', ''0.0.0.0'', ''--ws.port'', ''8546'',
      ''--authrpc.addr'', ''0.0.0.0'', ''--authrpc.port'', ''8551'', ''--metrics'', ''0.0.0.0:9001''] in
     let args = (if \<not> (ethArchive spec) then args @ [''--full''] else args) in
     args)\<close>

definition ethMetricsPort :: "ChainInstanceSpec \<Rightarrow> int" where
  \<open>ethMetricsPort spec =
     (if ethClient spec = ''reth'' then rethMetricsPort
     else if ethClient spec = ''erigon'' then erigonMetricsPort
     else if ethClient spec = ''geth'' then gethMetricsPort
     else nethermindMetricsPort)\<close>

definition ethereum_ConfigTemplate :: "ChainInstanceSpec \<Rightarrow> goerr + string \<times> string" where
  "ethereum_ConfigTemplate spec =
     (if ethClient spec = ''geth'' then Inr (''config.toml'', gethConfig (spChain spec) (ethNetwork spec) (ethArchive spec))
      else if ethClient spec = ''nethermind'' then nethermindTemplate (ethNethermind spec)
      else Inr ([], []))"

definition ethereum_ContainerArgs :: "ChainInstanceSpec \<Rightarrow> string list" where
  "ethereum_ContainerArgs spec =
     (if ethClient spec = ''geth'' then gethArgs spec
      else if ethClient spec = ''reth'' then rethArgs spec
      else if ethClient spec = ''erigon'' then erigonArgs spec
      else nethermind_args (ethNethermind spec))"

definition postSyncStages :: "string list" where
  "postSyncStages = [''IndexStorageHistory'', ''IndexAccountHistory'', ''IndexLogAddressTopics'', ''LogIndex'',
     ''TxLookup'', ''CallTraces'', ''Finish'']"

text \<open>The loop over the stages: the lowest and the highest block and the stage that is behind.\<close>

fun eth_stages :: "evm_stage list \<Rightarrow> int \<times> string \<times> int \<Rightarrow> int \<times> string \<times> int" where
  "eth_stages [] acc = acc"
| "eth_stages (s # ss) (current, bottleneck, highest) =
     (if egName s \<in> set polygonStages then eth_stages ss (current, bottleneck, highest)
      else (let n = hexToInt64 (egBlock s); highest = (if n > highest then n else highest) in
        if current < 0 \<or> n < current then eth_stages ss (n, egName s, highest)
        else eth_stages ss (current, bottleneck, highest)))"

definition eth_stage_range :: "evm_stage list \<Rightarrow> int \<times> int" where
  "eth_stage_range stages = (case eth_stages stages (-1, [], 0) of
     (current, bottleneck, highest) \<Rightarrow>
       (let current = (if current < 0 then 0 else current)
        in (if highest > 0 \<and> bottleneck \<in> set postSyncStages then highest else current, highest)))"

definition eth_status :: "json option \<Rightarrow> int \<Rightarrow> int \<Rightarrow> goerr + SyncStatus" where
  "eth_status syncResult currentBlock peers =
     (if unmarshal_raw dec_bool syncResult False = Some False
      then Inr \<lparr>syIsSyncing = False, syCurrentBlock = currentBlock, syHighestBlock = currentBlock,
               syPeers = peers, syProgress = Fin 100, syStallExempt = False\<rparr>
      else (case unmarshal_raw dec_syncing syncResult \<lparr>esCurrentBlock = [], esHighestBlock = [], esStages = []\<rparr> of
          None \<Rightarrow> Inl (WrapErr ''parse eth_syncing'' jsonErr)
        | Some syncObj \<Rightarrow>
            (let (current, highest) =
                   (if esStages syncObj \<noteq> [] then eth_stage_range (esStages syncObj)
                    else (currentBlock, hexToInt64 (esHighestBlock syncObj)))
             in Inr \<lparr>syIsSyncing = True, syCurrentBlock = current, syHighestBlock = highest,
                     syPeers = peers, syProgress = progressFromBlocks current highest, syStallExempt = True\<rparr>)))"

definition ethereum_HealthCheck :: "('w, 'x) rpc_env_scheme \<Rightarrow> ctx \<Rightarrow> string \<Rightarrow> ('w, goerr + SyncStatus) state" where
  "ethereum_HealthCheck E c rpcURL = do {
     r \<leftarrow> callRPC E c rpcURL ''eth_syncing'' ''null'';
     br \<leftarrow> callRPC E c rpcURL ''eth_blockNumber'' ''null'';
     let currentBlock = (case br of Inl _ \<Rightarrow> 0 | Inr blockResult \<Rightarrow>
           (case unmarshal_raw dec_string blockResult [] of None \<Rightarrow> 0 | Some blockHex \<Rightarrow> hexToInt64 blockHex));
     case r of
       Inl syncErr \<Rightarrow> ret (if isContextTimeout syncErr
         then Inr \<lparr>syIsSyncing = True, syCurrentBlock = currentBlock, syHighestBlock = currentBlock,
                   syPeers = 0, syProgress = Fin 100, syStallExempt = True\<rparr>
         else Inl (WrapErr ''eth_syncing'' syncErr))
     | Inr syncResult \<Rightarrow> do {
         peers \<leftarrow> evmPeerCount E c rpcURL;
         ret (eth_status syncResult currentBlock peers) } }"

definition ethereum_VersionPolicy :: ChainVersionPolicy where
  \<open>ethereum_VersionPolicy = \<lparr>vpRegistry = ''docker.io'', vpRepository = ''nethermind/nethermind'',
     vpTagPattern = ''^'' @ [CHR 0x5C] @ ''d+'' @ [CHR 0x5C] @ ''.'' @ [CHR 0x5C] @ ''d+'' @ [CHR 0x5C] @ ''.'' @ [CHR 0x5C] @ ''d+$'', vpTagPrefix = []\<rparr>\<close>

definition ethereum_ClientVersionPolicies :: "(string \<times> ChainVersionPolicy) list" where
  \<open>ethereum_ClientVersionPolicies = [
     (''erigon'', \<lparr>vpRegistry = ''docker.io'', vpRepository = ''erigontech/erigon'', vpTagPattern = semverTag, vpTagPrefix = []\<rparr>),
     (''geth'', \<lparr>vpRegistry = ''docker.io'', vpRepository = ''ethereum/client-go'', vpTagPattern = semverTag, vpTagPrefix = []\<rparr>),
     (''nethermind'', ethereum_VersionPolicy),
     (''reth'', \<lparr>vpRegistry = ''ghcr.io'', vpRepository = ''paradigmxyz/reth'', vpTagPattern = semverTag, vpTagPrefix = []\<rparr>)]\<close>

definition ethereum_LivenessProbe :: "ChainInstanceSpec \<Rightarrow> Probe option" where
  \<open>ethereum_LivenessProbe spec =
     (let port = 8545 in
     let port = (if rsPort (spRPC spec) > 0 then rsPort (spRPC spec) else port) in
     Some (tcpProbe port 300 30 10 3))\<close>

definition ethereum_ContainerPorts :: "ChainInstanceSpec \<Rightarrow> ContainerPort list" where
  \<open>ethereum_ContainerPorts spec =
     evmPorts ethP2PPort @ [tcpPort ''engine'' ethEnginePort, tcpPort ''metrics'' (ethMetricsPort spec)]\<close>

definition ethereumAdapter :: "('w, 'x) rpc_env_scheme \<Rightarrow> 'w ChainAdapter" where
  \<open>ethereumAdapter E = (protocolBase E ChainEthereum 8545)\<lparr>
     adHealthCheck := ethereum_HealthCheck E,
     adConfigTemplate := ethereum_ConfigTemplate,
     adLivenessProbe := ethereum_LivenessProbe,
     adContainerPorts := ethereum_ContainerPorts,
     adContainerArgs := Some ethereum_ContainerArgs,
     adVersionPolicy := Some ethereum_VersionPolicy,
     adClientVersionPolicies := Some ethereum_ClientVersionPolicies,
     adDefaultResources := Some \<lparr>rdCPURequest = 8 * 1000, rdMemoryRequest = 8 * 2 ^ 30, rdStorage = 2 * 2 ^ 40\<rparr>\<rparr>\<close>

definition gnosisNode :: "ChainInstanceSpec \<Rightarrow> nethermindNode" where
  "gnosisNode spec =
     (let n = \<lparr>nnConfig = ''gnosis'', nnP2PPort = 30303, nnMetricsPort = 6060, nnExtra = []\<rparr>
      in if spNetwork spec = NetworkTestnet then n\<lparr>nnConfig := ''chiado''\<rparr> else n)"

definition gnosis_LivenessProbe :: "ChainInstanceSpec \<Rightarrow> Probe option" where
  \<open>gnosis_LivenessProbe spec =
     Some (tcpProbe 8545 300 30 10 5)\<close>

definition gnosis_ContainerPorts :: "ChainInstanceSpec \<Rightarrow> ContainerPort list" where
  \<open>gnosis_ContainerPorts spec =
     evmPorts 30303 @ [tcpPort ''metrics'' 6060]\<close>

definition gnosisAdapter :: "('w, 'x) rpc_env_scheme \<Rightarrow> 'w ChainAdapter" where
  \<open>gnosisAdapter E = (protocolBase E ChainGnosis 8545)\<lparr>
     adConfigTemplate := (\<lambda>spec. nethermindTemplate (gnosisNode spec)),
     adLivenessProbe := gnosis_LivenessProbe,
     adContainerPorts := gnosis_ContainerPorts,
     adContainerArgs := Some (\<lambda>spec. nethermind_args (gnosisNode spec)),
     adDefaultResources := Some \<lparr>rdCPURequest = 4 * 1000, rdMemoryRequest = 8 * 2 ^ 30, rdStorage = 500 * 2 ^ 30\<rparr>,
     adVersionPolicy := Some \<lparr>vpRegistry = ''docker.io'', vpRepository = ''nethermind/nethermind'',
        vpTagPattern = ''^'' @ [CHR 0x5C] @ ''d+'' @ [CHR 0x5C] @ ''.'' @ [CHR 0x5C] @ ''d+'' @ [CHR 0x5C] @ ''.'' @ [CHR 0x5C] @ ''d+$'', vpTagPrefix = []\<rparr>\<rparr>\<close>

definition fuseNode :: "ChainInstanceSpec \<Rightarrow> nethermindNode" where
  "fuseNode spec =
     (let n = \<lparr>nnConfig = ''fuse'', nnP2PPort = 30303, nnMetricsPort = 6060, nnExtra = []\<rparr>
      in if spNetwork spec = NetworkTestnet then n\<lparr>nnConfig := ''spark''\<rparr> else n)"

definition fuse_ContainerPorts :: "ChainInstanceSpec \<Rightarrow> ContainerPort list" where
  \<open>fuse_ContainerPorts spec =
     evmPorts 30303 @ [tcpPort ''metrics'' 6060]\<close>

definition fuseAdapter :: "('w, 'x) rpc_env_scheme \<Rightarrow> 'w ChainAdapter" where
  \<open>fuseAdapter E = (protocolBase E ChainFuse 8545)\<lparr>
     adConfigTemplate := (\<lambda>spec. nethermindTemplate (fuseNode spec)),
     adContainerPorts := fuse_ContainerPorts,
     adContainerArgs := Some (\<lambda>spec. nethermind_args (fuseNode spec)),
     adDefaultResources := Some \<lparr>rdCPURequest = 2 * 1000, rdMemoryRequest = 4 * 2 ^ 30, rdStorage = 300 * 2 ^ 30\<rparr>,
     adVersionPolicy := Some \<lparr>vpRegistry = ''docker.io'', vpRepository = ''fusenet/node'',
        vpTagPattern = ''^nethermind-(?P<version>v'' @ [CHR 0x5C] @ ''d+'' @ [CHR 0x5C] @ ''.'' @ [CHR 0x5C] @ ''d+'' @ [CHR 0x5C] @ ''.'' @ [CHR 0x5C] @ ''d+)$'', vpTagPrefix = []\<rparr>\<rparr>\<close>

definition bscConfig :: "int \<Rightarrow> string" where
  \<open>bscConfig networkID =
     unlines ([''[Node]'',
      ''DataDir = "/data"'',
      ''HTTPHost = "0.0.0.0"'',
      ''HTTPPort = 8545'',
      ''HTTPModules = ["eth", "net", "web3", "txpool"]'',
      ''HTTPVirtualHosts = ["*"]'',
      ''HTTPCors = ["*"]'',
      ''WSHost = "0.0.0.0"'',
      ''WSPort = 8546'',
      ''WSModules = ["eth", "net", "web3"]'',
      ''WSOrigins = ["*"]'',
      [],
      ''[Node.P2P]'',
      ''MaxPeers = 50'',
      ''ListenAddr = ":30311"'',
      [],
      ''[Eth]'',
      ''NetworkId = '' @ Itoa networkID,
      ''SyncMode = "snap"'',
      [],
      ''[Eth.TxPool]'',
      ''PriceLimit = 3000000000''])\<close>

definition bsc_ContainerCommand :: "ChainInstanceSpec \<Rightarrow> string list" where
  \<open>bsc_ContainerCommand spec =
     (let network = ''--mainnet'' in
     let network = (if spNetwork spec = NetworkTestnet then ''--chapel'' else network) in
     [''geth'', network, ''--config'', ''/config/config.toml'', ''--datadir'', ''/data'',
      ''--datadir.ancient'', ''/data/geth/chaindata/ancient'', ''--syncmode'', ''full'',
      ''--tries-verify-mode'', ''none'', ''--state.scheme=path'', ''--db.engine=pebble'',
      ''--cache'', ''8000'', ''--history.transactions'', ''0'', ''--http'', ''--http.addr'',
      ''0.0.0.0'', ''--http.port'', ''8545'', ''--http.api'', ''eth,net,web3,txpool'',
      ''--http.vhosts'', ''*'', ''--http.corsdomain'', ''*'', ''--ws'', ''--ws.addr'', ''0.0.0.0'',
      ''--ws.port'', ''8546'', ''--ws.api'', ''eth,net,web3''])\<close>

definition bsc_StartupProbe :: "ChainInstanceSpec \<Rightarrow> Probe option" where
  \<open>bsc_StartupProbe spec =
     Some (tcpProbe 8545 60 30 10 60)\<close>

definition bsc_LivenessProbe :: "ChainInstanceSpec \<Rightarrow> Probe option" where
  \<open>bsc_LivenessProbe spec =
     Some (tcpProbe 8545 60 30 10 5)\<close>

definition bsc_ContainerPorts :: "ChainInstanceSpec \<Rightarrow> ContainerPort list" where
  \<open>bsc_ContainerPorts spec =
     evmPorts 30311 @ [tcpPort ''metrics'' 6060]\<close>

definition bsc_ContainerArgs :: "ChainInstanceSpec \<Rightarrow> string list" where
  \<open>bsc_ContainerArgs spec =
     gethMetricsArgs 6060\<close>

definition bscAdapter :: "('w, 'x) rpc_env_scheme \<Rightarrow> 'w ChainAdapter" where
  \<open>bscAdapter E = (protocolBase E ChainBSC 8545)\<lparr>
     adConfigTemplate := (\<lambda>spec. Inr (''config.toml'', bscConfig (if spNetwork spec = NetworkTestnet then 97 else 56))),
     adContainerCommand := Some bsc_ContainerCommand,
     adStartupProbe := Some bsc_StartupProbe,
     adLivenessProbe := bsc_LivenessProbe,
     adContainerPorts := bsc_ContainerPorts,
     adContainerArgs := Some bsc_ContainerArgs,
     adVersionPolicy := Some \<lparr>vpRegistry = ''ghcr.io'', vpRepository = ''bnb-chain/bsc'',
        vpTagPattern = ''^'' @ [CHR 0x5C] @ ''d+'' @ [CHR 0x5C] @ ''.'' @ [CHR 0x5C] @ ''d+'' @ [CHR 0x5C] @ ''.'' @ [CHR 0x5C] @ ''d+$'', vpTagPrefix = []\<rparr>,
     adDefaultResources := Some \<lparr>rdCPURequest = 8 * 1000, rdMemoryRequest = 16 * 2 ^ 30, rdStorage = 1 * 2 ^ 40\<rparr>\<rparr>\<close>

subsection \<open>Beacon nodes\<close>

definition defaultEthereumEngineURL :: "string" where
  \<open>defaultEthereumEngineURL =
     ''http://ethereum:8551''\<close>

definition beaconJWTPath :: "string" where
  \<open>beaconJWTPath =
     ''/data/jwt.hex''\<close>

definition beaconCheckpointTimeout :: "string" where
  \<open>beaconCheckpointTimeout =
     ''600''\<close>

definition ethereumBeaconConfig :: "string" where
  \<open>ethereumBeaconConfig =
     unlines [
    ''# Lighthouse beacon node for Ethereum. Reference only: lighthouse reads'',
    ''# CLI flags, set by the operator from the same values.'',
    ''network = "mainnet"'',
    ''datadir = "/data"'',
    ''http = true'',
    ''http-address = "0.0.0.0"'',
    ''http-port = 5052'',
    ''metrics = true'',
    ''metrics-address = "0.0.0.0"'',
    ''metrics-port = 5054'',
    ''port = 9000'',
    ''discovery-port = 9000'',
    ''execution-endpoint = "$EXECUTION_ENDPOINT"  # default http://ethereum:8551'',
    ''execution-jwt = "$EXECUTION_JWT"            # default /data/jwt.hex'',
    ''checkpoint-sync-url = "$CHECKPOINT_SYNC_URL"'']\<close>

definition lighthouseBeaconArgs :: "string \<Rightarrow> string list" where
  \<open>lighthouseBeaconArgs network =
     [''bn'', ''--network'', network, ''--datadir'', ''/data'', ''--http'', ''--http-address'',
      ''0.0.0.0'', ''--http-port'', ''5052'', ''--metrics'', ''--metrics-address'', ''0.0.0.0'',
      ''--metrics-port'', ''5054'', ''--port'', ''9000'', ''--execution-endpoint'',
      ''$(EXECUTION_ENDPOINT)'', ''--execution-jwt'', ''$(EXECUTION_JWT)'',
      ''--checkpoint-sync-url'', ''$(CHECKPOINT_SYNC_URL)'', ''--checkpoint-sync-url-timeout'',
      beaconCheckpointTimeout]\<close>

definition lighthouseBeaconEnv :: "string \<Rightarrow> string \<Rightarrow> EnvVar list" where
  \<open>lighthouseBeaconEnv engineURL checkpointURL =
     [
      EnvValue ''EXECUTION_ENDPOINT'' engineURL,
      EnvValue ''EXECUTION_JWT'' beaconJWTPath,
      EnvValue ''CHECKPOINT_SYNC_URL'' checkpointURL]\<close>

definition beaconPorts :: "ContainerPort list" where
  \<open>beaconPorts =
     [tcpPort ''api'' 5052, tcpPort ''metrics'' 5054, tcpPort ''p2p-tcp'' 9000, udpPort ''p2p-udp'' 9000]\<close>

text \<open>The response: whether it syncs and is optimistic, the head slot and the distance to the tip.\<close>

definition dec_beacon :: "(bool \<times> bool \<times> string \<times> string) decoder" where
  "dec_beacon = dec_path [''data''] (dec_and (dec_path [''is_syncing''] dec_bool)
     (dec_and (dec_path [''is_optimistic''] dec_bool)
     (dec_and (dec_path [''head_slot''] dec_string) (dec_path [''sync_distance''] dec_string))))"

definition beacon_status :: "bool \<times> bool \<times> string \<times> string \<Rightarrow> SyncStatus" where
  "beacon_status = (\<lambda>(isSyncing, _, head, dist).
     (let num = (\<lambda>s. case ParseInt64 10 s of None \<Rightarrow> 0 | Some n \<Rightarrow> n);
          headSlot = num head; highestBlock = wrap64 (headSlot + num dist) in
      zero_sync\<lparr>syIsSyncing := isSyncing, syCurrentBlock := headSlot, syHighestBlock := highestBlock,
        syProgress := progressFromBlocks headSlot highestBlock\<rparr>))"

definition beaconHealthCheck :: "('w, 'x) rpc_env_scheme \<Rightarrow> ctx \<Rightarrow> string \<Rightarrow> ('w, goerr + SyncStatus) state" where
  "beaconHealthCheck E c rpcURL =
     (let url = rpcURL @ ''/eth/v1/node/syncing'' in
      case hNewRequest E url of
        Inl err \<Rightarrow> ret (Inl (WrapErr ''beacon health check: create request'' err))
      | Inr _ \<Rightarrow> do {
          r \<leftarrow> hDo E c rpcTimeout url;
          case r of
            Inl err \<Rightarrow> do {
              ce \<leftarrow> hCtxErr E c;
              ret (if ce \<noteq> None then Inr (zero_sync\<lparr>syIsSyncing := True, syStallExempt := True\<rparr>)
                   else Inl (WrapErr ''beacon health check'' (WrapBoth ErrRPCUnavailable err))) }
          | Inr resp \<Rightarrow> ret (case hrBody resp of
              Inl err \<Rightarrow> Inl (WrapErr ''beacon health check: read response'' err)
            | Inr body \<Rightarrow> (case unmarshal_raw dec_beacon (hbJson body) (False, False, [], []) of
                None \<Rightarrow> Inl (WrapErr ''beacon health check: parse response'' jsonErr)
              | Some syncResp \<Rightarrow> Inr (beacon_status syncResp))) })"

definition ethereumBeacon_ContainerCommand :: "ChainInstanceSpec \<Rightarrow> string list" where
  \<open>ethereumBeacon_ContainerCommand spec =
     [''lighthouse'']\<close>

definition ethereumBeacon_ContainerArgs :: "ChainInstanceSpec \<Rightarrow> string list" where
  \<open>ethereumBeacon_ContainerArgs spec =
     (let network = ''mainnet'' in
     let network = (if spNetwork spec = NetworkTestnet then ''sepolia'' else network) in
     lighthouseBeaconArgs network)\<close>

definition ethereumBeacon_ContainerEnv :: "ChainInstanceSpec \<Rightarrow> EnvVar list" where
  \<open>ethereumBeacon_ContainerEnv spec =
     (let checkpoint = ''https://mainnet.checkpoint.sigp.io'' in
     let checkpoint = (if spNetwork spec = NetworkTestnet then ''https://checkpoint-sync.sepolia.ethpandaops.io'' else checkpoint) in
     lighthouseBeaconEnv defaultEthereumEngineURL checkpoint)\<close>

definition ethereumBeacon_LivenessProbe :: "ChainInstanceSpec \<Rightarrow> Probe option" where
  \<open>ethereumBeacon_LivenessProbe spec =
     Some (tcpProbe 5052 300 30 10 5)\<close>

definition ethereumBeacon_ContainerPorts :: "ChainInstanceSpec \<Rightarrow> ContainerPort list" where
  \<open>ethereumBeacon_ContainerPorts spec =
     beaconPorts\<close>

definition ethereumBeaconAdapter :: "('w, 'x) rpc_env_scheme \<Rightarrow> 'w ChainAdapter" where
  \<open>ethereumBeaconAdapter E = (protocolBase E ChainEthereumBeacon 5052)\<lparr>
     adHealthCheck := beaconHealthCheck E,
     adConfigTemplate := (\<lambda>_. Inr (''lighthouse.toml'', ethereumBeaconConfig)),
     adContainerCommand := Some ethereumBeacon_ContainerCommand,
     adContainerArgs := Some ethereumBeacon_ContainerArgs,
     adContainerEnv := Some ethereumBeacon_ContainerEnv,
     adLivenessProbe := ethereumBeacon_LivenessProbe,
     adContainerPorts := ethereumBeacon_ContainerPorts,
     adDefaultResources := Some \<lparr>rdCPURequest = 4 * 1000, rdMemoryRequest = 16 * 2 ^ 30, rdStorage = 2000 * 2 ^ 30\<rparr>,
     adVersionPolicy := Some \<lparr>vpRegistry = ''docker.io'', vpRepository = ''sigp/lighthouse'',
        vpTagPattern = semverTag, vpTagPrefix = []\<rparr>\<rparr>\<close>

definition defaultGnosisEngineURL :: "string" where
  \<open>defaultGnosisEngineURL =
     ''http://gnosis:8551''\<close>

definition gnosisBeaconConfig :: "string" where
  \<open>gnosisBeaconConfig =
     unlines [
    ''# Lighthouse beacon node for Gnosis Chain. Reference only: lighthouse reads'',
    ''# CLI flags, set by the operator from the same values.'',
    ''network = "gnosis"'',
    ''datadir = "/data"'',
    ''http = true'',
    ''http-address = "0.0.0.0"'',
    ''http-port = 5052'',
    ''metrics = true'',
    ''metrics-address = "0.0.0.0"'',
    ''metrics-port = 5054'',
    ''port = 9000'',
    ''discovery-port = 9000'',
    ''execution-endpoint = "$EXECUTION_ENDPOINT"  # default http://gnosis:8551'',
    ''execution-jwt = "$EXECUTION_JWT"            # default /data/jwt.hex'',
    ''checkpoint-sync-url = "$CHECKPOINT_SYNC_URL"'']\<close>

definition gnosisBeacon_ContainerCommand :: "ChainInstanceSpec \<Rightarrow> string list" where
  \<open>gnosisBeacon_ContainerCommand spec =
     [''lighthouse'']\<close>

definition gnosisBeacon_ContainerArgs :: "ChainInstanceSpec \<Rightarrow> string list" where
  \<open>gnosisBeacon_ContainerArgs spec =
     (let network = ''gnosis'' in
     let network = (if spNetwork spec = NetworkTestnet then ''chiado'' else network) in
     lighthouseBeaconArgs network)\<close>

definition gnosisBeacon_ContainerEnv :: "ChainInstanceSpec \<Rightarrow> EnvVar list" where
  \<open>gnosisBeacon_ContainerEnv spec =
     (let checkpoint = ''https://checkpoint.gnosischain.com'' in
     let checkpoint = (if spNetwork spec = NetworkTestnet then ''https://checkpoint.chiadochain.net'' else checkpoint) in
     lighthouseBeaconEnv defaultGnosisEngineURL checkpoint)\<close>

definition gnosisBeacon_LivenessProbe :: "ChainInstanceSpec \<Rightarrow> Probe option" where
  \<open>gnosisBeacon_LivenessProbe spec =
     Some (tcpProbe 5052 300 30 10 5)\<close>

definition gnosisBeacon_ContainerPorts :: "ChainInstanceSpec \<Rightarrow> ContainerPort list" where
  \<open>gnosisBeacon_ContainerPorts spec =
     beaconPorts\<close>

definition gnosisBeaconAdapter :: "('w, 'x) rpc_env_scheme \<Rightarrow> 'w ChainAdapter" where
  \<open>gnosisBeaconAdapter E = (protocolBase E ChainGnosisBeacon 5052)\<lparr>
     adHealthCheck := beaconHealthCheck E,
     adConfigTemplate := (\<lambda>_. Inr (''lighthouse.toml'', gnosisBeaconConfig)),
     adContainerCommand := Some gnosisBeacon_ContainerCommand,
     adContainerArgs := Some gnosisBeacon_ContainerArgs,
     adContainerEnv := Some gnosisBeacon_ContainerEnv,
     adLivenessProbe := gnosisBeacon_LivenessProbe,
     adContainerPorts := gnosisBeacon_ContainerPorts,
     adDefaultResources := Some \<lparr>rdCPURequest = 4 * 1000, rdMemoryRequest = 8 * 2 ^ 30, rdStorage = 500 * 2 ^ 30\<rparr>,
     adVersionPolicy := Some \<lparr>vpRegistry = ''docker.io'', vpRepository = ''sigp/lighthouse'',
        vpTagPattern = semverTag, vpTagPrefix = []\<rparr>\<rparr>\<close>

end
