(* ===== verification/Adapter_Http.thy ===== *)
theory Adapter_Http
  imports Adapter_Base
begin

text \<open>
  What the health checks of the adapters use of \<open>net/url\<close>, \<open>bufio\<close>, \<open>strings\<close> and \<open>fmt\<close>:
  the parts of a URL, the lines of a metrics page, its fields and numbers. \<open>hParseURL\<close> gives
  the text of a parsed absolute URL.
\<close>

subsection \<open>URLs\<close>

text \<open>A URL up to and including \<open>://\<close>, and the rest.\<close>

fun split_scheme :: "string \<Rightarrow> string \<times> string" where
  "split_scheme [] = ([], [])"
| "split_scheme (c # s) =
     (if HasPrefix (c # s) ''://'' then (''://'', drop 3 (c # s))
      else (case split_scheme s of (a, b) \<Rightarrow> (c # a, b)))"

text \<open>The authority runs to the next \<open>/\<close>, \<open>?\<close> or \<open>#\<close>; its host follows the last \<open>@\<close>.\<close>

definition url_authority :: "string \<Rightarrow> string" where
  "url_authority u = takeWhile (\<lambda>c. c \<notin> set ''/?#'') (snd (split_scheme u))"

definition url_Host :: "string \<Rightarrow> string" where
  "url_Host u = rev (takeWhile (\<lambda>c. c \<noteq> CHR ''@'') (rev (url_authority u)))"

definition url_path :: "string \<Rightarrow> string" where
  "url_path u = drop (length (url_authority u)) (snd (split_scheme u))"

text \<open>\<open>u.Hostname()\<close>: an address in brackets, or the text before the port.\<close>

definition url_Hostname :: "string \<Rightarrow> string" where
  "url_Hostname u = (case url_Host u of
     [] \<Rightarrow> []
   | c # h \<Rightarrow>
       if c = CHR ''['' then takeWhile (\<lambda>d. d \<noteq> CHR '']'') h
       else takeWhile (\<lambda>d. d \<noteq> CHR '':'') (c # h))"

text \<open>\<open>u.String()\<close> after \<open>u.Host = host\<close>, for a URL without user information.\<close>

definition setHost :: "string \<Rightarrow> string \<Rightarrow> string" where
  "setHost host u = fst (split_scheme u) @ host @ url_path u"

text \<open>
  \<open>url.UserPassword(user, password).String()\<close>: \<open>@\<close>, \<open>/\<close>, \<open>?\<close> and \<open>:\<close> are escaped in the user
  information, the other reserved characters are not.
\<close>

definition escapeUserinfo :: "string \<Rightarrow> string" where
  "escapeUserinfo s = concat (map (\<lambda>c.
     if unreserved c \<or> c \<in> set ''$&+,;='' then [c]
     else (let n = of_char c :: nat in [CHR ''%'', upper_hex (n div 16), upper_hex (n mod 16)])) s)"

definition setUserinfo :: "string \<Rightarrow> string \<Rightarrow> string \<Rightarrow> string" where
  "setUserinfo user password u =
     fst (split_scheme u) @ escapeUserinfo user @ '':'' @ escapeUserinfo password @ ''@'' @ url_Host u @ url_path u"

subsection \<open>Bodies\<close>

text \<open>
  \<open>body, _ := io.ReadAll(...)\<close>: the error is dropped. What an interrupted read leaves is taken
  for a text that is not JSON and has no complete line.
\<close>

definition bodyJson :: "goerr + http_response \<Rightarrow> json option" where
  "bodyJson r = (case r of Inl _ \<Rightarrow> None | Inr resp \<Rightarrow> (case hrBody resp of Inl _ \<Rightarrow> None | Inr b \<Rightarrow> hbJson b))"

definition bodyText :: "http_response \<Rightarrow> string" where
  "bodyText resp = (case hrBody resp of Inl _ \<Rightarrow> [] | Inr b \<Rightarrow> hbText b)"

text \<open>
  The lines \<open>bufio.Scanner\<close> yields: without their end, a carriage return before it dropped; a
  line that fills the buffer of 64 KiB ends the scan.
\<close>

definition drop_cr :: "string \<Rightarrow> string" where
  "drop_cr l = (if l \<noteq> [] \<and> last l = CHR 0x0D then butlast l else l)"

definition scan_lines :: "string \<Rightarrow> string list" where
  "scan_lines s =
     (let ls = Split s (CHR 0x0A);
          ls = (if last ls = [] then butlast ls else ls)
      in map drop_cr (takeWhile (\<lambda>l. length l < 65536) ls))"

definition HasSuffix :: "string \<Rightarrow> string \<Rightarrow> bool" where
  "HasSuffix s p \<longleftrightarrow> HasPrefix (rev s) (rev p)"

text \<open>\<open>strings.Fields\<close>.\<close>

fun Fields_from :: "string \<Rightarrow> string \<Rightarrow> string list" where
  "Fields_from w [] = (if w = [] then [] else [w])"
| "Fields_from w (c # s) =
     (if is_space c then (if w = [] then Fields_from [] s else w # Fields_from [] s)
      else Fields_from (w @ [c]) s)"

definition Fields :: "string \<Rightarrow> string list" where
  "Fields s = Fields_from [] s"

text \<open>The conversion \<open>int32(v)\<close> of a \<open>float64\<close>; out of range it is the argument \<open>oor\<close>.\<close>

definition f_to_int32 :: "int \<Rightarrow> f64 \<Rightarrow> int" where
  "f_to_int32 oor x = (case x of
     Fin q \<Rightarrow> if - (2 ^ 31) \<le> trunc_rat q \<and> trunc_rat q < 2 ^ 31 then trunc_rat q else wrap32 oor
   | _ \<Rightarrow> wrap32 oor)"

text \<open>
  \<open>fmt.Sscanf(s, "%f", &v)\<close>: the longest prefix that looks like a number (or one of the special
  names) is converted, what follows is ignored.
\<close>

definition float_token :: "string \<Rightarrow> string" where
  "float_token s =
     (let sign = takeWhile (\<lambda>c. c = CHR ''-'' \<or> c = CHR ''+'') (take 1 s);
          r = drop (length sign) s;
          ip = takeWhile (is_digit 10) r; r1 = drop (length ip) r;
          fp = (if HasPrefix r1 ''.'' then ''.'' @ takeWhile (is_digit 10) (drop 1 r1) else []); r2 = drop (length fp) r1;
          ep = (if HasPrefix r2 ''e'' \<or> HasPrefix r2 ''E'' then
                  (let e = take 1 r2; r3 = drop 1 r2;
                       es = takeWhile (\<lambda>c. c = CHR ''-'' \<or> c = CHR ''+'') (take 1 r3)
                   in e @ es @ takeWhile (is_digit 10) (drop (length es) r3))
                else [])
      in if ToLower (take 3 s) = ''nan'' then take 3 s
         else if ToLower (take 3 r) = ''inf'' then sign @ take 3 r
         else sign @ ip @ fp @ ep)"

definition Sscanf_float :: "string \<Rightarrow> f64 option" where
  "Sscanf_float s = ParseFloat (float_token (dropWhile (\<lambda>c. c = CHR '' '' \<or> c = CHR 0x09) s))"

text \<open>\<open>fmt.Sscanf(s, "%d", ...)\<close>: sign and digits, and the rest of the text.\<close>

definition Sscanf_int :: "string \<Rightarrow> (int \<times> string) option" where
  "Sscanf_int s =
     (let t = dropWhile (\<lambda>c. c = CHR '' '' \<or> c = CHR 0x09) s;
          sign = takeWhile (\<lambda>c. c = CHR ''-'' \<or> c = CHR ''+'') (take 1 t);
          r = drop (length sign) t; ds = takeWhile (is_digit 10) r
      in map_option (\<lambda>n. (n, drop (length ds) r)) (ParseInt64 10 (sign @ ds)))"

text \<open>A pointer to a struct: \<open>null\<close> makes it nil.\<close>

definition dec_ptr :: "'a decoder \<Rightarrow> 'a \<Rightarrow> 'a option decoder" where
  "dec_ptr d z j a = (case j of
     JNull \<Rightarrow> Some None
   | _ \<Rightarrow> map_option Some (d j (case a of None \<Rightarrow> z | Some x \<Rightarrow> x)))"

subsection \<open>Requests\<close>

text \<open>
  A GET request through a client of timeout \<open>limit\<close>: creating the request may fail, the
  request may fail, or there is a response; the caller says what follows in each case.
\<close>

definition getURL ::
    "('w, 'x) rpc_env_scheme \<Rightarrow> duration \<Rightarrow> ctx \<Rightarrow> string \<Rightarrow> (goerr \<Rightarrow> ('w, 'a) state) \<Rightarrow>
     (goerr \<Rightarrow> ('w, 'a) state) \<Rightarrow> (http_response \<Rightarrow> ('w, 'a) state) \<Rightarrow> ('w, 'a) state" where
  "getURL E limit c url onRequest onFail onResp = (case hNewRequest E url of
     Inl err \<Rightarrow> onRequest err
   | Inr _ \<Rightarrow> do {
       r \<leftarrow> hDo E c limit url;
       case r of Inl err \<Rightarrow> onFail err | Inr resp \<Rightarrow> onResp resp })"

text \<open>\<open>return syncingPseudo(), nil\<close>.\<close>

definition retPseudo :: "('w, 'x) rpc_env_scheme \<Rightarrow> ('w, goerr + SyncStatus) state" where
  "retPseudo E = do { now \<leftarrow> gNow E; ret (Inr (syncingPseudo now)) }"

abbreviation (input) failWith :: "string \<Rightarrow> goerr \<Rightarrow> ('w, goerr + 'a) state" where
  "failWith msg err \<equiv> ret (Inl (WrapErr msg err))"

end
