(* ===== verification/Cosmos.thy ===== *)
theory Cosmos
  imports Adapter_Http
begin

text \<open>
  Cosmos SDK and CometBFT chains: the start script of \<open>cosmos_init.go\<close>, the shared health check,
  and the adapters of Cosmos Hub, Axelar, Dymension, Evmos, Kava, Moca, Osmosis, Sei, Haqq and Mezo.
  The script is the text the code builds; what a shell does with it is outside the model.
\<close>

subsection \<open>Bringing up a node from an empty volume\<close>

definition cosmosToolboxImage :: "string" where
  \<open>cosmosToolboxImage =
     ''busybox:1.37.0-musl''\<close>

definition cosmosToolboxDir :: "string" where
  \<open>cosmosToolboxDir =
     ''/data/.chainplane''\<close>

datatype genesisFormat = genesisPlain | genesisGzip | genesisRPC

record cosmosNode =
  cnBinary :: string
  cnChainID :: string
  cnInitArgs :: "string list"
  cnGenesisURL :: string
  cnGenesisSHA256 :: string
  cnGenesisFormat :: genesisFormat
  cnSeeds :: string
  cnPersistentPeers :: string
  cnStateSyncRPC :: "string list"
  cnToolbox :: bool

definition zero_cosmosNode :: cosmosNode where
  "zero_cosmosNode = \<lparr>cnBinary = [], cnChainID = [], cnInitArgs = [], cnGenesisURL = [], cnGenesisSHA256 = [],
     cnGenesisFormat = genesisPlain, cnSeeds = [], cnPersistentPeers = [], cnStateSyncRPC = [], cnToolbox = False\<rparr>"

text \<open>The shell functions of the script, up to the flags of \<open>init\<close>.\<close>

definition cosmos_functions :: "cosmosNode \<Rightarrow> string" where
  \<open>cosmos_functions n =
     ''B='' @ cnBinary n @ unlines [
    [],
    ''H=/data'',
    ''C=$H/config'',
    ''get() {'',
    ''  if command -v curl >/dev/null 2>&1; then curl -fsSL --retry 3 -o "$2" "$1"; else wget -qO "$2" "$1"; fi'',
    ''}'',
    ''# tset FILE SECTION KEY VALUE replaces KEY in [SECTION]; KEY matches with'',
    ''# "_" or "-" (CometBFT forks differ), a missing key is left alone.'',
    ''tset() {'',
    ''  awk -v s="[$2]" -v k="$3" -v v="$4" '' @ [CHR 0x27],
    ''    BEGIN { gsub(/[_-]/, "[_-]", k); re = "^[ '' @ [CHR 0x5C] @ ''t]*" k "[ '' @ [CHR 0x5C] @ ''t]*=" }'',
    ''    /^[ '' @ [CHR 0x5C] @ ''t]*'' @ [CHR 0x5C] @ ''[/ { cur = $0; sub(/[ '' @ [CHR 0x5C] @ ''t]*#.*/, "", cur); gsub(/[ '' @ [CHR 0x5C] @ ''t]/, "", cur) }'',
    ''    cur == s && $0 ~ re { sub(/=.*/, "= " v) }'',
    ''    { print }' "$1" > "$1.tmp"'',
    ''  mv "$1.tmp" "$1"'',
    ''}'',
    ''# tmerge OVERRIDE TARGET writes every key of OVERRIDE into TARGET: replaced'',
    ''# in place when TARGET has it, appended to its section otherwise.'',
    ''tmerge() {'',
    ''  awk '' @ [CHR 0x27],
    ''    function sect(l) { sub(/[ '' @ [CHR 0x5C] @ ''t]*#.*/, "", l); gsub(/[ '' @ [CHR 0x5C] @ ''t]/, "", l); return l }'',
    ''    function key(l) { sub(/[ '' @ [CHR 0x5C] @ ''t]*=.*/, "", l); sub(/^[ '' @ [CHR 0x5C] @ ''t]+/, "", l); return l }'',
    ''    function flush(  i, p) {'',
    ''      for (i = 1; i <= n; i++) {'',
    ''        split(order[i], p, SUBSEP)'',
    ''        if (p[1] == cur && !(order[i] in done)) { print ov[order[i]'' @ '']; done[order[i]'' @ ''] = 1 }'',
    ''      }'',
    ''    }'',
    ''    FNR == NR {'',
    ''      if ($0 ~ /^[ '' @ [CHR 0x5C] @ ''t]*(#|$)/) next'',
    ''      if ($0 ~ /^[ '' @ [CHR 0x5C] @ ''t]*'' @ [CHR 0x5C] @ ''[/) { s = sect($0); next }'',
    ''      k = s SUBSEP key($0); if (!(k in ov)) order[++n] = k; ov[k] = $0; next'',
    ''    }'',
    ''    function blanks() { for (; nb > 0; nb--) print "" }'',
    ''    /^[ '' @ [CHR 0x5C] @ ''t]*$/ { nb++; next }'',
    ''    /^[ '' @ [CHR 0x5C] @ ''t]*'' @ [CHR 0x5C] @ ''[/ { flush(); blanks(); print; cur = sect($0); next }'',
    ''    { blanks() }'',
    ''    /^[ '' @ [CHR 0x5C] @ ''t]*[A-Za-z0-9_.-]+[ '' @ [CHR 0x5C] @ ''t]*=/ { k = cur SUBSEP key($0); if (k in ov) { print ov[k]; done[k] = 1; next } }'',
    ''    { print }'',
    ''    END {'',
    ''      flush()'',
    ''      blanks()'',
    ''      for (i = 1; i <= n; i++) {'',
    ''        if (order[i] in done) continue'',
    ''        split(order[i], p, SUBSEP)'',
    ''        if (p[1] != last) { print ""; print p[1]; last = p[1] }'',
    ''        print ov[order[i]'' @ '']'',
    ''      }'',
    ''    }' "$1" "$2" > "$2.tmp"'',
    ''  mv "$2.tmp" "$2"'',
    ''}'',
    ''if [ ! -f $C/genesis.json ]; then''] @ ''  echo "initializing $H for '' @ cnChainID n @ unlines [
    ''"''] @ ''  $B init "${HOSTNAME:-chainplane}" --chain-id '' @ cnChainID n @ '' --home $H''\<close>

text \<open>State sync from a trusted height, unless a snapshot was restored.\<close>

definition cosmos_statesync :: "cosmosNode \<Rightarrow> string" where
  \<open>cosmos_statesync n =
     unlines [
    ''  if [ -d $H/data/application.db ]; then'',
    ''    echo "application.db present (snapshot restore), state sync stays off"'',
    ''  else'',
    ''    TRUST=''] @ ''    for R in '' @ Join (cnStateSyncRPC n) '' '' @ unlines [
    ''; do'',
    ''      TIP=$(get "$R/block" - 2>/dev/null | grep -oE '"height":"[0-9]+"' | head -n 1 | grep -oE '[0-9]+') || true'',
    ''      [ -n "$TIP" ] && [ "$TIP" -gt 2000 ] || continue'',
    ''      HASH=$(get "$R/block?height=$((TIP - 2000))" - 2>/dev/null | grep -oE '"hash":"[0-9A-F]{64}"' | head -n 1 | grep -oE '[0-9A-F]{64}') || true'',
    ''      [ -n "$HASH" ] && { TRUST=$((TIP - 2000)); break; }'',
    ''    done'',
    ''    if [ -n "$TRUST" ]; then'',
    ''      tset $C/config.toml statesync enable true''] @ ''      tset $C/config.toml statesync rpc_servers '"'' @ Join (cnStateSyncRPC n) '','' @ unlines [
    ''"'' @ [CHR 0x27],
    ''      tset $C/config.toml statesync trust_height $TRUST'',
    ''      tset $C/config.toml statesync trust_hash '"'$HASH'"'' @ [CHR 0x27],
    ''      echo "state sync from trust height $TRUST ($HASH)"'',
    ''    else'',
    ''      echo "no state sync RPC answered, syncing from genesis" >&2'',
    ''    fi'',
    ''  fi'']\<close>

definition cosmosNode_script :: "cosmosNode \<Rightarrow> string" where
  \<open>cosmosNode_script n =
     unlines [
    ''set -e''] @
     (if cnToolbox n then ''PATH=$PATH:'' @ cosmosToolboxDir @ unlines [
    ''/bin''] else []) @
     cosmos_functions n @
     concat (map (\<lambda>a. '' '' @ a) (cnInitArgs n)) @
     unlines [
    '' > $H/init.log 2>&1 || { cat $H/init.log >&2; exit 1; }'',
    ''  rm -f $C/genesis.json'',
    ''  tset $C/config.toml instrumentation prometheus true''] @
     (if cnSeeds n \<noteq> [] then ''  tset $C/config.toml p2p seeds '"'' @ cnSeeds n @ unlines [
    ''"'' @ [CHR 0x27]] @ ''  tset $C/config.toml p2p bootstrap_peers '"'' @ cnSeeds n @ unlines [
    ''"'' @ [CHR 0x27]] else []) @
     (if cnPersistentPeers n \<noteq> [] then ''  tset $C/config.toml p2p persistent_peers '"'' @ cnPersistentPeers n @ unlines [
    ''"'' @ [CHR 0x27]] else []) @
     (if cnStateSyncRPC n \<noteq> [] then cosmos_statesync n else []) @
     ''  get '' @ cnGenesisURL n @ unlines [
    '' $C/genesis.dl''] @ ''  if ! echo "'' @ cnGenesisSHA256 n @ unlines [
    ''  $C/genesis.dl" | sha256sum -c - >/dev/null 2>&1; then'',
    ''    rm -f $C/genesis.dl''] @ ''    echo "genesis from '' @ cnGenesisURL n @ '' does not match pinned sha256 '' @ cnGenesisSHA256 n @ unlines [
    ''" >&2'',
    ''    exit 1'',
    ''  fi''] @
     (case cnGenesisFormat n of
        genesisGzip \<Rightarrow> unlines [
    ''  gunzip -c $C/genesis.dl > $C/genesis.part'',
    ''  rm -f $C/genesis.dl'']
      | genesisRPC \<Rightarrow> unlines [
    ''  sed -e 's/^{"jsonrpc":"2.0","id":-1,"result":{"genesis"://' -e 's/}}['' @ ''[:space:]'' @ '']*$//' $C/genesis.dl > $C/genesis.part'',
    ''  rm -f $C/genesis.dl'']
      | genesisPlain \<Rightarrow> unlines [
    ''  mv $C/genesis.dl $C/genesis.part'']) @
     unlines [
    ''  mv $C/genesis.part $C/genesis.json'',
    ''fi'',
    ''[ -s /config/app.toml ] && tmerge /config/app.toml $C/app.toml''] @ ''exec $B start --home $H "$@"''\<close>

definition cosmosNode_Command :: "cosmosNode \<Rightarrow> string list" where
  \<open>cosmosNode_Command n =
     (if cnToolbox n then [cosmosToolboxDir @ ''/busybox'', ''sh'', ''-c'', cosmosNode_script n, ''--'']
     else [''sh'', ''-c'', cosmosNode_script n, ''--''])\<close>

definition cosmosNode_InitContainers :: "cosmosNode \<Rightarrow> Container list" where
  \<open>cosmosNode_InitContainers n =
     (if \<not> (cnToolbox n) then []
     else [
      zero_container\<lparr>
       ctName := ''cosmos-toolbox'',
       ctImage := cosmosToolboxImage,
       ctRestartPolicy := ''Always'',
       ctCommand := [''sh'', ''-c'',
      unlines [
    ''set -e''] @ ''D='' @ cosmosToolboxDir @ unlines [
    [],
    ''rm -rf $D'',
    ''mkdir -p $D/bin'',
    ''cp /bin/busybox $D/busybox'',
    ''$D/busybox --install -s $D/bin''] @ ''exec sleep 2147483647''],
       ctStartup := Some (\<lparr>pbHandler = ExecProbe [''test'', ''-x'', cosmosToolboxDir @ ''/bin/wget''], pbInitialDelay = 0, pbPeriod = 1, pbTimeout = 0, pbFailureThreshold = 60\<rparr>),
       ctMounts := [dataMount]\<rparr>])\<close>

subsection \<open>CometBFT health check\<close>

text \<open>\<open>/status\<close>: the latest height and block time and whether the node is catching up.\<close>

definition dec_cosmosStatus :: "(string \<times> string \<times> bool) decoder" where
  "dec_cosmosStatus = dec_path [''result'', ''sync_info''] (dec_and (dec_path [''latest_block_height''] dec_string)
     (dec_and (dec_path [''latest_block_time''] dec_string) (dec_path [''catching_up''] dec_bool)))"

definition dec_cosmosConsensusState :: "string decoder" where
  "dec_cosmosConsensusState = dec_path [''result'', ''round_state'', ''height/round/step''] dec_string"

text \<open>
  The first number of \<open>fmt.Sscanf(s, "%d/%d/%d", &h, &r, &s)\<close>; the two others are not used.
\<close>

definition Sscanf_dec :: "string \<Rightarrow> int" where
  "Sscanf_dec s = (case Sscanf_int s of None \<Rightarrow> 0 | Some (h, _) \<Rightarrow> h)"

definition cosmosNetworkTip :: "('w, 'x) rpc_env_scheme \<Rightarrow> ctx \<Rightarrow> string \<Rightarrow> ('w, int) state" where
  "cosmosNetworkTip E c rpcURL =
     (let url = rpcURL @ ''/consensus_state'' in
      case hNewRequest E url of
        Inl _ \<Rightarrow> ret 0
      | Inr _ \<Rightarrow> do {
          r \<leftarrow> hDo E c rpcTimeout url;
          ret (case unmarshal_raw dec_cosmosConsensusState (bodyJson r) [] of
             None \<Rightarrow> 0
           | Some hrs \<Rightarrow> Sscanf_dec hrs) })"

text \<open>The best-effort peer count from \<open>/net_info\<close>, under a client of its own.\<close>

definition cosmosPeers :: "('w, 'x) rpc_env_scheme \<Rightarrow> ctx \<Rightarrow> string \<Rightarrow> ('w, int) state" where
  "cosmosPeers E c rpcURL =
     (let url = rpcURL @ ''/net_info'' in
      case hNewRequest E url of
        Inl _ \<Rightarrow> ret 0
      | Inr _ \<Rightarrow> do {
          r \<leftarrow> hDo E c (5 * Second) url;
          ret (case unmarshal_raw (dec_path [''result'', ''n_peers''] dec_string) (bodyJson r) [] of
             None \<Rightarrow> 0
           | Some n \<Rightarrow> wrap32 (parseDecimalInt64 n)) })"

text \<open>
  The height a node that is behind should have: from the age of its last block, when that is
  more than one block time. The quotient of a \<open>Duration\<close> in seconds by a block time of at
  least 0.4 is far inside the 64-bit range, so the conversion never meets its limits.
\<close>

definition lagHeight :: "rat \<Rightarrow> time \<Rightarrow> int \<Rightarrow> string \<Rightarrow> int" where
  "lagHeight blockTime now height blockTimeText = (case ParseRFC3339 blockTimeText of
     None \<Rightarrow> height
   | Some t \<Rightarrow>
       (let lag = dur_Seconds (time_Sub now t) in
        if f_gt lag (Fin blockTime) then wrap64 (height + f_to_int64 0 (f_div lag (Fin blockTime))) else height))"

text \<open>
  The \<open>HealthCheck\<close> of the CometBFT chains; the methods differ in the three error texts and
  in the block time.
\<close>

definition cosmosHealthCheck ::
    "('w, 'x) rpc_env_scheme \<Rightarrow> string \<Rightarrow> string \<Rightarrow> string \<Rightarrow> rat \<Rightarrow> ctx \<Rightarrow> string \<Rightarrow> ('w, goerr + SyncStatus) state" where
  "cosmosHealthCheck E reqMsg doMsg parseMsg blockTime c rpcURL =
     (let url = rpcURL @ ''/status'' in
      case hNewRequest E url of
        Inl err \<Rightarrow> ret (Inl (WrapErr reqMsg err))
      | Inr _ \<Rightarrow> do {
          r \<leftarrow> hDo E c rpcTimeout url;
          case r of
            Inl err \<Rightarrow> ret (Inl (WrapErr doMsg err))
          | Inr _ \<Rightarrow>
              (case unmarshal_raw dec_cosmosStatus (bodyJson r) ([], [], False) of
                 None \<Rightarrow> ret (Inl (WrapErr parseMsg jsonErr))
               | Some (latestHeight, latestTime, syncing) \<Rightarrow>
                   (let height = parseDecimalInt64 latestHeight in
                    if height = 0 \<and> syncing then do {
                      now \<leftarrow> gNow E;
                      ret (Inr (syncingPseudo now)) }
                    else do {
                      highestBlock \<leftarrow> (if syncing then do {
                          now \<leftarrow> gNow E;
                          let lagged = lagHeight blockTime now height latestTime;
                          tip \<leftarrow> cosmosNetworkTip E c rpcURL;
                          ret (if tip > lagged then tip else lagged) }
                        else ret height);
                      peers \<leftarrow> cosmosPeers E c rpcURL;
                      ret (Inr \<lparr>syIsSyncing = syncing, syCurrentBlock = height, syHighestBlock = highestBlock,
                        syPeers = peers,
                        syProgress = (if \<not> syncing then Fin 100 else progressFromBlocks height highestBlock),
                        syStallExempt = False\<rparr>) })) })"

subsection \<open>The chains\<close>

definition cosmosConfig :: "string" where
  \<open>cosmosConfig =
     unlines [
    ''# Cosmos Hub (cosmoshub-4) app.toml overrides'',
    ''# Full config is generated by gaiad init -- this is the override toml merged at startup.'',
    ''[api]'',
    ''enable = true'',
    ''address = "tcp://0.0.0.0:1317"'',
    ''enabled-unsafe-cors = true'',
    [],
    ''[grpc]'',
    ''enable = false'',
    [],
    ''[telemetry]'',
    ''enabled = true'',
    ''prometheus-retention-time = 60'']\<close>

definition cosmosBlockTime :: "rat" where
  \<open>cosmosBlockTime =
     13/2\<close>

definition cosmos_HealthCheck :: "('w, 'x) rpc_env_scheme \<Rightarrow> ctx \<Rightarrow> string \<Rightarrow> ('w, goerr + SyncStatus) state" where
  \<open>cosmos_HealthCheck E =
     cosmosHealthCheck E ''call Cosmos status endpoint'' ''cosmos health probe'' ''decode Cosmos status payload'' cosmosBlockTime\<close>

definition cosmosHubNode :: "cosmosNode" where
  \<open>cosmosHubNode =
     zero_cosmosNode\<lparr>
     cnBinary := ''gaiad'',
     cnChainID := ''cosmoshub-4'',
     cnGenesisURL := ''https://raw.githubusercontent.com/cosmos/mainnet/70d6682e987b81ec6cd73405e40aaecbf9f51912/genesis/genesis.cosmoshub-4.json.gz'',
     cnGenesisSHA256 := ''7fe946e6bb3c378da546767f4d078585c38f256c8ec17888d71aeee3b7edd5c7'',
     cnGenesisFormat := genesisGzip,
     cnSeeds := ''ade4d8bc8cbe014af6ebdf3cb7b1e9ad36f412c0@seeds.polkachu.com:14956,8542cd7e6bf9d260fef543bc49e59be5a3fa9074@seed.publicnode.com:26656,b85358e035343a3b15e77e1102857dcdaf70053b@seeds.bluestake.net:28156,00bf1f9d3c65137dc99c40cd03864384ce0ef7c3@cosmoshub-mainnet-seed.itrocket.net:34656'',
     cnPersistentPeers := ''1da54d20c7339713f1d6d28dd2117087dd33d0ca@cosmos-seed.icycro.org:26656,2441723e318545be469d43611d331e3271477ede@cosmoshub-mainnet-peer.itrocket.net:34656'',
     cnStateSyncRPC := [''https://cosmos-rpc.polkachu.com:443'', ''https://cosmoshub.rpc.kjnodes.com:443'']\<rparr>\<close>

definition cosmos_ContainerCommand :: "ChainInstanceSpec \<Rightarrow> string list" where
  \<open>cosmos_ContainerCommand spec =
     cosmosNode_Command cosmosHubNode\<close>

definition cosmos_ContainerArgs :: "ChainInstanceSpec \<Rightarrow> string list" where
  \<open>cosmos_ContainerArgs spec =
     [''--minimum-gas-prices'', ''0.0025uatom'', ''--rpc.laddr'', ''tcp://0.0.0.0:26657'',
      ''--p2p.laddr'', ''tcp://0.0.0.0:26656'', ''--api.enable'', ''--api.address'',
      ''tcp://0.0.0.0:1317'', ''--grpc.enable=false'']\<close>

definition cosmos_StartupProbe :: "ChainInstanceSpec \<Rightarrow> Probe option" where
  \<open>cosmos_StartupProbe spec =
     Some (tcpProbe 26657 30 30 10 120)\<close>

definition cosmos_ContainerPorts :: "ChainInstanceSpec \<Rightarrow> ContainerPort list" where
  \<open>cosmos_ContainerPorts spec =
     [tcpPort ''rpc'' 26657, tcpPort ''api'' 1317, tcpPort ''p2p'' 26656, tcpPort ''metrics'' 26660]\<close>

definition cosmosAdapter :: "('w, 'x) rpc_env_scheme \<Rightarrow> 'w ChainAdapter" where
  \<open>cosmosAdapter E = (protocolBase E ChainCosmos 26657)\<lparr>
     adHealthCheck := cosmos_HealthCheck E,
     adConfigTemplate := (\<lambda>_. Inr (''app.toml'', cosmosConfig)),
     adContainerCommand := Some cosmos_ContainerCommand,
     adContainerArgs := Some cosmos_ContainerArgs,
     adStartupProbe := Some cosmos_StartupProbe,
     adContainerPorts := cosmos_ContainerPorts,
     adDefaultResources := Some \<lparr>rdCPURequest = 4 * 1000, rdMemoryRequest = 8 * 2 ^ 30, rdStorage = 500 * 2 ^ 30\<rparr>,
     adVersionPolicy := Some \<lparr>vpRegistry = ''ghcr.io'', vpRepository = ''cosmos/gaia'',
        vpTagPattern = semverTag, vpTagPrefix = []\<rparr>\<rparr>\<close>

definition axelarConfig :: "string" where
  \<open>axelarConfig =
     unlines [
    ''# Axelar cross-chain gateway protocol node config override'',
    ''[api]'',
    ''enable = true'',
    ''address = "tcp://0.0.0.0:1317"'',
    ''enabled-unsafe-cors = true'',
    [],
    ''[grpc]'',
    ''enable = true'',
    ''address = "0.0.0.0:9090"'',
    [],
    ''# SDK telemetry stays off: with a Prometheus retention time axelard v1.5.5'',
    ''# exits with "duplicate metrics collector registration attempted".'',
    ''# CometBFT metrics are served on :26660.'',
    ''[telemetry]'',
    ''enabled = false'',
    ''prometheus-retention-time = 0'']\<close>

definition axelarBlockTime :: "rat" where
  \<open>axelarBlockTime =
     6\<close>

definition axelar_HealthCheck :: "('w, 'x) rpc_env_scheme \<Rightarrow> ctx \<Rightarrow> string \<Rightarrow> ('w, goerr + SyncStatus) state" where
  \<open>axelar_HealthCheck E =
     cosmosHealthCheck E ''axelar health request'' ''axelar health'' ''axelar status parse'' axelarBlockTime\<close>

definition axelarNode :: "cosmosNode" where
  \<open>axelarNode =
     zero_cosmosNode\<lparr>
     cnBinary := ''axelard'',
     cnChainID := ''axelar-dojo-1'',
     cnGenesisURL := ''https://raw.githubusercontent.com/axelarnetwork/axelarate-community/9f42864064a98796c4d120e836e39c6900d0edd2/resources/mainnet/genesis.json'',
     cnGenesisSHA256 := ''fc5f25a2d4b4aadd60257f30ee99b439aa922a98f765baf64fd9061701c71afc'',
     cnSeeds := ''2551bf072d23835e42a32921beacbf3425fe376f@k8s-mainnet-axelarco-3ab48adcdb-974f2bc59e735192.elb.us-east-2.amazonaws.com:26656,ade4d8bc8cbe014af6ebdf3cb7b1e9ad36f412c0@seeds.polkachu.com:15156,8542cd7e6bf9d260fef543bc49e59be5a3fa9074@seed.publicnode.com:26656,10ed1e176d874c8bb3c7c065685d2da6a4b86475@seed-axelar.ibs.team:16671'',
     cnStateSyncRPC := [''https://axelar-rpc.polkachu.com:443'', ''https://axelar-rpc.publicnode.com:443'']\<rparr>\<close>

definition axelar_ContainerCommand :: "ChainInstanceSpec \<Rightarrow> string list" where
  \<open>axelar_ContainerCommand spec =
     cosmosNode_Command axelarNode\<close>

definition axelar_ContainerArgs :: "ChainInstanceSpec \<Rightarrow> string list" where
  \<open>axelar_ContainerArgs spec =
     [''--rpc.laddr'', ''tcp://0.0.0.0:26657'']\<close>

definition axelar_ContainerEnv :: "ChainInstanceSpec \<Rightarrow> EnvVar list" where
  \<open>axelar_ContainerEnv spec =
     [EnvValue ''AXELARD_CHAIN_ID'' (cnChainID axelarNode)]\<close>

definition axelar_ContainerPorts :: "ChainInstanceSpec \<Rightarrow> ContainerPort list" where
  \<open>axelar_ContainerPorts spec =
     [
      tcpPort ''rpc'' 26657,
      tcpPort ''p2p'' 26656,
      udpPort ''p2p-udp'' 26656,
      tcpPort ''grpc'' 9090,
      tcpPort ''metrics'' 26660]\<close>

definition axelarAdapter :: "('w, 'x) rpc_env_scheme \<Rightarrow> 'w ChainAdapter" where
  \<open>axelarAdapter E = (protocolBase E ChainAxelar 26657)\<lparr>
     adHealthCheck := axelar_HealthCheck E,
     adConfigTemplate := (\<lambda>_. Inr (''app.toml'', axelarConfig)),
     adContainerCommand := Some axelar_ContainerCommand,
     adContainerArgs := Some axelar_ContainerArgs,
     adContainerEnv := Some axelar_ContainerEnv,
     adContainerPorts := axelar_ContainerPorts,
     adDefaultResources := Some \<lparr>rdCPURequest = 4 * 1000, rdMemoryRequest = 8 * 2 ^ 30, rdStorage = 500 * 2 ^ 30\<rparr>,
     adVersionPolicy := Some \<lparr>vpRegistry = ''docker.io'', vpRepository = ''axelarnet/axelar-core'',
        vpTagPattern = semverTag, vpTagPrefix = []\<rparr>\<rparr>\<close>

definition dymensionConfig :: "string" where
  \<open>dymensionConfig =
     unlines [
    ''# Dymension modular rollup hub node config override'',
    ''[api]'',
    ''enable = true'',
    ''address = "tcp://0.0.0.0:1317"'',
    ''enabled-unsafe-cors = true'',
    [],
    ''[grpc]'',
    ''enable = true'',
    ''address = "0.0.0.0:9090"'',
    [],
    ''[telemetry]'',
    ''enabled = true'',
    ''prometheus-retention-time = 60'']\<close>

definition dymensionBlockTime :: "rat" where
  \<open>dymensionBlockTime =
     6\<close>

definition dymension_HealthCheck :: "('w, 'x) rpc_env_scheme \<Rightarrow> ctx \<Rightarrow> string \<Rightarrow> ('w, goerr + SyncStatus) state" where
  \<open>dymension_HealthCheck E =
     cosmosHealthCheck E ''dymension health request'' ''dymension health'' ''dymension status parse'' dymensionBlockTime\<close>

definition dymensionNode :: "cosmosNode" where
  \<open>dymensionNode =
     zero_cosmosNode\<lparr>
     cnBinary := ''dymd'',
     cnChainID := ''dymension_1100-1'',
     cnGenesisURL := ''https://media.githubusercontent.com/media/dymensionxyz/networks/b721f0cc13da95f8a832e51f3ee886ded4e8676b/mainnet/dymension/genesis.json'',
     cnGenesisSHA256 := ''c25f362084db5c1480aaee93bfcb97c5328cabeda94f11ddcc74a8e183838491'',
     cnSeeds := ''45bffa41836302b06310af67f012500cc0d1da31@rpc.dymension.nodestake.org:666,193262e32a9d7d3fffe14073160cabc4cdfef26b@dymension-rpc.stakeandrelax.net:20556,8542cd7e6bf9d260fef543bc49e59be5a3fa9074@seed.publicnode.com:26656'',
     cnPersistentPeers := ''e0d84deab2d0fd85f447c5c417fecbbdba584be0@dymension-m.peer.stavr.tech:17086,c600039ef70040740ae130d455768c509d173b12@peer.dymension.node75.org:23836,e3522d6de016578ac0935c4c55e13e4aac6f0693@peer.dymension.mainnet.dteam.tech:29656'',
     cnStateSyncRPC := [''https://dymension-rpc.polkachu.com:443'', ''https://rpc.lavenderfive.com:443/dymension'']\<rparr>\<close>

definition dymension_ContainerCommand :: "ChainInstanceSpec \<Rightarrow> string list" where
  \<open>dymension_ContainerCommand spec =
     cosmosNode_Command dymensionNode\<close>

definition dymension_ContainerArgs :: "ChainInstanceSpec \<Rightarrow> string list" where
  \<open>dymension_ContainerArgs spec =
     [''--rpc.laddr'', ''tcp://0.0.0.0:26657'']\<close>

definition dymension_ContainerPorts :: "ChainInstanceSpec \<Rightarrow> ContainerPort list" where
  \<open>dymension_ContainerPorts spec =
     [
      tcpPort ''rpc'' 26657,
      tcpPort ''p2p'' 26656,
      udpPort ''p2p-udp'' 26656,
      tcpPort ''grpc'' 9090,
      tcpPort ''metrics'' 26660]\<close>

definition dymensionAdapter :: "('w, 'x) rpc_env_scheme \<Rightarrow> 'w ChainAdapter" where
  \<open>dymensionAdapter E = (protocolBase E ChainDymension 26657)\<lparr>
     adHealthCheck := dymension_HealthCheck E,
     adConfigTemplate := (\<lambda>_. Inr (''app.toml'', dymensionConfig)),
     adContainerCommand := Some dymension_ContainerCommand,
     adContainerArgs := Some dymension_ContainerArgs,
     adContainerPorts := dymension_ContainerPorts,
     adDefaultResources := Some \<lparr>rdCPURequest = 4 * 1000, rdMemoryRequest = 8 * 2 ^ 30, rdStorage = 300 * 2 ^ 30\<rparr>,
     adVersionPolicy := Some \<lparr>vpRegistry = ''ghcr.io'', vpRepository = ''dymensionxyz/dymension'',
        vpTagPattern = ''^'' @ [CHR 0x5C] @ ''d+'' @ [CHR 0x5C] @ ''.'' @ [CHR 0x5C] @ ''d+'' @ [CHR 0x5C] @ ''.'' @ [CHR 0x5C] @ ''d+$'', vpTagPrefix = []\<rparr>\<rparr>\<close>

definition evmosConfig :: "string" where
  \<open>evmosConfig =
     unlines [
    ''# Evmos node config override'',
    ''[api]'',
    ''enable = true'',
    ''address = "tcp://0.0.0.0:1317"'',
    ''enabled-unsafe-cors = true'',
    [],
    ''[grpc]'',
    ''enable = false'',
    [],
    ''[telemetry]'',
    ''enabled = true'',
    ''prometheus-retention-time = 60'',
    [],
    ''[json-rpc]'',
    ''enable = true'',
    ''address = "0.0.0.0:8545"'']\<close>

definition evmosBlockTime :: "rat" where
  \<open>evmosBlockTime =
     2\<close>

definition evmos_HealthCheck :: "('w, 'x) rpc_env_scheme \<Rightarrow> ctx \<Rightarrow> string \<Rightarrow> ('w, goerr + SyncStatus) state" where
  \<open>evmos_HealthCheck E =
     cosmosHealthCheck E ''evmos health request'' ''evmos health'' ''evmos status parse'' evmosBlockTime\<close>

definition evmosNode :: "cosmosNode" where
  \<open>evmosNode =
     zero_cosmosNode\<lparr>
     cnBinary := ''evmosd'',
     cnChainID := ''evmos_9001-2'',
     cnGenesisURL := ''https://snapshots.polkachu.com/genesis/evmos/genesis.json'',
     cnGenesisSHA256 := ''4aa13da5eb4b9705ae8a7c3e09d1c36b92d08247dad2a6ed1844d031fcfe296c'',
     cnSeeds := ''5740e4a36e646e80cc5648daf5e983e5b5d8f265@54.39.18.27:26656,40f4fac63da8b1ce8f850b0fa0f79b2699d2ce72@seed.evmos.jerrychong.com:26656,8542cd7e6bf9d260fef543bc49e59be5a3fa9074@seed.publicnode.com:26656'',
     cnPersistentPeers := ''5740e4a36e646e80cc5648daf5e983e5b5d8f265@54.39.18.27:26656''\<rparr>\<close>

definition evmos_ContainerCommand :: "ChainInstanceSpec \<Rightarrow> string list" where
  \<open>evmos_ContainerCommand spec =
     cosmosNode_Command evmosNode\<close>

definition evmos_ContainerArgs :: "ChainInstanceSpec \<Rightarrow> string list" where
  \<open>evmos_ContainerArgs spec =
     [''--rpc.laddr'', ''tcp://0.0.0.0:26657'']\<close>

definition evmos_ContainerPorts :: "ChainInstanceSpec \<Rightarrow> ContainerPort list" where
  \<open>evmos_ContainerPorts spec =
     [
      tcpPort ''rpc'' 26657,
      tcpPort ''api'' 1317,
      tcpPort ''p2p'' 26656,
      tcpPort ''evm-rpc'' 8545,
      tcpPort ''metrics'' 26660]\<close>

definition evmos_StartupProbe :: "ChainInstanceSpec \<Rightarrow> Probe option" where
  \<open>evmos_StartupProbe spec =
     Some (tcpProbe 26657 30 30 10 120)\<close>

definition evmosAdapter :: "('w, 'x) rpc_env_scheme \<Rightarrow> 'w ChainAdapter" where
  \<open>evmosAdapter E = (protocolBase E ChainEvmos 26657)\<lparr>
     adHealthCheck := evmos_HealthCheck E,
     adConfigTemplate := (\<lambda>_. Inr (''app.toml'', evmosConfig)),
     adContainerCommand := Some evmos_ContainerCommand,
     adContainerArgs := Some evmos_ContainerArgs,
     adContainerPorts := evmos_ContainerPorts,
     adStartupProbe := Some evmos_StartupProbe,
     adDefaultResources := Some \<lparr>rdCPURequest = 4 * 1000, rdMemoryRequest = 8 * 2 ^ 30, rdStorage = 500 * 2 ^ 30\<rparr>\<rparr>\<close>

definition kavaConfig :: "string" where
  \<open>kavaConfig =
     unlines [
    ''# Kava node config override'',
    ''[api]'',
    ''enable = true'',
    ''address = "tcp://0.0.0.0:1317"'',
    ''enabled-unsafe-cors = true'',
    [],
    ''[grpc]'',
    ''enable = false'',
    [],
    ''[telemetry]'',
    ''enabled = true'',
    ''prometheus-retention-time = 60'']\<close>

definition kavaBlockTime :: "rat" where
  \<open>kavaBlockTime =
     13/2\<close>

definition kava_HealthCheck :: "('w, 'x) rpc_env_scheme \<Rightarrow> ctx \<Rightarrow> string \<Rightarrow> ('w, goerr + SyncStatus) state" where
  \<open>kava_HealthCheck E =
     cosmosHealthCheck E ''kava health request'' ''kava health'' ''kava status parse'' kavaBlockTime\<close>

definition kavaNode :: "cosmosNode" where
  \<open>kavaNode =
     zero_cosmosNode\<lparr>
     cnBinary := ''kava'',
     cnChainID := ''kava_2222-10'',
     cnGenesisURL := ''https://kava-genesis-files.s3.us-east-1.amazonaws.com/kava_2222-10/genesis.json'',
     cnGenesisSHA256 := ''c3ce6e98ac9bb68966352b8574f5c16f6f0e4c855c14807e201b163c4f798004'',
     cnSeeds := ''ade4d8bc8cbe014af6ebdf3cb7b1e9ad36f412c0@seeds.polkachu.com:13956,8542cd7e6bf9d260fef543bc49e59be5a3fa9074@seed.publicnode.com:26656'',
     cnStateSyncRPC := [''https://kava-rpc.polkachu.com:443'', ''https://kava-rpc.publicnode.com:443'']\<rparr>\<close>

definition kava_ContainerCommand :: "ChainInstanceSpec \<Rightarrow> string list" where
  \<open>kava_ContainerCommand spec =
     cosmosNode_Command kavaNode\<close>

definition kava_ContainerArgs :: "ChainInstanceSpec \<Rightarrow> string list" where
  \<open>kava_ContainerArgs spec =
     [''--rpc.laddr'', ''tcp://0.0.0.0:26657'']\<close>

definition kava_ContainerPorts :: "ChainInstanceSpec \<Rightarrow> ContainerPort list" where
  \<open>kava_ContainerPorts spec =
     [tcpPort ''rpc'' 26657, tcpPort ''api'' 1317, tcpPort ''p2p'' 26656, tcpPort ''metrics'' 26660]\<close>

definition kava_StartupProbe :: "ChainInstanceSpec \<Rightarrow> Probe option" where
  \<open>kava_StartupProbe spec =
     Some (tcpProbe 26657 30 30 10 120)\<close>

definition kavaAdapter :: "('w, 'x) rpc_env_scheme \<Rightarrow> 'w ChainAdapter" where
  \<open>kavaAdapter E = (protocolBase E ChainKava 26657)\<lparr>
     adHealthCheck := kava_HealthCheck E,
     adConfigTemplate := (\<lambda>_. Inr (''app.toml'', kavaConfig)),
     adContainerCommand := Some kava_ContainerCommand,
     adContainerArgs := Some kava_ContainerArgs,
     adContainerPorts := kava_ContainerPorts,
     adStartupProbe := Some kava_StartupProbe,
     adDefaultResources := Some \<lparr>rdCPURequest = 4 * 1000, rdMemoryRequest = 8 * 2 ^ 30, rdStorage = 1 * 2 ^ 40\<rparr>,
     adVersionPolicy := Some \<lparr>vpRegistry = ''docker.io'', vpRepository = ''kava/kava'',
        vpTagPattern = ''^(?P<version>v'' @ [CHR 0x5C] @ ''d+'' @ [CHR 0x5C] @ ''.'' @ [CHR 0x5C] @ ''d+'' @ [CHR 0x5C] @ ''.'' @ [CHR 0x5C] @ ''d+)-goleveldb$'', vpTagPrefix = []\<rparr>\<rparr>\<close>

definition mocaConfig :: "string" where
  \<open>mocaConfig =
     unlines [
    ''# Moca Network node config (Cosmos/EVMOS-based)'',
    ''[api]'',
    ''enable = true'',
    ''address = "tcp://0.0.0.0:1317"'',
    ''enabled-unsafe-cors = true'',
    [],
    ''[grpc]'',
    ''enable = false'',
    [],
    ''[telemetry]'',
    ''enabled = true'',
    ''prometheus-retention-time = 60'',
    [],
    ''[json-rpc]'',
    ''enable = true'',
    ''address = "0.0.0.0:8545"'']\<close>

definition mocaBlockTime :: "rat" where
  \<open>mocaBlockTime =
     2\<close>

definition moca_HealthCheck :: "('w, 'x) rpc_env_scheme \<Rightarrow> ctx \<Rightarrow> string \<Rightarrow> ('w, goerr + SyncStatus) state" where
  \<open>moca_HealthCheck E =
     cosmosHealthCheck E ''moca health request'' ''moca health'' ''moca status parse'' mocaBlockTime\<close>

definition mocaNode :: "cosmosNode" where
  \<open>mocaNode =
     zero_cosmosNode\<lparr>
     cnBinary := ''mocad'',
     cnChainID := ''moca_2288-1'',
     cnGenesisURL := ''https://tm-rpc.mocachain.org/genesis'',
     cnGenesisSHA256 := ''22b93c2ec892c47f12516c1f7bbbcea457c0a1e601d5a40c279ec0825184e37f'',
     cnGenesisFormat := genesisRPC,
     cnPersistentPeers := ''015fda7c14ddd2e74a29a3118e5c28c069219257@p2p.sentry-node-1.mocachain.dev:26656,d3e1ea4ad789bfc6c259019ae3ca13f05205f364@p2p.sentry-node-0.mocachain.dev:26656'',
     cnStateSyncRPC := [''https://tm-rpc.mocachain.org:443'', ''https://tm-rpc.mocachain.dev:443'']\<rparr>\<close>

definition moca_ContainerCommand :: "ChainInstanceSpec \<Rightarrow> string list" where
  \<open>moca_ContainerCommand spec =
     cosmosNode_Command mocaNode\<close>

definition moca_ContainerArgs :: "ChainInstanceSpec \<Rightarrow> string list" where
  \<open>moca_ContainerArgs spec =
     [''--rpc.laddr'', ''tcp://0.0.0.0:26657'', ''--chain-id'', ''moca_2288-1'']\<close>

definition moca_ContainerPorts :: "ChainInstanceSpec \<Rightarrow> ContainerPort list" where
  \<open>moca_ContainerPorts spec =
     [
      tcpPort ''rpc'' 26657,
      tcpPort ''api'' 1317,
      tcpPort ''p2p'' 26656,
      tcpPort ''evm-rpc'' 8545,
      tcpPort ''metrics'' 26660]\<close>

definition mocaAdapter :: "('w, 'x) rpc_env_scheme \<Rightarrow> 'w ChainAdapter" where
  \<open>mocaAdapter E = (protocolBase E ChainMoca 26657)\<lparr>
     adHealthCheck := moca_HealthCheck E,
     adConfigTemplate := (\<lambda>_. Inr (''app.toml'', mocaConfig)),
     adContainerCommand := Some moca_ContainerCommand,
     adContainerArgs := Some moca_ContainerArgs,
     adContainerPorts := moca_ContainerPorts,
     adDefaultResources := Some \<lparr>rdCPURequest = 2 * 1000, rdMemoryRequest = 4 * 2 ^ 30, rdStorage = 100 * 2 ^ 30\<rparr>,
     adVersionPolicy := Some \<lparr>vpRegistry = ''ghcr.io'', vpRepository = ''mocachain/mocad'',
        vpTagPattern = ''^v(?P<version>'' @ [CHR 0x5C] @ ''d+'' @ [CHR 0x5C] @ ''.'' @ [CHR 0x5C] @ ''d+'' @ [CHR 0x5C] @ ''.'' @ [CHR 0x5C] @ ''d+)$'', vpTagPrefix = []\<rparr>\<rparr>\<close>

definition osmosisConfig :: "string" where
  \<open>osmosisConfig =
     unlines [
    ''# Osmosis node config override'',
    ''[api]'',
    ''enable = true'',
    ''address = "tcp://0.0.0.0:1317"'',
    ''enabled-unsafe-cors = true'',
    [],
    ''[grpc]'',
    ''enable = false'',
    [],
    ''[telemetry]'',
    ''enabled = true'',
    ''prometheus-retention-time = 60'']\<close>

definition osmosisBlockTime :: "rat" where
  \<open>osmosisBlockTime =
     6\<close>

definition osmosis_HealthCheck :: "('w, 'x) rpc_env_scheme \<Rightarrow> ctx \<Rightarrow> string \<Rightarrow> ('w, goerr + SyncStatus) state" where
  \<open>osmosis_HealthCheck E =
     cosmosHealthCheck E ''osmosis health request'' ''osmosis health'' ''osmosis status parse'' osmosisBlockTime\<close>

definition osmosisNode :: "cosmosNode" where
  \<open>osmosisNode =
     zero_cosmosNode\<lparr>
     cnBinary := ''osmosisd'',
     cnChainID := ''osmosis-1'',
     cnGenesisURL := ''https://media.githubusercontent.com/media/osmosis-labs/networks/0e53c816e0fab7bc78a5f14f618fc5c8185e101e/osmosis-1/genesis.json'',
     cnGenesisSHA256 := ''1cdb76087fabcca7709fc563b44b5de98aaf297eedc8805aa2884999e6bab06d'',
     cnSeeds := ''ade4d8bc8cbe014af6ebdf3cb7b1e9ad36f412c0@seeds.polkachu.com:12556,e891d42c31064fb7e0d99839536164473c4905c2@seed-osmosis.freshstaking.com:31656,8542cd7e6bf9d260fef543bc49e59be5a3fa9074@seed.publicnode.com:26656,b85358e035343a3b15e77e1102857dcdaf70053b@seeds.bluestake.net:24856'',
     cnPersistentPeers := ''e891d42c31064fb7e0d99839536164473c4905c2@seed-osmosis.freshstaking.com:31656'',
     cnStateSyncRPC := [''https://osmosis-rpc.polkachu.com:443'', ''https://osmosis-rpc.publicnode.com:443''],
     cnToolbox := True\<rparr>\<close>

definition osmosis_ContainerCommand :: "ChainInstanceSpec \<Rightarrow> string list" where
  \<open>osmosis_ContainerCommand spec =
     cosmosNode_Command osmosisNode\<close>

definition osmosis_InitContainers :: "ChainInstanceSpec \<Rightarrow> Container list" where
  \<open>osmosis_InitContainers spec =
     cosmosNode_InitContainers osmosisNode\<close>

definition osmosis_ContainerArgs :: "ChainInstanceSpec \<Rightarrow> string list" where
  \<open>osmosis_ContainerArgs spec =
     [''--rpc.laddr'', ''tcp://0.0.0.0:26657'']\<close>

definition osmosis_ContainerPorts :: "ChainInstanceSpec \<Rightarrow> ContainerPort list" where
  \<open>osmosis_ContainerPorts spec =
     [tcpPort ''rpc'' 26657, tcpPort ''api'' 1317, tcpPort ''p2p'' 26656, tcpPort ''metrics'' 26660]\<close>

definition osmosis_StartupProbe :: "ChainInstanceSpec \<Rightarrow> Probe option" where
  \<open>osmosis_StartupProbe spec =
     Some (tcpProbe 26657 30 30 10 120)\<close>

definition osmosisAdapter :: "('w, 'x) rpc_env_scheme \<Rightarrow> 'w ChainAdapter" where
  \<open>osmosisAdapter E = (protocolBase E ChainOsmosis 26657)\<lparr>
     adHealthCheck := osmosis_HealthCheck E,
     adConfigTemplate := (\<lambda>_. Inr (''app.toml'', osmosisConfig)),
     adContainerCommand := Some osmosis_ContainerCommand,
     adInitContainers := Some osmosis_InitContainers,
     adContainerArgs := Some osmosis_ContainerArgs,
     adContainerPorts := osmosis_ContainerPorts,
     adStartupProbe := Some osmosis_StartupProbe,
     adDefaultResources := Some \<lparr>rdCPURequest = 4 * 1000, rdMemoryRequest = 8 * 2 ^ 30, rdStorage = 1 * 2 ^ 40\<rparr>,
     adVersionPolicy := Some \<lparr>vpRegistry = ''docker.io'', vpRepository = ''osmolabs/osmosis'',
        vpTagPattern = ''^(?P<version>'' @ [CHR 0x5C] @ ''d+'' @ [CHR 0x5C] @ ''.'' @ [CHR 0x5C] @ ''d+'' @ [CHR 0x5C] @ ''.'' @ [CHR 0x5C] @ ''d+)$'', vpTagPrefix = []\<rparr>\<rparr>\<close>

definition seiConfig :: "string" where
  \<open>seiConfig =
     unlines [
    ''# Sei node config override'',
    ''[api]'',
    ''enable = true'',
    ''address = "tcp://0.0.0.0:1317"'',
    ''enabled-unsafe-cors = true'',
    [],
    ''[grpc]'',
    ''enable = false'',
    [],
    ''[telemetry]'',
    ''enabled = true'',
    ''prometheus-retention-time = 60'']\<close>

definition seiBlockTime :: "rat" where
  \<open>seiBlockTime =
     2/5\<close>

definition sei_HealthCheck :: "('w, 'x) rpc_env_scheme \<Rightarrow> ctx \<Rightarrow> string \<Rightarrow> ('w, goerr + SyncStatus) state" where
  \<open>sei_HealthCheck E =
     cosmosHealthCheck E ''sei health request'' ''sei health'' ''sei status parse'' seiBlockTime\<close>

definition seiNode :: "cosmosNode" where
  \<open>seiNode =
     zero_cosmosNode\<lparr>
     cnBinary := ''seid'',
     cnChainID := ''pacific-1'',
     cnGenesisURL := ''https://raw.githubusercontent.com/sei-protocol/testnet/17352e74b9be263d7fd9f894ea4cf6755e7d93f4/pacific-1/genesis.json'',
     cnGenesisSHA256 := ''4304cf1c7f46d153b79f1195b2d334f7f7cf02f26e02a3bb77c544a4987c1432'',
     cnSeeds := ''400f3d9e30b69e78a7fb891f60d76fa3c73f0ecc@sei.rpc.kjnodes.com:16859,8542cd7e6bf9d260fef543bc49e59be5a3fa9074@seed.publicnode.com:26656,babc3f3f7804933265ec9c40ad94f4da8e9e0017@seed.rhinostake.com:11956'',
     cnPersistentPeers := ''d9bfa29e0cf9c4ce0cc9c26d98e5d97228f93b0b@sei.rpc.kjnodes.com:16856'',
     cnStateSyncRPC := [''https://sei-rpc.polkachu.com:443'', ''https://sei-rpc.publicnode.com:443''],
     cnToolbox := True\<rparr>\<close>

definition sei_ContainerCommand :: "ChainInstanceSpec \<Rightarrow> string list" where
  \<open>sei_ContainerCommand spec =
     cosmosNode_Command seiNode\<close>

definition sei_InitContainers :: "ChainInstanceSpec \<Rightarrow> Container list" where
  \<open>sei_InitContainers spec =
     cosmosNode_InitContainers seiNode\<close>

definition sei_ContainerArgs :: "ChainInstanceSpec \<Rightarrow> string list" where
  \<open>sei_ContainerArgs spec =
     [''--rpc.laddr'', ''tcp://0.0.0.0:26657'']\<close>

definition sei_ContainerPorts :: "ChainInstanceSpec \<Rightarrow> ContainerPort list" where
  \<open>sei_ContainerPorts spec =
     [tcpPort ''rpc'' 26657, tcpPort ''api'' 1317, tcpPort ''p2p'' 26656, tcpPort ''metrics'' 26660]\<close>

definition sei_StartupProbe :: "ChainInstanceSpec \<Rightarrow> Probe option" where
  \<open>sei_StartupProbe spec =
     Some (tcpProbe 26657 30 30 10 120)\<close>

definition seiAdapter :: "('w, 'x) rpc_env_scheme \<Rightarrow> 'w ChainAdapter" where
  \<open>seiAdapter E = (protocolBase E ChainSei 26657)\<lparr>
     adHealthCheck := sei_HealthCheck E,
     adConfigTemplate := (\<lambda>_. Inr (''app.toml'', seiConfig)),
     adContainerCommand := Some sei_ContainerCommand,
     adInitContainers := Some sei_InitContainers,
     adContainerArgs := Some sei_ContainerArgs,
     adContainerPorts := sei_ContainerPorts,
     adStartupProbe := Some sei_StartupProbe,
     adDefaultResources := Some \<lparr>rdCPURequest = 4 * 1000, rdMemoryRequest = 8 * 2 ^ 30, rdStorage = 500 * 2 ^ 30\<rparr>,
     adVersionPolicy := Some \<lparr>vpRegistry = ''ghcr.io'', vpRepository = ''sei-protocol/sei'',
        vpTagPattern = semverTag, vpTagPrefix = []\<rparr>\<rparr>\<close>

definition haqqConfig :: "string" where
  \<open>haqqConfig =
     unlines [
    ''# Haqq Network (Islamic Coin) '' @ [CHR 0xE2, CHR 0x80, CHR 0x94] @ '' Cosmos EVM chain node app.toml overrides'',
    ''[json-rpc]'',
    ''address = "0.0.0.0:8545"'',
    ''ws-address = "0.0.0.0:8546"'',
    ''api = "eth,net,web3,txpool"'',
    ''enable = true'']\<close>

definition haqqNode :: "cosmosNode" where
  \<open>haqqNode =
     zero_cosmosNode\<lparr>
     cnBinary := ''haqqd'',
     cnChainID := ''haqq_11235-1'',
     cnGenesisURL := ''https://raw.githubusercontent.com/haqq-network/mainnet/733a7222cc4b40c2b20428e5428f255950971b9d/genesis.json'',
     cnGenesisSHA256 := ''e381ec1785b8d53db036a54d5a4374a83530a1083116cdec568a1123afd0f8b1'',
     cnSeeds := ''8542cd7e6bf9d260fef543bc49e59be5a3fa9074@seed.publicnode.com:26656'',
     cnStateSyncRPC := [''https://haqq-rpc.polkachu.com:443'', ''https://haqq-rpc.polkachu.com:443'']\<rparr>\<close>

definition haqq_ContainerPorts :: "ChainInstanceSpec \<Rightarrow> ContainerPort list" where
  \<open>haqq_ContainerPorts spec =
     evmPorts 26656 @ [tcpPort ''metrics'' 26660]\<close>

definition haqq_ContainerCommand :: "ChainInstanceSpec \<Rightarrow> string list" where
  \<open>haqq_ContainerCommand spec =
     cosmosNode_Command haqqNode\<close>

definition haqq_ContainerArgs :: "ChainInstanceSpec \<Rightarrow> string list" where
  \<open>haqq_ContainerArgs spec =
     [''--rpc.laddr'', ''tcp://0.0.0.0:26657'']\<close>

definition haqqAdapter :: "('w, 'x) rpc_env_scheme \<Rightarrow> 'w ChainAdapter" where
  \<open>haqqAdapter E = (protocolBase E ChainHaqq 8545)\<lparr>
     adConfigTemplate := (\<lambda>_. Inr (''app.toml'', haqqConfig)),
     adContainerPorts := haqq_ContainerPorts,
     adContainerCommand := Some haqq_ContainerCommand,
     adContainerArgs := Some haqq_ContainerArgs,
     adDefaultResources := Some \<lparr>rdCPURequest = 4 * 1000, rdMemoryRequest = 8 * 2 ^ 30, rdStorage = 500 * 2 ^ 30\<rparr>,
     adVersionPolicy := Some \<lparr>vpRegistry = ''docker.io'', vpRepository = ''alhaqq/haqq'',
        vpTagPattern = semverTag, vpTagPrefix = []\<rparr>\<rparr>\<close>

definition mezoConfig :: "string" where
  \<open>mezoConfig =
     unlines [
    ''# Mezo node config (Cosmos SDK + EVMOS EVM extension)'',
    ''[api]'',
    ''enable = true'',
    ''address = "tcp://0.0.0.0:1317"'',
    ''enabled-unsafe-cors = true'',
    [],
    ''[grpc]'',
    ''enable = false'',
    [],
    ''[telemetry]'',
    ''enabled = true'',
    ''prometheus-retention-time = 60'',
    [],
    ''[json-rpc]'',
    ''enable = true'',
    ''address = "0.0.0.0:8545"'',
    ''ws-address = "0.0.0.0:8546"'']\<close>

definition mezoNode :: "cosmosNode" where
  \<open>mezoNode =
     zero_cosmosNode\<lparr>
     cnBinary := ''mezod'',
     cnChainID := ''mezo_31612-1'',
     cnGenesisURL := ''https://raw.githubusercontent.com/mezo-org/mezod/v11.0.1/chain/mainnet/mezo_31612-1/genesis.json'',
     cnGenesisSHA256 := ''c1b9b2736bc0c1e6390dafa80c43fdc9870490d481ebaa71d932a98df3c531f7'',
     cnSeeds := ''a44ea22836e79c2e8e2e64547243ce6925746e91@35.208.223.127:26656,3248ba5a691a6422c6bda443a43cfdf48e43cc85@mezo-mainnet-seed.validator.validationcloud.io:30232'',
     cnStateSyncRPC := [''https://rpc.lavenderfive.com:443/mezo'', ''https://rpc.lavenderfive.com:443/mezo''],
     cnToolbox := True\<rparr>\<close>

definition mezo_ContainerCommand :: "ChainInstanceSpec \<Rightarrow> string list" where
  \<open>mezo_ContainerCommand spec =
     cosmosNode_Command mezoNode\<close>

definition mezo_InitContainers :: "ChainInstanceSpec \<Rightarrow> Container list" where
  \<open>mezo_InitContainers spec =
     cosmosNode_InitContainers mezoNode\<close>

definition mezo_ContainerArgs :: "ChainInstanceSpec \<Rightarrow> string list" where
  \<open>mezo_ContainerArgs spec =
     [''--rpc.laddr'', ''tcp://0.0.0.0:26657'']\<close>

definition mezo_ContainerPorts :: "ChainInstanceSpec \<Rightarrow> ContainerPort list" where
  \<open>mezo_ContainerPorts spec =
     [
      tcpPort ''rpc'' 26657,
      tcpPort ''api'' 1317,
      tcpPort ''p2p'' 26656,
      tcpPort ''evm-rpc'' 8545,
      tcpPort ''evm-ws'' 8546,
      tcpPort ''metrics'' 26660]\<close>

definition mezoAdapter :: "('w, 'x) rpc_env_scheme \<Rightarrow> 'w ChainAdapter" where
  \<open>mezoAdapter E = (protocolBase E ChainMezo 26657)\<lparr>
     adConfigTemplate := (\<lambda>_. Inr (''app.toml'', mezoConfig)),
     adContainerCommand := Some mezo_ContainerCommand,
     adInitContainers := Some mezo_InitContainers,
     adContainerArgs := Some mezo_ContainerArgs,
     adContainerPorts := mezo_ContainerPorts,
     adDefaultResources := Some \<lparr>rdCPURequest = 2 * 1000, rdMemoryRequest = 4 * 2 ^ 30, rdStorage = 100 * 2 ^ 30\<rparr>,
     adVersionPolicy := Some \<lparr>vpRegistry = ''docker.io'', vpRepository = ''mezo/mezod'',
        vpTagPattern = semverTag, vpTagPrefix = []\<rparr>\<rparr>\<close>

end
