(* ===== verification/Utxo_Adapters.thy ===== *)
theory Utxo_Adapters
  imports Adapter_Http
begin

text \<open>
  Bitcoin-family chains: the rest of \<open>utxo_protocol_base.go\<close> and the adapters of Bitcoin, Dash,
  Dogecoin and Litecoin.
\<close>

subsection \<open>The shared base\<close>

definition authenticatedURL :: "('w, 'x) rpc_env_scheme \<Rightarrow> string \<Rightarrow> RPCCredentials \<Rightarrow> goerr + string" where
  "authenticatedURL E rpcURL creds = (case hParseURL E rpcURL of
     Inl err \<Rightarrow> Inl (WrapErr ''parse rpc url'' err)
   | Inr parsed \<Rightarrow> Inr (if creds_IsZero creds then parsed else setUserinfo (rcUser creds) (rcPassword creds) parsed))"

definition utxo_HealthCheckWithCredentials ::
    "('w, 'x) rpc_env_scheme \<Rightarrow> utxoProtocolAdapter \<Rightarrow> ctx \<Rightarrow> string \<Rightarrow> RPCCredentials \<Rightarrow> ('w, goerr + SyncStatus) state" where
  "utxo_HealthCheckWithCredentials E u c rpcURL creds = (case authenticatedURL E rpcURL creds of
     Inl err \<Rightarrow> ret (Inl err)
   | Inr authURL \<Rightarrow> utxoHealthCheck E c authURL u)"

text \<open>
  The method set of a type that embeds the base; \<open>tpl\<close> executes its configuration template and
  \<open>sidecars\<close> is its \<open>RPCSidecars\<close>. The digests \<open>sha\<close> and \<open>hmac\<close> are those of \<^const>\<open>RPCAuth\<close>.
\<close>

definition utxoBase ::
    "('w, 'x) rpc_env_scheme \<Rightarrow> (string \<Rightarrow> string) \<Rightarrow> (string \<Rightarrow> string \<Rightarrow> string) \<Rightarrow> Chain \<Rightarrow> int \<Rightarrow> utxoProtocolAdapter \<Rightarrow>
     (utxoConfigData \<Rightarrow> string) \<Rightarrow> (ChainInstanceSpec \<Rightarrow> string \<Rightarrow> Container list) \<Rightarrow> 'w ChainAdapter" where
  "utxoBase E sha hmac chain port u tpl sidecars =
     (let config = utxo_ConfigTemplateWithCredentials sha hmac (uxConfigFile u) (\<lambda>d. Inr (tpl d)) in
      (protocolBase E chain port)\<lparr>
        adConfigTemplate := (\<lambda>spec. config spec \<lparr>rcUser = [], rcPassword = [], rcSalt = []\<rparr>),
        adHealthCheck := (\<lambda>c rpcURL. utxoHealthCheck E c rpcURL u),
        adRPCCredentialed := Some \<lparr>
          rcEnvNames = (uxRpcUserEnv u, uxRpcPasswordEnv u),
          rcConfigTemplate = config,
          rcHealthCheck = utxo_HealthCheckWithCredentials E u,
          rcSidecars = sidecars\<rparr>\<rparr>)"

subsection \<open>The chains\<close>

definition btcConfig :: "utxoConfigData \<Rightarrow> string" where
  \<open>btcConfig d =
     unlines ([''# bitcoin.conf''] @
      (if udIsTestnet d then [''testnet=1'',
      ''datadir=/data'',
      ''txindex=1'',
      [],
      ''[test]'',
      ''server=1'',
      ''rpcallowip=0.0.0.0/0'',
      ''rpcbind=0.0.0.0'',
      ''rpcport=18332''] @
      (if udRPCAuth d \<noteq> [] then [''rpcauth='' @ udRPCAuth d]
      else [])
      else [''server=1'',
      ''rpcallowip=0.0.0.0/0'',
      ''rpcbind=0.0.0.0'',
      ''rpcport=8332''] @
      (if udRPCAuth d \<noteq> [] then [''rpcauth='' @ udRPCAuth d]
      else []) @
      [''testnet=0'',
      ''datadir=/data'',
      ''txindex=1'']))\<close>

definition bitcoin_utxo :: "utxoProtocolAdapter" where
  \<open>bitcoin_utxo =
     \<lparr>uxRpcUserEnv = ''BTC_RPC_USER'', uxRpcPasswordEnv = ''BTC_RPC_PASSWORD'', uxConfigFile = ''bitcoin.conf'',
      uxStallPolicy = ''synced-exempt'', uxUseRetry = True\<rparr>\<close>

definition bitcoin_RPCSidecars :: "ChainInstanceSpec \<Rightarrow> string \<Rightarrow> Container list" where
  \<open>bitcoin_RPCSidecars spec secretName =
     (let rpcPort = 8332 in
     let rpcPort = (if spNetwork spec = NetworkTestnet then 18332 else rpcPort) in
     [utxoExporterSidecar rpcPort secretName])\<close>

definition bitcoin_LivenessProbe :: "ChainInstanceSpec \<Rightarrow> Probe option" where
  \<open>bitcoin_LivenessProbe spec =
     (let port = 8332 in
     let port = (if spNetwork spec = NetworkTestnet then 18332 else port) in
     Some (tcpProbe port 30 30 10 3))\<close>

definition bitcoin_ContainerArgs :: "ChainInstanceSpec \<Rightarrow> string list" where
  \<open>bitcoin_ContainerArgs spec =
     [''-conf=/config/bitcoin.conf'']\<close>

definition bitcoin_ContainerPorts :: "ChainInstanceSpec \<Rightarrow> ContainerPort list" where
  \<open>bitcoin_ContainerPorts spec =
     (if spNetwork spec = NetworkTestnet then [tcpPort ''rpc'' 18332, tcpPort ''p2p'' 18333]
     else [tcpPort ''rpc'' 8332, tcpPort ''p2p'' 8333])\<close>

definition bitcoinAdapter :: "('w, 'x) rpc_env_scheme \<Rightarrow> (string \<Rightarrow> string) \<Rightarrow> (string \<Rightarrow> string \<Rightarrow> string) \<Rightarrow> 'w ChainAdapter" where
  \<open>bitcoinAdapter E sha hmac = (utxoBase E sha hmac ChainBitcoin 8332 bitcoin_utxo btcConfig bitcoin_RPCSidecars)\<lparr>
     adLivenessProbe := bitcoin_LivenessProbe,
     adContainerArgs := Some bitcoin_ContainerArgs,
     adContainerPorts := bitcoin_ContainerPorts,
     adVersionPolicy := Some \<lparr>vpRegistry = ''docker.io'', vpRepository = ''lncm/bitcoind'',
        vpTagPattern = ''^v'' @ [CHR 0x5C] @ ''d+'', vpTagPrefix = []\<rparr>,
     adDefaultResources := Some \<lparr>rdCPURequest = 8 * 1000, rdMemoryRequest = 8 * 2 ^ 30, rdStorage = 500 * 2 ^ 30\<rparr>\<rparr>\<close>

definition dashConfig :: "utxoConfigData \<Rightarrow> string" where
  \<open>dashConfig d =
     unlines ([''server=1'',
      ''rpcallowip=0.0.0.0/0'',
      ''rpcbind=0.0.0.0'',
      ''rpcport=9998''] @
      (if udRPCAuth d \<noteq> [] then [''rpcauth='' @ udRPCAuth d]
      else []) @
      [''testnet='' @ udTestnet d,
      ''datadir=/data'',
      ''txindex=1'',
      ''dbcache=1024'',
      ''maxconnections=125''])\<close>

definition dash_utxo :: "utxoProtocolAdapter" where
  \<open>dash_utxo =
     \<lparr>uxRpcUserEnv = ''DASH_RPC_USER'', uxRpcPasswordEnv = ''DASH_RPC_PASSWORD'', uxConfigFile = ''dash.conf'',
      uxStallPolicy = ''synced-exempt'', uxUseRetry = False\<rparr>\<close>

definition dash_RPCSidecars :: "ChainInstanceSpec \<Rightarrow> string \<Rightarrow> Container list" where
  \<open>dash_RPCSidecars spec secretName =
     [utxoExporterSidecar 9998 secretName]\<close>

definition dash_ContainerArgs :: "ChainInstanceSpec \<Rightarrow> string list" where
  \<open>dash_ContainerArgs spec =
     [''dashd'', ''-conf=/config/dash.conf'']\<close>

definition dash_ContainerPorts :: "ChainInstanceSpec \<Rightarrow> ContainerPort list" where
  \<open>dash_ContainerPorts spec =
     [tcpPort ''rpc'' 9998, tcpPort ''p2p'' 9999]\<close>

definition dashAdapter :: "('w, 'x) rpc_env_scheme \<Rightarrow> (string \<Rightarrow> string) \<Rightarrow> (string \<Rightarrow> string \<Rightarrow> string) \<Rightarrow> 'w ChainAdapter" where
  \<open>dashAdapter E sha hmac = (utxoBase E sha hmac ChainDash 9998 dash_utxo dashConfig dash_RPCSidecars)\<lparr>
     adContainerArgs := Some dash_ContainerArgs,
     adContainerPorts := dash_ContainerPorts,
     adVersionPolicy := Some \<lparr>vpRegistry = ''docker.io'', vpRepository = ''dashpay/dashd'',
        vpTagPattern = ''^'' @ [CHR 0x5C] @ ''d+'' @ [CHR 0x5C] @ ''.'' @ [CHR 0x5C] @ ''d+'', vpTagPrefix = []\<rparr>,
     adDefaultResources := Some \<lparr>rdCPURequest = 2 * 1000, rdMemoryRequest = 2 * 2 ^ 30, rdStorage = 50 * 2 ^ 30\<rparr>\<rparr>\<close>

definition dogeConfig :: "utxoConfigData \<Rightarrow> string" where
  \<open>dogeConfig d =
     unlines ([''server=1'',
      ''rpcallowip=0.0.0.0/0'',
      ''rpcbind=0.0.0.0'',
      ''rpcport=22555''] @
      (if udRPCAuth d \<noteq> [] then [''rpcauth='' @ udRPCAuth d]
      else []) @
      [''testnet='' @ udTestnet d,
      ''datadir=/data'',
      ''txindex=1'',
      ''maxconnections=125''])\<close>

definition dogecoin_utxo :: "utxoProtocolAdapter" where
  \<open>dogecoin_utxo =
     \<lparr>uxRpcUserEnv = ''DOGE_RPC_USER'', uxRpcPasswordEnv = ''DOGE_RPC_PASSWORD'', uxConfigFile = ''dogecoin.conf'',
      uxStallPolicy = ''synced-exempt'', uxUseRetry = False\<rparr>\<close>

definition dogecoin_RPCSidecars :: "ChainInstanceSpec \<Rightarrow> string \<Rightarrow> Container list" where
  \<open>dogecoin_RPCSidecars spec secretName =
     [utxoExporterSidecar 22555 secretName]\<close>

definition dogecoin_ContainerPorts :: "ChainInstanceSpec \<Rightarrow> ContainerPort list" where
  \<open>dogecoin_ContainerPorts spec =
     [tcpPort ''rpc'' 22555, tcpPort ''p2p'' 22556]\<close>

definition dogecoin_ContainerArgs :: "ChainInstanceSpec \<Rightarrow> string list" where
  \<open>dogecoin_ContainerArgs spec =
     [''-conf=/config/dogecoin.conf'', ''-datadir=/data'']\<close>

definition dogecoinAdapter :: "('w, 'x) rpc_env_scheme \<Rightarrow> (string \<Rightarrow> string) \<Rightarrow> (string \<Rightarrow> string \<Rightarrow> string) \<Rightarrow> 'w ChainAdapter" where
  \<open>dogecoinAdapter E sha hmac = (utxoBase E sha hmac ChainDogecoin 22555 dogecoin_utxo dogeConfig dogecoin_RPCSidecars)\<lparr>
     adContainerPorts := dogecoin_ContainerPorts,
     adContainerArgs := Some dogecoin_ContainerArgs,
     adVersionPolicy := Some \<lparr>vpRegistry = ''docker.io'', vpRepository = ''fiftysix/dogecoin-core'',
        vpTagPattern = ''^'' @ [CHR 0x5C] @ ''d+'' @ [CHR 0x5C] @ ''.'' @ [CHR 0x5C] @ ''d+'' @ [CHR 0x5C] @ ''.'' @ [CHR 0x5C] @ ''d+$'', vpTagPrefix = []\<rparr>,
     adDefaultResources := Some \<lparr>rdCPURequest = 2 * 1000, rdMemoryRequest = 4 * 2 ^ 30, rdStorage = 100 * 2 ^ 30\<rparr>\<rparr>\<close>

definition ltcConfig :: "utxoConfigData \<Rightarrow> string" where
  \<open>ltcConfig d =
     unlines ([''server=1'',
      ''rpcallowip=0.0.0.0/0'',
      ''rpcbind=0.0.0.0'',
      ''rpcport=9332''] @
      (if udRPCAuth d \<noteq> [] then [''rpcauth='' @ udRPCAuth d]
      else []) @
      [''rpcworkqueue=128'',
      ''rpcthreads=8'',
      ''testnet='' @ udTestnet d,
      ''datadir=/data'',
      ''txindex=1'',
      ''dbcache=4096'',
      ''maxconnections=125'',
      ''par=4'',
      ''maxorphantx=10''])\<close>

definition litecoin_utxo :: "utxoProtocolAdapter" where
  \<open>litecoin_utxo =
     \<lparr>uxRpcUserEnv = ''LTC_RPC_USER'', uxRpcPasswordEnv = ''LTC_RPC_PASSWORD'', uxConfigFile = ''litecoin.conf'',
      uxStallPolicy = ''ibd-exempt'', uxUseRetry = True\<rparr>\<close>

definition litecoin_RPCSidecars :: "ChainInstanceSpec \<Rightarrow> string \<Rightarrow> Container list" where
  \<open>litecoin_RPCSidecars spec secretName =
     [utxoExporterSidecar 9332 secretName]\<close>

definition litecoin_ContainerPorts :: "ChainInstanceSpec \<Rightarrow> ContainerPort list" where
  \<open>litecoin_ContainerPorts spec =
     [tcpPort ''rpc'' 9332, tcpPort ''p2p'' 9333]\<close>

definition litecoin_ContainerArgs :: "ChainInstanceSpec \<Rightarrow> string list" where
  \<open>litecoin_ContainerArgs spec =
     [''-conf=/config/litecoin.conf'']\<close>

definition litecoin_ContainerEnv :: "ChainInstanceSpec \<Rightarrow> EnvVar list" where
  \<open>litecoin_ContainerEnv spec =
     [EnvValue ''LITECOIN_DATA'' ''/data'']\<close>

definition litecoinAdapter :: "('w, 'x) rpc_env_scheme \<Rightarrow> (string \<Rightarrow> string) \<Rightarrow> (string \<Rightarrow> string \<Rightarrow> string) \<Rightarrow> 'w ChainAdapter" where
  \<open>litecoinAdapter E sha hmac = (utxoBase E sha hmac ChainLitecoin 9332 litecoin_utxo ltcConfig litecoin_RPCSidecars)\<lparr>
     adContainerPorts := litecoin_ContainerPorts,
     adContainerArgs := Some litecoin_ContainerArgs,
     adContainerEnv := Some litecoin_ContainerEnv,
     adVersionPolicy := Some \<lparr>vpRegistry = ''docker.io'', vpRepository = ''uphold/litecoin-core'',
        vpTagPattern = ''^'' @ [CHR 0x5C] @ ''d+'' @ [CHR 0x5C] @ ''.'' @ [CHR 0x5C] @ ''d+'', vpTagPrefix = []\<rparr>,
     adDefaultResources := Some \<lparr>rdCPURequest = 2 * 1000, rdMemoryRequest = 2 * 2 ^ 30, rdStorage = 100 * 2 ^ 30\<rparr>\<rparr>\<close>

end
