(* ===== verification/Native_Adapters1.thy ===== *)
theory Native_Adapters1
  imports Adapter_Http
begin

text \<open>
  Adapters with a health check of their own, first part: \<open>aptos.go\<close>, \<open>avalanche.go\<close>, \<open>cardano.go\<close>,
  \<open>filecoin.go\<close>, \<open>hyperliquid.go\<close> and \<open>kusama.go\<close>. \<open>oor\<close> is what a conversion of a float outside
  the integer range gives.
\<close>

text \<open>A node at the tip.\<close>

abbreviation (input) syncedAt :: "int \<Rightarrow> int \<Rightarrow> SyncStatus" where
  "syncedAt block peers \<equiv> \<lparr>syIsSyncing = False, syCurrentBlock = block, syHighestBlock = block, syPeers = peers,
     syProgress = Fin 100, syStallExempt = False\<rparr>"

definition aptosConfig :: "string" where
  \<open>aptosConfig =
     unlines [
    ''base:'',
    ''  role: "full_node"'',
    ''  data_dir: "/data"'',
    ''  waypoint:'',
    ''    from_file: "/data/aptos-genesis/waypoint.txt"'',
    [],
    ''execution:'',
    ''  genesis_file_location: "/data/aptos-genesis/genesis.blob"'',
    [],
    ''full_node_networks:'',
    ''  - network_id: "public"'',
    ''    discovery_method: "onchain"'',
    ''    listen_address: "/ip4/0.0.0.0/tcp/6180"'',
    ''    seeds: {}'',
    ''    max_inbound_connections: 100'',
    [],
    ''api:'',
    ''  enabled: true'',
    ''  address: "0.0.0.0:8080"'',
    [],
    ''state_sync:'',
    ''  state_sync_driver:'',
    ''    bootstrapping_mode: DownloadLatestStates'',
    ''    continuous_syncing_mode: ExecuteTransactionsOrApplyOutputs'',
    [],
    ''storage:'',
    ''  rocksdb_configs:'',
    ''    enable_storage_sharding: true'']\<close>

definition dec_aptosLedger :: "(string \<times> string \<times> string) decoder" where
  "dec_aptosLedger = dec_and (dec_path [''ledger_version''] dec_string)
     (dec_and (dec_path [''oldest_ledger_version''] dec_string) (dec_path [''node_role''] dec_string))"

text \<open>One line of the metrics page: inbound connections are added up.\<close>

definition aptos_peer_line :: "int \<Rightarrow> int \<Rightarrow> string \<Rightarrow> int" where
  \<open>aptos_peer_line oor peers line =
     (if Contains line ''aptos_connections{'' \<and> Contains line ''direction="inbound"''
      then (let fields = Fields line in
        if length fields \<ge> 2
        then (case ParseFloat (last fields) of None \<Rightarrow> peers | Some v \<Rightarrow> wrap32 (peers + f_to_int32 oor v))
        else peers)
      else peers)\<close>

definition aptosPeerCount :: "('w, 'x) rpc_env_scheme \<Rightarrow> int \<Rightarrow> ctx \<Rightarrow> string \<Rightarrow> ('w, int) state" where
  "aptosPeerCount E oor c rpcURL = (case hParseURL E rpcURL of
     Inl _ \<Rightarrow> ret 0
   | Inr u \<Rightarrow> getURL E (5 * Second) c (''http://'' @ url_Hostname u @ '':9101/metrics'') (\<lambda>_. ret 0) (\<lambda>_. ret 0)
       (\<lambda>resp. ret (foldl (aptos_peer_line oor) 0 (scan_lines (bodyText resp)))))"

definition aptos_HealthCheck :: "('w, 'x) rpc_env_scheme \<Rightarrow> int \<Rightarrow> ctx \<Rightarrow> string \<Rightarrow> ('w, goerr + SyncStatus) state" where
  "aptos_HealthCheck E oor c rpcURL =
     getURL E rpcTimeout c (rpcURL @ ''/v1'') (failWith ''call Aptos REST API'') (failWith ''aptos api'') (\<lambda>resp.
       case hrBody resp of
         Inl err \<Rightarrow> failWith ''read Aptos API response'' err
       | Inr body \<Rightarrow> (case unmarshal_raw dec_aptosLedger (hbJson body) ([], [], []) of
           None \<Rightarrow> failWith ''decode Aptos API payload'' jsonErr
         | Some (ledgerVersion, _, _) \<Rightarrow>
             (let current = ParseInt64_value 10 ledgerVersion in
              if current = 0 then retPseudo E
              else do {
                peers \<leftarrow> aptosPeerCount E oor c rpcURL;
                ret (Inr (syncedAt current peers)) })))"

definition aptos_StartupProbe :: "ChainInstanceSpec \<Rightarrow> Probe option" where
  \<open>aptos_StartupProbe spec =
     Some (httpProbe ''/v1/-/healthy'' 8080 60 30 10 480)\<close>

definition aptos_LivenessProbe :: "ChainInstanceSpec \<Rightarrow> Probe option" where
  \<open>aptos_LivenessProbe spec =
     Some (httpProbe ''/v1/-/healthy'' 8080 60 30 10 5)\<close>

definition aptos_ContainerCommand :: "ChainInstanceSpec \<Rightarrow> string list" where
  \<open>aptos_ContainerCommand spec =
     (let script = unlines [
    ''BASE=https://raw.githubusercontent.com/aptos-labs/aptos-networks/main/mainnet'',
    ''mkdir -p /data/aptos-genesis'',
    ''[ -f /data/aptos-genesis/genesis.blob ] || curl -fsSL -o /data/aptos-genesis/genesis.blob "$BASE/genesis.blob"'',
    ''[ -f /data/aptos-genesis/waypoint.txt ] || curl -fsSL -o /data/aptos-genesis/waypoint.txt "$BASE/waypoint.txt"''] @ ''exec aptos-node --config /config/fullnode.yaml'' in
     [''sh'', ''-c'', script])\<close>

definition aptos_ContainerPorts :: "ChainInstanceSpec \<Rightarrow> ContainerPort list" where
  \<open>aptos_ContainerPorts spec =
     [tcpPort ''rpc'' 8080, tcpPort ''metrics'' 9101, tcpPort ''p2p'' 6180]\<close>

definition aptosAdapter :: "('w, 'x) rpc_env_scheme \<Rightarrow> int \<Rightarrow> 'w ChainAdapter" where
  \<open>aptosAdapter E oor = (protocolBase E ChainAptos 8080)\<lparr>
     adHealthCheck := aptos_HealthCheck E oor,
     adConfigTemplate := (\<lambda>_. Inr (''fullnode.yaml'', aptosConfig)),
     adStartupProbe := Some aptos_StartupProbe,
     adLivenessProbe := aptos_LivenessProbe,
     adContainerCommand := Some aptos_ContainerCommand,
     adContainerPorts := aptos_ContainerPorts,
     adDefaultResources := Some \<lparr>rdCPURequest = 4 * 1000, rdMemoryRequest = 8 * 2 ^ 30, rdStorage = 500 * 2 ^ 30\<rparr>\<rparr>\<close>

definition avaxConfig :: "string \<Rightarrow> string" where
  \<open>avaxConfig network =
     unlines ([''{'',
      ''  "network-id": "'' @ network @ ''",'',
      ''  "http-host": "0.0.0.0",'',
      ''  "http-port": 9650,'',
      ''  "http-allowed-hosts": "*",'',
      ''  "data-dir": "/data",'',
      ''  "api-admin-enabled": false,'',
      ''  "index-enabled": false'']) @ ''}''\<close>

definition dec_avaxHealth :: "(bool \<times> (string \<times> string) list) decoder" where
  "dec_avaxHealth = dec_and (dec_path [''healthy''] dec_bool)
     (dec_path [''checks''] (dec_map (dec_path [''error''] dec_string) []))"

definition avaxPeerCount :: "('w, 'x) rpc_env_scheme \<Rightarrow> ctx \<Rightarrow> string \<Rightarrow> ('w, int) state" where
  "avaxPeerCount E c rpcURL =
     (let url = rpcURL @ ''/ext/info'' in
      case hNewRequest E url of
        Inl _ \<Rightarrow> ret 0
      | Inr _ \<Rightarrow> do {
          r \<leftarrow> hPost E c (5 * Second) url (rpcRequestBody ''info.peers'' ''null'');
          ret (case unmarshal_raw (dec_path [''result'', ''peers''] (dec_list dec_raw None)) (bodyJson r) [] of
             None \<Rightarrow> 0
           | Some peers \<Rightarrow> wrap32 (int (length peers))) })"

text \<open>One line of the metrics page: blocks fetched, and whether the bootstrap of the P-Chain is over.\<close>

definition avax_metric_line :: "int \<Rightarrow> int \<times> bool \<Rightarrow> string \<Rightarrow> int \<times> bool" where
  \<open>avax_metric_line oor st line =
     (let fields = Fields line; (fetched, finished) = st in
      if length fields < 2 then st
      else
        (if HasPrefix line ''avalanche_snowman_bs_fetched{chain="P"}''
         then (case ParseFloat (fields ! 1) of None \<Rightarrow> fetched | Some f \<Rightarrow> f_to_int64 oor f) else fetched,
         if HasPrefix line ''avalanche_snowman_bootstrap_finished{chain="P"}''
         then (case ParseFloat (fields ! 1) of None \<Rightarrow> finished | Some f \<Rightarrow> f_eq f (Fin 1)) else finished))\<close>

definition avaxBootstrapMetrics :: "('w, 'x) rpc_env_scheme \<Rightarrow> int \<Rightarrow> ctx \<Rightarrow> string \<Rightarrow> ('w, int \<times> bool) state" where
  "avaxBootstrapMetrics E oor c rpcURL =
     getURL E rpcTimeout c (rpcURL @ ''/ext/metrics'') (\<lambda>_. ret (0, False)) (\<lambda>_. ret (0, False))
       (\<lambda>resp. ret (foldl (avax_metric_line oor) (0, False) (scan_lines (bodyText resp))))"

definition avalanche_HealthCheck :: "('w, 'x) rpc_env_scheme \<Rightarrow> int \<Rightarrow> ctx \<Rightarrow> string \<Rightarrow> ('w, goerr + SyncStatus) state" where
  "avalanche_HealthCheck E oor c rpcURL =
     getURL E rpcTimeout c (rpcURL @ ''/ext/health'') (failWith ''call Avalanche /health endpoint'')
       (\<lambda>err. if isContextTimeout err
              then ret (Inr (zero_sync\<lparr>syIsSyncing := True, syStallExempt := True, syProgress := Fin 1\<rparr>))
              else failWith ''avax health'' err)
       (\<lambda>resp. case unmarshal_raw dec_avaxHealth (bodyJson (Inr resp)) (False, []) of
          None \<Rightarrow> failWith ''decode Avalanche health payload'' jsonErr
        | Some (_, checks) \<Rightarrow>
            (if map_of checks ''bootstrapped'' \<notin> {None, Some []}
             then do {
               (fetched, finished) \<leftarrow> avaxBootstrapMetrics E oor c rpcURL;
               now \<leftarrow> gNow E;
               let current = (if \<not> finished \<and> fetched > 0
                              then Bit_Operations.xor fetched (time_Unix now mod 2 ^ 16) else fetched);
               peers \<leftarrow> avaxPeerCount E c rpcURL;
               ret (Inr (zero_sync\<lparr>syIsSyncing := True, syCurrentBlock := current,
                 syHighestBlock := wrap64 (current + 1), syPeers := peers\<rparr>)) }
             else do {
               r \<leftarrow> evmHealthCheck E c (rpcURL @ ''/ext/bc/C/rpc'');
               case r of
                 Inl err \<Rightarrow> ret (Inl err)
               | Inr status \<Rightarrow> do {
                   peers \<leftarrow> avaxPeerCount E c rpcURL;
                   ret (Inr (status\<lparr>syPeers := peers\<rparr>)) } }))"

definition avalanche_ContainerCommand :: "ChainInstanceSpec \<Rightarrow> string list" where
  \<open>avalanche_ContainerCommand spec =
     [''/avalanchego/build/avalanchego'', ''--config-file=/config/config.json'']\<close>

definition avalanche_StartupProbe :: "ChainInstanceSpec \<Rightarrow> Probe option" where
  \<open>avalanche_StartupProbe spec =
     Some (tcpProbe 9650 30 30 10 240)\<close>

definition avalanche_ContainerPorts :: "ChainInstanceSpec \<Rightarrow> ContainerPort list" where
  \<open>avalanche_ContainerPorts spec =
     [tcpPort ''rpc'' 9650, tcpPort ''metrics'' 9650, tcpPort ''staking'' 9651]\<close>

definition avalancheAdapter :: "('w, 'x) rpc_env_scheme \<Rightarrow> int \<Rightarrow> 'w ChainAdapter" where
  \<open>avalancheAdapter E oor = (protocolBase E ChainAvalanche 9650)\<lparr>
     adHealthCheck := avalanche_HealthCheck E oor,
     adConfigTemplate := (\<lambda>spec. Inr (''config.json'', avaxConfig (if spNetwork spec = NetworkTestnet then ''fuji'' else ''mainnet''))),
     adContainerCommand := Some avalanche_ContainerCommand,
     adStartupProbe := Some avalanche_StartupProbe,
     adContainerPorts := avalanche_ContainerPorts,
     adDefaultResources := Some \<lparr>rdCPURequest = 4 * 1000, rdMemoryRequest = 8 * 2 ^ 30, rdStorage = 500 * 2 ^ 30\<rparr>,
     adVersionPolicy := Some \<lparr>vpRegistry = ''docker.io'', vpRepository = ''avaplatform/avalanchego'',
        vpTagPattern = semverTag, vpTagPrefix = []\<rparr>\<rparr>\<close>

definition cardanoConfig :: "string" where
  \<open>cardanoConfig =
     unlines [
    ''{'',
    ''  "Protocol": "Cardano",'',
    ''  "RequiresNetworkMagic": "RequiresNoMagic",'',
    ''  "ByronGenesisFile": "/config/byron-genesis.json",'',
    ''  "ShelleyGenesisFile": "/config/shelley-genesis.json",'',
    ''  "AlonzoGenesisFile": "/config/alonzo-genesis.json",'',
    ''  "ConwayGenesisFile": "/config/conway-genesis.json",'',
    ''  "SocketPath": "/data/node.socket",'',
    ''  "DefaultBackends": ["KatipBK"],'',
    ''  "DefaultScribes": ['' @ ''["StdoutSK", "stdout"]'' @ ''],'',
    ''  "setupScribes": [{"scKind": "StdoutSK", "scName": "stdout", "scRotation": null}],'',
    ''  "minSeverity": "Info",'',
    ''  "TraceBlockFetchDecisions": false,'',
    ''  "EnableP2P": true,'',
    ''  "TargetNumberOfRootPeers": 100,'',
    ''  "TargetNumberOfKnownPeers": 100,'',
    ''  "TargetNumberOfEstablishedPeers": 50,'',
    ''  "TargetNumberOfActivePeers": 20,'',
    ''  "ExperimentalHardForksEnabled": false,'',
    ''  "ExperimentalProtocolsEnabled": false''] @ ''}''\<close>

text \<open>The mainnet slot by the clock: one slot a second since 2020-07-29T21:44:51Z.\<close>

definition cardanoNetworkTip :: "int \<Rightarrow> time \<Rightarrow> int" where
  "cardanoNetworkTip oor now =
     (let shelleyStartSlot = 4924800; shelleyStart = 1596059091 * Second;
          elapsed = dur_Seconds (time_Sub now shelleyStart)
      in if f_lt elapsed (Fin 0) then shelleyStartSlot
         else wrap64 (shelleyStartSlot + f_to_int64 oor elapsed))"

definition cardanoPromMetric :: "string \<Rightarrow> f64 \<times> bool" where
  "cardanoPromMetric line =
     (let fields = Fields line in
      if length fields < 2 then (Fin 0, False)
      else (case ParseFloat (fields ! 1) of None \<Rightarrow> (Fin 0, False) | Some v \<Rightarrow> (v, True)))"

record cardano_metrics =
  cmBlockNum :: f64
  cmSlotNum :: f64
  cmReplayProgress :: f64
  cmPeers :: int

definition cardano_metric_line :: "int \<Rightarrow> cardano_metrics \<Rightarrow> string \<Rightarrow> cardano_metrics" where
  "cardano_metric_line oor m line =
     (if HasPrefix line ''#'' then m
      else (let (v, ok) = cardanoPromMetric line;
                m = (if HasPrefix line ''cardano_node_metrics_blockNum_int '' then m\<lparr>cmBlockNum := v\<rparr> else m);
                m = (if HasPrefix line ''cardano_node_metrics_slotNum_int '' then m\<lparr>cmSlotNum := v\<rparr> else m);
                m = (if HasPrefix line ''cardano_node_metrics_blockReplayProgress_real '' then m\<lparr>cmReplayProgress := v\<rparr> else m)
            in if HasPrefix line ''cardano_node_metrics_peerSelection_hot_peers_int '' \<and> ok \<and> f_gt v (Fin 0)
               then m\<lparr>cmPeers := f_to_int32 oor v\<rparr> else m))"

text \<open>The status from the metrics, with the tip by the clock.\<close>

definition cardano_status :: "int \<Rightarrow> time \<Rightarrow> cardano_metrics \<Rightarrow> SyncStatus" where
  "cardano_status oor now m =
     (if f_eq (cmBlockNum m) (Fin 0)
      then (let p = pseudoBlock now in
        zero_sync\<lparr>syIsSyncing := True, syCurrentBlock := p, syHighestBlock := p + 1, syProgress := cmReplayProgress m\<rparr>)
      else
        (let progress = f_mul (f_div (cmSlotNum m) (f_of_int (cardanoNetworkTip oor now))) (Fin 100);
             progress = (if f_gt progress (Fin 100) then Fin 100 else progress)
         in zero_sync\<lparr>syIsSyncing := f_lt progress (Fin (995 / 10)), syCurrentBlock := f_to_int64 oor (cmBlockNum m),
              syHighestBlock := f_to_int64 oor (f_div (cmBlockNum m) (f_div progress (Fin 100))),
              syProgress := progress, syPeers := cmPeers m\<rparr>))"

definition cardano_metricsURL :: "('w, 'x) rpc_env_scheme \<Rightarrow> string \<Rightarrow> string" where
  "cardano_metricsURL E rpcURL =
     (if Contains rpcURL ''12798'' then rpcURL
      else (case hParseURL E rpcURL of Inl _ \<Rightarrow> rpcURL | Inr u \<Rightarrow> setHost (url_Hostname u @ '':12798'') u))"

definition cardano_HealthCheck :: "('w, 'x) rpc_env_scheme \<Rightarrow> int \<Rightarrow> ctx \<Rightarrow> string \<Rightarrow> ('w, goerr + SyncStatus) state" where
  "cardano_HealthCheck E oor c rpcURL =
     getURL E rpcTimeout c (cardano_metricsURL E rpcURL @ ''/metrics'') (failWith ''scrape Cardano metrics endpoint'')
       (\<lambda>_. retPseudo E)
       (\<lambda>resp. case hrBody resp of
          Inl err \<Rightarrow> failWith ''read Cardano metrics response'' err
        | Inr body \<Rightarrow> do {
            let m = foldl (cardano_metric_line oor) \<lparr>cmBlockNum = Fin 0, cmSlotNum = Fin 0, cmReplayProgress = Fin 0, cmPeers = 0\<rparr>
                      (scan_lines (hbText body));
            now \<leftarrow> gNow E;
            ret (Inr (cardano_status oor now m)) })"

definition cardano_StartupProbe :: "ChainInstanceSpec \<Rightarrow> Probe option" where
  \<open>cardano_StartupProbe spec =
     Some (tcpProbe 12798 60 30 10 360)\<close>

definition cardano_ContainerCommand :: "ChainInstanceSpec \<Rightarrow> string list" where
  \<open>cardano_ContainerCommand spec =
     (let script = unlines [
    ''set -e'',
    ''VERSION=10.6.2'',
    ''BASE=https://raw.githubusercontent.com/IntersectMBO/cardano-node/${VERSION}/configuration/cardano'',
    ''mkdir -p /data/configs'',
    ''cd /data/configs'',
    ''if [ "$(cat .version 2>/dev/null)" != "$VERSION" ]; then'',
    ''  rm -f mainnet-config.json mainnet-topology.json mainnet-byron-genesis.json mainnet-shelley-genesis.json mainnet-alonzo-genesis.json mainnet-conway-genesis.json mainnet-checkpoints.json'',
    ''fi'',
    ''for f in mainnet-config.json mainnet-byron-genesis.json mainnet-shelley-genesis.json mainnet-alonzo-genesis.json mainnet-conway-genesis.json mainnet-checkpoints.json; do'',
    ''  # -s checks non-empty to catch empty/partial files from interrupted downloads.'',
    ''  if [ ! -s "$f" ]; then'',
    ''    rm -f "$f"'',
    ''    curl -fsSLk -o "$f" "$BASE/$f" || { rm -f "$f"; echo "[cardano] FAILED to download $f"; exit 1; }'',
    ''    [ -s "$f" ] || { rm -f "$f"; echo "[cardano] $f empty after download '' @ [CHR 0xE2, CHR 0x80, CHR 0x94] @ '' exiting for retry"; exit 1; }'',
    ''  fi'',
    ''done'',
    ''cfg=$(cat mainnet-config.json)'',
    ''cfg="${cfg/'"EnableP2P": false'/'"EnableP2P": true'}"'',
    ''cfg="${cfg/127.0.0.1 12798/0.0.0.0 12798}"'',
    ''printf '%s'' @ [CHR 0x5C] @ ''n' "$cfg" > mainnet-config.json'',
    ''printf '{"localRoots":[{"accessPoints":[{"address":"45.132.74.207","port":3001},{"address":"69.62.78.211","port":3001},{"address":"195.49.96.164","port":3001},{"address":"140.99.243.245","port":3001},{"address":"146.185.219.164","port":3001},{"address":"104.234.167.240","port":3001},{"address":"193.203.165.167","port":3001},{"address":"188.244.117.54","port":3001}],"advertise":false,"trustable":true,"valency":4}],"publicRoots":[],"useLedgerAfterSlot":-1}'' @ [CHR 0x5C] @ ''n' > mainnet-topology.json'',
    ''echo "$VERSION" > .version'',
    ''exec cardano-node run '' @ [CHR 0x5C],
    ''  --config /data/configs/mainnet-config.json '' @ [CHR 0x5C],
    ''  --topology /data/configs/mainnet-topology.json '' @ [CHR 0x5C],
    ''  --database-path /data/db '' @ [CHR 0x5C],
    ''  --socket-path /data/node.socket '' @ [CHR 0x5C]] @ ''  --port 3001'' in
     [''bash'', ''-c'', script])\<close>

definition cardano_ContainerPorts :: "ChainInstanceSpec \<Rightarrow> ContainerPort list" where
  \<open>cardano_ContainerPorts spec =
     [tcpPort ''p2p'' 3001, tcpPort ''ekg'' 12788, tcpPort ''metrics'' 12798]\<close>

definition cardanoAdapter :: "('w, 'x) rpc_env_scheme \<Rightarrow> int \<Rightarrow> 'w ChainAdapter" where
  \<open>cardanoAdapter E oor = (protocolBase E ChainCardano 12798)\<lparr>
     adHealthCheck := cardano_HealthCheck E oor,
     adConfigTemplate := (\<lambda>_. Inr (''config.json'', cardanoConfig)),
     adStartupProbe := Some cardano_StartupProbe,
     adContainerCommand := Some cardano_ContainerCommand,
     adContainerPorts := cardano_ContainerPorts,
     adDefaultResources := Some \<lparr>rdCPURequest = 4 * 1000, rdMemoryRequest = 8 * 2 ^ 30, rdStorage = 100 * 2 ^ 30\<rparr>,
     adVersionPolicy := Some \<lparr>vpRegistry = ''ghcr.io'', vpRepository = ''intersectmbo/cardano-node'',
        vpTagPattern = ''^'' @ [CHR 0x5C] @ ''d+'' @ [CHR 0x5C] @ ''.'' @ [CHR 0x5C] @ ''d+'', vpTagPrefix = []\<rparr>\<rparr>\<close>

definition filecoinConfig :: "string" where
  \<open>filecoinConfig =
     unlines [
    ''[API]'',
    ''  ListenAddress = "/ip4/0.0.0.0/tcp/1234/http"'',
    ''  RemoteListenAddress = ""'',
    ''  Timeout = "30s"'',
    [],
    ''[Libp2p]'',
    ''  ListenAddresses = ["/ip4/0.0.0.0/tcp/12345"]'',
    ''  ConnMgrLow = 150'',
    ''  ConnMgrHigh = 180'',
    ''  ConnMgrGrace = "20s"'',
    [],
    ''[Chainstore]'',
    ''  EnableSplitstore = true'',
    [],
    ''[Chainstore.Splitstore]'',
    ''  HotStoreType = "badger"'',
    ''  MarkSetType = "badger"'',
    ''  HotStoreFullGCFrequency = 20'']\<close>

text \<open>A sync worker: its stage, height and the height of its target, if it has one.\<close>

definition dec_filecoinSync :: "(int \<times> int \<times> int option) decoder" where
  "dec_filecoinSync = dec_and (dec_path [''Stage''] dec_int64) (dec_and (dec_path [''Height''] dec_int64)
     (dec_path [''Target''] (dec_ptr (dec_path [''Height''] dec_int64) 0)))"

definition filecoin_targets :: "(int \<times> int \<times> int option) list \<Rightarrow> bool \<times> int" where
  "filecoin_targets syncs = foldl (\<lambda>(isSyncing, highest) (stage, _, target). case target of
       Some h \<Rightarrow> if stage < 4 then (True, if h > highest then h else highest) else (isSyncing, highest)
     | None \<Rightarrow> (isSyncing, highest)) (False, 0) syncs"

definition filecoin_HealthCheck :: "('w, 'x) rpc_env_scheme \<Rightarrow> ctx \<Rightarrow> string \<Rightarrow> ('w, goerr + SyncStatus) state" where
  "filecoin_HealthCheck E c rpcURL = do {
     r \<leftarrow> callRPC E c rpcURL ''Filecoin.ChainHead'' ''null'';
     case r of
       Inl err \<Rightarrow> if isContextTimeout err then retPseudo E else failWith ''Filecoin.ChainHead'' err
     | Inr headResult \<Rightarrow> (case unmarshal_raw (dec_path [''Height''] dec_int64) headResult 0 of
         None \<Rightarrow> failWith ''parse Filecoin.ChainHead'' jsonErr
       | Some height \<Rightarrow> do {
           s \<leftarrow> callRPC E c rpcURL ''Filecoin.SyncState'' ''null'';
           ret (Inr (case s of
             Inl _ \<Rightarrow> syncedAt height 0
           | Inr syncResult \<Rightarrow> (case unmarshal_raw (dec_path [''ActiveSyncs''] (dec_list dec_filecoinSync (0, 0, None))) syncResult [] of
               None \<Rightarrow> syncedAt height 0
             | Some syncs \<Rightarrow> (case filecoin_targets syncs of (isSyncing, highestTarget) \<Rightarrow>
                 if \<not> isSyncing \<or> highestTarget = 0 then syncedAt height 0
                 else zero_sync\<lparr>syIsSyncing := True, syCurrentBlock := height, syHighestBlock := highestTarget,
                        syProgress := progressFromBlocks height highestTarget\<rparr>)))) }) }"

definition filecoin_StartupProbe :: "ChainInstanceSpec \<Rightarrow> Probe option" where
  \<open>filecoin_StartupProbe spec =
     Some (tcpProbe 1234 60 30 10 720)\<close>

definition filecoin_ContainerCommand :: "ChainInstanceSpec \<Rightarrow> string list" where
  \<open>filecoin_ContainerCommand spec =
     [''lotus'']\<close>

definition filecoin_ContainerArgs :: "ChainInstanceSpec \<Rightarrow> string list" where
  \<open>filecoin_ContainerArgs spec =
     (let args = [''--repo=/data'', ''daemon'', ''--config=/config/config.toml''] in
     let args = (if spNetwork spec = NetworkTestnet then args @ [''--chain=calibnet''] else args) in
     args)\<close>

definition filecoin_ContainerEnv :: "ChainInstanceSpec \<Rightarrow> EnvVar list" where
  \<open>filecoin_ContainerEnv spec =
     [EnvValue ''FIL_PROOFS_PARAMETER_CACHE'' ''/data/filecoin-proof-parameters'']\<close>

definition filecoin_ContainerPorts :: "ChainInstanceSpec \<Rightarrow> ContainerPort list" where
  \<open>filecoin_ContainerPorts spec =
     [tcpPort ''rpc'' 1234, tcpPort ''metrics'' 1234, tcpPort ''p2p'' 12345]\<close>

definition filecoinAdapter :: "('w, 'x) rpc_env_scheme \<Rightarrow> 'w ChainAdapter" where
  \<open>filecoinAdapter E = (protocolBase E ChainFilecoin 1234)\<lparr>
     adHealthCheck := filecoin_HealthCheck E,
     adConfigTemplate := (\<lambda>_. Inr (''config.toml'', filecoinConfig)),
     adStartupProbe := Some filecoin_StartupProbe,
     adContainerCommand := Some filecoin_ContainerCommand,
     adContainerArgs := Some filecoin_ContainerArgs,
     adContainerEnv := Some filecoin_ContainerEnv,
     adDefaultResources := Some \<lparr>rdCPURequest = 8 * 1000, rdMemoryRequest = 32 * 2 ^ 30, rdStorage = 2 * 2 ^ 40\<rparr>,
     adVersionPolicy := Some \<lparr>vpRegistry = ''docker.io'', vpRepository = ''filecoin/lotus'',
        vpTagPattern = semverTag, vpTagPrefix = []\<rparr>,
     adContainerPorts := filecoin_ContainerPorts\<rparr>\<close>

definition hyperliquidConfig :: "string" where
  \<open>hyperliquidConfig =
     unlines [
    ''{'',
    ''  "api_port": 3001,'',
    ''  "p2p_port": 4001,'',
    ''  "data_dir": "/data"''] @ ''}''\<close>

definition hyperliquid_HealthCheck :: "('w, 'x) rpc_env_scheme \<Rightarrow> ctx \<Rightarrow> string \<Rightarrow> ('w, goerr + SyncStatus) state" where
  "hyperliquid_HealthCheck E c rpcURL =
     getURL E rpcTimeout c (rpcURL @ ''/info'') (failWith ''hyperliquid health request'')
       (\<lambda>err. if isContextTimeout err then retPseudo E else failWith ''hyperliquid health'' err)
       (\<lambda>resp. ret (if hrStatus resp \<noteq> 200
          then Inl (GoErr (''hyperliquid /info returned HTTP '' @ Itoa (hrStatus resp)))
          else Inr (zero_sync\<lparr>syProgress := Fin 100\<rparr>)))"

definition hyperliquid_ContainerPorts :: "ChainInstanceSpec \<Rightarrow> ContainerPort list" where
  \<open>hyperliquid_ContainerPorts spec =
     [tcpPort ''api'' 3001, tcpPort ''p2p'' 4001, tcpPort ''metrics'' 9090]\<close>

definition hyperliquidAdapter :: "('w, 'x) rpc_env_scheme \<Rightarrow> 'w ChainAdapter" where
  \<open>hyperliquidAdapter E = (protocolBase E ChainHyperliquid 3001)\<lparr>
     adHealthCheck := hyperliquid_HealthCheck E,
     adConfigTemplate := (\<lambda>_. Inr (''hyperliquid.json'', hyperliquidConfig)),
     adContainerPorts := hyperliquid_ContainerPorts,
     adDefaultResources := Some \<lparr>rdCPURequest = 16 * 1000, rdMemoryRequest = 32 * 2 ^ 30, rdStorage = 2000 * 2 ^ 30\<rparr>\<rparr>\<close>

definition kusamaConfig :: "string" where
  \<open>kusamaConfig =
     unlines [
    ''{'',
    ''  "name": "kusama-node",'',
    ''  "rpc": {'',
    ''    "port": 9944,'',
    ''    "external": true,'',
    ''    "cors": "all",'',
    ''    "methods": "unsafe"'',
    ''  },'',
    ''  "prometheus": {'',
    ''    "port": 9615,'',
    ''    "external": true'',
    ''  },'',
    ''  "network": {'',
    ''    "port": 30333,'',
    ''    "nodeKey": ""'',
    ''  },'',
    ''  "base": {'',
    ''    "path": "/data",'',
    ''    "chain": "kusama"'',
    ''  }''] @ ''}''\<close>

definition dec_substrateHealth :: "(bool \<times> int) decoder" where
  "dec_substrateHealth = dec_and (dec_path [''isSyncing''] dec_bool) (dec_path [''peers''] dec_int32)"

definition dec_syncState :: "(int \<times> int \<times> int) decoder" where
  "dec_syncState = dec_and (dec_path [''currentBlock''] dec_int64)
     (dec_and (dec_path [''highestBlock''] dec_int64) (dec_path [''startingBlock''] dec_int64))"

definition substrateHealthCheck :: "('w, 'x) rpc_env_scheme \<Rightarrow> ctx \<Rightarrow> string \<Rightarrow> ('w, goerr + SyncStatus) state" where
  "substrateHealthCheck E c rpcURL = do {
     r \<leftarrow> callRPC E c rpcURL ''system_health'' ''null'';
     case r of
       Inl err \<Rightarrow> if isContextTimeout err then retPseudo E else failWith ''system_health'' err
     | Inr healthResult \<Rightarrow> (case unmarshal_raw dec_substrateHealth healthResult (False, 0) of
         None \<Rightarrow> failWith ''parse system_health'' jsonErr
       | Some (isSyncing, peers) \<Rightarrow> do {
           s \<leftarrow> callRPC E c rpcURL ''system_syncState'' ''null'';
           case s of
             Inl _ \<Rightarrow> if isSyncing then retPseudo E else ret (Inr (zero_sync\<lparr>syPeers := peers\<rparr>))
           | Inr syncResult \<Rightarrow> ret (case unmarshal_raw dec_syncState syncResult (0, 0, 0) of
               None \<Rightarrow> Inl (WrapErr ''parse system_syncState'' jsonErr)
             | Some (current, highest, _) \<Rightarrow>
                 (let highest = (if highest \<le> 0 then current else highest) in
                  Inr \<lparr>syIsSyncing = isSyncing, syCurrentBlock = current, syHighestBlock = highest, syPeers = peers,
                    syProgress = (if \<not> isSyncing then Fin 100 else progressFromBlocks current highest),
                    syStallExempt = False\<rparr>)) }) }"

definition kusama_StartupProbe :: "ChainInstanceSpec \<Rightarrow> Probe option" where
  \<open>kusama_StartupProbe spec =
     Some (tcpProbe 9944 30 30 10 240)\<close>

definition kusama_ContainerArgs :: "ChainInstanceSpec \<Rightarrow> string list" where
  \<open>kusama_ContainerArgs spec =
     (let chain = ''kusama'' in
     let chain = (if spNetwork spec = NetworkTestnet then ''westend'' else chain) in
     [''--base-path'', ''/data'', ''--chain'', chain, ''--rpc-port'', ''9944'', ''--rpc-external'',
      ''--rpc-cors'', ''all'', ''--rpc-methods'', ''unsafe'', ''--prometheus-port'', ''9615'',
      ''--prometheus-external'', ''--port'', ''30333'', ''--name'', ''k8s-kusama-node'',
      ''--no-hardware-benchmarks'', ''--state-pruning'', ''256''])\<close>

definition kusama_ContainerPorts :: "ChainInstanceSpec \<Rightarrow> ContainerPort list" where
  \<open>kusama_ContainerPorts spec =
     [tcpPort ''rpc'' 9944, tcpPort ''p2p-tcp'' 30333, udpPort ''p2p-udp'' 30333, tcpPort ''metrics'' 9615]\<close>

definition kusamaAdapter :: "('w, 'x) rpc_env_scheme \<Rightarrow> 'w ChainAdapter" where
  \<open>kusamaAdapter E = (protocolBase E ChainKusama 9944)\<lparr>
     adHealthCheck := substrateHealthCheck E,
     adConfigTemplate := (\<lambda>_. Inr (''kusama.json'', kusamaConfig)),
     adStartupProbe := Some kusama_StartupProbe,
     adContainerArgs := Some kusama_ContainerArgs,
     adContainerPorts := kusama_ContainerPorts,
     adDefaultResources := Some \<lparr>rdCPURequest = 4 * 1000, rdMemoryRequest = 16 * 2 ^ 30, rdStorage = 2000 * 2 ^ 30\<rparr>,
     adVersionPolicy := Some \<lparr>vpRegistry = ''docker.io'', vpRepository = ''parity/polkadot'',
        vpTagPattern = semverTag, vpTagPrefix = []\<rparr>\<rparr>\<close>

end
