(* ===== verification/Native_Adapters2.thy ===== *)
theory Native_Adapters2
  imports Native_Adapters1
begin

text \<open>
  Adapters with a health check of their own, second part: \<open>polkadot.go\<close>, \<open>near.go\<close>, \<open>solana.go\<close>,
  \<open>starknet.go\<close> and \<open>stellar.go\<close>.
\<close>

definition polkadotConfig :: "string" where
  \<open>polkadotConfig =
     unlines [
    ''{'',
    ''  "name": "polkadot-node",'',
    ''  "rpc": {'',
    ''    "port": 9944,'',
    ''    "external": true,'',
    ''    "cors": "all",'',
    ''    "methods": "unsafe"'',
    ''  },'',
    ''  "prometheus": {'',
    ''    "port": 9615,'',
    ''    "external": true'',
    ''  },'',
    ''  "network": {'',
    ''    "port": 30333,'',
    ''    "nodeKey": ""'',
    ''  },'',
    ''  "base": {'',
    ''    "path": "/data",'',
    ''    "chain": "polkadot"'',
    ''  }''] @ ''}''\<close>

definition polkadotParseHexBlock :: "string \<Rightarrow> int" where
  "polkadotParseHexBlock hex = ParseInt64_value 16 (TrimPrefix (TrimPrefix hex ''0x'') ''0X'')"

definition polkadot_HealthCheck :: "('w, 'x) rpc_env_scheme \<Rightarrow> ctx \<Rightarrow> string \<Rightarrow> ('w, goerr + SyncStatus) state" where
  "polkadot_HealthCheck E c rpcURL = do {
     r \<leftarrow> callRPC E c rpcURL ''system_health'' ''null'';
     case r of
       Inl err \<Rightarrow> if isContextTimeout err then retPseudo E else failWith ''system_health'' err
     | Inr result \<Rightarrow> (case unmarshal_raw dec_substrateHealth result (False, 0) of
         None \<Rightarrow> failWith ''parse system_health'' jsonErr
       | Some (isSyncing, peers) \<Rightarrow> do {
           h \<leftarrow> callRPC E c rpcURL ''chain_getHeader'' ''null'';
           case h of
             Inl _ \<Rightarrow> if isSyncing then retPseudo E else ret (Inr (zero_sync\<lparr>syPeers := peers\<rparr>))
           | Inr headerResult \<Rightarrow> ret (case unmarshal_raw (dec_path [''number''] dec_string) headerResult [] of
               None \<Rightarrow> Inl (WrapErr ''parse chain_getHeader'' jsonErr)
             | Some number \<Rightarrow>
                 (let blockHeight = polkadotParseHexBlock number in
                  Inr (if \<not> isSyncing then syncedAt blockHeight peers
                       else zero_sync\<lparr>syIsSyncing := True, syCurrentBlock := blockHeight,
                              syHighestBlock := wrap64 (blockHeight + 1), syPeers := peers\<rparr>))) }) }"

definition polkadot_StartupProbe :: "ChainInstanceSpec \<Rightarrow> Probe option" where
  \<open>polkadot_StartupProbe spec =
     Some (tcpProbe 9944 30 30 10 240)\<close>

definition polkadot_ContainerArgs :: "ChainInstanceSpec \<Rightarrow> string list" where
  \<open>polkadot_ContainerArgs spec =
     (let chain = ''polkadot'' in
     let chain = (if spNetwork spec = NetworkTestnet then ''westend'' else chain) in
     [''--base-path'', ''/data'', ''--chain'', chain, ''--rpc-port'', ''9944'', ''--rpc-external'',
      ''--rpc-cors'', ''all'', ''--rpc-methods'', ''unsafe'', ''--prometheus-port'', ''9615'',
      ''--prometheus-external'', ''--port'', ''30333'', ''--name'', ''k8s-polkadot-node'',
      ''--no-hardware-benchmarks'', ''--state-pruning'', ''256''])\<close>

definition polkadot_ContainerPorts :: "ChainInstanceSpec \<Rightarrow> ContainerPort list" where
  \<open>polkadot_ContainerPorts spec =
     [tcpPort ''rpc'' 9944, tcpPort ''p2p'' 30333, tcpPort ''metrics'' 9615]\<close>

definition polkadotAdapter :: "('w, 'x) rpc_env_scheme \<Rightarrow> 'w ChainAdapter" where
  \<open>polkadotAdapter E = (protocolBase E ChainPolkadot 9944)\<lparr>
     adHealthCheck := polkadot_HealthCheck E,
     adConfigTemplate := (\<lambda>_. Inr (''polkadot.json'', polkadotConfig)),
     adStartupProbe := Some polkadot_StartupProbe,
     adContainerArgs := Some polkadot_ContainerArgs,
     adContainerPorts := polkadot_ContainerPorts,
     adDefaultResources := Some \<lparr>rdCPURequest = 4 * 1000, rdMemoryRequest = 8 * 2 ^ 30, rdStorage = 500 * 2 ^ 30\<rparr>,
     adVersionPolicy := Some \<lparr>vpRegistry = ''docker.io'', vpRepository = ''parity/polkadot'',
        vpTagPattern = semverTag, vpTagPrefix = []\<rparr>\<rparr>\<close>

definition nearConfig :: "string \<Rightarrow> string \<Rightarrow> string" where
  \<open>nearConfig bootNodes networkID =
     unlines ([''{'',
      ''  "genesis_file": "genesis.json",'',
      ''  "genesis_records_file": null,'',
      ''  "validator_key_file": "validator_key.json",'',
      ''  "node_key_file": "node_key.json",'',
      ''  "public_key": "",'',
      ''  "secret_key": "",'',
      ''  "network": {'',
      ''    "addr": "0.0.0.0:24567",'',
      ''    "boot_nodes": "'' @ bootNodes @ ''",'',
      ''    "handshake_timeout": {"secs": 20, "nanos": 0},'',
      ''    "skip_sync_wait": false,'',
      ''    "ban_window": {"secs": 1, "nanos": 0},'',
      ''    "max_num_peers": 40,'',
      ''    "minimum_outbound_peers": 5,'',
      ''    "ideal_connections_lo": 30,'',
      ''    "ideal_connections_hi": 35,'',
      ''    "peer_recent_time_window": {"secs": 600, "nanos": 0},'',
      ''    "safe_set_size": 20,'',
      ''    "archival_peer_connections_lower_bound": 10,'',
      ''    "blacklist": []'',
      ''  },'',
      ''  "rpc": {'',
      ''    "addr": "0.0.0.0:3030",'',
      ''    "cors_allowed_origins": ["*"],'',
      ''    "enable_debug_rpc": false'',
      ''  },'',
      ''  "telemetry": {'',
      ''    "endpoints": []'',
      ''  },'',
      ''  "consensus": {'',
      ''    "min_block_production_delay": {"secs": 1, "nanos": 0},'',
      ''    "max_block_production_delay": {"secs": 2, "nanos": 0},'',
      ''    "max_block_wait_delay": {"secs": 6, "nanos": 0},'',
      ''    "produce_empty_blocks": true,'',
      ''    "block_fetch_horizon": 50,'',
      ''    "state_sync_timeout": {"secs": 60, "nanos": 0}'',
      ''  },'',
      ''  "tracked_accounts": [],'',
      ''  "tracked_shadow_validator": null,'',
      ''  "tracked_shards": [],'',
      ''  "archive": false,'',
      ''  "log_summary_style": "plain",'',
      ''  "gc": {'',
      ''    "gc_blocks_limit": 2,'',
      ''    "gc_fork_clean_step": 100,'',
      ''    "gc_num_epochs_to_keep": 5,'',
      ''    "gc_step_period": {"secs": 1, "nanos": 0}'',
      ''  },'',
      ''  "view_client_threads": 4,'',
      ''  "epoch_sync": {'',
      ''    "epoch_sync_enabled": true,'',
      ''    "epoch_sync_horizon": 10240,'',
      ''    "epoch_sync_accept_proof_max_horizon": 1024'',
      ''  },'',
      ''  "network_id": "'' @ networkID @ ''",'',
      ''  "store": {'',
      ''    "path": "data"'',
      ''  }'']) @ ''}''\<close>

definition near_ConfigTemplate :: "ChainInstanceSpec \<Rightarrow> goerr + string \<times> string" where
  \<open>near_ConfigTemplate spec =
     (let (networkID, bootNodes) =
        (if spNetwork spec = NetworkTestnet
         then (''testnet'', ''ed25519:4k9csx6zMiXy4waUvRMPTkEtAS2RFKLVScocR5HwN53P@34.80.165.100:24567'')
         else (''mainnet'', ''ed25519:86EtEy7epneKyrcJwSWP7zsisTkfDRH5CFVszt4qiQYw@35.195.32.249:24567,ed25519:BFzAKpbH3h7tEVqTKYRKb97EgGgwUbY5tq7vxvFiBFJF@34.81.150.34:24567''))
      in Inr (''config.json'', nearConfig bootNodes networkID))\<close>

definition dec_nearStatus :: "((int \<times> bool) \<times> int) decoder" where
  "dec_nearStatus = dec_and
     (dec_path [''sync_info''] (dec_and (dec_path [''latest_block_height''] dec_int64) (dec_path [''syncing''] dec_bool)))
     (dec_path [''num_active_peers''] dec_int32)"

definition near_HealthCheck :: "('w, 'x) rpc_env_scheme \<Rightarrow> ctx \<Rightarrow> string \<Rightarrow> ('w, goerr + SyncStatus) state" where
  "near_HealthCheck E c rpcURL =
     getURL E rpcTimeout c (rpcURL @ ''/status'') (failWith ''call NEAR /status endpoint'') (\<lambda>_. retPseudo E) (\<lambda>resp.
       case hrBody resp of
         Inl err \<Rightarrow> failWith ''read NEAR status response'' err
       | Inr body \<Rightarrow> (case unmarshal_raw dec_nearStatus (hbJson body) ((0, False), 0) of
           None \<Rightarrow> failWith ''decode NEAR status payload'' jsonErr
         | Some ((current, syncing), peers) \<Rightarrow>
             if \<not> syncing then ret (Inr (syncedAt current peers))
             else do {
               now \<leftarrow> gNow E;
               let pseudoCurrent = Bit_Operations.xor current (time_Unix now mod 2 ^ 10);
               ret (Inr (zero_sync\<lparr>syIsSyncing := True, syCurrentBlock := pseudoCurrent,
                 syHighestBlock := wrap64 (pseudoCurrent + 1), syPeers := peers\<rparr>)) }))"

definition near_StartupProbe :: "ChainInstanceSpec \<Rightarrow> Probe option" where
  \<open>near_StartupProbe spec =
     Some (httpProbe ''/status'' 3030 60 30 10 480)\<close>

definition near_LivenessProbe :: "ChainInstanceSpec \<Rightarrow> Probe option" where
  \<open>near_LivenessProbe spec =
     Some (httpProbe ''/status'' 3030 60 30 10 5)\<close>

definition near_ContainerCommand :: "ChainInstanceSpec \<Rightarrow> string list" where
  \<open>near_ContainerCommand spec =
     (let bootNodes = ''ed25519:GwE1TUQo4RYemsFsi5G3ZaNT5HiSuLYiYYYsuCutKmk9@67.213.119.43:24567,'' @ ''ed25519:FjmBNEfFrFMBHHMaRwAszFkNRBvP6j4UtTyy7Cwnvmwp@46.4.33.58:24567,'' @ ''ed25519:8N3Eww3tmnDgwcKPLt52P7orCvpGq2UoUVUdLZuLQMcS@37.27.66.152:24567,'' @ ''ed25519:GtX9bfvv6A6KfXAFsgtrm28hVkxaJVFM8knvp3mA1YBw@23.88.70.87:24567,'' @ ''ed25519:CStGdrdTdo7VeY2pSraMmnqknViNtGgGNMTv13R3ZL6n@212.95.39.96:24567'' in
     let script = unlines [
    ''if [ ! -f /data/genesis.json ] || [ ! -f /data/config.json ]; then'',
    ''  neard --home /data init --chain-id mainnet --download-config --download-genesis'',
    ''fi'',
    ''sed -i 's/"bucket": "state-parts"/"bucket": "fast-state-parts"/' /data/config.json'',
    ''sed -i 's/"state_sync_enabled": false/"state_sync_enabled": true/' /data/config.json''] @ ''exec neard --home /data run --boot-nodes '' @ bootNodes in
     [''sh'', ''-c'', script])\<close>

definition near_ContainerPorts :: "ChainInstanceSpec \<Rightarrow> ContainerPort list" where
  \<open>near_ContainerPorts spec =
     [tcpPort ''rpc'' 3030, tcpPort ''metrics'' 3030, tcpPort ''p2p'' 24567]\<close>

definition nearAdapter :: "('w, 'x) rpc_env_scheme \<Rightarrow> 'w ChainAdapter" where
  \<open>nearAdapter E = (protocolBase E ChainNear 3030)\<lparr>
     adHealthCheck := near_HealthCheck E,
     adConfigTemplate := near_ConfigTemplate,
     adStartupProbe := Some near_StartupProbe,
     adLivenessProbe := near_LivenessProbe,
     adContainerCommand := Some near_ContainerCommand,
     adContainerPorts := near_ContainerPorts,
     adDefaultResources := Some \<lparr>rdCPURequest = 4 * 1000, rdMemoryRequest = 8 * 2 ^ 30, rdStorage = 500 * 2 ^ 30\<rparr>,
     adVersionPolicy := Some \<lparr>vpRegistry = ''docker.io'', vpRepository = ''nearprotocol/nearcore'',
        vpTagPattern = ''^'' @ [CHR 0x5C] @ ''d+'' @ [CHR 0x5C] @ ''.'' @ [CHR 0x5C] @ ''d+'' @ [CHR 0x5C] @ ''.'' @ [CHR 0x5C] @ ''d+$'', vpTagPrefix = []\<rparr>\<rparr>\<close>

definition solanaExporterImage :: "string" where
  \<open>solanaExporterImage =
     ''ghcr.io/asymmetric-research/solana-exporter:v3.1.0''\<close>

record solanaCluster =
  slEntrypoints :: "string list"
  slKnownValidators :: "string list"
  slGenesisHash :: string

definition zero_solanaCluster :: solanaCluster where
  "zero_solanaCluster = \<lparr>slEntrypoints = [], slKnownValidators = [], slGenesisHash = []\<rparr>"

definition solanaMainnet :: "solanaCluster" where
  \<open>solanaMainnet =
     zero_solanaCluster\<lparr>
     slEntrypoints := [''entrypoint.mainnet-beta.solana.com:8001'', ''entrypoint2.mainnet-beta.solana.com:8001'',
      ''entrypoint3.mainnet-beta.solana.com:8001'', ''entrypoint4.mainnet-beta.solana.com:8001'',
      ''entrypoint5.mainnet-beta.solana.com:8001''],
     slKnownValidators := [''7Np41oeYqPefeNQEHSv1UDhYrehxin3NStELsSKCT4K2'',
      ''GdnSyH3YtwcxFvQrVVJMm1JhTS4QVX7MFsX56uJLUfiZ'',
      ''DE1bawNcRJB9rVm3buyMVfr8mBEoyyu73NBovf2oXJsJ'',
      ''CakcnaRDHka2gXyfbEd2d3xsvkJkqsLw2akB3zsN1D2S''],
     slGenesisHash := ''5eykt4UsFv8P8NJdTREpY1vzqKqZKvdpKuc147dw2N9d''\<rparr>\<close>

definition solanaTestnet :: "solanaCluster" where
  \<open>solanaTestnet =
     zero_solanaCluster\<lparr>
     slEntrypoints := [''entrypoint.testnet.solana.com:8001'', ''entrypoint2.testnet.solana.com:8001'',
      ''entrypoint3.testnet.solana.com:8001''],
     slKnownValidators := [''5D1fNXzvv5NjV1ysLjirC4WY92RNsVH18vjmcszZd8on'',
      ''dDzy5SR3AXdYWVqbDEkVFdvSPCtS9ihF5kJkHCtXoFs'',
      ''Ft5fbkqNa76vnsjYNwjDZUXoTWpP7VYm3mtsaQckQADN'',
      ''eoKpUABi59aT4rR9HGS3LcMecfut9x7zJyodWWP43YQ'',
      ''9QxCLckBiJc783jnMvXZubK4wH86Eqqvashtrwvcsgkv''],
     slGenesisHash := ''4uhcVJyU9pJkvQyS88uRDiswHXSCkY3zQawwpjk2NsNY''\<rparr>\<close>

definition solanaClusterFor :: "ChainInstanceSpec \<Rightarrow> solanaCluster" where
  \<open>solanaClusterFor spec =
     (if spNetwork spec = NetworkTestnet then solanaTestnet
     else solanaMainnet)\<close>

definition solConfig :: "solanaCluster \<Rightarrow> string" where
  \<open>solConfig c =
     unlines ([''# agave-validator RPC node. Reference only: the validator reads CLI flags,'',
      ''# set by the operator from the same values.'',
      ''ledger-path: /data/ledger'',
      ''identity: /data/identity.json'',
      ''rpc-port: 8899'',
      ''rpc-bind-address: 0.0.0.0'',
      ''full-rpc-api: true'',
      ''no-voting: true'',
      ''expected-genesis-hash: "'' @ slGenesisHash c @ ''"'',
      ''known-validator:''] @
      concat (map (\<lambda>x. [''  - "'' @ x @ ''"'']) (slKnownValidators c)) @
      [''entrypoint:''] @
      concat (map (\<lambda>x. [''  - "'' @ x @ ''"'']) (slEntrypoints c)))\<close>

definition solana_ContainerArgs :: "ChainInstanceSpec \<Rightarrow> string list" where
  \<open>solana_ContainerArgs spec =
     (let c = solanaClusterFor spec in
     [''--ledger'', ''/data/ledger'', ''--no-voting'', ''--rpc-port'', ''8899'',
      ''--rpc-bind-address'', ''0.0.0.0'', ''--full-rpc-api'', ''--private-rpc'', ''--gossip-port'',
      ''8001'', ''--dynamic-port-range'', ''8002-8032'', ''--expected-genesis-hash'',
      slGenesisHash c, ''--only-known-rpc'', ''--wal-recovery-mode'', ''skip_any_corrupted_record'',
      ''--limit-ledger-size'', ''--no-os-network-limits-test'', ''--no-port-check'', ''--log'', ''-''] @
     concat (map (\<lambda>e. [''--entrypoint'', e]) (slEntrypoints c)) @
     concat (map (\<lambda>v. [''--known-validator'', v]) (slKnownValidators c)))\<close>

text \<open>The epoch information is decoded and not used: only whether the call fails matters.\<close>

definition solana_HealthCheck :: "('w, 'x) rpc_env_scheme \<Rightarrow> ctx \<Rightarrow> string \<Rightarrow> ('w, goerr + SyncStatus) state" where
  \<open>solana_HealthCheck E c rpcURL = do {
     r \<leftarrow> callRPC E c rpcURL ''getSlot'' ''[{"commitment":"finalized"}]'';
     case r of
       Inl err \<Rightarrow> failWith ''getSlot'' err
     | Inr result \<Rightarrow> (case unmarshal_raw dec_int64 result 0 of
         None \<Rightarrow> failWith ''parse getSlot'' jsonErr
       | Some slot \<Rightarrow> do {
           e \<leftarrow> callRPC E c rpcURL ''getEpochInfo'' ''null'';
           ret (Inr (case e of Inl _ \<Rightarrow> zero_sync\<lparr>syCurrentBlock := slot\<rparr> | Inr _ \<Rightarrow> syncedAt slot 0)) }) }\<close>

definition solana_ContainerCommand :: "ChainInstanceSpec \<Rightarrow> string list" where
  \<open>solana_ContainerCommand spec =
     (let script = unlines [
    ''set -e'',
    ''[ -f /data/identity.json ] || solana-keygen new --no-passphrase --silent -o /data/identity.json''] @ ''exec agave-validator --identity /data/identity.json "$@"'' in
     [''sh'', ''-c'', script, ''--''])\<close>

definition solana_StartupProbe :: "ChainInstanceSpec \<Rightarrow> Probe option" where
  \<open>solana_StartupProbe spec =
     Some (tcpProbe 8899 30 30 10 120)\<close>

definition solana_ContainerPorts :: "ChainInstanceSpec \<Rightarrow> ContainerPort list" where
  \<open>solana_ContainerPorts spec =
     [tcpPort ''rpc'' 8899, tcpPort ''ws'' 8900, udpPort ''gossip'' 8001, tcpPort ''metrics'' 8080]\<close>

definition solana_Sidecars :: "ChainInstanceSpec \<Rightarrow> Container list" where
  \<open>solana_Sidecars spec =
     [
      zero_container\<lparr>
       ctName := ''metrics-exporter'',
       ctImage := solanaExporterImage,
       ctArgs := [''-rpc-url'', ''http://localhost:8899'', ''-listen-address'', '':8080'', ''-light-mode''],
       ctPorts := [tcpPort ''metrics'' 8080]\<rparr>]\<close>

definition solanaAdapter :: "('w, 'x) rpc_env_scheme \<Rightarrow> 'w ChainAdapter" where
  \<open>solanaAdapter E = (protocolBase E ChainSolana 8899)\<lparr>
     adHealthCheck := solana_HealthCheck E,
     adConfigTemplate := (\<lambda>spec. Inr (''validator.yml'', solConfig (solanaClusterFor spec))),
     adContainerCommand := Some solana_ContainerCommand,
     adContainerArgs := Some solana_ContainerArgs,
     adStartupProbe := Some solana_StartupProbe,
     adContainerPorts := solana_ContainerPorts,
     adDefaultResources := Some \<lparr>rdCPURequest = 16 * 1000, rdMemoryRequest = 64 * 2 ^ 30, rdStorage = 500 * 2 ^ 30\<rparr>,
     adVersionPolicy := Some \<lparr>vpRegistry = ''docker.io'', vpRepository = ''anzaxyz/agave'',
        vpTagPattern = semverTag, vpTagPrefix = []\<rparr>,
     adSidecars := Some solana_Sidecars\<rparr>\<close>

definition defaultStarknetL1WSURL :: "string" where
  \<open>defaultStarknetL1WSURL =
     ''ws://ethereum:8546''\<close>

definition starknetConfig :: "string" where
  \<open>starknetConfig =
     unlines [
    ''{'',
    ''  "network": "mainnet",'',
    ''  "http": true,'',
    ''  "http-port": 6060,'',
    ''  "http-host": "0.0.0.0",'',
    ''  "db-path": "/data/juno",'',
    ''  "metrics": true,'',
    ''  "metrics-host": "0.0.0.0",'',
    ''  "metrics-port": 9090,'',
    ''  "eth-node": "ws://ethereum:8546",'',
    ''  "colour": false''] @ ''}''\<close>

definition dec_starknetSync :: "(int \<times> int \<times> string \<times> string \<times> int) decoder" where
  "dec_starknetSync = dec_and (dec_path [''current_block_num''] dec_int64) (dec_and (dec_path [''highest_block_num''] dec_int64)
     (dec_and (dec_path [''current_block_hash''] dec_string) (dec_and (dec_path [''highest_block_hash''] dec_string)
     (dec_path [''starting_block_num''] dec_int64))))"

definition starknet_HealthCheck :: "('w, 'x) rpc_env_scheme \<Rightarrow> ctx \<Rightarrow> string \<Rightarrow> ('w, goerr + SyncStatus) state" where
  "starknet_HealthCheck E c rpcURL = do {
     r \<leftarrow> callRPC E c rpcURL ''starknet_syncing'' ''null'';
     case r of
       Inl err \<Rightarrow> if isContextTimeout err then retPseudo E else failWith ''starknet_syncing'' err
     | Inr syncResult \<Rightarrow>
         if unmarshal_raw dec_bool syncResult False = Some False
         then do {
           b \<leftarrow> callRPC E c rpcURL ''starknet_blockNumber'' ''null'';
           ret (Inr (case b of
             Inl _ \<Rightarrow> zero_sync
           | Inr blockResult \<Rightarrow> (case unmarshal_raw dec_int64 blockResult 0 of
               None \<Rightarrow> zero_sync
             | Some blockNum \<Rightarrow> syncedAt blockNum 0))) }
         else (case unmarshal_raw dec_starknetSync syncResult (0, 0, [], [], 0) of
             None \<Rightarrow> retPseudo E
           | Some (current, highest, _) \<Rightarrow>
               ret (Inr (zero_sync\<lparr>syIsSyncing := True, syCurrentBlock := current, syHighestBlock := highest,
                 syProgress := progressFromBlocks current highest\<rparr>))) }"

definition starknet_StartupProbe :: "ChainInstanceSpec \<Rightarrow> Probe option" where
  \<open>starknet_StartupProbe spec =
     Some (tcpProbe 6060 30 30 10 360)\<close>

definition starknet_ContainerArgs :: "ChainInstanceSpec \<Rightarrow> string list" where
  \<open>starknet_ContainerArgs spec =
     (let network = ''mainnet'' in
     let network = (if spNetwork spec = NetworkTestnet then ''sepolia'' else network) in
     [''--network'', network, ''--http'', ''--http-port'', ''6060'', ''--http-host'', ''0.0.0.0'',
      ''--db-path'', ''/data/juno'', ''--metrics'', ''--metrics-host'', ''0.0.0.0'',
      ''--metrics-port'', ''9090'', ''--eth-node'', ''$(L1_WS_URL)'', ''--colour=false''])\<close>

definition starknet_ContainerEnv :: "ChainInstanceSpec \<Rightarrow> EnvVar list" where
  \<open>starknet_ContainerEnv spec =
     [EnvValue ''L1_WS_URL'' defaultStarknetL1WSURL]\<close>

definition starknet_ContainerPorts :: "ChainInstanceSpec \<Rightarrow> ContainerPort list" where
  \<open>starknet_ContainerPorts spec =
     [tcpPort ''rpc'' 6060, tcpPort ''metrics'' 9090]\<close>

definition starknetAdapter :: "('w, 'x) rpc_env_scheme \<Rightarrow> 'w ChainAdapter" where
  \<open>starknetAdapter E = (protocolBase E ChainStarknet 6060)\<lparr>
     adHealthCheck := starknet_HealthCheck E,
     adConfigTemplate := (\<lambda>_. Inr (''juno.json'', starknetConfig)),
     adStartupProbe := Some starknet_StartupProbe,
     adContainerArgs := Some starknet_ContainerArgs,
     adContainerEnv := Some starknet_ContainerEnv,
     adContainerPorts := starknet_ContainerPorts,
     adDefaultResources := Some \<lparr>rdCPURequest = 4 * 1000, rdMemoryRequest = 8 * 2 ^ 30, rdStorage = 500 * 2 ^ 30\<rparr>,
     adVersionPolicy := Some \<lparr>vpRegistry = ''docker.io'', vpRepository = ''nethermindeth/juno'',
        vpTagPattern = semverTag, vpTagPrefix = []\<rparr>\<rparr>\<close>

definition stellarConfig :: "string" where
  \<open>stellarConfig =
     unlines [
    ''# stellar-core.cfg -- mainnet watcher (non-validator) node'',
    ''NETWORK_PASSPHRASE="Public Global Stellar Network ; September 2015"'',
    ''HTTP_PORT=11626'',
    ''PUBLIC_HTTP_PORT=true'',
    ''PEER_PORT=11625'',
    ''LOG_FILE_PATH=""'',
    [],
    ''# Watcher: no NODE_SEED, no NODE_IS_VALIDATOR (defaults false)'',
    ''# Fast catchup: download only recent ledgers, not full history'',
    ''CATCHUP_COMPLETE=false'',
    ''CATCHUP_RECENT=8640'',
    ''UNSAFE_QUORUM=true'',
    [],
    ''DATABASE="sqlite3:///data/stellar.db"'',
    ''BUCKET_DIR_PATH="/data/buckets"'',
    [],
    ''# SDF Tier 1'',
    ''['' @ ''[HOME_DOMAINS]'' @ '']'',
    ''HOME_DOMAIN="www.stellar.org"'',
    ''QUALITY="HIGH"'',
    [],
    ''['' @ ''[VALIDATORS]'' @ '']'',
    ''NAME="SDF_1"'',
    ''PUBLIC_KEY="GCGB2S2KGYARPVIA37HYZXVRM2YZUEXA6S33ZU5BUDC6THSB62LZSTYH"'',
    ''ADDRESS="core-live-a.stellar.org:11625"'',
    ''HOME_DOMAIN="www.stellar.org"'',
    ''HISTORY="curl -sf http://history.stellar.org.s3.amazonaws.com/prd/core-live/core_live_001/{0} -o {1}"'',
    [],
    ''['' @ ''[VALIDATORS]'' @ '']'',
    ''NAME="SDF_2"'',
    ''PUBLIC_KEY="GCM6QMP3DLRPTAZW2UZPCPX2LF3SXWXKPMP3GKFZBDSF3QZGV2G5QSTK"'',
    ''ADDRESS="core-live-b.stellar.org:11625"'',
    ''HOME_DOMAIN="www.stellar.org"'',
    ''HISTORY="curl -sf http://history.stellar.org.s3.amazonaws.com/prd/core-live/core_live_002/{0} -o {1}"'',
    [],
    ''['' @ ''[VALIDATORS]'' @ '']'',
    ''NAME="SDF_3"'',
    ''PUBLIC_KEY="GABMKJM6I25XI4K7U6XWMULOUQIQ27BCTMLS6BYYSOWKTBUXVRJSXHYQ"'',
    ''ADDRESS="core-live-c.stellar.org:11625"'',
    ''HOME_DOMAIN="www.stellar.org"'',
    ''HISTORY="curl -sf http://history.stellar.org.s3.amazonaws.com/prd/core-live/core_live_003/{0} -o {1}"'',
    [],
    ''# History archives -- direct S3 bucket (Cloudflare CDN unreachable from pod CIDR)'',
    ''[HISTORY.sdf_1]'',
    ''get="curl -sf http://history.stellar.org.s3.amazonaws.com/prd/core-live/core_live_001/{0} -o {1}"'',
    [],
    ''[HISTORY.sdf_2]'',
    ''get="curl -sf http://history.stellar.org.s3.amazonaws.com/prd/core-live/core_live_002/{0} -o {1}"'',
    [],
    ''[HISTORY.sdf_3]'',
    ''get="curl -sf http://history.stellar.org.s3.amazonaws.com/prd/core-live/core_live_003/{0} -o {1}"'']\<close>

text \<open>
  \<open>catchupRe\<close>, the pattern \<open>Catching up to ledger (\d+).*?(\d+)%\<close>: at the leftmost place where it
  matches, the first group as long as possible, then the nearest run of digits before a percent sign.
\<close>

fun catchup_percent :: "string \<Rightarrow> string option" where
  "catchup_percent s =
     (let ds = takeWhile (is_digit 10) s in
      if ds \<noteq> [] \<and> HasPrefix (drop (length ds) s) ''%'' then Some ds
      else (case s of [] \<Rightarrow> None | c # s' \<Rightarrow> if c = CHR 0x0A then None else catchup_percent s'))"

declare catchup_percent.simps [simp del]

fun catchup_groups :: "nat \<Rightarrow> string \<Rightarrow> (string \<times> string) option" where
  "catchup_groups 0 s = None"
| "catchup_groups (Suc k) s = (case catchup_percent (drop (Suc k) s) of
     Some pct \<Rightarrow> Some (take (Suc k) s, pct)
   | None \<Rightarrow> catchup_groups k s)"

fun catchup_match :: "string \<Rightarrow> (string \<times> string) option" where
  "catchup_match [] = None"
| "catchup_match (c # s) =
     (let rest = drop (length ''Catching up to ledger '') (c # s) in
      case (if HasPrefix (c # s) ''Catching up to ledger ''
            then catchup_groups (length (takeWhile (is_digit 10) rest)) rest else None) of
        Some m \<Rightarrow> Some m
      | None \<Rightarrow> catchup_match s)"

definition dec_stellarInfo :: "(string \<times> string list \<times> int \<times> int) decoder" where
  "dec_stellarInfo = dec_path [''info''] (dec_and (dec_path [''state''] dec_string)
     (dec_and (dec_path [''status''] (dec_list dec_string []))
     (dec_and (dec_path [''ledger'', ''num''] dec_int64) (dec_path [''peers'', ''authenticated_count''] dec_int32))))"

text \<open>The target and the percentage of the first status line that matches.\<close>

definition stellar_catchup :: "string list \<Rightarrow> int \<Rightarrow> int \<times> f64" where
  "stellar_catchup status current = (case find (\<lambda>s. catchup_match s \<noteq> None) status of
     None \<Rightarrow> (current, Fin 0)
   | Some s \<Rightarrow> (case catchup_match s of
       None \<Rightarrow> (current, Fin 0)
     | Some (target, pct) \<Rightarrow>
         (case ParseInt64 10 target of None \<Rightarrow> current | Some t \<Rightarrow> t,
          case ParseFloat pct of None \<Rightarrow> Fin 0 | Some p \<Rightarrow> p)))"

definition stellar_status :: "string \<times> string list \<times> int \<times> int \<Rightarrow> SyncStatus" where
  "stellar_status = (\<lambda>(state, status, currentBlock, peers).
     (if state = ''Synced!'' then syncedAt currentBlock peers
      else if state = ''Joining SCP''
      then \<lparr>syIsSyncing = True, syCurrentBlock = currentBlock, syHighestBlock = wrap64 (currentBlock + 1), syPeers = peers,
            syProgress = Fin 99, syStallExempt = True\<rparr>
      else (case stellar_catchup status currentBlock of (highestBlock, progress) \<Rightarrow>
        \<lparr>syIsSyncing = True, syCurrentBlock = currentBlock, syHighestBlock = highestBlock, syPeers = peers,
         syProgress = (if highestBlock > currentBlock \<and> currentBlock > 0
           then f_mul (f_div (f_of_int currentBlock) (f_of_int highestBlock)) (Fin 100) else progress),
         syStallExempt = (currentBlock \<le> 1)\<rparr>)))"

definition stellar_HealthCheck :: "('w, 'x) rpc_env_scheme \<Rightarrow> ctx \<Rightarrow> string \<Rightarrow> ('w, goerr + SyncStatus) state" where
  "stellar_HealthCheck E c rpcURL =
     getURL E rpcTimeout c (rpcURL @ ''/info'') (failWith ''stellar info request'')
       (\<lambda>err. if isContextTimeout err
              then ret (Inr (zero_sync\<lparr>syIsSyncing := True, syStallExempt := True, syProgress := Fin 50\<rparr>))
              else failWith ''stellar info'' err)
       (\<lambda>resp. ret (case unmarshal_raw dec_stellarInfo (bodyJson (Inr resp)) ([], [], 0, 0) of
          None \<Rightarrow> Inl (WrapErr ''stellar info parse'' jsonErr)
        | Some info \<Rightarrow> Inr (stellar_status info)))"

definition stellar_ContainerCommand :: "ChainInstanceSpec \<Rightarrow> string list" where
  \<open>stellar_ContainerCommand spec =
     [''sh'', ''-c'',
      ''size=$(stat -c%s /data/stellar.db 2>/dev/null || echo 0); [ "$size" -lt 1048576 ] && { rm -f /data/stellar.db; rm -rf /data/buckets; stellar-core new-db --conf /config/stellar-core.cfg; }; exec stellar-core run --conf /config/stellar-core.cfg'']\<close>

definition stellar_LivenessProbe :: "ChainInstanceSpec \<Rightarrow> Probe option" where
  \<open>stellar_LivenessProbe spec =
     Some (tcpProbe 11626 120 30 10 10)\<close>

definition stellar_ContainerPorts :: "ChainInstanceSpec \<Rightarrow> ContainerPort list" where
  \<open>stellar_ContainerPorts spec =
     [tcpPort ''http'' 11626, tcpPort ''metrics'' 11626, tcpPort ''peer'' 11625]\<close>

definition stellarAdapter :: "('w, 'x) rpc_env_scheme \<Rightarrow> 'w ChainAdapter" where
  \<open>stellarAdapter E = (protocolBase E ChainStellar 11626)\<lparr>
     adHealthCheck := stellar_HealthCheck E,
     adConfigTemplate := (\<lambda>_. Inr (''stellar-core.cfg'', stellarConfig)),
     adContainerCommand := Some stellar_ContainerCommand,
     adLivenessProbe := stellar_LivenessProbe,
     adContainerPorts := stellar_ContainerPorts,
     adVersionPolicy := Some \<lparr>vpRegistry = ''docker.io'', vpRepository = ''stellar/stellar-core'',
        vpTagPattern = ''^(?P<version>'' @ [CHR 0x5C] @ ''d+'' @ [CHR 0x5C] @ ''.'' @ [CHR 0x5C] @ ''d+'' @ [CHR 0x5C] @ ''.'' @ [CHR 0x5C] @ ''d+)-'' @ [CHR 0x5C] @ ''d+'' @ [CHR 0x5C] @ ''.[0-9a-f]+'' @ [CHR 0x5C] @ ''.noble$'', vpTagPrefix = []\<rparr>,
     adDefaultResources := Some \<lparr>rdCPURequest = 2 * 1000, rdMemoryRequest = 4 * 2 ^ 30, rdStorage = 100 * 2 ^ 30\<rparr>\<rparr>\<close>

end
