(* ===== verification/Native_Adapters3.thy ===== *)
theory Native_Adapters3
  imports Native_Adapters1
begin

text \<open>
  Adapters with a health check of their own, third part: \<open>sui.go\<close>, \<open>ton.go\<close>, \<open>tron.go\<close> and \<open>xrp.go\<close>.
\<close>

definition suiConfig :: "string" where
  \<open>suiConfig =
     unlines [
    ''# Sui fullnode configuration'',
    ''p2p-config:'',
    ''  listen-address: "0.0.0.0:8084"'',
    ''  seed-peers:'',
    ''    # Official Mysten Labs seed peers (source: MystenLabs/sui docs, 2026-03-15)'',
    ''    - peer-id: d32b55bdf1737ec415df8c88b3bf91e194b59ee3127e3f38ea46fd88ba2e7849'',
    ''      address: "/dns/mel-00.mainnet.sui.io/udp/8084"'',
    ''    - peer-id: c7bf6cb93ca8fdda655c47ebb85ace28e6931464564332bf63e27e90199c50ee'',
    ''      address: "/dns/ewr-00.mainnet.sui.io/udp/8084"'',
    ''    - peer-id: 3227f8a05f0faa1a197c075d31135a366a1c6f3d4872cb8af66c14dea3e0eb66'',
    ''      address: "/dns/ewr-01.mainnet.sui.io/udp/8084"'',
    ''    - peer-id: c619a5e0f8f36eac45118c1f8bda28f0f508e2839042781f1d4a9818043f732c'',
    ''      address: "/dns/lhr-00.mainnet.sui.io/udp/8084"'',
    ''    # Community SSF nodes'',
    ''    - peer-id: 0c52ca8d2b9f51be4a50eb44ace863c05aadc940a7bd15d4d3f498deb81d7fc6'',
    ''      address: "/dns/sui-mainnet-ssfn-1.nodeinfra.com/udp/8084"'',
    ''    - peer-id: 1dbc28c105aa7eb9d1d3ac07ae663ea638d91f2b99c076a52bbded296bd3ed5c'',
    ''      address: "/dns/sui-mainnet-ssfn-2.nodeinfra.com/udp/8084"'',
    ''    - peer-id: 5ff8461ab527a8f241767b268c7aaf24d0312c7b923913dd3c11ee67ef181e45'',
    ''      address: "/dns/sui-mainnet-ssfn-ashburn-na.overclock.run/udp/8084"'',
    ''    - peer-id: e1a4f40d66f1c89559a195352ba9ff84aec28abab1d3aa1c491901a252acefa6'',
    ''      address: "/dns/sui-mainnet-ssfn-dallas-na.overclock.run/udp/8084"'',
    ''    - peer-id: fadb7ccb0b7fc99223419176e707f5122fef4ea686eb8e80d1778588bf5a0bcd'',
    ''      address: "/dns/ssn01.mainnet.sui.rpcpool.com/udp/8084"'',
    ''    - peer-id: 13783584a90025b87d4604f1991252221e5fd88cab40001642f4b00111ae9b7e'',
    ''      address: "/dns/ssn02.mainnet.sui.rpcpool.com/udp/8084"'',
    [],
    ''json-rpc-address: "0.0.0.0:9000"'',
    ''metrics-address: "0.0.0.0:9184"'',
    ''admin-interface-address: "0.0.0.0:1337"'',
    [],
    ''db-path: /data/db'',
    ''genesis:'',
    ''  genesis-file-location: "/data/genesis.blob"'',
    [],
    ''enable-experimental-rest-api: false'',
    [],
    ''# No archival fallback: state sync reads only state-archive-read-config'',
    ''# ingestion-url, rejects https://checkpoints.mainnet.sui.io, and the mainnet'',
    ''# archive (s3.us-west-2.amazonaws.com/mysten-mainnet-checkpoints) is'',
    ''# requester-pays, so it needs AWS credentials. Checkpoints peers have pruned'',
    ''# come from the formal snapshot the init container restores.'']\<close>

definition sui_snapshot_script :: "string" where
  \<open>sui_snapshot_script =
     unlines [
    ''set -e'',
    ''# Verify DB health: check that key RocksDB dirs have MANIFEST/CURRENT files.'',
    ''# A missing CURRENT means the DB is corrupt (e.g. partial rm) '' @ [CHR 0xE2, CHR 0x80, CHR 0x94] @ '' wipe and re-download.'',
    ''if [ -d /data/db/live ]; then'',
    ''  DB_OK=true'',
    ''  for sub in checkpoints store/perpetual; do'',
    ''    dir="/data/db/live/$sub"'',
    ''    if [ -d "$dir" ] && [ ! -f "$dir/CURRENT" ]; then'',
    ''      echo "sui-db: data dir present but CURRENT marker missing - assuming corrupted DB"'',
    ''      DB_OK=false'',
    ''    fi'',
    ''  done'',
    ''  if [ "$DB_OK" = true ] && [ -n "$(ls -A /data/db/live 2>/dev/null)" ]; then'',
    ''    echo "SUI DB exists and looks healthy '' @ [CHR 0xE2, CHR 0x80, CHR 0x94] @ '' skipping formal snapshot download."'',
    ''    exit 0'',
    ''  fi'',
    ''  echo "Corrupt or incomplete DB detected '' @ [CHR 0xE2, CHR 0x80, CHR 0x94] @ '' wiping /data/db for fresh snapshot..."'',
    ''  rm -rf /data/db'',
    ''fi'',
    [],
    ''# Resume partial download: staging/ exists means a previous run was interrupted.'',
    ''# sui-tool skips already-present SST files so re-running continues from where it left off.'',
    ''if [ -d /data/db/staging ] || [ -d /data/db/snapshot ]; then'',
    ''  echo "Partial snapshot detected ($(du -sh /data/db 2>/dev/null | cut -f1) downloaded) '' @ [CHR 0xE2, CHR 0x80, CHR 0x94] @ '' resuming..."'',
    ''  if sui-tool download-formal-snapshot '' @ [CHR 0x5C],
    ''    --path /data/db '' @ [CHR 0x5C],
    ''    --genesis /data/genesis.blob '' @ [CHR 0x5C],
    ''    --num-parallel-downloads 25 '' @ [CHR 0x5C],
    ''    --no-sign-request '' @ [CHR 0x5C],
    ''    --network mainnet '' @ [CHR 0x5C],
    ''    --latest; then'',
    ''    echo "SUI formal snapshot resume complete."'',
    ''    exit 0'',
    ''  fi'',
    ''  echo "Resume failed '' @ [CHR 0xE2, CHR 0x80, CHR 0x94] @ '' wiping and starting fresh..."'',
    ''  rm -rf /data/db'',
    ''fi'',
    [],
    ''echo "No existing DB '' @ [CHR 0xE2, CHR 0x80, CHR 0x94] @ '' downloading latest SUI formal snapshot..."'',
    ''sui-tool download-formal-snapshot '' @ [CHR 0x5C],
    ''  --path /data/db '' @ [CHR 0x5C],
    ''  --genesis /data/genesis.blob '' @ [CHR 0x5C],
    ''  --num-parallel-downloads 25 '' @ [CHR 0x5C],
    ''  --no-sign-request '' @ [CHR 0x5C],
    ''  --network mainnet '' @ [CHR 0x5C],
    ''  --latest || {'',
    ''    echo "WARNING: Formal snapshot download failed (exit $?), node will sync from archive"'',
    ''    exit 0'',
    ''  }'',
    ''echo "SUI formal snapshot restore complete."'']\<close>

definition sui_InitContainers :: "ChainInstanceSpec \<Rightarrow> Container list" where
  "sui_InitContainers spec = [zero_container\<lparr>
     ctName := ''sui-formal-snapshot'',
     ctImage := ''mysten/sui-tools:mainnet'',
     ctCommand := [''sh'', ''-c'', sui_snapshot_script],
     ctMounts := [dataMount],
     ctResources := \<lparr>rrLimits = [(''cpu'', 4 * 1000), (''memory'', 8 * 2 ^ 30)],
                     rrRequests = [(''cpu'', 1 * 1000), (''memory'', 2 * 2 ^ 30)]\<rparr>\<rparr>]"

definition parsePromMetric :: "string \<Rightarrow> f64 option" where
  "parsePromMetric line =
     (let fields = Fields line in if length fields < 2 then None else Sscanf_float (fields ! 1))"

definition sui_metric_line :: "int \<Rightarrow> f64 \<times> f64 \<times> int \<Rightarrow> string \<Rightarrow> f64 \<times> f64 \<times> int" where
  "sui_metric_line oor st line =
     (let (highestSynced, lastExecuted, peers) = st; v = parsePromMetric line in
      if HasPrefix line ''#'' \<or> v = None then st
      else
        (if HasPrefix line ''highest_synced_checkpoint '' then the v else highestSynced,
         if HasPrefix line ''last_executed_checkpoint '' then the v else lastExecuted,
         if HasPrefix line ''sui_quinn_network_peers '' then f_to_int32 oor (the v) else peers))"

definition suiNetworkTip :: "('w, 'x) rpc_env_scheme \<Rightarrow> ctx \<Rightarrow> ('w, int) state" where
  \<open>suiNetworkTip E c =
     (let url = ''https://sui-rpc.publicnode.com'' in
      case hNewRequest E url of
        Inl _ \<Rightarrow> ret 0
      | Inr _ \<Rightarrow> do {
          r \<leftarrow> hPost E c rpcTimeout url
                 ''{"jsonrpc":"2.0","method":"suix_getLatestCheckpointSequenceNumber","params":[],"id":1}'';
          ret (case unmarshal_raw (dec_path [''Result''] dec_string) (bodyJson r) [] of
             None \<Rightarrow> 0
           | Some s \<Rightarrow> ParseInt64_value 10 s) })\<close>

text \<open>The status of a node that has executed checkpoints, given the public tip (zero when unknown).\<close>

definition sui_status :: "int \<Rightarrow> int \<Rightarrow> int \<Rightarrow> SyncStatus" where
  "sui_status current tip0 peers =
     (let tip = (if tip0 = 0 then current else tip0);
          pct = f_mul (f_div (f_of_int current) (f_of_int tip)) (Fin 100);
          progress = (if tip > 0 then (if f_gt pct (Fin 100) then Fin 100 else pct) else Fin 0);
          isSyncing = (current < tip)
      in \<lparr>syIsSyncing = isSyncing, syCurrentBlock = current, syHighestBlock = (if isSyncing then tip else current),
          syPeers = peers, syProgress = progress, syStallExempt = False\<rparr>)"

definition sui_HealthCheck :: "('w, 'x) rpc_env_scheme \<Rightarrow> int \<Rightarrow> ctx \<Rightarrow> string \<Rightarrow> ('w, goerr + SyncStatus) state" where
  "sui_HealthCheck E oor c rpcURL = (case hParseURL E rpcURL of
     Inl err \<Rightarrow> failWith ''decode SUI RPC URL'' err
   | Inr u \<Rightarrow> getURL E rpcTimeout c (''http://'' @ url_Hostname u @ '':9184/metrics'')
       (failWith ''scrape SUI metrics endpoint'') (\<lambda>_. retPseudo E)
       (\<lambda>resp. case hrBody resp of
          Inl err \<Rightarrow> failWith ''read SUI metrics response'' err
        | Inr body \<Rightarrow> (case foldl (sui_metric_line oor) (Fin 0, Fin 0, 0) (scan_lines (hbText body)) of
            (highestSynced, lastExecuted, peers) \<Rightarrow>
              if f_eq highestSynced (Fin 0) \<and> f_eq lastExecuted (Fin 0) then retPseudo E
              else do {
                let current = (if f_to_int64 oor lastExecuted = 0 then f_to_int64 oor highestSynced
                               else f_to_int64 oor lastExecuted);
                tip \<leftarrow> suiNetworkTip E c;
                ret (Inr (sui_status current tip peers)) })))"

definition sui_StartupProbe :: "ChainInstanceSpec \<Rightarrow> Probe option" where
  \<open>sui_StartupProbe spec =
     Some (tcpProbe 9000 30 30 10 120)\<close>

definition sui_ContainerCommand :: "ChainInstanceSpec \<Rightarrow> string list" where
  \<open>sui_ContainerCommand spec =
     [''sh'', ''-c'',
      unlines [
    ''[ -f /data/genesis.blob ] || curl -fsSL -o /data/genesis.blob https://raw.githubusercontent.com/MystenLabs/sui-genesis/main/mainnet/genesis.blob''] @ ''exec /usr/local/bin/sui-node --config-path /config/fullnode.yaml'']\<close>

definition sui_ContainerPorts :: "ChainInstanceSpec \<Rightarrow> ContainerPort list" where
  \<open>sui_ContainerPorts spec =
     [tcpPort ''rpc'' 9000, tcpPort ''metrics'' 9184, udpPort ''p2p'' 8084]\<close>

definition suiAdapter :: "('w, 'x) rpc_env_scheme \<Rightarrow> int \<Rightarrow> 'w ChainAdapter" where
  \<open>suiAdapter E oor = (protocolBase E ChainSui 9000)\<lparr>
     adHealthCheck := sui_HealthCheck E oor,
     adConfigTemplate := (\<lambda>_. Inr (''fullnode.yaml'', suiConfig)),
     adStartupProbe := Some sui_StartupProbe,
     adContainerCommand := Some sui_ContainerCommand,
     adInitContainers := Some sui_InitContainers,
     adContainerPorts := sui_ContainerPorts,
     adDefaultResources := Some \<lparr>rdCPURequest = 4 * 1000, rdMemoryRequest = 8 * 2 ^ 30, rdStorage = 500 * 2 ^ 30\<rparr>,
     adVersionPolicy := Some \<lparr>vpRegistry = ''docker.io'', vpRepository = ''mysten/sui-node'',
        vpTagPattern = ''^mainnet-v'' @ [CHR 0x5C] @ ''d+'' @ [CHR 0x5C] @ ''.'' @ [CHR 0x5C] @ ''d+'' @ [CHR 0x5C] @ ''.'' @ [CHR 0x5C] @ ''d+$'', vpTagPrefix = ''mainnet-''\<rparr>\<rparr>\<close>

text \<open>The global configuration of the network, in parts of the one literal.\<close>

definition tonGlobalConfig_1 :: "string" where
  \<open>tonGlobalConfig_1 =
     ''{"@type":"config.global","dht":{"@type":"dht.config.global","k":6,"a":3,"static_nodes":{"@type":"dht.nodes","nodes":[{"@type":"dht.node","id":{"@type":"pub.ed25519","key":"6PGkPQSbyFp12esf1NqmDOaLoFA8i9+Mp5+cAx5wtTU="},"addr_list":{"@type":"adnl.addressList","addrs":[{"@type":"adnl.address.udp","ip":-1185526007,"port":22096}],"version":0,"reinit_date":0,"priority":0,"expire_at":0},"version":-1,"signature":"L4N1+dzXLlkmT5iPnvsmsixzXU0L6kPKApqMdcrGP5d9ssMhn69SzHFK+yIzvG6zQ9oRb4TnqPBaKShjjj2OBg=="},{"@type":"dht.node","id":{"@type":"pub.ed25519","key":"4R0C/zU56k+x2HGMsLWjX2rP/SpoTPIHSSAmidGlsb8="},"addr_list":{"@type":"adnl.addressList","addrs":[{"@type":"adnl.address.udp","ip":-1952265919,"port":14395}],"version":0,"reinit_date":0,"priority":0,"expire_at":0},"version":-1,"signature":"0uwWyCFn2KjPnnlbSFYXLZdwIakaSgI9WyRo87J3iCGwb5TvJSztgA224A9kNAXeutOrXMIPYv1b8Zt8ImsrCg=="},{"@type":"dht.node","id":{"@type":"pub.ed25519","key":"/YDNd+IwRUgL0mq21oC0L3RxrS8gTu0nciSPUrhqR78="},"addr_list":{"@type":"adnl.addressList","addrs":[{"@type":"adnl.address.udp","ip":-1402455171,"port":14432}],"version":0,"reinit_date":0,"priority":0,"expire_at":0},"version":-1,"signature":"6+oVk6HDtIFbwYi9khCc8B+fTFceBUo1PWZDVTkb4l84tscvr5QpzAkdK7sS5xGzxM7V7YYQ6gUQPrsP9xcLAw=="},''\<close>

definition tonGlobalConfig_2 :: "string" where
  \<open>tonGlobalConfig_2 =
     ''{"@type":"dht.node","id":{"@type":"pub.ed25519","key":"DA0H568bb+LoO2LGY80PgPee59jTPCqqSJJzt1SH+KE="},"addr_list":{"@type":"adnl.addressList","addrs":[{"@type":"adnl.address.udp","ip":-1402397332,"port":14583}],"version":0,"reinit_date":0,"priority":0,"expire_at":0},"version":-1,"signature":"cL79gDTrixhaM9AlkCdZWccCts7ieQYQBmPxb/R7d7zHw3bEHL8Le96CFJoB1KHu8C85iDpFK8qlrGl1Yt/ZDg=="},{"@type":"dht.node","id":{"@type":"pub.ed25519","key":"MJr8xja0xpu9DoisFXBrkNHNx1XozR7HHw9fJdSyEdo="},"addr_list":{"@type":"adnl.addressList","addrs":[{"@type":"adnl.address.udp","ip":-2018147130,"port":6302}],"version":0,"reinit_date":0,"priority":0,"expire_at":0},"version":-1,"signature":"XcR5JaWcf4QMdI8urLSc1zwv5+9nCuItSE1EDa0dSwYF15R/BtJoKU5YHA4/T8SiO18aVPQk2SL1pbhevuMrAQ=="},{"@type":"dht.node","id":{"@type":"pub.ed25519","key":"Fhldu4zlnb20/TUj9TXElZkiEmbndIiE/DXrbGKu+0c="},"addr_list":{"@type":"adnl.addressList","addrs":[{"@type":"adnl.address.udp","ip":-2018147075,"port":6302}],"version":0,"reinit_date":0,"priority":0,"expire_at":0},"version":-1,"signature":"nUGB77UAkd2+ZAL5PgInb3TvtuLLXJEJ2icjAUKLv4qIGB3c/O9k/v0NKwSzhsMP0ljeTGbcIoMDw24qf3goCg=="},''\<close>

definition tonGlobalConfig_3 :: "string" where
  \<open>tonGlobalConfig_3 =
     ''{"@type":"dht.node","id":{"@type":"pub.ed25519","key":"gzUNJnBJhdpooYCE8juKZo2y4tYDIQfoCvFm0yBr7y0="},"addr_list":{"@type":"adnl.addressList","addrs":[{"@type":"adnl.address.udp","ip":89013260,"port":54390}],"version":0,"reinit_date":0,"priority":0,"expire_at":0},"version":-1,"signature":"LCrCkjmkMn6AZHW2I+oRm1gHK7CyBPfcb6LwsltskCPpNECyBl1GxZTX45n0xZtLgyBd/bOqMPBfawpQwWt1BA=="},{"@type":"dht.node","id":{"@type":"pub.ed25519","key":"jXiLaOQz1HPayilWgBWhV9xJhUIqfU95t+KFKQPIpXg="},"addr_list":{"@type":"adnl.addressList","addrs":[{"@type":"adnl.address.udp","ip":94452896,"port":12485}],"version":0,"reinit_date":0,"priority":0,"expire_at":0},"version":-1,"signature":"fKSZh9nXMx+YblkQXn3I/bndTD0JZ1yAtK/tXPIGruNglpe9sWMXR+8fy3YogPhLJMdjNiMom1ya+tWG7qvBAQ=="},{"@type":"dht.node","id":{"@type":"pub.ed25519","key":"vhFPq+tgjJi+4ZbEOHBo4qjpqhBdSCzNZBdgXyj3NK8="},"addr_list":{"@type":"adnl.addressList","addrs":[{"@type":"adnl.address.udp","ip":85383775,"port":36752}],"version":0,"reinit_date":0,"priority":0,"expire_at":0},"version":-1,"signature":"kBwAIgJVkz8AIOGoZcZcXWgNmWq8MSBWB2VhS8Pd+f9LLPIeeFxlDTtwAe8Kj7NkHDSDC+bPXLGQZvPv0+wHCg=="},''\<close>

definition tonGlobalConfig_4 :: "string" where
  \<open>tonGlobalConfig_4 =
     ''{"@type":"dht.node","id":{"@type":"pub.ed25519","key":"sbsuMcdyYFSRQ0sG86/n+ZQ5FX3zOWm1aCVuHwXdgs0="},"addr_list":{"@type":"adnl.addressList","addrs":[{"@type":"adnl.address.udp","ip":759132846,"port":50187}],"version":0,"reinit_date":0,"priority":0,"expire_at":0},"version":-1,"signature":"9FJwbFw3IECRFkb9bA54YaexjDmlNBArimWkh+BvW88mjm3K2i5V2uaBPS3GubvXWOwdHLE2lzQBobgZRGMyCg=="},{"@type":"dht.node","id":{"@type":"pub.ed25519","key":"aeMgdMdkkbkfAS4+n4BEGgtqhkf2/zXrVWWECOJ/h3A="},"addr_list":{"@type":"adnl.addressList","addrs":[{"@type":"adnl.address.udp","ip":-1481887565,"port":25975}],"version":0,"reinit_date":0,"priority":0,"expire_at":0},"version":-1,"signature":"z5ogivZWpQchkS4UR4wB7i2pfOpMwX9Nd/USxinL9LvJPa+/Aw3F1AytR9FX0BqDftxIYvblBYAB5JyAmlj+AA=="},{"@type":"dht.node","id":{"@type":"pub.ed25519","key":"rNzhnAlmtRn9rTzW6o2568S6bbOXly7ddO1olDws5wM="},"addr_list":{"@type":"adnl.addressList","addrs":[{"@type":"adnl.address.udp","ip":-2134428422,"port":45943}],"version":0,"reinit_date":0,"priority":0,"expire_at":0},"version":-1,"signature":"sn/+ZfkfCSw2bHnEnv04AXX/Goyw7+StHBPQOdPr+wvdbaJ761D7hyiMNdQGbuZv2Ep2cXJpiwylnZItrwdUDg=="}]}},''\<close>

definition tonGlobalConfig_5 :: "string" where
  \<open>tonGlobalConfig_5 =
     ''"liteservers":[{"ip":84478511,"port":19949,"id":{"@type":"pub.ed25519","key":"n4VDnSCUuSpjnCyUk9e3QOOd6o0ItSWYbTnW3Wnn8wk="}},{"ip":84478479,"port":48014,"id":{"@type":"pub.ed25519","key":"3XO67K/qi+gu3T9v8G2hx1yNmWZhccL3O7SoosFo8G0="}},{"ip":-2018135749,"port":53312,"id":{"@type":"pub.ed25519","key":"aF91CuUHuuOv9rm2W5+O/4h38M3sRm40DtSdRxQhmtQ="}},{"ip":-2018145068,"port":13206,"id":{"@type":"pub.ed25519","key":"K0t3+IWLOXHYMvMcrGZDPs+pn58a17LFbnXoQkKc2xw="}},{"ip":-2018145059,"port":46995,"id":{"@type":"pub.ed25519","key":"wQE0MVhXNWUXpWiW5Bk8cAirIh5NNG3cZM1/fSVKIts="}},{"ip":1091931625,"port":30131,"id":{"@type":"pub.ed25519","key":"wrQaeIFispPfHndEBc0s0fx7GSp8UFFvebnytQQfc6A="}},''\<close>

definition tonGlobalConfig_6 :: "string" where
  \<open>tonGlobalConfig_6 =
     ''{"ip":1091931590,"port":47160,"id":{"@type":"pub.ed25519","key":"vOe1Xqt/1AQ2Z56Pr+1Rnw+f0NmAA7rNCZFIHeChB7o="}},{"ip":1091931623,"port":17728,"id":{"@type":"pub.ed25519","key":"BYSVpL7aPk0kU5CtlsIae/8mf2B/NrBi7DKmepcjX6Q="}},{"ip":1091931589,"port":13570,"id":{"@type":"pub.ed25519","key":"iVQH71cymoNgnrhOT35tl/Y7k86X5iVuu5Vf68KmifQ="}},{"ip":-1539021362,"port":52995,"id":{"@type":"pub.ed25519","key":"QnGFe9kihW+TKacEvvxFWqVXeRxCB6ChjjhNTrL7+/k="}},{"ip":-1539021936,"port":20334,"id":{"@type":"pub.ed25519","key":"gyLh12v4hBRtyBygvvbbO2HqEtgl+ojpeRJKt4gkMq0="}},{"ip":-1136338705,"port":19925,"id":{"@type":"pub.ed25519","key":"ucho5bEkufbKN1JR1BGHpkObq602whJn3Q3UwhtgSo4="}},''\<close>

definition tonGlobalConfig_7 :: "string" where
  \<open>tonGlobalConfig_7 =
     ''{"ip":868465979,"port":19434,"id":{"@type":"pub.ed25519","key":"J5CwYXuCZWVPgiFPW+NY2roBwDWpRRtANHSTYTRSVtI="}},{"ip":868466060,"port":23067,"id":{"@type":"pub.ed25519","key":"vX8d0i31zB0prVuZK8fBkt37WnEpuEHrb7PElk4FJ1o="}},{"ip":-2018147130,"port":53560,"id":{"@type":"pub.ed25519","key":"NlYhh/xf4uQpE+7EzgorPHqIaqildznrpajJTRRH2HU="}},{"ip":-2018147075,"port":46529,"id":{"@type":"pub.ed25519","key":"jLO6yoooqUQqg4/1QXflpv2qGCoXmzZCR+bOsYJ2hxw="}},{"ip":908566172,"port":51565,"id":{"@type":"pub.ed25519","key":"TDg+ILLlRugRB4Kpg3wXjPcoc+d+Eeb7kuVe16CS9z8="}},{"ip":-1185526007,"port":4701,"id":{"@type":"pub.ed25519","key":"G6cNAr6wXBBByWDzddEWP5xMFsAcp6y13fXA8Q7EJlM="}}],''\<close>

definition tonGlobalConfig_8 :: "string" where
  \<open>tonGlobalConfig_8 =
     unlines [
    ''"validator":{"@type":"validator.config.global","zero_state":{"workchain":-1,"shard":-9223372036854775808,"seqno":0,"root_hash":"F6OpKZKqvqeFp6CQmFomXNMfMj2EnaUSOXN+Mh+wVWk=","file_hash":"XplPz01CXAps5qeSWUtxcyBfdAo5zVb1N979KLSKD24="},"init_block":{"workchain":-1,"shard":-9223372036854775808,"seqno":46894135,"root_hash":"MEjmmhLPlG68mbTPnKYcP/Sz/MiMQBV2OsASBOzBv58=","file_hash":"u9rAtFQ+kUFEnOs3w8Y7punMTiyQTXf1bRfkSs8dG+0="},"hardforks":[{"workchain":-1,"shard":-9223372036854775808,"seqno":8536841,"root_hash":"08Kpc9XxrMKC6BF/FeNHPS3MEL1/Vi/fQU/C9ELUrkc=","file_hash":"t/9VBPODF7Zdh4nsnA49dprO69nQNMqYL+zk5bCjV/8="}]}}'']\<close>

definition tonGlobalConfig :: "string" where
  \<open>tonGlobalConfig =
     tonGlobalConfig_1 @ tonGlobalConfig_2 @ tonGlobalConfig_3 @ tonGlobalConfig_4 @ tonGlobalConfig_5 @ tonGlobalConfig_6 @ tonGlobalConfig_7 @ tonGlobalConfig_8\<close>

definition ton_NodePorts :: "ChainInstanceSpec \<Rightarrow> string \<Rightarrow> (int \<times> int) list" where
  "ton_NodePorts spec name =
     (let offset = (if HasSuffix name ''-02'' then 10 else if HasSuffix name ''-03'' then 20 else 0)
      in [(30001, 30001 + offset), (30003, 30003 + offset)])"

text \<open>\<open>strings.SplitN(s, "/", 2)\<close>, when there is a separator.\<close>

definition split_slash :: "string \<Rightarrow> (string \<times> string) option" where
  "split_slash s = (case dropWhile (\<lambda>c. c \<noteq> CHR ''/'') s of
     [] \<Rightarrow> None
   | _ # r \<Rightarrow> Some (takeWhile (\<lambda>c. c \<noteq> CHR ''/'') s, r))"

definition ton_HealthCheck :: "('w, 'x) rpc_env_scheme \<Rightarrow> ctx \<Rightarrow> string \<Rightarrow> ('w, goerr + SyncStatus) state" where
  "ton_HealthCheck E c rpcURL = (case hParseURL E rpcURL of
     Inl err \<Rightarrow> failWith ''decode TON RPC URL'' err
   | Inr u \<Rightarrow> getURL E (5 * Second) c (''http://'' @ url_Hostname u @ '':8081'') (failWith ''call TON seqno endpoint'')
       (\<lambda>_. retPseudo E)
       (\<lambda>resp. case split_slash (TrimSpace (take 256 (bodyText resp))) of
          None \<Rightarrow> retPseudo E
        | Some (l, n) \<Rightarrow>
            (let localSeqno = parseDecimalInt64 l; netSeqno = parseDecimalInt64 n in
             if netSeqno = 0 then retPseudo E
             else if localSeqno = 0 then do {
               now \<leftarrow> gNow E;
               ret (Inr (zero_sync\<lparr>syIsSyncing := True, syCurrentBlock := pseudoBlock now, syHighestBlock := netSeqno\<rparr>)) }
             else ret (Inr (zero_sync\<lparr>syIsSyncing := localSeqno < wrap64 (netSeqno - 5), syCurrentBlock := localSeqno,
                    syHighestBlock := netSeqno, syProgress := progressFromBlocks localSeqno netSeqno\<rparr>)))))"

definition ton_ContainerCommand :: "ChainInstanceSpec \<Rightarrow> string list" where
  \<open>ton_ContainerCommand spec =
     [''bash'', ''-c'',
      unlines [
    ''mkdir -p /data/ton-work/db /var/ton-work'',
    ''rm -rf /var/ton-work/db && ln -sf /data/ton-work/db /var/ton-work/db'',
    ''mkdir -p /usr/local/bin'',
    ''cat > /usr/local/bin/wget << 'WGETEOF'' @ [CHR 0x27],
    ''#!/bin/sh'',
    ''OUTPUT=""'',
    ''PREV=""'',
    ''for arg in "$@"; do'',
    ''  if [ "$PREV" = "-O" ]; then OUTPUT="$arg"; fi'',
    ''  PREV="$arg"'',
    ''done'',
    ''if [ -n "$OUTPUT" ] && echo "$OUTPUT" | grep -q "ton-global"; then'',
    ''  cp /config/global-config.json "$OUTPUT" && exit 0'',
    ''fi'',
    ''exec /bin/wget "$@"'',
    ''WGETEOF'',
    ''chmod +x /usr/local/bin/wget'',
    [],
    ''# State dump restore from dump.ton.org (first-start only, skipped on subsequent restarts).'',
    ''# DUMP_URL must be set in spec.extraEnv (e.g. https://dump.ton.org/dumps/latest.tar.lz).'',
    ''# The .dump_done marker is written to PVC so re-download is skipped on restart.'',
    ''DB=/data/ton-work/db'',
    ''DUMP_URL="${DUMP_URL:-}"'',
    ''DUMP_MARKER="/data/ton-work/.dump_done"'',
    ''DUMP_FILE="/data/dump.tar.lz"'',
    ''if [ -n "$DUMP_URL" ]; then'',
    ''  DB_STATE_MB=$(du -sm "$DB/state" 2>/dev/null | cut -f1)'',
    ''  DB_STATE_MB=${DB_STATE_MB:-0}'',
    ''  # Self-heal: stale marker (written by buggy plzip pipe, state not actually extracted).'',
    ''  if [ -f "$DUMP_MARKER" ] && [ "$DB_STATE_MB" -lt 1024 ]; then'',
    ''    echo "[ton] Stale marker detected (state=${DB_STATE_MB}MB <1GiB) '' @ [CHR 0xE2, CHR 0x80, CHR 0x94] @ '' removing to re-extract."'',
    ''    rm -f "$DUMP_MARKER"'',
    ''  fi'',
    ''  if [ ! -f "$DUMP_MARKER" ]; then'',
    ''    if [ "$DB_STATE_MB" -lt 1024 ]; then'',
    ''      echo "[ton] State dir is ${DB_STATE_MB}MB (<1GiB), restoring from $DUMP_URL ..."'',
    ''      # Wipe partial state to avoid ADNL/celldb corruption.'',
    ''      rm -rf "$DB/state" "$DB/celldb" "$DB/catchains" 2>/dev/null || true'',
    ''      rm -f "${DUMP_FILE%.lz}" 2>/dev/null || true'',
    ''      mkdir -p "$DB"'',
    ''      DUMP_FILE_MB=$(du -sm "$DUMP_FILE" 2>/dev/null | cut -f1)'',
    ''      DUMP_FILE_MB=${DUMP_FILE_MB:-0}'',
    ''      if [ "$DUMP_FILE_MB" -gt 184320 ]; then'',
    ''        echo "[ton] Dump already downloaded (${DUMP_FILE_MB}MB), skipping download."'',
    ''      else'',
    ''        if ! command -v aria2c >/dev/null 2>&1; then'',
    ''          echo "[ton] Installing aria2c..."'',
    ''          apt-get update -qq && apt-get install -y -qq aria2 >/dev/null 2>&1'',
    ''        fi'',
    ''        echo "[ton] Downloading dump via aria2c..."'',
    ''        aria2c -x 1 -s 1 -k 64M '' @ [CHR 0x5C],
    ''          --max-tries=50 --retry-wait=15 --timeout=600 '' @ [CHR 0x5C],
    ''          --continue=true --auto-file-renaming=false '' @ [CHR 0x5C],
    ''          --file-allocation=none --summary-interval=120 '' @ [CHR 0x5C],
    ''          -d "$(dirname "$DUMP_FILE")" -o "$(basename "$DUMP_FILE")" '' @ [CHR 0x5C],
    ''          "$DUMP_URL" '' @ [CHR 0x5C],
    ''          || echo "[ton] aria2c finished with errors, checking file..."'',
    ''      fi'',
    ''      if [ -f "$DUMP_FILE" ]; then'',
    ''        plzip -d -c -n2 "$DUMP_FILE" | tar -xC "$DB" '' @ [CHR 0x5C],
    ''          && rm -f "$DUMP_FILE" "${DUMP_FILE%.lz}" '' @ [CHR 0x5C],
    ''          && touch "$DUMP_MARKER" '' @ [CHR 0x5C],
    ''          && echo "[ton] Dump restore complete." '' @ [CHR 0x5C],
    ''          || echo "[ton] Extraction failed '' @ [CHR 0xE2, CHR 0x80, CHR 0x94] @ '' proceeding without dump."'',
    ''      else'',
    ''        echo "[ton] Dump download failed after $MAX_RETRIES attempts '' @ [CHR 0xE2, CHR 0x80, CHR 0x94] @ '' proceeding without dump."'',
    ''      fi'',
    ''    else'',
    ''      echo "[ton] State already present (${DB_STATE_MB}MB), skipping dump."'',
    ''      touch "$DUMP_MARKER"'',
    ''    fi'',
    ''  else'',
    ''    echo "[ton] Dump restore marker found, skipping."'',
    ''  fi'',
    ''fi'',
    ''# Unset DUMP_URL so init.sh does not attempt a second download.'',
    ''unset DUMP_URL'',
    [],
    ''# Repair liteserver config if config.json exists but liteservers[] is empty.'',
    ''if [ -f "$DB/config.json" ] && ! [ -f "$DB/liteserver" ]; then'',
    ''  LS_COUNT=$(jq '.liteservers | length' "$DB/config.json" 2>/dev/null || echo 0)'',
    ''  if [ "$LS_COUNT" = "0" ]; then'',
    ''    echo "[ton-fix] liteservers empty in config.json '' @ [CHR 0xE2, CHR 0x80, CHR 0x94] @ '' repairing"'',
    ''    cd "$DB"'',
    ''    read -r LS_ID1 LS_ID2 <<< $(generate-random-id -m keys -n liteserver)'',
    ''    cp liteserver "$DB/keyring/$LS_ID1"'',
    ''    jq --arg id "$LS_ID2" '.liteservers = [{"id": $id, "port": 30003}]' '' @ [CHR 0x5C],
    ''      "$DB/config.json" > "$DB/config.json.new" '' @ [CHR 0x5C],
    ''      && mv "$DB/config.json.new" "$DB/config.json"'',
    ''    echo "[ton-fix] liteserver key=$LS_ID2 added to config.json"'',
    ''  fi'',
    ''fi'',
    [],
    ''# Repair control interface in config.json if empty.'',
    ''if [ -f "$DB/config.json" ] && [ -f "$DB/server" ] && [ -f "$DB/client" ]; then'',
    ''  CTRL_COUNT=$(jq '.control | length' "$DB/config.json" 2>/dev/null || echo 0)'',
    ''  if [ "$CTRL_COUNT" = "0" ]; then'',
    ''    echo "[ton-fix] control[] empty in config.json '' @ [CHR 0xE2, CHR 0x80, CHR 0x94] @ '' repairing for validator-engine-console"'',
    ''    SERVER_B64=$(dd if="$DB/server.pub" bs=1 skip=4 count=32 2>/dev/null | base64)'',
    ''    CLIENT_B64=$(dd if="$DB/client.pub" bs=1 skip=4 count=32 2>/dev/null | base64)'',
    ''    if [ -n "$SERVER_B64" ] && [ -n "$CLIENT_B64" ]; then'',
    ''      jq --arg sid "$SERVER_B64" --arg cid "$CLIENT_B64" '' @ [CHR 0x5C],
    ''        '.control = [{"id": $sid, "port": 30002, "allowed": [{"id": $cid, "permissions": 15}]}]' '' @ [CHR 0x5C],
    ''        "$DB/config.json" > "$DB/config.json.new" '' @ [CHR 0x5C],
    ''        && mv "$DB/config.json.new" "$DB/config.json"'',
    ''      echo "[ton-fix] control interface added (port 30002)"'',
    ''    fi'',
    ''  fi'',
    ''fi'',
    [],
    ''# PUBLIC_IP is injected via Kubernetes Downward API (status.hostIP).'',
    ''if [ -n "$PUBLIC_IP" ]; then'',
    ''  _a=$(echo "$PUBLIC_IP" | cut -d. -f1)'',
    ''  _b=$(echo "$PUBLIC_IP" | cut -d. -f2)'',
    ''  _c=$(echo "$PUBLIC_IP" | cut -d. -f3)'',
    ''  _d=$(echo "$PUBLIC_IP" | cut -d. -f4)'',
    ''  IP_UINT=$(( (_a << 24) | (_b << 16) | (_c << 8) | _d ))'',
    ''  IP_INT=$(( IP_UINT > 2147483647 ? IP_UINT - 4294967296 : IP_UINT ))'',
    ''  if [ -f "$DB/config.json" ]; then'',
    ''    jq --argjson ip "$IP_INT" '' @ [CHR 0x5C],
    ''      'if .addrs then .addrs = [.addrs[] | if .port == 30001 then .ip = $ip else . end] else . end' '' @ [CHR 0x5C],
    ''      "$DB/config.json" > "$DB/config.json.new" '' @ [CHR 0x5C],
    ''      && mv "$DB/config.json.new" "$DB/config.json"'',
    ''    echo "[ton] ADNL IP set to $PUBLIC_IP ($IP_INT) in config.json"'',
    ''  fi'',
    ''fi'',
    [],
    ''# Background seqno updater'',
    ''(while true; do'',
    ''  NET_OUT=$(timeout 15 lite-client -C /config/global-config.json --cmd last 2>&1 || true)'',
    ''  NET_SEQNO=$(echo "$NET_OUT" | grep 'masterchain block' | sed -n 's/.*(-1,[^,]*,'' @ [CHR 0x5C] @ ''([0-9]*'' @ [CHR 0x5C] @ '')).*/'' @ [CHR 0x5C] @ ''1/p' | head -1)'',
    ''  [ -n "$NET_SEQNO" ] && echo "$NET_SEQNO" > /tmp/ton_net_seqno'',
    [],
    ''  if [ -f "$DB/config.json" ] && [ -f "$DB/server" ] && [ -f "$DB/client" ]; then'',
    ''    CTRL_COUNT=$(jq '.control | length' "$DB/config.json" 2>/dev/null || echo 0)'',
    ''    if [ "$CTRL_COUNT" = "0" ]; then'',
    ''      SERVER_B64=$(dd if="$DB/server.pub" bs=1 skip=4 count=32 2>/dev/null | base64)'',
    ''      CLIENT_B64=$(dd if="$DB/client.pub" bs=1 skip=4 count=32 2>/dev/null | base64)'',
    ''      if [ -n "$SERVER_B64" ] && [ -n "$CLIENT_B64" ]; then'',
    ''        jq --arg sid "$SERVER_B64" --arg cid "$CLIENT_B64" '' @ [CHR 0x5C],
    ''          '.control = [{"id": $sid, "port": 30002, "allowed": [{"id": $cid, "permissions": 15}]}]' '' @ [CHR 0x5C],
    ''          "$DB/config.json" > "$DB/config.json.new" '' @ [CHR 0x5C],
    ''          && mv "$DB/config.json.new" "$DB/config.json"'',
    ''        echo "[ton-fix] control interface lazily added (port 30002)"'',
    ''      fi'',
    ''    fi'',
    ''    CONS_OUT=$(timeout 10 validator-engine-console '' @ [CHR 0x5C],
    ''      -a 127.0.0.1:30002 '' @ [CHR 0x5C],
    ''      -k "$DB/client" '' @ [CHR 0x5C],
    ''      -p "$DB/server.pub" '' @ [CHR 0x5C],
    ''      -c "getstat" -c "quit" 2>&1 || true)'',
    ''    LOC_SEQNO=$(echo "$CONS_OUT" | grep -oP 'masterchainblock'' @ [CHR 0x5C] @ ''s+'' @ [CHR 0x5C] @ ''(-1,'' @ [CHR 0x5C] @ ''w+,'' @ [CHR 0x5C] @ ''K'' @ [CHR 0x5C] @ ''d+' | head -1)'',
    ''    if [ -z "$LOC_SEQNO" ]; then'',
    ''      LOC_SEQNO=$(echo "$CONS_OUT" | sed -n 's/.*(-1,[^,]*,'' @ [CHR 0x5C] @ ''([0-9]'' @ [CHR 0x5C] @ ''{6,'' @ [CHR 0x5C] @ ''}'' @ [CHR 0x5C] @ '')).*/'' @ [CHR 0x5C] @ ''1/p' | head -1)'',
    ''    fi'',
    ''    [ -n "$LOC_SEQNO" ] && echo "$LOC_SEQNO" > /tmp/ton_local_seqno'',
    ''  fi'',
    ''  sleep 60'',
    ''done) &'',
    [],
    ''# HTTP server on port 8081 serving "local_seqno/network_seqno" for HealthCheck.'',
    ''(while true; do'',
    ''  NET=$(cat /tmp/ton_net_seqno 2>/dev/null || echo "0")'',
    ''  LOCAL=$(cat /tmp/ton_local_seqno 2>/dev/null || echo "0")'',
    ''  BODY="$LOCAL/$NET"'',
    ''  LEN=${#BODY}'',
    ''  { printf 'HTTP/1.1 200 OK'' @ [CHR 0x5C] @ ''r'' @ [CHR 0x5C] @ ''nContent-Length: %d'' @ [CHR 0x5C] @ ''r'' @ [CHR 0x5C] @ ''nConnection: close'' @ [CHR 0x5C] @ ''r'' @ [CHR 0x5C] @ ''n'' @ [CHR 0x5C] @ ''r'' @ [CHR 0x5C] @ ''n%s' "$LEN" "$BODY"; sleep 1; } '' @ [CHR 0x5C],
    ''    | nc -l 8081 2>/dev/null || true'',
    ''done) &'',
    [],
    ''cd /var/ton-work/db''] @ ''exec /var/ton-work/scripts/init.sh'']\<close>

definition ton_StartupProbe :: "ChainInstanceSpec \<Rightarrow> Probe option" where
  \<open>ton_StartupProbe spec =
     Some (tcpProbe 30003 300 30 10 2880)\<close>

definition ton_LivenessProbe :: "ChainInstanceSpec \<Rightarrow> Probe option" where
  \<open>ton_LivenessProbe spec =
     Some (tcpProbe 30003 60 30 10 5)\<close>

definition ton_ContainerEnv :: "ChainInstanceSpec \<Rightarrow> EnvVar list" where
  \<open>ton_ContainerEnv spec =
     [EnvOther ''PUBLIC_IP'' ''status.hostIP'']\<close>

definition ton_ContainerPorts :: "ChainInstanceSpec \<Rightarrow> ContainerPort list" where
  \<open>ton_ContainerPorts spec =
     [tcpPort ''liteserver'' 30003, udpPort ''p2p'' 30001, tcpPort ''seqno'' 8081]\<close>

definition tonAdapter :: "('w, 'x) rpc_env_scheme \<Rightarrow> 'w ChainAdapter" where
  \<open>tonAdapter E = (protocolBase E ChainTON 30003)\<lparr>
     adHealthCheck := ton_HealthCheck E,
     adConfigTemplate := (\<lambda>_. Inr (''global-config.json'', tonGlobalConfig)),
     adContainerCommand := Some ton_ContainerCommand,
     adStartupProbe := Some ton_StartupProbe,
     adLivenessProbe := ton_LivenessProbe,
     adContainerEnv := Some ton_ContainerEnv,
     adContainerPorts := ton_ContainerPorts,
     adDefaultResources := Some \<lparr>rdCPURequest = 4 * 1000, rdMemoryRequest = 8 * 2 ^ 30, rdStorage = 100 * 2 ^ 30\<rparr>,
     adVersionPolicy := Some \<lparr>vpRegistry = ''ghcr.io'', vpRepository = ''ton-blockchain/ton'',
        vpTagPattern = ''^(?P<version>v'' @ [CHR 0x5C] @ ''d{4}'' @ [CHR 0x5C] @ ''.'' @ [CHR 0x5C] @ ''d{2})-amd64$'', vpTagPrefix = []\<rparr>,
     adNodePorts := Some ton_NodePorts\<rparr>\<close>

definition tronSyncedThreshold :: "int" where
  \<open>tronSyncedThreshold =
     100\<close>

definition tronTestnetConfig :: "string" where
  \<open>tronTestnetConfig =
     unlines [
    [],
    ''node.discovery.enable = true'',
    ''storage.db.directory = "database"'',
    ''storage.db.engine = "LEVELDB"'',
    ''node.p2p.version = 201910292'',
    [],
    ''net {'',
    ''  type = nile'',
    ''}'',
    [],
    ''node {'',
    ''  listen.port = 18888'',
    ''  http.fullNodePort = 8090'',
    ''  http.solidityPort = 8091'',
    ''  rpc.port = 50051'',
    ''}'',
    [],
    ''seed.node = {'',
    ''  ip.list = ['',
    ''    "44.236.192.97:18888",'',
    ''    "44.236.125.107:18888",'',
    ''    "44.232.119.174:18888",'',
    ''    "52.39.105.180:18888",'',
    ''    "54.70.52.47:18888"'',
    ''  ]'',
    ''}'',
    [],
    ''vm {'',
    ''  maxTimeRatio = 10'',
    ''  minTimeRatio = 0.0'',
    ''}'',
    [],
    ''block = {'',
    ''  needSyncCheck = false'',
    ''  maintenanceTimeInterval = 600000'',
    ''  proposalExpireTime = 600000'',
    ''}'',
    [],
    ''genesis.block = {'',
    ''  assets = ['',
    ''    {'',
    ''      accountName = "Zion"'',
    ''      accountType = "AssetIssue"'',
    ''      address = "TMWXhuxiT1KczhBxCseCDDsrhmpYGUcoA9"'',
    ''      balance = "99000000000000000"'',
    ''    },'',
    ''    {'',
    ''      accountName = "Sun"'',
    ''      accountType = "AssetIssue"'',
    ''      address = "TN21Wx2yoNYiZ7znuQonmZMJnH5Vdfxu78"'',
    ''      balance = "99000000000000000"'',
    ''    },'',
    ''    {'',
    ''      accountName = "Blackhole"'',
    ''      accountType = "AssetIssue"'',
    ''      address = "TDPJULRzVtzVjnBmZvfaTcTNQ2tsVi6XxQ"'',
    ''      balance = "-9223372036854775808"'',
    ''    }'',
    ''  ]'',
    [],
    ''  witnesses = ['',
    ''    { address: TD23EqH3ixYMYh8CMXKdHyQWjePi3KQvxV,  url = "http://GR1.com",  voteCount = 100000026 },'',
    ''    { address: TCm4Lz1uP3tQm3jzpwFTG6o5UvSTA2XEHc,  url = "http://GR2.com",  voteCount = 100000025 },'',
    ''    { address: TTgDUgREiPBeY3iudD5e2eEibE4v4CE8C9,   url = "http://GR3.com",  voteCount = 100000024 },'',
    ''    { address: TFVDe7kMEmb8EuUxxp42kocQY1fFY727WS,   url = "http://GR4.com",  voteCount = 100000023 },'',
    ''    { address: TY4NSjctzTchHkhaCskVc5zQtnX9s1uxAX,   url = "http://GR5.com",  voteCount = 100000022 },'',
    ''    { address: TWSMPrm6aizvsJmPnjMB7x3UExJfRhyQhd,   url = "http://GR6.com",  voteCount = 100000021 },'',
    ''    { address: TKwLkSaCvqqpAB44qaHGTohCTCFoYw7ecy,   url = "http://GR7.com",  voteCount = 100000020 },'',
    ''    { address: TDsYmm1St9r4UZebDGWBcTMtfYTw9YX5h4,   url = "http://GR8.com",  voteCount = 100000019 },'',
    ''    { address: TFEQbWAPxhbUr1P14y9UJBUZo3LgtdqTS7,   url = "http://GR9.com",  voteCount = 100000018 },'',
    ''    { address: TCynAi8tb7UWP7uhLv6fe971KLm2KT8tcs,   url = "http://GR10.com", voteCount = 100000017 },'',
    ''    { address: TC2YsLp4rzrt3AbeN3EryoSywrBjEUVCq3,   url = "http://GR11.com", voteCount = 100000016 },'',
    ''    { address: THxMKH1uaL5FpURujkQR7u2sNZ2n5PSsiH,   url = "http://GR12.com", voteCount = 100000015 },'',
    ''    { address: TWbzgoHimDcXWy19ts1An8bxA4JKjcYHeG,   url = "http://GR13.com", voteCount = 100000014 },'',
    ''    { address: TW2LmXnVCEaxuVtQN8gZR1ixT5PNm4QLft,   url = "http://GR14.com", voteCount = 100000013 },'',
    ''    { address: TVuqk4rYYVHVA6j6sSEnaLexhhoQhN8nyZ,   url = "http://GR15.com", voteCount = 100000012 },'',
    ''    { address: TVMZu5ptZPhhkZ3Kaagkq35FmyuKNvUKJV,   url = "http://GR16.com", voteCount = 100000011 },'',
    ''    { address: TFDHT8PqUrL2Bd8DeysSiHHBAEMidZgkhx,   url = "http://GR17.com", voteCount = 100000010 },'',
    ''    { address: TVqz5Bj3M1uEenaSsw2NnXvTWChPj6K3hb,   url = "http://GR18.com", voteCount = 100000009 },'',
    ''    { address: TSt8YNpARJkhdMdEV4C7ajH1tFHpZWzF1T,   url = "http://GR19.com", voteCount = 100000008 },'',
    ''    { address: TTxWDjEb3Be1Ax8BCvK48cnaorZofLq2C9,   url = "http://GR20.com", voteCount = 100000007 },'',
    ''    { address: TU5T838YtyZtEQKpnXEdRz3d8hJn6WHhjw,   url = "http://GR21.com", voteCount = 100000006 },'',
    ''    { address: TRuSs1MpL3o2hzhU8r6HLC7WtDyVE9hsF6,   url = "http://GR22.com", voteCount = 100000005 },'',
    ''    { address: TYMCoCZyAjWkWdUfEHg1oZQYbLKev282ou,   url = "http://GR23.com", voteCount = 100000004 },'',
    ''    { address: TQvAyGATpLZymHbpeaRozJCKqSeRWVNhCJ,   url = "http://GR24.com", voteCount = 100000003 },'',
    ''    { address: TYDd9nskbhJmLLNoe4yV2Z1SYtGjNa8wyg,   url = "http://GR25.com", voteCount = 100000002 },'',
    ''    { address: TS5991Geh2qeHtw46rskpJyn6hFNbuZGGc,   url = "http://GR26.com", voteCount = 100000001 },'',
    ''    { address: TKnn5MBnmXXeKdu9dxKVfKk4n1YdCeSRGr,   url = "http://GR27.com", voteCount = 100000000 }'',
    ''  ]'',
    [],
    ''  timestamp = "0"'',
    ''  parentHash = "0xe58f33f9baf9305dc6f82b9f1934ea8f0ade2defb951258d50167028c780351f"'',
    ''}'']\<close>

definition tronMainnetConfig :: "string" where
  \<open>tronMainnetConfig =
     unlines [
    [],
    ''node.discovery.enable = true'',
    ''storage.db.directory = "database"'',
    ''storage.db.engine = "LEVELDB"'',
    ''storage.txCache.initOptimization = true'',
    ''node.p2p.version = 11111'',
    [],
    ''net {'',
    ''  type = mainnet'',
    ''}'',
    [],
    ''node {'',
    ''  listen.port = 18888'',
    ''  http.fullNodePort = 8090'',
    ''  http.solidityPort = 8091'',
    ''  rpc.port = 50051'',
    ''}'',
    [],
    ''seed.node = {'',
    ''  ip.list = ['',
    ''    "3.225.171.164:18888",'',
    ''    "52.53.189.99:18888",'',
    ''    "18.196.99.16:18888",'',
    ''    "34.253.187.192:18888",'',
    ''    "18.133.82.227:18888",'',
    ''    "35.180.51.163:18888",'',
    ''    "54.252.224.209:18888",'',
    ''    "18.228.15.36:18888",'',
    ''    "52.15.93.92:18888",'',
    ''    "34.220.77.106:18888"'',
    ''  ]'',
    ''}'',
    [],
    ''vm {'',
    ''  # Increase VM execution timeout multiplier to handle CPU-heavy smart contract'',
    ''  # transactions during historical sync. Default is 5.0; some blocks (e.g. 81012608)'',
    ''  # contain transactions that OOT at 5x but succeed at 50x on JDK 11 / G1GC.'',
    ''  # Block 81017703 OOTs at 50x '' @ [CHR 0xE2, CHR 0x80, CHR 0x94] @ '' raised to 100x.'',
    ''  maxTimeRatio = 100'',
    ''  minTimeRatio = 0.0'',
    ''}'',
    [],
    ''genesis.block = {'',
    ''  assets = ['',
    ''    {'',
    ''      accountName = "Zion"'',
    ''      accountType = "AssetIssue"'',
    ''      address = "TLLM21wteSPs4hKjbxgmH1L6poyMjeTbHm"'',
    ''      balance = "99000000000000000"'',
    ''    },'',
    ''    {'',
    ''      accountName = "Sun"'',
    ''      accountType = "AssetIssue"'',
    ''      address = "TXmVpin5vq5gdZsciyyjdZgKRUju4st1wM"'',
    ''      balance = "0"'',
    ''    },'',
    ''    {'',
    ''      accountName = "Blackhole"'',
    ''      accountType = "AssetIssue"'',
    ''      address = "TLsV52sRDL79HXGGm9yzwKibb6BeruhUzy"'',
    ''      balance = "-9223372036854775808"'',
    ''    }'',
    ''  ]'',
    [],
    ''  witnesses = []'',
    [],
    ''  timestamp = "0"'',
    ''  parentHash = "0xe58f33f9baf9305dc6f82b9f1934ea8f0ade2defb951258d50167028c780351f"'',
    ''}'']\<close>

record tronPeer =
  tpUnFetchSynNum :: int
  tpNeedSyncFrom :: bool
  tpSyncToFetchSize :: int
  tpSyncToFetchPeekNum :: int
  tpBlockInPorcSize :: int

definition dec_tronPeer :: "tronPeer decoder" where
  "dec_tronPeer = dec_struct (\<lambda>kvs p.
     case dec_field dec_int64 ''unFetchSynNum'' kvs (tpUnFetchSynNum p) of None \<Rightarrow> None
     | Some u \<Rightarrow> (case dec_field dec_bool ''needSyncFromPeer'' kvs (tpNeedSyncFrom p) of None \<Rightarrow> None
     | Some n \<Rightarrow> (case dec_field dec_int64 ''syncToFetchSize'' kvs (tpSyncToFetchSize p) of None \<Rightarrow> None
     | Some s \<Rightarrow> (case dec_field dec_int64 ''syncToFetchSizePeekNum'' kvs (tpSyncToFetchPeekNum p) of None \<Rightarrow> None
     | Some k \<Rightarrow> (case dec_field dec_int64 ''blockInPorcSize'' kvs (tpBlockInPorcSize p) of None \<Rightarrow> None
     | Some b \<Rightarrow> Some \<lparr>tpUnFetchSynNum = u, tpNeedSyncFrom = n, tpSyncToFetchSize = s, tpSyncToFetchPeekNum = k,
                     tpBlockInPorcSize = b\<rparr>)))))"

definition dec_tronNodeInfo :: "(string \<times> tronPeer list) decoder" where
  "dec_tronNodeInfo = dec_and (dec_path [''block''] dec_string)
     (dec_path [''peerList''] (dec_list dec_tronPeer \<lparr>tpUnFetchSynNum = 0, tpNeedSyncFrom = False, tpSyncToFetchSize = 0,
        tpSyncToFetchPeekNum = 0, tpBlockInPorcSize = 0\<rparr>))"

text \<open>\<open>fmt.Sscanf(s, "Num:%d,", &n)\<close> without an error.\<close>

definition tron_block :: "string \<Rightarrow> int option" where
  "tron_block s =
     (if HasPrefix s ''Num:'' then
        (case Sscanf_int (drop 4 s) of
           Some (n, r) \<Rightarrow> if HasPrefix r '','' then Some n else None
         | None \<Rightarrow> None)
      else None)"

text \<open>The loop over the peers: blocks remaining, highest block seen, and whether a download is active.\<close>

definition tron_peer :: "int \<times> int \<times> bool \<Rightarrow> tronPeer \<Rightarrow> int \<times> int \<times> bool" where
  "tron_peer st p = (case st of (maxRemain, highestFromPeers, activeDownload) \<Rightarrow>
     if \<not> tpNeedSyncFrom p then st
     else (max maxRemain (tpUnFetchSynNum p),
           max highestFromPeers (wrap64 (tpSyncToFetchPeekNum p + tpSyncToFetchSize p)),
           activeDownload \<or> tpSyncToFetchSize p > 0 \<or> tpBlockInPorcSize p > 0))"

definition tron_status :: "int \<Rightarrow> tronPeer list \<Rightarrow> SyncStatus" where
  "tron_status currentBlock peers = (case foldl tron_peer (0, 0, False) peers of
     (maxRemain, highestFromPeers, activeDownload) \<Rightarrow>
       (let highestBlock = max (wrap64 (currentBlock + maxRemain)) highestFromPeers;
            lag = wrap64 (highestBlock - currentBlock);
            isSyncing = (lag > tronSyncedThreshold)
        in \<lparr>syIsSyncing = isSyncing, syCurrentBlock = currentBlock, syHighestBlock = highestBlock,
            syPeers = wrap32 (int (length peers)),
            syProgress = (if highestBlock > 0 \<and> isSyncing
              then f_mul (f_div (f_of_int currentBlock) (f_of_int highestBlock)) (Fin 100) else Fin 100),
            syStallExempt = (activeDownload \<and> isSyncing)\<rparr>))"

definition tron_HealthCheck :: "('w, 'x) rpc_env_scheme \<Rightarrow> ctx \<Rightarrow> string \<Rightarrow> ('w, goerr + SyncStatus) state" where
  "tron_HealthCheck E c rpcURL =
     getURL E rpcTimeout c (rpcURL @ ''/wallet/getnodeinfo'') (failWith ''tron nodeinfo request'') (failWith ''tron nodeinfo'')
       (\<lambda>resp. ret (case unmarshal_raw dec_tronNodeInfo (bodyJson (Inr resp)) ([], []) of
          None \<Rightarrow> Inl (WrapErr ''tron nodeinfo parse'' jsonErr)
        | Some (block, peers) \<Rightarrow> Inr (case tron_block block of
            None \<Rightarrow> zero_sync\<lparr>syIsSyncing := True\<rparr>
          | Some currentBlock \<Rightarrow> tron_status currentBlock peers)))"

definition tron_StartupProbe :: "ChainInstanceSpec \<Rightarrow> Probe option" where
  \<open>tron_StartupProbe spec =
     (let failureThreshold = 720 in
     let failureThreshold = (if spNetwork spec = NetworkTestnet then 40 else failureThreshold) in
     Some (tcpProbe 8090 60 30 10 failureThreshold))\<close>

definition tron_ContainerCommand :: "ChainInstanceSpec \<Rightarrow> string list" where
  \<open>tron_ContainerCommand spec =
     [''/bin/sh'', ''-c'',
      ''CP=$(find /java-tron/lib -name '*.jar' -printf '%p:' | sed 's/:$//') && '' @ ''exec java $JAVA_OPTS -Djava.specification.version=1.8 '' @ ''-XX:+UseG1GC -XX:-UseCompressedOops -XX:ReservedCodeCacheSize=256m '' @ ''-verbose:gc -Xloggc:./gc.log -XX:+UseGCLogFileRotation '' @ ''-XX:NumberOfGCLogFiles=5 -XX:GCLogFileSize=20M '' @ ''-classpath "$CP" org.tron.program.FullNode "$@"'',
      ''--'']\<close>

definition tron_ContainerArgs :: "ChainInstanceSpec \<Rightarrow> string list" where
  \<open>tron_ContainerArgs spec =
     [''-c'', ''/config/config.conf'', ''-d'', ''/data'']\<close>

definition tron_ContainerPorts :: "ChainInstanceSpec \<Rightarrow> ContainerPort list" where
  \<open>tron_ContainerPorts spec =
     [tcpPort ''http'' 8090, tcpPort ''grpc'' 50051, tcpPort ''p2p'' 18888, tcpPort ''metrics'' 9527]\<close>

definition tronAdapter :: "('w, 'x) rpc_env_scheme \<Rightarrow> 'w ChainAdapter" where
  \<open>tronAdapter E = (protocolBase E ChainTRON 8090)\<lparr>
     adHealthCheck := tron_HealthCheck E,
     adConfigTemplate := (\<lambda>spec. if spNetwork spec = NetworkTestnet then Inr (''config.conf'', tronTestnetConfig)
     else Inr (''config.conf'', tronMainnetConfig)),
     adStartupProbe := Some tron_StartupProbe,
     adContainerCommand := Some tron_ContainerCommand,
     adContainerArgs := Some tron_ContainerArgs,
     adContainerPorts := tron_ContainerPorts,
     adDefaultResources := Some \<lparr>rdCPURequest = 8 * 1000, rdMemoryRequest = 16 * 2 ^ 30, rdStorage = 500 * 2 ^ 30\<rparr>,
     adVersionPolicy := Some \<lparr>vpRegistry = ''docker.io'', vpRepository = ''tronprotocol/java-tron'',
        vpTagPattern = ''^GreatVoyage-v'' @ [CHR 0x5C] @ ''d+'', vpTagPrefix = ''GreatVoyage-''\<rparr>\<rparr>\<close>

definition xrpConfig :: "string" where
  \<open>xrpConfig =
     unlines [
    ''# rippled.cfg -- mainnet stock (non-validator) node'',
    ''[server]'',
    ''port_rpc'',
    ''port_ws'',
    ''port_peer'',
    [],
    ''[port_rpc]'',
    ''port = 5005'',
    ''ip = 0.0.0.0'',
    ''protocol = http'',
    [],
    ''[port_ws]'',
    ''port = 6006'',
    ''ip = 0.0.0.0'',
    ''protocol = ws'',
    [],
    ''[port_peer]'',
    ''port = 51235'',
    ''ip = 0.0.0.0'',
    ''protocol = peer'',
    [],
    ''[node_db]'',
    ''type = NuDB'',
    ''path = /data/nudb'',
    ''# online_delete keeps only recent ledgers (512 ~ 30 min of history at 3.5s/ledger)'',
    ''online_delete = 512'',
    ''advisory_delete = 0'',
    [],
    ''[database_path]'',
    ''/data/db'',
    [],
    ''[debug_logfile]'',
    ''/data/log/debug.log'',
    [],
    ''[sntp_servers]'',
    ''time.windows.com'',
    ''time.apple.com'',
    ''time.nist.gov'',
    ''pool.ntp.org'',
    [],
    ''# Persistent connections to Ripple's servers -- critical for initial sync.'',
    ''[ips_fixed]'',
    ''s1.ripple.com 51235'',
    ''s2.ripple.com 51235'',
    [],
    ''# Additional bootstrap peers for peer discovery'',
    ''[ips]'',
    ''r.ripple.com 51235'',
    ''zaphod.alloy.ee 51235'',
    ''sahyadri.isrdc.in 51235'',
    [],
    ''[validator_list_sites]'',
    ''https://vl.ripple.com'',
    ''https://unl.xrplf.org'',
    [],
    ''[validator_list_keys]'',
    ''ED2677ABFFD1B33AC6FBC3062B71F1E8397C1505E1C42C64D11AD1B28FF73F4734'',
    ''ED42AEC58B701EEBB77356FFFEC26F83C1F0407263530F068C7C73D392C7E06FD1'',
    [],
    ''[validator_list_threshold]'',
    ''0'',
    [],
    ''# none = do not acquire historical ledger data, sync from current validated ledger'',
    ''[ledger_history]'',
    ''none'',
    [],
    ''# huge: maximizes in-memory caches (~16GB+), reduces disk I/O during state tree acquisition.'',
    ''[node_size]'',
    ''huge'']\<close>

definition xrpSyncedStates :: "string list" where
  "xrpSyncedStates = [''full'', ''validating'', ''proposing'']"

record xrpInfo =
  xiServerState :: string
  xiCompleteLedgers :: string
  xiPeers :: int
  xiValidatedSeq :: int
  xiValidatedAge :: int
  xiClosedSeq :: int

definition dec_xrpInfo :: "xrpInfo decoder" where
  "dec_xrpInfo = dec_path [''info''] (dec_struct (\<lambda>kvs a.
     case dec_field dec_string ''server_state'' kvs (xiServerState a) of None \<Rightarrow> None
     | Some st \<Rightarrow> (case dec_field dec_string ''complete_ledgers'' kvs (xiCompleteLedgers a) of None \<Rightarrow> None
     | Some cl \<Rightarrow> (case dec_field dec_int32 ''peers'' kvs (xiPeers a) of None \<Rightarrow> None
     | Some pe \<Rightarrow> (case dec_field (dec_and (dec_path [''seq''] dec_int64) (dec_path [''age''] dec_int64)) ''validated_ledger'' kvs
                       (xiValidatedSeq a, xiValidatedAge a) of None \<Rightarrow> None
     | Some (vs, va) \<Rightarrow> (case dec_field (dec_path [''seq''] dec_int64) ''closed_ledger'' kvs (xiClosedSeq a) of None \<Rightarrow> None
     | Some cs \<Rightarrow> Some \<lparr>xiServerState = st, xiCompleteLedgers = cl, xiPeers = pe, xiValidatedSeq = vs, xiValidatedAge = va,
                      xiClosedSeq = cs\<rparr>))))))"

definition xrp_status :: "xrpInfo \<Rightarrow> SyncStatus" where
  "xrp_status info =
     (let currentLedger = xiValidatedSeq info in
      if currentLedger = 0 \<or> xiCompleteLedgers info = ''empty''
      then zero_sync\<lparr>syIsSyncing := True, syCurrentBlock := xiClosedSeq info, syPeers := xiPeers info\<rparr>
      else (let isSynced = (xiServerState info \<in> set xrpSyncedStates \<and> xiValidatedAge info < 60) in
        \<lparr>syIsSyncing = (\<not> isSynced), syCurrentBlock = currentLedger, syHighestBlock = currentLedger, syPeers = xiPeers info,
         syProgress = (if isSynced then Fin 100 else Fin 99), syStallExempt = False\<rparr>))"

definition xrp_HealthCheck :: "('w, 'x) rpc_env_scheme \<Rightarrow> ctx \<Rightarrow> string \<Rightarrow> ('w, goerr + SyncStatus) state" where
  "xrp_HealthCheck E c rpcURL = do {
     r \<leftarrow> callRPC E c rpcURL ''server_info'' ''null'';
     ret (case r of
       Inl err \<Rightarrow> Inl (WrapErr ''server_info'' err)
     | Inr result \<Rightarrow> (case unmarshal_raw dec_xrpInfo result \<lparr>xiServerState = [], xiCompleteLedgers = [], xiPeers = 0,
           xiValidatedSeq = 0, xiValidatedAge = 0, xiClosedSeq = 0\<rparr> of
         None \<Rightarrow> Inl (WrapErr ''decode XRPL server_info payload'' jsonErr)
       | Some info \<Rightarrow> Inr (xrp_status info))) }"

definition xrp_LivenessProbe :: "ChainInstanceSpec \<Rightarrow> Probe option" where
  \<open>xrp_LivenessProbe spec =
     Some (tcpProbe 5005 60 30 10 3)\<close>

definition xrp_ContainerCommand :: "ChainInstanceSpec \<Rightarrow> string list" where
  \<open>xrp_ContainerCommand spec =
     [''rippled'', ''--conf=/config/rippled.cfg'', ''--net'']\<close>

definition xrp_ContainerPorts :: "ChainInstanceSpec \<Rightarrow> ContainerPort list" where
  \<open>xrp_ContainerPorts spec =
     [tcpPort ''rpc'' 5005, tcpPort ''peer'' 51235]\<close>

definition xrpAdapter :: "('w, 'x) rpc_env_scheme \<Rightarrow> 'w ChainAdapter" where
  \<open>xrpAdapter E = (protocolBase E ChainXRP 5005)\<lparr>
     adHealthCheck := xrp_HealthCheck E,
     adConfigTemplate := (\<lambda>_. Inr (''rippled.cfg'', xrpConfig)),
     adLivenessProbe := xrp_LivenessProbe,
     adContainerCommand := Some xrp_ContainerCommand,
     adContainerPorts := xrp_ContainerPorts,
     adVersionPolicy := Some \<lparr>vpRegistry = ''docker.io'', vpRepository = ''xrpllabsofficial/xrpld'',
        vpTagPattern = ''^'' @ [CHR 0x5C] @ ''d+'' @ [CHR 0x5C] @ ''.'' @ [CHR 0x5C] @ ''d+'', vpTagPrefix = []\<rparr>,
     adDefaultResources := Some \<lparr>rdCPURequest = 2 * 1000, rdMemoryRequest = 8 * 2 ^ 30, rdStorage = 100 * 2 ^ 30\<rparr>\<rparr>\<close>

end
