(* ===== verification/Adapter_Registry.thy ===== *)
theory Adapter_Registry
  imports Op_Reth Evm_Adapters2 Evm_Adapters3 Nitro Zk_Stack Ethereum_Adapter Cosmos Utxo_Adapters
    Native_Adapters2 Native_Adapters3 Reconcile_Health
begin

text \<open>
  The registry the \<open>init\<close> functions of \<open>internal/adapters\<close> fill, and what holds of every adapter
  in it. \<open>E\<close> is the HTTP environment, \<open>sha\<close> and \<open>hmac\<close> the digests of the RPC credentials and
  \<open>oor\<close> the result of converting a float outside the integer range.
\<close>

subsection \<open>The registered adapters\<close>

text \<open>What the files other than those of the OP Stack register.\<close>

definition protocolAdapters ::
    "('w, 'x) rpc_env_scheme \<Rightarrow> (string \<Rightarrow> string) \<Rightarrow> (string \<Rightarrow> string \<Rightarrow> string) \<Rightarrow> int \<Rightarrow> (Chain \<times> 'w ChainAdapter) list" where
  "protocolAdapters E sha hmac oor = [
     (ChainAurora, auroraAdapter E),
     (ChainBitTorrent, bittorrentAdapter E),
     (ChainBlast, blastAdapter E),
     (ChainBobaEth, bobaEthAdapter E),
     (ChainCelo, celoAdapter E),
     (ChainCore, coreAdapter E),
     (ChainCronos, cronosAdapter E),
     (ChainDoma, domaAdapter E),
     (ChainEthereumClassic, ethereumClassicAdapter E),
     (ChainFantom, fantomAdapter E),
     (ChainGoat, goatAdapter E),
     (ChainHarmony, harmonyAdapter E),
     (ChainHemi, hemiAdapter E),
     (ChainImmutableZkEVM, immutableZkEVMAdapter E),
     (ChainKatana, katanaAdapter E),
     (ChainKlaytn, klaytnAdapter E),
     (ChainKroma, kromaAdapter E),
     (ChainLinea, lineaAdapter E),
     (ChainMantaPacific, mantaPacificAdapter E),
     (ChainMantle, mantleAdapter E),
     (ChainMegaETH, megaethAdapter E),
     (ChainMetis, metisAdapter E),
     (ChainMonad, monadAdapter E),
     (ChainMoonbeam, moonbeamAdapter E),
     (ChainMoonriver, moonriverAdapter E),
     (ChainMorph, morphAdapter E),
     (ChainOpBNB, opbnbAdapter E),
     (ChainPlasma, plasmaAdapter E),
     (ChainPolygon, polygonAdapter E),
     (ChainPolygonZkEVM, polygonZkEVMAdapter E),
     (ChainRonin, roninAdapter E),
     (ChainRootstock, rootstockAdapter E),
     (ChainScroll, scrollAdapter E),
     (ChainShibarium, shibariumAdapter E),
     (ChainSonic, sonicAdapter E),
     (ChainSwell, swellAdapter E),
     (ChainTaiko, taikoAdapter E),
     (ChainTelos, telosAdapter E),
     (ChainThundercore, thundercoreAdapter E),
     (ChainViction, victionAdapter E),
     (ChainWemix, wemixAdapter E),
     (ChainZircuit, zircuitAdapter E),
     (ChainBerachain, berachainAdapter E),
     (ChainArbitrum, arbitrumAdapter E),
     (ChainEverclear, everclearAdapter E),
     (ChainGravityAlpha, gravityAlphaAdapter E),
     (ChainPlaynance, playnanceAdapter E),
     (ChainPlume, plumeAdapter E),
     (ChainAbstract, abstractAdapter E),
     (ChainCronosZkEVM, cronosZkEVMAdapter E),
     (ChainLens, lensAdapter E),
     (ChainZeroNetwork, zeroNetworkAdapter E),
     (ChainZkSync, zksyncAdapter E),
     (ChainEthereum, ethereumAdapter E),
     (ChainEthereumArchive, ethereumAdapter E),
     (ChainGnosis, gnosisAdapter E),
     (ChainFuse, fuseAdapter E),
     (ChainBSC, bscAdapter E),
     (ChainEthereumBeacon, ethereumBeaconAdapter E),
     (ChainGnosisBeacon, gnosisBeaconAdapter E),
     (ChainCosmos, cosmosAdapter E),
     (ChainAxelar, axelarAdapter E),
     (ChainDymension, dymensionAdapter E),
     (ChainEvmos, evmosAdapter E),
     (ChainKava, kavaAdapter E),
     (ChainMoca, mocaAdapter E),
     (ChainOsmosis, osmosisAdapter E),
     (ChainSei, seiAdapter E),
     (ChainHaqq, haqqAdapter E),
     (ChainMezo, mezoAdapter E),
     (ChainBitcoin, bitcoinAdapter E sha hmac),
     (ChainDash, dashAdapter E sha hmac),
     (ChainDogecoin, dogecoinAdapter E sha hmac),
     (ChainLitecoin, litecoinAdapter E sha hmac),
     (ChainAptos, aptosAdapter E oor),
     (ChainAvalanche, avalancheAdapter E oor),
     (ChainCardano, cardanoAdapter E oor),
     (ChainFilecoin, filecoinAdapter E),
     (ChainHyperliquid, hyperliquidAdapter E),
     (ChainKusama, kusamaAdapter E),
     (ChainPolkadot, polkadotAdapter E),
     (ChainNear, nearAdapter E),
     (ChainSolana, solanaAdapter E),
     (ChainStarknet, starknetAdapter E),
     (ChainStellar, stellarAdapter E),
     (ChainSui, suiAdapter E oor),
     (ChainTON, tonAdapter E),
     (ChainTRON, tronAdapter E),
     (ChainXRP, xrpAdapter E)]"

lemmas adapter_defs =
  auroraAdapter_def bittorrentAdapter_def blastAdapter_def bobaEthAdapter_def celoAdapter_def coreAdapter_def
  cronosAdapter_def domaAdapter_def ethereumClassicAdapter_def fantomAdapter_def goatAdapter_def
  harmonyAdapter_def hemiAdapter_def immutableZkEVMAdapter_def katanaAdapter_def klaytnAdapter_def
  kromaAdapter_def lineaAdapter_def mantaPacificAdapter_def mantleAdapter_def megaethAdapter_def
  metisAdapter_def monadAdapter_def moonbeamAdapter_def moonriverAdapter_def morphAdapter_def opbnbAdapter_def
  plasmaAdapter_def polygonAdapter_def polygonZkEVMAdapter_def roninAdapter_def rootstockAdapter_def
  scrollAdapter_def shibariumAdapter_def sonicAdapter_def swellAdapter_def taikoAdapter_def telosAdapter_def
  thundercoreAdapter_def victionAdapter_def wemixAdapter_def zircuitAdapter_def berachainAdapter_def
  arbitrumAdapter_def everclearAdapter_def gravityAlphaAdapter_def playnanceAdapter_def plumeAdapter_def
  abstractAdapter_def cronosZkEVMAdapter_def lensAdapter_def zeroNetworkAdapter_def zksyncAdapter_def
  ethereumAdapter_def gnosisAdapter_def fuseAdapter_def bscAdapter_def ethereumBeaconAdapter_def
  gnosisBeaconAdapter_def cosmosAdapter_def axelarAdapter_def dymensionAdapter_def evmosAdapter_def
  kavaAdapter_def mocaAdapter_def osmosisAdapter_def seiAdapter_def haqqAdapter_def mezoAdapter_def
  bitcoinAdapter_def dashAdapter_def dogecoinAdapter_def litecoinAdapter_def aptosAdapter_def
  avalancheAdapter_def cardanoAdapter_def filecoinAdapter_def hyperliquidAdapter_def kusamaAdapter_def
  polkadotAdapter_def nearAdapter_def solanaAdapter_def starknetAdapter_def stellarAdapter_def suiAdapter_def
  tonAdapter_def tronAdapter_def xrpAdapter_def

lemmas adapter_port_defs =
  aurora_ContainerPorts_def bittorrent_ContainerPorts_def blast_ContainerPorts_def bobaEth_ContainerPorts_def
  celo_ContainerPorts_def core_ContainerPorts_def cronos_ContainerPorts_def doma_ContainerPorts_def
  ethereumClassic_ContainerPorts_def fantom_LivenessProbe_def fantom_ContainerPorts_def
  goat_ContainerPorts_def harmony_ContainerPorts_def hemi_ContainerPorts_def immutableZkEVM_ContainerPorts_def
  katana_ContainerPorts_def klaytn_ContainerPorts_def kroma_ContainerPorts_def linea_ContainerPorts_def
  mantaPacific_ContainerPorts_def mantle_LivenessProbe_def mantle_ContainerPorts_def
  megaeth_ContainerPorts_def metis_ContainerPorts_def monad_ContainerPorts_def moonbeam_ContainerPorts_def
  moonriver_ContainerPorts_def morph_ContainerPorts_def opbnb_ContainerPorts_def plasma_ContainerPorts_def
  polygon_LivenessProbe_def polygon_ContainerPorts_def polygonZkEVM_ContainerPorts_def
  ronin_ContainerPorts_def rootstock_ContainerPorts_def scroll_ContainerPorts_def shibarium_ContainerPorts_def
  sonic_ContainerPorts_def swell_ContainerPorts_def taiko_ContainerPorts_def telos_ContainerPorts_def
  thundercore_ContainerPorts_def viction_ContainerPorts_def wemix_ContainerPorts_def
  zircuit_ContainerPorts_def berachain_ContainerPorts_def arbitrum_ContainerPorts_def
  everclear_ContainerPorts_def gravityAlpha_ContainerPorts_def playnance_ContainerPorts_def
  plume_ContainerPorts_def zkStack_ContainerPorts_def ethereum_LivenessProbe_def ethereum_ContainerPorts_def
  gnosis_LivenessProbe_def gnosis_ContainerPorts_def fuse_ContainerPorts_def bsc_LivenessProbe_def
  bsc_ContainerPorts_def ethereumBeacon_LivenessProbe_def ethereumBeacon_ContainerPorts_def
  gnosisBeacon_LivenessProbe_def gnosisBeacon_ContainerPorts_def cosmos_ContainerPorts_def
  axelar_ContainerPorts_def dymension_ContainerPorts_def evmos_ContainerPorts_def kava_ContainerPorts_def
  moca_ContainerPorts_def osmosis_ContainerPorts_def sei_ContainerPorts_def haqq_ContainerPorts_def
  mezo_ContainerPorts_def bitcoin_LivenessProbe_def bitcoin_ContainerPorts_def dash_ContainerPorts_def
  dogecoin_ContainerPorts_def litecoin_ContainerPorts_def aptos_LivenessProbe_def aptos_ContainerPorts_def
  avalanche_ContainerPorts_def cardano_ContainerPorts_def filecoin_ContainerPorts_def
  hyperliquid_ContainerPorts_def kusama_ContainerPorts_def polkadot_ContainerPorts_def near_LivenessProbe_def
  near_ContainerPorts_def solana_ContainerPorts_def starknet_ContainerPorts_def stellar_LivenessProbe_def
  stellar_ContainerPorts_def sui_ContainerPorts_def ton_LivenessProbe_def ton_ContainerPorts_def
  tron_ContainerPorts_def xrp_LivenessProbe_def xrp_ContainerPorts_def bitcoin_RPCSidecars_def
  dash_RPCSidecars_def dogecoin_RPCSidecars_def litecoin_RPCSidecars_def solana_Sidecars_def
  nitroMetricsPort_def zkStackHTTPPort_def zkStackWSPort_def zkStackHealthPort_def zkStackMetricsPort_def
  rethMetricsPort_def gethMetricsPort_def erigonMetricsPort_def nethermindMetricsPort_def ethEnginePort_def
  ethP2PPort_def

definition adapterRegistry ::
    "('w, 'x) rpc_env_scheme \<Rightarrow> (string \<Rightarrow> string) \<Rightarrow> (string \<Rightarrow> string \<Rightarrow> string) \<Rightarrow> int \<Rightarrow> 'w registry" where
  "adapterRegistry E sha hmac oor =
     foldl (\<lambda>registry (chain, adapter). Register chain adapter registry) (opStackAdapters E) (protocolAdapters E sha hmac oor)"

definition protocolChains :: "Chain list" where
  "protocolChains = [
     ChainAurora, ChainBitTorrent, ChainBlast, ChainBobaEth, ChainCelo, ChainCore, ChainCronos, ChainDoma,
     ChainEthereumClassic, ChainFantom, ChainGoat, ChainHarmony, ChainHemi, ChainImmutableZkEVM, ChainKatana,
     ChainKlaytn, ChainKroma, ChainLinea, ChainMantaPacific, ChainMantle, ChainMegaETH, ChainMetis,
     ChainMonad, ChainMoonbeam, ChainMoonriver, ChainMorph, ChainOpBNB, ChainPlasma, ChainPolygon,
     ChainPolygonZkEVM, ChainRonin, ChainRootstock, ChainScroll, ChainShibarium, ChainSonic, ChainSwell,
     ChainTaiko, ChainTelos, ChainThundercore, ChainViction, ChainWemix, ChainZircuit, ChainBerachain,
     ChainArbitrum, ChainEverclear, ChainGravityAlpha, ChainPlaynance, ChainPlume, ChainAbstract,
     ChainCronosZkEVM, ChainLens, ChainZeroNetwork, ChainZkSync, ChainEthereum, ChainEthereumArchive,
     ChainGnosis, ChainFuse, ChainBSC, ChainEthereumBeacon, ChainGnosisBeacon, ChainCosmos, ChainAxelar,
     ChainDymension, ChainEvmos, ChainKava, ChainMoca, ChainOsmosis, ChainSei, ChainHaqq, ChainMezo,
     ChainBitcoin, ChainDash, ChainDogecoin, ChainLitecoin, ChainAptos, ChainAvalanche, ChainCardano,
     ChainFilecoin, ChainHyperliquid, ChainKusama, ChainPolkadot, ChainNear, ChainSolana, ChainStarknet,
     ChainStellar, ChainSui, ChainTON, ChainTRON, ChainXRP]"

lemma protocol_chains: "map fst (protocolAdapters E sha hmac oor) = protocolChains"
  by (simp add: protocolAdapters_def protocolChains_def)

lemma Register_new: "chain \<notin> fst ` set registry \<Longrightarrow> Register chain adapter registry = registry @ [(chain, adapter)]"
  unfolding Register_def by (induction registry) auto

lemma Register_all:
  "distinct (map fst (registry @ new)) \<Longrightarrow>
     foldl (\<lambda>registry (chain, adapter). Register chain adapter registry) registry new = registry @ new"
proof (induction new arbitrary: registry)
  case (Cons entry new)
  then have "Register (fst entry) (snd entry) registry = registry @ [entry]"
    by (subst Register_new) auto
  with Cons show ?case by (auto simp: case_prod_beta)
qed simp

lemma distinct_chains: "distinct (opStackChains @ protocolChains)"
  by code_simp

lemma adapterRegistry_list: "adapterRegistry E sha hmac oor = opStackAdapters E @ protocolAdapters E sha hmac oor"
  unfolding adapterRegistry_def
  using distinct_chains by (intro Register_all) (simp add: opStack_chains protocol_chains)

lemma registry_chains: "map fst (adapterRegistry E sha hmac oor) = opStackChains @ protocolChains"
  by (simp add: adapterRegistry_list opStack_chains protocol_chains)

lemma adapterRegistry_Get:
  "Get (adapterRegistry E sha hmac oor) chain = Some adapter \<longleftrightarrow>
     Get (opStackAdapters E) chain = Some adapter \<or> (chain, adapter) \<in> set (protocolAdapters E sha hmac oor)"
proof -
  have d: "distinct (map fst (adapterRegistry E sha hmac oor))"
    using distinct_chains by (simp add: registry_chains)
  then have "map_of (adapterRegistry E sha hmac oor) chain = Some adapter \<longleftrightarrow> (chain, adapter) \<in> set (adapterRegistry E sha hmac oor)"
    by simp
  moreover have "distinct (map fst (opStackAdapters E))" using distinct_chains by (simp add: opStack_chains)
  then have "map_of (opStackAdapters E) chain = Some adapter \<longleftrightarrow> (chain, adapter) \<in> set (opStackAdapters E)"
    by simp
  ultimately show ?thesis by (simp add: Get_def adapterRegistry_list)
qed

lemma registry_covers: "set (opStackChains @ protocolChains) = set chainConstants"
  by code_simp

lemma registry_has_adapter: "chain \<in> set chainConstants \<Longrightarrow> \<exists>adapter. Get (adapterRegistry E sha hmac oor) chain = Some adapter"
  by (metis registry_chains registry_covers Get_def map_of_eq_None_iff not_Some_eq set_map)

subsection \<open>Images\<close>

lemma protocol_images:
  "list_all (\<lambda>(chain, adapter). adDefaultImage adapter = DefaultImageFor (imageChain chain)) (protocolAdapters E sha hmac oor)"
  unfolding protocolAdapters_def list.pred_inject prod.case
  by (intro conjI TrueI) (simp_all add: adapter_defs utxoBase_def zkStackBase_def protocolBase_def imageChain_def Let_def)

lemma protocol_not_op: "chain \<in> set protocolChains \<Longrightarrow> chain \<notin> set opStackChains"
  using distinct_chains by auto

lemma registry_reads_table: "reads_table (adapterRegistry E sha hmac oor)"
proof -
  have "adDefaultImage adapter = adapterImage chain" if "(chain, adapter) \<in> set (protocolAdapters E sha hmac oor)" for chain adapter
  proof -
    have "chain \<in> set protocolChains" using that protocol_chains by (metis fst_conv image_eqI list.set_map)
    with protocol_not_op have "chain \<notin> set opStackChains" by blast
    with that protocol_images [of E sha hmac oor] show ?thesis by (auto simp: list_all_iff adapterImage_def fun_eq_iff)
  qed
  with opStack_reads_table [of E] show ?thesis by (auto simp: reads_table_def adapterRegistry_list)
qed

subsection \<open>Pods and Services\<close>

text \<open>Ports one pod can have together.\<close>

definition good_ports :: "ContainerPort list \<Rightarrow> bool" where
  "good_ports ports \<longleftrightarrow> distinct (map portKey ports) \<and> distinct (map cpName ports) \<and>
     list_all (\<lambda>p. cpName p \<noteq> [] \<and> length (cpName p) \<le> 15) ports"

lemma pod_adapterI:
  assumes "\<And>spec secretName. good_ports (adapterPorts adapter spec secretName)"
    and "\<And>spec. case adLivenessProbe adapter spec of None \<Rightarrow> True | Some probe \<Rightarrow> probe_served probe (adContainerPorts adapter spec)"
  shows "pod_adapter adapter"
  using assms by unfold_locales (force simp: good_ports_def list_all_iff split: option.splits)+

lemma registry_pods:
  "pod_adapter (auroraAdapter E)"
  "pod_adapter (bittorrentAdapter E)"
  "pod_adapter (blastAdapter E)"
  "pod_adapter (bobaEthAdapter E)"
  "pod_adapter (celoAdapter E)"
  "pod_adapter (coreAdapter E)"
  "pod_adapter (cronosAdapter E)"
  "pod_adapter (domaAdapter E)"
  "pod_adapter (ethereumClassicAdapter E)"
  "pod_adapter (fantomAdapter E)"
  "pod_adapter (goatAdapter E)"
  "pod_adapter (harmonyAdapter E)"
  "pod_adapter (hemiAdapter E)"
  "pod_adapter (immutableZkEVMAdapter E)"
  "pod_adapter (katanaAdapter E)"
  "pod_adapter (klaytnAdapter E)"
  "pod_adapter (kromaAdapter E)"
  "pod_adapter (lineaAdapter E)"
  "pod_adapter (mantaPacificAdapter E)"
  "pod_adapter (mantleAdapter E)"
  "pod_adapter (megaethAdapter E)"
  "pod_adapter (metisAdapter E)"
  "pod_adapter (monadAdapter E)"
  "pod_adapter (moonbeamAdapter E)"
  "pod_adapter (moonriverAdapter E)"
  "pod_adapter (morphAdapter E)"
  "pod_adapter (opbnbAdapter E)"
  "pod_adapter (plasmaAdapter E)"
  "pod_adapter (polygonAdapter E)"
  "pod_adapter (polygonZkEVMAdapter E)"
  "pod_adapter (roninAdapter E)"
  "pod_adapter (rootstockAdapter E)"
  "pod_adapter (scrollAdapter E)"
  "pod_adapter (shibariumAdapter E)"
  "pod_adapter (sonicAdapter E)"
  "pod_adapter (swellAdapter E)"
  "pod_adapter (taikoAdapter E)"
  "pod_adapter (telosAdapter E)"
  "pod_adapter (thundercoreAdapter E)"
  "pod_adapter (victionAdapter E)"
  "pod_adapter (wemixAdapter E)"
  "pod_adapter (zircuitAdapter E)"
  "pod_adapter (arbitrumAdapter E)"
  "pod_adapter (everclearAdapter E)"
  "pod_adapter (gravityAlphaAdapter E)"
  "pod_adapter (playnanceAdapter E)"
  "pod_adapter (plumeAdapter E)"
  "pod_adapter (abstractAdapter E)"
  "pod_adapter (cronosZkEVMAdapter E)"
  "pod_adapter (lensAdapter E)"
  "pod_adapter (zeroNetworkAdapter E)"
  "pod_adapter (zksyncAdapter E)"
  "pod_adapter (gnosisAdapter E)"
  "pod_adapter (fuseAdapter E)"
  "pod_adapter (bscAdapter E)"
  "pod_adapter (ethereumBeaconAdapter E)"
  "pod_adapter (gnosisBeaconAdapter E)"
  "pod_adapter (cosmosAdapter E)"
  "pod_adapter (axelarAdapter E)"
  "pod_adapter (dymensionAdapter E)"
  "pod_adapter (evmosAdapter E)"
  "pod_adapter (kavaAdapter E)"
  "pod_adapter (mocaAdapter E)"
  "pod_adapter (osmosisAdapter E)"
  "pod_adapter (seiAdapter E)"
  "pod_adapter (haqqAdapter E)"
  "pod_adapter (mezoAdapter E)"
  "pod_adapter (bitcoinAdapter E sha hmac)"
  "pod_adapter (dashAdapter E sha hmac)"
  "pod_adapter (dogecoinAdapter E sha hmac)"
  "pod_adapter (litecoinAdapter E sha hmac)"
  "pod_adapter (aptosAdapter E oor)"
  "pod_adapter (cardanoAdapter E oor)"
  "pod_adapter (hyperliquidAdapter E)"
  "pod_adapter (kusamaAdapter E)"
  "pod_adapter (polkadotAdapter E)"
  "pod_adapter (starknetAdapter E)"
  "pod_adapter (suiAdapter E oor)"
  "pod_adapter (tonAdapter E)"
  "pod_adapter (tronAdapter E)"
  "pod_adapter (xrpAdapter E)"
  by (rule pod_adapterI;
      simp add: adapter_defs adapter_port_defs protocolBase_def zkStackBase_def utxoBase_def newZkStackProtocolAdapter_def
        good_ports_def adapterPorts_def adapterSidecars_def probe_served_def protocolAdapter_LivenessProbe_def tcpProbe_def
        httpProbe_def evmPorts_def nitroPorts_def beaconPorts_def utxoExporterSidecar_def utxoExporterMetricsPort_def zero_container_def
        arbitrumChain_def plumeChain_def everclear_def gravityAlpha_def playnance_def zero_nitroChain_def Let_def)+

lemma service_adapterI: "(\<And>spec. good_ports (adContainerPorts adapter spec)) \<Longrightarrow> service_adapter adapter"
  by unfold_locales (force simp: good_ports_def list_all_iff)+

text \<open>The three whose pods break a rule and whose Services do not.\<close>

lemma registry_services:
  "service_adapter (solanaAdapter E)" "service_adapter (berachainAdapter E)" "service_adapter (ethereumAdapter E)"
  by (rule service_adapterI;
      simp add: adapter_defs adapter_port_defs protocolBase_def good_ports_def evmPorts_def ethMetricsPort_def Let_def)+

text \<open>Chains whose RPC and metrics share a port that is declared twice.\<close>

definition doublePortChains :: "Chain list" where
  "doublePortChains = [ChainAvalanche, ChainFilecoin, ChainNear, ChainStellar]"

text \<open>Chains that break one of the rules of \<open>pod_adapter\<close>.\<close>

definition irregularChains :: "Chain list" where
  "irregularChains = doublePortChains @ [ChainSolana, ChainBerachain, ChainEthereum, ChainEthereumArchive]"

lemma protocol_pods:
  "list_all (\<lambda>(chain, adapter). chain \<in> set irregularChains \<or> pod_adapter adapter) (protocolAdapters E sha hmac oor)"
  unfolding protocolAdapters_def list.pred_inject prod.case
  by (intro conjI TrueI) (simp_all add: registry_pods irregularChains_def doublePortChains_def)

lemma protocol_services:
  "list_all (\<lambda>(chain, adapter). chain \<in> set irregularChains \<longrightarrow> chain \<in> set doublePortChains \<or> service_adapter adapter)
     (protocolAdapters E sha hmac oor)"
  unfolding protocolAdapters_def list.pred_inject prod.case
  by (intro conjI TrueI) (simp_all add: registry_services irregularChains_def doublePortChains_def)

lemma op_stack_pods: "(chain, adapter) \<in> set (opStackAdapters E) \<Longrightarrow> pod_adapter adapter"
  by (erule opStack_cases) (simp_all add: base_pod.pod_adapter_axioms op_pod.pod_adapter_axioms)

lemma registered_pod:
  assumes "Get (adapterRegistry E sha hmac oor) chain = Some adapter" "chain \<notin> set irregularChains"
  shows "pod_adapter adapter"
  using assms protocol_pods [of E sha hmac oor] op_stack_pods [OF opStack_Get]
  by (auto simp: adapterRegistry_Get list_all_iff)

lemma registered_service:
  assumes "Get (adapterRegistry E sha hmac oor) chain = Some adapter" "chain \<notin> set doublePortChains"
  shows "service_adapter adapter"
proof (cases "chain \<in> set irregularChains")
  case False
  then show ?thesis using registered_pod [OF assms(1)] by (blast intro: pod_adapter.is_service_adapter)
next
  case True
  then have "chain \<notin> set opStackChains" by (auto simp: irregularChains_def doublePortChains_def opStackChains_def)
  then have "(chain, adapter) \<in> set (protocolAdapters E sha hmac oor)"
    using assms(1) opStack_member [OF opStack_Get] by (auto simp: adapterRegistry_Get)
  with True assms(2) protocol_services [of E sha hmac oor] show ?thesis by (auto simp: list_all_iff)
qed

lemma double_port_adapters:
  "Get (adapterRegistry E sha hmac oor) ChainAvalanche = Some (avalancheAdapter E oor)"
  "Get (adapterRegistry E sha hmac oor) ChainFilecoin = Some (filecoinAdapter E)"
  "Get (adapterRegistry E sha hmac oor) ChainNear = Some (nearAdapter E)"
  "Get (adapterRegistry E sha hmac oor) ChainStellar = Some (stellarAdapter E)"
  unfolding adapterRegistry_Get by (simp_all add: protocolAdapters_def)

lemma double_ports:
  assumes "Get (adapterRegistry E sha hmac oor) chain = Some adapter" "chain \<in> set doublePortChains"
  shows "\<not> distinct (map portKey (adContainerPorts adapter spec))"
proof -
  consider "chain = ChainAvalanche" | "chain = ChainFilecoin" | "chain = ChainNear" | "chain = ChainStellar"
    using assms(2) by (auto simp: doublePortChains_def)
  then have "adapter \<in> {avalancheAdapter E oor, filecoinAdapter E, nearAdapter E, stellarAdapter E}"
    using assms(1) by cases (simp_all add: double_port_adapters)
  then show ?thesis by (auto simp: adapter_defs adapter_port_defs)
qed

text \<open>
  C12: The Service of a node is one the API server takes (names distinct, not empty and at most
  fifteen characters, no port and protocol twice) for every registered chain and every
  specification, except on Avalanche, Filecoin, NEAR and Stellar, whose adapters declare the
  port that serves both RPC and metrics twice: their Service is never valid.
\<close>

theorem registered_service_valid_iff:
  assumes "Get (adapterRegistry E sha hmac oor) chain = Some adapter" "buildServicePorts node adapter = (ty, ports)"
  shows "valid_service ports \<longleftrightarrow> chain \<notin> {ChainAvalanche, ChainFilecoin, ChainNear, ChainStellar}"
proof -
  have "chain \<notin> set doublePortChains \<Longrightarrow> valid_service ports"
    using service_adapter.service_valid [OF registered_service [OF assms(1)] assms(2)] by simp
  moreover have "chain \<in> set doublePortChains \<Longrightarrow> \<not> valid_service ports"
    using double_ports [OF assms(1)] by (simp add: valid_service_iff [OF assms(2)])
  ultimately show ?thesis by (auto simp: doublePortChains_def)
qed

theorem registered_service_valid_iff_witness:
  "\<forall>E :: unit rpc_env. \<not> valid_service (snd (buildServicePorts zero_node (nearAdapter E)))"
proof
  fix E :: "unit rpc_env"
  show "\<not> valid_service (snd (buildServicePorts zero_node (nearAdapter E)))"
    using registered_service_valid_iff [OF double_port_adapters(3) prod.collapse [symmetric]] by auto
qed

subsection \<open>Probes and the default RPC port\<close>

definition probes_served :: "'w ChainAdapter \<Rightarrow> bool" where
  "probes_served adapter \<longleftrightarrow> (\<forall>spec probe. adLivenessProbe adapter spec = Some probe \<longrightarrow>
     probe_served probe (adContainerPorts adapter spec))"

lemma pod_adapter_probes: "pod_adapter adapter \<Longrightarrow> probes_served adapter"
  by (simp add: probes_served_def pod_adapter.liveness_served)

lemma irregular_probes:
  "probes_served (avalancheAdapter E oor)" "probes_served (filecoinAdapter E)" "probes_served (nearAdapter E)"
  "probes_served (stellarAdapter E)" "probes_served (solanaAdapter E)"
  by (simp_all add: probes_served_def adapter_defs adapter_port_defs protocolBase_def probe_served_def
        protocolAdapter_LivenessProbe_def tcpProbe_def httpProbe_def Let_def)

lemma protocol_probes:
  "list_all (\<lambda>(chain, adapter). chain \<in> {ChainBerachain, ChainEthereum, ChainEthereumArchive} \<or> probes_served adapter)
     (protocolAdapters E sha hmac oor)"
  unfolding protocolAdapters_def list.pred_inject prod.case
  by (intro conjI TrueI) (simp_all add: irregular_probes pod_adapter_probes registry_pods)

lemma other_probe_adapters:
  "Get (adapterRegistry E sha hmac oor) ChainBerachain = Some (berachainAdapter E)"
  "Get (adapterRegistry E sha hmac oor) ChainEthereum = Some (ethereumAdapter E)"
  "Get (adapterRegistry E sha hmac oor) ChainEthereumArchive = Some (ethereumAdapter E)"
  unfolding adapterRegistry_Get by (simp_all add: protocolAdapters_def)

lemma registered_probes:
  assumes "Get (adapterRegistry E sha hmac oor) chain = Some adapter"
    "chain \<notin> {ChainBerachain, ChainEthereum, ChainEthereumArchive}"
  shows "probes_served adapter"
  using assms protocol_probes [of E sha hmac oor]
  by (auto simp: adapterRegistry_Get list_all_iff intro: pod_adapter_probes [OF op_stack_pods [OF opStack_Get]])

text \<open>
  C13: The liveness probe of a node asks a port its container serves, for every registered chain
  and every specification, with two exceptions. The Berachain container never serves the port
  its probe asks. An Ethereum node always listens on 8545, but its probe follows
  \<open>spec.rpc.port\<close>: when that is set to a port the container does not have, the probe fails for
  good and the kubelet keeps restarting a working node.
\<close>

theorem registered_liveness_served_iff:
  assumes "Get (adapterRegistry E sha hmac oor) chain = Some adapter" "adLivenessProbe adapter spec = Some probe"
  shows "probe_served probe (adContainerPorts adapter spec) \<longleftrightarrow>
           chain \<noteq> ChainBerachain \<and>
           (chain \<in> {ChainEthereum, ChainEthereumArchive} \<longrightarrow>
              rsPort (spRPC spec) \<le> 0 \<or> (rsPort (spRPC spec), ''TCP'') \<in> portKey ` set (adContainerPorts adapter spec))"
proof (cases "chain \<in> {ChainBerachain, ChainEthereum, ChainEthereumArchive}")
  case False
  then show ?thesis using registered_probes [OF assms(1)] assms(2) by (simp add: probes_served_def)
next
  case True
  then consider "chain = ChainBerachain" "adapter = berachainAdapter E"
    | "chain \<in> {ChainEthereum, ChainEthereumArchive}" "adapter = ethereumAdapter E"
    using assms(1) by (auto simp: other_probe_adapters)
  then show ?thesis
  proof cases
    case 1
    with assms(2) show ?thesis
      by (auto simp: adapter_defs adapter_port_defs protocolBase_def probe_served_def protocolAdapter_LivenessProbe_def tcpProbe_def)
  next
    case 2
    have "(8545, ''TCP'') \<in> portKey ` set (adContainerPorts adapter spec)"
      by (simp add: 2 ethereumAdapter_def ethereum_ContainerPorts_def evmPorts_def)
    moreover have "adLivenessProbe adapter spec = ethereum_LivenessProbe spec" by (simp add: 2 ethereumAdapter_def)
    ultimately show ?thesis
      using assms(2) 2(1) by (auto simp: ethereum_LivenessProbe_def probe_served_def tcpProbe_def Let_def split: if_splits)
  qed
qed

theorem registered_liveness_served_iff_witness:
  "\<not> probe_served (tcpProbe 9545 300 30 10 3)
     (ethereum_ContainerPorts (zero_spec\<lparr>spRPC := (spRPC zero_spec)\<lparr>rsPort := 9545\<rparr>\<rparr>))"
proof -
  let ?E = "undefined :: unit rpc_env"
  let ?spec = "zero_spec\<lparr>spRPC := (spRPC zero_spec)\<lparr>rsPort := 9545\<rparr>\<rparr>"
  have probe: "adLivenessProbe (ethereumAdapter ?E) ?spec = Some (tcpProbe 9545 300 30 10 3)"
    by (simp add: ethereumAdapter_def ethereum_LivenessProbe_def)
  have "(9545, ''TCP'') \<notin> portKey ` set (ethereum_ContainerPorts ?spec)"
    by (simp add: ethereum_ContainerPorts_def evmPorts_def adapter_port_defs ethMetricsPort_def zero_spec_def Let_def)
  then show ?thesis
    using registered_liveness_served_iff [OF other_probe_adapters(2) probe] by (simp add: ethereumAdapter_def)
qed

text \<open>The chains whose containers do not serve the port the controller asks by default.\<close>

definition otherPortChains :: "Chain list" where
  "otherPortChains = [
     ChainHarmony, ChainKlaytn, ChainMoonbeam, ChainMoonriver, ChainRootstock, ChainSonic, ChainWemix,
     ChainBerachain, ChainEverclear, ChainGravityAlpha, ChainPlaynance, ChainPlume, ChainAbstract,
     ChainCronosZkEVM, ChainLens, ChainZeroNetwork, ChainZkSync, ChainEthereumBeacon, ChainGnosisBeacon,
     ChainCosmos, ChainAxelar, ChainDymension, ChainKava, ChainOsmosis, ChainSei, ChainBitcoin,
     ChainDash, ChainDogecoin, ChainLitecoin, ChainAptos, ChainAvalanche, ChainCardano, ChainFilecoin,
     ChainHyperliquid, ChainKusama, ChainPolkadot, ChainNear, ChainSolana, ChainStarknet, ChainStellar,
     ChainSui, ChainTON, ChainTRON, ChainXRP]"

lemma protocol_default_port:
  "list_all (\<lambda>(chain, adapter). \<forall>spec. (defaultRPCPort, ''TCP'') \<in> portKey ` set (adContainerPorts adapter spec) \<longleftrightarrow>
       chain \<notin> set otherPortChains) (protocolAdapters E sha hmac oor)"
  unfolding protocolAdapters_def list.pred_inject prod.case
  by (intro conjI TrueI)
     (simp_all add: otherPortChains_def defaultRPCPort_def adapter_defs adapter_port_defs protocolBase_def zkStackBase_def
        utxoBase_def newZkStackProtocolAdapter_def evmPorts_def nitroPorts_def beaconPorts_def ethMetricsPort_def
        arbitrumChain_def plumeChain_def everclear_def gravityAlpha_def playnance_def zero_nitroChain_def Let_def)

lemma op_default_port: "(chain, adapter) \<in> set (opStackAdapters E) \<Longrightarrow> (defaultRPCPort, ''TCP'') \<in> portKey ` set (adContainerPorts adapter spec)"
  by (erule opStack_cases) (simp_all add: op_selectors op_port_list defaultRPCPort_def)

text \<open>
  C37: A node that leaves \<open>spec.rpc.port\<close> out is probed on port 8545 of its Service, whatever its
  chain is. That is a port of the Service exactly for the chains outside \<open>otherPortChains\<close>:
  for the others, Bitcoin and Solana among them, no chain-specific default applies.
\<close>

theorem default_port_served_iff:
  assumes "Get (adapterRegistry E sha hmac oor) chain = Some adapter" "buildServicePorts node adapter = (ty, ports)"
    and "rsPort (spRPC (ciSpec node)) \<le> 0"
  shows "rpcURL node = ''http://'' @ nodeName node @ ''.'' @ nodeNamespace node @ ''.svc.cluster.local:8545'' \<and>
    ((8545, ''TCP'') \<in> (\<lambda>p. (spPort p, spProtocol p)) ` set ports \<longleftrightarrow> chain \<notin> set otherPortChains)"
proof -
  have "(8545, ''TCP'') \<in> (\<lambda>p. (spPort p, spProtocol p)) ` set ports \<longleftrightarrow>
     (defaultRPCPort, ''TCP'') \<in> portKey ` set (adContainerPorts adapter (ciSpec node))"
    using arg_cong [OF service_port_keys(2) [OF assms(2)], of set] by (simp add: defaultRPCPort_def)
  also have "\<dots> \<longleftrightarrow> chain \<notin> set otherPortChains"
  proof (cases "(chain, adapter) \<in> set (protocolAdapters E sha hmac oor)")
    case True
    then show ?thesis using bspec [OF protocol_default_port [unfolded list_all_iff] True] by simp
  next
    case False
    with assms(1) have op: "(chain, adapter) \<in> set (opStackAdapters E)"
      by (auto simp: adapterRegistry_Get dest: opStack_Get)
    have "set opStackChains \<inter> set otherPortChains = {}" by code_simp
    with op_default_port [OF op] opStack_member [OF op] show ?thesis by blast
  qed
  finally show ?thesis using assms(3) by (simp add: rpcURL_def defaultRPCPort_def op_itoa [unfolded op_ports])
qed

theorem default_port_served_iff_witness:
  "\<forall>E :: unit rpc_env. (8545, ''TCP'') \<notin> (\<lambda>p. (spPort p, spProtocol p)) ` set (snd (buildServicePorts zero_node (solanaAdapter E)))"
proof
  fix E :: "unit rpc_env"
  have "Get (adapterRegistry E id (\<lambda>_. id) 0) ChainSolana = Some (solanaAdapter E)"
    unfolding adapterRegistry_Get by (simp add: protocolAdapters_def)
  from default_port_served_iff [OF this prod.collapse [symmetric], of zero_node]
  show "(8545, ''TCP'') \<notin> (\<lambda>p. (spPort p, spProtocol p)) ` set (snd (buildServicePorts zero_node (solanaAdapter E)))"
    by (simp add: zero_node_def zero_spec_def otherPortChains_def)
qed

end
