(* ===== verification/Adapter_Status.thy ===== *)
theory Adapter_Status
  imports Adapter_Registry Auto_Restart
begin

text \<open>
  What the health checks of the registered adapters report, whatever the node and the public
  endpoints answer: numbers of the width the Go types have, and a percentage as progress.
\<close>

subsection \<open>Values of a program\<close>

text \<open>\<open>yields P m\<close>: every value \<open>m\<close> can return has \<open>P\<close>; \<open>reports P m\<close>: every result without error.\<close>

definition yields :: "('a \<Rightarrow> bool) \<Rightarrow> ('w, 'a) state \<Rightarrow> bool" where
  "yields P m \<longleftrightarrow> (\<forall>w. wp m (\<lambda>a _. P a) w)"

abbreviation reports :: "('a \<Rightarrow> bool) \<Rightarrow> ('w, goerr + 'a) state \<Rightarrow> bool" where
  "reports P m \<equiv> yields (case_sum (\<lambda>_. True) P) m"

lemma yields_ret [simp]: "yields P (ret a) \<longleftrightarrow> P a"
  by (simp add: yields_def)

lemma yields_bind: "yields Q m \<Longrightarrow> (\<And>a. Q a \<Longrightarrow> yields P (f a)) \<Longrightarrow> yields P (State_Monad.bind m f)"
  unfolding yields_def wp_bind by (blast intro: wp_mono)

lemma yields_True: "yields (\<lambda>_. True) m"
  by (simp add: yields_def wp_def split: prod.split)

lemma yields_any: "(\<And>a. yields P (f a)) \<Longrightarrow> yields P (State_Monad.bind m f)"
  by (rule yields_bind [OF yields_True])

lemma yields_mono: "yields P m \<Longrightarrow> (\<And>a. P a \<Longrightarrow> Q a) \<Longrightarrow> yields Q m"
  unfolding yields_def by (blast intro: wp_mono)

lemma reports_mono: "reports P m \<Longrightarrow> (\<And>a. P a \<Longrightarrow> Q a) \<Longrightarrow> reports Q m"
  by (erule yields_mono) (auto split: sum.splits)

lemma yields_getURL:
  "(\<And>e. yields P (onRequest e)) \<Longrightarrow> (\<And>e. yields P (onFail e)) \<Longrightarrow> (\<And>resp. yields P (onResp resp)) \<Longrightarrow>
     yields P (getURL E limit c url onRequest onFail onResp)"
  by (auto simp: getURL_def intro!: yields_any split: sum.split)

subsection \<open>Numbers\<close>

definition in_int32 :: "int \<Rightarrow> bool" where
  "in_int32 n \<longleftrightarrow> - (2 ^ 31) \<le> n \<and> n < 2 ^ 31"

lemma in_int32_wrap [simp]: "in_int32 (wrap32 n)"
proof -
  have "0 \<le> (n + 2 ^ 31) mod 2 ^ 32" "(n + 2 ^ 31) mod 2 ^ 32 < 2 ^ 32" by simp_all
  then show ?thesis by (simp add: in_int32_def wrap32_def)
qed

lemma in_int32_zero [simp]: "in_int32 0"
  by (simp add: in_int32_def)

lemma in_int32_float [simp]: "in_int32 (f_to_int32 oor x)"
  by (cases x) (simp_all add: f_to_int32_def in_int32_def [of "trunc_rat _"])

lemma in_int64_float: "in_int64 oor \<Longrightarrow> in_int64 (f_to_int64 oor x)"
  by (cases x) (simp_all add: f_to_int64_def)

lemma in_int64_value [simp]: "in_int64 (ParseInt64_value b s)"
  by (auto simp: ParseInt64_value_def in_int64_def Let_def)

lemma in_int64_hex [simp]: "in_int64 (hexToInt64 h)"
  by (simp add: hexToInt64_def Let_def Sscanf_hex_range)

lemma in_int64_pseudo [simp]: "in_int64 (pseudoBlock now)" "in_int64 (pseudoBlock now + 1)"
proof -
  have "0 \<le> pseudoBlock now" "pseudoBlock now < 2 ^ 19" by (simp_all add: pseudoBlock_def)
  then show "in_int64 (pseudoBlock now)" "in_int64 (pseudoBlock now + 1)" by (simp_all add: in_int64_def)
qed

lemma in_int64_max: "in_int64 m \<Longrightarrow> in_int64 n \<Longrightarrow> in_int64 (max m n)"
  by (simp add: max_def)

lemma in_int64_xor:
  assumes "in_int64 m" "0 \<le> n" "n < 2 ^ 63"
  shows "in_int64 (Bit_Operations.xor m n)"
proof (cases "0 \<le> m")
  case True
  then have "0 \<le> Bit_Operations.xor m n" "Bit_Operations.xor m n < 2 ^ 63"
    using assms XOR_upper [of m 63 n] by (simp_all add: in_int64_def)
  then show ?thesis unfolding in_int64_def by linarith
next
  case False
  define k where "k = Bit_Operations.not m"
  have k: "0 \<le> k" "k < 2 ^ 63" "m = Bit_Operations.not k"
    using False assms(1) by (simp_all add: k_def not_int_def in_int64_def)
  then have "0 \<le> Bit_Operations.xor k n" "Bit_Operations.xor k n < 2 ^ 63"
    using assms XOR_upper [of k 63 n] by simp_all
  then show ?thesis unfolding k(3) bit.xor_compl_left in_int64_def unfolding not_int_def by linarith
qed

lemma in_int64_decimal [simp]: "in_int64 (parseDecimalInt64 s)"
  by (simp add: parseDecimalInt64_def)

declare wrap64_in_range [simp]

definition percentage :: "f64 \<Rightarrow> bool" where
  "percentage x \<longleftrightarrow> (case x of Fin p \<Rightarrow> 0 \<le> p \<and> p \<le> 100 | _ \<Rightarrow> False)"

lemma percentage_Fin [simp]: "percentage (Fin p) \<longleftrightarrow> 0 \<le> p \<and> p \<le> 100"
  by (simp add: percentage_def)

lemma percentage_blocks [simp]: "percentage (progressFromBlocks current highest)"
  using progressFromBlocks_percentage [where current = current and highest = highest] by (auto simp: percentage_def split: f64.splits)

subsection \<open>Statuses\<close>

definition typed_status :: "SyncStatus \<Rightarrow> bool" where
  "typed_status s \<longleftrightarrow> in_int64 (syCurrentBlock s) \<and> in_int64 (syHighestBlock s) \<and> in_int32 (syPeers s)"

definition percent_status :: "SyncStatus \<Rightarrow> bool" where
  "percent_status s \<longleftrightarrow> typed_status s \<and> percentage (syProgress s)"

lemma status_simps [simp]:
  "typed_status \<lparr>syIsSyncing = i, syCurrentBlock = c, syHighestBlock = h, syPeers = p, syProgress = g, syStallExempt = e\<rparr> \<longleftrightarrow>
     in_int64 c \<and> in_int64 h \<and> in_int32 p"
  "percent_status \<lparr>syIsSyncing = i, syCurrentBlock = c, syHighestBlock = h, syPeers = p, syProgress = g, syStallExempt = e\<rparr> \<longleftrightarrow>
     in_int64 c \<and> in_int64 h \<and> in_int32 p \<and> percentage g"
  by (simp_all add: percent_status_def typed_status_def)

lemma pseudo_status [simp]: "percent_status (syncingPseudo now)"
  by (simp add: syncingPseudo_def zero_sync_def Let_def)

lemma pseudo_reports [simp]: "reports percent_status (retPseudo E)"
  by (simp add: retPseudo_def yields_any)

lemma unmarshal_keeps: "unmarshal_raw d r z = Some v \<Longrightarrow> keeps P d \<Longrightarrow> P z \<Longrightarrow> P v"
  by (auto simp: unmarshal_raw_def split: option.splits dest: keepsD)

lemma keeps_cong: "keeps P d \<Longrightarrow> (\<And>x. P x = Q x) \<Longrightarrow> keeps Q d"
  by (simp add: keeps_def)

declare dec_path.simps [simp del]

lemma keeps_int32: "keeps in_int32 dec_int32"
  unfolding keeps_def
proof (intro allI impI)
  fix j a b assume "in_int32 a" "dec_int32 j a = Some b"
  then show "in_int32 b" by (cases j) (auto simp: in_int32_def split: option.splits if_splits)
qed

subsection \<open>The shared health checks\<close>

lemma scan_stages_range:
  "in_int64 cur \<Longrightarrow> in_int64 high \<Longrightarrow> scan_stages ss (cur, high) = (cur', high') \<Longrightarrow> in_int64 cur' \<and> in_int64 high'"
  by (induction ss "(cur, high)" arbitrary: cur high rule: scan_stages.induct) (auto simp: Let_def split: if_splits)

lemma stage_range_range: "stage_range ss = (cur, high) \<Longrightarrow> in_int64 cur \<and> in_int64 high"
  using scan_stages_range [of "-1" 0 ss] by (auto simp: stage_range_def in_int64_def [of "-1"] split: prod.splits if_splits)

lemma eth_stages_range:
  "in_int64 cur \<Longrightarrow> in_int64 high \<Longrightarrow> eth_stages ss (cur, b, high) = (cur', b', high') \<Longrightarrow> in_int64 cur' \<and> in_int64 high'"
  by (induction ss "(cur, b, high)" arbitrary: cur b high rule: eth_stages.induct) (auto simp: Let_def split: if_splits)

lemma eth_stage_range_range: "eth_stage_range ss = (cur, high) \<Longrightarrow> in_int64 cur \<and> in_int64 high"
  using eth_stages_range [of "-1" 0 ss "[]"]
  by (auto simp: eth_stage_range_def in_int64_def [of "-1"] Let_def split: prod.splits if_splits)

lemma evm_peers: "yields in_int32 (evmPeerCount E c url)"
  by (auto simp: evmPeerCount_def intro!: yields_any split: sum.split option.split)

lemma evm_status_percent:
  "evm_status r block peers = Inr s \<Longrightarrow> in_int64 block \<Longrightarrow> in_int32 peers \<Longrightarrow> percent_status s"
  by (auto simp: evm_status_def Let_def dest: stage_range_range split: option.splits prod.splits if_splits)

lemma eth_status_percent:
  "eth_status r block peers = Inr s \<Longrightarrow> in_int64 block \<Longrightarrow> in_int32 peers \<Longrightarrow> percent_status s"
  by (auto simp: eth_status_def Let_def dest: eth_stage_range_range split: option.splits prod.splits if_splits)

lemma evm_reports [simp]: "reports percent_status (evmHealthCheck E c url)"
  unfolding evmHealthCheck_def
  by (auto simp: zero_sync_def
      intro!: yields_any yields_bind [OF evm_peers] elim!: evm_status_percent split: sum.split option.split)

lemma ethereum_reports: "reports percent_status (ethereum_HealthCheck E c url)"
  unfolding ethereum_HealthCheck_def
  by (auto simp: zero_sync_def Let_def
      intro!: yields_any yields_bind [OF evm_peers] elim!: eth_status_percent split: sum.split option.split)

lemma in_int64_number: "in_int64 (case ParseInt64 b s of None \<Rightarrow> 0 | Some n \<Rightarrow> n)"
  by (auto split: option.split dest: ParseInt64_range)

lemma beacon_reports: "reports percent_status (beaconHealthCheck E c url)"
  unfolding beaconHealthCheck_def
  by (auto simp: zero_sync_def beacon_status_def Let_def in_int64_number intro!: yields_any split: sum.split option.split)

lemma Sscanf_dec_range: "in_int64 (Sscanf_dec s)"
  by (auto simp: Sscanf_dec_def Sscanf_int_def Let_def split: option.split dest: ParseInt64_range)

lemma cosmos_tip: "yields in_int64 (cosmosNetworkTip E c url)"
  by (auto simp: cosmosNetworkTip_def Let_def Sscanf_dec_range intro!: yields_any split: sum.split option.split)

lemma cosmos_peers: "yields in_int32 (cosmosPeers E c url)"
  by (auto simp: cosmosPeers_def Let_def intro!: yields_any split: sum.split option.split)

lemma lag_range: "in_int64 height \<Longrightarrow> in_int64 (lagHeight blockTime now height text)"
  by (auto simp: lagHeight_def Let_def split: option.split)

lemma cosmos_reports: "reports percent_status (cosmosHealthCheck E m1 m2 m3 blockTime c url)"
  unfolding cosmosHealthCheck_def Let_def
  by (auto simp: zero_sync_def
      intro!: yields_any [where m = "gNow E"] yields_any [where m = "hDo E c _ _"] yields_bind [OF cosmos_tip]
        yields_bind [OF cosmos_peers] lag_range split: sum.split option.split prod.split)

lemma utxo_info: "keeps (\<lambda>i. in_int64 (biBlocks i) \<and> in_int64 (biHeaders i)) dec_info"
  unfolding keeps_def dec_info_def dec_struct_def
  by (auto split: json.splits option.splits dest: keeps_field [OF keeps_int64])

lemmas read_int64 = unmarshal_keeps [OF _ keeps_path [OF keeps_int64] in_int64_zero]

lemmas read_plain_int64 = unmarshal_keeps [OF _ keeps_int64 in_int64_zero]

lemmas read_int32 = unmarshal_keeps [OF _ keeps_int32 in_int32_zero]

lemma read_info:
  "unmarshal_raw dec_info r \<lparr>biBlocks = 0, biHeaders = 0, biVerificationProgress = v\<rparr> = Some i \<Longrightarrow>
     in_int64 (biBlocks i) \<and> in_int64 (biHeaders i)"
  by (drule unmarshal_keeps [OF _ utxo_info]) auto

lemma utxo_reports: "reports typed_status (utxoHealthCheck E c url u)"
  unfolding utxoHealthCheck_def
  by (auto simp: zero_sync_def utxo_status_def Let_def intro!: yields_any split: sum.split option.split
      dest!: read_info read_int32)

subsection \<open>Health checks of their own\<close>

lemma foldl_keeps: "P a \<Longrightarrow> (\<And>a x. x \<in> set xs \<Longrightarrow> P a \<Longrightarrow> P (f a x)) \<Longrightarrow> P (foldl f a xs)"
  by (induction xs arbitrary: a) auto

lemma aptos_peers: "yields in_int32 (aptosPeerCount E oor c url)"
  by (auto simp: aptosPeerCount_def aptos_peer_line_def Let_def split: sum.split option.split
      intro!: yields_getURL foldl_keeps [where P = in_int32])

lemma aptos_reports: "reports percent_status (aptos_HealthCheck E oor c url)"
  by (auto simp: aptos_HealthCheck_def Let_def split: sum.split option.split
      intro!: yields_getURL yields_bind [OF aptos_peers])

lemma avax_peers: "yields in_int32 (avaxPeerCount E c url)"
  by (auto simp: avaxPeerCount_def Let_def intro!: yields_any split: sum.split option.split)

lemma avax_lines: "in_int64 oor \<Longrightarrow> in_int64 (fst (foldl (avax_metric_line oor) (0, False) ls))"
  by (rule foldl_keeps [where P = "\<lambda>st. in_int64 (fst st)"])
     (auto simp: avax_metric_line_def in_int64_float Let_def split: option.split)

lemma avax_metrics: "in_int64 oor \<Longrightarrow> yields (\<lambda>st. in_int64 (fst st)) (avaxBootstrapMetrics E oor c url)"
  unfolding avaxBootstrapMetrics_def by (rule yields_getURL) (simp_all add: avax_lines)

lemma status_peers: "percent_status s \<Longrightarrow> in_int32 p \<Longrightarrow> percent_status (s\<lparr>syPeers := p\<rparr>)"
  by (simp add: percent_status_def typed_status_def)

lemma xor_clock: "in_int64 n \<Longrightarrow> 0 < k \<Longrightarrow> k < 2 ^ 62 \<Longrightarrow> in_int64 (Bit_Operations.xor n (time_Unix now mod k))"
  using pos_mod_bound [of k "time_Unix now"] by (intro in_int64_xor) (simp_all add: order_less_trans [of _ k])

lemma avalanche_reports:
  assumes "in_int64 oor"
  shows "reports percent_status (avalanche_HealthCheck E oor c url)"
  unfolding avalanche_HealthCheck_def
  by (auto simp: zero_sync_def Let_def split: sum.split option.split
      intro!: yields_getURL yields_bind [OF avax_metrics [OF assms]] yields_bind [OF avax_peers] yields_bind [OF evm_reports]
        yields_any [where m = "gNow E"] status_peers xor_clock)

lemma cardano_lines: "in_int32 (cmPeers m) \<Longrightarrow> in_int32 (cmPeers (foldl (cardano_metric_line oor) m ls))"
  by (rule foldl_keeps [where P = "\<lambda>m. in_int32 (cmPeers m)"]) (auto simp: cardano_metric_line_def Let_def split: prod.split)

lemma cardano_status_typed: "in_int64 oor \<Longrightarrow> in_int32 (cmPeers m) \<Longrightarrow> typed_status (cardano_status oor now m)"
  by (auto simp: cardano_status_def zero_sync_def in_int64_float Let_def)

lemma pseudo_typed [simp]: "reports typed_status (retPseudo E)"
  by (rule reports_mono [OF pseudo_reports]) (simp add: percent_status_def)

lemma cardano_reports: "in_int64 oor \<Longrightarrow> reports typed_status (cardano_HealthCheck E oor c url)"
  unfolding cardano_HealthCheck_def
  by (auto simp: Let_def split: sum.split intro!: yields_getURL yields_any cardano_status_typed cardano_lines)

lemma keeps_ptr: "keeps P d \<Longrightarrow> P z \<Longrightarrow> keeps (pred_option P) (dec_ptr d z)"
  by (auto simp: keeps_def dec_ptr_def split: json.splits option.splits)

lemma filecoin_sync: "keeps (\<lambda>(_, _, target). pred_option in_int64 target) dec_filecoinSync"
  unfolding dec_filecoinSync_def
  by (rule keeps_cong [OF keeps_and [OF keeps_True keeps_and [OF keeps_True keeps_path [OF keeps_ptr [OF keeps_path [OF keeps_int64]]]]]])
     auto

lemma filecoin_targets_range:
  assumes "list_all (\<lambda>(_, _, target). pred_option in_int64 target) syncs"
  shows "in_int64 (snd (filecoin_targets syncs))"
  unfolding filecoin_targets_def
  by (rule foldl_keeps [where P = "\<lambda>st. in_int64 (snd st)"])
     (use assms in \<open>force simp: list_all_iff split: option.split\<close>)+

lemma read_filecoin:
  "unmarshal_raw (dec_path [''ActiveSyncs''] (dec_list dec_filecoinSync (0, 0, None))) r [] = Some syncs \<Longrightarrow>
     in_int64 (snd (filecoin_targets syncs))"
  by (drule unmarshal_keeps [OF _ keeps_path [OF keeps_list [OF filecoin_sync]]]) (auto intro: filecoin_targets_range)

lemma filecoin_reports: "reports percent_status (filecoin_HealthCheck E c url)"
  unfolding filecoin_HealthCheck_def
  by (auto simp: zero_sync_def split: sum.split option.split prod.split intro!: yields_any dest!: read_int64 read_filecoin)

lemma hyperliquid_reports: "reports percent_status (hyperliquid_HealthCheck E c url)"
  by (auto simp: hyperliquid_HealthCheck_def zero_sync_def intro!: yields_getURL)

lemma substrate_health: "keeps (\<lambda>(_, peers). in_int32 peers) dec_substrateHealth"
  unfolding dec_substrateHealth_def by (rule keeps_cong [OF keeps_and [OF keeps_True keeps_path [OF keeps_int32]]]) auto

lemma substrate_sync: "keeps (\<lambda>(current, highest, _). in_int64 current \<and> in_int64 highest) dec_syncState"
  unfolding dec_syncState_def
  by (rule keeps_cong [OF keeps_and [OF keeps_path [OF keeps_int64] keeps_and [OF keeps_path [OF keeps_int64] keeps_True]]]) auto

lemma read_substrate:
  "unmarshal_raw dec_substrateHealth r (b, 0) = Some (syncing, peers) \<Longrightarrow> in_int32 peers"
  "unmarshal_raw dec_syncState r (0, 0, n) = Some (current, highest, start) \<Longrightarrow> in_int64 current \<and> in_int64 highest"
  by (auto dest: unmarshal_keeps [OF _ substrate_health] unmarshal_keeps [OF _ substrate_sync])

lemma substrate_reports: "reports percent_status (substrateHealthCheck E c url)"
  unfolding substrateHealthCheck_def
  by (auto simp: zero_sync_def Let_def split: sum.split option.split prod.split intro!: yields_any dest!: read_substrate)

lemma polkadot_reports: "reports percent_status (polkadot_HealthCheck E c url)"
  unfolding polkadot_HealthCheck_def polkadotParseHexBlock_def
  by (auto simp: zero_sync_def Let_def split: sum.split option.split prod.split intro!: yields_any dest!: read_substrate)

lemma near_keeps: "keeps (\<lambda>((current, _), peers). in_int64 current \<and> in_int32 peers) dec_nearStatus"
  unfolding dec_nearStatus_def
  by (rule keeps_cong [OF keeps_and [OF keeps_path [OF keeps_and [OF keeps_path [OF keeps_int64] keeps_True]]
        keeps_path [OF keeps_int32]]]) auto

lemma read_near:
  "unmarshal_raw dec_nearStatus r ((0, b), 0) = Some ((current, syncing), peers) \<Longrightarrow> in_int64 current \<and> in_int32 peers"
  by (drule unmarshal_keeps [OF _ near_keeps]) auto

lemma near_reports: "reports percent_status (near_HealthCheck E c url)"
  unfolding near_HealthCheck_def
  by (auto simp: zero_sync_def Let_def split: sum.split option.split prod.split
      intro!: yields_getURL yields_any xor_clock dest!: read_near)

lemma solana_reports: "reports percent_status (solana_HealthCheck E c url)"
  unfolding solana_HealthCheck_def
  by (auto simp: zero_sync_def split: sum.split option.split intro!: yields_any dest!: read_plain_int64)

lemma starknet_keeps: "keeps (\<lambda>(current, highest, _). in_int64 current \<and> in_int64 highest) dec_starknetSync"
  unfolding dec_starknetSync_def
  by (rule keeps_cong [OF keeps_and [OF keeps_path [OF keeps_int64] keeps_and [OF keeps_path [OF keeps_int64] keeps_True]]]) auto

lemma read_starknet:
  "unmarshal_raw dec_starknetSync r (0, 0, z) = Some (current, highest, rest) \<Longrightarrow> in_int64 current \<and> in_int64 highest"
  by (drule unmarshal_keeps [OF _ starknet_keeps]) auto

lemma starknet_reports: "reports percent_status (starknet_HealthCheck E c url)"
  unfolding starknet_HealthCheck_def
  by (auto simp: zero_sync_def split: sum.split option.split prod.split intro!: yields_any dest!: read_plain_int64 read_starknet)

lemma stellar_keeps: "keeps (\<lambda>(_, _, ledger, peers). in_int64 ledger \<and> in_int32 peers) dec_stellarInfo"
  unfolding dec_stellarInfo_def
  by (rule keeps_path, rule keeps_cong [OF keeps_and [OF keeps_True keeps_and [OF keeps_True
        keeps_and [OF keeps_path [OF keeps_int64] keeps_path [OF keeps_int32]]]]]) auto

lemma stellar_catchup_range: "in_int64 current \<Longrightarrow> stellar_catchup status current = (highest, progress) \<Longrightarrow> in_int64 highest"
  by (auto simp: stellar_catchup_def split: option.splits dest: ParseInt64_range)

lemma stellar_status_typed: "in_int64 ledger \<Longrightarrow> in_int32 peers \<Longrightarrow> typed_status (stellar_status (state, status, ledger, peers))"
  by (auto simp: stellar_status_def Let_def split: prod.split intro: stellar_catchup_range)

lemma read_stellar:
  "unmarshal_raw dec_stellarInfo r (st, l, 0, 0) = Some (state, status, ledger, peers) \<Longrightarrow> in_int64 ledger \<and> in_int32 peers"
  by (drule unmarshal_keeps [OF _ stellar_keeps]) auto

lemma stellar_reports: "reports typed_status (stellar_HealthCheck E c url)"
  unfolding stellar_HealthCheck_def
  by (auto simp: zero_sync_def split: sum.split option.split intro!: yields_getURL stellar_status_typed dest!: read_stellar)

lemma sui_lines: "in_int32 (snd (snd st)) \<Longrightarrow> in_int32 (snd (snd (foldl (sui_metric_line oor) st ls)))"
  by (rule foldl_keeps [where P = "\<lambda>st. in_int32 (snd (snd st))"]) (auto simp: sui_metric_line_def Let_def)

lemma sui_tip: "yields in_int64 (suiNetworkTip E c)"
  by (auto simp: suiNetworkTip_def Let_def intro!: yields_any split: sum.split option.split)

lemma sui_status_typed: "in_int64 current \<Longrightarrow> in_int64 tip \<Longrightarrow> in_int32 peers \<Longrightarrow> typed_status (sui_status current tip peers)"
  by (auto simp: sui_status_def Let_def)

lemma sui_reports:
  assumes "in_int64 oor"
  shows "reports typed_status (sui_HealthCheck E oor c url)"
proof -
  have peers: "in_int32 p" if "foldl (sui_metric_line oor) (Fin 0, Fin 0, 0) ls = (a, b, p)" for ls a b p
    using sui_lines [of "(Fin 0, Fin 0, 0)" oor ls] that by simp
  show ?thesis
    unfolding sui_HealthCheck_def
    by (auto simp: Let_def in_int64_float [OF assms] split: sum.split prod.split
        intro!: yields_getURL yields_bind [OF sui_tip] sui_status_typed dest!: peers)
qed

lemma ton_reports: "reports percent_status (ton_HealthCheck E c url)"
  unfolding ton_HealthCheck_def
  by (auto simp: zero_sync_def Let_def split: sum.split option.split intro!: yields_getURL yields_any)

lemma tron_peer_keeps:
  "keeps (\<lambda>p. in_int64 (tpUnFetchSynNum p)) dec_tronPeer"
  unfolding keeps_def dec_tronPeer_def dec_struct_def
  by (auto split: json.splits option.splits dest: keeps_field [OF keeps_int64])

lemma read_tron:
  "unmarshal_raw dec_tronNodeInfo r (t, []) = Some (block, peers) \<Longrightarrow> list_all (\<lambda>p. in_int64 (tpUnFetchSynNum p)) peers"
  unfolding dec_tronNodeInfo_def
  by (drule unmarshal_keeps [OF _ keeps_and [OF keeps_True keeps_path [OF keeps_list [OF tron_peer_keeps]]]]) auto

lemma tron_fold:
  "list_all (\<lambda>p. in_int64 (tpUnFetchSynNum p)) peers \<Longrightarrow>
     in_int64 (fst (foldl tron_peer (0, 0, False) peers)) \<and> in_int64 (fst (snd (foldl tron_peer (0, 0, False) peers)))"
  by (rule foldl_keeps [where P = "\<lambda>st. in_int64 (fst st) \<and> in_int64 (fst (snd st))"])
     (auto simp: tron_peer_def list_all_iff in_int64_max)

lemma tron_status_typed:
  "in_int64 block \<Longrightarrow> list_all (\<lambda>p. in_int64 (tpUnFetchSynNum p)) peers \<Longrightarrow> typed_status (tron_status block peers)"
  by (drule tron_fold) (auto simp: tron_status_def Let_def in_int64_max split: prod.split)

lemma tron_block_range: "tron_block s = Some n \<Longrightarrow> in_int64 n"
  by (auto simp: tron_block_def Sscanf_int_def Let_def split: if_splits option.splits dest: ParseInt64_range)

lemma tron_reports: "reports typed_status (tron_HealthCheck E c url)"
  unfolding tron_HealthCheck_def
  by (auto simp: zero_sync_def split: option.split intro!: yields_getURL tron_status_typed dest!: read_tron tron_block_range)

lemma xrp_keeps:
  "keeps (\<lambda>i. in_int32 (xiPeers i) \<and> in_int64 (xiValidatedSeq i) \<and> in_int64 (xiClosedSeq i)) dec_xrpInfo"
proof -
  have ledger: "keeps (\<lambda>(s, _). in_int64 s) (dec_and (dec_path [''seq''] dec_int64) (dec_path [''age''] dec_int64))"
    by (rule keeps_cong [OF keeps_and [OF keeps_path [OF keeps_int64] keeps_True]]) auto
  have "in_int64 s" if "dec_field (dec_and (dec_path [''seq''] dec_int64) (dec_path [''age''] dec_int64)) k kvs (a, b) = Some (s, t)"
    "in_int64 a" for k kvs a b s t
    using keeps_field [OF ledger _ that(1)] that(2) by simp
  then show ?thesis
    unfolding dec_xrpInfo_def
    by (intro keeps_path)
       (auto simp: keeps_def dec_struct_def split: json.splits option.splits prod.splits
          dest: keeps_field [OF keeps_int32] keeps_field [OF keeps_path [OF keeps_int64]])
qed

lemma xrp_status_percent:
  "in_int32 (xiPeers i) \<and> in_int64 (xiValidatedSeq i) \<and> in_int64 (xiClosedSeq i) \<Longrightarrow> percent_status (xrp_status i)"
  by (auto simp: xrp_status_def zero_sync_def Let_def)

lemma xrp_reports: "reports percent_status (xrp_HealthCheck E c url)"
  unfolding xrp_HealthCheck_def
  by (auto split: sum.split option.split intro!: yields_any xrp_status_percent dest!: unmarshal_keeps [OF _ xrp_keeps])

subsection \<open>Every registered adapter\<close>

text \<open>The chains whose progress is a figure of the node itself, passed on unchecked.\<close>

definition rawProgressChains :: "Chain list" where
  "rawProgressChains = [ChainBitcoin, ChainDash, ChainDogecoin, ChainLitecoin, ChainCardano, ChainStellar, ChainSui, ChainTRON]"

abbreviation status_of :: "Chain \<Rightarrow> SyncStatus \<Rightarrow> bool" where
  "status_of chain \<equiv> (if chain \<in> set rawProgressChains then typed_status else percent_status)"

definition checks_report :: "(SyncStatus \<Rightarrow> bool) \<Rightarrow> 'w ChainAdapter \<Rightarrow> bool" where
  "checks_report P adapter \<longleftrightarrow> (\<forall>c url. reports P (adHealthCheck adapter c url)) \<and>
     (\<forall>rc c url creds. adRPCCredentialed adapter = Some rc \<longrightarrow> reports P (rcHealthCheck rc c url creds))"

lemma probe_reports: "checks_report P adapter \<Longrightarrow> reports P (probeNode C cx node adapter creds)"
  by (auto simp: probeNode_def checks_report_def Let_def intro!: yields_any split: option.split)

lemmas own_reports = ethereum_reports beacon_reports cosmos_reports utxo_reports aptos_reports avalanche_reports cardano_reports
  filecoin_reports hyperliquid_reports substrate_reports polkadot_reports near_reports solana_reports starknet_reports
  stellar_reports sui_reports ton_reports tron_reports xrp_reports

lemmas cosmos_checks = cosmos_HealthCheck_def axelar_HealthCheck_def dymension_HealthCheck_def evmos_HealthCheck_def
  kava_HealthCheck_def moca_HealthCheck_def osmosis_HealthCheck_def sei_HealthCheck_def

lemma protocol_checks:
  assumes "in_int64 oor"
  shows "list_all (\<lambda>(chain, adapter). checks_report (status_of chain) adapter) (protocolAdapters E sha hmac oor)"
  unfolding protocolAdapters_def list.pred_inject prod.case
  by (intro conjI TrueI)
     (simp_all add: rawProgressChains_def checks_report_def adapter_defs protocolBase_def zkStackBase_def utxoBase_def
        newZkStackProtocolAdapter_def cosmos_checks plasma_HealthCheck_def utxo_HealthCheckWithCredentials_def
        own_reports assms Let_def split: sum.split)

lemma op_checks: "(chain, adapter) \<in> set (opStackAdapters E) \<Longrightarrow> checks_report percent_status adapter"
  by (erule opStack_cases)
     (simp_all add: checks_report_def op_adapter_defs baseChainAdapter_def baseProtocol_def)

lemma registered_checks:
  assumes "Get (adapterRegistry E sha hmac oor) chain = Some adapter" "in_int64 oor"
  shows "checks_report (status_of chain) adapter"
proof (cases "(chain, adapter) \<in> set (protocolAdapters E sha hmac oor)")
  case True
  then show ?thesis using bspec [OF protocol_checks [OF assms(2), unfolded list_all_iff] True] by simp
next
  case False
  with assms(1) have op: "(chain, adapter) \<in> set (opStackAdapters E)"
    by (auto simp: adapterRegistry_Get dest: opStack_Get)
  have "set opStackChains \<inter> set rawProgressChains = {}" by code_simp
  with opStack_member [OF op] op_checks [OF op] show ?thesis by auto
qed

text \<open>
  C11: Whatever a node, the public endpoints and the clock answer, the status the controller gets
  from a health check fits the Go types: the two block numbers are 64-bit and the number of
  peers 32-bit integers, for every registered chain. The progress is a finite percentage
  between 0 and 100, except for the eight chains that pass on a figure of the node unchecked.
  \<open>oor\<close>, the result of converting a float out of range, is only known to be a 64-bit integer.
\<close>

theorem registered_status_bounds:
  assumes "Get (adapterRegistry E sha hmac oor) chain = Some adapter" "in_int64 oor"
    and "run_state (probeNode C cx node adapter creds) w = (Inr s, w')"
  shows "in_int64 (syCurrentBlock s) \<and> in_int64 (syHighestBlock s) \<and> in_int32 (syPeers s) \<and>
    (chain \<notin> set rawProgressChains \<longrightarrow> (\<exists>p. syProgress s = Fin p \<and> 0 \<le> p \<and> p \<le> 100))"
proof -
  have "wp (probeNode C cx node adapter creds) (\<lambda>r _. case_sum (\<lambda>_. True) (status_of chain) r) w"
    using probe_reports [OF registered_checks [OF assms(1,2)], of C cx node creds] unfolding yields_def by blast
  from wpD [OF this assms(3)] show ?thesis
    by (auto simp: percent_status_def typed_status_def percentage_def split: if_splits f64.splits)
qed

text \<open>A NEAR node at block 120 with twelve peers.\<close>

definition near_up :: "mem rpc_env" where
  "near_up = offline\<lparr>hDo := (\<lambda>_ _ _. ret (Inr \<lparr>hrStatus = 200, hrBody = Inr \<lparr>hbText = [], hbJson = Some (JObj
     [(''sync_info'', JObj [(''latest_block_height'', JNum ''120''), (''syncing'', JBool False)]),
      (''num_active_peers'', JNum ''12'')])\<rparr>\<rparr>))\<rparr>"

theorem registered_status_bounds_witness:
  "\<forall>cx w. \<exists>s w'. run_state (probeNode mem_ctl cx zero_node (nearAdapter near_up) zeroCreds) w = (Inr s, w') \<and>
     syCurrentBlock s = 120 \<and> in_int64 (syCurrentBlock s) \<and> in_int32 (syPeers s) \<and> (\<exists>p. syProgress s = Fin p \<and> 0 \<le> p \<and> p \<le> 100)"
proof (intro allI)
  fix cx and w :: mem
  have "unmarshal_raw dec_nearStatus (Some (JObj
     [(''sync_info'', JObj [(''latest_block_height'', JNum ''120''), (''syncing'', JBool False)]),
      (''num_active_peers'', JNum ''12'')])) ((0, False), 0) = Some ((120, False), 12)"
    by code_simp
  then have run: "run_state (probeNode mem_ctl cx zero_node (nearAdapter near_up) zeroCreds) w = (Inr (syncedAt 120 12), w)"
    by (simp add: probeNode_def mem_ctl_def mem_kube_def kube.defs ctl.defs nearAdapter_def protocolBase_def near_HealthCheck_def
        getURL_def near_up_def offline_def Let_def)
  have "Get (adapterRegistry near_up id (\<lambda>_. id) 0) ChainNear = Some (nearAdapter near_up)" by (rule double_port_adapters)
  from registered_status_bounds [OF this in_int64_zero run] run
  show "\<exists>s w'. run_state (probeNode mem_ctl cx zero_node (nearAdapter near_up) zeroCreds) w = (Inr s, w') \<and>
     syCurrentBlock s = 120 \<and> in_int64 (syCurrentBlock s) \<and> in_int32 (syPeers s) \<and> (\<exists>p. syProgress s = Fin p \<and> 0 \<le> p \<and> p \<le> 100)"
    by auto
qed

end
