(* ===== verification/Adapter_Config.thy ===== *)
theory Adapter_Config
  imports Ethereum_Adapter Nitro
begin

text \<open>
  Configurations the adapters build from one description in two forms: the settings of
  Nethermind as flags and as a file (\<open>nethermind.go\<close>), the ports of a Nitro node in its
  configuration and on its container (\<open>nitro.go\<close>).
\<close>

subsection \<open>Nethermind\<close>

text \<open>The arguments after the first four, two by two; a value of the file as a flag has it.\<close>

fun pairs :: "'a list \<Rightarrow> ('a \<times> 'a) list" where
  "pairs (a # b # xs) = (a, b) # pairs xs"
| "pairs _ = []"

fun flagText :: "json \<Rightarrow> string" where
  "flagText (JBool b) = (if b then ''true'' else ''false'')"
| "flagText (JNum t) = t"
| "flagText (JStr s) = s"
| "flagText (JArr js) = ''['' @ Join (map flagText js) '','' @ '']''"
| "flagText _ = []"

lemma flagText_json: "flagText (nethermind_json v) = nethermind_value v"
  by (cases v) (simp_all add: comp_def)

lemma pairs_flags: "pairs (concat (map (\<lambda>s. [f s, g s]) ss)) = map (\<lambda>s. (f s, g s)) ss"
  by (induction ss) simp_all

lemma set_by_key:
  assumes "\<And>a b j. L a b j \<longleftrightarrow> (\<exists>s\<in>set ss. (k s, l s) = (a, b) \<and> v s = j)"
  shows "set (map (\<lambda>s. (F (k s) (l s), G (v s))) ss) = {(F a b, G j) | a b j. L a b j}"
  unfolding assms by auto

abbreviation settingKey :: "nethermindSetting \<Rightarrow> string \<times> string" where
  "settingKey s \<equiv> (nsSection s, nsKey s)"

definition nethermind_tree :: "nethermindNode \<Rightarrow> json" where
  "nethermind_tree n = JObj (map (\<lambda>(k, m). (k, JObj m)) (nethermind_cfg n))"

lemma tree_at:
  "json_at [sec, key] (JObj (map (\<lambda>(k, m). (k, JObj m)) cfg)) =
     (case map_of cfg sec of None \<Rightarrow> None | Some m \<Rightarrow> map_of m key)"
  by (auto simp: map_of_map split: option.splits)

lemma settings_at:
  "(case map_of (foldl (\<lambda>cfg s. AList.update (nsSection s)
       (AList.update (nsKey s) (f s) (case map_of cfg (nsSection s) of None \<Rightarrow> [] | Some m \<Rightarrow> m)) cfg) [] ss) sec of
      None \<Rightarrow> None | Some m \<Rightarrow> map_of m key) = map_of (rev (map (\<lambda>s. (settingKey s, f s)) ss)) (sec, key)"
  by (induction ss rule: rev_induct) (auto simp: update_conv' split: option.splits)

lemma nethermind_at:
  assumes "distinct (map settingKey (nethermind_settings n))"
  shows "json_at [sec, key] (nethermind_tree n) = Some j \<longleftrightarrow>
     (\<exists>s\<in>set (nethermind_settings n). settingKey s = (sec, key) \<and> nethermind_json (nsValue s) = j)"
proof -
  let ?kvs = "map (\<lambda>s. (settingKey s, nethermind_json (nsValue s))) (nethermind_settings n)"
  have "json_at [sec, key] (nethermind_tree n) = map_of (rev ?kvs) (sec, key)"
    unfolding nethermind_tree_def tree_at nethermind_cfg_def by (rule settings_at)
  moreover have "distinct (map fst (rev ?kvs))"
    using assms by (simp add: rev_map [symmetric] comp_def)
  ultimately show ?thesis by (auto simp: image_iff)
qed

lemma nethermind_keys:
  "n \<in> {ethNethermind spec, gnosisNode spec, fuseNode spec} \<Longrightarrow> distinct (map settingKey (nethermind_settings n))"
  by (elim insertE emptyE; simp add: nethermind_settings_def ethNethermind_def gnosisNode_def fuseNode_def Let_def)

text \<open>
  C38: The file \<open>nethermind.json\<close> and the command line of a Nethermind node say the same: for
  Ethereum, Gnosis and Fuse and every specification, the file is the encoding of a tree whose
  entries, written as flags, are exactly the settings on the command line.
\<close>

theorem nethermind_file_lists_flags:
  assumes "n \<in> {ethNethermind spec, gnosisNode spec, fuseNode spec}"
  shows "\<exists>tree. nethermind_configFile n = Inr (MarshalIndent tree @ [CHR 0x0A]) \<and>
    set (pairs (drop 4 (nethermind_args n))) =
      {(''--'' @ sec @ ''.'' @ key, flagText j) | sec key j. json_at [sec, key] tree = Some j}"
proof (intro exI conjI)
  show "nethermind_configFile n = Inr (MarshalIndent (nethermind_tree n) @ [CHR 0x0A])"
    by (simp add: nethermind_configFile_def nethermind_tree_def)
  have "pairs (drop 4 (nethermind_args n)) = map (\<lambda>s. (''--'' @ nsSection s @ ''.'' @ nsKey s, flagText (nethermind_json (nsValue s))))
     (nethermind_settings n)"
    by (simp add: nethermind_args_def pairs_flags flagText_json)
  then show "set (pairs (drop 4 (nethermind_args n))) =
      {(''--'' @ sec @ ''.'' @ key, flagText j) | sec key j. json_at [sec, key] (nethermind_tree n) = Some j}"
    using set_by_key [OF nethermind_at [OF nethermind_keys [OF assms]], of "\<lambda>sec key. ''--'' @ sec @ ''.'' @ key" flagText] by simp
qed

theorem nethermind_file_lists_flags_witness:
  "\<exists>tree. nethermind_configFile (gnosisNode zero_spec) = Inr (MarshalIndent tree @ [CHR 0x0A]) \<and>
     (''--Metrics.Enabled'', ''true'') \<in> {(''--'' @ sec @ ''.'' @ key, flagText j) | sec key j. json_at [sec, key] tree = Some j}"
proof -
  have "(''--Metrics.Enabled'', ''true'') \<in> set (pairs (drop 4 (nethermind_args (gnosisNode zero_spec))))"
    by (simp add: nethermind_args_def nethermind_settings_def)
  moreover obtain tree where "nethermind_configFile (gnosisNode zero_spec) = Inr (MarshalIndent tree @ [CHR 0x0A])"
    "set (pairs (drop 4 (nethermind_args (gnosisNode zero_spec)))) =
       {(''--'' @ sec @ ''.'' @ key, flagText j) | sec key j. json_at [sec, key] tree = Some j}"
    using nethermind_file_lists_flags [of "gnosisNode zero_spec" zero_spec] by blast
  ultimately show ?thesis by (intro exI [of _ tree] conjI) (assumption, simp only:)
qed

subsection \<open>Nitro\<close>

lemma nitro_ports_configured:
  "map (\<lambda>p. Some (JNum (Itoa (cpPort p)))) (nitroPorts c) =
     map (\<lambda>server. json_at [server, ''port''] (nitroConfig_map c)) [''http'', ''ws'', ''metrics-server'']"
  by (simp add: nitroPorts_def nitroConfig_map_def Let_def)

end
