(* ===== verification/Smoke_Images.thy ===== *)
theory Smoke_Images
  imports Rpc
begin

text \<open>
  The docker client of the smoke test tool, \<open>cmd/chainsmoke/docker.go\<close>: the docker command, the
  retry after a rate limit, and the set of images the concurrent runs share. \<open>docker\<close>, a
  program outside the repository, and the pause of the retry are the two operations of a record.
\<close>

record 'w docker_env =
  dkRun :: "string list \<Rightarrow> ('w, goerr + http_body) state"
  dkWait :: "duration \<Rightarrow> ('w, goerr + unit) state"

text \<open>\<open>wordByte\<close>: what \<open>\b\<close> of a regular expression sees as part of a word.\<close>

definition wordByte :: "char \<Rightarrow> bool" where
  "wordByte c \<longleftrightarrow> is_digit 10 c \<or> c = CHR ''_'' \<or> (let n = of_char (ToLower_char c) :: nat in 97 \<le> n \<and> n \<le> 122)"

text \<open>\<open>(?i)\bword\b\<close> for a word in lower case; \<open>prev\<close> says that a word byte comes before.\<close>

fun hasWord_from :: "bool \<Rightarrow> string \<Rightarrow> string \<Rightarrow> bool" where
  "hasWord_from prev w [] = False"
| "hasWord_from prev w (c # s) =
     ((\<not> prev \<and> HasPrefix (ToLower (c # s)) w \<and>
       (case drop (length w) (c # s) of [] \<Rightarrow> True | d # _ \<Rightarrow> \<not> wordByte d)) \<or>
      hasWord_from (wordByte c) w s)"

definition hasWord :: "string \<Rightarrow> string \<Rightarrow> bool" where
  "hasWord w s = hasWord_from False w s"

definition rateLimitWait :: duration where
  "rateLimitWait = 60 * Second"

definition rateLimitRe :: "string \<Rightarrow> bool" where
  "rateLimitRe s \<longleftrightarrow> Contains (ToLower s) ''toomanyrequests'' \<or> Contains (ToLower s) ''too many requests'' \<or> hasWord ''429'' s"

definition dockerRetry :: "('w, 'x) docker_env_scheme \<Rightarrow> string list \<Rightarrow> ('w, goerr + http_body) state" where
  "dockerRetry D args = do {
     out \<leftarrow> dkRun D args;
     case out of
       Inr body \<Rightarrow> ret (Inr body)
     | Inl err \<Rightarrow>
         if \<not> rateLimitRe (err_text err) then ret (Inl err)
         else do {
           r \<leftarrow> dkWait D rateLimitWait;
           case r of
             Inl _ \<Rightarrow> ret (Inl err)
           | Inr _ \<Rightarrow> dkRun D args } }"

definition smokePlatform :: string where
  "smokePlatform = ''linux/amd64''"

subsection \<open>The images of a run\<close>

record imageSet =
  imKeep :: bool
  imUsers :: "string \<Rightarrow> int"
  imPreexisting :: "string \<Rightarrow> bool option"

definition newImageSet :: "bool \<Rightarrow> imageSet" where
  "newImageSet keep = \<lparr>imKeep = keep, imUsers = (\<lambda>_. 0), imPreexisting = (\<lambda>_. None)\<rparr>"

definition inspectArgs :: "string \<Rightarrow> string list" where
  "inspectArgs ref = [''image'', ''inspect'', ''--format'', ''{{.Id}}'', ref]"

definition pullArgs :: "string \<Rightarrow> string list" where
  "pullArgs ref = [''pull'', ''--quiet'', ''--platform'', smokePlatform, ref]"

text \<open>\<open>acquire\<close> up to the release of the lock, and the whole of it.\<close>

definition acquire_locked :: "('w, 'x) docker_env_scheme \<Rightarrow> imageSet \<Rightarrow> string \<Rightarrow> ('w, imageSet) state" where
  "acquire_locked D s ref = do {
     s \<leftarrow> (if imPreexisting s ref = None
           then do {
             r \<leftarrow> dkRun D (inspectArgs ref);
             ret (s\<lparr>imPreexisting := (imPreexisting s)(ref := Some (case r of Inl _ \<Rightarrow> False | Inr _ \<Rightarrow> True))\<rparr>) }
           else ret s);
     ret (s\<lparr>imUsers := (imUsers s)(ref := imUsers s ref + 1)\<rparr>) }"

definition acquire :: "('w, 'x) docker_env_scheme \<Rightarrow> imageSet \<Rightarrow> string \<Rightarrow> ('w, imageSet \<times> goerr option) state" where
  "acquire D s ref = do {
     s \<leftarrow> acquire_locked D s ref;
     r \<leftarrow> dockerRetry D (pullArgs ref);
     ret (s, case r of Inl err \<Rightarrow> Some err | Inr _ \<Rightarrow> None) }"

definition release :: "('w, 'x) docker_env_scheme \<Rightarrow> imageSet \<Rightarrow> string \<Rightarrow> ('w, imageSet) state" where
  "release D s ref = do {
     let s = s\<lparr>imUsers := (imUsers s)(ref := imUsers s ref - 1)\<rparr>;
     if imUsers s ref > 0 \<or> imKeep s \<or> imPreexisting s ref = Some True then ret s
     else do {
       _ \<leftarrow> dkRun D [''rmi'', ref];
       ret s } }"

subsection \<open>Concurrent runs\<close>

text \<open>
  A worker between two images, one that has registered and not pulled yet, one whose pull
  failed and one that uses the image. The lock makes registering and releasing atomic; pulls of
  different workers interleave with everything.
\<close>

datatype worker = Idle | Pulling string | Failed string | Using string

fun holds :: "string \<Rightarrow> worker \<Rightarrow> bool" where
  "holds ref Idle = False"
| "holds ref (Pulling r) = (r = ref)"
| "holds ref (Failed r) = (r = ref)"
| "holds ref (Using r) = (r = ref)"

inductive image_step ::
    "('w, 'x) docker_env_scheme \<Rightarrow> imageSet \<times> 'w \<times> worker list \<Rightarrow> imageSet \<times> 'w \<times> worker list \<Rightarrow> bool"
  for D :: "('w, 'x) docker_env_scheme" where
  registers: "i < length ws \<Longrightarrow> ws ! i = Idle \<Longrightarrow> run_state (acquire_locked D s ref) w = (s', w') \<Longrightarrow>
     image_step D (s, w, ws) (s', w', ws[i := Pulling ref])"
| pulls: "i < length ws \<Longrightarrow> ws ! i = Pulling ref \<Longrightarrow> run_state (dockerRetry D (pullArgs ref)) w = (Inr out, w') \<Longrightarrow>
     image_step D (s, w, ws) (s, w', ws[i := Using ref])"
| pull_fails: "i < length ws \<Longrightarrow> ws ! i = Pulling ref \<Longrightarrow> run_state (dockerRetry D (pullArgs ref)) w = (Inl err, w') \<Longrightarrow>
     image_step D (s, w, ws) (s, w', ws[i := Failed ref])"
| releases: "i < length ws \<Longrightarrow> ws ! i \<in> {Failed ref, Using ref} \<Longrightarrow> run_state (release D s ref) w = (s', w') \<Longrightarrow>
     image_step D (s, w, ws) (s', w', ws[i := Idle])"

text \<open>
  Users are counted exactly, an image in use is on the host, a registered image has been looked
  at, and the images \<open>old\<close> that were there at the start still are and are never taken for new
  ones.
\<close>

definition usersOf :: "string \<Rightarrow> worker list \<Rightarrow> int" where
  "usersOf ref ws = (\<Sum>x\<leftarrow>ws. if holds ref x then 1 else 0)"

definition images_ok :: "('w \<Rightarrow> string set) \<Rightarrow> string set \<Rightarrow> imageSet \<times> 'w \<times> worker list \<Rightarrow> bool" where
  "images_ok present old = (\<lambda>(s, w, ws).
     (\<forall>ref. imUsers s ref = usersOf ref ws) \<and>
     (\<forall>ref. Using ref \<in> set ws \<longrightarrow> ref \<in> present w) \<and>
     (\<forall>ref. \<forall>x\<in>set ws. holds ref x \<longrightarrow> imPreexisting s ref \<noteq> None) \<and>
     (\<forall>ref\<in>old. ref \<in> present w \<and> imPreexisting s ref \<noteq> Some False))"

lemma images_okI:
  assumes "\<And>ref. imUsers s ref = usersOf ref ws" "\<And>ref. Using ref \<in> set ws \<Longrightarrow> ref \<in> present w"
    "\<And>ref x. x \<in> set ws \<Longrightarrow> holds ref x \<Longrightarrow> imPreexisting s ref \<noteq> None"
    "\<And>ref. ref \<in> old \<Longrightarrow> ref \<in> present w \<and> imPreexisting s ref \<noteq> Some False"
  shows "images_ok present old (s, w, ws)"
  using assms unfolding images_ok_def prod.case by blast

lemma images_okD:
  assumes "images_ok present old (s, w, ws)"
  shows "imUsers s ref = usersOf ref ws" "Using ref \<in> set ws \<Longrightarrow> ref \<in> present w"
    "x \<in> set ws \<Longrightarrow> holds ref x \<Longrightarrow> imPreexisting s ref \<noteq> None"
    "ref \<in> old \<Longrightarrow> ref \<in> present w" "ref \<in> old \<Longrightarrow> imPreexisting s ref \<noteq> Some False"
  using assms by (auto simp: images_ok_def)

lemma sum_update:
  fixes f :: "'a \<Rightarrow> int"
  shows "i < length ws \<Longrightarrow> (\<Sum>x\<leftarrow>ws[i := y]. f x) = (\<Sum>x\<leftarrow>ws. f x) - f (ws ! i) + f y"
proof (induction ws arbitrary: i)
  case (Cons a ws)
  then show ?case by (cases i) simp_all
qed simp

lemma users_update:
  "i < length ws \<Longrightarrow> usersOf ref (ws[i := y]) =
     usersOf ref ws - (if holds ref (ws ! i) then 1 else 0) + (if holds ref y then 1 else 0)"
  unfolding usersOf_def by (rule sum_update)

lemma users_held: "x \<in> set ws \<Longrightarrow> holds ref x \<Longrightarrow> 0 < usersOf ref ws"
proof (induction ws)
  case (Cons y ws)
  have "0 \<le> usersOf ref ws" unfolding usersOf_def by (intro sum_list_nonneg) auto
  with Cons show ?case by (auto simp: usersOf_def)
qed simp

lemma in_update: "x \<in> set (ws[i := y]) \<Longrightarrow> x = y \<or> x \<in> set ws"
  using set_update_subset_insert [of ws i y] by blast

text \<open>
  What is documented of docker: inspecting changes nothing, a pull that succeeds brings its
  image, and only removing an image takes one away, at most the one named. A command may fail at
  any time, an inspection too.
\<close>

locale docker_host =
  fixes D :: "('w, 'x) docker_env_scheme" and present :: "'w \<Rightarrow> string set"
  assumes inspect_keeps: "wp (dkRun D (inspectArgs ref)) (\<lambda>_ w'. present w' = present w) w"
    and pull_adds: "wp (dkRun D (pullArgs ref)) (\<lambda>r w'. present w \<subseteq> present w' \<and> (isl r \<or> ref \<in> present w')) w"
    and rmi_removes: "wp (dkRun D [''rmi'', ref]) (\<lambda>_ w'. present w - {ref} \<subseteq> present w') w"
    and wait_keeps: "wp (dkWait D d) (\<lambda>_ w'. present w' = present w) w"
begin

text \<open>The inspections of an image never fail while it is there.\<close>

definition told :: "string \<Rightarrow> bool" where
  "told ref \<longleftrightarrow> (\<forall>w. ref \<in> present w \<longrightarrow> wp (dkRun D (inspectArgs ref)) (\<lambda>r _. \<not> isl r) w)"

lemma retry_adds: "wp (dockerRetry D (pullArgs ref)) (\<lambda>r w'. present w \<subseteq> present w' \<and> (isl r \<or> ref \<in> present w')) w"
  unfolding dockerRetry_def wp_bind
proof (rule wp_mono [OF pull_adds])
  fix r :: "goerr + http_body" and w1 assume r: "present w \<subseteq> present w1 \<and> (isl r \<or> ref \<in> present w1)"
  have again: "wp (dkRun D (pullArgs ref)) (\<lambda>r w'. present w \<subseteq> present w' \<and> (isl r \<or> ref \<in> present w')) w2"
    if "present w2 = present w1" for w2
    using that r by (intro wp_mono [OF pull_adds]) auto
  have retry: "wp (dkWait D rateLimitWait) (\<lambda>a. wp (case a of Inl _ \<Rightarrow> ret (Inl err) | Inr _ \<Rightarrow> dkRun D (pullArgs ref))
       (\<lambda>r w'. present w \<subseteq> present w' \<and> (isl r \<or> ref \<in> present w'))) w1" for err
    using r again by (intro wp_mono [OF wait_keeps]) (auto split: sum.split)
  show "wp (case r of Inl err \<Rightarrow> if \<not> rateLimitRe (err_text err) then ret (Inl err)
         else dkWait D rateLimitWait \<bind> (\<lambda>a. case a of Inl _ \<Rightarrow> ret (Inl err) | Inr _ \<Rightarrow> dkRun D (pullArgs ref))
       | Inr body \<Rightarrow> ret (Inr body)) (\<lambda>r w'. present w \<subseteq> present w' \<and> (isl r \<or> ref \<in> present w')) w1"
    using r retry by (auto split: sum.split)
qed

lemma registered_ok:
  assumes "images_ok present old (s, w, ws)" "i < length ws" "ws ! i = Idle"
    and "present w' = present w" "pre ref \<noteq> None" "\<And>r. r \<noteq> ref \<Longrightarrow> pre r = imPreexisting s r"
    and "ref \<in> old \<Longrightarrow> pre ref \<noteq> Some False"
  shows "images_ok present old (s\<lparr>imPreexisting := pre, imUsers := (imUsers s)(ref := imUsers s ref + 1)\<rparr>, w', ws[i := Pulling ref])"
proof (rule images_okI)
  note old = images_okD [OF assms(1)]
  show "imUsers (s\<lparr>imPreexisting := pre, imUsers := (imUsers s)(ref := imUsers s ref + 1)\<rparr>) r = usersOf r (ws[i := Pulling ref])" for r
    using old(1) assms(2,3) by (simp add: users_update)
  show "r \<in> present w'" if "Using r \<in> set (ws[i := Pulling ref])" for r
    using in_update [OF that] old(2) assms(4) by auto
  show "imPreexisting (s\<lparr>imPreexisting := pre, imUsers := (imUsers s)(ref := imUsers s ref + 1)\<rparr>) r \<noteq> None"
    if "x \<in> set (ws[i := Pulling ref])" "holds r x" for r x
    using in_update [OF that(1)] that(2) old(3) assms(5,6) by (cases "r = ref") auto
  show "r \<in> present w' \<and> imPreexisting (s\<lparr>imPreexisting := pre, imUsers := (imUsers s)(ref := imUsers s ref + 1)\<rparr>) r \<noteq> Some False"
    if "r \<in> old" for r
    using that old(4,5) assms(4,6,7) by (cases "r = ref") auto
qed

lemma registers_ok:
  assumes "images_ok present old (s, w, ws)" "i < length ws" "ws ! i = Idle" "\<forall>ref \<in> old. told ref"
  shows "wp (acquire_locked D s ref) (\<lambda>s' w'. images_ok present old (s', w', ws[i := Pulling ref])) w"
proof (cases "imPreexisting s ref")
  case None
  have "images_ok present old (s\<lparr>imPreexisting := (imPreexisting s)(ref := Some (case r of Inl _ \<Rightarrow> False | Inr _ \<Rightarrow> True)),
      imUsers := (imUsers s)(ref := imUsers s ref + 1)\<rparr>, w', ws[i := Pulling ref])"
    if "present w' = present w" "ref \<in> old \<Longrightarrow> \<not> isl r" for r :: "goerr + http_body" and w'
    using that by (intro registered_ok [OF assms(1-3)]) (auto split: sum.splits)
  note registered = this
  have "wp (dkRun D (inspectArgs ref)) (\<lambda>r w'. present w' = present w \<and> (ref \<in> old \<longrightarrow> \<not> isl r)) w"
  proof (cases "ref \<in> old")
    case True
    with assms(4) images_okD(4) [OF assms(1) True] have "wp (dkRun D (inspectArgs ref)) (\<lambda>r _. \<not> isl r) w" by (simp add: told_def)
    with inspect_keeps [of ref w] show ?thesis by (simp add: wp_conj True)
  qed (simp add: inspect_keeps)
  then show ?thesis
    unfolding acquire_locked_def using None registered by (auto elim!: wp_mono)
next
  case (Some b)
  then have "images_ok present old (s\<lparr>imUsers := (imUsers s)(ref := imUsers s ref + 1)\<rparr>, w, ws[i := Pulling ref])"
    using registered_ok [OF assms(1-3), of w "imPreexisting s" ref] images_okD(5) [OF assms(1), of ref] by auto
  then show ?thesis unfolding acquire_locked_def using Some by simp
qed

lemma pulled_ok:
  assumes "images_ok present old (s, w, ws)" "i < length ws" "ws ! i = Pulling ref"
    and "present w \<subseteq> present w'" "y = Failed ref \<or> y = Using ref \<and> ref \<in> present w'"
  shows "images_ok present old (s, w', ws[i := y])"
proof (rule images_okI)
  note old = images_okD [OF assms(1)]
  have held: "holds r y \<longleftrightarrow> r = ref" for r using assms(5) by auto
  show "imUsers s r = usersOf r (ws[i := y])" for r
    using old(1) assms(2,3) by (simp add: users_update held)
  show "r \<in> present w'" if "Using r \<in> set (ws[i := y])" for r
    using in_update [OF that] old(2) assms(4,5) by auto
  show "imPreexisting s r \<noteq> None" if "x \<in> set (ws[i := y])" "holds r x" for r x
    using in_update [OF that(1)] that(2) old(3) [of _ r] nth_mem [OF assms(2)] assms(3) by (auto simp: held)
  show "r \<in> present w' \<and> imPreexisting s r \<noteq> Some False" if "r \<in> old" for r
    using that old(4,5) assms(4) by auto
qed

lemma released_ok:
  assumes "images_ok present old (s, w, ws)" "i < length ws" "ws ! i \<in> {Failed ref, Using ref}"
    and "present w - {ref} \<subseteq> present w'"
    and "ref \<in> present w' \<or> \<not> imUsers s ref - 1 > 0 \<and> imPreexisting s ref \<noteq> Some True \<or> ref \<notin> present w"
  shows "images_ok present old (s\<lparr>imUsers := (imUsers s)(ref := imUsers s ref - 1)\<rparr>, w', ws[i := Idle])"
proof (rule images_okI)
  note old = images_okD [OF assms(1)]
  have held: "holds r (ws ! i) \<longleftrightarrow> r = ref" for r using assms(3) by auto
  have count: "usersOf r (ws[i := Idle]) = imUsers s r - (if r = ref then 1 else 0)" for r
    using old(1) assms(2) by (simp add: users_update held)
  show "imUsers (s\<lparr>imUsers := (imUsers s)(ref := imUsers s ref - 1)\<rparr>) r = usersOf r (ws[i := Idle])" for r
    by (simp add: count)
  show "r \<in> present w'" if "Using r \<in> set (ws[i := Idle])" for r
    using in_update [OF that] old(2) users_held [OF that, of r] count [of r] assms(4,5) by (cases "r = ref") auto
  show "imPreexisting (s\<lparr>imUsers := (imUsers s)(ref := imUsers s ref - 1)\<rparr>) r \<noteq> None"
    if "x \<in> set (ws[i := Idle])" "holds r x" for r x
    using in_update [OF that(1)] that(2) old(3) by auto
  show "r \<in> present w' \<and> imPreexisting (s\<lparr>imUsers := (imUsers s)(ref := imUsers s ref - 1)\<rparr>) r \<noteq> Some False" if "r \<in> old" for r
    using that old(3) [OF nth_mem [OF assms(2)], of r] old(4,5) [of r] assms(4,5) by (cases "r = ref") (auto simp: held)
qed

lemma releases_ok:
  assumes "images_ok present old (s, w, ws)" "i < length ws" "ws ! i \<in> {Failed ref, Using ref}"
  shows "wp (release D s ref) (\<lambda>s' w'. images_ok present old (s', w', ws[i := Idle])) w"
proof (cases "imUsers s ref - 1 > 0 \<or> imKeep s \<or> imPreexisting s ref = Some True")
  case True
  then show ?thesis unfolding release_def using released_ok [OF assms, of w] by (simp add: Let_def) blast
next
  case False
  then have "images_ok present old (s\<lparr>imUsers := (imUsers s)(ref := imUsers s ref - 1)\<rparr>, w', ws[i := Idle])"
    if "present w - {ref} \<subseteq> present w'" for w'
    using released_ok [OF assms that] by blast
  then show ?thesis
    unfolding release_def using False by (auto simp: Let_def intro!: wp_mono [OF rmi_removes])
qed

lemma step_ok:
  assumes "image_step D x y" "images_ok present old x" "\<forall>ref \<in> old. told ref"
  shows "images_ok present old y"
  using assms(1)
proof cases
  case (registers i ws s ref w s' w')
  with assms(2,3) wpD [OF registers_ok] show ?thesis by blast
next
  case (pulls i ws ref w out w' s)
  with assms(2) wpD [OF retry_adds pulls(5)] show ?thesis by (auto intro: pulled_ok)
next
  case (pull_fails i ws ref w err w' s)
  with assms(2) wpD [OF retry_adds pull_fails(5)] show ?thesis by (auto intro: pulled_ok)
next
  case (releases i ws ref s w s' w')
  with assms(2) wpD [OF releases_ok] show ?thesis by blast
qed

lemma reachable_ok:
  assumes "(image_step D)\<^sup>*\<^sup>* (newImageSet keep, w, replicate n Idle) y" "old \<subseteq> present w" "\<forall>ref \<in> old. told ref"
  shows "images_ok present old y"
  using assms(1)
proof induction
  case base
  then show ?case
    using assms(2) by (intro images_okI) (auto simp: newImageSet_def usersOf_def sum_list_replicate)
next
  case (step y z)
  then show ?case using step_ok assms(3) by blast
qed

end

subsection \<open>A docker daemon in memory\<close>

text \<open>
  The images of the host; pulls of the image \<open>''gone''\<close> fail, and so do inspections of the
  images \<open>mute\<close>.
\<close>

definition mem_docker :: "string list \<Rightarrow> string list docker_env" where
  "mem_docker mute = \<lparr>
     dkRun = (\<lambda>args. State (\<lambda>w.
       (let ok = Inr \<lparr>hbText = [], hbJson = None\<rparr>; no = Inl (GoErr ''No such image'') in
        case args of
          [a, b] \<Rightarrow> if a = ''rmi'' then (ok, removeAll b w) else (ok, w)
        | [a, b, c, d, ref] \<Rightarrow>
            if a = ''image'' then (if ref \<in> set w \<and> ref \<notin> set mute then ok else no, w)
            else if ref = ''gone'' then (no, w) else (ok, List.insert ref w)
        | _ \<Rightarrow> (ok, w)))),
     dkWait = (\<lambda>_. ret (Inr ()))\<rparr>"

interpretation mem_host: docker_host "mem_docker mute" set for mute
  by unfold_locales (auto simp: mem_docker_def inspectArgs_def pullArgs_def wp_def Let_def)

text \<open>
  C22: The images of a smoke run are shared safely: from an empty set and any number of idle
  workers, whatever the order in which they register, pull, fail and release, and whichever
  commands fail, an image a worker has pulled and not released is on the host. An image that was
  on the host before the run is still there, provided that no inspection of it fails while it is
  there: the code takes every failure, a cancelled command included, for a missing image.
\<close>

theorem images_shared_safely:
  assumes "docker_host D present"
    and "(image_step D)\<^sup>*\<^sup>* (newImageSet keep, w, replicate n Idle) (s, w', ws)"
  shows "(\<forall>ref. Using ref \<in> set ws \<longrightarrow> ref \<in> present w') \<and>
    (\<forall>ref \<in> present w. (\<forall>v. ref \<in> present v \<longrightarrow> wp (dkRun D (inspectArgs ref)) (\<lambda>r _. \<not> isl r) v) \<longrightarrow> ref \<in> present w')"
proof -
  have "images_ok present {} (s, w', ws)" by (rule docker_host.reachable_ok [OF assms]) simp_all
  moreover have "images_ok present {ref} (s, w', ws)"
    if "ref \<in> present w" "\<forall>v. ref \<in> present v \<longrightarrow> wp (dkRun D (inspectArgs ref)) (\<lambda>r _. \<not> isl r) v" for ref
    by (rule docker_host.reachable_ok [OF assms]) (use that in \<open>simp_all add: docker_host.told_def [OF assms(1)]\<close>)
  ultimately show ?thesis by (auto simp: images_ok_def)
qed

text \<open>Two workers share an image that was not there; the first one is done.\<close>

theorem images_shared_safely_witness:
  "\<exists>s w'. (image_step (mem_docker []))\<^sup>*\<^sup>* (newImageSet False, [''busybox''], replicate 2 Idle) (s, w', [Idle, Using ''geth'']) \<and>
     {''geth'', ''busybox''} \<subseteq> set w'"
proof -
  let ?D = "mem_docker []" and ?s = "newImageSet False" and ?w = "[''busybox'']"
  define s1 where "s1 = fst (run_state (acquire_locked ?D ?s ''geth'') ?w)"
  define s2 where "s2 = fst (run_state (acquire_locked ?D s1 ''geth'') ?w)"
  define s3 where "s3 = fst (run_state (release ?D s2 ''geth'') [''geth'', ''busybox''])"
  note steps = mem_docker_def acquire_locked_def dockerRetry_def release_def newImageSet_def inspectArgs_def pullArgs_def Let_def
    s1_def s2_def s3_def
  have "image_step ?D (?s, ?w, [Idle, Idle]) (s1, ?w, [Pulling ''geth'', Idle])"
    using registers [of 0 "[Idle, Idle]" ?D ?s "''geth''" ?w s1 ?w] by (simp add: steps)
  moreover have "image_step ?D (s1, ?w, [Pulling ''geth'', Idle]) (s2, ?w, [Pulling ''geth'', Pulling ''geth''])"
    using registers [of 1 "[Pulling ''geth'', Idle]" ?D s1 "''geth''" ?w s2 ?w] by (simp add: steps)
  moreover have "image_step ?D (s2, ?w, [Pulling ''geth'', Pulling ''geth'']) (s2, [''geth'', ''busybox''], [Using ''geth'', Pulling ''geth''])"
    using pulls [of 0 "[Pulling ''geth'', Pulling ''geth'']" "''geth''" ?D ?w "\<lparr>hbText = [], hbJson = None\<rparr>" "[''geth'', ''busybox'']" s2]
    by (simp add: steps)
  moreover have "image_step ?D (s2, [''geth'', ''busybox''], [Using ''geth'', Pulling ''geth''])
      (s2, [''geth'', ''busybox''], [Using ''geth'', Using ''geth''])"
    using pulls [of 1 "[Using ''geth'', Pulling ''geth'']" "''geth''" ?D "[''geth'', ''busybox'']" "\<lparr>hbText = [], hbJson = None\<rparr>"
        "[''geth'', ''busybox'']" s2]
    by (simp add: steps)
  moreover have "image_step ?D (s2, [''geth'', ''busybox''], [Using ''geth'', Using ''geth''])
      (s3, [''geth'', ''busybox''], [Idle, Using ''geth''])"
    using releases [of 0 "[Using ''geth'', Using ''geth'']" "''geth''" ?D s2 "[''geth'', ''busybox'']" s3 "[''geth'', ''busybox'']"]
    by (simp add: steps)
  ultimately have "(image_step ?D)\<^sup>*\<^sup>* (?s, ?w, [Idle, Idle]) (s3, [''geth'', ''busybox''], [Idle, Using ''geth''])"
    by (meson rtranclp.rtrancl_refl rtranclp.rtrancl_into_rtrancl)
  moreover have "[Idle, Idle] = replicate 2 Idle" by (simp add: numeral_2_eq_2)
  ultimately have run: "(image_step ?D)\<^sup>*\<^sup>* (?s, ?w, replicate 2 Idle) (s3, [''geth'', ''busybox''], [Idle, Using ''geth''])" by simp
  note safe = images_shared_safely [OF mem_host.docker_host_axioms run]
  have "''geth'' \<in> set [''geth'', ''busybox'']" by (rule mp [OF spec [OF conjunct1 [OF safe]]]) simp
  moreover have "''busybox'' \<in> set [''geth'', ''busybox'']"
    by (rule mp [OF bspec [OF conjunct2 [OF safe]]]) (simp_all add: mem_docker_def inspectArgs_def wp_def)
  ultimately have "{''geth'', ''busybox''} \<subseteq> set [''geth'', ''busybox'']" by (intro insert_subsetI empty_subsetI)
  with run show ?thesis by (intro exI conjI)
qed

text \<open>An image that was on the host and whose inspection failed is removed by its only user.\<close>

lemma failed_inspection_loses_image:
  "\<exists>s. (image_step (mem_docker [''busybox'']))\<^sup>*\<^sup>* (newImageSet False, [''busybox''], [Idle]) (s, [], [Idle])"
proof -
  let ?D = "mem_docker [''busybox'']" and ?s = "newImageSet False" and ?w = "[''busybox'']"
  define s1 where "s1 = fst (run_state (acquire_locked ?D ?s ''busybox'') ?w)"
  define s2 where "s2 = fst (run_state (release ?D s1 ''busybox'') ?w)"
  note steps = mem_docker_def acquire_locked_def dockerRetry_def release_def newImageSet_def inspectArgs_def pullArgs_def Let_def s1_def s2_def
  have "image_step ?D (?s, ?w, [Idle]) (s1, ?w, [Pulling ''busybox''])"
    using registers [of 0 "[Idle]" ?D ?s "''busybox''" ?w s1 ?w] by (simp add: steps)
  moreover have "image_step ?D (s1, ?w, [Pulling ''busybox'']) (s1, ?w, [Using ''busybox''])"
    using pulls [of 0 "[Pulling ''busybox'']" "''busybox''" ?D ?w "\<lparr>hbText = [], hbJson = None\<rparr>" ?w s1] by (simp add: steps)
  moreover have "image_step ?D (s1, ?w, [Using ''busybox'']) (s2, [], [Idle])"
    using releases [of 0 "[Using ''busybox'']" "''busybox''" ?D s1 ?w s2 "[]"] by (simp add: steps)
  ultimately show ?thesis by (meson rtranclp.rtrancl_refl rtranclp.rtrancl_into_rtrancl)
qed

end
