(* ===== verification/Smoke_Check.thy ===== *)
theory Smoke_Check
  imports Smoke_Images Adapter_Http Chain_Identity Controller_Helpers Registry
begin

text \<open>
  How the smoke test judges a run: \<open>cmd/chainsmoke/logmatch.go\<close> (what the log says) and
  \<open>identity.go\<close> (what the node did), with the small helpers of \<open>level0.go\<close> and \<open>report.go\<close>. The
  regular expressions are written out as predicates on lines of ASCII letters; what a command
  prints is a text with its JSON tree, if it has one.
\<close>

subsection \<open>Texts\<close>

definition firstLine :: "string \<Rightarrow> string" where
  "firstLine s = takeWhile (\<lambda>c. c \<noteq> CHR 0x0A) (TrimSpace s)"

text \<open>The runes of a UTF-8 text: a byte that continues a rune belongs to the one before.\<close>

fun runes :: "string \<Rightarrow> string list" where
  "runes [] = []"
| "runes (c # s) = (case runes s of
     [] \<Rightarrow> [[c]]
   | r # rs \<Rightarrow> if (case r of [] \<Rightarrow> False | d # _ \<Rightarrow> 128 \<le> (of_char d :: nat) \<and> (of_char d :: nat) < 192)
               then (c # r) # rs else [c] # r # rs)"

definition truncate_text :: "string \<Rightarrow> nat \<Rightarrow> string" where
  "truncate_text s n =
     (if length (runes s) \<le> n then s else concat (take (n - 1) (runes s)) @ [CHR 0xE2, CHR 0x80, CHR 0xA6])"

text \<open>\<open>strings.Lines\<close>, the final newline of each line aside.\<close>

definition log_lines :: "string \<Rightarrow> string list" where
  "log_lines s = (let ls = Split s (CHR 0x0A) in if last ls = [] then butlast ls else ls)"

subsection \<open>What the log says\<close>

definition statusPass :: string where "statusPass = ''PASS''"
definition statusWarn :: string where "statusWarn = ''WARN''"
definition statusFail :: string where "statusFail = ''FAIL''"
definition statusSkip :: string where "statusSkip = ''SKIP''"

fun match_at :: "(string \<Rightarrow> bool) \<Rightarrow> string \<Rightarrow> bool" where
  "match_at P [] = P []"
| "match_at P (c # s) = (P (c # s) \<or> match_at P s)"

definition failLogRe :: "string \<Rightarrow> bool" where
  "failLogRe line \<longleftrightarrow>
     list_ex (Contains (ToLower line))
       [''unknown flag'', ''flag provided but not defined'', ''unrecognized option'', ''unrecognized argument'',
        ''invalid argument'', ''invalid option'', ''invalid flag'', ''error parsing'', ''failed to parse'', ''fatal error:''] \<or>
     match_at (\<lambda>s. HasPrefix s ''panic:'' \<and> (case drop 6 s of [] \<Rightarrow> True | d # _ \<Rightarrow> d \<noteq> CHR '':'')) (ToLower line) \<or>
     match_at (\<lambda>s. HasPrefix s ''no such file or directory'' \<and>
       Contains (takeWhile (\<lambda>c. c \<noteq> CHR 0x0A) (drop 25 s)) ''config'') (ToLower line)"

definition diskFullLogRe :: "string \<Rightarrow> bool" where
  "diskFullLogRe line \<longleftrightarrow> Contains (ToLower line) ''low disk space'' \<or> Contains (ToLower line) ''no space left on device''"

definition recoveredPanicRe :: "string \<Rightarrow> bool" where
  "recoveredPanicRe line \<longleftrightarrow> Contains (ToLower line) ''recovered from panic''"

definition warnLogRe :: "string \<Rightarrow> bool" where
  "warnLogRe line \<longleftrightarrow> hasWord ''fatal'' line \<or> hasWord ''error'' line"

record logScan =
  lsDiskFull :: string
  lsFailLine :: string
  lsWarnCount :: int
  lsFirstWarn :: string
  lsLastWarn :: string

definition zero_scan :: logScan where
  "zero_scan = \<lparr>lsDiskFull = [], lsFailLine = [], lsWarnCount = 0, lsFirstWarn = [], lsLastWarn = []\<rparr>"

definition scan_line :: "logScan \<Rightarrow> string \<Rightarrow> logScan" where
  "scan_line s line0 =
     (let line = TrimSpace line0 in
      if diskFullLogRe line then (if lsDiskFull s = [] then s\<lparr>lsDiskFull := line\<rparr> else s)
      else if failLogRe line \<and> \<not> recoveredPanicRe line then (if lsFailLine s = [] then s\<lparr>lsFailLine := line\<rparr> else s)
      else if warnLogRe line then
        (let s = s\<lparr>lsWarnCount := lsWarnCount s + 1\<rparr>;
             s = (if lsFirstWarn s = [] then s\<lparr>lsFirstWarn := line\<rparr> else s)
         in s\<lparr>lsLastWarn := line\<rparr>)
      else s)"

definition scanLog :: "string \<Rightarrow> logScan" where
  "scanLog logs = foldl scan_line zero_scan (log_lines logs)"

record containerState =
  cnRunning :: bool
  cnExitCode :: int
  cnOOMKilled :: bool
  cnError :: string

definition verdict :: "containerState \<Rightarrow> duration \<Rightarrow> logScan \<Rightarrow> string \<times> string" where
  "verdict st ranFor s =
     (if lsDiskFull s \<noteq> [] \<and> lsFailLine s = []
      then (statusWarn, ''tmpfs too small, raise --tmpfs-size: '' @ lsDiskFull s)
      else if \<not> cnRunning st
      then (statusFail,
        ''exited with code '' @ Itoa (cnExitCode st) @ '' after '' @ dur_String (dur_Round ranFor Second) @
        (if cnOOMKilled st then '' (OOM killed)'' else []) @
        (if cnError st \<noteq> [] then '': '' @ cnError st else []) @
        (if lsFailLine s \<noteq> [] then ''; '' @ lsFailLine s
         else if lsLastWarn s \<noteq> [] then ''; '' @ lsLastWarn s else []))
      else if lsFailLine s \<noteq> [] then (statusFail, lsFailLine s)
      else if lsWarnCount s > 0
      then (statusWarn, Itoa (lsWarnCount s) @ '' error line(s), first: '' @ lsFirstWarn s)
      else (statusPass, ''running after '' @ dur_String (dur_Round ranFor Second)))"

subsection \<open>What the node did\<close>

definition minDataKiB :: int where "minDataKiB = 64"

definition dataCheckExempt :: "(Chain \<times> string) list" where "dataCheckExempt = []"

definition cometBFTRPCPort :: int where "cometBFTRPCPort = 26657"

definition rpcAttempts :: nat where "rpcAttempts = 3"

definition rpcRetryDelay :: duration where "rpcRetryDelay = 2 * Second"

record identityTarget =
  itChain :: Chain
  itMain :: string
  itNetOwner :: string
  itPrefix :: string
  itDataPath :: string
  itChainID :: nat
  itEvmRPC :: string
  itCometBFTNet :: string

text \<open>The named port that is not UDP, in the order of the names.\<close>

definition evmRPCPort :: "ContainerPort list \<Rightarrow> int option" where
  "evmRPCPort ports =
     (let named = (\<lambda>name. find (\<lambda>p. cpName p = name \<and> cpProtocol p \<noteq> ''UDP'') ports) in
      map_option cpPort (case named ''evm-rpc'' of Some p \<Rightarrow> Some p | None \<Rightarrow>
        (case named ''rpc'' of Some p \<Rightarrow> Some p | None \<Rightarrow> named ''http'')))"

definition DataVolumeName :: string where "DataVolumeName = ''data''"

definition newIdentityTarget :: "ChainInstanceSpec \<Rightarrow> Container \<Rightarrow> string \<Rightarrow> string \<Rightarrow> string \<Rightarrow> identityTarget" where
  "newIdentityTarget spec mc main netOwner prefix =
     (let t = \<lparr>itChain = spChain spec, itMain = main, itNetOwner = netOwner, itPrefix = prefix, itDataPath = [],
               itChainID = 0, itEvmRPC = [], itCometBFTNet = []\<rparr>;
          t = (case find (\<lambda>m. vmName m = DataVolumeName) (ctMounts mc) of
                 None \<Rightarrow> t | Some m \<Rightarrow> t\<lparr>itDataPath := vmMountPath m\<rparr>);
          t = (case (ExpectedEVMChainID (spChain spec) (spNetwork spec), evmRPCPort (ctPorts mc)) of
                 (Some chainID, Some port) \<Rightarrow>
                   t\<lparr>itChainID := chainID, itEvmRPC := ''http://127.0.0.1:'' @ Itoa port @ EVMRPCPath (spChain spec)\<rparr>
               | _ \<Rightarrow> t)
      in (case ExpectedCosmosChainID (spChain spec) (spNetwork spec) of
            None \<Rightarrow> t | Some net \<Rightarrow> t\<lparr>itCometBFTNet := net\<rparr>))"

record identityFindings =
  ifFails :: "string list"
  ifWarns :: "string list"
  ifFacts :: "string list"
  ifNotes :: "string list"

definition add_finding :: "identityFindings \<Rightarrow> string \<times> string \<Rightarrow> identityFindings" where
  "add_finding f = (\<lambda>(fail, fact).
     if fail \<noteq> [] then f\<lparr>ifFails := ifFails f @ [fail]\<rparr> else f\<lparr>ifFacts := ifFacts f @ [fact]\<rparr>)"

definition add_warn :: "string \<Rightarrow> identityFindings \<Rightarrow> identityFindings" where
  "add_warn warn f = f\<lparr>ifWarns := ifWarns f @ [warn]\<rparr>"

definition humanKiB :: "int \<Rightarrow> string" where
  "humanKiB kib =
     (if kib \<ge> 2 ^ 20 then FormatFixed 1 (f_div (f_of_int kib) (Fin (2 ^ 20))) @ '' GiB''
      else if kib \<ge> 2 ^ 10 then Itoa (kib div 2 ^ 10) @ '' MiB''
      else Itoa kib @ '' KiB'')"

definition dataFinding :: "string \<Rightarrow> int \<Rightarrow> string \<times> string" where
  "dataFinding dataPath kib =
     (if kib < minDataKiB
      then (''node wrote nothing to '' @ dataPath @ '' ('' @ Itoa kib @ '' KiB): config/datadir not applied'', [])
      else ([], dataPath @ '' '' @ humanKiB kib))"

definition chainIDFinding :: "nat \<Rightarrow> nat \<Rightarrow> string \<times> string" where
  "chainIDFinding got want =
     (if got \<noteq> want then (''chain id '' @ nat_digits 10 got @ '', expected '' @ nat_digits 10 want, [])
      else ([], ''chain id '' @ nat_digits 10 got))"

definition networkFinding :: "string \<Rightarrow> string \<Rightarrow> string \<times> string" where
  "networkFinding got want =
     (if got \<noteq> want then (''network '' @ got @ '', expected '' @ want, []) else ([], ''network '' @ got))"

text \<open>\<open>strconv.ParseUint(s, 16, 64)\<close>.\<close>

definition ParseUintHex :: "string \<Rightarrow> nat option" where
  "ParseUintHex s =
     (if s \<noteq> [] \<and> list_all (is_digit 16) s \<and> digits_value 16 s < 2 ^ 64 then Some (digits_value 16 s) else None)"

text \<open>The answer to a call: its result and the message of its error, if there is one.\<close>

definition dec_answer :: "(string \<times> string option) decoder" where
  "dec_answer = dec_and (dec_path [''result''] dec_string)
     (dec_path [''error''] (dec_ptr (dec_path [''message''] dec_string) []))"

definition not_json :: "string \<Rightarrow> string \<Rightarrow> http_body \<Rightarrow> goerr" where
  "not_json what kind body = GoErr (what @ '': not '' @ kind @ '': '' @ truncate_text (TrimSpace (hbText body)) 80)"

definition parseChainID :: "http_body \<Rightarrow> goerr + nat" where
  "parseChainID body = (case unmarshal_raw dec_answer (hbJson body) ([], None) of
     None \<Rightarrow> Inl (not_json ''eth_chainId'' ''JSON-RPC'' body)
   | Some (_, Some message) \<Rightarrow> Inl (GoErr (''eth_chainId: '' @ message))
   | Some (result, None) \<Rightarrow>
       if \<not> HasPrefix result ''0x'' \<or> drop 2 result = []
       then Inl (GoErr (''eth_chainId: result '' @ Quote result @ '' is not a hex quantity''))
       else (case ParseUintHex (drop 2 result) of
          None \<Rightarrow> Inl (WrapErr (''eth_chainId: result '' @ Quote result) (GoErr ''strconv.ParseUint''))
        | Some n \<Rightarrow> Inr n))"

definition parseNetVersion :: "http_body \<Rightarrow> goerr + nat" where
  "parseNetVersion body = (case unmarshal_raw dec_answer (hbJson body) ([], None) of
     None \<Rightarrow> Inl (not_json ''net_version'' ''JSON-RPC'' body)
   | Some (_, Some message) \<Rightarrow> Inl (GoErr (''net_version: '' @ message))
   | Some (result, None) \<Rightarrow> (case ParseUint64 result of
       None \<Rightarrow> Inl (WrapErr (''net_version: result '' @ Quote result) (GoErr ''strconv.ParseUint''))
     | Some n \<Rightarrow> Inr n))"

definition parseCometBFTNetwork :: "http_body \<Rightarrow> goerr + string" where
  "parseCometBFTNetwork body =
     (case unmarshal_raw (dec_and (dec_path [''result'', ''node_info'', ''network''] dec_string)
             (dec_path [''node_info'', ''network''] dec_string)) (hbJson body) ([], []) of
        None \<Rightarrow> Inl (not_json ''/status'' ''JSON'' body)
      | Some (wrapped, plain) \<Rightarrow>
          (let n = (if wrapped \<noteq> [] then wrapped else plain) in
           if n \<noteq> [] then Inr n else Inl (GoErr ''/status: no node_info.network'')))"

definition parseDu :: "string \<Rightarrow> goerr + int" where
  "parseDu out = (case Fields out of
     [] \<Rightarrow> Inl (GoErr ''du printed nothing'')
   | field # _ \<Rightarrow> (case ParseInt64 10 field of
       None \<Rightarrow> Inl (WrapErr (''parsing du output '' @ Quote (TrimSpace out)) (GoErr ''strconv.ParseInt''))
     | Some n \<Rightarrow> Inr n))"

text \<open>\<open>path.Join(dir, p)\<close> below an absolute directory.\<close>

fun clean_parts :: "string list \<Rightarrow> string list \<Rightarrow> string list" where
  "clean_parts done [] = rev done"
| "clean_parts done (p # ps) =
     (if p = [] \<or> p = ''.'' then clean_parts done ps
      else if p = ''..'' then clean_parts (drop 1 done) ps
      else clean_parts (p # done) ps)"

definition path_Join :: "string \<Rightarrow> string \<Rightarrow> string" where
  "path_Join dir p = ''/'' @ Join (clean_parts [] (Split (dir @ ''/'' @ p) (CHR ''/''))) ''/''"

definition labelArgs :: "string \<Rightarrow> string list" where
  "labelArgs prefix = [''--label'', ''chainsmoke=1''] @ (if prefix \<noteq> [] then [''--label'', ''chainsmoke.prefix='' @ prefix] else [])"

definition busyboxImage :: string where "busyboxImage = ''busybox:1.36''"

definition dataUsageKiB :: "('w, 'x) docker_env_scheme \<Rightarrow> identityTarget \<Rightarrow> ('w, goerr + int) state" where
  "dataUsageKiB D t = do {
     r \<leftarrow> dkRun D ([''run'', ''--rm'', ''--platform'', smokePlatform, ''--pid'', ''container:'' @ itMain t, ''--cap-add'', ''SYS_PTRACE''] @
            labelArgs (itPrefix t) @ [busyboxImage, ''du'', ''-sk'', path_Join ''/proc/1/root'' (itDataPath t)]);
     ret (case r of Inl err \<Rightarrow> Inl err | Inr out \<Rightarrow> parseDu (hbText out)) }"

text \<open>The attempts left, and the error of the last one.\<close>

fun rpc_attempts :: "('w, 'x) docker_env_scheme \<Rightarrow> string list \<Rightarrow> nat \<Rightarrow> goerr \<Rightarrow> ('w, goerr + http_body) state" where
  "rpc_attempts D args 0 err = ret (Inl (GoErr (TrimPrefix (err_text err) ''docker run: '')))"
| "rpc_attempts D args (Suc left) err = do {
     wr \<leftarrow> dkWait D rpcRetryDelay;
     case wr of
       Inl ctxErr \<Rightarrow> ret (Inl ctxErr)
     | Inr _ \<Rightarrow> do {
         r \<leftarrow> dkRun D args;
         case r of Inr out \<Rightarrow> ret (Inr out) | Inl err \<Rightarrow> rpc_attempts D args left err } }"

definition rpcCall :: "('w, 'x) docker_env_scheme \<Rightarrow> identityTarget \<Rightarrow> string \<Rightarrow> string \<Rightarrow> ('w, goerr + http_body) state" where
  "rpcCall D t url body = do {
     let args = [''run'', ''--rm'', ''--platform'', smokePlatform, ''--network'', ''container:'' @ itNetOwner t] @ labelArgs (itPrefix t) @
                [busyboxImage, ''wget'', ''-q'', ''-O'', ''-'', ''-T'', ''5''] @
                (if body \<noteq> [] then [''--header'', ''Content-Type: application/json'', ''--post-data'', body] else []) @ [url];
     r \<leftarrow> dkRun D args;
     case r of Inr out \<Rightarrow> ret (Inr out) | Inl err \<Rightarrow> rpc_attempts D args (rpcAttempts - 1) err }"

definition checkEVMChainID ::
    "identityFindings \<Rightarrow> nat \<Rightarrow> (string \<Rightarrow> ('w, goerr + http_body) state) \<Rightarrow> ('w, identityFindings) state" where
  "checkEVMChainID f want call = do {
     r \<leftarrow> call ''eth_chainId'';
     case (case r of Inl err \<Rightarrow> Inl err | Inr body \<Rightarrow> parseChainID body) of
       Inl err \<Rightarrow> ret (add_warn (''rpc not ready: '' @ firstLine (err_text err)) f)
     | Inr got \<Rightarrow>
         if got \<noteq> 0 then ret (add_finding f (chainIDFinding got want))
         else do {
           v \<leftarrow> call ''net_version'';
           ret (case (case v of Inl err \<Rightarrow> Inl err | Inr body \<Rightarrow> parseNetVersion body) of
             Inl _ \<Rightarrow> add_warn ''chain id not reported yet (eth_chainId=0)'' f
           | Inr got \<Rightarrow>
               if got = 0 then add_warn ''chain id not reported yet (eth_chainId=0)'' f
               else (case chainIDFinding got want of (fail, verified) \<Rightarrow>
                 add_finding f (fail, if verified \<noteq> [] then verified @ '' via net_version (eth_chainId=0 before EIP155)'' else verified))) } }"

definition rpcPayload :: "string \<Rightarrow> string" where
  \<open>rpcPayload method = ''{"jsonrpc":"2.0","id":1,"method":'' @ Quote method @ '',"params":[]}''\<close>

definition statusURL :: string where
  "statusURL = ''http://127.0.0.1:'' @ Itoa cometBFTRPCPort @ ''/status''"

definition checkIdentity :: "('w, 'x) docker_env_scheme \<Rightarrow> identityTarget \<Rightarrow> ('w, identityFindings) state" where
  "checkIdentity D t = do {
     let f = \<lparr>ifFails = [], ifWarns = [], ifFacts = [], ifNotes = []\<rparr>;
     f \<leftarrow> (if itDataPath t = [] then ret f
           else (case map_of dataCheckExempt (itChain t) of
               Some reason \<Rightarrow> ret (f\<lparr>ifNotes := [''data check skipped: '' @ reason]\<rparr>)
             | None \<Rightarrow> do {
                 r \<leftarrow> dataUsageKiB D t;
                 ret (case r of
                   Inl err \<Rightarrow> f\<lparr>ifNotes := [''data check: '' @ firstLine (err_text err)]\<rparr>
                 | Inr kib \<Rightarrow> add_finding f (dataFinding (itDataPath t) kib)) }));
     f \<leftarrow> (if itChainID t \<noteq> 0 then checkEVMChainID f (itChainID t) (\<lambda>m. rpcCall D t (itEvmRPC t) (rpcPayload m)) else ret f);
     if itCometBFTNet t = [] then ret f
     else do {
       r \<leftarrow> rpcCall D t statusURL [];
       ret (case (case r of Inl err \<Rightarrow> Inl err | Inr body \<Rightarrow> parseCometBFTNetwork body) of
         Inl err \<Rightarrow> add_warn (''cometbft rpc not ready: '' @ firstLine (err_text err)) f
       | Inr got \<Rightarrow> add_finding f (networkFinding got (itCometBFTNet t))) } }"

definition applyIdentity :: "string \<Rightarrow> string \<Rightarrow> identityFindings \<Rightarrow> string \<times> string \<times> string list" where
  "applyIdentity status detail f =
     (if ifFails f \<noteq> []
      then (statusFail, Join (ifFails f @ [detail]) ''; '', ifNotes f @ ifWarns f @ ifFacts f)
      else
        (let (status, detail, notes) =
               (if ifWarns f \<noteq> [] \<and> status = statusPass
                then (statusWarn, Join (ifWarns f @ [detail]) ''; '', ifNotes f)
                else (status, detail, ifNotes f @ ifWarns f))
         in if status = statusPass then (status, Join ([detail] @ ifFacts f) ''; '', notes)
            else (status, detail, notes @ ifFacts f)))"

subsection \<open>A passed run\<close>

lemma status_distinct [simp]:
  "statusPass \<noteq> statusWarn" "statusPass \<noteq> statusFail" "statusWarn \<noteq> statusPass" "statusFail \<noteq> statusPass"
  "statusWarn \<noteq> statusFail" "statusFail \<noteq> statusWarn"
  by (simp_all add: statusPass_def statusWarn_def statusFail_def)

text \<open>Lines that count: a full disk, a flag or configuration error or a crash, other errors.\<close>

definition bad_line :: "string \<Rightarrow> bool" where
  "bad_line line \<longleftrightarrow> failLogRe line \<and> \<not> recoveredPanicRe line \<and> \<not> diskFullLogRe line"

lemma match_at_Nil: "\<not> P [] \<Longrightarrow> match_at P s \<Longrightarrow> s \<noteq> []"
  by auto

lemma lines_nonempty:
  "\<not> failLogRe []" "\<not> diskFullLogRe []" "\<not> warnLogRe []"
  by (simp_all add: failLogRe_def diskFullLogRe_def warnLogRe_def hasWord_def ToLower_def)

lemma scan_fold:
  "lsDiskFull (foldl scan_line s ls) = [] \<longleftrightarrow> lsDiskFull s = [] \<and> list_all (\<lambda>l. \<not> diskFullLogRe (TrimSpace l)) ls"
  "lsFailLine (foldl scan_line s ls) = [] \<longleftrightarrow> lsFailLine s = [] \<and> list_all (\<lambda>l. \<not> bad_line (TrimSpace l)) ls"
  "0 \<le> lsWarnCount s \<Longrightarrow> lsWarnCount (foldl scan_line s ls) = lsWarnCount s +
     int (length (filter (\<lambda>l. warnLogRe (TrimSpace l) \<and> \<not> bad_line (TrimSpace l) \<and> \<not> diskFullLogRe (TrimSpace l)) ls))"
proof (induction ls arbitrary: s)
  case (Cons l ls)
  {
    case 1
    have "TrimSpace l \<noteq> []" if "diskFullLogRe (TrimSpace l)" using that lines_nonempty by metis
    with Cons(1) show ?case by (auto simp: scan_line_def Let_def)
  next
    case 2
    have "TrimSpace l \<noteq> []" if "failLogRe (TrimSpace l)" using that lines_nonempty by metis
    with Cons(2) show ?case by (auto simp: scan_line_def Let_def bad_line_def)
  next
    case 3
    have "0 \<le> lsWarnCount (scan_line s l)" using 3 by (simp add: scan_line_def Let_def)
    from Cons(3) [OF this] show ?case by (auto simp: scan_line_def Let_def bad_line_def)
  }
qed simp_all

lemma verdict_pass:
  assumes "verdict st ranFor (scanLog logs) = (statusPass, detail)"
  shows "cnRunning st" "l \<in> set (log_lines logs) \<Longrightarrow>
    \<not> diskFullLogRe (TrimSpace l) \<and> \<not> bad_line (TrimSpace l) \<and> \<not> warnLogRe (TrimSpace l)"
proof -
  have *: "cnRunning st" "lsDiskFull (scanLog logs) = []" "lsFailLine (scanLog logs) = []" "\<not> lsWarnCount (scanLog logs) > 0"
    using assms by (auto simp: verdict_def split: if_splits)
  then show "cnRunning st" by simp
  assume l: "l \<in> set (log_lines logs)"
  have "length (filter (\<lambda>l. warnLogRe (TrimSpace l) \<and> \<not> bad_line (TrimSpace l) \<and> \<not> diskFullLogRe (TrimSpace l)) (log_lines logs)) = 0"
    using *(4) scan_fold(3) [of zero_scan "log_lines logs"] by (simp add: scanLog_def zero_scan_def)
  then show "\<not> diskFullLogRe (TrimSpace l) \<and> \<not> bad_line (TrimSpace l) \<and> \<not> warnLogRe (TrimSpace l)"
    using *(2,3) scan_fold(1,2) [of zero_scan "log_lines logs"] l by (auto simp: scanLog_def list_all_iff filter_empty_conv)
qed

definition clean :: "identityFindings \<Rightarrow> bool" where
  "clean f \<longleftrightarrow> ifFails f = [] \<and> ifWarns f = []"

lemma applyIdentity_pass:
  "applyIdentity status detail f = (statusPass, detail', notes) \<Longrightarrow> status = statusPass \<and> clean f"
  by (auto simp: applyIdentity_def clean_def Let_def split: if_splits)

lemma clean_simps [simp]:
  "\<not> clean (add_warn text f)"
  "clean (add_finding f (fail, verified)) \<longleftrightarrow> fail = [] \<and> clean f"
  "clean (f\<lparr>ifNotes := notes\<rparr>) \<longleftrightarrow> clean f"
  by (auto simp: clean_def add_warn_def add_finding_def)

lemma findings_fail [simp]:
  "fst (chainIDFinding got want) = [] \<longleftrightarrow> got = want" "fst (networkFinding net net') = [] \<longleftrightarrow> net = net'"
  by (simp_all add: chainIDFinding_def networkFinding_def)

lemma chainIDFinding_same: "chainIDFinding got want = ([], v) \<Longrightarrow> got = want"
  by (metis findings_fail(1) fst_conv)

lemma clean_finding: "clean (add_finding f x) \<longleftrightarrow> fst x = [] \<and> clean f"
  by (cases x) simp

text \<open>
  The steps of a clean identity check, each from the state of the world in which the check made
  it to the one after it: the size of the data directory, if it could be read, is large enough;
  the expected identifier came back, from the second call when the first one answered zero; and
  so did the expected network.
\<close>

definition data_written :: "('w, 'x) docker_env_scheme \<Rightarrow> identityTarget \<Rightarrow> 'w \<Rightarrow> 'w \<Rightarrow> bool" where
  "data_written D t w w' \<longleftrightarrow>
     (if itDataPath t = [] \<or> map_of dataCheckExempt (itChain t) \<noteq> None then w' = w
      else (case run_state (dataUsageKiB D t) w of (r, w1) \<Rightarrow> w' = w1 \<and> (isl r \<or> minDataKiB \<le> projr r)))"

definition answers_id :: "(string \<Rightarrow> ('w, goerr + http_body) state) \<Rightarrow> nat \<Rightarrow> 'w \<Rightarrow> 'w \<Rightarrow> bool" where
  "answers_id call want w w' \<longleftrightarrow>
     (if want = 0 then w' = w
      else (\<exists>body w1. run_state (call ''eth_chainId'') w = (Inr body, w1) \<and>
        (parseChainID body = Inr want \<and> w' = w1 \<or>
         parseChainID body = Inr 0 \<and> (\<exists>body'. run_state (call ''net_version'') w1 = (Inr body', w') \<and> parseNetVersion body' = Inr want))))"

definition answers_network :: "('w, goerr + http_body) state \<Rightarrow> string \<Rightarrow> 'w \<Rightarrow> 'w \<Rightarrow> bool" where
  "answers_network call want w w' \<longleftrightarrow>
     (if want = [] then w' = w
      else (\<exists>body. run_state call w = (Inr body, w') \<and> parseCometBFTNetwork body = Inr want))"

lemma dataFinding_fail: "fst (dataFinding path kib) = [] \<longleftrightarrow> minDataKiB \<le> kib"
  by (simp add: dataFinding_def)

lemma data_clean:
  "wp (if itDataPath t = [] then ret f
       else (case map_of dataCheckExempt (itChain t) of
           Some reason \<Rightarrow> ret (f\<lparr>ifNotes := [''data check skipped: '' @ reason]\<rparr>)
         | None \<Rightarrow> do {
             r \<leftarrow> dataUsageKiB D t;
             ret (case r of
               Inl err \<Rightarrow> f\<lparr>ifNotes := [''data check: '' @ firstLine (err_text err)]\<rparr>
             | Inr kib \<Rightarrow> add_finding f (dataFinding (itDataPath t) kib)) }))
     (\<lambda>f' w'. clean f' \<longrightarrow> data_written D t w w') w"
proof (cases "itDataPath t = [] \<or> map_of dataCheckExempt (itChain t) \<noteq> None")
  case False
  then have "itDataPath t \<noteq> []" "map_of dataCheckExempt (itChain t) = None" by auto
  then show ?thesis
    by (auto simp: wp_def data_written_def State_Monad.bind_def clean_finding dataFinding_fail split: prod.splits sum.splits)
qed (auto simp: data_written_def)

lemma checkEVMChainID_clean:
  assumes "want \<noteq> 0"
  shows "wp (checkEVMChainID f want call) (\<lambda>f' w'. clean f' \<longrightarrow> clean f \<and> answers_id call want w w') w"
proof (rule wpI)
  fix f' w' assume run: "run_state (checkEVMChainID f want call) w = (f', w')"
  obtain r w1 where first: "run_state (call ''eth_chainId'') w = (r, w1)" by fastforce
  show "clean f' \<longrightarrow> clean f \<and> answers_id call want w w'"
  proof (cases r)
    case (Inl err)
    with run first show ?thesis by (auto simp: checkEVMChainID_def State_Monad.bind_def)
  next
    case (Inr body)
    obtain v w2 where second: "run_state (call ''net_version'') w1 = (v, w2)" by fastforce
    show ?thesis
      using run first second Inr assms
      by (auto simp: checkEVMChainID_def answers_id_def State_Monad.bind_def clean_finding
          split: sum.splits if_splits prod.splits dest: chainIDFinding_same)
  qed
qed

lemma cometBFT_clean:
  assumes "want \<noteq> []"
  shows "wp (do { r \<leftarrow> call; ret (case (case r of Inl err \<Rightarrow> Inl err | Inr body \<Rightarrow> parseCometBFTNetwork body) of
         Inl err \<Rightarrow> add_warn (text err) f
       | Inr got \<Rightarrow> add_finding f (networkFinding got want)) })
     (\<lambda>f' w'. clean f' \<longrightarrow> clean f \<and> answers_network call want w w') w"
  using assms by (intro wpI) (auto simp: State_Monad.bind_def answers_network_def clean_finding split: prod.splits sum.splits)

text \<open>The three steps in the order of the check.\<close>

definition identified :: "('w, 'x) docker_env_scheme \<Rightarrow> identityTarget \<Rightarrow> 'w \<Rightarrow> 'w \<Rightarrow> bool" where
  "identified D t w w' \<longleftrightarrow> (\<exists>w1 w2. data_written D t w w1 \<and>
     answers_id (\<lambda>m. rpcCall D t (itEvmRPC t) (rpcPayload m)) (itChainID t) w1 w2 \<and>
     answers_network (rpcCall D t statusURL []) (itCometBFTNet t) w2 w')"

lemma checkIdentity_clean:
  "wp (checkIdentity D t) (\<lambda>f w'. clean f \<longrightarrow> identified D t w w') w"
proof -
  let ?call = "\<lambda>m. rpcCall D t (itEvmRPC t) (rpcPayload m)"
  define last where "last f = (if itCometBFTNet t = [] then ret f
     else do {
       r \<leftarrow> rpcCall D t statusURL [];
       ret (case (case r of Inl err \<Rightarrow> Inl err | Inr body \<Rightarrow> parseCometBFTNetwork body) of
         Inl err \<Rightarrow> add_warn (''cometbft rpc not ready: '' @ firstLine (err_text err)) f
       | Inr got \<Rightarrow> add_finding f (networkFinding got (itCometBFTNet t))) })" for f
  define evm where "evm f = (if itChainID t \<noteq> 0 then checkEVMChainID f (itChainID t) ?call else ret f)" for f
  have last: "wp (last f) (\<lambda>f' w'. clean f' \<longrightarrow> clean f \<and> answers_network (rpcCall D t statusURL []) (itCometBFTNet t) w2 w') w2" for f w2
  proof (cases "itCometBFTNet t = []")
    case False
    show ?thesis unfolding last_def if_not_P [OF False] by (rule cometBFT_clean [OF False])
  qed (simp add: last_def answers_network_def)
  have evm: "wp (evm f) (\<lambda>f' w'. clean f' \<longrightarrow> clean f \<and> answers_id ?call (itChainID t) w1 w') w1" for f w1
  proof (cases "itChainID t = 0")
    case False
    then show ?thesis unfolding evm_def by (simp add: checkEVMChainID_clean)
  qed (simp add: evm_def answers_id_def)
  have both: "wp (evm f) (\<lambda>f1. wp (last f1) (\<lambda>f' w'. clean f' \<longrightarrow> identified D t w w')) w1" if "clean f \<longrightarrow> data_written D t w w1" for f w1
  proof (rule wp_mono [OF evm])
    fix f1 w2
    assume "clean f1 \<longrightarrow> clean f \<and> answers_id ?call (itChainID t) w1 w2"
    with that show "wp (last f1) (\<lambda>f' w'. clean f' \<longrightarrow> identified D t w w') w2"
      by (intro wp_mono [OF last]) (auto simp: identified_def)
  qed
  show ?thesis
    unfolding checkIdentity_def Let_def evm_def [symmetric] last_def [symmetric] wp_bind
    by (rule wp_mono [OF data_clean both])
qed

text \<open>
  C20: A run of the smoke test that passes ran the right chain. When the verdict on the log and
  the identity checks together give PASS, the container was still running, no line of its log
  speaks of a full disk, of a flag or configuration error, of a crash or of another error, and
  the identity checks, in the order and the states of the world in which they were made, found
  nothing wrong: the data directory, where one is checked and its size could be read, had at
  least 64 KiB; where a chain id is expected the node answered with it (to \<open>net_version\<close> when
  \<open>eth_chainId\<close> is still zero); and where a CometBFT network is expected its status named it.
\<close>

theorem smoke_pass_sound:
  assumes "run_state (checkIdentity D t) w = (f, w')"
    and "verdict st ranFor (scanLog logs) = (status, detail)"
    and "applyIdentity status detail f = (statusPass, detail', notes)"
  shows "cnRunning st \<and>
    (\<forall>l\<in>set (log_lines logs). \<not> diskFullLogRe (TrimSpace l) \<and> \<not> warnLogRe (TrimSpace l) \<and>
       (failLogRe (TrimSpace l) \<longrightarrow> recoveredPanicRe (TrimSpace l))) \<and>
    (\<exists>w1 w2. data_written D t w w1 \<and>
       answers_id (\<lambda>m. rpcCall D t (itEvmRPC t) (rpcPayload m)) (itChainID t) w1 w2 \<and>
       answers_network (rpcCall D t statusURL []) (itCometBFTNet t) w2 w')"
proof -
  have pass: "status = statusPass" "clean f" using applyIdentity_pass [OF assms(3)] by simp_all
  then have v: "verdict st ranFor (scanLog logs) = (statusPass, detail)" using assms(2) by simp
  have "\<not> diskFullLogRe (TrimSpace l) \<and> \<not> warnLogRe (TrimSpace l) \<and> (failLogRe (TrimSpace l) \<longrightarrow> recoveredPanicRe (TrimSpace l))"
    if "l \<in> set (log_lines logs)" for l
    using verdict_pass(2) [OF v that] by (auto simp: bad_line_def)
  with verdict_pass(1) [OF v] wpD [OF checkIdentity_clean assms(1)] pass(2) show ?thesis unfolding identified_def by blast
qed

text \<open>An Optimism node that answers with its chain id and has written 1 MiB.\<close>

definition op_docker :: "unit docker_env" where
  "op_docker = \<lparr>
     dkRun = (\<lambda>args. ret (Inr (if ''du'' \<in> set args then \<lparr>hbText = ''1024 /data'', hbJson = None\<rparr>
        else \<lparr>hbText = [], hbJson = Some (JObj [(''result'', JStr ''0xa'')])\<rparr>))),
     dkWait = (\<lambda>_. ret (Inr ()))\<rparr>"

definition op_target :: identityTarget where
  "op_target = \<lparr>itChain = ChainOptimism, itMain = ''op'', itNetOwner = ''op'', itPrefix = [], itDataPath = ''/data'',
     itChainID = 10, itEvmRPC = ''http://127.0.0.1:8545'', itCometBFTNet = []\<rparr>"

lemma op_answer: "parseChainID \<lparr>hbText = [], hbJson = Some (JObj [(''result'', JStr ''0xa'')])\<rparr> = Inr 10"
proof -
  have "unmarshal_raw dec_answer (Some (JObj [(''result'', JStr ''0xa'')])) ([], None) = Some (''0xa'', None)" by code_simp
  then show ?thesis
    by (simp add: parseChainID_def ParseUintHex_def digits_value_def is_digit_def digit_val_def go_simps)
qed

lemma op_run:
  "run_state (checkIdentity op_docker op_target) () =
     (\<lparr>ifFails = [], ifWarns = [], ifFacts = [''/data 1 MiB'', ''chain id 10''], ifNotes = []\<rparr>, ())"
proof -
  have du: "parseDu ''1024 /data'' = Inr 1024" by code_simp
  have facts: "dataFinding ''/data'' 1024 = ([], ''/data 1 MiB'')" "chainIDFinding 10 10 = ([], ''chain id 10'')"
    by (simp_all add: dataFinding_def minDataKiB_def humanKiB_def chainIDFinding_def Itoa_def nat_digits.simps go_simps)
  show ?thesis
    by (simp add: checkIdentity_def op_target_def op_docker_def dataCheckExempt_def dataUsageKiB_def labelArgs_def busyboxImage_def
        smokePlatform_def checkEVMChainID_def rpcCall_def rpcPayload_def du facts op_answer add_finding_def Let_def State_Monad.bind_def)
qed

theorem smoke_pass_sound_witness:
  "minDataKiB \<le> projr (fst (run_state (dataUsageKiB op_docker op_target) ())) \<and>
   answers_id (\<lambda>m. rpcCall op_docker op_target (itEvmRPC op_target) (rpcPayload m)) 10 () ()"
proof -
  let ?st = "\<lparr>cnRunning = True, cnExitCode = 0, cnOOMKilled = False, cnError = []\<rparr>"
  have "scanLog ''Chain head was updated'' = zero_scan" by code_simp
  then obtain detail where judge: "verdict ?st (90 * Second) (scanLog ''Chain head was updated'') = (statusPass, detail)"
    by (simp add: verdict_def zero_scan_def)
  obtain detail' ns where "applyIdentity statusPass detail
      \<lparr>ifFails = [], ifWarns = [], ifFacts = [''/data 1 MiB'', ''chain id 10''], ifNotes = []\<rparr> = (statusPass, detail', ns)"
    by (simp add: applyIdentity_def)
  note sound = smoke_pass_sound [OF op_run judge this]
  have "\<not> isl (fst (run_state (dataUsageKiB op_docker op_target) ()))"
  proof -
    have "parseDu ''1024 /data'' = Inr 1024" by code_simp
    then show ?thesis by (simp add: dataUsageKiB_def op_docker_def State_Monad.bind_def)
  qed
  with sound show ?thesis
    by (auto simp: data_written_def op_target_def dataCheckExempt_def split: prod.splits)
qed

end
