(* ===== verification/Smoke_Targets.thy ===== *)
theory Smoke_Targets
  imports Smoke_Check Default_Images
begin

text \<open>
  What the smoke test checks and how it reports it: \<open>cmd/chainsmoke/targets.go\<close>, \<open>level0.go\<close> and
  \<open>report.go\<close>. Maps are association lists; their random order of iteration does not matter,
  since the rows are sorted. The checks of \<open>forEach\<close> run one after the other here.
\<close>

subsection \<open>Overrides\<close>

record imageOverride =
  ioChain :: Chain
  ioClient :: string
  ioRef :: string

text \<open>\<open>strings.Cut\<close> at one character.\<close>

definition Cut :: "string \<Rightarrow> char \<Rightarrow> string \<times> string \<times> bool" where
  "Cut s c = (case dropWhile (\<lambda>x. x \<noteq> c) s of
     [] \<Rightarrow> (s, [], False)
   | _ # r \<Rightarrow> (takeWhile (\<lambda>x. x \<noteq> c) s, r, True))"

definition parseOverride :: "string \<Rightarrow> goerr + imageOverride" where
  "parseOverride s =
     (let (key, ref, ok) = Cut s (CHR ''=''); key = TrimSpace key; ref = TrimSpace ref in
      if \<not> ok \<or> key = [] \<or> ref = [] then Inl (GoErr (''invalid --image '' @ Quote s @ '': want chain[/client]=ref''))
      else (let (chain, client, _) = Cut key (CHR ''/'') in
        if chain = [] then Inl (GoErr (''invalid --image '' @ Quote s @ '': empty chain''))
        else Inr \<lparr>ioChain = chain, ioClient = ToLower client, ioRef = ref\<rparr>))"

definition override_matches :: "imageOverride \<Rightarrow> Chain \<Rightarrow> string \<Rightarrow> bool" where
  "override_matches o' chain client \<longleftrightarrow> ioChain o' = chain \<and> (ioClient o' = [] \<or> ioClient o' = ToLower client)"

definition overrideList_String :: "imageOverride list \<Rightarrow> string" where
  "overrideList_String l = Join (map (\<lambda>o'. ioChain o' @ (if ioClient o' \<noteq> [] then ''/'' @ ioClient o' else []) @ ''='' @ ioRef o') l) '',''"

definition overrideList_Set :: "imageOverride list \<Rightarrow> string \<Rightarrow> goerr + imageOverride list" where
  "overrideList_Set l s = (case parseOverride s of Inl err \<Rightarrow> Inl err | Inr o' \<Rightarrow> Inr (l @ [o']))"

definition override_lookup :: "imageOverride list \<Rightarrow> Chain \<Rightarrow> string \<Rightarrow> string option" where
  "override_lookup l chain client = map_option ioRef (find (\<lambda>o'. override_matches o' chain client) (rev l))"

subsection \<open>Rows\<close>

record target =
  tgChain :: Chain
  tgClient :: string
  tgImage :: string

fun byte_le :: "string \<Rightarrow> string \<Rightarrow> bool" where
  "byte_le [] _ = True"
| "byte_le (c # s) [] = False"
| "byte_le (c # s) (d # t) = ((of_char c :: nat) < of_char d \<or> (c = d \<and> byte_le s t))"

definition row_le :: "string \<times> string \<Rightarrow> string \<times> string \<Rightarrow> bool" where
  "row_le a b = (if fst a = fst b then byte_le (snd a) (snd b) else byte_le (fst a) (fst b))"

text \<open>A stable sort.\<close>

fun insert_by :: "('a \<Rightarrow> string \<times> string) \<Rightarrow> 'a \<Rightarrow> 'a list \<Rightarrow> 'a list" where
  "insert_by key x [] = [x]"
| "insert_by key x (y # ys) = (if row_le (key x) (key y) then x # y # ys else y # insert_by key x ys)"

definition sort_rows :: "('a \<Rightarrow> string \<times> string) \<Rightarrow> 'a list \<Rightarrow> 'a list" where
  "sort_rows key xs = foldr (insert_by key) xs []"

type_synonym image_table = "(Chain \<times> strmap) list"

definition clients_of :: "image_table \<Rightarrow> Chain \<Rightarrow> strmap" where
  "clients_of images chain = (case map_of images chain of None \<Rightarrow> [] | Some m \<Rightarrow> m)"

text \<open>An override that names a client the table does not have adds it.\<close>

definition add_override :: "image_table \<Rightarrow> imageOverride \<Rightarrow> image_table" where
  "add_override images o' =
     (if ioClient o' = [] then images
      else (let clients = clients_of images (ioChain o') in
        AList.update (ioChain o')
          (if map_of clients (ioClient o') = None then AList.update (ioClient o') (ioRef o') clients else clients) images))"

definition level0Targets :: "image_table \<Rightarrow> imageOverride list \<Rightarrow> (Chain \<Rightarrow> bool) \<Rightarrow> target list" where
  "level0Targets images overrides selected =
     (let images = foldl add_override images overrides in
      sort_rows (\<lambda>t. (tgChain t, tgClient t))
        (concat (map (\<lambda>(chain, clients). map (\<lambda>(client, image).
            \<lparr>tgChain = chain, tgClient = client,
             tgImage = (case override_lookup overrides chain client of Some ref \<Rightarrow> ref | None \<Rightarrow> image)\<rparr>) clients)
          (filter (\<lambda>(chain, _). selected chain) images))))"

definition diffImageTables :: "image_table \<Rightarrow> image_table \<Rightarrow> Chain \<Rightarrow> bool" where
  "diffImageTables old cur chain \<longleftrightarrow>
     list_ex (\<lambda>(c, clients). c = chain \<and> list_ex (\<lambda>(client, image). mget (clients_of old chain) client \<noteq> image) clients) cur"

subsection \<open>Manifests\<close>

definition platformString :: "string \<Rightarrow> string \<Rightarrow> string \<Rightarrow> string" where
  "platformString os arch variant = os @ ''/'' @ arch @ (if variant \<noteq> [] then ''/'' @ variant else [])"

definition dec_platform :: "(string \<times> string \<times> string) decoder" where
  "dec_platform = dec_and (dec_path [''os''] dec_string)
     (dec_and (dec_path [''architecture''] dec_string) (dec_path [''variant''] dec_string))"

text \<open>A slice that may be nil: \<open>null\<close> makes it nil, an array does not.\<close>

definition dec_slice :: "'a decoder \<Rightarrow> 'a \<Rightarrow> 'a list option decoder" where
  "dec_slice d z j a = (case j of JNull \<Rightarrow> Some None | _ \<Rightarrow> map_option Some (dec_list d z j (case a of None \<Rightarrow> [] | Some xs \<Rightarrow> xs)))"

definition dec_manifest :: "(int \<times> string \<times> string \<times> (string \<times> string \<times> string) option list option) decoder" where
  "dec_manifest = dec_and (dec_path [''schemaVersion''] dec_int64) (dec_and (dec_path [''mediaType''] dec_string)
     (dec_and (dec_path [''architecture''] dec_string)
       (dec_path [''manifests''] (dec_slice (dec_path [''platform''] (dec_ptr dec_platform ([], [], []))) None))))"

definition add_platform :: "string list \<Rightarrow> (string \<times> string \<times> string) option \<Rightarrow> string list" where
  "add_platform platforms p = (case p of
     None \<Rightarrow> platforms
   | Some (os, arch, variant) \<Rightarrow>
       if os = ''unknown'' \<or> os = [] then platforms
       else (let s = platformString os arch variant in if s \<in> set platforms then platforms else platforms @ [s]))"

definition platformsFromRaw :: "json option \<Rightarrow> goerr + string list \<times> bool" where
  "platformsFromRaw raw = (case unmarshal_raw dec_manifest raw (0, [], [], None) of
     None \<Rightarrow> Inl jsonErr
   | Some (schemaVersion, mediaType, architecture, manifests) \<Rightarrow>
       Inr (if manifests \<noteq> None \<or> Contains mediaType ''index'' \<or> Contains mediaType ''manifest.list''
            then (foldl add_platform [] (case manifests of None \<Rightarrow> [] | Some ms \<Rightarrow> ms), True)
            else if schemaVersion = 1 then ([platformString ''linux'' architecture []], False)
            else ([], False)))"

text \<open>The verdict on the platforms of an image, of an index or of one manifest.\<close>

definition judgePlatforms :: "string list \<Rightarrow> bool \<Rightarrow> string \<times> string" where
  "judgePlatforms platforms isIndex =
     (let detail = (if isIndex then ''index'' else ''single'') @ '': '' @ Join platforms '', '' in
      if smokePlatform \<notin> set platforms then (statusFail, ''no '' @ smokePlatform @ '' ('' @ detail @ '')'')
      else (statusPass, detail))"

text \<open>\<open>interrupted ref\<close> says whether the context is done when the turn of \<open>ref\<close> comes.\<close>

definition inspectManifest :: "('w, 'x) docker_env_scheme \<Rightarrow> (string \<Rightarrow> bool) \<Rightarrow> string \<Rightarrow> ('w, string \<times> string) state" where
  "inspectManifest D interrupted ref =
     (if interrupted ref then ret (statusSkip, ''interrupted'')
      else do {
        r \<leftarrow> dockerRetry D [''buildx'', ''imagetools'', ''inspect'', ''--raw'', ref];
        case r of
          Inl err \<Rightarrow> ret (statusFail, firstLine (err_text err))
        | Inr raw \<Rightarrow> (case platformsFromRaw (hbJson raw) of
            Inl err \<Rightarrow> ret (statusFail, ''unparseable manifest: '' @ err_text err)
          | Inr (platforms, isIndex) \<Rightarrow>
              if \<not> isIndex \<and> platforms = [] then do {
                c \<leftarrow> dockerRetry D [''buildx'', ''imagetools'', ''inspect'', ''--format'', ''{{json .Image}}'', ref];
                ret (case c of
                  Inl err \<Rightarrow> (statusFail, firstLine (err_text err))
                | Inr cfg \<Rightarrow> (case unmarshal_raw dec_platform (hbJson cfg) ([], [], []) of
                    None \<Rightarrow> (statusFail, ''unparseable image config: '' @ err_text jsonErr)
                  | Some (os, arch, variant) \<Rightarrow> judgePlatforms [platformString os arch variant] False)) }
              else ret (judgePlatforms platforms isIndex)) })"

record result_row =
  reChain :: string
  reClient :: string
  reImage :: string
  reLevel :: int
  reStatus :: string
  reDetail :: string
  reNotes :: "string list"

fun check_refs :: "('w, 'x) docker_env_scheme \<Rightarrow> (string \<Rightarrow> bool) \<Rightarrow> string list \<Rightarrow> ('w, (string \<times> string \<times> string) list) state" where
  "check_refs D interrupted [] = ret []"
| "check_refs D interrupted (ref # refs) = do {
     c \<leftarrow> inspectManifest D interrupted ref;
     cs \<leftarrow> check_refs D interrupted refs;
     ret ((ref, c) # cs) }"

definition distinct_refs :: "target list \<Rightarrow> string list" where
  "distinct_refs targets = foldl (\<lambda>refs t. if tgImage t \<noteq> [] \<and> tgImage t \<notin> set refs then refs @ [tgImage t] else refs) [] targets"

definition runLevel0 :: "('w, 'x) docker_env_scheme \<Rightarrow> (string \<Rightarrow> bool) \<Rightarrow> target list \<Rightarrow> ('w, result_row list) state" where
  "runLevel0 D interrupted targets = do {
     byRef \<leftarrow> check_refs D interrupted (distinct_refs targets);
     ret (map (\<lambda>t.
       (let (status, detail) =
              (if tgImage t = [] then (statusSkip, ''no default image'')
               else (case map_of byRef (tgImage t) of None \<Rightarrow> ([], []) | Some c \<Rightarrow> c))
        in \<lparr>reChain = tgChain t, reClient = tgClient t, reImage = tgImage t, reLevel = 0, reStatus = status,
            reDetail = detail, reNotes = []\<rparr>)) targets) }"

subsection \<open>The report\<close>

definition detailWidth :: nat where "detailWidth = 160"

definition anyFailed :: "result_row list \<Rightarrow> bool" where
  "anyFailed results \<longleftrightarrow> list_ex (\<lambda>r. reStatus r = statusFail) results"

definition clientLabel :: "string \<Rightarrow> string" where
  "clientLabel client = (if client = [] then ''(default)'' else client)"

definition cell :: "string \<Rightarrow> string" where
  "cell s = concat (map (\<lambda>c. if c = CHR ''|'' then [CHR 0x5C, CHR ''|''] else [c]) (Join (Fields s) '' ''))"

definition report_row :: "result_row \<Rightarrow> string" where
  "report_row r =
     (let detail = reDetail r @ (if reNotes r \<noteq> [] then '' ['' @ Join (reNotes r) ''; '' @ '']'' else []) in
      ''| '' @ cell (reChain r) @ '' | '' @ cell (clientLabel (reClient r)) @ '' | '' @ cell (reImage r) @ '' | '' @
      Itoa (reLevel r) @ '' | '' @ reStatus r @ '' | '' @ cell (truncate_text detail detailWidth) @ '' |'' @ [CHR 0x0A])"

definition count_status :: "string \<Rightarrow> result_row list \<Rightarrow> string" where
  "count_status status rows = Itoa (int (length (filter (\<lambda>r. reStatus r = status) rows)))"

definition renderReport :: "result_row list \<Rightarrow> string" where
  "renderReport results =
     (let rows = sort_rows (\<lambda>r. (reChain r, reClient r)) results; nl = [CHR 0x0A] in
      ''# chainsmoke report'' @ nl @ nl @ Itoa (int (length rows)) @ '' checked: '' @ count_status statusPass rows @ '' PASS, '' @
      count_status statusWarn rows @ '' WARN, '' @ count_status statusFail rows @ '' FAIL, '' @
      count_status statusSkip rows @ '' SKIP'' @ nl @ nl @
      ''| chain | client | image | level | result | detail |'' @ nl @ ''|---|---|---|---|---|---|'' @ nl @
      concat (map report_row rows))"

subsection \<open>What the rows say\<close>

lemma set_insert_by [simp]: "set (insert_by key x xs) = insert x (set xs)"
  by (induction xs) auto

lemma set_sort_rows [simp]: "set (sort_rows key xs) = set xs"
  unfolding sort_rows_def by (induction xs) auto

lemma length_insert_by [simp]: "length (insert_by key x xs) = Suc (length xs)"
  by (induction xs) auto

lemma length_sort_rows [simp]: "length (sort_rows key xs) = length xs"
  unfolding sort_rows_def by (induction xs) auto

text \<open>Without an override that adds a client, the targets are the selected entries of the table.\<close>

lemma add_overrides_none: "\<forall>o' \<in> set ovs. ioClient o' = [] \<Longrightarrow> foldl add_override images ovs = images"
  by (induction ovs arbitrary: images) (auto simp: add_override_def)

lemma level0Targets_table:
  assumes "\<forall>o' \<in> set ovs. ioClient o' = []"
  shows "set (level0Targets images ovs selected) =
     {\<lparr>tgChain = chain, tgClient = client,
       tgImage = (case override_lookup ovs chain client of Some ref \<Rightarrow> ref | None \<Rightarrow> image)\<rparr> | chain client image clients.
        (chain, clients) \<in> set images \<and> selected chain \<and> (client, image) \<in> set clients}" (is "_ = ?R")
proof
  show "set (level0Targets images ovs selected) \<subseteq> ?R"
    unfolding level0Targets_def Let_def add_overrides_none [OF assms] set_sort_rows by auto
  show "?R \<subseteq> set (level0Targets images ovs selected)"
    unfolding level0Targets_def Let_def add_overrides_none [OF assms] set_sort_rows by force
qed

text \<open>The last override that matches decides.\<close>

lemma override_lookup_last:
  assumes "override_matches o' chain client" "\<forall>p \<in> set later. \<not> override_matches p chain client"
  shows "override_lookup (earlier @ o' # later) chain client = Some (ioRef o')"
proof -
  have "find (\<lambda>p. override_matches p chain client) (rev later @ xs) = find (\<lambda>p. override_matches p chain client) xs" for xs
    using assms(2) by (induction later arbitrary: xs) auto
  with assms(1) show ?thesis by (simp add: override_lookup_def)
qed

text \<open>A row passes only on an image that has the platform of the node pools.\<close>

lemma judgePlatforms_pass: "fst (judgePlatforms ps ix) = statusPass \<longleftrightarrow> smokePlatform \<in> set ps"
  by (simp add: judgePlatforms_def Let_def statusPass_def statusFail_def)

lemma set_add_platform:
  "set (add_platform acc p) = set acc \<union> (case p of
     None \<Rightarrow> {} | Some (os, arch, variant) \<Rightarrow> if os = ''unknown'' \<or> os = [] then {} else {platformString os arch variant})"
  by (auto simp: add_platform_def Let_def split: option.splits)

lemma set_add_platforms:
  "set (foldl add_platform acc ms) = set acc \<union> (\<Union>p \<in> set ms. case p of
     None \<Rightarrow> {} | Some (os, arch, variant) \<Rightarrow> if os = ''unknown'' \<or> os = [] then {} else {platformString os arch variant})"
  by (induction ms arbitrary: acc) (simp_all add: set_add_platform Un_assoc)

end
