(* ===== verification/Smoke_Plan.thy ===== *)
theory Smoke_Plan
  imports Smoke_Targets Workload "HOL-Library.Signed_Division"
begin

text \<open>
  How the smoke test turns a pod template into docker commands, \<open>cmd/chainsmoke/dockerrun.go\<close>.
  The records hold the fields of \<open>corev1\<close> that the planner reads; a resource quantity is its
  \<open>MilliValue\<close>. The mutable \<open>mountPlanner\<close> is a state that the mounts of each container update.
  Paths on the host lie below an absolute working directory.
\<close>

subsection \<open>The pod template\<close>

datatype EnvVarSource = FieldRef string | ResourceFieldRef string int | KeyRef

record PlanContainer =
  pcName :: string
  pcImage :: string
  pcRestartPolicy :: "string option"
  pcCommand :: "string list"
  pcArgs :: "string list"
  pcWorkingDir :: string
  pcEnv :: "(string \<times> (string + EnvVarSource)) list"
  pcEnvFrom :: "string list"
  pcLimits :: "(string \<times> int) list option"
  pcRequests :: "(string \<times> int) list"
  pcStartup :: "ProbeHandler option"
  pcReadiness :: "ProbeHandler option"
  pcRunAsUser :: "int option"
  pcRunAsGroup :: "int option"
  pcMounts :: "VolumeMount list"

record PlanVolume =
  pvName :: string
  pvConfigMap :: "string option"
  pvSecret :: bool
  pvProjected :: bool

record PlanPod =
  ppInit :: "PlanContainer list"
  ppContainers :: "PlanContainer list"
  ppVolumes :: "PlanVolume list"
  ppFSGroup :: "int option"
  ppRunAsUser :: "int option"
  ppRunAsGroup :: "int option"

record planInput =
  inName :: string
  inPod :: PlanPod
  inConfigMapName :: string
  inConfigFile :: string
  inConfigContent :: string
  inWorkDir :: string
  inTmpfsSize :: string
  inNofile :: int
  inPrefix :: string
  inVolumeSubpath :: bool

record containerRun =
  crContainer :: string
  crName :: string
  crImage :: string
  crArgs :: "string list"
  crProbe :: "string list"

record podPlan =
  plHolder :: string
  plVolumes :: "string list"
  plSetup :: "string list list"
  plSidecars :: "containerRun list"
  plOthers :: "containerRun list"

record runPlan =
  rpImage :: string
  rpArgs :: "string list"
  rpFiles :: strmap
  rpNotes :: "string list"
  rpPod :: "podPlan option"

definition add_new :: "'a list \<Rightarrow> 'a \<Rightarrow> 'a list" where
  "add_new xs x = (if x \<in> set xs then xs else xs @ [x])"

definition plan_images :: "runPlan \<Rightarrow> string list" where
  "plan_images p = add_new
     (foldl (\<lambda>refs c. add_new refs (crImage c)) [rpImage p]
       (case rpPod p of None \<Rightarrow> [] | Some pod \<Rightarrow> plSidecars pod @ plOthers pod)) busyboxImage"

definition plan_containers :: "runPlan \<Rightarrow> string \<Rightarrow> string list" where
  "plan_containers p main = (case rpPod p of
     None \<Rightarrow> [main]
   | Some pod \<Rightarrow> map crName (plOthers pod) @ [main] @ map crName (rev (plSidecars pod)) @ [plHolder pod])"

subsection \<open>The environment of a container\<close>

abbreviation (input) placeholderValue :: string where "placeholderValue \<equiv> ''smoke''"
abbreviation (input) smokeNamespace :: string where "smokeNamespace \<equiv> ''default''"
abbreviation (input) podVolumesDir :: string where "podVolumesDir \<equiv> ''/volumes''"

text \<open>Kubernetes expansion of \<open>$(NAME)\<close>; an unclosed reference ends the expansion.\<close>

function expand :: "(string \<Rightarrow> string option) \<Rightarrow> string \<Rightarrow> string" where
  "expand lookup [] = []"
| "expand lookup [c] = [c]"
| "expand lookup (c # d # s) =
     (if c \<noteq> CHR ''$'' then c # expand lookup (d # s)
      else if d = CHR ''$'' then CHR ''$'' # expand lookup s
      else if d = CHR ''('' then
        (if CHR '')'' \<notin> set s then c # d # s
         else (let name = takeWhile (\<lambda>x. x \<noteq> CHR '')'') s in
           (case lookup name of Some v \<Rightarrow> v | None \<Rightarrow> ''$('' @ name @ '')'') @ expand lookup (drop (length name + 1) s)))
      else CHR ''$'' # expand lookup (d # s))"
  by pat_completeness auto
termination by (relation "measure (length \<circ> snd)") auto

definition expandAll :: "(string \<Rightarrow> string option) \<Rightarrow> string list \<Rightarrow> string list" where
  "expandAll lookup xs = map (expand lookup) xs"

text \<open>
  Ceiling division at 64 bits. A zero divisor means one; \<open>sdiv\<close> truncates as Go's division does.
\<close>

definition resourceFieldValue :: "string \<Rightarrow> int \<Rightarrow> PlanContainer \<Rightarrow> string" where
  "resourceFieldValue res divisor c =
     (let (kind, name, _) = Cut res (CHR ''.'');
          list = (if kind = ''requests'' then pcRequests c
                  else (case pcLimits c of None \<Rightarrow> pcRequests c | Some l \<Rightarrow> l))
      in (case map_of list name of
            None \<Rightarrow> ''1''
          | Some q \<Rightarrow> (let d = (if divisor = 0 then 1000 else divisor) in Itoa (wrap64 (wrap64 (q + d - 1) sdiv d)))))"

definition envSourceValue :: "EnvVarSource \<Rightarrow> PlanContainer \<Rightarrow> string \<Rightarrow> string" where
  "envSourceValue src c podName = (case src of
     FieldRef path \<Rightarrow>
       if path = ''metadata.name'' then podName
       else if path = ''metadata.namespace'' then smokeNamespace
       else if path = ''status.podIP'' \<or> path = ''status.hostIP'' then ''127.0.0.1''
       else placeholderValue
   | ResourceFieldRef res divisor \<Rightarrow> resourceFieldValue res divisor c
   | KeyRef \<Rightarrow> placeholderValue)"

text \<open>
  One variable of the container: the values set so far, in the order of their first declaration.
\<close>

definition resolve_var :: "PlanContainer \<Rightarrow> string \<Rightarrow> strmap \<Rightarrow> string \<times> (string + EnvVarSource) \<Rightarrow> strmap" where
  "resolve_var c podName values e =
     AList.update (fst e)
       (case snd e of Inr src \<Rightarrow> envSourceValue src c podName | Inl v \<Rightarrow> expand (map_of values) v) values"

definition resolveEnv :: "PlanContainer \<Rightarrow> string \<Rightarrow> string list \<times> (string \<Rightarrow> string option)" where
  "resolveEnv c podName =
     (let values = foldl (resolve_var c podName) [] (pcEnv c)
      in (map (\<lambda>(name, v). name @ ''='' @ v) values, map_of values))"

definition runAsUser :: "PlanPod \<Rightarrow> PlanContainer \<Rightarrow> string" where
  "runAsUser pod c =
     (let uid = (case pcRunAsUser c of Some u \<Rightarrow> Some u | None \<Rightarrow> ppRunAsUser pod);
          gid = (case pcRunAsGroup c of Some g \<Rightarrow> Some g | None \<Rightarrow> ppRunAsGroup pod)
      in (case uid of
            None \<Rightarrow> []
          | Some u \<Rightarrow> Itoa u @ (case gid of None \<Rightarrow> [] | Some g \<Rightarrow> '':'' @ Itoa g)))"

definition containerNames :: "PlanContainer list \<Rightarrow> string" where
  "containerNames cs = Join (map pcName cs) '', ''"

definition containerRunArgs :: "planInput \<Rightarrow> string \<Rightarrow> PlanContainer \<Rightarrow> string \<Rightarrow> string list \<Rightarrow> string list" where
  "containerRunArgs inp name c network mountArgs =
     (let (env, lookup) = resolveEnv c (inName inp);
          command = expandAll lookup (pcCommand c);
          cmdArgs = expandAll lookup (pcArgs c);
          user = runAsUser (inPod inp) c
      in [''run'', ''-d'', ''--name'', name, ''--platform'', smokePlatform] @ labelArgs (inPrefix inp)
         @ (if network \<noteq> [] then [''--network'', network] else [])
         @ (if inNofile inp > 0 then [''--ulimit'', ''nofile='' @ Itoa (inNofile inp) @ '':'' @ Itoa (inNofile inp)] else [])
         @ (case ppFSGroup (inPod inp) of None \<Rightarrow> [] | Some g \<Rightarrow> [''--group-add'', Itoa g])
         @ (if user \<noteq> [] then [''--user'', user] else [])
         @ (if pcWorkingDir c \<noteq> [] then [''--workdir'', pcWorkingDir c] else [])
         @ concat (map (\<lambda>kv. [''--env'', kv]) env)
         @ mountArgs
         @ (case command of [] \<Rightarrow> [] | e # _ \<Rightarrow> [''--entrypoint'', e])
         @ [pcImage c] @ drop 1 command @ cmdArgs)"

subsection \<open>Mounts\<close>

record mountPlanner =
  mpFiles :: strmap
  mpNotes :: "string list"
  mpVolumes :: "string list"
  mpSubdirs :: "string list"

definition newMountPlanner :: mountPlanner where
  "newMountPlanner = \<lparr>mpFiles = [], mpNotes = [], mpVolumes = [], mpSubdirs = []\<rparr>"

text \<open>The declared volume of a name: the last one of the pod.\<close>

definition volume_decl :: "planInput \<Rightarrow> string \<Rightarrow> PlanVolume option" where
  "volume_decl inp name = find (\<lambda>v. pvName v = name) (rev (ppVolumes (inPod inp)))"

definition planner_note :: "string \<Rightarrow> mountPlanner \<Rightarrow> mountPlanner" where
  "planner_note n p = p\<lparr>mpNotes := add_new (mpNotes p) n\<rparr>"

definition volumeNameByte :: "char \<Rightarrow> bool" where
  "volumeNameByte c \<longleftrightarrow> wordByte c \<or> c = CHR ''.'' \<or> c = CHR ''-''"

text \<open>\<open>volumeNameRe.ReplaceAllString\<close>: each run of bytes outside the class becomes one dash.\<close>

fun dash_runs :: "bool \<Rightarrow> string \<Rightarrow> string" where
  "dash_runs in_run [] = []"
| "dash_runs in_run (c # s) =
     (if volumeNameByte c then c # dash_runs False s
      else (if in_run then [] else ''-'') @ dash_runs True s)"

definition volumeMount :: "planInput \<Rightarrow> VolumeMount \<Rightarrow> mountPlanner \<Rightarrow> string \<times> mountPlanner" where
  "volumeMount inp m p =
     (let vol = inName inp @ ''-'' @ vmName m;
          (vol, subpath, p) =
            (if vmSubPath m = [] then (vol, [], p)
             else if inVolumeSubpath inp then
               (vol, '',volume-subpath='' @ vmSubPath m,
                p\<lparr>mpSubdirs := add_new (mpSubdirs p) (path_Join (path_Join podVolumesDir vol) (vmSubPath m))\<rparr>)
             else (vol @ ''-'' @ dash_runs False (vmSubPath m), [],
                planner_note (''subPath '' @ vmSubPath m @ '' of '' @ vmName m @
                  '' is a separate volume (no volume-subpath before Docker 26)'') p))
      in (''type=volume,src='' @ vol @ '',dst='' @ vmMountPath m @ subpath @ (if vmReadOnly m then '',readonly'' else []),
          p\<lparr>mpVolumes := add_new (mpVolumes p) vol\<rparr>))"

text \<open>The bind mount of the rendered configuration, and the files it needs.\<close>

definition config_mount :: "planInput \<Rightarrow> VolumeMount \<Rightarrow> mountPlanner \<Rightarrow> string list \<times> mountPlanner" where
  "config_mount inp m p =
     (let configDir = path_Join (inWorkDir inp) ''config'';
          p = p\<lparr>mpFiles := AList.update (path_Join configDir (inConfigFile inp)) (inConfigContent inp) (mpFiles p)\<rparr>;
          src = (if vmSubPath m \<noteq> [] then path_Join configDir (vmSubPath m) else configDir);
          p = (if vmSubPath m \<noteq> [] \<and> vmSubPath m \<noteq> inConfigFile inp
               then planner_note (''config subPath '' @ vmSubPath m @ '' is not '' @ inConfigFile inp @ '', mounted empty'')
                      (p\<lparr>mpFiles := AList.update src [] (mpFiles p)\<rparr>)
               else p)
      in ([''--mount'', ''type=bind,src='' @ src @ '',dst='' @ vmMountPath m @ '',readonly''], p))"

text \<open>One mount of a container that is not a duplicate.\<close>

definition one_mount :: "planInput \<Rightarrow> bool \<Rightarrow> VolumeMount \<Rightarrow> mountPlanner \<Rightarrow> string list \<times> mountPlanner" where
  "one_mount inp pod m p =
     (let decl = volume_decl inp (vmName m) in
      if (case decl of Some v \<Rightarrow> pvConfigMap v = Some (inConfigMapName inp) | None \<Rightarrow> False) then config_mount inp m p
      else (let p = (if (case decl of Some v \<Rightarrow> pvConfigMap v \<noteq> None \<or> pvSecret v \<or> pvProjected v | None \<Rightarrow> False)
                     then planner_note (''volume '' @ vmName m @ '' mounted empty at '' @ vmMountPath m) p else p) in
        if pod then (let (spec, p) = volumeMount inp m p in ([''--mount'', spec], p))
        else ([''--tmpfs'', vmMountPath m @ '':rw,exec,mode=1777,size='' @ inTmpfsSize inp], p)))"

fun mounts_from :: "planInput \<Rightarrow> bool \<Rightarrow> string list \<Rightarrow> VolumeMount list \<Rightarrow> mountPlanner \<Rightarrow> string list \<times> mountPlanner" where
  "mounts_from inp pod seen [] p = ([], p)"
| "mounts_from inp pod seen (m # ms) p =
     (if vmMountPath m \<in> set seen
      then mounts_from inp pod seen ms (planner_note (''duplicate mount '' @ vmMountPath m @ '' skipped'') p)
      else (let (args, p) = one_mount inp pod m p;
                (rest, p) = mounts_from inp pod (vmMountPath m # seen) ms p
            in (args @ rest, p)))"

definition planner_mounts :: "planInput \<Rightarrow> bool \<Rightarrow> VolumeMount list \<Rightarrow> mountPlanner \<Rightarrow> string list \<times> mountPlanner" where
  "planner_mounts inp pod ms p = mounts_from inp pod [] ms p"

subsection \<open>The plan\<close>

definition podSetup :: "planInput \<Rightarrow> string \<Rightarrow> string list \<Rightarrow> string list \<Rightarrow> string list list" where
  "podSetup inp holder volumes subdirs =
     map (\<lambda>v. [''volume'', ''create'', ''--driver'', ''local'', ''--opt'', ''type=tmpfs'', ''--opt'', ''device=tmpfs'',
               ''--opt'', ''o=size='' @ inTmpfsSize inp @ '',mode=1777''] @ labelArgs (inPrefix inp) @ [v]) volumes
     @ [[''run'', ''-d'', ''--name'', holder, ''--platform'', smokePlatform] @ labelArgs (inPrefix inp)
        @ concat (map (\<lambda>v. [''--mount'', ''type=volume,src='' @ v @ '',dst='' @ path_Join podVolumesDir v]) volumes)
        @ [busyboxImage, ''sleep'', ''2147483647'']]
     @ (if subdirs \<noteq> [] then [[''exec'', holder, ''mkdir'', ''-p'', ''-m'', ''1777''] @ subdirs] else [])"

definition execProbe :: "PlanContainer \<Rightarrow> string list \<times> bool" where
  "execProbe c = (case (case pcStartup c of Some p \<Rightarrow> Some p | None \<Rightarrow> pcReadiness c) of
     None \<Rightarrow> ([], True)
   | Some (ExecProbe cmd) \<Rightarrow> (cmd, True)
   | Some _ \<Rightarrow> ([], False))"

text \<open>The closure \<open>sidecar\<close>: the notes of the plan and the planner are what it changes.\<close>

definition plan_sidecar ::
    "planInput \<Rightarrow> bool \<Rightarrow> string \<Rightarrow> PlanContainer \<Rightarrow> string list \<times> mountPlanner \<Rightarrow> containerRun option \<times> string list \<times> mountPlanner" where
  "plan_sidecar inp pod network c st = (case st of (notes, p) \<Rightarrow>
     if pcImage c = [] then (None, notes @ [''sidecar '' @ pcName c @ '' skipped: no image''], p)
     else (let name = inName inp @ ''-'' @ pcName c;
               notes = notes @ (if pcEnvFrom c \<noteq> [] then [''envFrom ignored in '' @ pcName c] else []);
               (mountArgs, p) = planner_mounts inp pod (pcMounts c) p
           in (Some \<lparr>crContainer = pcName c, crName = name, crImage = pcImage c,
                     crArgs = containerRunArgs inp name c network mountArgs, crProbe = []\<rparr>, notes, p)))"

fun plan_natives ::
    "planInput \<Rightarrow> bool \<Rightarrow> string \<Rightarrow> PlanContainer list \<Rightarrow> string list \<times> mountPlanner \<Rightarrow> containerRun list \<times> string list \<times> mountPlanner" where
  "plan_natives inp pod network [] st = ([], st)"
| "plan_natives inp pod network (c # cs) st = (case plan_sidecar inp pod network c st of
     (None, st) \<Rightarrow> plan_natives inp pod network cs st
   | (Some run, notes, p) \<Rightarrow>
       (let (probe, isExec) = execProbe c;
            notes = notes @ (if \<not> isExec then [''sidecar '' @ pcName c @ '' probe is not exec, not waited for''] else []);
            (runs, st) = plan_natives inp pod network cs (notes, p)
        in (run\<lparr>crProbe := probe\<rparr> # runs, st)))"

fun plan_others ::
    "planInput \<Rightarrow> bool \<Rightarrow> string \<Rightarrow> PlanContainer list \<Rightarrow> string list \<times> mountPlanner \<Rightarrow> containerRun list \<times> string list \<times> mountPlanner" where
  "plan_others inp pod network [] st = ([], st)"
| "plan_others inp pod network (c # cs) st = (case plan_sidecar inp pod network c st of
     (None, st) \<Rightarrow> plan_others inp pod network cs st
   | (Some run, st) \<Rightarrow> (let (runs, st) = plan_others inp pod network cs st in (run # runs, st)))"

definition is_native :: "PlanContainer \<Rightarrow> bool" where
  "is_native c \<longleftrightarrow> pcRestartPolicy c = Some ''Always''"

definition is_main :: "PlanContainer \<Rightarrow> bool" where
  "is_main c \<longleftrightarrow> pcName c = mainContainerName"

definition buildRunPlan :: "planInput \<Rightarrow> goerr + runPlan" where
  "buildRunPlan inp =
     (let pod = inPod inp in
      case find is_main (ppContainers pod) of
        None \<Rightarrow> Inl (GoErr (''pod template has no '' @ Quote mainContainerName @ '' container''))
      | Some mc \<Rightarrow>
          (let others = takeWhile (\<lambda>c. \<not> is_main c) (ppContainers pod) @ drop 1 (dropWhile (\<lambda>c. \<not> is_main c) (ppContainers pod));
               native = filter is_native (ppInit pod);
               inits = filter (\<lambda>c. \<not> is_native c) (ppInit pod);
               notes = (if inits \<noteq> [] then [''init containers skipped: '' @ containerNames inits] else []);
               isPod = (native \<noteq> [] \<or> others \<noteq> []);
               holder = inName inp @ ''-pod'';
               network = (if isPod then ''container:'' @ holder else []);
               (sidecars, notes, p) = plan_natives inp isPod network native (notes, newMountPlanner);
               notes = notes @ (if pcEnvFrom mc \<noteq> [] then [''envFrom ignored''] else []);
               (mountArgs, p) = planner_mounts inp isPod (pcMounts mc) p;
               args = containerRunArgs inp (inName inp) mc network mountArgs;
               (other_runs, notes, p) = plan_others inp isPod network others (notes, p)
           in Inr \<lparr>rpImage = pcImage mc, rpArgs = args, rpFiles = mpFiles p, rpNotes = notes @ mpNotes p,
                   rpPod = (if isPod then Some \<lparr>plHolder = holder, plVolumes = mpVolumes p,
                       plSetup = podSetup inp holder (mpVolumes p) (mpSubdirs p),
                       plSidecars = sidecars, plOthers = other_runs\<rparr> else None)\<rparr>))"

end
