(* ===== verification/Smoke_Run.thy ===== *)
theory Smoke_Run
  imports Smoke_Plan
begin

text \<open>
  The smoke run of a sample: \<open>cmd/chainsmoke/level1.go\<close> and \<open>samples.go\<close>, with the engine check of
  \<open>docker.go\<close> and the dispatch of \<open>main.go\<close>. The calls that the code defers are written at the
  end of the block they belong to. The runs of \<open>forEach\<close> follow one another here; what the
  concurrent ones share, the set of images, is the subject of theory \<open>Smoke_Images\<close>.
\<close>

text \<open>
  The world of a run: the error of the context, docker on the context detached from it and under
  a timeout, the output of a container, the clock and the file system.
\<close>

record 'w smoke_env = "'w docker_env" +
  seErr :: "('w, goerr option) state"
  seDetached :: "string list \<Rightarrow> ('w, goerr + http_body) state"
  seWithin :: "duration \<Rightarrow> string list \<Rightarrow> ('w, goerr + http_body) state"
  seLogs :: "string \<Rightarrow> ('w, string \<times> goerr option) state"
  seNow :: "('w, time) state"
  seMkdirAll :: "string \<Rightarrow> ('w, goerr option) state"
  seWriteFile :: "string \<Rightarrow> string \<Rightarrow> ('w, goerr option) state"
  seMkdirTemp :: "string \<Rightarrow> ('w, goerr + string) state"
  seRemoveAll :: "string \<Rightarrow> ('w, unit) state"

definition detached :: "('w, 'x) smoke_env_scheme \<Rightarrow> ('w, 'x) smoke_env_scheme" where
  "detached D = D\<lparr>dkRun := seDetached D\<rparr>"

subsection \<open>Text\<close>

fun cut_at :: "string \<Rightarrow> string \<Rightarrow> (string \<times> string) option" where
  "cut_at sep [] = (if sep = [] then Some ([], []) else None)"
| "cut_at sep (c # s) =
     (if HasPrefix (c # s) sep then Some ([], drop (length sep) (c # s))
      else map_option (\<lambda>(a, b). (c # a, b)) (cut_at sep s))"

definition runErrorSummary :: "string \<Rightarrow> string" where
  "runErrorSummary msg =
     (let msg = firstLine msg in
      case cut_at ''error during container init: '' msg of
        Some (_, tail) \<Rightarrow> ''container init: '' @ tail
      | None \<Rightarrow> (case cut_at ''Error response from daemon: '' msg of Some (_, tail) \<Rightarrow> tail | None \<Rightarrow> msg))"

text \<open>The bytes that make \<open>shellJoin\<close> quote an argument, a single quote among them.\<close>

definition shell_special :: "char set" where
  "shell_special = set '' $`|&;()<>*?[]{}!#~'' \<union> {CHR 0x09, CHR 0x0A, CHR 0x22, CHR 0x27, CHR 0x5C}"

definition shell_quote :: "string \<Rightarrow> string" where
  "shell_quote a =
     (if a \<noteq> [] \<and> \<not> list_ex (\<lambda>c. c \<in> shell_special) a then a
      else [CHR 0x27] @ concat (map (\<lambda>c. if c = CHR 0x27 then [CHR 0x27, CHR 0x5C, CHR 0x27, CHR 0x27] else [c]) a) @ [CHR 0x27])"

definition shellJoin :: "string list \<Rightarrow> string" where
  "shellJoin args = Join (map shell_quote args) '' ''"

text \<open>\<open>filepath.Join\<close> of two elements, relative directories included.\<close>

fun rel_parts :: "string list \<Rightarrow> string list \<Rightarrow> string list" where
  "rel_parts done [] = rev done"
| "rel_parts done (p # ps) =
     (if p = [] \<or> p = ''.'' then rel_parts done ps
      else if p = ''..'' \<and> done \<noteq> [] \<and> hd done \<noteq> ''..'' then rel_parts (tl done) ps
      else rel_parts (p # done) ps)"

definition file_Join :: "string \<Rightarrow> string \<Rightarrow> string" where
  "file_Join dir p =
     (if HasPrefix dir ''/'' then path_Join dir p
      else (case Join (rel_parts [] (Split (dir @ ''/'' @ p) (CHR ''/''))) ''/'' of [] \<Rightarrow> ''.'' | s \<Rightarrow> s))"

text \<open>\<open>filepath.Base\<close> and \<open>filepath.Dir\<close> of a clean path.\<close>

definition path_Base :: "string \<Rightarrow> string" where
  "path_Base p = last (Split p (CHR ''/''))"

definition path_Dir :: "string \<Rightarrow> string" where
  "path_Dir p = path_Join (Join (butlast (Split p (CHR ''/''))) ''/'') []"

definition TrimSuffix :: "string \<Rightarrow> string \<Rightarrow> string" where
  "TrimSuffix s p = (if HasSuffix s p then take (length s - length p) s else s)"

subsection \<open>Logs and container states\<close>

definition saveLog ::
    "('w, 'x) smoke_env_scheme \<Rightarrow> string \<Rightarrow> string \<Rightarrow> string list list \<Rightarrow> string \<Rightarrow> goerr option \<Rightarrow> ('w, unit) state" where
  "saveLog D out key cmds logs runErr = do {
     _ \<leftarrow> seWriteFile D (file_Join out (key @ ''.log''))
       (concat (map (\<lambda>args. ''# docker '' @ shellJoin args @ [CHR 0x0A]) cmds) @
        (case runErr of None \<Rightarrow> [] | Some err \<Rightarrow> ''# error: '' @ err_text err @ [CHR 0x0A]) @ logs);
     ret () }"

definition dockerLogs :: "('w, 'x) smoke_env_scheme \<Rightarrow> string \<Rightarrow> ('w, string \<times> goerr option) state" where
  "dockerLogs D name = do {
     (out, err) \<leftarrow> seLogs D name;
     ret (out, map_option (WrapErr ''docker logs'') err) }"

definition saveSidecarLog :: "('w, 'x) smoke_env_scheme \<Rightarrow> string \<Rightarrow> string \<Rightarrow> containerRun \<Rightarrow> ('w, unit) state" where
  "saveSidecarLog D out key c = do {
     (logs, err) \<leftarrow> dockerLogs D (crName c);
     saveLog D out (key @ ''.'' @ crContainer c) [crArgs c] logs err }"

definition dec_state :: "(bool \<times> int \<times> bool \<times> string) decoder" where
  "dec_state = dec_and (dec_path [''Running''] dec_bool) (dec_and (dec_path [''ExitCode''] dec_int64)
     (dec_and (dec_path [''OOMKilled''] dec_bool) (dec_path [''Error''] dec_string)))"

definition inspectState :: "(string list \<Rightarrow> ('w, goerr + http_body) state) \<Rightarrow> string \<Rightarrow> ('w, goerr + containerState) state" where
  "inspectState docker name = do {
     r \<leftarrow> docker [''inspect'', ''--format'', ''{{json .State}}'', name];
     ret (case r of
       Inl err \<Rightarrow> Inl (GoErr (firstLine (err_text err)))
     | Inr out \<Rightarrow> (case unmarshal_raw dec_state (hbJson out) (False, 0, False, []) of
         None \<Rightarrow> Inl (WrapErr ''parsing container state'' jsonErr)
       | Some (running, code, oom, err) \<Rightarrow> Inr \<lparr>cnRunning = running, cnExitCode = code, cnOOMKilled = oom, cnError = err\<rparr>)) }"

subsection \<open>Starting the pod\<close>

definition sidecarReadyTimeout :: duration where "sidecarReadyTimeout = 60 * Second"

text \<open>
  The loop of \<open>waitReady\<close>. It pauses a second in each round and ends after the deadline, so that
  the rounds given here are never used up; see \<open>waitReady_rounds\<close> in theory \<open>Smoke_Safety\<close>.
\<close>

fun ready_loop :: "('w, 'x) smoke_env_scheme \<Rightarrow> containerRun \<Rightarrow> time \<Rightarrow> nat \<Rightarrow> ('w, goerr option) state" where
  "ready_loop D c deadline 0 = ret (Some (GoErr ''rounds used up''))"
| "ready_loop D c deadline (Suc n) = do {
     r \<leftarrow> seWithin D (5 * Second) ([''exec'', crName c] @ crProbe c);
     case r of
       Inr _ \<Rightarrow> ret None
     | Inl err \<Rightarrow> do {
         e \<leftarrow> seErr D;
         if e \<noteq> None then ret e
         else do {
           st \<leftarrow> inspectState (dkRun D) (crName c);
           case (case st of Inr s \<Rightarrow> if \<not> cnRunning s then Some (cnExitCode s) else None | Inl _ \<Rightarrow> None) of
             Some code \<Rightarrow> ret (Some (GoErr (''exited with code '' @ Itoa code)))
           | None \<Rightarrow> do {
               now \<leftarrow> seNow D;
               if now > deadline
               then ret (Some (GoErr (''not ready after '' @ dur_String sidecarReadyTimeout @ '': '' @ firstLine (err_text err))))
               else do {
                 p \<leftarrow> dkWait D Second;
                 case p of Inl ctxErr \<Rightarrow> ret (Some ctxErr) | Inr _ \<Rightarrow> ready_loop D c deadline n } } } } }"

definition readyRounds :: nat where "readyRounds = 62"

definition waitReady :: "('w, 'x) smoke_env_scheme \<Rightarrow> containerRun \<Rightarrow> ('w, goerr option) state" where
  "waitReady D c =
     (if crProbe c = [] then ret None
      else do {
        now \<leftarrow> seNow D;
        ready_loop D c (now + sidecarReadyTimeout) readyRounds })"

text \<open>The commands run so far come back with the error.\<close>

fun run_setup :: "('w, 'x) smoke_env_scheme \<Rightarrow> string list list \<Rightarrow> string list list \<Rightarrow> ('w, string list list \<times> goerr option) state" where
  "run_setup D cmds [] = ret (cmds, None)"
| "run_setup D cmds (args # rest) = do {
     r \<leftarrow> dkRun D args;
     case r of
       Inl err \<Rightarrow> ret (cmds @ [args], Some (GoErr (''pod setup: '' @ runErrorSummary (err_text err))))
     | Inr _ \<Rightarrow> run_setup D (cmds @ [args]) rest }"

fun start_sidecars ::
    "('w, 'x) smoke_env_scheme \<Rightarrow> string \<Rightarrow> string \<Rightarrow> string list list \<Rightarrow> containerRun list \<Rightarrow> ('w, string list list \<times> goerr option) state" where
  "start_sidecars D out key cmds [] = ret (cmds, None)"
| "start_sidecars D out key cmds (c # cs) = do {
     r \<leftarrow> dkRun D (crArgs c);
     e \<leftarrow> (case r of Inl err \<Rightarrow> ret (Some err) | Inr _ \<Rightarrow> waitReady D c);
     case e of
       None \<Rightarrow> start_sidecars D out key (cmds @ [crArgs c]) cs
     | Some err \<Rightarrow> do {
         saveSidecarLog D out key c;
         ret (cmds @ [crArgs c], Some (GoErr (''sidecar '' @ crContainer c @ '': '' @ runErrorSummary (err_text err)))) } }"

definition startPod ::
    "('w, 'x) smoke_env_scheme \<Rightarrow> string \<Rightarrow> string \<Rightarrow> podPlan \<Rightarrow> ('w, string list list \<times> goerr option) state" where
  "startPod D out key p = do {
     (cmds, err) \<leftarrow> run_setup D [] (plSetup p);
     (case err of Some _ \<Rightarrow> ret (cmds, err) | None \<Rightarrow> start_sidecars D out key cmds (plSidecars p)) }"

text \<open>The regular sidecars, after the main container; one that does not start is a note.\<close>

fun start_others :: "('w, 'x) smoke_env_scheme \<Rightarrow> containerRun list \<Rightarrow> ('w, string list) state" where
  "start_others D [] = ret []"
| "start_others D (c # cs) = do {
     r \<leftarrow> dkRun D (crArgs c);
     notes \<leftarrow> start_others D cs;
     ret ((case r of
       Inl err \<Rightarrow> [''sidecar '' @ crContainer c @ '' not started: '' @ runErrorSummary (err_text err)] | Inr _ \<Rightarrow> []) @ notes) }"

fun collect_runs :: "('w, 'x) smoke_env_scheme \<Rightarrow> string \<Rightarrow> string \<Rightarrow> containerRun list \<Rightarrow> ('w, string list) state" where
  "collect_runs D out key [] = ret []"
| "collect_runs D out key (c # cs) = do {
     saveSidecarLog D out key c;
     st \<leftarrow> inspectState (seDetached D) (crName c);
     notes \<leftarrow> collect_runs D out key cs;
     ret ((case st of
       Inr s \<Rightarrow> if \<not> cnRunning s then [''sidecar '' @ crContainer c @ '' exited with code '' @ Itoa (cnExitCode s)] else []
     | Inl _ \<Rightarrow> []) @ notes) }"

definition collectSidecars :: "('w, 'x) smoke_env_scheme \<Rightarrow> string \<Rightarrow> string \<Rightarrow> podPlan \<Rightarrow> ('w, string list) state" where
  "collectSidecars D out key p = collect_runs D out key (plSidecars p @ plOthers p)"

subsection \<open>One sample\<close>

record smoke_opts =
  soLevel :: int
  soParallel :: int
  soDuration :: duration
  soOverrides :: "imageOverride list"
  soChangedSince :: string
  soOut :: string
  soSamples :: string
  soKeepImages :: bool
  soTmpfsSize :: string
  soNofile :: int
  soNamePrefix :: string
  soRepoRoot :: string

record sample =
  smPath :: string
  smChain :: Chain
  smNode :: "goerr + ChainInstance"

record smokeJob =
  sjKey :: string
  sjSample :: sample

text \<open>
  The fields of a container that the operator copies from a sidecar of the user without reading
  them, and the sources and quantities that the planner looks into.
\<close>

record container_rest =
  xrWorkingDir :: "Container \<Rightarrow> string"
  xrEnvFrom :: "Container \<Rightarrow> string list"
  xrReadiness :: "Container \<Rightarrow> ProbeHandler option"
  xrRunAsUser :: "Container \<Rightarrow> int option"
  xrRunAsGroup :: "Container \<Rightarrow> int option"
  xrSource :: "string \<Rightarrow> EnvVarSource"
  xrMilliValue :: "quantity \<Rightarrow> int"

definition plan_env :: "container_rest \<Rightarrow> EnvVar \<Rightarrow> string \<times> (string + EnvVarSource)" where
  "plan_env X e = (case e of
     EnvValue n v \<Rightarrow> (n, Inl v) | EnvSecret n _ _ _ \<Rightarrow> (n, Inr KeyRef) | EnvOther n src \<Rightarrow> (n, Inr (xrSource X src)))"

definition plan_container :: "container_rest \<Rightarrow> Container \<Rightarrow> PlanContainer" where
  "plan_container X c =
     (let milli = map (\<lambda>(k, q). (k, xrMilliValue X q)) in
      \<lparr>pcName = ctName c, pcImage = ctImage c,
       pcRestartPolicy = (if ctRestartPolicy c = [] then None else Some (ctRestartPolicy c)),
       pcCommand = ctCommand c, pcArgs = ctArgs c, pcWorkingDir = xrWorkingDir X c, pcEnv = map (plan_env X) (ctEnv c),
       pcEnvFrom = xrEnvFrom X c,
       pcLimits = (if rrLimits (ctResources c) = [] then None else Some (milli (rrLimits (ctResources c)))),
       pcRequests = milli (rrRequests (ctResources c)),
       pcStartup = map_option pbHandler (ctStartup c), pcReadiness = xrReadiness X c,
       pcRunAsUser = xrRunAsUser X c, pcRunAsGroup = xrRunAsGroup X c, pcMounts = ctMounts c\<rparr>)"

definition plan_volume :: "Volume \<Rightarrow> PlanVolume" where
  "plan_volume v = (case v of
     ConfigMapVolume n cm \<Rightarrow> \<lparr>pvName = n, pvConfigMap = Some cm, pvSecret = False, pvProjected = False\<rparr>
   | OtherVolume n kind \<Rightarrow> \<lparr>pvName = n, pvConfigMap = None, pvSecret = (kind = ''secret''), pvProjected = (kind = ''projected'')\<rparr>)"

definition plan_pod :: "container_rest \<Rightarrow> PodSpec \<Rightarrow> PlanPod" where
  "plan_pod X p = \<lparr>ppInit = map (plan_container X) (psInitContainers p), ppContainers = map (plan_container X) (psContainers p),
     ppVolumes = map plan_volume (psVolumes p), ppFSGroup = psFSGroup p, ppRunAsUser = None, ppRunAsGroup = None\<rparr>"

text \<open>The template of the sample with the image of an override in the main container.\<close>

definition sample_pod ::
    "snapshot_build \<Rightarrow> 'v registry \<Rightarrow> imageOverride list \<Rightarrow> ChainInstance \<Rightarrow> 'v ChainAdapter \<Rightarrow> PodSpec" where
  "sample_pod B registry overrides node adapter =
     (let spec = ptSpec (RenderPodTemplate B registry node adapter []) in
      case override_lookup overrides (spChain (ciSpec node)) (spClient (ciSpec node)) of
        None \<Rightarrow> spec
      | Some ref \<Rightarrow> spec\<lparr>psContainers := map (\<lambda>c. if ctName c = mainContainerName then c\<lparr>ctImage := ref\<rparr> else c) (psContainers spec)\<rparr>)"

definition sample_input ::
    "container_rest \<Rightarrow> smoke_opts \<Rightarrow> bool \<Rightarrow> string \<Rightarrow> ChainInstance \<Rightarrow> string \<times> string \<Rightarrow> PodSpec \<Rightarrow> string \<Rightarrow> planInput" where
  "sample_input X opts subpath name node cfg pod workDir =
     \<lparr>inName = name, inPod = plan_pod X pod, inConfigMapName = nodeName node @ ''-config'', inConfigFile = fst cfg,
      inConfigContent = snd cfg, inWorkDir = workDir, inTmpfsSize = soTmpfsSize opts, inNofile = soNofile opts,
      inPrefix = soNamePrefix opts, inVolumeSubpath = subpath\<rparr>"

fun writePlanFiles :: "('w, 'x) smoke_env_scheme \<Rightarrow> strmap \<Rightarrow> ('w, goerr option) state" where
  "writePlanFiles D [] = ret None"
| "writePlanFiles D ((path, content) # files) = do {
     e \<leftarrow> seMkdirAll D (path_Dir path);
     case e of
       Some err \<Rightarrow> ret (Some err)
     | None \<Rightarrow> do {
         e \<leftarrow> seWriteFile D path content;
         case e of Some err \<Rightarrow> ret (Some err) | None \<Rightarrow> writePlanFiles D files } }"

text \<open>The images acquired, the one whose pull failed among them.\<close>

fun acquire_all ::
    "('w, 'x) smoke_env_scheme \<Rightarrow> imageSet \<Rightarrow> string list \<Rightarrow> ('w, imageSet \<times> string list \<times> goerr option) state" where
  "acquire_all D s [] = ret (s, [], None)"
| "acquire_all D s (ref # refs) = do {
     (s, e) \<leftarrow> acquire D s ref;
     (case e of
       Some err \<Rightarrow> ret (s, [ref], Some err)
     | None \<Rightarrow> do {
         (s, acquired, e) \<leftarrow> acquire_all D s refs;
         ret (s, ref # acquired, e) }) }"

fun release_all :: "('w, 'x) smoke_env_scheme \<Rightarrow> imageSet \<Rightarrow> string list \<Rightarrow> ('w, imageSet) state" where
  "release_all D s [] = ret s"
| "release_all D s (ref # refs) = do {
     s \<leftarrow> release (detached D) s ref;
     release_all D s refs }"

definition remove_pod :: "('w, 'x) smoke_env_scheme \<Rightarrow> string list \<Rightarrow> podPlan option \<Rightarrow> ('w, unit) state" where
  "remove_pod D containers pod = do {
     _ \<leftarrow> seDetached D ([''rm'', ''-f'', ''-v''] @ containers);
     (case pod of
       Some p \<Rightarrow> if plVolumes p \<noteq> [] then do { _ \<leftarrow> seDetached D ([''volume'', ''rm'', ''-f''] @ plVolumes p); ret () } else ret ()
     | None \<Rightarrow> ret ()) }"

definition row :: "result_row \<Rightarrow> string \<Rightarrow> string \<Rightarrow> result_row" where
  "row r status detail = r\<lparr>reStatus := status, reDetail := detail\<rparr>"

text \<open>After the containers have run: the verdict and, while the node runs, its identity.\<close>

definition judge_run ::
    "('w, 'x) smoke_env_scheme \<Rightarrow> smoke_opts \<Rightarrow> string \<Rightarrow> string \<Rightarrow> runPlan \<Rightarrow> identityTarget \<Rightarrow> string list list \<Rightarrow> duration \<Rightarrow>
     result_row \<Rightarrow> ('w, result_row) state" where
  "judge_run D opts key name plan target cmds ranFor r = do {
     st \<leftarrow> inspectState (seDetached D) name;
     case st of
       Inl err \<Rightarrow> ret (row r statusFail (err_text err))
     | Inr st \<Rightarrow> do {
         notes \<leftarrow> (case rpPod plan of None \<Rightarrow> ret [] | Some p \<Rightarrow> collectSidecars D (soOut opts) key p);
         let r = r\<lparr>reNotes := reNotes r @ notes\<rparr>;
         (logs, logErr) \<leftarrow> dockerLogs D name;
         saveLog D (soOut opts) key cmds logs logErr;
         let (status, detail) = verdict st ranFor (scanLog logs);
         if \<not> cnRunning st then ret (row r status detail)
         else do {
           found \<leftarrow> checkIdentity D target;
           e \<leftarrow> seErr D;
           if e \<noteq> None then ret (row r statusSkip ''interrupted'')
           else (let (status, detail, notes) = applyIdentity status detail found
                 in ret (row (r\<lparr>reNotes := reNotes r @ notes\<rparr>) status detail)) } } }"

definition run_main ::
    "('w, 'x) smoke_env_scheme \<Rightarrow> smoke_opts \<Rightarrow> string \<Rightarrow> string \<Rightarrow> runPlan \<Rightarrow> identityTarget \<Rightarrow> string list list \<Rightarrow>
     result_row \<Rightarrow> ('w, result_row) state" where
  "run_main D opts key name plan target cmds r = do {
     start \<leftarrow> seNow D;
     let cmds = cmds @ [rpArgs plan];
     m \<leftarrow> dkRun D (rpArgs plan);
     case m of
       Inl err \<Rightarrow> do {
         saveLog D (soOut opts) key cmds [] (Some err);
         ret (row r statusFail (runErrorSummary (err_text err))) }
     | Inr _ \<Rightarrow> do {
         let others = (case rpPod plan of None \<Rightarrow> [] | Some p \<Rightarrow> plOthers p);
         notes \<leftarrow> start_others D others;
         let r = r\<lparr>reNotes := reNotes r @ notes\<rparr>;
         _ \<leftarrow> seWithin D (soDuration opts) [''wait'', name];
         now \<leftarrow> seNow D;
         e \<leftarrow> seErr D;
         if e \<noteq> None then ret (row r statusSkip ''interrupted'')
         else judge_run D opts key name plan target (cmds @ map crArgs others) (time_Sub now start) r } }"

definition run_pod ::
    "('w, 'x) smoke_env_scheme \<Rightarrow> smoke_opts \<Rightarrow> string \<Rightarrow> string \<Rightarrow> runPlan \<Rightarrow> identityTarget \<Rightarrow> result_row \<Rightarrow> ('w, result_row) state" where
  "run_pod D opts key name plan target r = do {
     (cmds, err) \<leftarrow> (case rpPod plan of None \<Rightarrow> ret ([], None) | Some p \<Rightarrow> startPod D (soOut opts) key p);
     (case err of
       None \<Rightarrow> run_main D opts key name plan target cmds r
     | Some err \<Rightarrow> do {
         e \<leftarrow> seErr D;
         if e \<noteq> None then ret (row r statusSkip ''interrupted'')
         else do {
           saveLog D (soOut opts) key cmds [] (Some err);
           ret (row r statusFail (err_text err)) } }) }"

text \<open>From the plan on: the two deferred clean-ups, in reverse order.\<close>

definition run_plan ::
    "('w, 'x) smoke_env_scheme \<Rightarrow> smoke_opts \<Rightarrow> imageSet \<Rightarrow> string \<Rightarrow> string \<Rightarrow> runPlan \<Rightarrow> identityTarget \<Rightarrow> result_row \<Rightarrow>
     ('w, imageSet \<times> result_row) state" where
  "run_plan D opts s key name plan target r = do {
     (s, acquired, e) \<leftarrow> acquire_all D s (plan_images plan);
     r \<leftarrow> (case e of
       Some err \<Rightarrow> ret (row r statusFail (firstLine (err_text err)))
     | None \<Rightarrow> do {
         remove_pod D (plan_containers plan name) (rpPod plan);
         r \<leftarrow> run_pod D opts key name plan target r;
         remove_pod D (plan_containers plan name) (rpPod plan);
         ret r });
     s \<leftarrow> release_all D s acquired;
     ret (s, r) }"

definition sample_target :: "smoke_opts \<Rightarrow> ChainInstance \<Rightarrow> PodSpec \<Rightarrow> string \<Rightarrow> runPlan \<Rightarrow> identityTarget" where
  "sample_target opts node pod name plan =
     newIdentityTarget (ciSpec node) (the (find (\<lambda>c. ctName c = mainContainerName) (psContainers pod))) name
       (case rpPod plan of None \<Rightarrow> name | Some p \<Rightarrow> plHolder p) (soNamePrefix opts)"

definition smoke_in ::
    "('w, 'x) smoke_env_scheme \<Rightarrow> container_rest \<Rightarrow> smoke_opts \<Rightarrow> bool \<Rightarrow> imageSet \<Rightarrow> string \<Rightarrow> ChainInstance \<Rightarrow> string \<times> string \<Rightarrow>
     PodSpec \<Rightarrow> string \<Rightarrow> result_row \<Rightarrow> ('w, imageSet \<times> result_row) state" where
  "smoke_in D X opts subpath s key node cfg pod workDir r =
     (let name = soNamePrefix opts @ ''-'' @ key in
      case buildRunPlan (sample_input X opts subpath name node cfg pod workDir) of
        Inl err \<Rightarrow> ret (s, row r statusFail (err_text err))
      | Inr plan \<Rightarrow>
          if rpImage plan = [] then ret (s, row r statusSkip ''no default image (spec.image required)'')
          else do {
            let r = r\<lparr>reImage := rpImage plan, reNotes := rpNotes plan\<rparr>;
            e \<leftarrow> writePlanFiles D (rpFiles plan);
            case e of
              Some err \<Rightarrow> ret (s, row r statusFail (err_text err))
            | None \<Rightarrow> run_plan D opts s key name plan (sample_target opts node pod name plan) r })"

definition smokeSample ::
    "('w, 'x) smoke_env_scheme \<Rightarrow> snapshot_build \<Rightarrow> 'v registry \<Rightarrow> container_rest \<Rightarrow> smoke_opts \<Rightarrow> bool \<Rightarrow> imageSet \<Rightarrow> smokeJob \<Rightarrow>
     ('w, imageSet \<times> result_row) state" where
  "smokeSample D B registry X opts subpath s j = do {
     let r = \<lparr>reChain = smChain (sjSample j), reClient = [], reImage = [], reLevel = 1, reStatus = [], reDetail = [], reNotes = []\<rparr>;
     e \<leftarrow> seErr D;
     if e \<noteq> None then ret (s, row r statusSkip ''interrupted'')
     else (case smNode (sjSample j) of
       Inl err \<Rightarrow> ret (s, row r statusFail (''decoding '' @ path_Base (smPath (sjSample j)) @ '': '' @ err_text err))
     | Inr node \<Rightarrow>
         (let r = r\<lparr>reClient := spClient (ciSpec node)\<rparr> in
          case Get registry (spChain (ciSpec node)) of
            None \<Rightarrow> ret (s, row r statusFail ''no adapter registered'')
          | Some adapter \<Rightarrow> (case adConfigTemplate adapter (ciSpec node) of
              Inl err \<Rightarrow> ret (s, row r statusFail (''rendering config: '' @ err_text err))
            | Inr cfg \<Rightarrow> do {
                let pod = sample_pod B registry (soOverrides opts) node adapter;
                wd \<leftarrow> seMkdirTemp D (soNamePrefix opts @ ''-'' @ sjKey j @ ''-'');
                case wd of
                  Inl err \<Rightarrow> ret (s, row r statusFail (err_text err))
                | Inr workDir \<Rightarrow> do {
                    sr \<leftarrow> smoke_in D X opts subpath s (sjKey j) node cfg pod workDir r;
                    seRemoveAll D workDir;
                    ret sr } }))) }"

subsection \<open>Samples and levels\<close>

abbreviation (input) sampleGlob :: string where "sampleGlob \<equiv> ''chains_v1alpha2_chaininstance_*.yaml''"

definition chainFromSamplePath :: "string \<Rightarrow> Chain" where
  "chainFromSamplePath p =
     map (\<lambda>c. if c = CHR ''_'' then CHR ''-'' else c)
       (TrimPrefix (TrimSuffix (path_Base p) ''.yaml'') ''chains_v1alpha2_chaininstance_'')"

text \<open>The YAML decoder is an argument; it gives the kind of the manifest and the object.\<close>

definition decodeSample :: "('d \<Rightarrow> goerr + string \<times> ChainInstance) \<Rightarrow> 'd \<Rightarrow> goerr + ChainInstance" where
  "decodeSample unmarshalStrict data = (case unmarshalStrict data of
     Inl err \<Rightarrow> Inl err
   | Inr (kind, node) \<Rightarrow>
       if kind \<noteq> ''ChainInstance'' then Inl (GoErr (''kind '' @ Quote kind @ '', want ChainInstance''))
       else if spChain (ciSpec node) = [] then Inl (GoErr ''spec.chain is empty'')
       else Inr (if nodeNamespace node = [] then node\<lparr>ciMeta := (ciMeta node)\<lparr>mNamespace := smokeNamespace\<rparr>\<rparr> else node))"

text \<open>The glob and the reads of the files are arguments.\<close>

fun read_samples :: "(string \<Rightarrow> goerr + 'd) \<Rightarrow> ('d \<Rightarrow> goerr + string \<times> ChainInstance) \<Rightarrow> string list \<Rightarrow> goerr + sample list" where
  "read_samples readFile unmarshal [] = Inr []"
| "read_samples readFile unmarshal (p # ps) = (case readFile p of
     Inl err \<Rightarrow> Inl err
   | Inr data \<Rightarrow> (let node = decodeSample unmarshal data;
                     s = \<lparr>smPath = p, smChain = (case node of Inr n \<Rightarrow> spChain (ciSpec n) | Inl _ \<Rightarrow> chainFromSamplePath p), smNode = node\<rparr>
       in map_sum id (Cons s) (read_samples readFile unmarshal ps)))"

definition loadSamples ::
    "(string \<Rightarrow> goerr + string list) \<Rightarrow> (string \<Rightarrow> goerr + 'd) \<Rightarrow> ('d \<Rightarrow> goerr + string \<times> ChainInstance) \<Rightarrow> string \<Rightarrow> goerr + sample list" where
  "loadSamples glob readFile unmarshal dir = (case glob (file_Join dir sampleGlob) of
     Inl err \<Rightarrow> Inl err
   | Inr paths \<Rightarrow>
       if paths = [] then Inl (GoErr (''no '' @ sampleGlob @ '' files in '' @ dir))
       else read_samples readFile unmarshal paths)"

definition engineAtLeast :: "string \<Rightarrow> int \<Rightarrow> bool" where
  "engineAtLeast version major \<longleftrightarrow> (case Cut version (CHR ''.'') of (head, _) \<Rightarrow>
     (case ParseInt64 10 head of Some n \<Rightarrow> n \<ge> major | None \<Rightarrow> False))"

definition volumeSubpathSupported :: "('w, 'x) smoke_env_scheme \<Rightarrow> ('w, bool) state" where
  "volumeSubpathSupported D = do {
     r \<leftarrow> dkRun D [''version'', ''--format'', ''{{.Server.Version}}''];
     ret (case r of Inl _ \<Rightarrow> False | Inr out \<Rightarrow> engineAtLeast (TrimSpace (hbText out)) 26) }"

definition samples_of :: "sample list \<Rightarrow> (Chain \<Rightarrow> bool) \<Rightarrow> Chain \<Rightarrow> nat" where
  "samples_of samples selected chain = length (filter (\<lambda>s. selected (smChain s) \<and> smChain s = chain) samples)"

definition level1Jobs :: "sample list \<Rightarrow> (Chain \<Rightarrow> bool) \<Rightarrow> smokeJob list" where
  "level1Jobs samples selected =
     map (\<lambda>s. \<lparr>sjKey = smChain s @ (if samples_of samples selected (smChain s) > 1
                    then ''-'' @ TrimSuffix (path_Base (smPath s)) ''.yaml'' else []),
               sjSample = s\<rparr>)
       (filter (\<lambda>s. selected (smChain s)) samples)"

text \<open>Chains with a default image and no sample, in the order of their names.\<close>

definition missing_rows :: "image_table \<Rightarrow> sample list \<Rightarrow> (Chain \<Rightarrow> bool) \<Rightarrow> result_row list" where
  "missing_rows images samples selected =
     map (\<lambda>chain. \<lparr>reChain = chain, reClient = [], reImage = [], reLevel = 1, reStatus = statusSkip,
                   reDetail = ''no sample in '' @ sampleGlob, reNotes = []\<rparr>)
       (filter (\<lambda>chain. selected chain \<and> samples_of samples selected chain = 0)
         (sort_rows (\<lambda>chain. (chain, [])) (map fst images)))"

fun smoke_all ::
    "('w, 'x) smoke_env_scheme \<Rightarrow> snapshot_build \<Rightarrow> 'v registry \<Rightarrow> container_rest \<Rightarrow> smoke_opts \<Rightarrow> bool \<Rightarrow> imageSet \<Rightarrow> smokeJob list \<Rightarrow>
     ('w, result_row list) state" where
  "smoke_all D B registry X opts subpath s [] = ret []"
| "smoke_all D B registry X opts subpath s (j # js) = do {
     (s, r) \<leftarrow> smokeSample D B registry X opts subpath s j;
     rs \<leftarrow> smoke_all D B registry X opts subpath s js;
     ret (r # rs) }"

definition runLevel1 ::
    "('w, 'x) smoke_env_scheme \<Rightarrow> snapshot_build \<Rightarrow> 'v registry \<Rightarrow> container_rest \<Rightarrow> smoke_opts \<Rightarrow> sample list \<Rightarrow> (Chain \<Rightarrow> bool) \<Rightarrow>
     ('w, result_row list) state" where
  "runLevel1 D B registry X opts samples selected = do {
     e \<leftarrow> seMkdirAll D (soOut opts);
     case e of
       Some err \<Rightarrow> ret [\<lparr>reChain = ''-'', reClient = [], reImage = [], reLevel = 1, reStatus = statusFail,
                         reDetail = err_text err, reNotes = []\<rparr>]
     | None \<Rightarrow> do {
         subpath \<leftarrow> volumeSubpathSupported D;
         rs \<leftarrow> smoke_all D B registry X opts subpath (newImageSet (soKeepImages opts)) (level1Jobs samples selected);
         ret (rs @ missing_rows chainDefaultImages samples selected) } }"

text \<open>What \<open>parseFlags\<close> does with the parsed flags; the repository root comes from git.\<close>

definition namePrefixRe :: "string \<Rightarrow> bool" where
  "namePrefixRe s \<longleftrightarrow> (case s of [] \<Rightarrow> False | c # r \<Rightarrow> wordByte c \<and> c \<noteq> CHR ''_'' \<and> list_all volumeNameByte r)"

definition checkFlags :: "string \<Rightarrow> smoke_opts \<Rightarrow> goerr + smoke_opts" where
  "checkFlags repoRoot opts =
     (if soLevel opts \<noteq> 0 \<and> soLevel opts \<noteq> 1 then Inl (GoErr (''--level must be 0 or 1, got '' @ Itoa (soLevel opts)))
      else (let opts = opts\<lparr>soParallel := if soParallel opts \<noteq> 0 then soParallel opts else if soLevel opts = 0 then 6 else 3\<rparr> in
        if soParallel opts < 1 then Inl (GoErr ''--parallel must be positive'')
        else if soDuration opts \<le> 0 then Inl (GoErr ''--duration must be positive'')
        else if soNofile opts < 0 then Inl (GoErr ''--nofile must not be negative'')
        else if \<not> namePrefixRe (soNamePrefix opts)
        then Inl (GoErr (''--name-prefix '' @ Quote (soNamePrefix opts) @ '' is not a valid docker name''))
        else Inr (opts\<lparr>soRepoRoot := repoRoot,
               soSamples := (if soSamples opts = [] then file_Join repoRoot ''config/samples'' else soSamples opts)\<rparr>)))"

text \<open>
  The dispatch of \<open>run\<close>. The lookup of the docker program, the comparison with a git revision,
  the regular expression and the samples on disk are arguments.
\<close>

definition run_smoke ::
    "('w, 'x) smoke_env_scheme \<Rightarrow> snapshot_build \<Rightarrow> 'v registry \<Rightarrow> container_rest \<Rightarrow> goerr option \<Rightarrow> (string \<Rightarrow> goerr + (Chain \<Rightarrow> bool)) \<Rightarrow>
     (Chain \<Rightarrow> bool) \<Rightarrow> (string \<Rightarrow> goerr + sample list) \<Rightarrow> (string \<Rightarrow> bool) \<Rightarrow> smoke_opts \<Rightarrow> ('w, goerr + result_row list) state" where
  "run_smoke D B registry X lookPath changedSince chainsRe load interrupted opts = (case lookPath of
     Some err \<Rightarrow> ret (Inl (WrapErr ''docker CLI not found'' err))
   | None \<Rightarrow> (case (if soChangedSince opts = [] then Inr chainsRe
                    else map_sum id (\<lambda>changed chain. changed chain \<and> chainsRe chain) (changedSince (soChangedSince opts))) of
       Inl err \<Rightarrow> ret (Inl err)
     | Inr selected \<Rightarrow>
         if soLevel opts = 0 then do {
           rs \<leftarrow> runLevel0 D interrupted (level0Targets chainDefaultImages (soOverrides opts) selected);
           ret (Inr rs) }
         else (case load (soSamples opts) of
           Inl err \<Rightarrow> ret (Inl err)
         | Inr samples \<Rightarrow> do {
             rs \<leftarrow> runLevel1 D B registry X opts samples selected;
             ret (Inr rs) })))"

end
