(* ===== verification/Smoke_Safety.thy ===== *)
theory Smoke_Safety
  imports Smoke_Run Auto_Restart
begin

text \<open>
  What a smoke run leaves behind. \<open>pod_host\<close> states how docker commands change the containers and
  volumes of a host; every command of a plan creates only what the plan removes, so that a run
  leaves neither on any path. The theory also bounds the wait for a sidecar and shows that the
  commands of a log can be pasted into a shell.
\<close>

subsection \<open>Reading docker commands\<close>

text \<open>
  The options of a command, up to its first positional argument. All options used take one
  value except \<open>-d\<close> and \<open>--rm\<close>.
\<close>

fun cli_options :: "string list \<Rightarrow> (string \<times> string) list" where
  "cli_options (opt # v # xs) =
     (if opt = ''-d'' \<or> opt = ''--rm'' then cli_options (v # xs)
      else if HasPrefix opt ''--'' then (opt, v) # cli_options xs else [])"
| "cli_options _ = []"

definition mount_volume :: "string \<Rightarrow> string" where
  "mount_volume spec = takeWhile (\<lambda>c. c \<noteq> CHR '','') (drop (length ''type=volume,src='') spec)"

definition volume_mounts :: "(string \<times> string) list \<Rightarrow> string set" where
  "volume_mounts opts = {mount_volume spec | spec. (''--mount'', spec) \<in> set opts \<and> HasPrefix spec ''type=volume,src=''}"

text \<open>The container a command names, and the volumes it may create.\<close>

definition named :: "string list \<Rightarrow> string set" where
  "named args = (if args \<noteq> [] \<and> hd args = ''run'' then {v. (''--name'', v) \<in> set (cli_options (tl args))} else {})"

definition made :: "string list \<Rightarrow> string set" where
  "made args =
     (if args \<noteq> [] \<and> hd args = ''run'' then volume_mounts (cli_options (tl args))
      else if take 2 args = [''volume'', ''create''] then {last args} else {})"

definition opt_pairs :: "(string \<times> string) list \<Rightarrow> string list" where
  "opt_pairs ps = concat (map (\<lambda>(opt, v). [opt, v]) ps)"

definition is_opt :: "string \<times> string \<Rightarrow> bool" where
  "is_opt p \<longleftrightarrow> HasPrefix (fst p) ''--'' \<and> fst p \<noteq> ''--rm''"

lemma opt_pairs_simps [simp]:
  "opt_pairs [] = []" "opt_pairs (p # ps) = fst p # snd p # opt_pairs ps" "opt_pairs (ps @ qs) = opt_pairs ps @ opt_pairs qs"
  by (simp_all add: opt_pairs_def split_beta)

lemma opt_pairs_case:
  "opt_pairs (if b then ps else qs) = (if b then opt_pairs ps else opt_pairs qs)"
  "opt_pairs (case x of None \<Rightarrow> ps | Some y \<Rightarrow> f y) = (case x of None \<Rightarrow> opt_pairs ps | Some y \<Rightarrow> opt_pairs (f y))"
  "opt_pairs (case l of [] \<Rightarrow> ps | y # ys \<Rightarrow> g y ys) = (case l of [] \<Rightarrow> opt_pairs ps | y # ys \<Rightarrow> opt_pairs (g y ys))"
  by (simp_all split: option.splits list.splits)

lemma cli_opt_pairs: "list_all is_opt ps \<Longrightarrow> cli_options (opt_pairs ps @ xs) = ps @ cli_options xs"
  by (induction ps) (auto simp: is_opt_def)

lemma cli_positional: "\<not> HasPrefix x ''-'' \<Longrightarrow> cli_options (x # xs) = []"
  by (cases xs) (auto elim: HasPrefix.elims)

lemma volume_mounts_simps [simp]:
  "volume_mounts [] = {}" "volume_mounts (ps @ qs) = volume_mounts ps \<union> volume_mounts qs"
  "volume_mounts ((opt, spec) # ps) =
     (if opt = ''--mount'' \<and> HasPrefix spec ''type=volume,src='' then {mount_volume spec} else {}) \<union> volume_mounts ps"
  by (auto simp: volume_mounts_def)

lemma named_run:
  assumes "list_all is_opt ps" "\<not> HasPrefix img ''-''"
  shows "named ([''run'', ''-d''] @ opt_pairs ps @ img # rest) = {v. (''--name'', v) \<in> set ps}"
    and "made ([''run'', ''-d''] @ opt_pairs ps @ img # rest) = volume_mounts ps"
proof -
  have "cli_options (''-d'' # opt_pairs ps @ img # rest) = cli_options (opt_pairs ps @ img # rest)"
    by (cases ps) (auto simp: cli_positional)
  then have "cli_options (''-d'' # opt_pairs ps @ img # rest) = ps"
    using assms by (simp add: cli_opt_pairs cli_positional)
  then show "named ([''run'', ''-d''] @ opt_pairs ps @ img # rest) = {v. (''--name'', v) \<in> set ps}"
    and "made ([''run'', ''-d''] @ opt_pairs ps @ img # rest) = volume_mounts ps"
    by (simp_all add: named_def made_def)
qed

subsection \<open>What the commands of a plan create\<close>

text \<open>Names of volumes without a comma and images that do not look like an option.\<close>

definition plain_container :: "PlanContainer \<Rightarrow> bool" where
  "plain_container c \<longleftrightarrow> \<not> HasPrefix (pcImage c) ''-'' \<and> list_all (\<lambda>m. CHR '','' \<notin> set (vmName m)) (pcMounts c)"

definition plain_pod :: "string \<Rightarrow> PlanPod \<Rightarrow> bool" where
  "plain_pod name pod \<longleftrightarrow> CHR '','' \<notin> set name \<and> list_all plain_container (ppInit pod @ ppContainers pod)"

definition planner_ok :: "planInput \<Rightarrow> mountPlanner \<Rightarrow> bool" where
  "planner_ok inp p \<longleftrightarrow> list_all (\<lambda>v. HasPrefix v (inName inp @ ''-'') \<and> CHR '','' \<notin> set v) (mpVolumes p)"

lemma set_add_new [simp]: "set (add_new xs x) = insert x (set xs)"
  by (auto simp: add_new_def)

lemma planner_note_volumes [simp]: "mpVolumes (planner_note n p) = mpVolumes p"
  by (simp add: planner_note_def)

lemma dash_runs_plain: "CHR '','' \<notin> set (dash_runs b s)"
  by (induction s arbitrary: b) (auto simp: volumeNameByte_def wordByte_def Let_def is_digit_def digit_val_def ToLower_char_def)

lemma takeWhile_plain: "c \<notin> set xs \<Longrightarrow> takeWhile (\<lambda>x. x \<noteq> c) (xs @ c # ys) = xs"
  by (induction xs) auto

lemma mount_volume_spec: "CHR '','' \<notin> set vol \<Longrightarrow> mount_volume (''type=volume,src='' @ vol @ '',dst='' @ rest) = vol"
  by (simp add: mount_volume_def takeWhile_plain)

lemma volumeMount_made:
  assumes "planner_ok inp p" "CHR '','' \<notin> set (inName inp)" "CHR '','' \<notin> set (vmName m)" "volumeMount inp m p = (spec, p')"
  shows "planner_ok inp p'" "set (mpVolumes p) \<subseteq> set (mpVolumes p')"
    and "HasPrefix spec ''type=volume,src=''" "mount_volume spec \<in> set (mpVolumes p')"
proof -
  define vol where "vol = inName inp @ ''-'' @ vmName m @
      (if vmSubPath m = [] \<or> inVolumeSubpath inp then [] else ''-'' @ dash_runs False (vmSubPath m))"
  define rest where "rest = vmMountPath m @ (if vmSubPath m \<noteq> [] \<and> inVolumeSubpath inp then '',volume-subpath='' @ vmSubPath m else [])
      @ (if vmReadOnly m then '',readonly'' else [])"
  have spec: "spec = ''type=volume,src='' @ vol @ '',dst='' @ rest" and vols: "mpVolumes p' = add_new (mpVolumes p) vol"
    using assms(4) by (auto simp: volumeMount_def Let_def vol_def rest_def split: if_splits)
  have vol: "HasPrefix vol (inName inp @ ''-'')" "CHR '','' \<notin> set vol"
    using assms(2,3) dash_runs_plain [of False "vmSubPath m"] by (auto simp: vol_def HasPrefix_iff)
  show "planner_ok inp p'" using assms(1) vols vol by (auto simp: planner_ok_def list_all_iff)
  show "set (mpVolumes p) \<subseteq> set (mpVolumes p')" by (auto simp: vols)
  show "HasPrefix spec ''type=volume,src=''" by (simp add: spec)
  show "mount_volume spec \<in> set (mpVolumes p')" unfolding spec mount_volume_spec [OF vol(2)] by (simp add: vols)
qed

definition mount_opts :: "bool \<Rightarrow> mountPlanner \<Rightarrow> (string \<times> string) list \<Rightarrow> bool" where
  "mount_opts pod p ps \<longleftrightarrow> list_all is_opt ps \<and> ''--name'' \<notin> fst ` set ps \<and> volume_mounts ps \<subseteq> (if pod then set (mpVolumes p) else {})"

lemma mount_opts_mono: "mount_opts pod p ps \<Longrightarrow> set (mpVolumes p) \<subseteq> set (mpVolumes p') \<Longrightarrow> mount_opts pod p' ps"
  unfolding mount_opts_def by (cases pod) (simp_all, blast)

lemma mount_opts_append: "mount_opts pod p ps \<Longrightarrow> mount_opts pod p qs \<Longrightarrow> mount_opts pod p (ps @ qs)"
  by (auto simp: mount_opts_def)

lemma mount_opts_single:
  "opt = ''--mount'' \<and> (HasPrefix spec ''type=volume,src='' \<longrightarrow> pod \<and> mount_volume spec \<in> set (mpVolumes p)) \<or> opt = ''--tmpfs'' \<Longrightarrow>
   mount_opts pod p [(opt, spec)]"
  by (auto simp: mount_opts_def is_opt_def)

lemma config_mount_made:
  assumes "config_mount inp m p = (args, p')"
  shows "mpVolumes p' = mpVolumes p" "\<exists>ps. args = opt_pairs ps \<and> mount_opts pod p' ps"
proof -
  obtain rest where args: "args = [''--mount'', ''type=bind'' @ rest]" and vols: "mpVolumes p' = mpVolumes p"
    using assms by (auto simp: config_mount_def Let_def split: if_splits)
  show "mpVolumes p' = mpVolumes p" by (rule vols)
  have "mount_opts pod p' [(''--mount'', ''type=bind'' @ rest)]" by (rule mount_opts_single) simp
  moreover have "args = opt_pairs [(''--mount'', ''type=bind'' @ rest)]" by (simp add: args)
  ultimately show "\<exists>ps. args = opt_pairs ps \<and> mount_opts pod p' ps" by blast
qed

lemma one_mount_made:
  assumes ok: "planner_ok inp p" "CHR '','' \<notin> set (inName inp)" "CHR '','' \<notin> set (vmName m)"
    and one: "one_mount inp pod m p = (args, p')"
  shows "planner_ok inp p' \<and> set (mpVolumes p) \<subseteq> set (mpVolumes p') \<and> (\<exists>ps. args = opt_pairs ps \<and> mount_opts pod p' ps)"
proof (cases "case volume_decl inp (vmName m) of Some v \<Rightarrow> pvConfigMap v = Some (inConfigMapName inp) | None \<Rightarrow> False")
  case True
  then have "config_mount inp m p = (args, p')" using one by (simp add: one_mount_def)
  with config_mount_made(1) [OF this] config_mount_made(2) [OF this, of pod] ok(1) show ?thesis by (auto simp: planner_ok_def)
next
  case False
  define q where "q = (if case volume_decl inp (vmName m) of Some v \<Rightarrow> pvConfigMap v \<noteq> None \<or> pvSecret v \<or> pvProjected v | None \<Rightarrow> False
      then planner_note (''volume '' @ vmName m @ '' mounted empty at '' @ vmMountPath m) p else p)"
  have q: "mpVolumes q = mpVolumes p" by (simp add: q_def)
  have one': "(args, p') = (if pod then (let (spec, p) = volumeMount inp m q in ([''--mount'', spec], p))
        else ([''--tmpfs'', vmMountPath m @ '':rw,exec,mode=1777,size='' @ inTmpfsSize inp], q))"
    using one unfolding one_mount_def Let_def q_def [symmetric] if_not_P [OF False] by (rule sym)
  from q ok(1) have okq: "planner_ok inp q" by (simp add: planner_ok_def)
  show ?thesis
  proof (cases pod)
    case True
    then obtain spec where vm: "volumeMount inp m q = (spec, p')" and args: "args = opt_pairs [(''--mount'', spec)]"
      using one' by (auto split: prod.splits)
    note made = volumeMount_made [OF okq ok(2,3) vm]
    have "mount_opts pod p' [(''--mount'', spec)]" by (rule mount_opts_single) (simp add: True made)
    with made(1,2) q args show ?thesis by metis
  next
    case False
    then obtain spec where "p' = q" "args = opt_pairs [(''--tmpfs'', spec)]" using one' by auto
    moreover have "mount_opts pod q [(''--tmpfs'', spec)]" by (rule mount_opts_single) simp
    ultimately show ?thesis using okq q by (metis order_refl)
  qed
qed

lemma mounts_made:
  assumes "planner_ok inp p" "CHR '','' \<notin> set (inName inp)" "list_all (\<lambda>m. CHR '','' \<notin> set (vmName m)) ms"
    and "mounts_from inp pod seen ms p = (args, p')"
  shows "planner_ok inp p' \<and> set (mpVolumes p) \<subseteq> set (mpVolumes p') \<and> (\<exists>ps. args = opt_pairs ps \<and> mount_opts pod p' ps)"
  using assms(1,3,4)
proof (induction ms arbitrary: seen p args)
  case Nil
  then show ?case by (auto simp: mount_opts_def intro: exI [of _ "[]"])
next
  case (Cons m ms)
  show ?case
  proof (cases "vmMountPath m \<in> set seen")
    case True
    moreover have "planner_ok inp (planner_note n p)" for n using Cons.prems(1) by (simp add: planner_ok_def)
    ultimately show ?thesis using Cons.IH [of "planner_note (''duplicate mount '' @ vmMountPath m @ '' skipped'') p"] Cons.prems by simp
  next
    case False
    then obtain as q bs where one: "one_mount inp pod m p = (as, q)"
      and rest: "mounts_from inp pod (vmMountPath m # seen) ms q = (bs, p')" and args: "args = as @ bs"
      using Cons.prems(3) by (auto split: prod.splits)
    from Cons.prems(2) have m: "CHR '','' \<notin> set (vmName m)" by simp
    obtain ps where ps: "as = opt_pairs ps" "mount_opts pod q ps" and q: "planner_ok inp q" "set (mpVolumes p) \<subseteq> set (mpVolumes q)"
      using one_mount_made [OF Cons.prems(1) assms(2) m one] by blast
    obtain qs where "bs = opt_pairs qs" "mount_opts pod p' qs" "planner_ok inp p'" "set (mpVolumes q) \<subseteq> set (mpVolumes p')"
      using Cons.IH [OF q(1) _ rest] Cons.prems(2) by auto
    with ps q args show ?thesis
      by (intro conjI exI [of _ "ps @ qs"]) (auto intro: mount_opts_append mount_opts_mono)
  qed
qed

text \<open>A command for one container names that container and mounts the volumes of the planner.\<close>

definition runs_as :: "string \<Rightarrow> string set \<Rightarrow> string list \<Rightarrow> bool" where
  "runs_as name vols args \<longleftrightarrow> named args \<subseteq> {name} \<and> made args \<subseteq> vols"

lemma containerRunArgs_runs:
  assumes "mount_opts pod p ps" "\<not> HasPrefix (pcImage c) ''-''"
  shows "runs_as name (if pod then set (mpVolumes p) else {}) (containerRunArgs inp name c network (opt_pairs ps))"
proof -
  obtain env lookup where env: "resolveEnv c (inName inp) = (env, lookup)" by fastforce
  define qs where "qs = [(''--name'', name), (''--platform'', smokePlatform), (''--label'', ''chainsmoke=1'')]
      @ (if inPrefix inp \<noteq> [] then [(''--label'', ''chainsmoke.prefix='' @ inPrefix inp)] else [])
      @ (if network \<noteq> [] then [(''--network'', network)] else [])
      @ (if inNofile inp > 0 then [(''--ulimit'', ''nofile='' @ Itoa (inNofile inp) @ '':'' @ Itoa (inNofile inp))] else [])
      @ (case ppFSGroup (inPod inp) of None \<Rightarrow> [] | Some g \<Rightarrow> [(''--group-add'', Itoa g)])
      @ (if runAsUser (inPod inp) c \<noteq> [] then [(''--user'', runAsUser (inPod inp) c)] else [])
      @ (if pcWorkingDir c \<noteq> [] then [(''--workdir'', pcWorkingDir c)] else []) @ map (Pair ''--env'') env"
  define es where "es = (case expandAll lookup (pcCommand c) of [] \<Rightarrow> [] | e # _ \<Rightarrow> [(''--entrypoint'', e)])"
  have envs: "concat (map (\<lambda>kv. [''--env'', kv]) env) = opt_pairs (map (Pair ''--env'') env)"
    by (simp add: opt_pairs_def comp_def)
  have args: "containerRunArgs inp name c network (opt_pairs ps) = [''run'', ''-d''] @ opt_pairs (qs @ ps @ es) @
      pcImage c # drop 1 (expandAll lookup (pcCommand c)) @ expandAll lookup (pcArgs c)"
    unfolding containerRunArgs_def qs_def es_def env Let_def prod.case envs labelArgs_def
    by (simp only: opt_pairs_simps opt_pairs_case append.simps append_assoc fst_conv snd_conv)
  have opts: "list_all is_opt qs" "volume_mounts (map (Pair ''--env'') env) = {}" "\<And>v. (''--name'', v) \<in> set qs \<Longrightarrow> v = name"
    by (auto simp: qs_def is_opt_def list_all_iff volume_mounts_def split: option.splits)
  have vols: "volume_mounts qs = {}" unfolding qs_def by (auto simp: volume_mounts_def split: option.splits)
  have es: "list_all is_opt es" "volume_mounts es = {}" "\<And>v. (''--name'', v) \<notin> set es"
    by (auto simp: es_def is_opt_def split: list.splits)
  have ps: "list_all is_opt ps" "\<And>v. (''--name'', v) \<notin> set ps" "volume_mounts ps \<subseteq> (if pod then set (mpVolumes p) else {})"
    using assms(1) by (auto simp: mount_opts_def image_iff Bex_def split: if_splits)
  have "list_all is_opt (qs @ ps @ es)" using opts(1) es(1) ps(1) by simp
  note run = named_run [OF this assms(2)]
  show ?thesis
    unfolding runs_as_def args run using ps(2,3) es(2,3) opts(3) vols by auto
qed

lemma runs_as_mono: "runs_as name V args \<Longrightarrow> V \<subseteq> V' \<Longrightarrow> runs_as name V' args"
  by (auto simp: runs_as_def)

definition pod_volumes :: "bool \<Rightarrow> mountPlanner \<Rightarrow> string set" where
  "pod_volumes pod p = (if pod then set (mpVolumes p) else {})"

lemma pod_volumes_mono: "set (mpVolumes p) \<subseteq> set (mpVolumes p') \<Longrightarrow> pod_volumes pod p \<subseteq> pod_volumes pod p'"
  by (simp add: pod_volumes_def)

lemma container_made:
  assumes "planner_ok inp p" "CHR '','' \<notin> set (inName inp)" "plain_container c" "planner_mounts inp pod (pcMounts c) p = (args, p')"
  shows "planner_ok inp p'" "set (mpVolumes p) \<subseteq> set (mpVolumes p')"
    and "runs_as name (pod_volumes pod p') (containerRunArgs inp name c network args)"
proof -
  from assms(3) have c: "\<not> HasPrefix (pcImage c) ''-''" "list_all (\<lambda>m. CHR '','' \<notin> set (vmName m)) (pcMounts c)"
    by (auto simp: plain_container_def)
  note made = mounts_made [OF assms(1,2) c(2) assms(4) [unfolded planner_mounts_def]]
  show "planner_ok inp p'" "set (mpVolumes p) \<subseteq> set (mpVolumes p')" using made by auto
  from made obtain ps where ps: "args = opt_pairs ps" "mount_opts pod p' ps" by blast
  show "runs_as name (pod_volumes pod p') (containerRunArgs inp name c network args)"
    unfolding ps(1) pod_volumes_def by (rule containerRunArgs_runs [OF ps(2) c(1)])
qed

lemma plan_sidecar_made:
  assumes "planner_ok inp p" "CHR '','' \<notin> set (inName inp)" "plain_container c" "plan_sidecar inp pod net c (ns, p) = (r, ns', p')"
  shows "planner_ok inp p' \<and> set (mpVolumes p) \<subseteq> set (mpVolumes p') \<and>
    (\<forall>run. r = Some run \<longrightarrow> runs_as (crName run) (pod_volumes pod p') (crArgs run))"
proof (cases "pcImage c = []")
  case True
  with assms(1,4) show ?thesis by (simp add: plan_sidecar_def)
next
  case False
  then obtain args run where mounts: "planner_mounts inp pod (pcMounts c) p = (args, p')"
    and r: "r = Some run" "crArgs run = containerRunArgs inp (crName run) c net args"
    using assms(4) by (auto simp: plan_sidecar_def Let_def split: prod.splits)
  with container_made(1,2) [OF assms(1-3) mounts] container_made(3) [OF assms(1-3) mounts, of "crName run" net] show ?thesis by simp
qed

lemma plan_natives_made:
  assumes "planner_ok inp p" "CHR '','' \<notin> set (inName inp)" "list_all plain_container cs"
    and "plan_natives inp pod net cs (ns, p) = (runs, ns', p')"
  shows "planner_ok inp p' \<and> set (mpVolumes p) \<subseteq> set (mpVolumes p') \<and>
    (\<forall>run \<in> set runs. runs_as (crName run) (pod_volumes pod p') (crArgs run))"
  using assms(1,3,4)
proof (induction cs arbitrary: ns p runs)
  case (Cons c cs)
  obtain r n1 p1 where one: "plan_sidecar inp pod net c (ns, p) = (r, n1, p1)" by (metis prod_cases3)
  have made: "planner_ok inp p1" "set (mpVolumes p) \<subseteq> set (mpVolumes p1)"
    "\<And>run. r = Some run \<Longrightarrow> runs_as (crName run) (pod_volumes pod p1) (crArgs run)"
    using plan_sidecar_made [OF Cons.prems(1) assms(2) _ one] Cons.prems(2) by auto
  show ?case
  proof (cases r)
    case None
    with Cons.IH [OF made(1)] Cons.prems made(2) one show ?thesis by fastforce
  next
    case (Some run)
    then obtain n2 run' rest where rest: "plan_natives inp pod net cs (n2, p1) = (rest, ns', p')" "runs = run' # rest"
      and run': "crName run' = crName run" "crArgs run' = crArgs run"
      using Cons.prems(3) one by (auto simp: Let_def split: prod.splits)
    have later: "planner_ok inp p'" "set (mpVolumes p1) \<subseteq> set (mpVolumes p')"
      "\<forall>run \<in> set rest. runs_as (crName run) (pod_volumes pod p') (crArgs run)"
      using Cons.IH [OF made(1) _ rest(1)] Cons.prems(2) by auto
    with runs_as_mono [OF made(3) [OF Some] pod_volumes_mono [OF later(2)]] made(2) rest(2) run' show ?thesis by auto
  qed
qed simp

lemma plan_others_made:
  assumes "planner_ok inp p" "CHR '','' \<notin> set (inName inp)" "list_all plain_container cs"
    and "plan_others inp pod net cs (ns, p) = (runs, ns', p')"
  shows "planner_ok inp p' \<and> set (mpVolumes p) \<subseteq> set (mpVolumes p') \<and>
    (\<forall>run \<in> set runs. runs_as (crName run) (pod_volumes pod p') (crArgs run))"
  using assms(1,3,4)
proof (induction cs arbitrary: ns p runs)
  case (Cons c cs)
  obtain r n1 p1 where one: "plan_sidecar inp pod net c (ns, p) = (r, n1, p1)" by (metis prod_cases3)
  have made: "planner_ok inp p1" "set (mpVolumes p) \<subseteq> set (mpVolumes p1)"
    "\<And>run. r = Some run \<Longrightarrow> runs_as (crName run) (pod_volumes pod p1) (crArgs run)"
    using plan_sidecar_made [OF Cons.prems(1) assms(2) _ one] Cons.prems(2) by auto
  show ?case
  proof (cases r)
    case None
    with Cons.IH [OF made(1)] Cons.prems made(2) one show ?thesis by fastforce
  next
    case (Some run)
    then obtain rest where rest: "plan_others inp pod net cs (n1, p1) = (rest, ns', p')" "runs = run # rest"
      using Cons.prems(3) one by (auto split: prod.splits)
    have later: "planner_ok inp p'" "set (mpVolumes p1) \<subseteq> set (mpVolumes p')"
      "\<forall>run \<in> set rest. runs_as (crName run) (pod_volumes pod p') (crArgs run)"
      using Cons.IH [OF made(1) _ rest(1)] Cons.prems(2) by auto
    with runs_as_mono [OF made(3) [OF Some] pod_volumes_mono [OF later(2)]] made(2) rest(2) show ?thesis by auto
  qed
qed simp

text \<open>All commands that start a pod, and the volumes it needs.\<close>

definition plan_volumes :: "runPlan \<Rightarrow> string list" where
  "plan_volumes plan = (case rpPod plan of None \<Rightarrow> [] | Some p \<Rightarrow> plVolumes p)"

definition plan_commands :: "runPlan \<Rightarrow> string list list" where
  "plan_commands plan = rpArgs plan # (case rpPod plan of None \<Rightarrow> [] | Some p \<Rightarrow> plSetup p @ map crArgs (plSidecars p @ plOthers p))"

definition contained :: "string set \<Rightarrow> string set \<Rightarrow> string list \<Rightarrow> bool" where
  "contained N V args \<longleftrightarrow> named args \<subseteq> N \<and> made args \<subseteq> V"

lemma runs_as_contained: "runs_as name V args \<Longrightarrow> name \<in> N \<Longrightarrow> contained N V args"
  by (auto simp: runs_as_def contained_def)

lemma podSetup_contained:
  assumes "planner_ok inp p" "args \<in> set (podSetup inp holder (mpVolumes p) dirs)"
  shows "contained {holder} (set (mpVolumes p)) args"
proof -
  define qs where "qs = [(''--name'', holder), (''--platform'', smokePlatform), (''--label'', ''chainsmoke=1'')]
      @ (if inPrefix inp \<noteq> [] then [(''--label'', ''chainsmoke.prefix='' @ inPrefix inp)] else [])"
  define ms where "ms = map (\<lambda>v. (''--mount'', ''type=volume,src='' @ v @ '',dst='' @ path_Join podVolumesDir v)) (mpVolumes p)"
  have volumes: "concat (map (\<lambda>v. [''--mount'', ''type=volume,src='' @ v @ '',dst='' @ path_Join podVolumesDir v]) (mpVolumes p)) = opt_pairs ms"
    by (simp add: opt_pairs_def ms_def comp_def)
  have opts: "list_all is_opt (qs @ ms)" by (auto simp: qs_def ms_def is_opt_def list_all_iff)
  have img: "\<not> HasPrefix busyboxImage ''-''" by (simp add: busyboxImage_def)
  have "mount_volume spec \<in> set (mpVolumes p)" if "(''--mount'', spec) \<in> set ms" for spec
    using that assms(1) mount_volume_spec by (auto simp: ms_def planner_ok_def list_all_iff)
  then have made: "volume_mounts (qs @ ms) \<subseteq> set (mpVolumes p)" "{v. (''--name'', v) \<in> set (qs @ ms)} = {holder}"
    by (auto simp: qs_def ms_def volume_mounts_def)
  have holder: "[''--name'', holder, ''--platform'', smokePlatform] @ labelArgs (inPrefix inp) = opt_pairs qs"
    by (simp add: qs_def labelArgs_def)
  from assms(2) consider (create) v xs where "v \<in> set (mpVolumes p)" "args = ''volume'' # ''create'' # xs @ [v]"
    | (run) "args = [''run'', ''-d''] @ opt_pairs (qs @ ms) @ busyboxImage # [''sleep'', ''2147483647'']"
    | (exec) xs where "args = ''exec'' # xs"
    unfolding podSetup_def volumes by (auto split: if_splits simp: holder [symmetric])
  then show ?thesis
  proof cases
    case create
    then show ?thesis by (simp add: contained_def named_def made_def)
  next
    case run
    show ?thesis unfolding contained_def run named_run [OF opts img] using made by simp
  next
    case exec
    then show ?thesis by (simp add: contained_def named_def made_def)
  qed
qed

lemma buildRunPlan_contained:
  assumes plain: "plain_pod (inName inp) (inPod inp)" and plan: "buildRunPlan inp = Inr plan"
  shows "\<forall>args \<in> set (plan_commands plan). contained (set (plan_containers plan (inName inp))) (set (plan_volumes plan)) args"
    and "\<forall>v \<in> set (plan_volumes plan). HasPrefix v (inName inp @ ''-'')"
proof -
  obtain mc where mc: "find is_main (ppContainers (inPod inp)) = Some mc"
    using plan by (cases "find is_main (ppContainers (inPod inp))") (simp_all add: buildRunPlan_def)
  define others where "others = takeWhile (\<lambda>c. \<not> is_main c) (ppContainers (inPod inp)) @ drop 1 (dropWhile (\<lambda>c. \<not> is_main c) (ppContainers (inPod inp)))"
  define native where "native = filter is_native (ppInit (inPod inp))"
  define isPod where "isPod = (native \<noteq> [] \<or> others \<noteq> [])"
  let ?net = "if isPod then ''container:'' @ inName inp @ ''-pod'' else []"
  obtain n0 sidecars n1 p1 n2 margs p2 runs n3 p3 where
      nat: "plan_natives inp isPod ?net native (n0, newMountPlanner) = (sidecars, n1, p1)"
    and mounts: "planner_mounts inp isPod (pcMounts mc) p1 = (margs, p2)"
    and oth: "plan_others inp isPod ?net others (n2, p2) = (runs, n3, p3)"
    and args: "rpArgs plan = containerRunArgs inp (inName inp) mc ?net margs"
    and pod: "rpPod plan = (if isPod then Some \<lparr>plHolder = inName inp @ ''-pod'', plVolumes = mpVolumes p3,
        plSetup = podSetup inp (inName inp @ ''-pod'') (mpVolumes p3) (mpSubdirs p3), plSidecars = sidecars, plOthers = runs\<rparr> else None)"
    using plan unfolding buildRunPlan_def Let_def mc option.case others_def [symmetric] native_def [symmetric] isPod_def [symmetric]
    by (auto split: prod.splits)
  have comma: "CHR '','' \<notin> set (inName inp)" using plain by (simp add: plain_pod_def)
  have conts: "list_all plain_container (ppContainers (inPod inp))" "list_all plain_container native"
    using plain by (auto simp: plain_pod_def native_def list_all_iff)
  have "plain_container mc" using mc conts(1) by (auto simp: find_Some_iff list_all_length)
  note main = container_made [OF _ comma this mounts]
  have "set others \<subseteq> set (ppContainers (inPod inp))"
    by (auto simp: others_def dest: set_takeWhileD in_set_dropD set_dropWhileD)
  then have plain_others: "list_all plain_container others" using conts(1) by (auto simp: list_all_iff)
  have "planner_ok inp newMountPlanner" by (simp add: planner_ok_def newMountPlanner_def)
  note made1 = plan_natives_made [OF this comma conts(2) nat]
  then have ok1: "planner_ok inp p1" by simp
  note made3 = plan_others_made [OF main(1) [OF ok1] comma plain_others oth]
  from made3 have ok3: "planner_ok inp p3" and sub23: "set (mpVolumes p2) \<subseteq> set (mpVolumes p3)" by auto
  with main(2) [OF ok1] have sub13: "set (mpVolumes p1) \<subseteq> set (mpVolumes p3)" by auto
  have main_runs: "runs_as (inName inp) (pod_volumes isPod p3) (rpArgs plan)"
    unfolding args by (rule runs_as_mono [OF main(3) [OF ok1] pod_volumes_mono [OF sub23]])
  have nat_runs: "\<forall>run \<in> set sidecars. runs_as (crName run) (pod_volumes isPod p3) (crArgs run)"
    using made1 runs_as_mono pod_volumes_mono [OF sub13] by blast
  have vols: "set (plan_volumes plan) = pod_volumes isPod p3" by (simp add: plan_volumes_def pod pod_volumes_def)
  show "\<forall>v \<in> set (plan_volumes plan). HasPrefix v (inName inp @ ''-'')"
    using ok3 unfolding vols by (auto simp: planner_ok_def list_all_iff pod_volumes_def)
  show "\<forall>args \<in> set (plan_commands plan). contained (set (plan_containers plan (inName inp))) (set (plan_volumes plan)) args"
  proof
    fix args
    assume "args \<in> set (plan_commands plan)"
    then consider (main) "args = rpArgs plan"
      | (prep) "isPod" "args \<in> set (podSetup inp (inName inp @ ''-pod'') (mpVolumes p3) (mpSubdirs p3))"
      | (sidecar) run where "isPod" "run \<in> set sidecars \<union> set runs" "args = crArgs run"
      by (auto simp: plan_commands_def pod split: if_splits)
    then show "contained (set (plan_containers plan (inName inp))) (set (plan_volumes plan)) args"
    proof cases
      case main
      with runs_as_contained [OF main_runs] show ?thesis by (simp add: vols plan_containers_def pod)
    next
      case prep
      with podSetup_contained [OF ok3 prep(2)] show ?thesis
        by (auto simp: contained_def plan_containers_def plan_volumes_def pod)
    next
      case sidecar
      then have "runs_as (crName run) (pod_volumes isPod p3) (crArgs run)" using nat_runs made3 by blast
      with runs_as_contained [OF this] sidecar show ?thesis by (auto simp: vols plan_containers_def pod)
    qed
  qed
qed

subsection \<open>Helper containers\<close>

definition label_opts :: "string \<Rightarrow> (string \<times> string) list" where
  "label_opts prefix = (''--label'', ''chainsmoke=1'') # (if prefix \<noteq> [] then [(''--label'', ''chainsmoke.prefix='' @ prefix)] else [])"

lemma label_opts: "labelArgs prefix = opt_pairs (label_opts prefix)"
  by (simp add: labelArgs_def label_opts_def)

definition plain_opts :: "(string \<times> string) list \<Rightarrow> bool" where
  "plain_opts ps \<longleftrightarrow> list_all (\<lambda>p. is_opt p \<and> fst p \<noteq> ''--name'' \<and> fst p \<noteq> ''--mount'') ps"

lemma plain_opts_simps [simp]:
  "plain_opts []" "plain_opts (ps @ qs) \<longleftrightarrow> plain_opts ps \<and> plain_opts qs"
  "plain_opts (p # ps) \<longleftrightarrow> HasPrefix (fst p) ''--'' \<and> fst p \<notin> {''--rm'', ''--name'', ''--mount''} \<and> plain_opts ps"
  by (auto simp: plain_opts_def is_opt_def)

lemma plain_label_opts [simp]: "plain_opts (label_opts prefix)"
  by (simp add: label_opts_def)

lemma helper_contained:
  assumes "plain_opts ps"
  shows "contained N V ([''run'', ''--rm''] @ opt_pairs ps @ busyboxImage # xs)"
proof -
  have "list_all is_opt ps" using assms by (auto simp: plain_opts_def list_all_iff)
  then have "cli_options (opt_pairs ps @ busyboxImage # xs) = ps"
    by (simp add: cli_opt_pairs cli_positional busyboxImage_def)
  then have "cli_options (''--rm'' # opt_pairs ps @ busyboxImage # xs) = ps"
    by (cases ps) (auto simp: cli_positional busyboxImage_def)
  with assms show ?thesis
    by (auto simp: contained_def named_def made_def volume_mounts_def plain_opts_def list_all_iff)
qed

subsection \<open>A host\<close>

text \<open>The pods a job renders, for any adapter of its chain.\<close>

definition plain_job :: "snapshot_build \<Rightarrow> 'v registry \<Rightarrow> container_rest \<Rightarrow> smoke_opts \<Rightarrow> smokeJob \<Rightarrow> bool" where
  "plain_job B registry X opts j \<longleftrightarrow> (case smNode (sjSample j) of Inl _ \<Rightarrow> True | Inr node \<Rightarrow>
     (case Get registry (spChain (ciSpec node)) of None \<Rightarrow> True | Some adapter \<Rightarrow>
        plain_pod (soNamePrefix opts @ ''-'' @ sjKey j) (plan_pod X (sample_pod B registry (soOverrides opts) node adapter))))"

text \<open>
  What docker documents of the commands used. A command creates at most the container it names
  and the volumes it mounts or creates. When \<open>rm -f\<close> reports no error the containers it was given
  are gone, and so are the volumes when \<open>volume rm -f\<close> reports none; a command that reports an
  error may have removed any part of them. Containers and volumes that docker names itself are
  not counted: those of \<open>run --rm\<close> and the anonymous volumes, which \<open>rm -v\<close> removes. Nobody else
  creates any while the run lasts.
\<close>

locale docker_cli =
  fixes D :: "('w, 'x) smoke_env_scheme"
    and cont :: "'w \<Rightarrow> string set"
    and vols :: "'w \<Rightarrow> string set"
  assumes command: "docker \<in> {dkRun D, seDetached D} \<union> range (seWithin D) \<Longrightarrow>
      wp (docker args) (\<lambda>_ w'. cont w' \<subseteq> cont w \<union> named args \<and> vols w' \<subseteq> vols w \<union> made args) w"
    and rm: "wp (seDetached D ([''rm'', ''-f'', ''-v''] @ ns)) (\<lambda>r w'. isl r \<or> cont w' \<inter> set ns = {}) w"
    and volume_rm: "wp (seDetached D ([''volume'', ''rm'', ''-f''] @ vs)) (\<lambda>r w'. isl r \<or> vols w' \<inter> set vs = {}) w"
    and calm: "unchanged (\<lambda>w. (cont w, vols w)) (seErr D)"
      "unchanged (\<lambda>w. (cont w, vols w)) (seLogs D name)"
      "unchanged (\<lambda>w. (cont w, vols w)) (seNow D)"
      "unchanged (\<lambda>w. (cont w, vols w)) (seMkdirAll D path)"
      "unchanged (\<lambda>w. (cont w, vols w)) (seWriteFile D path text)"
      "unchanged (\<lambda>w. (cont w, vols w)) (seMkdirTemp D pat)"
      "unchanged (\<lambda>w. (cont w, vols w)) (seRemoveAll D path)"
      "unchanged (\<lambda>w. (cont w, vols w)) (dkWait D d)"

text \<open>
  The code drops the answers of the removal commands. \<open>tally\<close> runs the same commands and keeps,
  beside the world, whether the last \<open>rm -f -v\<close> and the last \<open>volume rm -f\<close> reported an error.
\<close>

definition removal :: "string list \<Rightarrow> bool" where
  "removal args \<longleftrightarrow> take 3 args \<in> {[''rm'', ''-f'', ''-v''], [''volume'', ''rm'', ''-f'']}"

definition tally_flag :: "string list \<Rightarrow> bool \<Rightarrow> bool \<times> bool \<Rightarrow> bool \<times> bool" where
  "tally_flag args failed b =
     (if take 3 args = [''rm'', ''-f'', ''-v''] then (failed, snd b)
      else if take 3 args = [''volume'', ''rm'', ''-f''] then (fst b, failed)
      else b)"

definition tally_run :: "string list \<Rightarrow> ('w, 'e + 'a) state \<Rightarrow> ('w \<times> bool \<times> bool, 'e + 'a) state" where
  "tally_run args m = State (\<lambda>(w, b). case run_state m w of (r, w') \<Rightarrow> (r, (w', tally_flag args (isl r) b)))"

definition tally :: "('w, 'x) smoke_env_scheme \<Rightarrow> ('w \<times> bool \<times> bool) smoke_env" where
  "tally D = \<lparr>dkRun = (\<lambda>args. lift_log (dkRun D args)), dkWait = (\<lambda>d. lift_log (dkWait D d)), seErr = lift_log (seErr D),
     seDetached = (\<lambda>args. tally_run args (seDetached D args)), seWithin = (\<lambda>d args. lift_log (seWithin D d args)),
     seLogs = (\<lambda>name. lift_log (seLogs D name)), seNow = lift_log (seNow D), seMkdirAll = (\<lambda>path. lift_log (seMkdirAll D path)),
     seWriteFile = (\<lambda>path text. lift_log (seWriteFile D path text)), seMkdirTemp = (\<lambda>pat. lift_log (seMkdirTemp D pat)),
     seRemoveAll = (\<lambda>path. lift_log (seRemoveAll D path))\<rparr>"

lemma wp_tally_run [simp]: "wp (tally_run args m) Q (w, b) = wp m (\<lambda>r w'. Q r (w', tally_flag args (isl r) b)) w"
  by (simp add: wp_def tally_run_def split: prod.splits)

text \<open>A host that remembers whether the last removal of containers and that of volumes failed.\<close>

locale pod_host =
  fixes D :: "('w, 'x) smoke_env_scheme"
    and cont :: "'w \<Rightarrow> string set"
    and vols :: "'w \<Rightarrow> string set"
    and failed :: "'w \<Rightarrow> bool \<times> bool"
  assumes command: "docker \<in> {dkRun D, seDetached D} \<union> range (seWithin D) \<Longrightarrow>
      wp (docker args) (\<lambda>_ w'. cont w' \<subseteq> cont w \<union> named args \<and> vols w' \<subseteq> vols w \<union> made args) w"
    and no_removal: "\<not> removal args \<Longrightarrow> wp (seDetached D args) (\<lambda>_ w'. failed w' = failed w) w"
    and rm: "wp (seDetached D ([''rm'', ''-f'', ''-v''] @ ns)) (\<lambda>_ w'. (fst (failed w') \<or> cont w' \<inter> set ns = {}) \<and>
      snd (failed w') = snd (failed w)) w"
    and volume_rm: "wp (seDetached D ([''volume'', ''rm'', ''-f''] @ vs)) (\<lambda>_ w'. (snd (failed w') \<or> vols w' \<inter> set vs = {}) \<and>
      fst (failed w') = fst (failed w)) w"
    and calm: "unchanged (\<lambda>w. (cont w, vols w, failed w)) (seErr D)"
      "unchanged (\<lambda>w. (cont w, vols w, failed w)) (seLogs D name)"
      "unchanged (\<lambda>w. (cont w, vols w, failed w)) (seNow D)"
      "unchanged (\<lambda>w. (cont w, vols w, failed w)) (seMkdirAll D path)"
      "unchanged (\<lambda>w. (cont w, vols w, failed w)) (seWriteFile D path text)"
      "unchanged (\<lambda>w. (cont w, vols w, failed w)) (seMkdirTemp D pat)"
      "unchanged (\<lambda>w. (cont w, vols w, failed w)) (seRemoveAll D path)"
      "unchanged (\<lambda>w. (cont w, vols w, failed w)) (dkWait D d)"
begin

text \<open>Since \<open>w0\<close>, only containers of \<open>N\<close> and volumes of \<open>V\<close> have come.\<close>

definition confined :: "string set \<Rightarrow> string set \<Rightarrow> 'w \<Rightarrow> 'w \<Rightarrow> bool" where
  "confined N V w0 w \<longleftrightarrow> cont w \<subseteq> cont w0 \<union> N \<and> vols w \<subseteq> vols w0 \<union> V"

text \<open>Since \<open>w0\<close> nothing has come, but for what a removal that failed left.\<close>

definition clean :: "'w \<Rightarrow> 'w \<Rightarrow> bool" where
  "clean w0 w \<longleftrightarrow> (fst (failed w) \<or> cont w \<subseteq> cont w0) \<and> (snd (failed w) \<or> vols w \<subseteq> vols w0)"

definition stays :: "string set \<Rightarrow> string set \<Rightarrow> ('w, 'a) state \<Rightarrow> bool" where
  "stays N V m \<longleftrightarrow> (\<forall>w0 w. confined N V w0 w \<longrightarrow> wp m (\<lambda>_. confined N V w0) w)"

lemma confined_refl: "confined N V w w"
  by (auto simp: confined_def)

lemma staysD: "stays N V m \<Longrightarrow> confined N V w0 w \<Longrightarrow> wp m (\<lambda>_. confined N V w0) w"
  by (simp add: stays_def)

lemma stays_command:
  assumes "contained N V args" "docker \<in> {dkRun D, seDetached D} \<union> range (seWithin D)"
  shows "stays N V (docker args)"
  unfolding stays_def
proof (intro allI impI)
  fix w0 w
  assume "confined N V w0 w"
  with assms(1) show "wp (docker args) (\<lambda>_. confined N V w0) w"
    by (intro wp_mono [OF command [OF assms(2)]]) (fastforce simp: contained_def confined_def)
qed

lemma stays_ret [intro]: "stays N V (ret a)"
  by (simp add: stays_def)

lemma stays_bind [intro]: "stays N V m \<Longrightarrow> (\<And>a. stays N V (f a)) \<Longrightarrow> stays N V (State_Monad.bind m f)"
  unfolding stays_def wp_bind by (blast intro: wp_mono)

lemma stays_if [intro]: "stays N V m \<Longrightarrow> stays N V n \<Longrightarrow> stays N V (if b then m else n)"
  by simp

lemma stays_case_sum [intro]:
  "(\<And>e. stays N V (f e)) \<Longrightarrow> (\<And>v. stays N V (g v)) \<Longrightarrow> stays N V (case r of Inl e \<Rightarrow> f e | Inr v \<Rightarrow> g v)"
  by (cases r) auto

lemma stays_case_option [intro]:
  "stays N V m \<Longrightarrow> (\<And>v. stays N V (g v)) \<Longrightarrow> stays N V (case r of None \<Rightarrow> m | Some v \<Rightarrow> g v)"
  by (cases r) auto

lemma stays_case_prod [intro]: "(\<And>a b. stays N V (f a b)) \<Longrightarrow> stays N V (case r of (a, b) \<Rightarrow> f a b)"
  by (cases r) auto

lemma stays_let [intro]: "(\<And>x. stays N V (f x)) \<Longrightarrow> stays N V (let x = a in f x)"
  by simp

lemma stays_unchanged: "unchanged (\<lambda>w. (cont w, vols w, failed w)) m \<Longrightarrow> stays N V m"
  by (auto simp: stays_def confined_def intro: unchangedD)

lemmas stays_calm [intro] = calm [THEN stays_unchanged]

lemma stays_other [intro]:
  assumes "args \<noteq> [] \<longrightarrow> hd args \<noteq> ''run''" "take 2 args \<noteq> [''volume'', ''create'']"
  shows "stays N V (dkRun D args)" "stays N V (seDetached D args)" "stays N V (seWithin D d args)"
  using assms by (auto intro!: stays_command simp: contained_def named_def made_def)

subsubsection \<open>The parts of a run\<close>

lemma stays_dataUsageKiB: "stays N V (dataUsageKiB D t)"
  unfolding dataUsageKiB_def
  using helper_contained [of "[(''--platform'', smokePlatform), (''--pid'', ''container:'' @ itMain t), (''--cap-add'', ''SYS_PTRACE'')] @ label_opts (itPrefix t)"]
  by (intro stays_bind stays_ret stays_command) (simp_all add: label_opts)

lemma stays_rpc_attempts: "stays N V (dkRun D args) \<Longrightarrow> stays N V (rpc_attempts D args n err)"
proof (induction n arbitrary: err)
  case (Suc n)
  then show ?case unfolding rpc_attempts.simps by (intro stays_bind stays_case_sum stays_ret stays_calm) auto
qed (simp add: stays_ret)

lemma stays_rpcCall: "stays N V (rpcCall D t url body)"
proof -
  have "stays N V (dkRun D ([''run'', ''--rm'', ''--platform'', smokePlatform, ''--network'', ''container:'' @ itNetOwner t] @
      labelArgs (itPrefix t) @ busyboxImage # xs))" for xs
    using helper_contained [of "[(''--platform'', smokePlatform), (''--network'', ''container:'' @ itNetOwner t)] @ label_opts (itPrefix t)"]
    by (intro stays_command) (simp_all add: label_opts)
  note run = this [of "_ # _", simplified]
  show ?thesis unfolding rpcCall_def Let_def
    by (intro stays_bind stays_case_sum stays_ret stays_rpc_attempts) (use run in simp_all)
qed

lemma stays_checkEVMChainID: "(\<And>m. stays N V (call m)) \<Longrightarrow> stays N V (checkEVMChainID f want call)"
  unfolding checkEVMChainID_def Let_def by (intro stays_bind stays_case_sum stays_if stays_ret)

lemma stays_checkIdentity: "stays N V (checkIdentity D t)"
  unfolding checkIdentity_def Let_def
  by (intro stays_bind stays_if stays_case_option stays_ret stays_dataUsageKiB stays_checkEVMChainID stays_rpcCall)

lemma stays_saveLog [intro]: "stays N V (saveLog D out key cmds logs err)"
  unfolding saveLog_def by (intro stays_bind stays_ret stays_calm)

lemma stays_dockerLogs [intro]: "stays N V (dockerLogs D name)"
  unfolding dockerLogs_def by (intro stays_bind stays_case_prod stays_ret stays_calm)

lemma stays_saveSidecarLog [intro]: "stays N V (saveSidecarLog D out key c)"
  unfolding saveSidecarLog_def by (intro stays_bind stays_case_prod stays_dockerLogs stays_saveLog)

lemma stays_inspectState [intro]: "stays N V (inspectState (dkRun D) name)" "stays N V (inspectState (seDetached D) name)"
  unfolding inspectState_def by (intro stays_bind stays_ret stays_other; simp)+

lemma stays_ready_loop: "stays N V (ready_loop D c deadline n)"
proof (induction n)
  case (Suc n)
  show ?case unfolding ready_loop.simps
    by (intro stays_bind stays_case_sum stays_case_option stays_if stays_ret stays_calm stays_inspectState stays_other Suc) simp_all
qed (simp add: stays_ret)

lemma stays_waitReady: "stays N V (waitReady D c)"
  unfolding waitReady_def by (intro stays_if stays_bind stays_ret stays_calm stays_ready_loop)

lemma stays_run_setup: "\<forall>args \<in> set xs. contained N V args \<Longrightarrow> stays N V (run_setup D cmds xs)"
proof (induction xs arbitrary: cmds)
  case (Cons args xs)
  then show ?case unfolding run_setup.simps by (intro stays_bind stays_case_sum stays_ret stays_command) auto
qed (simp add: stays_ret)

lemma stays_start_sidecars: "\<forall>c \<in> set cs. contained N V (crArgs c) \<Longrightarrow> stays N V (start_sidecars D out key cmds cs)"
proof (induction cs arbitrary: cmds)
  case (Cons c cs)
  then show ?case unfolding start_sidecars.simps
    by (intro stays_bind stays_case_sum stays_case_option stays_ret stays_command stays_waitReady stays_saveSidecarLog) auto
qed (simp add: stays_ret)

lemma stays_start_others: "\<forall>c \<in> set cs. contained N V (crArgs c) \<Longrightarrow> stays N V (start_others D cs)"
proof (induction cs)
  case (Cons c cs)
  then show ?case unfolding start_others.simps by (intro stays_bind stays_ret stays_command) auto
qed (simp add: stays_ret)

lemma stays_collect_runs: "stays N V (collect_runs D out key cs)"
proof (induction cs)
  case (Cons c cs)
  then show ?case unfolding collect_runs.simps by (intro stays_bind stays_ret stays_saveSidecarLog stays_inspectState)
qed (simp add: stays_ret)

lemma stays_judge_run: "stays N V (judge_run D opts key name plan target cmds d r)"
  unfolding judge_run_def collectSidecars_def Let_def
  by (intro stays_bind stays_case_sum stays_case_option stays_case_prod stays_if stays_ret stays_calm stays_inspectState
      stays_collect_runs stays_dockerLogs stays_saveLog stays_checkIdentity)

lemma stays_run_pod:
  assumes "\<forall>args \<in> set (plan_commands plan). contained N V args"
  shows "stays N V (run_pod D opts key name plan target r)"
proof -
  have main: "stays N V (run_main D opts key name plan target cmds r)" for cmds
    unfolding run_main_def Let_def using assms
    by (intro stays_bind stays_case_sum stays_if stays_ret stays_calm stays_saveLog stays_judge_run stays_start_others
        stays_command stays_other)
      (auto simp: plan_commands_def split: option.splits)
  have pod: "stays N V (startPod D out key p)" if "rpPod plan = Some p" for out p
    unfolding startPod_def using assms that
    by (intro stays_bind stays_case_option stays_case_prod stays_ret stays_run_setup stays_start_sidecars)
      (auto simp: plan_commands_def)
  have "stays N V (case rpPod plan of None \<Rightarrow> ret ([], None) | Some p \<Rightarrow> startPod D (soOut opts) key p)"
    by (cases "rpPod plan") (auto intro: pod)
  note start = this
  show ?thesis unfolding run_pod_def
    by (rule stays_bind [OF start]) (intro stays_case_prod stays_case_option stays_bind stays_if stays_ret stays_calm stays_saveLog main)
qed

subsubsection \<open>Clean-up\<close>

lemma detached_run: "dkRun (detached D) = seDetached D" "dkWait (detached D) = dkWait D"
  by (simp_all add: detached_def)

lemma stays_dockerRetry: "stays N V (dockerRetry D (pullArgs ref))"
  unfolding dockerRetry_def pullArgs_def
  by (intro stays_bind stays_case_sum stays_if stays_ret stays_calm stays_other) simp_all

lemma stays_acquire: "stays N V (acquire D s ref)"
  unfolding acquire_def acquire_locked_def inspectArgs_def
  by (intro stays_bind stays_if stays_ret stays_other stays_dockerRetry) simp_all

lemma stays_acquire_all: "stays N V (acquire_all D s refs)"
proof (induction refs arbitrary: s)
  case (Cons ref refs)
  then show ?case unfolding acquire_all.simps by (intro stays_bind stays_case_prod stays_case_option stays_ret stays_acquire)
qed (simp add: stays_ret)

lemma stays_release_all: "stays N V (release_all D s refs)"
proof (induction refs arbitrary: s)
  case (Cons ref refs)
  then show ?case unfolding release_all.simps release_def detached_run Let_def
    by (intro stays_bind stays_if stays_ret stays_other) simp_all
qed (simp add: stays_ret)

lemma stays_removePod: "stays N V (remove_pod D ns pod)"
  unfolding remove_pod_def by (intro stays_bind stays_case_option stays_if stays_ret stays_other) simp_all

lemma confined_clean: "confined {} {} w0 w \<Longrightarrow> clean w0 w"
  by (simp add: confined_def clean_def)

lemma clean_trans: "confined {} {} w0 w1 \<Longrightarrow> clean w1 w \<Longrightarrow> clean w0 w"
  by (auto simp: confined_def clean_def)

text \<open>After the removal nothing of the plan is left that a failed command did not leave.\<close>

lemma remove_pod_cleans:
  assumes "confined (set ns) (set (case pod of None \<Rightarrow> [] | Some p \<Rightarrow> plVolumes p)) w0 w"
  shows "wp (remove_pod D ns pod) (\<lambda>_. clean w0) w"
proof -
  define V where "V = (case pod of None \<Rightarrow> [] | Some p \<Rightarrow> plVolumes p)"
  note start = assms [folded V_def]
  have no_run: "named (''rm'' # xs) = {}" "made (''rm'' # xs) = {}" "named (''volume'' # ''rm'' # xs) = {}" "made (''volume'' # ''rm'' # xs) = {}" for xs
    by (simp_all add: named_def made_def)
  have det: "wp (seDetached D args) (\<lambda>_ w'. cont w' \<subseteq> cont w1 \<union> named args \<and> vols w' \<subseteq> vols w1 \<union> made args) w1" for args w1
    by (rule command) simp
  let ?half = "\<lambda>w1. (fst (failed w1) \<or> cont w1 \<subseteq> cont w0) \<and> vols w1 \<subseteq> vols w0 \<union> set V"
  have rm1: "wp (seDetached D ([''rm'', ''-f'', ''-v''] @ ns)) (\<lambda>_. ?half) w"
    by (rule wp_mono [OF wp_conj [THEN iffD2, OF conjI, OF det rm [of ns]]]) (use start in \<open>auto simp: no_run confined_def\<close>)
  have rm2: "wp (seDetached D ([''volume'', ''rm'', ''-f''] @ V)) (\<lambda>_. clean w0) w1" if "?half w1" for w1
    by (rule wp_mono [OF wp_conj [THEN iffD2, OF conjI, OF det volume_rm [of V]]]) (use that in \<open>auto simp: no_run clean_def\<close>)
  show ?thesis
  proof (cases "V = []")
    case True
    then have "remove_pod D ns pod = State_Monad.bind (seDetached D ([''rm'', ''-f'', ''-v''] @ ns)) (\<lambda>_. ret ())"
      by (cases pod) (auto simp: remove_pod_def V_def)
    with wp_mono [OF rm1] True show ?thesis by (simp add: clean_def)
  next
    case False
    then have "remove_pod D ns pod = State_Monad.bind (seDetached D ([''rm'', ''-f'', ''-v''] @ ns))
        (\<lambda>_. State_Monad.bind (seDetached D ([''volume'', ''rm'', ''-f''] @ V)) (\<lambda>_. ret ()))"
      by (cases pod) (auto simp: remove_pod_def V_def)
    with wp_mono [OF rm1 rm2] show ?thesis by simp
  qed
qed

lemma clean_other:
  assumes "\<not> removal args" "named args = {}" "made args = {}" "clean w0 w"
  shows "wp (seDetached D args) (\<lambda>_. clean w0) w"
  by (rule wp_mono [OF wp_conj [THEN iffD2, OF conjI, OF no_removal [OF assms(1)] command [of "seDetached D"]]])
    (use assms(2-4) in \<open>auto simp: clean_def\<close>)

lemma clean_release_all: "clean w0 w \<Longrightarrow> wp (release_all D s refs) (\<lambda>_. clean w0) w"
proof (induction refs arbitrary: s w)
  case (Cons ref refs)
  have "wp (seDetached D [''rmi'', ref]) (\<lambda>_. clean w0) w"
    by (rule clean_other) (use Cons.prems in \<open>simp_all add: removal_def named_def made_def\<close>)
  then have rmi: "wp (seDetached D [''rmi'', ref]) (\<lambda>_. wp (release_all D s' refs) (\<lambda>_. clean w0)) w" for s'
    by (rule wp_mono) (rule Cons.IH)
  show ?case using rmi Cons by (simp add: release_def detached_run Let_def)
qed simp

lemma run_plan_cleans:
  assumes "\<forall>args \<in> set (plan_commands plan). contained (set (plan_containers plan name)) (set (plan_volumes plan)) args"
  shows "wp (run_plan D opts s key name plan target r) (\<lambda>_. clean w) w"
proof -
  let ?N = "set (plan_containers plan name)" and ?V = "set (plan_volumes plan)"
  have confined_mono: "confined {} {} w w' \<Longrightarrow> confined ?N ?V w w'" for w' by (auto simp: confined_def)
  have body: "wp (remove_pod D (plan_containers plan name) (rpPod plan)) (\<lambda>_ w2. wp (run_pod D opts key name plan target r) (\<lambda>r w3.
      wp (remove_pod D (plan_containers plan name) (rpPod plan)) (\<lambda>_. clean w) w3) w2) w1" if "confined {} {} w w1" for w1
    using confined_mono [OF that] unfolding plan_volumes_def
    by (intro wp_mono [OF staysD [OF stays_removePod]] wp_mono [OF staysD [OF stays_run_pod]] remove_pod_cleans)
      (use assms in \<open>auto simp: plan_volumes_def\<close>)
  show ?thesis unfolding run_plan_def
  proof (simp only: wp_bind, rule wp_mono [OF staysD [OF stays_acquire_all confined_refl [of "{}" "{}" w]]], goal_cases)
    case (1 a w1)
    obtain s1 acq e where a: "a = (s1, acq, e)" by (cases a)
    show ?case
      using 1 body [OF 1] clean_release_all [of w] confined_clean [OF 1] by (cases e) (auto simp: a elim!: wp_mono)
  qed
qed

lemma stays_writePlanFiles: "stays N V (writePlanFiles D files)"
proof (induction files)
  case (Cons f files)
  then show ?case by (cases f) (auto intro!: stays_bind stays_case_option stays_ret stays_calm)
qed (simp add: stays_ret)

lemma smoke_in_cleans:
  assumes plain: "plain_pod (soNamePrefix opts @ ''-'' @ key) (plan_pod X pod)"
  shows "wp (smoke_in D X opts subpath s key node cfg pod workDir r) (\<lambda>_. clean w) w"
proof (cases "buildRunPlan (sample_input X opts subpath (soNamePrefix opts @ ''-'' @ key) node cfg pod workDir)")
  case (Inl err)
  then show ?thesis by (simp add: smoke_in_def Let_def confined_clean confined_refl)
next
  case (Inr plan)
  let ?name = "soNamePrefix opts @ ''-'' @ key"
  have name: "inName (sample_input X opts subpath ?name node cfg pod workDir) = ?name" by (simp add: sample_input_def)
  have "plain_pod (inName (sample_input X opts subpath ?name node cfg pod workDir)) (inPod (sample_input X opts subpath ?name node cfg pod workDir))"
    using plain by (simp add: sample_input_def)
  note plan = buildRunPlan_contained(1) [OF this Inr, unfolded name]
  have run: "wp (run_plan D opts s key ?name plan t r') (\<lambda>_. clean w) w1" if "confined {} {} w w1" for r' t w1
    by (rule wp_mono [OF run_plan_cleans [OF plan]]) (rule clean_trans [OF that])
  show ?thesis
    using Inr run confined_clean confined_refl [of "{}" "{}" w]
      staysD [OF stays_writePlanFiles confined_refl [of "{}" "{}" w], of "rpFiles plan"]
    by (auto simp: smoke_in_def Let_def split: option.splits elim!: wp_mono)
qed

lemma smokeSample_cleans:
  assumes plain: "plain_job B registry X opts j"
  shows "wp (smokeSample D B registry X opts subpath s j) (\<lambda>_. clean w) w"
proof -
  have in_dir: "wp (smoke_in D X opts subpath s (sjKey j) node cfg pod workDir r) (\<lambda>a w2. wp (seRemoveAll D workDir) (\<lambda>_. clean w) w2) w1"
    if "confined {} {} w w1" "plain_pod (soNamePrefix opts @ ''-'' @ sjKey j) (plan_pod X pod)" for node cfg pod workDir r w1
  proof (rule wp_mono [OF smoke_in_cleans [OF that(2)]])
    show "wp (seRemoveAll D workDir) (\<lambda>_. clean w) w2" if "clean w1 w2" for w2
      by (rule unchangedD [OF calm(7)]) (use clean_trans [OF \<open>confined {} {} w w1\<close> that] in \<open>simp add: clean_def\<close>)
  qed
  have dir: "wp (seMkdirTemp D pat) (\<lambda>wd. wp (case wd of Inl err \<Rightarrow> ret (g err)
      | Inr workDir \<Rightarrow> State_Monad.bind (smoke_in D X opts subpath s (sjKey j) node cfg pod workDir r) (\<lambda>sr.
          State_Monad.bind (seRemoveAll D workDir) (\<lambda>_. ret sr))) (\<lambda>_. clean w)) w1"
    if "confined {} {} w w1" "plain_pod (soNamePrefix opts @ ''-'' @ sjKey j) (plan_pod X pod)" for pat g node cfg pod r w1
    by (rule wp_mono [OF staysD [OF stays_calm(6) that(1)]]) (auto split: sum.splits intro: in_dir that(2) confined_clean)
  show ?thesis unfolding smokeSample_def Let_def wp_bind
    using plain
    by (intro wp_mono [OF staysD [OF stays_calm(1) confined_refl [of "{}" "{}" w]]])
      (auto simp: plain_job_def split: sum.splits option.splits intro!: dir confined_clean)
qed

end

sublocale docker_cli \<subseteq> tallied: pod_host "tally D" "\<lambda>w. cont (fst w)" "\<lambda>w. vols (fst w)" snd
proof (unfold_locales, goal_cases)
  case (1 docker args w)
  obtain v b where w: "w = (v, b)" by (cases w)
  from 1 consider "docker = (\<lambda>args. lift_log (dkRun D args))" | "docker = (\<lambda>args. tally_run args (seDetached D args))"
    | d where "docker = (\<lambda>args. lift_log (seWithin D d args))"
    by (auto simp: tally_def)
  then show ?case by cases (simp_all add: w command)
next
  case (2 args w)
  then show ?case by (cases w) (auto simp: tally_def tally_flag_def removal_def wp_any)
next
  case (3 ns w)
  then show ?case using rm [of ns] by (cases w) (simp add: tally_def tally_flag_def)
next
  case (4 vs w)
  then show ?case using volume_rm [of vs] by (cases w) (simp add: tally_def tally_flag_def)
qed (use calm in \<open>auto simp: tally_def unchanged_def\<close>)

context docker_cli
begin

lemma tally_smokeSample:
  assumes "plain_job B registry X opts j"
  shows "wp (smokeSample (tally D) B registry X opts subpath s j) (\<lambda>_ w'.
    (fst (snd w') \<or> cont (fst w') \<subseteq> cont (fst w)) \<and> (snd (snd w') \<or> vols (fst w') \<subseteq> vols (fst w))) w"
  using tallied.smokeSample_cleans [OF assms] unfolding tallied.clean_def [abs_def] .

end

subsection \<open>A host in memory\<close>

text \<open>The containers with their volumes, the volumes and the clock.\<close>

type_synonym mem_host = "(string \<times> string list) list \<times> string list \<times> time"

definition mem_exec :: "string list \<Rightarrow> mem_host \<Rightarrow> mem_host" where
  "mem_exec args w = (case w of (cs, vs, t) \<Rightarrow>
     if args \<noteq> [] \<and> hd args = ''run''
     then (let opts = cli_options (tl args);
               ms = map (mount_volume \<circ> snd) (filter (\<lambda>p. fst p = ''--mount'' \<and> HasPrefix (snd p) ''type=volume,src='') opts)
           in (map (\<lambda>p. (snd p, ms)) (filter (\<lambda>p. fst p = ''--name'') opts) @ cs, ms @ vs, t))
     else if take 2 args = [''volume'', ''create''] then (cs, last args # vs, t)
     else if take 3 args = [''rm'', ''-f'', ''-v''] then (filter (\<lambda>c. fst c \<notin> set (drop 3 args)) cs, vs, t)
     else if take 3 args = [''volume'', ''rm'', ''-f'']
     then (cs, filter (\<lambda>v. v \<notin> set (drop 3 args) \<or> list_ex (\<lambda>c. v \<in> set (snd c)) cs) vs, t)
     else w)"

text \<open>A volume that a container still uses is not removed, and the command reports that.\<close>

definition mem_run :: "string list \<Rightarrow> (mem_host, goerr + http_body) state" where
  "mem_run args = State (\<lambda>w.
     (if take 3 args = [''volume'', ''rm'', ''-f''] \<and> list_ex (\<lambda>c. list_ex (\<lambda>v. v \<in> set (snd c)) (drop 3 args)) (fst w)
      then Inl (GoErr ''volume is in use'')
      else Inr \<lparr>hbText = [], hbJson = Some (JObj [(''Running'', JBool True)])\<rparr>, mem_exec args w))"

definition mem_smoke :: "mem_host smoke_env" where
  "mem_smoke = \<lparr>dkRun = mem_run, dkWait = (\<lambda>d. State (\<lambda>(cs, vs, t). (Inr (), cs, vs, t + max 0 d))), seErr = ret None, seDetached = mem_run, seWithin = (\<lambda>_. mem_run),
     seLogs = (\<lambda>_. ret ([], None)), seNow = State (\<lambda>w. (snd (snd w), w)), seMkdirAll = (\<lambda>_. ret None), seWriteFile = (\<lambda>_ _. ret None),
     seMkdirTemp = (\<lambda>_. ret (Inr ''/tmp/run'')), seRemoveAll = (\<lambda>_. ret ())\<rparr>"

definition mem_cont :: "mem_host \<Rightarrow> string set" where "mem_cont w = fst ` set (fst w)"
definition mem_vols :: "mem_host \<Rightarrow> string set" where "mem_vols w = set (fst (snd w))"

lemma mem_exec_command:
  "mem_cont (mem_exec args w) \<subseteq> mem_cont w \<union> named args \<and> mem_vols (mem_exec args w) \<subseteq> mem_vols w \<union> made args"
proof (cases "args \<noteq> [] \<and> hd args = ''run''")
  case True
  then show ?thesis
    by (cases w) (auto simp: mem_exec_def Let_def mem_cont_def mem_vols_def named_def made_def volume_mounts_def)
next
  case False
  then show ?thesis
    by (cases w) (auto simp: mem_exec_def mem_cont_def mem_vols_def made_def)
qed

interpretation mem_pod: docker_cli mem_smoke mem_cont mem_vols
proof (unfold_locales, goal_cases)
  case (1 docker args w)
  then have "docker = mem_run" by (auto simp: mem_smoke_def)
  then show ?case using mem_exec_command [of args w] by (simp add: mem_run_def wp_def)
next
  case (2 ns w)
  then show ?case by (cases w) (auto simp: mem_smoke_def mem_run_def wp_def mem_exec_def mem_cont_def)
next
  case (3 vs w)
  then show ?case
    by (cases w) (auto simp: mem_smoke_def mem_run_def wp_def mem_exec_def mem_vols_def list_ex_iff)
qed (auto simp: mem_smoke_def unchanged_def wp_def mem_cont_def mem_vols_def)

text \<open>
  C19: A smoke run leaves nothing behind that its last clean-up could remove. On every path of the
  code, whatever the commands before it and the file system answer, when the last \<open>docker rm -f -v\<close>
  of the run reports no error, or none was sent, the host has no named container that it did not
  have before the run, and likewise for the last \<open>docker volume rm -f\<close> and the named volumes. The
  proviso is needed: the code drops the errors of both commands and does not repeat them. The names
  of the pod's volumes have no comma and its images do not look like options.
\<close>

theorem smoke_leaves_nothing:
  assumes "docker_cli D cont vols" "plain_job B registry X opts j"
    and "run_state (smokeSample (tally D) B registry X opts subpath s j) (w, False, False) = (r, w', rmFailed, volumeRmFailed)"
  shows "(rmFailed \<or> cont w' \<subseteq> cont w) \<and> (volumeRmFailed \<or> vols w' \<subseteq> vols w)"
  using wpD [OF docker_cli.tally_smokeSample [OF assms(1,2)] assms(3)] by simp

text \<open>A node with a sidecar that shares the data volume, on a host where another container runs.\<close>

definition pod_job :: smokeJob where
  "pod_job = \<lparr>sjKey = ''bitcoin'', sjSample = \<lparr>smPath = ''bitcoin.yaml'', smChain = ''bitcoin'',
     smNode = Inr (zero_node\<lparr>ciSpec := zero_spec\<lparr>spChain := ''bitcoin'',
       spSidecars := [zero_container\<lparr>ctName := ''exporter'', ctImage := ''exporter:1'', ctMounts := [dataMount]\<rparr>]\<rparr>\<rparr>)\<rparr>\<rparr>"

definition no_rest :: container_rest where
  "no_rest = \<lparr>xrWorkingDir = (\<lambda>_. []), xrEnvFrom = (\<lambda>_. []), xrReadiness = (\<lambda>_. None), xrRunAsUser = (\<lambda>_. None),
     xrRunAsGroup = (\<lambda>_. None), xrSource = (\<lambda>_. KeyRef), xrMilliValue = id\<rparr>"

definition smoke_defaults :: smoke_opts where
  "smoke_defaults = \<lparr>soLevel = 1, soParallel = 3, soDuration = 90 * Second, soOverrides = [], soChangedSince = [], soOut = ''smoke-out'',
     soSamples = [], soKeepImages = False, soTmpfsSize = ''4g'', soNofile = 1048576, soNamePrefix = ''chainsmoke'', soRepoRoot = []\<rparr>"

definition no_snapshots :: snapshot_build where
  "no_snapshots = \<lparr>sbGetenv = (\<lambda>_. []), sbRestoreImageTag = [], sbBootstrapPy = []\<rparr>"

text \<open>On the host in memory the removal of containers never reports an error.\<close>

lemma mem_rm_reported:
  assumes "plain_job B registry X opts j"
  shows "wp (smokeSample (tally mem_smoke) B registry X opts subpath s j) (\<lambda>_ w'. \<not> fst (snd w')) (w, False, b)"
proof -
  have host: "pod_host (tally mem_smoke) (\<lambda>w. if fst (snd w) then {''failed''} else {}) (\<lambda>_. {}) (\<lambda>_. (False, False))"
    by unfold_locales (auto simp: tally_def mem_smoke_def mem_run_def lift_log_def tally_run_def tally_flag_def wp_def unchanged_def split: prod.splits if_splits)
  have "wp (smokeSample (tally mem_smoke) B registry X opts subpath s j) (\<lambda>_ w'. (if fst (snd w') then {''failed''} else {}) \<subseteq> ({} :: string set)) (w, False, b)"
    using pod_host.smokeSample_cleans [OF host assms, of subpath s "(w, False, b)"] by (simp add: pod_host.clean_def [OF host, abs_def])
  then show ?thesis by (rule wp_mono) (simp split: if_splits)
qed

theorem smoke_leaves_nothing_witness:
  "case run_state (smokeSample (tally mem_smoke) no_snapshots [(''bitcoin'', fixed_adapter (Inl (GoErr [])) :: unit ChainAdapter)] no_rest
       smoke_defaults True (newImageSet False) pod_job) (([(''db'', [''pgdata''])], [''pgdata''], 0), False, False) of
     (r, w', rmFailed, volumeRmFailed) \<Rightarrow> mem_cont w' \<subseteq> {''db''} \<and> (volumeRmFailed \<or> mem_vols w' \<subseteq> {''pgdata''})"
proof -
  let ?w = "([(''db'', [''pgdata''])], [''pgdata''], 0) :: mem_host"
  have plain: "plain_job no_snapshots [(''bitcoin'', fixed_adapter (Inl (GoErr [])) :: unit ChainAdapter)] no_rest smoke_defaults pod_job"
    unfolding plain_job_def
    by (simp add: pod_job_def zero_node_def zero_spec_def Get_def smoke_defaults_def plain_pod_def plan_pod_def sample_pod_def
        override_lookup_def RenderPodTemplate_def podContainers_def snapshotInitContainers_def no_snapshots_def fixed_adapter_def
        resolveContainerImage_def plain_container_def plan_container_def zero_podspec_def zero_container_def Let_def)
  obtain r w' rmFailed volumeRmFailed where run: "run_state (smokeSample (tally mem_smoke) no_snapshots
      [(''bitcoin'', fixed_adapter (Inl (GoErr [])) :: unit ChainAdapter)] no_rest smoke_defaults True (newImageSet False) pod_job)
      (?w, False, False) = (r, w', rmFailed, volumeRmFailed)" by (rule prod_cases4)
  have "mem_cont ?w = {''db''}" "mem_vols ?w = {''pgdata''}" by (simp_all add: mem_cont_def mem_vols_def)
  with smoke_leaves_nothing [OF mem_pod.docker_cli_axioms plain run] wpD [OF mem_rm_reported [OF plain] run]
  show ?thesis unfolding run by simp
qed

subsection \<open>The wait for a sidecar\<close>

text \<open>A clock that does not go back and advances by the time a pause lasts.\<close>

locale smoke_clock =
  fixes D :: "('w, 'x) smoke_env_scheme" and clk :: "'w \<Rightarrow> time"
  assumes now: "wp (seNow D) (\<lambda>t w'. clk w \<le> t \<and> t \<le> clk w') w"
    and runs: "wp (seWithin D d args) (\<lambda>_ w'. clk w \<le> clk w') w" "wp (dkRun D args) (\<lambda>_ w'. clk w \<le> clk w') w"
    and err: "wp (seErr D) (\<lambda>_ w'. clk w \<le> clk w') w"
    and pause: "wp (dkWait D d) (\<lambda>r w'. clk w \<le> clk w' \<and> (\<not> isl r \<longrightarrow> clk w + d \<le> clk w')) w"
begin

lemma bind_cong_wp:
  assumes "wp m P w" "\<And>a w1. P a w1 \<Longrightarrow> run_state (f a) w1 = run_state (g a) w1"
  shows "run_state (State_Monad.bind m f) w = run_state (State_Monad.bind m g) w"
  using assms by (simp add: wp_def split: prod.splits)

lemma inspectState_clock: "wp (inspectState (dkRun D) name) (\<lambda>_ w'. clk w \<le> clk w') w"
  unfolding inspectState_def by (simp add: runs)

lemma case_congs:
  "(\<And>e. run_state (f e) w = run_state (f' e) w) \<Longrightarrow> (\<And>v. r = Inr v \<Longrightarrow> run_state (g v) w = run_state (g' v) w) \<Longrightarrow>
    run_state (case r of Inl e \<Rightarrow> f e | Inr v \<Rightarrow> g v) w = run_state (case r of Inl e \<Rightarrow> f' e | Inr v \<Rightarrow> g' v) w"
  "run_state m w = run_state m' w \<Longrightarrow> (\<And>v. run_state (h v) w = run_state (h' v) w) \<Longrightarrow>
    run_state (case q of None \<Rightarrow> m | Some v \<Rightarrow> h v) w = run_state (case q of None \<Rightarrow> m' | Some v \<Rightarrow> h' v) w"
  "(b \<Longrightarrow> run_state m w = run_state m' w) \<Longrightarrow> (\<not> b \<Longrightarrow> run_state n w = run_state n' w) \<Longrightarrow>
    run_state (if b then m else n) w = run_state (if b then m' else n') w"
  by (auto split: sum.splits option.splits)

lemmas round_congs = case_congs bind_cong_wp [OF runs(1)] bind_cong_wp [OF err] bind_cong_wp [OF inspectState_clock]
  bind_cong_wp [OF now] bind_cong_wp [OF pause]

text \<open>One round, with what follows the pause as an argument.\<close>

definition ready_round :: "containerRun \<Rightarrow> time \<Rightarrow> ('w, goerr option) state \<Rightarrow> ('w, goerr option) state" where
  "ready_round c deadline k = do {
     r \<leftarrow> seWithin D (5 * Second) ([''exec'', crName c] @ crProbe c);
     case r of
       Inr _ \<Rightarrow> ret None
     | Inl err \<Rightarrow> do {
         e \<leftarrow> seErr D;
         if e \<noteq> None then ret e
         else do {
           st \<leftarrow> inspectState (dkRun D) (crName c);
           case (case st of Inr s \<Rightarrow> if \<not> cnRunning s then Some (cnExitCode s) else None | Inl _ \<Rightarrow> None) of
             Some code \<Rightarrow> ret (Some (GoErr (''exited with code '' @ Itoa code)))
           | None \<Rightarrow> do {
               now \<leftarrow> seNow D;
               if now > deadline
               then ret (Some (GoErr (''not ready after '' @ dur_String sidecarReadyTimeout @ '': '' @ firstLine (err_text err))))
               else do {
                 p \<leftarrow> dkWait D Second;
                 case p of Inl ctxErr \<Rightarrow> ret (Some ctxErr) | Inr _ \<Rightarrow> k } } } } }"

lemma ready_loop_Suc: "ready_loop D c deadline (Suc n) = ready_round c deadline (ready_loop D c deadline n)"
  unfolding ready_round_def ready_loop.simps ..

lemma ready_round_cong:
  assumes k: "\<And>w'. clk w \<le> deadline \<Longrightarrow> clk w + Second \<le> clk w' \<Longrightarrow> run_state k w' = run_state k' w'"
  shows "run_state (ready_round c deadline k) w = run_state (ready_round c deadline k') w"
  unfolding ready_round_def by (intro round_congs refl k) auto

lemma ready_loop_rounds:
  assumes "deadline < clk w + int n * Second" "n \<le> m"
  shows "run_state (ready_loop D c deadline (Suc n)) w = run_state (ready_loop D c deadline (Suc m)) w"
  using assms
proof (induction n arbitrary: w m)
  case 0
  then show ?case unfolding ready_loop_Suc by (intro ready_round_cong) simp
next
  case (Suc n)
  from Suc.prems(2) obtain m' where m: "m = Suc m'" "n \<le> m'" by (cases m) auto
  show ?case unfolding ready_loop_Suc [of _ _ "Suc n"] ready_loop_Suc [of _ _ m] unfolding m(1)
    by (rule ready_round_cong, rule Suc.IH [OF _ m(2)]) (use Suc.prems(1) in \<open>simp add: algebra_simps\<close>)
qed

text \<open>The rounds of \<^const>\<open>waitReady\<close> are enough: with more of them it does the same.\<close>

lemma waitReady_rounds:
  assumes "crProbe c \<noteq> []" "readyRounds \<le> Suc m"
  shows "run_state (waitReady D c) w =
    run_state (do { now \<leftarrow> seNow D; ready_loop D c (now + sidecarReadyTimeout) (Suc m) }) w"
proof -
  have "run_state (ready_loop D c (t + sidecarReadyTimeout) readyRounds) w1 = run_state (ready_loop D c (t + sidecarReadyTimeout) (Suc m)) w1"
    if "clk w \<le> t \<and> t \<le> clk w1" for t w1
    using ready_loop_rounds [of "t + sidecarReadyTimeout" w1 61 m c] that assms(2)
    by (simp add: readyRounds_def sidecarReadyTimeout_def)
  with assms(1) show ?thesis unfolding waitReady_def by (simp only: if_False) (rule bind_cong_wp [OF now])
qed

end

lemma mem_exec_clock: "snd (snd (mem_exec args w)) = snd (snd w)"
  by (cases w) (simp add: mem_exec_def Let_def)

interpretation mem_clock: smoke_clock mem_smoke "\<lambda>w. snd (snd w)"
  by unfold_locales (auto simp: mem_smoke_def mem_run_def wp_def mem_exec_clock)

subsection \<open>Commands in a log\<close>

text \<open>
  The words of the arguments of a command on an interactive shell line, after section 2 of the shell
  language in POSIX and independent of the code. Unquoted, a blank ends a word; a single
  quote takes everything to the next one, a backslash the next character, and a backslash before a
  newline is removed with it; \<open>#\<close> at the start of a word begins a comment. A character that would do
  anything else is refused: the operators and the newline, which end the command, the starts of
  expansions and patterns, the double quote, braces and history expansion, and \<open>~\<close> at the start of a word.
\<close>

definition sh_active :: "bool \<Rightarrow> char \<Rightarrow> bool" where
  "sh_active start c \<longleftrightarrow>
     c \<in> set ''|&;<>()'' \<union> {CHR 0x0A} \<or> c \<in> set ''$`*?['' \<union> {CHR 0x22} \<or> c \<in> set ''{}!'' \<or> start \<and> c = CHR ''~''"

fun sh_words :: "string option \<Rightarrow> bool \<Rightarrow> string \<Rightarrow> string list option" where
  "sh_words cur True [] = None"
| "sh_words None False [] = Some []"
| "sh_words (Some w) False [] = Some [w]"
| "sh_words cur True (c # s) =
     (if c = CHR 0x27 then sh_words cur False s else sh_words (Some ((case cur of None \<Rightarrow> [] | Some w \<Rightarrow> w) @ [c])) True s)"
| "sh_words cur False (c # s) =
     (let w = (case cur of None \<Rightarrow> [] | Some w \<Rightarrow> w) in
      if c \<in> {CHR '' '', CHR 0x09} then (case cur of None \<Rightarrow> sh_words None False s | Some w \<Rightarrow> map_option (Cons w) (sh_words None False s))
      else if c = CHR 0x27 then sh_words (Some w) True s
      else if c = CHR 0x5C then
        (case s of [] \<Rightarrow> None | d # s' \<Rightarrow> if d = CHR 0x0A then sh_words cur False s' else sh_words (Some (w @ [d])) False s')
      else if cur = None \<and> c = CHR ''#'' then (if CHR 0x0A \<in> set s then None else Some [])
      else if sh_active (cur = None) c then None
      else sh_words (Some (w @ [c])) False s)"

lemma not_special:
  assumes "c \<notin> shell_special"
  shows "c \<notin> {CHR '' '', CHR 0x09, CHR 0x27, CHR 0x5C, CHR ''#''}" "\<not> sh_active start c"
  using assms by (auto simp: shell_special_def sh_active_def)

lemma sh_words_plain:
  "\<forall>c \<in> set a. c \<notin> shell_special \<Longrightarrow> sh_words (Some w) False (a @ s) = sh_words (Some (w @ a)) False s"
proof (induction a arbitrary: w)
  case (Cons c a)
  then show ?case using not_special [of c] by (simp add: Let_def)
qed simp

lemma sh_words_quoted:
  "sh_words (Some w) True (concat (map (\<lambda>c. if c = CHR 0x27 then [CHR 0x27, CHR 0x5C, CHR 0x27, CHR 0x27] else [c]) a) @ CHR 0x27 # s) =
   sh_words (Some (w @ a)) False s"
  by (induction a arbitrary: w) (auto simp: Let_def)

lemma sh_words_quote: "sh_words None False (shell_quote a @ s) = sh_words (Some a) False s"
proof (cases "a \<noteq> [] \<and> \<not> list_ex (\<lambda>c. c \<in> shell_special) a")
  case True
  then obtain c a' where a: "a = c # a'" "c \<notin> shell_special" "\<forall>c \<in> set a'. c \<notin> shell_special"
    by (cases a) (auto simp: list_ex_iff)
  then have "sh_words None False (a @ s) = sh_words (Some [c]) False (a' @ s)" using not_special [of c] by (simp add: Let_def)
  with True a(1) sh_words_plain [OF a(3), of "[c]" s] show ?thesis by (simp add: shell_quote_def)
next
  case False
  then have "shell_quote a = CHR 0x27 # concat (map (\<lambda>c. if c = CHR 0x27 then [CHR 0x27, CHR 0x5C, CHR 0x27, CHR 0x27] else [c]) a) @ [CHR 0x27]"
    by (auto simp: shell_quote_def)
  then show ?thesis using sh_words_quoted [of "[]" a s] by (simp add: Let_def)
qed

text \<open>
  C34: The commands in the log of a run can be pasted into a shell: whatever bytes the arguments
  have, quotes, spaces, newlines, operators, patterns and empty arguments included, the shell splits
  the joined line, which the log prints after \<open>docker\<close>, into exactly the arguments docker got, and
  meets no unquoted character with another effect.
\<close>

theorem shellJoin_roundtrip: "sh_words None False (shellJoin args) = Some args"
  unfolding shellJoin_def
proof (induction args rule: induct_list012)
  case (2 a)
  show ?case using sh_words_quote [of a "[]"] by simp
next
  case (3 a b args)
  have "sh_words None False (Join (map shell_quote (a # b # args)) '' '') =
      sh_words None False (shell_quote a @ CHR '' '' # Join (map shell_quote (b # args)) '' '')" by simp
  also have "\<dots> = map_option (Cons a) (sh_words None False (Join (map shell_quote (b # args)) '' ''))"
    unfolding sh_words_quote by (simp add: Let_def)
  also have "\<dots> = Some (a # b # args)" using 3(2) by simp
  finally show ?case .
qed simp

end
