(* ===== verification/Version_Check.thy ===== *)
theory Version_Check
  imports Smoke_Targets
begin

text \<open>
  The version check tool, \<open>cmd/versioncheck/main.go\<close>: it asks the registries for newer tags and
  rewrites \<open>internal/adapters/versions_gen.go\<close>. The regular expressions of the policies, the
  formatter \<open>go/format\<close> and the file system are arguments; the goroutines of \<open>checkVersions\<close> run
  one after the other.
\<close>

subsection \<open>Tags\<close>

definition knownVersionPrefixes :: "string list" where
  "knownVersionPrefixes = [''mainnet-'', ''testnet-'', ''greatvoyage-'', ''scroll-'', ''plume-'', ''arrowhead-'']"

text \<open>An optional \<open>v\<close> and numbers with dots between them.\<close>

definition stableTagRe :: "string \<Rightarrow> bool" where
  "stableTagRe s \<longleftrightarrow> list_all (\<lambda>p. p \<noteq> [] \<and> list_all (is_digit 10) p) (Split (TrimPrefix s ''v'') (CHR ''.''))"

definition isStableTag :: "string \<Rightarrow> string \<Rightarrow> bool" where
  "isStableTag tag prefix =
     (let lower = ToLower (TrimPrefix tag prefix) in
      stableTagRe (case find (HasPrefix lower) knownVersionPrefixes of Some p \<Rightarrow> TrimPrefix lower p | None \<Rightarrow> lower))"

text \<open>The text after, and up to, the last colon.\<close>

definition parseTag :: "string \<Rightarrow> string" where
  "parseTag ref = (if CHR '':'' \<in> set ref then rev (takeWhile (\<lambda>c. c \<noteq> CHR '':'') (rev ref)) else ref)"

definition replaceTag :: "string \<Rightarrow> string \<Rightarrow> string" where
  "replaceTag ref newTag =
     (if CHR '':'' \<in> set ref then rev (dropWhile (\<lambda>c. c \<noteq> CHR '':'') (rev ref)) @ newTag else ref @ '':'' @ newTag)"

text \<open>\<open>regexp\<close>: whether a pattern compiles, has a group \<open>version\<close>, and what that group captures.\<close>

record regexp_pkg =
  rxCompile :: "string \<Rightarrow> goerr + unit"
  rxHasVersion :: "string \<Rightarrow> bool"
  rxVersion :: "string \<Rightarrow> string \<Rightarrow> string option"

definition versionOf :: "regexp_pkg \<Rightarrow> string \<Rightarrow> string \<Rightarrow> string" where
  "versionOf R pattern tag =
     (if \<not> rxHasVersion R pattern then tag else (case rxVersion R pattern tag of Some v \<Rightarrow> v | None \<Rightarrow> []))"

record pick =
  pkLatest :: string
  pkNewer :: bool
  pkMajor :: bool
  pkSameMajor :: string

definition zero_pick :: pick where
  "zero_pick = \<lparr>pkLatest = [], pkNewer = False, pkMajor = False, pkSameMajor = []\<rparr>"

text \<open>The stable versions in order, each with its tag.\<close>

definition stable_tags :: "regexp_pkg \<Rightarrow> ChainVersionPolicy \<Rightarrow> TagEntry list \<Rightarrow> (string \<times> string) list" where
  "stable_tags R policy tags =
     filter (\<lambda>(v, _). v \<noteq> [] \<and> isStableTag v (vpTagPrefix policy))
       (map (\<lambda>t. (versionOf R (vpTagPattern policy) (teTag t), teTag t)) tags)"

definition byVersion :: "(string \<times> string) list \<Rightarrow> string \<Rightarrow> string" where
  "byVersion tagged v = (case map_of (rev tagged) v of Some t \<Rightarrow> t | None \<Rightarrow> [])"

definition current_version :: "regexp_pkg \<Rightarrow> ChainVersionPolicy \<Rightarrow> string \<Rightarrow> string" where
  "current_version R policy currentTag =
     (let v = versionOf R (vpTagPattern policy) currentTag in if v \<noteq> [] then v else currentTag)"

definition pickLatest :: "semver_pkg \<Rightarrow> regexp_pkg \<Rightarrow> ChainVersionPolicy \<Rightarrow> string \<Rightarrow> TagEntry list \<Rightarrow> goerr + pick" where
  "pickLatest S R policy currentTag tags = (case rxCompile R (vpTagPattern policy) of
     Inl err \<Rightarrow> Inl (WrapErr (''compile tag pattern '' @ Quote (vpTagPattern policy)) err)
   | Inr _ \<Rightarrow>
       (let tagged = stable_tags R policy tags; versions = map fst tagged; prefix = vpTagPrefix policy;
            latestVersion = Newest S versions prefix
        in if latestVersion = [] then Inr zero_pick
           else (let currentVersion = current_version R policy currentTag;
                     newer = IsNewer S latestVersion currentVersion prefix;
                     major = (newer \<and> IsMajorBump S latestVersion currentVersion prefix);
                     same = (if major
                       then Newest S (filter (\<lambda>v. IsNewer S v currentVersion prefix \<and> \<not> IsMajorBump S v currentVersion prefix) versions) prefix
                       else [])
                 in Inr \<lparr>pkLatest = byVersion tagged latestVersion, pkNewer = newer, pkMajor = major,
                         pkSameMajor = (if same \<noteq> [] then byVersion tagged same else [])\<rparr>)))"

subsection \<open>Results\<close>

record versionResult =
  vrChain :: Chain
  vrClient :: string
  vrCurrentRef :: string
  vrCurrentTag :: string
  vrLatestTag :: string
  vrIsNewer :: bool
  vrIsMajor :: bool
  vrSameMajorTag :: string
  vrNoMatch :: bool
  vrErr :: "goerr option"

text \<open>The tags of each policy are fetched once; the outcome, an error too, is kept.\<close>

type_synonym tagCache = "(ChainVersionPolicy \<times> (goerr + TagEntry list)) list"

definition cached_latestTags ::
    "(string \<Rightarrow> goerr + registry_client) \<Rightarrow> (registry_client \<Rightarrow> ChainVersionPolicy \<Rightarrow> int \<Rightarrow> ('w, goerr + TagEntry list) state) \<Rightarrow>
     tagCache \<Rightarrow> ChainVersionPolicy \<Rightarrow> ('w, tagCache \<times> (goerr + TagEntry list)) state" where
  "cached_latestTags newClient latest cache policy = (case map_of cache policy of
     Some r \<Rightarrow> ret (cache, r)
   | None \<Rightarrow> do {
       r \<leftarrow> (case newClient (vpRegistry policy) of Inl err \<Rightarrow> ret (Inl err) | Inr client \<Rightarrow> latest client policy 25);
       ret ((policy, r) # cache, r) })"

definition item_result ::
    "semver_pkg \<Rightarrow> regexp_pkg \<Rightarrow> Chain \<times> string \<times> ChainVersionPolicy \<Rightarrow> goerr + TagEntry list \<Rightarrow> versionResult" where
  "item_result S R it fetched = (case it of (chain, client, policy) \<Rightarrow>
     (let ref = DefaultImageFor chain client;
          res = \<lparr>vrChain = chain, vrClient = client, vrCurrentRef = ref, vrCurrentTag = parseTag ref, vrLatestTag = [],
                 vrIsNewer = False, vrIsMajor = False, vrSameMajorTag = [], vrNoMatch = False, vrErr = None\<rparr>
      in (case fetched of
            Inl err \<Rightarrow> res\<lparr>vrErr := Some err\<rparr>
          | Inr tags \<Rightarrow> (case pickLatest S R policy (vrCurrentTag res) tags of
              Inl err \<Rightarrow> res\<lparr>vrErr := Some err\<rparr>
            | Inr p \<Rightarrow> res\<lparr>vrLatestTag := pkLatest p, vrIsNewer := pkNewer p, vrIsMajor := pkMajor p,
                           vrSameMajorTag := pkSameMajor p, vrNoMatch := (pkLatest p = [])\<rparr>))))"

definition work_items :: "'v registry \<Rightarrow> string \<Rightarrow> (Chain \<times> string \<times> ChainVersionPolicy) list" where
  "work_items registry filterChain =
     concat (map (\<lambda>(chain, adapter). case adVersionPolicy adapter of
        None \<Rightarrow> []
      | Some policy \<Rightarrow>
          if filterChain \<noteq> [] \<and> chain \<noteq> filterChain then []
          else (chain, [], policy) # (case adClientVersionPolicies adapter of None \<Rightarrow> []
            | Some ps \<Rightarrow> map (\<lambda>(client, policy). (chain, client, policy)) ps)) registry)"

fun check_items ::
    "semver_pkg \<Rightarrow> regexp_pkg \<Rightarrow> (string \<Rightarrow> goerr + registry_client) \<Rightarrow>
     (registry_client \<Rightarrow> ChainVersionPolicy \<Rightarrow> int \<Rightarrow> ('w, goerr + TagEntry list) state) \<Rightarrow>
     tagCache \<Rightarrow> (Chain \<times> string \<times> ChainVersionPolicy) list \<Rightarrow> ('w, versionResult list) state" where
  "check_items S R newClient latest cache [] = ret []"
| "check_items S R newClient latest cache (it # its) = do {
     (cache, fetched) \<leftarrow> cached_latestTags newClient latest cache (snd (snd it));
     rs \<leftarrow> check_items S R newClient latest cache its;
     ret (item_result S R it fetched # rs) }"

definition checkVersions ::
    "semver_pkg \<Rightarrow> regexp_pkg \<Rightarrow> (string \<Rightarrow> goerr + registry_client) \<Rightarrow>
     (registry_client \<Rightarrow> ChainVersionPolicy \<Rightarrow> int \<Rightarrow> ('w, goerr + TagEntry list) state) \<Rightarrow>
     'v registry \<Rightarrow> string \<Rightarrow> ('w, versionResult list) state" where
  "checkVersions S R newClient latest registry filterChain = do {
     rs \<leftarrow> check_items S R newClient latest [] (work_items registry filterChain);
     ret (sort_rows (\<lambda>r. (vrChain r, vrClient r)) rs) }"

definition applied :: "bool \<Rightarrow> versionResult \<Rightarrow> versionResult option" where
  "applied allowMajor r =
     (if \<not> vrIsNewer r then None
      else if \<not> vrIsMajor r \<or> allowMajor then Some r
      else if vrSameMajorTag r \<noteq> [] then Some (r\<lparr>vrLatestTag := vrSameMajorTag r\<rparr>)
      else None)"

definition filterNewer :: "versionResult list \<Rightarrow> bool \<Rightarrow> versionResult list" where
  "filterNewer results allowMajor = List.map_filter (applied allowMajor) results"

definition countFailures :: "versionResult list \<Rightarrow> nat" where
  "countFailures results = length (filter (\<lambda>r. vrErr r \<noteq> None \<or> vrNoMatch r) results)"

definition resultStatus :: "versionResult \<Rightarrow> string" where
  "resultStatus r = (case vrErr r of
     Some err \<Rightarrow> ''ERROR: '' @ err_text err
   | None \<Rightarrow>
       if vrNoMatch r then ''NO MATCH''
       else if vrIsMajor r \<and> vrSameMajorTag r \<noteq> [] then ''MAJOR AVAILABLE (same line: '' @ vrSameMajorTag r @ '')''
       else if vrIsMajor r then ''MAJOR AVAILABLE''
       else if vrIsNewer r then ''UPDATE AVAILABLE''
       else ''up to date'')"

text \<open>\<open>%-30s\<close> and the like, on one-byte characters.\<close>

definition pad_right :: "nat \<Rightarrow> string \<Rightarrow> string" where
  "pad_right n s = s @ replicate (n - length s) (CHR '' '')"

definition report_line :: "string \<Rightarrow> string \<Rightarrow> string \<Rightarrow> string \<Rightarrow> string" where
  "report_line a b c d = pad_right 30 a @ '' '' @ pad_right 30 b @ '' '' @ pad_right 20 c @ '' '' @ d @ [CHR 0x0A]"

definition printReport :: "versionResult list \<Rightarrow> string" where
  "printReport results =
     report_line ''CHAIN'' ''CURRENT TAG'' ''LATEST TAG'' ''STATUS'' @ replicate 100 (CHR ''-'') @ [CHR 0x0A] @
     concat (map (\<lambda>r. report_line (vrChain r @ (if vrClient r \<noteq> [] then ''/'' @ vrClient r else []))
       (vrCurrentTag r) (vrLatestTag r) (resultStatus r)) results)"

subsection \<open>Constant names\<close>

definition chainConstNames :: "(string \<times> string) list" where
  "chainConstNames = [
    (''abstract'', ''ChainAbstract''), (''aptos'', ''ChainAptos''), (''arbitrum'', ''ChainArbitrum''),
    (''aurora'', ''ChainAurora''), (''avalanche'', ''ChainAvalanche''), (''axelar'', ''ChainAxelar''),
    (''base'', ''ChainBase''), (''berachain'', ''ChainBerachain''), (''bitcoin'', ''ChainBitcoin''),
    (''bittorrent'', ''ChainBitTorrent''), (''blast'', ''ChainBlast''), (''bob'', ''ChainBob''),
    (''boba-eth'', ''ChainBobaEth''), (''bsc'', ''ChainBSC''), (''cardano'', ''ChainCardano''),
    (''celo'', ''ChainCelo''), (''core'', ''ChainCore''), (''cosmos'', ''ChainCosmos''),
    (''cronos'', ''ChainCronos''), (''cronos-zkevm'', ''ChainCronosZkEVM''), (''dash'', ''ChainDash''),
    (''dogecoin'', ''ChainDogecoin''), (''doma'', ''ChainDoma''), (''dymension'', ''ChainDymension''),
    (''ethereum'', ''ChainEthereum''), (''ethereum-archive'', ''ChainEthereumArchive''),
    (''ethereum-beacon'', ''ChainEthereumBeacon''), (''ethereum-classic'', ''ChainEthereumClassic''),
    (''everclear'', ''ChainEverclear''), (''evmos'', ''ChainEvmos''), (''fantom'', ''ChainFantom''),
    (''filecoin'', ''ChainFilecoin''), (''fraxtal'', ''ChainFraxtal''), (''fuse'', ''ChainFuse''),
    (''gnosis'', ''ChainGnosis''), (''gnosis-beacon'', ''ChainGnosisBeacon''), (''goat'', ''ChainGoat''),
    (''gravity-alpha'', ''ChainGravityAlpha''), (''haqq'', ''ChainHaqq''), (''harmony'', ''ChainHarmony''),
    (''hashkey'', ''ChainHashKey''), (''hemi'', ''ChainHemi''), (''hyperliquid'', ''ChainHyperliquid''),
    (''immutable-zkevm'', ''ChainImmutableZkEVM''), (''ink'', ''ChainInk''), (''katana'', ''ChainKatana''),
    (''kava'', ''ChainKava''), (''klaytn'', ''ChainKlaytn''), (''kroma'', ''ChainKroma''),
    (''kusama'', ''ChainKusama''), (''lens'', ''ChainLens''), (''linea'', ''ChainLinea''), (''lisk'', ''ChainLisk''),
    (''litecoin'', ''ChainLitecoin''), (''manta-pacific'', ''ChainMantaPacific''), (''mantle'', ''ChainMantle''),
    (''megaeth'', ''ChainMegaETH''), (''metis'', ''ChainMetis''), (''mezo'', ''ChainMezo''),
    (''moca'', ''ChainMoca''), (''mode'', ''ChainMode''), (''monad'', ''ChainMonad''),
    (''moonbeam'', ''ChainMoonbeam''), (''moonriver'', ''ChainMoonriver''), (''morph'', ''ChainMorph''),
    (''near'', ''ChainNear''), (''opbnb'', ''ChainOpBNB''), (''optimism'', ''ChainOptimism''),
    (''osmosis'', ''ChainOsmosis''), (''plasma'', ''ChainPlasma''), (''playnance'', ''ChainPlaynance''),
    (''plume'', ''ChainPlume''), (''polkadot'', ''ChainPolkadot''), (''polygon'', ''ChainPolygon''),
    (''polygon-zkevm'', ''ChainPolygonZkEVM''), (''ronin'', ''ChainRonin''), (''rootstock'', ''ChainRootstock''),
    (''scroll'', ''ChainScroll''), (''sei'', ''ChainSei''), (''shibarium'', ''ChainShibarium''),
    (''solana'', ''ChainSolana''), (''soneium'', ''ChainSoneium''), (''sonic'', ''ChainSonic''),
    (''starknet'', ''ChainStarknet''), (''stellar'', ''ChainStellar''), (''sui'', ''ChainSui''),
    (''superseed'', ''ChainSuperseed''), (''swell'', ''ChainSwell''), (''taiko'', ''ChainTaiko''),
    (''telos'', ''ChainTelos''), (''thundercore'', ''ChainThundercore''), (''ton'', ''ChainTON''),
    (''tron'', ''ChainTRON''), (''unichain'', ''ChainUnichain''), (''viction'', ''ChainViction''),
    (''wemix'', ''ChainWemix''), (''worldchain'', ''ChainWorldchain''), (''xrp'', ''ChainXRP''),
    (''zero-network'', ''ChainZeroNetwork''), (''zircuit'', ''ChainZircuit''), (''zksync'', ''ChainZkSync''),
    (''zora'', ''ChainZora'')]"

definition chainValueToConstName :: "string \<Rightarrow> string" where
  "chainValueToConstName value = mget chainConstNames value"

text \<open>
  \<open>known\<close> are the chains of the adapter registry. A name that none of them has is returned as
  it is.
\<close>

definition lookupChainByConst :: "Chain list \<Rightarrow> string \<Rightarrow> Chain" where
  "lookupChainByConst known constName =
     (case find (\<lambda>chain. chainValueToConstName chain = constName) known of Some chain \<Rightarrow> chain | None \<Rightarrow> constName)"

subsection \<open>Reading the table\<close>

definition re_space :: "char \<Rightarrow> bool" where
  "re_space c \<longleftrightarrow> c \<in> {CHR '' '', CHR 0x09, CHR 0x0A, CHR 0x0C, CHR 0x0D}"

text \<open>A string in double quotes without any inside, and the text after it.\<close>

definition quoted :: "string \<Rightarrow> (string \<times> string) option" where
  "quoted s = (case s of
     c # r \<Rightarrow> if c = CHR 0x22 \<and> CHR 0x22 \<in> set r
       then Some (takeWhile (\<lambda>x. x \<noteq> CHR 0x22) r, drop 1 (dropWhile (\<lambda>x. x \<noteq> CHR 0x22) r)) else None
   | [] \<Rightarrow> None)"

definition mapEntryRe :: "string \<Rightarrow> (string \<times> string) option" where
  "mapEntryRe s = (case quoted s of
     None \<Rightarrow> None
   | Some (key, r) \<Rightarrow> (case dropWhile re_space r of
       c # r \<Rightarrow> if c \<noteq> CHR '':'' then None
         else (case quoted (dropWhile re_space r) of
           None \<Rightarrow> None
         | Some (value, r) \<Rightarrow>
             (let r = dropWhile re_space r; r = (if HasPrefix r '','' then drop 1 r else r)
              in if list_all re_space r then Some (key, value) else None))
     | [] \<Rightarrow> None))"

record gen_state =
  gsResult :: image_table
  gsChain :: Chain
  gsInMap :: bool
  gsInChain :: bool
  gsDone :: bool

definition cut_suffix :: "string \<Rightarrow> string \<Rightarrow> string" where
  "cut_suffix s p = (if HasSuffix s p then take (length s - length p) s else s)"

text \<open>One line of the file; the loop is left with \<open>gsDone\<close>.\<close>

definition gen_line :: "Chain list \<Rightarrow> gen_state \<Rightarrow> string \<Rightarrow> gen_state" where
  "gen_line known st line =
     (let t = TrimSpace line in
      if gsDone st then st
      else if Contains t ''chainDefaultImages'' \<and> Contains t ''{'' then st\<lparr>gsInMap := True\<rparr>
      else if \<not> gsInMap st then st
      else if HasPrefix t ''chainsv1alpha2.Chain'' \<and> HasSuffix t '': {'' then
        (let chain = lookupChainByConst known (TrimPrefix (cut_suffix t '': {'') ''chainsv1alpha2.'')
         in st\<lparr>gsChain := chain, gsResult := AList.update chain [] (gsResult st), gsInChain := True\<rparr>)
      else (case (if gsInChain st then mapEntryRe t else None) of
          Some (key, value) \<Rightarrow>
            st\<lparr>gsResult := AList.update (gsChain st) (AList.update key value (clients_of (gsResult st) (gsChain st))) (gsResult st)\<rparr>
        | None \<Rightarrow>
            (let st = (if gsInChain st \<and> (t = ''},'' \<or> t = ''}'') then st\<lparr>gsInChain := False, gsChain := []\<rparr> else st)
             in if t = ''}'' \<and> \<not> gsInChain st then st\<lparr>gsDone := True\<rparr> else st)))"

definition gen_start :: gen_state where
  "gen_start = \<lparr>gsResult = [], gsChain = [], gsInMap = False, gsInChain = False, gsDone = False\<rparr>"

definition parseVersionsGen :: "Chain list \<Rightarrow> string \<Rightarrow> image_table" where
  "parseVersionsGen known text = gsResult (foldl (gen_line known) gen_start (Split text (CHR 0x0A)))"

subsection \<open>Writing the table\<close>

definition sorted_table :: "image_table \<Rightarrow> image_table" where
  "sorted_table images = map (\<lambda>(chain, clients). (chain, sort_rows (\<lambda>e. (fst e, [])) clients))
     (sort_rows (\<lambda>e. (fst e, [])) images)"

definition gen_header :: "string \<Rightarrow> string list" where
  "gen_header date = [
    ''// Code generated by cmd/versioncheck on '' @ date @ ''. DO NOT EDIT.'',
    [],
    ''package adapters'',
    [],
    ''import ('',
    CHR 0x09 # Quote ''strings'',
    [],
    CHR 0x09 # ''chainsv1alpha2 '' @ Quote ''github.com/tazhate/chainplane/api/v1alpha2'',
    '')'',
    [],
    ''//go:generate go run ../../cmd/versioncheck --update'',
    [],
    ''// chainDefaultImages maps each chain and optional client to its default container image.'',
    ''// Inner key: lowercase client name, or '' @ Quote [] @ '' for the chain default.'',
    ''var chainDefaultImages = map[chainsv1alpha2.Chain]map[string]string{'']"

definition gen_footer :: "string list" where
  "gen_footer = [
    ''}'',
    [],
    ''// DefaultImageFor returns the default container image for a chain and client.'',
    ''// Falls back to the chain default (key '' @ Quote [] @ '') when the client has no dedicated entry.'',
    ''func DefaultImageFor(chain chainsv1alpha2.Chain, client string) string {'',
    CHR 0x09 # ''clients, ok := chainDefaultImages[chain]'',
    CHR 0x09 # ''if !ok {'',
    [CHR 0x09, CHR 0x09] @ ''return '' @ Quote [],
    CHR 0x09 # ''}'',
    CHR 0x09 # ''if img, ok := clients[strings.ToLower(client)]; ok {'',
    [CHR 0x09, CHR 0x09] @ ''return img'',
    CHR 0x09 # ''}'',
    CHR 0x09 # ''return clients['' @ Quote [] @ '']'',
    ''}'',
    []]"

definition entry_line :: "string \<times> string \<Rightarrow> string" where
  "entry_line e = [CHR 0x09, CHR 0x09] @ Quote (fst e) @ '': '' @ Quote (snd e) @ '',''"

definition chain_lines :: "Chain \<times> strmap \<Rightarrow> string list" where
  "chain_lines e = [CHR 0x09 # ''chainsv1alpha2.'' @ chainValueToConstName (fst e) @ '': {''] @ map entry_line (snd e) @ [CHR 0x09 # ''},'']"

text \<open>The lines of the executed template, and its text.\<close>

definition gen_lines :: "string \<Rightarrow> image_table \<Rightarrow> string list" where
  "gen_lines date images = gen_header date @ concat (map chain_lines (sorted_table images)) @ gen_footer"

definition versionsGenText :: "string \<Rightarrow> image_table \<Rightarrow> string" where
  "versionsGenText date images = Join (gen_lines date images) [CHR 0x0A]"

subsection \<open>Updating the file\<close>

record 'w file_env =
  fsGetwd :: "('w, goerr + string) state"
  fsStat :: "string \<Rightarrow> ('w, bool) state"
  fsRead :: "string \<Rightarrow> ('w, goerr + string) state"
  fsWrite :: "string \<Rightarrow> string \<Rightarrow> ('w, goerr option) state"
  fsDate :: "('w, string) state"

text \<open>The walk up to the directory with \<open>go.mod\<close>; the elements of the path are given last first.\<close>

definition dir_of :: "string list \<Rightarrow> string" where
  "dir_of ups = ''/'' @ Join (rev ups) ''/''"

fun find_root :: "('w, 'x) file_env_scheme \<Rightarrow> string list \<Rightarrow> ('w, string option) state" where
  "find_root F [] = do {
     found \<leftarrow> fsStat F (path_Join (dir_of []) ''go.mod'');
     ret (if found then Some (dir_of []) else None) }"
| "find_root F (d # ups) = do {
     found \<leftarrow> fsStat F (path_Join (dir_of (d # ups)) ''go.mod'');
     if found then ret (Some (dir_of (d # ups))) else find_root F ups }"

definition versionsGenPath :: "('w, 'x) file_env_scheme \<Rightarrow> ('w, goerr + string) state" where
  "versionsGenPath F = do {
     wd \<leftarrow> fsGetwd F;
     case wd of
       Inl err \<Rightarrow> ret (Inl err)
     | Inr dir \<Rightarrow> do {
         r \<leftarrow> find_root F (rev (clean_parts [] (Split dir (CHR ''/''))));
         ret (case r of
           Some modDir \<Rightarrow> Inr (path_Join modDir ''internal/adapters/versions_gen.go'')
         | None \<Rightarrow> Inl (GoErr ''could not locate go.mod (run from repo root)'')) } }"

definition apply_update :: "image_table \<Rightarrow> versionResult \<Rightarrow> image_table" where
  "apply_update images u = (case map_of images (vrChain u) of
     None \<Rightarrow> images
   | Some clients \<Rightarrow> (case map_of clients (vrClient u) of
       None \<Rightarrow> images
     | Some oldRef \<Rightarrow> AList.update (vrChain u) (AList.update (vrClient u) (replaceTag oldRef (vrLatestTag u)) clients) images))"

definition writeVersionsGen ::
    "('w, 'x) file_env_scheme \<Rightarrow> (string \<Rightarrow> goerr + string) \<Rightarrow> string \<Rightarrow> image_table \<Rightarrow> ('w, goerr option) state" where
  "writeVersionsGen F format path images = do {
     date \<leftarrow> fsDate F;
     case format (versionsGenText date images) of
       Inr formatted \<Rightarrow> fsWrite F path formatted
     | Inl err \<Rightarrow> do {
         _ \<leftarrow> fsWrite F (path @ ''.debug'') (versionsGenText date images);
         ret (Some (GoErr (''formatting generated code: '' @ err_text err @ '' (debug written to '' @ path @ ''.debug)''))) } }"

definition applyUpdates ::
    "('w, 'x) file_env_scheme \<Rightarrow> (string \<Rightarrow> goerr + string) \<Rightarrow> Chain list \<Rightarrow> versionResult list \<Rightarrow> ('w, goerr option) state" where
  "applyUpdates F format known updates = do {
     gp \<leftarrow> versionsGenPath F;
     case gp of
       Inl err \<Rightarrow> ret (Some err)
     | Inr path \<Rightarrow> do {
         data \<leftarrow> fsRead F path;
         case data of
           Inl err \<Rightarrow> ret (Some (WrapErr ''parsing versions_gen.go'' err))
         | Inr text \<Rightarrow> writeVersionsGen F format path (foldl apply_update (parseVersionsGen known text) updates) } }"

text \<open>The program: its output, and whether it exits with an error.\<close>

definition versioncheck ::
    "semver_pkg \<Rightarrow> regexp_pkg \<Rightarrow> (string \<Rightarrow> goerr + registry_client) \<Rightarrow>
     (registry_client \<Rightarrow> ChainVersionPolicy \<Rightarrow> int \<Rightarrow> ('w, goerr + TagEntry list) state) \<Rightarrow>
     ('w, 'x) file_env_scheme \<Rightarrow> (string \<Rightarrow> goerr + string) \<Rightarrow> 'v registry \<Rightarrow> bool \<Rightarrow> string \<Rightarrow> bool \<Rightarrow> ('w, string \<times> bool) state" where
  "versioncheck S R newClient latest F format registry update filterChain allowMajor = do {
     results \<leftarrow> checkVersions S R newClient latest registry filterChain;
     let report = printReport results;
     let newer = filterNewer results allowMajor;
     let failed = (countFailures results > 0);
     if \<not> update then ret (report, failed)
     else if newer = [] then ret (report @ [CHR 0x0A] @ ''Nothing to update.'' @ [CHR 0x0A], failed)
     else do {
       e \<leftarrow> applyUpdates F format (map fst registry) newer;
       ret (case e of
         Some err \<Rightarrow> (report, True)
       | None \<Rightarrow> (report @ [CHR 0x0A] @ ''Updated '' @ Itoa (int (length newer)) @ '' image(s) in versions_gen.go'' @ [CHR 0x0A], failed)) } }"

subsection \<open>Reading back what was written\<close>

lemma Split_Join: "ls \<noteq> [] \<Longrightarrow> \<forall>l \<in> set ls. c \<notin> set l \<Longrightarrow> Split (Join ls [c]) c = ls"
proof (induction ls rule: induct_list012)
  case (3 a b ls)
  then show ?case using Split_append [of c a "Join (b # ls) [c]"] by simp
qed (auto simp: Split_plain)

lemma Contains_char: "Contains s [c] \<longleftrightarrow> c \<in> set s"
  by (induction s) auto

lemma set_TrimSpace: "set (TrimSpace l) \<subseteq> set l"
  by (auto simp: TrimSpace_def dest!: set_dropWhileD)

lemma TrimSpace_framed:
  assumes "list_all is_space pre" "\<not> is_space c" "\<not> is_space d"
  shows "TrimSpace (pre @ c # s @ [d]) = c # s @ [d]"
  using assms by (simp add: TrimSpace_def dropWhile_append list_all_iff)

text \<open>Text that the quoted form does not change and that opens no block.\<close>

definition plain_text :: "string \<Rightarrow> bool" where
  "plain_text s \<longleftrightarrow> list_all (\<lambda>c. c \<notin> {CHR 0x22, CHR 0x5C, CHR 0x0A, CHR ''{''}) s"

definition plain_table :: "image_table \<Rightarrow> bool" where
  "plain_table images \<longleftrightarrow> distinct (map fst images) \<and>
     list_all (\<lambda>(chain, clients). map_of chainConstNames chain \<noteq> None \<and> distinct (map fst clients) \<and>
       list_all (\<lambda>(k, v). plain_text k \<and> plain_text v) clients) images"

text \<open>\<open>gofmt\<close> aligns the values of a block: it adds spaces after the colon.\<close>

definition aligned_entry :: "nat \<Rightarrow> string \<times> string \<Rightarrow> string" where
  "aligned_entry n e = [CHR 0x09, CHR 0x09] @ Quote (fst e) @ '':'' @ replicate (Suc n) (CHR '' '') @ Quote (snd e) @ '',''"

definition aligned_chain :: "(Chain \<Rightarrow> string \<Rightarrow> nat) \<Rightarrow> Chain \<times> strmap \<Rightarrow> string list" where
  "aligned_chain ws e = [CHR 0x09 # ''chainsv1alpha2.'' @ chainValueToConstName (fst e) @ '': {'']
     @ map (\<lambda>kv. aligned_entry (ws (fst e) (fst kv)) kv) (snd e) @ [CHR 0x09 # ''},'']"

definition alignedText :: "(Chain \<Rightarrow> string \<Rightarrow> nat) \<Rightarrow> string \<Rightarrow> image_table \<Rightarrow> string" where
  "alignedText ws date images =
     Join (gen_header date @ concat (map (aligned_chain ws) (sorted_table images)) @ gen_footer) [CHR 0x0A]"

lemma versionsGenText_aligned: "versionsGenText date images = alignedText (\<lambda>_ _. 0) date images"
proof -
  have "aligned_entry 0 e = entry_line e" for e by (simp add: aligned_entry_def entry_line_def)
  then have "aligned_chain (\<lambda>_ _. 0) = chain_lines" by (simp add: fun_eq_iff aligned_chain_def chain_lines_def)
  then show ?thesis by (simp add: versionsGenText_def gen_lines_def alignedText_def)
qed

lemma Quote_plain: "plain_text s \<Longrightarrow> Quote s = CHR 0x22 # s @ [CHR 0x22]"
  unfolding Quote_def plain_text_def by (induction s) auto

lemma quoted_plain: "plain_text s \<Longrightarrow> quoted (CHR 0x22 # s @ CHR 0x22 # r) = Some (s, r)"
  by (induction s) (auto simp: quoted_def plain_text_def)

lemma mapEntryRe_entry:
  assumes "plain_text k" "plain_text v"
  shows "mapEntryRe (CHR 0x22 # k @ CHR 0x22 # CHR '':'' # replicate n (CHR '' '') @ CHR 0x22 # v @ [CHR 0x22, CHR '','']) = Some (k, v)"
proof -
  have space: "re_space (CHR '' '')" "\<not> re_space (CHR '':'')" "\<not> re_space (CHR 0x22)" "\<not> re_space (CHR '','')" by (simp_all add: re_space_def)
  have "dropWhile re_space (replicate n (CHR '' '') @ CHR 0x22 # r) = CHR 0x22 # r" for r
    using space by (simp add: dropWhile_append)
  then show ?thesis using assms space by (simp add: mapEntryRe_def quoted_plain)
qed

lemma gen_entry:
  assumes "plain_text k" "plain_text v" "gsInMap st" "gsInChain st" "\<not> gsDone st"
  shows "gen_line known st (aligned_entry n (k, v)) =
    st\<lparr>gsResult := AList.update (gsChain st) (AList.update k v (clients_of (gsResult st) (gsChain st))) (gsResult st)\<rparr>"
proof -
  let ?t = "CHR 0x22 # k @ CHR 0x22 # CHR '':'' # replicate (Suc n) (CHR '' '') @ CHR 0x22 # v @ [CHR 0x22, CHR '','']"
  have "TrimSpace ([CHR 0x09, CHR 0x09] @ CHR 0x22 # (k @ CHR 0x22 # CHR '':'' # replicate (Suc n) (CHR '' '') @ CHR 0x22 # v @ [CHR 0x22]) @ [CHR '','']) =
      CHR 0x22 # (k @ CHR 0x22 # CHR '':'' # replicate (Suc n) (CHR '' '') @ CHR 0x22 # v @ [CHR 0x22]) @ [CHR '','']"
    by (rule TrimSpace_framed) (simp_all add: is_space_def)
  then have t: "TrimSpace (aligned_entry n (k, v)) = ?t" using assms(1,2) by (simp add: aligned_entry_def Quote_plain)
  have "CHR ''{'' \<notin> set ?t" using assms(1,2) by (auto simp: plain_text_def list_all_iff)
  then have "\<not> Contains ?t ''{''" using Contains_char [of ?t "CHR ''{''"] by simp
  moreover have "\<not> HasPrefix ?t ''chainsv1alpha2.Chain''" by simp
  ultimately show ?thesis unfolding gen_line_def t Let_def
    using assms(3-5) mapEntryRe_entry [OF assms(1,2), of "Suc n"] by simp
qed

lemma update_new: "k \<notin> fst ` set al \<Longrightarrow> AList.update k v al = al @ [(k, v)]"
  by (induction al) auto

lemma update_last: "k \<notin> fst ` set al \<Longrightarrow> AList.update k v (al @ [(k, x)]) = al @ [(k, v)]"
  by (induction al) auto

lemma clients_of_last: "chain \<notin> fst ` set r \<Longrightarrow> clients_of (r @ [(chain, cs)]) chain = cs"
  by (induction r) (auto simp: clients_of_def)

lemma gen_entries:
  assumes "list_all (\<lambda>(k, v). plain_text k \<and> plain_text v) clients" "distinct (map fst clients)" "fst ` set clients \<inter> fst ` set cs = {}"
    and "chain \<notin> fst ` set r"
  shows "foldl (gen_line known) \<lparr>gsResult = r @ [(chain, cs)], gsChain = chain, gsInMap = True, gsInChain = True, gsDone = False\<rparr>
      (map (\<lambda>kv. aligned_entry (w kv) kv) clients) =
    \<lparr>gsResult = r @ [(chain, cs @ clients)], gsChain = chain, gsInMap = True, gsInChain = True, gsDone = False\<rparr>"
  using assms(1-3)
proof (induction clients arbitrary: cs)
  case (Cons e clients)
  obtain k v where e: "e = (k, v)" by (cases e)
  with Cons.prems have plain: "plain_text k" "plain_text v" and new: "k \<notin> fst ` set cs" by auto
  have "foldl (gen_line known) \<lparr>gsResult = r @ [(chain, cs)], gsChain = chain, gsInMap = True, gsInChain = True, gsDone = False\<rparr>
      (map (\<lambda>kv. aligned_entry (w kv) kv) (e # clients)) =
    foldl (gen_line known) \<lparr>gsResult = r @ [(chain, cs @ [(k, v)])], gsChain = chain, gsInMap = True, gsInChain = True, gsDone = False\<rparr>
      (map (\<lambda>kv. aligned_entry (w kv) kv) clients)"
    using assms(4) new by (simp add: e gen_entry [OF plain] clients_of_last update_new update_last)
  also have "\<dots> = \<lparr>gsResult = r @ [(chain, (cs @ [(k, v)]) @ clients)], gsChain = chain, gsInMap = True, gsInChain = True, gsDone = False\<rparr>"
    by (rule Cons.IH) (use Cons.prems e in auto)
  finally show ?case by (simp add: e)
qed simp

text \<open>What the parser needs of the name of a constant; the table has no other.\<close>

definition const_ok :: "string \<Rightarrow> bool" where
  "const_ok n \<longleftrightarrow> (let t = ''chainsv1alpha2.'' @ n @ '': {'' in
     TrimSpace (CHR 0x09 # t) = t \<and> \<not> Contains t ''chainDefaultImages'' \<and> HasPrefix t ''chainsv1alpha2.Chain'' \<and> HasSuffix t '': {'' \<and>
     TrimPrefix (cut_suffix t '': {'') ''chainsv1alpha2.'' = n \<and> CHR 0x0A \<notin> set n \<and> n \<noteq> [])"

lemma consts_ok: "list_all (\<lambda>(_, n). const_ok n) chainConstNames" "distinct (map snd chainConstNames)"
  by code_simp+

lemma const_name:
  assumes "map_of chainConstNames chain \<noteq> None"
  shows "const_ok (chainValueToConstName chain)"
    and "chainValueToConstName chain' = chainValueToConstName chain \<Longrightarrow> chain' = chain"
proof -
  from assms obtain n where n: "map_of chainConstNames chain = Some n" by blast
  then have name: "chainValueToConstName chain = n" by (simp add: chainValueToConstName_def mget_def)
  from map_of_SomeD [OF n] consts_ok(1) show "const_ok (chainValueToConstName chain)" by (auto simp: name list_all_iff)
  then have "n \<noteq> []" by (simp add: name const_ok_def Let_def)
  assume "chainValueToConstName chain' = chainValueToConstName chain"
  with name \<open>n \<noteq> []\<close> have "map_of chainConstNames chain' = Some n"
    by (auto simp: chainValueToConstName_def mget_def split: option.splits)
  from map_of_SomeD [OF this] map_of_SomeD [OF n] consts_ok(2) show "chain' = chain"
    by (metis distinct_map inj_onD prod.inject snd_conv)
qed

lemma lookup_const:
  assumes "map_of chainConstNames chain \<noteq> None" "chain \<in> set known"
  shows "lookupChainByConst known (chainValueToConstName chain) = chain"
proof -
  have "find (\<lambda>c. chainValueToConstName c = chainValueToConstName chain) known = Some chain"
    using assms(2)
  proof (induction known)
    case (Cons c known)
    then show ?case using const_name(2) [OF assms(1), of c] by auto
  qed simp
  then show ?thesis by (simp add: lookupChainByConst_def)
qed

lemma gen_close:
  "gen_line known \<lparr>gsResult = r, gsChain = chain, gsInMap = True, gsInChain = True, gsDone = False\<rparr> (CHR 0x09 # ''},'') =
   \<lparr>gsResult = r, gsChain = [], gsInMap = True, gsInChain = False, gsDone = False\<rparr>"
proof -
  have "TrimSpace (CHR 0x09 # ''},'') = ''},''" "mapEntryRe ''},'' = None" by code_simp+
  then show ?thesis by (simp add: gen_line_def)
qed

lemma gen_chain:
  assumes "map_of chainConstNames chain \<noteq> None" "chain \<in> set known" "chain \<notin> fst ` set r"
    and "list_all (\<lambda>(k, v). plain_text k \<and> plain_text v) clients" "distinct (map fst clients)"
  shows "foldl (gen_line known) \<lparr>gsResult = r, gsChain = [], gsInMap = True, gsInChain = False, gsDone = False\<rparr> (aligned_chain ws (chain, clients)) =
    \<lparr>gsResult = r @ [(chain, clients)], gsChain = [], gsInMap = True, gsInChain = False, gsDone = False\<rparr>"
proof -
  have "const_ok (chainValueToConstName chain)" by (rule const_name(1) [OF assms(1)])
  then have "gen_line known \<lparr>gsResult = r, gsChain = [], gsInMap = True, gsInChain = False, gsDone = False\<rparr>
      (CHR 0x09 # ''chainsv1alpha2.'' @ chainValueToConstName chain @ '': {'') =
    \<lparr>gsResult = r @ [(chain, [])], gsChain = chain, gsInMap = True, gsInChain = True, gsDone = False\<rparr>"
    using lookup_const [OF assms(1,2)] assms(3) unfolding const_ok_def gen_line_def Let_def by (simp add: update_new)
  then show ?thesis
    using gen_entries [OF assms(4,5) _ assms(3), of "[]" known "\<lambda>kv. ws chain (fst kv)"]
    by (simp add: aligned_chain_def gen_close)
qed

lemma gen_chains:
  assumes "list_all (\<lambda>(chain, clients). map_of chainConstNames chain \<noteq> None \<and> chain \<in> set known \<and>
      list_all (\<lambda>(k, v). plain_text k \<and> plain_text v) clients \<and> distinct (map fst clients)) es"
    and "distinct (map fst es)" "fst ` set es \<inter> fst ` set r = {}"
  shows "foldl (gen_line known) \<lparr>gsResult = r, gsChain = [], gsInMap = True, gsInChain = False, gsDone = False\<rparr> (concat (map (aligned_chain ws) es)) =
    \<lparr>gsResult = r @ es, gsChain = [], gsInMap = True, gsInChain = False, gsDone = False\<rparr>"
  using assms
proof (induction es arbitrary: r)
  case (Cons e es)
  obtain chain clients where e: "e = (chain, clients)" by (cases e)
  have IH: "foldl (gen_line known) \<lparr>gsResult = r @ [(chain, clients)], gsChain = [], gsInMap = True, gsInChain = False, gsDone = False\<rparr>
      (concat (map (aligned_chain ws) es)) = \<lparr>gsResult = (r @ [(chain, clients)]) @ es, gsChain = [], gsInMap = True, gsInChain = False, gsDone = False\<rparr>"
    by (rule Cons.IH) (use Cons.prems e in auto)
  have "foldl (gen_line known) \<lparr>gsResult = r, gsChain = [], gsInMap = True, gsInChain = False, gsDone = False\<rparr> (aligned_chain ws e) =
    \<lparr>gsResult = r @ [(chain, clients)], gsChain = [], gsInMap = True, gsInChain = False, gsDone = False\<rparr>"
    unfolding e by (rule gen_chain) (use Cons.prems e in auto)
  with IH show ?case by (simp add: e)
qed simp

lemma gen_outside:
  assumes "\<not> gsInMap st" "CHR ''{'' \<notin> set line"
  shows "gen_line known st line = st"
proof -
  have "CHR ''{'' \<notin> set (TrimSpace line)" using assms(2) set_TrimSpace by blast
  then have "\<not> Contains (TrimSpace line) ''{''" using Contains_char [of "TrimSpace line" "CHR ''{''"] by simp
  with assms(1) show ?thesis by (simp add: gen_line_def Let_def)
qed

lemma gen_outside_all:
  "\<not> gsInMap st \<Longrightarrow> \<forall>l \<in> set ls. CHR ''{'' \<notin> set l \<Longrightarrow> foldl (gen_line known) st ls = st"
  by (induction ls) (simp_all add: gen_outside)

lemma gen_done: "gsDone st \<Longrightarrow> foldl (gen_line known) st ls = st"
  by (induction ls) (simp_all add: gen_line_def Let_def)

lemma gen_header_read:
  assumes "CHR ''{'' \<notin> set date"
  shows "foldl (gen_line known) gen_start (gen_header date) =
    \<lparr>gsResult = [], gsChain = [], gsInMap = True, gsInChain = False, gsDone = False\<rparr>"
proof -
  define var where "var = ''var chainDefaultImages = map[chainsv1alpha2.Chain]map[string]string{''"
  obtain ls where ls: "gen_header date = ls @ [var]" and plain: "\<forall>l \<in> set ls. CHR ''{'' \<notin> set l"
  proof
    show "gen_header date = butlast (gen_header date) @ [var]" by (simp add: gen_header_def var_def)
    show "\<forall>l \<in> set (butlast (gen_header date)). CHR ''{'' \<notin> set l" using assms by (simp add: gen_header_def Quote_def)
  qed
  have "foldl (gen_line known) gen_start ls = gen_start" by (rule gen_outside_all [OF _ plain]) (simp add: gen_start_def)
  moreover have "Contains (TrimSpace var) ''chainDefaultImages''" "Contains (TrimSpace var) ''{''" unfolding var_def by code_simp+
  ultimately show ?thesis unfolding ls foldl_append by (simp add: gen_line_def gen_start_def)
qed

lemma gen_footer_read:
  "gsResult (foldl (gen_line known) \<lparr>gsResult = r, gsChain = [], gsInMap = True, gsInChain = False, gsDone = False\<rparr> gen_footer) = r"
proof -
  have "TrimSpace ''}'' = ''}''" by code_simp
  then have close: "gen_line known \<lparr>gsResult = r, gsChain = [], gsInMap = True, gsInChain = False, gsDone = False\<rparr> ''}'' =
      \<lparr>gsResult = r, gsChain = [], gsInMap = True, gsInChain = False, gsDone = True\<rparr>" by (simp add: gen_line_def)
  obtain ls where footer: "gen_footer = ''}'' # ls" by (simp add: gen_footer_def)
  show ?thesis unfolding footer foldl_Cons close by (simp add: gen_done)
qed

lemma map_fst_insert_by: "distinct (map fst (insert_by key x xs)) \<longleftrightarrow> distinct (map fst (x # xs))"
  by (induction xs) auto

lemma distinct_sort_rows: "distinct (map fst (sort_rows key xs)) \<longleftrightarrow> distinct (map fst xs)"
proof (induction xs)
  case (Cons x xs)
  have "fst ` set (sort_rows key xs) = fst ` set xs" by simp
  with Cons show ?case by (simp add: sort_rows_def map_fst_insert_by)
qed (simp add: sort_rows_def)

lemma sorted_table_plain:
  assumes "plain_table images" "fst ` set images \<subseteq> set known"
  shows "list_all (\<lambda>(chain, clients). map_of chainConstNames chain \<noteq> None \<and> chain \<in> set known \<and>
      list_all (\<lambda>(k, v). plain_text k \<and> plain_text v) clients \<and> distinct (map fst clients)) (sorted_table images)"
    and "distinct (map fst (sorted_table images))"
proof -
  show "list_all (\<lambda>(chain, clients). map_of chainConstNames chain \<noteq> None \<and> chain \<in> set known \<and>
      list_all (\<lambda>(k, v). plain_text k \<and> plain_text v) clients \<and> distinct (map fst clients)) (sorted_table images)"
    using assms unfolding plain_table_def sorted_table_def list_all_iff by (fastforce simp: distinct_sort_rows)
  have "map fst (sorted_table images) = map fst (sort_rows (\<lambda>e. (fst e, [])) images)" by (simp add: sorted_table_def split_beta comp_def)
  then show "distinct (map fst (sorted_table images))" using assms(1) by (simp add: plain_table_def distinct_sort_rows)
qed

lemma aligned_no_newline:
  assumes "map_of chainConstNames chain \<noteq> None" "list_all (\<lambda>(k, v). plain_text k \<and> plain_text v) clients" "l \<in> set (aligned_chain ws (chain, clients))"
  shows "CHR 0x0A \<notin> set l"
proof -
  have "CHR 0x0A \<notin> set (chainValueToConstName chain)" using const_name(1) [OF assms(1)] by (simp add: const_ok_def Let_def)
  moreover have "CHR 0x0A \<notin> set (aligned_entry n (k, v))" if "plain_text k" "plain_text v" for n k v
    using that by (auto simp: aligned_entry_def Quote_plain plain_text_def list_all_iff)
  ultimately show ?thesis using assms(2,3) by (auto simp: aligned_chain_def list_all_iff)
qed

text \<open>Sorting keeps the table: every client of every chain has the image it had.\<close>

lemma map_of_sort_rows: "distinct (map fst xs) \<Longrightarrow> map_of (sort_rows key xs) = map_of xs"
  by (rule map_of_inject_set [THEN iffD2]) (simp_all add: distinct_sort_rows)

lemma sorted_table_clients:
  assumes "plain_table images"
  shows "map_of (clients_of (sorted_table images) chain) client = map_of (clients_of images chain) client"
proof -
  have "map_of (sorted_table images) = map_option (sort_rows (\<lambda>e. (fst e, []))) \<circ> map_of (sort_rows (\<lambda>e. (fst e, [])) images)"
    unfolding sorted_table_def by (simp add: map_of_map)
  also have "\<dots> = map_option (sort_rows (\<lambda>e. (fst e, []))) \<circ> map_of images"
    using assms by (simp add: map_of_sort_rows plain_table_def)
  finally have table: "map_of (sorted_table images) chain = map_option (sort_rows (\<lambda>e. (fst e, []))) (map_of images chain)" by simp
  show ?thesis
  proof (cases "map_of images chain")
    case (Some clients)
    with map_of_SomeD [OF Some] assms have "distinct (map fst clients)" by (auto simp: plain_table_def list_all_iff)
    with Some table show ?thesis by (simp add: clients_of_def map_of_sort_rows)
  qed (simp add: clients_of_def table)
qed

lemma parse_aligned:
  assumes "plain_table images" "fst ` set images \<subseteq> set known" "CHR ''{'' \<notin> set date" "CHR 0x0A \<notin> set date"
  shows "parseVersionsGen known (alignedText ws date images) = sorted_table images"
proof -
  note table = sorted_table_plain [OF assms(1,2)]
  let ?ls = "gen_header date @ concat (map (aligned_chain ws) (sorted_table images)) @ gen_footer"
  have "\<forall>l \<in> set (gen_header date @ gen_footer). CHR 0x0A \<notin> set l"
    using assms(4) by (simp add: gen_header_def gen_footer_def Quote_def)
  moreover have "CHR 0x0A \<notin> set l" if "l \<in> set (concat (map (aligned_chain ws) (sorted_table images)))" for l
    using that table(1) aligned_no_newline by (fastforce simp: list_all_iff)
  ultimately have "Split (alignedText ws date images) (CHR 0x0A) = ?ls"
    unfolding alignedText_def by (intro Split_Join) (auto simp: gen_footer_def)
  then show ?thesis
    unfolding parseVersionsGen_def
    by (simp only: foldl_append gen_header_read [OF assms(3)] gen_chains [OF table, of "[]", simplified] gen_footer_read)
qed

text \<open>
  C33: What the version check writes it reads back: for a table of chains with an adapter and a
  constant, whose client names and images need no escapes, and however the formatter aligns the
  values, parsing the generated file gives the same image for every chain and client, in the
  sorted order in which it was written.
\<close>

theorem versions_gen_roundtrip:
  assumes "plain_table images" "fst ` set images \<subseteq> set known" "CHR ''{'' \<notin> set date" "CHR 0x0A \<notin> set date"
  shows "parseVersionsGen known (alignedText ws date images) = sorted_table images \<and>
    (\<forall>chain client. map_of (clients_of (parseVersionsGen known (alignedText ws date images)) chain) client = map_of (clients_of images chain) client)"
  using parse_aligned [OF assms] sorted_table_clients [OF assms(1)] by simp

theorem versions_gen_roundtrip_witness:
  "parseVersionsGen [''optimism'', ''bitcoin''] (alignedText (\<lambda>_ k. 8 - length k) ''2026-10-01''
      [(''optimism'', [([], ''op-geth:v1.2''), (''op-reth'', ''op-reth:v2'')]), (''bitcoin'', [([], ''bitcoin:28.0'')])]) =
   [(''bitcoin'', [([], ''bitcoin:28.0'')]), (''optimism'', [([], ''op-geth:v1.2''), (''op-reth'', ''op-reth:v2'')])]"
proof -
  let ?images = "[(''optimism'', [([], ''op-geth:v1.2''), (''op-reth'', ''op-reth:v2'')]), (''bitcoin'', [([], ''bitcoin:28.0'')])]"
  have "plain_table ?images" by code_simp
  moreover have "sorted_table ?images = [(''bitcoin'', [([], ''bitcoin:28.0'')]), (''optimism'', [([], ''op-geth:v1.2''), (''op-reth'', ''op-reth:v2'')])]" by code_simp
  ultimately show ?thesis
    using versions_gen_roundtrip [of ?images "[''optimism'', ''bitcoin'']" "''2026-10-01''" "\<lambda>_ k. 8 - length k"] by simp
qed

subsection \<open>Updates\<close>

lemma newest_from_in: "newest_from S prefix best ts \<in> insert best (set ts)"
proof (induction ts arbitrary: best)
  case (Cons t ts)
  from Cons [of best] Cons [of t] show ?case by auto
qed simp

lemma Newest_in: "Newest S tags prefix \<noteq> [] \<Longrightarrow> Newest S tags prefix \<in> set tags"
  using newest_from_in [of S prefix "[]" tags] by (auto simp: Newest_def)

text \<open>A stable tag within the line of the version in use.\<close>

definition same_line :: "semver_pkg \<Rightarrow> regexp_pkg \<Rightarrow> ChainVersionPolicy \<Rightarrow> string \<Rightarrow> string \<Rightarrow> bool" where
  "same_line S R policy current tag \<longleftrightarrow>
     (let v = versionOf R (vpTagPattern policy) tag; cur = current_version R policy current; prefix = vpTagPrefix policy
      in isStableTag v prefix \<and> IsNewer S v cur prefix \<and> \<not> IsMajorBump S v cur prefix)"

lemma byVersion_tagged:
  assumes "v \<in> set (map fst (stable_tags R policy tags))"
  shows "versionOf R (vpTagPattern policy) (byVersion (stable_tags R policy tags) v) = v" "isStableTag v (vpTagPrefix policy)"
proof -
  let ?tagged = "stable_tags R policy tags"
  from assms obtain t where t: "map_of (rev ?tagged) v = Some t" by (cases "map_of (rev ?tagged) v") (auto simp: map_of_eq_None_iff)
  from map_of_SomeD [OF t] have "(v, t) \<in> set ?tagged" by simp
  with t show "versionOf R (vpTagPattern policy) (byVersion ?tagged v) = v" "isStableTag v (vpTagPrefix policy)"
    by (auto simp: byVersion_def stable_tags_def)
qed

lemma pickLatest_line:
  assumes "pickLatest S R policy current tags = Inr p" "pkNewer p"
  shows "\<not> pkMajor p \<Longrightarrow> same_line S R policy current (pkLatest p)"
    and "pkMajor p \<Longrightarrow> pkSameMajor p \<noteq> [] \<Longrightarrow> same_line S R policy current (pkSameMajor p)"
proof -
  let ?tagged = "stable_tags R policy tags" and ?prefix = "vpTagPrefix policy" and ?cur = "current_version R policy current"
  let ?versions = "map fst ?tagged"
  let ?latest = "Newest S ?versions ?prefix"
  let ?line = "filter (\<lambda>v. IsNewer S v ?cur ?prefix \<and> \<not> IsMajorBump S v ?cur ?prefix) ?versions"
  have latest: "?latest \<noteq> []" using assms by (auto simp: pickLatest_def Let_def zero_pick_def split: sum.splits if_splits)
  then have p: "p = \<lparr>pkLatest = byVersion ?tagged ?latest, pkNewer = IsNewer S ?latest ?cur ?prefix,
      pkMajor = (IsNewer S ?latest ?cur ?prefix \<and> IsMajorBump S ?latest ?cur ?prefix),
      pkSameMajor = (if (if IsNewer S ?latest ?cur ?prefix \<and> IsMajorBump S ?latest ?cur ?prefix then Newest S ?line ?prefix else []) \<noteq> []
        then byVersion ?tagged (Newest S ?line ?prefix) else [])\<rparr>"
    using assms(1) by (auto simp: pickLatest_def Let_def split: sum.splits)
  show "same_line S R policy current (pkLatest p)" if "\<not> pkMajor p"
    using that assms(2) byVersion_tagged [OF Newest_in [OF latest]] by (simp add: p same_line_def Let_def)
  show "same_line S R policy current (pkSameMajor p)" if "pkMajor p" "pkSameMajor p \<noteq> []"
  proof -
    from that have same: "Newest S ?line ?prefix \<noteq> []" "pkSameMajor p = byVersion ?tagged (Newest S ?line ?prefix)"
      by (auto simp: p split: if_splits)
    from Newest_in [OF same(1)] have "Newest S ?line ?prefix \<in> set ?versions" "IsNewer S (Newest S ?line ?prefix) ?cur ?prefix"
      "\<not> IsMajorBump S (Newest S ?line ?prefix) ?cur ?prefix" by auto
    with byVersion_tagged [OF this(1)] same(2) show ?thesis by (simp add: same_line_def Let_def)
  qed
qed

lemma applied_line:
  assumes "applied False (item_result S R (chain, client, policy) f) = Some u"
  shows "vrChain u = chain \<and> vrClient u = client \<and> same_line S R policy (parseTag (DefaultImageFor chain client)) (vrLatestTag u)"
proof -
  obtain tags p where p: "f = Inr tags" "pickLatest S R policy (parseTag (DefaultImageFor chain client)) tags = Inr p" "pkNewer p"
    using assms by (auto simp: applied_def item_result_def Let_def split: sum.splits if_splits)
  note line = pickLatest_line [OF p(2,3)]
  show ?thesis
    using assms line p by (auto simp: applied_def item_result_def Let_def split: if_splits)
qed

lemma check_items_results:
  "wp (check_items S R newClient latest cache its) (\<lambda>rs _. \<forall>r \<in> set rs. \<exists>it \<in> set its. \<exists>f. r = item_result S R it f) w"
proof (induction its arbitrary: cache w)
  case (Cons it its)
  have "wp (check_items S R newClient latest c its) (\<lambda>rs _. \<forall>r \<in> set (item_result S R it f # rs). \<exists>it \<in> set (it # its). \<exists>f. r = item_result S R it f) w1"
    for c f w1 by (rule wp_mono [OF Cons.IH]) auto
  then show ?case
    unfolding check_items.simps wp_bind wp_case_prod wp_ret_fun by (intro wp_any) (simp only: split_beta)
qed simp

text \<open>
  C21: Without \<open>--allow-major\<close> an update never crosses a major version: every tag that is applied
  belongs to an adapter's policy, is a stable release newer than the tag in use, and is not a
  major bump over it (for 0.x versions, no minor bump), whatever the registries answer.
\<close>

theorem update_holds_majors:
  assumes "run_state (checkVersions S R newClient latest registry filterChain) w = (rs, w')" "u \<in> set (filterNewer rs False)"
  shows "\<exists>policy. (vrChain u, vrClient u, policy) \<in> set (work_items registry filterChain) \<and>
    same_line S R policy (parseTag (DefaultImageFor (vrChain u) (vrClient u))) (vrLatestTag u)"
proof -
  have "wp (checkVersions S R newClient latest registry filterChain)
      (\<lambda>rs _. \<forall>r \<in> set rs. \<exists>it \<in> set (work_items registry filterChain). \<exists>f. r = item_result S R it f) w"
    unfolding checkVersions_def by (simp add: check_items_results)
  from wpD [OF this assms(1)] assms(2) obtain r it f where "it \<in> set (work_items registry filterChain)" "r = item_result S R it f" "applied False r = Some u"
    by (auto simp: filterNewer_def List.map_filter_def)
  moreover obtain chain client policy where "it = (chain, client, policy)" by (cases it)
  ultimately show ?thesis using applied_line by blast
qed

text \<open>Two releases after the pinned one, the newer a major bump: only the other is applied.\<close>

definition tag_entry :: "string \<Rightarrow> TagEntry" where
  "tag_entry t = \<lparr>teTag = t, tePublishedAt = [], teDigest = []\<rparr>"

definition plain_regexp :: regexp_pkg where
  "plain_regexp = \<lparr>rxCompile = (\<lambda>_. Inr ()), rxHasVersion = (\<lambda>_. False), rxVersion = (\<lambda>_ _. None)\<rparr>"

definition btc_policy :: ChainVersionPolicy where
  "btc_policy = \<lparr>vpRegistry = ''docker.io'', vpRepository = ''lncm/bitcoind'', vpTagPattern = [], vpTagPrefix = []\<rparr>"

definition btc_registry :: "unit rpc_env \<Rightarrow> unit registry" where
  "btc_registry E = [(ChainBitcoin, (protocolBase E ChainBitcoin 8332)\<lparr>adVersionPolicy := Some btc_policy\<rparr>)]"

abbreviation btc_check :: "unit rpc_env \<Rightarrow> (unit, versionResult list) state" where
  "btc_check E \<equiv> checkVersions semver plain_regexp (\<lambda>_. Inr GHCRClient)
     (\<lambda>_ _ _. ret (Inr [tag_entry ''v29.0'', tag_entry ''v28.1''])) (btc_registry E) []"

lemma btc_pick:
  "pickLatest semver plain_regexp btc_policy ''v28.0'' [tag_entry ''v29.0'', tag_entry ''v28.1''] =
   Inr \<lparr>pkLatest = ''v29.0'', pkNewer = True, pkMajor = True, pkSameMajor = ''v28.1''\<rparr>"
proof -
  have tags: "stable_tags plain_regexp btc_policy [tag_entry ''v29.0'', tag_entry ''v28.1''] = [(''v29.0'', ''v29.0''), (''v28.1'', ''v28.1'')]"
    "current_version plain_regexp btc_policy ''v28.0'' = ''v28.0''" by code_simp+
  have norm: "normalizeTag ''v28.0'' [] = ''v28.0.0''" "normalizeTag ''v28.1'' [] = ''v28.1.0''" "normalizeTag ''v29.0'' [] = ''v29.0.0''"
    by (simp_all add: tag_simps)
  have valid: "svIsValid semver ''v28.0.0''" "svIsValid semver ''v28.1.0''" "svIsValid semver ''v29.0.0''" by code_simp+
  have compare: "svCompare semver ''v28.1.0'' ''v28.0.0'' = 1" "svCompare semver ''v29.0.0'' ''v28.0.0'' = 1" "svCompare semver ''v28.1.0'' ''v29.0.0'' = -1" by code_simp+
  have major: "svMajor semver ''v28.0.0'' = ''v28''" "svMajor semver ''v28.1.0'' = ''v28''" "svMajor semver ''v29.0.0'' = ''v29''" by code_simp+
  have fields: "rxCompile plain_regexp p = Inr ()" "vpTagPrefix btc_policy = []" for p by (simp_all add: plain_regexp_def btc_policy_def)
  show ?thesis
    by (simp add: pickLatest_def Let_def tags fields Newest_def IsNewer_def IsMajorBump_def norm valid compare major byVersion_def)
qed

theorem update_holds_majors_witness:
  "\<forall>E. \<exists>u \<in> set (filterNewer (fst (run_state (btc_check E) ())) False). vrLatestTag u = ''v28.1'' \<and>
     (\<exists>policy. same_line semver plain_regexp policy (parseTag (DefaultImageFor (vrChain u) (vrClient u))) (vrLatestTag u))"
proof
  fix E
  have ref: "DefaultImageFor ChainBitcoin [] = ''lncm/bitcoind:v28.0''" by code_simp
  have "work_items (btc_registry E) [] = [(ChainBitcoin, [], btc_policy)]"
    by (simp add: work_items_def btc_registry_def protocolBase_def)
  then have run: "run_state (btc_check E) () =
      ([\<lparr>vrChain = ChainBitcoin, vrClient = [], vrCurrentRef = ''lncm/bitcoind:v28.0'', vrCurrentTag = ''v28.0'', vrLatestTag = ''v29.0'',
         vrIsNewer = True, vrIsMajor = True, vrSameMajorTag = ''v28.1'', vrNoMatch = False, vrErr = None\<rparr>], ())"
    by (simp add: checkVersions_def cached_latestTags_def item_result_def Let_def ref parseTag_def btc_pick sort_rows_def)
  then obtain u where u: "u \<in> set (filterNewer (fst (run_state (btc_check E) ())) False)" "vrLatestTag u = ''v28.1''"
    by (simp add: filterNewer_def applied_def)
  from update_holds_majors [OF surjective_pairing u(1)] u
  show "\<exists>u \<in> set (filterNewer (fst (run_state (btc_check E) ())) False). vrLatestTag u = ''v28.1'' \<and>
     (\<exists>policy. same_line semver plain_regexp policy (parseTag (DefaultImageFor (vrChain u) (vrClient u))) (vrLatestTag u))" by blast
qed

end
