(* ===== verification/Dashboard.thy ===== *)
theory Dashboard
  imports Registry Adapter_Http
begin

text \<open>
  The exported metrics of the operator, \<open>internal/metrics/metrics.go\<close>, and the fleet dashboard,
  \<open>internal/dashboard/server.go\<close>, \<open>metrics.go\<close> and \<open>types.go\<close>. A gauge or counter vector is the
  association of its label sets with their values, a histogram that of its label sets with the
  values observed. The encoding of responses as JSON and the pages of Prometheus and the web
  user interface are left to what serves them.
\<close>

type_synonym gauge_vec = "(strmap \<times> f64) list"

definition gauge_Set :: "strmap \<Rightarrow> f64 \<Rightarrow> gauge_vec \<Rightarrow> gauge_vec" where
  "gauge_Set labels v g = AList.update labels v g"

definition counter_Inc :: "strmap \<Rightarrow> gauge_vec \<Rightarrow> gauge_vec" where
  "counter_Inc labels g = AList.update labels (case map_of g labels of Some v \<Rightarrow> f_add v (Fin 1) | None \<Rightarrow> Fin 1) g"

definition histogram_Observe :: "strmap \<Rightarrow> f64 \<Rightarrow> (strmap \<times> f64 list) list \<Rightarrow> (strmap \<times> f64 list) list" where
  "histogram_Observe labels v h = AList.update labels ((case map_of h labels of Some vs \<Rightarrow> vs | None \<Rightarrow> []) @ [v]) h"

subsection \<open>Metrics of the operator\<close>

record operatorMetrics =
  omBlockHeight :: gauge_vec
  omSyncProgress :: gauge_vec
  omPeersCount :: gauge_vec
  omNodePhase :: gauge_vec
  omNodeRestarts :: gauge_vec
  omDegradedDuration :: "(strmap \<times> f64 list) list"

definition node_labels :: "ChainInstance \<Rightarrow> strmap" where
  "node_labels node = [(''chain'', spChain (ciSpec node)), (''network'', spNetwork (ciSpec node)), (''node'', mName (ciMeta node))]"

definition RecordSyncStatus :: "ChainInstance \<Rightarrow> SyncStatus \<Rightarrow> operatorMetrics \<Rightarrow> operatorMetrics" where
  "RecordSyncStatus node status M = M\<lparr>
     omBlockHeight := gauge_Set (node_labels node @ [(''node_type'', spNodeType (ciSpec node))])
       (f_of_int (syCurrentBlock status)) (omBlockHeight M),
     omSyncProgress := gauge_Set (node_labels node) (syProgress status) (omSyncProgress M),
     omPeersCount := gauge_Set (node_labels node) (f_of_int (syPeers status)) (omPeersCount M)\<rparr>"

definition RecordDegradedRecovery :: "ChainInstance \<Rightarrow> f64 \<Rightarrow> operatorMetrics \<Rightarrow> operatorMetrics" where
  "RecordDegradedRecovery node degradedSeconds M = M\<lparr>
     omDegradedDuration := histogram_Observe [(''chain'', spChain (ciSpec node)), (''network'', spNetwork (ciSpec node))]
       degradedSeconds (omDegradedDuration M)\<rparr>"

definition RecordAutoRestart :: "ChainInstance \<Rightarrow> string \<Rightarrow> f64 \<Rightarrow> operatorMetrics \<Rightarrow> operatorMetrics" where
  "RecordAutoRestart node reason degradedSeconds M =
     (let M = M\<lparr>omNodeRestarts := counter_Inc (node_labels node @ [(''reason'', reason)]) (omNodeRestarts M)\<rparr>
      in M\<lparr>omDegradedDuration := histogram_Observe [(''chain'', spChain (ciSpec node)), (''network'', spNetwork (ciSpec node))]
            degradedSeconds (omDegradedDuration M)\<rparr>)"

definition nodePhases :: "NodePhase list" where
  "nodePhases = [NodePhasePending, NodePhaseSyncing, NodePhaseHealthy, NodePhaseDegraded, NodePhaseFailed]"

definition phase_labels :: "ChainInstance \<Rightarrow> NodePhase \<Rightarrow> strmap" where
  "phase_labels node p = node_labels node @ [(''phase'', NodePhase_String p)]"

definition RecordPhase :: "ChainInstance \<Rightarrow> NodePhase \<Rightarrow> operatorMetrics \<Rightarrow> operatorMetrics" where
  "RecordPhase node phase M = M\<lparr>
     omNodePhase := foldl (\<lambda>g p. gauge_Set (phase_labels node p) (Fin (if p = phase then 1 else 0)) g) (omNodePhase M) nodePhases\<rparr>"

subsection \<open>Types of the dashboard\<close>

record NodeInfo =
  niName :: string
  niNamespace :: string
  niChain :: string
  niNetwork :: string
  niNodeType :: string
  niPhase :: string
  niBlockHeight :: int
  niSyncProgress :: string
  niSyncETA :: string
  niPeersCount :: int
  niReady :: bool
  niAge :: string
  niClient :: string
  niReplicas :: int

record Summary =
  suTotal :: nat
  suHealthy :: nat
  suSyncing :: nat
  suDegraded :: nat
  suFailed :: nat
  suPending :: nat

record NodeListResponse =
  nlNodes :: "NodeInfo list"
  nlSummary :: Summary
  nlFetchedAt :: time

record dashboardMetrics =
  dmNodesTotal :: gauge_vec
  dmBlockHeight :: gauge_vec
  dmSyncProgress :: gauge_vec
  dmPeersTotal :: gauge_vec
  dmScrapeErrors :: f64
  dmLastScrapeTime :: f64

definition newMetrics :: dashboardMetrics where
  "newMetrics = \<lparr>dmNodesTotal = [], dmBlockHeight = [], dmSyncProgress = [], dmPeersTotal = [], dmScrapeErrors = Fin 0, dmLastScrapeTime = Fin 0\<rparr>"

definition parseSyncPercent :: "string \<Rightarrow> f64" where
  "parseSyncPercent s =
     (if s = [] then Fin 100
      else (case ParseFloat (if HasSuffix s ''%'' then take (length s - 1) s else s) of Some f \<Rightarrow> f | None \<Rightarrow> Fin 0))"

definition shown_phase :: "NodeInfo \<Rightarrow> string" where
  "shown_phase n = (if niPhase n = [] then ''Pending'' else niPhase n)"

definition info_labels :: "NodeInfo \<Rightarrow> strmap" where
  "info_labels n = [(''chain'', niChain n), (''network'', niNetwork n), (''node'', niNamespace n @ ''/'' @ niName n)]"

definition phase_counts :: "NodeInfo list \<Rightarrow> (string \<times> f64) list" where
  "phase_counts nodes = foldl (\<lambda>ps n. AList.update (shown_phase n)
     (case map_of ps (shown_phase n) of Some v \<Rightarrow> f_add v (Fin 1) | None \<Rightarrow> Fin 1) ps) [] nodes"

text \<open>\<open>update\<close>: the vectors are reset and filled again.\<close>

definition update_metrics :: "NodeInfo list \<Rightarrow> dashboardMetrics \<Rightarrow> dashboardMetrics" where
  "update_metrics nodes m = m\<lparr>
     dmNodesTotal := foldl (\<lambda>g (phase, count). gauge_Set [(''phase'', phase)] count g) [] (phase_counts nodes),
     dmBlockHeight := foldl (\<lambda>g n. gauge_Set (info_labels n) (f_of_int (niBlockHeight n)) g) [] nodes,
     dmPeersTotal := foldl (\<lambda>g n. gauge_Set (info_labels n) (f_of_int (niPeersCount n)) g) [] nodes,
     dmSyncProgress := foldl (\<lambda>g n. gauge_Set (info_labels n) (parseSyncPercent (niSyncProgress n)) g) [] nodes\<rparr>"

subsection \<open>The server\<close>

text \<open>
  \<open>deList\<close> lists the nodes of a namespace, or of all of them, each with its creation time
  unless that is zero.
\<close>

record 'w dash_env =
  deList :: "string \<Rightarrow> ('w, goerr + (time option \<times> ChainInstance) list) state"
  deNow :: "('w, time) state"

record Server =
  srNamespace :: string
  srMetrics :: dashboardMetrics
  srCache :: "NodeListResponse option"

definition New :: "string \<Rightarrow> Server" where
  "New namespace = \<lparr>srNamespace = namespace, srMetrics = newMetrics, srCache = None\<rparr>"

definition age_text :: "duration \<Rightarrow> string" where
  "age_text d =
     (if d \<ge> 24 * Hour then Itoa (d div (24 * Hour)) @ ''d''
      else if d \<ge> Hour then Itoa (d div Hour) @ ''h''
      else if d \<ge> Minute then Itoa (d div Minute) @ ''m''
      else Itoa (sgn d * (\<bar>d\<bar> div Second)) @ ''s'')"

definition formatAge :: "('w, 'x) dash_env_scheme \<Rightarrow> time option \<Rightarrow> ('w, string) state" where
  "formatAge D created = (case created of
     None \<Rightarrow> ret ''unknown''
   | Some t \<Rightarrow> do { now \<leftarrow> deNow D; ret (age_text (time_Sub now t)) })"

definition nodeToInfo :: "('w, 'x) dash_env_scheme \<Rightarrow> time option \<times> ChainInstance \<Rightarrow> ('w, NodeInfo) state" where
  "nodeToInfo D item = (let (created, n) = item; spec = ciSpec n; status = ciStatus n in do {
     age \<leftarrow> formatAge D created;
     ret \<lparr>niName = mName (ciMeta n), niNamespace = mNamespace (ciMeta n), niChain = spChain spec,
          niNetwork = spNetwork spec, niNodeType = spNodeType spec,
          niPhase = NodePhase_String (csPhase status), niBlockHeight = csBlockHeight status,
          niSyncProgress = csSyncProgress status, niSyncETA = csSyncETA status, niPeersCount = csPeersCount status,
          niReady = IsReady status, niAge = age, niClient = spClient spec,
          niReplicas = (case spReplicas spec of Some r \<Rightarrow> r | None \<Rightarrow> 1)\<rparr> })"

fun nodeInfos :: "('w, 'x) dash_env_scheme \<Rightarrow> (time option \<times> ChainInstance) list \<Rightarrow> ('w, NodeInfo list) state" where
  "nodeInfos D [] = ret []"
| "nodeInfos D (item # items) = do { n \<leftarrow> nodeToInfo D item; ns \<leftarrow> nodeInfos D items; ret (n # ns) }"

definition zero_summary :: Summary where
  "zero_summary = \<lparr>suTotal = 0, suHealthy = 0, suSyncing = 0, suDegraded = 0, suFailed = 0, suPending = 0\<rparr>"

definition count_node :: "Summary \<Rightarrow> NodeInfo \<Rightarrow> Summary" where
  "count_node s n =
     (if niPhase n = NodePhase_String NodePhaseHealthy then s\<lparr>suHealthy := suHealthy s + 1\<rparr>
      else if niPhase n = NodePhase_String NodePhaseSyncing then s\<lparr>suSyncing := suSyncing s + 1\<rparr>
      else if niPhase n = NodePhase_String NodePhaseDegraded then s\<lparr>suDegraded := suDegraded s + 1\<rparr>
      else if niPhase n = NodePhase_String NodePhaseFailed then s\<lparr>suFailed := suFailed s + 1\<rparr>
      else s\<lparr>suPending := suPending s + 1\<rparr>)"

definition buildSummary :: "NodeInfo list \<Rightarrow> Summary" where
  "buildSummary nodes =
     foldl count_node (zero_summary\<lparr>suTotal := length nodes\<rparr>) nodes"

definition refreshCache :: "('w, 'x) dash_env_scheme \<Rightarrow> Server \<Rightarrow> ('w, Server) state" where
  "refreshCache D s = do {
     items \<leftarrow> deList D (srNamespace s);
     case items of
       Inl err \<Rightarrow> ret (s\<lparr>srMetrics := (srMetrics s)\<lparr>dmScrapeErrors := f_add (dmScrapeErrors (srMetrics s)) (Fin 1)\<rparr>\<rparr>)
     | Inr items \<Rightarrow> do {
         nodes \<leftarrow> nodeInfos D items;
         fetched \<leftarrow> deNow D;
         now \<leftarrow> deNow D;
         ret (s\<lparr>srMetrics := (update_metrics nodes (srMetrics s))\<lparr>dmLastScrapeTime := Fin (rat_of_int now / 1000000000)\<rparr>,
                srCache := Some \<lparr>nlNodes = nodes, nlSummary = buildSummary nodes, nlFetchedAt = fetched\<rparr>\<rparr>) } }"

text \<open>\<open>Start\<close> until the context ends, after the first fill and the given number of ticks.\<close>

primrec Start :: "('w, 'x) dash_env_scheme \<Rightarrow> nat \<Rightarrow> Server \<Rightarrow> ('w, Server) state" where
  "Start D 0 s = refreshCache D s"
| "Start D (Suc ticks) s = do { s \<leftarrow> Start D ticks s; refreshCache D s }"

datatype http_response =
    TextResponse int string
  | ListResponse NodeListResponse
  | NodeResponse NodeInfo
  | MetricsPage dashboardMetrics
  | StaticFile string

definition http_Error :: "int \<Rightarrow> string \<Rightarrow> http_response" where
  "http_Error code msg = TextResponse code (msg @ [CHR 0x0A])"

definition handleHealthz :: http_response where
  "handleHealthz = TextResponse 200 ''ok''"

definition handleNodeList :: "('w, 'x) dash_env_scheme \<Rightarrow> Server \<Rightarrow> ('w, http_response) state" where
  "handleNodeList D s = (case srCache s of
     Some resp \<Rightarrow> ret (ListResponse resp)
   | None \<Rightarrow> do {
       now \<leftarrow> deNow D;
       ret (ListResponse \<lparr>nlNodes = [], nlSummary = zero_summary, nlFetchedAt = now\<rparr>) })"

definition handleNodeDetail :: "Server \<Rightarrow> string \<Rightarrow> http_response" where
  "handleNodeDetail s urlPath = (case Registry.Cut (TrimPrefix urlPath ''/api/nodes/'') (CHR ''/'') of
     None \<Rightarrow> http_Error 400 ''expected /api/nodes/{namespace}/{name}''
   | Some (ns, name) \<Rightarrow>
       (case (case srCache s of Some resp \<Rightarrow> find (\<lambda>n. niNamespace n = ns \<and> niName n = name) (nlNodes resp) | None \<Rightarrow> None) of
          Some n \<Rightarrow> NodeResponse n
        | None \<Rightarrow> http_Error 404 (''node '' @ ns @ ''/'' @ name @ '' not found'')))"

text \<open>The routes, for a path without empty or dot elements.\<close>

definition Handler :: "('w, 'x) dash_env_scheme \<Rightarrow> Server \<Rightarrow> string \<Rightarrow> ('w, http_response) state" where
  "Handler D s urlPath =
     (if urlPath = ''/healthz'' then ret handleHealthz
      else if urlPath = ''/metrics'' then ret (MetricsPage (srMetrics s))
      else if HasPrefix urlPath ''/api/nodes/'' then ret (handleNodeDetail s urlPath)
      else if urlPath = ''/api/nodes'' then handleNodeList D s
      else ret (StaticFile urlPath))"

subsection \<open>The phase gauge\<close>

lemma phase_labels_inj: "phase_labels node p = phase_labels node q \<longleftrightarrow> NodePhase_String p = NodePhase_String q"
  by (simp add: phase_labels_def)

text \<open>Setting a series for every element of a list, each with its own labels.\<close>

lemma gauge_fill:
  "map_of (foldl (\<lambda>g x. gauge_Set (l x) (v x) g) g xs) k =
   (case find (\<lambda>x. l x = k) (rev xs) of Some x \<Rightarrow> Some (v x) | None \<Rightarrow> map_of g k)"
  by (induction xs rule: rev_induct) (auto simp: gauge_Set_def update_conv split: option.splits)

lemma gauge_fill_keys: "fst ` set (foldl (\<lambda>g x. gauge_Set (l x) (v x) g) g xs) = fst ` set g \<union> l ` set xs"
  by (induction xs rule: rev_induct) (auto simp: gauge_Set_def dom_update)

lemma phase_series:
  "map_of (omNodePhase (RecordPhase node phase M)) k =
   (case find (\<lambda>p. phase_labels node p = k) (rev nodePhases) of Some p \<Rightarrow> Some (Fin (if p = phase then 1 else 0)) | None \<Rightarrow> map_of (omNodePhase M) k)"
  by (simp add: RecordPhase_def gauge_fill)

lemma phase_gauge:
  assumes "q \<in> set nodePhases"
  shows "map_of (omNodePhase (RecordPhase node phase M)) (phase_labels node q) = Some (Fin (if q = phase then 1 else 0))"
proof -
  have "find (\<lambda>p. NodePhase_String p = NodePhase_String q) (rev nodePhases) = Some q"
    by (cases q) (use assms in \<open>simp_all add: nodePhases_def\<close>)
  then show ?thesis by (simp add: phase_series phase_labels_inj)
qed

lemma phase_gauge_frame:
  "node_labels other \<noteq> node_labels node \<Longrightarrow>
   map_of (omNodePhase (RecordPhase node phase M)) (phase_labels other q) = map_of (omNodePhase M) (phase_labels other q)"
proof -
  assume "node_labels other \<noteq> node_labels node"
  then have "phase_labels node p \<noteq> phase_labels other q" for p by (simp add: phase_labels_def)
  then have "find (\<lambda>p. phase_labels node p = phase_labels other q) (rev nodePhases) = None" by (simp add: find_None_iff)
  then show ?thesis by (simp add: phase_series)
qed

text \<open>
  The phase gauge of a node shows the phase recorded for it last. After any sequence of
  recordings, for nodes told apart by chain, network and name, a node that was recorded has
  exactly one of the five series at 1, that of its last phase, and the others at 0.
\<close>

theorem phase_gauge_last:
  assumes "node \<in> fst ` set calls" "\<forall>(n, p) \<in> set calls. p \<in> set nodePhases"
  shows "\<exists>last. find (\<lambda>(n, p). node_labels n = node_labels node) (rev calls) = Some last \<and>
    (\<forall>q \<in> set nodePhases. map_of (omNodePhase (foldl (\<lambda>M (n, p). RecordPhase n p M) M calls)) (phase_labels node q) =
       Some (Fin (if q = snd last then 1 else 0)))"
  using assms
proof (induction calls rule: rev_induct)
  case (snoc c calls)
  obtain n p where c: "c = (n, p)" by (cases c)
  show ?case
  proof (cases "node_labels n = node_labels node")
    case True
    then have "phase_labels node q = phase_labels n q" for q by (simp add: phase_labels_def)
    with True show ?thesis by (simp add: c phase_gauge)
  next
    case False
    then have "node \<in> fst ` set calls" using snoc.prems(1) by (auto simp: c)
    with snoc False show ?thesis by (auto simp: c phase_gauge_frame)
  qed
qed simp

definition noMetrics :: operatorMetrics where
  "noMetrics = \<lparr>omBlockHeight = [], omSyncProgress = [], omPeersCount = [], omNodePhase = [], omNodeRestarts = [], omDegradedDuration = []\<rparr>"

text \<open>A node that was degraded and recovered.\<close>

theorem phase_gauge_last_witness:
  "map_of (omNodePhase (RecordPhase zero_node NodePhaseHealthy (RecordPhase zero_node NodePhaseDegraded noMetrics)))
     (phase_labels zero_node NodePhaseDegraded) = Some (Fin 0)"
  using phase_gauge_last [of zero_node "[(zero_node, NodePhaseDegraded), (zero_node, NodePhaseHealthy)]" noMetrics]
  by (simp add: nodePhases_def)

subsection \<open>What the dashboard shows\<close>

definition phase_nodes :: "NodeInfo list \<Rightarrow> string \<Rightarrow> nat" where
  "phase_nodes nodes p = length (filter (\<lambda>n. shown_phase n = p) nodes)"

lemma phase_counts_snoc:
  "phase_counts (nodes @ [n]) = AList.update (shown_phase n)
     (case map_of (phase_counts nodes) (shown_phase n) of Some v \<Rightarrow> f_add v (Fin 1) | None \<Rightarrow> Fin 1) (phase_counts nodes)"
  by (simp add: phase_counts_def)

lemma phase_counts_count:
  "map_of (phase_counts nodes) p = (if phase_nodes nodes p = 0 then None else Some (Fin (rat_of_nat (phase_nodes nodes p))))"
proof (induction nodes rule: rev_induct)
  case (snoc n nodes)
  have "phase_nodes (nodes @ [n]) p = phase_nodes nodes p + (if shown_phase n = p then 1 else 0)" by (simp add: phase_nodes_def)
  with snoc show ?case by (auto simp: phase_counts_snoc update_conv)
qed (simp add: phase_counts_def phase_nodes_def)

lemma phase_counts_distinct: "distinct (map fst (phase_counts nodes))"
  by (induction nodes rule: rev_induct) (simp_all add: phase_counts_snoc distinct_update, simp add: phase_counts_def)

lemma gauge_of_counts:
  "distinct (map fst ps) \<Longrightarrow>
   map_of (foldl (\<lambda>g (phase, count). gauge_Set [(''phase'', phase)] count g) [] ps) [(''phase'', p)] = map_of ps p"
proof (induction ps rule: rev_induct)
  case (snoc e ps)
  then have "map_of ps (fst e) = None" by (simp add: map_of_eq_None_iff)
  with snoc show ?case by (cases e) (auto simp: gauge_Set_def update_conv map_add_def split: option.splits)
qed simp

lemma summary_counts:
  "suHealthy (buildSummary nodes) = phase_nodes nodes ''Healthy'' \<and> suSyncing (buildSummary nodes) = phase_nodes nodes ''Syncing'' \<and>
   suDegraded (buildSummary nodes) = phase_nodes nodes ''Degraded'' \<and> suFailed (buildSummary nodes) = phase_nodes nodes ''Failed'' \<and>
   suTotal (buildSummary nodes) = length nodes \<and>
   suHealthy (buildSummary nodes) + suSyncing (buildSummary nodes) + suDegraded (buildSummary nodes) + suFailed (buildSummary nodes) +
     suPending (buildSummary nodes) = length nodes"
proof -
  have "suHealthy (foldl count_node s nodes) = suHealthy s + phase_nodes nodes ''Healthy'' \<and>
    suSyncing (foldl count_node s nodes) = suSyncing s + phase_nodes nodes ''Syncing'' \<and>
    suDegraded (foldl count_node s nodes) = suDegraded s + phase_nodes nodes ''Degraded'' \<and>
    suFailed (foldl count_node s nodes) = suFailed s + phase_nodes nodes ''Failed'' \<and> suTotal (foldl count_node s nodes) = suTotal s \<and>
    suPending (foldl count_node s nodes) = suPending s + length (filter (\<lambda>n. shown_phase n \<notin> {''Healthy'', ''Syncing'', ''Degraded'', ''Failed''}) nodes)" for s
    by (induction nodes arbitrary: s) (simp_all add: phase_nodes_def count_node_def shown_phase_def)
  note counts = this [of "zero_summary\<lparr>suTotal := length nodes\<rparr>"]
  have "phase_nodes nodes ''Healthy'' + phase_nodes nodes ''Syncing'' + phase_nodes nodes ''Degraded'' + phase_nodes nodes ''Failed'' +
      length (filter (\<lambda>n. shown_phase n \<notin> {''Healthy'', ''Syncing'', ''Degraded'', ''Failed''}) nodes) = length nodes"
    by (induction nodes) (auto simp: phase_nodes_def)
  with counts show ?thesis by (simp add: buildSummary_def zero_summary_def)
qed

text \<open>
  A vector with one series for every node in the list and no other, with the value \<open>f\<close> of the node;
  the later one counts when two nodes have the same labels.
\<close>

definition node_series :: "NodeInfo list \<Rightarrow> (NodeInfo \<Rightarrow> f64) \<Rightarrow> strmap \<Rightarrow> f64 option" where
  "node_series nodes f labels = map_option f (find (\<lambda>n. info_labels n = labels) (rev nodes))"

lemma node_series_fill: "map_of (foldl (\<lambda>g n. gauge_Set (info_labels n) (f n) g) [] nodes) = node_series nodes f"
  by (rule ext) (simp add: node_series_def gauge_fill split: option.splits)

lemma node_series_dom: "dom (node_series nodes f) = info_labels ` set nodes"
  by (auto simp: node_series_def dom_def find_None_iff image_iff simp flip: not_None_eq)

text \<open>A vector with one series for every phase that a node is in and no other, with the number of those nodes.\<close>

definition phase_total :: "NodeInfo list \<Rightarrow> strmap \<Rightarrow> f64 option" where
  "phase_total nodes labels = (case labels of
     [(k, p)] \<Rightarrow> if k = ''phase'' \<and> phase_nodes nodes p \<noteq> 0 then Some (Fin (rat_of_nat (phase_nodes nodes p))) else None
   | _ \<Rightarrow> None)"

lemma gauge_keys:
  "fst ` set (foldl (\<lambda>g (phase, count). gauge_Set [(''phase'', phase)] count g) [] ps) = (\<lambda>p. [(''phase'', fst p)]) ` set ps"
  using gauge_fill_keys [of "\<lambda>p. [(''phase'', fst p)]" snd "[]" ps] by (simp add: case_prod_unfold)

lemma phase_total_fill:
  "map_of (foldl (\<lambda>g (phase, count). gauge_Set [(''phase'', phase)] count g) [] (phase_counts nodes)) = phase_total nodes" (is "map_of ?g = _")
proof
  fix labels
  show "map_of ?g labels = phase_total nodes labels"
  proof (cases "\<exists>p. labels = [(''phase'', p)]")
    case True
    then show ?thesis by (auto simp: gauge_of_counts [OF phase_counts_distinct] phase_counts_count phase_total_def)
  next
    case False
    then have "labels \<notin> fst ` set ?g" unfolding gauge_keys by auto
    then have "map_of ?g labels = None" by (simp add: map_of_eq_None_iff)
    with False show ?thesis by (auto simp: phase_total_def split: list.split)
  qed
qed

text \<open>The gauges of a server agree with the list of nodes.\<close>

definition shows_nodes :: "NodeInfo list \<Rightarrow> dashboardMetrics \<Rightarrow> bool" where
  "shows_nodes nodes m \<longleftrightarrow> map_of (dmNodesTotal m) = phase_total nodes \<and>
     map_of (dmBlockHeight m) = node_series nodes (\<lambda>n. f_of_int (niBlockHeight n)) \<and>
     map_of (dmPeersTotal m) = node_series nodes (\<lambda>n. f_of_int (niPeersCount n)) \<and>
     map_of (dmSyncProgress m) = node_series nodes (\<lambda>n. parseSyncPercent (niSyncProgress n))"

lemma update_shows: "shows_nodes nodes (update_metrics nodes m)"
  by (simp add: shows_nodes_def update_metrics_def phase_total_fill node_series_fill)

lemma no_nodes: "shows_nodes [] m \<longleftrightarrow> dmNodesTotal m = [] \<and> dmBlockHeight m = [] \<and> dmPeersTotal m = [] \<and> dmSyncProgress m = []"
proof -
  have "phase_total [] = Map.empty" "node_series [] f = Map.empty" for f
    by (auto simp: phase_total_def node_series_def phase_nodes_def split: list.split)
  then show ?thesis by (simp add: shows_nodes_def)
qed

definition dash_ok :: "Server \<Rightarrow> bool" where
  "dash_ok s = (case srCache s of
     None \<Rightarrow> shows_nodes [] (srMetrics s)
   | Some r \<Rightarrow> nlSummary r = buildSummary (nlNodes r) \<and> shows_nodes (nlNodes r) (srMetrics s))"

lemma refresh_ok:
  assumes "dash_ok s"
  shows "wp (refreshCache D s) (\<lambda>s' _. dash_ok s' \<and> (srCache s \<noteq> None \<longrightarrow> srCache s' \<noteq> None)) w"
proof -
  have shown: "shows_nodes ns (m\<lparr>dmScrapeErrors := e\<rparr>) = shows_nodes ns m" "shows_nodes ns (m\<lparr>dmLastScrapeTime := e\<rparr>) = shows_nodes ns m" for ns m e
    by (simp_all add: shows_nodes_def)
  show ?thesis
    unfolding refreshCache_def wp_bind
  proof (rule wp_any)
    fix items w'
    show "wp (case items of Inl err \<Rightarrow> ret (s\<lparr>srMetrics := (srMetrics s)\<lparr>dmScrapeErrors := f_add (dmScrapeErrors (srMetrics s)) (Fin 1)\<rparr>\<rparr>)
       | Inr items \<Rightarrow> do {
         nodes \<leftarrow> nodeInfos D items;
         fetched \<leftarrow> deNow D;
         now \<leftarrow> deNow D;
         ret (s\<lparr>srMetrics := (update_metrics nodes (srMetrics s))\<lparr>dmLastScrapeTime := Fin (rat_of_int now / 1000000000)\<rparr>,
                srCache := Some \<lparr>nlNodes = nodes, nlSummary = buildSummary nodes, nlFetchedAt = fetched\<rparr>\<rparr>) })
      (\<lambda>s' _. dash_ok s' \<and> (srCache s \<noteq> None \<longrightarrow> srCache s' \<noteq> None)) w'"
      using assms update_shows by (cases items) (simp_all add: dash_ok_def shown wp_any split: option.splits)
  qed
qed

text \<open>
  C35: The list, the summary and the gauges of the dashboard tell the same story, however often
  it was refreshed and whichever listings failed. The summary counts the cached nodes by phase, the
  ones in none of the four named phases as pending, and its five counts add up to their number. The
  phase gauge has a series exactly for the phases that cached nodes are in, with their numbers.
  The gauges of block height, peers and sync progress have a series exactly for the cached nodes,
  with the value the list shows, so a deleted node leaves none.
\<close>

theorem dashboard_coherent:
  "wp (Start D ticks (New namespace)) (\<lambda>s _.
     (let nodes = (case srCache s of Some r \<Rightarrow> nlNodes r | None \<Rightarrow> []); m = srMetrics s;
          sum = (case srCache s of Some r \<Rightarrow> nlSummary r | None \<Rightarrow> zero_summary) in
      suTotal sum = length nodes \<and>
      suHealthy sum + suSyncing sum + suDegraded sum + suFailed sum + suPending sum = suTotal sum \<and>
      suHealthy sum = phase_nodes nodes ''Healthy'' \<and> suSyncing sum = phase_nodes nodes ''Syncing'' \<and>
      suDegraded sum = phase_nodes nodes ''Degraded'' \<and> suFailed sum = phase_nodes nodes ''Failed'' \<and>
      map_of (dmNodesTotal m) = phase_total nodes \<and>
      map_of (dmBlockHeight m) = node_series nodes (\<lambda>n. f_of_int (niBlockHeight n)) \<and>
      map_of (dmPeersTotal m) = node_series nodes (\<lambda>n. f_of_int (niPeersCount n)) \<and>
      map_of (dmSyncProgress m) = node_series nodes (\<lambda>n. parseSyncPercent (niSyncProgress n)) \<and>
      dom (map_of (dmBlockHeight m)) = info_labels ` set nodes \<and> dom (map_of (dmPeersTotal m)) = info_labels ` set nodes \<and>
      dom (map_of (dmSyncProgress m)) = info_labels ` set nodes)) w" (is "wp _ ?shown w")
proof -
  have "wp (Start D ticks (New namespace)) (\<lambda>s _. dash_ok s) w"
  proof (induction ticks)
    case 0
    have "dash_ok (New namespace)" by (simp add: dash_ok_def New_def newMetrics_def no_nodes)
    then show ?case by (auto intro: wp_mono [OF refresh_ok])
  next
    case (Suc ticks)
    then show ?case by (auto intro!: wp_mono [OF Suc] wp_mono [OF refresh_ok])
  qed
  then show ?thesis
  proof (rule wp_mono)
    fix s w'
    assume "dash_ok s"
    then show "?shown s w'"
      using summary_counts [of "case srCache s of Some r \<Rightarrow> nlNodes r | None \<Rightarrow> []"]
      by (cases "srCache s") (simp_all add: dash_ok_def Let_def shows_nodes_def node_series_dom zero_summary_def phase_nodes_def)
  qed
qed

text \<open>A cached node is found under its own path, when its namespace has no slash.\<close>

lemma node_detail:
  assumes "srCache s = Some r" "n \<in> set (nlNodes r)" "CHR ''/'' \<notin> set (niNamespace n)"
  shows "\<exists>n'. handleNodeDetail s (''/api/nodes/'' @ niNamespace n @ ''/'' @ niName n) = NodeResponse n' \<and>
    niNamespace n' = niNamespace n \<and> niName n' = niName n"
proof -
  have cut: "Registry.Cut (niNamespace n @ ''/'' @ niName n) (CHR ''/'') = Some (niNamespace n, niName n)"
    using assms(3) by (simp add: Cut_def takeWhile_append dropWhile_append)
  obtain n' where "find (\<lambda>m. niNamespace m = niNamespace n \<and> niName m = niName n) (nlNodes r) = Some n'"
    using assms(2) by (metis (mono_tags, lifting) find_None_iff option.exhaust)
  moreover from this have "niNamespace n' = niNamespace n \<and> niName n' = niName n" by (auto simp: find_Some_iff)
  ultimately show ?thesis using cut assms(1) by (simp add: handleNodeDetail_def TrimPrefix_def)
qed

end
