(* ===== verification/Spec2Isabelle.thy ===== *)
theory Spec2Isabelle
  imports Webhook Node_Health Chain_Identity Reconcile Catalog Adapter_Status Adapter_Config Smoke_Safety Version_Check Dashboard
begin

text \<open>
  A verification library for chainplane, a Kubernetes operator that runs blockchain nodes. All
  paths are relative to \<open>src/\<close>.

  \<^bold>\<open>The program.\<close> A user declares a \<open>ChainInstance\<close>. The admission webhook
  (\<open>api/v1alpha2/chaininstance_webhook.go\<close>) accepts or rejects it. The ChainInstance controller
  (\<open>internal/controller\<close>) turns an accepted one into a StatefulSet, a Service, a ConfigMap, a
  credentials Secret and a PodMonitor, drives rolling upgrades, and refreshes the status from
  the RPC endpoint of the node; everything chain-specific it asks of an adapter
  (\<open>internal/adapters\<close>). The node health controller reads metrics through \<open>internal/health\<close>
  and, when they call for it, replaces the pod of a node in a blue/green workflow whose state is
  kept in annotations. The catalog controller polls container registries
  (\<open>internal/registry\<close>) for new versions. The dashboard (\<open>internal/dashboard\<close>) shows the fleet.
  Two tools serve the maintainers: \<open>cmd/versioncheck\<close> moves the default images to new releases,
  and \<open>cmd/chainsmoke\<close> starts the pod of every chain on a local docker and judges its logs.

  \<^bold>\<open>How it is modelled.\<close> Go values are HOL values: a struct is a record, a string its list of
  bytes, a \<open>map[string]string\<close> an association list, an \<open>int64\<close> an \<open>int\<close> with \<open>wrap64\<close> written
  where the code can overflow, a \<open>float64\<close> an exact rational with the IEEE special values, an
  instant its nanoseconds since the epoch. An error is a value of \<open>goerr\<close>, a fallible result
  \<open>goerr + 'a\<close> and a panic a value of \<open>outcome\<close>. A function with effects is a state
  transformer \<open>('w, 'a) state\<close> over an arbitrary world \<open>'w\<close>; the API server, HTTP, the clock,
  the random source and the packages outside the repository are records of operations passed as
  arguments, so that what is proved without a hypothesis on them holds for every behaviour,
  failures and lies included. What a theorem does need of them is a locale, interpreted on an
  in-memory server: \<open>kube_api\<close> and \<open>mem_kube\<close>, \<open>sts_api\<close>, \<open>node_api\<close> and \<open>pass_api\<close> on
  \<open>sts_server mem_ctl\<close>, \<open>instance_world\<close> on \<open>mem_ctl\<close>, \<open>semver_order\<close> on an implementation of
  the SemVer precedence, \<open>docker_host\<close> and \<open>docker_cli\<close> on the docker hosts \<open>mem_docker\<close> and
  \<open>mem_smoke\<close> (\<open>pod_host\<close> holds of every \<open>docker_cli\<close> whose removal commands are tallied),
  \<open>smoke_clock\<close> on a clock that advances with the waits. Programs are reasoned about with the
  weakest precondition \<open>wp\<close> of theory \<open>Go_Prelude\<close>; \<open>unchanged V m\<close> says that \<open>m\<close> leaves the
  part \<open>V\<close> of the world alone.

  \<^bold>\<open>The theories.\<close>

  \<^item> \<open>Go_Prelude\<close>, \<open>Go_Float\<close>, \<open>Go_Time\<close>, \<open>Go_Json\<close>: errors, maps, strings and numbers as text,
    \<open>wp\<close>; floats and their printing and parsing; durations, RFC 3339 instants with their round
    trip; decoding of JSON trees into Go types.
  \<^item> \<open>K8s_Types\<close>, \<open>Api_Types\<close>: the Kubernetes objects used, and
    \<open>api/v1alpha2/chaininstance_types.go\<close> and \<open>chainversioncatalog_types.go\<close>.
  \<^item> \<open>Webhook\<close>: \<open>chaininstance_webhook.go\<close>. What is admitted, and that identity and validity
    survive every history of admitted updates.
  \<^item> \<open>Health_Trigger\<close>, \<open>Health_Metric\<close>, \<open>Health_Evaluator\<close>: \<open>internal/health/trigger.go\<close>,
    \<open>chain.go\<close>, \<open>metric.go\<close>, \<open>evaluator.go\<close>. Retry behaviour and bounds of the Prometheus
    client; a trigger fires only on evidence, panics of the queries included.
  \<^item> \<open>Kube\<close>, \<open>Traffic\<close>, \<open>Replacement\<close>, \<open>Node_Health\<close>: the client interface, \<open>traffic.go\<close>,
    \<open>replacement.go\<close> and \<open>controller/nodehealth_controller.go\<close>. Functional behaviour of each
    step of a replacement, nothing is deleted before traffic moved when there is a drainer, and
    every reconciliation follows the phase machine \<open>phase_step\<close>.
  \<^item> \<open>Rpc\<close>, \<open>Chain_Identity\<close>, \<open>Adapter\<close>, \<open>Default_Images\<close>: \<open>internal/adapters/rpc.go\<close>,
    \<open>evm.go\<close>, \<open>utxo_protocol_base.go\<close>, \<open>chain_identity.go\<close>, \<open>interface.go\<close>,
    \<open>protocol_base.go\<close>, \<open>versions_gen.go\<close>. Parsing, progress, credentials, identity tables.
  \<^item> \<open>Controller_Helpers\<close>, \<open>Chain_Tip\<close>, \<open>Reconcile_Health\<close>, \<open>Auto_Restart\<close>:
    \<open>controller/helpers.go\<close>, \<open>chain_tip.go\<close>, \<open>reconcile_health.go\<close>. The status written is
    coherent whatever the environment does, and a pod is restarted only when overdue.
  \<^item> \<open>Snapshot\<close>, \<open>Workload\<close>, \<open>Upgrade\<close>, \<open>Reconcile\<close>: \<open>internal/snapshot/snapshot.go\<close>,
    \<open>controller/reconcile_*.go\<close>, \<open>upgrade.go\<close>, \<open>blockchainnode_controller.go\<close>. The StatefulSet
    converges, a complete pass leaves the resolved image running, an unmanaged node is left
    alone, and a rollback does not outlive the next pass.
  \<^item> \<open>Registry\<close>, \<open>Catalog\<close>: \<open>internal/registry\<close> and
    \<open>controller/chainversioncatalog_controller.go\<close>. Newest version, bounded crawling, what the
    catalog reports.
  \<^item> \<open>Adapter_Contract\<close>, \<open>Op_Reth\<close>: what pods and Services need of an adapter, as the locales
    \<open>service_adapter\<close> and \<open>pod_adapter\<close>, and the OP Stack adapters of
    \<open>op_reth_protocol_base.go\<close>, \<open>base_chain.go\<close> and twelve chain files, which satisfy them. Their
    two clients fit together in every rendered pod unless its extra arguments move the engine API.
  \<^item> \<open>Adapter_Base\<close>, \<open>Adapter_Http\<close>, \<open>Go_Marshal\<close>: what the other adapters share: the method set of
    a type that embeds \<open>protocolAdapter\<close>, URLs, metrics pages and requests, and
    \<open>json.MarshalIndent\<close>.
  \<^item> \<open>Evm_Adapters1\<close>, \<open>Evm_Adapters2\<close>, \<open>Evm_Adapters3\<close> (EVM chains with a client of their own),
    \<open>Nitro\<close>, \<open>Zk_Stack\<close>, \<open>Ethereum_Adapter\<close> (Ethereum, Gnosis, Fuse, BSC and the beacon nodes),
    \<open>Cosmos\<close>, \<open>Utxo_Adapters\<close>, \<open>Native_Adapters1\<close>, \<open>Native_Adapters2\<close>, \<open>Native_Adapters3\<close> (chains
    with a health check of their own): the remaining files of \<open>internal/adapters\<close>, one
    definition per method, function, constant and template.
  \<^item> \<open>Adapter_Registry\<close>: what the \<open>init\<close> functions register, and for all 102 chains whether the
    Service is valid, the liveness probe is served and the default RPC port exists.
  \<^item> \<open>Adapter_Status\<close>: what the health checks of all chains can report. \<open>Adapter_Config\<close>: settings
    that are written in two forms agree.
  \<^item> \<open>Smoke_Images\<close>, \<open>Smoke_Check\<close>, \<open>Smoke_Targets\<close>, \<open>Smoke_Plan\<close>, \<open>Smoke_Run\<close>, \<open>Smoke_Safety\<close>:
    \<open>cmd/chainsmoke\<close>: the images workers share (\<open>docker.go\<close>), log verdicts and identity checks
    (\<open>logmatch.go\<close>, \<open>identity.go\<close>), selection and report (\<open>targets.go\<close>, \<open>report.go\<close>,
    \<open>level0.go\<close>), the plan of a pod (\<open>dockerrun.go\<close>), running it (\<open>level1.go\<close>, \<open>samples.go\<close>,
    \<open>main.go\<close>). An image in use is never removed in any interleaving, a run that passes ran the
    right chain, and no run leaves a named container or volume behind unless its last removal
    command reports an error.
  \<^item> \<open>Version_Check\<close>: \<open>cmd/versioncheck/main.go\<close>. The generated table is read back as written, and
    major bumps are held back.
  \<^item> \<open>Dashboard\<close>: \<open>internal/dashboard\<close> and \<open>internal/metrics\<close>. List, summary and gauges agree, and
    the phase gauge shows the phase recorded last.
  \<^item> this theory: the webhook accepts the registered chains, and what it admits the reconciler
    can run.

  \<^bold>\<open>Bounds and fuel.\<close> Loops with a counter in the source recurse on what is left of it: the
  retries of \<open>prom_get\<close> and \<open>callRPCWithRetry\<close>, the page and attempt loops of the registry
  clients. The drain loop of \<open>Traffic\<close> has no counter; \<open>wait_loop\<close> takes fuel, and
  \<open>waitWithProgress_terminates\<close> shows that on a clock that advances with the waits the fuel
  chosen by \<open>waitWithProgress\<close> is never used up. \<open>durationParts\<close> gets one unit of fuel more than
  the text has characters, and every round consumes one. \<open>ready_loop\<close>, the wait of the smoke test
  for a sidecar, gets 62 rounds, and \<open>waitReady_rounds\<close> shows that its deadline ends it before.

  \<^bold>\<open>Not modelled.\<close> Logging, and the calls of the controllers to the metrics, which the program
  never reads back; manager setup and flag parsing in \<open>cmd/main.go\<close> and \<open>cmd/dashboard\<close>, which
  only wire libraries together; the Python program embedded in \<open>internal/snapshot/snapshot.go\<close>;
  the parsing of Go sources behind \<open>--changed-since\<close> of the smoke test; the encoding of the
  dashboard's responses; generated deep copies, since values are immutable here; the rounding of
  floating point numbers; concurrency inside one reconciliation, of which the program has none,
  and other writers to the cluster, except where a theorem quantifies over every answer of the
  API server. The workers of the two tools run one after the other, except for the images they
  share, whose interleavings are a step relation. A panic of \<open>Healthy\<close>, which the health evaluator
  calls outside its recovery, ends the process and has no value here. The locks around the adapter registry are left
  out: it is filled before the program starts and only read afterwards.
\<close>

section \<open>Admission and reconciliation\<close>

lemma create_admits:
  "admitted (ValidateCreate qs v (ObjChainInstance node)) \<longleftrightarrow> valid_spec (ciSpec node) \<and> has_image v (ciSpec node)"
  using validate_spec_admitted [of qs node] validateImage_None [of v node]
  by (auto simp: ValidateCreate_def admitted_def split: prod.splits sum.splits option.splits)

lemma resolves_image:
  assumes "has_image \<lparr>vDefaultImage = Some DefaultImageFor\<rparr> (ciSpec node)" "reads_table R"
    "Get R (spChain (ciSpec node)) = Some adapter"
  shows "resolveContainerImage node adapter \<noteq> []"
  using assms(1) adapterImage_exists reads_table_Get [OF assms(2,3)]
  by (auto simp: has_image_def resolveContainerImage_def split: option.splits)

lemma supported_registered: "supportedChains chain \<longleftrightarrow> chain \<in> set chainConstants"
  using registry_covers_constants
  by (auto simp: supportedChains_def validationRegistry_def dest: map_of_SomeD)

text \<open>
  C10: The operator has an adapter for every chain the webhook accepts and for no other: each of
  the 102 chains is registered exactly once, so no registration replaces another.
\<close>

theorem webhook_accepts_registered:
  "(supportedChains chain \<longleftrightarrow> Get (adapterRegistry E sha hmac oor) chain \<noteq> None) \<and>
   distinct (map fst (adapterRegistry E sha hmac oor)) \<and> length (adapterRegistry E sha hmac oor) = 102"
proof -
  have "length (map fst (adapterRegistry E sha hmac oor)) = 102" by (simp add: registry_chains opStackChains_def protocolChains_def)
  then have "length (adapterRegistry E sha hmac oor) = 102" by simp
  moreover have "supportedChains chain \<longleftrightarrow> Get (adapterRegistry E sha hmac oor) chain \<noteq> None"
    unfolding supported_registered registry_covers [symmetric] Get_def map_of_eq_None_iff
    by (metis registry_chains image_set)
  moreover have "distinct (map fst (adapterRegistry E sha hmac oor))"
    using distinct_chains by (simp add: registry_chains)
  ultimately show ?thesis by blast
qed

text \<open>
  C7: What the webhook admits the operator can run. With the validator and the registered
  adapters reading the same table of default images, every version of an object that was
  admitted on creation and through any number of updates is managed by the reconciler, as long
  as it carries no legacy finalizer and is not being deleted: its chain has an adapter, and it
  is never failed for want of an image.
\<close>

theorem admitted_is_managed:
  assumes "admitted (ValidateCreate qs \<lparr>vDefaultImage = Some DefaultImageFor\<rparr> (ObjChainInstance node))"
    and "admitted_history qs \<lparr>vDefaultImage = Some DefaultImageFor\<rparr> node updates"
    and "version \<in> set (node # updates)"
    and "FinalizerName \<notin> set (mFinalizers (ciMeta version))" "mDeletionTimestamp (ciMeta version) = None"
  shows "managed (adapterRegistry E sha hmac oor) version"
proof -
  have image: "has_image \<lparr>vDefaultImage = Some DefaultImageFor\<rparr> (ciSpec version)"
    and chain: "spChain (ciSpec version) = spChain (ciSpec node)"
    using assms(1,3) admitted_history_step [OF assms(2), of version] by (auto simp: create_admits)
  have "spChain (ciSpec node) \<in> set chainConstants"
    using assms(1) by (auto simp: create_admits valid_spec_def supported_registered)
  then obtain adapter where adapter: "Get (adapterRegistry E sha hmac oor) (spChain (ciSpec version)) = Some adapter"
    using registry_has_adapter chain by metis
  with assms(4,5) resolves_image [OF image registry_reads_table adapter] show ?thesis by (simp add: managed_def)
qed

text \<open>A Bitcoin node without an image of its own, admitted and updated once.\<close>

theorem admitted_is_managed_witness:
  "\<forall>(E :: unit rpc_env) sha hmac oor. managed (adapterRegistry E sha hmac oor) admitted_node"
proof (intro allI)
  fix E :: "unit rpc_env" and sha hmac oor
  let ?v = "\<lparr>vDefaultImage = Some DefaultImageFor\<rparr>"
  have image: "has_image ?v (ciSpec admitted_node)"
  proof -
    have "DefaultImageFor ChainBitcoin [] \<noteq> []" by code_simp
    then show ?thesis by (simp add: has_image_def admitted_node_def zero_spec_def)
  qed
  have created: "admitted (ValidateCreate (\<lambda>_. []) ?v (ObjChainInstance admitted_node))"
    by (simp add: create_admits admitted_node_valid image)
  have updated: "admitted_history (\<lambda>_. []) ?v admitted_node [admitted_node]"
    by (simp add: ValidateUpdate_nodes admitted_node_valid image)
  show "managed (adapterRegistry E sha hmac oor) admitted_node"
    by (rule admitted_is_managed [OF created updated, of admitted_node])
       (simp_all add: admitted_node_def zero_node_def zero_meta_def)
qed

end
